(* ===== verification/Wall_Prelude.thy ===== *)
theory Wall_Prelude
  imports Main "HOL-Library.Word"
begin

text \<open>
  What every component theory shares: names for the machine integers of the firmware, the
  big-endian readers and writers the wire formats use, finite writes into a byte-addressed
  memory, and the collections \<open>wall_simps\<close> (state updates that unfold on sight) and
  \<open>wall_frames\<close> (what an operation leaves alone).
\<close>

unbundle bit_operations_syntax

named_theorems wall_simps
named_theorems wall_frames

type_synonym u8 = "8 word"
type_synonym u16 = "16 word"
type_synonym u32 = "32 word"

subsection \<open>Words that do not wrap\<close>

named_theorems word_nat

lemma unat_of_nat_small [word_nat]: "n < 2 ^ LENGTH('a::len) \<Longrightarrow> unat (of_nat n :: 'a word) = n"
  by (simp add: unat_of_nat)

lemma unat_add_small [word_nat]: "unat (a :: 'a::len word) + unat b < 2 ^ LENGTH('a) \<Longrightarrow> unat (a + b) = unat a + unat b"
  by (simp add: unat_add_lem [THEN iffD1])

lemma unat_Suc_small [word_nat]: "unat (a :: 'a::len word) + 1 < 2 ^ LENGTH('a) \<Longrightarrow> unat (a + 1) = unat a + 1"
  using unat_add_small [of a 1] by (cases "LENGTH('a) = 1") (auto simp: unat_1)

lemma unat_diff_small [word_nat]: "b \<le> a \<Longrightarrow> unat (a - b) = unat a - unat (b :: 'a::len word)"
  by (rule unat_sub)

lemma unat_ucast_up: "LENGTH('a::len) \<le> LENGTH('b::len) \<Longrightarrow> unat (ucast (a :: 'a word) :: 'b word) = unat a"
  by (simp add: unsigned_ucast_eq take_bit_nat_eq_self_iff less_le_trans [OF unsigned_less])

lemma unat_ucast_u16_u32 [simp]: "unat (ucast (a :: u16) :: u32) = unat a"
  by (rule unat_ucast_up) simp

lemma unat_lt_u8: "unat (a :: u8) < 256"
  using unsigned_less [of a, where ?'a = nat] by simp

lemma unat_lt_u16: "unat (a :: u16) < 65536"
  using unsigned_less [of a, where ?'a = nat] by simp

lemma unat_lt_u32: "unat (a :: u32) < 4294967296"
  using unsigned_less [of a, where ?'a = nat] by simp

subsection \<open>Big-endian fields\<close>

definition be16 :: "u8 \<Rightarrow> u8 \<Rightarrow> u16" where
  "be16 hi lo = push_bit 8 (ucast hi) OR ucast lo"

definition hi8 :: "u16 \<Rightarrow> u8" where
  "hi8 w = ucast (drop_bit 8 w)"

definition lo8 :: "u16 \<Rightarrow> u8" where
  "lo8 w = ucast w"

lemma bit_be16: "bit (be16 hi lo) n \<longleftrightarrow> (if n < 8 then bit lo n else n < 16 \<and> bit hi (n - 8))"
  by (auto simp: be16_def bit_simps dest: bit_imp_le_length)

lemma be16_hi_lo [simp]: "be16 (hi8 w) (lo8 w) = w"
  by (rule bit_eqI) (auto simp: bit_be16 hi8_def lo8_def bit_simps)

lemma hi8_be16 [simp]: "hi8 (be16 hi lo) = hi"
  by (rule bit_eqI) (auto simp: bit_be16 hi8_def bit_simps dest: bit_imp_le_length)

lemma lo8_be16 [simp]: "lo8 (be16 hi lo) = lo"
  by (rule bit_eqI) (auto simp: bit_be16 lo8_def bit_simps dest: bit_imp_le_length)

lemma be16_inject: "be16 a b = be16 c d \<longleftrightarrow> a = c \<and> b = d"
  by (metis hi8_be16 lo8_be16)

subsection \<open>Lists of bytes\<close>

text \<open>A C array field of fixed length filled by \<open>memcpy\<close>: the copied bytes, then what was there.\<close>

definition memcpy_list :: "'a list \<Rightarrow> 'a list \<Rightarrow> 'a list" where
  "memcpy_list dst src = src @ drop (length src) dst"

lemma length_memcpy_list [simp]: "length src \<le> length dst \<Longrightarrow> length (memcpy_list dst src) = length dst"
  by (simp add: memcpy_list_def)

lemma take_memcpy_list [simp]: "take (length src) (memcpy_list dst src) = src"
  by (simp add: memcpy_list_def)

text \<open>The C string in a buffer of bytes.\<close>

definition c_string :: "u8 list \<Rightarrow> string" where
  "c_string b = map (\<lambda>c. char_of (unat c)) (takeWhile (\<lambda>c. c \<noteq> 0) b)"

subsection \<open>Byte-addressed memory\<close>

text \<open>\<open>mem_bytes m off n\<close> are the \<open>n\<close> bytes from \<open>off\<close> on.\<close>

definition mem_bytes :: "(nat \<Rightarrow> 'a) \<Rightarrow> nat \<Rightarrow> nat \<Rightarrow> 'a list" where
  "mem_bytes m off n = map m [off..<off + n]"

lemma length_mem_bytes [simp]: "length (mem_bytes m off n) = n"
  by (simp add: mem_bytes_def)

lemma mem_bytes_0 [simp]: "mem_bytes m off 0 = []"
  by (simp add: mem_bytes_def)

lemma mem_bytes_split: "mem_bytes m off (a + b) = mem_bytes m off a @ mem_bytes m (off + a) b"
proof -
  have "[off..<off + (a + b)] = [off..<off + a] @ [off + a..<off + a + b]"
    by (metis add.assoc le_add1 upt_add_eq_append)
  then show ?thesis by (simp add: mem_bytes_def)
qed

lemma nth_mem_bytes [simp]: "i < n \<Longrightarrow> mem_bytes m off n ! i = m (off + i)"
  by (simp add: mem_bytes_def)

lemma mem_bytes_cong: "(\<And>k. off \<le> k \<Longrightarrow> k < off + n \<Longrightarrow> m k = m' k) \<Longrightarrow> mem_bytes m off n = mem_bytes m' off n"
  by (simp add: mem_bytes_def)

lemma mem_bytes_eqI: "length xs = n \<Longrightarrow> (\<And>i. i < n \<Longrightarrow> m (off + i) = xs ! i) \<Longrightarrow> mem_bytes m off n = xs"
  by (rule nth_equalityI) auto

end
