(* ===== verification/Crc16_Ccitt.thy ===== *)
theory Crc16_Ccitt
  imports Wall_Prelude
begin

text \<open>
  The CRC-16/CCITT routine of the firmware. The same function text appears three times in the
  source (Bootloader_Ctrl.c, LittleFs_Controller.c and PC_UART_API.c); it is modelled once.
  The locale \<open>stream_digest\<close> is what its clients rely on: feeding data in pieces is feeding
  it at once, and a digest never forgets a difference.
\<close>

unbundle bit_operations_syntax

subsection \<open>The routine\<close>

text \<open>One turn of the inner loop.\<close>

definition crc_bit :: "u16 \<Rightarrow> u16" where
  "crc_bit crc = (if crc AND 0x8000 \<noteq> 0 then push_bit 1 crc XOR 0x1021 else push_bit 1 crc)"

text \<open>The inner loop, and the outer loop over the \<open>len\<close> bytes of \<open>data\<close>.\<close>

primrec crc_bits :: "nat \<Rightarrow> u16 \<Rightarrow> u16" where
  "crc_bits 0 crc = crc"
| "crc_bits (Suc n) crc = crc_bits n (crc_bit crc)"

definition crc_byte :: "u16 \<Rightarrow> u8 \<Rightarrow> u16" where
  "crc_byte crc d = crc_bits 8 (crc XOR push_bit 8 (ucast d))"

fun u16CRC16_CCITT_Update :: "u16 \<Rightarrow> u8 list \<Rightarrow> u16" where
  "u16CRC16_CCITT_Update crc [] = crc"
| "u16CRC16_CCITT_Update crc (d # ds) = u16CRC16_CCITT_Update (crc_byte crc d) ds"

subsection \<open>What a streamed digest promises\<close>

locale stream_digest =
  fixes upd :: "'s \<Rightarrow> 'b list \<Rightarrow> 's"
  assumes upd_Nil: "upd s [] = s"
    and upd_append: "upd s (xs @ ys) = upd (upd s xs) ys"
    and upd_inject: "upd s xs = upd t xs \<Longrightarrow> s = t"
begin

text \<open>Any way of cutting the data into chunks gives the digest of the whole.\<close>

lemma upd_chunks: "foldl upd s chunks = upd s (concat chunks)"
  by (induction chunks arbitrary: s) (simp_all add: upd_Nil upd_append)

text \<open>A difference in a part of the data survives whatever follows it.\<close>

lemma upd_differs:
  assumes "upd (upd s pre) xs \<noteq> upd (upd s pre) ys"
  shows "upd s (pre @ xs @ post) \<noteq> upd s (pre @ ys @ post)"
  using assms by (auto simp: upd_append dest: upd_inject)

end

subsection \<open>The bit step is linear and loses nothing\<close>

lemma and_top_bit: "(c AND 0x8000 \<noteq> 0) = bit (c :: u16) 15"
proof -
  have "(0x8000 :: u16) = 2 ^ 15" by simp
  then show ?thesis by (simp only: and_exp_eq_0_iff_not_bit not_not)
qed

lemma crc_bit_alt: "crc_bit c = push_bit 1 c XOR (if bit c 15 then 0x1021 else 0)"
  unfolding crc_bit_def and_top_bit by simp

lemma xor_swap4: "(a XOR b) XOR (c XOR d) = (a XOR c) XOR (b XOR (d :: u16))"
  by (simp add: xor.assoc xor.left_commute)

lemma crc_bit_xor: "crc_bit (a XOR b) = crc_bit a XOR crc_bit b"
  unfolding crc_bit_alt push_bit_xor xor_swap4 bit_xor_iff by (simp add: bit_xor_iff)

lemma crc_bit_eq_0:
  assumes c: "crc_bit c = 0"
  shows "c = 0"
proof -
  have bits: "bit (push_bit 1 c XOR (if bit c 15 then 0x1021 else 0)) n = bit (0 :: u16) n" for n
    using c by (simp only: crc_bit_alt)
  have "\<not> bit c 15"
    using bits [of 0] by (auto simp only: bit_xor_iff bit_push_bit_iff) (simp_all add: bit_0)
  then have shifted: "\<not> bit (push_bit 1 c) n" for n using bits [of n] by simp
  show ?thesis
  proof (rule bit_eqI)
    fix n assume "possible_bit TYPE(u16) n"
    then have "n < 16" by simp
    moreover have "n < 15 \<Longrightarrow> \<not> bit c n"
      using shifted [of "Suc n"] by (simp only: bit_push_bit_iff) simp
    ultimately show "bit c n = bit (0 :: u16) n"
      using \<open>\<not> bit c 15\<close> by (cases "n = 15") auto
  qed
qed

lemma xor_left_cancel: "(a :: u16) XOR b = a XOR c \<longleftrightarrow> b = c"
proof
  assume "a XOR b = a XOR c"
  then have "a XOR (a XOR b) = a XOR (a XOR c)" by simp
  then show "b = c" by (simp add: xor.assoc [symmetric])
qed simp

lemma xor_right_cancel: "(b :: u16) XOR a = c XOR a \<longleftrightarrow> b = c"
  by (simp only: xor.commute [of _ a] xor_left_cancel)

lemma crc_bit_inject: "crc_bit a = crc_bit b \<longleftrightarrow> a = b"
proof
  assume "crc_bit a = crc_bit b"
  then have "crc_bit (a XOR b) = 0" by (simp add: crc_bit_xor)
  then have "a XOR b = a XOR a" by (simp add: crc_bit_eq_0)
  then show "a = b" by (simp only: xor_left_cancel)
qed simp

lemma crc_bits_inject: "crc_bits n a = crc_bits n b \<longleftrightarrow> a = b"
  by (induction n arbitrary: a b) (simp_all add: crc_bit_inject)

lemma crc_bits_xor: "crc_bits n (a XOR b) = crc_bits n a XOR crc_bits n b"
  by (induction n arbitrary: a b) (simp_all add: crc_bit_xor)

lemma crc_bits_add: "crc_bits (m + n) c = crc_bits n (crc_bits m c)"
  by (induction m arbitrary: c) simp_all

lemma crc_byte_inject: "crc_byte a d = crc_byte b d \<longleftrightarrow> a = b"
  by (simp add: crc_byte_def crc_bits_inject xor_right_cancel)

lemma crc_append: "u16CRC16_CCITT_Update c (xs @ ys) = u16CRC16_CCITT_Update (u16CRC16_CCITT_Update c xs) ys"
  by (induction c xs rule: u16CRC16_CCITT_Update.induct) simp_all

lemma crc_inject: "u16CRC16_CCITT_Update a xs = u16CRC16_CCITT_Update b xs \<Longrightarrow> a = b"
proof (induction xs arbitrary: a b)
  case (Cons d ds)
  from Cons.prems have "crc_byte a d = crc_byte b d" by (simp add: Cons.IH)
  then show ?case by (simp only: crc_byte_inject)
qed simp

interpretation crc: stream_digest u16CRC16_CCITT_Update
  by unfold_locales (simp_all add: crc_append crc_inject)

subsection \<open>Two bytes at a time\<close>

lemma low_shift_no_feedback: "k + n \<le> 8 \<Longrightarrow> crc_bits n (push_bit k (ucast (y :: u8))) = push_bit (k + n) (ucast y)"
proof (induction n arbitrary: k)
  case (Suc n)
  have "\<not> bit (push_bit k (ucast y) :: u16) 15"
    using Suc.prems by (auto simp: bit_simps dest: bit_imp_le_length)
  then have "crc_bit (push_bit k (ucast y)) = push_bit (Suc k) (ucast y)"
    unfolding crc_bit_alt by (simp only: if_False xor.right_neutral push_bit_push_bit) simp
  with Suc.IH [of "Suc k"] Suc.prems show ?case by simp
qed simp

lemma crc_two_bytes: "u16CRC16_CCITT_Update c [x, y] = crc_bits 16 (c XOR be16 x y)"
proof -
  have disj: "push_bit 8 (ucast x) XOR ucast y = be16 x y"
    unfolding be16_def by (rule bit_eqI) (auto simp: bit_simps dest: bit_imp_le_length)
  have "u16CRC16_CCITT_Update c [x, y]
      = crc_bits 8 (crc_bits 8 (c XOR push_bit 8 (ucast x)) XOR push_bit 8 (ucast y))"
    by (simp add: crc_byte_def)
  also have "\<dots> = crc_bits 8 (crc_bits 8 (c XOR push_bit 8 (ucast x)) XOR crc_bits 8 (ucast y))"
    using low_shift_no_feedback [of 0 8 y] by simp
  also have "\<dots> = crc_bits 16 (c XOR (push_bit 8 (ucast x) XOR ucast y))"
    by (simp only: crc_bits_xor [symmetric] crc_bits_add [symmetric] xor.assoc) simp
  finally show ?thesis by (simp only: disj)
qed

lemma crc_bits_0: "crc_bits n 0 = 0"
  by (induction n) (simp_all add: crc_bit_def)

lemma crc_two_bytes_inject:
  "u16CRC16_CCITT_Update c [x, y] = u16CRC16_CCITT_Update c [x', y'] \<longleftrightarrow> x = x' \<and> y = y'"
  by (simp only: crc_two_bytes crc_bits_inject xor_left_cancel be16_inject)

text \<open>
  Property C10. A corruption confined to two adjacent bytes is always detected: two messages
  that differ there and nowhere else have different CRCs, whatever the initial value and
  however long the message.
\<close>

theorem crc_detects_two_byte_burst:
  assumes "(x, y) \<noteq> (x', y')"
  shows "u16CRC16_CCITT_Update c (pre @ [x, y] @ post) \<noteq> u16CRC16_CCITT_Update c (pre @ [x', y'] @ post)"
  by (rule crc.upd_differs) (use assms in \<open>simp only: crc_two_bytes_inject, simp\<close>)

theorem crc_detects_two_byte_burst_witness:
  "(0x12 :: u8, 0x34 :: u8) \<noteq> (0x12, 0x35) \<and>
   u16CRC16_CCITT_Update 0xFFFF ([0x31] @ [0x12, 0x34] @ [0x39]) \<noteq> u16CRC16_CCITT_Update 0xFFFF ([0x31] @ [0x12, 0x35] @ [0x39])"
proof -
  have h: "(0x12 :: u8, 0x34 :: u8) \<noteq> (0x12, 0x35)" by simp
  show ?thesis using h crc_detects_two_byte_burst [OF h] by blast
qed

text \<open>
  A receiver that runs the CRC on over the two big-endian CRC bytes reads zero
  exactly when these bytes are the CRC of the data: the comparison the frame readers make and
  the residue test are the same test.
\<close>

theorem crc_residue_check:
  "u16CRC16_CCITT_Update c (data @ [h, l]) = 0 \<longleftrightarrow> be16 h l = u16CRC16_CCITT_Update c data"
proof -
  let ?r = "u16CRC16_CCITT_Update c data"
  have "u16CRC16_CCITT_Update c (data @ [h, l]) = crc_bits 16 (?r XOR be16 h l)"
    by (simp only: crc_append crc_two_bytes)
  moreover have "crc_bits 16 (?r XOR ?r) = 0" by (simp add: crc_bits_0)
  ultimately have "u16CRC16_CCITT_Update c (data @ [h, l]) = 0
      \<longleftrightarrow> crc_bits 16 (?r XOR be16 h l) = crc_bits 16 (?r XOR ?r)" by metis
  then show ?thesis by (simp only: crc_bits_inject xor_left_cancel)
qed

end
