(* ===== verification/Comm_Types.thy ===== *)
theory Comm_Types
  imports Wall_Prelude
begin

text \<open>
  The shared data of the CAN side: the platform calls every component makes (the CAN driver's
  submit function and the clock, both outside the repository and therefore fields of the record
  \<open>platform\<close> over an arbitrary world \<open>'w\<close>), the message, transaction and context structures of
  WallController_Comm_Types.h and CAN_ControllerTypes.h, and the transaction slot lookup.
\<close>

subsection \<open>Enumerations\<close>

text \<open>
  \<open>eT_SysMgmtCommand_t\<close> has the shared wire values 0 and 20..24. The code casts received bytes
  to it, so a byte without an enumerator is kept as \<open>eSysMgmt_CMD_Raw\<close>.
\<close>

datatype eT_SysMgmtCommand_t =
    eSysMgmt_CMD_None
  | eSysMgmt_CMD_Reserved_20
  | eSysMgmt_CMD_ACK_NACK
  | eSysMgmt_CMD_Ret_InvalidMsgFormat
  | eSysMgmt_CMD_Undefined
  | eSysMgmt_CMD_Reserved_24
  | eSysMgmt_CMD_Raw u8

definition sysmgmt_cmd_of_byte :: "u8 \<Rightarrow> eT_SysMgmtCommand_t" where
  "sysmgmt_cmd_of_byte b =
     (if b = 0 then eSysMgmt_CMD_None
      else if b = 20 then eSysMgmt_CMD_Reserved_20
      else if b = 21 then eSysMgmt_CMD_ACK_NACK
      else if b = 22 then eSysMgmt_CMD_Ret_InvalidMsgFormat
      else if b = 23 then eSysMgmt_CMD_Undefined
      else if b = 24 then eSysMgmt_CMD_Reserved_24
      else eSysMgmt_CMD_Raw b)"

fun sysmgmt_cmd_val :: "eT_SysMgmtCommand_t \<Rightarrow> u8" where
  "sysmgmt_cmd_val eSysMgmt_CMD_None = 0"
| "sysmgmt_cmd_val eSysMgmt_CMD_Reserved_20 = 20"
| "sysmgmt_cmd_val eSysMgmt_CMD_ACK_NACK = 21"
| "sysmgmt_cmd_val eSysMgmt_CMD_Ret_InvalidMsgFormat = 22"
| "sysmgmt_cmd_val eSysMgmt_CMD_Undefined = 23"
| "sysmgmt_cmd_val eSysMgmt_CMD_Reserved_24 = 24"
| "sysmgmt_cmd_val (eSysMgmt_CMD_Raw b) = b"

lemma sysmgmt_cmd_val_of_byte [simp]: "sysmgmt_cmd_val (sysmgmt_cmd_of_byte b) = b"
  by (simp add: sysmgmt_cmd_of_byte_def)

text \<open>\<open>eNUMBER_OF_SYS_MANAGEMENT_COMMANDs\<close>.\<close>

definition sysmgmt_cmd_count :: u8 where
  "sysmgmt_cmd_count = 25"

datatype eT_SysMgmtErrorCode_t =
    eSysMgmt_Error_None
  | eSysMgmt_Error_InvalidCommand
  | eSysMgmt_Error_InvalidFrameLength
  | eSysMgmt_Error_InvalidPayLoadLength
  | eSysMgmt_Error_PayLoadLengthMismatch
  | eSysMgmt_Error_PayLoadLength_NotDefined
  | eSysMgmt_Error_InvalidTranscId
  | eSysMgmt_Error_InvalidPointer
  | eSysMgmt_Error_NoPendingTransaction
  | eSysMgmt_Error_InvalidACKType
  | eSysMgmt_Error_NoWaitForACK
  | eSysMgmt_Error_InvalidRev_ForACK
  | eSysMgmt_Error_InvalidHostFeedback
  | eSysMgmt_Error_Inconsistent_ACKError
  | eSysMgmt_Error_NoFreeTransaction
  | eSysMgmt_Error_TransactionStateWrtie
  | eSysMgmt_Error_TransactionMaxRetryReach
  | eSysMgmt_Error_InvalidCANTxMessage
  | eSysMgmt_Error_TransactionLocked
  | eSysMgmt_Error_InvalidRetransmitRequest
  | eSysMgmt_Error_InvalidLoadSetting
  | eSysMgmt_Error_InvalidPowerSetting
  | eSysMgmt_Error_DestMutexTimeOut
  | eSysMgmt_Error_NullPointerRef

text \<open>The enumerators in the order of the header: position is wire value.\<close>

definition sysmgmt_errors :: "eT_SysMgmtErrorCode_t list" where
  "sysmgmt_errors =
     [eSysMgmt_Error_None, eSysMgmt_Error_InvalidCommand, eSysMgmt_Error_InvalidFrameLength,
      eSysMgmt_Error_InvalidPayLoadLength, eSysMgmt_Error_PayLoadLengthMismatch,
      eSysMgmt_Error_PayLoadLength_NotDefined, eSysMgmt_Error_InvalidTranscId,
      eSysMgmt_Error_InvalidPointer, eSysMgmt_Error_NoPendingTransaction,
      eSysMgmt_Error_InvalidACKType, eSysMgmt_Error_NoWaitForACK, eSysMgmt_Error_InvalidRev_ForACK,
      eSysMgmt_Error_InvalidHostFeedback, eSysMgmt_Error_Inconsistent_ACKError,
      eSysMgmt_Error_NoFreeTransaction, eSysMgmt_Error_TransactionStateWrtie,
      eSysMgmt_Error_TransactionMaxRetryReach, eSysMgmt_Error_InvalidCANTxMessage,
      eSysMgmt_Error_TransactionLocked, eSysMgmt_Error_InvalidRetransmitRequest,
      eSysMgmt_Error_InvalidLoadSetting, eSysMgmt_Error_InvalidPowerSetting,
      eSysMgmt_Error_DestMutexTimeOut, eSysMgmt_Error_NullPointerRef]"

text \<open>A byte below \<open>eNUMBER_OF_SYS_MANAGEMENT_ERROR_CODEs\<close> is an error code.\<close>

definition sysmgmt_error_of_byte :: "u8 \<Rightarrow> eT_SysMgmtErrorCode_t option" where
  "sysmgmt_error_of_byte b =
     (if unat b < length sysmgmt_errors then Some (sysmgmt_errors ! unat b) else None)"

fun list_index :: "'a list \<Rightarrow> 'a \<Rightarrow> nat" where
  "list_index [] x = 0"
| "list_index (y # ys) x = (if y = x then 0 else Suc (list_index ys x))"

definition sysmgmt_error_val :: "eT_SysMgmtErrorCode_t \<Rightarrow> u8" where
  "sysmgmt_error_val e = of_nat (list_index sysmgmt_errors e)"

lemma sysmgmt_error_val_inverse: "sysmgmt_error_of_byte (sysmgmt_error_val e) = Some e"
  by (cases e) (simp_all add: sysmgmt_error_val_def sysmgmt_error_of_byte_def sysmgmt_errors_def)

datatype eT_CANACK_Ctrl = eCAN_ACK | eCAN_NACK

fun can_ack_val :: "eT_CANACK_Ctrl \<Rightarrow> u8" where
  "can_ack_val eCAN_ACK = 10"
| "can_ack_val eCAN_NACK = 11"

definition can_ack_of_byte :: "u8 \<Rightarrow> eT_CANACK_Ctrl option" where
  "can_ack_of_byte b = (if b = 10 then Some eCAN_ACK else if b = 11 then Some eCAN_NACK else None)"

lemma can_ack_val_inverse [simp]: "can_ack_of_byte (can_ack_val a) = Some a"
  by (cases a) (simp_all add: can_ack_of_byte_def)

datatype eT_TransactionType_t = eTransType_None | eTransType_Receive | eTransType_Transmit | eNUMBER_OF_TRANSACTION_TYPEs

datatype eT_TransactionState_t =
    eTransState_Free
  | eTransState_Queued
  | eTransState_Invalid
  | eTransState_WaitingFor_TxCompletion
  | eTransState_WaitingFor_ACK
  | eTransState_Dest_ACK
  | eTransState_Failed
  | eTransState_PrepareRetransmit

text \<open>
  Results of the CAN library's submit and completion calls. The library is not part of the
  repository: the constructors are the enumerators the code names, \<open>_Other\<close> any further one.
\<close>

datatype eT_CAN_TxSubmitResult =
    eCAN_TxSubmit_Queued
  | eCAN_TxSubmit_BusUnavailable
  | eCAN_TxSubmit_QueueFull
  | eCAN_TxSubmit_InvalidMsg
  | eCAN_TxSubmit_Other nat

datatype eT_CAN_TxCompleteResult =
    eCAN_TxComplete_Success
  | eCAN_TxComplete_MailboxTimeout
  | eCAN_TxComplete_CompletionTimeout
  | eCAN_TxComplete_ArbitrationLost
  | eCAN_TxComplete_ControllerStopped
  | eCAN_TxComplete_BusOff
  | eCAN_TxComplete_InvalidFrame
  | eCAN_TxComplete_Unsupported
  | eCAN_TxComplete_HardwareError
  | eCAN_TxComplete_UnknownError
  | eCAN_TxComplete_Other nat

subsection \<open>Structures\<close>

record sT_CAN_TxContext_t =
  ctx_uiGeneration :: u32
  ctx_eCommand :: eT_SysMgmtCommand_t
  ctx_uiTransactionIndex :: u8
  ctx_uiRevision :: u8

text \<open>The zeroed user data of \<open>memset\<close>.\<close>

definition zero_context :: sT_CAN_TxContext_t where
  "zero_context = \<lparr>ctx_uiGeneration = 0, ctx_eCommand = eSysMgmt_CMD_None,
                   ctx_uiTransactionIndex = 0, ctx_uiRevision = 0\<rparr>"

text \<open>
  \<open>puiData\<close> is the buffer the pointer refers to, \<open>None\<close> for the null pointer; only its first
  \<open>uiLen\<close> bytes are sent.
\<close>

record sT_CAN_TXMsg_t =
  tx_uiID :: u32
  tx_uiLen :: u8
  tx_puiData :: "u8 list option"
  tx_stTUserData :: sT_CAN_TxContext_t
  tx_eTxResult :: eT_CAN_TxSubmitResult

text \<open>\<open>sT_CAN_TXMsg_t m = {0}\<close>. The first enumerator of the library's result type is not known;
  the field is overwritten by every submission before it is read.\<close>

definition zero_tx_msg :: sT_CAN_TXMsg_t where
  "zero_tx_msg = \<lparr>tx_uiID = 0, tx_uiLen = 0, tx_puiData = None, tx_stTUserData = zero_context,
                  tx_eTxResult = eCAN_TxSubmit_Other 0\<rparr>"

text \<open>The bytes a message puts on the bus.\<close>

definition tx_payload :: "sT_CAN_TXMsg_t \<Rightarrow> u8 list" where
  "tx_payload m = (case tx_puiData m of None \<Rightarrow> [] | Some d \<Rightarrow> take (unat (tx_uiLen m)) d)"

record sT_CmdTransaction_t =
  tr_eType :: eT_TransactionType_t
  tr_eState :: eT_TransactionState_t
  tr_eCommand :: eT_SysMgmtCommand_t
  tr_eErrorCode :: eT_SysMgmtErrorCode_t
  tr_bIsACKRequired :: bool
  tr_uiTrigTime_ms :: "64 word"
  tr_uiStartTime_ms :: "64 word"
  tr_uiRetryCount :: u8
  tr_uiMaxRetryCount :: u8
  tr_uiRevision :: u8
  tr_uiGeneration :: u32

text \<open>\<open>MAX_NUMBER_OF_TRANSACTION_TRACKINGs\<close> slots; a transaction pointer is a slot number
  (a number of 20 or more is a pointer that refers to no slot), \<open>None\<close> the null pointer.\<close>

definition MAX_NUMBER_OF_TRANSACTION_TRACKINGs :: nat where
  "MAX_NUMBER_OF_TRANSACTION_TRACKINGs = 20"

definition bGet_TransactionIndex :: "nat option \<Rightarrow> u8 option" where
  "bGet_TransactionIndex ptr =
     (case ptr of
        None \<Rightarrow> None
      | Some i \<Rightarrow> if i < MAX_NUMBER_OF_TRANSACTION_TRACKINGs then Some (of_nat i) else None)"

subsection \<open>The platform\<close>

record 'w platform =
  eFlexCAN_SendMsg :: "sT_CAN_TXMsg_t \<Rightarrow> 'w \<Rightarrow> eT_CAN_TxSubmitResult \<times> 'w"
  k_uptime_get :: "'w \<Rightarrow> int \<times> 'w"

end
