(* ===== verification/Can_Tx.thy ===== *)
theory Can_Tx
  imports Comm_Types
begin

text \<open>
  The transmit half of CAN_Controller.c: the controller's configuration record and
  \<open>vSend_CANMessage\<close>, through which the bootloader, the communication manager and the response
  senders reach the driver. The locale \<open>can_sender\<close> is the contract they rely on.
\<close>

text \<open>
  \<open>stTCANConfig\<close>, reduced to the two fields that change after initialisation. The critical
  failure callback is a function pointer: \<open>True\<close> when one is registered.
\<close>

record can_config =
  IsCANStopped :: bool
  busCriticalFailureAppCallback :: bool

definition init_can_config :: can_config where
  "init_can_config = \<lparr>IsCANStopped = False, busCriticalFailureAppCallback = False\<rparr>"

text \<open>
  \<open>vSend_CANMessage\<close>: the user data is cleared, a stopped controller refuses, a transaction
  pointer that is no slot refuses, otherwise the slot's context travels with the message.
  \<open>txns\<close> is the transaction table of the communication manager.
\<close>

definition tx_context :: "sT_CmdTransaction_t \<Rightarrow> u8 \<Rightarrow> sT_CAN_TxContext_t" where
  "tx_context t i = \<lparr>ctx_uiGeneration = tr_uiGeneration t, ctx_eCommand = tr_eCommand t,
                     ctx_uiTransactionIndex = i, ctx_uiRevision = tr_uiRevision t\<rparr>"

definition vSend_CANMessage ::
  "('w, 'z) platform_scheme \<Rightarrow> can_config \<Rightarrow> sT_CmdTransaction_t list \<Rightarrow> nat option
   \<Rightarrow> sT_CAN_TXMsg_t \<Rightarrow> 'w \<Rightarrow> sT_CAN_TXMsg_t \<times> 'w" where
  "vSend_CANMessage E cfg txns ptr msg w =
     (let msg = msg\<lparr>tx_stTUserData := zero_context\<rparr> in
      if IsCANStopped cfg then (msg\<lparr>tx_eTxResult := eCAN_TxSubmit_BusUnavailable\<rparr>, w)
      else
        (case ptr of
           None \<Rightarrow>
             (let (r, w') = eFlexCAN_SendMsg E msg w in (msg\<lparr>tx_eTxResult := r\<rparr>, w'))
         | Some i \<Rightarrow>
             (case bGet_TransactionIndex (Some i) of
                None \<Rightarrow> (msg\<lparr>tx_eTxResult := eCAN_TxSubmit_InvalidMsg\<rparr>, w)
              | Some idx \<Rightarrow>
                  (let msg = msg\<lparr>tx_stTUserData := tx_context (txns ! i) idx\<rparr>;
                       (r, w') = eFlexCAN_SendMsg E msg w
                   in (msg\<lparr>tx_eTxResult := r\<rparr>, w')))))"

text \<open>Every sender without a transaction uses this instance.\<close>

definition send_plain :: "('w, 'z) platform_scheme \<Rightarrow> can_config \<Rightarrow> sT_CAN_TXMsg_t \<Rightarrow> 'w \<Rightarrow> sT_CAN_TXMsg_t \<times> 'w" where
  "send_plain E cfg = vSend_CANMessage E cfg [] None"

subsection \<open>The contract of a sender\<close>

text \<open>
  \<open>send\<close> turns a message and a world into the message with its result and the next world:
  identifier, length and data are the caller's, a stopped bus is reported as unavailable and
  touches nothing, a result \<open>Queued\<close> means that the driver took the message.
\<close>

locale can_sender =
  fixes stopped :: bool
    and submit :: "sT_CAN_TXMsg_t \<Rightarrow> 'w \<Rightarrow> eT_CAN_TxSubmitResult \<times> 'w"
    and send :: "sT_CAN_TXMsg_t \<Rightarrow> 'w \<Rightarrow> sT_CAN_TXMsg_t \<times> 'w"
  assumes send_keeps: "send m w = (m', w') \<Longrightarrow>
      tx_uiID m' = tx_uiID m \<and> tx_uiLen m' = tx_uiLen m \<and> tx_puiData m' = tx_puiData m"
    and send_stopped: "stopped \<Longrightarrow> send m w = (m', w') \<Longrightarrow>
      tx_eTxResult m' = eCAN_TxSubmit_BusUnavailable \<and> w' = w"
    and send_running: "\<not> stopped \<Longrightarrow> send m w = (m', w') \<Longrightarrow>
      \<exists>m0. tx_payload m0 = tx_payload m \<and> tx_uiID m0 = tx_uiID m
         \<and> submit m0 w = (tx_eTxResult m', w')"
begin

lemma send_payload: "send m w = (m', w') \<Longrightarrow> tx_payload m' = tx_payload m"
  using send_keeps [of m w m' w'] by (auto simp: tx_payload_def split: option.split)

lemma send_queued_submitted:
  assumes "send m w = (m', w')" and "tx_eTxResult m' = eCAN_TxSubmit_Queued"
  shows "\<exists>m0. tx_payload m0 = tx_payload m \<and> tx_uiID m0 = tx_uiID m \<and> submit m0 w = (eCAN_TxSubmit_Queued, w')"
  using assms send_stopped [of m w m' w'] send_running [of m w m' w'] by (cases stopped) auto

text \<open>What a property of worlds needs of the driver to survive a send.\<close>

lemma send_world:
  assumes "send m w = (m', w')" and "\<And>m0 r v. submit m0 w = (r, v) \<Longrightarrow> P v" and "P w"
  shows "P w'"
  using assms send_stopped [of m w m' w'] send_running [of m w m' w'] by (cases stopped) auto

end

interpretation plain: can_sender "IsCANStopped cfg" "eFlexCAN_SendMsg E" "send_plain E cfg"
  for cfg :: can_config and E :: "('w, 'z) platform_scheme"
proof unfold_locales
  fix m m' :: sT_CAN_TXMsg_t and w w' :: 'w
  assume s: "send_plain E cfg m w = (m', w')"
  then show "tx_uiID m' = tx_uiID m \<and> tx_uiLen m' = tx_uiLen m \<and> tx_puiData m' = tx_puiData m"
    by (auto simp: send_plain_def vSend_CANMessage_def Let_def split: if_splits prod.splits)
  show "IsCANStopped cfg \<Longrightarrow> tx_eTxResult m' = eCAN_TxSubmit_BusUnavailable \<and> w' = w"
    using s by (auto simp: send_plain_def vSend_CANMessage_def)
  assume "\<not> IsCANStopped cfg"
  with s have "eFlexCAN_SendMsg E (m\<lparr>tx_stTUserData := zero_context\<rparr>) w = (tx_eTxResult m', w')"
    by (auto simp: send_plain_def vSend_CANMessage_def Let_def split: prod.splits)
  then show "\<exists>m0. tx_payload m0 = tx_payload m \<and> tx_uiID m0 = tx_uiID m
      \<and> eFlexCAN_SendMsg E m0 w = (tx_eTxResult m', w')"
    by (intro exI [of _ "m\<lparr>tx_stTUserData := zero_context\<rparr>"]) (simp add: tx_payload_def split: option.split)
qed

end
