(* ===== verification/Bootloader_Types.thy ===== *)
theory Bootloader_Types
  imports Crc16_Ccitt Can_Tx
begin

text \<open>
  The data of the bootloader (Bootloader_TypeDef.h, Bootloader_ProjDef.h and the file-scope
  variables of Bootloader_Ctrl.c) and the services of Zephyr and MCUboot it calls. The record
  fields carry a prefix per structure: \<open>bm_\<close> message, \<open>lp_\<close> lost packet, \<open>lt_\<close> lost packet
  transmission, \<open>fw_\<close> image control, \<open>bt_\<close> manager, \<open>bl_\<close> the file-scope variables.
\<close>

datatype eT_Bootloader_State =
    eBootloader_State_Inactive
  | eBootloader_State_Idle
  | eBootloader_State_FWImgWrite_InProg
  | eBootloader_State_FWImgWrite_Completed
  | eBootloader_State_Reboot
  | eBootloader_State_Error
  | eBootloader_State_WaitForAuth_Response

text \<open>Commands arrive as bytes cast to the enumeration; \<open>_Raw\<close> keeps a byte without enumerator.\<close>

datatype eT_Bootloader_Command =
    eBootloader_CMD_Invalid
  | eBootloader_CMD_None
  | eBootloader_CMD_FWUpReq
  | eBootloader_CMD_FWUpMsg
  | eBootloader_CMD_FWUpEnd
  | eBootloader_CMD_FWUpPause
  | eBootloader_CMD_FWUpStop
  | eBootloader_CMD_GetLostPacketInfo
  | eBootloader_CMD_RetLostPacketInfo
  | eBootloader_CMD_RetSystemPrepare_ForFWImgSwap
  | eBootloader_CMD_RetSystemOk_ForFWImgSwap
  | eBootloader_CMD_AuthStart
  | eBootloader_CMD_UpdateAuthResponse
  | eBootloader_CMD_ErrorStateEntry
  | eBootloader_CMD_RecoverFromError
  | eBootloader_CMD_ReInitStateMachine
  | eBootloader_CMD_Raw u8

fun bootloader_cmd_val :: "eT_Bootloader_Command \<Rightarrow> u8" where
  "bootloader_cmd_val eBootloader_CMD_Invalid = 0"
| "bootloader_cmd_val eBootloader_CMD_None = 20"
| "bootloader_cmd_val eBootloader_CMD_FWUpReq = 21"
| "bootloader_cmd_val eBootloader_CMD_FWUpMsg = 22"
| "bootloader_cmd_val eBootloader_CMD_FWUpEnd = 23"
| "bootloader_cmd_val eBootloader_CMD_FWUpPause = 24"
| "bootloader_cmd_val eBootloader_CMD_FWUpStop = 25"
| "bootloader_cmd_val eBootloader_CMD_GetLostPacketInfo = 26"
| "bootloader_cmd_val eBootloader_CMD_RetLostPacketInfo = 27"
| "bootloader_cmd_val eBootloader_CMD_RetSystemPrepare_ForFWImgSwap = 28"
| "bootloader_cmd_val eBootloader_CMD_RetSystemOk_ForFWImgSwap = 29"
| "bootloader_cmd_val eBootloader_CMD_AuthStart = 30"
| "bootloader_cmd_val eBootloader_CMD_UpdateAuthResponse = 31"
| "bootloader_cmd_val eBootloader_CMD_ErrorStateEntry = 32"
| "bootloader_cmd_val eBootloader_CMD_RecoverFromError = 33"
| "bootloader_cmd_val eBootloader_CMD_ReInitStateMachine = 34"
| "bootloader_cmd_val (eBootloader_CMD_Raw b) = b"

definition bootloader_cmds :: "eT_Bootloader_Command list" where
  "bootloader_cmds =
     [eBootloader_CMD_None, eBootloader_CMD_FWUpReq, eBootloader_CMD_FWUpMsg, eBootloader_CMD_FWUpEnd,
      eBootloader_CMD_FWUpPause, eBootloader_CMD_FWUpStop, eBootloader_CMD_GetLostPacketInfo,
      eBootloader_CMD_RetLostPacketInfo, eBootloader_CMD_RetSystemPrepare_ForFWImgSwap,
      eBootloader_CMD_RetSystemOk_ForFWImgSwap, eBootloader_CMD_AuthStart,
      eBootloader_CMD_UpdateAuthResponse, eBootloader_CMD_ErrorStateEntry,
      eBootloader_CMD_RecoverFromError, eBootloader_CMD_ReInitStateMachine]"

definition bootloader_cmd_of_byte :: "u8 \<Rightarrow> eT_Bootloader_Command" where
  "bootloader_cmd_of_byte b =
     (if b = 0 then eBootloader_CMD_Invalid
      else if 20 \<le> b \<and> b < 35 then bootloader_cmds ! (unat b - 20)
      else eBootloader_CMD_Raw b)"

datatype eT_Bootloader_ErrorCode =
    eBootloader_Error_None
  | eBootloader_Error_NullPointer
  | eBootloader_Error_NotInitialized
  | eBootloader_Error_UpdateInProgress
  | eBootloader_Error_InvalidCommand
  | eBootloader_Error_InvalidPayloadLength
  | eBootloader_Error_InvalidImageSize
  | eBootloader_Error_ImageTooLarge
  | eBootloader_Error_ImageIncomplete
  | eBootloader_Error_CrcMismatch
  | eBootloader_Error_InvalidPacketId
  | eBootloader_Error_FlashAreaOpenFail
  | eBootloader_Error_FlashAreaEraseFail
  | eBootloader_Error_FlashAreaWriteFail
  | eBootloader_Error_FlashAreaReadFail
  | eBootloader_Error_FlashBoundsExceeded
  | eBootloader_Error_UpgradeRequestFail
  | eBootloader_Error_MissingPacketsPending
  | eBootloader_Error_UndefinedBehavior

datatype eT_Bootloader_TxState =
    eBootloader_Tx_Idle
  | eBootloader_Tx_InProgress
  | eBootloader_Tx_RetryInProgress

subsection \<open>Constants\<close>

text \<open>Numbers that occur inside the routines are abbreviations of numerals.\<close>

abbreviation (input) "DATA_PAYLOAD_PER_ONE_IMAGE_FRAME \<equiv> (48 :: u32)"
abbreviation (input) "FW_IMG_WRITE_BYTE_LENGTH \<equiv> (16 :: u32)"
abbreviation (input) "FW_IMG_PACKET_DATA_LENGTH \<equiv> (50 :: u8)"
abbreviation (input) "FW_IMAGE_SECONDARY_SLOT_WRITE_OFFSET \<equiv> (0x2000 :: u32)"
abbreviation (input) "MAX_NUMBER_OF_ALLOWABLE_LOST_PACKETs \<equiv> (100 :: nat)"
abbreviation (input) "CAN_MSG_MAX_SIZE \<equiv> (64 :: nat)"
abbreviation (input) "TIMEOUT_FW_UPREQ_TO_FW_UPDATE_ms \<equiv> (5000 :: int)"
abbreviation (input) "TIMEOUT_FW_UPDATE_NextPacket_ms \<equiv> (1000 :: int)"
abbreviation (input) "TIMEOUT_REBOOT_CONFIRMATION_ms \<equiv> (100 :: int)"
abbreviation (input) "TIMEOUT_LOST_PACKET_RECOVERY_PROCESS_ms \<equiv> (2000 :: int)"
abbreviation (input) "TIMEOUT_LOST_PACKET_TX_ms \<equiv> (500 :: int)"
abbreviation (input) "BOOTLOADER_MAX_REQUEST_UPGRADE_TURNs \<equiv> (3 :: nat)"
abbreviation (input) "BOOTLOADER_TX_Retry_MAX_COUNT \<equiv> (3 :: u8)"

abbreviation (input) "FW_IMAGE_HOST_DEVICE_ID \<equiv> (0x200 :: u32)"

subsection \<open>Structures\<close>

record sT_Bootloader_CtrlMsg_t =
  bm_eCMD :: eT_Bootloader_Command
  bm_bIsMsgOk :: bool
  bm_bIsACKReq :: bool
  bm_eErrorCode :: eT_Bootloader_ErrorCode
  bm_uiLen :: u8
  bm_uiaData :: "u8 list"

definition vSet_BootloaderMsgStatus ::
  "bool \<Rightarrow> eT_Bootloader_ErrorCode \<Rightarrow> sT_Bootloader_CtrlMsg_t \<Rightarrow> sT_Bootloader_CtrlMsg_t" where
  "vSet_BootloaderMsgStatus ok e m = m\<lparr>bm_bIsMsgOk := ok, bm_eErrorCode := e\<rparr>"

record sT_LostPacketCtrl_t =
  lp_bIsHandled :: bool
  lp_uiPacketId :: u16

text \<open>
  \<open>lt_stTCANTxMsg_t\<close> is the message kept for a retry. Its data pointer is null or refers to the
  sibling field \<open>uiaTxData\<close>; the two are always written together, so the buffer is stored in the message.
\<close>

record sT_FWImg_LostPacketTx_t =
  lt_eTxState :: eT_Bootloader_TxState
  lt_uiFrameSeq :: u8
  lt_uiRetryCount :: u8
  lt_uiaTxData :: "u8 list"
  lt_stTCANTxMsg_t :: sT_CAN_TXMsg_t

record sT_FWImg_Ctrl_t =
  fw_bIsFlashWritInProgress :: bool
  fw_bLostPacketStateTriggered :: bool
  fw_bLostPacketDetected :: bool
  fw_uiReceivedByteCount :: u32
  fw_uiRunningCRC :: u32
  fw_uiNextId :: u16
  fw_uiLastId :: u16
  fw_uiFirstLostPacketId :: u16
  fw_staLostPacketIDs :: "sT_LostPacketCtrl_t list"
  fw_stTxLostPacketInfo :: sT_FWImg_LostPacketTx_t
  fw_uiLostPacketCount :: u8
  fw_uiRecoveredPacketCount :: u8

record sT_BootLoader_AuthControl_t =
  au_bIsBootFWUpdate_Authorized :: bool
  au_uiaNonce :: "u8 list"
  au_uiSessionStartTime_ms :: u32

record sT_Bootloader_Mgmt_t =
  bt_eBtlState :: eT_Bootloader_State
  bt_bIsInitialized :: bool
  bt_bIsFirstEntry :: bool
  bt_uiFlashAreaSize :: u32
  bt_uiFWImgSize :: u32
  bt_uiLibRev :: u16
  bt_uiFWRev :: u16
  bt_uiCRC :: u16
  bt_uiHWRev :: u8
  bt_stTFWImgCtrl_t :: sT_FWImg_Ctrl_t
  bt_stTBTLAuthCtrl :: sT_BootLoader_AuthControl_t

subsection \<open>Zeroed values\<close>

definition zero_lost_packet :: sT_LostPacketCtrl_t where
  "zero_lost_packet = \<lparr>lp_bIsHandled = False, lp_uiPacketId = 0\<rparr>"

definition zero_lost_table :: "sT_LostPacketCtrl_t list" where
  "zero_lost_table = replicate MAX_NUMBER_OF_ALLOWABLE_LOST_PACKETs zero_lost_packet"

definition zero_lost_tx :: sT_FWImg_LostPacketTx_t where
  "zero_lost_tx = \<lparr>lt_eTxState = eBootloader_Tx_Idle, lt_uiFrameSeq = 0, lt_uiRetryCount = 0,
     lt_uiaTxData = replicate CAN_MSG_MAX_SIZE 0, lt_stTCANTxMsg_t = zero_tx_msg\<rparr>"

text \<open>\<open>sT_Bootloader_Mgmt_t stTBtlMgmt_t = {0}\<close>.\<close>

definition zero_img_ctrl :: sT_FWImg_Ctrl_t where
  "zero_img_ctrl = \<lparr>fw_bIsFlashWritInProgress = False, fw_bLostPacketStateTriggered = False,
     fw_bLostPacketDetected = False, fw_uiReceivedByteCount = 0, fw_uiRunningCRC = 0, fw_uiNextId = 0,
     fw_uiLastId = 0, fw_uiFirstLostPacketId = 0, fw_staLostPacketIDs = zero_lost_table,
     fw_stTxLostPacketInfo = zero_lost_tx, fw_uiLostPacketCount = 0, fw_uiRecoveredPacketCount = 0\<rparr>"

definition zero_auth :: sT_BootLoader_AuthControl_t where
  "zero_auth = \<lparr>au_bIsBootFWUpdate_Authorized = False, au_uiaNonce = replicate 16 0, au_uiSessionStartTime_ms = 0\<rparr>"

definition zero_mgmt :: sT_Bootloader_Mgmt_t where
  "zero_mgmt = \<lparr>bt_eBtlState = eBootloader_State_Inactive, bt_bIsInitialized = False, bt_bIsFirstEntry = False,
     bt_uiFlashAreaSize = 0, bt_uiFWImgSize = 0, bt_uiLibRev = 0, bt_uiFWRev = 0, bt_uiCRC = 0, bt_uiHWRev = 0,
     bt_stTFWImgCtrl_t = zero_img_ctrl, bt_stTBTLAuthCtrl = zero_auth\<rparr>"

subsection \<open>Services outside the repository\<close>

datatype bl_work = stBtlStateTimeOut_Work_t | stBtlTxTimeOut_Work_t

text \<open>
  The flash map, MCUboot and kernel calls of Bootloader_Ctrl.c. A flash area pointer is a
  boolean, \<open>False\<close> for the null pointer. \<open>flash_area_open\<close> returns the code and what it stored
  through the pointer; \<open>fa_size\<close> is the size field of the area.
\<close>

record 'w bl_platform = "'w platform" +
  fa_size :: u32
  flash_area_open :: "'w \<Rightarrow> (int \<times> bool) \<times> 'w"
  flash_area_close :: "'w \<Rightarrow> 'w"
  flash_area_erase :: "u32 \<Rightarrow> u32 \<Rightarrow> 'w \<Rightarrow> int \<times> 'w"
  flash_area_write :: "u32 \<Rightarrow> u8 list \<Rightarrow> 'w \<Rightarrow> int \<times> 'w"
  flash_area_read :: "u32 \<Rightarrow> u32 \<Rightarrow> 'w \<Rightarrow> (int \<times> u8 list) \<times> 'w"
  boot_request_upgrade :: "'w \<Rightarrow> int \<times> 'w"
  boot_is_img_confirmed :: "'w \<Rightarrow> int \<times> 'w"
  boot_write_img_confirmed :: "'w \<Rightarrow> int \<times> 'w"
  k_work_reschedule :: "bl_work \<Rightarrow> int \<Rightarrow> 'w \<Rightarrow> 'w"
  k_work_cancel_delayable :: "bl_work \<Rightarrow> 'w \<Rightarrow> 'w"
  k_msleep :: "int \<Rightarrow> 'w \<Rightarrow> 'w"
  sys_reboot :: "'w \<Rightarrow> 'w"

text \<open>
  The whole state a bootloader routine can reach. \<open>bl_fault\<close> is set when the code passes or
  dereferences a null flash area, which has no defined outcome in C.
\<close>

record 'w bl_sys =
  bl_mgmt :: sT_Bootloader_Mgmt_t
  bl_flashArea :: bool
  bl_iBootloaderStateDeadline_ms :: int
  bl_bBootloaderStateTimeoutArmed :: bool
  bl_can :: can_config
  bl_world :: 'w
  bl_fault :: bool

subsection \<open>Access paths\<close>

abbreviation "sTFWImg s \<equiv> bt_stTFWImgCtrl_t (bl_mgmt s)"
abbreviation "sTTxLostPacketInfo s \<equiv> fw_stTxLostPacketInfo (sTFWImg s)"
abbreviation "eBtlState s \<equiv> bt_eBtlState (bl_mgmt s)"
abbreviation "uiFWImgSize s \<equiv> bt_uiFWImgSize (bl_mgmt s)"
abbreviation "uiFlashAreaSize s \<equiv> bt_uiFlashAreaSize (bl_mgmt s)"

abbreviation upd_mgmt :: "(sT_Bootloader_Mgmt_t \<Rightarrow> sT_Bootloader_Mgmt_t) \<Rightarrow> 'w bl_sys \<Rightarrow> 'w bl_sys" where
  "upd_mgmt f \<equiv> bl_mgmt_update f"

abbreviation upd_img :: "(sT_FWImg_Ctrl_t \<Rightarrow> sT_FWImg_Ctrl_t) \<Rightarrow> 'w bl_sys \<Rightarrow> 'w bl_sys" where
  "upd_img f \<equiv> bl_mgmt_update (bt_stTFWImgCtrl_t_update f)"

abbreviation upd_tx :: "(sT_FWImg_LostPacketTx_t \<Rightarrow> sT_FWImg_LostPacketTx_t) \<Rightarrow> 'w bl_sys \<Rightarrow> 'w bl_sys" where
  "upd_tx f \<equiv> bl_mgmt_update (bt_stTFWImgCtrl_t_update (fw_stTxLostPacketInfo_update f))"

abbreviation upd_world :: "('w \<Rightarrow> 'w) \<Rightarrow> 'w bl_sys \<Rightarrow> 'w bl_sys" where
  "upd_world f \<equiv> bl_world_update f"

end
