(* ===== verification/Bootloader_Ops.thy ===== *)
theory Bootloader_Ops
  imports Bootloader_Types
begin

text \<open>
  The routines of Bootloader_Ctrl.c, callees first. A routine takes the services \<open>E\<close>, its message
  where it has one, and the state. \<open>FHALT\<close>, \<open>FWARN\<close> and \<open>Bootloader_Print\<close> only report and have no
  counterpart; a mutex taken with \<open>K_FOREVER\<close> and released on every path makes the section atomic.
\<close>

subsection \<open>Deadline and work items\<close>

definition cancel_work :: "('w, 'z) bl_platform_scheme \<Rightarrow> bl_work \<Rightarrow> 'w bl_sys \<Rightarrow> 'w bl_sys" where
  "cancel_work E wk = upd_world (k_work_cancel_delayable E wk)"

definition vRefresh_BootloaderStateTimeOut_Locked ::
  "('w, 'z) bl_platform_scheme \<Rightarrow> int \<Rightarrow> 'w bl_sys \<Rightarrow> 'w bl_sys" where
  "vRefresh_BootloaderStateTimeOut_Locked E t s =
     (let (now, w) = k_uptime_get E (bl_world s)
      in s\<lparr>bl_iBootloaderStateDeadline_ms := now + t,
           bl_bBootloaderStateTimeoutArmed := True,
           bl_world := k_work_reschedule E stBtlStateTimeOut_Work_t t w\<rparr>)"

definition vInvalidate_BootloaderStateTimeOut_Locked :: "'w bl_sys \<Rightarrow> 'w bl_sys" where
  "vInvalidate_BootloaderStateTimeOut_Locked s =
     s\<lparr>bl_bBootloaderStateTimeoutArmed := False, bl_iBootloaderStateDeadline_ms := 0\<rparr>"

definition vCancel_BootloaderStateTimeOut :: "('w, 'z) bl_platform_scheme \<Rightarrow> 'w bl_sys \<Rightarrow> 'w bl_sys" where
  "vCancel_BootloaderStateTimeOut E s =
     cancel_work E stBtlStateTimeOut_Work_t (vInvalidate_BootloaderStateTimeOut_Locked s)"

subsection \<open>Resetting a session\<close>

definition close_flash :: "('w, 'z) bl_platform_scheme \<Rightarrow> 'w bl_sys \<Rightarrow> 'w bl_sys" where
  "close_flash E s =
     (if bl_flashArea s then s\<lparr>bl_world := flash_area_close E (bl_world s), bl_flashArea := False\<rparr> else s)"

text \<open>The lost packet transmission record cleared in full by \<open>vReinit_TxLostPacketInfo\<close>.\<close>

definition vReinit_TxLostPacketInfo :: "'w bl_sys \<Rightarrow> 'w bl_sys" where
  "vReinit_TxLostPacketInfo = upd_tx (\<lambda>t. t\<lparr>lt_eTxState := eBootloader_Tx_Idle,
     lt_uiaTxData := replicate CAN_MSG_MAX_SIZE 0, lt_uiFrameSeq := 0, lt_uiRetryCount := 0,
     lt_stTCANTxMsg_t := zero_tx_msg\<rparr>)"

text \<open>The assignments that abort and reinitialisation share: image data, progress, lost table.\<close>

definition clear_image_data :: "'w bl_sys \<Rightarrow> 'w bl_sys" where
  "clear_image_data = upd_mgmt (\<lambda>b. b\<lparr>bt_uiFWImgSize := 0, bt_uiFWRev := 0, bt_uiHWRev := 0,
     bt_uiLibRev := 0, bt_uiCRC := 0\<rparr>)"

definition clear_progress :: "'w bl_sys \<Rightarrow> 'w bl_sys" where
  "clear_progress = upd_img (\<lambda>f. f\<lparr>fw_uiLastId := 0, fw_uiLostPacketCount := 0, fw_uiNextId := 0,
     fw_uiReceivedByteCount := 0, fw_uiRunningCRC := 0xFFFF, fw_bIsFlashWritInProgress := False,
     fw_uiFirstLostPacketId := 0, fw_uiRecoveredPacketCount := 0,
     fw_staLostPacketIDs := zero_lost_table, fw_bLostPacketDetected := False,
     fw_bLostPacketStateTriggered := False\<rparr>)"

definition vAbort_BootloaderSession_Locked :: "('w, 'z) bl_platform_scheme \<Rightarrow> 'w bl_sys \<Rightarrow> 'w bl_sys" where
  "vAbort_BootloaderSession_Locked E s =
     (let s = vInvalidate_BootloaderStateTimeOut_Locked s;
          s = close_flash E s;
          s = clear_image_data s;
          s = clear_progress s;
          s = vReinit_TxLostPacketInfo s
      in upd_mgmt (\<lambda>b. b\<lparr>bt_eBtlState := eBootloader_State_Error, bt_bIsFirstEntry := False\<rparr>) s)"

definition cancel_both :: "('w, 'z) bl_platform_scheme \<Rightarrow> 'w bl_sys \<Rightarrow> 'w bl_sys" where
  "cancel_both E s = cancel_work E stBtlTxTimeOut_Work_t (cancel_work E stBtlStateTimeOut_Work_t s)"

definition vAbort_BootloaderSession :: "('w, 'z) bl_platform_scheme \<Rightarrow> 'w bl_sys \<Rightarrow> 'w bl_sys" where
  "vAbort_BootloaderSession E s = cancel_both E (vAbort_BootloaderSession_Locked E s)"

definition vReinit_BootloaderStateMachine :: "('w, 'z) bl_platform_scheme \<Rightarrow> 'w bl_sys \<Rightarrow> 'w bl_sys" where
  "vReinit_BootloaderStateMachine E s =
     (let s = vInvalidate_BootloaderStateTimeOut_Locked s;
          s = close_flash E s;
          s = clear_image_data s;
          s = clear_progress s;
          s = vReinit_TxLostPacketInfo s;
          s = upd_mgmt (\<lambda>b. b\<lparr>bt_eBtlState := eBootloader_State_Idle, bt_bIsFirstEntry := True\<rparr>) s
      in cancel_both E s)"

definition vSet_BootloaderState ::
  "('w, 'z) bl_platform_scheme \<Rightarrow> eT_Bootloader_State \<Rightarrow> 'w bl_sys \<Rightarrow> 'w bl_sys" where
  "vSet_BootloaderState E st s =
     (let s = upd_mgmt (\<lambda>b. b\<lparr>bt_eBtlState := st, bt_bIsFirstEntry := True\<rparr>) s in
      case st of
        eBootloader_State_FWImgWrite_InProg \<Rightarrow>
          vRefresh_BootloaderStateTimeOut_Locked E TIMEOUT_FW_UPREQ_TO_FW_UPDATE_ms s
      | eBootloader_State_Error \<Rightarrow> s
      | _ \<Rightarrow> cancel_work E stBtlStateTimeOut_Work_t (vInvalidate_BootloaderStateTimeOut_Locked s))"

text \<open>\<open>bIsFirstEntry\<close> returns the flag and clears it.\<close>

definition bIsFirstEntry :: "'w bl_sys \<Rightarrow> bool \<times> 'w bl_sys" where
  "bIsFirstEntry s =
     (bt_bIsFirstEntry (bl_mgmt s),
      if bt_bIsFirstEntry (bl_mgmt s) then upd_mgmt (\<lambda>b. b\<lparr>bt_bIsFirstEntry := False\<rparr>) s else s)"

definition vInit_Bootloader_SecurityLayer :: "'w bl_sys \<Rightarrow> 'w bl_sys" where
  "vInit_Bootloader_SecurityLayer = upd_mgmt (\<lambda>b. b\<lparr>bt_stTBTLAuthCtrl :=
     \<lparr>au_bIsBootFWUpdate_Authorized = False, au_uiaNonce = replicate 16 0, au_uiSessionStartTime_ms = 0\<rparr>\<rparr>)"

text \<open>
  \<open>bInit_BootloaderController\<close>. Until the area is known to exist the bootloader is inactive.
\<close>

definition bInit_BootloaderController :: "('w, 'z) bl_platform_scheme \<Rightarrow> 'w bl_sys \<Rightarrow> bool \<times> 'w bl_sys" where
  "bInit_BootloaderController E s =
     (let s = s\<lparr>bl_iBootloaderStateDeadline_ms := 0, bl_bBootloaderStateTimeoutArmed := False\<rparr>;
          s = upd_mgmt (\<lambda>b. b\<lparr>bt_eBtlState := eBootloader_State_Inactive, bt_bIsInitialized := False,
                bt_uiCRC := 0, bt_uiFWImgSize := 0, bt_uiFWRev := 0, bt_uiHWRev := 0, bt_uiLibRev := 0,
                bt_uiFlashAreaSize := 0\<rparr>) s;
          s = clear_progress s;
          s = vReinit_TxLostPacketInfo s;
          ((ret, fa), w) = flash_area_open E (bl_world s);
          s = s\<lparr>bl_world := w, bl_flashArea := fa\<rparr>
      in if ret \<noteq> 0 then (False, s)
         else
           (let s = s\<lparr>bl_fault := bl_fault s \<or> \<not> fa\<rparr>;
                s = upd_mgmt (\<lambda>b. b\<lparr>bt_uiFlashAreaSize := fa_size E\<rparr>) s;
                s = s\<lparr>bl_world := flash_area_close E (bl_world s), bl_flashArea := False\<rparr>;
                s = vInit_Bootloader_SecurityLayer s;
                s = upd_mgmt (\<lambda>b. b\<lparr>bt_eBtlState := eBootloader_State_Idle, bt_bIsInitialized := True\<rparr>) s
            in (True, s)))"

definition bIsFW_ImageWrite_InProgress :: "'w bl_sys \<Rightarrow> bool" where
  "bIsFW_ImageWrite_InProgress s \<longleftrightarrow> eBtlState s = eBootloader_State_FWImgWrite_InProg"

definition vConfirm_MCUbootImage :: "('w, 'z) bl_platform_scheme \<Rightarrow> 'w \<Rightarrow> 'w" where
  "vConfirm_MCUbootImage E w =
     (let (ret, w) = boot_is_img_confirmed E w in
      if ret < 0 then w
      else if ret \<noteq> 0 then w
      else snd (boot_write_img_confirmed E w))"

subsection \<open>Idle: a new image is announced\<close>

definition vErase_FlashArea ::
  "('w, 'z) bl_platform_scheme \<Rightarrow> sT_Bootloader_CtrlMsg_t \<Rightarrow> 'w bl_sys \<Rightarrow> sT_Bootloader_CtrlMsg_t \<times> 'w bl_sys" where
  "vErase_FlashArea E m s =
     (let ((ret, fa), w) = flash_area_open E (bl_world s);
          s = s\<lparr>bl_world := w, bl_flashArea := fa\<rparr>
      in if ret \<noteq> 0 then (vSet_BootloaderMsgStatus False eBootloader_Error_FlashAreaOpenFail m, s)
         else
           (let s = s\<lparr>bl_fault := bl_fault s \<or> \<not> fa\<rparr>;
                (ret, w) = flash_area_erase E 0 (fa_size E) (bl_world s);
                s = s\<lparr>bl_world := flash_area_close E w, bl_flashArea := False\<rparr>
            in if ret \<noteq> 0 then (vSet_BootloaderMsgStatus False eBootloader_Error_FlashAreaEraseFail m, s)
               else (vSet_BootloaderMsgStatus True eBootloader_Error_None m, s)))"

text \<open>The 24-bit image size of an upgrade request.\<close>

definition be24 :: "u8 \<Rightarrow> u8 \<Rightarrow> u8 \<Rightarrow> u32" where
  "be24 a b c = push_bit 16 (ucast a) OR push_bit 8 (ucast b) OR ucast c"

definition vInit_BootloaderManager_ForNewFWImage ::
  "('w, 'z) bl_platform_scheme \<Rightarrow> sT_Bootloader_CtrlMsg_t \<Rightarrow> 'w bl_sys \<Rightarrow> sT_Bootloader_CtrlMsg_t \<times> 'w bl_sys" where
  "vInit_BootloaderManager_ForNewFWImage E m s =
     (let d = bm_uiaData m;
          s = upd_mgmt (\<lambda>b. b\<lparr>bt_uiFWImgSize := be24 (d ! 0) (d ! 1) (d ! 2)\<rparr>) s
      in if uiFWImgSize s = 0 then (vSet_BootloaderMsgStatus False eBootloader_Error_InvalidImageSize m, s)
         else if uiFlashAreaSize s \<le> FW_IMAGE_SECONDARY_SLOT_WRITE_OFFSET
           then (vSet_BootloaderMsgStatus False eBootloader_Error_FlashBoundsExceeded m, s)
         else if uiFWImgSize s > uiFlashAreaSize s - FW_IMAGE_SECONDARY_SLOT_WRITE_OFFSET
           then (vSet_BootloaderMsgStatus False eBootloader_Error_ImageTooLarge m, s)
         else
           (let s = upd_mgmt (\<lambda>b. b\<lparr>bt_uiHWRev := d ! 3, bt_uiLibRev := be16 (d ! 4) (d ! 5),
                      bt_uiFWRev := be16 (d ! 6) (d ! 7), bt_uiCRC := be16 (d ! 8) (d ! 9)\<rparr>) s;
                s = clear_progress s;
                (m, s) = vErase_FlashArea E m s
            in if \<not> bm_bIsMsgOk m then (m, s)
               else (m\<lparr>bm_bIsMsgOk := True\<rparr>,
                     vSet_BootloaderState E eBootloader_State_FWImgWrite_InProg s)))"

definition vExecute_Bootloader_IdleState ::
  "('w, 'z) bl_platform_scheme \<Rightarrow> sT_Bootloader_CtrlMsg_t \<Rightarrow> 'w bl_sys \<Rightarrow> sT_Bootloader_CtrlMsg_t \<times> 'w bl_sys" where
  "vExecute_Bootloader_IdleState E m s =
     (if \<not> bt_bIsInitialized (bl_mgmt s)
        then (vSet_BootloaderMsgStatus False eBootloader_Error_NotInitialized m, s)
      else if bIsFW_ImageWrite_InProgress s
        then (vSet_BootloaderMsgStatus False eBootloader_Error_UpdateInProgress m, s)
      else if bm_uiLen m \<noteq> 10
        then (vSet_BootloaderMsgStatus False eBootloader_Error_InvalidPayloadLength m, s)
      else
        (let (first, s) = bIsFirstEntry s in
         case bm_eCMD m of
           eBootloader_CMD_None \<Rightarrow> vInit_BootloaderManager_ForNewFWImage E m s
         | eBootloader_CMD_FWUpReq \<Rightarrow> vInit_BootloaderManager_ForNewFWImage E m s
         | _ \<Rightarrow> (vSet_BootloaderMsgStatus False eBootloader_Error_InvalidCommand m, s)))"

subsection \<open>Lost packets\<close>

text \<open>The first \<open>uiLostPacketCount\<close> entries of the table are in use.\<close>

definition lost_entries :: "sT_FWImg_Ctrl_t \<Rightarrow> sT_LostPacketCtrl_t list" where
  "lost_entries f = take (unat (fw_uiLostPacketCount f)) (fw_staLostPacketIDs f)"

text \<open>The search loops: position of the first entry with the packet id.\<close>

fun find_lost :: "sT_LostPacketCtrl_t list \<Rightarrow> u16 \<Rightarrow> nat option" where
  "find_lost [] pid = None"
| "find_lost (e # es) pid = (if lp_uiPacketId e = pid then Some 0 else map_option Suc (find_lost es pid))"

definition uiGet_PendingLostPacketCount :: "sT_FWImg_Ctrl_t \<Rightarrow> u8" where
  "uiGet_PendingLostPacketCount f = foldl (\<lambda>c e. if \<not> lp_bIsHandled e then c + 1 else c) 0 (lost_entries f)"

text \<open>
  The loop of \<open>bCanHandleMissingPackets\<close> appends one unhandled entry per turn; turn \<open>i\<close> of \<open>n\<close>
  records the id \<open>uiNextId + i\<close>.
\<close>

definition append_lost :: "nat \<Rightarrow> sT_FWImg_Ctrl_t \<Rightarrow> sT_FWImg_Ctrl_t" where
  "append_lost i f =
     f\<lparr>fw_staLostPacketIDs := (fw_staLostPacketIDs f)[unat (fw_uiLostPacketCount f) :=
         \<lparr>lp_bIsHandled = False, lp_uiPacketId = fw_uiNextId f + of_nat i\<rparr>],
       fw_uiLostPacketCount := fw_uiLostPacketCount f + 1\<rparr>"

fun append_lost_loop :: "nat \<Rightarrow> nat \<Rightarrow> sT_FWImg_Ctrl_t \<Rightarrow> sT_FWImg_Ctrl_t" where
  "append_lost_loop i 0 f = f"
| "append_lost_loop i (Suc n) f = append_lost_loop (Suc i) n (append_lost i f)"

text \<open>\<open>iDiff\<close> is a signed difference; it is never negative where the routine is called.\<close>

definition bCanHandleMissingPackets ::
  "('w, 'z) bl_platform_scheme \<Rightarrow> u16 \<Rightarrow> sT_Bootloader_CtrlMsg_t \<Rightarrow> 'w bl_sys
   \<Rightarrow> bool \<times> sT_Bootloader_CtrlMsg_t \<times> 'w bl_sys" where
  "bCanHandleMissingPackets E pid m s =
     (let iDiff = uint pid - uint (fw_uiNextId (sTFWImg s)) in
      if uint (fw_uiLostPacketCount (sTFWImg s)) + iDiff > int MAX_NUMBER_OF_ALLOWABLE_LOST_PACKETs
        then (False, vSet_BootloaderMsgStatus False eBootloader_Error_InvalidPacketId m,
              vAbort_BootloaderSession_Locked E s)
      else
        (let s = upd_img (append_lost_loop 0 (nat iDiff)) s;
             s = (if \<not> fw_bLostPacketStateTriggered (sTFWImg s)
                  then upd_img (\<lambda>f. f\<lparr>fw_uiFirstLostPacketId := fw_uiNextId f,
                                      fw_bLostPacketStateTriggered := True\<rparr>) s
                  else s)
         in (True, m, upd_img (\<lambda>f. f\<lparr>fw_uiNextId := fw_uiNextId f + of_nat (nat iDiff),
                                     fw_bLostPacketDetected := True\<rparr>) s)))"

definition vHandle_PacketId_Mismatch ::
  "('w, 'z) bl_platform_scheme \<Rightarrow> u16 \<Rightarrow> sT_Bootloader_CtrlMsg_t \<Rightarrow> 'w bl_sys
   \<Rightarrow> bool \<times> sT_Bootloader_CtrlMsg_t \<times> 'w bl_sys" where
  "vHandle_PacketId_Mismatch E pid m s =
     (if pid > fw_uiNextId (sTFWImg s) then bCanHandleMissingPackets E pid m s
      else
        (case find_lost (lost_entries (sTFWImg s)) pid of
           Some i \<Rightarrow>
             if \<not> lp_bIsHandled (lost_entries (sTFWImg s) ! i) then (True, m, s)
             else (False, vSet_BootloaderMsgStatus False eBootloader_Error_InvalidPacketId m, s)
         | None \<Rightarrow> (False, vSet_BootloaderMsgStatus False eBootloader_Error_InvalidPacketId m, s)))"

definition vHandle_LostPacketRecovery :: "u16 \<Rightarrow> 'w bl_sys \<Rightarrow> 'w bl_sys" where
  "vHandle_LostPacketRecovery pid s =
     (if \<not> fw_bLostPacketStateTriggered (sTFWImg s) then s
      else
        (case find_lost (lost_entries (sTFWImg s)) pid of
           None \<Rightarrow> s
         | Some i \<Rightarrow>
             if lp_bIsHandled (fw_staLostPacketIDs (sTFWImg s) ! i) then s
             else upd_img (\<lambda>f. f\<lparr>fw_staLostPacketIDs := (fw_staLostPacketIDs f)
                                   [i := (fw_staLostPacketIDs f ! i)\<lparr>lp_bIsHandled := True\<rparr>],
                                 fw_uiRecoveredPacketCount := fw_uiRecoveredPacketCount f + 1,
                                 fw_bLostPacketDetected := False\<rparr>) s))"

definition vEnter_LostPacketRecovery_Locked :: "('w, 'z) bl_platform_scheme \<Rightarrow> 'w bl_sys \<Rightarrow> 'w bl_sys" where
  "vEnter_LostPacketRecovery_Locked E s =
     vRefresh_BootloaderStateTimeOut_Locked E TIMEOUT_LOST_PACKET_RECOVERY_PROCESS_ms
       (vReinit_TxLostPacketInfo s)"

subsection \<open>A packet is written\<close>

text \<open>
  A turn of the write loop of \<open>vUpdate_FWImage\<close> ends in one of three ways: with the next block,
  by a \<open>break\<close>, or with the session aborted and \<open>goto exit\<close>.
\<close>

datatype fw_block_result = FWBlock_Next | FWBlock_Break | FWBlock_Exit

definition fail_session ::
  "('w, 'z) bl_platform_scheme \<Rightarrow> eT_Bootloader_ErrorCode \<Rightarrow> sT_Bootloader_CtrlMsg_t \<Rightarrow> 'w bl_sys
   \<Rightarrow> sT_Bootloader_CtrlMsg_t \<times> 'w bl_sys" where
  "fail_session E e m s = (vSet_BootloaderMsgStatus False e m, vAbort_BootloaderSession_Locked E s)"

text \<open>\<open>flash_area_write\<close> through the pointer \<open>flashArea\<close>, and \<open>flash_area_read\<close> likewise.\<close>

definition write_flash :: "('w, 'z) bl_platform_scheme \<Rightarrow> u32 \<Rightarrow> u8 list \<Rightarrow> 'w bl_sys \<Rightarrow> int \<times> 'w bl_sys" where
  "write_flash E off d s =
     (let (ret, w) = flash_area_write E off d (bl_world s)
      in (ret, s\<lparr>bl_world := w, bl_fault := bl_fault s \<or> \<not> bl_flashArea s\<rparr>))"

definition read_flash :: "('w, 'z) bl_platform_scheme \<Rightarrow> u32 \<Rightarrow> u32 \<Rightarrow> 'w bl_sys \<Rightarrow> (int \<times> u8 list) \<times> 'w bl_sys" where
  "read_flash E off n s =
     (let (r, w) = flash_area_read E off n (bl_world s)
      in (r, s\<lparr>bl_world := w, bl_fault := bl_fault s \<or> \<not> bl_flashArea s\<rparr>))"

definition update_running_crc :: "u8 list \<Rightarrow> 'w bl_sys \<Rightarrow> 'w bl_sys" where
  "update_running_crc d = upd_img (\<lambda>f. f\<lparr>fw_uiRunningCRC :=
     ucast (u16CRC16_CCITT_Update (ucast (fw_uiRunningCRC f)) d)\<rparr>)"

text \<open>The block at payload index \<open>idx\<close> of packet \<open>pid\<close>; \<open>avail\<close> is \<open>uiAvailableFlashSize\<close>.\<close>

definition vWrite_FWBlock ::
  "('w, 'z) bl_platform_scheme \<Rightarrow> u32 \<Rightarrow> u16 \<Rightarrow> nat \<Rightarrow> sT_Bootloader_CtrlMsg_t \<Rightarrow> 'w bl_sys
   \<Rightarrow> fw_block_result \<times> sT_Bootloader_CtrlMsg_t \<times> 'w bl_sys" where
  "vWrite_FWBlock E avail pid idx m s =
     (let off = ucast pid * DATA_PAYLOAD_PER_ONE_IMAGE_FRAME + of_nat (idx - 2);
          size = uiFWImgSize s
      in if off > avail then (FWBlock_Exit, fail_session E eBootloader_Error_FlashBoundsExceeded m s)
         else if off \<ge> size then (FWBlock_Break, m, s)
         else
           (let len = (if off + FW_IMG_WRITE_BYTE_LENGTH \<le> size then FW_IMG_WRITE_BYTE_LENGTH else size - off)
            in if off + FW_IMG_WRITE_BYTE_LENGTH > avail
                 then (FWBlock_Exit, fail_session E eBootloader_Error_FlashBoundsExceeded m s)
               else
                 (let d = take (unat len) (drop idx (bm_uiaData m));
                      blk = memcpy_list (replicate 16 0xFF) d;
                      s = (if \<not> fw_bLostPacketStateTriggered (sTFWImg s) then update_running_crc d s else s);
                      (ret, s) = write_flash E (FW_IMAGE_SECONDARY_SLOT_WRITE_OFFSET + off) blk s
                  in if ret \<noteq> 0 then (FWBlock_Exit, fail_session E eBootloader_Error_FlashAreaWriteFail m s)
                     else
                       (let s = upd_img (\<lambda>f. f\<lparr>fw_uiReceivedByteCount := fw_uiReceivedByteCount f + len\<rparr>) s
                        in if fw_uiReceivedByteCount (sTFWImg s) \<ge> size then (FWBlock_Break, m, s)
                           else (FWBlock_Next, m, s)))))"

text \<open>The loop over the payload; \<open>True\<close> when it is left by \<open>goto exit\<close>.\<close>

function vWrite_FWBlocks ::
  "('w, 'z) bl_platform_scheme \<Rightarrow> u32 \<Rightarrow> u16 \<Rightarrow> nat \<Rightarrow> sT_Bootloader_CtrlMsg_t \<Rightarrow> 'w bl_sys
   \<Rightarrow> bool \<times> sT_Bootloader_CtrlMsg_t \<times> 'w bl_sys" where
  "vWrite_FWBlocks E avail pid idx m s =
     (if idx < unat (bm_uiLen m) then
        (case vWrite_FWBlock E avail pid idx m s of
           (FWBlock_Next, m', s') \<Rightarrow> vWrite_FWBlocks E avail pid (idx + 16) m' s'
         | (FWBlock_Break, m', s') \<Rightarrow> (False, m', s')
         | (FWBlock_Exit, m', s') \<Rightarrow> (True, m', s'))
      else (False, m, s))"
  by pat_completeness auto
termination
proof (relation "measure (\<lambda>(E, avail, pid, idx, m, s). 256 - idx)", goal_cases)
  case (2 E avail pid idx m s)
  have "unat (bm_uiLen m) < 256" using unsigned_less [of "bm_uiLen m", where ?'a = nat] by simp
  with 2 show ?case by simp
qed simp

declare vWrite_FWBlocks.simps [simp del]

text \<open>
  The stages of the critical section of \<open>vUpdate_FWImage\<close>: may the packet be taken (\<open>bShouldContinue\<close>), the
  bookkeeping that starts its write, and the opening of the area for the first packet of a session.
\<close>

definition admit_packet ::
  "('w, 'z) bl_platform_scheme \<Rightarrow> u16 \<Rightarrow> sT_Bootloader_CtrlMsg_t \<Rightarrow> 'w bl_sys
   \<Rightarrow> bool \<times> sT_Bootloader_CtrlMsg_t \<times> 'w bl_sys" where
  "admit_packet E pid m s =
     (if fw_uiNextId (sTFWImg s) \<noteq> pid then vHandle_PacketId_Mismatch E pid m s else (True, m, s))"

definition begin_packet :: "u16 \<Rightarrow> sT_FWImg_Ctrl_t \<Rightarrow> sT_FWImg_Ctrl_t" where
  "begin_packet pid f = f\<lparr>fw_bIsFlashWritInProgress := True, fw_uiLastId := pid,
     fw_uiNextId := if pid \<ge> fw_uiNextId f then pid + 1 else fw_uiNextId f\<rparr>"

definition open_for_first :: "('w, 'z) bl_platform_scheme \<Rightarrow> bool \<Rightarrow> 'w bl_sys \<Rightarrow> int \<times> 'w bl_sys" where
  "open_for_first E bIsFirstPacket s =
     (if bIsFirstPacket
        then (let ((ret, fa), w) = flash_area_open E (bl_world s)
              in (ret, s\<lparr>bl_world := w, bl_flashArea := fa\<rparr>))
      else (0, s))"

text \<open>The first component is \<open>bCancelWork\<close>.\<close>

definition vUpdate_FWImage_Locked ::
  "('w, 'z) bl_platform_scheme \<Rightarrow> sT_Bootloader_CtrlMsg_t \<Rightarrow> 'w bl_sys
   \<Rightarrow> bool \<times> sT_Bootloader_CtrlMsg_t \<times> 'w bl_sys" where
  "vUpdate_FWImage_Locked E m s =
     (let pid = be16 (bm_uiaData m ! 0) (bm_uiaData m ! 1) in
      if eBtlState s \<noteq> eBootloader_State_FWImgWrite_InProg
        then (False, vSet_BootloaderMsgStatus False eBootloader_Error_UpdateInProgress m, s)
      else if fw_bIsFlashWritInProgress (sTFWImg s)
        then (False, vSet_BootloaderMsgStatus False eBootloader_Error_UpdateInProgress m, s)
      else if uiFlashAreaSize s \<le> FW_IMAGE_SECONDARY_SLOT_WRITE_OFFSET
        then (True, fail_session E eBootloader_Error_FlashBoundsExceeded m s)
      else
        (let avail = uiFlashAreaSize s - FW_IMAGE_SECONDARY_SLOT_WRITE_OFFSET;
             bIsFirstPacket = (fw_uiLastId (sTFWImg s) = 0 \<and> fw_uiNextId (sTFWImg s) = 0);
             (cont, m, s) = admit_packet E pid m s
         in if \<not> cont then (eBtlState s = eBootloader_State_Error, m, s)
            else
              (let (ret, s) = open_for_first E bIsFirstPacket (upd_img (begin_packet pid) s)
               in if ret \<noteq> 0 then (True, fail_session E eBootloader_Error_FlashAreaOpenFail m s)
                  else
                    (let (bExit, m, s) = vWrite_FWBlocks E avail pid 2 m s
                     in if bExit then (True, m, s)
                        else
                          (let s = upd_img (\<lambda>f. f\<lparr>fw_bIsFlashWritInProgress := False\<rparr>) s;
                               s = vHandle_LostPacketRecovery pid s
                           in (False, m, vRefresh_BootloaderStateTimeOut_Locked E TIMEOUT_FW_UPDATE_NextPacket_ms s))))))"

definition vUpdate_FWImage ::
  "('w, 'z) bl_platform_scheme \<Rightarrow> sT_Bootloader_CtrlMsg_t \<Rightarrow> 'w bl_sys \<Rightarrow> sT_Bootloader_CtrlMsg_t \<times> 'w bl_sys" where
  "vUpdate_FWImage E m s =
     (if bm_uiLen m \<noteq> FW_IMG_PACKET_DATA_LENGTH
        then (vSet_BootloaderMsgStatus False eBootloader_Error_InvalidPayloadLength m, s)
      else
        (let (bCancelWork, m, s) = vUpdate_FWImage_Locked E m s
         in (m, if bCancelWork then cancel_both E s else s)))"

subsection \<open>The end of the image\<close>

text \<open>
  The read-back loop of \<open>vValidate_FWImgCRC_FromFLash_AtLostPacketState\<close>: \<open>n\<close> bytes are left
  from offset \<open>off\<close> on, \<open>retry\<close> reads have failed. \<open>False\<close> when the third read fails. A turn either
  reads at least one byte or counts a failure.
\<close>

function vRead_Back :: "('w, 'z) bl_platform_scheme \<Rightarrow> u32 \<Rightarrow> u32 \<Rightarrow> nat \<Rightarrow> 'w bl_sys \<Rightarrow> bool \<times> 'w bl_sys" where
  "vRead_Back E off n retry s =
     (if n > 0 then
        (let len = (if n \<ge> 48 then 48 else n);
             ((ret, d), s) = read_flash E off len s
         in if ret \<noteq> 0
              then (if retry + 1 \<ge> 3 then (False, s)
                    else vRead_Back E off n (retry + 1) (upd_world (k_msleep E 5) s))
            else vRead_Back E (off + len) (n - len) retry (update_running_crc d s))
      else (True, s))"
  by pat_completeness auto
termination
proof (relation "measure (\<lambda>(E, off, n, retry, s). unat n + (3 - retry))", goal_cases)
  case (3 E off n retry s len)
  then have "unat (n - len) < unat n"
    by (auto simp: unat_sub word_le_nat_alt word_less_nat_alt split: if_splits)
  then show ?case by simp
qed simp_all

declare vRead_Back.simps [simp del]

definition vValidate_FWImgCRC_FromFLash_AtLostPacketState ::
  "('w, 'z) bl_platform_scheme \<Rightarrow> 'w bl_sys \<Rightarrow> (bool \<times> eT_Bootloader_ErrorCode) \<times> 'w bl_sys" where
  "vValidate_FWImgCRC_FromFLash_AtLostPacketState E s =
     (if \<not> fw_bLostPacketStateTriggered (sTFWImg s) then ((False, eBootloader_Error_UndefinedBehavior), s)
      else if fw_uiRecoveredPacketCount (sTFWImg s) < fw_uiLostPacketCount (sTFWImg s)
        then ((False, eBootloader_Error_UndefinedBehavior), s)
      else
        (let lost = DATA_PAYLOAD_PER_ONE_IMAGE_FRAME * ucast (fw_uiFirstLostPacketId (sTFWImg s));
             (ok, s) = vRead_Back E (lost + FW_IMAGE_SECONDARY_SLOT_WRITE_OFFSET) (uiFWImgSize s - lost) 0 s
         in if \<not> ok then ((False, eBootloader_Error_FlashAreaReadFail), s)
            else
              (if fw_uiRunningCRC (sTFWImg s) \<noteq> ucast (bt_uiCRC (bl_mgmt s))
                 then (False, eBootloader_Error_CrcMismatch) else (True, eBootloader_Error_None),
               upd_img (\<lambda>f. f\<lparr>fw_bLostPacketStateTriggered := False\<rparr>) s)))"

text \<open>The loop around \<open>boot_request_upgrade\<close>: \<open>True\<close> when one of the turns that are left succeeds.\<close>

fun request_upgrade_loop :: "('w, 'z) bl_platform_scheme \<Rightarrow> nat \<Rightarrow> 'w \<Rightarrow> bool \<times> 'w" where
  "request_upgrade_loop E 0 w = (False, w)"
| "request_upgrade_loop E (Suc n) w =
     (let (ret, w) = boot_request_upgrade E w
      in if ret = 0 then (True, w) else request_upgrade_loop E n (k_msleep E 10 w))"

definition vRequest_MCUbootImageUpgrade ::
  "('w, 'z) bl_platform_scheme \<Rightarrow> sT_Bootloader_CtrlMsg_t \<Rightarrow> 'w bl_sys \<Rightarrow> sT_Bootloader_CtrlMsg_t \<times> 'w bl_sys" where
  "vRequest_MCUbootImageUpgrade E m s =
     (let (ok, w) = request_upgrade_loop E BOOTLOADER_MAX_REQUEST_UPGRADE_TURNs (bl_world s);
          s = s\<lparr>bl_world := w\<rparr>
      in if \<not> ok then (vSet_BootloaderMsgStatus False eBootloader_Error_UpgradeRequestFail m,
                      vAbort_BootloaderSession E s)
         else (vSet_BootloaderMsgStatus True eBootloader_Error_None m,
               vRefresh_BootloaderStateTimeOut_Locked E TIMEOUT_REBOOT_CONFIRMATION_ms
                 (vSet_BootloaderState E eBootloader_State_Reboot s)))"

definition vExecute_Bootloader_FWImgWrite_Completed ::
  "('w, 'z) bl_platform_scheme \<Rightarrow> sT_Bootloader_CtrlMsg_t \<Rightarrow> 'w bl_sys \<Rightarrow> sT_Bootloader_CtrlMsg_t \<times> 'w bl_sys" where
  "vExecute_Bootloader_FWImgWrite_Completed E m s =
     (let (first, s) = bIsFirstEntry s;
          s = (if first then close_flash E (vCancel_BootloaderStateTimeOut E s) else s)
      in case bm_eCMD m of
           eBootloader_CMD_FWUpEnd \<Rightarrow> vRequest_MCUbootImageUpgrade E m s
         | _ \<Rightarrow> (m, s))"

text \<open>
  The critical section of \<open>vFinalize_FWImageWrite\<close>. Its result is what the exit label acts on:
  neither flag, \<open>bCancelWork\<close>, or \<open>bProcessCompletedState\<close>.
\<close>

datatype finalize_exit = Finalize_Nothing | Finalize_CancelWork | Finalize_ProcessCompleted

definition mark_completed :: "'w bl_sys \<Rightarrow> 'w bl_sys" where
  "mark_completed s = vInvalidate_BootloaderStateTimeOut_Locked
     (upd_mgmt (\<lambda>b. b\<lparr>bt_eBtlState := eBootloader_State_FWImgWrite_Completed, bt_bIsFirstEntry := True\<rparr>) s)"

definition vFinalize_Check ::
  "('w, 'z) bl_platform_scheme \<Rightarrow> sT_Bootloader_CtrlMsg_t \<Rightarrow> 'w bl_sys
   \<Rightarrow> finalize_exit \<times> sT_Bootloader_CtrlMsg_t \<times> 'w bl_sys" where
  "vFinalize_Check E m s =
     (if fw_bLostPacketStateTriggered (sTFWImg s) then
        (if uiGet_PendingLostPacketCount (sTFWImg s) > 0
           then (Finalize_Nothing, vSet_BootloaderMsgStatus False eBootloader_Error_MissingPacketsPending m,
                 vEnter_LostPacketRecovery_Locked E s)
         else if fw_uiReceivedByteCount (sTFWImg s) \<noteq> uiFWImgSize s
           then (Finalize_CancelWork, fail_session E eBootloader_Error_ImageIncomplete m s)
         else
           (let ((bShouldMarkCompleted, eErrorCode), s) = vValidate_FWImgCRC_FromFLash_AtLostPacketState E s
            in if \<not> bShouldMarkCompleted then (Finalize_CancelWork, fail_session E eErrorCode m s)
               else (Finalize_ProcessCompleted, m, mark_completed s)))
      else if fw_uiReceivedByteCount (sTFWImg s) \<noteq> uiFWImgSize s
        then (Finalize_CancelWork, fail_session E eBootloader_Error_ImageIncomplete m s)
      else if fw_uiRunningCRC (sTFWImg s) \<noteq> ucast (bt_uiCRC (bl_mgmt s))
        then (Finalize_CancelWork, fail_session E eBootloader_Error_CrcMismatch m s)
      else (Finalize_ProcessCompleted, m, mark_completed s))"

definition expected_packets :: "'w bl_sys \<Rightarrow> u32" where
  "expected_packets s = (uiFWImgSize s + DATA_PAYLOAD_PER_ONE_IMAGE_FRAME - 1) div DATA_PAYLOAD_PER_ONE_IMAGE_FRAME"

definition vFinalize_Locked ::
  "('w, 'z) bl_platform_scheme \<Rightarrow> sT_Bootloader_CtrlMsg_t \<Rightarrow> 'w bl_sys
   \<Rightarrow> finalize_exit \<times> sT_Bootloader_CtrlMsg_t \<times> 'w bl_sys" where
  "vFinalize_Locked E m s =
     (if eBtlState s \<noteq> eBootloader_State_FWImgWrite_InProg
        then (Finalize_Nothing, vSet_BootloaderMsgStatus False eBootloader_Error_UpdateInProgress m, s)
      else if expected_packets s > 0xFFFF
        then (Finalize_CancelWork, fail_session E eBootloader_Error_ImageTooLarge m s)
      else if ucast (fw_uiNextId (sTFWImg s)) < expected_packets s then
        (let (cont, m, s) = bCanHandleMissingPackets E (ucast (expected_packets s)) m s
         in if \<not> cont then (Finalize_CancelWork, m, s) else vFinalize_Check E m s)
      else vFinalize_Check E m s)"

definition vFinalize_FWImageWrite ::
  "('w, 'z) bl_platform_scheme \<Rightarrow> sT_Bootloader_CtrlMsg_t \<Rightarrow> 'w bl_sys \<Rightarrow> sT_Bootloader_CtrlMsg_t \<times> 'w bl_sys" where
  "vFinalize_FWImageWrite E m s =
     (case vFinalize_Locked E m s of
        (Finalize_Nothing, m, s) \<Rightarrow> (m, s)
      | (Finalize_CancelWork, m, s) \<Rightarrow> (m, cancel_both E s)
      | (Finalize_ProcessCompleted, m, s) \<Rightarrow>
          vExecute_Bootloader_FWImgWrite_Completed E m (cancel_work E stBtlStateTimeOut_Work_t s))"

subsection \<open>Reporting lost packets to the host\<close>

definition vSet_TxState :: "eT_Bootloader_TxState \<Rightarrow> 'w bl_sys \<Rightarrow> 'w bl_sys" where
  "vSet_TxState st = upd_tx (\<lambda>t. t\<lparr>lt_eTxState := st\<rparr>)"

definition bSchedule_LostPacketTimeouts :: "('w, 'z) bl_platform_scheme \<Rightarrow> 'w bl_sys \<Rightarrow> bool \<times> 'w bl_sys" where
  "bSchedule_LostPacketTimeouts E s =
     (if eBtlState s = eBootloader_State_FWImgWrite_InProg \<and>
         (lt_eTxState (sTTxLostPacketInfo s) = eBootloader_Tx_InProgress \<or>
          lt_eTxState (sTTxLostPacketInfo s) = eBootloader_Tx_RetryInProgress)
      then (True, vRefresh_BootloaderStateTimeOut_Locked E TIMEOUT_LOST_PACKET_RECOVERY_PROCESS_ms
                    (upd_world (k_work_reschedule E stBtlTxTimeOut_Work_t TIMEOUT_LOST_PACKET_TX_ms) s))
      else (False, s))"

definition vProcess_Bootloader_TxError :: "('w, 'z) bl_platform_scheme \<Rightarrow> 'w bl_sys \<Rightarrow> 'w bl_sys" where
  "vProcess_Bootloader_TxError E s =
     (case eBtlState s of
        eBootloader_State_FWImgWrite_InProg \<Rightarrow>
          vAbort_BootloaderSession E (cancel_work E stBtlTxTimeOut_Work_t s)
      | _ \<Rightarrow> s)"

definition vProcess_Bootloader_RetryTx :: "('w, 'z) bl_platform_scheme \<Rightarrow> 'w bl_sys \<Rightarrow> 'w bl_sys" where
  "vProcess_Bootloader_RetryTx E s =
     (if lt_eTxState (sTTxLostPacketInfo s) \<noteq> eBootloader_Tx_RetryInProgress then s
      else if lt_uiRetryCount (sTTxLostPacketInfo s) \<ge> BOOTLOADER_TX_Retry_MAX_COUNT
        then vProcess_Bootloader_TxError E s
      else
        (let (m, w) = send_plain E (bl_can s) (lt_stTCANTxMsg_t (sTTxLostPacketInfo s)) (bl_world s);
             s = s\<lparr>bl_world := w\<rparr>;
             s = upd_tx (\<lambda>t. t\<lparr>lt_uiRetryCount := lt_uiRetryCount t + 1,
                               lt_eTxState := eBootloader_Tx_RetryInProgress\<rparr>) s
         in snd (bSchedule_LostPacketTimeouts E s)))"

definition vBtlTxTimeOutHandler :: "('w, 'z) bl_platform_scheme \<Rightarrow> 'w bl_sys \<Rightarrow> 'w bl_sys" where
  "vBtlTxTimeOutHandler E s =
     (if lt_eTxState (sTTxLostPacketInfo s) \<noteq> eBootloader_Tx_RetryInProgress \<and>
         lt_eTxState (sTTxLostPacketInfo s) \<noteq> eBootloader_Tx_InProgress
        then cancel_work E stBtlTxTimeOut_Work_t s
      else if lt_uiRetryCount (sTTxLostPacketInfo s) \<ge> BOOTLOADER_TX_Retry_MAX_COUNT
        then vProcess_Bootloader_TxError E s
      else vProcess_Bootloader_RetryTx E (vSet_TxState eBootloader_Tx_RetryInProgress s))"

text \<open>\<open>eAck\<close> is the byte of the message read as an acknowledgement; \<open>None\<close> fails the range check.\<close>

definition vHandle_LostPacketInfo_TxResponse ::
  "('w, 'z) bl_platform_scheme \<Rightarrow> eT_CANACK_Ctrl option \<Rightarrow> u8 \<Rightarrow> 'w bl_sys \<Rightarrow> 'w bl_sys" where
  "vHandle_LostPacketInfo_TxResponse E eAck seq s =
     (case eAck of
        None \<Rightarrow> s
      | Some ack \<Rightarrow>
          (case tx_puiData (lt_stTCANTxMsg_t (sTTxLostPacketInfo s)) of
             None \<Rightarrow> s
           | Some d \<Rightarrow>
               if tx_uiLen (lt_stTCANTxMsg_t (sTTxLostPacketInfo s)) < 3 then s
               else if lt_eTxState (sTTxLostPacketInfo s) = eBootloader_Tx_Idle then s
               else if seq \<noteq> d ! 2 then s
               else
                 (case ack of
                    eCAN_ACK \<Rightarrow> vSet_TxState eBootloader_Tx_Idle
                      (upd_tx (\<lambda>t. t\<lparr>lt_uiRetryCount := 0\<rparr>) (cancel_work E stBtlTxTimeOut_Work_t s))
                  | eCAN_NACK \<Rightarrow> vProcess_Bootloader_RetryTx E (vSet_TxState eBootloader_Tx_RetryInProgress s))))"

definition vHandle_ACK_ForLostPacketInfo ::
  "('w, 'z) bl_platform_scheme \<Rightarrow> sT_Bootloader_CtrlMsg_t \<Rightarrow> 'w bl_sys \<Rightarrow> sT_Bootloader_CtrlMsg_t \<times> 'w bl_sys" where
  "vHandle_ACK_ForLostPacketInfo E m s =
     (if bm_eCMD m \<noteq> eBootloader_CMD_RetLostPacketInfo
        then (vSet_BootloaderMsgStatus False eBootloader_Error_InvalidCommand m, s)
      else (m\<lparr>bm_bIsACKReq := False\<rparr>,
            vHandle_LostPacketInfo_TxResponse E (can_ack_of_byte (bm_uiaData m ! 0)) (bm_uiaData m ! 1) s))"

definition vHandle_HostAcknowledgements ::
  "('w, 'z) bl_platform_scheme \<Rightarrow> sT_Bootloader_CtrlMsg_t \<Rightarrow> 'w bl_sys \<Rightarrow> sT_Bootloader_CtrlMsg_t \<times> 'w bl_sys" where
  "vHandle_HostAcknowledgements E m s =
     (case bm_eCMD m of
        eBootloader_CMD_RetLostPacketInfo \<Rightarrow> vHandle_ACK_ForLostPacketInfo E m s
      | _ \<Rightarrow> (vSet_BootloaderMsgStatus False eBootloader_Error_InvalidCommand m, s))"

text \<open>
  The loop of \<open>vGet_LostPacketInfo\<close> over the entries in use: each unhandled id is stored high byte first at
  \<open>idx\<close>, as long as two more bytes fit.
\<close>

fun fill_lost_ids :: "sT_LostPacketCtrl_t list \<Rightarrow> nat \<Rightarrow> u8 list \<Rightarrow> nat \<times> u8 list" where
  "fill_lost_ids [] idx d = (idx, d)"
| "fill_lost_ids (e # es) idx d =
     (if \<not> idx + 1 < CAN_MSG_MAX_SIZE then (idx, d)
      else if lp_bIsHandled e then fill_lost_ids es idx d
      else fill_lost_ids es (idx + 2)
             (d[idx := hi8 (lp_uiPacketId e), idx + 1 := lo8 (lp_uiPacketId e)]))"

text \<open>The message built before it is handed to \<open>vSend_CANMessage\<close>.\<close>

definition lost_info_msg :: "sT_FWImg_Ctrl_t \<Rightarrow> sT_CAN_TXMsg_t" where
  "lost_info_msg f =
     (let pending = uiGet_PendingLostPacketCount f;
          d = (replicate CAN_MSG_MAX_SIZE 0)
                [0 := bootloader_cmd_val eBootloader_CMD_RetLostPacketInfo, 1 := pending];
          (idx, d) = (if pending \<noteq> 0 then fill_lost_ids (lost_entries f) 4 d else (4, d));
          d = d[2 := lt_uiFrameSeq (fw_stTxLostPacketInfo f), 3 := of_nat (idx - 4)]
      in zero_tx_msg\<lparr>tx_uiID := FW_IMAGE_HOST_DEVICE_ID, tx_uiLen := of_nat idx, tx_puiData := Some d\<rparr>)"

text \<open>Both outcomes of the submission keep the message, its data copied to \<open>uiaTxData\<close>.\<close>

definition keep_tx_msg :: "sT_CAN_TXMsg_t \<Rightarrow> sT_FWImg_LostPacketTx_t \<Rightarrow> sT_FWImg_LostPacketTx_t" where
  "keep_tx_msg m t =
     (let buf = memcpy_list (lt_uiaTxData t) (tx_payload m)
      in t\<lparr>lt_uiaTxData := buf, lt_stTCANTxMsg_t := m\<lparr>tx_puiData := Some buf\<rparr>\<rparr>)"

definition vGet_LostPacketInfo ::
  "('w, 'z) bl_platform_scheme \<Rightarrow> sT_Bootloader_CtrlMsg_t \<Rightarrow> 'w bl_sys \<Rightarrow> sT_Bootloader_CtrlMsg_t \<times> 'w bl_sys" where
  "vGet_LostPacketInfo E m s =
     (if bm_eCMD m \<noteq> eBootloader_CMD_GetLostPacketInfo
        then (vSet_BootloaderMsgStatus False eBootloader_Error_InvalidCommand m, s)
      else if lt_eTxState (sTTxLostPacketInfo s) \<noteq> eBootloader_Tx_Idle
        then (vSet_BootloaderMsgStatus False eBootloader_Error_UpgradeRequestFail m, s)
      else
        (let s = vSet_TxState eBootloader_Tx_InProgress s;
             (txm, w) = send_plain E (bl_can s) (lost_info_msg (sTFWImg s)) (bl_world s);
             s = s\<lparr>bl_world := w\<rparr>;
             s = (if tx_eTxResult txm \<noteq> eCAN_TxSubmit_Queued
                  then upd_tx (\<lambda>t. (keep_tx_msg txm t)\<lparr>lt_eTxState := eBootloader_Tx_RetryInProgress,
                                     lt_uiRetryCount := lt_uiRetryCount t + 1\<rparr>) s
                  else upd_tx (\<lambda>t. (keep_tx_msg txm t)\<lparr>lt_uiFrameSeq := lt_uiFrameSeq t + 1\<rparr>) s)
         in (m, snd (bSchedule_LostPacketTimeouts E s))))"

subsection \<open>The state machine\<close>

definition vStop_FWUpgradeProcess ::
  "('w, 'z) bl_platform_scheme \<Rightarrow> sT_Bootloader_CtrlMsg_t \<Rightarrow> 'w bl_sys \<Rightarrow> sT_Bootloader_CtrlMsg_t \<times> 'w bl_sys" where
  "vStop_FWUpgradeProcess E m s =
     (vSet_BootloaderMsgStatus True eBootloader_Error_None m, vAbort_BootloaderSession E s)"

definition vExecute_Bootloader_FWImgWrite_State ::
  "('w, 'z) bl_platform_scheme \<Rightarrow> sT_Bootloader_CtrlMsg_t \<Rightarrow> 'w bl_sys \<Rightarrow> sT_Bootloader_CtrlMsg_t \<times> 'w bl_sys" where
  "vExecute_Bootloader_FWImgWrite_State E m s =
     (if \<not> bt_bIsInitialized (bl_mgmt s) then (m, s)
      else
        (case bm_eCMD m of
           eBootloader_CMD_FWUpStop \<Rightarrow> vStop_FWUpgradeProcess E m s
         | eBootloader_CMD_FWUpEnd \<Rightarrow> vFinalize_FWImageWrite E m s
         | eBootloader_CMD_FWUpMsg \<Rightarrow> vUpdate_FWImage E m s
         | eBootloader_CMD_GetLostPacketInfo \<Rightarrow> vGet_LostPacketInfo E m s
         | _ \<Rightarrow> (vSet_BootloaderMsgStatus False eBootloader_Error_InvalidCommand m, s)))"

definition vExecute_Bootloader_Reboot :: "('w, 'z) bl_platform_scheme \<Rightarrow> 'w bl_sys \<Rightarrow> 'w bl_sys" where
  "vExecute_Bootloader_Reboot E s = upd_world (sys_reboot E) (vCancel_BootloaderStateTimeOut E s)"

definition vExecute_Bootloader_ErrorState ::
  "('w, 'z) bl_platform_scheme \<Rightarrow> sT_Bootloader_CtrlMsg_t \<Rightarrow> 'w bl_sys \<Rightarrow> sT_Bootloader_CtrlMsg_t \<times> 'w bl_sys" where
  "vExecute_Bootloader_ErrorState E m s =
     (let (first, s) = bIsFirstEntry s in
      case bm_eCMD m of
        eBootloader_CMD_RecoverFromError \<Rightarrow>
          (vSet_BootloaderMsgStatus True eBootloader_Error_None m, vReinit_BootloaderStateMachine E s)
      | _ \<Rightarrow> (vSet_BootloaderMsgStatus False eBootloader_Error_InvalidCommand m, s))"

text \<open>The dispatch of a message; the dispatch mutex makes it one step.\<close>

definition vUpdateBootloader ::
  "('w, 'z) bl_platform_scheme \<Rightarrow> sT_Bootloader_CtrlMsg_t \<Rightarrow> 'w bl_sys \<Rightarrow> sT_Bootloader_CtrlMsg_t \<times> 'w bl_sys" where
  "vUpdateBootloader E m s =
     (case eBtlState s of
        eBootloader_State_Inactive \<Rightarrow> (m, s)
      | eBootloader_State_Idle \<Rightarrow> vExecute_Bootloader_IdleState E m s
      | eBootloader_State_FWImgWrite_InProg \<Rightarrow> vExecute_Bootloader_FWImgWrite_State E m s
      | eBootloader_State_FWImgWrite_Completed \<Rightarrow> vExecute_Bootloader_FWImgWrite_Completed E m s
      | eBootloader_State_Reboot \<Rightarrow> (m, vExecute_Bootloader_Reboot E s)
      | eBootloader_State_Error \<Rightarrow> vExecute_Bootloader_ErrorState E m s
      | eBootloader_State_WaitForAuth_Response \<Rightarrow> (m, s))"

definition vBtlState_TimeOutHandler :: "('w, 'z) bl_platform_scheme \<Rightarrow> 'w bl_sys \<Rightarrow> 'w bl_sys" where
  "vBtlState_TimeOutHandler E s =
     (if \<not> bl_bBootloaderStateTimeoutArmed s then s
      else
        (let (now, w) = k_uptime_get E (bl_world s);
             s = s\<lparr>bl_world := w\<rparr>;
             iRemainingTime_ms = bl_iBootloaderStateDeadline_ms s - now
         in if iRemainingTime_ms > 0
              then upd_world (k_work_reschedule E stBtlStateTimeOut_Work_t iRemainingTime_ms) s
            else
              (let s = vInvalidate_BootloaderStateTimeOut_Locked s in
               if eBtlState s = eBootloader_State_Reboot then upd_world (sys_reboot E) s
               else cancel_work E stBtlTxTimeOut_Work_t (vAbort_BootloaderSession_Locked E s))))"

subsection \<open>Steps of the running system\<close>

text \<open>
  What can happen to the bootloader after its initialisation: a message is dispatched, the host
  acknowledges, one of the two delayed work items runs, the CAN controller changes its
  configuration, or the rest of the world moves by \<open>R\<close>.
\<close>

inductive bl_step :: "('w, 'z) bl_platform_scheme \<Rightarrow> ('w \<Rightarrow> 'w \<Rightarrow> bool) \<Rightarrow> 'w bl_sys \<Rightarrow> 'w bl_sys \<Rightarrow> bool"
  for E :: "('w, 'z) bl_platform_scheme" and R :: "'w \<Rightarrow> 'w \<Rightarrow> bool" where
  step_dispatch: "length (bm_uiaData m) = 64 \<Longrightarrow> vUpdateBootloader E m s = (m', s') \<Longrightarrow> bl_step E R s s'"
| step_host_ack: "length (bm_uiaData m) = 64 \<Longrightarrow> vHandle_HostAcknowledgements E m s = (m', s') \<Longrightarrow> bl_step E R s s'"
| step_state_timeout: "bl_step E R s (vBtlState_TimeOutHandler E s)"
| step_tx_timeout: "bl_step E R s (vBtlTxTimeOutHandler E s)"
| step_can: "bl_step E R s (s\<lparr>bl_can := cfg\<rparr>)"
| step_world: "R (bl_world s) w \<Longrightarrow> bl_step E R s (s\<lparr>bl_world := w\<rparr>)"

inductive bl_reach :: "('w, 'z) bl_platform_scheme \<Rightarrow> ('w \<Rightarrow> 'w \<Rightarrow> bool) \<Rightarrow> 'w bl_sys \<Rightarrow> bool"
  for E :: "('w, 'z) bl_platform_scheme" and R :: "'w \<Rightarrow> 'w \<Rightarrow> bool" where
  reach_init: "bl_mgmt s0 = zero_mgmt \<Longrightarrow> \<not> bl_flashArea s0 \<Longrightarrow> \<not> bl_fault s0 \<Longrightarrow>
     bInit_BootloaderController E s0 = (True, s) \<Longrightarrow> bl_reach E R s"
| reach_step: "bl_reach E R s \<Longrightarrow> bl_step E R s s' \<Longrightarrow> bl_reach E R s'"

inductive_cases bl_stepE: "bl_step E R s s'"

end
