(* ===== verification/Bootloader_Lost.thy ===== *)
theory Bootloader_Lost
  imports Bootloader_Ops
begin

text \<open>
  The lost packet table: its invariant \<open>lost_ok\<close>, what appending and recovering entries does to it,
  the counting loop and the report frame.
\<close>

subsection \<open>The invariant\<close>

definition lost_ok :: "sT_FWImg_Ctrl_t \<Rightarrow> bool" where
  "lost_ok f \<longleftrightarrow> length (fw_staLostPacketIDs f) = 100 \<and> unat (fw_uiLostPacketCount f) \<le> 100
     \<and> sorted_wrt (<) (map lp_uiPacketId (lost_entries f))
     \<and> (\<forall>e \<in> set (lost_entries f). fw_uiFirstLostPacketId f \<le> lp_uiPacketId e \<and> lp_uiPacketId e < fw_uiNextId f)
     \<and> unat (fw_uiRecoveredPacketCount f) = length (filter lp_bIsHandled (lost_entries f))
     \<and> (fw_bLostPacketStateTriggered f \<longleftrightarrow> fw_uiLostPacketCount f \<noteq> 0)"

lemma lost_okD:
  assumes "lost_ok f"
  shows "length (fw_staLostPacketIDs f) = 100" and "unat (fw_uiLostPacketCount f) \<le> 100"
    and "sorted_wrt (<) (map lp_uiPacketId (lost_entries f))"
    and "\<And>e. e \<in> set (lost_entries f) \<Longrightarrow> lp_uiPacketId e < fw_uiNextId f"
    and "\<And>e. e \<in> set (lost_entries f) \<Longrightarrow> fw_uiFirstLostPacketId f \<le> lp_uiPacketId e"
    and "unat (fw_uiRecoveredPacketCount f) = length (filter lp_bIsHandled (lost_entries f))"
    and "fw_bLostPacketStateTriggered f \<longleftrightarrow> fw_uiLostPacketCount f \<noteq> 0"
  using assms by (auto simp: lost_ok_def)

lemma length_lost_entries: "lost_ok f \<Longrightarrow> length (lost_entries f) = unat (fw_uiLostPacketCount f)"
  by (simp add: lost_ok_def lost_entries_def)

lemma lost_ok_distinct: "lost_ok f \<Longrightarrow> distinct (map lp_uiPacketId (lost_entries f))"
  by (drule lost_okD(3)) (simp add: strict_sorted_iff)

lemma lost_ok_empty: "length (fw_staLostPacketIDs f) = 100 \<Longrightarrow> fw_uiLostPacketCount f = 0
    \<Longrightarrow> fw_uiRecoveredPacketCount f = 0 \<Longrightarrow> \<not> fw_bLostPacketStateTriggered f \<Longrightarrow> lost_ok f"
  by (simp add: lost_ok_def lost_entries_def)

text \<open>Only six fields matter.\<close>

lemma lost_ok_cong:
  assumes "fw_staLostPacketIDs f' = fw_staLostPacketIDs f"
    and "fw_uiLostPacketCount f' = fw_uiLostPacketCount f"
    and "fw_uiRecoveredPacketCount f' = fw_uiRecoveredPacketCount f"
    and "fw_uiFirstLostPacketId f' = fw_uiFirstLostPacketId f"
    and "fw_bLostPacketStateTriggered f' = fw_bLostPacketStateTriggered f"
    and "fw_uiNextId f \<le> fw_uiNextId f'"
    and "lost_ok f"
  shows "lost_ok f'"
  using assms by (auto simp: lost_ok_def lost_entries_def intro: less_le_trans)

subsection \<open>Searching and counting\<close>

lemma find_lost_Some:
  "find_lost es pid = Some i \<Longrightarrow> i < length es \<and> lp_uiPacketId (es ! i) = pid"
  by (induction es arbitrary: i) (auto split: if_splits)

lemma find_lost_None: "find_lost es pid = None \<longleftrightarrow> pid \<notin> lp_uiPacketId ` set es"
  by (induction es) auto

lemma find_lost_nth:
  "distinct (map lp_uiPacketId es) \<Longrightarrow> i < length es \<Longrightarrow> find_lost es (lp_uiPacketId (es ! i)) = Some i"
proof (induction es arbitrary: i)
  case (Cons e es)
  show ?case
  proof (cases i)
    case (Suc j)
    with Cons.prems have "lp_uiPacketId (es ! j) \<in> lp_uiPacketId ` set es" by simp
    with Cons Suc show ?thesis by auto
  qed simp
qed simp

lemma pending_foldl: "foldl (\<lambda>c e. if \<not> lp_bIsHandled e then c + 1 else c) (a :: u8) es
    = a + of_nat (length (filter (\<lambda>e. \<not> lp_bIsHandled e) es))"
  by (induction es arbitrary: a) (simp_all add: algebra_simps)

lemma pending_count:
  assumes "lost_ok f"
  shows "unat (uiGet_PendingLostPacketCount f) = length (filter (\<lambda>e. \<not> lp_bIsHandled e) (lost_entries f))"
proof -
  have "length (filter (\<lambda>e. \<not> lp_bIsHandled e) (lost_entries f)) \<le> 100"
    using length_filter_le [of "\<lambda>e. \<not> lp_bIsHandled e" "lost_entries f"] length_lost_entries [OF assms]
      lost_okD(2) [OF assms] by linarith
  then show ?thesis
    by (simp add: uiGet_PendingLostPacketCount_def pending_foldl unat_of_nat_small)
qed

lemma pending_zero:
  assumes "lost_ok f"
  shows "uiGet_PendingLostPacketCount f = 0 \<longleftrightarrow> (\<forall>e \<in> set (lost_entries f). lp_bIsHandled e)"
proof -
  have "uiGet_PendingLostPacketCount f = 0 \<longleftrightarrow> unat (uiGet_PendingLostPacketCount f) = 0"
    by (simp add: unat_eq_zero)
  then show ?thesis by (simp add: pending_count [OF assms] filter_empty_conv)
qed

text \<open>Pending and recovered packets make up the table.\<close>

lemma pending_plus_recovered:
  assumes "lost_ok f"
  shows "unat (uiGet_PendingLostPacketCount f) + unat (fw_uiRecoveredPacketCount f) = unat (fw_uiLostPacketCount f)"
  using sum_length_filter_compl [of lp_bIsHandled "lost_entries f"]
  by (simp add: pending_count [OF assms] lost_okD(6) [OF assms] length_lost_entries [OF assms, symmetric])

subsection \<open>Appending entries\<close>

definition missing_entries :: "u16 \<Rightarrow> nat \<Rightarrow> sT_LostPacketCtrl_t list" where
  "missing_entries pid n = map (\<lambda>k. \<lparr>lp_bIsHandled = False, lp_uiPacketId = pid + of_nat k\<rparr>) [0..<n]"

lemma append_lost_frame [simp]:
  "fw_uiNextId (append_lost i f) = fw_uiNextId f"
  "fw_uiReceivedByteCount (append_lost i f) = fw_uiReceivedByteCount f"
  "fw_uiRunningCRC (append_lost i f) = fw_uiRunningCRC f"
  "fw_uiFirstLostPacketId (append_lost i f) = fw_uiFirstLostPacketId f"
  "fw_uiRecoveredPacketCount (append_lost i f) = fw_uiRecoveredPacketCount f"
  "fw_bLostPacketStateTriggered (append_lost i f) = fw_bLostPacketStateTriggered f"
  "fw_bIsFlashWritInProgress (append_lost i f) = fw_bIsFlashWritInProgress f"
  "fw_stTxLostPacketInfo (append_lost i f) = fw_stTxLostPacketInfo f"
  "fw_uiLastId (append_lost i f) = fw_uiLastId f"
  "length (fw_staLostPacketIDs (append_lost i f)) = length (fw_staLostPacketIDs f)"
  by (simp_all add: append_lost_def)

lemma append_lost_loop_frame [simp]:
  "fw_uiNextId (append_lost_loop i n f) = fw_uiNextId f"
  "fw_uiReceivedByteCount (append_lost_loop i n f) = fw_uiReceivedByteCount f"
  "fw_uiRunningCRC (append_lost_loop i n f) = fw_uiRunningCRC f"
  "fw_uiFirstLostPacketId (append_lost_loop i n f) = fw_uiFirstLostPacketId f"
  "fw_uiRecoveredPacketCount (append_lost_loop i n f) = fw_uiRecoveredPacketCount f"
  "fw_bLostPacketStateTriggered (append_lost_loop i n f) = fw_bLostPacketStateTriggered f"
  "fw_bIsFlashWritInProgress (append_lost_loop i n f) = fw_bIsFlashWritInProgress f"
  "fw_stTxLostPacketInfo (append_lost_loop i n f) = fw_stTxLostPacketInfo f"
  "fw_uiLastId (append_lost_loop i n f) = fw_uiLastId f"
  "length (fw_staLostPacketIDs (append_lost_loop i n f)) = length (fw_staLostPacketIDs f)"
  by (induction i n f rule: append_lost_loop.induct) simp_all


lemma lost_entries_append_lost:
  assumes "length (fw_staLostPacketIDs f) = 100" and "unat (fw_uiLostPacketCount f) < 100"
  shows "unat (fw_uiLostPacketCount (append_lost i f)) = unat (fw_uiLostPacketCount f) + 1"
    and "lost_entries (append_lost i f)
       = lost_entries f @ [\<lparr>lp_bIsHandled = False, lp_uiPacketId = fw_uiNextId f + of_nat i\<rparr>]"
proof -
  show c: "unat (fw_uiLostPacketCount (append_lost i f)) = unat (fw_uiLostPacketCount f) + 1"
    using assms(2) by (simp add: append_lost_def unat_Suc_small)
  show "lost_entries (append_lost i f)
       = lost_entries f @ [\<lparr>lp_bIsHandled = False, lp_uiPacketId = fw_uiNextId f + of_nat i\<rparr>]"
    unfolding lost_entries_def c using assms
    by (simp add: append_lost_def take_Suc_conv_app_nth)
qed

lemma lost_entries_append_loop:
  assumes "length (fw_staLostPacketIDs f) = 100" and "unat (fw_uiLostPacketCount f) + n \<le> 100"
  shows "unat (fw_uiLostPacketCount (append_lost_loop i n f)) = unat (fw_uiLostPacketCount f) + n"
    and "lost_entries (append_lost_loop i n f) = lost_entries f
       @ map (\<lambda>k. \<lparr>lp_bIsHandled = False, lp_uiPacketId = fw_uiNextId f + of_nat k\<rparr>) [i..<i + n]"
  using assms
proof (induction i n f rule: append_lost_loop.induct)
  case (2 i n f)
  {
    case 1
    then have "unat (fw_uiLostPacketCount f) < 100" by simp
    with 1 2(1) lost_entries_append_lost(1) [of f i] show ?case by simp
  next
    case 2
    then have "unat (fw_uiLostPacketCount f) < 100" by simp
    moreover have "[i..<i + Suc n] = i # [Suc i..<Suc i + n]" by (simp add: upt_conv_Cons)
    ultimately show ?case using 2 "2.IH"(2) lost_entries_append_lost [of f i] by simp
  }
qed simp_all

subsection \<open>A gap is recorded\<close>

text \<open>What \<open>bCanHandleMissingPackets\<close> does to the record when the table has room.\<close>

definition mark_lost :: "u16 \<Rightarrow> sT_FWImg_Ctrl_t \<Rightarrow> sT_FWImg_Ctrl_t" where
  "mark_lost pid f =
     (let g = append_lost_loop 0 (unat pid - unat (fw_uiNextId f)) f
      in g\<lparr>fw_uiFirstLostPacketId := if fw_bLostPacketStateTriggered f then fw_uiFirstLostPacketId f else fw_uiNextId f,
           fw_bLostPacketStateTriggered := True, fw_uiNextId := pid, fw_bLostPacketDetected := True\<rparr>)"

definition lost_fits :: "u16 \<Rightarrow> sT_FWImg_Ctrl_t \<Rightarrow> bool" where
  "lost_fits pid f \<longleftrightarrow> unat (fw_uiLostPacketCount f) + (unat pid - unat (fw_uiNextId f)) \<le> 100"

lemma mark_lost_simps [simp]:
  "fw_uiNextId (mark_lost pid f) = pid"
  "fw_uiReceivedByteCount (mark_lost pid f) = fw_uiReceivedByteCount f"
  "fw_uiRunningCRC (mark_lost pid f) = fw_uiRunningCRC f"
  "fw_uiFirstLostPacketId (mark_lost pid f)
     = (if fw_bLostPacketStateTriggered f then fw_uiFirstLostPacketId f else fw_uiNextId f)"
  "fw_uiRecoveredPacketCount (mark_lost pid f) = fw_uiRecoveredPacketCount f"
  "fw_bLostPacketStateTriggered (mark_lost pid f)"
  "fw_bIsFlashWritInProgress (mark_lost pid f) = fw_bIsFlashWritInProgress f"
  "fw_stTxLostPacketInfo (mark_lost pid f) = fw_stTxLostPacketInfo f"
  "fw_uiLastId (mark_lost pid f) = fw_uiLastId f"
  "length (fw_staLostPacketIDs (mark_lost pid f)) = length (fw_staLostPacketIDs f)"
  by (simp_all add: mark_lost_def Let_def)

lemma lost_entries_mark_lost:
  assumes "length (fw_staLostPacketIDs f) = 100" and "lost_fits pid f"
  shows "unat (fw_uiLostPacketCount (mark_lost pid f))
       = unat (fw_uiLostPacketCount f) + (unat pid - unat (fw_uiNextId f))"
    and "lost_entries (mark_lost pid f)
       = lost_entries f @ missing_entries (fw_uiNextId f) (unat pid - unat (fw_uiNextId f))"
  using lost_entries_append_loop [of f "unat pid - unat (fw_uiNextId f)" 0] assms
  by (simp_all add: mark_lost_def Let_def lost_fits_def lost_entries_def missing_entries_def)


lemma missing_entries_ids:
  assumes "e \<in> set (missing_entries a (unat (b :: u16) - unat a))"
  shows "a \<le> lp_uiPacketId e \<and> lp_uiPacketId e < b \<and> \<not> lp_bIsHandled e"
proof -
  from assms obtain k where k: "k < unat b - unat a" and e: "e = \<lparr>lp_bIsHandled = False, lp_uiPacketId = a + of_nat k\<rparr>"
    by (auto simp: missing_entries_def)
  have small: "k < 2 ^ LENGTH(16)" "unat a + k < 2 ^ LENGTH(16)" using k unat_lt_u16 [of b] by auto
  have "unat (a + of_nat k) = unat a + k"
    by (subst unat_add_small) (use small in \<open>simp_all add: unat_of_nat_small\<close>)
  with k e show ?thesis by (simp add: word_le_nat_alt word_less_nat_alt)
qed

lemma missing_entries_sorted:
  "sorted_wrt (<) (map lp_uiPacketId (missing_entries a (unat (b :: u16) - unat a)))"
proof -
  have "a + of_nat k < a + of_nat l" if "k < l" "l < unat b - unat a" for k l
  proof -
    have small: "k < 2 ^ LENGTH(16)" "l < 2 ^ LENGTH(16)" "unat a + k < 2 ^ LENGTH(16)" "unat a + l < 2 ^ LENGTH(16)"
      using that unat_lt_u16 [of b] by auto
    have "unat (a + of_nat k) = unat a + k" "unat (a + of_nat l) = unat a + l"
      by (subst unat_add_small; use small in \<open>simp add: unat_of_nat_small\<close>)+
    with that show ?thesis by (simp add: word_less_nat_alt)
  qed
  then show ?thesis by (simp add: missing_entries_def comp_def sorted_wrt_iff_nth_less)
qed

lemma missing_entries_unhandled [simp]: "filter lp_bIsHandled (missing_entries a n) = []"
  by (simp add: missing_entries_def filter_empty_conv)

lemma length_missing_entries [simp]: "length (missing_entries a n) = n"
  by (simp add: missing_entries_def)

lemma lost_ok_first_le_next:
  assumes "lost_ok f" and "fw_bLostPacketStateTriggered f"
  shows "fw_uiFirstLostPacketId f < fw_uiNextId f"
proof -
  have "unat (fw_uiLostPacketCount f) \<noteq> 0" using assms by (simp add: lost_ok_def unat_eq_zero)
  with length_lost_entries [OF assms(1)] obtain e where "e \<in> set (lost_entries f)"
    by (cases "lost_entries f") auto
  then show ?thesis using lost_okD(4,5) [OF assms(1)] by (meson le_less_trans)
qed

lemma mark_lost_ok:
  assumes ok: "lost_ok f" and lt: "fw_uiNextId f < pid" and fits: "lost_fits pid f"
  shows "lost_ok (mark_lost pid f)"
proof -
  let ?a = "fw_uiNextId f" and ?m = "missing_entries (fw_uiNextId f) (unat pid - unat (fw_uiNextId f))"
  note tab = lost_okD(1) [OF ok]
  note cnt = lost_entries_mark_lost(1) [OF tab fits] and ent = lost_entries_mark_lost(2) [OF tab fits]
  have new: "e \<in> set ?m \<Longrightarrow> ?a \<le> lp_uiPacketId e \<and> lp_uiPacketId e < pid" for e
    using missing_entries_ids [of e ?a pid] by simp
  have first: "fw_uiFirstLostPacketId (mark_lost pid f) \<le> ?a"
    using lost_ok_first_le_next [OF ok] by auto
  have old: "fw_uiFirstLostPacketId (mark_lost pid f) \<le> lp_uiPacketId e" if "e \<in> set (lost_entries f)" for e
  proof -
    have "fw_bLostPacketStateTriggered f"
      using that lost_okD(7) [OF ok] length_lost_entries [OF ok] by (cases "fw_uiLostPacketCount f = 0") auto
    then show ?thesis using lost_okD(5) [OF ok that] by simp
  qed
  have "sorted_wrt (<) (map lp_uiPacketId (lost_entries f @ ?m))"
    using lost_okD(3,4) [OF ok] new missing_entries_sorted [of ?a pid]
    by (auto simp: sorted_wrt_append intro: less_le_trans)
  moreover have "\<forall>e \<in> set (lost_entries f @ ?m). fw_uiFirstLostPacketId (mark_lost pid f) \<le> lp_uiPacketId e \<and> lp_uiPacketId e < pid"
    using lost_okD(4) [OF ok] lt new old first by (auto intro: order_trans less_trans)
  moreover have "fw_uiLostPacketCount (mark_lost pid f) \<noteq> 0"
    using cnt lt by (auto simp: word_less_nat_alt)
  ultimately show ?thesis
    using fits tab lost_okD(6) [OF ok] by (simp add: lost_ok_def ent cnt lost_fits_def)
qed


lemma bCanHandleMissingPackets_eq:
  assumes "fw_uiNextId (sTFWImg s) \<le> pid"
  shows "bCanHandleMissingPackets E pid m s =
    (if lost_fits pid (sTFWImg s) then (True, m, upd_img (mark_lost pid) s)
     else (False, vSet_BootloaderMsgStatus False eBootloader_Error_InvalidPacketId m,
           vAbort_BootloaderSession_Locked E s))"
proof -
  let ?N = "fw_uiNextId (sTFWImg s)"
  have le: "unat ?N \<le> unat pid" using assms by (simp add: word_le_nat_alt)
  have diff: "uint pid - uint ?N = int (unat pid - unat ?N)"
    by (simp only: of_nat_diff [OF le] uint_nat)
  have next_id: "?N + of_nat (unat pid - unat ?N) = pid"
    by (simp add: of_nat_diff [OF le])
  have fits: "\<not> uint (fw_uiLostPacketCount (sTFWImg s)) + (uint pid - uint ?N) > 100 \<longleftrightarrow> lost_fits pid (sTFWImg s)"
    unfolding diff lost_fits_def by (simp only: uint_nat) linarith
  show ?thesis
    unfolding bCanHandleMissingPackets_def Let_def
    using fits by (cases "lost_fits pid (sTFWImg s)") (simp_all add: diff mark_lost_def Let_def next_id)
qed

subsection \<open>A lost packet arrives\<close>

text \<open>The record after \<open>vHandle_LostPacketRecovery\<close>.\<close>

definition mark_handled :: "nat \<Rightarrow> sT_FWImg_Ctrl_t \<Rightarrow> sT_FWImg_Ctrl_t" where
  "mark_handled i f =
     f\<lparr>fw_staLostPacketIDs := (fw_staLostPacketIDs f)[i := (fw_staLostPacketIDs f ! i)\<lparr>lp_bIsHandled := True\<rparr>],
       fw_uiRecoveredPacketCount := fw_uiRecoveredPacketCount f + 1, fw_bLostPacketDetected := False\<rparr>"

definition recover_img :: "u16 \<Rightarrow> sT_FWImg_Ctrl_t \<Rightarrow> sT_FWImg_Ctrl_t" where
  "recover_img pid f =
     (case find_lost (lost_entries f) pid of
        None \<Rightarrow> f
      | Some i \<Rightarrow> if fw_bLostPacketStateTriggered f \<and> \<not> lp_bIsHandled (lost_entries f ! i) then mark_handled i f else f)"

lemma vHandle_LostPacketRecovery_eq: "vHandle_LostPacketRecovery pid s = upd_img (recover_img pid) s"
proof (cases "find_lost (lost_entries (sTFWImg s)) pid")
  case (Some i)
  then have "lost_entries (sTFWImg s) ! i = fw_staLostPacketIDs (sTFWImg s) ! i"
    using find_lost_Some [OF Some] by (simp add: lost_entries_def)
  with Some show ?thesis
    by (simp add: vHandle_LostPacketRecovery_def recover_img_def mark_handled_def)
qed (simp add: vHandle_LostPacketRecovery_def recover_img_def)

lemma mark_handled_simps [simp]:
  "fw_uiNextId (mark_handled i f) = fw_uiNextId f"
  "fw_uiReceivedByteCount (mark_handled i f) = fw_uiReceivedByteCount f"
  "fw_uiRunningCRC (mark_handled i f) = fw_uiRunningCRC f"
  "fw_uiFirstLostPacketId (mark_handled i f) = fw_uiFirstLostPacketId f"
  "fw_uiLostPacketCount (mark_handled i f) = fw_uiLostPacketCount f"
  "fw_bLostPacketStateTriggered (mark_handled i f) = fw_bLostPacketStateTriggered f"
  "fw_bIsFlashWritInProgress (mark_handled i f) = fw_bIsFlashWritInProgress f"
  "fw_stTxLostPacketInfo (mark_handled i f) = fw_stTxLostPacketInfo f"
  "fw_uiLastId (mark_handled i f) = fw_uiLastId f"
  "fw_uiRecoveredPacketCount (mark_handled i f) = fw_uiRecoveredPacketCount f + 1"
  by (simp_all add: mark_handled_def)

lemma recover_img_simps [simp]:
  "fw_uiNextId (recover_img pid f) = fw_uiNextId f"
  "fw_uiReceivedByteCount (recover_img pid f) = fw_uiReceivedByteCount f"
  "fw_uiRunningCRC (recover_img pid f) = fw_uiRunningCRC f"
  "fw_uiFirstLostPacketId (recover_img pid f) = fw_uiFirstLostPacketId f"
  "fw_uiLostPacketCount (recover_img pid f) = fw_uiLostPacketCount f"
  "fw_bLostPacketStateTriggered (recover_img pid f) = fw_bLostPacketStateTriggered f"
  "fw_bIsFlashWritInProgress (recover_img pid f) = fw_bIsFlashWritInProgress f"
  "fw_stTxLostPacketInfo (recover_img pid f) = fw_stTxLostPacketInfo f"
  "fw_uiLastId (recover_img pid f) = fw_uiLastId f"
  by (simp_all add: recover_img_def split: option.split)

lemma lost_entries_mark_handled:
  "i < length (lost_entries f) \<Longrightarrow>
   lost_entries (mark_handled i f) = (lost_entries f)[i := (lost_entries f ! i)\<lparr>lp_bIsHandled := True\<rparr>]"
  by (simp add: lost_entries_def mark_handled_def take_update_swap)

lemma ids_mark_handled:
  "i < length (lost_entries f) \<Longrightarrow> map lp_uiPacketId (lost_entries (mark_handled i f)) = map lp_uiPacketId (lost_entries f)"
  by (simp add: lost_entries_mark_handled map_update) (metis list_update_id map_update nth_map length_map)

lemma length_filter_set:
  "i < length xs \<Longrightarrow> \<not> P (xs ! i) \<Longrightarrow> P y \<Longrightarrow> length (filter P (xs[i := y])) = length (filter P xs) + 1"
  by (induction xs arbitrary: i) (auto split: nat.split)

lemma mark_handled_ok:
  assumes ok: "lost_ok f" and i: "i < length (lost_entries f)" and pend: "\<not> lp_bIsHandled (lost_entries f ! i)"
  shows "lost_ok (mark_handled i f)"
proof -
  let ?es = "lost_entries f"
  note ent = lost_entries_mark_handled [OF i]
  have rec: "length (filter lp_bIsHandled (lost_entries (mark_handled i f))) = length (filter lp_bIsHandled ?es) + 1"
    unfolding ent by (rule length_filter_set) (use i pend in auto)
  moreover have "length (filter lp_bIsHandled (lost_entries (mark_handled i f))) \<le> 100"
    using length_filter_le [of lp_bIsHandled "lost_entries (mark_handled i f)"] ent length_lost_entries [OF ok]
      lost_okD(2) [OF ok] by simp
  ultimately have cnt: "unat (fw_uiRecoveredPacketCount f + 1) = length (filter lp_bIsHandled (lost_entries (mark_handled i f)))"
    by (subst unat_Suc_small) (simp_all add: lost_okD(6) [OF ok])
  have ids: "lp_uiPacketId ` set (lost_entries (mark_handled i f)) = lp_uiPacketId ` set ?es"
    using ids_mark_handled [OF i] by (metis set_map)
  have "\<forall>p \<in> lp_uiPacketId ` set ?es. fw_uiFirstLostPacketId f \<le> p \<and> p < fw_uiNextId f"
    using lost_okD(4,5) [OF ok] by auto
  then have bounds: "\<forall>e \<in> set (lost_entries (mark_handled i f)). fw_uiFirstLostPacketId f \<le> lp_uiPacketId e \<and> lp_uiPacketId e < fw_uiNextId f"
    unfolding ids [symmetric] by auto
  have "length (fw_staLostPacketIDs (mark_handled i f)) = 100"
    by (simp add: mark_handled_def lost_okD(1) [OF ok])
  with cnt bounds ids_mark_handled [OF i] ok show ?thesis by (simp add: lost_ok_def)
qed

lemma recover_img_ok: "lost_ok f \<Longrightarrow> lost_ok (recover_img pid f)"
  by (auto simp: recover_img_def mark_handled_ok split: option.split dest: find_lost_Some)


subsection \<open>The report frame\<close>

definition id_bytes :: "sT_LostPacketCtrl_t \<Rightarrow> u8 list" where
  "id_bytes e = [hi8 (lp_uiPacketId e), lo8 (lp_uiPacketId e)]"

abbreviation "pending_entries f \<equiv> filter (\<lambda>e. \<not> lp_bIsHandled e) (lost_entries f)"

lemma take_list_update_two:
  "idx + 1 < length d \<Longrightarrow> take (idx + 2) (d[idx := x, idx + 1 := y]) = take idx d @ [x, y]"
  by (simp add: numeral_2_eq_2 take_Suc_conv_app_nth)

lemma fill_lost_ids_result:
  assumes "length d = 64" and "idx + 2 * room = 64"
  shows "fill_lost_ids es idx d = (i, d') \<Longrightarrow>
     length d' = 64 \<and> i = idx + 2 * length (take room (filter (\<lambda>e. \<not> lp_bIsHandled e) es))
     \<and> take i d' = take idx d @ concat (map id_bytes (take room (filter (\<lambda>e. \<not> lp_bIsHandled e) es)))"
  using assms
proof (induction es idx d arbitrary: room rule: fill_lost_ids.induct)
  case (2 e es idx d)
  show ?case
  proof (cases "idx + 1 < 64")
    case False
    with "2.prems"(3) have "room = 0" by simp
    with False "2.prems" show ?thesis by auto
  next
    case room: True
    then obtain r where r: "room = Suc r" using "2.prems"(3) by (cases room) auto
    show ?thesis
    proof (cases "lp_bIsHandled e")
      case True
      with room "2.IH"(1) [of room] "2.prems" show ?thesis by auto
    next
      case False
      let ?d = "d[idx := hi8 (lp_uiPacketId e), idx + 1 := lo8 (lp_uiPacketId e)]"
      have "take (idx + 2) ?d = take idx d @ id_bytes e"
        unfolding id_bytes_def by (rule take_list_update_two) (use room "2.prems"(2) in simp)
      moreover have "fill_lost_ids es (idx + 2) ?d = (i, d')"
        using room False "2.prems"(1) by simp
      ultimately show ?thesis
        using "2.IH"(2) [of r] room False r "2.prems" by auto
    qed
  qed
qed simp

text \<open>
  The report to the host lists lost packets exactly: the frame carries the command,
  the number of pending packets, the frame number, the number of id bytes, and the ids of the
  first thirty packets that are still missing, in ascending order, high byte first.
\<close>

theorem lost_report_frame:
  assumes "lost_ok f"
  shows "tx_payload (lost_info_msg f)
       = [27, of_nat (length (pending_entries f)), lt_uiFrameSeq (fw_stTxLostPacketInfo f),
          of_nat (2 * min 30 (length (pending_entries f)))]
         @ concat (map id_bytes (take 30 (pending_entries f)))"
    (is "_ = ?head @ ?ids")
proof -
  let ?pend = "uiGet_PendingLostPacketCount f" and ?seq = "lt_uiFrameSeq (fw_stTxLostPacketInfo f)"
  let ?n = "length (pending_entries f)"
  let ?d = "(replicate 64 0)[0 := 27, 1 := ?pend]"
  obtain i d' where fill: "fill_lost_ids (lost_entries f) 4 ?d = (i, d')" by fastforce
  have res: "length d' = 64 \<and> i = 4 + 2 * length (take 30 (pending_entries f))
      \<and> take i d' = take 4 ?d @ ?ids"
    by (rule fill_lost_ids_result [OF _ _ fill]) simp_all
  then have i: "i = 4 + 2 * min 30 ?n" by auto
  then have "i \<le> 64" by simp
  then have small: "unat (of_nat i :: u8) = i" by (simp add: unat_of_nat_small)
  have cnt: "?pend = of_nat ?n"
    using pending_count [OF assms] by (metis of_nat_unat ucast_id)
  have head: "take 4 ?d = [27, ?pend, 0, 0]" by (simp add: numeral_eq_Suc)
  have frame: "take i (d'[2 := ?seq, 3 := of_nat (i - 4)]) = ?head @ ?ids"
  proof -
    have "take i d' = [27, ?pend, 0, 0] @ ?ids" using res head by metis
    then have "take i (d'[2 := ?seq, 3 := of_nat (i - 4)]) = [27, ?pend, ?seq, of_nat (i - 4)] @ ?ids"
      unfolding take_update_swap by (simp add: numeral_eq_Suc)
    then show ?thesis using i cnt by simp
  qed
  show ?thesis
  proof (cases "?pend = 0")
    case True
    then have "pending_entries f = []" using pending_zero [OF assms] by (simp add: filter_empty_conv)
    with True show ?thesis
      by (simp add: lost_info_msg_def tx_payload_def zero_tx_msg_def) (simp add: numeral_eq_Suc)
  next
    case False
    with frame fill small show ?thesis
      by (simp add: lost_info_msg_def tx_payload_def Let_def)
  qed
qed

text \<open>A session in which packet 0 arrived and then packet 3.\<close>

definition sample_gap :: sT_FWImg_Ctrl_t where
  "sample_gap = mark_lost 3 (zero_img_ctrl\<lparr>fw_uiNextId := 1\<rparr>)"

lemma sample_gap_ok: "lost_ok sample_gap"
  unfolding sample_gap_def
proof (rule mark_lost_ok)
  show "lost_ok (zero_img_ctrl\<lparr>fw_uiNextId := 1\<rparr>)"
    by (rule lost_ok_empty) (simp_all add: zero_img_ctrl_def zero_lost_table_def)
qed (simp_all add: zero_img_ctrl_def lost_fits_def)

lemma sample_gap_entries:
  "lost_entries sample_gap = [\<lparr>lp_bIsHandled = False, lp_uiPacketId = 1\<rparr>, \<lparr>lp_bIsHandled = False, lp_uiPacketId = 2\<rparr>]"
proof -
  let ?f = "zero_img_ctrl\<lparr>fw_uiNextId := 1\<rparr>"
  have "lost_entries ?f = []" by (simp add: lost_entries_def zero_img_ctrl_def)
  moreover have "missing_entries 1 2 = [\<lparr>lp_bIsHandled = False, lp_uiPacketId = 1\<rparr>, \<lparr>lp_bIsHandled = False, lp_uiPacketId = 2\<rparr>]"
    by (simp add: missing_entries_def numeral_2_eq_2)
  ultimately show ?thesis
    using lost_entries_mark_lost(2) [of ?f 3]
    by (simp add: sample_gap_def lost_fits_def zero_img_ctrl_def zero_lost_table_def)
qed

theorem lost_report_frame_witness:
  "lost_ok sample_gap \<and> tx_payload (lost_info_msg sample_gap) = [27, 2, 0, 4, 0, 1, 0, 2]"
proof -
  have "fw_stTxLostPacketInfo sample_gap = zero_lost_tx" by (simp add: sample_gap_def zero_img_ctrl_def)
  then show ?thesis
    using lost_report_frame [OF sample_gap_ok] sample_gap_ok
    by (simp add: sample_gap_entries id_bytes_def hi8_def lo8_def zero_lost_tx_def)
qed

end
