(* ===== verification/Bootloader_Invariants.thy ===== *)
theory Bootloader_Invariants
  imports Bootloader_Lost
begin

text \<open>
  What every routine of the bootloader keeps, from the single assignments up to the step
  relation: states, timeouts, flags, the transmission record and the lost packet table.
\<close>

subsection \<open>Fields after the small routines\<close>

lemma cancel_work_simps [simp]:
  "bl_mgmt (cancel_work E wk s) = bl_mgmt s"
  "bl_flashArea (cancel_work E wk s) = bl_flashArea s"
  "bl_bBootloaderStateTimeoutArmed (cancel_work E wk s) = bl_bBootloaderStateTimeoutArmed s"
  "bl_iBootloaderStateDeadline_ms (cancel_work E wk s) = bl_iBootloaderStateDeadline_ms s"
  "bl_can (cancel_work E wk s) = bl_can s"
  "bl_fault (cancel_work E wk s) = bl_fault s"
  "bl_world (cancel_work E wk s) = k_work_cancel_delayable E wk (bl_world s)"
  by (simp_all add: cancel_work_def)

lemma refresh_simps [simp]:
  "bl_mgmt (vRefresh_BootloaderStateTimeOut_Locked E t s) = bl_mgmt s"
  "bl_flashArea (vRefresh_BootloaderStateTimeOut_Locked E t s) = bl_flashArea s"
  "bl_bBootloaderStateTimeoutArmed (vRefresh_BootloaderStateTimeOut_Locked E t s)"
  "bl_can (vRefresh_BootloaderStateTimeOut_Locked E t s) = bl_can s"
  "bl_fault (vRefresh_BootloaderStateTimeOut_Locked E t s) = bl_fault s"
  "bl_iBootloaderStateDeadline_ms (vRefresh_BootloaderStateTimeOut_Locked E t s)
     = fst (k_uptime_get E (bl_world s)) + t"
  "bl_world (vRefresh_BootloaderStateTimeOut_Locked E t s)
     = k_work_reschedule E stBtlStateTimeOut_Work_t t (snd (k_uptime_get E (bl_world s)))"
  by (simp_all add: vRefresh_BootloaderStateTimeOut_Locked_def split: prod.split)

lemma invalidate_simps [simp]:
  "bl_mgmt (vInvalidate_BootloaderStateTimeOut_Locked s) = bl_mgmt s"
  "bl_flashArea (vInvalidate_BootloaderStateTimeOut_Locked s) = bl_flashArea s"
  "\<not> bl_bBootloaderStateTimeoutArmed (vInvalidate_BootloaderStateTimeOut_Locked s)"
  "bl_iBootloaderStateDeadline_ms (vInvalidate_BootloaderStateTimeOut_Locked s) = 0"
  "bl_can (vInvalidate_BootloaderStateTimeOut_Locked s) = bl_can s"
  "bl_fault (vInvalidate_BootloaderStateTimeOut_Locked s) = bl_fault s"
  "bl_world (vInvalidate_BootloaderStateTimeOut_Locked s) = bl_world s"
  by (simp_all add: vInvalidate_BootloaderStateTimeOut_Locked_def)

lemma close_flash_simps [simp]:
  "bl_mgmt (close_flash E s) = bl_mgmt s"
  "\<not> bl_flashArea (close_flash E s)"
  "bl_bBootloaderStateTimeoutArmed (close_flash E s) = bl_bBootloaderStateTimeoutArmed s"
  "bl_can (close_flash E s) = bl_can s"
  "bl_fault (close_flash E s) = bl_fault s"
  "bl_world (close_flash E s) = (if bl_flashArea s then flash_area_close E (bl_world s) else bl_world s)"
  by (simp_all add: close_flash_def)

text \<open>The image control record of a bootloader without a session.\<close>

definition fresh_img :: sT_FWImg_Ctrl_t where
  "fresh_img = zero_img_ctrl\<lparr>fw_uiRunningCRC := 0xFFFF\<rparr>"

lemma clear_progress_img:
  "fw_stTxLostPacketInfo (sTFWImg s) = zero_lost_tx \<Longrightarrow> sTFWImg (clear_progress s) = fresh_img"
  by (simp add: clear_progress_def fresh_img_def zero_img_ctrl_def)

lemma clear_progress_img_tx:
  "sTFWImg (clear_progress s) = fresh_img\<lparr>fw_stTxLostPacketInfo := fw_stTxLostPacketInfo (sTFWImg s)\<rparr>"
  by (simp add: clear_progress_def fresh_img_def zero_img_ctrl_def)

lemma reinit_tx_img:
  "sTFWImg (vReinit_TxLostPacketInfo s) = (sTFWImg s)\<lparr>fw_stTxLostPacketInfo := zero_lost_tx\<rparr>"
  by (simp add: vReinit_TxLostPacketInfo_def zero_lost_tx_def)

text \<open>The manager record after an abort or a reinitialisation.\<close>

definition reset_mgmt :: "eT_Bootloader_State \<Rightarrow> bool \<Rightarrow> sT_Bootloader_Mgmt_t \<Rightarrow> sT_Bootloader_Mgmt_t" where
  "reset_mgmt st first b = zero_mgmt\<lparr>bt_eBtlState := st, bt_bIsFirstEntry := first,
     bt_bIsInitialized := bt_bIsInitialized b, bt_uiFlashAreaSize := bt_uiFlashAreaSize b,
     bt_stTBTLAuthCtrl := bt_stTBTLAuthCtrl b, bt_stTFWImgCtrl_t := fresh_img\<rparr>"

lemmas reset_ops = clear_image_data_def clear_progress_def vReinit_TxLostPacketInfo_def

lemma abort_simps [simp]:
  "bl_mgmt (vAbort_BootloaderSession_Locked E s) = reset_mgmt eBootloader_State_Error False (bl_mgmt s)"
  "\<not> bl_flashArea (vAbort_BootloaderSession_Locked E s)"
  "\<not> bl_bBootloaderStateTimeoutArmed (vAbort_BootloaderSession_Locked E s)"
  "bl_can (vAbort_BootloaderSession_Locked E s) = bl_can s"
  "bl_fault (vAbort_BootloaderSession_Locked E s) = bl_fault s"
  "bl_world (vAbort_BootloaderSession_Locked E s)
     = (if bl_flashArea s then flash_area_close E (bl_world s) else bl_world s)"
  by (simp_all add: vAbort_BootloaderSession_Locked_def Let_def reset_ops reset_mgmt_def zero_mgmt_def
        fresh_img_def zero_img_ctrl_def zero_lost_tx_def)

lemma reinit_simps [simp]:
  "bl_mgmt (vReinit_BootloaderStateMachine E s) = reset_mgmt eBootloader_State_Idle True (bl_mgmt s)"
  "\<not> bl_flashArea (vReinit_BootloaderStateMachine E s)"
  "\<not> bl_bBootloaderStateTimeoutArmed (vReinit_BootloaderStateMachine E s)"
  "bl_can (vReinit_BootloaderStateMachine E s) = bl_can s"
  "bl_fault (vReinit_BootloaderStateMachine E s) = bl_fault s"
  by (simp_all add: vReinit_BootloaderStateMachine_def Let_def reset_ops reset_mgmt_def zero_mgmt_def
        fresh_img_def zero_img_ctrl_def zero_lost_tx_def cancel_both_def)

lemma reset_mgmt_simps [simp]:
  "bt_eBtlState (reset_mgmt st first b) = st"
  "bt_bIsFirstEntry (reset_mgmt st first b) = first"
  "bt_bIsInitialized (reset_mgmt st first b) = bt_bIsInitialized b"
  "bt_uiFlashAreaSize (reset_mgmt st first b) = bt_uiFlashAreaSize b"
  "bt_uiFWImgSize (reset_mgmt st first b) = 0"
  "bt_stTFWImgCtrl_t (reset_mgmt st first b) = fresh_img"
  by (simp_all add: reset_mgmt_def zero_mgmt_def)

lemma cancel_both_simps [simp]:
  "bl_mgmt (cancel_both E s) = bl_mgmt s"
  "bl_flashArea (cancel_both E s) = bl_flashArea s"
  "bl_bBootloaderStateTimeoutArmed (cancel_both E s) = bl_bBootloaderStateTimeoutArmed s"
  "bl_can (cancel_both E s) = bl_can s"
  "bl_fault (cancel_both E s) = bl_fault s"
  by (simp_all add: cancel_both_def)

subsection \<open>Cases of the packet path\<close>

lemma fail_session_simps [simp]:
  "fst (fail_session E e m s) = vSet_BootloaderMsgStatus False e m"
  "snd (fail_session E e m s) = vAbort_BootloaderSession_Locked E s"
  by (simp_all add: fail_session_def)

lemma admit_cases:
  assumes "admit_packet E pid m s = (c, m', s')"
  obtains (in_order) "c" "fw_uiNextId (sTFWImg s) = pid" "m' = m" "s' = s"
  | (gap) "c" "fw_uiNextId (sTFWImg s) < pid" "lost_fits pid (sTFWImg s)" "m' = m" "s' = upd_img (mark_lost pid) s"
  | (lost) i where "c" "pid < fw_uiNextId (sTFWImg s)" "find_lost (lost_entries (sTFWImg s)) pid = Some i"
      "\<not> lp_bIsHandled (lost_entries (sTFWImg s) ! i)" "m' = m" "s' = s"
  | (overflow) "\<not> c" "fw_uiNextId (sTFWImg s) < pid" "\<not> lost_fits pid (sTFWImg s)"
      "m' = vSet_BootloaderMsgStatus False eBootloader_Error_InvalidPacketId m" "s' = vAbort_BootloaderSession_Locked E s"
  | (refused) "\<not> c" "pid < fw_uiNextId (sTFWImg s)"
      "m' = vSet_BootloaderMsgStatus False eBootloader_Error_InvalidPacketId m" "s' = s"
proof (cases "fw_uiNextId (sTFWImg s)" pid rule: linorder_cases)
  case less
  then have "(c, m', s') = bCanHandleMissingPackets E pid m s"
    using assms less_imp_neq [OF less] by (simp add: admit_packet_def vHandle_PacketId_Mismatch_def)
  with less show ?thesis
    by (auto simp: bCanHandleMissingPackets_eq split: if_splits intro: gap overflow)
next
  case equal
  with assms show ?thesis by (intro in_order) (simp_all add: admit_packet_def)
next
  case greater
  with assms show ?thesis
    by (auto simp: admit_packet_def vHandle_PacketId_Mismatch_def split: option.splits if_splits
             intro: lost refused)
qed

text \<open>The offset of a block in the image, the bytes it carries and how many of them count.\<close>

definition block_off :: "u16 \<Rightarrow> nat \<Rightarrow> u32" where
  "block_off pid idx = ucast pid * 48 + of_nat (idx - 2)"

definition block_len :: "u32 \<Rightarrow> u32 \<Rightarrow> u32" where
  "block_len sz off = (if off + 16 \<le> sz then 16 else sz - off)"

definition block_data :: "sT_Bootloader_CtrlMsg_t \<Rightarrow> nat \<Rightarrow> u32 \<Rightarrow> u8 list" where
  "block_data m idx len = take (unat len) (drop idx (bm_uiaData m))"

definition crc_unless_lost :: "u8 list \<Rightarrow> 'w bl_sys \<Rightarrow> 'w bl_sys" where
  "crc_unless_lost d s = (if \<not> fw_bLostPacketStateTriggered (sTFWImg s) then update_running_crc d s else s)"

definition count_received :: "u32 \<Rightarrow> 'w bl_sys \<Rightarrow> 'w bl_sys" where
  "count_received n = upd_img (\<lambda>f. f\<lparr>fw_uiReceivedByteCount := fw_uiReceivedByteCount f + n\<rparr>)"

lemma block_cases:
  assumes "vWrite_FWBlock E avail pid idx m s = (r, m', s')"
  obtains (exit) e t where "r = FWBlock_Exit" "(m', s') = fail_session E e m t"
      "bt_bIsInitialized (bl_mgmt t) = bt_bIsInitialized (bl_mgmt s)" "uiFlashAreaSize t = uiFlashAreaSize s"
  | (past_end) "r = FWBlock_Break" "uiFWImgSize s \<le> block_off pid idx" "block_off pid idx \<le> avail" "m' = m" "s' = s"
  | (written) len d t where "block_off pid idx < uiFWImgSize s" "block_off pid idx \<le> avail" "block_off pid idx + 16 \<le> avail"
      "len = block_len (uiFWImgSize s) (block_off pid idx)" "d = block_data m idx len"
      "write_flash E (0x2000 + block_off pid idx) (memcpy_list (replicate 16 0xFF) d) (crc_unless_lost d s) = (0, t)"
      "m' = m" "s' = count_received len t"
      "r = (if fw_uiReceivedByteCount (sTFWImg s') \<ge> uiFWImgSize s then FWBlock_Break else FWBlock_Next)"
proof -
  let ?off = "block_off pid idx" and ?len = "block_len (uiFWImgSize s) (block_off pid idx)"
  let ?d = "block_data m idx ?len"
  obtain ret t where wr: "write_flash E (0x2000 + ?off) (memcpy_list (replicate 16 0xFF) ?d) (crc_unless_lost ?d s) = (ret, t)"
    by fastforce
  then have base: "bt_bIsInitialized (bl_mgmt t) = bt_bIsInitialized (bl_mgmt s)" "uiFlashAreaSize t = uiFlashAreaSize s"
    by (auto simp: write_flash_def crc_unless_lost_def update_running_crc_def split: prod.splits if_splits)
  have unfold: "vWrite_FWBlock E avail pid idx m s =
     (if ?off > avail then (FWBlock_Exit, fail_session E eBootloader_Error_FlashBoundsExceeded m s)
      else if ?off \<ge> uiFWImgSize s then (FWBlock_Break, m, s)
      else if ?off + 16 > avail then (FWBlock_Exit, fail_session E eBootloader_Error_FlashBoundsExceeded m s)
      else if ret \<noteq> 0 then (FWBlock_Exit, fail_session E eBootloader_Error_FlashAreaWriteFail m t)
      else (if fw_uiReceivedByteCount (sTFWImg (count_received ?len t)) \<ge> uiFWImgSize s then FWBlock_Break else FWBlock_Next,
            m, count_received ?len t))"
    using wr unfolding vWrite_FWBlock_def Let_def block_off_def block_len_def block_data_def
      crc_unless_lost_def count_received_def by auto
  show ?thesis
  proof (cases "?off > avail \<or> (?off < uiFWImgSize s \<and> ?off + 16 > avail)")
    case True
    with assms show ?thesis unfolding unfold
      by (intro exit [of eBootloader_Error_FlashBoundsExceeded s]) (auto split: if_splits)
  next
    case False
    show ?thesis
    proof (cases "?off < uiFWImgSize s")
      case in_image: True
      show ?thesis
      proof (cases "ret = 0")
        case True
        have "(r, m', s') = (if fw_uiReceivedByteCount (sTFWImg (count_received ?len t)) \<ge> uiFWImgSize s
            then FWBlock_Break else FWBlock_Next, m, count_received ?len t)"
          unfolding assms [symmetric] unfold using False True in_image in_image [folded not_le] by simp
        with False in_image wr True show ?thesis by (intro written [of ?len ?d t]) auto
      next
        case ret: False
        have "(r, m', s') = (FWBlock_Exit, fail_session E eBootloader_Error_FlashAreaWriteFail m t)"
          unfolding assms [symmetric] unfold using False ret in_image in_image [folded not_le] by simp
        with base show ?thesis by (intro exit [of eBootloader_Error_FlashAreaWriteFail t]) auto
      qed
    next
      case past: False
      have "(r, m', s') = (FWBlock_Break, m, s)"
        unfolding assms [symmetric] unfold using False past [unfolded not_less] by simp
      with False past show ?thesis by (intro past_end) auto
    qed
  qed
qed

text \<open>The rule of the write loop: an invariant per block, what a leaving block gives.\<close>

lemma write_blocks_rule:
  assumes run: "vWrite_FWBlocks E avail pid idx m s = (b, m', s')"
    and start: "P idx m s"
    and loop_end: "\<And>i m s. P i m s \<Longrightarrow> \<not> i < unat (bm_uiLen m) \<Longrightarrow> Q m s"
    and block_next: "\<And>i m s m' s'. P i m s \<Longrightarrow> i < unat (bm_uiLen m)
        \<Longrightarrow> vWrite_FWBlock E avail pid i m s = (FWBlock_Next, m', s') \<Longrightarrow> P (i + 16) m' s'"
    and block_break: "\<And>i m s m' s'. P i m s \<Longrightarrow> i < unat (bm_uiLen m)
        \<Longrightarrow> vWrite_FWBlock E avail pid i m s = (FWBlock_Break, m', s') \<Longrightarrow> Q m' s'"
    and block_exit: "\<And>i m s m' s'. P i m s \<Longrightarrow> i < unat (bm_uiLen m)
        \<Longrightarrow> vWrite_FWBlock E avail pid i m s = (FWBlock_Exit, m', s') \<Longrightarrow> X m' s'"
  shows "if b then X m' s' else Q m' s'"
  using run start
proof (induction "256 - idx" arbitrary: idx m s rule: less_induct)
  case less
  show ?case
  proof (cases "idx < unat (bm_uiLen m)")
    case False
    with less.prems have "b = False" "m' = m" "s' = s" by (simp_all add: vWrite_FWBlocks.simps [of E avail pid idx])
    with loop_end [OF less.prems(2) False] show ?thesis by simp
  next
    case True
    obtain r mb sb where blk: "vWrite_FWBlock E avail pid idx m s = (r, mb, sb)"
      by (metis prod_cases3)
    note unfolded = less.prems(1) [unfolded vWrite_FWBlocks.simps [of E avail pid idx m s] if_P [OF True] blk prod.case]
    show ?thesis
    proof (cases r)
      case FWBlock_Next
      with unfolded have run: "vWrite_FWBlocks E avail pid (idx + 16) mb sb = (b, m', s')" by simp
      have smaller: "256 - (idx + 16) < 256 - idx" using True unat_lt_u8 [of "bm_uiLen m"] by linarith
      show ?thesis
        by (rule less.hyps [OF smaller run])
           (use block_next [OF less.prems(2) True] blk FWBlock_Next in simp)
    next
      case FWBlock_Break
      with unfolded have "b = False" "m' = mb" "s' = sb" by simp_all
      with block_break [OF less.prems(2) True] blk FWBlock_Break show ?thesis by simp
    next
      case FWBlock_Exit
      with unfolded have "b = True" "m' = mb" "s' = sb" by simp_all
      with block_exit [OF less.prems(2) True] blk FWBlock_Exit show ?thesis by simp
    qed
  qed
qed

subsection \<open>Steps that only move data\<close>

text \<open>Writing and reading the image changes the byte count, the running CRC and the world.\<close>

definition erase_data :: "sT_Bootloader_Mgmt_t \<Rightarrow> sT_Bootloader_Mgmt_t" where
  "erase_data = bt_stTFWImgCtrl_t_update (\<lambda>f. f\<lparr>fw_uiReceivedByteCount := 0, fw_uiRunningCRC := 0\<rparr>)"

definition data_step :: "'w bl_sys \<Rightarrow> 'w bl_sys \<Rightarrow> bool" where
  "data_step s s' \<longleftrightarrow> erase_data (bl_mgmt s') = erase_data (bl_mgmt s)
     \<and> bl_bBootloaderStateTimeoutArmed s' = bl_bBootloaderStateTimeoutArmed s
     \<and> bl_flashArea s' = bl_flashArea s"

lemma data_step_refl [simp]: "data_step s s"
  by (simp add: data_step_def)

lemma data_step_trans: "data_step a b \<Longrightarrow> data_step b c \<Longrightarrow> data_step a c"
  by (simp add: data_step_def)

lemma erase_data_simps:
  "bt_eBtlState (erase_data b) = bt_eBtlState b"
  "bt_bIsInitialized (erase_data b) = bt_bIsInitialized b"
  "bt_uiFlashAreaSize (erase_data b) = bt_uiFlashAreaSize b"
  "bt_uiFWImgSize (erase_data b) = bt_uiFWImgSize b"
  "bt_uiCRC (erase_data b) = bt_uiCRC b"
  "fw_bIsFlashWritInProgress (bt_stTFWImgCtrl_t (erase_data b)) = fw_bIsFlashWritInProgress (bt_stTFWImgCtrl_t b)"
  "fw_bLostPacketStateTriggered (bt_stTFWImgCtrl_t (erase_data b)) = fw_bLostPacketStateTriggered (bt_stTFWImgCtrl_t b)"
  "fw_stTxLostPacketInfo (bt_stTFWImgCtrl_t (erase_data b)) = fw_stTxLostPacketInfo (bt_stTFWImgCtrl_t b)"
  "fw_uiNextId (bt_stTFWImgCtrl_t (erase_data b)) = fw_uiNextId (bt_stTFWImgCtrl_t b)"
  "fw_uiFirstLostPacketId (bt_stTFWImgCtrl_t (erase_data b)) = fw_uiFirstLostPacketId (bt_stTFWImgCtrl_t b)"
  "fw_uiLostPacketCount (bt_stTFWImgCtrl_t (erase_data b)) = fw_uiLostPacketCount (bt_stTFWImgCtrl_t b)"
  "fw_uiRecoveredPacketCount (bt_stTFWImgCtrl_t (erase_data b)) = fw_uiRecoveredPacketCount (bt_stTFWImgCtrl_t b)"
  "fw_staLostPacketIDs (bt_stTFWImgCtrl_t (erase_data b)) = fw_staLostPacketIDs (bt_stTFWImgCtrl_t b)"
  "fw_uiLastId (bt_stTFWImgCtrl_t (erase_data b)) = fw_uiLastId (bt_stTFWImgCtrl_t b)"
  by (simp_all add: erase_data_def)

lemma data_step_fields:
  assumes "data_step s s'"
  shows "eBtlState s' = eBtlState s" and "bt_bIsInitialized (bl_mgmt s') = bt_bIsInitialized (bl_mgmt s)"
    and "uiFlashAreaSize s' = uiFlashAreaSize s" and "uiFWImgSize s' = uiFWImgSize s"
    and "bt_uiCRC (bl_mgmt s') = bt_uiCRC (bl_mgmt s)"
    and "fw_bIsFlashWritInProgress (sTFWImg s') = fw_bIsFlashWritInProgress (sTFWImg s)"
    and "fw_bLostPacketStateTriggered (sTFWImg s') = fw_bLostPacketStateTriggered (sTFWImg s)"
    and "fw_stTxLostPacketInfo (sTFWImg s') = fw_stTxLostPacketInfo (sTFWImg s)"
    and "fw_uiNextId (sTFWImg s') = fw_uiNextId (sTFWImg s)"
    and "fw_uiFirstLostPacketId (sTFWImg s') = fw_uiFirstLostPacketId (sTFWImg s)"
    and "fw_uiLostPacketCount (sTFWImg s') = fw_uiLostPacketCount (sTFWImg s)"
    and "fw_uiRecoveredPacketCount (sTFWImg s') = fw_uiRecoveredPacketCount (sTFWImg s)"
    and "fw_staLostPacketIDs (sTFWImg s') = fw_staLostPacketIDs (sTFWImg s)"
    and "fw_uiLastId (sTFWImg s') = fw_uiLastId (sTFWImg s)"
    and "bl_bBootloaderStateTimeoutArmed s' = bl_bBootloaderStateTimeoutArmed s"
    and "bl_flashArea s' = bl_flashArea s"
proof -
  have e: "erase_data (bl_mgmt s') = erase_data (bl_mgmt s)" using assms by (simp add: data_step_def)
  show "eBtlState s' = eBtlState s" by (metis e erase_data_simps(1))
  show "bt_bIsInitialized (bl_mgmt s') = bt_bIsInitialized (bl_mgmt s)" by (metis e erase_data_simps(2))
  show "uiFlashAreaSize s' = uiFlashAreaSize s" by (metis e erase_data_simps(3))
  show "uiFWImgSize s' = uiFWImgSize s" by (metis e erase_data_simps(4))
  show "bt_uiCRC (bl_mgmt s') = bt_uiCRC (bl_mgmt s)" by (metis e erase_data_simps(5))
  show "fw_bIsFlashWritInProgress (sTFWImg s') = fw_bIsFlashWritInProgress (sTFWImg s)" by (metis e erase_data_simps(6))
  show "fw_bLostPacketStateTriggered (sTFWImg s') = fw_bLostPacketStateTriggered (sTFWImg s)" by (metis e erase_data_simps(7))
  show "fw_stTxLostPacketInfo (sTFWImg s') = fw_stTxLostPacketInfo (sTFWImg s)" by (metis e erase_data_simps(8))
  show "fw_uiNextId (sTFWImg s') = fw_uiNextId (sTFWImg s)" by (metis e erase_data_simps(9))
  show "fw_uiFirstLostPacketId (sTFWImg s') = fw_uiFirstLostPacketId (sTFWImg s)" by (metis e erase_data_simps(10))
  show "fw_uiLostPacketCount (sTFWImg s') = fw_uiLostPacketCount (sTFWImg s)" by (metis e erase_data_simps(11))
  show "fw_uiRecoveredPacketCount (sTFWImg s') = fw_uiRecoveredPacketCount (sTFWImg s)" by (metis e erase_data_simps(12))
  show "fw_staLostPacketIDs (sTFWImg s') = fw_staLostPacketIDs (sTFWImg s)" by (metis e erase_data_simps(13))
  show "fw_uiLastId (sTFWImg s') = fw_uiLastId (sTFWImg s)" by (metis e erase_data_simps(14))
qed (use assms in \<open>simp_all add: data_step_def\<close>)

lemma data_step_lost_entries: "data_step s s' \<Longrightarrow> lost_entries (sTFWImg s') = lost_entries (sTFWImg s)"
  by (simp add: lost_entries_def data_step_fields)

lemma data_step_lost_ok: "data_step s s' \<Longrightarrow> lost_ok (sTFWImg s') = lost_ok (sTFWImg s)"
  by (simp add: lost_ok_def data_step_lost_entries data_step_fields)

lemma erase_data_upd [simp]:
  "erase_data (bt_stTFWImgCtrl_t_update (\<lambda>f. f\<lparr>fw_uiRunningCRC := g f\<rparr>) b) = erase_data b"
  "erase_data (bt_stTFWImgCtrl_t_update (\<lambda>f. f\<lparr>fw_uiReceivedByteCount := g f\<rparr>) b) = erase_data b"
  by (cases b; simp add: erase_data_def)+

lemma data_step_crc [simp]: "data_step s (update_running_crc d s)"
  by (simp add: data_step_def update_running_crc_def)

lemma data_step_count [simp]: "data_step s (count_received n s)"
  by (simp add: data_step_def count_received_def)

lemma data_step_crc_unless_lost [simp]: "data_step s (crc_unless_lost d s)"
  by (simp add: crc_unless_lost_def)

lemma data_step_world [simp]: "data_step s (upd_world g s)"
  by (simp add: data_step_def)

lemma data_step_write: "write_flash E off d s = (r, s') \<Longrightarrow> data_step s s'"
  by (auto simp: data_step_def write_flash_def split: prod.splits)

lemma data_step_read: "read_flash E off n s = (r, s') \<Longrightarrow> data_step s s'"
  by (auto simp: data_step_def read_flash_def split: prod.splits)

lemma data_step_block:
  assumes "vWrite_FWBlock E avail pid idx m s = (r, m', s')" and "r \<noteq> FWBlock_Exit"
  shows "data_step s s' \<and> m' = m \<and> block_off pid idx \<le> avail"
  using assms(1)
proof (cases rule: block_cases)
  case (written len d t)
  have "data_step s t" by (rule data_step_trans [OF data_step_crc_unless_lost data_step_write [OF written(6)]])
  then have "data_step s s'" unfolding written(8) by (rule data_step_trans) simp
  with written show ?thesis by simp
qed (use assms(2) in auto)

text \<open>A write loop that is not left early moves data only; a loop that is left aborts.\<close>

definition aborted_from :: "('w, 'z) bl_platform_scheme \<Rightarrow> 'w bl_sys \<Rightarrow> 'w bl_sys \<Rightarrow> bool" where
  "aborted_from E s s' \<longleftrightarrow> (\<exists>t. s' = vAbort_BootloaderSession_Locked E t
     \<and> bt_bIsInitialized (bl_mgmt t) = bt_bIsInitialized (bl_mgmt s) \<and> uiFlashAreaSize t = uiFlashAreaSize s)"

lemma aborted_from_data: "data_step s t \<Longrightarrow> aborted_from E t s' \<Longrightarrow> aborted_from E s s'"
  by (auto simp: aborted_from_def data_step_fields)

lemma aborted_from_self [simp]: "aborted_from E s (vAbort_BootloaderSession_Locked E s)"
  by (auto simp: aborted_from_def)

lemma aborted_from_fail: "aborted_from E s (snd (fail_session E e m s))"
  by (auto simp: aborted_from_def)

lemma block_exit_aborts:
  "vWrite_FWBlock E avail pid idx m s = (FWBlock_Exit, m', s') \<Longrightarrow> aborted_from E s s' \<and> \<not> bm_bIsMsgOk m'"
  by (erule block_cases)
     (auto simp: aborted_from_def fail_session_def vSet_BootloaderMsgStatus_def split: if_splits)

lemma write_blocks_data:
  assumes run: "vWrite_FWBlocks E avail pid idx m s = (b, m', s')" and idx: "idx < unat (bm_uiLen m)"
  shows "if b then aborted_from E s s' \<and> \<not> bm_bIsMsgOk m'
         else data_step s s' \<and> m' = m \<and> block_off pid idx \<le> avail"
proof (rule write_blocks_rule [OF run, where
    P = "\<lambda>i m0 s0. m0 = m \<and> data_step s s0 \<and> (i = idx \<or> block_off pid idx \<le> avail)"])
  fix i m0 s0 m1 s1
  assume P: "m0 = m \<and> data_step s s0 \<and> (i = idx \<or> block_off pid idx \<le> avail)"
  {
    assume "vWrite_FWBlock E avail pid i m0 s0 = (FWBlock_Next, m1, s1)"
    with P data_step_block [of E avail pid i m0 s0 FWBlock_Next m1 s1]
    show "m1 = m \<and> data_step s s1 \<and> (i + 16 = idx \<or> block_off pid idx \<le> avail)"
      by (auto intro: data_step_trans)
  next
    assume "vWrite_FWBlock E avail pid i m0 s0 = (FWBlock_Break, m1, s1)"
    with P data_step_block [of E avail pid i m0 s0 FWBlock_Break m1 s1]
    show "data_step s s1 \<and> m1 = m \<and> block_off pid idx \<le> avail"
      by (auto intro: data_step_trans)
  next
    assume "vWrite_FWBlock E avail pid i m0 s0 = (FWBlock_Exit, m1, s1)"
    with P show "aborted_from E s s1 \<and> \<not> bm_bIsMsgOk m1"
      using block_exit_aborts [of E avail pid i m0 s0 m1 s1] aborted_from_data by blast
  }
qed (use idx in auto)

lemma open_for_first_fields:
  assumes "open_for_first E first s = (ret, s')"
  shows "bl_mgmt s' = bl_mgmt s" and "bl_bBootloaderStateTimeoutArmed s' = bl_bBootloaderStateTimeoutArmed s"
    and "bl_fault s' = bl_fault s" and "bl_can s' = bl_can s"
    and "\<not> first \<Longrightarrow> s' = s"
  using assms by (auto simp: open_for_first_def split: prod.splits if_splits)

definition packet_id :: "sT_Bootloader_CtrlMsg_t \<Rightarrow> u16" where
  "packet_id m = be16 (bm_uiaData m ! 0) (bm_uiaData m ! 1)"

definition first_packet :: "'w bl_sys \<Rightarrow> bool" where
  "first_packet s \<longleftrightarrow> fw_uiLastId (sTFWImg s) = 0 \<and> fw_uiNextId (sTFWImg s) = 0"

text \<open>A packet in a session is refused, ends the session, or is written.\<close>

lemma update_cases:
  assumes run: "vUpdate_FWImage_Locked E m s = (b, m', s')"
    and st: "eBtlState s = eBootloader_State_FWImgWrite_InProg"
    and idle: "\<not> fw_bIsFlashWritInProgress (sTFWImg s)"
    and room: "0x2000 < uiFlashAreaSize s"
    and len: "bm_uiLen m = 50"
  obtains (refused) "\<not> b" "s' = s" "\<not> bm_bIsMsgOk m'"
  | (aborted) "b" "aborted_from E s s'" "\<not> bm_bIsMsgOk m'"
  | (accepted) s1 s2 s3 where "\<not> b" "m' = m" "admit_packet E (packet_id m) m s = (True, m, s1)"
      "open_for_first E (first_packet s) (upd_img (begin_packet (packet_id m)) s1) = (0, s2)"
      "vWrite_FWBlocks E (uiFlashAreaSize s - 0x2000) (packet_id m) 2 m s2 = (False, m, s3)"
      "s' = vRefresh_BootloaderStateTimeOut_Locked E 1000
              (upd_img (\<lambda>f. recover_img (packet_id m) (f\<lparr>fw_bIsFlashWritInProgress := False\<rparr>)) s3)"
proof -
  let ?pid = "packet_id m" and ?avail = "uiFlashAreaSize s - 0x2000"
  obtain c m1 s1 where adm: "admit_packet E ?pid m s = (c, m1, s1)" by (metis prod_cases3)
  obtain ret s2 where op: "open_for_first E (first_packet s) (upd_img (begin_packet ?pid) s1) = (ret, s2)"
    by fastforce
  obtain x m3 s3 where wr: "vWrite_FWBlocks E ?avail ?pid 2 m1 s2 = (x, m3, s3)" by (metis prod_cases3)
  have run': "(b, m', s') =
     (if \<not> c then (eBtlState s1 = eBootloader_State_Error, m1, s1)
      else if ret \<noteq> 0 then (True, fail_session E eBootloader_Error_FlashAreaOpenFail m1 s2)
      else if x then (True, m3, s3)
      else (False, m3, vRefresh_BootloaderStateTimeOut_Locked E 1000
              (vHandle_LostPacketRecovery ?pid (upd_img (\<lambda>f. f\<lparr>fw_bIsFlashWritInProgress := False\<rparr>) s3))))"
    using run st idle room [folded not_le] adm op wr
    unfolding vUpdate_FWImage_Locked_def Let_def packet_id_def first_packet_def by auto
  show ?thesis
  proof (cases c)
    case False
    from adm show ?thesis
      by (cases rule: admit_cases)
         (use False run' st in \<open>auto simp: vSet_BootloaderMsgStatus_def intro: refused aborted\<close>)
  next
    case c: True
    from adm have m1: "m1 = m" and base: "bt_bIsInitialized (bl_mgmt s1) = bt_bIsInitialized (bl_mgmt s)"
        "uiFlashAreaSize s1 = uiFlashAreaSize s"
      using c by (auto elim: admit_cases)
    note fields = open_for_first_fields(1) [OF op]
    show ?thesis
    proof (cases "ret = 0")
      case False
      with c run' show ?thesis
        by (intro aborted) (auto simp: aborted_from_def fail_session_def fields base vSet_BootloaderMsgStatus_def)
    next
      case ret: True
      note data = write_blocks_data [OF wr]
      show ?thesis
      proof (cases x)
        case True
        with c ret run' data m1 len have "b" "m' = m3" "s' = s3" "aborted_from E s2 s'" "\<not> bm_bIsMsgOk m'" by auto
        then show ?thesis by (intro aborted) (auto simp: aborted_from_def fields base)
      next
        case False
        with data m1 len have "m3 = m" by auto
        with c ret run' False m1 adm op wr show ?thesis
          by (intro accepted [of s1 s2 s3]) (auto simp: vHandle_LostPacketRecovery_eq comp_def)
      qed
    qed
  qed
qed

subsection \<open>The control invariant\<close>

definition tx_ok :: "sT_FWImg_LostPacketTx_t \<Rightarrow> bool" where
  "tx_ok t \<longleftrightarrow> lt_uiRetryCount t \<le> 3 \<and> (lt_eTxState t = eBootloader_Tx_Idle \<longrightarrow> lt_uiRetryCount t = 0)"

definition session_ok :: "('w, 'z) bl_platform_scheme \<Rightarrow> sT_Bootloader_Mgmt_t \<Rightarrow> bool" where
  "session_ok E b \<longleftrightarrow> 0 < bt_uiFWImgSize b \<and> 0x2000 < fa_size E \<and> bt_uiFWImgSize b \<le> fa_size E - 0x2000
     \<and> lost_ok (bt_stTFWImgCtrl_t b)"

definition mgmt_ctrl :: "('w, 'z) bl_platform_scheme \<Rightarrow> sT_Bootloader_Mgmt_t \<Rightarrow> bool \<Rightarrow> bool" where
  "mgmt_ctrl E b armed \<longleftrightarrow>
     bt_bIsInitialized b \<and> bt_uiFlashAreaSize b = fa_size E
     \<and> bt_eBtlState b \<in> {eBootloader_State_Idle, eBootloader_State_FWImgWrite_InProg, eBootloader_State_Reboot, eBootloader_State_Error}
     \<and> (armed \<longrightarrow> bt_eBtlState b \<in> {eBootloader_State_FWImgWrite_InProg, eBootloader_State_Reboot})
     \<and> (bt_eBtlState b = eBootloader_State_FWImgWrite_InProg \<longrightarrow> armed \<and> session_ok E b)
     \<and> (bt_eBtlState b \<in> {eBootloader_State_Idle, eBootloader_State_Error}
         \<longrightarrow> lt_eTxState (fw_stTxLostPacketInfo (bt_stTFWImgCtrl_t b)) = eBootloader_Tx_Idle)
     \<and> \<not> fw_bIsFlashWritInProgress (bt_stTFWImgCtrl_t b)
     \<and> tx_ok (fw_stTxLostPacketInfo (bt_stTFWImgCtrl_t b))"

definition bl_ctrl :: "('w, 'z) bl_platform_scheme \<Rightarrow> 'w bl_sys \<Rightarrow> bool" where
  "bl_ctrl E s \<longleftrightarrow> mgmt_ctrl E (bl_mgmt s) (bl_bBootloaderStateTimeoutArmed s)"

lemma bl_ctrl_cong:
  "bl_mgmt s' = bl_mgmt s \<Longrightarrow> bl_bBootloaderStateTimeoutArmed s' = bl_bBootloaderStateTimeoutArmed s
   \<Longrightarrow> bl_ctrl E s' = bl_ctrl E s"
  by (simp add: bl_ctrl_def)

lemma bl_ctrl_world [simp]:
  "bl_ctrl E (cancel_work E' wk s) = bl_ctrl E s"
  "bl_ctrl E (cancel_both E' s) = bl_ctrl E s"
  "bl_ctrl E (upd_world g s) = bl_ctrl E s"
  "bl_ctrl E (bl_can_update h s) = bl_ctrl E s"
  "bl_ctrl E (close_flash E' s) = bl_ctrl E s"
  by (simp_all add: bl_ctrl_def)

lemma bl_ctrlD:
  assumes "bl_ctrl E s"
  shows "bt_bIsInitialized (bl_mgmt s)" and "uiFlashAreaSize s = fa_size E"
    and "\<not> fw_bIsFlashWritInProgress (sTFWImg s)" and "tx_ok (sTTxLostPacketInfo s)"
    and "eBtlState s = eBootloader_State_FWImgWrite_InProg \<Longrightarrow> session_ok E (bl_mgmt s)"
    and "eBtlState s = eBootloader_State_FWImgWrite_InProg \<Longrightarrow> bl_bBootloaderStateTimeoutArmed s"
    and "eBtlState s = eBootloader_State_FWImgWrite_InProg \<Longrightarrow> 0x2000 < uiFlashAreaSize s"
  using assms by (auto simp: bl_ctrl_def mgmt_ctrl_def session_ok_def)

lemma tx_ok_zero [simp]: "tx_ok zero_lost_tx"
  by (simp add: tx_ok_def zero_lost_tx_def)

lemma fresh_img_simps [simp]:
  "fw_stTxLostPacketInfo fresh_img = zero_lost_tx" "\<not> fw_bIsFlashWritInProgress fresh_img"
  "lt_eTxState zero_lost_tx = eBootloader_Tx_Idle"
  "fw_bLostPacketStateTriggered fresh_img = False" "fw_uiLostPacketCount fresh_img = 0"
  "fw_uiRecoveredPacketCount fresh_img = 0" "fw_uiNextId fresh_img = 0" "fw_uiLastId fresh_img = 0"
  "fw_uiReceivedByteCount fresh_img = 0" "fw_uiRunningCRC fresh_img = 0xFFFF"
  by (simp_all add: fresh_img_def zero_img_ctrl_def zero_lost_tx_def)

lemma lost_ok_fresh [simp]: "lost_ok fresh_img"
  by (rule lost_ok_empty) (simp_all add: fresh_img_def zero_img_ctrl_def zero_lost_table_def)

text \<open>An abort ends in the invariant from any initialised state.\<close>

lemma abort_ctrl:
  "bt_bIsInitialized (bl_mgmt s) \<Longrightarrow> uiFlashAreaSize s = fa_size E \<Longrightarrow> bl_ctrl E (vAbort_BootloaderSession_Locked E' s)"
  by (simp add: bl_ctrl_def mgmt_ctrl_def)

lemma aborted_ctrl: "bl_ctrl E s \<Longrightarrow> aborted_from E' s s' \<Longrightarrow> bl_ctrl E s'"
  by (auto simp: aborted_from_def bl_ctrlD intro: abort_ctrl)

lemma reinit_ctrl: "bl_ctrl E s \<Longrightarrow> bl_ctrl E (vReinit_BootloaderStateMachine E' s)"
  by (simp add: bl_ctrl_def mgmt_ctrl_def)

lemma abort_session_ctrl: "bl_ctrl E s \<Longrightarrow> bl_ctrl E (vAbort_BootloaderSession E' s)"
  by (simp add: vAbort_BootloaderSession_def abort_ctrl bl_ctrlD)

end
