(* ===== verification/Bootloader_Control.thy ===== *)
theory Bootloader_Control
  imports Bootloader_Invariants
begin

text \<open>
  Every operation and every step keeps the control invariant, and what follows for the running
  system: visible states, armed timeouts, bounded retries, recovery from errors.
\<close>

text \<open>
  The slot of the image is 0xF2000 bytes (slot1_partition of ExtFlash_Ctrl.overlay). What the
  invariants need of it is that packet ids stay clear of 0xFFFF.
\<close>

definition slot_small :: "('w, 'z) bl_platform_scheme \<Rightarrow> bool" where
  "slot_small E \<longleftrightarrow> fa_size E \<le> 0xF2000"

subsection \<open>Initialisation and the announcement of an image\<close>

lemma init_ctrl:
  assumes "bInit_BootloaderController E s0 = (True, s)"
  shows "bl_ctrl E s" and "eBtlState s = eBootloader_State_Idle" and "sTFWImg s = fresh_img"
    and "bl_bBootloaderStateTimeoutArmed s = False" and "bl_flashArea s = False"
  using assms
  by (auto simp: bInit_BootloaderController_def Let_def bl_ctrl_def mgmt_ctrl_def vInit_Bootloader_SecurityLayer_def
        reset_ops fresh_img_def zero_img_ctrl_def zero_lost_tx_def tx_ok_def split: prod.splits if_splits)

lemma erase_fields:
  assumes "vErase_FlashArea E m s = (m', s')"
  shows "bl_mgmt s' = bl_mgmt s" and "bl_bBootloaderStateTimeoutArmed s' = bl_bBootloaderStateTimeoutArmed s"
    and "bl_can s' = bl_can s" and "bl_fault s \<Longrightarrow> bl_fault s'"
    and "bm_bIsMsgOk m' \<Longrightarrow> \<not> bl_flashArea s'"
    and "bm_uiaData m' = bm_uiaData m" and "bm_eCMD m' = bm_eCMD m" and "bm_uiLen m' = bm_uiLen m"
  using assms
  by (auto simp: vErase_FlashArea_def Let_def vSet_BootloaderMsgStatus_def split: prod.splits if_splits)

text \<open>A session starts from an accepted announcement only: how it looks then.\<close>

definition announced :: "sT_Bootloader_CtrlMsg_t \<Rightarrow> sT_Bootloader_Mgmt_t \<Rightarrow> sT_Bootloader_Mgmt_t" where
  "announced m b = (let d = bm_uiaData m in
     b\<lparr>bt_uiFWImgSize := be24 (d ! 0) (d ! 1) (d ! 2), bt_uiHWRev := d ! 3, bt_uiLibRev := be16 (d ! 4) (d ! 5),
       bt_uiFWRev := be16 (d ! 6) (d ! 7), bt_uiCRC := be16 (d ! 8) (d ! 9),
       bt_stTFWImgCtrl_t := fresh_img\<lparr>fw_stTxLostPacketInfo := fw_stTxLostPacketInfo (bt_stTFWImgCtrl_t b)\<rparr>\<rparr>)"

text \<open>The announced size is not zero and fits behind the write offset.\<close>

definition size_fits :: "sT_Bootloader_CtrlMsg_t \<Rightarrow> 'w bl_sys \<Rightarrow> bool" where
  "size_fits m s \<longleftrightarrow> (let sz = be24 (bm_uiaData m ! 0) (bm_uiaData m ! 1) (bm_uiaData m ! 2)
     in \<not> (sz = 0 \<or> uiFlashAreaSize s \<le> 0x2000 \<or> sz > uiFlashAreaSize s - 0x2000))"

lemma announce_cases:
  assumes "vInit_BootloaderManager_ForNewFWImage E m s = (m', s')"
  obtains (rejected) e n where "m' = vSet_BootloaderMsgStatus False e m" "s' = upd_mgmt (\<lambda>b. b\<lparr>bt_uiFWImgSize := n\<rparr>) s"
      "\<not> size_fits m s"
  | (no_flash) t where "\<not> bm_bIsMsgOk m'" "vErase_FlashArea E m t = (m', s')"
      "bl_mgmt t = announced m (bl_mgmt s)" "bl_bBootloaderStateTimeoutArmed t = bl_bBootloaderStateTimeoutArmed s"
      "bl_world t = bl_world s" "size_fits m s"
  | (started) t m1 s1 where "bm_bIsMsgOk m'" "vErase_FlashArea E m t = (m1, s1)" "bm_bIsMsgOk m1"
      "bl_mgmt t = announced m (bl_mgmt s)" "bl_world t = bl_world s" "bl_fault t = bl_fault s"
      "bl_flashArea t = bl_flashArea s" "size_fits m s"
      "0 < uiFWImgSize t" "0x2000 < uiFlashAreaSize s" "uiFWImgSize t \<le> uiFlashAreaSize s - 0x2000"
      "s' = vSet_BootloaderState E eBootloader_State_FWImgWrite_InProg s1"
proof -
  let ?d = "bm_uiaData m"
  obtain sz where sz: "sz = be24 (?d ! 0) (?d ! 1) (?d ! 2)" by blast
  obtain r where r: "r = upd_mgmt (\<lambda>b. b\<lparr>bt_uiFWImgSize := sz\<rparr>) s" by blast
  obtain t where t: "t = clear_progress (upd_mgmt (\<lambda>b. b\<lparr>bt_uiHWRev := ?d ! 3, bt_uiLibRev := be16 (?d ! 4) (?d ! 5),
      bt_uiFWRev := be16 (?d ! 6) (?d ! 7), bt_uiCRC := be16 (?d ! 8) (?d ! 9)\<rparr>) r)" by blast
  obtain m1 s1 where er: "vErase_FlashArea E m t = (m1, s1)" by fastforce
  have tf: "bl_mgmt t = announced m (bl_mgmt s)" "bl_world t = bl_world s" "bl_fault t = bl_fault s"
      "bl_bBootloaderStateTimeoutArmed t = bl_bBootloaderStateTimeoutArmed s" "bl_flashArea t = bl_flashArea s"
      "uiFWImgSize t = sz"
    by (simp_all add: t r sz clear_progress_def announced_def Let_def fresh_img_def zero_img_ctrl_def)
  have run: "(m', s') = (if sz = 0 then (vSet_BootloaderMsgStatus False eBootloader_Error_InvalidImageSize m, r)
     else if uiFlashAreaSize s \<le> 0x2000 then (vSet_BootloaderMsgStatus False eBootloader_Error_FlashBoundsExceeded m, r)
     else if sz > uiFlashAreaSize s - 0x2000 then (vSet_BootloaderMsgStatus False eBootloader_Error_ImageTooLarge m, r)
     else if \<not> bm_bIsMsgOk m1 then (m1, s1)
     else (m1\<lparr>bm_bIsMsgOk := True\<rparr>, vSet_BootloaderState E eBootloader_State_FWImgWrite_InProg s1))"
    using assms er unfolding vInit_BootloaderManager_ForNewFWImage_def Let_def sz [symmetric] r [symmetric] t [symmetric]
    by (auto simp: r)
  show ?thesis
  proof (cases "sz = 0 \<or> uiFlashAreaSize s \<le> 0x2000 \<or> sz > uiFlashAreaSize s - 0x2000")
    case True
    with run have "s' = r" and "\<exists>e. m' = vSet_BootloaderMsgStatus False e m" by (auto split: if_splits)
    moreover have "\<not> size_fits m s" using True by (auto simp: size_fits_def Let_def sz)
    ultimately show ?thesis using r rejected by blast
  next
    case False
    then have sz_ok: "sz \<noteq> 0" "\<not> uiFlashAreaSize s \<le> 0x2000" "\<not> sz > uiFlashAreaSize s - 0x2000" by auto
    then have "0 < sz" by (simp add: word_neq_0_conv)
    have fits: "size_fits m s" using sz_ok unfolding size_fits_def Let_def sz by blast
    show ?thesis
    proof (cases "bm_bIsMsgOk m1")
      case True
      with run sz_ok have "m' = m1\<lparr>bm_bIsMsgOk := True\<rparr>" "s' = vSet_BootloaderState E eBootloader_State_FWImgWrite_InProg s1"
        by simp_all
      with True er tf sz_ok \<open>0 < sz\<close> fits show ?thesis by (intro started [of t m1 s1]) (simp_all add: not_le not_less)
    next
      case bad: False
      with run sz_ok have "m' = m1" "s' = s1" by simp_all
      with bad er tf fits show ?thesis by (intro no_flash [of t]) simp_all
    qed
  qed
qed

lemma announced_simps [simp]:
  "bt_eBtlState (announced m b) = bt_eBtlState b" "bt_bIsInitialized (announced m b) = bt_bIsInitialized b"
  "bt_uiFlashAreaSize (announced m b) = bt_uiFlashAreaSize b"
  "bt_stTFWImgCtrl_t (announced m b) = fresh_img\<lparr>fw_stTxLostPacketInfo := fw_stTxLostPacketInfo (bt_stTFWImgCtrl_t b)\<rparr>"
  by (simp_all add: announced_def Let_def)

lemma lost_ok_fresh_tx [simp]: "lost_ok (fresh_img\<lparr>fw_stTxLostPacketInfo := x\<rparr>)"
  by (rule lost_ok_cong [OF _ _ _ _ _ _ lost_ok_fresh]) simp_all

lemma set_in_progress_simps [simp]:
  "bl_mgmt (vSet_BootloaderState E eBootloader_State_FWImgWrite_InProg s)
     = (bl_mgmt s)\<lparr>bt_eBtlState := eBootloader_State_FWImgWrite_InProg, bt_bIsFirstEntry := True\<rparr>"
  "bl_bBootloaderStateTimeoutArmed (vSet_BootloaderState E eBootloader_State_FWImgWrite_InProg s)"
  "bl_fault (vSet_BootloaderState E eBootloader_State_FWImgWrite_InProg s) = bl_fault s"
  "bl_flashArea (vSet_BootloaderState E eBootloader_State_FWImgWrite_InProg s) = bl_flashArea s"
  "bl_world (vSet_BootloaderState E eBootloader_State_FWImgWrite_InProg s)
     = k_work_reschedule E stBtlStateTimeOut_Work_t 5000 (snd (k_uptime_get E (bl_world s)))"
  by (simp_all add: vSet_BootloaderState_def Let_def)

lemma announce_ctrl:
  assumes run: "vInit_BootloaderManager_ForNewFWImage E m s = (m', s')" and ctrl: "bl_ctrl E s"
    and st: "eBtlState s = eBootloader_State_Idle"
  shows "bl_ctrl E s'" and "eBtlState s' \<in> {eBootloader_State_Idle, eBootloader_State_FWImgWrite_InProg}"
proof -
  have "bl_ctrl E s' \<and> eBtlState s' \<in> {eBootloader_State_Idle, eBootloader_State_FWImgWrite_InProg}"
    using run
  proof (cases rule: announce_cases)
    case (rejected e n)
    with ctrl st show ?thesis by (simp add: bl_ctrl_def mgmt_ctrl_def)
  next
    case (no_flash t)
    note er = erase_fields [OF no_flash(2)]
    from no_flash er ctrl st show ?thesis by (simp add: bl_ctrl_def mgmt_ctrl_def)
  next
    case (started t m1 s1)
    note er = erase_fields [OF started(2)]
    have fa: "uiFlashAreaSize s = fa_size E" by (rule bl_ctrlD(2) [OF ctrl])
    have "bt_uiFWImgSize (announced m (bl_mgmt s)) \<le> fa_size E - 0x2000" "0 < bt_uiFWImgSize (announced m (bl_mgmt s))"
        "0x2000 < fa_size E"
      using started(4,9,10,11) fa by simp_all
    with started(4,12) er ctrl st show ?thesis
      by (simp add: bl_ctrl_def mgmt_ctrl_def session_ok_def)
  qed
  then show "bl_ctrl E s'" and "eBtlState s' \<in> {eBootloader_State_Idle, eBootloader_State_FWImgWrite_InProg}" by auto
qed

lemma first_entry_ctrl [simp]:
  "bl_ctrl E (snd (bIsFirstEntry s)) = bl_ctrl E s" "eBtlState (snd (bIsFirstEntry s)) = eBtlState s"
  by (simp_all add: bIsFirstEntry_def bl_ctrl_def mgmt_ctrl_def session_ok_def)

lemma idle_ctrl:
  assumes run: "vExecute_Bootloader_IdleState E m s = (m', s')" and ctrl: "bl_ctrl E s"
    and st: "eBtlState s = eBootloader_State_Idle"
  shows "bl_ctrl E s'"
proof -
  let ?s = "snd (bIsFirstEntry s)"
  have first: "bl_ctrl E ?s" "eBtlState ?s = eBootloader_State_Idle" using ctrl st by simp_all
  have "s' = s \<or> s' = ?s \<or> vInit_BootloaderManager_ForNewFWImage E m ?s = (m', s')"
    using run unfolding vExecute_Bootloader_IdleState_def Let_def split_beta
    by (auto split: if_splits eT_Bootloader_Command.splits)
  then show ?thesis using ctrl first announce_ctrl(1) [OF _ first] by blast
qed

subsection \<open>Packets\<close>

lemma packet_id_bound:
  assumes "block_off pid 2 \<le> fa_size E - 0x2000" and "0x2000 < fa_size E" and "slot_small E"
  shows "unat pid \<le> 0x5000"
proof -
  have "unat (ucast pid * 48 :: u32) = unat pid * 48"
    using unat_lt_u16 [of pid] by (simp add: unat_mult_lem [THEN iffD1])
  moreover have "unat (fa_size E - 0x2000) = unat (fa_size E) - 0x2000"
    using assms(2) by (subst unat_diff_small) simp_all
  moreover have "unat (fa_size E) \<le> 0xF2000" using assms(3) by (simp add: slot_small_def word_le_nat_alt)
  ultimately show ?thesis using assms(1) by (simp add: block_off_def word_le_nat_alt)
qed

text \<open>A packet id below 0xFFFF moves the expectation on without wrapping.\<close>

lemma begin_packet_next:
  assumes "unat pid < 0xFFFF"
  shows "fw_uiNextId f \<le> fw_uiNextId (begin_packet pid f)"
    and "fw_uiNextId (begin_packet pid f) = max (fw_uiNextId f) (pid + 1)"
proof -
  have suc: "unat (pid + 1) = unat pid + 1" using assms by (simp add: unat_Suc_small)
  then show "fw_uiNextId f \<le> fw_uiNextId (begin_packet pid f)"
    by (auto simp: begin_packet_def word_le_nat_alt)
  from suc show "fw_uiNextId (begin_packet pid f) = max (fw_uiNextId f) (pid + 1)"
    by (auto simp: begin_packet_def word_le_nat_alt max_def intro: word_unat_eq_iff [THEN iffD2])
qed

lemma admit_lost_ok:
  assumes adm: "admit_packet E pid m s = (True, m1, s1)" and ok: "lost_ok (sTFWImg s)" and small: "unat pid < 0xFFFF"
  shows "lost_ok (begin_packet pid (sTFWImg s1))"
proof -
  have "lost_ok (sTFWImg s1)"
    using adm by (cases rule: admit_cases) (use ok mark_lost_ok in auto)
  then show ?thesis
    by (rule lost_ok_cong [rotated -1]) (use begin_packet_next(1) [OF small] in \<open>simp_all add: begin_packet_def\<close>)
qed

lemma admit_fields:
  assumes "admit_packet E pid m s = (True, m1, s1)"
  shows "bt_bIsInitialized (bl_mgmt s1) = bt_bIsInitialized (bl_mgmt s)" "uiFlashAreaSize s1 = uiFlashAreaSize s"
    "uiFWImgSize s1 = uiFWImgSize s" "eBtlState s1 = eBtlState s" "bt_uiCRC (bl_mgmt s1) = bt_uiCRC (bl_mgmt s)"
    "sTTxLostPacketInfo s1 = sTTxLostPacketInfo s"
    "bl_bBootloaderStateTimeoutArmed s1 = bl_bBootloaderStateTimeoutArmed s" "bl_world s1 = bl_world s"
    "bl_fault s1 = bl_fault s" "bl_flashArea s1 = bl_flashArea s"
    "fw_uiReceivedByteCount (sTFWImg s1) = fw_uiReceivedByteCount (sTFWImg s)"
    "fw_uiRunningCRC (sTFWImg s1) = fw_uiRunningCRC (sTFWImg s)"
  using assms by (auto elim: admit_cases)

lemma begin_packet_simps [simp]:
  "fw_stTxLostPacketInfo (begin_packet pid f) = fw_stTxLostPacketInfo f"
  "fw_staLostPacketIDs (begin_packet pid f) = fw_staLostPacketIDs f"
  "fw_uiLostPacketCount (begin_packet pid f) = fw_uiLostPacketCount f"
  "fw_uiRecoveredPacketCount (begin_packet pid f) = fw_uiRecoveredPacketCount f"
  "fw_uiFirstLostPacketId (begin_packet pid f) = fw_uiFirstLostPacketId f"
  "fw_bLostPacketStateTriggered (begin_packet pid f) = fw_bLostPacketStateTriggered f"
  "fw_uiReceivedByteCount (begin_packet pid f) = fw_uiReceivedByteCount f"
  "fw_uiRunningCRC (begin_packet pid f) = fw_uiRunningCRC f"
  "fw_uiLastId (begin_packet pid f) = pid"
  by (simp_all add: begin_packet_def)

lemma write_flag_lost_ok [simp]: "lost_ok (f\<lparr>fw_bIsFlashWritInProgress := x\<rparr>) = lost_ok f"
  by (simp add: lost_ok_def lost_entries_def)

lemma update_locked_ctrl:
  assumes run: "vUpdate_FWImage_Locked E m s = (b, m', s')" and ctrl: "bl_ctrl E s" and small: "slot_small E"
    and len: "bm_uiLen m = 50"
  shows "bl_ctrl E s'"
proof (cases "eBtlState s = eBootloader_State_FWImgWrite_InProg")
  case False
  with run have "s' = s" by (auto simp: vUpdate_FWImage_Locked_def Let_def)
  with ctrl show ?thesis by simp
next
  case st: True
  note c = bl_ctrlD [OF ctrl]
  from run st c(3) c(7) [OF st] len show ?thesis
  proof (cases rule: update_cases)
    case refused
    with ctrl show ?thesis by simp
  next
    case aborted
    then show ?thesis using aborted_ctrl [OF ctrl] by blast
  next
    case (accepted s1 s2 s3)
    let ?pid = "packet_id m"
    have wr: "data_step s2 s3" "block_off ?pid 2 \<le> fa_size E - 0x2000"
      using write_blocks_data [OF accepted(5)] len c(2) by simp_all
    note sess = c(5) [OF st, unfolded session_ok_def]
    have "unat ?pid \<le> 0x5000" using packet_id_bound [OF wr(2) _ small] sess by simp
    then have "lost_ok (begin_packet ?pid (sTFWImg s1))"
      using admit_lost_ok [OF accepted(3)] sess by simp
    then have "lost_ok (sTFWImg s3)"
      using data_step_lost_ok [OF wr(1)] open_for_first_fields(1) [OF accepted(4)] by simp
    then have "lost_ok (recover_img ?pid ((sTFWImg s3)\<lparr>fw_bIsFlashWritInProgress := False\<rparr>))"
      by (simp add: recover_img_ok)
    moreover note data_step_fields [OF wr(1)] open_for_first_fields(1,2) [OF accepted(4)] admit_fields [OF accepted(3)]
    ultimately show ?thesis
      using accepted(6) ctrl st sess by (simp add: bl_ctrl_def mgmt_ctrl_def session_ok_def)
  qed
qed

lemma update_ctrl:
  assumes "vUpdate_FWImage E m s = (m', s')" and "bl_ctrl E s" and "slot_small E"
  shows "bl_ctrl E s'"
proof (cases "bm_uiLen m = 50")
  case False
  with assms show ?thesis by (auto simp: vUpdate_FWImage_def)
next
  case True
  obtain b m1 s1 where run: "vUpdate_FWImage_Locked E m s = (b, m1, s1)" by (metis prod_cases3)
  with assms(1) True have "s' = (if b then cancel_both E s1 else s1)" by (auto simp: vUpdate_FWImage_def)
  then show ?thesis using update_locked_ctrl [OF run assms(2,3) True] by simp
qed

subsection \<open>The end of an image\<close>

text \<open>The rule of the read-back loop: an invariant of offset, bytes left and state.\<close>

abbreviation "read_len n \<equiv> (if n \<ge> 48 then 48 else n :: u32)"

lemma read_back_rule:
  assumes run: "vRead_Back E off n retry s = (ok, s')" and start: "P off n s"
    and bad: "\<And>off n s ret d t. P off n s \<Longrightarrow> n > 0 \<Longrightarrow> read_flash E off (read_len n) s = ((ret, d), t) \<Longrightarrow> ret \<noteq> 0
        \<Longrightarrow> P off n (upd_world (k_msleep E 5) t) \<and> Q t"
    and good: "\<And>off n s d t. P off n s \<Longrightarrow> n > 0 \<Longrightarrow> read_flash E off (read_len n) s = ((0, d), t)
        \<Longrightarrow> P (off + read_len n) (n - read_len n) (update_running_crc d t)"
  shows "if ok then \<exists>off'. P off' 0 s' else Q s'"
  using run start
proof (induction "unat n + (3 - retry)" arbitrary: off n retry s rule: less_induct)
  case less
  note P = less.prems(2)
  obtain ret d t where rd: "read_flash E off (read_len n) s = ((ret, d), t)" by (metis surj_pair)
  note run = less.prems(1) [unfolded vRead_Back.simps [of E off n retry s] Let_def rd prod.case]
  show ?case
  proof (cases "n > 0")
    case False
    then have "n = 0" by (simp add: word_neq_0_conv [symmetric])
    with run P show ?thesis by auto
  next
    case n: True
    show ?thesis
    proof (cases "ret = 0")
      case True
      have "unat (n - read_len n) < unat n"
        using n by (auto simp: unat_diff_small word_le_nat_alt word_less_nat_alt split: if_splits)
      then have smaller: "unat (n - read_len n) + (3 - retry) < unat n + (3 - retry)" by simp
      show ?thesis
        by (rule less.hyps [OF smaller])
           (use run n True good [OF P n] rd in simp_all)
    next
      case False
      note step = bad [OF P n rd False]
      show ?thesis
      proof (cases "retry + 1 \<ge> 3")
        case True
        with run n False step show ?thesis by simp
      next
        case retry: False
        then have smaller: "unat n + (3 - (retry + 1)) < unat n + (3 - retry)" by simp
        show ?thesis
          by (rule less.hyps [OF smaller _ conjunct1 [OF step]]) (use run n False retry in simp)
      qed
    qed
  qed
qed

lemma read_back_data:
  assumes "vRead_Back E off n retry s = (ok, s')"
  shows "data_step s s'"
proof -
  have "if ok then \<exists>off' :: u32. data_step s s' else data_step s s'"
    by (rule read_back_rule [OF assms, where P = "\<lambda>off n t. data_step s t" and Q = "data_step s"])
       (auto intro: data_step_trans [OF _ data_step_crc] data_step_trans [OF _ data_step_world]
             dest: data_step_read data_step_trans)
  then show ?thesis by (simp split: if_splits)
qed

lemma unat_ucast_u32_u16: "w \<le> 0xFFFF \<Longrightarrow> unat (ucast (w :: u32) :: u16) = unat w"
  by (simp add: unsigned_ucast_eq take_bit_nat_eq_self_iff word_le_nat_alt)

abbreviation "lost_offset s \<equiv> 48 * ucast (fw_uiFirstLostPacketId (sTFWImg s)) :: u32"

text \<open>The state in which the checks run: the packets at the end that never came are marked lost.\<close>

definition tail_marked :: "'w bl_sys \<Rightarrow> 'w bl_sys" where
  "tail_marked s = (if ucast (fw_uiNextId (sTFWImg s)) < expected_packets s
     then upd_img (mark_lost (ucast (expected_packets s))) s else s)"

lemma check_cases:
  assumes "vFinalize_Check E m s = (r, m', s')"
  obtains (pending) "r = Finalize_Nothing" "fw_bLostPacketStateTriggered (sTFWImg s)"
      "uiGet_PendingLostPacketCount (sTFWImg s) > 0"
      "m' = vSet_BootloaderMsgStatus False eBootloader_Error_MissingPacketsPending m"
      "s' = vEnter_LostPacketRecovery_Locked E s"
  | (aborted) e where "r = Finalize_CancelWork" "aborted_from E s s'" "m' = vSet_BootloaderMsgStatus False e m"
  | (direct) "r = Finalize_ProcessCompleted" "\<not> fw_bLostPacketStateTriggered (sTFWImg s)"
      "fw_uiReceivedByteCount (sTFWImg s) = uiFWImgSize s"
      "fw_uiRunningCRC (sTFWImg s) = ucast (bt_uiCRC (bl_mgmt s))" "m' = m" "s' = mark_completed s"
  | (recovered) t where "r = Finalize_ProcessCompleted" "fw_bLostPacketStateTriggered (sTFWImg s)"
      "uiGet_PendingLostPacketCount (sTFWImg s) = 0" "fw_uiReceivedByteCount (sTFWImg s) = uiFWImgSize s"
      "vRead_Back E (lost_offset s + 0x2000) (uiFWImgSize s - lost_offset s) 0 s = (True, t)"
      "fw_uiRunningCRC (sTFWImg t) = ucast (bt_uiCRC (bl_mgmt t))" "m' = m"
      "s' = mark_completed (upd_img (\<lambda>f. f\<lparr>fw_bLostPacketStateTriggered := False\<rparr>) t)"
proof (cases "fw_bLostPacketStateTriggered (sTFWImg s)")
  case False
  with assms show ?thesis
    by (cases "fw_uiReceivedByteCount (sTFWImg s) = uiFWImgSize s";
        cases "fw_uiRunningCRC (sTFWImg s) = ucast (bt_uiCRC (bl_mgmt s))")
       (auto simp: vFinalize_Check_def fail_session_def intro: direct aborted)
next
  case trig: True
  show ?thesis
  proof (cases "uiGet_PendingLostPacketCount (sTFWImg s) > 0")
    case True
    with trig assms show ?thesis by (auto simp: vFinalize_Check_def intro: pending)
  next
    case none: False
    then have zero: "uiGet_PendingLostPacketCount (sTFWImg s) = 0" by (simp add: word_neq_0_conv [symmetric])
    obtain ok e t where val: "vValidate_FWImgCRC_FromFLash_AtLostPacketState E s = ((ok, e), t)" by (metis surj_pair)
    obtain rd u where rb: "vRead_Back E (lost_offset s + 0x2000) (uiFWImgSize s - lost_offset s) 0 s = (rd, u)" by fastforce
    note data = data_step_fields [OF read_back_data [OF rb]]
    show ?thesis
    proof (cases "fw_uiReceivedByteCount (sTFWImg s) = uiFWImgSize s")
      case False
      with trig none assms show ?thesis by (auto simp: vFinalize_Check_def fail_session_def intro: aborted)
    next
      case full: True
      show ?thesis
      proof (cases ok)
        case True
        with val rb have "rd" "fw_uiRunningCRC (sTFWImg u) = ucast (bt_uiCRC (bl_mgmt u))"
            "t = upd_img (\<lambda>f. f\<lparr>fw_bLostPacketStateTriggered := False\<rparr>) u"
          by (auto simp: vValidate_FWImgCRC_FromFLash_AtLostPacketState_def Let_def split: if_splits)
        with True val trig none zero full assms rb show ?thesis
          by (intro recovered [of u]) (auto simp: vFinalize_Check_def)
      next
        case bad: False
        from val rb have "t = s \<or> t = u \<or> t = upd_img (\<lambda>f. f\<lparr>fw_bLostPacketStateTriggered := False\<rparr>) u"
          by (auto simp: vValidate_FWImgCRC_FromFLash_AtLostPacketState_def Let_def split: if_splits)
        then have "aborted_from E s (vAbort_BootloaderSession_Locked E t)"
          using data by (auto simp: aborted_from_def)
        with bad val trig none full assms show ?thesis
          by (intro aborted [of e]) (auto simp: vFinalize_Check_def fail_session_def)
      qed
    qed
  qed
qed

lemma next_below_expected:
  assumes "expected_packets s \<le> 0xFFFF"
  shows "ucast (fw_uiNextId (sTFWImg s)) < expected_packets s
    \<longleftrightarrow> fw_uiNextId (sTFWImg s) < ucast (expected_packets s)"
  using unat_ucast_u32_u16 [OF assms] by (simp add: word_less_nat_alt)

lemma finalize_cases:
  assumes run: "vFinalize_Locked E m s = (r, m', s')" and st: "eBtlState s = eBootloader_State_FWImgWrite_InProg"
  obtains (aborted) e where "r = Finalize_CancelWork" "aborted_from E s s'" "m' = vSet_BootloaderMsgStatus False e m"
  | (checked) "expected_packets s \<le> 0xFFFF"
      "ucast (fw_uiNextId (sTFWImg s)) < expected_packets s \<Longrightarrow> lost_fits (ucast (expected_packets s)) (sTFWImg s)"
      "vFinalize_Check E m (tail_marked s) = (r, m', s')"
proof (cases "expected_packets s > 0xFFFF")
  case True
  with run st show ?thesis by (auto simp: vFinalize_Locked_def fail_session_def intro: aborted)
next
  case False
  then have small: "expected_packets s \<le> 0xFFFF" by simp
  show ?thesis
  proof (cases "ucast (fw_uiNextId (sTFWImg s)) < expected_packets s")
    case less: True
    then have "fw_uiNextId (sTFWImg s) \<le> ucast (expected_packets s)"
      using next_below_expected [OF small] by simp
    note can = bCanHandleMissingPackets_eq [OF this, of E m]
    show ?thesis
    proof (cases "lost_fits (ucast (expected_packets s)) (sTFWImg s)")
      case True
      with run st False less can have "vFinalize_Check E m (tail_marked s) = (r, m', s')"
        by (simp add: vFinalize_Locked_def tail_marked_def)
      with small True show ?thesis by (intro checked)
    next
      case no_room: False
      with run st False less can show ?thesis
        by (intro aborted [of eBootloader_Error_InvalidPacketId]) (auto simp: vFinalize_Locked_def)
    qed
  next
    case not_less: False
    with run st False have "vFinalize_Check E m (tail_marked s) = (r, m', s')"
      by (simp add: vFinalize_Locked_def tail_marked_def)
    then show ?thesis using small not_less checked by blast
  qed
qed

lemma tail_marked_fields [simp]:
  "eBtlState (tail_marked s) = eBtlState s" "bt_bIsInitialized (bl_mgmt (tail_marked s)) = bt_bIsInitialized (bl_mgmt s)"
  "uiFlashAreaSize (tail_marked s) = uiFlashAreaSize s" "uiFWImgSize (tail_marked s) = uiFWImgSize s"
  "bt_uiCRC (bl_mgmt (tail_marked s)) = bt_uiCRC (bl_mgmt s)"
  "bl_bBootloaderStateTimeoutArmed (tail_marked s) = bl_bBootloaderStateTimeoutArmed s"
  "sTTxLostPacketInfo (tail_marked s) = sTTxLostPacketInfo s"
  "fw_bIsFlashWritInProgress (sTFWImg (tail_marked s)) = fw_bIsFlashWritInProgress (sTFWImg s)"
  "fw_uiReceivedByteCount (sTFWImg (tail_marked s)) = fw_uiReceivedByteCount (sTFWImg s)"
  "fw_uiRunningCRC (sTFWImg (tail_marked s)) = fw_uiRunningCRC (sTFWImg s)"
  "bl_world (tail_marked s) = bl_world s" "bl_fault (tail_marked s) = bl_fault s"
  "bl_flashArea (tail_marked s) = bl_flashArea s"
  by (simp_all add: tail_marked_def)

lemma tail_marked_lost_ok:
  assumes "lost_ok (sTFWImg s)" and "expected_packets s \<le> 0xFFFF"
    and "ucast (fw_uiNextId (sTFWImg s)) < expected_packets s \<Longrightarrow> lost_fits (ucast (expected_packets s)) (sTFWImg s)"
  shows "lost_ok (sTFWImg (tail_marked s))"
  using assms mark_lost_ok next_below_expected by (auto simp: tail_marked_def)

lemma mark_completed_simps [simp]:
  "bl_mgmt (mark_completed s) = (bl_mgmt s)\<lparr>bt_eBtlState := eBootloader_State_FWImgWrite_Completed, bt_bIsFirstEntry := True\<rparr>"
  "\<not> bl_bBootloaderStateTimeoutArmed (mark_completed s)"
  "bl_world (mark_completed s) = bl_world s" "bl_fault (mark_completed s) = bl_fault s"
  "bl_flashArea (mark_completed s) = bl_flashArea s"
  by (simp_all add: mark_completed_def)

text \<open>What the completed state leaves behind: a requested upgrade or an aborted session.\<close>

lemma request_upgrade_state:
  assumes "vRequest_MCUbootImageUpgrade E m s = (m', s')"
  shows "(eBtlState s' = eBootloader_State_Reboot \<and> bm_bIsMsgOk m' \<and> bl_bBootloaderStateTimeoutArmed s'
           \<and> bl_mgmt s' = (bl_mgmt s)\<lparr>bt_eBtlState := eBootloader_State_Reboot, bt_bIsFirstEntry := True\<rparr>)
       \<or> (\<not> bm_bIsMsgOk m' \<and> (\<exists>t. bl_mgmt t = bl_mgmt s \<and> s' = vAbort_BootloaderSession E t))"
proof -
  obtain ok w where "request_upgrade_loop E 3 (bl_world s) = (ok, w)" by fastforce
  with assms show ?thesis
    by (cases ok) (auto simp: vRequest_MCUbootImageUpgrade_def Let_def vSet_BootloaderMsgStatus_def
      vSet_BootloaderState_def numeral_3_eq_3 intro: exI [of _ "s\<lparr>bl_world := w\<rparr>"])
qed

lemma completed_ctrl:
  assumes run: "vExecute_Bootloader_FWImgWrite_Completed E m s = (m', s')"
    and cmd: "bm_eCMD m = eBootloader_CMD_FWUpEnd"
    and base: "bt_bIsInitialized (bl_mgmt s)" "uiFlashAreaSize s = fa_size E"
    and flag: "\<not> fw_bIsFlashWritInProgress (sTFWImg s)" and tx: "tx_ok (sTTxLostPacketInfo s)"
  shows "bl_ctrl E s'" and "eBtlState s' = (if bm_bIsMsgOk m' then eBootloader_State_Reboot else eBootloader_State_Error)"
proof -
  obtain t where t: "vRequest_MCUbootImageUpgrade E m t = (m', s')"
      and mg: "bl_mgmt t = (bl_mgmt s)\<lparr>bt_bIsFirstEntry := False\<rparr>"
    using run cmd by (auto simp: vExecute_Bootloader_FWImgWrite_Completed_def Let_def bIsFirstEntry_def
        vCancel_BootloaderStateTimeOut_def split: if_splits)
  have "bl_ctrl E s' \<and> eBtlState s' = (if bm_bIsMsgOk m' then eBootloader_State_Reboot else eBootloader_State_Error)"
    using request_upgrade_state [OF t]
  proof (elim disjE conjE exE)
    assume "bl_mgmt s' = (bl_mgmt t)\<lparr>bt_eBtlState := eBootloader_State_Reboot, bt_bIsFirstEntry := True\<rparr>"
      and "bm_bIsMsgOk m'" and "bl_bBootloaderStateTimeoutArmed s'"
    with mg base flag tx show ?thesis by (simp add: bl_ctrl_def mgmt_ctrl_def)
  next
    fix u assume "bl_mgmt u = bl_mgmt t" and "s' = vAbort_BootloaderSession E u" and "\<not> bm_bIsMsgOk m'"
    with mg base show ?thesis by (simp add: vAbort_BootloaderSession_def abort_ctrl)
  qed
  then show "bl_ctrl E s'" and "eBtlState s' = (if bm_bIsMsgOk m' then eBootloader_State_Reboot else eBootloader_State_Error)"
    by auto
qed

lemma reinit_tx_mgmt:
  "bl_mgmt (vReinit_TxLostPacketInfo s) = bt_stTFWImgCtrl_t_update (fw_stTxLostPacketInfo_update (\<lambda>_. zero_lost_tx)) (bl_mgmt s)"
  "bl_bBootloaderStateTimeoutArmed (vReinit_TxLostPacketInfo s) = bl_bBootloaderStateTimeoutArmed s"
  "bl_world (vReinit_TxLostPacketInfo s) = bl_world s" "bl_fault (vReinit_TxLostPacketInfo s) = bl_fault s"
  "bl_flashArea (vReinit_TxLostPacketInfo s) = bl_flashArea s"
  by (simp_all add: vReinit_TxLostPacketInfo_def zero_lost_tx_def)

lemma lost_ok_tx [simp]: "lost_ok (fw_stTxLostPacketInfo_update g f) = lost_ok f"
  by (simp add: lost_ok_def lost_entries_def)

text \<open>The end command, in a session: it stays, waits for packets, reboots or fails.\<close>

lemma finalize_ctrl:
  assumes run: "vFinalize_FWImageWrite E m s = (m', s')" and ctrl: "bl_ctrl E s"
    and cmd: "bm_eCMD m = eBootloader_CMD_FWUpEnd"
  shows "bl_ctrl E s'"
proof (cases "eBtlState s = eBootloader_State_FWImgWrite_InProg")
  case False
  with run ctrl show ?thesis by (auto simp: vFinalize_FWImageWrite_def vFinalize_Locked_def)
next
  case st: True
  note c = bl_ctrlD [OF ctrl]
  note sess = c(5) [OF st, unfolded session_ok_def]
  obtain r m1 s1 where fin: "vFinalize_Locked E m s = (r, m1, s1)" by (metis prod_cases3)
  let ?t = "tail_marked s"
  have finished: "bl_ctrl E s'" if "r = Finalize_ProcessCompleted" "m1 = m" "s1 = mark_completed u" "data_step ?t u'"
      "u = u' \<or> u = upd_img (\<lambda>f. f\<lparr>fw_bLostPacketStateTriggered := False\<rparr>) u'" for u u'
  proof -
    have "vExecute_Bootloader_FWImgWrite_Completed E m (cancel_work E stBtlStateTimeOut_Work_t (mark_completed u)) = (m', s')"
      using run fin that by (simp add: vFinalize_FWImageWrite_def)
    then show ?thesis
      by (rule completed_ctrl(1) [OF _ cmd])
         (use that(5) c data_step_fields [OF that(4)] in \<open>auto simp: mark_completed_def\<close>)
  qed
  from fin st show ?thesis
  proof (cases rule: finalize_cases)
    case (aborted e)
    with run fin aborted_ctrl [OF ctrl] show ?thesis by (auto simp: vFinalize_FWImageWrite_def)
  next
    case checked
    have ok: "lost_ok (sTFWImg ?t)" using tail_marked_lost_ok [OF _ checked(1,2)] sess by simp
    from checked(3) show ?thesis
    proof (cases rule: check_cases)
      case pending
      with run fin have "s' = vEnter_LostPacketRecovery_Locked E ?t" by (simp add: vFinalize_FWImageWrite_def)
      with ctrl st sess ok show ?thesis
        by (simp add: vEnter_LostPacketRecovery_Locked_def reinit_tx_mgmt bl_ctrl_def mgmt_ctrl_def session_ok_def)
    next
      case (aborted e)
      then have "bl_ctrl E s1" using c by (auto simp: aborted_from_def intro!: abort_ctrl)
      with aborted run fin show ?thesis by (auto simp: vFinalize_FWImageWrite_def)
    next
      case direct
      show ?thesis by (rule finished [OF direct(1,5,6), of ?t]) simp_all
    next
      case (recovered u)
      show ?thesis by (rule finished [OF recovered(1,7,8) read_back_data [OF recovered(5)]]) simp
    qed
  qed
qed

subsection \<open>Lost packet reports\<close>

lemma retry_bound_step: "(c :: u8) < 3 \<Longrightarrow> c + 1 \<le> 3"
  by (simp add: word_less_nat_alt word_le_nat_alt unat_Suc_small)

lemma schedule_fields:
  "bl_mgmt (snd (bSchedule_LostPacketTimeouts E s)) = bl_mgmt s"
  "bl_bBootloaderStateTimeoutArmed (snd (bSchedule_LostPacketTimeouts E s))
     \<longleftrightarrow> bl_bBootloaderStateTimeoutArmed s \<or> fst (bSchedule_LostPacketTimeouts E s)"
  "fst (bSchedule_LostPacketTimeouts E s) \<Longrightarrow> eBtlState s = eBootloader_State_FWImgWrite_InProg"
  "bl_fault (snd (bSchedule_LostPacketTimeouts E s)) = bl_fault s"
  "bl_flashArea (snd (bSchedule_LostPacketTimeouts E s)) = bl_flashArea s"
  by (auto simp: bSchedule_LostPacketTimeouts_def split: if_splits)

lemma schedule_ctrl: "bl_ctrl E s \<Longrightarrow> bl_ctrl E (snd (bSchedule_LostPacketTimeouts E' s))"
  by (auto simp: bl_ctrl_def mgmt_ctrl_def schedule_fields)

text \<open>A change of the transmission record only.\<close>

lemma upd_tx_ctrl:
  assumes "bl_ctrl E s" and "tx_ok (g (sTTxLostPacketInfo s))"
    and "lt_eTxState (g (sTTxLostPacketInfo s)) = eBootloader_Tx_Idle \<or> lt_eTxState (sTTxLostPacketInfo s) \<noteq> eBootloader_Tx_Idle
         \<or> eBtlState s = eBootloader_State_FWImgWrite_InProg"
  shows "bl_ctrl E (upd_tx g s)"
  using assms by (auto simp: bl_ctrl_def mgmt_ctrl_def session_ok_def)

lemma tx_error_ctrl: "bl_ctrl E s \<Longrightarrow> bl_ctrl E (vProcess_Bootloader_TxError E' s)"
  by (auto simp: vProcess_Bootloader_TxError_def abort_session_ctrl split: eT_Bootloader_State.split)

lemma retry_ctrl:
  assumes ctrl: "bl_ctrl E s"
  shows "bl_ctrl E (vProcess_Bootloader_RetryTx E s)"
proof (cases "lt_eTxState (sTTxLostPacketInfo s) = eBootloader_Tx_RetryInProgress \<and> \<not> lt_uiRetryCount (sTTxLostPacketInfo s) \<ge> 3")
  case False
  with ctrl tx_error_ctrl show ?thesis by (auto simp: vProcess_Bootloader_RetryTx_def)
next
  case True
  obtain m w where "send_plain E (bl_can s) (lt_stTCANTxMsg_t (sTTxLostPacketInfo s)) (bl_world s) = (m, w)" by fastforce
  with True have "vProcess_Bootloader_RetryTx E s = snd (bSchedule_LostPacketTimeouts E
      (upd_tx (\<lambda>t. t\<lparr>lt_uiRetryCount := lt_uiRetryCount t + 1, lt_eTxState := eBootloader_Tx_RetryInProgress\<rparr>)
        (s\<lparr>bl_world := w\<rparr>)))"
    by (simp add: vProcess_Bootloader_RetryTx_def)
  moreover have "bl_ctrl E (upd_tx (\<lambda>t. t\<lparr>lt_uiRetryCount := lt_uiRetryCount t + 1, lt_eTxState := eBootloader_Tx_RetryInProgress\<rparr>)
        (s\<lparr>bl_world := w\<rparr>))"
    by (rule upd_tx_ctrl) (use ctrl True retry_bound_step in \<open>auto simp: tx_ok_def bl_ctrl_def\<close>)
  ultimately show ?thesis by (simp add: schedule_ctrl)
qed

lemma set_tx_retry_ctrl:
  assumes "bl_ctrl E s" and "lt_eTxState (sTTxLostPacketInfo s) \<noteq> eBootloader_Tx_Idle"
  shows "bl_ctrl E (vSet_TxState eBootloader_Tx_RetryInProgress s)"
  unfolding vSet_TxState_def
  by (rule upd_tx_ctrl [OF assms(1)]) (use assms bl_ctrlD(4) [OF assms(1)] in \<open>auto simp: tx_ok_def\<close>)

lemma tx_timeout_ctrl: "bl_ctrl E s \<Longrightarrow> bl_ctrl E (vBtlTxTimeOutHandler E s)"
  by (auto simp: vBtlTxTimeOutHandler_def intro!: tx_error_ctrl retry_ctrl set_tx_retry_ctrl)

lemma tx_response_ctrl:
  assumes ctrl: "bl_ctrl E s"
  shows "bl_ctrl E (vHandle_LostPacketInfo_TxResponse E ack seq s)"
proof -
  have acked: "bl_ctrl E (vSet_TxState eBootloader_Tx_Idle
      (upd_tx (\<lambda>t. t\<lparr>lt_uiRetryCount := 0\<rparr>) (cancel_work E stBtlTxTimeOut_Work_t s)))"
    using ctrl by (auto simp: vSet_TxState_def bl_ctrl_def mgmt_ctrl_def session_ok_def tx_ok_def)
  show ?thesis
    using acked ctrl retry_ctrl [OF set_tx_retry_ctrl [OF ctrl]]
    by (auto simp: vHandle_LostPacketInfo_TxResponse_def split: option.split eT_CANACK_Ctrl.split)
qed

lemma host_ack_ctrl:
  assumes "vHandle_HostAcknowledgements E m s = (m', s')" and "bl_ctrl E s"
  shows "bl_ctrl E s'"
  using assms tx_response_ctrl
  by (auto simp: vHandle_HostAcknowledgements_def vHandle_ACK_ForLostPacketInfo_def
      split: eT_Bootloader_Command.splits if_splits)

lemma keep_tx_msg_fields [simp]:
  "lt_eTxState (keep_tx_msg m t) = lt_eTxState t" "lt_uiRetryCount (keep_tx_msg m t) = lt_uiRetryCount t"
  by (simp_all add: keep_tx_msg_def Let_def)

lemma get_lost_ctrl:
  assumes run: "vGet_LostPacketInfo E m s = (m', s')" and ctrl: "bl_ctrl E s"
    and st: "eBtlState s = eBootloader_State_FWImgWrite_InProg"
  shows "bl_ctrl E s'"
proof (cases "bm_eCMD m = eBootloader_CMD_GetLostPacketInfo \<and> lt_eTxState (sTTxLostPacketInfo s) = eBootloader_Tx_Idle")
  case False
  with run ctrl show ?thesis by (auto simp: vGet_LostPacketInfo_def split: if_splits)
next
  case True
  let ?s = "vSet_TxState eBootloader_Tx_InProgress s"
  obtain txm w where "send_plain E (bl_can ?s) (lost_info_msg (sTFWImg ?s)) (bl_world ?s) = (txm, w)" by fastforce
  moreover obtain u where u: "u = ?s\<lparr>bl_world := w\<rparr>" by blast
  ultimately have s': "s' = snd (bSchedule_LostPacketTimeouts E
      (if tx_eTxResult txm \<noteq> eCAN_TxSubmit_Queued
       then upd_tx (\<lambda>t. (keep_tx_msg txm t)\<lparr>lt_eTxState := eBootloader_Tx_RetryInProgress, lt_uiRetryCount := lt_uiRetryCount t + 1\<rparr>) u
       else upd_tx (\<lambda>t. (keep_tx_msg txm t)\<lparr>lt_uiFrameSeq := lt_uiFrameSeq t + 1\<rparr>) u))"
    using run True by (cases "tx_eTxResult txm = eCAN_TxSubmit_Queued") (auto simp: vGet_LostPacketInfo_def Let_def)
  have zero: "lt_uiRetryCount (sTTxLostPacketInfo s) = 0" using True bl_ctrlD(4) [OF ctrl] by (simp add: tx_ok_def)
  have "bl_ctrl E ?s" unfolding vSet_TxState_def
    by (rule upd_tx_ctrl [OF ctrl]) (use True st bl_ctrlD(4) [OF ctrl] in \<open>auto simp: tx_ok_def\<close>)
  then have base: "bl_ctrl E u" by (simp add: u bl_ctrl_def)
  have tu: "lt_uiRetryCount (sTTxLostPacketInfo u) = 0" "lt_eTxState (sTTxLostPacketInfo u) = eBootloader_Tx_InProgress"
    using zero by (simp_all add: u vSet_TxState_def)
  show ?thesis unfolding s'
  proof (rule schedule_ctrl, cases "tx_eTxResult txm = eCAN_TxSubmit_Queued")
    case True
    have "bl_ctrl E (upd_tx (\<lambda>t. (keep_tx_msg txm t)\<lparr>lt_uiFrameSeq := lt_uiFrameSeq t + 1\<rparr>) u)"
      by (rule upd_tx_ctrl [OF base]) (simp_all add: tx_ok_def tu)
    with True show "bl_ctrl E (if tx_eTxResult txm \<noteq> eCAN_TxSubmit_Queued
       then upd_tx (\<lambda>t. (keep_tx_msg txm t)\<lparr>lt_eTxState := eBootloader_Tx_RetryInProgress, lt_uiRetryCount := lt_uiRetryCount t + 1\<rparr>) u
       else upd_tx (\<lambda>t. (keep_tx_msg txm t)\<lparr>lt_uiFrameSeq := lt_uiFrameSeq t + 1\<rparr>) u)" by simp
  next
    case False
    have "bl_ctrl E (upd_tx (\<lambda>t. (keep_tx_msg txm t)\<lparr>lt_eTxState := eBootloader_Tx_RetryInProgress, lt_uiRetryCount := lt_uiRetryCount t + 1\<rparr>) u)"
      by (rule upd_tx_ctrl [OF base]) (simp_all add: tx_ok_def tu)
    with False show "bl_ctrl E (if tx_eTxResult txm \<noteq> eCAN_TxSubmit_Queued
       then upd_tx (\<lambda>t. (keep_tx_msg txm t)\<lparr>lt_eTxState := eBootloader_Tx_RetryInProgress, lt_uiRetryCount := lt_uiRetryCount t + 1\<rparr>) u
       else upd_tx (\<lambda>t. (keep_tx_msg txm t)\<lparr>lt_uiFrameSeq := lt_uiFrameSeq t + 1\<rparr>) u)" by simp
  qed
qed

subsection \<open>Timeouts, the dispatch and the steps\<close>

lemma state_timeout_ctrl:
  assumes "bl_ctrl E s"
  shows "bl_ctrl E (vBtlState_TimeOutHandler E s)"
proof -
  obtain now w where "k_uptime_get E (bl_world s) = (now, w)" by fastforce
  then show ?thesis
    using assms abort_ctrl [of "vInvalidate_BootloaderStateTimeOut_Locked (s\<lparr>bl_world := w\<rparr>)" E E] bl_ctrlD(1,2) [OF assms]
    by (auto simp: vBtlState_TimeOutHandler_def Let_def bl_ctrl_def mgmt_ctrl_def)
qed

lemma dispatch_ctrl:
  assumes run: "vUpdateBootloader E m s = (m', s')" and ctrl: "bl_ctrl E s" and small: "slot_small E"
  shows "bl_ctrl E s'"
proof (cases "eBtlState s")
  case eBootloader_State_Idle
  with run show ?thesis by (simp add: vUpdateBootloader_def idle_ctrl [OF _ ctrl])
next
  case st: eBootloader_State_FWImgWrite_InProg
  note abort_session_ctrl [OF ctrl, of E]
  moreover have "vFinalize_FWImageWrite E m s = (m', s') \<Longrightarrow> bm_eCMD m = eBootloader_CMD_FWUpEnd \<Longrightarrow> bl_ctrl E s'"
    by (rule finalize_ctrl [OF _ ctrl])
  moreover have "vUpdate_FWImage E m s = (m', s') \<Longrightarrow> bl_ctrl E s'" by (rule update_ctrl [OF _ ctrl small])
  moreover have "vGet_LostPacketInfo E m s = (m', s') \<Longrightarrow> bl_ctrl E s'" by (rule get_lost_ctrl [OF _ ctrl st])
  ultimately show ?thesis
    using run st ctrl
    by (auto simp: vUpdateBootloader_def vExecute_Bootloader_FWImgWrite_State_def vStop_FWUpgradeProcess_def
        split: if_splits eT_Bootloader_Command.splits)
next
  case eBootloader_State_Reboot
  with run ctrl show ?thesis
    by (auto simp: vUpdateBootloader_def vExecute_Bootloader_Reboot_def vCancel_BootloaderStateTimeOut_def
        bl_ctrl_def mgmt_ctrl_def)
next
  case eBootloader_State_Error
  with run ctrl reinit_ctrl [of E "snd (bIsFirstEntry s)" E] show ?thesis
    by (auto simp: vUpdateBootloader_def vExecute_Bootloader_ErrorState_def Let_def split_beta
        split: eT_Bootloader_Command.splits)
qed (use ctrl in \<open>auto simp: bl_ctrl_def mgmt_ctrl_def\<close>)

lemma step_ctrl: "bl_step E R s s' \<Longrightarrow> bl_ctrl E s \<Longrightarrow> slot_small E \<Longrightarrow> bl_ctrl E s'"
  by (erule bl_stepE)
     (auto intro: dispatch_ctrl host_ack_ctrl state_timeout_ctrl tx_timeout_ctrl)

lemma reach_ctrl: "bl_reach E R s \<Longrightarrow> slot_small E \<Longrightarrow> bl_ctrl E s"
  by (induction rule: bl_reach.induct) (auto intro: init_ctrl step_ctrl)

end
