(* ===== verification/Bootloader_Demo.thy ===== *)
theory Bootloader_Demo
  imports Bootloader_Control
begin

text \<open>
  A concrete platform, a RAM with working services, and a short update on it: the inputs at
  which the bootloader's properties are instantiated.
\<close>

type_synonym ram = "nat \<Rightarrow> u8"

definition demo_platform :: "ram bl_platform" where
  "demo_platform = \<lparr>eFlexCAN_SendMsg = (\<lambda>m w. (eCAN_TxSubmit_Queued, w)), k_uptime_get = (\<lambda>w. (7, w)),
     fa_size = 0xF2000, flash_area_open = (\<lambda>w. ((0, True), w)), flash_area_close = (\<lambda>w. w),
     flash_area_erase = (\<lambda>off n w. (0, \<lambda>k. if unat off \<le> k \<and> k < unat off + unat n then 0xFF else w k)),
     flash_area_write = (\<lambda>off d w. if unat off + length d \<le> 0xF2000
        then (0, \<lambda>k. if unat off \<le> k \<and> k < unat off + length d then d ! (k - unat off) else w k) else (-22, w)),
     flash_area_read = (\<lambda>off n w. if unat off + unat n \<le> 0xF2000 then ((0, mem_bytes w (unat off) (unat n)), w) else ((-22, []), w)),
     boot_request_upgrade = (\<lambda>w. (0, w)), boot_is_img_confirmed = (\<lambda>w. (1, w)),
     boot_write_img_confirmed = (\<lambda>w. (0, w)), k_work_reschedule = (\<lambda>wk t w. w),
     k_work_cancel_delayable = (\<lambda>wk w. w), k_msleep = (\<lambda>t w. w), sys_reboot = (\<lambda>w. w)\<rparr>"

lemma demo_platform_simps [simp]:
  "eFlexCAN_SendMsg demo_platform m w = (eCAN_TxSubmit_Queued, w)" "k_uptime_get demo_platform w = (7, w)"
  "fa_size demo_platform = 0xF2000" "flash_area_open demo_platform w = ((0, True), w)"
  "flash_area_close demo_platform w = w" "boot_request_upgrade demo_platform w = (0, w)"
  "k_work_reschedule demo_platform wk t w = w" "k_work_cancel_delayable demo_platform wk w = w"
  "k_msleep demo_platform t w = w" "sys_reboot demo_platform w = w"
  "flash_area_erase demo_platform off n w = (0, \<lambda>k. if unat off \<le> k \<and> k < unat off + unat n then 0xFF else w k)"
  by (simp_all add: demo_platform_def)

lemma demo_slot_small [simp]: "slot_small demo_platform"
  by (simp add: slot_small_def)

text \<open>The start of the program, and the state after initialisation.\<close>

definition demo_start :: "ram bl_sys" where
  "demo_start = \<lparr>bl_mgmt = zero_mgmt, bl_flashArea = False, bl_iBootloaderStateDeadline_ms = 0,
     bl_bBootloaderStateTimeoutArmed = False, bl_can = init_can_config, bl_world = (\<lambda>_. 0), bl_fault = False\<rparr>"

definition demo_idle :: "ram bl_sys" where
  "demo_idle = snd (bInit_BootloaderController demo_platform demo_start)"

lemma demo_idle_run: "bInit_BootloaderController demo_platform demo_start = (True, demo_idle)"
  unfolding demo_idle_def by (simp add: bInit_BootloaderController_def Let_def)

lemma demo_idle_reach: "bl_reach demo_platform R demo_idle"
  by (rule reach_init [OF _ _ _ demo_idle_run]) (simp_all add: demo_start_def)

text \<open>The announcement of an image of one byte, 0x31, whose CRC is 0xC782.\<close>

definition demo_announce :: sT_Bootloader_CtrlMsg_t where
  "demo_announce = \<lparr>bm_eCMD = eBootloader_CMD_FWUpReq, bm_bIsMsgOk = True, bm_bIsACKReq = True,
     bm_eErrorCode = eBootloader_Error_None, bm_uiLen = 10,
     bm_uiaData = [0, 0, 1, 2, 0, 3, 0, 4, 0xC7, 0x82] @ replicate 54 0\<rparr>"

lemma demo_crc: "u16CRC16_CCITT_Update 0xFFFF [0x31] = 0xC782"
  by code_simp


definition demo_session :: "ram bl_sys" where
  "demo_session = snd (vUpdateBootloader demo_platform demo_announce demo_idle)"

definition demo_mgmt :: "eT_Bootloader_State \<Rightarrow> bool \<Rightarrow> u32 \<Rightarrow> u16 \<Rightarrow> sT_FWImg_Ctrl_t \<Rightarrow> sT_Bootloader_Mgmt_t" where
  "demo_mgmt st first sz c f = \<lparr>bt_eBtlState = st, bt_bIsInitialized = True, bt_bIsFirstEntry = first,
     bt_uiFlashAreaSize = 0xF2000, bt_uiFWImgSize = sz, bt_uiLibRev = (if sz = 0 then 0 else 3),
     bt_uiFWRev = (if sz = 0 then 0 else 4), bt_uiCRC = c, bt_uiHWRev = (if sz = 0 then 0 else 2),
     bt_stTFWImgCtrl_t = f, bt_stTBTLAuthCtrl = zero_auth\<rparr>"

lemma demo_idle_eq:
  "demo_idle = \<lparr>bl_mgmt = demo_mgmt eBootloader_State_Idle False 0 0 fresh_img, bl_flashArea = False,
     bl_iBootloaderStateDeadline_ms = 0, bl_bBootloaderStateTimeoutArmed = False, bl_can = init_can_config,
     bl_world = (\<lambda>_. 0), bl_fault = False\<rparr>"
  by (simp add: demo_idle_def bInit_BootloaderController_def Let_def demo_start_def demo_mgmt_def zero_auth_def
      vInit_Bootloader_SecurityLayer_def reset_ops zero_mgmt_def fresh_img_def zero_img_ctrl_def zero_lost_tx_def)

lemma demo_announce_fields [simp]:
  "bm_eCMD demo_announce = eBootloader_CMD_FWUpReq" "bm_uiLen demo_announce = 10"
  "length (bm_uiaData demo_announce) = 64"
  by (simp_all add: demo_announce_def)

lemma demo_session_eq:
  "vUpdateBootloader demo_platform demo_announce demo_idle =
    (vSet_BootloaderMsgStatus True eBootloader_Error_None demo_announce,
     \<lparr>bl_mgmt = demo_mgmt eBootloader_State_FWImgWrite_InProg True 1 0xC782 fresh_img, bl_flashArea = False,
      bl_iBootloaderStateDeadline_ms = 5007, bl_bBootloaderStateTimeoutArmed = True, bl_can = init_can_config,
      bl_world = (\<lambda>k. if k < 0xF2000 then 0xFF else 0), bl_fault = False\<rparr>)"
  by (simp add: vUpdateBootloader_def vExecute_Bootloader_IdleState_def bIsFW_ImageWrite_InProgress_def
      bIsFirstEntry_def vInit_BootloaderManager_ForNewFWImage_def vErase_FlashArea_def Let_def demo_idle_eq
      demo_mgmt_def demo_announce_def vSet_BootloaderMsgStatus_def be24_def be16_def clear_progress_def
      vSet_BootloaderState_def vRefresh_BootloaderStateTimeOut_Locked_def fresh_img_def zero_img_ctrl_def cong: if_cong)

lemma demo_session_run:
  "vUpdateBootloader demo_platform demo_announce demo_idle
     = (vSet_BootloaderMsgStatus True eBootloader_Error_None demo_announce, demo_session)"
  by (simp add: demo_session_def demo_session_eq)

lemma demo_session_eq':
  "demo_session = \<lparr>bl_mgmt = demo_mgmt eBootloader_State_FWImgWrite_InProg True 1 0xC782 fresh_img, bl_flashArea = False,
      bl_iBootloaderStateDeadline_ms = 5007, bl_bBootloaderStateTimeoutArmed = True, bl_can = init_can_config,
      bl_world = (\<lambda>k. if k < 0xF2000 then 0xFF else 0), bl_fault = False\<rparr>"
  by (simp add: demo_session_def demo_session_eq)

lemma demo_mgmt_simps [simp]:
  "bt_eBtlState (demo_mgmt st first sz c f) = st" "bt_bIsInitialized (demo_mgmt st first sz c f)"
  "bt_uiFWImgSize (demo_mgmt st first sz c f) = sz" "bt_uiFlashAreaSize (demo_mgmt st first sz c f) = 0xF2000"
  "bt_uiCRC (demo_mgmt st first sz c f) = c" "bt_stTFWImgCtrl_t (demo_mgmt st first sz c f) = f"
  "bt_bIsFirstEntry (demo_mgmt st first sz c f) = first"
  by (simp_all add: demo_mgmt_def)

lemma demo_session_reach: "bl_reach demo_platform R demo_session"
  by (rule reach_step [OF demo_idle_reach step_dispatch [OF _ demo_session_run]]) simp

text \<open>The host asks for the lost packets.\<close>

definition demo_get :: sT_Bootloader_CtrlMsg_t where
  "demo_get = demo_announce\<lparr>bm_eCMD := eBootloader_CMD_GetLostPacketInfo\<rparr>"

definition demo_report :: "ram bl_sys" where
  "demo_report = snd (vUpdateBootloader demo_platform demo_get demo_session)"

lemma send_plain_demo: "send_plain demo_platform init_can_config m w
    = (m\<lparr>tx_stTUserData := zero_context, tx_eTxResult := eCAN_TxSubmit_Queued\<rparr>, w)"
  by (simp add: send_plain_def vSend_CANMessage_def init_can_config_def)

lemma demo_report_fields [simp]:
  "eBtlState demo_report = eBootloader_State_FWImgWrite_InProg"
  "lt_eTxState (sTTxLostPacketInfo demo_report) = eBootloader_Tx_InProgress"
  by (simp_all add: demo_report_def vUpdateBootloader_def vExecute_Bootloader_FWImgWrite_State_def demo_get_def
      vGet_LostPacketInfo_def demo_session_eq' vSet_TxState_def send_plain_demo schedule_fields)

lemma demo_report_reach: "bl_reach demo_platform R demo_report"
proof -
  obtain m s where run: "vUpdateBootloader demo_platform demo_get demo_session = (m, s)" by fastforce
  have "length (bm_uiaData demo_get) = 64" by (simp add: demo_get_def)
  with run show ?thesis
    using reach_step [OF demo_session_reach step_dispatch] by (simp add: demo_report_def)
qed

text \<open>The only packet of the image, and the end command.\<close>

definition demo_packet :: sT_Bootloader_CtrlMsg_t where
  "demo_packet = \<lparr>bm_eCMD = eBootloader_CMD_FWUpMsg, bm_bIsMsgOk = True, bm_bIsACKReq = False,
     bm_eErrorCode = eBootloader_Error_None, bm_uiLen = 50, bm_uiaData = [0, 0, 0x31] @ replicate 61 0\<rparr>"

definition demo_end :: sT_Bootloader_CtrlMsg_t where
  "demo_end = \<lparr>bm_eCMD = eBootloader_CMD_FWUpEnd, bm_bIsMsgOk = True, bm_bIsACKReq = True,
     bm_eErrorCode = eBootloader_Error_None, bm_uiLen = 0, bm_uiaData = replicate 64 0\<rparr>"

definition demo_flash :: ram where
  "demo_flash = (\<lambda>k. if 0x2000 \<le> k \<and> k < 0x2010 then (0x31 # replicate 15 0xFF) ! (k - 0x2000)
     else if k < 0xF2000 then 0xFF else 0)"

definition demo_written :: "ram bl_sys" where
  "demo_written = \<lparr>bl_mgmt = demo_mgmt eBootloader_State_FWImgWrite_InProg True 1 0xC782
       (fresh_img\<lparr>fw_uiNextId := 1, fw_uiReceivedByteCount := 1, fw_uiRunningCRC := 0xC782\<rparr>),
     bl_flashArea = True, bl_iBootloaderStateDeadline_ms = 1007, bl_bBootloaderStateTimeoutArmed = True,
     bl_can = init_can_config, bl_world = demo_flash, bl_fault = False\<rparr>"

lemma demo_write [simp]: "flash_area_write demo_platform 0x2000 d w =
    (if length d \<le> 0xF0000 then (0, \<lambda>k. if 0x2000 \<le> k \<and> k < 0x2000 + length d then d ! (k - 0x2000) else w k) else (-22, w))"
  by (simp add: demo_platform_def cong: if_cong)

lemma demo_numbers [simp]: "\<not> (16 :: u32) \<le> 1" "crc_byte 0xFFFF 0x31 = 0xC782"
  by (simp add: word_le_nat_alt) code_simp

lemma demo_packet_run: "vUpdateBootloader demo_platform demo_packet demo_session = (demo_packet, demo_written)"
  by (simp add: vUpdateBootloader_def vExecute_Bootloader_FWImgWrite_State_def demo_session_eq' demo_packet_def
      vUpdate_FWImage_def vUpdate_FWImage_Locked_def be16_def admit_packet_def begin_packet_def open_for_first_def
      vWrite_FWBlocks.simps vWrite_FWBlock_def update_running_crc_def demo_crc write_flash_def memcpy_list_def
      vHandle_LostPacketRecovery_def vRefresh_BootloaderStateTimeOut_Locked_def demo_written_def demo_mgmt_def
      fresh_img_def zero_img_ctrl_def demo_flash_def Let_def cong: if_cong)

lemma demo_written_reach: "bl_reach demo_platform R demo_written"
  by (rule reach_step [OF demo_session_reach step_dispatch [OF _ demo_packet_run]]) (simp add: demo_packet_def)

definition demo_reboot :: "ram bl_sys" where
  "demo_reboot = \<lparr>bl_mgmt = demo_mgmt eBootloader_State_Reboot True 1 0xC782
       (fresh_img\<lparr>fw_uiNextId := 1, fw_uiReceivedByteCount := 1, fw_uiRunningCRC := 0xC782\<rparr>),
     bl_flashArea = False, bl_iBootloaderStateDeadline_ms = 107, bl_bBootloaderStateTimeoutArmed = True,
     bl_can = init_can_config, bl_world = demo_flash, bl_fault = False\<rparr>"

lemma demo_end_run:
  "vUpdateBootloader demo_platform demo_end demo_written = (demo_end, demo_reboot)"
  by (simp add: vUpdateBootloader_def vExecute_Bootloader_FWImgWrite_State_def demo_written_def demo_end_def
      vFinalize_FWImageWrite_def vFinalize_Locked_def vFinalize_Check_def expected_packets_def mark_completed_def
      vExecute_Bootloader_FWImgWrite_Completed_def bIsFirstEntry_def vCancel_BootloaderStateTimeOut_def
      vInvalidate_BootloaderStateTimeOut_Locked_def cancel_work_def close_flash_def vRequest_MCUbootImageUpgrade_def
      numeral_3_eq_3 vSet_BootloaderState_def vSet_BootloaderMsgStatus_def vRefresh_BootloaderStateTimeOut_Locked_def
      demo_reboot_def demo_mgmt_def Let_def)

end
