(* ===== verification/Bootloader_Properties.thy ===== *)
theory Bootloader_Properties
  imports Bootloader_Demo
begin

text \<open>
  What the control invariant gives for every reachable state of the bootloader, and the
  functional behaviour of its dispatch.
\<close>

text \<open>
  Between two steps the bootloader is idle, in a session, waiting for the reboot or in
  error: the completed state only exists inside the dispatch that requests the upgrade, and
  the flash write flag is never left set, so no packet is refused because of it.
\<close>

theorem bl_visible_states:
  assumes "bl_reach E R s" and "slot_small E"
  shows "eBtlState s \<in> {eBootloader_State_Idle, eBootloader_State_FWImgWrite_InProg, eBootloader_State_Reboot, eBootloader_State_Error}
    \<and> bt_bIsInitialized (bl_mgmt s) \<and> \<not> fw_bIsFlashWritInProgress (sTFWImg s)"
  using reach_ctrl [OF assms] by (simp add: bl_ctrl_def mgmt_ctrl_def)

theorem bl_visible_states_witness:
  "eBtlState demo_session = eBootloader_State_FWImgWrite_InProg
   \<and> (bt_bIsInitialized (bl_mgmt demo_session) \<and> \<not> fw_bIsFlashWritInProgress (sTFWImg demo_session))"
  using bl_visible_states [OF demo_session_reach demo_slot_small] by (simp add: demo_session_eq')

text \<open>
  Property C7. A session never hangs: in every reachable state of a session the timeout is
  armed, and its handler, run at or after the deadline, closes the area, clears the image and
  transmission records and enters the error state; run earlier it changes nothing of the session.
\<close>

theorem bl_session_times_out:
  assumes "bl_reach E R s" and "slot_small E" and "eBtlState s = eBootloader_State_FWImgWrite_InProg"
  shows "bl_bBootloaderStateTimeoutArmed s
    \<and> (bl_iBootloaderStateDeadline_ms s \<le> fst (k_uptime_get E (bl_world s)) \<longrightarrow>
         eBtlState (vBtlState_TimeOutHandler E s) = eBootloader_State_Error
         \<and> sTFWImg (vBtlState_TimeOutHandler E s) = fresh_img
         \<and> uiFWImgSize (vBtlState_TimeOutHandler E s) = 0
         \<and> \<not> bl_flashArea (vBtlState_TimeOutHandler E s)
         \<and> \<not> bl_bBootloaderStateTimeoutArmed (vBtlState_TimeOutHandler E s))
    \<and> (fst (k_uptime_get E (bl_world s)) < bl_iBootloaderStateDeadline_ms s \<longrightarrow>
         bl_mgmt (vBtlState_TimeOutHandler E s) = bl_mgmt s \<and> bl_bBootloaderStateTimeoutArmed (vBtlState_TimeOutHandler E s))"
proof -
  have armed: "bl_bBootloaderStateTimeoutArmed s" by (rule bl_ctrlD(6) [OF reach_ctrl [OF assms(1,2)] assms(3)])
  obtain now w where t: "k_uptime_get E (bl_world s) = (now, w)" by fastforce
  have "bl_iBootloaderStateDeadline_ms s \<le> now \<Longrightarrow> vBtlState_TimeOutHandler E s
      = cancel_work E stBtlTxTimeOut_Work_t (vAbort_BootloaderSession_Locked E
          (vInvalidate_BootloaderStateTimeOut_Locked (s\<lparr>bl_world := w\<rparr>)))"
    using armed t assms(3) by (simp add: vBtlState_TimeOutHandler_def)
  moreover have "now < bl_iBootloaderStateDeadline_ms s \<Longrightarrow> vBtlState_TimeOutHandler E s
      = upd_world (k_work_reschedule E stBtlStateTimeOut_Work_t (bl_iBootloaderStateDeadline_ms s - now)) (s\<lparr>bl_world := w\<rparr>)"
    using armed t by (simp add: vBtlState_TimeOutHandler_def)
  ultimately show ?thesis using armed t by simp
qed

text \<open>The clock of the demonstration platform stands at 7 ms, before the deadline of 5007 ms.\<close>

theorem bl_session_times_out_witness:
  "eBtlState demo_session = eBootloader_State_FWImgWrite_InProg
   \<and> bl_mgmt (vBtlState_TimeOutHandler demo_platform demo_session) = bl_mgmt demo_session"
  using bl_session_times_out [OF demo_session_reach demo_slot_small] by (simp add: demo_session_eq')

subsection \<open>Reports give up\<close>

lemma tx_timeout_step:
  assumes "eBtlState s = eBootloader_State_FWImgWrite_InProg" and "lt_eTxState (sTTxLostPacketInfo s) \<noteq> eBootloader_Tx_Idle"
  shows "if lt_uiRetryCount (sTTxLostPacketInfo s) \<ge> 3 then eBtlState (vBtlTxTimeOutHandler E s) = eBootloader_State_Error
    else eBtlState (vBtlTxTimeOutHandler E s) = eBootloader_State_FWImgWrite_InProg
      \<and> lt_eTxState (sTTxLostPacketInfo (vBtlTxTimeOutHandler E s)) \<noteq> eBootloader_Tx_Idle
      \<and> lt_uiRetryCount (sTTxLostPacketInfo (vBtlTxTimeOutHandler E s)) = lt_uiRetryCount (sTTxLostPacketInfo s) + 1"
proof -
  have busy: "lt_eTxState (sTTxLostPacketInfo s) \<in> {eBootloader_Tx_InProgress, eBootloader_Tx_RetryInProgress}"
    using assms(2) by (cases "lt_eTxState (sTTxLostPacketInfo s)") auto
  let ?r = "vSet_TxState eBootloader_Tx_RetryInProgress s"
  obtain m w where "send_plain E (bl_can ?r) (lt_stTCANTxMsg_t (sTTxLostPacketInfo ?r)) (bl_world ?r) = (m, w)" by fastforce
  then show ?thesis
    using busy assms(1)
    by (auto simp: vBtlTxTimeOutHandler_def vProcess_Bootloader_TxError_def vAbort_BootloaderSession_def
        vProcess_Bootloader_RetryTx_def vSet_TxState_def schedule_fields)
qed

lemma tx_timeouts_end:
  assumes "eBtlState s = eBootloader_State_FWImgWrite_InProg" and "lt_eTxState (sTTxLostPacketInfo s) \<noteq> eBootloader_Tx_Idle"
    and "unat (lt_uiRetryCount (sTTxLostPacketInfo s)) + n = 3"
  shows "eBtlState ((vBtlTxTimeOutHandler E ^^ Suc n) s) = eBootloader_State_Error"
  using assms
proof (induction n arbitrary: s)
  case 0
  then have "lt_uiRetryCount (sTTxLostPacketInfo s) \<ge> 3" by (simp add: word_le_nat_alt)
  with tx_timeout_step [OF 0(1,2), of E] show ?case by simp
next
  case (Suc n)
  let ?s = "vBtlTxTimeOutHandler E s"
  have less: "\<not> lt_uiRetryCount (sTTxLostPacketInfo s) \<ge> 3" using Suc.prems(3) by (simp add: word_le_nat_alt)
  have "unat (lt_uiRetryCount (sTTxLostPacketInfo s) + 1) = unat (lt_uiRetryCount (sTTxLostPacketInfo s)) + 1"
    using Suc.prems(3) by (subst unat_Suc_small) simp_all
  with tx_timeout_step [OF Suc.prems(1,2), of E] less Suc.prems(3)
  have "eBtlState ((vBtlTxTimeOutHandler E ^^ Suc n) ?s) = eBootloader_State_Error"
    by (intro Suc.IH) simp_all
  then show ?case by (simp only: funpow_Suc_right o_apply)
qed

text \<open>
  Property C8. An unanswered lost packet report ends: in any reachable session with a report under
  way, at most four runs of the transmission timeout without an answer of the host abort the
  session, whatever the CAN driver returns.
\<close>

theorem bl_report_gives_up:
  assumes "bl_reach E R s" and "slot_small E" and "eBtlState s = eBootloader_State_FWImgWrite_InProg"
    and "lt_eTxState (sTTxLostPacketInfo s) \<noteq> eBootloader_Tx_Idle"
  shows "\<exists>n \<le> 4. eBtlState ((vBtlTxTimeOutHandler E ^^ n) s) = eBootloader_State_Error"
proof -
  have "unat (lt_uiRetryCount (sTTxLostPacketInfo s)) \<le> 3"
    using bl_ctrlD(4) [OF reach_ctrl [OF assms(1,2)]] by (simp add: tx_ok_def word_le_nat_alt)
  then have "unat (lt_uiRetryCount (sTTxLostPacketInfo s)) + (3 - unat (lt_uiRetryCount (sTTxLostPacketInfo s))) = 3" by simp
  from tx_timeouts_end [OF assms(3,4) this, of E] show ?thesis
    by (intro exI [of _ "Suc (3 - unat (lt_uiRetryCount (sTTxLostPacketInfo s)))"]) simp
qed

theorem bl_report_gives_up_witness:
  "lt_eTxState (sTTxLostPacketInfo demo_report) \<noteq> eBootloader_Tx_Idle
   \<and> (\<exists>n \<le> 4. eBtlState ((vBtlTxTimeOutHandler demo_platform ^^ n) demo_report) = eBootloader_State_Error)"
  using bl_report_gives_up [OF demo_report_reach demo_slot_small] by simp

subsection \<open>The lost packet table\<close>

text \<open>
  Property C6. In every reachable session the lost packet table is sound: at most 100 entries, in
  strictly ascending order of packet id, all below the next expected id; pending and recovered
  packets add up to the lost ones; the lost packet mode is on exactly when something was lost.
\<close>

theorem bl_lost_table:
  assumes "bl_reach E R s" and "slot_small E" and "eBtlState s = eBootloader_State_FWImgWrite_InProg"
  shows "unat (fw_uiLostPacketCount (sTFWImg s)) \<le> 100
    \<and> sorted_wrt (<) (map lp_uiPacketId (lost_entries (sTFWImg s)))
    \<and> list_all (\<lambda>e. lp_uiPacketId e < fw_uiNextId (sTFWImg s)) (lost_entries (sTFWImg s))
    \<and> unat (uiGet_PendingLostPacketCount (sTFWImg s)) + unat (fw_uiRecoveredPacketCount (sTFWImg s))
        = unat (fw_uiLostPacketCount (sTFWImg s))
    \<and> fw_bLostPacketStateTriggered (sTFWImg s) = (fw_uiLostPacketCount (sTFWImg s) \<noteq> 0)"
proof -
  have ok: "lost_ok (sTFWImg s)"
    using bl_ctrlD(5) [OF reach_ctrl [OF assms(1,2)] assms(3)] by (simp add: session_ok_def)
  show ?thesis
    using lost_okD(2,3,7) [OF ok] lost_okD(4) [OF ok] pending_plus_recovered [OF ok] by (auto simp: list_all_iff)
qed

theorem bl_lost_table_witness:
  "eBtlState demo_session = eBootloader_State_FWImgWrite_InProg \<and> unat (fw_uiLostPacketCount (sTFWImg demo_session)) \<le> 100"
  using bl_lost_table [OF demo_session_reach demo_slot_small] by (simp add: demo_session_eq')

subsection \<open>Dispatch\<close>



text \<open>What the flash has to answer for a session to start.\<close>

definition flash_ready :: "('w, 'z) bl_platform_scheme \<Rightarrow> 'w \<Rightarrow> bool" where
  "flash_ready E w \<longleftrightarrow> (let ((ret, fa), w) = flash_area_open E w
     in ret = 0 \<and> fst (flash_area_erase E 0 (fa_size E) w) = 0)"

lemma erase_ok_iff: "vErase_FlashArea E m s = (m', s') \<Longrightarrow> bm_bIsMsgOk m' \<longleftrightarrow> flash_ready E (bl_world s)"
  by (auto simp: vErase_FlashArea_def flash_ready_def Let_def vSet_BootloaderMsgStatus_def split: prod.splits if_splits)

lemma announce_outcome:
  assumes run: "vInit_BootloaderManager_ForNewFWImage E m s = (m', s')"
  shows "if size_fits m s \<and> flash_ready E (bl_world s)
    then bm_bIsMsgOk m' \<and> bl_bBootloaderStateTimeoutArmed s'
      \<and> bl_mgmt s' = (announced m (bl_mgmt s))\<lparr>bt_eBtlState := eBootloader_State_FWImgWrite_InProg, bt_bIsFirstEntry := True\<rparr>
    else \<not> bm_bIsMsgOk m' \<and> eBtlState s' = eBtlState s"
  using run
proof (cases rule: announce_cases)
  case (rejected e n)
  then show ?thesis by (simp add: vSet_BootloaderMsgStatus_def)
next
  case (no_flash t)
  with erase_ok_iff [OF no_flash(2)] erase_fields(1) [OF no_flash(2)] show ?thesis by simp
next
  case (started t m1 s1)
  with erase_ok_iff [OF started(2)] erase_fields(1) [OF started(2)] show ?thesis by simp
qed

text \<open>
  Property C5. When a session starts: in the idle state a message starts one exactly when it is the
  request command (or \<open>None\<close>, which the code treats alike) with ten bytes, announces a size that
  is not zero and fits the slot behind the write offset, and the area opens and erases. The session
  then has the announced size, revision and CRC, an empty record, and an armed timeout; in every
  other case the answer is an error and the bootloader stays idle.
\<close>

theorem bl_session_start:
  assumes "bt_bIsInitialized (bl_mgmt s)" and "eBtlState s = eBootloader_State_Idle"
    and "vUpdateBootloader E m s = (m', s')"
  shows "if bm_uiLen m = 10 \<and> (bm_eCMD m = eBootloader_CMD_None \<or> bm_eCMD m = eBootloader_CMD_FWUpReq)
      \<and> size_fits m s \<and> flash_ready E (bl_world s)
    then bm_bIsMsgOk m' \<and> eBtlState s' = eBootloader_State_FWImgWrite_InProg \<and> bl_bBootloaderStateTimeoutArmed s'
      \<and> uiFWImgSize s' = be24 (bm_uiaData m ! 0) (bm_uiaData m ! 1) (bm_uiaData m ! 2)
      \<and> bt_uiCRC (bl_mgmt s') = be16 (bm_uiaData m ! 8) (bm_uiaData m ! 9)
      \<and> bt_uiFWRev (bl_mgmt s') = be16 (bm_uiaData m ! 6) (bm_uiaData m ! 7)
      \<and> sTFWImg s' = fresh_img\<lparr>fw_stTxLostPacketInfo := sTTxLostPacketInfo s\<rparr>
    else \<not> bm_bIsMsgOk m' \<and> eBtlState s' = eBootloader_State_Idle"
proof (cases "bm_uiLen m = 10 \<and> (bm_eCMD m = eBootloader_CMD_None \<or> bm_eCMD m = eBootloader_CMD_FWUpReq)")
  case True
  let ?s = "snd (bIsFirstEntry s)"
  have run: "vInit_BootloaderManager_ForNewFWImage E m ?s = (m', s')"
    using True assms by (auto simp: vUpdateBootloader_def vExecute_Bootloader_IdleState_def
        bIsFW_ImageWrite_InProgress_def Let_def split_beta)
  have same: "size_fits m ?s = size_fits m s" "bl_world ?s = bl_world s" "sTTxLostPacketInfo ?s = sTTxLostPacketInfo s"
      "eBtlState ?s = eBootloader_State_Idle"
    using assms(2) by (simp_all add: bIsFirstEntry_def size_fits_def)
  from announce_outcome [OF run] True same show ?thesis by (auto simp: announced_def Let_def split: if_splits)
next
  case False
  then have "s' \<in> {s, snd (bIsFirstEntry s)}" "\<not> bm_bIsMsgOk m'"
    using assms by (auto simp: vUpdateBootloader_def vExecute_Bootloader_IdleState_def
        bIsFW_ImageWrite_InProgress_def Let_def split_beta vSet_BootloaderMsgStatus_def
        split: if_splits eT_Bootloader_Command.splits)
  with False assms(2) show ?thesis by auto
qed

theorem bl_session_start_witness:
  "eBtlState (snd (vUpdateBootloader demo_platform demo_announce demo_idle)) = eBootloader_State_FWImgWrite_InProg
   \<and> uiFWImgSize (snd (vUpdateBootloader demo_platform demo_announce demo_idle)) = 1"
proof -
  have "size_fits demo_announce demo_idle" "flash_ready demo_platform (bl_world demo_idle)"
    by (simp_all add: size_fits_def demo_announce_def be24_def demo_idle_eq flash_ready_def)
  moreover have "bm_uiLen demo_announce = 10" "bm_eCMD demo_announce = eBootloader_CMD_FWUpReq"
      "be24 (bm_uiaData demo_announce ! 0) (bm_uiaData demo_announce ! 1) (bm_uiaData demo_announce ! 2) = 1"
      "bt_bIsInitialized (bl_mgmt demo_idle)" "eBtlState demo_idle = eBootloader_State_Idle"
    by (simp_all add: demo_announce_def be24_def demo_idle_eq)
  ultimately show ?thesis
    using bl_session_start [OF _ _ demo_session_run] by (simp add: demo_session_run)
qed

end
