(* ===== verification/Bootloader_Integrity.thy ===== *)
theory Bootloader_Integrity
  imports Bootloader_Demo
begin

text \<open>
  The image in the flash: what the bootloader's counters and running CRC say about the bytes that
  were really written, and that an upgrade is only requested for an image whose bytes in the flash
  have the announced CRC.
\<close>

subsection \<open>What is relied on\<close>

text \<open>
  \<open>fc\<close> reads the content of the image slot from the world. \<open>flash_laws\<close> is the documented
  behaviour of the flash map API for a NOR flash: a successful erase leaves 0xFF, a successful write
  stores its data on erased bytes and touches no other, a successful read lies in the area and returns
  what is stored; the other services called during a session do not write to the slot. Nothing is assumed
  of failing calls that write, of \<open>boot_request_upgrade\<close>, or of \<open>sys_reboot\<close>.
\<close>

definition flash_laws :: "('w, 'z) bl_platform_scheme \<Rightarrow> ('w \<Rightarrow> nat \<Rightarrow> u8) \<Rightarrow> bool" where
  "flash_laws E fc \<longleftrightarrow>
     (\<forall>off n w w'. flash_area_erase E off n w = (0, w')
        \<longrightarrow> (\<forall>k. unat off \<le> k \<and> k < unat off + unat n \<longrightarrow> fc w' k = 0xFF))
     \<and> (\<forall>off d w w'. flash_area_write E off d w = (0, w')
        \<longrightarrow> (\<forall>k. k < unat off \<or> unat off + length d \<le> k \<longrightarrow> fc w' k = fc w k)
          \<and> ((\<forall>k. unat off \<le> k \<and> k < unat off + length d \<longrightarrow> fc w k = 0xFF)
              \<longrightarrow> mem_bytes (fc w') (unat off) (length d) = d))
     \<and> (\<forall>off n w d w'. flash_area_read E off n w = ((0, d), w')
        \<longrightarrow> unat off + unat n \<le> unat (fa_size E) \<and> d = mem_bytes (fc w) (unat off) (unat n))
     \<and> (\<forall>off n w r w'. flash_area_read E off n w = (r, w') \<longrightarrow> fc w' = fc w)
     \<and> (\<forall>w. fc (snd (flash_area_open E w)) = fc w) \<and> (\<forall>w. fc (flash_area_close E w) = fc w)
     \<and> (\<forall>w. fc (snd (k_uptime_get E w)) = fc w) \<and> (\<forall>m w. fc (snd (eFlexCAN_SendMsg E m w)) = fc w)
     \<and> (\<forall>wk t w. fc (k_work_reschedule E wk t w) = fc w) \<and> (\<forall>wk w. fc (k_work_cancel_delayable E wk w) = fc w)
     \<and> (\<forall>t w. fc (k_msleep E t w) = fc w)"

lemma flash_laws_keep:
  assumes "flash_laws E fc"
  shows "fc (snd (flash_area_open E w)) = fc w" and "fc (flash_area_close E w) = fc w"
    and "fc (snd (k_uptime_get E w)) = fc w" and "fc (snd (eFlexCAN_SendMsg E m w)) = fc w"
    and "fc (k_work_reschedule E wk t w) = fc w" and "fc (k_work_cancel_delayable E wk w) = fc w"
    and "fc (k_msleep E i w) = fc w" and "flash_area_read E off n w = (r, w') \<Longrightarrow> fc w' = fc w"
  using assms unfolding flash_laws_def by metis+

lemma flash_laws_erase:
  "flash_laws E fc \<Longrightarrow> flash_area_erase E off n w = (0, w') \<Longrightarrow> unat off \<le> k \<Longrightarrow> k < unat off + unat n \<Longrightarrow> fc w' k = 0xFF"
  unfolding flash_laws_def by metis

lemma flash_laws_write:
  assumes "flash_laws E fc" and "flash_area_write E off d w = (0, w')"
  shows "k < unat off \<or> unat off + length d \<le> k \<Longrightarrow> fc w' k = fc w k"
    and "(\<And>k. unat off \<le> k \<Longrightarrow> k < unat off + length d \<Longrightarrow> fc w k = 0xFF) \<Longrightarrow> mem_bytes (fc w') (unat off) (length d) = d"
  using assms unfolding flash_laws_def by metis+

lemma flash_laws_read:
  assumes "flash_laws E fc" and "flash_area_read E off n w = ((0, d), w')"
  shows "unat off + unat n \<le> unat (fa_size E)" and "d = mem_bytes (fc w) (unat off) (unat n)"
  using assms unfolding flash_laws_def by metis+

text \<open>The demonstration platform satisfies them with its memory as content.\<close>

lemma demo_flash_laws: "flash_laws demo_platform (\<lambda>w. w)"
  unfolding flash_laws_def
  by (auto simp: demo_platform_def mem_bytes_eqI split: if_splits)

subsection \<open>The content of the slot through the routines\<close>

abbreviation "content fc s \<equiv> fc (bl_world s)"

lemma content_refresh: "flash_laws E fc \<Longrightarrow> content fc (vRefresh_BootloaderStateTimeOut_Locked E t s) = content fc s"
  by (simp add: flash_laws_keep)

lemma content_open: "flash_laws E fc \<Longrightarrow> open_for_first E first s = (r, s') \<Longrightarrow> content fc s' = content fc s"
  using flash_laws_keep(1) [of E fc "bl_world s"]
  by (auto simp: open_for_first_def split: prod.splits if_splits)

lemma content_send: "flash_laws E fc \<Longrightarrow> send_plain E cfg m w = (m', w') \<Longrightarrow> fc w' = fc w"
  by (rule plain.send_world [where P = "\<lambda>v. fc v = fc w"], assumption)
     (use flash_laws_keep(4) [of E fc] in \<open>metis snd_conv\<close>, simp)

lemma content_schedule: "flash_laws E fc \<Longrightarrow> content fc (snd (bSchedule_LostPacketTimeouts E s)) = content fc s"
  by (simp add: bSchedule_LostPacketTimeouts_def flash_laws_keep)

subsection \<open>The running CRC over a prefix of the image\<close>

definition good_prefix :: "(nat \<Rightarrow> u8) \<Rightarrow> nat \<Rightarrow> u32 \<Rightarrow> bool" where
  "good_prefix c n crc \<longleftrightarrow> crc = ucast (u16CRC16_CCITT_Update 0xFFFF (mem_bytes c 0x2000 n))"

lemma ucast_ucast_u16 [simp]: "ucast (ucast (x :: u16) :: u32) = x"
  by (rule bit_eqI) (auto simp: bit_simps dest: bit_imp_le_length)

lemma good_prefix_0: "good_prefix c 0 0xFFFF"
  by (simp add: good_prefix_def)

lemma good_prefix_extend:
  "good_prefix c n crc \<Longrightarrow> mem_bytes c (0x2000 + n) (length d) = d
   \<Longrightarrow> good_prefix c (n + length d) (ucast (u16CRC16_CCITT_Update (ucast crc) d))"
  by (simp add: good_prefix_def mem_bytes_split crc_append)

lemma good_prefix_cong:
  assumes "\<And>k. 0x2000 \<le> k \<Longrightarrow> k < 0x2000 + n \<Longrightarrow> c' k = c k"
  shows "good_prefix c' n crc = good_prefix c n crc"
  using mem_bytes_cong [OF assms] by (simp add: good_prefix_def)

subsection \<open>The image invariant\<close>

text \<open>
  Without a loss the bytes counted, the prefix the running CRC covers and the packets expected
  agree, and the rest of the slot is erased. After a loss the running CRC covers what came before the first lost packet.
\<close>

abbreviation "next_id s \<equiv> unat (fw_uiNextId (sTFWImg s))"
abbreviation "first_lost s \<equiv> unat (fw_uiFirstLostPacketId (sTFWImg s))"
abbreviation "img_size s \<equiv> unat (uiFWImgSize s)"

definition img_ok :: "('w, 'z) bl_platform_scheme \<Rightarrow> ('w \<Rightarrow> nat \<Rightarrow> u8) \<Rightarrow> 'w bl_sys \<Rightarrow> bool" where
  "img_ok E fc s \<longleftrightarrow>
     (if fw_bLostPacketStateTriggered (sTFWImg s)
      then good_prefix (content fc s) (min (48 * first_lost s) (img_size s)) (fw_uiRunningCRC (sTFWImg s))
      else unat (fw_uiReceivedByteCount (sTFWImg s)) = min (48 * next_id s) (img_size s)
        \<and> good_prefix (content fc s) (min (48 * next_id s) (img_size s)) (fw_uiRunningCRC (sTFWImg s))
        \<and> (\<forall>k. 0x2000 + 48 * next_id s \<le> k \<and> k < unat (fa_size E) \<longrightarrow> content fc s k = 0xFF))"

definition session_img_ok :: "('w, 'z) bl_platform_scheme \<Rightarrow> ('w \<Rightarrow> nat \<Rightarrow> u8) \<Rightarrow> 'w bl_sys \<Rightarrow> bool" where
  "session_img_ok E fc s \<longleftrightarrow> (eBtlState s = eBootloader_State_FWImgWrite_InProg \<longrightarrow> img_ok E fc s)"

lemma img_ok_cong:
  assumes "content fc s' = content fc s" and "uiFWImgSize s' = uiFWImgSize s"
    and "fw_bLostPacketStateTriggered (sTFWImg s') = fw_bLostPacketStateTriggered (sTFWImg s)"
    and "fw_uiReceivedByteCount (sTFWImg s') = fw_uiReceivedByteCount (sTFWImg s)"
    and "fw_uiRunningCRC (sTFWImg s') = fw_uiRunningCRC (sTFWImg s)"
    and "fw_uiNextId (sTFWImg s') = fw_uiNextId (sTFWImg s)"
    and "fw_uiFirstLostPacketId (sTFWImg s') = fw_uiFirstLostPacketId (sTFWImg s)"
  shows "img_ok E fc s' = img_ok E fc s"
  using assms by (simp add: img_ok_def)

text \<open>The offset of a block as a number.\<close>

lemma unat_block_off:
  assumes "unat pid \<le> 0xFFFF" and "2 \<le> idx" and "idx < 256"
  shows "unat (block_off pid idx) = 48 * unat pid + (idx - 2)"
proof -
  have m: "unat (ucast pid * 48 :: u32) = unat pid * 48"
    using unat_lt_u16 [of pid] by (simp add: unat_mult_lem [THEN iffD1])
  have i: "unat (of_nat (idx - 2) :: u32) = idx - 2" using assms(3) by (simp add: unat_of_nat_small)
  show ?thesis unfolding block_off_def
    by (subst unat_add_small) (use m i assms in simp_all)
qed

lemma unat_block_len:
  assumes "off < sz" and "sz \<le> 0xF0000"
  shows "unat (block_len sz off) = min 16 (unat sz - unat off)"
proof -
  have lt: "unat off < unat sz" "unat sz \<le> 0xF0000" using assms by (simp_all add: word_less_nat_alt word_le_nat_alt)
  then have "unat (off + 16) = unat off + 16" by (subst unat_add_small) simp_all
  then show ?thesis
    using assms(1) lt by (auto simp: block_len_def word_le_nat_alt unat_diff_small less_imp_le)
qed

lemma mark_lost_img_ok:
  assumes "img_ok E fc s"
  shows "img_ok E fc (upd_img (mark_lost pid) s)"
  using assms by (simp add: img_ok_def)

lemma tail_marked_img_ok: "img_ok E fc s \<Longrightarrow> img_ok E fc (tail_marked s)"
  by (simp add: tail_marked_def mark_lost_img_ok)

subsection \<open>One block\<close>

lemma take_mem_bytes: "k \<le> n \<Longrightarrow> take k (mem_bytes c off n) = mem_bytes c off k"
  by (rule nth_equalityI) auto

lemma length_block_data: "length (bm_uiaData m) = 64 \<Longrightarrow> idx + unat len \<le> 64 \<Longrightarrow> length (block_data m idx len) = unat len"
  by (simp add: block_data_def)

lemma write_flash_world:
  "write_flash E off d s = (r, t) \<Longrightarrow> \<exists>w. flash_area_write E off d (bl_world s) = (r, w) \<and> bl_world t = w"
  by (auto simp: write_flash_def split: prod.splits)

lemma write_flash_img: "write_flash E off d s = (r, t) \<Longrightarrow> bl_mgmt t = bl_mgmt s"
  by (auto simp: write_flash_def split: prod.splits)

text \<open>Position \<open>p\<close> of the image is reached: counted, covered by the CRC, and erased from there on.\<close>

definition written_to :: "('w, 'z) bl_platform_scheme \<Rightarrow> ('w \<Rightarrow> nat \<Rightarrow> u8) \<Rightarrow> nat \<Rightarrow> 'w bl_sys \<Rightarrow> bool" where
  "written_to E fc p s \<longleftrightarrow> unat (fw_uiReceivedByteCount (sTFWImg s)) = min p (img_size s)
     \<and> good_prefix (content fc s) (min p (img_size s)) (fw_uiRunningCRC (sTFWImg s))
     \<and> (\<forall>k. 0x2000 + p \<le> k \<and> k < unat (fa_size E) \<longrightarrow> content fc s k = 0xFF)"

lemma img_ok_normal:
  "\<not> fw_bLostPacketStateTriggered (sTFWImg s) \<Longrightarrow> img_ok E fc s \<longleftrightarrow> written_to E fc (48 * next_id s) s"
  by (simp add: img_ok_def written_to_def)

lemma written_to_past: "written_to E fc p s \<Longrightarrow> img_size s \<le> p \<Longrightarrow> p \<le> q \<Longrightarrow> written_to E fc q s"
  by (auto simp: written_to_def min_def)

lemma in_slot:
  assumes "block_off pid idx + 16 \<le> fa_size E - 0x2000" and "0x2000 < fa_size E" and "slot_small E"
    and "block_off pid idx \<le> fa_size E - 0x2000"
  shows "unat (block_off pid idx) + 16 + 0x2000 \<le> unat (fa_size E)"
    and "unat (0x2000 + block_off pid idx) = 0x2000 + unat (block_off pid idx)"
proof -
  have fa: "unat (fa_size E - 0x2000) = unat (fa_size E) - 0x2000" "unat (fa_size E) \<le> 0xF2000"
    using unat_diff_small [OF less_imp_le [OF assms(2)]] assms(3) by (simp_all add: slot_small_def word_le_nat_alt)
  have le: "unat (block_off pid idx) \<le> 0xF0000" using assms(4) fa by (simp add: word_le_nat_alt)
  then have "unat (block_off pid idx + 16) = unat (block_off pid idx) + 16" by (subst unat_add_small) simp_all
  moreover have "unat (fa_size E) > 0x2000" using assms(2) by (simp add: word_less_nat_alt)
  ultimately show "unat (block_off pid idx) + 16 + 0x2000 \<le> unat (fa_size E)"
    using assms(1) fa by (simp add: word_le_nat_alt)
  show "unat (0x2000 + block_off pid idx) = 0x2000 + unat (block_off pid idx)"
    by (subst unat_add_small) (use le in simp_all)
qed

lemma block_written_normal:
  assumes laws: "flash_laws E fc" and normal: "\<not> fw_bLostPacketStateTriggered (sTFWImg s)"
    and reached: "written_to E fc (unat off) s" and small: "uiFWImgSize s \<le> 0xF0000" and in_img: "off < uiFWImgSize s"
    and slot: "unat off + 16 + 0x2000 \<le> unat (fa_size E)" "unat (0x2000 + off) = 0x2000 + unat off"
    and len: "len = block_len (uiFWImgSize s) off" and d: "length d = unat len"
    and wr: "write_flash E (0x2000 + off) (memcpy_list (replicate 16 0xFF) d) (crc_unless_lost d s) = (0, t)"
  shows "written_to E fc (unat off + 16) (count_received len t)"
    and "unat (fw_uiReceivedByteCount (sTFWImg (count_received len t))) = unat off + unat len"
    and "mem_bytes (content fc (count_received len t)) (0x2000 + unat off) (unat len) = d"
    and "k < 0x2000 + unat off \<Longrightarrow> content fc (count_received len t) k = content fc s k"
proof -
  let ?p = "unat off" and ?c = "content fc s" and ?t = "count_received len t"
  have n: "unat len = min 16 (img_size s - ?p)" using unat_block_len [OF in_img small] len by simp
  have p: "?p < img_size s" using in_img by (simp add: word_less_nat_alt)
  have blk: "length (memcpy_list (replicate 16 (0xFF :: u8)) d) = 16" using d n by simp
  have crc: "crc_unless_lost d s = update_running_crc d s" using normal by (simp add: crc_unless_lost_def)
  obtain w where w: "flash_area_write E (0x2000 + off) (memcpy_list (replicate 16 0xFF) d) (bl_world s) = (0, w)" "bl_world t = w"
    using write_flash_world [OF wr] by (auto simp: crc update_running_crc_def)
  have t: "bl_mgmt t = bl_mgmt (update_running_crc d s)" using write_flash_img [OF wr] crc by simp
  have erased: "\<And>k. 0x2000 + ?p \<le> k \<Longrightarrow> k < unat (fa_size E) \<Longrightarrow> ?c k = 0xFF"
    using reached by (simp add: written_to_def)
  have other: "k < 0x2000 + ?p \<or> 0x2000 + ?p + 16 \<le> k \<Longrightarrow> fc w k = ?c k" for k
    using flash_laws_write(1) [OF laws w(1)] blk slot(2) by simp
  have "mem_bytes (fc w) (0x2000 + ?p) 16 = memcpy_list (replicate 16 0xFF) d"
    using flash_laws_write(2) [OF laws w(1)] blk slot erased by simp
  then have stored: "mem_bytes (fc w) (0x2000 + ?p) (unat len) = d"
    using take_mem_bytes [of "unat len" 16 "fc w" "0x2000 + ?p"] n d
    by (metis min.cobounded1 take_memcpy_list)
  have "good_prefix ?c ?p (fw_uiRunningCRC (sTFWImg s))" using reached p by (simp add: written_to_def)
  then have "good_prefix (fc w) ?p (fw_uiRunningCRC (sTFWImg s))" using good_prefix_cong [of ?p "fc w" ?c] other by simp
  then have pre: "good_prefix (fc w) (?p + unat len) (fw_uiRunningCRC (sTFWImg ?t))"
    using good_prefix_extend [of "fc w" ?p _ d] stored d t by (simp add: count_received_def update_running_crc_def)
  have "unat (fw_uiReceivedByteCount (sTFWImg s)) = ?p" using reached p by (simp add: written_to_def)
  moreover have "?p + unat len < 4294967296" using n p unat_lt_u32 [of "uiFWImgSize s"] by linarith
  ultimately show rec: "unat (fw_uiReceivedByteCount (sTFWImg ?t)) = ?p + unat len"
    using t by (simp add: count_received_def update_running_crc_def unat_add_small)
  have sz: "img_size ?t = img_size s" using t by (simp add: count_received_def update_running_crc_def)
  have "min (?p + 16) (img_size s) = ?p + unat len" using n p by simp
  then show "written_to E fc (?p + 16) ?t"
    using rec pre other erased w(2) sz by (simp add: written_to_def count_received_def)
  show "mem_bytes (content fc ?t) (0x2000 + ?p) (unat len) = d" using stored w(2) by (simp add: count_received_def)
  show "k < 0x2000 + ?p \<Longrightarrow> content fc ?t k = ?c k" using other w(2) by (simp add: count_received_def)
qed

subsection \<open>One packet\<close>

text \<open>What holds of the slot and the message while a packet is written.\<close>

definition packet_ctx :: "('w, 'z) bl_platform_scheme \<Rightarrow> sT_Bootloader_CtrlMsg_t \<Rightarrow> 'w bl_sys \<Rightarrow> bool" where
  "packet_ctx E m s \<longleftrightarrow> slot_small E \<and> 0x2000 < fa_size E \<and> uiFWImgSize s \<le> fa_size E - 0x2000
     \<and> length (bm_uiaData m) = 64 \<and> bm_uiLen m = 50"

lemma packet_ctx_small: "packet_ctx E m s \<Longrightarrow> uiFWImgSize s \<le> 0xF0000"
proof -
  assume "packet_ctx E m s"
  then have "unat (fa_size E) \<le> 0xF2000" "0x2000 \<le> fa_size E" "unat (uiFWImgSize s) \<le> unat (fa_size E - 0x2000)"
    by (auto simp: packet_ctx_def slot_small_def word_le_nat_alt less_imp_le word_less_nat_alt)
  then show ?thesis using unat_diff_small [of "0x2000" "fa_size E"] by (simp add: word_le_nat_alt)
qed

lemma packet_ctx_data: "data_step s s' \<Longrightarrow> packet_ctx E m s' = packet_ctx E m s"
  by (simp add: packet_ctx_def data_step_fields)

definition block_index :: "nat \<Rightarrow> bool" where
  "block_index i \<longleftrightarrow> i \<in> {2, 18, 34, 50}"

lemma block_index_step: "block_index i \<Longrightarrow> i < 50 \<Longrightarrow> block_index (i + 16) \<and> 2 \<le> i \<and> i + 16 \<le> 50"
  by (auto simp: block_index_def)

lemma write_blocks_normal:
  assumes laws: "flash_laws E fc" and ctx: "packet_ctx E m s" and normal: "\<not> fw_bLostPacketStateTriggered (sTFWImg s)"
    and start: "written_to E fc (48 * unat pid) s"
    and run: "vWrite_FWBlocks E (fa_size E - 0x2000) pid 2 m s = (False, m', s')"
  shows "written_to E fc (48 * unat pid + 48) s'"
proof -
  let ?P = "\<lambda>i m0 s0. m0 = m \<and> data_step s s0 \<and> block_index i \<and> written_to E fc (48 * unat pid + (i - 2)) s0"
  have len: "unat (bm_uiLen m) = 50" "length (bm_uiaData m) = 64" using ctx by (simp_all add: packet_ctx_def)
  have written: "data_step s s1 \<and> written_to E fc (48 * unat pid + (i + 16 - 2)) s1
       \<and> (r = FWBlock_Break \<longrightarrow> written_to E fc (48 * unat pid + 48) s1)"
    if P: "?P i m0 s0" and i: "i < unat (bm_uiLen m0)" and blk: "vWrite_FWBlock E (fa_size E - 0x2000) pid i m0 s0 = (r, m1, s1)"
      and r: "r \<noteq> FWBlock_Exit" for i m0 s0 r m1 s1
  proof -
    have idx: "2 \<le> i" "i + 16 \<le> 50" using P i len block_index_step by auto
    have off: "unat (block_off pid i) = 48 * unat pid + (i - 2)"
      by (rule unat_block_off) (use unat_lt_u16 [of pid] idx in simp_all)
    have ctx0: "packet_ctx E m s0" using ctx P packet_ctx_data by blast
    have data: "data_step s s1" using data_step_block [OF blk r] P data_step_trans by blast
    from blk show ?thesis
    proof (cases rule: block_cases)
      case past_end
      then have "img_size s0 \<le> 48 * unat pid + (i - 2)" using off by (simp add: word_le_nat_alt)
      with P past_end data idx show ?thesis by (auto intro: written_to_past)
    next
      case (written n d t)
      have nl: "unat n \<le> 16" using unat_block_len [OF written(1) packet_ctx_small [OF ctx0]] written(4) by simp
      have dl: "length d = unat n" using written(5) length_block_data [of m i n] len nl idx P by simp
      have slot: "unat (block_off pid i) + 16 + 0x2000 \<le> unat (fa_size E)"
          "unat (0x2000 + block_off pid i) = 0x2000 + unat (block_off pid i)"
        by (rule in_slot [OF written(3) _ _ written(2)], use ctx in \<open>simp_all add: packet_ctx_def\<close>)+
      have norm0: "\<not> fw_bLostPacketStateTriggered (sTFWImg s0)" using P normal data_step_fields(7) by blast
      have wt: "written_to E fc (unat (block_off pid i)) s0" using P off by simp
      note res = block_written_normal [OF laws norm0 wt packet_ctx_small [OF ctx0] written(1) slot written(4) dl written(6)]
      have full: "written_to E fc (48 * unat pid + (i + 16 - 2)) s1"
        using res(1) off idx written(8) by (simp add: algebra_simps)
      have sizes: "img_size s1 = img_size s0"
        using data_step_fields(4) [OF data] P data_step_fields(4) [of s s0] by simp
      have "r = FWBlock_Break \<longrightarrow> img_size s1 \<le> 48 * unat pid + (i + 16 - 2)"
      proof
        assume "r = FWBlock_Break"
        then have "img_size s0 \<le> unat (fw_uiReceivedByteCount (sTFWImg s1))"
          using written(9) by (auto simp: word_le_nat_alt split: if_splits)
        then show "img_size s1 \<le> 48 * unat pid + (i + 16 - 2)"
          using full sizes by (simp add: written_to_def)
      qed
      then show ?thesis using full data idx by (auto intro: written_to_past)
    qed (use r in simp)
  qed
  have "if False then True else written_to E fc (48 * unat pid + 48) s'"
  proof (rule write_blocks_rule [OF run, where P = ?P and X = "\<lambda>_ _. True"])
    show "?P 2 m s" using start by (simp add: block_index_def)
    show "written_to E fc (48 * unat pid + 48) s0" if "?P i m0 s0" "\<not> i < unat (bm_uiLen m0)" for i m0 s0
      using that len by (auto simp: block_index_def add.commute)
    show "?P (i + 16) m1 s1" if "?P i m0 s0" "i < unat (bm_uiLen m0)" "vWrite_FWBlock E (fa_size E - 0x2000) pid i m0 s0 = (FWBlock_Next, m1, s1)" for i m0 s0 m1 s1
      using written [OF that] data_step_block [OF that(3)] that block_index_step [of i] len by auto
    show "written_to E fc (48 * unat pid + 48) s1" if "?P i m0 s0" "i < unat (bm_uiLen m0)" "vWrite_FWBlock E (fa_size E - 0x2000) pid i m0 s0 = (FWBlock_Break, m1, s1)" for i m0 s0 m1 s1
      using written [OF that] by simp
  qed simp
  then show ?thesis by simp
qed

text \<open>After a loss: nothing in front of the packet changes, and the running CRC stands still.\<close>

lemma write_blocks_lost:
  assumes laws: "flash_laws E fc" and ctx: "packet_ctx E m s" and lost: "fw_bLostPacketStateTriggered (sTFWImg s)"
    and run: "vWrite_FWBlocks E (fa_size E - 0x2000) pid 2 m s = (False, m', s')"
  shows "(\<forall>k < 0x2000 + 48 * unat pid. content fc s' k = content fc s k)
    \<and> fw_uiRunningCRC (sTFWImg s') = fw_uiRunningCRC (sTFWImg s)"
proof -
  let ?G = "\<lambda>s0. data_step s s0 \<and> (\<forall>k < 0x2000 + 48 * unat pid. content fc s0 k = content fc s k)
      \<and> fw_uiRunningCRC (sTFWImg s0) = fw_uiRunningCRC (sTFWImg s)"
  let ?P = "\<lambda>i m0 s0. m0 = m \<and> block_index i \<and> ?G s0"
  have len: "unat (bm_uiLen m) = 50" using ctx by (simp add: packet_ctx_def)
  have kept: "?G s1" if P: "?P i m0 s0" and i: "i < unat (bm_uiLen m0)"
      and blk: "vWrite_FWBlock E (fa_size E - 0x2000) pid i m0 s0 = (r, m1, s1)" and r: "r \<noteq> FWBlock_Exit" for i m0 s0 r m1 s1
  proof -
    have idx: "2 \<le> i" "i + 16 \<le> 50" using P i len block_index_step by auto
    have off: "unat (block_off pid i) = 48 * unat pid + (i - 2)"
      by (rule unat_block_off) (use unat_lt_u16 [of pid] idx in simp_all)
    have data: "data_step s s1" using data_step_block [OF blk r] P data_step_trans by blast
    from blk show ?thesis
    proof (cases rule: block_cases)
      case past_end
      with P show ?thesis by simp
    next
      case (written n d t)
      have crc: "crc_unless_lost d s0 = s0" using lost P data_step_fields(7) [of s s0] by (simp add: crc_unless_lost_def)
      obtain w where w: "flash_area_write E (0x2000 + block_off pid i) (memcpy_list (replicate 16 0xFF) d) (bl_world s0) = (0, w)"
          "bl_world t = w" using write_flash_world [OF written(6)] crc by auto
      have "unat (0x2000 + block_off pid i) = 0x2000 + unat (block_off pid i)"
        by (rule in_slot(2) [OF written(3) _ _ written(2)]) (use ctx in \<open>simp_all add: packet_ctx_def\<close>)
      then have "\<forall>k < 0x2000 + 48 * unat pid. fc w k = content fc s0 k"
        using flash_laws_write(1) [OF laws w(1)] off by simp
      moreover have "content fc s1 = fc w" using written(8) w(2) by (simp add: count_received_def)
      moreover have "fw_uiRunningCRC (sTFWImg s1) = fw_uiRunningCRC (sTFWImg s0)"
        using written(8) write_flash_img [OF written(6)] crc by (simp add: count_received_def)
      ultimately show ?thesis using P data by simp
    qed (use r in simp)
  qed
  have "if False then True else ?G s'"
  proof (rule write_blocks_rule [OF run, where P = ?P and X = "\<lambda>_ _. True"])
    show "?P 2 m s" by (simp add: block_index_def)
    show "?G s0" if "?P i m0 s0" "\<not> i < unat (bm_uiLen m0)" for i m0 s0 using that by simp
    show "?P (i + 16) m1 s1" if "?P i m0 s0" "i < unat (bm_uiLen m0)" "vWrite_FWBlock E (fa_size E - 0x2000) pid i m0 s0 = (FWBlock_Next, m1, s1)" for i m0 s0 m1 s1
      using kept [OF that] data_step_block [OF that(3)] that block_index_step [of i] len by auto
    show "?G s1" if "?P i m0 s0" "i < unat (bm_uiLen m0)" "vWrite_FWBlock E (fa_size E - 0x2000) pid i m0 s0 = (FWBlock_Break, m1, s1)" for i m0 s0 m1 s1
      using kept [OF that] by simp
  qed simp
  then show ?thesis by simp
qed

lemma update_locked_img:
  assumes laws: "flash_laws E fc" and ctrl: "bl_ctrl E s" and small: "slot_small E" and img: "session_img_ok E fc s"
    and len: "bm_uiLen m = 50" and data: "length (bm_uiaData m) = 64"
    and run: "vUpdate_FWImage_Locked E m s = (b, m', s')"
  shows "session_img_ok E fc s'"
proof (cases "eBtlState s = eBootloader_State_FWImgWrite_InProg")
  case False
  with run have "s' = s" by (auto simp: vUpdate_FWImage_Locked_def Let_def)
  with img show ?thesis by simp
next
  case st: True
  note c = bl_ctrlD [OF ctrl]
  note sess = c(5) [OF st, unfolded session_ok_def]
  from run st c(3) c(7) [OF st] len show ?thesis
  proof (cases rule: update_cases)
    case refused
    with img show ?thesis by simp
  next
    case aborted
    then show ?thesis by (auto simp: aborted_from_def session_img_ok_def)
  next
    case (accepted s1 s2 s3)
    let ?pid = "packet_id m" and ?f = "sTFWImg s" and ?f1 = "sTFWImg s1"
    have wr: "data_step s2 s3" "block_off ?pid 2 \<le> fa_size E - 0x2000"
      using write_blocks_data [OF accepted(5)] len c(2) by simp_all
    have blocks: "vWrite_FWBlocks E (fa_size E - 0x2000) ?pid 2 m s2 = (False, m, s3)" using accepted(5) c(2) by simp
    have pid: "unat ?pid \<le> 0x5000" using packet_id_bound [OF wr(2) _ small] sess by simp
    note adm = admit_fields [OF accepted(3)]
    have s2: "bl_mgmt s2 = bl_mgmt (upd_img (begin_packet ?pid) s1)" by (rule open_for_first_fields(1) [OF accepted(4)])
    have c2: "content fc s2 = content fc s" using content_open [OF laws accepted(4)] adm(8) by simp
    have ctx: "packet_ctx E m s2" using sess len data small s2 adm(3) by (simp add: packet_ctx_def)
    note d = data_step_fields [OF wr(1)]
    have s': "content fc s' = content fc s3" "uiFWImgSize s' = uiFWImgSize s3" "eBtlState s' = eBtlState s3"
      "fw_bLostPacketStateTriggered (sTFWImg s') = fw_bLostPacketStateTriggered (sTFWImg s3)"
      "fw_uiReceivedByteCount (sTFWImg s') = fw_uiReceivedByteCount (sTFWImg s3)"
      "fw_uiRunningCRC (sTFWImg s') = fw_uiRunningCRC (sTFWImg s3)" "fw_uiNextId (sTFWImg s') = fw_uiNextId (sTFWImg s3)"
      "fw_uiFirstLostPacketId (sTFWImg s') = fw_uiFirstLostPacketId (sTFWImg s3)"
      unfolding accepted(6) by (simp_all add: flash_laws_keep [OF laws])
    have goal: "session_img_ok E fc s'" if "img_ok E fc s3"
      using that img_ok_cong [OF s'(1,2,4,5,6,7,8), where E = E] by (simp add: session_img_ok_def)
    show ?thesis
    proof (cases "fw_bLostPacketStateTriggered ?f1")
      case False
      with accepted(3) have s1: "s1 = s" and nxt: "fw_uiNextId ?f = ?pid"
        using lost_okD(7) [of ?f] sess by (auto elim!: admit_cases simp: lost_entries_def)
      have "\<not> fw_bLostPacketStateTriggered (sTFWImg s2)" using False s2 by simp
      moreover have "written_to E fc (48 * unat ?pid) s2"
        using img st False s1 nxt c2 s2 by (simp add: session_img_ok_def img_ok_normal) (simp add: written_to_def)
      ultimately have "written_to E fc (48 * unat ?pid + 48) s3" using write_blocks_normal [OF laws ctx _ _ blocks] by simp
      moreover have "next_id s3 = unat ?pid + 1"
        using d(9) s2 begin_packet_next(2) [of ?pid ?f1] s1 nxt pid
        by (simp add: max_def word_le_nat_alt unat_Suc_small)
      moreover have "\<not> fw_bLostPacketStateTriggered (sTFWImg s3)" using d(7) False s2 by simp
      ultimately have "img_ok E fc s3" by (simp add: img_ok_normal add.commute)
      then show ?thesis by (rule goal)
    next
      case lost: True
      have pre: "good_prefix (content fc s) (min (48 * first_lost s1) (img_size s)) (fw_uiRunningCRC ?f1)"
        using accepted(3)
      proof (cases rule: admit_cases)
        case in_order
        with img st lost show ?thesis by (simp add: session_img_ok_def img_ok_def)
      next
        case gap
        have "img_ok E fc (upd_img (mark_lost ?pid) s)" using img st by (simp add: session_img_ok_def mark_lost_img_ok)
        with gap show ?thesis by (simp add: img_ok_def)
      next
        case (lost i)
        with img st \<open>fw_bLostPacketStateTriggered ?f1\<close> show ?thesis by (simp add: session_img_ok_def img_ok_def)
      qed simp_all
      have first: "first_lost s1 \<le> unat ?pid"
        using accepted(3)
      proof (cases rule: admit_cases)
        case in_order
        with lost lost_ok_first_le_next [of ?f] sess show ?thesis by (simp add: word_less_nat_alt)
      next
        case gap
        with lost_ok_first_le_next [of ?f] sess show ?thesis by (auto simp: word_less_nat_alt)
      next
        case (lost i)
        then have "lost_entries ?f ! i \<in> set (lost_entries ?f)" "lp_uiPacketId (lost_entries ?f ! i) = ?pid"
          using find_lost_Some [OF lost(3)] by simp_all
        with lost_okD(5) [of ?f] sess lost show ?thesis by (metis word_le_nat_alt)
      qed simp_all
      have "fw_bLostPacketStateTriggered (sTFWImg s2)" using lost s2 by simp
      from write_blocks_lost [OF laws ctx this blocks]
      have kept: "\<forall>k < 0x2000 + 48 * unat ?pid. content fc s3 k = content fc s k"
          "fw_uiRunningCRC (sTFWImg s3) = fw_uiRunningCRC ?f1"
        using c2 s2 by simp_all
      have "good_prefix (content fc s3) (min (48 * first_lost s1) (img_size s)) (fw_uiRunningCRC ?f1)"
        using pre good_prefix_cong [of "min (48 * first_lost s1) (img_size s)" "content fc s3" "content fc s"] kept(1) first by simp
      then have "img_ok E fc s3"
        using kept(2) lost d(4,7,10) s2 adm(3) by (simp add: img_ok_def)
      then show ?thesis by (rule goal)
    qed
  qed
qed

subsection \<open>Reading the image back\<close>

lemma read_flash_content:
  assumes "flash_laws E fc" and "read_flash E off n s = ((r, d), t)"
  shows "content fc t = content fc s" and "bl_mgmt t = bl_mgmt s"
    and "r = 0 \<Longrightarrow> unat off + unat n \<le> unat (fa_size E) \<and> d = mem_bytes (content fc s) (unat off) (unat n)"
proof -
  obtain w where w: "flash_area_read E off n (bl_world s) = ((r, d), w)" "bl_world t = w" "bl_mgmt t = bl_mgmt s"
    using assms(2) by (auto simp: read_flash_def split: prod.splits)
  show "content fc t = content fc s" using flash_laws_keep(8) [OF assms(1) w(1)] w(2) by simp
  show "bl_mgmt t = bl_mgmt s" by (rule w(3))
  show "r = 0 \<Longrightarrow> unat off + unat n \<le> unat (fa_size E) \<and> d = mem_bytes (content fc s) (unat off) (unat n)"
    using flash_laws_read [OF assms(1)] w(1) by blast
qed

text \<open>\<open>k\<close> of \<open>len\<close> bytes from \<open>base\<close> on have been added to the running CRC, which covered the \<open>base\<close> bytes before if \<open>g\<close>.\<close>

definition read_to :: "('w, 'z) bl_platform_scheme \<Rightarrow> bool \<Rightarrow> (nat \<Rightarrow> u8) \<Rightarrow> nat \<Rightarrow> nat \<Rightarrow> u32 \<Rightarrow> u32 \<Rightarrow> nat \<Rightarrow> u32 \<Rightarrow> bool" where
  "read_to E g c base len off n k crc \<longleftrightarrow> unat off = 0x2000 + base + k \<and> unat n + k = len
     \<and> (k = 0 \<or> 0x2000 + base + k \<le> unat (fa_size E)) \<and> (g \<longrightarrow> good_prefix c (base + k) crc)"

lemma read_back_content:
  assumes laws: "flash_laws E fc" and off: "unat off = 0x2000 + base"
    and run: "vRead_Back E off n 0 s = (True, s')"
  shows "(good_prefix (content fc s) base (fw_uiRunningCRC (sTFWImg s)) \<longrightarrow>
      good_prefix (content fc s) (base + unat n) (fw_uiRunningCRC (sTFWImg s'))) \<and> content fc s' = content fc s
    \<and> (n = 0 \<or> 0x2000 + base + unat n \<le> unat (fa_size E))"
proof -
  let ?c = "content fc s" and ?g = "good_prefix (content fc s) base (fw_uiRunningCRC (sTFWImg s))"
  let ?P = "\<lambda>off m t. content fc t = ?c \<and> (\<exists>k. read_to E ?g ?c base (unat n) off m k (fw_uiRunningCRC (sTFWImg t)))"
  have "if True then \<exists>off'. ?P off' 0 s' else True"
  proof (rule read_back_rule [OF run, where P = ?P and Q = "\<lambda>_. True"])
    show "?P off n s" using off by (auto simp: read_to_def)
  next
    fix off m t ret d u
    assume P: "?P off m t" and rd: "read_flash E off (read_len m) t = ((ret, d), u)"
    show "?P off m (upd_world (k_msleep E 5) u) \<and> True"
      using P read_flash_content(1,2) [OF laws rd] by (simp add: flash_laws_keep [OF laws])
  next
    fix off m t d u
    assume P: "?P off m t" and m: "m > 0" and rd: "read_flash E off (read_len m) t = ((0, d), u)"
    from P obtain k where k: "read_to E ?g ?c base (unat n) off m k (fw_uiRunningCRC (sTFWImg t))" by blast
    note rf = read_flash_content [OF laws rd]
    have d: "unat off + unat (read_len m) \<le> unat (fa_size E)" "d = mem_bytes ?c (unat off) (unat (read_len m))"
      using rf(3) P by simp_all
    have "unat off + unat (read_len m) < 2 ^ LENGTH(32)" using d(1) unat_lt_u32 [of "fa_size E"] by simp
    then have off': "unat (off + read_len m) = unat off + unat (read_len m)" by (rule unat_add_small)
    have le: "read_len m \<le> m" by simp
    have m': "unat (m - read_len m) = unat m - unat (read_len m)" "unat (read_len m) \<le> unat m"
      using unat_diff_small [OF le] le by (simp_all add: word_le_nat_alt)
    have crc: "?g \<longrightarrow> good_prefix ?c (base + k + length d) (ucast (u16CRC16_CCITT_Update (ucast (fw_uiRunningCRC (sTFWImg t))) d))"
      by (intro impI good_prefix_extend) (use k d(2) in \<open>simp_all add: read_to_def algebra_simps\<close>)
    have "read_to E ?g ?c base (unat n) (off + read_len m) (m - read_len m) (k + unat (read_len m))
        (fw_uiRunningCRC (sTFWImg (update_running_crc d u)))"
      using k crc off' m' d rf(2) by (simp add: read_to_def update_running_crc_def algebra_simps)
    then show "?P (off + read_len m) (m - read_len m) (update_running_crc d u)"
      using rf(1) P by (auto simp: update_running_crc_def)
  qed
  then obtain off' k where "content fc s' = ?c" "read_to E ?g ?c base (unat n) off' 0 k (fw_uiRunningCRC (sTFWImg s'))"
    by auto
  then show ?thesis by (auto simp: read_to_def unat_eq_zero)
qed

lemma unat_lost_offset: "unat (lost_offset s) = 48 * first_lost s"
  using unat_lt_u16 [of "fw_uiFirstLostPacketId (sTFWImg s)"] by (simp add: unat_mult_lem [THEN iffD1])

lemma read_back_image:
  assumes laws: "flash_laws E fc" and small: "slot_small E" and size: "uiFWImgSize s \<le> 0xF0000"
    and img: "good_prefix (content fc s) (min (48 * first_lost s) (img_size s)) (fw_uiRunningCRC (sTFWImg s))"
    and run: "vRead_Back E (lost_offset s + 0x2000) (uiFWImgSize s - lost_offset s) 0 s = (True, t)"
  shows "good_prefix (content fc s) (img_size s) (fw_uiRunningCRC (sTFWImg t))" and "content fc t = content fc s"
proof -
  let ?L = "48 * first_lost s" and ?n = "uiFWImgSize s - lost_offset s"
  have L: "?L \<le> 48 * 65535" using unat_lt_u16 [of "fw_uiFirstLostPacketId (sTFWImg s)"] by simp
  have off: "unat (lost_offset s + 0x2000) = 0x2000 + ?L"
    by (subst unat_add_small) (use L unat_lost_offset [of s] in simp_all)
  note rb = read_back_content [OF laws off run]
  show "content fc t = content fc s" using rb by blast
  have fa: "unat (fa_size E) \<le> 0xF2000" using small by (simp add: slot_small_def word_le_nat_alt)
  show "good_prefix (content fc s) (img_size s) (fw_uiRunningCRC (sTFWImg t))"
  proof (cases "lost_offset s \<le> uiFWImgSize s")
    case True
    then have "?L \<le> img_size s" using unat_lost_offset [of s] by (simp add: word_le_nat_alt)
    moreover have "unat ?n = img_size s - ?L" using unat_diff_small [OF True] unat_lost_offset [of s] by simp
    ultimately show ?thesis using rb img by (simp add: min_def)
  next
    case False
    then have lt: "img_size s < ?L" using unat_lost_offset [of s] by (simp add: word_le_nat_alt not_le)
    have "unat ?n = 2 ^ 32 + img_size s - ?L"
      using lt unat_lost_offset [of s] by (simp add: unat_sub_if')
    with rb lt L fa have "?n = 0" by (auto simp: unat_eq_zero)
    with \<open>unat ?n = 2 ^ 32 + img_size s - ?L\<close> lt L show ?thesis by simp
  qed
qed

subsection \<open>The end of an image\<close>

definition image_crc :: "(nat \<Rightarrow> u8) \<Rightarrow> u32 \<Rightarrow> u16" where
  "image_crc c sz = u16CRC16_CCITT_Update 0xFFFF (mem_bytes c 0x2000 (unat sz))"

lemma ucast_u16_eq: "(ucast (a :: u16) :: u32) = ucast b \<longleftrightarrow> a = b"
  by (metis ucast_ucast_u16)

lemma good_prefix_image: "good_prefix c (unat sz) (ucast x) \<longleftrightarrow> image_crc c sz = x"
  by (auto simp: good_prefix_def image_crc_def ucast_u16_eq)

lemma session_size_small:
  assumes "session_ok E b" and "slot_small E"
  shows "bt_uiFWImgSize b \<le> 0xF0000"
proof -
  have "0x2000 \<le> fa_size E" "unat (fa_size E) \<le> 0xF2000" "unat (bt_uiFWImgSize b) \<le> unat (fa_size E - 0x2000)"
    using assms by (auto simp: session_ok_def slot_small_def word_le_nat_alt word_less_nat_alt)
  then show ?thesis using unat_diff_small [of "0x2000" "fa_size E"] by (simp add: word_le_nat_alt)
qed

lemma finalize_verified:
  assumes laws: "flash_laws E fc" and small: "slot_small E" and ctrl: "bl_ctrl E s"
    and st: "eBtlState s = eBootloader_State_FWImgWrite_InProg" and img: "img_ok E fc s"
    and run: "vFinalize_Locked E m s = (Finalize_ProcessCompleted, m', t)"
  shows "image_crc (content fc t) (uiFWImgSize t) = bt_uiCRC (bl_mgmt t)" and "uiFWImgSize t = uiFWImgSize s"
    and "bt_uiCRC (bl_mgmt t) = bt_uiCRC (bl_mgmt s)" and "content fc t = content fc s" and "m' = m"
proof -
  note size = session_size_small [OF bl_ctrlD(5) [OF ctrl st] small]
  let ?u = "tail_marked s"
  have u: "img_ok E fc ?u" by (rule tail_marked_img_ok [OF img])
  have "image_crc (content fc t) (uiFWImgSize t) = bt_uiCRC (bl_mgmt t) \<and> uiFWImgSize t = uiFWImgSize s
      \<and> bt_uiCRC (bl_mgmt t) = bt_uiCRC (bl_mgmt s) \<and> content fc t = content fc s \<and> m' = m"
    using run st
  proof (cases rule: finalize_cases)
    case (aborted e)
    then show ?thesis by simp
  next
    case checked
    from checked(3) show ?thesis
    proof (cases rule: check_cases)
      case direct
      then have "good_prefix (content fc s) (img_size s) (ucast (bt_uiCRC (bl_mgmt s)))"
        using u by (auto simp: img_ok_normal written_to_def)
      with direct show ?thesis by (simp add: good_prefix_image)
    next
      case (recovered v)
      note d = data_step_fields [OF read_back_data [OF recovered(5)]]
      have "good_prefix (content fc ?u) (min (48 * first_lost ?u) (img_size ?u)) (fw_uiRunningCRC (sTFWImg ?u))"
        using u recovered(2) by (simp add: img_ok_def)
      from read_back_image [OF laws small _ this recovered(5)] size
      have "good_prefix (content fc s) (img_size s) (fw_uiRunningCRC (sTFWImg v))" "content fc v = content fc s" by simp_all
      with recovered d show ?thesis by (simp add: good_prefix_image)
    qed simp_all
  qed
  then show "image_crc (content fc t) (uiFWImgSize t) = bt_uiCRC (bl_mgmt t)" and "uiFWImgSize t = uiFWImgSize s"
    and "bt_uiCRC (bl_mgmt t) = bt_uiCRC (bl_mgmt s)" and "content fc t = content fc s" and "m' = m" by blast+
qed

text \<open>The image invariant through the other routines.\<close>

lemma announce_img:
  assumes laws: "flash_laws E fc" and run: "vInit_BootloaderManager_ForNewFWImage E m s = (m', s')"
    and st: "eBtlState s = eBootloader_State_Idle"
  shows "session_img_ok E fc s'"
  using run
proof (cases rule: announce_cases)
  case (rejected e n)
  with st show ?thesis by (simp add: session_img_ok_def)
next
  case (no_flash t)
  with erase_fields(1) [OF no_flash(2)] st show ?thesis by (simp add: session_img_ok_def)
next
  case (started t m1 s1)
  have erased: "\<forall>k < unat (fa_size E). content fc s1 k = 0xFF"
    using started(2,3) flash_laws_erase [OF laws] flash_laws_keep(1,2) [OF laws]
    by (auto simp: vErase_FlashArea_def Let_def vSet_BootloaderMsgStatus_def split: prod.splits if_splits)
  have "content fc s' = content fc s1" unfolding started(12) by (simp add: flash_laws_keep [OF laws])
  with erased erase_fields(1) [OF started(2)] started(4,12) show ?thesis
    by (simp add: session_img_ok_def img_ok_def good_prefix_0)
qed

lemma session_img_cong:
  assumes "session_img_ok E fc s" and "content fc s' = content fc s" and "eBtlState s' = eBtlState s"
    and "uiFWImgSize s' = uiFWImgSize s" and "\<exists>x. sTFWImg s' = (sTFWImg s)\<lparr>fw_stTxLostPacketInfo := x\<rparr>"
  shows "session_img_ok E fc s'"
  using assms img_ok_cong [where s = s and s' = s' and fc = fc and E = E] by (auto simp: session_img_ok_def)

lemma session_img_not_in_progress: "eBtlState s \<noteq> eBootloader_State_FWImgWrite_InProg \<Longrightarrow> session_img_ok E fc s"
  by (simp add: session_img_ok_def)

lemma finalize_img:
  assumes laws: "flash_laws E fc" and ctrl: "bl_ctrl E s" and img: "session_img_ok E fc s"
    and cmd: "bm_eCMD m = eBootloader_CMD_FWUpEnd" and run: "vFinalize_FWImageWrite E m s = (m', s')"
  shows "session_img_ok E fc s'"
proof (cases "eBtlState s = eBootloader_State_FWImgWrite_InProg")
  case False
  with run img show ?thesis by (auto simp: vFinalize_FWImageWrite_def vFinalize_Locked_def)
next
  case st: True
  obtain r m1 s1 where fin: "vFinalize_Locked E m s = (r, m1, s1)" by (metis prod_cases3)
  show ?thesis
  proof (cases r)
    case Finalize_Nothing
    with run fin have s': "s' = s1" by (simp add: vFinalize_FWImageWrite_def)
    from fin st show ?thesis
    proof (cases rule: finalize_cases)
      case checked
      from checked(3) show ?thesis
      proof (cases rule: check_cases)
        case pending
        have "session_img_ok E fc (tail_marked s)" using img st tail_marked_img_ok by (simp add: session_img_ok_def)
        then show ?thesis unfolding s' pending(5)
          by (rule session_img_cong)
             (auto simp: vEnter_LostPacketRecovery_Locked_def reinit_tx_mgmt flash_laws_keep [OF laws]
               intro!: exI [of _ zero_lost_tx])
      qed (use Finalize_Nothing in simp_all)
    qed (use Finalize_Nothing in simp)
  next
    case Finalize_CancelWork
    with run fin have s': "s' = cancel_both E s1" by (simp add: vFinalize_FWImageWrite_def)
    have "eBtlState s1 = eBootloader_State_Error"
      using fin st Finalize_CancelWork
      by (auto elim!: finalize_cases check_cases simp: aborted_from_def)
    then show ?thesis by (simp add: s' session_img_ok_def)
  next
    case Finalize_ProcessCompleted
    with run fin have comp: "vExecute_Bootloader_FWImgWrite_Completed E m1 (cancel_work E stBtlStateTimeOut_Work_t s1) = (m', s')"
      by (simp add: vFinalize_FWImageWrite_def)
    have base: "bt_bIsInitialized (bl_mgmt s1)" "uiFlashAreaSize s1 = fa_size E" "m1 = m"
        "\<not> fw_bIsFlashWritInProgress (sTFWImg s1)" "tx_ok (sTTxLostPacketInfo s1)"
      using fin st Finalize_ProcessCompleted bl_ctrlD [OF ctrl]
      by (auto elim!: finalize_cases check_cases simp: data_step_fields [OF read_back_data] aborted_from_def)
    have "eBtlState s' \<noteq> eBootloader_State_FWImgWrite_InProg"
      using completed_ctrl(2) [OF comp _ _ _ _ _] base cmd by simp
    then show ?thesis by (rule session_img_not_in_progress)
  qed
qed

text \<open>Routines that only touch the transmission record, or abort.\<close>

definition tx_only :: "('w \<Rightarrow> nat \<Rightarrow> u8) \<Rightarrow> 'w bl_sys \<Rightarrow> 'w bl_sys \<Rightarrow> bool" where
  "tx_only fc s s' \<longleftrightarrow> eBtlState s' = eBootloader_State_Error \<or>
     (content fc s' = content fc s \<and> eBtlState s' = eBtlState s \<and> uiFWImgSize s' = uiFWImgSize s
      \<and> (\<exists>x. sTFWImg s' = (sTFWImg s)\<lparr>fw_stTxLostPacketInfo := x\<rparr>))"

lemma tx_only_img: "tx_only fc s s' \<Longrightarrow> session_img_ok E fc s \<Longrightarrow> session_img_ok E fc s'"
  unfolding tx_only_def using session_img_not_in_progress session_img_cong by (metis eT_Bootloader_State.distinct)

lemma tx_onlyI:
  assumes "content fc s' = content fc s" and "bl_mgmt s' = bt_stTFWImgCtrl_t_update (fw_stTxLostPacketInfo_update g) (bl_mgmt s)"
  shows "tx_only fc s s'"
  using assms by (auto simp: tx_only_def intro!: exI [of _ "g (sTTxLostPacketInfo s)"])

lemma tx_only_refl [simp]: "tx_only fc s s"
  by (auto simp: tx_only_def intro!: exI [of _ "sTTxLostPacketInfo s"])

lemma tx_only_error: "flash_laws E fc \<Longrightarrow> tx_only fc s (vProcess_Bootloader_TxError E s)"
  by (auto simp: tx_only_def vProcess_Bootloader_TxError_def vAbort_BootloaderSession_def
      intro!: exI [of _ "sTTxLostPacketInfo s"] split: eT_Bootloader_State.split)

lemma tx_only_retry:
  assumes laws: "flash_laws E fc"
  shows "tx_only fc s (vProcess_Bootloader_RetryTx E s)"
proof -
  obtain m w where w: "send_plain E (bl_can s) (lt_stTCANTxMsg_t (sTTxLostPacketInfo s)) (bl_world s) = (m, w)" by fastforce
  note send = content_send [OF laws w]
  show ?thesis
  proof (cases "lt_eTxState (sTTxLostPacketInfo s) = eBootloader_Tx_RetryInProgress")
    case False
    then show ?thesis
      by (auto simp: vProcess_Bootloader_RetryTx_def tx_only_def intro!: exI [of _ "sTTxLostPacketInfo s"])
  next
    case retry: True
    show ?thesis
    proof (cases "lt_uiRetryCount (sTTxLostPacketInfo s) \<ge> 3")
      case True
      with retry tx_only_error [OF laws] show ?thesis by (simp add: vProcess_Bootloader_RetryTx_def)
    next
      case False
      show ?thesis
        by (rule tx_onlyI) (use w send retry False in \<open>auto simp: vProcess_Bootloader_RetryTx_def schedule_fields content_schedule [OF laws]\<close>)
    qed
  qed
qed

lemma tx_only_trans: "tx_only fc s t \<Longrightarrow> tx_only fc t u \<Longrightarrow> tx_only fc s u"
  by (auto simp: tx_only_def)

lemma tx_only_upd: "tx_only fc s (upd_tx g s)"
  by (rule tx_onlyI) simp_all

lemma tx_only_world: "fc w = content fc s \<Longrightarrow> tx_only fc s (s\<lparr>bl_world := w\<rparr>)"
  by (auto simp: tx_only_def intro!: exI [of _ "sTTxLostPacketInfo s"])

lemma tx_only_schedule: "flash_laws E fc \<Longrightarrow> tx_only fc s (snd (bSchedule_LostPacketTimeouts E s))"
  by (auto simp: tx_only_def schedule_fields content_schedule intro!: exI [of _ "sTTxLostPacketInfo s"])

lemma tx_only_set: "tx_only fc s (vSet_TxState st s)"
  by (rule tx_onlyI) (simp_all add: vSet_TxState_def)

lemma tx_only_cancel: "flash_laws E fc \<Longrightarrow> tx_only fc s (cancel_work E wk s)"
  by (auto simp: tx_only_def flash_laws_keep intro!: exI [of _ "sTTxLostPacketInfo s"])

lemma tx_only_timeout: "flash_laws E fc \<Longrightarrow> tx_only fc s (vBtlTxTimeOutHandler E s)"
  by (auto simp: vBtlTxTimeOutHandler_def intro: tx_only_cancel tx_only_error tx_only_retry tx_only_trans [OF tx_only_set])

lemma tx_only_response:
  assumes laws: "flash_laws E fc"
  shows "tx_only fc s (vHandle_LostPacketInfo_TxResponse E ack seq s)"
proof -
  have same: "tx_only fc s s" by (auto simp: tx_only_def intro!: exI [of _ "sTTxLostPacketInfo s"])
  have "tx_only fc s (vSet_TxState eBootloader_Tx_Idle (upd_tx (\<lambda>t. t\<lparr>lt_uiRetryCount := 0\<rparr>) (cancel_work E stBtlTxTimeOut_Work_t s)))"
    by (rule tx_only_trans [OF tx_only_cancel [OF laws] tx_only_trans [OF tx_only_upd tx_only_set]])
  with same show ?thesis
    by (auto simp: vHandle_LostPacketInfo_TxResponse_def intro: tx_only_trans [OF tx_only_set tx_only_retry [OF laws]]
        split: option.split eT_CANACK_Ctrl.split)
qed

lemma tx_only_get_lost:
  assumes laws: "flash_laws E fc" and run: "vGet_LostPacketInfo E m s = (m', s')"
  shows "tx_only fc s s'"
proof (cases "bm_eCMD m = eBootloader_CMD_GetLostPacketInfo \<and> lt_eTxState (sTTxLostPacketInfo s) = eBootloader_Tx_Idle")
  case False
  with run show ?thesis
    by (auto simp: vGet_LostPacketInfo_def tx_only_def split: if_splits intro!: exI [of _ "sTTxLostPacketInfo s"])
next
  case True
  let ?s = "vSet_TxState eBootloader_Tx_InProgress s"
  obtain txm w where w: "send_plain E (bl_can ?s) (lost_info_msg (sTFWImg ?s)) (bl_world ?s) = (txm, w)" by fastforce
  have "fc w = content fc ?s" by (rule content_send [OF laws w])
  then have u: "tx_only fc s (?s\<lparr>bl_world := w\<rparr>)" by (rule tx_only_trans [OF tx_only_set tx_only_world])
  have "s' = snd (bSchedule_LostPacketTimeouts E
      (if tx_eTxResult txm \<noteq> eCAN_TxSubmit_Queued
       then upd_tx (\<lambda>t. (keep_tx_msg txm t)\<lparr>lt_eTxState := eBootloader_Tx_RetryInProgress, lt_uiRetryCount := lt_uiRetryCount t + 1\<rparr>) (?s\<lparr>bl_world := w\<rparr>)
       else upd_tx (\<lambda>t. (keep_tx_msg txm t)\<lparr>lt_uiFrameSeq := lt_uiFrameSeq t + 1\<rparr>) (?s\<lparr>bl_world := w\<rparr>)))"
    using run True w by (cases "tx_eTxResult txm = eCAN_TxSubmit_Queued") (auto simp: vGet_LostPacketInfo_def Let_def)
  then show ?thesis
    using tx_only_trans [OF u tx_only_trans [OF tx_only_upd tx_only_schedule [OF laws]]]
    by (cases "tx_eTxResult txm = eCAN_TxSubmit_Queued") simp_all
qed

lemma dispatch_img:
  assumes laws: "flash_laws E fc" and ctrl: "bl_ctrl E s" and small: "slot_small E" and img: "session_img_ok E fc s"
    and data: "length (bm_uiaData m) = 64" and run: "vUpdateBootloader E m s = (m', s')"
  shows "session_img_ok E fc s'"
proof (cases "eBtlState s")
  case st: eBootloader_State_Idle
  let ?s = "snd (bIsFirstEntry s)"
  have idle: "eBtlState ?s = eBootloader_State_Idle" using st by simp
  have "s' = s \<or> s' = ?s \<or> vInit_BootloaderManager_ForNewFWImage E m ?s = (m', s')"
    using run st unfolding vUpdateBootloader_def vExecute_Bootloader_IdleState_def Let_def split_beta
    by (auto split: if_splits eT_Bootloader_Command.splits)
  moreover have "session_img_ok E fc ?s" by (rule session_img_not_in_progress) (simp add: st)
  ultimately show ?thesis using img announce_img [OF laws _ idle] by blast
next
  case st: eBootloader_State_FWImgWrite_InProg
  have upd: "session_img_ok E fc s'" if u: "vUpdate_FWImage E m s = (m', s')"
  proof (cases "bm_uiLen m = 50")
    case False
    with u img show ?thesis by (auto simp: vUpdate_FWImage_def)
  next
    case True
    obtain b m1 s1 where l: "vUpdate_FWImage_Locked E m s = (b, m1, s1)" by (metis prod_cases3)
    with u True have "s' = (if b then cancel_both E s1 else s1)" by (auto simp: vUpdate_FWImage_def)
    moreover note update_locked_img [OF laws ctrl small img True data l]
    moreover have "session_img_ok E fc (cancel_both E s1) = session_img_ok E fc s1"
      by (simp add: session_img_ok_def img_ok_def cancel_both_def flash_laws_keep [OF laws])
    ultimately show ?thesis by simp
  qed
  have get: "session_img_ok E fc s'" if "vGet_LostPacketInfo E m s = (m', s')"
    by (rule tx_only_img [OF tx_only_get_lost [OF laws that] img])
  have stop: "session_img_ok E fc (vAbort_BootloaderSession E s)"
    by (simp add: session_img_ok_def vAbort_BootloaderSession_def)
  show ?thesis
    using run st upd get stop img finalize_img [OF laws ctrl img]
    by (auto simp: vUpdateBootloader_def vExecute_Bootloader_FWImgWrite_State_def vStop_FWUpgradeProcess_def
        split: if_splits eT_Bootloader_Command.splits)
next
  case eBootloader_State_Reboot
  with run show ?thesis
    by (auto simp: vUpdateBootloader_def vExecute_Bootloader_Reboot_def vCancel_BootloaderStateTimeOut_def session_img_ok_def)
next
  case eBootloader_State_Error
  with run show ?thesis
    by (auto simp: vUpdateBootloader_def vExecute_Bootloader_ErrorState_def Let_def split_beta session_img_ok_def
        split: eT_Bootloader_Command.splits)
qed (use ctrl in \<open>auto simp: bl_ctrl_def mgmt_ctrl_def\<close>)

lemma state_timeout_img:
  assumes laws: "flash_laws E fc" and img: "session_img_ok E fc s"
  shows "session_img_ok E fc (vBtlState_TimeOutHandler E s)"
proof -
  obtain now w where t: "k_uptime_get E (bl_world s) = (now, w)" by fastforce
  have "fc w = content fc s" using flash_laws_keep(3) [OF laws, of "bl_world s"] t by simp
  with t img show ?thesis
    by (auto simp: vBtlState_TimeOutHandler_def Let_def session_img_ok_def img_ok_def flash_laws_keep [OF laws])
qed

text \<open>\<open>R\<close> is what the rest of the system does: it leaves the slot alone.\<close>

lemma step_img:
  assumes "bl_step E R s s'" and laws: "flash_laws E fc" and "slot_small E" and "\<forall>w w'. R w w' \<longrightarrow> fc w' = fc w"
    and "bl_ctrl E s" and img: "session_img_ok E fc s"
  shows "session_img_ok E fc s'"
  using assms(1)
proof (cases rule: bl_step.cases)
  case (step_dispatch m m')
  then show ?thesis using dispatch_img [OF laws assms(5,3) img] by blast
next
  case (step_host_ack m m')
  then have "s' = s \<or> (\<exists>a q. s' = vHandle_LostPacketInfo_TxResponse E a q s)"
    by (auto simp: vHandle_HostAcknowledgements_def vHandle_ACK_ForLostPacketInfo_def
        split: eT_Bootloader_Command.splits if_splits)
  then have "tx_only fc s s'" using tx_only_response [OF laws] by auto
  then show ?thesis by (rule tx_only_img [OF _ img])
next
  case step_state_timeout
  then show ?thesis using state_timeout_img [OF laws img] by simp
next
  case step_tx_timeout
  then show ?thesis using tx_only_img [OF tx_only_timeout [OF laws] img] by simp
next
  case (step_can cfg)
  then show ?thesis using img by (auto simp: session_img_ok_def img_ok_def)
next
  case (step_world w)
  then show ?thesis using assms(4) img by (auto simp: session_img_ok_def img_ok_def)
qed

lemma reach_img:
  assumes "bl_reach E R s" and "flash_laws E fc" and "slot_small E" and "\<forall>w w'. R w w' \<longrightarrow> fc w' = fc w"
  shows "session_img_ok E fc s"
  using assms(1)
proof (induction rule: bl_reach.induct)
  case (reach_init s0 s)
  then show ?case using init_ctrl(2) [OF reach_init(4)] by (simp add: session_img_not_in_progress)
next
  case (reach_step s s')
  then show ?case using step_img [OF reach_step(2) assms(2,3,4) reach_ctrl [OF reach_step(1) assms(3)]] by blast
qed

subsection \<open>The upgrade is requested for verified images only\<close>

lemma to_reboot:
  assumes ctrl: "bl_ctrl E s" and run: "vUpdateBootloader E m s = (m', s')"
    and before: "eBtlState s \<noteq> eBootloader_State_Reboot" and after: "eBtlState s' = eBootloader_State_Reboot"
    and small: "slot_small E"
  shows "eBtlState s = eBootloader_State_FWImgWrite_InProg \<and> bm_eCMD m = eBootloader_CMD_FWUpEnd
    \<and> vFinalize_FWImageWrite E m s = (m', s')"
proof (cases "eBtlState s")
  case st: eBootloader_State_Idle
  let ?s = "snd (bIsFirstEntry s)"
  have idle: "eBtlState ?s = eBootloader_State_Idle" using st by simp
  have "s' = s \<or> s' = ?s \<or> vInit_BootloaderManager_ForNewFWImage E m ?s = (m', s')"
    using run st unfolding vUpdateBootloader_def vExecute_Bootloader_IdleState_def Let_def split_beta
    by (auto split: if_splits eT_Bootloader_Command.splits)
  moreover have "bl_ctrl E ?s" using ctrl by simp
  ultimately have "eBtlState s' \<in> {eBootloader_State_Idle, eBootloader_State_FWImgWrite_InProg}"
    using announce_ctrl(2) [OF _ _ idle] st idle by auto
  with after show ?thesis by simp
next
  case st: eBootloader_State_FWImgWrite_InProg
  have "eBtlState s' \<noteq> eBootloader_State_Reboot" if u: "vUpdate_FWImage E m s = (m', s')"
  proof (cases "bm_uiLen m = 50")
    case False
    with u st show ?thesis by (auto simp: vUpdate_FWImage_def)
  next
    case True
    obtain b m1 s1 where l: "vUpdate_FWImage_Locked E m s = (b, m1, s1)" by (metis prod_cases3)
    with u True have "eBtlState s' = eBtlState s1" by (auto simp: vUpdate_FWImage_def)
    moreover from l st bl_ctrlD(3) [OF ctrl] bl_ctrlD(7) [OF ctrl st] True have "eBtlState s1 \<noteq> eBootloader_State_Reboot"
    proof (cases rule: update_cases)
      case (accepted s2 s3 s4)
      have "data_step s3 s4" using write_blocks_data [OF accepted(5)] True by simp
      with accepted(6) data_step_fields(1) open_for_first_fields(1) [OF accepted(4)] admit_fields(4) [OF accepted(3)] st
      show ?thesis by (simp add: data_step_fields)
    qed (use st in \<open>auto simp: aborted_from_def\<close>)
    ultimately show ?thesis by simp
  qed
  moreover have "eBtlState s' \<noteq> eBootloader_State_Reboot" if g: "vGet_LostPacketInfo E m s = (m', s')"
  proof -
    have "bl_ctrl E s'" by (rule get_lost_ctrl [OF g ctrl st])
    show ?thesis using g st
      by (auto simp: vGet_LostPacketInfo_def Let_def schedule_fields vSet_TxState_def split: if_splits prod.splits)
  qed
  ultimately show ?thesis
    using run st after by (auto simp: vUpdateBootloader_def vExecute_Bootloader_FWImgWrite_State_def
      vStop_FWUpgradeProcess_def vAbort_BootloaderSession_def split: if_splits eT_Bootloader_Command.splits)
next
  case eBootloader_State_Error
  with run after show ?thesis
    by (auto simp: vUpdateBootloader_def vExecute_Bootloader_ErrorState_def Let_def split_beta
        split: eT_Bootloader_Command.splits)
qed (use ctrl before in \<open>auto simp: bl_ctrl_def mgmt_ctrl_def\<close>)

text \<open>The request of an upgrade, traced back to the checks that allowed it.\<close>

lemma upgrade_verified:
  assumes "flash_laws E fc" and "slot_small E" and "\<forall>w w'. R w w' \<longrightarrow> fc w' = fc w" and "bl_reach E R s"
    and "vUpdateBootloader E m s = (m', s')"
    and "eBtlState s \<noteq> eBootloader_State_Reboot" and "eBtlState s' = eBootloader_State_Reboot"
  shows "\<exists>t. vFinalize_Locked E m s = (Finalize_ProcessCompleted, m, t)
    \<and> vExecute_Bootloader_FWImgWrite_Completed E m (cancel_work E stBtlStateTimeOut_Work_t t) = (m', s')
    \<and> image_crc (content fc t) (uiFWImgSize s) = bt_uiCRC (bl_mgmt s) \<and> 0 < uiFWImgSize s"
proof -
  have ctrl: "bl_ctrl E s" by (rule reach_ctrl [OF assms(4,2)])
  note end_cmd = to_reboot [OF ctrl assms(5,6,7,2)]
  then have st: "eBtlState s = eBootloader_State_FWImgWrite_InProg" by simp
  have img: "img_ok E fc s" using reach_img [OF assms(4,1,2,3)] st by (simp add: session_img_ok_def)
  obtain r m1 t where fin: "vFinalize_Locked E m s = (r, m1, t)" by (metis prod_cases3)
  have "r = Finalize_ProcessCompleted"
  proof (cases r)
    case Finalize_Nothing
    with end_cmd fin have "s' = t" by (simp add: vFinalize_FWImageWrite_def)
    moreover have "eBtlState t = eBtlState s"
      using fin st Finalize_Nothing
      by (auto elim!: finalize_cases check_cases simp: vEnter_LostPacketRecovery_Locked_def reinit_tx_mgmt)
    ultimately show ?thesis using st assms(7) by simp
  next
    case Finalize_CancelWork
    with end_cmd fin have "s' = cancel_both E t" by (simp add: vFinalize_FWImageWrite_def)
    moreover have "eBtlState t = eBootloader_State_Error"
      using fin st Finalize_CancelWork by (auto elim!: finalize_cases check_cases simp: aborted_from_def)
    ultimately show ?thesis using assms(7) by simp
  qed
  note fin = fin [unfolded this]
  note ver = finalize_verified [OF assms(1,2) ctrl st img fin]
  have "0 < uiFWImgSize s" using bl_ctrlD(5) [OF ctrl st] by (simp add: session_ok_def)
  with fin ver end_cmd show ?thesis by (auto simp: vFinalize_FWImageWrite_def)
qed

end
