(* ===== verification/Bootloader_Bounds.thy ===== *)
theory Bootloader_Bounds
  imports Bootloader_Integrity
begin

text \<open>
  Where the bootloader writes. A platform whose write is replaced outside the window that starts
  at the write offset cannot be told from the original: the bootloader never writes there.
\<close>

text \<open>A write of one block that lies in the slot behind the write offset.\<close>

definition in_window :: "('w, 'z) bl_platform_scheme \<Rightarrow> u32 \<Rightarrow> u8 list \<Rightarrow> bool" where
  "in_window E off d \<longleftrightarrow> 0x2000 \<le> unat off \<and> unat off + 16 \<le> unat (fa_size E) \<and> length d = 16"

text \<open>The same platform with an arbitrary effect \<open>X\<close> of every other write.\<close>

definition rewired :: "('w, 'z) bl_platform_scheme \<Rightarrow> (u32 \<Rightarrow> u8 list \<Rightarrow> 'w \<Rightarrow> int \<times> 'w) \<Rightarrow> ('w, 'z) bl_platform_scheme" where
  "rewired E X = E\<lparr>flash_area_write := (\<lambda>off d w. if in_window E off d then flash_area_write E off d w else X off d w)\<rparr>"

lemma rewired_fields [simp]:
  "fa_size (rewired E X) = fa_size E" "flash_area_open (rewired E X) = flash_area_open E"
  "flash_area_close (rewired E X) = flash_area_close E" "flash_area_erase (rewired E X) = flash_area_erase E"
  "flash_area_read (rewired E X) = flash_area_read E" "boot_request_upgrade (rewired E X) = boot_request_upgrade E"
  "k_work_reschedule (rewired E X) = k_work_reschedule E" "k_work_cancel_delayable (rewired E X) = k_work_cancel_delayable E"
  "k_msleep (rewired E X) = k_msleep E" "sys_reboot (rewired E X) = sys_reboot E"
  "k_uptime_get (rewired E X) = k_uptime_get E" "eFlexCAN_SendMsg (rewired E X) = eFlexCAN_SendMsg E"
  "flash_area_write (rewired E X) = (\<lambda>off d w. if in_window E off d then flash_area_write E off d w else X off d w)"
  by (simp_all add: rewired_def)

subsection \<open>Routines that do not write\<close>

lemma rewired_small [simp]:
  "cancel_work (rewired E X) = cancel_work E"
  "close_flash (rewired E X) = close_flash E"
  "vRefresh_BootloaderStateTimeOut_Locked (rewired E X) = vRefresh_BootloaderStateTimeOut_Locked E"
  by (auto simp: fun_eq_iff cancel_work_def close_flash_def vRefresh_BootloaderStateTimeOut_Locked_def)

lemma rewired_abort [simp]:
  "vAbort_BootloaderSession_Locked (rewired E X) = vAbort_BootloaderSession_Locked E"
  "cancel_both (rewired E X) = cancel_both E"
  "vCancel_BootloaderStateTimeOut (rewired E X) = vCancel_BootloaderStateTimeOut E"
  by (auto simp: fun_eq_iff vAbort_BootloaderSession_Locked_def cancel_both_def vCancel_BootloaderStateTimeOut_def)

lemma rewired_session [simp]:
  "vAbort_BootloaderSession (rewired E X) = vAbort_BootloaderSession E"
  "vReinit_BootloaderStateMachine (rewired E X) = vReinit_BootloaderStateMachine E"
  "fail_session (rewired E X) = fail_session E"
  "vErase_FlashArea (rewired E X) = vErase_FlashArea E"
  "open_for_first (rewired E X) = open_for_first E"
  "read_flash (rewired E X) = read_flash E"
  "bCanHandleMissingPackets (rewired E X) = bCanHandleMissingPackets E"
  "send_plain (rewired E X) = send_plain E"
  "bSchedule_LostPacketTimeouts (rewired E X) = bSchedule_LostPacketTimeouts E"
  "vEnter_LostPacketRecovery_Locked (rewired E X) = vEnter_LostPacketRecovery_Locked E"
  by (auto simp: fun_eq_iff vAbort_BootloaderSession_def vReinit_BootloaderStateMachine_def fail_session_def
      vErase_FlashArea_def open_for_first_def read_flash_def bCanHandleMissingPackets_def send_plain_def
      vSend_CANMessage_def bSchedule_LostPacketTimeouts_def vEnter_LostPacketRecovery_Locked_def Let_def split_beta
      split: option.split)

lemma rewired_set_state [simp]: "vSet_BootloaderState (rewired E X) = vSet_BootloaderState E"
  by (auto simp: fun_eq_iff vSet_BootloaderState_def Let_def split: eT_Bootloader_State.split)

lemma rewired_admit [simp]:
  "admit_packet (rewired E X) = admit_packet E"
  "vInit_BootloaderManager_ForNewFWImage (rewired E X) = vInit_BootloaderManager_ForNewFWImage E"
  "vGet_LostPacketInfo (rewired E X) = vGet_LostPacketInfo E"
  by (auto simp: fun_eq_iff admit_packet_def vHandle_PacketId_Mismatch_def
      vInit_BootloaderManager_ForNewFWImage_def vGet_LostPacketInfo_def Let_def split_beta split: option.split)

lemma rewired_idle [simp]: "vExecute_Bootloader_IdleState (rewired E X) = vExecute_Bootloader_IdleState E"
  by (auto simp: fun_eq_iff vExecute_Bootloader_IdleState_def Let_def split_beta split: eT_Bootloader_Command.split)

lemma rewired_request_loop [simp]: "request_upgrade_loop (rewired E X) n w = request_upgrade_loop E n w"
  by (induction n arbitrary: w) (auto split: prod.split)

lemma rewired_read_back: "vRead_Back (rewired E X) off n retry s = vRead_Back E off n retry s"
proof (induction "unat n + (3 - retry)" arbitrary: off n retry s rule: less_induct)
  case less
  obtain ret d t where rd: "read_flash E off (if n \<ge> 48 then 48 else n) s = ((ret, d), t)" by (metis surj_pair)
  have smaller: "n > 0 \<Longrightarrow> unat (n - (if n \<ge> 48 then 48 else n)) + (3 - retry) < unat n + (3 - retry)"
    by (auto simp: unat_diff_small word_le_nat_alt word_less_nat_alt)
  show ?case
    unfolding vRead_Back.simps [of _ off n retry s]
    using less.hyps [OF smaller] less.hyps [of n "retry + 1"] rd by (auto simp: Let_def)
qed

lemma rewired_finalize [simp]: "vFinalize_FWImageWrite (rewired E X) = vFinalize_FWImageWrite E"
proof -
  have "vValidate_FWImgCRC_FromFLash_AtLostPacketState (rewired E X) = vValidate_FWImgCRC_FromFLash_AtLostPacketState E"
    by (auto simp: fun_eq_iff vValidate_FWImgCRC_FromFLash_AtLostPacketState_def rewired_read_back Let_def split_beta)
  then have "vFinalize_Check (rewired E X) = vFinalize_Check E" by (auto simp: fun_eq_iff vFinalize_Check_def Let_def split_beta)
  then have "vFinalize_Locked (rewired E X) = vFinalize_Locked E" by (auto simp: fun_eq_iff vFinalize_Locked_def Let_def split_beta)
  moreover have "vExecute_Bootloader_FWImgWrite_Completed (rewired E X) = vExecute_Bootloader_FWImgWrite_Completed E"
    by (auto simp: fun_eq_iff vExecute_Bootloader_FWImgWrite_Completed_def vRequest_MCUbootImageUpgrade_def
        Let_def split_beta split: eT_Bootloader_Command.split)
  ultimately show ?thesis by (auto simp: fun_eq_iff vFinalize_FWImageWrite_def split: prod.split finalize_exit.split)
qed

subsection \<open>The write loop\<close>

lemma rewired_block:
  assumes fa: "0x2000 < fa_size E" "slot_small E" and sz: "uiFWImgSize s \<le> 0xF0000"
  shows "vWrite_FWBlock (rewired E X) (fa_size E - 0x2000) pid idx m s = vWrite_FWBlock E (fa_size E - 0x2000) pid idx m s"
proof -
  let ?off = "block_off pid idx" and ?avail = "fa_size E - 0x2000"
  let ?len = "block_len (uiFWImgSize s) ?off"
  let ?blk = "memcpy_list (replicate 16 0xFF) (block_data m idx ?len)"
  have "write_flash (rewired E X) (0x2000 + ?off) ?blk t = write_flash E (0x2000 + ?off) ?blk t"
    if "\<not> ?off > ?avail" "\<not> ?off \<ge> uiFWImgSize s" "\<not> ?off + 16 > ?avail" for t :: "'a bl_sys"
  proof -
    have ok: "?off + 16 \<le> ?avail" "?off \<le> ?avail" "?off < uiFWImgSize s" using that by auto
    have "unat ?len \<le> 16" using unat_block_len [OF ok(3) sz] by simp
    then have "length ?blk = 16" by (simp add: block_data_def memcpy_list_def)
    with in_slot [OF ok(1) fa ok(2)] have "in_window E (0x2000 + ?off) ?blk" by (simp add: in_window_def)
    then show ?thesis by (simp add: write_flash_def)
  qed
  then show ?thesis
    unfolding vWrite_FWBlock_def Let_def block_off_def block_len_def block_data_def by (auto simp: split_beta)
qed

lemma rewired_blocks:
  assumes fa: "0x2000 < fa_size E" "slot_small E" and "uiFWImgSize s \<le> 0xF0000"
  shows "vWrite_FWBlocks (rewired E X) (fa_size E - 0x2000) pid idx m s = vWrite_FWBlocks E (fa_size E - 0x2000) pid idx m s"
  using assms(3)
proof (induction "256 - idx" arbitrary: idx m s rule: less_induct)
  case less
  obtain r m1 s1 where blk: "vWrite_FWBlock E (fa_size E - 0x2000) pid idx m s = (r, m1, s1)" by (metis prod_cases3)
  have rest: "vWrite_FWBlocks (rewired E X) (fa_size E - 0x2000) pid (idx + 16) m1 s1
      = vWrite_FWBlocks E (fa_size E - 0x2000) pid (idx + 16) m1 s1"
    if "r = FWBlock_Next" "idx < unat (bm_uiLen m)"
  proof (rule less.hyps)
    show "256 - (idx + 16) < 256 - idx" using that(2) unat_lt_u8 [of "bm_uiLen m"] by linarith
    show "uiFWImgSize s1 \<le> 0xF0000"
      using data_step_block [OF blk] that(1) data_step_fields(4) less.prems by (metis fw_block_result.distinct(3))
  qed
  show ?case
    unfolding vWrite_FWBlocks.simps [of _ _ pid idx m s] rewired_block [OF fa less.prems] blk
    using rest by (auto split: fw_block_result.split)
qed

lemma rewired_update:
  assumes ctrl: "bl_ctrl E s" and small: "slot_small E" and st: "eBtlState s = eBootloader_State_FWImgWrite_InProg"
  shows "vUpdate_FWImage (rewired E X) m s = vUpdate_FWImage E m s"
proof -
  note sess = bl_ctrlD(5) [OF ctrl st]
  have fa: "0x2000 < fa_size E" "uiFlashAreaSize s = fa_size E" using sess bl_ctrlD(2) [OF ctrl] by (simp_all add: session_ok_def)
  have blocks: "vWrite_FWBlocks (rewired E X) (uiFlashAreaSize s - 0x2000) (packet_id m) 2 m1 s2
      = vWrite_FWBlocks E (uiFlashAreaSize s - 0x2000) (packet_id m) 2 m1 s2"
    if "admit_packet E (packet_id m) m s = (True, m1, s1)"
      "open_for_first E (first_packet s) (upd_img (begin_packet (packet_id m)) s1) = (r, s2)" for m1 s1 r s2
    unfolding fa(2)
    by (rule rewired_blocks [OF fa(1) small])
       (use session_size_small [OF sess small] admit_fields(3) [OF that(1)] open_for_first_fields(1) [OF that(2)] in simp)
  have "vUpdate_FWImage_Locked (rewired E X) m s = vUpdate_FWImage_Locked E m s"
    using blocks unfolding vUpdate_FWImage_Locked_def Let_def packet_id_def first_packet_def
    by (auto split: prod.split)
  then show ?thesis by (auto simp: vUpdate_FWImage_def split: prod.split)
qed

text \<open>
  Property C3. The bootloader writes whole 16-byte blocks that lie between the write offset 0x2000 and the end
  of the slot, and nothing else: in every reachable state every message has the same answer, the same
  next state and the same effect on the world as on a platform on which all other writes do something
  else, whatever that is.
\<close>

theorem bl_writes_in_slot:
  assumes "bl_reach E R s" and "slot_small E"
  shows "vUpdateBootloader (rewired E X) m s = vUpdateBootloader E m s"
proof -
  have ctrl: "bl_ctrl E s" by (rule reach_ctrl [OF assms])
  have upd: "eBtlState s = eBootloader_State_FWImgWrite_InProg \<Longrightarrow> vUpdate_FWImage (rewired E X) m s = vUpdate_FWImage E m s"
    by (rule rewired_update [OF ctrl assms(2)])
  have completed: "eBtlState s \<noteq> eBootloader_State_FWImgWrite_Completed"
    using ctrl by (auto simp: bl_ctrl_def mgmt_ctrl_def)
  show ?thesis
    using upd completed
    by (cases "eBtlState s")
       (auto simp: vUpdateBootloader_def vExecute_Bootloader_FWImgWrite_State_def vStop_FWUpgradeProcess_def
         vExecute_Bootloader_Reboot_def vExecute_Bootloader_ErrorState_def split: eT_Bootloader_Command.split prod.split)
qed

text \<open>A platform that fails and destroys its memory on any other write handles the demonstration packet alike.\<close>

theorem bl_writes_in_slot_witness:
  "vUpdateBootloader (rewired demo_platform (\<lambda>off d w. (-5, \<lambda>_. 0))) demo_packet demo_session = (demo_packet, demo_written)"
  using bl_writes_in_slot [OF demo_session_reach demo_slot_small] demo_packet_run by simp

end
