(* ===== verification/Bootloader_Transfer.thy ===== *)
theory Bootloader_Transfer
  imports Bootloader_Properties Bootloader_Bounds
begin

text \<open>
  A complete upload on working services: the announced image arrives byte for byte in the slot, and the end
  command leads to the reboot exactly when its CRC is the announced one.
\<close>

subsection \<open>Working services, packets and stored images\<close>

text \<open>
  Every call of a loss-free session succeeds: the slot opens, erases, takes aligned blocks and the
  upgrade request is granted. Slots end on a block boundary.
\<close>

definition working :: "('w, 'z) bl_platform_scheme \<Rightarrow> ('w \<Rightarrow> nat \<Rightarrow> u8) \<Rightarrow> bool" where
  "working E fc \<longleftrightarrow> flash_laws E fc \<and> slot_small E \<and> 0x2000 < fa_size E \<and> 16 dvd unat (fa_size E)
     \<and> (\<forall>w. fst (flash_area_open E w) = (0, True)) \<and> (\<forall>w. fst (flash_area_erase E 0 (fa_size E) w) = 0)
     \<and> (\<forall>off d w. length d = 16 \<longrightarrow> unat off + 16 \<le> unat (fa_size E) \<longrightarrow> fst (flash_area_write E off d w) = 0)
     \<and> (\<forall>w. fst (boot_request_upgrade E w) = 0)"

text \<open>Packet \<open>i\<close> of an image carries its bytes from \<open>48 * i\<close> on; what pads the last packet does not matter.\<close>

definition is_packet :: "u8 list \<Rightarrow> nat \<Rightarrow> sT_Bootloader_CtrlMsg_t \<Rightarrow> bool" where
  "is_packet img i m \<longleftrightarrow> bm_eCMD m = eBootloader_CMD_FWUpMsg \<and> bm_uiLen m = 50 \<and> length (bm_uiaData m) = 64
     \<and> packet_id m = of_nat i
     \<and> (\<forall>j < 48. 48 * i + j < length img \<longrightarrow> bm_uiaData m ! (2 + j) = img ! (48 * i + j))"

definition stores :: "u8 list \<Rightarrow> nat \<Rightarrow> (nat \<Rightarrow> u8) \<Rightarrow> bool" where
  "stores img p c \<longleftrightarrow> (\<forall>k < p. k < length img \<longrightarrow> c (0x2000 + k) = img ! k)"

lemma stores_all: "stores img p c \<Longrightarrow> length img \<le> p \<Longrightarrow> mem_bytes c 0x2000 (length img) = img"
  by (rule mem_bytes_eqI) (auto simp: stores_def)

lemma stores_mono: "stores img p c \<Longrightarrow> q \<le> p \<Longrightarrow> stores img q c"
  by (auto simp: stores_def)

lemma stores_past: "stores img p c \<Longrightarrow> length img \<le> p \<Longrightarrow> stores img q c"
  by (auto simp: stores_def)

lemma stores_extend:
  assumes "stores img p c" and "\<And>k. k < 0x2000 + p \<Longrightarrow> c' k = c k"
    and "mem_bytes c' (0x2000 + p) n = d" and "n = min 16 (length img - p)"
    and "\<And>j. j < n \<Longrightarrow> d ! j = img ! (p + j)"
  shows "stores img (p + 16) c'"
  unfolding stores_def
proof (intro allI impI)
  fix k assume k: "k < p + 16" "k < length img"
  show "c' (0x2000 + k) = img ! k"
  proof (cases "k < p")
    case True
    with assms(1,2) k show ?thesis by (simp add: stores_def)
  next
    case False
    then have "k - p < 16" "k - p < length img - p" using k by linarith+
    then have "k - p < n" using assms(4) by simp
    then have "c' (0x2000 + p + (k - p)) = d ! (k - p)" using assms(3) nth_mem_bytes by metis
    with assms(5) [OF \<open>k - p < n\<close>] False show ?thesis by simp
  qed
qed

subsection \<open>The blocks of a packet\<close>

lemma block_no_exit:
  assumes "block_off pid idx \<le> avail" and "block_off pid idx + 16 \<le> avail"
    and "\<And>d t. length d = 16 \<Longrightarrow> fst (write_flash E (0x2000 + block_off pid idx) d t) = 0"
    and "unat (block_len (uiFWImgSize s) (block_off pid idx)) \<le> 16"
  shows "fst (vWrite_FWBlock E avail pid idx m s) \<noteq> FWBlock_Exit"
proof -
  let ?d = "block_data m idx (block_len (uiFWImgSize s) (block_off pid idx))"
  have "length (memcpy_list (replicate 16 (0xFF :: u8)) ?d) = 16" using assms(4) by (simp add: block_data_def memcpy_list_def)
  then have "fst (write_flash E (0x2000 + block_off pid idx) (memcpy_list (replicate 16 0xFF) ?d) t) = 0" for t
    by (rule assms(3))
  then show ?thesis
    using assms(1,2) unfolding vWrite_FWBlock_def Let_def block_off_def block_len_def block_data_def
    by (auto simp: split_beta not_le [symmetric])
qed

lemma aligned_room: "16 dvd a \<Longrightarrow> 16 dvd b \<Longrightarrow> a < b \<Longrightarrow> a + 16 \<le> (b :: nat)"
  by (auto elim!: dvdE)

text \<open>Where a block of an image lies: behind the write offset and, aligned, inside the slot.\<close>

lemma block_place:
  assumes ok: "working E fc" and ctx: "packet_ctx E m s" and size: "img_size s = length img"
    and idx: "block_index i" "i < 50" and more: "48 * unat pid + (i - 2) < length img"
  shows "unat (block_off pid i) = 48 * unat pid + (i - 2)"
    and "block_off pid i < uiFWImgSize s"
    and "block_off pid i \<le> fa_size E - 0x2000" and "block_off pid i + 16 \<le> fa_size E - 0x2000"
    and "unat (block_len (uiFWImgSize s) (block_off pid i)) = min 16 (length img - (48 * unat pid + (i - 2)))"
proof -
  let ?at = "48 * unat pid + (i - 2)"
  have i: "2 \<le> i" "i + 16 \<le> 50" "16 dvd i - 2" using idx by (auto simp: block_index_def)
  show off: "unat (block_off pid i) = ?at"
    by (rule unat_block_off) (use unat_lt_u16 [of pid] i in simp_all)
  show in_img: "block_off pid i < uiFWImgSize s" using off more size by (simp add: word_less_nat_alt)
  have fa: "unat (fa_size E - 0x2000) = unat (fa_size E) - 0x2000" "16 dvd unat (fa_size E) - 0x2000"
    using ok by (auto simp: working_def unat_diff_small less_imp_le word_less_nat_alt intro: dvd_diff_nat)
  have slot: "length img \<le> unat (fa_size E) - 0x2000" using ctx size fa(1) by (simp add: packet_ctx_def word_le_nat_alt)
  have "16 dvd ?at" by (rule dvd_add) (use i(3) in simp_all)
  then have room: "?at + 16 \<le> unat (fa_size E) - 0x2000" using aligned_room [OF _ fa(2)] more slot by simp
  have small: "unat (fa_size E) \<le> 0xF2000" using ok by (simp add: working_def slot_small_def word_le_nat_alt)
  then have "unat (block_off pid i + 16) = ?at + 16" using room off by (subst unat_add_small) simp_all
  then show "block_off pid i \<le> fa_size E - 0x2000" "block_off pid i + 16 \<le> fa_size E - 0x2000"
    using room off fa(1) by (simp_all add: word_le_nat_alt)
  show "unat (block_len (uiFWImgSize s) (block_off pid i)) = min 16 (length img - ?at)"
    using unat_block_len [OF in_img packet_ctx_small [OF ctx]] off size by simp
qed

text \<open>One block of a packet in order: written, and the loop goes on exactly when the image does.\<close>

lemma block_forward:
  assumes ok: "working E fc" and ctx: "packet_ctx E m s" and normal: "\<not> fw_bLostPacketStateTriggered (sTFWImg s)"
    and pkt: "is_packet img (unat pid) m" and size: "img_size s = length img"
    and idx: "block_index i" "i < 50" and more: "48 * unat pid + (i - 2) < length img"
    and start: "written_to E fc (48 * unat pid + (i - 2)) s" "stores img (48 * unat pid + (i - 2)) (content fc s)"
    and blk: "vWrite_FWBlock E (fa_size E - 0x2000) pid i m s = (r, m1, s1)"
  shows "m1 = m \<and> data_step s s1 \<and> written_to E fc (48 * unat pid + (i - 2) + 16) s1
    \<and> stores img (48 * unat pid + (i - 2) + 16) (content fc s1)
    \<and> r = (if 48 * unat pid + (i - 2) + 16 < length img then FWBlock_Next else FWBlock_Break)"
proof -
  let ?at = "48 * unat pid + (i - 2)"
  have laws: "flash_laws E fc" using ok by (simp add: working_def)
  have len: "length (bm_uiaData m) = 64" using ctx by (simp add: packet_ctx_def)
  have i: "2 \<le> i" "i + 16 \<le> 50" using idx by (auto simp: block_index_def)
  note place = block_place [OF ok ctx size idx more]
  have slot: "unat (block_off pid i) + 16 + 0x2000 \<le> unat (fa_size E)"
      "unat (0x2000 + block_off pid i) = 0x2000 + unat (block_off pid i)"
    by (rule in_slot [OF place(4) _ _ place(3)], use ctx in \<open>simp_all add: packet_ctx_def\<close>)+
  have "fst (write_flash E (0x2000 + block_off pid i) d t) = 0" if "length d = 16" for d t
    using ok slot that by (simp add: working_def write_flash_def split_beta)
  then have r: "r \<noteq> FWBlock_Exit" using block_no_exit [OF place(3,4), of E s m] blk place(5) by fastforce
  from blk show ?thesis
  proof (cases rule: block_cases)
    case (written l d t)
    have dl: "length d = unat l" using written(4,5) length_block_data [of m i l] len place(5) i by simp
    have wt: "written_to E fc (unat (block_off pid i)) s" using start(1) place(1) by simp
    note res = block_written_normal [OF laws normal wt packet_ctx_small [OF ctx] place(2) slot written(4) dl written(6)]
    have bytes: "d ! j = img ! (?at + j)" if "j < unat l" for j
    proof -
      have j: "j < 16" "?at + j < length img" using that place(5) written(4) by auto
      have at: "i + j = 2 + (i - 2 + j)" using i by simp
      have "d ! j = bm_uiaData m ! (2 + (i - 2 + j))"
        unfolding at [symmetric] using j written(4,5) that len i by (simp add: block_data_def)
      then show ?thesis using pkt j i by (simp add: is_packet_def add.assoc)
    qed
    have st: "stores img (?at + 16) (content fc s1)"
    proof (rule stores_extend [OF start(2)])
      show "k < 0x2000 + ?at \<Longrightarrow> content fc s1 k = content fc s k" for k using res(4) written(8) place(1) by simp
      show "mem_bytes (content fc s1) (0x2000 + ?at) (unat l) = d" using res(3) written(8) place(1) by simp
      show "unat l = min 16 (length img - ?at)" using place(5) written(4) by simp
    qed (rule bytes)
    have rec: "unat (fw_uiReceivedByteCount (sTFWImg s1)) = min (?at + 16) (length img)"
    proof -
      have "?at + min 16 (length img - ?at) = min (?at + 16) (length img)" using more by linarith
      then show ?thesis using res(2) written(4,8) place(1,5) by simp
    qed
    then have "fw_uiReceivedByteCount (sTFWImg s1) \<ge> uiFWImgSize s \<longleftrightarrow> \<not> ?at + 16 < length img"
      using size by (auto simp: word_le_nat_alt)
    then show ?thesis
      using data_step_block [OF blk r] st res(1) written(7,8,9) place(1) data_step_fields(4) [of s s1] by simp
  qed (use r place(2) in simp_all)
qed

lemma blocks_forward:
  assumes ok: "working E fc" and ctx: "packet_ctx E m s" and normal: "\<not> fw_bLostPacketStateTriggered (sTFWImg s)"
    and pkt: "is_packet img (unat pid) m" and size: "img_size s = length img" and more: "48 * unat pid < length img"
    and start: "written_to E fc (48 * unat pid) s" "stores img (48 * unat pid) (content fc s)"
    and run: "vWrite_FWBlocks E (fa_size E - 0x2000) pid 2 m s = (b, m', s')"
  shows "\<not> b \<and> stores img (48 * unat pid + 48) (content fc s')"
proof -
  let ?at = "\<lambda>i. 48 * unat pid + (i - 2)"
  let ?P = "\<lambda>i m0 s0. m0 = m \<and> data_step s s0 \<and> block_index i \<and> written_to E fc (?at i) s0
      \<and> stores img (?at i) (content fc s0) \<and> (i = 50 \<or> ?at i < length img)"
  have len: "unat (bm_uiLen m) = 50" using ctx by (simp add: packet_ctx_def)
  have turn: "m1 = m \<and> data_step s s1 \<and> block_index (i + 16) \<and> written_to E fc (?at (i + 16)) s1
      \<and> stores img (?at (i + 16)) (content fc s1)
      \<and> r = (if ?at (i + 16) < length img then FWBlock_Next else FWBlock_Break)"
    if P: "?P i m0 s0" and i: "i < unat (bm_uiLen m0)" and blk: "vWrite_FWBlock E (fa_size E - 0x2000) pid i m0 s0 = (r, m1, s1)"
    for i m0 s0 r m1 s1
  proof -
    have at: "?at (i + 16) = ?at i + 16" "block_index (i + 16)" using P i len block_index_step [of i] by auto
    have ctx0: "packet_ctx E m s0" "\<not> fw_bLostPacketStateTriggered (sTFWImg s0)" "img_size s0 = length img"
      using P ctx normal size packet_ctx_data [of s s0] data_step_fields [of s s0] by auto
    have fwd: "m1 = m \<and> data_step s0 s1 \<and> written_to E fc (?at i + 16) s1 \<and> stores img (?at i + 16) (content fc s1)
        \<and> r = (if ?at i + 16 < length img then FWBlock_Next else FWBlock_Break)"
      by (rule block_forward [OF ok ctx0(1,2) pkt ctx0(3)]) (use P i len blk in auto)
    then show ?thesis unfolding at(1) using P at(2) data_step_trans by blast
  qed
  have "if b then False else stores img (48 * unat pid + 48) (content fc s')"
  proof (rule write_blocks_rule [OF run, where P = ?P and X = "\<lambda>_ _. False"])
    show "?P 2 m s" using start more by (simp add: block_index_def)
    show "stores img (48 * unat pid + 48) (content fc s0)" if "?P i m0 s0" "\<not> i < unat (bm_uiLen m0)" for i m0 s0
      using that len by (auto simp: block_index_def add.commute)
    show "?P (i + 16) m1 s1" if "?P i m0 s0" "i < unat (bm_uiLen m0)" "vWrite_FWBlock E (fa_size E - 0x2000) pid i m0 s0 = (FWBlock_Next, m1, s1)" for i m0 s0 m1 s1
      using turn [OF that] by (auto split: if_splits)
    show "stores img (48 * unat pid + 48) (content fc s1)" if "?P i m0 s0" "i < unat (bm_uiLen m0)" "vWrite_FWBlock E (fa_size E - 0x2000) pid i m0 s0 = (FWBlock_Break, m1, s1)" for i m0 s0 m1 s1
      using turn [OF that] stores_past [of img "?at (i + 16)"] by (metis fw_block_result.distinct(1) not_le)
    show False if "?P i m0 s0" "i < unat (bm_uiLen m0)" "vWrite_FWBlock E (fa_size E - 0x2000) pid i m0 s0 = (FWBlock_Exit, m1, s1)" for i m0 s0 m1 s1
      using turn [OF that] by (auto split: if_splits)
  qed
  then show ?thesis by (cases b) simp_all
qed

subsection \<open>Packets in order\<close>

text \<open>The session after \<open>i\<close> packets without a loss.\<close>

definition transfer_at :: "('w, 'z) bl_platform_scheme \<Rightarrow> ('w \<Rightarrow> nat \<Rightarrow> u8) \<Rightarrow> u8 list \<Rightarrow> u16 \<Rightarrow> nat \<Rightarrow> 'w bl_sys \<Rightarrow> bool" where
  "transfer_at E fc img crc i s \<longleftrightarrow> bl_ctrl E s \<and> eBtlState s = eBootloader_State_FWImgWrite_InProg
     \<and> img_ok E fc s \<and> \<not> fw_bLostPacketStateTriggered (sTFWImg s) \<and> next_id s = i
     \<and> img_size s = length img \<and> bt_uiCRC (bl_mgmt s) = crc \<and> stores img (48 * i) (content fc s)"

lemma packet_forward:
  assumes ok: "working E fc" and at: "transfer_at E fc img crc i s" and pkt: "is_packet img i m" and more: "48 * i < length img"
  obtains s' where "vUpdateBootloader E m s = (m, s')" "transfer_at E fc img crc (Suc i) s'"
proof -
  let ?pid = "packet_id m"
  have laws: "flash_laws E fc" and small: "slot_small E" using ok by (simp_all add: working_def)
  note T = at [unfolded transfer_at_def]
  have ctrl: "bl_ctrl E s" and st: "eBtlState s = eBootloader_State_FWImgWrite_InProg" using T by simp_all
  note c = bl_ctrlD [OF ctrl]
  note sess = c(5) [OF st, unfolded session_ok_def]
  have len: "bm_uiLen m = 50" "length (bm_uiaData m) = 64" using pkt by (simp_all add: is_packet_def)
  have "length img \<le> 0xF0000"
    using session_size_small [OF c(5) [OF st] small] T by (simp add: word_le_nat_alt)
  then have pid: "fw_uiNextId (sTFWImg s) = ?pid" "unat ?pid = i"
    using pkt T more by (simp_all add: is_packet_def word_unat_eq_iff unat_of_nat_small)
  obtain r s2 where op: "open_for_first E (first_packet s) (upd_img (begin_packet ?pid) s) = (r, s2)" by fastforce
  have r: "r = 0" using op ok by (auto simp: open_for_first_def working_def split_beta split: if_splits)
  have s2: "bl_mgmt s2 = bl_mgmt (upd_img (begin_packet ?pid) s)" by (rule open_for_first_fields(1) [OF op])
  have c2: "content fc s2 = content fc s" using content_open [OF laws op] by simp
  have ctx: "packet_ctx E m s2" using sess len small s2 by (simp add: packet_ctx_def)
  have start: "written_to E fc (48 * unat ?pid) s2" "stores img (48 * unat ?pid) (content fc s2)"
    using T c2 s2 pid by (auto simp: img_ok_normal written_to_def)
  obtain b m3 s3 where wr: "vWrite_FWBlocks E (fa_size E - 0x2000) ?pid 2 m s2 = (b, m3, s3)" by (metis prod_cases3)
  have fwd: "\<not> b \<and> stores img (48 * unat ?pid + 48) (content fc s3)"
    by (rule blocks_forward [OF ok ctx _ _ _ _ start wr]) (use T s2 pid pkt more in simp_all)
  then have m3: "m3 = m" "data_step s2 s3" using write_blocks_data [OF wr] len by auto
  obtain s' where s': "s' = vRefresh_BootloaderStateTimeOut_Locked E 1000
      (vHandle_LostPacketRecovery ?pid (upd_img (\<lambda>f. f\<lparr>fw_bIsFlashWritInProgress := False\<rparr>) s3))" by blast
  have locked: "vUpdate_FWImage_Locked E m s = (False, m, s')"
    unfolding vUpdate_FWImage_Locked_def Let_def packet_id_def [symmetric] first_packet_def [symmetric]
    using st c(2,3) sess op wr r fwd m3(1) pid(1) s' by (simp add: admit_packet_def not_le)
  then have run: "vUpdateBootloader E m s = (m, s')"
    using st c(1) pkt by (simp add: vUpdateBootloader_def vExecute_Bootloader_FWImgWrite_State_def vUpdate_FWImage_def is_packet_def)
  note d = data_step_fields [OF m3(2)]
  have "next_id s3 = Suc i"
    using d(9) s2 begin_packet_next(2) [of ?pid "sTFWImg s"] pid more \<open>length img \<le> 0xF0000\<close>
    by (simp add: max_def word_le_nat_alt unat_Suc_small)
  then have fields: "next_id s' = Suc i" "img_size s' = length img" "bt_uiCRC (bl_mgmt s') = crc"
      "eBtlState s' = eBootloader_State_FWImgWrite_InProg" "\<not> fw_bLostPacketStateTriggered (sTFWImg s')"
      "content fc s' = content fc s3"
    using T d s2 by (simp_all add: s' vHandle_LostPacketRecovery_eq flash_laws_keep [OF laws])
  have "session_img_ok E fc s" using T by (simp add: session_img_ok_def)
  from dispatch_img [OF laws ctrl small this len(2) run] have "img_ok E fc s'" using fields(4) by (simp add: session_img_ok_def)
  then have "transfer_at E fc img crc (Suc i) s'"
    using dispatch_ctrl [OF run ctrl small] fields fwd pid by (simp add: transfer_at_def add.commute)
  with run show ?thesis by (rule that)
qed

subsection \<open>A complete upload\<close>

text \<open>Messages one after the other.\<close>

fun send_all :: "('w, 'z) bl_platform_scheme \<Rightarrow> sT_Bootloader_CtrlMsg_t list \<Rightarrow> 'w bl_sys \<Rightarrow> 'w bl_sys" where
  "send_all E [] s = s"
| "send_all E (m # ms) s = send_all E ms (snd (vUpdateBootloader E m s))"

text \<open>The announcement and the packets of an image.\<close>

definition announces :: "u8 list \<Rightarrow> u16 \<Rightarrow> sT_Bootloader_CtrlMsg_t \<Rightarrow> bool" where
  "announces img crc m \<longleftrightarrow> bm_eCMD m = eBootloader_CMD_FWUpReq \<and> bm_uiLen m = 10 \<and> length (bm_uiaData m) = 64
     \<and> unat (be24 (bm_uiaData m ! 0) (bm_uiaData m ! 1) (bm_uiaData m ! 2)) = length img
     \<and> be16 (bm_uiaData m ! 8) (bm_uiaData m ! 9) = crc"

definition carries :: "u8 list \<Rightarrow> sT_Bootloader_CtrlMsg_t list \<Rightarrow> bool" where
  "carries img ps \<longleftrightarrow> length img \<le> 48 * length ps \<and> 48 * length ps < length img + 48
     \<and> (\<forall>i < length ps. is_packet img i (ps ! i))"

lemma packets_forward:
  assumes ok: "working E fc"
  shows "transfer_at E fc img crc i s \<Longrightarrow> (\<forall>j < length ps. is_packet img (i + j) (ps ! j) \<and> 48 * (i + j) < length img)
    \<Longrightarrow> transfer_at E fc img crc (i + length ps) (send_all E ps s)"
proof (induction ps arbitrary: i s)
  case (Cons m ps)
  have "is_packet img i m" "48 * i < length img" using Cons.prems(2) by auto
  then obtain s' where s': "vUpdateBootloader E m s = (m, s')" "transfer_at E fc img crc (Suc i) s'"
    using packet_forward [OF ok Cons.prems(1)] by metis
  have "\<forall>j < length ps. is_packet img (Suc i + j) (ps ! j) \<and> 48 * (Suc i + j) < length img"
    using Cons.prems(2) by force
  with Cons.IH [OF s'(2)] s'(1) show ?case by simp
qed simp

lemma announce_forward:
  assumes ok: "working E fc" and ctrl: "bl_ctrl E s" and idle: "eBtlState s = eBootloader_State_Idle"
    and ann: "announces img crc m" and size: "0 < length img" "length img + 0x2000 \<le> unat (fa_size E)"
  shows "transfer_at E fc img crc 0 (snd (vUpdateBootloader E m s))"
proof -
  let ?s = "snd (bIsFirstEntry s)"
  obtain m' s' where run: "vInit_BootloaderManager_ForNewFWImage E m ?s = (m', s')" by fastforce
  have init: "bt_bIsInitialized (bl_mgmt s)" and fs: "uiFlashAreaSize s = fa_size E" using bl_ctrlD [OF ctrl] by simp_all
  have upd: "vUpdateBootloader E m s = (m', s')"
    using ann idle init run by (simp add: announces_def vUpdateBootloader_def vExecute_Bootloader_IdleState_def
        bIsFW_ImageWrite_InProgress_def split_beta)
  have laws: "flash_laws E fc" and small: "slot_small E" and big: "0x2000 < fa_size E" using ok by (simp_all add: working_def)
  have st: "eBtlState ?s = eBootloader_State_Idle" using idle by simp
  let ?sz = "be24 (bm_uiaData m ! 0) (bm_uiaData m ! 1) (bm_uiaData m ! 2)"
  have "unat (fa_size E - 0x2000) = unat (fa_size E) - 0x2000" using big by (simp add: unat_diff_small)
  then have "?sz \<noteq> 0" "\<not> fa_size E \<le> 0x2000" "\<not> ?sz > fa_size E - 0x2000"
    using ann size big by (auto simp: announces_def word_less_nat_alt word_le_nat_alt)
  then have "size_fits m ?s" using fs by (simp add: size_fits_def bIsFirstEntry_def)
  moreover have "flash_ready E (bl_world ?s)" using ok by (simp add: flash_ready_def working_def split_beta)
  ultimately have out: "bl_mgmt s' = (announced m (bl_mgmt ?s))\<lparr>bt_eBtlState := eBootloader_State_FWImgWrite_InProg, bt_bIsFirstEntry := True\<rparr>"
    using announce_outcome [OF run] by simp
  then have inp: "eBtlState s' = eBootloader_State_FWImgWrite_InProg" by simp
  then have "img_ok E fc s'" using announce_img [OF laws run st] by (simp add: session_img_ok_def)
  moreover have "bl_ctrl E s'" by (rule dispatch_ctrl [OF upd ctrl small])
  moreover have "img_size s' = length img" "bt_uiCRC (bl_mgmt s') = crc" "next_id s' = 0"
      "\<not> fw_bLostPacketStateTriggered (sTFWImg s')"
    using out ann by (simp_all add: announced_def announces_def Let_def)
  ultimately show ?thesis using inp upd by (simp add: transfer_at_def stores_def)
qed

text \<open>The end command after the last packet.\<close>

lemma expected_of_image:
  assumes "unat (uiFWImgSize s) \<le> 0xF0000"
  shows "unat (expected_packets s) = (unat (uiFWImgSize s) + 47) div 48"
proof -
  have "uiFWImgSize s + 48 - 1 = uiFWImgSize s + 47" by simp
  moreover have "unat (uiFWImgSize s + 47) = unat (uiFWImgSize s) + 47" using assms by (subst unat_add_small) simp_all
  moreover have "unat (48 :: u32) = 48" by simp
  ultimately show ?thesis unfolding expected_packets_def unat_div by presburger
qed

lemma end_forward:
  assumes ok: "working E fc" and at: "transfer_at E fc img crc n s" and all: "length img \<le> 48 * n"
    and cmd: "bm_eCMD m = eBootloader_CMD_FWUpEnd" and run: "vUpdateBootloader E m s = (m', s')"
  shows "bm_bIsMsgOk m' = (u16CRC16_CCITT_Update 0xFFFF img = crc)"
    and "eBtlState s' = (if u16CRC16_CCITT_Update 0xFFFF img = crc then eBootloader_State_Reboot else eBootloader_State_Error)"
proof -
  note T = at [unfolded transfer_at_def]
  have ctrl: "bl_ctrl E s" and st: "eBtlState s = eBootloader_State_FWImgWrite_InProg" using T by simp_all
  have small: "slot_small E" using ok by (simp add: working_def)
  have sz: "unat (uiFWImgSize s) \<le> 0xF0000"
    using session_size_small [OF bl_ctrlD(5) [OF ctrl st] small] by (simp add: word_le_nat_alt)
  have ex: "unat (expected_packets s) = (length img + 47) div 48" using expected_of_image [OF sz] T by simp
  have "(length img + 47) div 48 \<le> n" using all by simp
  then have exp: "\<not> expected_packets s > 0xFFFF" "\<not> ucast (fw_uiNextId (sTFWImg s)) < expected_packets s"
    using ex T sz by (auto simp: word_less_nat_alt)
  have w: "written_to E fc (48 * n) s" using T img_ok_normal by blast
  then have full: "fw_uiReceivedByteCount (sTFWImg s) = uiFWImgSize s"
    using T all by (simp add: written_to_def word_unat_eq_iff)
  have "mem_bytes (content fc s) 0x2000 (length img) = img" using stores_all T all by blast
  then have crc: "fw_uiRunningCRC (sTFWImg s) = ucast (u16CRC16_CCITT_Update 0xFFFF img)"
    using w T all by (simp add: written_to_def good_prefix_def min_absorb2)
  have check: "vFinalize_Locked E m s =
     (if u16CRC16_CCITT_Update 0xFFFF img = crc then (Finalize_ProcessCompleted, m, mark_completed s)
      else (Finalize_CancelWork, fail_session E eBootloader_Error_CrcMismatch m s))"
    using st exp T full crc by (auto simp: vFinalize_Locked_def vFinalize_Check_def ucast_u16_eq)
  have fin: "vUpdateBootloader E m s = vFinalize_FWImageWrite E m s"
    using st cmd bl_ctrlD(1) [OF ctrl] by (simp add: vUpdateBootloader_def vExecute_Bootloader_FWImgWrite_State_def)
  have granted: "fst (request_upgrade_loop E 3 w)" for w
    using ok by (simp add: numeral_3_eq_3 working_def split_beta)
  have req: "\<exists>t. vRequest_MCUbootImageUpgrade E m u = (vSet_BootloaderMsgStatus True eBootloader_Error_None m, t)
      \<and> eBtlState t = eBootloader_State_Reboot" for u
    using granted [of "bl_world u"]
    by (auto simp: vRequest_MCUbootImageUpgrade_def Let_def split_beta vSet_BootloaderState_def)
  have "bm_bIsMsgOk m' = (u16CRC16_CCITT_Update 0xFFFF img = crc) \<and>
    eBtlState s' = (if u16CRC16_CCITT_Update 0xFFFF img = crc then eBootloader_State_Reboot else eBootloader_State_Error)"
  proof (cases "u16CRC16_CCITT_Update 0xFFFF img = crc")
    case True
    obtain u where u: "vUpdateBootloader E m s = vRequest_MCUbootImageUpgrade E m u"
      using fin check True cmd by (simp add: vFinalize_FWImageWrite_def vExecute_Bootloader_FWImgWrite_Completed_def Let_def split_beta)
    obtain t where "vRequest_MCUbootImageUpgrade E m u = (vSet_BootloaderMsgStatus True eBootloader_Error_None m, t)"
        "eBtlState t = eBootloader_State_Reboot" using req by blast
    with u run True show ?thesis by (simp add: vSet_BootloaderMsgStatus_def)
  next
    case False
    with fin check run show ?thesis
      by (auto simp: vFinalize_FWImageWrite_def fail_session_def vSet_BootloaderMsgStatus_def)
  qed
  then show "bm_bIsMsgOk m' = (u16CRC16_CCITT_Update 0xFFFF img = crc)"
    and "eBtlState s' = (if u16CRC16_CCITT_Update 0xFFFF img = crc then eBootloader_State_Reboot else eBootloader_State_Error)"
    by auto
qed

text \<open>
  Property C2. A complete upload succeeds. On working services, from any reachable idle state, the announcement of an
  image that fits the slot, its packets in order and the end command do what they are for: after the last
  packet the slot holds the image byte for byte, whatever its length and whatever pads the last
  packet, and the end command is answered positively and leads to the reboot exactly when the CRC of
  the image is the announced one; otherwise it is answered negatively and the session is in error.
\<close>

theorem bl_upload_completes:
  assumes ok: "working E fc" and reach: "bl_reach E R s" and idle: "eBtlState s = eBootloader_State_Idle"
    and ann: "announces img crc req" and size: "0 < length img" "length img + 0x2000 \<le> unat (fa_size E)"
    and ps: "carries img ps" and fin: "bm_eCMD fin = eBootloader_CMD_FWUpEnd"
    and after: "s1 = send_all E (req # ps) s" and last: "vUpdateBootloader E fin s1 = (m', s2)"
  shows "mem_bytes (content fc s1) 0x2000 (length img) = img
    \<and> bm_bIsMsgOk m' = (u16CRC16_CCITT_Update 0xFFFF img = crc)
    \<and> eBtlState s2 = (if u16CRC16_CCITT_Update 0xFFFF img = crc then eBootloader_State_Reboot else eBootloader_State_Error)"
proof -
  have "bl_ctrl E s" using reach_ctrl [OF reach] ok by (simp add: working_def)
  from announce_forward [OF ok this idle ann size]
  have "transfer_at E fc img crc 0 (snd (vUpdateBootloader E req s))" .
  from packets_forward [OF ok this, of ps] ps after
  have at: "transfer_at E fc img crc (length ps) s1" by (auto simp: carries_def)
  have all: "length img \<le> 48 * length ps" using ps by (simp add: carries_def)
  have "mem_bytes (content fc s1) 0x2000 (length img) = img"
    using at all stores_all by (auto simp: transfer_at_def)
  with end_forward [OF ok at all fin last] show ?thesis by simp
qed

text \<open>The one byte image of the demonstration.\<close>

lemma demo_working: "working demo_platform (\<lambda>w. w)"
proof -
  have "fst (flash_area_write demo_platform off d w) = 0" if "unat off + length d \<le> 0xF2000" for off d and w :: ram
    using that by (simp add: demo_platform_def)
  then show ?thesis by (simp add: working_def demo_flash_laws)
qed

theorem bl_upload_completes_witness:
  "mem_bytes (bl_world demo_written) 0x2000 1 = [0x31] \<and> eBtlState demo_reboot = eBootloader_State_Reboot"
proof -
  have "announces [0x31] 0xC782 demo_announce"
    by (simp add: announces_def demo_announce_def be24_def be16_def)
  moreover have "carries [0x31] [demo_packet]"
    by (simp add: carries_def is_packet_def demo_packet_def packet_id_def be16_def)
  moreover have "demo_written = send_all demo_platform [demo_announce, demo_packet] demo_idle"
    by (simp add: demo_session_run demo_packet_run)
  moreover have "eBtlState demo_idle = eBootloader_State_Idle" "bm_eCMD demo_end = eBootloader_CMD_FWUpEnd"
    by (simp_all add: demo_idle_eq demo_end_def)
  ultimately show ?thesis
    using bl_upload_completes [where img = "[0x31]" and crc = "0xC782" and req = demo_announce and ps = "[demo_packet]",
      OF demo_working demo_idle_reach [of "\<lambda>_ _. False"] _ _ _ _ _ _ _ demo_end_run] demo_crc by simp
qed

end
