(* ===== verification/Can_Controller.thy ===== *)
theory Can_Controller
  imports Bootloader_Bounds
begin

text \<open>
  CAN_Controller.c apart from \<open>vSend_CANMessage\<close> (theory \<open>Can_Tx\<close>): identifiers and filters, the decoding
  of bootloader frames, their dispatch and the replies, the acknowledgement sender and the record
  of a permanent bus fault. The theorems connect what is on the bus to the bootloader's own steps.
\<close>

subsection \<open>Identifiers and filters\<close>

datatype eT_CAN_RxFilter_ID_t =
    eCAN_RxFilter_ID_SysMgt | eCAN_RxFilter_ID_Bootloader | eCAN_RxFilter_ID_HostBootloader | eNUMBER_OF_CAN_RX_CONFIGs

datatype eT_CAN_DestFiltID_t = eCAN_DestNode_RxFilt_Bootloader | eCAN_DestNode_RxFilt_SysMgmt | eNUMBER_OF_CAN_HOST_RXIDs

definition uiGetCAN_DestID :: "eT_CAN_DestFiltID_t \<Rightarrow> u32" where
  "uiGetCAN_DestID n =
     (case n of eCAN_DestNode_RxFilt_Bootloader \<Rightarrow> 0x200 | eCAN_DestNode_RxFilt_SysMgmt \<Rightarrow> 0x201
      | eNUMBER_OF_CAN_HOST_RXIDs \<Rightarrow> 0xFFFFFFFF)"

definition iGetCAN_RxFilterID :: "eT_CAN_RxFilter_ID_t \<Rightarrow> int" where
  "iGetCAN_RxFilterID f =
     (case f of eCAN_RxFilter_ID_SysMgt \<Rightarrow> 0x400 | eCAN_RxFilter_ID_Bootloader \<Rightarrow> 0x300
      | eCAN_RxFilter_ID_HostBootloader \<Rightarrow> 0x200 | eNUMBER_OF_CAN_RX_CONFIGs \<Rightarrow> -1)"

text \<open>
  Where the driver delivers the frames of a filter: into one of the two message queues, or to
  \<open>vCAN_HostBootloaderResponse_Callback\<close>. All three filters are for standard identifiers.
\<close>

datatype can_rx_target = msgq_CANSysMgmtRx | msgq_CANBootloaderRx | vCAN_HostBootloaderResponse_Callback

definition staRxFiltConfigs :: "(eT_CAN_RxFilter_ID_t \<times> can_rx_target) list" where
  "staRxFiltConfigs =
     [(eCAN_RxFilter_ID_SysMgt, msgq_CANSysMgmtRx),
      (eCAN_RxFilter_ID_Bootloader, msgq_CANBootloaderRx),
      (eCAN_RxFilter_ID_HostBootloader, vCAN_HostBootloaderResponse_Callback)]"

text \<open>\<open>bInit_CANController\<close>: the driver's \<open>iFlexCAN_Init\<close> gets the filters; the thread is created only when it succeeds.\<close>

definition bInit_CANController ::
  "((eT_CAN_RxFilter_ID_t \<times> can_rx_target) list \<Rightarrow> 'w \<Rightarrow> int \<times> 'w) \<Rightarrow> ('w \<Rightarrow> 'w) \<Rightarrow> 'w \<Rightarrow> bool \<times> 'w" where
  "bInit_CANController iFlexCAN_Init k_thread_create w =
     (let (ret, w) = iFlexCAN_Init staRxFiltConfigs w
      in if ret < 0 then (False, w) else (True, k_thread_create w))"

subsection \<open>Frames and messages\<close>

text \<open>A received frame; \<open>data\<close> has the 64 bytes of a CAN FD frame.\<close>

record can_frame =
  cf_id :: u32
  cf_dlc :: u8
  cf_data :: "u8 list"

fun bootloader_error_val :: "eT_Bootloader_ErrorCode \<Rightarrow> u8" where
  "bootloader_error_val eBootloader_Error_None = 0"
| "bootloader_error_val eBootloader_Error_NullPointer = 1"
| "bootloader_error_val eBootloader_Error_NotInitialized = 2"
| "bootloader_error_val eBootloader_Error_UpdateInProgress = 3"
| "bootloader_error_val eBootloader_Error_InvalidCommand = 4"
| "bootloader_error_val eBootloader_Error_InvalidPayloadLength = 5"
| "bootloader_error_val eBootloader_Error_InvalidImageSize = 6"
| "bootloader_error_val eBootloader_Error_ImageTooLarge = 7"
| "bootloader_error_val eBootloader_Error_ImageIncomplete = 8"
| "bootloader_error_val eBootloader_Error_CrcMismatch = 9"
| "bootloader_error_val eBootloader_Error_InvalidPacketId = 10"
| "bootloader_error_val eBootloader_Error_FlashAreaOpenFail = 11"
| "bootloader_error_val eBootloader_Error_FlashAreaEraseFail = 12"
| "bootloader_error_val eBootloader_Error_FlashAreaWriteFail = 13"
| "bootloader_error_val eBootloader_Error_FlashAreaReadFail = 14"
| "bootloader_error_val eBootloader_Error_FlashBoundsExceeded = 15"
| "bootloader_error_val eBootloader_Error_UpgradeRequestFail = 16"
| "bootloader_error_val eBootloader_Error_MissingPacketsPending = 17"
| "bootloader_error_val eBootloader_Error_UndefinedBehavior = 18"

text \<open>Casting a byte to the command and back.\<close>

lemma bootloader_cmd_val_of_byte [simp]: "bootloader_cmd_val (bootloader_cmd_of_byte b) = b"
proof (cases "20 \<le> b \<and> b < 35")
  case True
  then have "unat b - 20 < 15" by (simp add: word_le_nat_alt word_less_nat_alt) linarith
  moreover have "b = of_nat (unat b - 20 + 20)" using True by (simp add: word_le_nat_alt)
  ultimately obtain i where i: "i < 15" "b = of_nat (i + 20)" "unat b - 20 = i" by blast
  have "i \<in> {0, 1, 2, 3, 4, 5, 6, 7, 8, 9, 10, 11, 12, 13, 14}" using i(1) by simp presburger
  then have "bootloader_cmd_val (bootloader_cmds ! i) = of_nat (i + 20)"
    by (elim insertE) (simp_all add: bootloader_cmds_def)
  with True i show ?thesis by (auto simp: bootloader_cmd_of_byte_def)
qed (auto simp: bootloader_cmd_of_byte_def)

text \<open>\<open>sT_Bootloader_CtrlMsg_t stBTLCtrlMsg = {0}\<close>.\<close>

definition zero_btl_msg :: sT_Bootloader_CtrlMsg_t where
  "zero_btl_msg = \<lparr>bm_eCMD = eBootloader_CMD_Invalid, bm_bIsMsgOk = False, bm_bIsACKReq = False,
     bm_eErrorCode = eBootloader_Error_None, bm_uiLen = 0, bm_uiaData = replicate 64 0\<rparr>"

definition bGet_BootloaderExpectedPayloadLen :: "eT_Bootloader_Command \<Rightarrow> u8 option" where
  "bGet_BootloaderExpectedPayloadLen eCMD =
     (case eCMD of
        eBootloader_CMD_FWUpReq \<Rightarrow> Some 10
      | eBootloader_CMD_FWUpMsg \<Rightarrow> Some FW_IMG_PACKET_DATA_LENGTH
      | eBootloader_CMD_FWUpEnd \<Rightarrow> Some 0
      | eBootloader_CMD_FWUpPause \<Rightarrow> Some 0
      | eBootloader_CMD_FWUpStop \<Rightarrow> Some 0
      | eBootloader_CMD_GetLostPacketInfo \<Rightarrow> Some 0
      | eBootloader_CMD_RecoverFromError \<Rightarrow> Some 0
      | eBootloader_CMD_RetLostPacketInfo \<Rightarrow> Some 2
      | _ \<Rightarrow> None)"

definition vUpdate_BtlMsgACK_Requirement :: "sT_Bootloader_CtrlMsg_t \<Rightarrow> sT_Bootloader_CtrlMsg_t" where
  "vUpdate_BtlMsgACK_Requirement m =
     (if bm_eCMD m \<in> {eBootloader_CMD_FWUpReq, eBootloader_CMD_FWUpEnd, eBootloader_CMD_FWUpPause,
                       eBootloader_CMD_FWUpStop, eBootloader_CMD_RecoverFromError}
        then vSet_BootloaderMsgStatus True eBootloader_Error_None (m\<lparr>bm_bIsACKReq := True\<rparr>)
      else if bm_eCMD m \<in> {eBootloader_CMD_FWUpMsg, eBootloader_CMD_GetLostPacketInfo, eBootloader_CMD_RetLostPacketInfo}
        then vSet_BootloaderMsgStatus True eBootloader_Error_None (m\<lparr>bm_bIsACKReq := False\<rparr>)
      else vSet_BootloaderMsgStatus False eBootloader_Error_InvalidCommand m)"

text \<open>\<open>can_dlc_to_bytes\<close> is Zephyr's table and a parameter; the bound 35 is \<open>eNUMBER_OF_BOOTLOADER_COMMANDs\<close>.\<close>

definition vFormat_Bootloader_Msg ::
  "(u8 \<Rightarrow> u8) \<Rightarrow> bool \<Rightarrow> can_frame \<Rightarrow> sT_Bootloader_CtrlMsg_t \<Rightarrow> sT_Bootloader_CtrlMsg_t" where
  "vFormat_Bootloader_Msg can_dlc_to_bytes bIsInitialized fr m =
     (if \<not> bIsInitialized then vSet_BootloaderMsgStatus False eBootloader_Error_NotInitialized m
      else
        (let uiLen = can_dlc_to_bytes (cf_dlc fr) in
         if uiLen < 1 then vSet_BootloaderMsgStatus False eBootloader_Error_InvalidPayloadLength m
         else
           (let eCMD = bootloader_cmd_of_byte (cf_data fr ! 0);
                m = m\<lparr>bm_eCMD := eCMD\<rparr>
            in if bootloader_cmd_val eCMD < 21 \<or> bootloader_cmd_val eCMD \<ge> 35
                 then vSet_BootloaderMsgStatus False eBootloader_Error_InvalidCommand m
               else
                 (case bGet_BootloaderExpectedPayloadLen eCMD of
                    None \<Rightarrow> vSet_BootloaderMsgStatus False eBootloader_Error_InvalidCommand m
                  | Some n \<Rightarrow>
                      if uiLen - 1 < n then vSet_BootloaderMsgStatus False eBootloader_Error_InvalidPayloadLength m
                      else
                        vUpdate_BtlMsgACK_Requirement
                          (m\<lparr>bm_uiLen := n,
                             bm_uiaData := if n > 0 then memcpy_list (bm_uiaData m) (take (unat n) (drop 1 (cf_data fr)))
                                           else bm_uiaData m\<rparr>)))))"

subsection \<open>Replies\<close>

definition btl_reply :: "sT_Bootloader_CtrlMsg_t \<Rightarrow> sT_CAN_TXMsg_t" where
  "btl_reply m = zero_tx_msg\<lparr>tx_uiID := 0x200, tx_uiLen := 3,
     tx_puiData := Some [bootloader_cmd_val (bm_eCMD m),
                         can_ack_val (if bm_bIsMsgOk m then eCAN_ACK else eCAN_NACK),
                         bootloader_error_val (bm_eErrorCode m)]\<rparr>"

definition vCAN_SendBtl_ACK_NACK :: "('w, 'z) bl_platform_scheme \<Rightarrow> sT_Bootloader_CtrlMsg_t \<Rightarrow> 'w bl_sys \<Rightarrow> 'w bl_sys" where
  "vCAN_SendBtl_ACK_NACK E m s = s\<lparr>bl_world := snd (send_plain E (bl_can s) (btl_reply m) (bl_world s))\<rparr>"

text \<open>\<open>vSend_ACK_NACK\<close>, the six byte acknowledgement of the system management channel.\<close>

definition ack_nack_msg :: "u32 \<Rightarrow> eT_CANACK_Ctrl \<Rightarrow> eT_SysMgmtErrorCode_t \<Rightarrow> u8 \<Rightarrow> u8 \<Rightarrow> sT_CAN_TXMsg_t" where
  "ack_nack_msg dest a e cmd uiRev = zero_tx_msg\<lparr>tx_uiID := dest, tx_uiLen := 6,
     tx_puiData := Some [sysmgmt_cmd_val eSysMgmt_CMD_ACK_NACK, 4, cmd, uiRev, can_ack_val a, sysmgmt_error_val e]\<rparr>"

definition vSend_ACK_NACK ::
  "('w, 'z) platform_scheme \<Rightarrow> can_config \<Rightarrow> u32 \<Rightarrow> eT_CANACK_Ctrl \<Rightarrow> eT_SysMgmtErrorCode_t \<Rightarrow> u8 \<Rightarrow> u8 \<Rightarrow> 'w \<Rightarrow> 'w" where
  "vSend_ACK_NACK E cfg dest a e cmd uiRev w = snd (send_plain E cfg (ack_nack_msg dest a e cmd uiRev) w)"

subsection \<open>Dispatch\<close>

text \<open>The case labels of \<open>vProcess_Bootloader_Messages\<close> that go to \<open>vUpdateBootloader\<close>.\<close>

definition btl_update_cmds :: "eT_Bootloader_Command set" where
  "btl_update_cmds =
     {eBootloader_CMD_FWUpReq, eBootloader_CMD_FWUpMsg, eBootloader_CMD_GetLostPacketInfo,
      eBootloader_CMD_FWUpEnd, eBootloader_CMD_FWUpPause, eBootloader_CMD_FWUpStop,
      eBootloader_CMD_AuthStart, eBootloader_CMD_UpdateAuthResponse, eBootloader_CMD_RecoverFromError}"

definition btl_dispatch ::
  "('w, 'z) bl_platform_scheme \<Rightarrow> sT_Bootloader_CtrlMsg_t \<Rightarrow> 'w bl_sys \<Rightarrow> sT_Bootloader_CtrlMsg_t \<times> 'w bl_sys" where
  "btl_dispatch E m s =
     (if bm_eCMD m \<in> btl_update_cmds then vUpdateBootloader E m s
      else if bm_eCMD m = eBootloader_CMD_RetLostPacketInfo then vHandle_HostAcknowledgements E m s
      else (vSet_BootloaderMsgStatus False eBootloader_Error_InvalidCommand m, s))"

definition vProcess_Bootloader_Messages :: "('w, 'z) bl_platform_scheme \<Rightarrow> sT_Bootloader_CtrlMsg_t \<Rightarrow> 'w bl_sys \<Rightarrow> 'w bl_sys" where
  "vProcess_Bootloader_Messages E m s =
     (let (m, s) = btl_dispatch E m s
      in if bm_bIsACKReq m then vCAN_SendBtl_ACK_NACK E m s else s)"

definition vHandle_Bootloader_Messages ::
  "('w, 'z) bl_platform_scheme \<Rightarrow> (u8 \<Rightarrow> u8) \<Rightarrow> can_frame \<Rightarrow> 'w bl_sys \<Rightarrow> 'w bl_sys" where
  "vHandle_Bootloader_Messages E can_dlc_to_bytes fr s =
     (let m = vFormat_Bootloader_Msg can_dlc_to_bytes (bt_bIsInitialized (bl_mgmt s)) fr zero_btl_msg
      in if \<not> bm_bIsMsgOk m then vCAN_SendBtl_ACK_NACK E m s
         else vProcess_Bootloader_Messages E m s)"

text \<open>A turn of \<open>vThread_BootloaderMsgHandler\<close> on the frame it took from its queue.\<close>

definition vThread_BootloaderMsgHandler ::
  "('w, 'z) bl_platform_scheme \<Rightarrow> (u8 \<Rightarrow> u8) \<Rightarrow> can_frame \<Rightarrow> 'w bl_sys \<Rightarrow> 'w bl_sys" where
  "vThread_BootloaderMsgHandler E can_dlc_to_bytes fr s =
     (if cf_id fr = word_of_int (iGetCAN_RxFilterID eCAN_RxFilter_ID_Bootloader)
        then vHandle_Bootloader_Messages E can_dlc_to_bytes fr s else s)"

subsection \<open>Permanent faults\<close>

text \<open>
  The critical failure callback and its registration. Each routine returns whether it calls the
  callback with \<open>eCAN_BUS_Permanent_Fault\<close> after the spin lock is released.
\<close>

definition vCAN_BusRecovery_Failed_Callback :: "can_config \<Rightarrow> bool \<times> can_config" where
  "vCAN_BusRecovery_Failed_Callback cfg =
     (busCriticalFailureAppCallback cfg, cfg\<lparr>IsCANStopped := True\<rparr>)"

definition vSubscribe_ToCANBusCriticalFailure :: "bool \<Rightarrow> can_config \<Rightarrow> bool \<times> can_config" where
  "vSubscribe_ToCANBusCriticalFailure cb cfg =
     (let cfg = cfg\<lparr>busCriticalFailureAppCallback := cb\<rparr> in (IsCANStopped cfg \<and> cb, cfg))"

definition vUnSubscribe_FromCANBusCriticalFailure :: "can_config \<Rightarrow> can_config" where
  "vUnSubscribe_FromCANBusCriticalFailure cfg = cfg\<lparr>busCriticalFailureAppCallback := False\<rparr>"

subsection \<open>The node on the bus\<close>

text \<open>
  What happens to the bootloader of a node that is connected to the bus: the handler thread takes a
  frame from its queue, a delayed work item runs, the controller gives the bus up or its listener
  changes, or the rest of the world moves by \<open>R\<close>.
\<close>

inductive node_step ::
  "('w, 'z) bl_platform_scheme \<Rightarrow> (u8 \<Rightarrow> u8) \<Rightarrow> ('w \<Rightarrow> 'w \<Rightarrow> bool) \<Rightarrow> 'w bl_sys \<Rightarrow> 'w bl_sys \<Rightarrow> bool"
  for E :: "('w, 'z) bl_platform_scheme" and dlc_bytes :: "u8 \<Rightarrow> u8" and R :: "'w \<Rightarrow> 'w \<Rightarrow> bool" where
  node_frame: "length (cf_data fr) = 64 \<Longrightarrow> node_step E dlc_bytes R s (vThread_BootloaderMsgHandler E dlc_bytes fr s)"
| node_state_timeout: "node_step E dlc_bytes R s (vBtlState_TimeOutHandler E s)"
| node_tx_timeout: "node_step E dlc_bytes R s (vBtlTxTimeOutHandler E s)"
| node_bus_fault: "node_step E dlc_bytes R s (s\<lparr>bl_can := snd (vCAN_BusRecovery_Failed_Callback (bl_can s))\<rparr>)"
| node_subscribe: "node_step E dlc_bytes R s (s\<lparr>bl_can := snd (vSubscribe_ToCANBusCriticalFailure cb (bl_can s))\<rparr>)"
| node_unsubscribe: "node_step E dlc_bytes R s (s\<lparr>bl_can := vUnSubscribe_FromCANBusCriticalFailure (bl_can s)\<rparr>)"
| node_world: "R (bl_world s) w \<Longrightarrow> node_step E dlc_bytes R s (s\<lparr>bl_world := w\<rparr>)"

inductive node_reach ::
  "('w, 'z) bl_platform_scheme \<Rightarrow> (u8 \<Rightarrow> u8) \<Rightarrow> ('w \<Rightarrow> 'w \<Rightarrow> bool) \<Rightarrow> 'w bl_sys \<Rightarrow> bool"
  for E :: "('w, 'z) bl_platform_scheme" and dlc_bytes :: "u8 \<Rightarrow> u8" and R :: "'w \<Rightarrow> 'w \<Rightarrow> bool" where
  node_init: "bl_mgmt s0 = zero_mgmt \<Longrightarrow> \<not> bl_flashArea s0 \<Longrightarrow> \<not> bl_fault s0 \<Longrightarrow>
     bInit_BootloaderController E s0 = (True, s) \<Longrightarrow> node_reach E dlc_bytes R s"
| node_then: "node_reach E dlc_bytes R s \<Longrightarrow> node_step E dlc_bytes R s s' \<Longrightarrow> node_reach E dlc_bytes R s'"

end
