(* ===== verification/Can_Properties.thy ===== *)
theory Can_Properties
  imports Can_Controller
begin

text \<open>
  What the bus sees of the bootloader: which frames are accepted, that handling a frame is a step of
  the bootloader, which frames are answered and how, and how a permanent fault reaches its listener.
\<close>

subsection \<open>The request part of a message\<close>

definition request_of :: "sT_Bootloader_CtrlMsg_t \<Rightarrow> eT_Bootloader_Command \<times> bool \<times> u8 \<times> u8 list" where
  "request_of m = (bm_eCMD m, bm_bIsACKReq m, bm_uiLen m, bm_uiaData m)"

lemma request_status [simp]: "request_of (vSet_BootloaderMsgStatus ok e m) = request_of m"
  by (simp add: request_of_def vSet_BootloaderMsgStatus_def)

lemma request_ok [simp]: "request_of (m\<lparr>bm_bIsMsgOk := ok\<rparr>) = request_of m"
  by (simp add: request_of_def)

lemma request_fail [simp]: "request_of (fst (fail_session E e m s)) = request_of m"
  by (simp add: fail_session_def)

lemma request_erase: "vErase_FlashArea E m s = (m', s') \<Longrightarrow> request_of m' = request_of m"
  by (auto simp: vErase_FlashArea_def Let_def split: prod.splits if_splits)

lemma request_announce: "vInit_BootloaderManager_ForNewFWImage E m s = (m', s') \<Longrightarrow> request_of m' = request_of m"
  by (auto simp: vInit_BootloaderManager_ForNewFWImage_def Let_def split: prod.splits if_splits dest!: request_erase)

lemma request_idle: "vExecute_Bootloader_IdleState E m s = (m', s') \<Longrightarrow> request_of m' = request_of m"
  by (auto simp: vExecute_Bootloader_IdleState_def Let_def split: prod.splits if_splits eT_Bootloader_Command.splits
      dest!: request_announce)

lemma request_missing: "bCanHandleMissingPackets E pid m s = (c, m', s') \<Longrightarrow> request_of m' = request_of m"
  by (auto simp: bCanHandleMissingPackets_def Let_def split: if_splits)

lemma request_admit: "admit_packet E pid m s = (c, m', s') \<Longrightarrow> request_of m' = request_of m"
  by (auto simp: admit_packet_def vHandle_PacketId_Mismatch_def split: if_splits option.splits dest!: request_missing)

lemma request_block: "vWrite_FWBlock E avail pid idx m s = (r, m', s') \<Longrightarrow> request_of m' = request_of m"
  by (auto simp: vWrite_FWBlock_def fail_session_def Let_def split: prod.splits if_splits)

lemma request_blocks: "vWrite_FWBlocks E avail pid idx m s = (x, m', s') \<Longrightarrow> request_of m' = request_of m"
proof (induction E avail pid idx m s arbitrary: x m' s' rule: vWrite_FWBlocks.induct)
  case (1 E avail pid idx m s)
  obtain r m1 s1 where blk: "vWrite_FWBlock E avail pid idx m s = (r, m1, s1)" by (metis prod_cases3)
  note same = request_block [OF blk]
  show ?case
  proof (cases "idx < unat (bm_uiLen m) \<and> r = FWBlock_Next")
    case True
    then have "vWrite_FWBlocks E avail pid (idx + 16) m1 s1 = (x, m', s')"
      using "1.prems" blk by (simp add: vWrite_FWBlocks.simps [of E avail pid idx m s])
    with True same show ?thesis using "1.IH" [OF _ blk [symmetric] _ refl] by simp
  next
    case False
    with "1.prems" blk same show ?thesis
      by (cases r) (auto simp: vWrite_FWBlocks.simps [of E avail pid idx m s] split: if_splits)
  qed
qed

lemma request_update: "vUpdate_FWImage E m s = (m', s') \<Longrightarrow> request_of m' = request_of m"
  by (auto simp: vUpdate_FWImage_def vUpdate_FWImage_Locked_def fail_session_def Let_def
      split: prod.splits if_splits dest!: request_admit request_blocks)

lemma request_upgrade: "vRequest_MCUbootImageUpgrade E m s = (m', s') \<Longrightarrow> request_of m' = request_of m"
  by (auto simp: vRequest_MCUbootImageUpgrade_def Let_def split: prod.splits if_splits)

lemma request_completed: "vExecute_Bootloader_FWImgWrite_Completed E m s = (m', s') \<Longrightarrow> request_of m' = request_of m"
  by (auto simp: vExecute_Bootloader_FWImgWrite_Completed_def Let_def
      split: prod.splits if_splits eT_Bootloader_Command.splits dest!: request_upgrade)

lemma request_check: "vFinalize_Check E m s = (r, m', s') \<Longrightarrow> request_of m' = request_of m"
  by (auto elim!: check_cases)

lemma request_finalize: "vFinalize_FWImageWrite E m s = (m', s') \<Longrightarrow> request_of m' = request_of m"
  by (auto simp: vFinalize_FWImageWrite_def vFinalize_Locked_def fail_session_def Let_def
      split: prod.splits if_splits finalize_exit.splits dest!: request_check request_missing request_completed)

lemma request_get_lost: "vGet_LostPacketInfo E m s = (m', s') \<Longrightarrow> request_of m' = request_of m"
  by (auto simp: vGet_LostPacketInfo_def Let_def split: prod.splits if_splits)

lemma request_update_bootloader: "vUpdateBootloader E m s = (m', s') \<Longrightarrow> request_of m' = request_of m"
  by (auto simp: vUpdateBootloader_def vExecute_Bootloader_FWImgWrite_State_def vExecute_Bootloader_ErrorState_def
      vStop_FWUpgradeProcess_def Let_def
      split: prod.splits if_splits eT_Bootloader_Command.splits eT_Bootloader_State.splits
      dest!: request_idle request_update request_finalize request_completed request_get_lost)

lemma host_ack_silent: "vHandle_HostAcknowledgements E m s = (m', s') \<Longrightarrow> \<not> bm_bIsACKReq m \<Longrightarrow>
    \<not> bm_bIsACKReq m' \<and> bm_eCMD m' = bm_eCMD m"
  by (auto simp: vHandle_HostAcknowledgements_def vHandle_ACK_ForLostPacketInfo_def vSet_BootloaderMsgStatus_def
      split: eT_Bootloader_Command.splits if_splits)

subsection \<open>Which frames are accepted\<close>

text \<open>A frame the decoder accepts: a command with a defined payload length, and that many bytes behind it.\<close>

definition well_formed_frame :: "(u8 \<Rightarrow> u8) \<Rightarrow> can_frame \<Rightarrow> bool" where
  "well_formed_frame dlc_bytes fr \<longleftrightarrow>
     (case bGet_BootloaderExpectedPayloadLen (bootloader_cmd_of_byte (cf_data fr ! 0)) of
        None \<Rightarrow> False | Some n \<Rightarrow> unat n + 1 \<le> unat (dlc_bytes (cf_dlc fr)))"

lemma expected_len_cases:
  assumes "bGet_BootloaderExpectedPayloadLen c = Some n"
  shows "21 \<le> bootloader_cmd_val c \<and> bootloader_cmd_val c < 35 \<and> n \<le> 50"
    and "c \<in> {eBootloader_CMD_FWUpReq, eBootloader_CMD_FWUpEnd, eBootloader_CMD_FWUpPause, eBootloader_CMD_FWUpStop,
          eBootloader_CMD_RecoverFromError, eBootloader_CMD_FWUpMsg, eBootloader_CMD_GetLostPacketInfo,
          eBootloader_CMD_RetLostPacketInfo}"
  using assms by (cases c; simp add: bGet_BootloaderExpectedPayloadLen_def)+

lemma len_check: "\<not> (l :: u8) < 1 \<Longrightarrow> l - 1 < n \<longleftrightarrow> \<not> unat n + 1 \<le> unat l"
  using unat_diff_small [of 1 l] by (auto simp: word_less_nat_alt not_less word_le_nat_alt)

lemma unat_less_one: "(l :: u8) < 1 \<longleftrightarrow> unat l = 0"
  by (simp add: word_less_nat_alt)

lemma format_uninitialised [simp]:
  "vFormat_Bootloader_Msg dlc_bytes False fr m = vSet_BootloaderMsgStatus False eBootloader_Error_NotInitialized m"
  by (simp add: vFormat_Bootloader_Msg_def)

lemma status_fields [simp]:
  "bm_bIsMsgOk (vSet_BootloaderMsgStatus ok e m) = ok" "bm_eErrorCode (vSet_BootloaderMsgStatus ok e m) = e"
  "bm_bIsACKReq (vSet_BootloaderMsgStatus ok e m) = bm_bIsACKReq m" "bm_eCMD (vSet_BootloaderMsgStatus ok e m) = bm_eCMD m"
  by (simp_all add: vSet_BootloaderMsgStatus_def)

text \<open>What the decoder makes of a frame once the bootloader is initialised.\<close>

lemma format_rejects:
  assumes "\<not> well_formed_frame dlc_bytes fr"
  shows "\<not> bm_bIsMsgOk (vFormat_Bootloader_Msg dlc_bytes ini fr zero_btl_msg)"
    and "\<not> bm_bIsACKReq (vFormat_Bootloader_Msg dlc_bytes ini fr zero_btl_msg)"
    and "bm_eErrorCode (vFormat_Bootloader_Msg dlc_bytes ini fr zero_btl_msg) \<noteq> eBootloader_Error_None"
proof -
  let ?c = "bootloader_cmd_of_byte (cf_data fr ! 0)" and ?l = "dlc_bytes (cf_dlc fr)"
  have "\<exists>e c. e \<noteq> eBootloader_Error_None \<and> vFormat_Bootloader_Msg dlc_bytes ini fr zero_btl_msg
      = vSet_BootloaderMsgStatus False e (zero_btl_msg\<lparr>bm_eCMD := c\<rparr>)"
  proof (cases "bGet_BootloaderExpectedPayloadLen ?c")
    case None
    then show ?thesis
      by (auto simp: vFormat_Bootloader_Msg_def Let_def zero_btl_msg_def vSet_BootloaderMsgStatus_def)
  next
    case (Some n)
    with assms have "\<not> unat n + 1 \<le> unat ?l" by (simp add: well_formed_frame_def)
    then have "?l < 1 \<or> ?l - 1 < n" using len_check [of ?l n] by blast
    with Some show ?thesis
      by (auto simp: vFormat_Bootloader_Msg_def Let_def zero_btl_msg_def vSet_BootloaderMsgStatus_def)
  qed
  then show "\<not> bm_bIsMsgOk (vFormat_Bootloader_Msg dlc_bytes ini fr zero_btl_msg)"
    and "\<not> bm_bIsACKReq (vFormat_Bootloader_Msg dlc_bytes ini fr zero_btl_msg)"
    and "bm_eErrorCode (vFormat_Bootloader_Msg dlc_bytes ini fr zero_btl_msg) \<noteq> eBootloader_Error_None"
    by (auto simp: vSet_BootloaderMsgStatus_def zero_btl_msg_def)
qed

definition ack_required :: "eT_Bootloader_Command \<Rightarrow> bool" where
  "ack_required c \<longleftrightarrow> c \<in> {eBootloader_CMD_FWUpReq, eBootloader_CMD_FWUpEnd, eBootloader_CMD_FWUpPause,
     eBootloader_CMD_FWUpStop, eBootloader_CMD_RecoverFromError}"

definition frame_msg :: "can_frame \<Rightarrow> sT_Bootloader_CtrlMsg_t" where
  "frame_msg fr =
     (let c = bootloader_cmd_of_byte (cf_data fr ! 0);
          n = the (bGet_BootloaderExpectedPayloadLen c)
      in \<lparr>bm_eCMD = c, bm_bIsMsgOk = True, bm_bIsACKReq = ack_required c, bm_eErrorCode = eBootloader_Error_None,
          bm_uiLen = n, bm_uiaData = take (unat n) (drop 1 (cf_data fr)) @ replicate (64 - unat n) 0\<rparr>)"

lemma format_accepts:
  assumes "well_formed_frame dlc_bytes fr" and len: "length (cf_data fr) = 64"
  shows "vFormat_Bootloader_Msg dlc_bytes True fr zero_btl_msg = frame_msg fr"
proof -
  let ?c = "bootloader_cmd_of_byte (cf_data fr ! 0)" and ?l = "dlc_bytes (cf_dlc fr)"
  obtain n where n: "bGet_BootloaderExpectedPayloadLen ?c = Some n" "unat n + 1 \<le> unat ?l"
    using assms(1) by (auto simp: well_formed_frame_def split: option.splits)
  note c = expected_len_cases [OF n(1)]
  have l: "\<not> ?l < 1" unfolding unat_less_one using n(2) by linarith
  then have fits: "\<not> ?l - 1 < n" using n(2) len_check by blast
  have small: "unat n \<le> 50" using c(1) by (simp add: word_le_nat_alt)
  have data: "n > 0 \<Longrightarrow> memcpy_list (replicate 64 0) (take (unat n) (drop 1 (cf_data fr)))
        = take (unat n) (drop 1 (cf_data fr)) @ replicate (64 - unat n) (0 :: u8)"
    "\<not> n > 0 \<Longrightarrow> replicate 64 0 = take (unat n) (drop 1 (cf_data fr)) @ replicate (64 - unat n) (0 :: u8)"
    using small len by (auto simp: memcpy_list_def min_def word_gt_0)
  have ack: "vUpdate_BtlMsgACK_Requirement m = m\<lparr>bm_bIsACKReq := ack_required ?c, bm_bIsMsgOk := True,
      bm_eErrorCode := eBootloader_Error_None\<rparr>" if "bm_eCMD m = ?c" for m
    using c(2) that by (auto simp: vUpdate_BtlMsgACK_Requirement_def vSet_BootloaderMsgStatus_def ack_required_def)
  have range: "\<not> bootloader_cmd_val ?c < 21" "\<not> bootloader_cmd_val ?c \<ge> 35" using c(1) by auto
  show ?thesis
    unfolding vFormat_Bootloader_Msg_def Let_def frame_msg_def
    using l fits range n(1) data ack by (simp add: zero_btl_msg_def)
qed

text \<open>
  Decoding is total and exact: a frame yields a valid message exactly when the bootloader is initialised,
  the command byte has a defined payload length and the frame carries at least that many bytes behind it. A
  valid message holds the command, exactly the defined number of payload bytes, zeros behind them, and
  asks for an acknowledgement exactly for the five session commands. Everything else is an error with a
  code, and no acknowledgement flag.
\<close>

theorem can_frame_decoding:
  assumes "length (cf_data fr) = 64" and "m = vFormat_Bootloader_Msg dlc_bytes ini fr zero_btl_msg"
  shows "(bm_bIsMsgOk m \<longleftrightarrow> ini \<and> well_formed_frame dlc_bytes fr)
    \<and> (if bm_bIsMsgOk m then m = frame_msg fr \<and> length (bm_uiaData m) = 64
       else \<not> bm_bIsACKReq m \<and> bm_eErrorCode m \<noteq> eBootloader_Error_None)"
proof -
  have ini: "\<not> ini \<Longrightarrow> \<not> bm_bIsMsgOk m \<and> \<not> bm_bIsACKReq m \<and> bm_eErrorCode m \<noteq> eBootloader_Error_None"
    using assms(2) by (simp add: zero_btl_msg_def)
  have ok: "bm_bIsMsgOk (frame_msg fr)" by (simp add: frame_msg_def Let_def)
  have size: "well_formed_frame dlc_bytes fr \<Longrightarrow> length (bm_uiaData (frame_msg fr)) = 64"
    using assms(1) by (auto simp: frame_msg_def Let_def well_formed_frame_def word_le_nat_alt min_def
        split: option.splits dest!: expected_len_cases(1))
  note acc = format_accepts [OF _ assms(1), of dlc_bytes] and rej = format_rejects [of dlc_bytes fr ini]
  show ?thesis
    using acc rej ini ok size assms(2) by (cases ini; cases "well_formed_frame dlc_bytes fr"; auto)
qed

text \<open>The demonstration's packet as a frame of 51 payload bytes, for a length code table that has 64 for code 15.\<close>

definition demo_dlc :: "u8 \<Rightarrow> u8" where
  "demo_dlc d = (if d = 15 then 64 else if d \<le> 8 then d else 12)"

definition demo_frame :: "u8 list \<Rightarrow> can_frame" where
  "demo_frame d = \<lparr>cf_id = 0x300, cf_dlc = 15, cf_data = d @ replicate (64 - length d) 0\<rparr>"

lemma demo_commands [simp]:
  "bootloader_cmd_of_byte 21 = eBootloader_CMD_FWUpReq" "bootloader_cmd_of_byte 22 = eBootloader_CMD_FWUpMsg" "bootloader_cmd_of_byte 23 = eBootloader_CMD_FWUpEnd"
  by code_simp+

lemma demo_frame_msgs:
  "frame_msg (demo_frame [21, 0, 0, 1, 2, 0, 3, 0, 4, 0xC7, 0x82]) = demo_announce"
  "frame_msg (demo_frame [22, 0, 0, 0x31]) = demo_packet"
  "frame_msg (demo_frame [23]) = demo_end"
  "well_formed_frame demo_dlc (demo_frame [21, 0, 0, 1, 2, 0, 3, 0, 4, 0xC7, 0x82])"
  "well_formed_frame demo_dlc (demo_frame [22, 0, 0, 0x31])"
  "well_formed_frame demo_dlc (demo_frame [23])"
  by (simp_all add: frame_msg_def demo_frame_def demo_packet_def demo_end_def demo_announce_def Let_def
      bGet_BootloaderExpectedPayloadLen_def ack_required_def well_formed_frame_def demo_dlc_def replicate_add [symmetric])

theorem can_frame_decoding_witness:
  "vFormat_Bootloader_Msg demo_dlc True (demo_frame [22, 0, 0, 0x31]) zero_btl_msg = demo_packet"
  using can_frame_decoding [OF _ refl, of "demo_frame [22, 0, 0, 0x31]" demo_dlc True] demo_frame_msgs
  by (simp add: demo_frame_def split: if_splits)

subsection \<open>Handling a frame is a step\<close>

lemma msg_length: "well_formed_frame dlc_bytes fr \<Longrightarrow> length (cf_data fr) = 64 \<Longrightarrow> length (bm_uiaData (frame_msg fr)) = 64"
  by (auto simp: frame_msg_def Let_def well_formed_frame_def word_le_nat_alt min_def
        split: option.splits dest!: expected_len_cases(1))

text \<open>The reply changes the world only, and that by the driver's submit function.\<close>

lemma reply_step:
  assumes "bl_reach E R s" and "\<forall>m w. R w (snd (eFlexCAN_SendMsg E m w))"
  shows "bl_reach E R (vCAN_SendBtl_ACK_NACK E m s)"
proof -
  obtain m' w where send: "send_plain E (bl_can s) (btl_reply m) (bl_world s) = (m', w)" by fastforce
  have "R (bl_world s) w \<or> w = bl_world s"
    by (rule plain.send_world [OF send]) (use assms(2) in \<open>auto dest: spec2\<close>, metis snd_conv assms(2))
  then have "bl_reach E R (s\<lparr>bl_world := w\<rparr>)"
    using assms(1) by (auto intro: reach_step step_world)
  with send show ?thesis by (simp add: vCAN_SendBtl_ACK_NACK_def)
qed

lemma dispatch_step:
  assumes "bl_reach E R s" and "length (bm_uiaData m) = 64" and run: "btl_dispatch E m s = (m', s')"
  shows "bl_reach E R s'"
  using assms by (auto simp: btl_dispatch_def split: if_splits intro: reach_step step_dispatch step_host_ack)

lemma frame_step:
  assumes reach: "bl_reach E R s" and len: "length (cf_data fr) = 64"
    and R: "\<forall>m w. R w (snd (eFlexCAN_SendMsg E m w))"
  shows "bl_reach E R (vThread_BootloaderMsgHandler E dlc_bytes fr s)"
proof -
  let ?ini = "bt_bIsInitialized (bl_mgmt s)"
  obtain m where m: "m = vFormat_Bootloader_Msg dlc_bytes ?ini fr zero_btl_msg" by blast
  have "bl_reach E R (vHandle_Bootloader_Messages E dlc_bytes fr s)"
  proof (cases "bm_bIsMsgOk m")
    case False
    then show ?thesis by (simp add: vHandle_Bootloader_Messages_def m [symmetric] reply_step [OF reach R])
  next
    case True
    obtain m' s' where run: "btl_dispatch E m s = (m', s')" by fastforce
    have "?ini" "well_formed_frame dlc_bytes fr"
      using True m format_rejects(1) [of dlc_bytes fr ?ini] by (cases ?ini; auto)+
    then have "length (bm_uiaData m) = 64"
      using m format_accepts [OF _ len] msg_length [OF _ len] by simp
    from dispatch_step [OF reach this run] run True show ?thesis
      by (simp add: vHandle_Bootloader_Messages_def m [symmetric] vProcess_Bootloader_Messages_def reply_step [OF _ R])
  qed
  then show ?thesis using reach by (simp add: vThread_BootloaderMsgHandler_def)
qed

lemma node_is_bootloader:
  assumes "node_reach E dlc_bytes R s" and "\<And>w w'. R w w' \<Longrightarrow> R' w w'" and "\<forall>m w. R' w (snd (eFlexCAN_SendMsg E m w))"
  shows "bl_reach E R' s"
  using assms(1)
proof (induction rule: node_reach.induct)
  case (node_init s0 s)
  then show ?case by (rule reach_init)
next
  case (node_then s s')
  have world: "R (bl_world s) w \<Longrightarrow> bl_reach E R' (s\<lparr>bl_world := w\<rparr>)" for w
    by (rule reach_step [OF node_then(3) step_world]) (rule assms(2))
  from node_then(2) show ?case
    by (cases rule: node_step.cases)
       (use node_then(3) frame_step [OF _ _ assms(3)] world in
         \<open>auto intro: reach_step step_state_timeout step_tx_timeout step_can\<close>)
qed

text \<open>The moves of the world together with the driver's submissions.\<close>

definition bus_moves :: "('w, 'z) bl_platform_scheme \<Rightarrow> ('w \<Rightarrow> 'w \<Rightarrow> bool) \<Rightarrow> 'w \<Rightarrow> 'w \<Rightarrow> bool" where
  "bus_moves E R w w' \<longleftrightarrow> R w w' \<or> (\<exists>m. w' = snd (eFlexCAN_SendMsg E m w))"

text \<open>Only the dispatch of a message leads to the reboot state.\<close>

lemma tx_timeout_state: "eBtlState (vBtlTxTimeOutHandler E s) = eBootloader_State_Reboot \<Longrightarrow> eBtlState s = eBootloader_State_Reboot"
  by (auto simp: vBtlTxTimeOutHandler_def vProcess_Bootloader_RetryTx_def vProcess_Bootloader_TxError_def
      vAbort_BootloaderSession_def vSet_TxState_def bSchedule_LostPacketTimeouts_def Let_def
      split: if_splits prod.splits eT_Bootloader_State.splits)

lemma state_timeout_state: "eBtlState (vBtlState_TimeOutHandler E s) = eBootloader_State_Reboot \<Longrightarrow> eBtlState s = eBootloader_State_Reboot"
  by (auto simp: vBtlState_TimeOutHandler_def Let_def split: if_splits prod.splits)

lemma dispatch_state:
  assumes "btl_dispatch E m s = (m', s')" and "eBtlState s \<noteq> eBootloader_State_Reboot" "eBtlState s' = eBootloader_State_Reboot"
  shows "vUpdateBootloader E m s = (m', s')"
proof -
  have "eBtlState (vHandle_LostPacketInfo_TxResponse E a q s) = eBootloader_State_Reboot \<Longrightarrow> False" for a q
    using assms(2)
    by (auto simp: vHandle_LostPacketInfo_TxResponse_def vProcess_Bootloader_RetryTx_def vProcess_Bootloader_TxError_def
        vAbort_BootloaderSession_def vSet_TxState_def bSchedule_LostPacketTimeouts_def Let_def
        split: if_splits prod.splits option.splits eT_CANACK_Ctrl.splits eT_Bootloader_State.splits)
  then show ?thesis
    using assms by (auto simp: btl_dispatch_def vHandle_HostAcknowledgements_def vHandle_ACK_ForLostPacketInfo_def
        split: if_splits eT_Bootloader_Command.splits)
qed

lemma reply_mgmt [simp]: "bl_mgmt (vCAN_SendBtl_ACK_NACK E m s) = bl_mgmt s"
  by (simp add: vCAN_SendBtl_ACK_NACK_def)

lemma frame_to_reboot:
  assumes "eBtlState s \<noteq> eBootloader_State_Reboot"
    and "eBtlState (vThread_BootloaderMsgHandler E dlc_bytes fr s) = eBootloader_State_Reboot"
    and len: "length (cf_data fr) = 64"
  obtains m' s' where "cf_id fr = 0x300" "vUpdateBootloader E (frame_msg fr) s = (m', s')"
    "eBtlState s' = eBootloader_State_Reboot"
proof -
  let ?m = "vFormat_Bootloader_Msg dlc_bytes (bt_bIsInitialized (bl_mgmt s)) fr zero_btl_msg"
  have id: "cf_id fr = 0x300" and st: "eBtlState (vHandle_Bootloader_Messages E dlc_bytes fr s) = eBootloader_State_Reboot"
    using assms(1,2) by (auto simp: vThread_BootloaderMsgHandler_def iGetCAN_RxFilterID_def split: if_splits)
  have ok: "bm_bIsMsgOk ?m" using st assms(1) by (auto simp: vHandle_Bootloader_Messages_def Let_def split: if_splits)
  then have m: "?m = frame_msg fr"
    using format_rejects(1) [of dlc_bytes fr "bt_bIsInitialized (bl_mgmt s)"] format_accepts [OF _ len, of dlc_bytes]
    by (cases "bt_bIsInitialized (bl_mgmt s)"; cases "well_formed_frame dlc_bytes fr"; auto)
  obtain m' s' where run: "btl_dispatch E ?m s = (m', s')" by fastforce
  have "eBtlState s' = eBootloader_State_Reboot"
    using st ok run by (auto simp: vHandle_Bootloader_Messages_def vProcess_Bootloader_Messages_def split: if_splits)
  with dispatch_state [OF run assms(1)] m id that show ?thesis by metis
qed

text \<open>
  Property C1. No unverified image is ever handed to MCUboot, whatever is on the bus. Whenever a step of a node takes
  its bootloader into the reboot state, the step is a frame with the bootloader's identifier and
  the end command, and the checks of the end passed in a state \<open>t\<close> in which the CRC of the bytes in the flash, from the
  write offset on and as many as were announced, is the announced CRC. This holds after every history
  of frames, losses, retransmissions, timeouts, bus faults and failing calls, for every platform
  that satisfies the flash laws and every rest of the system \<open>R\<close> that leaves the slot alone.
\<close>

theorem node_upgrade_only_verified:
  assumes laws: "flash_laws E fc" and small: "slot_small E" and R: "\<forall>w w'. R w w' \<longrightarrow> fc w' = fc w"
    and reach: "node_reach E dlc_bytes R s" and step: "node_step E dlc_bytes R s s'"
    and before: "eBtlState s \<noteq> eBootloader_State_Reboot" and after: "eBtlState s' = eBootloader_State_Reboot"
  shows "\<exists>fr t. cf_id fr = 0x300 \<and> cf_data fr ! 0 = 23 \<and> s' = vThread_BootloaderMsgHandler E dlc_bytes fr s
    \<and> vFinalize_Locked E (frame_msg fr) s = (Finalize_ProcessCompleted, frame_msg fr, t)
    \<and> image_crc (content fc t) (uiFWImgSize s) = bt_uiCRC (bl_mgmt s) \<and> 0 < uiFWImgSize s"
proof -
  have bl: "bl_reach E (bus_moves E R) s" by (rule node_is_bootloader [OF reach]) (auto simp: bus_moves_def)
  have keeps: "\<forall>w w'. bus_moves E R w w' \<longrightarrow> fc w' = fc w"
    using R flash_laws_keep(4) [OF laws] by (auto simp: bus_moves_def)
  obtain fr where fr: "length (cf_data fr) = 64" "s' = vThread_BootloaderMsgHandler E dlc_bytes fr s"
    using step before after by cases (auto dest: state_timeout_state tx_timeout_state)
  obtain m' u where run: "cf_id fr = 0x300" "vUpdateBootloader E (frame_msg fr) s = (m', u)"
      "eBtlState u = eBootloader_State_Reboot"
    using frame_to_reboot [OF before _ fr(1)] after fr(2) by metis
  have "bm_eCMD (frame_msg fr) = eBootloader_CMD_FWUpEnd"
    using to_reboot [OF reach_ctrl [OF bl small] run(2) before run(3) small] by simp
  then have "bootloader_cmd_val (bootloader_cmd_of_byte (cf_data fr ! 0)) = 23" by (simp add: frame_msg_def Let_def)
  with upgrade_verified [OF laws small keeps bl run(2) before run(3)] run(1) fr(2) show ?thesis by auto
qed

text \<open>The demonstration update over the bus.\<close>

lemma demo_reply [simp]: "\<not> IsCANStopped (bl_can s) \<Longrightarrow> vCAN_SendBtl_ACK_NACK demo_platform m s = s"
  by (simp add: vCAN_SendBtl_ACK_NACK_def send_plain_def vSend_CANMessage_def)

lemma demo_thread:
  assumes "well_formed_frame demo_dlc (demo_frame d)" and "length d \<le> 64" and "bt_bIsInitialized (bl_mgmt s)"
    and "vUpdateBootloader demo_platform (frame_msg (demo_frame d)) s = (m', s')"
    and "bm_eCMD (frame_msg (demo_frame d)) \<in> btl_update_cmds" and "\<not> IsCANStopped (bl_can s')"
  shows "vThread_BootloaderMsgHandler demo_platform demo_dlc (demo_frame d) s = s'"
proof -
  have "length (cf_data (demo_frame d)) = 64" "cf_id (demo_frame d) = 0x300" using assms(2) by (simp_all add: demo_frame_def)
  moreover have "bm_bIsMsgOk (frame_msg (demo_frame d))" by (simp add: frame_msg_def Let_def)
  ultimately show ?thesis
    using assms format_accepts [OF assms(1)]
    by (simp add: vThread_BootloaderMsgHandler_def iGetCAN_RxFilterID_def vHandle_Bootloader_Messages_def Let_def
        vProcess_Bootloader_Messages_def btl_dispatch_def)
qed

lemma demo_announce_frame:
  "vThread_BootloaderMsgHandler demo_platform demo_dlc (demo_frame [21, 0, 0, 1, 2, 0, 3, 0, 4, 0xC7, 0x82]) demo_idle = demo_session"
  by (rule demo_thread [OF demo_frame_msgs(4)]) (simp_all add: demo_frame_msgs demo_session_run btl_update_cmds_def,
      simp_all add: demo_idle_eq demo_session_eq' init_can_config_def)

lemma demo_packet_frame:
  "vThread_BootloaderMsgHandler demo_platform demo_dlc (demo_frame [22, 0, 0, 0x31]) demo_session = demo_written"
  by (rule demo_thread [OF demo_frame_msgs(5)]) (simp_all add: demo_frame_msgs demo_packet_run btl_update_cmds_def,
      simp_all add: demo_packet_def demo_session_eq' demo_written_def init_can_config_def)

lemma demo_end_frame:
  "vThread_BootloaderMsgHandler demo_platform demo_dlc (demo_frame [23]) demo_written = demo_reboot"
  by (rule demo_thread [OF demo_frame_msgs(6)]) (simp_all add: demo_frame_msgs demo_end_run btl_update_cmds_def,
      simp_all add: demo_end_def demo_written_def demo_reboot_def init_can_config_def)

lemma demo_frame_step:
  "length d \<le> 64 \<Longrightarrow> vThread_BootloaderMsgHandler demo_platform demo_dlc (demo_frame d) s = s' \<Longrightarrow>
   node_step demo_platform demo_dlc R s s'"
  using node_frame [of "demo_frame d" demo_platform demo_dlc R s] by (simp add: demo_frame_def)

lemma demo_node_reach: "node_reach demo_platform demo_dlc R demo_written"
proof -
  have "node_reach demo_platform demo_dlc R demo_idle"
    by (rule node_init [OF _ _ _ demo_idle_run]) (simp_all add: demo_start_def)
  then have "node_reach demo_platform demo_dlc R demo_session"
    by (rule node_then) (rule demo_frame_step [OF _ demo_announce_frame], simp)
  then show ?thesis by (rule node_then) (rule demo_frame_step [OF _ demo_packet_frame], simp)
qed

text \<open>The upgrade of the one byte image.\<close>

theorem node_upgrade_only_verified_witness:
  "\<exists>fr t. cf_data fr ! 0 = 23 \<and> demo_reboot = vThread_BootloaderMsgHandler demo_platform demo_dlc fr demo_written
    \<and> vFinalize_Locked demo_platform (frame_msg fr) demo_written = (Finalize_ProcessCompleted, frame_msg fr, t)
    \<and> image_crc (bl_world t) 1 = 0xC782"
proof -
  have states: "eBtlState demo_written \<noteq> eBootloader_State_Reboot" "eBtlState demo_reboot = eBootloader_State_Reboot"
      "uiFWImgSize demo_written = 1" "bt_uiCRC (bl_mgmt demo_written) = 0xC782"
    by (simp_all add: demo_written_def demo_reboot_def)
  have step: "node_step demo_platform demo_dlc (\<lambda>_ _. False) demo_written demo_reboot"
    by (rule demo_frame_step [OF _ demo_end_frame]) simp
  show ?thesis
    using node_upgrade_only_verified [OF demo_flash_laws demo_slot_small _ demo_node_reach step states(1,2)] states(3,4) by auto
qed

subsection \<open>Replies\<close>

lemma handle_frame:
  assumes "cf_id fr = 0x300" and "length (cf_data fr) = 64" and "bt_bIsInitialized (bl_mgmt s)"
  shows "well_formed_frame dlc_bytes fr \<Longrightarrow>
      vThread_BootloaderMsgHandler E dlc_bytes fr s = vProcess_Bootloader_Messages E (frame_msg fr) s"
    and "\<not> well_formed_frame dlc_bytes fr \<Longrightarrow> vThread_BootloaderMsgHandler E dlc_bytes fr s
      = vCAN_SendBtl_ACK_NACK E (vFormat_Bootloader_Msg dlc_bytes True fr zero_btl_msg) s"
  using assms format_accepts [OF _ assms(2), of dlc_bytes] format_rejects(1) [of dlc_bytes fr True]
  by (auto simp: vThread_BootloaderMsgHandler_def iGetCAN_RxFilterID_def vHandle_Bootloader_Messages_def Let_def
      frame_msg_def)

lemma dispatch_keeps:
  assumes "well_formed_frame dlc_bytes fr" and "btl_dispatch E (frame_msg fr) s = (m', s')"
  shows "bm_eCMD m' = bm_eCMD (frame_msg fr)" and "bm_bIsACKReq m' = bm_bIsACKReq (frame_msg fr)"
proof -
  have c: "bm_eCMD (frame_msg fr) = eBootloader_CMD_RetLostPacketInfo \<Longrightarrow> \<not> bm_bIsACKReq (frame_msg fr)"
    by (simp add: frame_msg_def Let_def ack_required_def)
  consider "vUpdateBootloader E (frame_msg fr) s = (m', s')"
    | "bm_eCMD (frame_msg fr) = eBootloader_CMD_RetLostPacketInfo" "vHandle_HostAcknowledgements E (frame_msg fr) s = (m', s')"
    | "m' = vSet_BootloaderMsgStatus False eBootloader_Error_InvalidCommand (frame_msg fr)"
    using assms(2) by (auto simp: btl_dispatch_def split: if_splits)
  then have "bm_eCMD m' = bm_eCMD (frame_msg fr) \<and> bm_bIsACKReq m' = bm_bIsACKReq (frame_msg fr)"
  proof cases
    case 1
    then show ?thesis using request_update_bootloader [OF 1] by (simp add: request_of_def)
  next
    case 2
    then show ?thesis using host_ack_silent [OF 2(2)] c by auto
  qed simp
  then show "bm_eCMD m' = bm_eCMD (frame_msg fr)" and "bm_bIsACKReq m' = bm_bIsACKReq (frame_msg fr)" by auto
qed

lemma reply_payload:
  "tx_payload (btl_reply m) = [bootloader_cmd_val (bm_eCMD m), if bm_bIsMsgOk m then 10 else 11, bootloader_error_val (bm_eErrorCode m)]"
  by (simp add: tx_payload_def btl_reply_def zero_tx_msg_def)

text \<open>
  Property C4. The replies. A frame that does not decode leaves the bootloader alone and is answered by
  one negative acknowledgement with an error code. A decoded frame is dispatched; the five session
  commands are then answered exactly once, with their own command byte, positively exactly when the
  bootloader's answer is, and with its error code. Data packets, requests for the lost packets and the
  host's acknowledgements are never answered, not even when the bootloader refuses them.
\<close>

theorem can_replies:
  assumes "cf_id fr = 0x300" and "length (cf_data fr) = 64" and "bt_bIsInitialized (bl_mgmt s)"
  shows "if well_formed_frame dlc_bytes fr
    then \<exists>m' s'. btl_dispatch E (frame_msg fr) s = (m', s')
      \<and> tx_payload (btl_reply m') = [cf_data fr ! 0, if bm_bIsMsgOk m' then 10 else 11, bootloader_error_val (bm_eErrorCode m')]
      \<and> vThread_BootloaderMsgHandler E dlc_bytes fr s =
          (if cf_data fr ! 0 \<in> {21, 23, 24, 25, 33} then vCAN_SendBtl_ACK_NACK E m' s' else s')
    else \<exists>m. tx_payload (btl_reply m) = [bootloader_cmd_val (bm_eCMD m), 11, bootloader_error_val (bm_eErrorCode m)]
      \<and> bm_eErrorCode m \<noteq> eBootloader_Error_None
      \<and> vThread_BootloaderMsgHandler E dlc_bytes fr s = vCAN_SendBtl_ACK_NACK E m s"
proof (cases "well_formed_frame dlc_bytes fr")
  case True
  obtain m' s' where run: "btl_dispatch E (frame_msg fr) s = (m', s')" by fastforce
  have cmd: "bm_eCMD (frame_msg fr) = bootloader_cmd_of_byte (cf_data fr ! 0)" by (simp add: frame_msg_def Let_def)
  have "ack_required c \<longleftrightarrow> bootloader_cmd_val c \<in> {21, 23, 24, 25, 33}"
    if "bGet_BootloaderExpectedPayloadLen c = Some n" for c n
    using expected_len_cases(2) [OF that] by (elim insertE) (simp_all add: ack_required_def)
  then have ack: "bm_bIsACKReq (frame_msg fr) \<longleftrightarrow> cf_data fr ! 0 \<in> {21, 23, 24, 25, 33}"
    using True by (auto simp: well_formed_frame_def frame_msg_def Let_def split: option.splits)
  show ?thesis
    using True run handle_frame(1) [OF assms True, of E] dispatch_keeps [OF True run] ack cmd
    by (simp add: vProcess_Bootloader_Messages_def reply_payload)
next
  case False
  with handle_frame(2) [OF assms False, of E] format_rejects [OF False, of True] show ?thesis
    by (auto simp: reply_payload)
qed

text \<open>The end command of the demonstration, and a frame with an unknown command.\<close>

theorem can_replies_witness:
  "\<exists>m'. tx_payload (btl_reply m') = [23, 10, 0] \<and> demo_reboot = vCAN_SendBtl_ACK_NACK demo_platform m' demo_reboot"
proof -
  have "cf_id (demo_frame [23]) = 0x300" "length (cf_data (demo_frame [23])) = 64" "cf_data (demo_frame [23]) ! 0 = 23"
    by (simp_all add: demo_frame_def)
  moreover have "bt_bIsInitialized (bl_mgmt demo_written)" by (simp add: demo_written_def)
  moreover have "btl_dispatch demo_platform demo_end demo_written = (demo_end, demo_reboot)"
    by (simp add: btl_dispatch_def btl_update_cmds_def demo_end_run) (simp add: demo_end_def)
  moreover have "bm_bIsMsgOk demo_end" "bm_eErrorCode demo_end = eBootloader_Error_None" by (simp_all add: demo_end_def)
  ultimately show ?thesis
    using can_replies [of "demo_frame [23]" demo_written demo_dlc demo_platform]
    by (auto simp: demo_frame_msgs demo_end_frame)
qed

subsection \<open>Permanent faults\<close>

text \<open>
  Faults, subscriptions and their ends in any order; the flag records whether the current listener
  has been called since it subscribed.
\<close>

datatype fault_event = Bus_Fault | Subscribe | Unsubscribe

fun on_fault_event :: "fault_event \<Rightarrow> bool \<times> can_config \<Rightarrow> bool \<times> can_config" where
  "on_fault_event Bus_Fault (told, cfg) = (let (call, cfg) = vCAN_BusRecovery_Failed_Callback cfg in (told \<or> call, cfg))"
| "on_fault_event Subscribe (told, cfg) = vSubscribe_ToCANBusCriticalFailure True cfg"
| "on_fault_event Unsubscribe (told, cfg) = (False, vUnSubscribe_FromCANBusCriticalFailure cfg)"

definition fault_run :: "fault_event list \<Rightarrow> bool \<times> can_config" where
  "fault_run evs = fold on_fault_event evs (False, init_can_config)"

lemma fault_run_state:
  "fst (fault_run evs) = (IsCANStopped (snd (fault_run evs)) \<and> busCriticalFailureAppCallback (snd (fault_run evs)))
   \<and> IsCANStopped (snd (fault_run evs)) = (Bus_Fault \<in> set evs)"
proof (induction evs rule: rev_induct)
  case Nil
  then show ?case by (simp add: fault_run_def init_can_config_def)
next
  case (snoc e evs)
  obtain told cfg where r: "fault_run evs = (told, cfg)" by fastforce
  with snoc show ?case
    by (cases e) (auto simp: fault_run_def vCAN_BusRecovery_Failed_Callback_def vSubscribe_ToCANBusCriticalFailure_def
        vUnSubscribe_FromCANBusCriticalFailure_def Let_def)
qed

text \<open>
  A permanent fault is never missed and never undone: after any sequence of faults,
  subscriptions and cancellations the listener that is registered has been called exactly when a fault has
  occurred, before or after it subscribed; and from the first fault on every message of any sender is refused as \<open>BusUnavailable\<close>
  without a call of the driver.
\<close>

theorem can_fault_not_missed:
  assumes "fault_run evs = (told, cfg)" and "Bus_Fault \<in> set evs"
  shows "told = busCriticalFailureAppCallback cfg
    \<and> (\<exists>m'. vSend_CANMessage E cfg txns ptr m w = (m', w) \<and> tx_eTxResult m' = eCAN_TxSubmit_BusUnavailable)"
  using fault_run_state [of evs] assms by (simp add: vSend_CANMessage_def)

theorem can_fault_not_missed_witness:
  "fst (fault_run [Bus_Fault, Subscribe]) \<and> fst (fault_run [Subscribe, Bus_Fault]) \<and> \<not> fst (fault_run [Bus_Fault, Unsubscribe])"
proof -
  have "snd (fault_run [Bus_Fault, Subscribe]) = \<lparr>IsCANStopped = True, busCriticalFailureAppCallback = True\<rparr>"
    "snd (fault_run [Subscribe, Bus_Fault]) = \<lparr>IsCANStopped = True, busCriticalFailureAppCallback = True\<rparr>"
    "snd (fault_run [Bus_Fault, Unsubscribe]) = \<lparr>IsCANStopped = True, busCriticalFailureAppCallback = False\<rparr>"
    by (simp_all add: fault_run_def vCAN_BusRecovery_Failed_Callback_def vSubscribe_ToCANBusCriticalFailure_def
        vUnSubscribe_FromCANBusCriticalFailure_def Let_def init_can_config_def)
  then show ?thesis
    using can_fault_not_missed [OF prod.collapse [symmetric], of "[Bus_Fault, Subscribe]" demo_platform]
      can_fault_not_missed [OF prod.collapse [symmetric], of "[Subscribe, Bus_Fault]" demo_platform]
      can_fault_not_missed [OF prod.collapse [symmetric], of "[Bus_Fault, Unsubscribe]" demo_platform] by simp
qed

end
