(* ===== verification/Comm_Manager.thy ===== *)
theory Comm_Manager
  imports Can_Controller
begin

text \<open>
  WallController_Comm_Manager.c: the table of command transactions of the system management channel. The
  application's callbacks are registered once, before the manager is initialised, and are therefore a
  parameter \<open>CB\<close>; a null callback is \<open>None\<close>. A callback may do anything to the manager's state, in
  particular call its operations. The clock, the CAN library, \<open>bIsTimeOut\<close> of GenericMacro.h and the
  outcome of a mutex request with a time limit are fields of the platform. A section between a
  lock and its unlock is one atomic step; \<open>eSet_TransactionState\<close> fails for a null pointer only,
  so the branches behind its failure, which no slot can reach, are left out.
\<close>

subsection \<open>State\<close>

record sT_SysMgmt_CtrlMsg_t =
  sm_eCMD :: eT_SysMgmtCommand_t
  sm_bIsMsgOk :: bool
  sm_bIsACKReq :: bool
  sm_eErrorCode :: eT_SysMgmtErrorCode_t
  sm_uiLen :: u8
  sm_uiaData :: "u8 list"

definition zero_sysmgmt_msg :: sT_SysMgmt_CtrlMsg_t where
  "zero_sysmgmt_msg = \<lparr>sm_eCMD = eSysMgmt_CMD_None, sm_bIsMsgOk = False, sm_bIsACKReq = False,
     sm_eErrorCode = eSysMgmt_Error_None, sm_uiLen = 0, sm_uiaData = replicate 64 0\<rparr>"

text \<open>
  \<open>k_mutex_lock i t\<close> is the result of asking for the mutex of slot \<open>i\<close> for at most \<open>t\<close> milliseconds, zero when it
  is obtained. A request with \<open>K_FOREVER\<close> has no counterpart.
\<close>

record 'w cm_platform = "'w platform" +
  k_mutex_lock :: "nat \<Rightarrow> nat \<Rightarrow> 'w \<Rightarrow> int \<times> 'w"
  bIsTimeOut :: "64 word \<Rightarrow> 64 word \<Rightarrow> 64 word \<Rightarrow> bool"
  can_dlc_to_bytes :: "u8 \<Rightarrow> u8"
  bIsCANStackInitialized :: "'w \<Rightarrow> bool"

record 'w cm_sys =
  staCMDTransactions :: "sT_CmdTransaction_t list"
  uiaRevision :: "u8 list"
  bIsComManager_Running :: bool
  bIsCriticalFailNoti_Subsribed :: bool
  bCANPermanentFailure :: bool
  cm_can :: can_config
  cm_world :: 'w

record 'w cm_callbacks =
  cb_iGetPayloadLength :: "(eT_SysMgmtCommand_t \<Rightarrow> int) option"
  cb_vDispatchCommand :: "(sT_SysMgmt_CtrlMsg_t \<Rightarrow> 'w cm_sys \<Rightarrow> 'w cm_sys) option"
  cb_bRequestRetransmit :: "(nat \<Rightarrow> 'w cm_sys \<Rightarrow> bool \<times> 'w cm_sys) option"
  cb_vTransactionResult :: "(nat \<Rightarrow> 'w cm_sys \<Rightarrow> 'w cm_sys) option"
  cb_vTransmissionFailure :: "(eT_SysMgmtCommand_t \<Rightarrow> 'w cm_sys \<Rightarrow> 'w cm_sys) option"
  cb_vCANPermanentFailure :: "('w cm_sys \<Rightarrow> 'w cm_sys) option"

text \<open>\<open>bInit_WallController_Comm_Manager(NULL)\<close> registers no callback.\<close>

definition no_callbacks :: "'w cm_callbacks" where
  "no_callbacks = \<lparr>cb_iGetPayloadLength = None, cb_vDispatchCommand = None, cb_bRequestRetransmit = None,
     cb_vTransactionResult = None, cb_vTransmissionFailure = None, cb_vCANPermanentFailure = None\<rparr>"

abbreviation "slot s i \<equiv> staCMDTransactions s ! i"

definition upd_slot :: "nat \<Rightarrow> (sT_CmdTransaction_t \<Rightarrow> sT_CmdTransaction_t) \<Rightarrow> 'w cm_sys \<Rightarrow> 'w cm_sys" where
  "upd_slot i f s = s\<lparr>staCMDTransactions := (staCMDTransactions s)[i := f (slot s i)]\<rparr>"

abbreviation set_state :: "nat \<Rightarrow> eT_TransactionState_t \<Rightarrow> 'w cm_sys \<Rightarrow> 'w cm_sys" where
  "set_state i st \<equiv> upd_slot i (\<lambda>t. t\<lparr>tr_eState := st\<rparr>)"

definition try_lock :: "('w, 'z) cm_platform_scheme \<Rightarrow> nat \<Rightarrow> nat \<Rightarrow> 'w cm_sys \<Rightarrow> bool \<times> 'w cm_sys" where
  "try_lock E i t s = (let (r, w) = k_mutex_lock E i t (cm_world s) in (r = 0, s\<lparr>cm_world := w\<rparr>))"

abbreviation (input) "TRANSACTION_MUTEX_LOCK_WAIT_TIME_ms \<equiv> (2 :: nat)"
abbreviation (input) "TRANSACTION_BACKOFF_TIME_ms \<equiv> (50 :: 64 word)"

text \<open>\<open>k_uptime_get\<close> is signed, the transaction's times are not.\<close>

definition read_clock :: "('w, 'z) cm_platform_scheme \<Rightarrow> 'w cm_sys \<Rightarrow> 64 word \<times> 'w cm_sys" where
  "read_clock E s = (let (now, w) = k_uptime_get E (cm_world s) in (word_of_int now, s\<lparr>cm_world := w\<rparr>))"

subsection \<open>Slots\<close>

text \<open>\<open>eState == eTransState_Free || eState == eTransState_Invalid\<close> negated.\<close>

definition active :: "sT_CmdTransaction_t \<Rightarrow> bool" where
  "active t \<longleftrightarrow> tr_eState t \<noteq> eTransState_Free \<and> tr_eState t \<noteq> eTransState_Invalid"

definition vReset_TransactionState :: "nat \<Rightarrow> 'w cm_sys \<Rightarrow> 'w cm_sys" where
  "vReset_TransactionState i = upd_slot i (\<lambda>t. t\<lparr>tr_eCommand := eSysMgmt_CMD_None, tr_bIsACKRequired := False,
     tr_eErrorCode := eSysMgmt_Error_None, tr_eType := eNUMBER_OF_TRANSACTION_TYPEs, tr_uiMaxRetryCount := 0,
     tr_uiRetryCount := 0, tr_uiRevision := 0, tr_uiStartTime_ms := 0, tr_uiTrigTime_ms := 0,
     tr_eState := eTransState_Free\<rparr>)"

definition vSetTransaction_Free :: "nat \<Rightarrow> 'w cm_sys \<Rightarrow> 'w cm_sys" where
  "vSetTransaction_Free i s = vReset_TransactionState i s"

text \<open>
  The loops over the slots take the slots still to visit. The slot that is found is returned
  locked, and the state is looked at again behind the lock.
\<close>

fun find_and_lock ::
  "('w, 'z) cm_platform_scheme \<Rightarrow> eT_SysMgmtCommand_t \<Rightarrow> nat list \<Rightarrow> eT_SysMgmtErrorCode_t \<Rightarrow> 'w cm_sys
   \<Rightarrow> (nat option \<times> eT_SysMgmtErrorCode_t) \<times> 'w cm_sys" where
  "find_and_lock E eCMD [] err s = ((None, err), s)"
| "find_and_lock E eCMD (i # is) err s =
     (if \<not> active (slot s i) then find_and_lock E eCMD is err s
      else if tr_eCommand (slot s i) \<noteq> eCMD then find_and_lock E eCMD is err s
      else
        (let (ok, s) = try_lock E i TRANSACTION_MUTEX_LOCK_WAIT_TIME_ms s
         in if \<not> ok then find_and_lock E eCMD is eSysMgmt_Error_TransactionLocked s
            else if active (slot s i) \<and> tr_eCommand (slot s i) = eCMD then ((Some i, eSysMgmt_Error_None), s)
            else find_and_lock E eCMD is err s))"

definition pstFindAndLockTransaction_ByCMDId ::
  "('w, 'z) cm_platform_scheme \<Rightarrow> eT_SysMgmtCommand_t \<Rightarrow> 'w cm_sys
   \<Rightarrow> (nat option \<times> eT_SysMgmtErrorCode_t) \<times> 'w cm_sys" where
  "pstFindAndLockTransaction_ByCMDId E eCMD s =
     find_and_lock E eCMD [0..<MAX_NUMBER_OF_TRANSACTION_TRACKINGs] eSysMgmt_Error_None s"

definition pstFindAndLockTransaction_ByCMDId_Extern ::
  "('w, 'z) cm_platform_scheme \<Rightarrow> eT_SysMgmtCommand_t \<Rightarrow> 'w cm_sys \<Rightarrow> nat option \<times> 'w cm_sys" where
  "pstFindAndLockTransaction_ByCMDId_Extern E eCMD s =
     (let ((p, err), s) = pstFindAndLockTransaction_ByCMDId E eCMD s
      in (if err \<noteq> eSysMgmt_Error_None then None else p, s))"

fun claim_free :: "('w, 'z) cm_platform_scheme \<Rightarrow> nat list \<Rightarrow> 'w cm_sys \<Rightarrow> nat option \<times> 'w cm_sys" where
  "claim_free E [] s = (None, s)"
| "claim_free E (i # is) s =
     (let (ok, s) = try_lock E i 0 s
      in if \<not> ok then claim_free E is s
         else if tr_eState (slot s i) = eTransState_Free then (Some i, s)
         else claim_free E is s)"

definition pstClaimFreeTransaction :: "('w, 'z) cm_platform_scheme \<Rightarrow> 'w cm_sys \<Rightarrow> nat option \<times> 'w cm_sys" where
  "pstClaimFreeTransaction E s = claim_free E [0..<MAX_NUMBER_OF_TRANSACTION_TRACKINGs] s"

definition eSet_TransactionState_Extern ::
  "nat option \<Rightarrow> eT_TransactionState_t \<Rightarrow> 'w cm_sys \<Rightarrow> eT_SysMgmtErrorCode_t \<times> 'w cm_sys" where
  "eSet_TransactionState_Extern ptr st s =
     (case ptr of None \<Rightarrow> (eSysMgmt_Error_InvalidPointer, s) | Some i \<Rightarrow> (eSysMgmt_Error_None, set_state i st s))"

definition eGet_TransactionState_Extern :: "nat \<Rightarrow> 'w cm_sys \<Rightarrow> eT_TransactionState_t" where
  "eGet_TransactionState_Extern i s = tr_eState (slot s i)"

subsection \<open>Revisions\<close>

text \<open>\<open>eCMD < eSysMgmt_CMD_Reserved_20 || eCMD >= eNUMBER_OF_SYS_MANAGEMENT_COMMANDs\<close> negated.\<close>

definition own_command :: "eT_SysMgmtCommand_t \<Rightarrow> bool" where
  "own_command c \<longleftrightarrow> \<not> (sysmgmt_cmd_val c < 20 \<or> sysmgmt_cmd_val c \<ge> sysmgmt_cmd_count)"

definition vUpdate_CommandRevision :: "eT_SysMgmtCommand_t \<Rightarrow> u8 \<Rightarrow> 'w cm_sys \<Rightarrow> 'w cm_sys" where
  "vUpdate_CommandRevision c v s =
     (if \<not> own_command c then s
      else s\<lparr>uiaRevision := (uiaRevision s)[unat (sysmgmt_cmd_val c) := if v = 0 then 1 else v]\<rparr>)"

definition uiGet_CommandRevision :: "eT_SysMgmtCommand_t \<Rightarrow> 'w cm_sys \<Rightarrow> u8" where
  "uiGet_CommandRevision c s = (if \<not> own_command c then 1 else uiaRevision s ! unat (sysmgmt_cmd_val c))"

subsection \<open>Start and stop\<close>

text \<open>The fields \<open>bInit_WallController_Comm_Manager\<close> writes in every slot; the retry count is not one of them.\<close>

definition init_slot :: "sT_CmdTransaction_t \<Rightarrow> sT_CmdTransaction_t" where
  "init_slot t = t\<lparr>tr_eCommand := eSysMgmt_CMD_None, tr_eErrorCode := eSysMgmt_Error_None,
     tr_eState := eTransState_Free, tr_eType := eTransType_None, tr_uiMaxRetryCount := 0, tr_uiRevision := 0,
     tr_uiGeneration := 0, tr_uiStartTime_ms := 0, tr_uiTrigTime_ms := 0, tr_bIsACKRequired := False\<rparr>"

definition bInit_WallController_Comm_Manager :: "'w cm_sys \<Rightarrow> bool \<times> 'w cm_sys" where
  "bInit_WallController_Comm_Manager s =
     (if bIsComManager_Running s then (True, s)
      else (True, s\<lparr>bCANPermanentFailure := False, staCMDTransactions := map init_slot (staCMDTransactions s),
                    bIsCriticalFailNoti_Subsribed := False, bIsComManager_Running := True\<rparr>))"

definition vUnsubsribe_FromCANController_CriticalFailures :: "'w cm_sys \<Rightarrow> 'w cm_sys" where
  "vUnsubsribe_FromCANController_CriticalFailures s =
     s\<lparr>cm_can := vUnSubscribe_FromCANBusCriticalFailure (cm_can s), bIsCriticalFailNoti_Subsribed := False\<rparr>"

definition vDeInit_WallController_Comm_Manager :: "'w cm_sys \<Rightarrow> 'w cm_sys" where
  "vDeInit_WallController_Comm_Manager s =
     (if \<not> bIsComManager_Running s then s
      else (vUnsubsribe_FromCANController_CriticalFailures s)\<lparr>bIsComManager_Running := False\<rparr>)"

text \<open>The callback of the CAN controller, always with \<open>eCAN_BUS_Permanent_Fault\<close>.\<close>

definition vCANBus_CriticalFailureCallback :: "'w cm_callbacks \<Rightarrow> 'w cm_sys \<Rightarrow> 'w cm_sys" where
  "vCANBus_CriticalFailureCallback CB s =
     (if \<not> bIsCriticalFailNoti_Subsribed s then s
      else
        (let s = s\<lparr>bCANPermanentFailure := True\<rparr>
         in case cb_vCANPermanentFailure CB of None \<Rightarrow> s | Some f \<Rightarrow> f s))"

definition vSubscribe_ToCANController_CriticalFailures :: "'w cm_callbacks \<Rightarrow> 'w cm_sys \<Rightarrow> 'w cm_sys" where
  "vSubscribe_ToCANController_CriticalFailures CB s =
     (if bIsCriticalFailNoti_Subsribed s then s
      else
        (let s = s\<lparr>bIsCriticalFailNoti_Subsribed := True\<rparr>;
             (replay, cfg) = vSubscribe_ToCANBusCriticalFailure True (cm_can s);
             s = s\<lparr>cm_can := cfg\<rparr>
         in if replay then vCANBus_CriticalFailureCallback CB s else s))"

text \<open>The CAN controller's own fault callback, composed with the registered listener.\<close>

definition can_permanent_fault :: "'w cm_callbacks \<Rightarrow> 'w cm_sys \<Rightarrow> 'w cm_sys" where
  "can_permanent_fault CB s =
     (let (call, cfg) = vCAN_BusRecovery_Failed_Callback (cm_can s);
          s = s\<lparr>cm_can := cfg\<rparr>
      in if call then vCANBus_CriticalFailureCallback CB s else s)"

subsection \<open>Telling the application\<close>

definition vNotify_TransmissionFailure :: "'w cm_callbacks \<Rightarrow> eT_SysMgmtCommand_t \<Rightarrow> 'w cm_sys \<Rightarrow> 'w cm_sys" where
  "vNotify_TransmissionFailure CB c s = (case cb_vTransmissionFailure CB of None \<Rightarrow> s | Some f \<Rightarrow> f c s)"

definition bNotify_ControllerToReTransmit :: "'w cm_callbacks \<Rightarrow> nat \<Rightarrow> 'w cm_sys \<Rightarrow> bool \<times> 'w cm_sys" where
  "bNotify_ControllerToReTransmit CB i s = (case cb_bRequestRetransmit CB of None \<Rightarrow> (False, s) | Some f \<Rightarrow> f i s)"

definition vNotify_Controller_ForHostFeedback :: "'w cm_callbacks \<Rightarrow> nat \<Rightarrow> 'w cm_sys \<Rightarrow> 'w cm_sys" where
  "vNotify_Controller_ForHostFeedback CB i s =
     (case cb_vTransactionResult CB of None \<Rightarrow> vSetTransaction_Free i s | Some f \<Rightarrow> f i s)"

definition vNotify_Controller_TransactionAbort :: "'w cm_callbacks \<Rightarrow> nat \<Rightarrow> 'w cm_sys \<Rightarrow> 'w cm_sys" where
  "vNotify_Controller_TransactionAbort CB i s = vNotify_Controller_ForHostFeedback CB i (set_state i eTransState_Failed s)"

text \<open>The errors for which \<open>vNotify_Controller_ForHostNACK\<close> gives up although retries are left.\<close>

definition nack_not_retriable :: "eT_SysMgmtErrorCode_t set" where
  "nack_not_retriable =
     {eSysMgmt_Error_InvalidCommand, eSysMgmt_Error_InvalidFrameLength, eSysMgmt_Error_InvalidPayLoadLength,
      eSysMgmt_Error_PayLoadLengthMismatch, eSysMgmt_Error_PayLoadLength_NotDefined, eSysMgmt_Error_NoPendingTransaction,
      eSysMgmt_Error_InvalidACKType, eSysMgmt_Error_NoWaitForACK, eSysMgmt_Error_InvalidRev_ForACK,
      eSysMgmt_Error_Inconsistent_ACKError}"

definition vNotify_Controller_ForHostNACK :: "'w cm_callbacks \<Rightarrow> nat \<Rightarrow> 'w cm_sys \<Rightarrow> 'w cm_sys" where
  "vNotify_Controller_ForHostNACK CB i s =
     (if tr_uiRetryCount (slot s i) < tr_uiMaxRetryCount (slot s i) \<and> tr_eErrorCode (slot s i) \<notin> nack_not_retriable
        then s
      else vNotify_Controller_ForHostFeedback CB i (set_state i eTransState_Failed s))"

definition bMessage_FormatError :: "eT_SysMgmtErrorCode_t \<Rightarrow> bool" where
  "bMessage_FormatError e \<longleftrightarrow> e \<in>
     {eSysMgmt_Error_InvalidCommand, eSysMgmt_Error_InvalidFrameLength, eSysMgmt_Error_InvalidPayLoadLength,
      eSysMgmt_Error_PayLoadLengthMismatch, eSysMgmt_Error_PayLoadLength_NotDefined, eSysMgmt_Error_InvalidTranscId,
      eSysMgmt_Error_NoPendingTransaction, eSysMgmt_Error_NoWaitForACK, eSysMgmt_Error_InvalidRev_ForACK,
      eSysMgmt_Error_InvalidHostFeedback}"

subsection \<open>Sending\<close>

definition vSend_NACK ::
  "('w, 'z) cm_platform_scheme \<Rightarrow> u32 \<Rightarrow> eT_SysMgmtErrorCode_t \<Rightarrow> u8 \<Rightarrow> u8 \<Rightarrow> 'w cm_sys \<Rightarrow> 'w cm_sys" where
  "vSend_NACK E dest e cmd r s = s\<lparr>cm_world := vSend_ACK_NACK E (cm_can s) dest eCAN_NACK e cmd r (cm_world s)\<rparr>"

definition vSend_ACK :: "('w, 'z) cm_platform_scheme \<Rightarrow> u32 \<Rightarrow> u8 \<Rightarrow> u8 \<Rightarrow> 'w cm_sys \<Rightarrow> 'w cm_sys" where
  "vSend_ACK E dest cmd r s =
     s\<lparr>cm_world := vSend_ACK_NACK E (cm_can s) dest eCAN_ACK eSysMgmt_Error_None cmd r (cm_world s)\<rparr>"

definition format_error_msg :: "u32 \<Rightarrow> eT_SysMgmtCommand_t \<Rightarrow> u8 \<Rightarrow> eT_SysMgmtErrorCode_t \<Rightarrow> sT_CAN_TXMsg_t" where
  "format_error_msg dest c r e = zero_tx_msg\<lparr>tx_uiID := dest, tx_uiLen := 5,
     tx_puiData := Some [sysmgmt_cmd_val eSysMgmt_CMD_Ret_InvalidMsgFormat, 3, sysmgmt_cmd_val c, r, sysmgmt_error_val e]\<rparr>"

definition vNotify_MsgFormatError_ToHost ::
  "('w, 'z) cm_platform_scheme \<Rightarrow> u32 \<Rightarrow> eT_SysMgmtCommand_t \<Rightarrow> u8 \<Rightarrow> eT_SysMgmtErrorCode_t \<Rightarrow> 'w cm_sys \<Rightarrow> 'w cm_sys" where
  "vNotify_MsgFormatError_ToHost E dest c r e s =
     s\<lparr>cm_world := snd (send_plain E (cm_can s) (format_error_msg dest c r e) (cm_world s))\<rparr>"

subsection \<open>Transactions\<close>

text \<open>The fields a new subscription writes, and those a retransmission writes.\<close>

definition next_generation :: "u32 \<Rightarrow> u32" where
  "next_generation g = (if g + 1 = 0 then 1 else g + 1)"

definition open_slot :: "eT_SysMgmtCommand_t \<Rightarrow> bool \<Rightarrow> u8 \<Rightarrow> u8 \<Rightarrow> 64 word \<Rightarrow> sT_CmdTransaction_t \<Rightarrow> sT_CmdTransaction_t" where
  "open_slot c ack r maxr trig t =
     t\<lparr>tr_uiGeneration := next_generation (tr_uiGeneration t), tr_eType := eTransType_Transmit, tr_eCommand := c,
       tr_bIsACKRequired := ack, tr_uiRevision := r, tr_uiRetryCount := 0, tr_uiMaxRetryCount := maxr,
       tr_uiTrigTime_ms := trig, tr_eErrorCode := eSysMgmt_Error_None, tr_eState := eTransState_WaitingFor_TxCompletion\<rparr>"

definition retry_slot :: "u8 \<Rightarrow> sT_CmdTransaction_t \<Rightarrow> sT_CmdTransaction_t" where
  "retry_slot r t =
     (let t = t\<lparr>tr_uiRetryCount := tr_uiRetryCount t + 1\<rparr> in
      if tr_uiRetryCount t > tr_uiMaxRetryCount t
        then t\<lparr>tr_eErrorCode := eSysMgmt_Error_TransactionMaxRetryReach, tr_eState := eTransState_Failed\<rparr>
      else t\<lparr>tr_uiRevision := r, tr_eErrorCode := eSysMgmt_Error_None, tr_eState := eTransState_WaitingFor_TxCompletion\<rparr>)"

text \<open>
  \<open>stSubscribe_To_TransactionManager\<close>; the result is the error code and the slot, \<open>None\<close> for the null
  pointer. A data pointer that is not null refers to at least \<open>uiLen\<close> bytes.
\<close>

definition stSubscribe_To_TransactionManager ::
  "('w, 'z) cm_platform_scheme \<Rightarrow> sT_CAN_TXMsg_t option \<Rightarrow> bool \<Rightarrow> u8 \<Rightarrow> 64 word \<Rightarrow> 'w cm_sys
   \<Rightarrow> (eT_SysMgmtErrorCode_t \<times> nat option) \<times> 'w cm_sys" where
  "stSubscribe_To_TransactionManager E msg ack maxr trig s =
     (case msg of
        None \<Rightarrow> ((eSysMgmt_Error_InvalidPointer, None), s)
      | Some m \<Rightarrow>
          if tx_uiLen m < 1 \<or> tx_puiData m = None then ((eSysMgmt_Error_InvalidCANTxMessage, None), s)
          else
            (let c = sysmgmt_cmd_of_byte (the (tx_puiData m) ! 0) in
             if \<not> own_command c then ((eSysMgmt_Error_InvalidCommand, None), s)
             else
               (let ((p, err), s) = pstFindAndLockTransaction_ByCMDId E c s in
                case p of
                  None \<Rightarrow>
                    if err = eSysMgmt_Error_TransactionLocked then ((err, None), s)
                    else
                      (let (q, s) = pstClaimFreeTransaction E s in
                       case q of
                         None \<Rightarrow> ((eSysMgmt_Error_NoFreeTransaction, None), s)
                       | Some i \<Rightarrow>
                           ((eSysMgmt_Error_None, Some i), upd_slot i (open_slot c ack (uiGet_CommandRevision c s) maxr trig) s))
                | Some i \<Rightarrow>
                    if tr_eState (slot s i) \<noteq> eTransState_PrepareRetransmit
                      then ((eSysMgmt_Error_InvalidRetransmitRequest, None), s)
                    else
                      (let s = upd_slot i (retry_slot (uiGet_CommandRevision c s)) s
                       in ((if tr_eState (slot s i) = eTransState_Failed then eSysMgmt_Error_TransactionMaxRetryReach
                            else eSysMgmt_Error_None, Some i), s)))))"

text \<open>The submission error of a transaction is either waited out or ends it.\<close>

definition bManage_TransmissionError ::
  "('w, 'z) cm_platform_scheme \<Rightarrow> eT_CAN_TxSubmitResult \<Rightarrow> nat option \<Rightarrow> 'w cm_sys \<Rightarrow> bool \<times> 'w cm_sys" where
  "bManage_TransmissionError E r ptr s =
     (case ptr of
        None \<Rightarrow> (False, s)
      | Some i \<Rightarrow>
          if r = eCAN_TxSubmit_BusUnavailable \<or> r = eCAN_TxSubmit_QueueFull then
            (let (ok, s) = try_lock E i TRANSACTION_MUTEX_LOCK_WAIT_TIME_ms s in
             if \<not> ok then (False, s)
             else
               (let (now, s) = read_clock E s
                in (True, upd_slot i (\<lambda>t. t\<lparr>tr_uiTrigTime_ms := tr_uiTrigTime_ms t + TRANSACTION_BACKOFF_TIME_ms,
                          tr_uiStartTime_ms := now, tr_eState := eTransState_Queued\<rparr>) s)))
          else if r = eCAN_TxSubmit_InvalidMsg then (False, vReset_TransactionState i s)
          else (True, s))"

subsection \<open>Completion of a transmission\<close>

text \<open>Does the context that comes back with a completion still belong to the slot?\<close>

definition completion_matches :: "sT_CAN_TxContext_t \<Rightarrow> sT_CmdTransaction_t \<Rightarrow> bool" where
  "completion_matches ctx t \<longleftrightarrow>
     \<not> (tr_eState t \<noteq> eTransState_WaitingFor_TxCompletion \<or> tr_eCommand t \<noteq> ctx_eCommand ctx \<or>
        tr_uiGeneration t \<noteq> ctx_uiGeneration ctx \<or> tr_uiRevision t \<noteq> ctx_uiRevision ctx)"

definition vNotify_MessageTxComplete ::
  "('w, 'z) cm_platform_scheme \<Rightarrow> 'w cm_callbacks \<Rightarrow> sT_CAN_TxContext_t \<Rightarrow> eT_CAN_TxCompleteResult \<Rightarrow> int
   \<Rightarrow> 'w cm_sys \<Rightarrow> 'w cm_sys" where
  "vNotify_MessageTxComplete E CB ctx res iDriverError s =
     (let i = unat (ctx_uiTransactionIndex ctx) in
      if ctx_uiGeneration ctx = 0 \<or> i \<ge> MAX_NUMBER_OF_TRANSACTION_TRACKINGs then s
      else if \<not> completion_matches ctx (slot s i) then s
      else
        (case res of
           eCAN_TxComplete_Success \<Rightarrow>
             if \<not> tr_bIsACKRequired (slot s i) then vSetTransaction_Free i s
             else (let (now, s) = read_clock E s
                   in upd_slot i (\<lambda>t. t\<lparr>tr_uiStartTime_ms := now, tr_eState := eTransState_WaitingFor_ACK\<rparr>) s)
         | eCAN_TxComplete_Other n \<Rightarrow>
             if iDriverError < 0 then
               (if \<not> tr_bIsACKRequired (slot s i) then vSetTransaction_Free i s
                else vNotify_TransmissionFailure CB (ctx_eCommand ctx) (vSetTransaction_Free i s))
             else s
         | _ \<Rightarrow>
             if res \<in> {eCAN_TxComplete_MailboxTimeout, eCAN_TxComplete_CompletionTimeout,
                       eCAN_TxComplete_ArbitrationLost, eCAN_TxComplete_ControllerStopped, eCAN_TxComplete_BusOff}
               then (let (now, s) = read_clock E s
                     in upd_slot i (\<lambda>t. t\<lparr>tr_uiStartTime_ms := now, tr_eState := eTransState_Queued\<rparr>) s)
             else vNotify_TransmissionFailure CB (ctx_eCommand ctx) (vSetTransaction_Free i s)))"

subsection \<open>Timeouts\<close>

text \<open>The body of the loop of \<open>vHandle_SysMgmt_MessageTracking\<close> for slot \<open>i\<close>.\<close>

definition track_slot :: "('w, 'z) cm_platform_scheme \<Rightarrow> 'w cm_callbacks \<Rightarrow> nat \<Rightarrow> 'w cm_sys \<Rightarrow> 'w cm_sys" where
  "track_slot E CB i s =
     (let (ok, s) = try_lock E i 0 s in
      if \<not> ok then s
      else if tr_eState (slot s i) \<noteq> eTransState_WaitingFor_ACK \<and> tr_eState (slot s i) \<noteq> eTransState_Queued then s
      else
        (let (now, s) = read_clock E s in
         if \<not> bIsTimeOut E (tr_uiStartTime_ms (slot s i)) now (tr_uiTrigTime_ms (slot s i)) then s
         else
           (let (bIsDispatch, s) = bNotify_ControllerToReTransmit CB i (set_state i eTransState_PrepareRetransmit s) in
            if bIsDispatch then s
            else if tr_eState (slot s i) = eTransState_PrepareRetransmit
              then vNotify_Controller_ForHostFeedback CB i
                     (upd_slot i (\<lambda>t. t\<lparr>tr_eErrorCode := eSysMgmt_Error_InvalidRetransmitRequest,
                                        tr_eState := eTransState_Failed\<rparr>) s)
            else s)))"

definition vHandle_SysMgmt_MessageTracking :: "('w, 'z) cm_platform_scheme \<Rightarrow> 'w cm_callbacks \<Rightarrow> 'w cm_sys \<Rightarrow> 'w cm_sys" where
  "vHandle_SysMgmt_MessageTracking E CB s = fold (track_slot E CB) [0..<MAX_NUMBER_OF_TRANSACTION_TRACKINGs] s"

subsection \<open>Answers of the host\<close>

definition vSubmit_To_HandleInvalidMsgFormat ::
  "('w, 'z) cm_platform_scheme \<Rightarrow> 'w cm_callbacks \<Rightarrow> sT_SysMgmt_CtrlMsg_t \<Rightarrow> 'w cm_sys \<Rightarrow> 'w cm_sys" where
  "vSubmit_To_HandleInvalidMsgFormat E CB m s =
     (let d = sm_uiaData m; c = sysmgmt_cmd_of_byte (d ! 0) in
      if c = eSysMgmt_CMD_None \<or> sysmgmt_cmd_val c \<ge> sysmgmt_cmd_count then s
      else
        (let ((p, err), s) = pstFindAndLockTransaction_ByCMDId E c s in
         case p of
           None \<Rightarrow> s
         | Some i \<Rightarrow>
             if tr_uiRevision (slot s i) \<noteq> d ! 1 then s
             else if tr_eState (slot s i) \<noteq> eTransState_WaitingFor_ACK then s
             else
               (case sysmgmt_error_of_byte (d ! 2) of
                  None \<Rightarrow> s
                | Some e \<Rightarrow>
                    if e = eSysMgmt_Error_None then s
                    else vNotify_Controller_TransactionAbort CB i (upd_slot i (\<lambda>t. t\<lparr>tr_eErrorCode := e\<rparr>) s))))"

text \<open>What an acknowledgement does to the slot it belongs to, once type, revision and code are in range.\<close>

definition acknowledge ::
  "('w, 'z) cm_platform_scheme \<Rightarrow> 'w cm_callbacks \<Rightarrow> nat \<Rightarrow> eT_SysMgmtCommand_t \<Rightarrow> u8 \<Rightarrow> eT_CANACK_Ctrl
   \<Rightarrow> eT_SysMgmtErrorCode_t \<Rightarrow> 'w cm_sys \<Rightarrow> 'w cm_sys" where
  "acknowledge E CB i c r a e s =
     (let dest = uiGetCAN_DestID eCAN_DestNode_RxFilt_SysMgmt in
      if (a = eCAN_ACK \<and> e \<noteq> eSysMgmt_Error_None) \<or> (a = eCAN_NACK \<and> e = eSysMgmt_Error_None)
        then vNotify_MsgFormatError_ToHost E dest c r eSysMgmt_Error_Inconsistent_ACKError s
      else if bMessage_FormatError e
        then vNotify_Controller_TransactionAbort CB i
               (upd_slot i (\<lambda>t. t\<lparr>tr_eErrorCode := e\<rparr>) (vNotify_MsgFormatError_ToHost E dest c r e s))
      else
        (let s = upd_slot i (\<lambda>t. t\<lparr>tr_eErrorCode := e\<rparr>) s in
         case a of
           eCAN_ACK \<Rightarrow> vNotify_Controller_ForHostFeedback CB i (set_state i eTransState_Dest_ACK s)
         | eCAN_NACK \<Rightarrow> vNotify_Controller_ForHostNACK CB i s))"

definition vSubmit_To_TransManager_ACKMonitor ::
  "('w, 'z) cm_platform_scheme \<Rightarrow> 'w cm_callbacks \<Rightarrow> sT_SysMgmt_CtrlMsg_t \<Rightarrow> 'w cm_sys \<Rightarrow> 'w cm_sys" where
  "vSubmit_To_TransManager_ACKMonitor E CB m s =
     (let d = sm_uiaData m; c = sysmgmt_cmd_of_byte (d ! 0) in
      if c = eSysMgmt_CMD_None \<or> sysmgmt_cmd_val c \<ge> sysmgmt_cmd_count
        then vSend_NACK E (uiGetCAN_DestID eCAN_DestNode_RxFilt_SysMgmt) eSysMgmt_Error_InvalidCommand
               (sysmgmt_cmd_val eSysMgmt_CMD_Undefined) (d ! 1) s
      else
        (let ((p, err), s) = pstFindAndLockTransaction_ByCMDId E c s in
         case p of
           None \<Rightarrow> s
         | Some i \<Rightarrow>
             if tr_eCommand (slot s i) \<noteq> c then s
             else if tr_eState (slot s i) \<noteq> eTransState_WaitingFor_ACK then s
             else
               (case can_ack_of_byte (d ! 2) of
                  None \<Rightarrow> s
                | Some a \<Rightarrow>
                    if tr_uiRevision (slot s i) \<noteq> d ! 1 then s
                    else
                      (case sysmgmt_error_of_byte (d ! 3) of
                         None \<Rightarrow> s
                       | Some e \<Rightarrow> acknowledge E CB i c (d ! 1) a e s))))"

definition vDispatch_Message ::
  "('w, 'z) cm_platform_scheme \<Rightarrow> 'w cm_callbacks \<Rightarrow> sT_SysMgmt_CtrlMsg_t \<Rightarrow> 'w cm_sys \<Rightarrow> 'w cm_sys" where
  "vDispatch_Message E CB m s =
     (case sm_eCMD m of
        eSysMgmt_CMD_ACK_NACK \<Rightarrow> vSubmit_To_TransManager_ACKMonitor E CB m s
      | eSysMgmt_CMD_Ret_InvalidMsgFormat \<Rightarrow> vSubmit_To_HandleInvalidMsgFormat E CB m s
      | _ \<Rightarrow> (case cb_vDispatchCommand CB of None \<Rightarrow> s | Some f \<Rightarrow> f m s))"

subsection \<open>Received frames\<close>

definition iGet_CmdPayLoadLen :: "'w cm_callbacks \<Rightarrow> eT_SysMgmtCommand_t \<Rightarrow> int" where
  "iGet_CmdPayLoadLen CB c =
     (case c of
        eSysMgmt_CMD_ACK_NACK \<Rightarrow> 4
      | eSysMgmt_CMD_Ret_InvalidMsgFormat \<Rightarrow> 3
      | _ \<Rightarrow> (case cb_iGetPayloadLength CB of None \<Rightarrow> -1 | Some f \<Rightarrow> f c))"

text \<open>The sum \<open>2U + uiHostDefined_PayloadLen\<close> is an unsigned int and does not wrap.\<close>

definition eValidate_PayLoadLength ::
  "('w, 'z) cm_platform_scheme \<Rightarrow> 'w cm_callbacks \<Rightarrow> can_frame \<Rightarrow> sT_SysMgmt_CtrlMsg_t
   \<Rightarrow> eT_SysMgmtErrorCode_t \<times> sT_SysMgmt_CtrlMsg_t" where
  "eValidate_PayLoadLength E CB fr m =
     (let uiFrameLen = can_dlc_to_bytes E (cf_dlc fr); n = cf_data fr ! 1; b = cf_data fr ! 0 in
      if uiFrameLen < 2 then (eSysMgmt_Error_InvalidFrameLength, m)
      else if b < 20 \<or> b \<ge> sysmgmt_cmd_count then (eSysMgmt_Error_InvalidCommand, m)
      else
        (let m = m\<lparr>sm_eCMD := sysmgmt_cmd_of_byte b\<rparr> in
         if uiFrameLen < 2 \<or> unat uiFrameLen < 2 + unat n then (eSysMgmt_Error_InvalidFrameLength, m)
         else if n > 62 then (eSysMgmt_Error_InvalidPayLoadLength, m)
         else
           (let e = iGet_CmdPayLoadLen CB (sm_eCMD m) in
            if e < 0 then (eSysMgmt_Error_PayLoadLength_NotDefined, m)
            else if word_of_int e \<noteq> n then (eSysMgmt_Error_PayLoadLengthMismatch, m)
            else (eSysMgmt_Error_None, m\<lparr>sm_uiLen := word_of_int e\<rparr>))))"

definition vHandle_SysMgmt_Messages ::
  "('w, 'z) cm_platform_scheme \<Rightarrow> 'w cm_callbacks \<Rightarrow> can_frame \<Rightarrow> 'w cm_sys \<Rightarrow> 'w cm_sys" where
  "vHandle_SysMgmt_Messages E CB fr s =
     (if cf_id fr \<noteq> word_of_int (iGetCAN_RxFilterID eCAN_RxFilter_ID_SysMgt) then s
      else if uiGetCAN_DestID eCAN_DestNode_RxFilt_SysMgmt = 0xFFFFFFFF then s
      else
        (let (err, m) = eValidate_PayLoadLength E CB fr zero_sysmgmt_msg in
         if err \<noteq> eSysMgmt_Error_None
           then (if can_dlc_to_bytes E (cf_dlc fr) \<ge> 1 \<and> cf_data fr ! 0 = sysmgmt_cmd_val eSysMgmt_CMD_Ret_InvalidMsgFormat
                 then s
                 else vSend_NACK E (uiGetCAN_DestID eCAN_DestNode_RxFilt_SysMgmt) err (sysmgmt_cmd_val (sm_eCMD m)) 0 s)
         else vDispatch_Message E CB
                (m\<lparr>sm_uiaData := memcpy_list (sm_uiaData m) (take (unat (sm_uiLen m)) (drop 2 (cf_data fr)))\<rparr>) s))"

text \<open>A turn of the thread: a frame arrived within 20 ms, or none.\<close>

definition vThread_SysManagementMsgHandler ::
  "('w, 'z) cm_platform_scheme \<Rightarrow> 'w cm_callbacks \<Rightarrow> can_frame option \<Rightarrow> 'w cm_sys \<Rightarrow> 'w cm_sys" where
  "vThread_SysManagementMsgHandler E CB fr s =
     (let s = (if bIsCANStackInitialized E (cm_world s) then vSubscribe_ToCANController_CriticalFailures CB s else s);
          s = (case fr of None \<Rightarrow> s | Some f \<Rightarrow> vHandle_SysMgmt_Messages E CB f s)
      in vHandle_SysMgmt_MessageTracking E CB s)"

text \<open>A message sent for a slot: the CAN controller adds the slot's context.\<close>

definition send_for_slot ::
  "('w, 'z) cm_platform_scheme \<Rightarrow> nat option \<Rightarrow> sT_CAN_TXMsg_t \<Rightarrow> 'w cm_sys \<Rightarrow> sT_CAN_TXMsg_t \<times> 'w cm_sys" where
  "send_for_slot E ptr m s =
     (let (m, w) = vSend_CANMessage E (cm_can s) (staCMDTransactions s) ptr m (cm_world s)
      in (m, s\<lparr>cm_world := w\<rparr>))"

end
