(* ===== verification/Comm_Invariants.thy ===== *)
theory Comm_Invariants
  imports Comm_Manager
begin

text \<open>
  The invariant of the transaction table and of the fault subscription, and that every operation of
  the communication manager keeps it. What is required of an application's callbacks is the
  locale \<open>cm_client\<close>; the firmware registers none (\<open>no_callbacks\<close>).
\<close>

subsection \<open>The invariant\<close>

text \<open>
  A free slot has no command; a slot in use transmits one of the manager's own commands, under a
  generation that is not zero, and has at most as many retries as allowed, one more when it failed by that.
\<close>

definition slot_ok :: "sT_CmdTransaction_t \<Rightarrow> bool" where
  "slot_ok t \<longleftrightarrow> tr_eState t \<noteq> eTransState_Invalid
     \<and> (tr_eState t = eTransState_Free \<longrightarrow> tr_eCommand t = eSysMgmt_CMD_None)
     \<and> (tr_eState t \<noteq> eTransState_Free \<longrightarrow> own_command (tr_eCommand t) \<and> tr_uiGeneration t \<noteq> 0)
     \<and> (tr_eState t \<notin> {eTransState_Free, eTransState_Failed} \<longrightarrow> tr_uiRetryCount t \<le> tr_uiMaxRetryCount t)"

definition unique_commands :: "sT_CmdTransaction_t list \<Rightarrow> bool" where
  "unique_commands ts \<longleftrightarrow> (\<forall>i j. i < length ts \<longrightarrow> j < length ts \<longrightarrow> active (ts ! i) \<longrightarrow> active (ts ! j)
     \<longrightarrow> tr_eCommand (ts ! i) = tr_eCommand (ts ! j) \<longrightarrow> i = j)"

definition fault_ok :: "'w cm_sys \<Rightarrow> bool" where
  "fault_ok s \<longleftrightarrow> (bIsCriticalFailNoti_Subsribed s \<longrightarrow>
     busCriticalFailureAppCallback (cm_can s) \<and> (IsCANStopped (cm_can s) \<longrightarrow> bCANPermanentFailure s))"

definition cm_inv :: "'w cm_sys \<Rightarrow> bool" where
  "cm_inv s \<longleftrightarrow> length (staCMDTransactions s) = 20 \<and> length (uiaRevision s) = 25
     \<and> (\<forall>t \<in> set (staCMDTransactions s). slot_ok t) \<and> unique_commands (staCMDTransactions s) \<and> fault_ok s"

lemma cm_invD:
  assumes "cm_inv s"
  shows "length (staCMDTransactions s) = 20" and "i < 20 \<Longrightarrow> slot_ok (slot s i)"
    and "unique_commands (staCMDTransactions s)" and "fault_ok s"
  using assms by (auto simp: cm_inv_def)

subsection \<open>Changing one slot\<close>

text \<open>What an update may do to a slot: keep it sound, and give it no command another slot has.\<close>

lemma upd_slot_fields [simp]:
  "uiaRevision (upd_slot i f s) = uiaRevision s" "cm_can (upd_slot i f s) = cm_can s"
  "cm_world (upd_slot i f s) = cm_world s" "bCANPermanentFailure (upd_slot i f s) = bCANPermanentFailure s"
  "bIsCriticalFailNoti_Subsribed (upd_slot i f s) = bIsCriticalFailNoti_Subsribed s"
  "bIsComManager_Running (upd_slot i f s) = bIsComManager_Running s"
  "length (staCMDTransactions (upd_slot i f s)) = length (staCMDTransactions s)"
  by (simp_all add: upd_slot_def)

lemma slot_upd_slot:
  "j < length (staCMDTransactions s) \<Longrightarrow> slot (upd_slot i f s) j = (if j = i then f (slot s j) else slot s j)"
  by (auto simp: upd_slot_def)

lemma upd_slot_same [simp]: "i < length (staCMDTransactions s) \<Longrightarrow> slot (upd_slot i f s) i = f (slot s i)"
  by (simp add: upd_slot_def)

lemma upd_slot_other [simp]: "j \<noteq> i \<Longrightarrow> slot (upd_slot i f s) j = slot s j"
  by (simp add: upd_slot_def)

lemma upd_slot_twice [simp]: "upd_slot i f (upd_slot i g s) = upd_slot i (\<lambda>t. f (g t)) s"
  by (cases "i < length (staCMDTransactions s)") (simp_all add: upd_slot_def list_update_beyond)

lemma fault_ok_upd [simp]: "fault_ok (upd_slot i f s) = fault_ok s"
  by (simp add: fault_ok_def)

lemma cm_inv_upd:
  assumes inv: "cm_inv s" and i: "i < 20" and ok: "slot_ok (f (slot s i))"
    and cmd: "active (f (slot s i)) \<Longrightarrow> (active (slot s i) \<and> tr_eCommand (f (slot s i)) = tr_eCommand (slot s i))
        \<or> (\<forall>j < 20. j \<noteq> i \<longrightarrow> active (slot s j) \<longrightarrow> tr_eCommand (slot s j) \<noteq> tr_eCommand (f (slot s i)))"
  shows "cm_inv (upd_slot i f s)"
proof -
  have len: "length (staCMDTransactions s) = 20" and uniq: "unique_commands (staCMDTransactions s)"
    using inv by (simp_all add: cm_inv_def)
  have "slot_ok t" if "t \<in> set (staCMDTransactions (upd_slot i f s))" for t
    using that set_update_subset_insert [of "staCMDTransactions s" i "f (slot s i)"] inv ok
    by (auto simp: upd_slot_def cm_inv_def)
  moreover have "unique_commands (staCMDTransactions (upd_slot i f s))"
    unfolding unique_commands_def
  proof (intro allI impI)
    fix j k
    assume jk: "j < length (staCMDTransactions (upd_slot i f s))" "k < length (staCMDTransactions (upd_slot i f s))"
      "active (slot (upd_slot i f s) j)" "active (slot (upd_slot i f s) k)"
      "tr_eCommand (slot (upd_slot i f s) j) = tr_eCommand (slot (upd_slot i f s) k)"
    have other: "\<And>a b. a < 20 \<Longrightarrow> b < 20 \<Longrightarrow> active (slot s a) \<Longrightarrow> active (slot s b)
        \<Longrightarrow> tr_eCommand (slot s a) = tr_eCommand (slot s b) \<Longrightarrow> a = b"
      using uniq len by (auto simp: unique_commands_def)
    show "j = k"
    proof (cases "j = i \<or> k = i")
      case False
      with jk other len show ?thesis by simp
    next
      case True
      with jk len i have act: "active (f (slot s i))" by auto
      show ?thesis using cmd [OF act] True jk len i other by (cases "j = i"; cases "k = i") auto
    qed
  qed
  ultimately show ?thesis using inv by (auto simp: cm_inv_def)
qed

text \<open>The usual case: an active slot stays with its command.\<close>

lemma cm_inv_keep:
  assumes "cm_inv s" and "i < 20" and "active (slot s i)" and "slot_ok (f (slot s i))"
    and "tr_eCommand (f (slot s i)) = tr_eCommand (slot s i)"
  shows "cm_inv (upd_slot i f s)"
  by (rule cm_inv_upd) (use assms in auto)

lemma cm_inv_reset: "cm_inv s \<Longrightarrow> i < 20 \<Longrightarrow> cm_inv (vReset_TransactionState i s)"
  unfolding vReset_TransactionState_def
  by (rule cm_inv_upd) (auto simp: slot_ok_def active_def)

lemma cm_inv_free: "cm_inv s \<Longrightarrow> i < 20 \<Longrightarrow> cm_inv (vSetTransaction_Free i s)"
  by (simp add: vSetTransaction_Free_def cm_inv_reset)

lemma cm_inv_world [simp]: "cm_inv (cm_world_update g s) = cm_inv s"
  by (simp add: cm_inv_def fault_ok_def)

subsection \<open>Locks, clock and searches\<close>

text \<open>They move the world only.\<close>

definition same_but_world :: "'w cm_sys \<Rightarrow> 'w cm_sys \<Rightarrow> bool" where
  "same_but_world s s' \<longleftrightarrow> (\<exists>w. s' = s\<lparr>cm_world := w\<rparr>)"

lemma same_but_world_refl [simp]: "same_but_world s s"
  by (auto simp: same_but_world_def intro: exI [of _ "cm_world s"])

lemma same_but_world_trans: "same_but_world a b \<Longrightarrow> same_but_world b c \<Longrightarrow> same_but_world a c"
  by (auto simp: same_but_world_def)

lemma same_but_worldD:
  assumes "same_but_world s s'"
  shows "staCMDTransactions s' = staCMDTransactions s" and "uiaRevision s' = uiaRevision s" and "cm_can s' = cm_can s"
    and "bIsCriticalFailNoti_Subsribed s' = bIsCriticalFailNoti_Subsribed s"
    and "bCANPermanentFailure s' = bCANPermanentFailure s" and "cm_inv s' = cm_inv s"
  using assms by (auto simp: same_but_world_def)

lemma try_lock_same: "try_lock E i t s = (ok, s') \<Longrightarrow> same_but_world s s'"
  by (auto simp: try_lock_def same_but_world_def split: prod.splits)

lemma read_clock_same: "read_clock E s = (now, s') \<Longrightarrow> same_but_world s s'"
  by (auto simp: read_clock_def same_but_world_def split: prod.splits)

lemma find_and_lock_result:
  assumes "find_and_lock E c is err s = ((p, e), s')"
  shows "same_but_world s s'
    \<and> (case p of Some i \<Rightarrow> i \<in> set is \<and> active (slot s i) \<and> tr_eCommand (slot s i) = c \<and> e = eSysMgmt_Error_None
        | None \<Rightarrow> e = err \<and> (\<forall>i \<in> set is. active (slot s i) \<longrightarrow> tr_eCommand (slot s i) \<noteq> c) \<or> e = eSysMgmt_Error_TransactionLocked)"
  using assms
proof (induction "is" arbitrary: err s)
  case (Cons i "is")
  obtain ok t where l: "try_lock E i 2 s = (ok, t)" by fastforce
  note same = same_but_worldD [OF try_lock_same [OF l]] try_lock_same [OF l]
  consider (skip) "\<not> (active (slot s i) \<and> tr_eCommand (slot s i) = c)" | (locked) "active (slot s i)" "tr_eCommand (slot s i) = c" "\<not> ok"
    | (found) "active (slot s i)" "tr_eCommand (slot s i) = c" "ok" by blast
  then show ?case
  proof cases
    case skip
    with Cons.prems have "find_and_lock E c is err s = ((p, e), s')" by (auto split: if_splits)
    from Cons.IH [OF this] skip show ?thesis by (auto split: option.splits)
  next
    case locked
    with Cons.prems l have "find_and_lock E c is eSysMgmt_Error_TransactionLocked t = ((p, e), s')" by simp
    from Cons.IH [OF this] same show ?thesis by (auto split: option.splits intro: same_but_world_trans)
  next
    case found
    with Cons.prems l same show ?thesis by auto
  qed
qed auto

lemma find_result:
  assumes "pstFindAndLockTransaction_ByCMDId E c s = ((p, e), s')"
  shows "same_but_world s s'"
    and "p = Some i \<Longrightarrow> i < 20 \<and> active (slot s i) \<and> tr_eCommand (slot s i) = c"
    and "p = None \<Longrightarrow> e \<noteq> eSysMgmt_Error_TransactionLocked \<Longrightarrow> \<forall>i < 20. active (slot s i) \<longrightarrow> tr_eCommand (slot s i) \<noteq> c"
  using find_and_lock_result [OF assms [unfolded pstFindAndLockTransaction_ByCMDId_def]]
  by (auto simp: MAX_NUMBER_OF_TRANSACTION_TRACKINGs_def split: option.splits)

lemma claim_free_result:
  "claim_free E is s = (p, s') \<Longrightarrow> same_but_world s s' \<and> (\<forall>i. p = Some i \<longrightarrow> i \<in> set is \<and> tr_eState (slot s i) = eTransState_Free)"
proof (induction "is" arbitrary: s)
  case (Cons i "is")
  obtain ok t where l: "try_lock E i 0 s = (ok, t)" by fastforce
  note same = same_but_worldD [OF try_lock_same [OF l]] try_lock_same [OF l]
  show ?case
  proof (cases "ok \<and> tr_eState (slot t i) = eTransState_Free")
    case True
    with Cons.prems l same show ?thesis by auto
  next
    case False
    with Cons.prems l have "claim_free E is t = (p, s')" by (auto split: if_splits)
    from Cons.IH [OF this] same show ?thesis by (auto intro: same_but_world_trans)
  qed
qed simp

lemma claim_result:
  assumes "pstClaimFreeTransaction E s = (p, s')"
  shows "same_but_world s s'" and "p = Some i \<Longrightarrow> i < 20 \<and> tr_eState (slot s i) = eTransState_Free"
  using claim_free_result [OF assms [unfolded pstClaimFreeTransaction_def]]
  by (auto simp: MAX_NUMBER_OF_TRANSACTION_TRACKINGs_def)

subsection \<open>What an application's callbacks must keep\<close>

locale cm_client =
  fixes CB :: "'w cm_callbacks"
  assumes dispatch_keeps: "cb_vDispatchCommand CB = Some f \<Longrightarrow> cm_inv s \<Longrightarrow> cm_inv (f m s)"
    and retransmit_keeps: "cb_bRequestRetransmit CB = Some g \<Longrightarrow> cm_inv s \<Longrightarrow> i < 20 \<Longrightarrow> cm_inv (snd (g i s))"
    and result_keeps: "cb_vTransactionResult CB = Some h \<Longrightarrow> cm_inv s \<Longrightarrow> i < 20 \<Longrightarrow> cm_inv (h i s)"
    and failure_keeps: "cb_vTransmissionFailure CB = Some k \<Longrightarrow> cm_inv s \<Longrightarrow> cm_inv (k c s)"
    and fault_keeps: "cb_vCANPermanentFailure CB = Some l \<Longrightarrow> cm_inv s \<Longrightarrow> cm_inv (l s)"
begin

lemma feedback_inv: "cm_inv s \<Longrightarrow> i < 20 \<Longrightarrow> cm_inv (vNotify_Controller_ForHostFeedback CB i s)"
  by (auto simp: vNotify_Controller_ForHostFeedback_def cm_inv_free result_keeps split: option.split)

lemma failure_inv: "cm_inv s \<Longrightarrow> cm_inv (vNotify_TransmissionFailure CB c s)"
  by (auto simp: vNotify_TransmissionFailure_def failure_keeps split: option.split)

lemma retransmit_inv: "cm_inv s \<Longrightarrow> i < 20 \<Longrightarrow> cm_inv (snd (bNotify_ControllerToReTransmit CB i s))"
  by (auto simp: bNotify_ControllerToReTransmit_def retransmit_keeps split: option.split)

lemma abort_inv: "cm_inv s \<Longrightarrow> i < 20 \<Longrightarrow> active (slot s i) \<Longrightarrow> cm_inv (vNotify_Controller_TransactionAbort CB i s)"
  unfolding vNotify_Controller_TransactionAbort_def
  by (intro feedback_inv cm_inv_keep) (auto simp: slot_ok_def active_def dest: cm_invD(2))

lemma nack_inv: "cm_inv s \<Longrightarrow> i < 20 \<Longrightarrow> active (slot s i) \<Longrightarrow> cm_inv (vNotify_Controller_ForHostNACK CB i s)"
  unfolding vNotify_Controller_ForHostNACK_def
  by (auto intro!: feedback_inv cm_inv_keep simp: slot_ok_def active_def dest: cm_invD(2))

lemma critical_inv: "cm_inv s \<Longrightarrow> cm_inv (vCANBus_CriticalFailureCallback CB s)"
proof -
  assume inv: "cm_inv s"
  then have "cm_inv (s\<lparr>bCANPermanentFailure := True\<rparr>)" by (simp add: cm_inv_def fault_ok_def)
  with inv show ?thesis
    by (auto simp: vCANBus_CriticalFailureCallback_def Let_def fault_keeps split: option.split)
qed

text \<open>A step that leaves a stopped, subscribed manager uninformed is followed by the callback.\<close>

lemma inform_inv:
  assumes "cm_inv s" and "IsCANStopped cfg \<longrightarrow> call" and "busCriticalFailureAppCallback cfg" and "sub = True"
  shows "cm_inv (if call then vCANBus_CriticalFailureCallback CB (s\<lparr>bIsCriticalFailNoti_Subsribed := sub, cm_can := cfg\<rparr>)
                 else s\<lparr>bIsCriticalFailNoti_Subsribed := sub, cm_can := cfg\<rparr>)"
proof (cases call)
  case True
  have "cm_inv (s\<lparr>bIsCriticalFailNoti_Subsribed := sub, cm_can := cfg, bCANPermanentFailure := True\<rparr>)"
    using assms(1,3) by (simp add: cm_inv_def fault_ok_def)
  with True assms(4) show ?thesis
    by (auto simp: vCANBus_CriticalFailureCallback_def Let_def fault_keeps split: option.split)
next
  case False
  with assms show ?thesis by (simp add: cm_inv_def fault_ok_def)
qed

lemma subscribe_inv: "cm_inv s \<Longrightarrow> cm_inv (vSubscribe_ToCANController_CriticalFailures CB s)"
  using inform_inv [of s "(cm_can s)\<lparr>busCriticalFailureAppCallback := True\<rparr>" "IsCANStopped (cm_can s)" True]
  by (auto simp: vSubscribe_ToCANController_CriticalFailures_def vSubscribe_ToCANBusCriticalFailure_def Let_def split: if_splits)

lemma permanent_fault_inv:
  assumes inv: "cm_inv s"
  shows "cm_inv (can_permanent_fault CB s)"
proof (cases "bIsCriticalFailNoti_Subsribed s")
  case True
  then have "busCriticalFailureAppCallback (cm_can s)" using inv by (simp add: cm_inv_def fault_ok_def)
  then have told: "cm_inv (if True then vCANBus_CriticalFailureCallback CB
        (s\<lparr>bIsCriticalFailNoti_Subsribed := True, cm_can := (cm_can s)\<lparr>IsCANStopped := True\<rparr>\<rparr>)
      else s\<lparr>bIsCriticalFailNoti_Subsribed := True, cm_can := (cm_can s)\<lparr>IsCANStopped := True\<rparr>\<rparr>)"
    by (intro inform_inv [OF inv]) simp_all
  have sub: "s\<lparr>bIsCriticalFailNoti_Subsribed := True, cm_can := c\<rparr> = s\<lparr>cm_can := c\<rparr>" for c
    using True by (cases s) simp
  show ?thesis
    using told [unfolded sub] \<open>busCriticalFailureAppCallback (cm_can s)\<close>
    by (simp add: can_permanent_fault_def vCAN_BusRecovery_Failed_Callback_def Let_def)
next
  case False
  with inv show ?thesis
    by (simp add: can_permanent_fault_def vCAN_BusRecovery_Failed_Callback_def vCANBus_CriticalFailureCallback_def
        cm_inv_def fault_ok_def Let_def)
qed

lemma completion_inv:
  assumes inv: "cm_inv s"
  shows "cm_inv (vNotify_MessageTxComplete E CB ctx res err s)"
proof -
  let ?i = "unat (ctx_uiTransactionIndex ctx)"
  obtain now t where clk: "read_clock E s = (now, t)" by fastforce
  note same = same_but_worldD [OF read_clock_same [OF clk]]
  show ?thesis
  proof (cases "ctx_uiGeneration ctx = 0 \<or> ?i \<ge> 20 \<or> \<not> completion_matches ctx (slot s ?i)")
    case True
    with inv show ?thesis by (auto simp: vNotify_MessageTxComplete_def MAX_NUMBER_OF_TRANSACTION_TRACKINGs_def Let_def)
  next
    case False
    then have i: "?i < 20" and act: "active (slot s ?i)" and st: "tr_eState (slot s ?i) = eTransState_WaitingFor_TxCompletion"
      by (auto simp: completion_matches_def active_def)
    have ok: "slot_ok (slot s ?i)" using cm_invD(2) [OF inv i] .
    have "cm_inv (upd_slot ?i (\<lambda>t. t\<lparr>tr_uiStartTime_ms := now, tr_eState := x\<rparr>) t)"
      if "x = eTransState_WaitingFor_ACK \<or> x = eTransState_Queued" for x
      by (rule cm_inv_keep) (use that same inv i act ok st in \<open>auto simp: slot_ok_def\<close>)
    with False clk inv i show ?thesis
      by (auto simp: vNotify_MessageTxComplete_def MAX_NUMBER_OF_TRANSACTION_TRACKINGs_def Let_def
          cm_inv_free failure_inv split: eT_CAN_TxCompleteResult.split)
  qed
qed

lemma track_inv:
  assumes inv: "cm_inv s" and i: "i < 20"
  shows "cm_inv (track_slot E CB i s)"
proof -
  obtain ok s1 where l: "try_lock E i 0 s = (ok, s1)" by fastforce
  obtain now s2 where clk: "read_clock E s1 = (now, s2)" by fastforce
  have inv2: "cm_inv s1" "cm_inv s2"
    using inv same_but_worldD(6) [OF try_lock_same [OF l]] same_but_worldD(6) [OF read_clock_same [OF clk]] by simp_all
  have slots: "slot s2 i = slot s1 i" using same_but_worldD(1) [OF read_clock_same [OF clk]] by simp
  obtain d s3 where call: "bNotify_ControllerToReTransmit CB i (set_state i eTransState_PrepareRetransmit s2) = (d, s3)" by fastforce
  show ?thesis
  proof (cases "tr_eState (slot s1 i) = eTransState_WaitingFor_ACK \<or> tr_eState (slot s1 i) = eTransState_Queued")
    case False
    with l inv2 show ?thesis by (auto simp: track_slot_def Let_def)
  next
    case True
    then have act: "active (slot s2 i)" using slots by (auto simp: active_def)
    have "cm_inv (set_state i eTransState_PrepareRetransmit s2)"
      by (rule cm_inv_keep) (use inv2 i act True slots cm_invD(2) [OF inv2(2) i] in \<open>auto simp: slot_ok_def\<close>)
    from retransmit_inv [OF this i] call have inv3: "cm_inv s3" by simp
    have "cm_inv (upd_slot i (\<lambda>t. t\<lparr>tr_eErrorCode := e, tr_eState := eTransState_Failed\<rparr>) s3)"
      if "tr_eState (slot s3 i) = eTransState_PrepareRetransmit" for e
      by (rule cm_inv_keep) (use inv3 i that cm_invD(2) [OF inv3 i] in \<open>auto simp: slot_ok_def active_def\<close>)
    with l clk call inv2 inv3 i show ?thesis by (auto simp: track_slot_def Let_def feedback_inv)
  qed
qed

lemma tracking_inv:
  assumes "cm_inv s"
  shows "cm_inv (vHandle_SysMgmt_MessageTracking E CB s)"
proof -
  have "(\<forall>i \<in> set is. i < 20) \<Longrightarrow> cm_inv s \<Longrightarrow> cm_inv (fold (track_slot E CB) is s)" for "is" s
    by (induction "is" arbitrary: s) (auto simp: track_inv)
  with assms show ?thesis by (simp add: vHandle_SysMgmt_MessageTracking_def MAX_NUMBER_OF_TRANSACTION_TRACKINGs_def)
qed

text \<open>Frames of the host.\<close>

lemma send_world_inv: "cm_inv s \<Longrightarrow> cm_inv (vSend_NACK E d e c r s)" "cm_inv s \<Longrightarrow> cm_inv (vNotify_MsgFormatError_ToHost E d q r e s)"
  by (simp_all add: vSend_NACK_def vNotify_MsgFormatError_ToHost_def)

lemma error_code_inv:
  assumes "cm_inv s" and "i < 20" and "active (slot s i)"
  shows "cm_inv (upd_slot i (\<lambda>t. t\<lparr>tr_eErrorCode := e\<rparr>) s)"
  by (rule cm_inv_keep) (use assms cm_invD(2) [OF assms(1,2)] in \<open>auto simp: slot_ok_def\<close>)

lemma active_error_code: "active (t\<lparr>tr_eErrorCode := e\<rparr>) = active t"
  by (simp add: active_def)

lemma format_error_inv:
  assumes inv: "cm_inv s"
  shows "cm_inv (vSubmit_To_HandleInvalidMsgFormat E CB m s)"
proof -
  let ?c = "sysmgmt_cmd_of_byte (sm_uiaData m ! 0)"
  obtain p e t where f: "pstFindAndLockTransaction_ByCMDId E ?c s = ((p, e), t)" by (metis surj_pair)
  note res = find_result [OF f] and same = same_but_worldD [OF find_result(1) [OF f]]
  have inv2: "cm_inv t" using inv same by simp
  have "cm_inv (vNotify_Controller_TransactionAbort CB i (upd_slot i (\<lambda>t. t\<lparr>tr_eErrorCode := x\<rparr>) t))" if "p = Some i" for i x
    by (rule abort_inv) (use error_code_inv [OF inv2] res(2) [OF that] same cm_invD(1) [OF inv2] in \<open>auto simp: active_error_code\<close>)
  with f inv inv2 show ?thesis
    by (auto simp: vSubmit_To_HandleInvalidMsgFormat_def Let_def split: option.split)
qed

lemma acknowledge_inv:
  assumes inv: "cm_inv s" and i: "i < 20" and st: "tr_eState (slot s i) = eTransState_WaitingFor_ACK"
  shows "cm_inv (acknowledge E CB i c r a e s)"
proof -
  let ?set = "upd_slot i (\<lambda>t. t\<lparr>tr_eErrorCode := e\<rparr>)"
  have act: "active (slot s i)" and len: "i < length (staCMDTransactions s)" using st i cm_invD(1) [OF inv] by (auto simp: active_def)
  have ok: "slot_ok (slot s i)" by (rule cm_invD(2) [OF inv i])
  have 1: "cm_inv (?set s)" by (rule error_code_inv [OF inv i act])
  have "active (slot (?set s) i)" using act len by (simp add: active_error_code)
  then have nack: "cm_inv (vNotify_Controller_ForHostNACK CB i (?set s))" by (rule nack_inv [OF 1 i])
  have "cm_inv (set_state i eTransState_Dest_ACK (?set s))"
    by (rule cm_inv_keep [OF 1 i]) (use act len ok st in \<open>auto simp: slot_ok_def active_def\<close>)
  then have ack: "cm_inv (vNotify_Controller_ForHostFeedback CB i (set_state i eTransState_Dest_ACK (?set s)))"
    by (rule feedback_inv [OF _ i])
  let ?s = "vNotify_MsgFormatError_ToHost E (uiGetCAN_DestID eCAN_DestNode_RxFilt_SysMgmt) c r e s"
  have s: "staCMDTransactions ?s = staCMDTransactions s" "cm_inv ?s" using inv by (simp_all add: vNotify_MsgFormatError_ToHost_def)
  have "cm_inv (vNotify_Controller_TransactionAbort CB i (?set ?s))"
    by (rule abort_inv) (use error_code_inv [OF s(2) i] s act len i in \<open>simp_all add: active_error_code\<close>)
  with nack ack inv show ?thesis
    by (auto simp: acknowledge_def Let_def send_world_inv split: eT_CANACK_Ctrl.split)
qed

lemma ack_monitor_inv:
  assumes inv: "cm_inv s"
  shows "cm_inv (vSubmit_To_TransManager_ACKMonitor E CB m s)"
proof -
  let ?c = "sysmgmt_cmd_of_byte (sm_uiaData m ! 0)"
  obtain p e t where f: "pstFindAndLockTransaction_ByCMDId E ?c s = ((p, e), t)" by (metis surj_pair)
  note res = find_result [OF f] and same = same_but_worldD [OF find_result(1) [OF f]]
  have inv2: "cm_inv t" using inv same by simp
  have "cm_inv (acknowledge E CB i ?c r a x t)" if "p = Some i" "tr_eState (slot t i) = eTransState_WaitingFor_ACK" for i r a x
    by (rule acknowledge_inv) (use inv2 res(2) [OF that(1)] that(2) in auto)
  with f inv inv2 show ?thesis
    by (auto simp: vSubmit_To_TransManager_ACKMonitor_def Let_def send_world_inv split: option.split)
qed

lemma frame_inv:
  assumes inv: "cm_inv s"
  shows "cm_inv (vHandle_SysMgmt_Messages E CB fr s)"
proof -
  have "cm_inv (vDispatch_Message E CB m s)" for m
    using inv by (auto simp: vDispatch_Message_def ack_monitor_inv format_error_inv dispatch_keeps
        split: eT_SysMgmtCommand_t.split option.split)
  with inv show ?thesis by (auto simp: vHandle_SysMgmt_Messages_def Let_def send_world_inv split: prod.split)
qed

lemma thread_inv: "cm_inv s \<Longrightarrow> cm_inv (vThread_SysManagementMsgHandler E CB fr s)"
  by (auto simp: vThread_SysManagementMsgHandler_def Let_def intro!: tracking_inv frame_inv subscribe_inv split: option.split)

end

subsection \<open>The operations an application calls\<close>

lemma own_not_none: "own_command c \<Longrightarrow> c \<noteq> eSysMgmt_CMD_None"
  by (auto simp: own_command_def sysmgmt_cmd_count_def)

lemma next_generation_nonzero [simp]: "next_generation g \<noteq> 0"
  by (simp add: next_generation_def)

lemma subscribe_transaction_inv:
  assumes inv: "cm_inv s" and run: "stSubscribe_To_TransactionManager E m ack maxr trig s = (r, s')"
  shows "cm_inv s'"
proof (cases "m = None \<or> tx_uiLen (the m) < 1 \<or> tx_puiData (the m) = None \<or> \<not> own_command (sysmgmt_cmd_of_byte (the (tx_puiData (the m)) ! 0))")
  case True
  with run have "s' = s" by (auto simp: stSubscribe_To_TransactionManager_def Let_def split: option.splits if_splits)
  with inv show ?thesis by simp
next
  case False
  let ?c = "sysmgmt_cmd_of_byte (the (tx_puiData (the m)) ! 0)"
  obtain p e t where f: "pstFindAndLockTransaction_ByCMDId E ?c s = ((p, e), t)" by (metis surj_pair)
  obtain q u where cl: "pstClaimFreeTransaction E t = (q, u)" by fastforce
  note same = same_but_worldD [OF find_result(1) [OF f]] and same2 = same_but_worldD [OF claim_result(1) [OF cl]]
  have invs: "cm_inv t" "cm_inv u" using inv same same2 by simp_all
  have own: "own_command ?c" using False by simp
  have opened: "cm_inv (upd_slot i (open_slot ?c ack x maxr trig) u)"
    if q: "q = Some i" and free: "\<forall>i < 20. active (slot s i) \<longrightarrow> tr_eCommand (slot s i) \<noteq> ?c" for i x
    by (rule cm_inv_upd [OF invs(2)])
       (use claim_result(2) [OF cl q] free own same same2 in \<open>auto simp: open_slot_def slot_ok_def\<close>)
  have retried: "cm_inv (upd_slot i (retry_slot x) t)"
    if p: "p = Some i" and st: "tr_eState (slot t i) = eTransState_PrepareRetransmit" for i x
    by (rule cm_inv_keep [OF invs(1)])
       (use find_result(2) [OF f p] st same cm_invD(2) [OF invs(1), of i] in
         \<open>auto simp: retry_slot_def slot_ok_def active_def Let_def not_less\<close>)
  obtain msg where msg: "m = Some msg" using False by auto
  have arg: "\<not> (tx_uiLen msg < 1 \<or> tx_puiData msg = None)" "own_command (sysmgmt_cmd_of_byte (the (tx_puiData msg) ! 0))"
    using False msg by auto
  show ?thesis
  proof (cases p)
    case None
    then show ?thesis
      using run f cl arg invs opened find_result(3) [OF f None]
      unfolding msg stSubscribe_To_TransactionManager_def option.case if_not_P [OF arg(1)] Let_def
      by (auto simp: msg split: option.splits if_splits)
  next
    case (Some i)
    then show ?thesis
      using run f arg invs retried
      unfolding msg stSubscribe_To_TransactionManager_def option.case if_not_P [OF arg(1)] Let_def
      by (auto simp: msg split: if_splits)
  qed
qed

lemma transmission_error_inv:
  assumes inv: "cm_inv s" and i: "i < 20" and st: "tr_eState (slot s i) = eTransState_WaitingFor_TxCompletion"
  shows "cm_inv (snd (bManage_TransmissionError E r (Some i) s))"
proof -
  obtain ok s1 where l: "try_lock E i 2 s = (ok, s1)" by fastforce
  obtain now s2 where clk: "read_clock E s1 = (now, s2)" by fastforce
  note same = same_but_worldD [OF try_lock_same [OF l]] same_but_worldD [OF read_clock_same [OF clk]]
  have inv2: "cm_inv s1" "cm_inv s2" using inv same by simp_all
  have "cm_inv (upd_slot i (\<lambda>t. t\<lparr>tr_uiTrigTime_ms := tr_uiTrigTime_ms t + 50, tr_uiStartTime_ms := now,
      tr_eState := eTransState_Queued\<rparr>) s2)"
    by (rule cm_inv_keep) (use inv2 i st same cm_invD(2) [OF inv i] in \<open>auto simp: slot_ok_def active_def\<close>)
  with l clk inv inv2 i show ?thesis
    by (auto simp: bManage_TransmissionError_def cm_inv_reset)
qed

end
