(* ===== verification/Comm_Properties.thy ===== *)
theory Comm_Properties
  imports Comm_Invariants
begin

text \<open>
  The steps of the communication manager, and what it promises: one transaction per command, completions
  that cannot hit a later transaction, acknowledgements and timeouts as maps over the table, a bound
  on retries, and the life of a transaction from subscription to acknowledgement.
\<close>

subsection \<open>Steps\<close>

definition zero_transaction :: sT_CmdTransaction_t where
  "zero_transaction = \<lparr>tr_eType = eTransType_None, tr_eState = eTransState_Free, tr_eCommand = eSysMgmt_CMD_None,
     tr_eErrorCode = eSysMgmt_Error_None, tr_bIsACKRequired = False, tr_uiTrigTime_ms = 0, tr_uiStartTime_ms = 0,
     tr_uiRetryCount = 0, tr_uiMaxRetryCount = 0, tr_uiRevision = 0, tr_uiGeneration = 0\<rparr>"

text \<open>The file-scope variables as the linker leaves them.\<close>

definition cm_start :: "'w \<Rightarrow> 'w cm_sys" where
  "cm_start w = \<lparr>staCMDTransactions = replicate 20 zero_transaction, uiaRevision = replicate 25 0,
     bIsComManager_Running = False, bIsCriticalFailNoti_Subsribed = False, bCANPermanentFailure = False,
     cm_can = init_can_config, cm_world = w\<rparr>"

text \<open>
  A transmission error is reported for a transaction whose message was just submitted; slots are
  freed by number. \<open>eSet_TransactionState_Extern\<close>, which no code of the repository calls, is not a step.
\<close>

inductive cm_step ::
  "('w, 'z) cm_platform_scheme \<Rightarrow> 'w cm_callbacks \<Rightarrow> ('w \<Rightarrow> 'w \<Rightarrow> bool) \<Rightarrow> 'w cm_sys \<Rightarrow> 'w cm_sys \<Rightarrow> bool"
  for E :: "('w, 'z) cm_platform_scheme" and CB :: "'w cm_callbacks" and R :: "'w \<Rightarrow> 'w \<Rightarrow> bool" where
  step_thread: "cm_step E CB R s (vThread_SysManagementMsgHandler E CB fr s)"
| step_complete: "cm_step E CB R s (vNotify_MessageTxComplete E CB ctx res err s)"
| step_subscribe: "stSubscribe_To_TransactionManager E m ack maxr trig s = (r, s') \<Longrightarrow> cm_step E CB R s s'"
| step_send: "send_for_slot E p m s = (m', s') \<Longrightarrow> cm_step E CB R s s'"
| step_send_error: "i < 20 \<Longrightarrow> tr_eState (slot s i) = eTransState_WaitingFor_TxCompletion \<Longrightarrow>
    bManage_TransmissionError E res (Some i) s = (b, s') \<Longrightarrow> cm_step E CB R s s'"
| step_free: "i < 20 \<Longrightarrow> cm_step E CB R s (vSetTransaction_Free i s)"
| step_revision: "cm_step E CB R s (vUpdate_CommandRevision c v s)"
| step_fault: "cm_step E CB R s (can_permanent_fault CB s)"
| step_init: "bInit_WallController_Comm_Manager s = (b, s') \<Longrightarrow> cm_step E CB R s s'"
| step_deinit: "cm_step E CB R s (vDeInit_WallController_Comm_Manager s)"
| step_moves: "R (cm_world s) w \<Longrightarrow> cm_step E CB R s (s\<lparr>cm_world := w\<rparr>)"

inductive cm_reach ::
  "('w, 'z) cm_platform_scheme \<Rightarrow> 'w cm_callbacks \<Rightarrow> ('w \<Rightarrow> 'w \<Rightarrow> bool) \<Rightarrow> 'w cm_sys \<Rightarrow> bool"
  for E :: "('w, 'z) cm_platform_scheme" and CB :: "'w cm_callbacks" and R :: "'w \<Rightarrow> 'w \<Rightarrow> bool" where
  cm_reach_start: "cm_reach E CB R (cm_start w)"
| cm_reach_step: "cm_reach E CB R s \<Longrightarrow> cm_step E CB R s s' \<Longrightarrow> cm_reach E CB R s'"

inductive_cases cm_stepE: "cm_step E CB R s s'"

lemma start_inv: "cm_inv (cm_start w)"
proof -
  have "set (replicate 20 zero_transaction) \<subseteq> {zero_transaction}" by auto
  moreover have "\<not> active (replicate 20 zero_transaction ! i)" if "i < 20" for i
    using that by (simp add: active_def zero_transaction_def)
  ultimately show ?thesis
    by (auto simp: cm_inv_def cm_start_def unique_commands_def fault_ok_def slot_ok_def zero_transaction_def)
qed

lemma init_inv:
  assumes "cm_inv s" and "bInit_WallController_Comm_Manager s = (b, s')"
  shows "cm_inv s'"
proof -
  have "\<not> active (map init_slot (staCMDTransactions s) ! i)" if "i < 20" for i
    using that assms(1) by (simp add: cm_inv_def active_def init_slot_def)
  with assms show ?thesis
    by (auto simp: bInit_WallController_Comm_Manager_def cm_inv_def unique_commands_def fault_ok_def slot_ok_def
        init_slot_def split: if_splits)
qed

lemma deinit_inv: "cm_inv s \<Longrightarrow> cm_inv (vDeInit_WallController_Comm_Manager s)"
  by (simp add: vDeInit_WallController_Comm_Manager_def vUnsubsribe_FromCANController_CriticalFailures_def cm_inv_def fault_ok_def)

lemma revision_inv: "cm_inv s \<Longrightarrow> cm_inv (vUpdate_CommandRevision c v s)"
  by (simp add: vUpdate_CommandRevision_def cm_inv_def fault_ok_def)

context cm_client
begin

lemma step_inv:
  assumes "cm_step E CB R s s'" and inv: "cm_inv s"
  shows "cm_inv s'"
  using assms(1)
proof (cases rule: cm_step.cases)
  case (step_send p m m')
  with inv show ?thesis by (auto simp: send_for_slot_def split: prod.splits)
next
  case (step_send_error i res b)
  then show ?thesis using transmission_error_inv [OF inv] by (metis snd_conv)
qed (use inv in \<open>auto intro: thread_inv completion_inv subscribe_transaction_inv cm_inv_free revision_inv
    permanent_fault_inv init_inv deinit_inv\<close>)

lemma reach_inv: "cm_reach E CB R s \<Longrightarrow> cm_inv s"
  by (induction rule: cm_reach.induct) (auto intro: start_inv step_inv)

end

text \<open>The callbacks of the firmware: none.\<close>

interpretation null_client: cm_client no_callbacks
  by unfold_locales (simp_all add: no_callbacks_def)


subsection \<open>A platform to try things on\<close>

definition demo_cm :: "unit cm_platform" where
  "demo_cm = \<lparr>eFlexCAN_SendMsg = (\<lambda>m w. (eCAN_TxSubmit_Queued, w)), k_uptime_get = (\<lambda>w. (7, w)),
     k_mutex_lock = (\<lambda>i t w. (0, w)), bIsTimeOut = (\<lambda>start now trig. now - start \<ge> trig),
     can_dlc_to_bytes = (\<lambda>d. if d = 15 then 64 else d), bIsCANStackInitialized = (\<lambda>w. True)\<rparr>"

lemma demo_cm_simps [simp]:
  "eFlexCAN_SendMsg demo_cm m w = (eCAN_TxSubmit_Queued, w)" "k_uptime_get demo_cm w = (7, w)"
  "k_mutex_lock demo_cm i t w = (0, w)" "bIsTimeOut demo_cm start now trig = (now - start \<ge> trig)"
  "can_dlc_to_bytes demo_cm d = (if d = 15 then 64 else d)" "bIsCANStackInitialized demo_cm w"
  by (simp_all add: demo_cm_def)

text \<open>A message of the reserved command 20, whose transaction is to be acknowledged and retried twice.\<close>

definition demo_cm_msg :: sT_CAN_TXMsg_t where
  "demo_cm_msg = zero_tx_msg\<lparr>tx_uiID := 0x201, tx_uiLen := 2, tx_puiData := Some [20, 0]\<rparr>"

definition demo_subscribed :: "unit cm_sys" where
  "demo_subscribed = upd_slot 0 (open_slot eSysMgmt_CMD_Reserved_20 True 0 2 100) (cm_start ())"

lemma cmd_20 [simp]: "sysmgmt_cmd_of_byte 20 = eSysMgmt_CMD_Reserved_20" "own_command eSysMgmt_CMD_Reserved_20"
  by (simp_all add: sysmgmt_cmd_of_byte_def own_command_def sysmgmt_cmd_count_def)

lemma find_none:
  "(\<forall>i \<in> set is. \<not> (active (slot s i) \<and> tr_eCommand (slot s i) = c)) \<Longrightarrow> find_and_lock E c is err s = ((None, err), s)"
  by (induction "is") auto

lemma start_slots: "i < 20 \<Longrightarrow> slot (cm_start w) i = zero_transaction" "\<not> active zero_transaction"
  by (simp_all add: cm_start_def active_def zero_transaction_def)

lemma demo_subscribe_run:
  "stSubscribe_To_TransactionManager demo_cm (Some demo_cm_msg) True 2 100 (cm_start ()) = ((eSysMgmt_Error_None, Some 0), demo_subscribed)"
proof -
  have "pstFindAndLockTransaction_ByCMDId demo_cm eSysMgmt_CMD_Reserved_20 (cm_start ()) = ((None, eSysMgmt_Error_None), cm_start ())"
    unfolding pstFindAndLockTransaction_ByCMDId_def MAX_NUMBER_OF_TRANSACTION_TRACKINGs_def
    by (rule find_none) (simp add: start_slots)
  moreover have "pstClaimFreeTransaction demo_cm (cm_start ()) = (Some 0, cm_start ())"
    by (simp add: pstClaimFreeTransaction_def MAX_NUMBER_OF_TRANSACTION_TRACKINGs_def upt_rec try_lock_def start_slots)
       (simp add: zero_transaction_def)
  moreover have "uiGet_CommandRevision eSysMgmt_CMD_Reserved_20 (cm_start ()) = 0"
    by (simp add: uiGet_CommandRevision_def cm_start_def)
  ultimately show ?thesis
    by (simp add: stSubscribe_To_TransactionManager_def demo_cm_msg_def zero_tx_msg_def demo_subscribed_def Let_def)
qed

lemma demo_subscribed_reach: "cm_reach demo_cm CB R demo_subscribed"
  by (rule cm_reach_step [OF cm_reach_start step_subscribe [OF demo_subscribe_run]])


subsection \<open>Generations\<close>

lemma unat_neq_0: "x \<noteq> 0 \<Longrightarrow> unat (x :: 'a::len word) \<noteq> 0"
  by (metis unat_eq_zero)

lemma next_generation_nat:
  assumes "g \<noteq> (0 :: u32)"
  shows "unat (next_generation g) = (if unat g = 4294967295 then 1 else unat g + 1)"
proof (cases "unat g = 4294967295")
  case True
  then have "g = 0xFFFFFFFF" by (simp add: word_unat_eq_iff)
  then show ?thesis by (simp add: next_generation_def)
next
  case False
  then have "unat g + 1 < 2 ^ LENGTH(32)" using unat_lt_u32 [of g] by simp
  then have "unat (g + 1) = unat g + 1" by (rule unat_Suc_small)
  moreover from this have "g + 1 \<noteq> 0" by (metis add_is_0 one_neq_zero unat_0)
  ultimately show ?thesis using False by (simp add: next_generation_def)
qed

text \<open>Generations run through the numbers from 1 to \<open>2 ^ 32 - 1\<close> in a circle.\<close>

lemma generation_circle:
  assumes "g \<noteq> 0"
  shows "unat ((next_generation ^^ k) g) = 1 + (unat g - 1 + k) mod 4294967295"
proof (induction k)
  case 0
  have "unat g \<noteq> 0" using assms by (rule unat_neq_0)
  then have "unat g - 1 < 4294967295" using unat_lt_u32 [of g] by linarith
  with \<open>unat g \<noteq> 0\<close> show ?case by simp
next
  case (Suc k)
  let ?h = "(next_generation ^^ k) g"
  have "?h \<noteq> 0" using Suc by auto
  from next_generation_nat [OF this] Suc show ?case
    by (simp add: mod_Suc)
qed

text \<open>
  Property C13. A late completion cannot hit a later transaction. When the context of a message comes back after its slot
  has been subscribed again, \<open>k\<close> times for any \<open>k\<close> from one to \<open>2 ^ 32 - 2\<close>, the completion is
  ignored, whatever command, revision and state the slot has by then and whatever the result is. The
  generation skips zero, so that a message that belongs to no transaction is ignored as well.
\<close>

theorem cm_late_completion_ignored:
  assumes "tr_uiGeneration t \<noteq> 0" and "0 < k" and "k < 2 ^ 32 - 1"
    and "tr_uiGeneration (slot s (unat idx)) = (next_generation ^^ k) (tr_uiGeneration t)"
    and "ctx = tx_context t idx \<or> ctx = zero_context"
  shows "vNotify_MessageTxComplete E CB ctx res err s = s"
proof -
  let ?g = "tr_uiGeneration t"
  have "unat ?g \<noteq> 0" using assms(1) by (rule unat_neq_0)
  then have "(unat ?g - 1 + k) mod 4294967295 \<noteq> unat ?g - 1"
  proof -
    assume g: "unat ?g \<noteq> 0"
    have lt: "unat ?g - 1 < 4294967295" using g unat_lt_u32 [of ?g] by linarith
    show ?thesis
    proof (cases "unat ?g - 1 + k < 4294967295")
      case True
      with assms(2) show ?thesis by simp
    next
      case False
      then have "(unat ?g - 1 + k) mod 4294967295 = unat ?g - 1 + k - 4294967295"
        using lt assms(3) by (simp add: mod_if)
      moreover have "k < 4294967295" using assms(3) by simp
      ultimately show ?thesis using False lt by linarith
    qed
  qed
  then have "unat ((next_generation ^^ k) ?g) \<noteq> unat ?g"
    using generation_circle [OF assms(1), of k] \<open>unat ?g \<noteq> 0\<close> by linarith
  then have "(next_generation ^^ k) ?g \<noteq> ?g" by metis
  with assms(4,5) show ?thesis
    by (auto simp: vNotify_MessageTxComplete_def completion_matches_def tx_context_def zero_context_def Let_def)
qed

text \<open>A slot freed and subscribed again for the same command.\<close>

theorem cm_late_completion_ignored_witness:
  "vNotify_MessageTxComplete demo_cm no_callbacks (tx_context (slot demo_subscribed 0) 0) eCAN_TxComplete_Success 0
     (upd_slot 0 (open_slot eSysMgmt_CMD_Reserved_20 True 0 2 100) (vSetTransaction_Free 0 demo_subscribed))
   = upd_slot 0 (open_slot eSysMgmt_CMD_Reserved_20 True 0 2 100) (vSetTransaction_Free 0 demo_subscribed)"
proof -
  let ?s = "upd_slot 0 (open_slot eSysMgmt_CMD_Reserved_20 True 0 2 100) (vSetTransaction_Free 0 demo_subscribed)"
  have "tr_uiGeneration (slot demo_subscribed 0) = 1" "length (staCMDTransactions demo_subscribed) = 20"
    by (simp_all add: demo_subscribed_def open_slot_def cm_start_def zero_transaction_def next_generation_def)
  then have "tr_uiGeneration (slot demo_subscribed 0) \<noteq> 0"
      "tr_uiGeneration (slot ?s (unat (0 :: u8))) = (next_generation ^^ 1) (tr_uiGeneration (slot demo_subscribed 0))"
    by (simp_all add: open_slot_def vSetTransaction_Free_def vReset_TransactionState_def)
  from cm_late_completion_ignored [OF this(1) _ _ this(2),
      of "tx_context (slot demo_subscribed 0) 0" demo_cm no_callbacks eCAN_TxComplete_Success 0]
  show ?thesis by simp
qed

subsection \<open>Answers of the host\<close>

text \<open>A slot as \<open>vReset_TransactionState\<close> leaves it: free, with its generation kept.\<close>

definition freed_slot :: "sT_CmdTransaction_t \<Rightarrow> sT_CmdTransaction_t" where
  "freed_slot t = zero_transaction\<lparr>tr_eType := eNUMBER_OF_TRANSACTION_TYPEs, tr_uiGeneration := tr_uiGeneration t\<rparr>"

lemma reset_is_freed: "vReset_TransactionState i = upd_slot i freed_slot"
  unfolding vReset_TransactionState_def
  by (rule arg_cong [of _ _ "upd_slot i"]) (rule ext, simp add: freed_slot_def zero_transaction_def)

lemma freed_upd [simp]:
  "freed_slot (t\<lparr>tr_eState := x\<rparr>) = freed_slot t" "freed_slot (t\<lparr>tr_eErrorCode := e\<rparr>) = freed_slot t"
  by (simp_all add: freed_slot_def)

text \<open>What a slot must become when the host answers with the payload \<open>d\<close>: command, revision, answer, error.\<close>

definition ack_outcome :: "u8 list \<Rightarrow> sT_CmdTransaction_t \<Rightarrow> sT_CmdTransaction_t" where
  "ack_outcome d t =
     (case (can_ack_of_byte (d ! 2), sysmgmt_error_of_byte (d ! 3)) of
        (Some a, Some e) \<Rightarrow>
          if tr_eState t \<noteq> eTransState_WaitingFor_ACK \<or> tr_eCommand t \<noteq> sysmgmt_cmd_of_byte (d ! 0) \<or> tr_uiRevision t \<noteq> d ! 1
            then t
          else if (a = eCAN_ACK) \<noteq> (e = eSysMgmt_Error_None) then t
          else if a = eCAN_NACK \<and> \<not> bMessage_FormatError e \<and> e \<notin> nack_not_retriable \<and> tr_uiRetryCount t < tr_uiMaxRetryCount t
            then t\<lparr>tr_eErrorCode := e\<rparr>
          else freed_slot t
      | _ \<Rightarrow> t)"

lemma no_callback_simps [simp]:
  "vNotify_Controller_ForHostFeedback no_callbacks i s = upd_slot i freed_slot s"
  "vNotify_Controller_TransactionAbort no_callbacks i s = upd_slot i freed_slot s"
  "vNotify_Controller_ForHostNACK no_callbacks i s =
     (if tr_uiRetryCount (slot s i) < tr_uiMaxRetryCount (slot s i) \<and> tr_eErrorCode (slot s i) \<notin> nack_not_retriable
        then s else upd_slot i freed_slot s)"
  "bNotify_ControllerToReTransmit no_callbacks i s = (False, s)"
  "vNotify_TransmissionFailure no_callbacks c s = s"
  by (simp_all add: vNotify_Controller_ForHostFeedback_def vNotify_Controller_TransactionAbort_def
      vNotify_Controller_ForHostNACK_def bNotify_ControllerToReTransmit_def vNotify_TransmissionFailure_def
      no_callbacks_def vSetTransaction_Free_def reset_is_freed)

lemma upd_slot_table: "staCMDTransactions (upd_slot i f s) = (staCMDTransactions s)[i := f (slot s i)]"
  by (simp add: upd_slot_def)

text \<open>With at most one slot of a command, changing that slot is mapping over the table.\<close>

lemma upd_is_map:
  assumes inv: "cm_inv s" and i: "i < 20" and act: "active (slot s i)" and cmd: "tr_eCommand (slot s i) = c"
    and skip: "\<And>t. \<not> (active t \<and> tr_eCommand t = c) \<Longrightarrow> f t = t"
  shows "(staCMDTransactions s)[i := f (slot s i)] = map f (staCMDTransactions s)"
proof (rule nth_equalityI)
  fix j
  assume "j < length ((staCMDTransactions s)[i := f (slot s i)])"
  then have j: "j < 20" "j < length (staCMDTransactions s)" using inv by (simp_all add: cm_inv_def)
  have "\<not> (active (slot s j) \<and> tr_eCommand (slot s j) = c)" if "j \<noteq> i"
    using that cm_invD(3) [OF inv] act cmd i j cm_invD(1) [OF inv] by (auto simp: unique_commands_def)
  then show "(staCMDTransactions s)[i := f (slot s i)] ! j = map f (staCMDTransactions s) ! j"
    using j skip by (cases "j = i") auto
qed simp

lemma find_granted:
  assumes "\<And>i t w. fst (k_mutex_lock E i t w) = 0" and "find_and_lock E c is eSysMgmt_Error_None s = ((None, e), s')"
  shows "e = eSysMgmt_Error_None"
  using assms(2)
proof (induction "is" arbitrary: s)
  case (Cons i "is")
  obtain ok t where l: "try_lock E i 2 s = (ok, t)" by fastforce
  moreover have ok using l assms(1) by (auto simp: try_lock_def split: prod.splits) (metis fst_conv)
  ultimately show ?case using Cons by (auto split: if_splits)
qed simp

lemma find_granted_none:
  assumes "\<And>i t w. fst (k_mutex_lock E i t w) = 0" and "pstFindAndLockTransaction_ByCMDId E c s = ((None, e), s')"
  shows "\<forall>i < 20. active (slot s i) \<longrightarrow> tr_eCommand (slot s i) \<noteq> c"
  using find_result(3) [OF assms(2)] find_granted [OF assms(1) assms(2) [unfolded pstFindAndLockTransaction_ByCMDId_def]]
  by simp

lemma ack_effect:
  assumes inv: "cm_inv s" and locks: "\<And>i t w. fst (k_mutex_lock E i t w) = 0"
  shows "staCMDTransactions (vSubmit_To_TransManager_ACKMonitor E no_callbacks m s)
    = map (ack_outcome (sm_uiaData m)) (staCMDTransactions s)"
proof -
  let ?d = "sm_uiaData m" and ?c = "sysmgmt_cmd_of_byte (sm_uiaData m ! 0)"
  have own: "own_command (tr_eCommand t)" if "t \<in> set (staCMDTransactions s)" "tr_eState t = eTransState_WaitingFor_ACK" for t
    using that inv by (auto simp: cm_inv_def slot_ok_def)
  have skip: "ack_outcome ?d t = t" if "\<not> (active t \<and> tr_eCommand t = ?c)" for t
    using that by (auto simp: ack_outcome_def active_def split: option.split)
  show ?thesis
  proof (cases "?c = eSysMgmt_CMD_None \<or> sysmgmt_cmd_val ?c \<ge> sysmgmt_cmd_count")
    case True
    then have "\<not> own_command ?c" using own_not_none [of ?c] by (auto simp: own_command_def)
    then have "ack_outcome ?d t = t" if "t \<in> set (staCMDTransactions s)" for t
      using own [OF that] by (auto simp: ack_outcome_def split: option.split)
    then have "map (ack_outcome ?d) (staCMDTransactions s) = staCMDTransactions s" by (simp add: map_idI)
    with True show ?thesis by (simp add: vSubmit_To_TransManager_ACKMonitor_def vSend_NACK_def Let_def)
  next
    case False
    obtain p e t where f: "pstFindAndLockTransaction_ByCMDId E ?c s = ((p, e), t)" by (metis surj_pair)
    note same = same_but_worldD [OF find_result(1) [OF f]]
    show ?thesis
    proof (cases p)
      case None
      have "ack_outcome ?d u = u" if "u \<in> set (staCMDTransactions s)" for u
        using that skip find_granted_none [OF locks f [unfolded None]] cm_invD(1) [OF inv] by (metis in_set_conv_nth)
      then have "map (ack_outcome ?d) (staCMDTransactions s) = staCMDTransactions s" by (simp add: map_idI)
      with None False f same show ?thesis by (simp add: vSubmit_To_TransManager_ACKMonitor_def Let_def)
    next
      case (Some i)
      from find_result(2) [OF f Some] have i: "i < 20" "active (slot s i)" "tr_eCommand (slot s i) = ?c" by auto
      then have i': "i < length (staCMDTransactions t)" using cm_invD(1) [OF inv] same by simp
      have "map (ack_outcome ?d) (staCMDTransactions s) = (staCMDTransactions s)[i := ack_outcome ?d (slot s i)]"
        by (rule upd_is_map [OF inv i skip, symmetric])
      moreover have "staCMDTransactions (vSubmit_To_TransManager_ACKMonitor E no_callbacks m s)
          = (staCMDTransactions s)[i := ack_outcome ?d (slot s i)]"
        unfolding vSubmit_To_TransManager_ACKMonitor_def Let_def f Some if_not_P [OF False] prod.case option.case
        using i i' same
        by (cases "can_ack_of_byte (?d ! 2)"; cases "sysmgmt_error_of_byte (?d ! 3)")
           (auto simp: ack_outcome_def acknowledge_def vNotify_MsgFormatError_ToHost_def upd_slot_def Let_def
             list_update_id split: eT_CANACK_Ctrl.splits)
      ultimately show ?thesis by simp
    qed
  qed
qed

text \<open>
  Property C14. What an answer of the host does to the table, when no mutex is held elsewhere: every slot is changed as
  \<open>ack_outcome\<close> says, so that exactly the slot waiting for this command's acknowledgement with this
  revision is freed, and only a consistent answer frees it. A negative answer that may be retried is noted and the
  slot waits on.
\<close>

theorem cm_ack_effect:
  assumes inv: "cm_inv s" and locks: "\<And>i t w. fst (k_mutex_lock E i t w) = 0"
  shows "staCMDTransactions (vSubmit_To_TransManager_ACKMonitor E no_callbacks m s)
    = map (ack_outcome (sm_uiaData m)) (staCMDTransactions s)"
  by (rule ack_effect [OF inv locks])

text \<open>The slot that just sent its message and waits is freed by the answer.\<close>

definition demo_waiting :: "unit cm_sys" where
  "demo_waiting = vNotify_MessageTxComplete demo_cm no_callbacks (tx_context (slot demo_subscribed 0) 0)
     eCAN_TxComplete_Success 0 demo_subscribed"

lemma demo_waiting_inv: "cm_inv demo_waiting"
  unfolding demo_waiting_def
  by (rule null_client.completion_inv) (rule null_client.reach_inv [OF demo_subscribed_reach])

definition demo_ack :: sT_SysMgmt_CtrlMsg_t where
  "demo_ack = zero_sysmgmt_msg\<lparr>sm_eCMD := eSysMgmt_CMD_ACK_NACK, sm_uiLen := 4,
     sm_uiaData := [20, 0, 10, 0] @ replicate 60 0\<rparr>"

theorem cm_ack_effect_witness:
  "staCMDTransactions (vSubmit_To_TransManager_ACKMonitor demo_cm no_callbacks demo_ack demo_waiting)
    = map (ack_outcome ([20, 0, 10, 0] @ replicate 60 0)) (staCMDTransactions demo_waiting)"
proof -
  have "sm_uiaData demo_ack = [20, 0, 10, 0] @ replicate 60 0" by (simp add: demo_ack_def)
  with cm_ack_effect [OF demo_waiting_inv, of demo_cm demo_ack] show ?thesis by simp
qed

subsection \<open>Timeouts\<close>

definition timed_out :: "('w, 'z) cm_platform_scheme \<Rightarrow> 64 word \<Rightarrow> sT_CmdTransaction_t \<Rightarrow> bool" where
  "timed_out E now t \<longleftrightarrow> tr_eState t \<in> {eTransState_WaitingFor_ACK, eTransState_Queued}
     \<and> bIsTimeOut E (tr_uiStartTime_ms t) now (tr_uiTrigTime_ms t)"

lemma fold_slots:
  assumes "\<And>i s. i < n \<Longrightarrow> length (staCMDTransactions s) = N \<Longrightarrow> staCMDTransactions (g i s) = (staCMDTransactions s)[i := h i (slot s i)]"
    and "length (staCMDTransactions s) = N" and "n \<le> N"
  shows "staCMDTransactions (fold g [0..<n] s) = map (\<lambda>i. if i < n then h i (slot s i) else slot s i) [0..<N]"
  using assms
proof (induction n)
  case 0
  then show ?case using map_nth [of "staCMDTransactions s"] by simp
next
  case (Suc n)
  let ?t = "fold g [0..<n] s"
  have IH: "staCMDTransactions ?t = map (\<lambda>i. if i < n then h i (slot s i) else slot s i) [0..<N]"
    using Suc by simp
  with Suc.prems have "staCMDTransactions (g n ?t) = (staCMDTransactions ?t)[n := h n (slot s n)]" by simp
  moreover have "\<dots> = map (\<lambda>i. if i < Suc n then h i (slot s i) else slot s i) [0..<N]"
    unfolding IH by (rule nth_equalityI) (auto simp: nth_list_update less_Suc_eq)
  ultimately show ?case by simp
qed

text \<open>
  Property C15. A pass of the timeout monitor, for an application without callbacks: it frees exactly the slots that
  wait for an acknowledgement or for their back-off, whose time is up, and whose mutex nobody holds.
  All other slots are untouched; in particular a slot that waits for the completion of its
  transmission has no time limit.
\<close>

theorem cm_tracking_effect:
  assumes "length (staCMDTransactions s) = 20"
    and locks: "\<And>i w. k_mutex_lock E i 0 w = (if held i then 1 else 0, w)"
    and clock: "\<And>w. k_uptime_get E w = (now, w)"
  shows "staCMDTransactions (vHandle_SysMgmt_MessageTracking E no_callbacks s)
    = map (\<lambda>i. if \<not> held i \<and> timed_out E (word_of_int now) (slot s i) then freed_slot (slot s i) else slot s i) [0..<20]"
proof -
  let ?h = "\<lambda>i t. if \<not> held i \<and> timed_out E (word_of_int now) t then freed_slot t else t"
  have "staCMDTransactions (track_slot E no_callbacks i s) = (staCMDTransactions s)[i := ?h i (slot s i)]"
    if "i < 20" "length (staCMDTransactions s) = 20" for i s
    using that
    by (auto simp: track_slot_def try_lock_def read_clock_def locks clock timed_out_def Let_def upd_slot_table)
  from fold_slots [where g = "track_slot E no_callbacks" and h = ?h, OF this assms(1)] show ?thesis
    by (simp add: vHandle_SysMgmt_MessageTracking_def MAX_NUMBER_OF_TRANSACTION_TRACKINGs_def cong: map_cong)
qed

text \<open>The waiting slot of the demonstration, whose limit of 100 ms is up at 107 ms, unless its mutex is held.\<close>

theorem cm_tracking_effect_witness:
  "staCMDTransactions (vHandle_SysMgmt_MessageTracking
       (demo_cm\<lparr>k_uptime_get := (\<lambda>w. (107, w)), k_mutex_lock := (\<lambda>i t w. (if i = 3 then 1 else 0, w))\<rparr>) no_callbacks demo_waiting)
    = map (\<lambda>i. if i \<noteq> 3 \<and> timed_out demo_cm 107 (slot demo_waiting i) then freed_slot (slot demo_waiting i)
               else slot demo_waiting i) [0..<20]"
  by (subst cm_tracking_effect [where held = "\<lambda>i. i = 3" and now = 107])
     (simp_all add: cm_invD(1) [OF demo_waiting_inv] timed_out_def)

subsection \<open>Retries\<close>

text \<open>
  What the application does to a slot at every timeout: the monitor asks for a retransmission, and the
  application subscribes the same command again.
\<close>

definition retried :: "u8 \<Rightarrow> nat \<Rightarrow> sT_CmdTransaction_t \<Rightarrow> sT_CmdTransaction_t" where
  "retried r k = (retry_slot r \<circ> tr_eState_update (\<lambda>_. eTransState_PrepareRetransmit)) ^^ k"

lemma retried_count: "tr_uiMaxRetryCount (retried r k t) = tr_uiMaxRetryCount t"
  "tr_uiRetryCount (retried r k t) = tr_uiRetryCount t + of_nat k"
  by (induction k) (simp_all add: retried_def retry_slot_def Let_def)



text \<open>
  The counter has eight bits: for a maximum of 255 retries it wraps before it exceeds it, so that a
  transaction that is never answered is sent again for ever.
\<close>

theorem cm_retry_unbounded:
  "tr_eState (retried r k (open_slot c ack r 255 trig t)) = eTransState_WaitingFor_TxCompletion"
proof (cases k)
  case (Suc n)
  have "x \<le> (255 :: u8)" for x using unat_lt_u8 [of x] by (simp add: word_le_nat_alt)
  then show ?thesis using retried_count [of r n "open_slot c ack r 255 trig t"] Suc
    by (simp add: retried_def retry_slot_def open_slot_def Let_def not_less [symmetric])
qed (simp add: retried_def open_slot_def)

subsection \<open>The life of a transaction\<close>

lemma claim_free_granted:
  assumes "\<And>i t w. fst (k_mutex_lock E i t w) = 0" and "i \<in> set is" and "tr_eState (slot s i) = eTransState_Free"
  shows "fst (claim_free E is s) \<noteq> None"
  using assms(2,3)
proof (induction "is" arbitrary: s)
  case (Cons j "is")
  obtain ok t where l: "try_lock E j 0 s = (ok, t)" by fastforce
  moreover have ok using l assms(1) by (auto simp: try_lock_def split: prod.splits) (metis fst_conv)
  moreover have "staCMDTransactions t = staCMDTransactions s" using same_but_worldD(1) [OF try_lock_same [OF l]] .
  ultimately show ?case using Cons by (auto split: if_splits)
qed simp

lemma subscribe_new:
  assumes inv: "cm_inv s" and locks: "\<And>i t w. fst (k_mutex_lock E i t w) = 0"
    and msg: "\<not> tx_uiLen m < 1" "tx_puiData m = Some d" "own_command (sysmgmt_cmd_of_byte (d ! 0))"
    and new: "\<forall>i < 20. active (slot s i) \<longrightarrow> tr_eCommand (slot s i) \<noteq> sysmgmt_cmd_of_byte (d ! 0)"
    and free: "j < 20" "tr_eState (slot s j) = eTransState_Free"
  obtains i s' where "i < 20" and "tr_eState (slot s i) = eTransState_Free"
    and "stSubscribe_To_TransactionManager E (Some m) ack maxr trig s = ((eSysMgmt_Error_None, Some i), s')"
    and "staCMDTransactions s' = (staCMDTransactions s)[i := open_slot (sysmgmt_cmd_of_byte (d ! 0)) ack
           (uiGet_CommandRevision (sysmgmt_cmd_of_byte (d ! 0)) s) maxr trig (slot s i)]"
proof -
  let ?c = "sysmgmt_cmd_of_byte (d ! 0)"
  obtain p e t where f: "pstFindAndLockTransaction_ByCMDId E ?c s = ((p, e), t)" by (metis surj_pair)
  note same = same_but_worldD [OF find_result(1) [OF f]]
  have p: "p = None" using find_result(2) [OF f] new by (cases p) auto
  have e: "e = eSysMgmt_Error_None"
    using find_granted [OF locks f [unfolded p pstFindAndLockTransaction_ByCMDId_def]] .
  obtain q u where cl: "pstClaimFreeTransaction E t = (q, u)" by fastforce
  note same2 = same_but_worldD [OF claim_result(1) [OF cl]]
  have "fst (claim_free E [0..<20] t) \<noteq> None" using locks
    by (rule claim_free_granted [where i = j]) (use free same in simp_all)
  then obtain i where q: "q = Some i" using cl by (auto simp: pstClaimFreeTransaction_def MAX_NUMBER_OF_TRANSACTION_TRACKINGs_def)
  from claim_result(2) [OF cl q] same have i: "i < 20" "tr_eState (slot s i) = eTransState_Free" by auto
  have rev: "uiGet_CommandRevision ?c u = uiGet_CommandRevision ?c s"
    using same same2 by (simp add: uiGet_CommandRevision_def)
  show ?thesis
    by (rule that [OF i, of "upd_slot i (open_slot ?c ack (uiGet_CommandRevision ?c u) maxr trig) u"])
       (use f p e cl q msg rev same same2 in
        \<open>simp_all add: stSubscribe_To_TransactionManager_def Let_def upd_slot_table del: not_less\<close>)
qed

text \<open>The host's answer \<open>a\<close> with error \<open>e\<close> to command \<open>c\<close> with revision \<open>r\<close>, as the frame on the wire.\<close>

definition answer_frame :: "u8 \<Rightarrow> eT_SysMgmtCommand_t \<Rightarrow> u8 \<Rightarrow> eT_CANACK_Ctrl \<Rightarrow> eT_SysMgmtErrorCode_t \<Rightarrow> u8 list \<Rightarrow> can_frame" where
  "answer_frame dlc c r a e pad = \<lparr>cf_id = 0x400, cf_dlc = dlc, 
     cf_data = [21, 4, sysmgmt_cmd_val c, r, can_ack_val a, sysmgmt_error_val e] @ pad\<rparr>"

lemma answer_frame_effect:
  assumes inv: "cm_inv s" and locks: "\<And>i t w. fst (k_mutex_lock E i t w) = 0"
    and len: "6 \<le> can_dlc_to_bytes E dlc"
  shows "staCMDTransactions (vHandle_SysMgmt_Messages E no_callbacks (answer_frame dlc c r a e pad) s)
    = map (ack_outcome [sysmgmt_cmd_val c, r, can_ack_val a, sysmgmt_error_val e]) (staCMDTransactions s)"
proof -
  have "unat (6 :: u8) \<le> unat (can_dlc_to_bytes E dlc)" using len by (simp only: word_le_nat_alt)
  then have len': "\<not> can_dlc_to_bytes E dlc < 2" "\<not> unat (can_dlc_to_bytes E dlc) < 6"
    by (simp_all add: word_less_nat_alt)
  let ?m = "zero_sysmgmt_msg\<lparr>sm_eCMD := eSysMgmt_CMD_ACK_NACK, sm_uiLen := 4\<rparr>"
  let ?d = "[sysmgmt_cmd_val c, r, can_ack_val a, sysmgmt_error_val e]"
  have "eValidate_PayLoadLength E no_callbacks (answer_frame dlc c r a e pad) zero_sysmgmt_msg = (eSysMgmt_Error_None, ?m)"
    using len' by (simp add: eValidate_PayLoadLength_def answer_frame_def sysmgmt_cmd_of_byte_def sysmgmt_cmd_count_def
        iGet_CmdPayLoadLen_def Let_def)
  then have "vHandle_SysMgmt_Messages E no_callbacks (answer_frame dlc c r a e pad) s
      = vSubmit_To_TransManager_ACKMonitor E no_callbacks (?m\<lparr>sm_uiaData := ?d @ replicate 60 0\<rparr>) s"
    by (simp add: vHandle_SysMgmt_Messages_def answer_frame_def iGetCAN_RxFilterID_def uiGetCAN_DestID_def
        vDispatch_Message_def zero_sysmgmt_msg_def memcpy_list_def Let_def)
  moreover have "ack_outcome (?d @ replicate 60 0) = ack_outcome ?d"
    by (rule ext) (simp add: ack_outcome_def sysmgmt_error_val_inverse)
  ultimately show ?thesis using ack_effect [OF inv locks] by simp
qed

text \<open>
  Property C12. The life of a transaction. With no mutex held elsewhere, a manager whose table is sound, that has a free
  slot and no transaction of the command, accepts the subscription of a message; when the driver
  reports its transmission with the context it was sent with, and then the host's acknowledgement
  arrives with the revision of the command, the slot is free again. In between the slot waits for the transmission and
  then for the acknowledgement, and no other slot is touched at any point.
\<close>

theorem cm_transaction_lifecycle:
  assumes inv: "cm_inv s" and locks: "\<And>i t w. fst (k_mutex_lock E i t w) = 0"
    and msg: "\<not> tx_uiLen m < 1" "tx_puiData m = Some d" "sysmgmt_cmd_of_byte (d ! 0) = c" "own_command c"
    and new: "\<forall>i < 20. active (slot s i) \<longrightarrow> tr_eCommand (slot s i) \<noteq> c"
    and free: "j < 20" "tr_eState (slot s j) = eTransState_Free"
    and len: "6 \<le> can_dlc_to_bytes E dlc"
  shows "\<exists>i s1 s2 s3. i < 20 \<and> tr_eState (slot s i) = eTransState_Free
    \<and> stSubscribe_To_TransactionManager E (Some m) True maxr trig s = ((eSysMgmt_Error_None, Some i), s1)
    \<and> s2 = vNotify_MessageTxComplete E no_callbacks (tx_context (slot s1 i) (of_nat i)) eCAN_TxComplete_Success err s1
    \<and> s3 = vHandle_SysMgmt_Messages E no_callbacks
             (answer_frame dlc c (uiGet_CommandRevision c s) eCAN_ACK eSysMgmt_Error_None pad) s2
    \<and> tr_eState (slot s1 i) = eTransState_WaitingFor_TxCompletion
    \<and> tr_eState (slot s2 i) = eTransState_WaitingFor_ACK
    \<and> slot s3 i = freed_slot (slot s1 i)
    \<and> (\<forall>k < 20. k \<noteq> i \<longrightarrow> slot s1 k = slot s k \<and> slot s2 k = slot s k \<and> slot s3 k = slot s k)"
proof -
  let ?r = "uiGet_CommandRevision c s"
  obtain i s1 where i: "i < 20" "tr_eState (slot s i) = eTransState_Free"
    and run: "stSubscribe_To_TransactionManager E (Some m) True maxr trig s = ((eSysMgmt_Error_None, Some i), s1)"
    and tab: "staCMDTransactions s1 = (staCMDTransactions s)[i := open_slot c True ?r maxr trig (slot s i)]"
    using subscribe_new [OF inv locks msg(1,2) _ _ free, of True maxr trig] msg(3,4) new by metis
  have inv1: "cm_inv s1" by (rule subscribe_transaction_inv [OF inv run])
  have s1: "slot s1 i = open_slot c True ?r maxr trig (slot s i)"
    using tab i cm_invD(1) [OF inv] by simp
  have idx: "unat (of_nat i :: u8) = i" using i(1) by (intro unat_of_nat_small) simp
  obtain s2 where s2: "s2 = vNotify_MessageTxComplete E no_callbacks (tx_context (slot s1 i) (of_nat i)) eCAN_TxComplete_Success err s1"
    by blast
  have inv2: "cm_inv s2" unfolding s2 by (rule null_client.completion_inv [OF inv1])
  obtain now t where clk: "read_clock E s1 = (now, t)" by fastforce
  have tab2: "staCMDTransactions s2
      = (staCMDTransactions s1)[i := (slot s1 i)\<lparr>tr_uiStartTime_ms := now, tr_eState := eTransState_WaitingFor_ACK\<rparr>]"
    unfolding s2 using s1 i(1) clk same_but_worldD(1) [OF read_clock_same [OF clk]]
    by (simp add: vNotify_MessageTxComplete_def tx_context_def completion_matches_def open_slot_def idx
        MAX_NUMBER_OF_TRANSACTION_TRACKINGs_def Let_def upd_slot_table)
  let ?d = "[sysmgmt_cmd_val c, ?r, can_ack_val eCAN_ACK, sysmgmt_error_val eSysMgmt_Error_None]"
  let ?s3 = "vHandle_SysMgmt_Messages E no_callbacks (answer_frame dlc c ?r eCAN_ACK eSysMgmt_Error_None pad) s2"
  have tab3: "staCMDTransactions ?s3 = map (ack_outcome ?d) (staCMDTransactions s2)"
    by (rule answer_frame_effect [OF inv2 locks len])
  have c: "sysmgmt_cmd_of_byte (sysmgmt_cmd_val c) = c" using msg(3) by auto
  have len20: "length (staCMDTransactions s1) = 20" "length (staCMDTransactions s2) = 20" "length (staCMDTransactions s) = 20"
    using cm_invD(1) [OF inv] cm_invD(1) [OF inv1] cm_invD(1) [OF inv2] by simp_all
  have slot2: "slot s2 i = (slot s1 i)\<lparr>tr_uiStartTime_ms := now, tr_eState := eTransState_WaitingFor_ACK\<rparr>"
    using i(1) len20 by (simp add: tab2)
  have "slot ?s3 i = ack_outcome ?d (slot s2 i)" using i(1) len20 by (simp add: tab3)
  also have "\<dots> = freed_slot (slot s1 i)"
    unfolding slot2 unfolding s1
    by (simp add: ack_outcome_def sysmgmt_error_val_inverse c open_slot_def freed_slot_def can_ack_val_inverse [of eCAN_ACK, simplified])
  finally have "slot ?s3 i = freed_slot (slot s1 i)" .
  moreover have "slot s1 k = slot s k \<and> slot s2 k = slot s k \<and> slot ?s3 k = slot s k" if "k < 20" "k \<noteq> i" for k
  proof -
    have "ack_outcome ?d (slot s k) = slot s k"
      using new that by (auto simp: ack_outcome_def c active_def split: option.split)
    then show ?thesis using that len20 by (simp add: tab3 tab2 tab)
  qed
  moreover have "tr_eState (slot s1 i) = eTransState_WaitingFor_TxCompletion" "tr_eState (slot s2 i) = eTransState_WaitingFor_ACK"
    unfolding slot2 unfolding s1 by (simp_all add: open_slot_def)
  ultimately show ?thesis using i run s2 by blast
qed

theorem cm_transaction_lifecycle_witness:
  "\<exists>i s1. stSubscribe_To_TransactionManager demo_cm (Some demo_cm_msg) True 2 100 (cm_start ()) = ((eSysMgmt_Error_None, Some i), s1)
    \<and> tr_eState (slot s1 i) = eTransState_WaitingFor_TxCompletion"
proof -
  have "\<forall>i < 20. active (slot (cm_start ()) i) \<longrightarrow> tr_eCommand (slot (cm_start ()) i) \<noteq> eSysMgmt_CMD_Reserved_20"
    by (simp add: start_slots)
  moreover have "tr_eState (slot (cm_start ()) 0) = eTransState_Free" by (simp add: start_slots zero_transaction_def)
  ultimately show ?thesis
    using cm_transaction_lifecycle [OF start_inv [of "()"], of demo_cm demo_cm_msg "[20, 0]" eSysMgmt_CMD_Reserved_20 0 15 2 100 0 "[]"]
    by (auto simp: demo_cm_msg_def)
qed

subsection \<open>Format errors\<close>

text \<open>
  Two nodes cannot keep telling each other about malformed messages: whatever a frame with the format error
  command carries, too short or malformed as it may be, the manager sends nothing in answer to it. (What the
  driver would do with a message is irrelevant to the result, for any two platforms that differ in that only.)
\<close>

theorem cm_format_error_unanswered:
  assumes "cf_data fr ! 0 = 22" and "1 \<le> can_dlc_to_bytes E (cf_dlc fr)"
  shows "vHandle_SysMgmt_Messages (E\<lparr>eFlexCAN_SendMsg := send\<rparr>) no_callbacks fr s
    = vHandle_SysMgmt_Messages E no_callbacks fr s"
proof -
  have lock: "try_lock (E\<lparr>eFlexCAN_SendMsg := send\<rparr>) = try_lock E"
    by (intro ext) (simp add: try_lock_def)
  have "find_and_lock (E\<lparr>eFlexCAN_SendMsg := send\<rparr>) c is e s = find_and_lock E c is e s" for c "is" e s
    by (induction "is" arbitrary: e s) (simp_all add: lock split: prod.split)
  then have find: "pstFindAndLockTransaction_ByCMDId (E\<lparr>eFlexCAN_SendMsg := send\<rparr>) = pstFindAndLockTransaction_ByCMDId E"
    by (intro ext) (simp add: pstFindAndLockTransaction_ByCMDId_def)
  have valid: "eValidate_PayLoadLength (E\<lparr>eFlexCAN_SendMsg := send\<rparr>) = eValidate_PayLoadLength E"
    by (intro ext) (simp add: eValidate_PayLoadLength_def)
  have cmd: "fst (eValidate_PayLoadLength E no_callbacks fr m) = eSysMgmt_Error_None
      \<Longrightarrow> sm_eCMD (snd (eValidate_PayLoadLength E no_callbacks fr m)) = eSysMgmt_CMD_Ret_InvalidMsgFormat" for m
    using assms(1) by (auto simp: eValidate_PayLoadLength_def Let_def sysmgmt_cmd_of_byte_def split: if_splits)
  show ?thesis
    using assms cmd [of zero_sysmgmt_msg] valid
    by (auto simp: vHandle_SysMgmt_Messages_def vDispatch_Message_def vSubmit_To_HandleInvalidMsgFormat_def find Let_def
        split: prod.split)
qed

theorem cm_format_error_unanswered_witness:
  "vHandle_SysMgmt_Messages (demo_cm\<lparr>eFlexCAN_SendMsg := (\<lambda>m w. (eCAN_TxSubmit_QueueFull, w))\<rparr>) no_callbacks
     \<lparr>cf_id = 0x400, cf_dlc = 1, cf_data = [22]\<rparr> demo_subscribed
   = vHandle_SysMgmt_Messages demo_cm no_callbacks \<lparr>cf_id = 0x400, cf_dlc = 1, cf_data = [22]\<rparr> demo_subscribed"
  by (rule cm_format_error_unanswered) simp_all

end
