(* ===== verification/Lfs_Types.thy ===== *)
theory Lfs_Types
  imports Wall_Prelude
begin

text \<open>
  What the flash file system side shares: LittleFs_DataTypes.h, the limits of ExtFlash_ProjDef.h, the error
  numbers, and the Zephyr file system and kernel services as the record \<open>fs_services\<close> over an arbitrary
  world. C strings are HOL strings without their terminator.
\<close>

subsection \<open>Error numbers and limits\<close>

text \<open>Values of the C library; nothing depends on more than that they are positive and distinct.\<close>

named_theorems errno_defs

definition ENOENT :: int where [errno_defs]: "ENOENT = 2"
definition EIO :: int where [errno_defs]: "EIO = 5"
definition EBADF :: int where [errno_defs]: "EBADF = 9"
definition EACCES :: int where [errno_defs]: "EACCES = 13"
definition EAGAIN :: int where [errno_defs]: "EAGAIN = 11"
definition EBUSY :: int where [errno_defs]: "EBUSY = 16"
definition EEXIST :: int where [errno_defs]: "EEXIST = 17"
definition ENOTDIR :: int where [errno_defs]: "ENOTDIR = 20"
definition EINVAL :: int where [errno_defs]: "EINVAL = 22"
definition EFBIG :: int where [errno_defs]: "EFBIG = 27"
definition ENOSPC :: int where [errno_defs]: "ENOSPC = 28"
definition ENOMSG :: int where [errno_defs]: "ENOMSG = 35"
definition ENOLCK :: int where [errno_defs]: "ENOLCK = 46"
definition EBADE :: int where [errno_defs]: "EBADE = 50"
definition ENODATA :: int where [errno_defs]: "ENODATA = 61"
definition EBADMSG :: int where [errno_defs]: "EBADMSG = 77"
definition ENOTEMPTY :: int where [errno_defs]: "ENOTEMPTY = 90"
definition ENAMETOOLONG :: int where [errno_defs]: "ENAMETOOLONG = 91"
definition EALREADY :: int where [errno_defs]: "EALREADY = 120"
definition EMSGSIZE :: int where [errno_defs]: "EMSGSIZE = 122"
definition EILSEQ :: int where [errno_defs]: "EILSEQ = 138"

definition MAX_FILE_NAME_LENGTH :: nat where [wall_simps]: "MAX_FILE_NAME_LENGTH = 30"
definition MAX_FILE_COUNT :: nat where [wall_simps]: "MAX_FILE_COUNT = 32"
definition MAX_FILE_PATH_LENGTH :: nat where [wall_simps]: "MAX_FILE_PATH_LENGTH = 100"
definition MAX_DIRECTORY_COUNT :: nat where [wall_simps]: "MAX_DIRECTORY_COUNT = 10"
definition MAX_FRAME_LENGTH :: nat where [wall_simps]: "MAX_FRAME_LENGTH = 256"
definition MAX_MSGQ_DEPTH :: nat where [wall_simps]: "MAX_MSGQ_DEPTH = 10"

text \<open>\<open>mount-point\<close> of ExtFlash_Ctrl.overlay and of the standalone build.\<close>

definition EXT_LITTLEFS_MOUNT_POINT :: string where
  "EXT_LITTLEFS_MOUNT_POINT = ''/lfs''"

definition EXT_LITTLEFS_IMAGE_DIRECTORY :: string where
  "EXT_LITTLEFS_IMAGE_DIRECTORY = EXT_LITTLEFS_MOUNT_POINT @ ''/Images/''"

definition EXT_LITTLEFS_ICONS_DIRECTORY :: string where
  "EXT_LITTLEFS_ICONS_DIRECTORY = EXT_LITTLEFS_MOUNT_POINT @ ''/Icons/''"

definition EXT_LITTLEFS_DATA_DIRECTORY :: string where
  "EXT_LITTLEFS_DATA_DIRECTORY = EXT_LITTLEFS_MOUNT_POINT @ ''/Data/''"

definition EXT_LITTLEFS_CONFIG_DIRECTORY :: string where
  "EXT_LITTLEFS_CONFIG_DIRECTORY = EXT_LITTLEFS_MOUNT_POINT @ ''/Config/''"

subsection \<open>Data\<close>

datatype eFileType_t = eFile_Error | eFile_Config | eFile_Data | eFile_Image | eFile_Icon | eNUMBER_OF_FILE_TYPEs

datatype eFileTransfer_State_t =
    eFileTransfer_Idle
  | eFileTransfer_Receiving
  | eFileTransfer_Finalizing
  | eFileTransfer_Failed
  | eFileTransfer_Success

datatype eErrorState_t =
    eErrorState_None
  | eErrorState_TimeOut
  | eErrorState_WriteError
  | eErrorState_CRCMismatch
  | eErrorState_ReceivedByteCountMismatch
  | eErrorState_FileDelete
  | eErrorState_FileSync
  | eErrorState_FileClose
  | eErrorState_RefreshFileCatalog
  | eErrorState_InvalidRequest
  | eErrorState_QueueError
  | eErrorState_FrameCRCMismatch
  | eErrorState_FrameSequence

text \<open>The length field of a catalogue entry is the length of its name.\<close>

record sT_FileInfo_t =
  fi_caFileName :: string
  fi_caFilePath :: string
  fi_uiFileNameLen :: nat
  fi_uiFileSize :: nat

record sT_BulkTransferData =
  bd_eFileType :: eFileType_t
  bd_pcaFileName :: string
  bd_uiFileSize :: u32
  bd_uiCRC :: u16

record sT_BulkDataControl_t =
  bc_eTransferState :: eFileTransfer_State_t
  bc_eFileType :: eFileType_t
  bc_pcaDirPath :: string
  bc_pcaTotalFilePath :: string
  bc_uiFileSize :: u32
  bc_uiReceivedSize :: u32
  bc_uiAcceptedSize :: u32
  bc_uiNextFrameId :: u32
  bc_uiRunningCRC :: u16
  bc_uiCRC :: u16
  bc_uiOffset :: u32
  bc_uiLastActivityTime_ms :: u32
  bc_bMsgQ_Initialized :: bool
  bc_bMsg_ThreadInitialized :: bool
  bc_eError :: eErrorState_t
  bc_bFileOpen :: bool
  bc_stTFileData :: nat

record sT_MsgData_t =
  md_uiFrameId :: u32
  md_uiMsg :: "u8 list"
  md_uiDataLen :: u16
  md_uiFrameCRC :: u16

record sT_TransferResult_t =
  tr_eTransferState :: eFileTransfer_State_t
  tr_eErrorState :: eErrorState_t

text \<open>\<open>sT_BulkQueueMessage_t\<close>; an end message carries no data.\<close>

datatype sT_BulkQueueMessage_t = eBulkQueueMessage_Data sT_MsgData_t | eBulkQueueMessage_End

subsection \<open>Services\<close>

datatype fs_dir_entry_type = FS_DIR_ENTRY_FILE | FS_DIR_ENTRY_DIR

record fs_dirent =
  de_type :: fs_dir_entry_type
  de_name :: string
  de_size :: nat

definition zero_dirent :: fs_dirent where
  "zero_dirent = \<lparr>de_type = FS_DIR_ENTRY_FILE, de_name = '''', de_size = 0\<rparr>"

text \<open>The flag sets the code opens files with.\<close>

datatype fs_mode = FS_O_READ | FS_O_WRITE_TRUNC | FS_O_CREATE_WRITE

datatype lfs_mutex = kMutex_FileAccess | kMutex_BulkTransfer

text \<open>
  Files and directories that are open are named by numbers. A read returns its bytes, as many as its result
  says. \<open>lfs_mutex_lock\<close> is the result of a lock request with a limit of 100 ms.
\<close>

record 'w fs_services =
  fs_mount :: "'w \<Rightarrow> int \<times> 'w"
  fs_stat :: "string \<Rightarrow> 'w \<Rightarrow> (int \<times> fs_dirent) \<times> 'w"
  fs_open :: "string \<Rightarrow> fs_mode \<Rightarrow> 'w \<Rightarrow> (int \<times> nat) \<times> 'w"
  fs_read :: "nat \<Rightarrow> nat \<Rightarrow> 'w \<Rightarrow> (int \<times> u8 list) \<times> 'w"
  fs_write :: "nat \<Rightarrow> u8 list \<Rightarrow> 'w \<Rightarrow> int \<times> 'w"
  fs_sync :: "nat \<Rightarrow> 'w \<Rightarrow> int \<times> 'w"
  fs_close :: "nat \<Rightarrow> 'w \<Rightarrow> int \<times> 'w"
  fs_unlink :: "string \<Rightarrow> 'w \<Rightarrow> int \<times> 'w"
  fs_mkdir :: "string \<Rightarrow> 'w \<Rightarrow> int \<times> 'w"
  fs_opendir :: "string \<Rightarrow> 'w \<Rightarrow> (int \<times> nat) \<times> 'w"
  fs_readdir :: "nat \<Rightarrow> 'w \<Rightarrow> (int \<times> fs_dirent) \<times> 'w"
  fs_closedir :: "nat \<Rightarrow> 'w \<Rightarrow> int \<times> 'w"
  lfs_mutex_lock :: "lfs_mutex \<Rightarrow> 'w \<Rightarrow> int \<times> 'w"
  lfs_uptime_32 :: "'w \<Rightarrow> u32 \<times> 'w"

text \<open>
  The controller's variables: the transfer control block, the first \<open>uiFileCount\<close> entries of the catalogue,
  the message queue, the semaphore of the worker, and whether the worker runs and its clean-up work is
  submitted.
\<close>

record 'w lfs_sys =
  stTBulkDataCtrl :: sT_BulkDataControl_t
  stTFileCatalog :: "sT_FileInfo_t list"
  stMsgQueue_FileTransfer :: "sT_BulkQueueMessage_t list"
  kSem_BulkWorkerDone :: nat
  bulk_worker_runs :: bool
  bulk_work_submitted :: bool
  lfs_world :: 'w

text \<open>A call of a service.\<close>

definition io :: "('w \<Rightarrow> 'a \<times> 'w) \<Rightarrow> 'w lfs_sys \<Rightarrow> 'a \<times> 'w lfs_sys" where
  "io f s = (let (r, w) = f (lfs_world s) in (r, s\<lparr>lfs_world := w\<rparr>))"

abbreviation on_ctrl :: "(sT_BulkDataControl_t \<Rightarrow> sT_BulkDataControl_t) \<Rightarrow> 'w lfs_sys \<Rightarrow> 'w lfs_sys" where
  "on_ctrl f s \<equiv> s\<lparr>stTBulkDataCtrl := f (stTBulkDataCtrl s)\<rparr>"

definition eGetTransferState :: "'w lfs_sys \<Rightarrow> eFileTransfer_State_t" where
  "eGetTransferState s = bc_eTransferState (stTBulkDataCtrl s)"

definition bIsBulkTransferActive :: "'w lfs_sys \<Rightarrow> bool" where
  "bIsBulkTransferActive s \<longleftrightarrow> eGetTransferState s \<noteq> eFileTransfer_Idle"

subsection \<open>Strings\<close>

definition strnlen :: "string \<Rightarrow> nat \<Rightarrow> nat" where
  "strnlen s n = min (length s) n"

fun strstr :: "string \<Rightarrow> string \<Rightarrow> bool" where
  "strstr h n = (take (length n) h = n \<or> (case h of [] \<Rightarrow> False | _ # t \<Rightarrow> strstr t n))"

declare strstr.simps [simp del]

text \<open>\<open>"%s%s%s"\<close> of directory, separator and name, the separator being empty behind a slash.\<close>

definition join_path :: "string \<Rightarrow> string \<Rightarrow> string" where
  "join_path d n = d @ (if d \<noteq> [] \<and> d ! (length d - 1) = CHR ''/'' then [] else ''/'') @ n"

end
