(* ===== verification/Lfs_Files.thy ===== *)
theory Lfs_Files
  imports Lfs_Types "HOL-Library.Monad_Syntax"
begin

text \<open>
  LittleFs_Controller.c without the bulk transfer: path checks, the file catalogue and its refresh from the directory
  tree, creating, deleting, reading and writing files, deleting a directory. Loops that end only if the
  file system plays along are \<open>partial_function (option)\<close>; \<open>None\<close> stands for not returning.
\<close>

subsection \<open>Paths\<close>

definition bContains_DotPathComponent :: "string \<Rightarrow> bool" where
  "bContains_DotPathComponent p =
     (if strstr p ''/../'' \<or> strstr p ''/./'' then True
      else (length p \<ge> 3 \<and> drop (length p - 3) p = ''/..'') \<or> (length p \<ge> 2 \<and> drop (length p - 2) p = ''/.''))"

text \<open>The full path, \<open>None\<close> where the code returns false. The last two arguments are the callers' \<open>strnlen\<close>.\<close>

definition bBuild_Validate_FullPathName :: "string \<Rightarrow> string \<Rightarrow> nat \<Rightarrow> nat \<Rightarrow> string option" where
  "bBuild_Validate_FullPathName path name uiFilePathLen uiFileNameLen =
     (let root = EXT_LITTLEFS_MOUNT_POINT; n = length root in
      if uiFileNameLen = 0 \<or> uiFileNameLen \<ge> MAX_FILE_NAME_LENGTH then None
      else if uiFilePathLen = 0 \<or> uiFilePathLen \<ge> MAX_FILE_PATH_LENGTH then None
      else if CHR ''/'' \<in> set name then None
      else if path ! 0 \<noteq> CHR ''/'' then None
      else if take n path \<noteq> root \<or> (length path \<noteq> n \<and> path ! n \<noteq> CHR ''/'') then None
      else if bContains_DotPathComponent path then None
      else if name = ''.'' \<or> name = ''..'' then None
      else if length (join_path path name) \<ge> MAX_FILE_PATH_LENGTH then None
      else Some (join_path path name))"

subsection \<open>The catalogue\<close>

fun find_path :: "string \<Rightarrow> sT_FileInfo_t list \<Rightarrow> nat option" where
  "find_path p [] = None"
| "find_path p (f # fs) = (if fi_caFilePath f = p then Some 0 else map_option Suc (find_path p fs))"

definition pstGetFile_ByFilePath :: "string \<Rightarrow> 'w lfs_sys \<Rightarrow> nat option" where
  "pstGetFile_ByFilePath p s = find_path p (stTFileCatalog s)"

text \<open>The refresh walks the tree with a stack of directories still to read; the top is the head.\<close>

record scan =
  staStagingFileInfo :: "sT_FileInfo_t list"
  caDirectoryWorkList :: "string list"
  uiTotalDirectoryCount :: nat

text \<open>One directory entry: zero to go on, an error to stop.\<close>

definition scan_entry :: "string \<Rightarrow> fs_dirent \<Rightarrow> scan \<Rightarrow> int \<times> scan" where
  "scan_entry cur ent sc =
     (let child = join_path cur (de_name ent) in
      if de_name ent = ''.'' \<or> de_name ent = ''..'' then (0, sc)
      else if length child \<ge> MAX_FILE_PATH_LENGTH then (- ENAMETOOLONG, sc)
      else if de_type ent = FS_DIR_ENTRY_DIR then
        (if uiTotalDirectoryCount sc \<ge> MAX_DIRECTORY_COUNT \<or> length (caDirectoryWorkList sc) \<ge> MAX_DIRECTORY_COUNT
           then (- ENOSPC, sc)
         else (0, sc\<lparr>caDirectoryWorkList := child # caDirectoryWorkList sc,
                     uiTotalDirectoryCount := uiTotalDirectoryCount sc + 1\<rparr>))
      else if length (staStagingFileInfo sc) \<ge> MAX_FILE_COUNT then (- ENOSPC, sc)
      else if strnlen (de_name ent) 256 \<ge> MAX_FILE_NAME_LENGTH then (- ENAMETOOLONG, sc)
      else (0, sc\<lparr>staStagingFileInfo := staStagingFileInfo sc @
                    [\<lparr>fi_caFileName = de_name ent, fi_caFilePath = child,
                      fi_uiFileNameLen = strnlen (de_name ent) 256, fi_uiFileSize = de_size ent\<rparr>]\<rparr>))"

partial_function (option) read_entries ::
  "('w, 'z) fs_services_scheme \<Rightarrow> nat \<Rightarrow> string \<Rightarrow> scan \<Rightarrow> 'w lfs_sys \<Rightarrow> ((int \<times> scan) \<times> 'w lfs_sys) option" where
  "read_entries E h cur sc s =
     (let ((r, ent), s) = io (fs_readdir E h) s in
      if r < 0 \<or> de_name ent = '''' then Some ((r, sc), s)
      else
        (let (r, sc) = scan_entry cur ent sc
         in if r < 0 then Some ((r, sc), s) else read_entries E h cur sc s))"

text \<open>A directory is opened, read and closed; the first error is the result.\<close>

definition scan_directory ::
  "('w, 'z) fs_services_scheme \<Rightarrow> string \<Rightarrow> scan \<Rightarrow> 'w lfs_sys \<Rightarrow> ((int \<times> scan) \<times> 'w lfs_sys) option" where
  "scan_directory E cur sc s =
     (let ((r, h), s) = io (fs_opendir E cur) s in
      if r < 0 then Some ((r, sc), s)
      else do {
        ((r, sc), s) \<leftarrow> read_entries E h cur sc s;
        let (cr, s) = io (fs_closedir E h) s;
        Some ((if r = 0 \<and> cr < 0 then cr else r, sc), s)
      })"

partial_function (option) scan_directories ::
  "('w, 'z) fs_services_scheme \<Rightarrow> scan \<Rightarrow> 'w lfs_sys \<Rightarrow> ((int \<times> scan) \<times> 'w lfs_sys) option" where
  "scan_directories E sc s =
     (case caDirectoryWorkList sc of
        [] \<Rightarrow> Some ((0, sc), s)
      | cur # rest \<Rightarrow> do {
          ((r, sc), s) \<leftarrow> scan_directory E cur (sc\<lparr>caDirectoryWorkList := rest\<rparr>) s;
          if r < 0 then Some ((r, sc), s) else scan_directories E sc s
        })"

definition iGetFileInfo :: "('w, 'z) fs_services_scheme \<Rightarrow> string option \<Rightarrow> 'w lfs_sys \<Rightarrow> (int \<times> 'w lfs_sys) option" where
  "iGetFileInfo E root s =
     (case root of
        None \<Rightarrow> Some (- EINVAL, s)
      | Some p \<Rightarrow>
          if p = [] \<or> p ! 0 \<noteq> CHR ''/'' then Some (- EINVAL, s)
          else if strnlen p MAX_FILE_PATH_LENGTH \<ge> MAX_FILE_PATH_LENGTH then Some (- ENAMETOOLONG, s)
          else
            (let (r, s) = io (lfs_mutex_lock E kMutex_FileAccess) s in
             if r \<noteq> 0 then Some (- ENOLCK, s)
             else do {
               ((r, sc), s) \<leftarrow> scan_directories E
                  \<lparr>staStagingFileInfo = [], caDirectoryWorkList = [p], uiTotalDirectoryCount = 1\<rparr> s;
               Some (if r < 0 then (r, s) else (0, s\<lparr>stTFileCatalog := staStagingFileInfo sc\<rparr>))
             }))"

definition refresh_catalog :: "('w, 'z) fs_services_scheme \<Rightarrow> 'w lfs_sys \<Rightarrow> (int \<times> 'w lfs_sys) option" where
  "refresh_catalog E s = iGetFileInfo E (Some EXT_LITTLEFS_MOUNT_POINT) s"

subsection \<open>Creating files\<close>

text \<open>The availability flag is an argument because an error leaves the caller's variable as it is.\<close>

definition iCheck_FileAvailability ::
  "('w, 'z) fs_services_scheme \<Rightarrow> string \<Rightarrow> bool \<Rightarrow> 'w lfs_sys \<Rightarrow> (int \<times> bool) \<times> 'w lfs_sys" where
  "iCheck_FileAvailability E p avail s =
     (let ((r, ent), s) = io (fs_stat E p) s in
      if r = 0 then ((0, True), s) else if r = - ENOENT then ((0, False), s) else ((r, avail), s))"

definition iCheckOrCreateDirectory ::
  "('w, 'z) fs_services_scheme \<Rightarrow> string \<Rightarrow> 'w lfs_sys \<Rightarrow> (int \<times> bool) \<times> 'w lfs_sys" where
  "iCheckOrCreateDirectory E p s =
     (let ((r, ent), s) = io (fs_stat E p) s in
      if r = 0 then (if de_type ent \<noteq> FS_DIR_ENTRY_DIR then ((- ENOTDIR, False), s) else ((r, True), s))
      else if r \<noteq> - ENOENT then ((r, False), s)
      else
        (let (r, s) = io (fs_mkdir E p) s
         in if r \<noteq> 0 then ((r, False), s) else ((0, True), s)))"

definition iCreate_File ::
  "('w, 'z) fs_services_scheme \<Rightarrow> string option \<Rightarrow> string option \<Rightarrow> 'w lfs_sys \<Rightarrow> int \<times> 'w lfs_sys" where
  "iCreate_File E path name s =
     (if name = None \<or> path = None then (- EINVAL, s)
      else if bIsBulkTransferActive s then (- EBUSY, s)
      else
        (let p = the path; n = the name; uiFileNameLen = strnlen n MAX_FILE_NAME_LENGTH in
         case bBuild_Validate_FullPathName p n (strnlen p MAX_FILE_PATH_LENGTH) uiFileNameLen of
           None \<Rightarrow> (- EINVAL, s)
         | Some full \<Rightarrow>
             (let ((r, avail), s) = iCheckOrCreateDirectory E p s in
              if r \<noteq> 0 then (r, s)
              else
                (let ((r, avail), s) = iCheck_FileAvailability E full avail s in
                 if avail then (- EEXIST, s)
                 else if \<not> avail \<and> r \<noteq> 0 then (r, s)
                 else
                   (let (r, s) = io (lfs_mutex_lock E kMutex_FileAccess) s in
                    if r \<noteq> 0 then (r, s)
                    else if length (stTFileCatalog s) \<ge> MAX_FILE_COUNT then (- ENOSPC, s)
                    else
                      (let ((r, h), s) = io (fs_open E full FS_O_CREATE_WRITE) s in
                       if r < 0 then (r, s)
                       else
                         (let (cr, s) = io (fs_close E h) s in
                          if r = 0 \<and> cr < 0 then (cr, s)
                          else (0, s\<lparr>stTFileCatalog := stTFileCatalog s @
                                 [\<lparr>fi_caFileName = n, fi_caFilePath = full, fi_uiFileNameLen = uiFileNameLen,
                                   fi_uiFileSize = 0\<rparr>]\<rparr>))))))))"

subsection \<open>Deleting files\<close>

definition iDelete_FileInternal :: "('w, 'z) fs_services_scheme \<Rightarrow> string \<Rightarrow> 'w lfs_sys \<Rightarrow> (int \<times> 'w lfs_sys) option" where
  "iDelete_FileInternal E p s =
     (case pstGetFile_ByFilePath p s of
        None \<Rightarrow> Some (- ENOENT, s)
      | Some i \<Rightarrow>
          (let (r, s) = io (lfs_mutex_lock E kMutex_FileAccess) s in
           if r \<noteq> 0 then Some (- EIO, s)
           else
             (let ((r, ent), s) = io (fs_stat E (fi_caFilePath (stTFileCatalog s ! i))) s in
              if r \<noteq> 0 then Some (r, s)
              else
                (let (r, s) = io (fs_unlink E (fi_caFilePath (stTFileCatalog s ! i))) s in
                 if r \<noteq> 0 then Some (r, s) else refresh_catalog E s))))"

definition iDelete_File :: "('w, 'z) fs_services_scheme \<Rightarrow> string option \<Rightarrow> 'w lfs_sys \<Rightarrow> (int \<times> 'w lfs_sys) option" where
  "iDelete_File E path s =
     (case path of
        None \<Rightarrow> Some (- EINVAL, s)
      | Some p \<Rightarrow> if bIsBulkTransferActive s then Some (- EBUSY, s) else iDelete_FileInternal E p s)"

subsection \<open>Deleting a directory\<close>

function (sequential) strip_slashes :: "string \<Rightarrow> string" where
  "strip_slashes p = (if length p > 1 \<and> p ! (length p - 1) = CHR ''/'' then strip_slashes (butlast p) else p)"
  by pat_completeness auto
termination by (relation "measure length") auto

declare strip_slashes.simps [simp del]

text \<open>
  First pass: the directories below, in the order they are found, without deleting anything. The list
  is the directories found so far, \<open>h\<close> the open directory \<open>cur\<close>.
\<close>

partial_function (option) read_subdirectories ::
  "('w, 'z) fs_services_scheme \<Rightarrow> nat \<Rightarrow> string \<Rightarrow> string list \<Rightarrow> 'w lfs_sys \<Rightarrow> ((int \<times> string list) \<times> 'w lfs_sys) option" where
  "read_subdirectories E h cur dirs s =
     (let ((r, ent), s) = io (fs_readdir E h) s in
      if r \<noteq> 0 \<or> de_name ent = '''' then Some ((r, dirs), s)
      else if de_name ent = ''.'' \<or> de_name ent = ''..'' then read_subdirectories E h cur dirs s
      else if de_type ent \<noteq> FS_DIR_ENTRY_DIR then read_subdirectories E h cur dirs s
      else if length dirs \<ge> MAX_DIRECTORY_COUNT then Some ((- ENOSPC, dirs), s)
      else if length (join_path cur (de_name ent)) \<ge> MAX_FILE_PATH_LENGTH then Some ((- ENAMETOOLONG, dirs), s)
      else read_subdirectories E h cur (dirs @ [join_path cur (de_name ent)]) s)"

partial_function (option) collect_directories ::
  "('w, 'z) fs_services_scheme \<Rightarrow> nat \<Rightarrow> string list \<Rightarrow> 'w lfs_sys \<Rightarrow> ((int \<times> string list) \<times> 'w lfs_sys) option" where
  "collect_directories E i dirs s =
     (if i \<ge> length dirs then Some ((0, dirs), s)
      else
        (let ((r, h), s) = io (fs_opendir E (dirs ! i)) s in
         if r \<noteq> 0 then Some ((r, dirs), s)
         else do {
           ((r, dirs), s) \<leftarrow> read_subdirectories E h (dirs ! i) dirs s;
           let (cr, s) = io (fs_closedir E h) s;
           let r = (if r = 0 \<and> cr \<noteq> 0 then cr else r);
           if r \<noteq> 0 then Some ((r, dirs), s) else collect_directories E (i + 1) dirs s
         }))"

text \<open>Second pass: the first entry of an open directory that is not a dot entry, if there is one.\<close>

partial_function (option) first_entry ::
  "('w, 'z) fs_services_scheme \<Rightarrow> nat \<Rightarrow> string \<Rightarrow> 'w lfs_sys
   \<Rightarrow> ((int \<times> (fs_dir_entry_type \<times> string) option) \<times> 'w lfs_sys) option" where
  "first_entry E h cur s =
     (let ((r, ent), s) = io (fs_readdir E h) s in
      if r \<noteq> 0 \<or> de_name ent = '''' then Some ((r, None), s)
      else if de_name ent = ''.'' \<or> de_name ent = ''..'' then first_entry E h cur s
      else if length (join_path cur (de_name ent)) \<ge> MAX_FILE_PATH_LENGTH then Some ((- ENAMETOOLONG, None), s)
      else Some ((r, Some (de_type ent, join_path cur (de_name ent))), s))"

partial_function (option) empty_directory ::
  "('w, 'z) fs_services_scheme \<Rightarrow> string \<Rightarrow> 'w lfs_sys \<Rightarrow> (int \<times> 'w lfs_sys) option" where
  "empty_directory E cur s =
     (let ((r, h), s) = io (fs_opendir E cur) s in
      if r \<noteq> 0 then Some (r, s)
      else do {
        ((r, found), s) \<leftarrow> first_entry E h cur s;
        let (cr, s) = io (fs_closedir E h) s;
        let r = (if r = 0 \<and> cr \<noteq> 0 then cr else r);
        if r \<noteq> 0 then Some (r, s)
        else (case found of
                None \<Rightarrow> Some (0, s)
              | Some (ty, child) \<Rightarrow>
                  if ty \<noteq> FS_DIR_ENTRY_FILE then Some (- ENOTEMPTY, s)
                  else
                    (let (r, s) = io (fs_unlink E child) s
                     in if r \<noteq> 0 then Some (r, s) else empty_directory E cur s))
      })"

text \<open>The directories from the last one found to the first; the first, the requested one, is left to the caller.\<close>

fun remove_directories :: "('w, 'z) fs_services_scheme \<Rightarrow> string list \<Rightarrow> 'w lfs_sys \<Rightarrow> (int \<times> 'w lfs_sys) option" where
  "remove_directories E [] s = Some (0, s)"
| "remove_directories E (d # ds) s = do {
     (r, s) \<leftarrow> empty_directory E d s;
     if r \<noteq> 0 then Some (r, s)
     else if ds = [] then Some (0, s)
     else
       (let (r, s) = io (fs_unlink E d) s
        in if r \<noteq> 0 then Some (r, s) else remove_directories E ds s)
   }"

definition iDelete_AllFiles_InsideDirectory ::
  "('w, 'z) fs_services_scheme \<Rightarrow> string \<Rightarrow> 'w lfs_sys \<Rightarrow> (int \<times> 'w lfs_sys) option" where
  "iDelete_AllFiles_InsideDirectory E d s =
     (let n = strnlen d MAX_FILE_PATH_LENGTH in
      if n = 0 \<or> n \<ge> MAX_FILE_PATH_LENGTH then Some (- ENAMETOOLONG, s)
      else do {
        ((r, dirs), s) \<leftarrow> collect_directories E 0 [d] s;
        if r \<noteq> 0 then Some (r, s) else remove_directories E (rev dirs) s
      })"

text \<open>A directory that may be deleted: below the mount point, without dot components.\<close>

definition deletable_directory :: "string \<Rightarrow> bool" where
  "deletable_directory d \<longleftrightarrow>
     (let root = EXT_LITTLEFS_MOUNT_POINT; n = length root in
      \<not> (length d \<le> n \<or> take n d \<noteq> root \<or> d ! n \<noteq> CHR ''/'' \<or> bContains_DotPathComponent d))"

definition bDelete_Directory :: "('w, 'z) fs_services_scheme \<Rightarrow> string option \<Rightarrow> 'w lfs_sys \<Rightarrow> (bool \<times> 'w lfs_sys) option" where
  "bDelete_Directory E path s =
     (case path of
        None \<Rightarrow> Some (False, s)
      | Some p \<Rightarrow>
          if bIsBulkTransferActive s then Some (False, s)
          else if strnlen p MAX_FILE_PATH_LENGTH = 0 \<or> strnlen p MAX_FILE_PATH_LENGTH \<ge> MAX_FILE_PATH_LENGTH
            then Some (False, s)
          else
            (let d = strip_slashes p in
             if \<not> deletable_directory d then Some (False, s)
             else
               (let (r, s) = io (lfs_mutex_lock E kMutex_FileAccess) s in
                if r \<noteq> 0 then Some (False, s)
                else
                  (let ((r, ent), s) = io (fs_stat E d) s in
                   if r \<noteq> 0 \<or> de_type ent \<noteq> FS_DIR_ENTRY_DIR then Some (False, s)
                   else do {
                     (r, s) \<leftarrow> iDelete_AllFiles_InsideDirectory E d s;
                     let (r, s) = (if r = 0 then io (fs_unlink E d) s else (r, s));
                     (cr, s) \<leftarrow> refresh_catalog E s;
                     Some (r = 0 \<and> cr = 0, s)
                   }))))"

subsection \<open>Reading and writing files\<close>

text \<open>
  The read loop; \<open>got\<close> are the bytes in the buffer. A read that reports more than nothing reports at least
  one byte, so the loop ends.
\<close>

function (sequential) read_loop ::
  "('w, 'z) fs_services_scheme \<Rightarrow> nat \<Rightarrow> nat \<Rightarrow> nat \<Rightarrow> u8 list \<Rightarrow> 'w lfs_sys \<Rightarrow> (int \<times> u8 list) \<times> 'w lfs_sys" where
  "read_loop E h uiLength uiTotalRead got s =
     (if uiTotalRead \<ge> uiLength then ((0, got), s)
      else
        (case io (fs_read E h (uiLength - uiTotalRead)) s of
           ((n, bs), s) \<Rightarrow>
             if n < 0 then ((n, got), s)
             else if n = 0 then ((- EIO, got), s)
             else read_loop E h uiLength (uiTotalRead + nat n) (got @ take (nat n) bs) s))"
  by pat_completeness auto
termination by (relation "measure (\<lambda>(E, h, uiLength, uiTotalRead, got, s). uiLength - uiTotalRead)") auto

declare read_loop.simps [simp del]

text \<open>\<open>iRead_FromFileBin\<close>; the second result is what the buffer was filled with.\<close>

definition iRead_FromFileBin ::
  "('w, 'z) fs_services_scheme \<Rightarrow> string option \<Rightarrow> bool \<Rightarrow> nat \<Rightarrow> 'w lfs_sys \<Rightarrow> (int \<times> u8 list) \<times> 'w lfs_sys" where
  "iRead_FromFileBin E path buffer_given uiLength s =
     (case path of
        None \<Rightarrow> ((- EINVAL, []), s)
      | Some p \<Rightarrow>
          if \<not> buffer_given \<or> uiLength = 0 then ((- EINVAL, []), s)
          else if bIsBulkTransferActive s then ((- EBUSY, []), s)
          else
            (let (r, s) = io (lfs_mutex_lock E kMutex_FileAccess) s in
             if r \<noteq> 0 then ((- EBUSY, []), s)
             else
               (let ((r, ent), s) = io (fs_stat E p) s in
                if r \<noteq> 0 then ((r, []), s)
                else if de_type ent \<noteq> FS_DIR_ENTRY_FILE \<or> de_size ent \<noteq> uiLength then ((- EMSGSIZE, []), s)
                else
                  (let ((r, h), s) = io (fs_open E p FS_O_READ) s in
                   if r \<noteq> 0 then ((r, []), s)
                   else
                     (let ((r, got), s) = read_loop E h uiLength 0 [] s;
                          (cr, s) = io (fs_close E h) s
                      in ((if cr \<noteq> 0 \<and> r = 0 then cr else r, got), s))))))"

text \<open>
  The write loop over the data still to write; the file system never reports more bytes than
  it was given, so \<open>uiRemainingLen\<close> does not wrap.
\<close>

function (sequential) write_loop ::
  "('w, 'z) fs_services_scheme \<Rightarrow> nat \<Rightarrow> nat \<Rightarrow> u8 list \<Rightarrow> 'w lfs_sys \<Rightarrow> int \<times> 'w lfs_sys" where
  "write_loop E h uiMaxWriteSize rest s =
     (if rest = [] then (0, s)
      else
        (case io (fs_write E h (take uiMaxWriteSize rest)) s of
           (n, s) \<Rightarrow>
             if n \<le> 0 then (if n = 0 then - EIO else n, s)
             else write_loop E h uiMaxWriteSize (drop (nat n) rest) s))"
  by pat_completeness auto
termination by (relation "measure (\<lambda>(E, h, uiMaxWriteSize, rest, s). length rest)") auto

declare write_loop.simps [simp del]

definition iWrite_ToFileBin ::
  "('w, 'z) fs_services_scheme \<Rightarrow> string option \<Rightarrow> u8 list option \<Rightarrow> nat \<Rightarrow> nat \<Rightarrow> 'w lfs_sys \<Rightarrow> int \<times> 'w lfs_sys" where
  "iWrite_ToFileBin E path data uiLen uiMaxWriteSize s =
     (if path = None \<or> data = None \<or> uiLen = 0 \<or> uiMaxWriteSize = 0 then (- EINVAL, s)
      else if bIsBulkTransferActive s then (- EBUSY, s)
      else
        (let (r, s) = io (lfs_mutex_lock E kMutex_FileAccess) s in
         if r \<noteq> 0 then (- EBUSY, s)
         else
           (case pstGetFile_ByFilePath (the path) s of
              None \<Rightarrow> (- ENOENT, s)
            | Some i \<Rightarrow>
                (let p = fi_caFilePath (stTFileCatalog s ! i); ((r, h), s) = io (fs_open E p FS_O_WRITE_TRUNC) s in
                 if r \<noteq> 0 then (r, s)
                 else
                   (let (r, s) = write_loop E h uiMaxWriteSize (take uiLen (the data)) s in
                    if r \<noteq> 0 then (let (cr, s) = io (fs_close E h) s in (r, s))
                    else
                      (let (r, s) = io (fs_sync E h) s;
                           (cr, s) = io (fs_close E h) s;
                           ((sr, ent), s) = io (fs_stat E p) s;
                           s = (if sr = 0
                                then s\<lparr>stTFileCatalog := (stTFileCatalog s)[i := (stTFileCatalog s ! i)\<lparr>fi_uiFileSize := de_size ent\<rparr>]\<rparr>
                                else s)
                       in if r < 0 then (r, s)
                          else if cr < 0 then (cr, s)
                          else if sr < 0 then (sr, s)
                          else (0, s)))))))"

end
