(* ===== verification/Lfs_Paths.thy ===== *)
theory Lfs_Paths
  imports Lfs_Files
begin

text \<open>
  The path checks against their meaning: a path as its components between slashes. Paths that
  \<open>bBuild_Validate_FullPathName\<close> or \<open>bDelete_Directory\<close> lets through stay below the mount point.
\<close>

fun path_components :: "string \<Rightarrow> string list" where
  "path_components [] = [[]]"
| "path_components (c # s) =
     (if c = CHR ''/'' then [] # path_components s
      else case path_components s of [] \<Rightarrow> [[c]] | w # ws \<Rightarrow> (c # w) # ws)"

lemma components_hd: "path_components s \<noteq> [] \<and> hd (path_components s) = takeWhile (\<lambda>c. c \<noteq> CHR ''/'') s"
  by (induction s) (auto split: list.split)

lemma takeWhile_slash:
  assumes "CHR ''/'' \<notin> set x" and "b = [] \<or> hd b = CHR ''/''"
  shows "takeWhile (\<lambda>c. c \<noteq> CHR ''/'') (x @ b) = x"
  using assms by (cases b) (auto simp: takeWhile_append takeWhile_eq_all_conv)

lemma component_iff:
  "x \<in> set (tl (path_components s)) \<longleftrightarrow>
     CHR ''/'' \<notin> set x \<and> (\<exists>a b. s = a @ CHR ''/'' # x @ b \<and> (b = [] \<or> hd b = CHR ''/''))"
proof (induction s)
  case Nil
  then show ?case by simp
next
  case (Cons c s)
  show ?case
  proof (cases "c = CHR ''/''")
    case True
    have "(\<exists>a b. c # s = a @ CHR ''/'' # x @ b \<and> (b = [] \<or> hd b = CHR ''/'')) \<longleftrightarrow>
        (\<exists>b. s = x @ b \<and> (b = [] \<or> hd b = CHR ''/'')) \<or> (\<exists>a b. s = a @ CHR ''/'' # x @ b \<and> (b = [] \<or> hd b = CHR ''/''))"
      using True by (auto simp: Cons_eq_append_conv)
    moreover have "CHR ''/'' \<notin> set x \<and> (\<exists>b. s = x @ b \<and> (b = [] \<or> hd b = CHR ''/'')) \<longleftrightarrow> x = hd (path_components s)"
    proof
      assume "CHR ''/'' \<notin> set x \<and> (\<exists>b. s = x @ b \<and> (b = [] \<or> hd b = CHR ''/''))"
      then obtain b where "CHR ''/'' \<notin> set x" "s = x @ b" "b = [] \<or> hd b = CHR ''/''" by blast
      then show "x = hd (path_components s)" using takeWhile_slash components_hd by metis
    next
      assume x: "x = hd (path_components s)"
      then have "x = takeWhile (\<lambda>c. c \<noteq> CHR ''/'') s" using components_hd by simp
      then have "s = x @ dropWhile (\<lambda>c. c \<noteq> CHR ''/'') s" "CHR ''/'' \<notin> set x" by (auto dest: set_takeWhileD)
      then show "CHR ''/'' \<notin> set x \<and> (\<exists>b. s = x @ b \<and> (b = [] \<or> hd b = CHR ''/''))"
        using hd_dropWhile [of "\<lambda>c. c \<noteq> CHR ''/''" s] by blast
    qed
    moreover have "set (path_components s) = insert (hd (path_components s)) (set (tl (path_components s)))"
      using components_hd [of s] by (metis list.exhaust_sel list.simps(15))
    ultimately show ?thesis using Cons True by auto
  next
    case False
    have "tl (path_components (c # s)) = tl (path_components s)"
      using False components_hd [of s] by (auto split: list.split)
    moreover have "(\<exists>a b. c # s = a @ CHR ''/'' # x @ b \<and> (b = [] \<or> hd b = CHR ''/'')) \<longleftrightarrow>
        (\<exists>a b. s = a @ CHR ''/'' # x @ b \<and> (b = [] \<or> hd b = CHR ''/''))"
      using False by (auto simp: Cons_eq_append_conv)
    ultimately show ?thesis using Cons by simp
  qed
qed

lemma strstr_iff: "strstr h n \<longleftrightarrow> (\<exists>a b. h = a @ n @ b)"
proof (induction h)
  case Nil
  then show ?case by (subst strstr.simps) auto
next
  case (Cons c h)
  have "take (length n) (c # h) = n \<longleftrightarrow> (\<exists>b. c # h = n @ b)"
    by (metis append_eq_conv_conj append_take_drop_id)
  moreover have "(\<exists>a b. c # h = a @ n @ b) \<longleftrightarrow> (\<exists>b. c # h = n @ b) \<or> (\<exists>a b. h = a @ n @ b)"
    by (metis append_Cons append_Nil list.exhaust list.inject)
  ultimately show ?case using Cons by (subst strstr.simps) simp
qed

lemma suffix_iff: "length x \<le> length p \<and> drop (length p - length x) p = x \<longleftrightarrow> (\<exists>a. p = a @ x)"
proof
  assume "length x \<le> length p \<and> drop (length p - length x) p = x"
  then show "\<exists>a. p = a @ x" by (metis append_take_drop_id)
qed auto

text \<open>The four substring searches find exactly the dot components of an absolute path.\<close>

lemma dot_component_iff:
  assumes "p \<noteq> []" and "p ! 0 = CHR ''/''"
  shows "bContains_DotPathComponent p \<longleftrightarrow> ''.'' \<in> set (path_components p) \<or> ''..'' \<in> set (path_components p)"
proof -
  obtain q where p: "p = CHR ''/'' # q" using assms by (cases p) auto
  have comp: "x \<in> set (path_components p) \<longleftrightarrow> (\<exists>a b. p = a @ CHR ''/'' # x @ b \<and> (b = [] \<or> hd b = CHR ''/''))"
    if "x \<noteq> []" "CHR ''/'' \<notin> set x" for x
  proof -
    have "x \<in> set (path_components p) \<longleftrightarrow> x \<in> set (tl (path_components p))" using p that by simp
    with component_iff [of x p] that show ?thesis by simp
  qed
  have shape: "(\<exists>a b. p = a @ CHR ''/'' # x @ b \<and> (b = [] \<or> hd b = CHR ''/'')) \<longleftrightarrow>
      (\<exists>a b. p = a @ (CHR ''/'' # x @ ''/'') @ b) \<or> (\<exists>a. p = a @ CHR ''/'' # x)" for x
  proof -
    have "(\<exists>b. p = a @ CHR ''/'' # x @ b \<and> b \<noteq> [] \<and> hd b = CHR ''/'') \<longleftrightarrow> (\<exists>b. p = a @ (CHR ''/'' # x @ ''/'') @ b)" for a
      by (metis append_Cons append_assoc append_Nil list.collapse list.distinct(1) list.sel(1))
    then show ?thesis by (metis append.right_neutral append_Cons)
  qed
  have "bContains_DotPathComponent p \<longleftrightarrow>
      ((\<exists>a b. p = a @ ''/../'' @ b) \<or> (\<exists>a. p = a @ ''/..'')) \<or> ((\<exists>a b. p = a @ ''/./'' @ b) \<or> (\<exists>a. p = a @ ''/.''))"
    using suffix_iff [of "''/..''" p] suffix_iff [of "''/.''" p]
    unfolding bContains_DotPathComponent_def strstr_iff by (auto simp: numeral_2_eq_2 numeral_3_eq_3)
  also have "\<dots> \<longleftrightarrow> ''.'' \<in> set (path_components p) \<or> ''..'' \<in> set (path_components p)"
    using comp [of "''.''"] comp [of "''..''"] shape [of "''.''"] shape [of "''..''"] by simp metis
  finally show ?thesis .
qed

text \<open>A path at or below the mount point, none of whose components is a dot component.\<close>

definition confined_path :: "string \<Rightarrow> bool" where
  "confined_path p \<longleftrightarrow> take 5 p = ''/lfs/'' \<and> ''.'' \<notin> set (path_components p) \<and> ''..'' \<notin> set (path_components p)"

lemma root_simps [simp]: "length EXT_LITTLEFS_MOUNT_POINT = 4" "EXT_LITTLEFS_MOUNT_POINT = ''/lfs''"
  by (simp_all add: EXT_LITTLEFS_MOUNT_POINT_def)

lemma components_append_slash:
  "path_components (p @ CHR ''/'' # q) = path_components p @ path_components q"
  by (induction p) (auto split: list.split simp: components_hd)

lemma components_name: "CHR ''/'' \<notin> set n \<Longrightarrow> path_components n = [n]"
  by (induction n) auto

text \<open>A path that ends in a slash has an empty last component, which the name replaces.\<close>

lemma components_join:
  assumes "CHR ''/'' \<notin> set n"
  shows "set (path_components (join_path p n)) \<subseteq> insert n (set (path_components p))"
proof (cases "p \<noteq> [] \<and> p ! (length p - 1) = CHR ''/''")
  case True
  then obtain q where "p = q @ ''/''" by (metis append_butlast_last_id last_conv_nth)
  then show ?thesis using assms True
    by (auto simp: join_path_def components_append_slash components_name)
next
  case False
  then have "join_path p n = p @ CHR ''/'' # n" by (auto simp: join_path_def)
  then show ?thesis using assms by (simp add: components_append_slash components_name)
qed

lemma validated_path:
  assumes "bBuild_Validate_FullPathName p n (strnlen p MAX_FILE_PATH_LENGTH) (strnlen n MAX_FILE_NAME_LENGTH) = Some full"
  shows "full = join_path p n \<and> confined_path full \<and> length full < 100 \<and> 0 < length n \<and> length n < 30 \<and> CHR ''/'' \<notin> set n"
proof -
  have t: "take (length EXT_LITTLEFS_MOUNT_POINT) p = EXT_LITTLEFS_MOUNT_POINT"
    and e: "length p = length EXT_LITTLEFS_MOUNT_POINT \<or> p ! length EXT_LITTLEFS_MOUNT_POINT = CHR ''/''"
    and h: "length n \<noteq> 0" "length n < 30" "length p \<noteq> 0" "CHR ''/'' \<notin> set n" "p ! 0 = CHR ''/''"
    "\<not> bContains_DotPathComponent p" "n \<noteq> ''.''" "n \<noteq> ''..''" "length (join_path p n) < 100" "full = join_path p n"
    using assms unfolding bBuild_Validate_FullPathName_def strnlen_def wall_simps Let_def not_le
    by (simp_all split: if_splits del: root_simps(2))
  obtain r where r: "p = ''/lfs'' @ r" using append_take_drop_id [of 4 p] t by (metis root_simps)
  have "r = [] \<or> r ! 0 = CHR ''/''" using e r by auto
  then have root: "take 5 (join_path p n) = ''/lfs/''"
    using r by (cases r) (auto simp: join_path_def nth_append numeral_eq_Suc)
  have dots: "''.'' \<notin> set (path_components p)" "''..'' \<notin> set (path_components p)"
    using dot_component_iff [of p] h by auto
  have "''.'' \<notin> set (path_components (join_path p n))" "''..'' \<notin> set (path_components (join_path p n))"
    using components_join [OF h(4), of p] dots h(7,8) by blast+
  with root h show ?thesis by (simp add: confined_path_def)
qed

end
