(* ===== verification/Lfs_Store.thy ===== *)
theory Lfs_Store
  imports Lfs_Files
begin

text \<open>
  What the controller relies on of the file system, as the locale \<open>fs_files\<close>: open files with a position, contents that change
  by writing, truncating and unlinking only. Inside it reading and writing whole files are shown
  correct, which is the contract \<open>config_store\<close> the audio configuration works with. A file system in memory
  satisfies the contract.
\<close>

subsection \<open>Service calls and loops\<close>

text \<open>Only the world differs.\<close>

definition world_moved :: "'w lfs_sys \<Rightarrow> 'w lfs_sys \<Rightarrow> bool" where
  "world_moved s s' \<longleftrightarrow> (\<exists>w. s' = s\<lparr>lfs_world := w\<rparr>)"

lemma world_moved_refl [simp]: "world_moved s s"
  by (auto simp: world_moved_def intro: exI [of _ "lfs_world s"])

lemma world_moved_trans: "world_moved a b \<Longrightarrow> world_moved b c \<Longrightarrow> world_moved a c"
  by (auto simp: world_moved_def)

lemma io_world: "io f s = (r, s') \<Longrightarrow> f (lfs_world s) = (r, lfs_world s')"
  by (auto simp: io_def split: prod.splits)

lemma io_moved: "io f s = (r, s') \<Longrightarrow> world_moved s s'"
  by (auto simp: io_def world_moved_def split: prod.splits)

lemma world_movedD:
  assumes "world_moved s s'"
  shows "stTFileCatalog s' = stTFileCatalog s" "stTBulkDataCtrl s' = stTBulkDataCtrl s"
    "stMsgQueue_FileTransfer s' = stMsgQueue_FileTransfer s" "bulk_worker_runs s' = bulk_worker_runs s"
    "kSem_BulkWorkerDone s' = kSem_BulkWorkerDone s" "bulk_work_submitted s' = bulk_work_submitted s"
  using assms by (auto simp: world_moved_def)

lemma find_path_Some: "find_path p fs = Some i \<Longrightarrow> i < length fs \<and> fi_caFilePath (fs ! i) = p"
  by (induction fs arbitrary: i) (auto split: if_splits)

lemma find_path_None: "find_path p fs = None \<longleftrightarrow> p \<notin> fi_caFilePath ` set fs"
  by (induction fs) auto

lemma write_loop_moved: "write_loop E h mx rest s = (r, s') \<Longrightarrow> world_moved s s'"
proof (induction rest arbitrary: s rule: length_induct)
  case (1 rest)
  obtain n t where w: "io (fs_write E h (take mx rest)) s = (n, t)" by fastforce
  note eq = 1(2) [unfolded write_loop.simps [of E h mx rest s] w prod.case]
  show ?case
  proof (cases "rest = [] \<or> n \<le> 0")
    case True
    with eq io_moved [OF w] show ?thesis by (auto split: if_splits)
  next
    case False
    then have loop: "write_loop E h mx (drop (nat n) rest) t = (r, s')" using eq by simp
    have "world_moved t s'" by (rule 1(1) [rule_format, OF _ loop]) (use False in simp)
    with io_moved [OF w] show ?thesis by (rule world_moved_trans)
  qed
qed

lemma read_loop_moved: "read_loop E h n k got s = ((r, bs), s') \<Longrightarrow> world_moved s s'"
proof (induction "n - k" arbitrary: k got s rule: less_induct)
  case less
  obtain m b t where w: "io (fs_read E h (n - k)) s = ((m, b), t)" by (metis surj_pair)
  note eq = less(2) [unfolded read_loop.simps [of E h n k got s] w prod.case]
  show ?case
  proof (cases "k \<ge> n \<or> m \<le> 0")
    case True
    with eq io_moved [OF w] show ?thesis by (auto split: if_splits)
  next
    case False
    then have loop: "read_loop E h n (k + nat m) (got @ take (nat m) b) t = ((r, bs), s')" using eq by simp
    have "world_moved t s'" by (rule less(1) [OF _ loop]) (use False in auto)
    with io_moved [OF w] show ?thesis by (rule world_moved_trans)
  qed
qed

subsection \<open>The contract of a store of small files\<close>

locale config_store =
  fixes wr :: "string \<Rightarrow> u8 list \<Rightarrow> 's \<Rightarrow> int \<times> 's"
    and rd :: "string \<Rightarrow> nat \<Rightarrow> 's \<Rightarrow> (int \<times> u8 list) \<times> 's"
    and stored :: "string \<Rightarrow> 's \<Rightarrow> u8 list option"
  assumes wr_ok: "wr p d s = (0, s') \<Longrightarrow> stored p s' = Some d"
    and wr_frame: "wr p d s = (r, s') \<Longrightarrow> q \<noteq> p \<Longrightarrow> stored q s' = stored q s"
    and rd_ok: "rd p n s = ((0, bs), s') \<Longrightarrow> stored p s = Some bs \<and> length bs = n"
    and rd_frame: "rd p n s = ((r, bs), s') \<Longrightarrow> stored q s' = stored q s"
begin

lemma read_back: "wr p d s = (0, s') \<Longrightarrow> rd p n s' = ((0, bs), s'') \<Longrightarrow> bs = d"
  using wr_ok rd_ok by fastforce

lemma read_other: "wr p d s = (r, s') \<Longrightarrow> q \<noteq> p \<Longrightarrow> rd q n s' = ((0, bs), s'') \<Longrightarrow> stored q s = Some bs"
  using wr_frame rd_ok by fastforce

end

subsection \<open>The contract of the file system\<close>

locale fs_files =
  fixes E :: "('w, 'z) fs_services_scheme"
    and content :: "string \<Rightarrow> 'w \<Rightarrow> u8 list option"
    and opened :: "nat \<Rightarrow> 'w \<Rightarrow> (string \<times> nat) option"
  assumes stat_keeps: "fs_stat E p w = ((r, e), w') \<Longrightarrow> content q w' = content q w \<and> opened g w' = opened g w"
    and stat_size: "fs_stat E p w = ((0, e), w') \<Longrightarrow> de_type e = FS_DIR_ENTRY_FILE \<Longrightarrow> \<exists>c. content p w = Some c \<and> de_size e = length c"
    and stat_rc: "fs_stat E p w = ((r, e), w') \<Longrightarrow> r \<le> 0"
    and lock_keeps: "lfs_mutex_lock E mu w = (r, w') \<Longrightarrow> content q w' = content q w \<and> opened g w' = opened g w"
    and clock_keeps: "lfs_uptime_32 E w = (t, w') \<Longrightarrow> content q w' = content q w \<and> opened g w' = opened g w"
    and mkdir_keeps: "fs_mkdir E p w = (r, w') \<Longrightarrow> content q w' = content q w \<and> opened g w' = opened g w"
    and opendir_keeps: "fs_opendir E p w = ((r, h), w') \<Longrightarrow> content q w' = content q w \<and> opened g w' = opened g w"
    and readdir_keeps: "fs_readdir E h w = ((r, e), w') \<Longrightarrow> content q w' = content q w \<and> opened g w' = opened g w"
    and closedir_keeps: "fs_closedir E h w = (r, w') \<Longrightarrow> content q w' = content q w \<and> opened g w' = opened g w"
    and open_ok: "fs_open E p m w = ((0, h), w') \<Longrightarrow> opened h w = None \<and> opened h w' = Some (p, 0)
          \<and> content p w' = (case m of FS_O_READ \<Rightarrow> content p w | FS_O_WRITE_TRUNC \<Rightarrow> Some []
               | FS_O_CREATE_WRITE \<Rightarrow> Some (case content p w of None \<Rightarrow> [] | Some c \<Rightarrow> c))"
    and open_other: "fs_open E p m w = ((r, h), w') \<Longrightarrow> (q \<noteq> p \<longrightarrow> content q w' = content q w) \<and> (g \<noteq> h \<longrightarrow> opened g w' = opened g w)"
    and open_fail: "fs_open E p m w = ((r, h), w') \<Longrightarrow> r \<noteq> 0 \<Longrightarrow> r < 0 \<and> content q w' = content q w \<and> opened g w' = opened g w"
    and read_ok: "fs_read E h n w = ((r, bs), w') \<Longrightarrow> 0 < r \<Longrightarrow> opened h w = Some (p, k) \<Longrightarrow> content p w = Some c \<Longrightarrow>
          nat r \<le> n \<and> k + nat r \<le> length c \<and> bs = take (nat r) (drop k c) \<and> opened h w' = Some (p, k + nat r)"
    and read_keeps: "fs_read E h n w = ((r, bs), w') \<Longrightarrow> content q w' = content q w \<and> (g \<noteq> h \<longrightarrow> opened g w' = opened g w)"
    and write_ok: "fs_write E h bs w = (r, w') \<Longrightarrow> 0 < r \<Longrightarrow> opened h w = Some (p, k) \<Longrightarrow> content p w = Some c \<Longrightarrow> k = length c \<Longrightarrow>
          nat r \<le> length bs \<and> content p w' = Some (c @ take (nat r) bs) \<and> opened h w' = Some (p, k + nat r)"
    and write_other: "fs_write E h bs w = (r, w') \<Longrightarrow> opened h w = Some (p, k) \<Longrightarrow>
          (q \<noteq> p \<longrightarrow> content q w' = content q w) \<and> (g \<noteq> h \<longrightarrow> opened g w' = opened g w)"
    and sync_keeps: "fs_sync E h w = (r, w') \<Longrightarrow> content q w' = content q w \<and> opened g w' = opened g w"
    and close_keeps: "fs_close E h w = (r, w') \<Longrightarrow> content q w' = content q w \<and> (g \<noteq> h \<longrightarrow> opened g w' = opened g w)"
    and unlink_ok: "fs_unlink E p w = (0, w') \<Longrightarrow> content p w' = None"
    and unlink_other: "fs_unlink E p w = (r, w') \<Longrightarrow> opened g w' = opened g w \<and> (q \<noteq> p \<longrightarrow> content q w' = content q w)"
begin

lemma io_keeps:
  "io (lfs_mutex_lock E mu) s = (r, s') \<Longrightarrow> content q (lfs_world s') = content q (lfs_world s)"
  "io (lfs_mutex_lock E mu) s = (r, s') \<Longrightarrow> opened g (lfs_world s') = opened g (lfs_world s)"
  "io (lfs_uptime_32 E) s = (u, s') \<Longrightarrow> content q (lfs_world s') = content q (lfs_world s)"
  "io (lfs_uptime_32 E) s = (u, s') \<Longrightarrow> opened g (lfs_world s') = opened g (lfs_world s)"
  "io (fs_stat E p) s = ((r, e), s') \<Longrightarrow> content q (lfs_world s') = content q (lfs_world s)"
  "io (fs_stat E p) s = ((r, e), s') \<Longrightarrow> opened g (lfs_world s') = opened g (lfs_world s)"
  "io (fs_sync E h) s = (r, s') \<Longrightarrow> content q (lfs_world s') = content q (lfs_world s)"
  "io (fs_sync E h) s = (r, s') \<Longrightarrow> opened g (lfs_world s') = opened g (lfs_world s)"
  "io (fs_close E h) s = (r, s') \<Longrightarrow> content q (lfs_world s') = content q (lfs_world s)"
  "io (fs_mkdir E p) s = (r, s') \<Longrightarrow> content q (lfs_world s') = content q (lfs_world s)"
  "io (fs_mkdir E p) s = (r, s') \<Longrightarrow> opened g (lfs_world s') = opened g (lfs_world s)"
  "io (fs_opendir E p) s = ((r, h), s') \<Longrightarrow> content q (lfs_world s') = content q (lfs_world s)"
  "io (fs_opendir E p) s = ((r, h), s') \<Longrightarrow> opened g (lfs_world s') = opened g (lfs_world s)"
  "io (fs_readdir E h) s = ((r, e), s') \<Longrightarrow> content q (lfs_world s') = content q (lfs_world s)"
  "io (fs_readdir E h) s = ((r, e), s') \<Longrightarrow> opened g (lfs_world s') = opened g (lfs_world s)"
  "io (fs_closedir E h) s = (r, s') \<Longrightarrow> content q (lfs_world s') = content q (lfs_world s)"
  "io (fs_closedir E h) s = (r, s') \<Longrightarrow> opened g (lfs_world s') = opened g (lfs_world s)"
  "io (fs_unlink E p) s = (r, s') \<Longrightarrow> opened g (lfs_world s') = opened g (lfs_world s)"
  "io (fs_unlink E p) s = (r, s') \<Longrightarrow> q \<noteq> p \<Longrightarrow> content q (lfs_world s') = content q (lfs_world s)"
  "io (fs_open E p md) s = ((r, h), s') \<Longrightarrow> q \<noteq> p \<Longrightarrow> content q (lfs_world s') = content q (lfs_world s)"
  by (metis io_world lock_keeps, metis io_world lock_keeps, metis io_world clock_keeps, metis io_world clock_keeps,
      metis io_world stat_keeps, metis io_world stat_keeps, metis io_world sync_keeps, metis io_world sync_keeps,
      metis io_world close_keeps, metis io_world mkdir_keeps, metis io_world mkdir_keeps, metis io_world opendir_keeps,
      metis io_world opendir_keeps, metis io_world readdir_keeps, metis io_world readdir_keeps, metis io_world closedir_keeps,
      metis io_world closedir_keeps, metis io_world unlink_other, metis io_world unlink_other, metis io_world open_other)

text \<open>The loops, from an open file whose position is its end, or its position in general.\<close>

lemma write_loop_other:
  assumes "write_loop E h mx rest s = (r, s')" and "opened h (lfs_world s) = Some (p, length c)"
    and "content p (lfs_world s) = Some c" and "q \<noteq> p"
  shows "content q (lfs_world s') = content q (lfs_world s)"
  using assms(1-3)
proof (induction rest arbitrary: s c rule: length_induct)
  case (1 rest)
  obtain n t where w: "io (fs_write E h (take mx rest)) s = (n, t)" by fastforce
  note eq = 1(2) [unfolded write_loop.simps [of E h mx rest s] w prod.case]
  have q: "content q (lfs_world t) = content q (lfs_world s)"
    using write_other [OF io_world [OF w] 1(3)] assms(4) by blast
  show ?case
  proof (cases "rest = [] \<or> n \<le> 0")
    case True
    with eq q show ?thesis by (auto split: if_splits)
  next
    case False
    then have loop: "write_loop E h mx (drop (nat n) rest) t = (r, s')" using eq by simp
    from False have n: "0 < n" by simp
    from write_ok [OF io_world [OF w] n 1(3,4) refl]
    have k: "nat n \<le> length (take mx rest)" and c: "content p (lfs_world t) = Some (c @ take (nat n) (take mx rest))"
      and o: "opened h (lfs_world t) = Some (p, length (c @ take (nat n) (take mx rest)))" by auto
    from 1(1) [rule_format, OF _ loop o c] False q show ?thesis by simp
  qed
qed

lemma write_loop_ok:
  assumes "write_loop E h mx rest s = (0, s')"
    and "opened h (lfs_world s) = Some (p, length c)" and "content p (lfs_world s) = Some c"
  shows "content p (lfs_world s') = Some (c @ rest)"
  using assms
proof (induction rest arbitrary: s c rule: length_induct)
  case (1 rest)
  obtain n t where w: "io (fs_write E h (take mx rest)) s = (n, t)" by fastforce
  note eq = 1(2) [unfolded write_loop.simps [of E h mx rest s] w prod.case]
  show ?case
  proof (cases "rest = []")
    case True
    with eq 1(4) show ?thesis by simp
  next
    case False
    with eq have n: "0 < n" and loop: "write_loop E h mx (drop (nat n) rest) t = (0, s')"
      by (auto simp: EIO_def split: if_splits)
    from write_ok [OF io_world [OF w] n 1(3,4) refl]
    have k: "nat n \<le> length (take mx rest)" and c: "content p (lfs_world t) = Some (c @ take (nat n) (take mx rest))"
      and o: "opened h (lfs_world t) = Some (p, length (c @ take (nat n) (take mx rest)))" by auto
    have t: "take (nat n) (take mx rest) = take (nat n) rest" using k by simp
    from 1(1) [rule_format, OF _ loop o c] n False t show ?thesis by simp
  qed
qed

lemma read_loop_ok:
  assumes "read_loop E h n k got s = ((r, bs), s')" and "opened h (lfs_world s) = Some (p, k)"
    and "content p (lfs_world s) = Some c" and "got = take k c" and "k \<le> n" and "n \<le> length c"
  shows "content q (lfs_world s') = content q (lfs_world s) \<and> (r = 0 \<longrightarrow> bs = take n c)"
  using assms
proof (induction "n - k" arbitrary: k got s rule: less_induct)
  case less
  obtain m b t where w: "io (fs_read E h (n - k)) s = ((m, b), t)" by (metis surj_pair)
  note eq = less(2) [unfolded read_loop.simps [of E h n k got s] w prod.case]
  have keep: "content x (lfs_world t) = content x (lfs_world s)" for x
    using read_keeps [OF io_world [OF w]] by blast
  show ?case
  proof (cases "k \<ge> n \<or> m \<le> 0")
    case True
    with eq less(5,6) keep [of q] show ?thesis by (auto simp: EIO_def split: if_splits)
  next
    case False
    then have loop: "read_loop E h n (k + nat m) (got @ take (nat m) b) t = ((r, bs), s')" using eq by simp
    from False have m: "0 < m" by simp
    from read_ok [OF io_world [OF w] m less(3,4)]
    have k: "nat m \<le> n - k" "k + nat m \<le> length c" and b: "b = take (nat m) (drop k c)"
      and o: "opened h (lfs_world t) = Some (p, k + nat m)" by auto
    have got: "got @ take (nat m) b = take (k + nat m) c" using less(5) b by (simp add: take_add)
    have "k + nat m \<le> n" "n - (k + nat m) < n - k" using k False m by auto
    with less(1) [OF _ loop o _ got] keep less(4,7) show ?thesis by metis
  qed
qed


text \<open>Whole files: what is written is there, what is read was there, and other files are not touched.\<close>

lemma iWrite_effect:
  assumes run: "iWrite_ToFileBin E (Some p) (Some d) n mx s = (r, s')"
  shows "(q \<noteq> p \<longrightarrow> content q (lfs_world s') = content q (lfs_world s))
    \<and> (r = 0 \<longrightarrow> content p (lfs_world s') = Some (take n d))"
proof -
  obtain lr s1 where l: "io (lfs_mutex_lock E kMutex_FileAccess) s = (lr, s1)" by fastforce
  note c1 = io_keeps(1) [OF l]
  show ?thesis
  proof (cases "n = 0 \<or> mx = 0 \<or> bIsBulkTransferActive s \<or> lr \<noteq> 0 \<or> pstGetFile_ByFilePath p s1 = None")
    case True
    with run l c1 show ?thesis
      by (auto simp: iWrite_ToFileBin_def errno_defs split: if_splits)
  next
    case False
    then obtain i where i: "pstGetFile_ByFilePath p s1 = Some i" by auto
    have path: "fi_caFilePath (stTFileCatalog s1 ! i) = p" using find_path_Some i by (auto simp: pstGetFile_ByFilePath_def)
    obtain ro h s2 where o: "io (fs_open E p FS_O_WRITE_TRUNC) s1 = ((ro, h), s2)" by (metis surj_pair)
    note c2 = io_keeps(20) [OF o]
    show ?thesis
    proof (cases "ro = 0")
      case False
      with run l o i path c1 c2 \<open>\<not> (n = 0 \<or> _)\<close> open_fail [OF io_world [OF o]] show ?thesis
        by (auto simp: iWrite_ToFileBin_def Let_def)
    next
      case True
      from open_ok [OF io_world [OF o [unfolded True]]]
      have op: "opened h (lfs_world s2) = Some (p, length [])" "content p (lfs_world s2) = Some []" by auto
      obtain rw s3 where w: "write_loop E h mx (take n d) s2 = (rw, s3)" by fastforce
      note c3 = write_loop_other [OF w op]
      obtain rs s4 where sy: "io (fs_sync E h) s3 = (rs, s4)" by fastforce
      obtain rc s5 where cl: "io (fs_close E h) s4 = (rc, s5)" by fastforce
      obtain rt e s6 where st: "io (fs_stat E p) s5 = ((rt, e), s6)" by (metis surj_pair)
      obtain rd s7 where cl2: "io (fs_close E h) s3 = (rd, s7)" by fastforce
      note keep = io_keeps(7) [OF sy] io_keeps(9) [OF cl] io_keeps(5) [OF st] io_keeps(9) [OF cl2]
      have eq: "(r, s') = (if rw \<noteq> 0 then (rw, s7)
          else (if rs < 0 then rs else if rc < 0 then rc else if rt < 0 then rt else 0,
                if rt = 0 then s6\<lparr>stTFileCatalog := (stTFileCatalog s6)[i := (stTFileCatalog s6 ! i)\<lparr>fi_uiFileSize := de_size e\<rparr>]\<rparr> else s6))"
        using run l o i path True \<open>\<not> (n = 0 \<or> _)\<close> w sy cl st cl2
        by (simp add: iWrite_ToFileBin_def Let_def split: if_splits)
      show ?thesis
      proof (cases "rw = 0")
        case True
        with write_loop_ok [OF w [unfolded True] op] eq keep c1 c2 c3 show ?thesis by auto
      next
        case False
        with eq keep c1 c2 c3 show ?thesis by auto
      qed
    qed
  qed
qed

lemma iRead_effect:
  assumes run: "iRead_FromFileBin E (Some p) True n s = ((r, bs), s')"
  shows "content q (lfs_world s') = content q (lfs_world s) \<and> (r = 0 \<longrightarrow> content p (lfs_world s) = Some bs \<and> length bs = n)"
proof -
  obtain lr s1 where l: "io (lfs_mutex_lock E kMutex_FileAccess) s = (lr, s1)" by fastforce
  note c1 = io_keeps(1) [OF l]
  obtain rt e s2 where st: "io (fs_stat E p) s1 = ((rt, e), s2)" by (metis surj_pair)
  note c2 = io_keeps(5) [OF st]
  show ?thesis
  proof (cases "n = 0 \<or> bIsBulkTransferActive s \<or> lr \<noteq> 0 \<or> rt \<noteq> 0 \<or> de_type e \<noteq> FS_DIR_ENTRY_FILE \<or> de_size e \<noteq> n")
    case True
    with run l st c1 c2 show ?thesis by (auto simp: iRead_FromFileBin_def errno_defs split: if_splits)
  next
    case False
    then obtain c where c: "content p (lfs_world s1) = Some c" "length c = n"
      using stat_size [of p "lfs_world s1" e "lfs_world s2"] io_world [OF st] by auto
    obtain ro h s3 where o: "io (fs_open E p FS_O_READ) s2 = ((ro, h), s3)" by (metis surj_pair)
    show ?thesis
    proof (cases "ro = 0")
      case False
      have "content q (lfs_world s3) = content q (lfs_world s2)" using open_fail [OF io_world [OF o] False] by blast
      moreover have "r = ro" "s' = s3" using run l st o False \<open>\<not> (n = 0 \<or> _)\<close> by (auto simp: iRead_FromFileBin_def Let_def)
      ultimately show ?thesis using False c1 c2 by simp
    next
      case True
      note ok = open_ok [OF io_world [OF o [unfolded True]]]
      obtain rr got s4 where rd: "read_loop E h n 0 [] s3 = ((rr, got), s4)" by (metis surj_pair)
      obtain rc s5 where cl: "io (fs_close E h) s4 = (rc, s5)" by fastforce
      have op: "opened h (lfs_world s3) = Some (p, 0)" "content p (lfs_world s3) = Some c" using ok c c2 by auto
      have same: "content q (lfs_world s3) = content q (lfs_world s2)"
        using ok io_keeps(20) [OF o, of q] by (cases "q = p") auto
      have loop: "content x (lfs_world s4) = content x (lfs_world s3) \<and> (rr = 0 \<longrightarrow> got = take n c)" for x
        by (rule read_loop_ok [OF rd op]) (use c in simp_all)
      have "r = (if rc \<noteq> 0 \<and> rr = 0 then rc else rr)" "bs = got" "s' = s5"
        using run l st o True \<open>\<not> (n = 0 \<or> _)\<close> rd cl by (simp_all add: iRead_FromFileBin_def Let_def)
      then show ?thesis using loop c c1 c2 same io_keeps(9) [OF cl] by (auto split: if_splits)
    qed
  qed
qed

end

text \<open>The two functions of the controller are a store of small files.\<close>

sublocale fs_files \<subseteq> store: config_store
  "\<lambda>p d. iWrite_ToFileBin E (Some p) (Some d) (length d) (length d)"
  "\<lambda>p n. iRead_FromFileBin E (Some p) True n"
  "\<lambda>p s. content p (lfs_world s)"
  by unfold_locales (use iWrite_effect iRead_effect in \<open>metis take_all order_refl\<close>)+

end
