(* ===== verification/Lfs_Catalog.thy ===== *)
theory Lfs_Catalog
  imports Lfs_Paths Lfs_Store
begin

text \<open>
  The catalogue of files: what is true of every entry, that every operation keeps it, and that the refresh
  returns on a file system whose directories end.
\<close>

subsection \<open>Entries\<close>

definition below_root :: "string \<Rightarrow> bool" where
  "below_root p \<longleftrightarrow> take 5 p = ''/lfs/''"

definition entry_ok :: "sT_FileInfo_t \<Rightarrow> bool" where
  "entry_ok f \<longleftrightarrow> 0 < length (fi_caFileName f) \<and> length (fi_caFileName f) < 30
     \<and> fi_uiFileNameLen f = length (fi_caFileName f)
     \<and> length (fi_caFilePath f) < 100 \<and> below_root (fi_caFilePath f)
     \<and> drop (length (fi_caFilePath f) - length (fi_caFileName f)) (fi_caFilePath f) = fi_caFileName f"

definition catalog_ok :: "sT_FileInfo_t list \<Rightarrow> bool" where
  "catalog_ok fs \<longleftrightarrow> length fs \<le> 32 \<and> (\<forall>f \<in> set fs. entry_ok f)"

lemma join_root: "p = ''/lfs'' \<or> below_root p \<Longrightarrow> below_root (join_path p n)"
proof -
  assume "p = ''/lfs'' \<or> below_root p"
  moreover have "take 5 (p @ q) = ''/lfs/''" if "take 5 p = ''/lfs/''" for q
  proof -
    have "length (take 5 p) = 5" using that by simp
    then have "5 \<le> length p" by simp
    with that show ?thesis by simp
  qed
  ultimately show ?thesis by (auto simp only: below_root_def join_path_def) (auto simp: numeral_eq_Suc)
qed

lemma join_suffix: "drop (length (join_path p n) - length n) (join_path p n) = n"
  by (simp add: join_path_def)

subsection \<open>The refresh\<close>

definition scan_ok :: "scan \<Rightarrow> bool" where
  "scan_ok sc \<longleftrightarrow> catalog_ok (staStagingFileInfo sc)
     \<and> (\<forall>d \<in> set (caDirectoryWorkList sc). d = ''/lfs'' \<or> below_root d)"

lemma scan_entry_ok:
  assumes "scan_ok sc" and "cur = ''/lfs'' \<or> below_root cur" and "de_name ent \<noteq> ''''"
  shows "scan_ok (snd (scan_entry cur ent sc))"
  using assms join_root [OF assms(2), of "de_name ent"]
  by (auto simp: scan_entry_def scan_ok_def catalog_ok_def entry_ok_def join_suffix wall_simps strnlen_def Let_def)

lemma read_entries_ok:
  assumes "read_entries E h cur sc s = Some ((r, sc'), s')"
    and "scan_ok sc" and "cur = ''/lfs'' \<or> below_root cur"
  shows "scan_ok sc' \<and> world_moved s s'"
proof -
  have "scan_ok sc \<longrightarrow> cur = ''/lfs'' \<or> below_root cur \<longrightarrow> scan_ok (snd (fst x)) \<and> world_moved s (snd x)"
    if "read_entries E h cur sc s = Some x" for x
    using that
  proof (induction rule: read_entries.raw_induct [rotated, consumes 1, case_names step])
    case (step f E h cur sc s x)
    obtain r ent t where w: "io (fs_readdir E h) s = ((r, ent), t)" by (metis surj_pair)
    obtain r2 sc2 where e: "scan_entry cur ent sc = (r2, sc2)" by fastforce
    show ?case
    proof (cases "r < 0 \<or> de_name ent = '''' \<or> r2 < 0")
      case True
      with step(2) w e io_moved [OF w] scan_entry_ok [of sc cur ent] show ?thesis by (auto split: if_splits)
    next
      case False
      with step(2) w e have "f E h cur sc2 t = Some x" by simp
      from step(1) [OF this] False io_moved [OF w] scan_entry_ok [of sc cur ent] e show ?thesis
        by (auto intro: world_moved_trans)
    qed
  qed
  with assms show ?thesis by fastforce
qed

lemma scan_directory_ok:
  assumes "scan_directory E cur sc s = Some ((r, sc'), s')"
    and "scan_ok sc" and "cur = ''/lfs'' \<or> below_root cur"
  shows "scan_ok sc' \<and> world_moved s s'"
proof -
  obtain ro h s1 where o: "io (fs_opendir E cur) s = ((ro, h), s1)" by (metis surj_pair)
  show ?thesis
  proof (cases "ro < 0")
    case True
    with assms o io_moved [OF o] show ?thesis by (auto simp: scan_directory_def)
  next
    case False
    then obtain r2 sc2 s2 where e: "read_entries E h cur sc s1 = Some ((r2, sc2), s2)"
      using assms(1) o by (auto simp: scan_directory_def bind_eq_Some_conv)
    obtain rc s3 where c: "io (fs_closedir E h) s2 = (rc, s3)" by fastforce
    have "sc' = sc2" "s' = s3" using assms(1) o False e c by (auto simp: scan_directory_def)
    with read_entries_ok [OF e assms(2,3)] io_moved [OF o] io_moved [OF c] show ?thesis
      by (auto intro: world_moved_trans)
  qed
qed

lemma scan_directories_ok:
  assumes "scan_directories E sc s = Some ((r, sc'), s')" and "scan_ok sc"
  shows "scan_ok sc' \<and> world_moved s s'"
proof -
  have "scan_ok sc \<longrightarrow> scan_ok (snd (fst x)) \<and> world_moved s (snd x)" if "scan_directories E sc s = Some x" for x
    using that
  proof (induction rule: scan_directories.raw_induct [rotated, consumes 1, case_names step])
    case (step f E sc s x)
    show ?case
    proof (cases "caDirectoryWorkList sc")
      case Nil
      with step(2) show ?thesis by auto
    next
      case (Cons cur rest)
      with step(2) obtain r2 sc2 s2 where d: "scan_directory E cur (sc\<lparr>caDirectoryWorkList := rest\<rparr>) s = Some ((r2, sc2), s2)"
        and x: "(if r2 < 0 then Some ((r2, sc2), s2) else f E sc2 s2) = Some x"
        by (auto simp: bind_eq_Some_conv)
      have "scan_ok sc \<Longrightarrow> scan_ok (sc\<lparr>caDirectoryWorkList := rest\<rparr>) \<and> (cur = ''/lfs'' \<or> below_root cur)"
        using Cons by (auto simp: scan_ok_def)
      with scan_directory_ok [OF d] x step(1) [of E sc2 s2 x] show ?thesis
        by (auto split: if_splits intro: world_moved_trans)
    qed
  qed
  with assms show ?thesis by fastforce
qed

text \<open>An error leaves the catalogue alone; success replaces it by a sound one.\<close>

lemma refresh_result:
  assumes "refresh_catalog E s = Some (r, s')"
  shows "(r \<noteq> 0 \<longrightarrow> world_moved s s') \<and> r \<le> 0
    \<and> (\<exists>fs w. s' = s\<lparr>stTFileCatalog := fs, lfs_world := w\<rparr> \<and> (catalog_ok (stTFileCatalog s) \<longrightarrow> catalog_ok fs))"
proof -
  obtain rl s1 where l: "io (lfs_mutex_lock E kMutex_FileAccess) s = (rl, s1)" by fastforce
  note m1 = io_moved [OF l]
  show ?thesis
  proof (cases "rl = 0")
    case False
    with assms l have "r = - ENOLCK" "s' = s1"
      by (auto simp: refresh_catalog_def iGetFileInfo_def EXT_LITTLEFS_MOUNT_POINT_def strnlen_def wall_simps)
    moreover from m1 have "\<exists>w. s1 = s\<lparr>stTFileCatalog := stTFileCatalog s, lfs_world := w\<rparr>" by (auto simp: world_moved_def)
    ultimately show ?thesis using m1
      by (intro conjI exI [of _ "stTFileCatalog s"]) (simp_all add: errno_defs)
  next
    case True
    let ?sc = "\<lparr>staStagingFileInfo = [], caDirectoryWorkList = [EXT_LITTLEFS_MOUNT_POINT], uiTotalDirectoryCount = 1\<rparr>"
    obtain r2 sc s2 where d: "scan_directories E ?sc s1 = Some ((r2, sc), s2)"
        and e: "(r, s') = (if r2 < 0 then (r2, s2) else (0, s2\<lparr>stTFileCatalog := staStagingFileInfo sc\<rparr>))"
      using assms l True
      by (auto simp: refresh_catalog_def iGetFileInfo_def EXT_LITTLEFS_MOUNT_POINT_def strnlen_def wall_simps bind_eq_Some_conv)
    have "scan_ok ?sc" by (simp add: scan_ok_def catalog_ok_def EXT_LITTLEFS_MOUNT_POINT_def)
    from scan_directories_ok [OF d this] have "scan_ok sc" "world_moved s s2"
      using m1 by (auto intro: world_moved_trans)
    then obtain w where w: "s2 = s\<lparr>lfs_world := w\<rparr>" and ok: "catalog_ok (staStagingFileInfo sc)"
      by (auto simp: world_moved_def scan_ok_def)
    show ?thesis
    proof (cases "r2 < 0")
      case True
      with e w \<open>world_moved s s2\<close> show ?thesis by (intro conjI exI [of _ "stTFileCatalog s"] exI [of _ w]) simp_all
    next
      case False
      with e w ok show ?thesis by (intro conjI exI [of _ "staStagingFileInfo sc"] exI [of _ w]) simp_all
    qed
  qed
qed

subsection \<open>The refresh returns\<close>

text \<open>
  A directory stream ends: every entry that is read makes the rest, a number of entries, smaller.
\<close>

definition directories_end :: "('w, 'z) fs_services_scheme \<Rightarrow> (nat \<Rightarrow> 'w \<Rightarrow> nat) \<Rightarrow> bool" where
  "directories_end E rest \<longleftrightarrow> (\<forall>h w r ent w'. fs_readdir E h w = ((r, ent), w') \<longrightarrow>
     r < 0 \<or> de_name ent = '''' \<or> rest h w' < rest h w)"

lemma read_entries_returns:
  assumes "directories_end E rest"
  shows "\<exists>x. read_entries E h cur sc s = Some x"
proof (induction "rest h (lfs_world s)" arbitrary: sc s rule: less_induct)
  case less
  obtain r ent t where w: "io (fs_readdir E h) s = ((r, ent), t)" by (metis surj_pair)
  obtain r2 sc2 where e: "scan_entry cur ent sc = (r2, sc2)" by fastforce
  show ?case
  proof (cases "r < 0 \<or> de_name ent = '''' \<or> r2 < 0")
    case True
    with w e show ?thesis by (subst read_entries.simps) auto
  next
    case False
    then have "rest h (lfs_world t) < rest h (lfs_world s)"
      using assms io_world [OF w] unfolding directories_end_def by blast
    from less [OF this, of sc2] False w e show ?thesis by (subst read_entries.simps) auto
  qed
qed

text \<open>The work list: every push is paid for by the limit of ten directories.\<close>

definition scan_budget :: "scan \<Rightarrow> nat" where
  "scan_budget sc = 2 * (10 - uiTotalDirectoryCount sc) + length (caDirectoryWorkList sc)"

lemma scan_entry_budget: "scan_budget (snd (scan_entry cur ent sc)) \<le> scan_budget sc"
  by (auto simp: scan_entry_def scan_budget_def wall_simps Let_def)

lemma read_entries_budget:
  assumes "read_entries E h cur sc s = Some ((r, sc'), s')"
  shows "scan_budget sc' \<le> scan_budget sc"
proof -
  have "scan_budget (snd (fst x)) \<le> scan_budget sc" if "read_entries E h cur sc s = Some x" for x
    using that
  proof (induction rule: read_entries.raw_induct [rotated, consumes 1, case_names step])
    case (step f E h cur sc s x)
    obtain r ent t where w: "io (fs_readdir E h) s = ((r, ent), t)" by (metis surj_pair)
    obtain r2 sc2 where e: "scan_entry cur ent sc = (r2, sc2)" by fastforce
    with scan_entry_budget [of cur ent sc] have b: "scan_budget sc2 \<le> scan_budget sc" by simp
    show ?case
    proof (cases "r < 0 \<or> de_name ent = '''' \<or> r2 < 0")
      case True
      with step(2) w e b show ?thesis by (auto split: if_splits)
    next
      case False
      with step(2) w e have "f E h cur sc2 t = Some x" by simp
      from step(1) [OF this] b show ?thesis by simp
    qed
  qed
  with assms show ?thesis by fastforce
qed

lemma scan_directories_returns:
  assumes "directories_end E rest"
  shows "\<exists>x. scan_directories E sc s = Some x"
proof (induction "scan_budget sc" arbitrary: sc s rule: less_induct)
  case less
  show ?case
  proof (cases "caDirectoryWorkList sc")
    case Nil
    then show ?thesis by (subst scan_directories.simps) simp
  next
    case (Cons cur ds)
    let ?sc = "sc\<lparr>caDirectoryWorkList := ds\<rparr>"
    obtain ro h s1 where o: "io (fs_opendir E cur) s = ((ro, h), s1)" by (metis surj_pair)
    obtain r2 sc2 s2 where e: "read_entries E h cur ?sc s1 = Some ((r2, sc2), s2)"
      using read_entries_returns [OF assms, of h cur ?sc s1] by auto
    obtain rc s3 where c: "io (fs_closedir E h) s2 = (rc, s3)" by fastforce
    have "scan_budget sc2 < scan_budget sc"
      using read_entries_budget [OF e] Cons by (simp add: scan_budget_def)
    from less [OF this] show ?thesis using Cons o e c
      by (subst scan_directories.simps) (auto simp: scan_directory_def)
  qed
qed

lemma refresh_returns:
  assumes "directories_end E rest"
  shows "\<exists>r s'. refresh_catalog E s = Some (r, s')"
proof -
  obtain rl s1 where l: "io (lfs_mutex_lock E kMutex_FileAccess) s = (rl, s1)" by fastforce
  obtain r sc t where "scan_directories E \<lparr>staStagingFileInfo = [], caDirectoryWorkList = [EXT_LITTLEFS_MOUNT_POINT], uiTotalDirectoryCount = 1\<rparr> s1
      = Some ((r, sc), t)"
    using scan_directories_returns [OF assms, of _ s1] by (metis surj_pair)
  with l show ?thesis
    by (simp add: refresh_catalog_def iGetFileInfo_def EXT_LITTLEFS_MOUNT_POINT_def strnlen_def wall_simps)
qed

subsection \<open>What file operations leave alone\<close>

text \<open>Only the catalogue and the world differ.\<close>

definition files_moved :: "'w lfs_sys \<Rightarrow> 'w lfs_sys \<Rightarrow> bool" where
  "files_moved s s' \<longleftrightarrow> (\<exists>fs w. s' = s\<lparr>stTFileCatalog := fs, lfs_world := w\<rparr>)"

lemma files_moved_refl [simp]: "files_moved s s"
  unfolding files_moved_def by (intro exI [of _ "stTFileCatalog s"] exI [of _ "lfs_world s"]) simp

lemma files_moved_trans:
  assumes "files_moved a b" and "files_moved b c"
  shows "files_moved a c"
proof -
  obtain fs w gs v where "b = a\<lparr>stTFileCatalog := fs, lfs_world := w\<rparr>" "c = b\<lparr>stTFileCatalog := gs, lfs_world := v\<rparr>"
    using assms by (auto simp: files_moved_def)
  then have "c = a\<lparr>stTFileCatalog := gs, lfs_world := v\<rparr>" by simp
  then show ?thesis unfolding files_moved_def by blast
qed

lemma moved_files: "world_moved s s' \<Longrightarrow> files_moved s s'"
  unfolding world_moved_def files_moved_def
  by (elim exE, rule exI [of _ "stTFileCatalog s"], rule exI) simp

lemma files_movedD:
  assumes "files_moved s s'"
  shows "stTBulkDataCtrl s' = stTBulkDataCtrl s" "stMsgQueue_FileTransfer s' = stMsgQueue_FileTransfer s"
    "bulk_worker_runs s' = bulk_worker_runs s" "kSem_BulkWorkerDone s' = kSem_BulkWorkerDone s"
    "bulk_work_submitted s' = bulk_work_submitted s"
  using assms by (auto simp: files_moved_def)

lemma refresh_moved: "refresh_catalog E s = Some (r, s') \<Longrightarrow> files_moved s s'"
  using refresh_result [of E s r s'] by (auto simp: files_moved_def)

lemma delete_internal_result:
  assumes "iDelete_FileInternal E p s = Some (r, s')"
  shows "files_moved s s' \<and> (catalog_ok (stTFileCatalog s) \<longrightarrow> catalog_ok (stTFileCatalog s'))"
proof (cases "pstGetFile_ByFilePath p s")
  case None
  with assms show ?thesis by (auto simp: iDelete_FileInternal_def)
next
  case (Some i)
  let ?p = "fi_caFilePath (stTFileCatalog s ! i)"
  obtain lr s1 where l: "io (lfs_mutex_lock E kMutex_FileAccess) s = (lr, s1)" by fastforce
  obtain sr e s2 where st: "io (fs_stat E ?p) s1 = ((sr, e), s2)" by (metis surj_pair)
  obtain ur s3 where u: "io (fs_unlink E ?p) s2 = (ur, s3)" by fastforce
  note m = io_moved [OF l] io_moved [OF st] io_moved [OF u]
  note c = world_movedD(1) [OF m(1)] world_movedD(1) [OF m(2)] world_movedD(1) [OF m(3)]
  have ms: "files_moved s s1" "files_moved s s2" "files_moved s s3"
    using m by (meson moved_files world_moved_trans)+
  have eq: "Some (r, s') = (if lr \<noteq> 0 then Some (- EIO, s1) else if sr \<noteq> 0 then Some (sr, s2)
      else if ur \<noteq> 0 then Some (ur, s3) else refresh_catalog E s3)"
    unfolding assms [symmetric] iDelete_FileInternal_def Some option.case l Let_def prod.case
    by (simp add: c st u)
  show ?thesis
  proof (cases "lr \<noteq> 0 \<or> sr \<noteq> 0 \<or> ur \<noteq> 0")
    case True
    with eq ms c show ?thesis by (auto split: if_splits)
  next
    case False
    with eq have "refresh_catalog E s3 = Some (r, s')" by simp
    from refresh_result [OF this] refresh_moved [OF this] ms c show ?thesis
      by (auto intro: files_moved_trans)
  qed
qed

lemma delete_result:
  assumes "iDelete_File E p s = Some (r, s')"
  shows "files_moved s s' \<and> (catalog_ok (stTFileCatalog s) \<longrightarrow> catalog_ok (stTFileCatalog s'))"
  using assms delete_internal_result [of E _ s r s']
  by (cases p) (auto simp: iDelete_File_def split: if_splits)

text \<open>\<open>iCreate_File\<close>: every error leaves the catalogue alone, success adds the file at its end.\<close>

lemma create_moved:
  assumes "iCreate_File E path name s = (r, s')"
  shows "(r \<noteq> 0 \<longrightarrow> world_moved s s') \<and> (r = 0 \<longrightarrow> (\<exists>p n full w. path = Some p \<and> name = Some n
      \<and> bBuild_Validate_FullPathName p n (strnlen p MAX_FILE_PATH_LENGTH) (strnlen n MAX_FILE_NAME_LENGTH) = Some full
      \<and> length (stTFileCatalog s) < 32
      \<and> s' = s\<lparr>stTFileCatalog := stTFileCatalog s @ [\<lparr>fi_caFileName = n, fi_caFilePath = full,
           fi_uiFileNameLen = length n, fi_uiFileSize = 0\<rparr>], lfs_world := w\<rparr>))"
proof (cases "name = None \<or> path = None \<or> bIsBulkTransferActive s
    \<or> bBuild_Validate_FullPathName (the path) (the name) (strnlen (the path) MAX_FILE_PATH_LENGTH) (strnlen (the name) MAX_FILE_NAME_LENGTH) = None")
  case True
  with assms show ?thesis by (auto simp: iCreate_File_def errno_defs split: if_splits)
next
  case False
  then obtain p n full where a: "path = Some p" "name = Some n" "\<not> bIsBulkTransferActive s"
    and v: "bBuild_Validate_FullPathName p n (strnlen p MAX_FILE_PATH_LENGTH) (strnlen n MAX_FILE_NAME_LENGTH) = Some full" by auto
  have n: "strnlen n MAX_FILE_NAME_LENGTH = length n" using validated_path [OF v] by (simp add: strnlen_def wall_simps)
  obtain dr av s1 where d: "iCheckOrCreateDirectory E p s = ((dr, av), s1)" by (metis surj_pair)
  obtain fr av2 s2 where f: "iCheck_FileAvailability E full av s1 = ((fr, av2), s2)" by (metis surj_pair)
  obtain lr s3 where l: "io (lfs_mutex_lock E kMutex_FileAccess) s2 = (lr, s3)" by fastforce
  obtain orr h s4 where o: "io (fs_open E full FS_O_CREATE_WRITE) s3 = ((orr, h), s4)" by (metis surj_pair)
  obtain cr s5 where c: "io (fs_close E h) s4 = (cr, s5)" by fastforce
  have m1: "world_moved s s1"
    using d by (auto simp: iCheckOrCreateDirectory_def split: prod.splits if_splits dest!: io_moved intro: world_moved_trans)
  have m2: "world_moved s1 s2"
    using f by (auto simp: iCheck_FileAvailability_def split: prod.splits if_splits dest!: io_moved)
  have m: "world_moved s s2" "world_moved s s3" "world_moved s s4" "world_moved s s5"
    using m1 m2 io_moved [OF l] io_moved [OF o] io_moved [OF c] by (meson world_moved_trans)+
  let ?new = "s5\<lparr>stTFileCatalog := stTFileCatalog s5 @ [\<lparr>fi_caFileName = n, fi_caFilePath = full, fi_uiFileNameLen = length n, fi_uiFileSize = 0\<rparr>]\<rparr>"
  have eq: "(r, s') = (if dr \<noteq> 0 then (dr, s1) else if av2 then (- EEXIST, s2) else if fr \<noteq> 0 then (fr, s2)
      else if lr \<noteq> 0 then (lr, s3) else if length (stTFileCatalog s3) \<ge> 32 then (- ENOSPC, s3)
      else if orr < 0 then (orr, s4) else if orr = 0 \<and> cr < 0 then (cr, s5) else (0, ?new))"
    using assms a v n d f l o c by (simp add: iCreate_File_def Let_def wall_simps split: if_splits)
  have "\<exists>w. ?new = s\<lparr>stTFileCatalog := stTFileCatalog s @ [\<lparr>fi_caFileName = n, fi_caFilePath = full,
           fi_uiFileNameLen = length n, fi_uiFileSize = 0\<rparr>], lfs_world := w\<rparr>"
  proof -
    obtain w where "s5 = s\<lparr>lfs_world := w\<rparr>" using m(4) by (auto simp: world_moved_def)
    then show ?thesis by (intro exI [of _ w]) simp
  qed
  moreover have "length (stTFileCatalog s3) = length (stTFileCatalog s)" using m(2) by (simp add: world_movedD)
  ultimately show ?thesis using eq m m1 a v by (auto simp: errno_defs split: if_splits)
qed

lemma create_files_moved:
  assumes "iCreate_File E path name s = (r, s')"
  shows "files_moved s s'"
  using create_moved [OF assms] by (cases "r = 0") (auto simp: files_moved_def dest: moved_files [unfolded files_moved_def])

lemma create_catalog_ok:
  assumes "iCreate_File E path name s = (r, s')" and "catalog_ok (stTFileCatalog s)"
  shows "catalog_ok (stTFileCatalog s')"
proof (cases "r = 0")
  case False
  with create_moved [OF assms(1)] assms(2) show ?thesis by (simp add: world_movedD)
next
  case True
  with create_moved [OF assms(1)] obtain p n full w
    where v: "bBuild_Validate_FullPathName p n (strnlen p MAX_FILE_PATH_LENGTH) (strnlen n MAX_FILE_NAME_LENGTH) = Some full"
      and room: "length (stTFileCatalog s) < 32"
      and s': "s' = s\<lparr>stTFileCatalog := stTFileCatalog s @ [\<lparr>fi_caFileName = n, fi_caFilePath = full,
           fi_uiFileNameLen = length n, fi_uiFileSize = 0\<rparr>], lfs_world := w\<rparr>" by auto
  from validated_path [OF v] assms(2) room show ?thesis
    by (auto simp: s' catalog_ok_def entry_ok_def confined_path_def below_root_def join_suffix)
qed

end
