(* ===== verification/Lfs_Delete.thy ===== *)
theory Lfs_Delete
  imports Lfs_Catalog
begin

text \<open>
  Deleting a directory. What the two passes do to the state is described by a relation that contains the calls they
  make; the walk is analysed once in the locale \<open>tree_walk\<close> and used twice: only the world moves,
  and no file outside the directory is touched.
\<close>

subsection \<open>The walk\<close>

locale tree_walk =
  fixes E :: "('w, 'z) fs_services_scheme"
    and in_tree :: "string \<Rightarrow> bool"
    and below_tree :: "string \<Rightarrow> bool"
    and R :: "'w lfs_sys \<Rightarrow> 'w lfs_sys \<Rightarrow> bool"
  assumes R_refl: "R s s"
    and R_trans: "R a b \<Longrightarrow> R b c \<Longrightarrow> R a c"
    and R_opendir: "io (fs_opendir E p) s = (x, s') \<Longrightarrow> R s s'"
    and R_readdir: "io (fs_readdir E h) s = (y, s') \<Longrightarrow> R s s'"
    and R_closedir: "io (fs_closedir E h) s = (r, s') \<Longrightarrow> R s s'"
    and R_unlink: "below_tree p \<Longrightarrow> io (fs_unlink E p) s = (r, s') \<Longrightarrow> R s s'"
    and tree_join: "in_tree d \<Longrightarrow> below_tree (join_path d n)"
    and tree_below: "below_tree p \<Longrightarrow> in_tree p"
begin

lemma read_subdirectories_walk:
  assumes "read_subdirectories E h cur dirs s = Some ((r, dirs'), s')" and "in_tree cur"
  shows "R s s' \<and> (\<exists>new. dirs' = dirs @ new \<and> (\<forall>p \<in> set new. below_tree p))"
proof -
  have "F = E \<longrightarrow> in_tree cur \<longrightarrow> R s (snd x) \<and> (\<exists>new. snd (fst x) = dirs @ new \<and> (\<forall>p \<in> set new. below_tree p))"
    if "read_subdirectories F h cur dirs s = Some x" for F x
    using that
  proof (induction rule: read_subdirectories.raw_induct [rotated, consumes 1, case_names step])
    case (step f F h cur dirs s x)
    obtain r ent t where w: "io (fs_readdir F h) s = ((r, ent), t)" by (metis surj_pair)
    let ?j = "join_path cur (de_name ent)"
    note eq = step(2) [unfolded w Let_def prod.case]
    have R: "F = E \<Longrightarrow> R s t" using R_readdir w by blast
    consider (stop) ro where "x = ((ro, dirs), t)" | (skip) "f F h cur dirs t = Some x" | (more) "f F h cur (dirs @ [?j]) t = Some x"
      using eq by (auto split: if_splits)
    then show ?case
    proof cases
      case stop
      with R show ?thesis by auto
    next
      case skip
      from step(1) [OF this] R show ?thesis by (auto intro: R_trans)
    next
      case more
      from step(1) [OF this] R tree_join [of cur "de_name ent"] show ?thesis by (auto intro: R_trans)
    qed
  qed
  with assms show ?thesis by fastforce
qed

lemma collect_directories_walk:
  assumes "collect_directories E i dirs s = Some ((r, dirs'), s')" and "\<forall>p \<in> set dirs. in_tree p"
  shows "R s s' \<and> (\<exists>new. dirs' = dirs @ new \<and> (\<forall>p \<in> set new. below_tree p))"
proof -
  have "F = E \<longrightarrow> (\<forall>p \<in> set dirs. in_tree p) \<longrightarrow>
      R s (snd x) \<and> (\<exists>new. snd (fst x) = dirs @ new \<and> (\<forall>p \<in> set new. below_tree p))"
    if "collect_directories F i dirs s = Some x" for F x
    using that
  proof (induction rule: collect_directories.raw_induct [rotated, consumes 1, case_names step])
    case (step f F i dirs s x)
    obtain ro h s1 where o: "io (fs_opendir F (dirs ! i)) s = ((ro, h), s1)" by (metis surj_pair)
    note eq = step(2) [unfolded o Let_def prod.case]
    have R1: "F = E \<Longrightarrow> R s s1" using R_opendir o by blast
    show ?case
    proof (cases "i \<ge> length dirs \<or> ro \<noteq> 0")
      case True
      with eq R1 R_refl show ?thesis by (auto split: if_splits)
    next
      case False
      with eq obtain r2 dirs2 s2 where sub: "read_subdirectories F h (dirs ! i) dirs s1 = Some ((r2, dirs2), s2)"
        by (auto simp: bind_eq_Some_conv)
      obtain cr s3 where c: "io (fs_closedir F h) s2 = (cr, s3)" by fastforce
      have R3: "F = E \<Longrightarrow> R s2 s3" using R_closedir c by blast
      have eq2: "(x = ((if r2 = 0 \<and> cr \<noteq> 0 then cr else r2, dirs2), s3)) \<or> f F (i + 1) dirs2 s3 = Some x"
        using eq False sub c by (auto split: if_splits)
      show ?thesis
      proof (intro impI)
        assume F: "F = E" and tree: "\<forall>p \<in> set dirs. in_tree p"
        then obtain new where new: "R s1 s2" "dirs2 = dirs @ new" "\<forall>p \<in> set new. below_tree p"
          using read_subdirectories_walk [of h "dirs ! i" dirs s1 r2 dirs2 s2] sub False by auto
        then have tree2: "\<forall>p \<in> set dirs2. in_tree p" using tree tree_below by auto
        have R: "R s s3" using R1 [OF F] R3 [OF F] new(1) R_trans by blast
        from eq2 show "R s (snd x) \<and> (\<exists>new. snd (fst x) = dirs @ new \<and> (\<forall>p \<in> set new. below_tree p))"
        proof
          assume "x = ((if r2 = 0 \<and> cr \<noteq> 0 then cr else r2, dirs2), s3)"
          with R new show ?thesis by auto
        next
          assume "f F (i + 1) dirs2 s3 = Some x"
          from step(1) [OF this] F tree2 obtain new2 where "R s3 (snd x)" "snd (fst x) = dirs2 @ new2" "\<forall>p \<in> set new2. below_tree p"
            by auto
          with R new show ?thesis using R_trans by auto
        qed
      qed
    qed
  qed
  with assms show ?thesis by fastforce
qed

lemma first_entry_walk:
  assumes "first_entry E h cur s = Some ((r, found), s')" and "in_tree cur"
  shows "R s s' \<and> (\<forall>ty p. found = Some (ty, p) \<longrightarrow> below_tree p)"
proof -
  have "F = E \<longrightarrow> in_tree cur \<longrightarrow> R s (snd x) \<and> (\<forall>ty p. snd (fst x) = Some (ty, p) \<longrightarrow> below_tree p)"
    if "first_entry F h cur s = Some x" for F x
    using that
  proof (induction rule: first_entry.raw_induct [rotated, consumes 1, case_names step])
    case (step f F h cur s x)
    obtain r ent t where w: "io (fs_readdir F h) s = ((r, ent), t)" by (metis surj_pair)
    note eq = step(2) [unfolded w Let_def prod.case]
    have R: "F = E \<Longrightarrow> R s t" using R_readdir w by blast
    show ?case
    proof (cases "f F h cur t = Some x")
      case True
      from step(1) [OF this] R show ?thesis by (auto intro: R_trans)
    next
      case False
      with eq R tree_join [of cur "de_name ent"] show ?thesis by (auto split: if_splits)
    qed
  qed
  with assms show ?thesis by fastforce
qed

lemma empty_directory_walk:
  assumes "empty_directory E cur s = Some (r, s')" and "in_tree cur"
  shows "R s s'"
proof -
  have "F = E \<longrightarrow> in_tree cur \<longrightarrow> R s (snd x)" if "empty_directory F cur s = Some x" for F x
    using that
  proof (induction rule: empty_directory.raw_induct [rotated, consumes 1, case_names step])
    case (step f F cur s x)
    obtain ro h s1 where o: "io (fs_opendir F cur) s = ((ro, h), s1)" by (metis surj_pair)
    note eq = step(2) [unfolded o Let_def prod.case]
    have R1: "F = E \<Longrightarrow> R s s1" using R_opendir o by blast
    show ?case
    proof (cases "ro = 0")
      case False
      with eq R1 show ?thesis by auto
    next
      case True
      with eq obtain r2 found s2 where fe: "first_entry F h cur s1 = Some ((r2, found), s2)" by (auto simp: bind_eq_Some_conv)
      obtain cr s3 where c: "io (fs_closedir F h) s2 = (cr, s3)" by fastforce
      have R3: "F = E \<Longrightarrow> R s2 s3" using R_closedir c by blast
      show ?thesis
      proof (intro impI)
        assume F: "F = E" and tree: "in_tree cur"
        from first_entry_walk [of h cur s1 r2 found s2] fe F tree
        have w: "R s1 s2" "\<forall>ty p. found = Some (ty, p) \<longrightarrow> below_tree p" by auto
        have R: "R s s3" using R1 [OF F] R3 [OF F] w(1) R_trans by blast
        note eq2 = eq [unfolded True fe c bind_eq_Some_conv, simplified, unfolded c prod.case]
        consider (stop) "snd x = s3"
          | (del) p rd s4 where "found = Some (FS_DIR_ENTRY_FILE, p)" "io (fs_unlink F p) s3 = (rd, s4)"
              "snd x = s4 \<or> f F cur s4 = Some x"
        proof (cases found)
          case None
          with eq2 have "snd x = s3" by (auto split: if_splits)
          then show ?thesis by (rule stop)
        next
          case (Some e)
          obtain ty p where e: "e = (ty, p)" by fastforce
          obtain rd s4 where u: "io (fs_unlink F p) s3 = (rd, s4)" by fastforce
          show ?thesis
          proof (cases "(r2 = 0 \<and> cr = 0) \<and> ty = FS_DIR_ENTRY_FILE")
            case True
            with eq2 Some e u have "snd x = s4 \<or> f F cur s4 = Some x" by (auto split: if_splits) (metis snd_conv)
            with del Some e True u show ?thesis by blast
          next
            case False
            with eq2 Some e u have "snd x = s3" by (auto split: if_splits)
            then show ?thesis by (rule stop)
          qed
        qed
        then show "R s (snd x)"
        proof cases
          case stop
          with R show ?thesis by simp
        next
          case del
          then have R4: "R s s4" using R w(2) F R_unlink R_trans by blast
          from del(3) show ?thesis
          proof
            assume "f F cur s4 = Some x"
            from step(1) [OF this] F tree R4 show ?thesis using R_trans by blast
          qed (use R4 in simp)
        qed
      qed
    qed
  qed
  with assms show ?thesis by fastforce
qed

text \<open>The last directory of the list is the requested one, which this pass leaves in place.\<close>

lemma remove_directories_walk:
  assumes "remove_directories E ds s = Some (r, s')" and "\<forall>p \<in> set (butlast ds). below_tree p" and "ds \<noteq> [] \<longrightarrow> in_tree (last ds)"
  shows "R s s'"
  using assms
proof (induction ds arbitrary: s)
  case Nil
  then show ?case using R_refl by simp
next
  case (Cons d ds)
  obtain r1 s1 where e: "empty_directory E d s = Some (r1, s1)" using Cons(2) by (auto simp: bind_eq_Some_conv)
  have "in_tree d" using Cons(3,4) tree_below by (cases ds) auto
  with empty_directory_walk [OF e] have R1: "R s s1" by simp
  show ?case
  proof (cases "r1 \<noteq> 0 \<or> ds = []")
    case True
    with Cons(2) e R1 show ?thesis by (auto split: if_splits)
  next
    case False
    obtain r2 s2 where u: "io (fs_unlink E d) s1 = (r2, s2)" by fastforce
    have "below_tree d" using Cons(3) False by simp
    with u have "R s1 s2" using R_unlink by blast
    with R1 have R2: "R s s2" using R_trans by blast
    have rest: "\<forall>p \<in> set (butlast ds). below_tree p" "ds \<noteq> [] \<longrightarrow> in_tree (last ds)" using Cons(3,4) False by auto
    show ?thesis
    proof (cases "r2 = 0")
      case True
      then have "remove_directories E ds s2 = Some (r, s')" using Cons(2) e u False by simp
      with Cons(1) rest R2 show ?thesis using R_trans by blast
    next
      case n: False
      with Cons(2) e u False R2 show ?thesis by simp
    qed
  qed
qed

lemma delete_all_walk:
  assumes "iDelete_AllFiles_InsideDirectory E d s = Some (r, s')" and "in_tree d"
  shows "R s s'"
proof (cases "strnlen d MAX_FILE_PATH_LENGTH = 0 \<or> strnlen d MAX_FILE_PATH_LENGTH \<ge> MAX_FILE_PATH_LENGTH")
  case True
  with assms(1) R_refl show ?thesis by (auto simp: iDelete_AllFiles_InsideDirectory_def Let_def)
next
  case False
  with assms(1) obtain rc dirs s1 where c: "collect_directories E 0 [d] s = Some ((rc, dirs), s1)"
    and rest: "(if rc \<noteq> 0 then Some (rc, s1) else remove_directories E (rev dirs) s1) = Some (r, s')"
    by (auto simp: iDelete_AllFiles_InsideDirectory_def Let_def bind_eq_Some_conv)
  from collect_directories_walk [OF c] assms(2) obtain new where new: "R s s1" "dirs = d # new" "\<forall>p \<in> set new. below_tree p" by auto
  show ?thesis
  proof (cases "rc = 0")
    case False
    with rest new show ?thesis by simp
  next
    case True
    then have "remove_directories E (rev dirs) s1 = Some (r, s')" using rest by simp
    then have "R s1 s'" by (rule remove_directories_walk) (use new assms(2) in auto)
    with new(1) show ?thesis using R_trans by blast
  qed
qed

end

interpretation moved: tree_walk E "\<lambda>_. True" "\<lambda>_. True" world_moved
  for E :: "('w, 'z) fs_services_scheme"
  by unfold_locales (auto dest: io_moved intro: world_moved_trans)

subsection \<open>The operation\<close>

text \<open>Below a directory: what joins with it, whatever slashes are in between.\<close>

definition path_below :: "string \<Rightarrow> string \<Rightarrow> bool" where
  "path_below d p \<longleftrightarrow> (\<exists>x. p = join_path d x)"

lemma join_join: "join_path (join_path d x) n = join_path d (join_path x n) \<or> join_path (join_path d x) n = join_path d n"
  by (cases x rule: rev_cases) (auto simp: join_path_def nth_append)

lemma path_below_join: "d = p \<or> path_below d p \<Longrightarrow> path_below d (join_path p n)"
  unfolding path_below_def using join_join by metis

lemma path_below_iff: "d \<noteq> [] \<Longrightarrow> last d \<noteq> CHR ''/'' \<Longrightarrow> path_below d p \<longleftrightarrow> take (length d + 1) p = d @ ''/''"
  by (auto simp: path_below_def join_path_def last_conv_nth) (metis append_Cons append_Nil append_assoc append_take_drop_id)

lemma strip_slashes_last: "length (strip_slashes p) > 1 \<Longrightarrow> last (strip_slashes p) \<noteq> CHR ''/''"
proof (induction p rule: strip_slashes.induct)
  case (1 p)
  show ?case
  proof (cases "length p > 1 \<and> p ! (length p - 1) = CHR ''/''")
    case True
    then have "strip_slashes p = strip_slashes (butlast p)" by (subst strip_slashes.simps) simp
    with 1 True show ?thesis by simp
  next
    case False
    then have "strip_slashes p = p" by (subst strip_slashes.simps) (simp only: if_False)
    with 1(2) False show ?thesis by (metis last_conv_nth length_0_conv less_zeroE)
  qed
qed

text \<open>The steps of a deletion that gets past its checks.\<close>

lemma delete_directory_steps:
  assumes "bDelete_Directory E (Some p) s = Some (b, s')"
  obtains "s' = s"
    | rl where "io (lfs_mutex_lock E kMutex_FileAccess) s = (rl, s')"
    | rl s1 r e where "io (lfs_mutex_lock E kMutex_FileAccess) s = (rl, s1)" "io (fs_stat E (strip_slashes p)) s1 = ((r, e), s')"
    | rl s1 r e s2 r3 s3 r4 s4 r5 where "deletable_directory (strip_slashes p)"
        "io (lfs_mutex_lock E kMutex_FileAccess) s = (rl, s1)" "io (fs_stat E (strip_slashes p)) s1 = ((r, e), s2)"
        "iDelete_AllFiles_InsideDirectory E (strip_slashes p) s2 = Some (r3, s3)"
        "s4 = s3 \<or> io (fs_unlink E (strip_slashes p)) s3 = (r4, s4)" "refresh_catalog E s4 = Some (r5, s')"
proof -
  let ?d = "strip_slashes p"
  obtain rl s1 where l: "io (lfs_mutex_lock E kMutex_FileAccess) s = (rl, s1)" by fastforce
  obtain r e s2 where st: "io (fs_stat E ?d) s1 = ((r, e), s2)" by (metis surj_pair)
  note eq = assms [unfolded bDelete_Directory_def option.case Let_def l prod.case st]
  show thesis
  proof (cases "bIsBulkTransferActive s \<or> strnlen p MAX_FILE_PATH_LENGTH = 0 \<or> strnlen p MAX_FILE_PATH_LENGTH \<ge> MAX_FILE_PATH_LENGTH
      \<or> \<not> deletable_directory ?d")
    case True
    with eq have "s' = s" by (auto split: if_splits)
    then show thesis by (rule that(1))
  next
    case go: False
    show thesis
    proof (cases "rl = 0 \<and> r = 0 \<and> de_type e = FS_DIR_ENTRY_DIR")
      case False
      with eq go have "s' = s1 \<or> s' = s2" by (auto split: if_splits)
      with l st that(2,3) show thesis by blast
    next
      case True
      with eq go obtain r3 s3 where d: "iDelete_AllFiles_InsideDirectory E ?d s2 = Some (r3, s3)"
        and rest: "(case (if r3 = 0 then io (fs_unlink E ?d) s3 else (r3, s3)) of
            (r, s) \<Rightarrow> refresh_catalog E s \<bind> (\<lambda>(cr, s). Some (r = 0 \<and> cr = 0, s))) = Some (b, s')"
        by (auto simp: bind_eq_Some_conv)
      obtain r4 s4 where u: "(if r3 = 0 then io (fs_unlink E ?d) s3 else (r3, s3)) = (r4, s4)" by fastforce
      from rest u obtain r5 where re: "refresh_catalog E s4 = Some (r5, s')" by (auto simp: bind_eq_Some_conv)
      have "s4 = s3 \<or> io (fs_unlink E ?d) s3 = (r4, s4)" using u by (simp split: if_splits)
      with go l st d re that(4) show thesis by blast
    qed
  qed
qed

lemma delete_directory_moved:
  assumes "bDelete_Directory E path s = Some (b, s')"
  shows "files_moved s s' \<and> (catalog_ok (stTFileCatalog s) \<longrightarrow> catalog_ok (stTFileCatalog s'))"
proof (cases path)
  case None
  with assms show ?thesis by (simp add: bDelete_Directory_def)
next
  case (Some p)
  have moved: "world_moved s t \<Longrightarrow> files_moved s t \<and> (catalog_ok (stTFileCatalog s) \<longrightarrow> catalog_ok (stTFileCatalog t))" for t
    by (simp add: moved_files world_movedD)
  from assms [unfolded Some] show ?thesis
  proof (cases rule: delete_directory_steps)
    case 1
    then show ?thesis by simp
  next
    case 2
    then show ?thesis by (rule moved [OF io_moved])
  next
    case 3
    from moved [OF world_moved_trans [OF io_moved [OF 3(1)] io_moved [OF 3(2)]]] show ?thesis .
  next
    case (4 rl s1 r e s2 r3 s3 r4 s4 r5)
    from moved.delete_all_walk [OF 4(4)] have "world_moved s2 s3" by simp
    then have m3: "world_moved s s3" using io_moved [OF 4(2)] io_moved [OF 4(3)] world_moved_trans by blast
    from 4(5) have "world_moved s s4"
    proof
      assume "io (fs_unlink E (strip_slashes p)) s3 = (r4, s4)"
      from world_moved_trans [OF m3 io_moved [OF this]] show ?thesis .
    qed (use m3 in simp)
    note m = moved [OF this]
    obtain fs w where f: "s' = s4\<lparr>stTFileCatalog := fs, lfs_world := w\<rparr>" "catalog_ok (stTFileCatalog s4) \<longrightarrow> catalog_ok fs"
      using refresh_result [OF 4(6)] by blast
    have "files_moved s s'" using m refresh_moved [OF 4(6)] files_moved_trans by blast
    with m f show ?thesis by simp
  qed
qed

end
