(* ===== verification/Lfs_Bulk.thy ===== *)
theory Lfs_Bulk
  imports Lfs_Files Crc16_Ccitt
begin

text \<open>
  The bulk transfer of LittleFs_Controller.c: frames that arrive over the UART are checked, queued, and written to the file by a
  worker thread. The worker is a function that is one turn of its loop; a turn on an empty queue is
  the timeout of \<open>k_msgq_get\<close>. The end of a transfer waits for the worker, which gets a number of turns
  meanwhile that is a parameter. All other entry points run under \<open>kMutex_BulkTransfer\<close> and are one step.
\<close>

subsection \<open>State\<close>

abbreviation set_transfer_state :: "eFileTransfer_State_t \<Rightarrow> 'w lfs_sys \<Rightarrow> 'w lfs_sys" where
  "set_transfer_state st \<equiv> on_ctrl (bc_eTransferState_update (\<lambda>_. st))"

abbreviation vSet_Transfer_ErrorState :: "eErrorState_t \<Rightarrow> 'w lfs_sys \<Rightarrow> 'w lfs_sys" where
  "vSet_Transfer_ErrorState e \<equiv> on_ctrl (bc_eError_update (\<lambda>_. e))"

definition bIs_MsgQueueInError :: "'w lfs_sys \<Rightarrow> bool" where
  "bIs_MsgQueueInError s \<longleftrightarrow> bc_eError (stTBulkDataCtrl s) \<noteq> eErrorState_None"

definition vSet_BulkkTransferData_ToDefault :: "'w lfs_sys \<Rightarrow> 'w lfs_sys" where
  "vSet_BulkkTransferData_ToDefault s =
     (let c = stTBulkDataCtrl s in
      s\<lparr>stMsgQueue_FileTransfer := (if bc_bMsgQ_Initialized c then [] else stMsgQueue_FileTransfer s),
        bulk_worker_runs := (if bc_bMsg_ThreadInitialized c then False else bulk_worker_runs s),
        kSem_BulkWorkerDone := 0,
        stTBulkDataCtrl := c\<lparr>bc_pcaDirPath := '''', bc_pcaTotalFilePath := '''', bc_uiCRC := 0, bc_uiFileSize := 0,
          bc_uiOffset := 0, bc_uiReceivedSize := 0, bc_uiAcceptedSize := 0, bc_uiNextFrameId := 0,
          bc_uiRunningCRC := 0xFFFF, bc_uiLastActivityTime_ms := 0, bc_bMsgQ_Initialized := False,
          bc_bMsg_ThreadInitialized := False, bc_bFileOpen := False, bc_eError := eErrorState_None,
          bc_eTransferState := eFileTransfer_Idle\<rparr>\<rparr>)"

definition bCanProcess_QueuedBulkData :: "'w lfs_sys \<Rightarrow> bool" where
  "bCanProcess_QueuedBulkData s \<longleftrightarrow>
     eGetTransferState s = eFileTransfer_Receiving \<or> eGetTransferState s = eFileTransfer_Finalizing"

subsection \<open>Start\<close>

fun bulk_directory :: "eFileType_t \<Rightarrow> string option" where
  "bulk_directory eFile_Image = Some EXT_LITTLEFS_IMAGE_DIRECTORY"
| "bulk_directory eFile_Icon = Some EXT_LITTLEFS_ICONS_DIRECTORY"
| "bulk_directory eFile_Config = Some EXT_LITTLEFS_CONFIG_DIRECTORY"
| "bulk_directory eFile_Data = Some EXT_LITTLEFS_DATA_DIRECTORY"
| "bulk_directory _ = None"

text \<open>The part behind the creation of the file: open it, arm the control block, start the worker.\<close>

definition begin_transfer ::
  "('w, 'z) fs_services_scheme \<Rightarrow> sT_BulkTransferData \<Rightarrow> string \<Rightarrow> 'w lfs_sys \<Rightarrow> (bool \<times> 'w lfs_sys) option" where
  "begin_transfer E d full s =
     (let ((r, h), s) = io (fs_open E full FS_O_WRITE_TRUNC) s;
          s = on_ctrl (bc_stTFileData_update (\<lambda>_. h)) s in
      if r < 0 then do {
        (dr, s) \<leftarrow> iDelete_FileInternal E full s;
        Some (False, s)
      }
      else
        (let (now, s) = io (lfs_uptime_32 E) s in
         Some (True,
           s\<lparr>stMsgQueue_FileTransfer := [], kSem_BulkWorkerDone := 0, bulk_worker_runs := True,
             stTBulkDataCtrl := (stTBulkDataCtrl s)\<lparr>bc_bFileOpen := True, bc_eFileType := bd_eFileType d,
               bc_uiFileSize := bd_uiFileSize d, bc_uiCRC := bd_uiCRC d, bc_uiRunningCRC := 0xFFFF,
               bc_uiLastActivityTime_ms := now, bc_bMsgQ_Initialized := True, bc_bMsg_ThreadInitialized := True,
               bc_eTransferState := eFileTransfer_Receiving\<rparr>\<rparr>)))"

definition bStart_BulkDataTransfer ::
  "('w, 'z) fs_services_scheme \<Rightarrow> sT_BulkTransferData \<Rightarrow> 'w lfs_sys \<Rightarrow> (bool \<times> 'w lfs_sys) option" where
  "bStart_BulkDataTransfer E d s =
     (case bulk_directory (bd_eFileType d) of
        None \<Rightarrow> Some (False, s)
      | Some dir \<Rightarrow>
          if bd_uiFileSize d = 0 then Some (False, s)
          else
            (let (r, s) = io (lfs_mutex_lock E kMutex_BulkTransfer) s in
             if r \<noteq> 0 then Some (False, s)
             else if eGetTransferState s \<noteq> eFileTransfer_Idle then Some (False, s)
             else
               (let s = on_ctrl (bc_pcaDirPath_update (\<lambda>_. dir)) (vSet_BulkkTransferData_ToDefault s) in
                case bBuild_Validate_FullPathName dir (bd_pcaFileName d) (strnlen dir MAX_FILE_PATH_LENGTH)
                       (strnlen (bd_pcaFileName d) MAX_FILE_NAME_LENGTH) of
                  None \<Rightarrow> Some (False, set_transfer_state eFileTransfer_Idle s)
                | Some full \<Rightarrow> do {
                    let s = on_ctrl (bc_pcaTotalFilePath_update (\<lambda>_. full)) s;
                    (r, s) \<leftarrow> iDelete_File E (Some full) s;
                    if r \<noteq> 0 \<and> r \<noteq> - ENOENT then Some (False, s)
                    else
                      (let (r, s) = iCreate_File E (Some dir) (Some (bd_pcaFileName d)) s
                       in if r < 0 then Some (False, s) else begin_transfer E d full s)
                  })))"

subsection \<open>Frames\<close>

text \<open>\<open>k_msgq_put\<close> without waiting.\<close>

definition msgq_put :: "sT_BulkQueueMessage_t \<Rightarrow> 'w lfs_sys \<Rightarrow> int \<times> 'w lfs_sys" where
  "msgq_put m s =
     (if length (stMsgQueue_FileTransfer s) < MAX_MSGQ_DEPTH
      then (0, s\<lparr>stMsgQueue_FileTransfer := stMsgQueue_FileTransfer s @ [m]\<rparr>) else (- ENOMSG, s))"

definition frame_bytes :: "sT_MsgData_t \<Rightarrow> u8 list" where
  "frame_bytes m = take (unat (md_uiDataLen m)) (md_uiMsg m)"

definition iSend_BulkTransferData ::
  "('w, 'z) fs_services_scheme \<Rightarrow> sT_MsgData_t option \<Rightarrow> 'w lfs_sys \<Rightarrow> int \<times> 'w lfs_sys" where
  "iSend_BulkTransferData E msg s =
     (case msg of
        None \<Rightarrow> (- EINVAL, s)
      | Some m \<Rightarrow>
          if md_uiDataLen m = 0 \<or> unat (md_uiDataLen m) > MAX_FRAME_LENGTH then (- EINVAL, s)
          else
            (let (r, s) = io (lfs_mutex_lock E kMutex_BulkTransfer) s; c = stTBulkDataCtrl s in
             if r \<noteq> 0 then (- EBUSY, s)
             else if eGetTransferState s \<noteq> eFileTransfer_Receiving \<or> bIs_MsgQueueInError s then (- EBADE, s)
             else if md_uiFrameId m \<noteq> bc_uiNextFrameId c then (- EILSEQ, s)
             else if bc_uiAcceptedSize c > bc_uiFileSize c \<or> ucast (md_uiDataLen m) > bc_uiFileSize c - bc_uiAcceptedSize c
               then (- EFBIG, s)
             else if u16CRC16_CCITT_Update 0xFFFF (frame_bytes m) \<noteq> md_uiFrameCRC m then (- EBADMSG, s)
             else
               (let (r, s) = msgq_put (eBulkQueueMessage_Data m) s
                in (r, if r = 0 then on_ctrl (\<lambda>c. c\<lparr>bc_uiAcceptedSize := bc_uiAcceptedSize c + ucast (md_uiDataLen m),
                                               bc_uiNextFrameId := bc_uiNextFrameId c + 1\<rparr>) s
                       else s))))"

subsection \<open>The worker\<close>

text \<open>The worker returns right behind this.\<close>

definition vSignal_BulkWorkerDone :: "bool \<Rightarrow> 'w lfs_sys \<Rightarrow> 'w lfs_sys" where
  "vSignal_BulkWorkerDone bSubmitCleanupWork s =
     (on_ctrl (bc_bMsg_ThreadInitialized_update (\<lambda>_. False)) s)\<lparr>kSem_BulkWorkerDone := 1, bulk_worker_runs := False,
        bulk_work_submitted := bulk_work_submitted s \<or> bSubmitCleanupWork\<rparr>"

definition worker_fails :: "eErrorState_t \<Rightarrow> 'w lfs_sys \<Rightarrow> 'w lfs_sys" where
  "worker_fails e s =
     vSignal_BulkWorkerDone True (set_transfer_state eFileTransfer_Failed (vSet_Transfer_ErrorState e s))"

definition iBulkWrite_ToFile :: "('w, 'z) fs_services_scheme \<Rightarrow> sT_MsgData_t \<Rightarrow> 'w lfs_sys \<Rightarrow> int \<times> 'w lfs_sys" where
  "iBulkWrite_ToFile E m s =
     (if md_uiDataLen m = 0 \<or> unat (md_uiDataLen m) > MAX_FRAME_LENGTH \<or> \<not> bCanProcess_QueuedBulkData s then (- EINVAL, s)
      else
        (let (n, s) = io (fs_write E (bc_stTFileData (stTBulkDataCtrl s)) (frame_bytes m)) s in
         if n < 0 then (n, s) else if n \<noteq> int (unat (md_uiDataLen m)) then (- EIO, s) else (0, s)))"

text \<open>What follows on the write of a frame: checksum and count, or the failure.\<close>

fun frame_written :: "sT_MsgData_t \<Rightarrow> int \<times> 'w lfs_sys \<Rightarrow> 'w lfs_sys" where
  "frame_written m (r, s) =
     (if r \<noteq> 0 then worker_fails eErrorState_WriteError s
      else on_ctrl (\<lambda>c. c\<lparr>bc_uiRunningCRC := u16CRC16_CCITT_Update (bc_uiRunningCRC c) (frame_bytes m),
                        bc_uiReceivedSize := bc_uiReceivedSize c + ucast (md_uiDataLen m)\<rparr>) s)"

definition vLittleFs_FileTransferMonitor :: "('w, 'z) fs_services_scheme \<Rightarrow> 'w lfs_sys \<Rightarrow> 'w lfs_sys" where
  "vLittleFs_FileTransferMonitor E s =
     (if \<not> bulk_worker_runs s then s
      else
        (case stMsgQueue_FileTransfer s of
           [] \<Rightarrow> worker_fails eErrorState_TimeOut s
         | msg # q \<Rightarrow>
             (let s = s\<lparr>stMsgQueue_FileTransfer := q\<rparr> in
              case msg of
                eBulkQueueMessage_End \<Rightarrow> vSignal_BulkWorkerDone False s
              | eBulkQueueMessage_Data m \<Rightarrow>
                  if \<not> bCanProcess_QueuedBulkData s then worker_fails eErrorState_QueueError s
                  else
                    (let (now, s) = io (lfs_uptime_32 E) s
                     in frame_written m (iBulkWrite_ToFile E m (on_ctrl (bc_uiLastActivityTime_ms_update (\<lambda>_. now)) s))))))"

text \<open>\<open>vDataTransfer_TimeOutHandler\<close>, the clean-up work a failed worker submits.\<close>

definition close_transfer_file :: "('w, 'z) fs_services_scheme \<Rightarrow> 'w lfs_sys \<Rightarrow> int \<times> 'w lfs_sys" where
  "close_transfer_file E s =
     (let (r, s) = io (fs_close E (bc_stTFileData (stTBulkDataCtrl s))) s
      in (r, on_ctrl (bc_bFileOpen_update (\<lambda>_. False)) s))"

text \<open>An error of the close is noted under the condition \<open>noted\<close>.\<close>

definition close_if_open :: "('w, 'z) fs_services_scheme \<Rightarrow> ('w lfs_sys \<Rightarrow> bool) \<Rightarrow> 'w lfs_sys \<Rightarrow> 'w lfs_sys" where
  "close_if_open E noted s =
     (if bc_bFileOpen (stTBulkDataCtrl s)
      then (let (r, s) = close_transfer_file E s
            in if r < 0 \<and> noted s then vSet_Transfer_ErrorState eErrorState_FileClose s else s)
      else s)"

definition delete_partial_file :: "('w, 'z) fs_services_scheme \<Rightarrow> 'w lfs_sys \<Rightarrow> 'w lfs_sys option" where
  "delete_partial_file E s = do {
     (r, s) \<leftarrow> iDelete_FileInternal E (bc_pcaTotalFilePath (stTBulkDataCtrl s)) s;
     Some (if r < 0 \<and> r \<noteq> - ENOENT then vSet_Transfer_ErrorState eErrorState_FileDelete s else s)
   }"

definition vDataTransfer_TimeOutHandler :: "('w, 'z) fs_services_scheme \<Rightarrow> 'w lfs_sys \<Rightarrow> 'w lfs_sys option" where
  "vDataTransfer_TimeOutHandler E s =
     (let s = s\<lparr>bulk_work_submitted := False\<rparr> in
      if \<not> bIs_MsgQueueInError s \<or> \<not> bIsBulkTransferActive s then Some s
      else map_option vSet_BulkkTransferData_ToDefault
             (delete_partial_file E (close_if_open E (\<lambda>_. True) (set_transfer_state eFileTransfer_Failed s))))"

subsection \<open>End\<close>

text \<open>\<open>Indicate_Failure\<close>: stop the worker, close the file, delete it.\<close>

definition stop_worker :: "'w lfs_sys \<Rightarrow> 'w lfs_sys" where
  "stop_worker s =
     (if bc_bMsg_ThreadInitialized (stTBulkDataCtrl s)
      then (on_ctrl (bc_bMsg_ThreadInitialized_update (\<lambda>_. False)) s)\<lparr>bulk_worker_runs := False\<rparr> else s)"

definition indicate_failure :: "('w, 'z) fs_services_scheme \<Rightarrow> 'w lfs_sys \<Rightarrow> 'w lfs_sys option" where
  "indicate_failure E s =
     delete_partial_file E (close_if_open E (\<lambda>s. bc_eError (stTBulkDataCtrl s) = eErrorState_None) (stop_worker s))"

text \<open>\<open>Indicate_Success\<close>: make the file durable, close it, read the catalogue again.\<close>

definition indicate_success :: "('w, 'z) fs_services_scheme \<Rightarrow> 'w lfs_sys \<Rightarrow> 'w lfs_sys option" where
  "indicate_success E s =
     (let (r, s) = io (fs_sync E (bc_stTFileData (stTBulkDataCtrl s))) s in
      if r < 0
        then indicate_failure E (set_transfer_state eFileTransfer_Failed (vSet_Transfer_ErrorState eErrorState_FileSync s))
      else
        (let (r, s) = close_transfer_file E s in
         if r < 0
           then Some (set_transfer_state eFileTransfer_Failed (vSet_Transfer_ErrorState eErrorState_FileClose s))
         else do {
           (r, s) \<leftarrow> refresh_catalog E s;
           Some (if r < 0
                 then set_transfer_state eFileTransfer_Failed (vSet_Transfer_ErrorState eErrorState_RefreshFileCatalog s)
                 else s)
         }))"

text \<open>The verdict over a transfer whose worker has answered.\<close>

definition judge_transfer :: "('w, 'z) fs_services_scheme \<Rightarrow> 'w lfs_sys \<Rightarrow> 'w lfs_sys option" where
  "judge_transfer E s =
     (let c = stTBulkDataCtrl s in
      if bIs_MsgQueueInError s then indicate_failure E (set_transfer_state eFileTransfer_Failed s)
      else if bc_uiReceivedSize c \<noteq> bc_uiFileSize c
        then indicate_failure E (set_transfer_state eFileTransfer_Failed
               (vSet_Transfer_ErrorState eErrorState_ReceivedByteCountMismatch s))
      else if bc_uiRunningCRC c \<noteq> bc_uiCRC c
        then indicate_failure E (set_transfer_state eFileTransfer_Failed (vSet_Transfer_ErrorState eErrorState_CRCMismatch s))
      else indicate_success E (set_transfer_state eFileTransfer_Success (vSet_Transfer_ErrorState eErrorState_None s)))"

text \<open>Behind the end mark, which was queued or not: wait for the worker, which gets \<open>n\<close> turns, and judge.\<close>

definition await_worker :: "('w, 'z) fs_services_scheme \<Rightarrow> nat \<Rightarrow> int \<Rightarrow> 'w lfs_sys \<Rightarrow> 'w lfs_sys option" where
  "await_worker E n r s =
     (if r \<noteq> 0
      then indicate_failure E (set_transfer_state eFileTransfer_Failed (vSet_Transfer_ErrorState eErrorState_QueueError s))
      else
        (let s = (vLittleFs_FileTransferMonitor E ^^ n) s in
         if kSem_BulkWorkerDone s = 0
         then indicate_failure E (set_transfer_state eFileTransfer_Failed (vSet_Transfer_ErrorState eErrorState_TimeOut s))
         else judge_transfer E (s\<lparr>kSem_BulkWorkerDone := kSem_BulkWorkerDone s - 1\<rparr>)))"

text \<open>\<open>Exit\<close>.\<close>

definition transfer_result :: "'w lfs_sys \<Rightarrow> sT_TransferResult_t \<times> 'w lfs_sys" where
  "transfer_result s =
     (\<lparr>tr_eTransferState = eGetTransferState s, tr_eErrorState = bc_eError (stTBulkDataCtrl s)\<rparr>,
      vSet_BulkkTransferData_ToDefault s)"

text \<open>
  \<open>vEnd_BulkDataTransfer\<close>. While the caller waits for room in a full queue the worker gets \<open>m\<close> turns, while it
  waits for the semaphore \<open>n\<close>.
\<close>

definition vEnd_BulkDataTransfer ::
  "('w, 'z) fs_services_scheme \<Rightarrow> nat \<Rightarrow> nat \<Rightarrow> 'w lfs_sys \<Rightarrow> (sT_TransferResult_t \<times> 'w lfs_sys) option" where
  "vEnd_BulkDataTransfer E m n s =
     (let early = \<lparr>tr_eTransferState = eGetTransferState s, tr_eErrorState = eErrorState_InvalidRequest\<rparr>;
          (r, s) = io (lfs_mutex_lock E kMutex_BulkTransfer) s in
      if r \<noteq> 0 \<or> eGetTransferState s \<noteq> eFileTransfer_Receiving then Some (early, s)
      else
        (let s = set_transfer_state eFileTransfer_Finalizing s;
             s = (if length (stMsgQueue_FileTransfer s) < MAX_MSGQ_DEPTH then s else (vLittleFs_FileTransferMonitor E ^^ m) s);
             (r, s) = msgq_put eBulkQueueMessage_End s
         in map_option transfer_result (await_worker E n r s)))"

subsection \<open>Initialisation\<close>

text \<open>\<open>bInit_ExtFlash_FsController\<close> without the loading of the audio sources, whose result it only prints.\<close>

definition bMount_LittleFs :: "('w, 'z) fs_services_scheme \<Rightarrow> 'w lfs_sys \<Rightarrow> bool \<times> 'w lfs_sys" where
  "bMount_LittleFs E s = (let (r, s) = io (fs_mount E) s in (\<not> r < 0, s))"

definition bInit_ExtFlash_FsController ::
  "('w, 'z) fs_services_scheme \<Rightarrow> ('w lfs_sys \<Rightarrow> bool \<times> 'w lfs_sys) \<Rightarrow> 'w lfs_sys \<Rightarrow> (bool \<times> 'w lfs_sys) option" where
  "bInit_ExtFlash_FsController E load s =
     (let (ok, s) = bMount_LittleFs E s in
      if \<not> ok then Some (False, s)
      else do {
        (r, s) \<leftarrow> refresh_catalog E s;
        if r \<noteq> 0 then Some (False, s) else Some (True, snd (load s))
      })"

end
