(* ===== verification/Lfs_Transfer.thy ===== *)
theory Lfs_Transfer
  imports Lfs_Bulk Lfs_Catalog
begin

text \<open>
  Correctness of the bulk transfer: an upload is a started transfer with the bytes accepted so far; the
  bytes are those in the file followed by those in the queue, whatever the worker has done yet. A transfer that ends
  with success has stored exactly the accepted bytes, and they have the announced size and checksum.
\<close>

subsection \<open>Uploads\<close>

text \<open>
  Frames are accepted or refused, the worker takes turns, its clean-up work runs, and other threads
  call the file operations, which a transfer in progress refuses.
\<close>

inductive upload ::
  "('w, 'z) fs_services_scheme \<Rightarrow> sT_BulkTransferData \<Rightarrow> u8 list \<Rightarrow> 'w lfs_sys \<Rightarrow> bool"
  for E :: "('w, 'z) fs_services_scheme" and d :: sT_BulkTransferData where
  upload_start: "bStart_BulkDataTransfer E d s = Some (True, s') \<Longrightarrow> upload E d [] s'"
| upload_frame: "upload E d bs s \<Longrightarrow> length (md_uiMsg m) = 256 \<Longrightarrow> iSend_BulkTransferData E (Some m) s = (r, s') \<Longrightarrow>
    upload E d (if r = 0 then bs @ frame_bytes m else bs) s'"
| upload_worker: "upload E d bs s \<Longrightarrow> upload E d bs (vLittleFs_FileTransferMonitor E s)"
| upload_cleanup: "upload E d bs s \<Longrightarrow> vDataTransfer_TimeOutHandler E s = Some s' \<Longrightarrow> upload E d bs s'"
| upload_write: "upload E d bs s \<Longrightarrow> bIsBulkTransferActive s \<Longrightarrow> iWrite_ToFileBin E p x k mx s = (r, s') \<Longrightarrow> upload E d bs s'"
| upload_create: "upload E d bs s \<Longrightarrow> bIsBulkTransferActive s \<Longrightarrow> iCreate_File E p q s = (r, s') \<Longrightarrow> upload E d bs s'"
| upload_delete: "upload E d bs s \<Longrightarrow> bIsBulkTransferActive s \<Longrightarrow> iDelete_File E p s = Some (r, s') \<Longrightarrow> upload E d bs s'"
| upload_remove: "upload E d bs s \<Longrightarrow> bIsBulkTransferActive s \<Longrightarrow> bDelete_Directory E p s = Some (b, s') \<Longrightarrow> upload E d bs s'"

lemma busy_refuses:
  assumes "bIsBulkTransferActive s"
  shows "iWrite_ToFileBin E p x k mx s = (r, s') \<Longrightarrow> s' = s" "iCreate_File E p q s = (r, s') \<Longrightarrow> s' = s"
    "iDelete_File E p s = Some (r, s') \<Longrightarrow> s' = s" "bDelete_Directory E p s = Some (b, s') \<Longrightarrow> s' = s"
  using assms
  by (auto simp: iWrite_ToFileBin_def iCreate_File_def iDelete_File_def bDelete_Directory_def split: if_splits option.splits)

subsection \<open>The invariant\<close>

fun frame_ok :: "sT_BulkQueueMessage_t \<Rightarrow> bool" where
  "frame_ok (eBulkQueueMessage_Data m) \<longleftrightarrow> md_uiDataLen m \<noteq> 0 \<and> unat (md_uiDataLen m) \<le> 256 \<and> length (md_uiMsg m) = 256"
| "frame_ok eBulkQueueMessage_End = False"

fun msg_bytes :: "sT_BulkQueueMessage_t \<Rightarrow> u8 list" where
  "msg_bytes (eBulkQueueMessage_Data m) = frame_bytes m"
| "msg_bytes eBulkQueueMessage_End = []"

lemma length_frame_bytes: "frame_ok (eBulkQueueMessage_Data m) \<Longrightarrow> length (frame_bytes m) = unat (md_uiDataLen m)"
  by (simp add: frame_bytes_def)

text \<open>The control block of a transfer that has got \<open>c\<close> into the file.\<close>

definition counts :: "sT_BulkTransferData \<Rightarrow> u8 list \<Rightarrow> sT_BulkDataControl_t \<Rightarrow> bool" where
  "counts d c b \<longleftrightarrow> bc_uiFileSize b = bd_uiFileSize d \<and> bc_uiCRC b = bd_uiCRC d
     \<and> bc_uiReceivedSize b = of_nat (length c) \<and> bc_uiRunningCRC b = u16CRC16_CCITT_Update 0xFFFF c
     \<and> bc_eError b = eErrorState_None \<and> bc_bFileOpen b"

text \<open>A frame is appended to the queue, or nothing but the world moves.\<close>

lemma refused_frame:
  assumes "iSend_BulkTransferData E msg s = (r, s')" and "r \<noteq> 0"
  shows "s' = s \<or> (\<exists>lr. io (lfs_mutex_lock E kMutex_BulkTransfer) s = (lr, s'))"
  using assms
  by (auto simp: iSend_BulkTransferData_def msgq_put_def Let_def split: option.splits prod.splits if_splits)

context fs_files
begin

definition in_file :: "u8 list \<Rightarrow> 'w lfs_sys \<Rightarrow> bool" where
  "in_file c s \<longleftrightarrow> content (bc_pcaTotalFilePath (stTBulkDataCtrl s)) (lfs_world s) = Some c
     \<and> opened (bc_stTFileData (stTBulkDataCtrl s)) (lfs_world s) = Some (bc_pcaTotalFilePath (stTBulkDataCtrl s), length c)"

text \<open>The worker runs; behind the frames of the queue is nothing or the end mark.\<close>

definition live :: "sT_BulkTransferData \<Rightarrow> u8 list \<Rightarrow> sT_BulkQueueMessage_t list \<Rightarrow> 'w lfs_sys \<Rightarrow> bool" where
  "live d bs tail s \<longleftrightarrow> (\<exists>c q. stMsgQueue_FileTransfer s = q @ tail \<and> (\<forall>x \<in> set q. frame_ok x) \<and> bs = c @ concat (map msg_bytes q)
     \<and> counts d c (stTBulkDataCtrl s) \<and> in_file c s) \<and> bCanProcess_QueuedBulkData s
     \<and> bulk_worker_runs s \<and> bc_bMsg_ThreadInitialized (stTBulkDataCtrl s) \<and> kSem_BulkWorkerDone s = 0"

text \<open>The worker has stopped, at the end mark or at an error.\<close>

definition stopped_well :: "sT_BulkTransferData \<Rightarrow> u8 list \<Rightarrow> 'w lfs_sys \<Rightarrow> bool" where
  "stopped_well d bs s \<longleftrightarrow> counts d bs (stTBulkDataCtrl s) \<and> in_file bs s \<and> \<not> bulk_worker_runs s \<and> eGetTransferState s = eFileTransfer_Finalizing"

definition stopped_ill :: "'w lfs_sys \<Rightarrow> bool" where
  "stopped_ill s \<longleftrightarrow> bIs_MsgQueueInError s \<and> \<not> bulk_worker_runs s \<and> eGetTransferState s \<in> {eFileTransfer_Failed, eFileTransfer_Finalizing}"

definition receiving :: "sT_BulkTransferData \<Rightarrow> u8 list \<Rightarrow> 'w lfs_sys \<Rightarrow> bool" where
  "receiving d bs s \<longleftrightarrow> live d bs [] s \<and> eGetTransferState s = eFileTransfer_Receiving
     \<and> bc_uiAcceptedSize (stTBulkDataCtrl s) = of_nat (length bs) \<and> length bs \<le> unat (bd_uiFileSize d)"

definition upload_inv :: "sT_BulkTransferData \<Rightarrow> u8 list \<Rightarrow> 'w lfs_sys \<Rightarrow> bool" where
  "upload_inv d bs s \<longleftrightarrow> receiving d bs s \<or> (eGetTransferState s = eFileTransfer_Idle \<and> \<not> bulk_worker_runs s)
     \<or> (eGetTransferState s = eFileTransfer_Failed \<and> stopped_ill s)"

text \<open>A turn of the worker.\<close>

lemma worker_fails_ill: "stopped_ill (worker_fails e s)" if "e \<noteq> eErrorState_None"
  using that by (simp add: worker_fails_def stopped_ill_def vSignal_BulkWorkerDone_def bIs_MsgQueueInError_def eGetTransferState_def)

lemma worker_turn:
  assumes live: "live d bs tail s" and tail: "tail = [] \<or> (tail = [eBulkQueueMessage_End] \<and> eGetTransferState s = eFileTransfer_Finalizing)"
    and s': "s' = vLittleFs_FileTransferMonitor E s"
  shows "(live d bs tail s' \<and> eGetTransferState s' = eGetTransferState s \<and> bc_uiAcceptedSize (stTBulkDataCtrl s') = bc_uiAcceptedSize (stTBulkDataCtrl s))
    \<or> (tail \<noteq> [] \<and> stopped_well d bs s') \<or> (stopped_ill s' \<and> eGetTransferState s' = eFileTransfer_Failed)"
proof -
  obtain c q where q: "stMsgQueue_FileTransfer s = q @ tail" "\<forall>x \<in> set q. frame_ok x" "bs = c @ concat (map msg_bytes q)"
    "counts d c (stTBulkDataCtrl s)" "in_file c s" and rest: "bCanProcess_QueuedBulkData s"
     "bulk_worker_runs s" "bc_bMsg_ThreadInitialized (stTBulkDataCtrl s)" "kSem_BulkWorkerDone s = 0"
    using live by (auto simp: live_def)
  have failed: "eGetTransferState (worker_fails e x) = eFileTransfer_Failed" for e and x :: "'w lfs_sys"
    by (simp add: worker_fails_def vSignal_BulkWorkerDone_def eGetTransferState_def)
  show ?thesis
  proof (cases q)
    case Nil
    show ?thesis
    proof (cases "tail = []")
      case True
      with Nil q rest s' show ?thesis by (simp add: vLittleFs_FileTransferMonitor_def worker_fails_ill failed)
    next
      case False
      with tail have t: "tail = [eBulkQueueMessage_End]" "eGetTransferState s = eFileTransfer_Finalizing" by auto
      with Nil q rest have "s' = vSignal_BulkWorkerDone False (s\<lparr>stMsgQueue_FileTransfer := []\<rparr>)"
        by (simp add: s' vLittleFs_FileTransferMonitor_def)
      with Nil q t False show ?thesis
        by (simp add: stopped_well_def vSignal_BulkWorkerDone_def counts_def in_file_def eGetTransferState_def)
    qed
  next
    case (Cons x q')
    with q have "frame_ok x" by simp
    then obtain m where x: "x = eBulkQueueMessage_Data m" by (cases x) auto
    let ?t = "s\<lparr>stMsgQueue_FileTransfer := q' @ tail\<rparr>"
    obtain now t where clk: "io (lfs_uptime_32 E) ?t = (now, t)" by fastforce
    note mt = world_movedD [OF io_moved [OF clk]]
    let ?u = "on_ctrl (bc_uiLastActivityTime_ms_update (\<lambda>_. now)) t"
    obtain n v where w: "io (fs_write E (bc_stTFileData (stTBulkDataCtrl s)) (frame_bytes m)) ?u = (n, v)" by fastforce
    note mv = world_movedD [OF io_moved [OF w]]
    have can: "bCanProcess_QueuedBulkData ?t" "bCanProcess_QueuedBulkData ?u"
      using rest mt by (simp_all add: bCanProcess_QueuedBulkData_def eGetTransferState_def)
    have wr: "iBulkWrite_ToFile E m ?u = (if n < 0 then n else if n \<noteq> int (unat (md_uiDataLen m)) then - EIO else 0, v)"
      using \<open>frame_ok x\<close> x w can mt by (auto simp: iBulkWrite_ToFile_def wall_simps)
    let ?good = "on_ctrl (\<lambda>c. c\<lparr>bc_uiRunningCRC := u16CRC16_CCITT_Update (bc_uiRunningCRC c) (frame_bytes m),
        bc_uiReceivedSize := bc_uiReceivedSize c + ucast (md_uiDataLen m)\<rparr>) v"
    have s'_eq: "s' = (if n \<noteq> int (unat (md_uiDataLen m)) then worker_fails eErrorState_WriteError v else ?good)"
      using Cons x rest clk wr can q by (auto simp: s' vLittleFs_FileTransferMonitor_def Let_def errno_defs)
    show ?thesis
    proof (cases "n = int (unat (md_uiDataLen m))")
      case False
      with s'_eq show ?thesis by (simp add: worker_fails_ill failed)
    next
      case True
      let ?p = "bc_pcaTotalFilePath (stTBulkDataCtrl s)" and ?h = "bc_stTFileData (stTBulkDataCtrl s)"
      have len: "length (frame_bytes m) = unat (md_uiDataLen m)" using \<open>frame_ok x\<close> x length_frame_bytes by simp
      have "unat (md_uiDataLen m) \<noteq> 0" using \<open>frame_ok x\<close> x by (simp add: unat_eq_zero)
      with True have pos: "0 < n" by linarith
      have op: "opened ?h (lfs_world ?u) = Some (?p, length c)" "content ?p (lfs_world ?u) = Some c"
        using q(5) io_keeps(3) [OF clk, of ?p] io_keeps(4) [OF clk, of ?h] by (auto simp: in_file_def)
      from write_ok [OF io_world [OF w] pos op refl] True len
      have new: "content ?p (lfs_world v) = Some (c @ frame_bytes m)" "opened ?h (lfs_world v) = Some (?p, length c + unat (md_uiDataLen m))"
        by auto
      have "of_nat (length c + unat (md_uiDataLen m)) = (of_nat (length c) :: u32) + ucast (md_uiDataLen m)"
        by simp
      then have c2: "counts d (c @ frame_bytes m) (stTBulkDataCtrl ?good)"
        using q(4) mt mv len by (simp add: counts_def crc.upd_append)
      have f2: "in_file (c @ frame_bytes m) ?good" using new len mt mv by (simp add: in_file_def)
      have "live d bs tail ?good"
        unfolding live_def
        using Cons q rest mt mv c2 f2 x
        by (intro conjI exI [of _ "c @ frame_bytes m"] exI [of _ q'])
           (auto simp: bCanProcess_QueuedBulkData_def eGetTransferState_def)
      with True s'_eq mt mv show ?thesis by (simp add: eGetTransferState_def)
    qed
  qed
qed


text \<open>Several turns, with or without the end mark.\<close>

lemma stopped_turn: "\<not> bulk_worker_runs s \<Longrightarrow> vLittleFs_FileTransferMonitor E s = s"
  by (simp add: vLittleFs_FileTransferMonitor_def)

lemma worker_turns:
  assumes "live d bs tail s"
    and "tail = [] \<or> (tail = [eBulkQueueMessage_End] \<and> eGetTransferState s = eFileTransfer_Finalizing)"
  shows "(live d bs tail ((vLittleFs_FileTransferMonitor E ^^ n) s) \<and> eGetTransferState ((vLittleFs_FileTransferMonitor E ^^ n) s) = eGetTransferState s)
    \<or> (tail \<noteq> [] \<and> stopped_well d bs ((vLittleFs_FileTransferMonitor E ^^ n) s))
    \<or> (stopped_ill ((vLittleFs_FileTransferMonitor E ^^ n) s) \<and> eGetTransferState ((vLittleFs_FileTransferMonitor E ^^ n) s) = eFileTransfer_Failed)"
proof (induction n)
  case 0
  with assms show ?case by simp
next
  case (Suc n)
  let ?t = "(vLittleFs_FileTransferMonitor E ^^ n) s"
  consider (live) "live d bs tail ?t" "eGetTransferState ?t = eGetTransferState s"
    | (well) "tail \<noteq> []" "stopped_well d bs ?t" | (ill) "stopped_ill ?t" "eGetTransferState ?t = eFileTransfer_Failed"
    using Suc by blast
  then show ?case
  proof cases
    case live
    with worker_turn [OF live(1) _ refl] assms(2) show ?thesis by auto
  next
    case well
    then have "\<not> bulk_worker_runs ?t" by (simp add: stopped_well_def)
    with well show ?thesis by (simp add: stopped_turn)
  next
    case ill
    then have "\<not> bulk_worker_runs ?t" by (simp add: stopped_ill_def)
    with ill show ?thesis by (simp add: stopped_turn)
  qed
qed

lemma live_moved:
  assumes "live d bs tail s" and l: "io (lfs_mutex_lock E mu) s = (r, s')"
  shows "live d bs tail s'"
proof -
  have "in_file c s' = in_file c s" for c
    using world_movedD [OF io_moved [OF l]] io_keeps(1,2) [OF l] by (simp add: in_file_def)
  with assms(1) world_movedD [OF io_moved [OF l]] show ?thesis
    by (simp add: live_def bCanProcess_QueuedBulkData_def eGetTransferState_def)
qed

lemma send_inv:
  assumes rec: "receiving d bs s" and m: "length (md_uiMsg m) = 256" and run: "iSend_BulkTransferData E (Some m) s = (r, s')"
  shows "receiving d (if r = 0 then bs @ frame_bytes m else bs) s'"
proof -
  obtain lr s1 where l: "io (lfs_mutex_lock E kMutex_BulkTransfer) s = (lr, s1)" by fastforce
  note same = world_movedD [OF io_moved [OF l]]
  have rec1: "receiving d bs s1"
    using rec live_moved [OF _ l] same by (simp add: receiving_def eGetTransferState_def)
  show ?thesis
  proof (cases "r = 0")
    case False
    with refused_frame [OF run] l rec rec1 show ?thesis by auto
  next
    case True
    let ?c = "stTBulkDataCtrl s1" and ?n = "unat (md_uiDataLen m)"
    have ok: "frame_ok (eBulkQueueMessage_Data m)" and fits: "\<not> ucast (md_uiDataLen m) > bc_uiFileSize ?c - bc_uiAcceptedSize ?c"
      and s': "s' = on_ctrl (\<lambda>c. c\<lparr>bc_uiAcceptedSize := bc_uiAcceptedSize c + ucast (md_uiDataLen m),
            bc_uiNextFrameId := bc_uiNextFrameId c + 1\<rparr>)
          (s1\<lparr>stMsgQueue_FileTransfer := stMsgQueue_FileTransfer s1 @ [eBulkQueueMessage_Data m]\<rparr>)"
      using run True m l
      by (auto simp: iSend_BulkTransferData_def msgq_put_def wall_simps errno_defs Let_def split: if_splits)
    obtain c q where q: "stMsgQueue_FileTransfer s1 = q" "\<forall>x \<in> set q. frame_ok x" "bs = c @ concat (map msg_bytes q)"
      "counts d c ?c" "in_file c s1" and rest: "bCanProcess_QueuedBulkData s1" "bulk_worker_runs s1"
      "bc_bMsg_ThreadInitialized ?c" "kSem_BulkWorkerDone s1 = 0"
      and st: "eGetTransferState s1 = eFileTransfer_Receiving" and acc: "bc_uiAcceptedSize ?c = of_nat (length bs)"
      and le: "length bs \<le> unat (bd_uiFileSize d)"
      using rec1 by (auto simp: receiving_def live_def)
    have len: "length (frame_bytes m) = ?n" using length_frame_bytes [OF ok] .
    have "live d (bs @ frame_bytes m) [] s'"
      unfolding live_def using q rest ok
      by (intro conjI exI [of _ c] exI [of _ "q @ [eBulkQueueMessage_Data m]"])
         (auto simp: s' counts_def in_file_def bCanProcess_QueuedBulkData_def eGetTransferState_def)
    moreover have "length bs + ?n \<le> unat (bd_uiFileSize d)"
    proof -
      have "length bs < 2 ^ LENGTH(32)" using le unat_lt_u32 [of "bd_uiFileSize d"] by simp
      then have a: "unat (bc_uiAcceptedSize ?c) = length bs" unfolding acc by (rule unat_of_nat_small)
      have "bc_uiAcceptedSize ?c \<le> bc_uiFileSize ?c" using a le q(4) by (simp add: word_le_nat_alt counts_def)
      then have "unat (bc_uiFileSize ?c - bc_uiAcceptedSize ?c) = unat (bd_uiFileSize d) - length bs"
        using a q(4) by (simp add: unat_diff_small counts_def)
      moreover have "?n \<le> unat (bc_uiFileSize ?c - bc_uiAcceptedSize ?c)"
        using fits by (simp add: not_less word_le_nat_alt)
      ultimately show ?thesis using le by linarith
    qed
    moreover have "bc_uiAcceptedSize (stTBulkDataCtrl s') = of_nat (length (bs @ frame_bytes m))"
      using acc len by (simp add: s')
    ultimately show ?thesis using True len st by (simp add: receiving_def s' eGetTransferState_def)
  qed
qed


text \<open>A successful start: the file is there, empty and open.\<close>

lemma start_receiving:
  assumes "bStart_BulkDataTransfer E d s = Some (True, s')"
  shows "receiving d [] s'"
proof -
  from assms obtain dir where dir: "bulk_directory (bd_eFileType d) = Some dir"
    by (auto simp: bStart_BulkDataTransfer_def split: option.splits)
  obtain lr s1 where l: "io (lfs_mutex_lock E kMutex_BulkTransfer) s = (lr, s1)" by fastforce
  let ?s = "on_ctrl (bc_pcaDirPath_update (\<lambda>_. dir)) (vSet_BulkkTransferData_ToDefault s1)"
  from assms dir l obtain full where full: "bBuild_Validate_FullPathName dir (bd_pcaFileName d) (strnlen dir MAX_FILE_PATH_LENGTH)
      (strnlen (bd_pcaFileName d) MAX_FILE_NAME_LENGTH) = Some full"
    by (auto simp: bStart_BulkDataTransfer_def Let_def split: option.splits if_splits)
  let ?t = "on_ctrl (bc_pcaTotalFilePath_update (\<lambda>_. full)) ?s"
  from assms dir l full obtain r2 s2 where del: "iDelete_File E (Some full) ?t = Some (r2, s2)"
    by (auto simp: bStart_BulkDataTransfer_def Let_def bind_eq_Some_conv split: if_splits)
  obtain r3 s3 where cr: "iCreate_File E (Some dir) (Some (bd_pcaFileName d)) s2 = (r3, s3)" by fastforce
  have beg: "begin_transfer E d full s3 = Some (True, s')"
    using assms dir l full del cr by (auto simp: bStart_BulkDataTransfer_def Let_def split: if_splits)
  have ctrl: "stTBulkDataCtrl s3 = stTBulkDataCtrl ?t"
    using files_movedD(1) [OF create_files_moved [OF cr]] delete_result [OF del] files_movedD(1) by metis
  obtain ro h s4 where o: "io (fs_open E full FS_O_WRITE_TRUNC) s3 = ((ro, h), s4)" by (metis surj_pair)
  have ro: "ro = 0"
  proof (rule ccontr)
    assume n: "ro \<noteq> 0"
    then have "ro < 0" using open_fail [OF io_world [OF o] n] by blast
    with beg o show False by (auto simp: begin_transfer_def bind_eq_Some_conv Let_def split: if_splits)
  qed
  obtain now s5 where clk: "io (lfs_uptime_32 E) (on_ctrl (bc_stTFileData_update (\<lambda>_. h)) s4) = (now, s5)" by fastforce
  note m = world_movedD(2) [OF io_moved [OF o]] world_movedD(2) [OF io_moved [OF clk]]
  have new: "content full (lfs_world s5) = Some []" "opened h (lfs_world s5) = Some (full, 0)"
    using open_ok [OF io_world [OF o [unfolded ro]]] io_keeps(3) [OF clk, of full] io_keeps(4) [OF clk, of h] by auto
  have s': "s' = s5\<lparr>stMsgQueue_FileTransfer := [], kSem_BulkWorkerDone := 0, bulk_worker_runs := True,
       stTBulkDataCtrl := (stTBulkDataCtrl s5)\<lparr>bc_bFileOpen := True, bc_eFileType := bd_eFileType d,
         bc_uiFileSize := bd_uiFileSize d, bc_uiCRC := bd_uiCRC d, bc_uiRunningCRC := 0xFFFF,
         bc_uiLastActivityTime_ms := now, bc_bMsgQ_Initialized := True, bc_bMsg_ThreadInitialized := True,
         bc_eTransferState := eFileTransfer_Receiving\<rparr>\<rparr>"
    using beg o ro clk by (simp add: begin_transfer_def Let_def)
  have "counts d [] (stTBulkDataCtrl s') \<and> in_file [] s' \<and> bc_uiAcceptedSize (stTBulkDataCtrl s') = 0"
    using new m ctrl by (simp add: s' counts_def in_file_def vSet_BulkkTransferData_ToDefault_def Let_def)
  then show ?thesis
    by (auto simp: receiving_def live_def s' bCanProcess_QueuedBulkData_def eGetTransferState_def)
qed

lemma close_if_open_keeps:
  "eGetTransferState (close_if_open E P s) = eGetTransferState s"
  "bulk_worker_runs (close_if_open E P s) = bulk_worker_runs s"
  "content p (lfs_world (close_if_open E P s)) = content p (lfs_world s)"
  "bc_pcaTotalFilePath (stTBulkDataCtrl (close_if_open E P s)) = bc_pcaTotalFilePath (stTBulkDataCtrl s)"
proof -
  obtain r t where c: "io (fs_close E (bc_stTFileData (stTBulkDataCtrl s))) s = (r, t)" by fastforce
  note m = world_movedD [OF io_moved [OF c]] io_keeps(9) [OF c]
  show "eGetTransferState (close_if_open E P s) = eGetTransferState s"
    "bulk_worker_runs (close_if_open E P s) = bulk_worker_runs s"
    "content p (lfs_world (close_if_open E P s)) = content p (lfs_world s)"
    "bc_pcaTotalFilePath (stTBulkDataCtrl (close_if_open E P s)) = bc_pcaTotalFilePath (stTBulkDataCtrl s)"
    using c m by (simp_all add: close_if_open_def close_transfer_file_def eGetTransferState_def)
qed

lemma delete_partial_keeps:
  assumes "delete_partial_file E s = Some s'"
  shows "eGetTransferState s' = eGetTransferState s" and "bulk_worker_runs s' = bulk_worker_runs s"
proof -
  obtain r u where del: "iDelete_FileInternal E (bc_pcaTotalFilePath (stTBulkDataCtrl s)) s = Some (r, u)"
    and s': "s' = (if r < 0 \<and> r \<noteq> - ENOENT then vSet_Transfer_ErrorState eErrorState_FileDelete u else u)"
    using assms by (auto simp: delete_partial_file_def bind_eq_Some_conv)
  have m: "files_moved s u" using delete_internal_result [OF del] by blast
  show "eGetTransferState s' = eGetTransferState s" "bulk_worker_runs s' = bulk_worker_runs s"
    using files_movedD(1,3) [OF m] by (simp_all add: s' eGetTransferState_def)
qed

lemma cleanup_idle:
  assumes "bIs_MsgQueueInError s" "bIsBulkTransferActive s" "\<not> bulk_worker_runs s"
    and run: "vDataTransfer_TimeOutHandler E s = Some s'"
  shows "eGetTransferState s' = eFileTransfer_Idle \<and> \<not> bulk_worker_runs s'"
proof -
  let ?s = "set_transfer_state eFileTransfer_Failed (s\<lparr>bulk_work_submitted := False\<rparr>)"
  obtain u where del: "delete_partial_file E (close_if_open E (\<lambda>_. True) ?s) = Some u"
    and s': "s' = vSet_BulkkTransferData_ToDefault u"
    using run assms(1,2)
    by (auto simp: vDataTransfer_TimeOutHandler_def bIs_MsgQueueInError_def bIsBulkTransferActive_def eGetTransferState_def Let_def)
  have "\<not> bulk_worker_runs u" using delete_partial_keeps(2) [OF del] close_if_open_keeps(2) [of "\<lambda>_. True" ?s] assms(3) by simp
  then show ?thesis by (simp add: s' vSet_BulkkTransferData_ToDefault_def eGetTransferState_def Let_def)
qed

lemma cleanup_inv:
  assumes inv: "upload_inv d bs s" and run: "vDataTransfer_TimeOutHandler E s = Some s'"
  shows "upload_inv d bs s'"
proof (cases "bIs_MsgQueueInError s \<and> bIsBulkTransferActive s")
  case True
  then have "\<not> receiving d bs s" by (auto simp: receiving_def live_def counts_def bIs_MsgQueueInError_def)
  with inv True have "\<not> bulk_worker_runs s" by (auto simp: upload_inv_def stopped_ill_def)
  from cleanup_idle [OF _ _ this run] True show ?thesis by (simp add: upload_inv_def)
next
  case False
  then have s': "s' = s\<lparr>bulk_work_submitted := False\<rparr>"
    using run by (auto simp: vDataTransfer_TimeOutHandler_def bIs_MsgQueueInError_def bIsBulkTransferActive_def
        eGetTransferState_def Let_def)
  have "receiving d bs s' = receiving d bs s" "stopped_ill s' = stopped_ill s" "eGetTransferState s' = eGetTransferState s"
    "bulk_worker_runs s' = bulk_worker_runs s"
    by (simp_all add: s' receiving_def live_def in_file_def bCanProcess_QueuedBulkData_def eGetTransferState_def
        stopped_ill_def bIs_MsgQueueInError_def)
  with inv show ?thesis by (simp add: upload_inv_def)
qed

lemma worker_inv:
  assumes inv: "upload_inv d bs s"
  shows "upload_inv d bs (vLittleFs_FileTransferMonitor E s)"
proof (cases "receiving d bs s")
  case True
  then have "live d bs [] s" "eGetTransferState s = eFileTransfer_Receiving" by (simp_all add: receiving_def)
  from worker_turn [OF this(1) _ refl] this(2) True show ?thesis
    by (auto simp: upload_inv_def receiving_def)
next
  case False
  then have "\<not> bulk_worker_runs s" using inv by (auto simp: upload_inv_def stopped_ill_def)
  with inv show ?thesis by (simp add: stopped_turn)
qed

lemma frame_inv:
  assumes inv: "upload_inv d bs s" and m: "length (md_uiMsg m) = 256" and run: "iSend_BulkTransferData E (Some m) s = (r, s')"
  shows "upload_inv d (if r = 0 then bs @ frame_bytes m else bs) s'"
proof (cases "receiving d bs s")
  case True
  from send_inv [OF this m run] show ?thesis by (simp add: upload_inv_def)
next
  case False
  then have st: "eGetTransferState s \<noteq> eFileTransfer_Receiving" using inv by (auto simp: upload_inv_def)
  obtain lr t where l: "io (lfs_mutex_lock E kMutex_BulkTransfer) s = (lr, t)" by fastforce
  have "eGetTransferState t \<noteq> eFileTransfer_Receiving" using st world_movedD(2) [OF io_moved [OF l]] by (simp add: eGetTransferState_def)
  then have r: "r \<noteq> 0" using run l
    by (auto simp: iSend_BulkTransferData_def errno_defs Let_def split: if_splits)
  from refused_frame [OF run r] have "world_moved s s'" by (auto dest: io_moved)
  note same = world_movedD [OF this]
  have "stopped_ill s' = stopped_ill s" "eGetTransferState s' = eGetTransferState s"
    using same by (simp_all add: stopped_ill_def bIs_MsgQueueInError_def eGetTransferState_def)
  with inv False r same show ?thesis by (auto simp: upload_inv_def)
qed

lemma upload_keeps: "upload E d bs s \<Longrightarrow> upload_inv d bs s"
proof (induction rule: upload.induct)
  case (upload_start s s')
  from start_receiving [OF this] show ?case by (simp add: upload_inv_def)
next
  case (upload_frame bs s m r s')
  from upload_frame.IH upload_frame.hyps(2,3) show ?case by (rule frame_inv)
next
  case (upload_worker bs s)
  from upload_worker.IH show ?case by (rule worker_inv)
next
  case (upload_cleanup bs s s')
  from upload_cleanup.IH upload_cleanup.hyps(2) show ?case by (rule cleanup_inv)
next
  case (upload_write bs s p x k mx r s')
  then show ?case using busy_refuses(1) by metis
next
  case (upload_create bs s p q r s')
  then show ?case using busy_refuses(2) by metis
next
  case (upload_delete bs s p r s')
  then show ?case using busy_refuses(3) by metis
next
  case (upload_remove bs s p b s')
  then show ?case using busy_refuses(4) by metis
qed

subsection \<open>The end\<close>

text \<open>Reading the directories changes no file.\<close>

lemma read_entries_content:
  assumes "read_entries E h cur sc s = Some ((r, sc'), s')"
  shows "content p (lfs_world s') = content p (lfs_world s)"
proof -
  have "E' = E \<longrightarrow> content p (lfs_world (snd x)) = content p (lfs_world s)" if "read_entries E' h cur sc s = Some x" for x E'
    using that
  proof (induction rule: read_entries.raw_induct [rotated, consumes 1, case_names step])
    case (step f E' h cur sc s x)
    obtain r ent t where w: "io (fs_readdir E' h) s = ((r, ent), t)" by (metis surj_pair)
    obtain r2 sc2 where e: "scan_entry cur ent sc = (r2, sc2)" by fastforce
    have c: "E' = E \<Longrightarrow> content p (lfs_world t) = content p (lfs_world s)" using io_keeps(14) w by blast
    show ?case
    proof (cases "r < 0 \<or> de_name ent = '''' \<or> r2 < 0")
      case True
      with step(2) w e c show ?thesis by (auto split: if_splits)
    next
      case False
      with step(2) w e have "f E' h cur sc2 t = Some x" by simp
      from step(1) [OF this] c show ?thesis by simp
    qed
  qed
  with assms show ?thesis by fastforce
qed

lemma scan_directories_content:
  assumes "scan_directories E sc s = Some ((r, sc'), s')"
  shows "content p (lfs_world s') = content p (lfs_world s)"
proof -
  have "E' = E \<longrightarrow> content p (lfs_world (snd x)) = content p (lfs_world s)" if "scan_directories E' sc s = Some x" for x E'
    using that
  proof (induction rule: scan_directories.raw_induct [rotated, consumes 1, case_names step])
    case (step f E' sc s x)
    show ?case
    proof (cases "caDirectoryWorkList sc")
      case Nil
      with step(2) show ?thesis by auto
    next
      case (Cons cur rest)
      let ?sc = "sc\<lparr>caDirectoryWorkList := rest\<rparr>"
      obtain ro h s1 where o: "io (fs_opendir E' cur) s = ((ro, h), s1)" by (metis surj_pair)
      have c1: "E' = E \<Longrightarrow> content p (lfs_world s1) = content p (lfs_world s)" using io_keeps(12) o by blast
      from Cons step(2) obtain r2 sc2 s2 where dd: "scan_directory E' cur ?sc s = Some ((r2, sc2), s2)"
        and x: "(if r2 < 0 then Some ((r2, sc2), s2) else f E' sc2 s2) = Some x"
        by (auto simp: bind_eq_Some_conv)
      have c2: "content p (lfs_world s2) = content p (lfs_world s)" if "E' = E"
      proof (cases "ro < 0")
        case True
        with dd o c1 that show ?thesis by (auto simp: scan_directory_def)
      next
        case False
        have dd': "scan_directory E cur ?sc s = Some ((r2, sc2), s2)" and o': "io (fs_opendir E cur) s = ((ro, h), s1)"
          using dd o that by simp_all
        then obtain r3 sc3 s3 where e: "read_entries E h cur ?sc s1 = Some ((r3, sc3), s3)"
          using False by (auto simp: scan_directory_def bind_eq_Some_conv)
        obtain rc s4 where cl: "io (fs_closedir E h) s3 = (rc, s4)" by fastforce
        have "s2 = s4" using dd' o' False e cl by (auto simp: scan_directory_def)
        then show ?thesis using read_entries_content [OF e] c1 that io_keeps(16) [OF cl] by simp
      qed
      show ?thesis
      proof (cases "r2 < 0")
        case True
        with x c2 show ?thesis by auto
      next
        case False
        with x have "f E' sc2 s2 = Some x" by simp
        from step(1) [OF this] c2 show ?thesis by simp
      qed
    qed
  qed
  with assms show ?thesis by fastforce
qed

lemma refresh_content:
  assumes "refresh_catalog E s = Some (r, s')"
  shows "content p (lfs_world s') = content p (lfs_world s)"
proof -
  obtain rl s1 where l: "io (lfs_mutex_lock E kMutex_FileAccess) s = (rl, s1)" by fastforce
  note c1 = io_keeps(1) [OF l]
  show ?thesis
  proof (cases "rl = 0")
    case False
    with assms l c1 show ?thesis
      by (auto simp: refresh_catalog_def iGetFileInfo_def EXT_LITTLEFS_MOUNT_POINT_def strnlen_def wall_simps)
  next
    case True
    let ?sc = "\<lparr>staStagingFileInfo = [], caDirectoryWorkList = [EXT_LITTLEFS_MOUNT_POINT], uiTotalDirectoryCount = 1\<rparr>"
    obtain r2 sc s2 where dd: "scan_directories E ?sc s1 = Some ((r2, sc), s2)"
        and e: "lfs_world s' = lfs_world s2"
      using assms l True
      by (auto simp: refresh_catalog_def iGetFileInfo_def EXT_LITTLEFS_MOUNT_POINT_def strnlen_def wall_simps bind_eq_Some_conv
          split: if_splits)
    with scan_directories_content [OF dd] c1 show ?thesis by simp
  qed
qed

lemma failure_state:
  assumes "indicate_failure E s = Some s'"
  shows "eGetTransferState s' = eGetTransferState s"
proof -
  have "eGetTransferState (stop_worker s) = eGetTransferState s" by (simp add: stop_worker_def eGetTransferState_def)
  with delete_partial_keeps(1) [OF assms [unfolded indicate_failure_def]] show ?thesis by (simp only: close_if_open_keeps)
qed

text \<open>What success means: a sound transfer whose counts match the announcement, and its file in place.\<close>

lemma success_keeps:
  assumes "indicate_success E s = Some s'" and "eGetTransferState s' = eFileTransfer_Success"
  shows "content p (lfs_world s') = content p (lfs_world s)"
proof -
  obtain r t where sy: "io (fs_sync E (bc_stTFileData (stTBulkDataCtrl s))) s = (r, t)" by fastforce
  obtain cr u where cl: "close_transfer_file E t = (cr, u)" by fastforce
  have r: "\<not> r < 0"
  proof
    assume "r < 0"
    with assms(1) sy have "indicate_failure E (set_transfer_state eFileTransfer_Failed (vSet_Transfer_ErrorState eErrorState_FileSync t)) = Some s'"
      by (simp add: indicate_success_def)
    from failure_state [OF this] assms(2) show False by (simp add: eGetTransferState_def)
  qed
  have cr: "\<not> cr < 0" using assms sy cl r by (auto simp: indicate_success_def eGetTransferState_def)
  with assms(1) sy cl r obtain rr v where re: "refresh_catalog E u = Some (rr, v)"
    and s': "s' = (if rr < 0 then set_transfer_state eFileTransfer_Failed (vSet_Transfer_ErrorState eErrorState_RefreshFileCatalog v) else v)"
    by (auto simp: indicate_success_def bind_eq_Some_conv)
  have "content p (lfs_world u) = content p (lfs_world t)"
    using cl io_keeps(9) by (auto simp: close_transfer_file_def split: prod.splits)
  then show ?thesis using refresh_content [OF re] io_keeps(7) [OF sy] by (simp add: s')
qed

lemma judge_success:
  assumes "judge_transfer E s = Some s'" and "eGetTransferState s' = eFileTransfer_Success"
  shows "\<not> bIs_MsgQueueInError s \<and> bc_uiReceivedSize (stTBulkDataCtrl s) = bc_uiFileSize (stTBulkDataCtrl s)
    \<and> bc_uiRunningCRC (stTBulkDataCtrl s) = bc_uiCRC (stTBulkDataCtrl s)
    \<and> content p (lfs_world s') = content p (lfs_world s)"
proof -
  have fail: "indicate_failure E t \<noteq> Some s'" if "bc_eTransferState (stTBulkDataCtrl t) = eFileTransfer_Failed" for t
    using failure_state [of t s'] assms(2) that by (auto simp: eGetTransferState_def)
  have "\<not> bIs_MsgQueueInError s" "bc_uiReceivedSize (stTBulkDataCtrl s) = bc_uiFileSize (stTBulkDataCtrl s)"
    "bc_uiRunningCRC (stTBulkDataCtrl s) = bc_uiCRC (stTBulkDataCtrl s)"
    and ok: "indicate_success E (set_transfer_state eFileTransfer_Success (vSet_Transfer_ErrorState eErrorState_None s)) = Some s'"
    using assms(1) fail by (auto simp: judge_transfer_def Let_def split: if_splits)
  with success_keeps [OF ok assms(2), of p] show ?thesis by simp
qed

lemma turn_path: "bc_pcaTotalFilePath (stTBulkDataCtrl (vLittleFs_FileTransferMonitor E s)) = bc_pcaTotalFilePath (stTBulkDataCtrl s)"
proof (cases "stMsgQueue_FileTransfer s")
  case Nil
  then show ?thesis by (simp add: vLittleFs_FileTransferMonitor_def worker_fails_def vSignal_BulkWorkerDone_def)
next
  case (Cons x q)
  have wr: "stTBulkDataCtrl u = stTBulkDataCtrl t" if "iBulkWrite_ToFile E m t = (r, u)" for m t r u
    using that by (auto simp: iBulkWrite_ToFile_def Let_def split: if_splits prod.splits dest!: io_moved world_movedD(2))
  show ?thesis
  proof (cases x)
    case (eBulkQueueMessage_Data m)
    obtain now t where clk: "io (lfs_uptime_32 E) (s\<lparr>stMsgQueue_FileTransfer := q\<rparr>) = (now, t)" by fastforce
    obtain r u where w: "iBulkWrite_ToFile E m (on_ctrl (bc_uiLastActivityTime_ms_update (\<lambda>_. now)) t) = (r, u)" by fastforce
    show ?thesis using Cons eBulkQueueMessage_Data clk w wr [OF w] world_movedD(2) [OF io_moved [OF clk]]
      by (simp add: vLittleFs_FileTransferMonitor_def worker_fails_def vSignal_BulkWorkerDone_def Let_def)
  qed (use Cons in \<open>simp add: vLittleFs_FileTransferMonitor_def vSignal_BulkWorkerDone_def Let_def\<close>)
qed

lemma turns_path:
  "bc_pcaTotalFilePath (stTBulkDataCtrl ((vLittleFs_FileTransferMonitor E ^^ n) s)) = bc_pcaTotalFilePath (stTBulkDataCtrl s)"
  by (induction n) (simp_all add: turn_path)

lemma end_success:
  assumes inv: "upload_inv d bs s" and run: "vEnd_BulkDataTransfer E m n s = Some (res, s')"
    and ok: "tr_eTransferState res = eFileTransfer_Success"
  shows "content (bc_pcaTotalFilePath (stTBulkDataCtrl s)) (lfs_world s') = Some bs
    \<and> length bs = unat (bd_uiFileSize d) \<and> u16CRC16_CCITT_Update 0xFFFF bs = bd_uiCRC d"
proof -
  obtain lr s1 where l: "io (lfs_mutex_lock E kMutex_BulkTransfer) s = (lr, s1)" by fastforce
  note same = world_movedD [OF io_moved [OF l]]
  let ?path = "bc_pcaTotalFilePath (stTBulkDataCtrl s)"
  show ?thesis
  proof (cases "lr = 0 \<and> eGetTransferState s = eFileTransfer_Receiving")
    case False
    then have "tr_eTransferState res = eGetTransferState s" using run l same(2)
      by (auto simp: vEnd_BulkDataTransfer_def eGetTransferState_def Let_def split: if_splits)
    with inv ok have False by (auto simp: upload_inv_def receiving_def)
    then show ?thesis ..
  next
    case True
    with inv have rec: "receiving d bs s" by (auto simp: upload_inv_def)
    let ?p = "bc_pcaTotalFilePath (stTBulkDataCtrl s)"
    let ?f = "set_transfer_state eFileTransfer_Finalizing s1"
    let ?g = "if length (stMsgQueue_FileTransfer ?f) < MAX_MSGQ_DEPTH then ?f else (vLittleFs_FileTransferMonitor E ^^ m) ?f"
    have liv: "live d bs [] s1" using rec live_moved [OF _ l] by (simp add: receiving_def)
    then have f: "live d bs [] ?f" "eGetTransferState ?f = eFileTransfer_Finalizing"
      by (auto simp: live_def counts_def in_file_def bCanProcess_QueuedBulkData_def eGetTransferState_def)
    obtain g where g: "g = ?g" by blast
    have gp: "bc_pcaTotalFilePath (stTBulkDataCtrl g) = ?p" using same(2) by (simp add: g turns_path)
    have g_cases: "(live d bs [] g \<and> eGetTransferState g = eFileTransfer_Finalizing) \<or> (stopped_ill g \<and> eGetTransferState g = eFileTransfer_Failed)"
      using worker_turns [OF f(1), of m] f by (simp add: g)
    obtain r h where put: "msgq_put eBulkQueueMessage_End g = (r, h)" by fastforce
    have fail: "indicate_failure E t \<noteq> Some u" if "eGetTransferState t = eFileTransfer_Failed" "eGetTransferState u = eFileTransfer_Success" for t u
      using failure_state [of t u] that by auto
    obtain v where v: "eGetTransferState v = eFileTransfer_Success" "lfs_world s' = lfs_world v"
      and run2: "await_worker E n r h = Some v"
    proof -
      have "map_option transfer_result (await_worker E n r h) = Some (res, s')"
        using run True unfolding vEnd_BulkDataTransfer_def Let_def l prod.case
        by (simp add: put g [symmetric, simplified] same(2) eGetTransferState_def)
      with ok show ?thesis using that
        by (auto simp: transfer_result_def vSet_BulkkTransferData_ToDefault_def Let_def)
    qed
    let ?w = "(vLittleFs_FileTransferMonitor E ^^ n) h"
    have r: "r = 0" using run2 fail [OF _ v(1)] by (auto simp: await_worker_def eGetTransferState_def split: if_splits)
    have sem: "kSem_BulkWorkerDone ?w \<noteq> 0"
      using run2 r fail [OF _ v(1)] by (auto simp: await_worker_def eGetTransferState_def Let_def split: if_splits)
    with run2 r have judge: "judge_transfer E (?w\<lparr>kSem_BulkWorkerDone := kSem_BulkWorkerDone ?w - 1\<rparr>) = Some v"
      by (simp add: await_worker_def Let_def)
    note verdict = judge_success [OF judge v(1), of ?p]
    have h: "h = g\<lparr>stMsgQueue_FileTransfer := stMsgQueue_FileTransfer g @ [eBulkQueueMessage_End]\<rparr>"
      using put r by (auto simp: msgq_put_def errno_defs split: if_splits)
    have "\<not> bIs_MsgQueueInError ?w" using verdict by (simp add: bIs_MsgQueueInError_def)
    then have not_ill: "\<not> stopped_ill ?w" by (simp add: stopped_ill_def)
    have g_live: "live d bs [] g" "eGetTransferState g = eFileTransfer_Finalizing"
    proof -
      have False if "stopped_ill g"
      proof -
        from that have "stopped_ill h" by (simp add: h stopped_ill_def bIs_MsgQueueInError_def eGetTransferState_def)
        moreover from this have "?w = h" by (induction n) (simp_all add: stopped_ill_def stopped_turn)
        ultimately show False using not_ill by simp
      qed
      with g_cases show "live d bs [] g" "eGetTransferState g = eFileTransfer_Finalizing" by auto
    qed
    then have "live d bs [eBulkQueueMessage_End] h" "eGetTransferState h = eFileTransfer_Finalizing"
      by (auto simp: h live_def counts_def in_file_def bCanProcess_QueuedBulkData_def eGetTransferState_def)
    from worker_turns [OF this(1), of n] this(2) not_ill sem have well: "stopped_well d bs ?w"
      by (auto simp: live_def)
    have "bc_pcaTotalFilePath (stTBulkDataCtrl ?w) = ?p" using gp by (simp add: turns_path h)
    with well have c: "content ?p (lfs_world ?w) = Some bs" by (simp add: stopped_well_def in_file_def)
    have le: "length bs \<le> unat (bd_uiFileSize d)" using rec by (simp add: receiving_def)
    then have "unat (of_nat (length bs) :: u32) = length bs" using unat_lt_u32 [of "bd_uiFileSize d"] by (intro unat_of_nat_small) simp
    moreover have "stTBulkDataCtrl (?w\<lparr>kSem_BulkWorkerDone := kSem_BulkWorkerDone ?w - 1\<rparr>) = stTBulkDataCtrl ?w" by simp
    then have "of_nat (length bs) = bd_uiFileSize d" "u16CRC16_CCITT_Update 0xFFFF bs = bd_uiCRC d"
      using verdict well unfolding stopped_well_def counts_def by metis+
    ultimately show ?thesis using c verdict v(2) by simp
  qed
qed

end

end
