(* ===== verification/Lfs_Reach.thy ===== *)
theory Lfs_Reach
  imports Lfs_Delete Lfs_Transfer
begin

text \<open>
  All histories of the controller: from power-up, any sequence of its entry points, of worker turns and of
  the clean-up work. In every such history the catalogue is sound, the worker runs only while a transfer
  receives, and an idle controller has no open transfer file.
\<close>

subsection \<open>Histories\<close>

definition power_up :: "'w lfs_sys \<Rightarrow> bool" where
  "power_up s \<longleftrightarrow> stTFileCatalog s = [] \<and> \<not> bulk_worker_runs s \<and> eGetTransferState s = eFileTransfer_Idle
     \<and> \<not> bc_bFileOpen (stTBulkDataCtrl s)"

inductive lfs_reach :: "('w, 'z) fs_services_scheme \<Rightarrow> 'w lfs_sys \<Rightarrow> bool" for E :: "('w, 'z) fs_services_scheme" where
  reach_power_up: "power_up s \<Longrightarrow> lfs_reach E s"
| reach_init: "lfs_reach E s \<Longrightarrow> bInit_ExtFlash_FsController E (Pair True) s = Some (b, s') \<Longrightarrow> lfs_reach E s'"
| reach_create: "lfs_reach E s \<Longrightarrow> iCreate_File E p n s = (r, s') \<Longrightarrow> lfs_reach E s'"
| reach_delete: "lfs_reach E s \<Longrightarrow> iDelete_File E p s = Some (r, s') \<Longrightarrow> lfs_reach E s'"
| reach_remove: "lfs_reach E s \<Longrightarrow> bDelete_Directory E p s = Some (b, s') \<Longrightarrow> lfs_reach E s'"
| reach_read: "lfs_reach E s \<Longrightarrow> iRead_FromFileBin E p g k s = (x, s') \<Longrightarrow> lfs_reach E s'"
| reach_write: "lfs_reach E s \<Longrightarrow> iWrite_ToFileBin E p d k mx s = (r, s') \<Longrightarrow> lfs_reach E s'"
| reach_start: "lfs_reach E s \<Longrightarrow> bStart_BulkDataTransfer E bd s = Some (b, s') \<Longrightarrow> lfs_reach E s'"
| reach_frame: "lfs_reach E s \<Longrightarrow> iSend_BulkTransferData E m s = (r, s') \<Longrightarrow> lfs_reach E s'"
| reach_worker: "lfs_reach E s \<Longrightarrow> lfs_reach E (vLittleFs_FileTransferMonitor E s)"
| reach_cleanup: "lfs_reach E s \<Longrightarrow> vDataTransfer_TimeOutHandler E s = Some s' \<Longrightarrow> lfs_reach E s'"
| reach_end: "lfs_reach E s \<Longrightarrow> vEnd_BulkDataTransfer E j k s = Some (res, s') \<Longrightarrow> lfs_reach E s'"

subsection \<open>The invariant\<close>

text \<open>What holds also inside an operation, and what holds between two of them.\<close>

definition lfs_good :: "'w lfs_sys \<Rightarrow> bool" where
  "lfs_good s \<longleftrightarrow> catalog_ok (stTFileCatalog s) \<and> (bulk_worker_runs s \<longrightarrow> bc_bMsg_ThreadInitialized (stTBulkDataCtrl s))"

definition lfs_ok :: "'w lfs_sys \<Rightarrow> bool" where
  "lfs_ok s \<longleftrightarrow> lfs_good s \<and> (bulk_worker_runs s \<longrightarrow> eGetTransferState s = eFileTransfer_Receiving)
     \<and> (eGetTransferState s = eFileTransfer_Idle \<longrightarrow> \<not> bc_bFileOpen (stTBulkDataCtrl s))"

lemma files_keep:
  assumes "files_moved s s' \<and> (catalog_ok (stTFileCatalog s) \<longrightarrow> catalog_ok (stTFileCatalog s'))"
  shows "lfs_good s \<Longrightarrow> lfs_good s'" and "lfs_ok s \<Longrightarrow> lfs_ok s'"
  using files_movedD [of s s'] assms by (auto simp: lfs_ok_def lfs_good_def eGetTransferState_def)

lemma world_keeps:
  assumes "world_moved s s'"
  shows "lfs_good s \<Longrightarrow> lfs_good s'" and "lfs_ok s \<Longrightarrow> lfs_ok s'"
  using files_keep [of s s'] moved_files [OF assms] world_movedD [OF assms] by auto

lemmas io_good = world_keeps(1) [OF io_moved]

lemma refresh_keeps:
  assumes "refresh_catalog E s = Some (r, s')"
  shows "lfs_good s \<Longrightarrow> lfs_good s'" and "lfs_ok s \<Longrightarrow> lfs_ok s'"
proof -
  obtain fs w where "s' = s\<lparr>stTFileCatalog := fs, lfs_world := w\<rparr>" "catalog_ok (stTFileCatalog s) \<longrightarrow> catalog_ok fs"
    using refresh_result [OF assms] by blast
  with files_keep [of s s'] refresh_moved [OF assms] show "lfs_good s \<Longrightarrow> lfs_good s'" "lfs_ok s \<Longrightarrow> lfs_ok s'" by auto
qed

subsection \<open>File operations\<close>

lemma write_result:
  assumes "iWrite_ToFileBin E p d k mx s = (r, s')"
  shows "files_moved s s' \<and> (catalog_ok (stTFileCatalog s) \<longrightarrow> catalog_ok (stTFileCatalog s'))"
proof (cases "p = None \<or> d = None \<or> k = 0 \<or> mx = 0 \<or> bIsBulkTransferActive s")
  case True
  with assms show ?thesis by (auto simp: iWrite_ToFileBin_def split: if_splits)
next
  case False
  obtain rl s1 where l: "io (lfs_mutex_lock E kMutex_FileAccess) s = (rl, s1)" by fastforce
  note m1 = io_moved [OF l]
  have fin: "files_moved s t \<and> (catalog_ok (stTFileCatalog s) \<longrightarrow> catalog_ok (stTFileCatalog t))" if "world_moved s t" for t
    using that by (simp add: moved_files world_movedD)
  show ?thesis
  proof (cases "rl \<noteq> 0 \<or> pstGetFile_ByFilePath (the p) s1 = None")
    case True
    with assms False l fin [OF m1] show ?thesis by (auto simp: iWrite_ToFileBin_def split: if_splits)
  next
    case found: False
    then obtain i where i: "pstGetFile_ByFilePath (the p) s1 = Some i" by auto
    let ?p = "fi_caFilePath (stTFileCatalog s1 ! i)"
    have len: "i < length (stTFileCatalog s1)" using find_path_Some i by (auto simp: pstGetFile_ByFilePath_def)
    obtain ro h s2 where o: "io (fs_open E ?p FS_O_WRITE_TRUNC) s1 = ((ro, h), s2)" by (metis surj_pair)
    note m2 = world_moved_trans [OF m1 io_moved [OF o]]
    show ?thesis
    proof (cases "ro = 0")
      case n: False
      with assms False found l i o fin [OF m2] show ?thesis by (auto simp: iWrite_ToFileBin_def Let_def)
    next
      case True
      obtain rw s3 where w: "write_loop E h mx (take k (the d)) s2 = (rw, s3)" by fastforce
      note m3 = world_moved_trans [OF m2 write_loop_moved [OF w]]
      obtain rs s4 where sy: "io (fs_sync E h) s3 = (rs, s4)" by fastforce
      obtain rc s5 where cl: "io (fs_close E h) s4 = (rc, s5)" by fastforce
      obtain rt e s6 where st: "io (fs_stat E ?p) s5 = ((rt, e), s6)" by (metis surj_pair)
      obtain rd s7 where cl2: "io (fs_close E h) s3 = (rd, s7)" by fastforce
      note m7 = world_moved_trans [OF m3 io_moved [OF cl2]]
      note m6 = world_moved_trans [OF world_moved_trans [OF world_moved_trans [OF m3 io_moved [OF sy]] io_moved [OF cl]] io_moved [OF st]]
      let ?fs = "(stTFileCatalog s6)[i := (stTFileCatalog s6 ! i)\<lparr>fi_uiFileSize := de_size e\<rparr>]"
      have s': "s' = s7 \<or> s' = s6 \<or> s' = s6\<lparr>stTFileCatalog := ?fs\<rparr>"
        using assms False found l i o True w sy cl st cl2 by (simp add: iWrite_ToFileBin_def Let_def split: if_splits)
      have cat: "stTFileCatalog s6 = stTFileCatalog s" "stTFileCatalog s1 = stTFileCatalog s"
        using world_movedD(1) [OF m6] world_movedD(1) [OF m1] by simp_all
      obtain v where v: "s6 = s\<lparr>lfs_world := v\<rparr>" using m6 by (auto simp: world_moved_def)
      have "files_moved s (s6\<lparr>stTFileCatalog := ?fs\<rparr>)"
        unfolding files_moved_def v by (intro exI [of _ "(stTFileCatalog s)[i := (stTFileCatalog s ! i)\<lparr>fi_uiFileSize := de_size e\<rparr>]"] exI [of _ v]) simp
      moreover have "catalog_ok ?fs" if "catalog_ok (stTFileCatalog s)"
      proof -
        have "entry_ok (stTFileCatalog s ! i)" using that len cat by (simp add: catalog_ok_def)
        then have "entry_ok ((stTFileCatalog s ! i)\<lparr>fi_uiFileSize := de_size e\<rparr>)" by (simp add: entry_ok_def)
        with that cat show ?thesis by (auto simp: catalog_ok_def dest: set_update_subset_insert [THEN subsetD])
      qed
      ultimately show ?thesis using s' fin [OF m6] fin [OF m7] by auto
    qed
  qed
qed

lemma read_moved:
  assumes "iRead_FromFileBin E p g k s = (x, s')"
  shows "world_moved s s'"
proof (cases "p = None \<or> \<not> g \<or> k = 0 \<or> bIsBulkTransferActive s")
  case True
  with assms show ?thesis by (auto simp: iRead_FromFileBin_def split: option.splits if_splits)
next
  case False
  then obtain q where q: "p = Some q" by auto
  obtain rl s1 where l: "io (lfs_mutex_lock E kMutex_FileAccess) s = (rl, s1)" by fastforce
  obtain rt e s2 where st: "io (fs_stat E q) s1 = ((rt, e), s2)" by (metis surj_pair)
  obtain ro h s3 where o: "io (fs_open E q FS_O_READ) s2 = ((ro, h), s3)" by (metis surj_pair)
  obtain rr bs s4 where rd: "read_loop E h k 0 [] s3 = ((rr, bs), s4)" by (metis surj_pair)
  obtain rc s5 where cl: "io (fs_close E h) s4 = (rc, s5)" by fastforce
  note m1 = io_moved [OF l]
  note m2 = world_moved_trans [OF m1 io_moved [OF st]]
  note m3 = world_moved_trans [OF m2 io_moved [OF o]]
  note m5 = world_moved_trans [OF world_moved_trans [OF m3 read_loop_moved [OF rd]] io_moved [OF cl]]
  have "s' = s1 \<or> s' = s2 \<or> s' = s3 \<or> s' = s5"
    using assms False q l st o rd cl by (simp add: iRead_FromFileBin_def Let_def split: if_splits)
  with m1 m2 m3 m5 show ?thesis by auto
qed

subsection \<open>The bulk transfer\<close>

text \<open>A reset leaves the controller idle, with no worker and no open file.\<close>

definition at_rest :: "'w lfs_sys \<Rightarrow> bool" where
  "at_rest s \<longleftrightarrow> lfs_good s \<and> \<not> bulk_worker_runs s \<and> eGetTransferState s = eFileTransfer_Idle \<and> \<not> bc_bFileOpen (stTBulkDataCtrl s)"

lemma at_rest_ok: "at_rest s \<Longrightarrow> lfs_ok s"
  by (simp add: at_rest_def lfs_ok_def)

lemma at_rest_files:
  "at_rest s \<Longrightarrow> files_moved s s' \<and> (catalog_ok (stTFileCatalog s) \<longrightarrow> catalog_ok (stTFileCatalog s')) \<Longrightarrow> at_rest s'"
  using files_movedD [of s s'] by (auto simp: at_rest_def lfs_good_def eGetTransferState_def)

lemma reset_at_rest: "lfs_good s \<Longrightarrow> at_rest (vSet_BulkkTransferData_ToDefault s)"
  by (auto simp: vSet_BulkkTransferData_ToDefault_def at_rest_def lfs_good_def eGetTransferState_def Let_def)

lemma reset_on_ctrl: "at_rest s \<Longrightarrow> at_rest (on_ctrl (bc_pcaDirPath_update f) s)" "at_rest s \<Longrightarrow> at_rest (on_ctrl (bc_pcaTotalFilePath_update f) s)"
  "at_rest s \<Longrightarrow> at_rest (set_transfer_state eFileTransfer_Idle s)" "at_rest s \<Longrightarrow> at_rest (on_ctrl (bc_stTFileData_update h) s)"
  by (auto simp: at_rest_def lfs_good_def eGetTransferState_def)

lemma begin_ok:
  assumes "begin_transfer E d full s = Some (b, s')" and "at_rest s"
  shows "lfs_ok s'"
proof -
  obtain ro h s1 where o: "io (fs_open E full FS_O_WRITE_TRUNC) s = ((ro, h), s1)" by (metis surj_pair)
  let ?t = "on_ctrl (bc_stTFileData_update (\<lambda>_. h)) s1"
  have "at_rest s1" by (rule at_rest_files [OF assms(2)]) (use moved_files [OF io_moved [OF o]] world_movedD(1) [OF io_moved [OF o]] in simp)
  then have rest: "at_rest ?t" by (rule reset_on_ctrl(4))
  show ?thesis
  proof (cases "ro < 0")
    case True
    with assms(1) o obtain rd where "iDelete_FileInternal E full ?t = Some (rd, s')"
      by (auto simp: begin_transfer_def bind_eq_Some_conv)
    from at_rest_ok [OF at_rest_files [OF rest delete_internal_result [OF this]]] show ?thesis .
  next
    case False
    obtain now s2 where c: "io (lfs_uptime_32 E) ?t = (now, s2)" by fastforce
    have "catalog_ok (stTFileCatalog s2)" using rest world_movedD(1) [OF io_moved [OF c]] by (simp add: at_rest_def lfs_good_def)
    with assms(1) o False c show ?thesis by (auto simp: begin_transfer_def lfs_ok_def lfs_good_def eGetTransferState_def Let_def)
  qed
qed

lemma start_ok:
  assumes "bStart_BulkDataTransfer E d s = Some (b, s')" and "lfs_ok s"
  shows "lfs_ok s'"
proof (cases "bulk_directory (bd_eFileType d)")
  case None
  with assms show ?thesis by (simp add: bStart_BulkDataTransfer_def)
next
  case (Some dir)
  obtain lr s1 where l: "io (lfs_mutex_lock E kMutex_BulkTransfer) s = (lr, s1)" by fastforce
  have ok1: "lfs_ok s1" by (rule world_keeps(2) [OF io_moved [OF l] assms(2)])
  let ?s = "on_ctrl (bc_pcaDirPath_update (\<lambda>_. dir)) (vSet_BulkkTransferData_ToDefault s1)"
  have rest: "at_rest ?s" by (rule reset_on_ctrl(1) [OF reset_at_rest]) (use ok1 in \<open>simp add: lfs_ok_def\<close>)
  let ?v = "bBuild_Validate_FullPathName dir (bd_pcaFileName d) (strnlen dir MAX_FILE_PATH_LENGTH) (strnlen (bd_pcaFileName d) MAX_FILE_NAME_LENGTH)"
  show ?thesis
  proof (cases "bd_uiFileSize d = 0 \<or> lr \<noteq> 0 \<or> eGetTransferState s1 \<noteq> eFileTransfer_Idle \<or> ?v = None")
    case True
    have "s' = s \<or> s' = s1 \<or> s' = set_transfer_state eFileTransfer_Idle ?s"
      using assms(1) Some l True by (auto simp: bStart_BulkDataTransfer_def Let_def split: if_splits)
    with assms(2) ok1 at_rest_ok [OF reset_on_ctrl(3) [OF rest]] show ?thesis by blast
  next
    case False
    then obtain full where full: "?v = Some full" by auto
    let ?t = "on_ctrl (bc_pcaTotalFilePath_update (\<lambda>_. full)) ?s"
    have rest2: "at_rest ?t" by (rule reset_on_ctrl(2) [OF rest])
    from assms(1) Some l False full obtain r2 s2 where del: "iDelete_File E (Some full) ?t = Some (r2, s2)"
      and go: "(if r2 \<noteq> 0 \<and> r2 \<noteq> - ENOENT then Some (False, s2) else
          (let (r, s) = iCreate_File E (Some dir) (Some (bd_pcaFileName d)) s2
           in if r < 0 then Some (False, s) else begin_transfer E d full s)) = Some (b, s')"
      by (auto simp: bStart_BulkDataTransfer_def Let_def [of "vSet_BulkkTransferData_ToDefault s1"] Let_def [of "on_ctrl _ _"] bind_eq_Some_conv)
    have rest3: "at_rest s2" by (rule at_rest_files [OF rest2 delete_result [OF del]])
    obtain r3 s3 where cr: "iCreate_File E (Some dir) (Some (bd_pcaFileName d)) s2 = (r3, s3)" by fastforce
    have rest4: "at_rest s3" by (rule at_rest_files [OF rest3]) (use create_files_moved [OF cr] create_catalog_ok [OF cr] in blast)
    consider "s' = s2" | "s' = s3" | "begin_transfer E d full s3 = Some (b, s')"
      using go cr by (auto split: if_splits)
    then show ?thesis using rest3 rest4 at_rest_ok begin_ok by cases blast+
  qed
qed

lemma frame_ok_keeps:
  assumes "iSend_BulkTransferData E msg s = (r, s')" and "lfs_ok s"
  shows "lfs_ok s'"
proof (cases "r = 0")
  case False
  from refused_frame [OF assms(1) this] show ?thesis
  proof
    assume "\<exists>lr. io (lfs_mutex_lock E kMutex_BulkTransfer) s = (lr, s')"
    then obtain lr where "io (lfs_mutex_lock E kMutex_BulkTransfer) s = (lr, s')" by blast
    from world_keeps(2) [OF io_moved [OF this] assms(2)] show ?thesis .
  qed (use assms(2) in simp)
next
  case True
  obtain lr s1 where l: "io (lfs_mutex_lock E kMutex_BulkTransfer) s = (lr, s1)" by fastforce
  have ok1: "lfs_ok s1" by (rule world_keeps(2) [OF io_moved [OF l] assms(2)])
  obtain m where m: "msg = Some m" using assms(1) True by (auto simp: iSend_BulkTransferData_def errno_defs split: option.splits)
  have "s' = on_ctrl (\<lambda>c. c\<lparr>bc_uiAcceptedSize := bc_uiAcceptedSize c + ucast (md_uiDataLen m),
            bc_uiNextFrameId := bc_uiNextFrameId c + 1\<rparr>)
          (s1\<lparr>stMsgQueue_FileTransfer := stMsgQueue_FileTransfer s1 @ [eBulkQueueMessage_Data m]\<rparr>)"
    using assms(1) True m l by (auto simp: iSend_BulkTransferData_def msgq_put_def errno_defs Let_def split: if_splits)
  with ok1 show ?thesis by (simp add: lfs_ok_def lfs_good_def eGetTransferState_def)
qed

text \<open>A turn of the worker goes on, or stops the worker, possibly with a failure.\<close>

lemma turn_result:
  assumes "s' = vLittleFs_FileTransferMonitor E s"
  shows "stTFileCatalog s' = stTFileCatalog s \<and> bc_bFileOpen (stTBulkDataCtrl s') = bc_bFileOpen (stTBulkDataCtrl s)
    \<and> (\<not> bulk_worker_runs s' \<and> (eGetTransferState s' = eGetTransferState s \<or> eGetTransferState s' = eFileTransfer_Failed)
      \<or> bulk_worker_runs s' = bulk_worker_runs s \<and> eGetTransferState s' = eGetTransferState s
        \<and> bc_bMsg_ThreadInitialized (stTBulkDataCtrl s') = bc_bMsg_ThreadInitialized (stTBulkDataCtrl s))"
proof (cases "bulk_worker_runs s \<and> stMsgQueue_FileTransfer s \<noteq> []")
  case False
  with assms show ?thesis
    by (auto simp: vLittleFs_FileTransferMonitor_def worker_fails_def vSignal_BulkWorkerDone_def eGetTransferState_def)
next
  case True
  then obtain x q where q: "stMsgQueue_FileTransfer s = x # q" by (cases "stMsgQueue_FileTransfer s") auto
  show ?thesis
  proof (cases x)
    case eBulkQueueMessage_End
    with assms True q show ?thesis by (simp add: vLittleFs_FileTransferMonitor_def vSignal_BulkWorkerDone_def eGetTransferState_def)
  next
    case (eBulkQueueMessage_Data m)
    let ?t = "s\<lparr>stMsgQueue_FileTransfer := q\<rparr>"
    obtain now t where clk: "io (lfs_uptime_32 E) ?t = (now, t)" by fastforce
    let ?u = "on_ctrl (bc_uiLastActivityTime_ms_update (\<lambda>_. now)) t"
    obtain r v where w: "iBulkWrite_ToFile E m ?u = (r, v)" by fastforce
    have "world_moved ?u v"
      using w by (auto simp: iBulkWrite_ToFile_def split: if_splits prod.splits dest!: io_moved)
    note m = world_movedD [OF io_moved [OF clk]] world_movedD [OF this]
    from assms True q eBulkQueueMessage_Data clk w m show ?thesis
      by (auto simp: vLittleFs_FileTransferMonitor_def worker_fails_def vSignal_BulkWorkerDone_def eGetTransferState_def Let_def)
  qed
qed

lemma turn_ok: "lfs_ok s \<Longrightarrow> lfs_ok (vLittleFs_FileTransferMonitor E s)"
  using turn_result [OF refl, of E s] by (auto simp: lfs_ok_def lfs_good_def)

lemma turns_good: "lfs_good s \<Longrightarrow> lfs_good ((vLittleFs_FileTransferMonitor E ^^ n) s)"
proof (induction n)
  case (Suc n)
  with turn_result [OF refl, of E "(vLittleFs_FileTransferMonitor E ^^ n) s"] show ?case by (auto simp: lfs_good_def)
qed simp

lemma good_simps [simp]:
  "lfs_good (set_transfer_state st s) = lfs_good s"
  "lfs_good (vSet_Transfer_ErrorState e s) = lfs_good s"
  "lfs_good (on_ctrl (bc_bFileOpen_update f) s) = lfs_good s"
  "lfs_good (s\<lparr>kSem_BulkWorkerDone := k\<rparr>) = lfs_good s"
  "lfs_good (s\<lparr>stMsgQueue_FileTransfer := q\<rparr>) = lfs_good s"
  "lfs_good (s\<lparr>bulk_work_submitted := b\<rparr>) = lfs_good s"
  "lfs_good (s\<lparr>stTBulkDataCtrl := stTBulkDataCtrl s\<lparr>bc_eError := e, bc_eTransferState := st\<rparr>\<rparr>) = lfs_good s"
  by (simp_all add: lfs_good_def)

lemma close_good: "lfs_good s \<Longrightarrow> close_transfer_file E s = (r, s') \<Longrightarrow> lfs_good s'"
  using io_good by (auto simp: close_transfer_file_def split: prod.splits)

lemma close_if_open_good: "lfs_good s \<Longrightarrow> lfs_good (close_if_open E P s)"
  using close_good [of s E] by (auto simp: close_if_open_def split: prod.splits)

lemma delete_partial_good: "delete_partial_file E s = Some s' \<Longrightarrow> lfs_good s \<Longrightarrow> lfs_good s'"
proof -
  assume "delete_partial_file E s = Some s'" and g: "lfs_good s"
  then obtain r u where d: "iDelete_FileInternal E (bc_pcaTotalFilePath (stTBulkDataCtrl s)) s = Some (r, u)"
    and s': "s' = (if r < 0 \<and> r \<noteq> - ENOENT then vSet_Transfer_ErrorState eErrorState_FileDelete u else u)"
    by (auto simp: delete_partial_file_def bind_eq_Some_conv)
  from files_keep(1) [OF delete_internal_result [OF d] g] s' show "lfs_good s'" by simp
qed

lemma failure_good:
  assumes "indicate_failure E s = Some s'" and "lfs_good s"
  shows "lfs_good s'"
proof -
  have "lfs_good (stop_worker s)" using assms(2) by (auto simp: stop_worker_def lfs_good_def)
  with close_if_open_good delete_partial_good assms(1) show ?thesis unfolding indicate_failure_def by blast
qed

lemma cleanup_ok:
  assumes "vDataTransfer_TimeOutHandler E s = Some s'" and "lfs_ok s"
  shows "lfs_ok s'"
proof (cases "\<not> bIs_MsgQueueInError s \<or> \<not> bIsBulkTransferActive s")
  case True
  with assms have "s' = s\<lparr>bulk_work_submitted := False\<rparr>"
    by (auto simp: vDataTransfer_TimeOutHandler_def bIs_MsgQueueInError_def bIsBulkTransferActive_def eGetTransferState_def)
  with assms(2) show ?thesis by (simp add: lfs_ok_def eGetTransferState_def)
next
  case False
  let ?s = "close_if_open E (\<lambda>_. True) (set_transfer_state eFileTransfer_Failed (s\<lparr>bulk_work_submitted := False\<rparr>))"
  obtain t where t: "delete_partial_file E ?s = Some t" "s' = vSet_BulkkTransferData_ToDefault t"
    using assms(1) False by (auto simp: vDataTransfer_TimeOutHandler_def bIs_MsgQueueInError_def bIsBulkTransferActive_def
        eGetTransferState_def)
  have "lfs_good ?s" using assms(2) by (intro close_if_open_good) (simp add: lfs_ok_def lfs_good_def)
  with delete_partial_good [OF t(1)] t(2) show ?thesis using reset_at_rest at_rest_ok by blast
qed

lemma judge_good:
  assumes "judge_transfer E s = Some s'" and "lfs_good s"
  shows "lfs_good s'"
proof -
  have fail: "lfs_good s'" if "indicate_failure E (set_transfer_state st t) = Some s'" "lfs_good t" for st t
    using failure_good [OF that(1)] that(2) by simp
  have ok: "lfs_good s'" if "indicate_success E t = Some s'" and g: "lfs_good t" for t
  proof -
    obtain r u where sy: "io (fs_sync E (bc_stTFileData (stTBulkDataCtrl t))) t = (r, u)" by fastforce
    have gu: "lfs_good u" by (rule io_good [OF sy g])
    obtain cr v where cl: "close_transfer_file E u = (cr, v)" by fastforce
    have gv: "lfs_good v" by (rule close_good [OF gu cl])
    show ?thesis
    proof (cases "r < 0 \<or> cr < 0")
      case True
      show ?thesis
      proof (cases "r < 0")
        case True
        with that(1) sy have "indicate_failure E (set_transfer_state eFileTransfer_Failed (vSet_Transfer_ErrorState eErrorState_FileSync u)) = Some s'"
          by (simp add: indicate_success_def)
        then show ?thesis by (rule fail) (use gu in simp)
      next
        case False
        with that(1) sy cl True gv show ?thesis by (auto simp: indicate_success_def lfs_good_def)
      qed
    next
      case False
      with that(1) sy cl obtain rr w where re: "refresh_catalog E v = Some (rr, w)"
        and s': "s' = (if rr < 0 then set_transfer_state eFileTransfer_Failed (vSet_Transfer_ErrorState eErrorState_RefreshFileCatalog w) else w)"
        by (auto simp: indicate_success_def bind_eq_Some_conv)
      from refresh_keeps(1) [OF re gv] s' show ?thesis by simp
    qed
  qed
  consider t st where "indicate_failure E (set_transfer_state st t) = Some s'" "lfs_good t"
    | t where "indicate_success E t = Some s'" "lfs_good t"
  proof -
    have "(\<exists>t st. indicate_failure E (set_transfer_state st t) = Some s' \<and> lfs_good t) \<or> (\<exists>t. indicate_success E t = Some s' \<and> lfs_good t)"
      using assms unfolding judge_transfer_def Let_def by (metis good_simps(1,2))
    with that show thesis by blast
  qed
  then show ?thesis using fail ok by cases blast+
qed

lemma end_ok:
  assumes "vEnd_BulkDataTransfer E m n s = Some (res, s')" and "lfs_ok s"
  shows "lfs_ok s'"
proof -
  obtain lr s1 where l: "io (lfs_mutex_lock E kMutex_BulkTransfer) s = (lr, s1)" by fastforce
  have ok1: "lfs_ok s1" by (rule world_keeps(2) [OF io_moved [OF l] assms(2)])
  show ?thesis
  proof (cases "lr \<noteq> 0 \<or> eGetTransferState s1 \<noteq> eFileTransfer_Receiving")
    case True
    with assms(1) l ok1 show ?thesis by (simp add: vEnd_BulkDataTransfer_def)
  next
    case False
    let ?t = "set_transfer_state eFileTransfer_Finalizing s1"
    obtain u where u: "u = (if length (stMsgQueue_FileTransfer ?t) < MAX_MSGQ_DEPTH then ?t else (vLittleFs_FileTransferMonitor E ^^ m) ?t)" by blast
    obtain r v where put: "msgq_put eBulkQueueMessage_End u = (r, v)" by fastforce
    from assms(1) l False u put obtain w where w: "await_worker E n r v = Some w" and s': "(res, s') = transfer_result w"
      by (auto simp: vEnd_BulkDataTransfer_def Let_def)
    have gt: "lfs_good ?t" using ok1 by (simp add: lfs_ok_def)
    then have "lfs_good u" unfolding u using turns_good [OF gt] by (simp only: split: if_split) blast
    then have gv: "lfs_good v" using put by (auto simp: msgq_put_def split: if_splits)
    have "lfs_good w"
    proof (cases "r = 0")
      case False
      with w have "indicate_failure E (set_transfer_state eFileTransfer_Failed (vSet_Transfer_ErrorState eErrorState_QueueError v)) = Some w"
        by (simp add: await_worker_def)
      then show ?thesis by (rule failure_good) (use gv in simp)
    next
      case True
      let ?x = "(vLittleFs_FileTransferMonitor E ^^ n) v"
      have "lfs_good ?x" by (rule turns_good [OF gv])
      then have g: "lfs_good (set_transfer_state eFileTransfer_Failed (vSet_Transfer_ErrorState eErrorState_TimeOut ?x))"
        "lfs_good (?x\<lparr>kSem_BulkWorkerDone := kSem_BulkWorkerDone ?x - 1\<rparr>)" by simp_all
      with w True failure_good judge_good show ?thesis
        unfolding await_worker_def Let_def by (metis (no_types, lifting))
    qed
    from at_rest_ok [OF reset_at_rest [OF this]] s' show ?thesis by (simp add: transfer_result_def)
  qed
qed

subsection \<open>Every history\<close>

lemma reach_ok: "lfs_reach E s \<Longrightarrow> lfs_ok s"
proof (induction rule: lfs_reach.induct)
  case (reach_power_up s)
  then show ?case by (simp add: power_up_def lfs_ok_def lfs_good_def catalog_ok_def)
next
  case (reach_init s b s')
  obtain ok t where mt: "bMount_LittleFs E s = (ok, t)" by fastforce
  then obtain r where "io (fs_mount E) s = (r, t)" by (auto simp: bMount_LittleFs_def split: prod.splits)
  then have t: "lfs_ok t" by (rule world_keeps(2) [OF io_moved]) (rule reach_init(3))
  show ?case
  proof (cases ok)
    case True
    with reach_init(2) mt obtain r where "refresh_catalog E t = Some (r, s')"
      by (auto simp: bInit_ExtFlash_FsController_def bind_eq_Some_conv split: if_splits)
    from refresh_keeps(2) [OF this t] show ?thesis .
  qed (use reach_init(2) mt t in \<open>simp add: bInit_ExtFlash_FsController_def\<close>)
next
  case (reach_create s p n r s')
  then show ?case using files_keep(2) create_files_moved create_catalog_ok by blast
next
  case (reach_delete s p r s')
  then show ?case using files_keep(2) delete_result by blast
next
  case (reach_remove s p b s')
  then show ?case using files_keep(2) delete_directory_moved by blast
next
  case (reach_read s p g k x s')
  then show ?case using world_keeps(2) read_moved by blast
next
  case (reach_write s p d k mx r s')
  then show ?case using files_keep(2) write_result by blast
next
  case (reach_start s bd b s')
  then show ?case using start_ok by blast
next
  case (reach_frame s m r s')
  then show ?case using frame_ok_keeps by blast
next
  case (reach_worker s)
  then show ?case using turn_ok by blast
next
  case (reach_cleanup s s')
  then show ?case using cleanup_ok by blast
next
  case (reach_end s j k res s')
  then show ?case using end_ok by blast
qed

end
