(* ===== verification/Lfs_Ram.thy ===== *)
theory Lfs_Ram
  imports Lfs_Store
begin

text \<open>
  A file system in memory, to run the controller on: files with contents, directories, open files with
  positions, open directories with the entries still to be read. A write takes at most 32 bytes at a
  time. It satisfies the contract \<open>fs_files\<close>.
\<close>

record ram =
  ram_files :: "string \<Rightarrow> u8 list option"
  ram_paths :: "string list"
  ram_dirs :: "string list"
  ram_open :: "nat \<Rightarrow> (string \<times> nat) option"
  ram_next :: nat
  ram_lists :: "nat \<Rightarrow> fs_dirent list"
  ram_dnext :: nat

definition ram_opened :: "nat \<Rightarrow> ram \<Rightarrow> (string \<times> nat) option" where
  "ram_opened h w = (if h < ram_next w then ram_open w h else None)"

definition ram_content :: "string \<Rightarrow> ram \<Rightarrow> u8 list option" where
  "ram_content p w = ram_files w p"

text \<open>The name of a direct child of a directory.\<close>

definition ram_child :: "string \<Rightarrow> string \<Rightarrow> string option" where
  "ram_child d p = (let pre = d @ ''/''; n = drop (length pre) p in
     if take (length pre) p = pre \<and> n \<noteq> [] \<and> CHR ''/'' \<notin> set n then Some n else None)"

definition ram_entries :: "string \<Rightarrow> ram \<Rightarrow> fs_dirent list" where
  "ram_entries d w =
     concat (map (\<lambda>p. case ram_child d p of None \<Rightarrow> [] | Some n \<Rightarrow> [\<lparr>de_type = FS_DIR_ENTRY_DIR, de_name = n, de_size = 0\<rparr>]) (ram_dirs w))
     @ concat (map (\<lambda>p. case (ram_child d p, ram_files w p) of
                          (Some n, Some c) \<Rightarrow> [\<lparr>de_type = FS_DIR_ENTRY_FILE, de_name = n, de_size = length c\<rparr>]
                        | _ \<Rightarrow> []) (ram_paths w))"

definition ram_stat :: "string \<Rightarrow> ram \<Rightarrow> (int \<times> fs_dirent) \<times> ram" where
  "ram_stat p w =
     (if strip_slashes p \<in> set (ram_dirs w) then ((0, zero_dirent\<lparr>de_type := FS_DIR_ENTRY_DIR\<rparr>), w)
      else case ram_files w p of
             None \<Rightarrow> ((- ENOENT, zero_dirent), w)
           | Some c \<Rightarrow> ((0, zero_dirent\<lparr>de_size := length c\<rparr>), w))"

definition ram_open_file :: "string \<Rightarrow> fs_mode \<Rightarrow> ram \<Rightarrow> (int \<times> nat) \<times> ram" where
  "ram_open_file p m w =
     (let h = ram_next w; w' = w\<lparr>ram_next := h + 1, ram_open := (ram_open w)(h := Some (p, 0))\<rparr> in
      case (ram_files w p, m) of
        (None, FS_O_CREATE_WRITE) \<Rightarrow> ((0, h), w'\<lparr>ram_files := (ram_files w)(p := Some []), ram_paths := ram_paths w @ [p]\<rparr>)
      | (None, _) \<Rightarrow> ((- ENOENT, h), w)
      | (Some c, FS_O_WRITE_TRUNC) \<Rightarrow> ((0, h), w'\<lparr>ram_files := (ram_files w)(p := Some [])\<rparr>)
      | (Some c, _) \<Rightarrow> ((0, h), w'))"

definition ram_read :: "nat \<Rightarrow> nat \<Rightarrow> ram \<Rightarrow> (int \<times> u8 list) \<times> ram" where
  "ram_read h n w =
     (case ram_opened h w of
        None \<Rightarrow> ((- EBADF, []), w)
      | Some (p, k) \<Rightarrow>
          (case ram_files w p of
             None \<Rightarrow> ((- EIO, []), w)
           | Some c \<Rightarrow>
               (let bs = take n (drop k c)
                in ((int (length bs), bs), w\<lparr>ram_open := (ram_open w)(h := Some (p, k + length bs))\<rparr>))))"

definition ram_write :: "nat \<Rightarrow> u8 list \<Rightarrow> ram \<Rightarrow> int \<times> ram" where
  "ram_write h bs w =
     (case ram_opened h w of
        None \<Rightarrow> (- EBADF, w)
      | Some (p, k) \<Rightarrow>
          (case ram_files w p of
             None \<Rightarrow> (- EIO, w)
           | Some c \<Rightarrow>
               (let b = take 32 bs in
                (int (length b), w\<lparr>ram_files := (ram_files w)(p := Some (take k c @ b @ drop (k + length b) c)),
                                  ram_open := (ram_open w)(h := Some (p, k + length b))\<rparr>))))"

definition ram_close :: "nat \<Rightarrow> ram \<Rightarrow> int \<times> ram" where
  "ram_close h w = (0, w\<lparr>ram_open := (ram_open w)(h := None)\<rparr>)"

definition ram_unlink :: "string \<Rightarrow> ram \<Rightarrow> int \<times> ram" where
  "ram_unlink p w =
     (if ram_files w p \<noteq> None then (0, w\<lparr>ram_files := (ram_files w)(p := None)\<rparr>)
      else if p \<in> set (ram_dirs w) then (0, w\<lparr>ram_dirs := removeAll p (ram_dirs w)\<rparr>)
      else (- ENOENT, w))"

definition ram_mkdir :: "string \<Rightarrow> ram \<Rightarrow> int \<times> ram" where
  "ram_mkdir p w = (0, w\<lparr>ram_dirs := ram_dirs w @ [strip_slashes p]\<rparr>)"

definition ram_opendir :: "string \<Rightarrow> ram \<Rightarrow> (int \<times> nat) \<times> ram" where
  "ram_opendir p w =
     (if strip_slashes p \<in> set (ram_dirs w)
      then ((0, ram_dnext w), w\<lparr>ram_lists := (ram_lists w)(ram_dnext w := ram_entries (strip_slashes p) w),
                                ram_dnext := ram_dnext w + 1\<rparr>)
      else ((- ENOENT, 0), w))"

definition ram_readdir :: "nat \<Rightarrow> ram \<Rightarrow> (int \<times> fs_dirent) \<times> ram" where
  "ram_readdir h w =
     (case ram_lists w h of
        [] \<Rightarrow> ((0, zero_dirent), w)
      | e # es \<Rightarrow> ((0, e), w\<lparr>ram_lists := (ram_lists w)(h := es)\<rparr>))"

definition ram_fs :: "ram fs_services" where
  "ram_fs = \<lparr>fs_mount = Pair 0, fs_stat = ram_stat, fs_open = ram_open_file, fs_read = ram_read, fs_write = ram_write,
     fs_sync = (\<lambda>h. Pair 0), fs_close = ram_close, fs_unlink = ram_unlink, fs_mkdir = ram_mkdir,
     fs_opendir = ram_opendir, fs_readdir = ram_readdir, fs_closedir = (\<lambda>h. Pair 0),
     lfs_mutex_lock = (\<lambda>m. Pair 0), lfs_uptime_32 = Pair 0\<rparr>"

lemmas ram_defs = ram_stat_def ram_open_file_def ram_read_def ram_write_def ram_close_def ram_unlink_def ram_mkdir_def
  ram_opendir_def ram_readdir_def ram_opened_def ram_content_def

lemma ram_fs_simps [simp]:
  "fs_mount ram_fs = Pair 0" "fs_stat ram_fs = ram_stat" "fs_open ram_fs = ram_open_file" "fs_read ram_fs = ram_read"
  "fs_write ram_fs = ram_write" "fs_sync ram_fs = (\<lambda>h. Pair 0)" "fs_close ram_fs = ram_close" "fs_unlink ram_fs = ram_unlink"
  "fs_mkdir ram_fs = ram_mkdir" "fs_opendir ram_fs = ram_opendir" "fs_readdir ram_fs = ram_readdir"
  "fs_closedir ram_fs = (\<lambda>h. Pair 0)" "lfs_mutex_lock ram_fs = (\<lambda>m. Pair 0)" "lfs_uptime_32 ram_fs = Pair 0"
  by (simp_all add: ram_fs_def)

interpretation ram: fs_files ram_fs ram_content ram_opened
  by unfold_locales
    (auto simp: ram_defs zero_dirent_def errno_defs Let_def min_def split: option.splits if_splits fs_mode.splits list.splits)

end
