(* ===== verification/Lfs_Properties.thy ===== *)
theory Lfs_Properties
  imports Lfs_Reach Lfs_Ram
begin

text \<open>
  The properties of the flash file system side, each with a run of the controller on the file system in memory.
\<close>

subsection \<open>Runs\<close>

declare read_entries.simps [code] scan_directories.simps [code] read_subdirectories.simps [code]
  collect_directories.simps [code] first_entry.simps [code] empty_directory.simps [code]

definition demo_ram :: ram where
  "demo_ram = \<lparr>ram_files = (\<lambda>_. None), ram_paths = [], ram_dirs = [''/lfs'', ''/lfs/Config''], ram_open = (\<lambda>_. None), ram_next = 0,
     ram_lists = (\<lambda>_. []), ram_dnext = 0\<rparr>"

definition zero_bulk :: sT_BulkDataControl_t where
  "zero_bulk = \<lparr>bc_eTransferState = eFileTransfer_Idle, bc_eFileType = eFile_Error, bc_pcaDirPath = '''', bc_pcaTotalFilePath = '''',
     bc_uiFileSize = 0, bc_uiReceivedSize = 0, bc_uiAcceptedSize = 0, bc_uiNextFrameId = 0, bc_uiRunningCRC = 0, bc_uiCRC = 0,
     bc_uiOffset = 0, bc_uiLastActivityTime_ms = 0, bc_bMsgQ_Initialized = False, bc_bMsg_ThreadInitialized = False,
     bc_eError = eErrorState_None, bc_bFileOpen = False, bc_stTFileData = 0\<rparr>"

definition lfs_start :: "'w \<Rightarrow> 'w lfs_sys" where
  "lfs_start w = \<lparr>stTBulkDataCtrl = zero_bulk, stTFileCatalog = [], stMsgQueue_FileTransfer = [], kSem_BulkWorkerDone = 0,
     bulk_worker_runs = False, bulk_work_submitted = False, lfs_world = w\<rparr>"

lemma power_up_start: "power_up (lfs_start w)"
  by (simp add: power_up_def lfs_start_def zero_bulk_def eGetTransferState_def)

definition demo_upload :: sT_BulkTransferData where
  "demo_upload = \<lparr>bd_eFileType = eFile_Config, bd_pcaFileName = ''a.bin'', bd_uiFileSize = 3,
     bd_uiCRC = u16CRC16_CCITT_Update 0xFFFF [1, 2, 3]\<rparr>"

definition demo_frame :: sT_MsgData_t where
  "demo_frame = \<lparr>md_uiFrameId = 0, md_uiMsg = [1, 2, 3] @ replicate 253 0, md_uiDataLen = 3,
     md_uiFrameCRC = u16CRC16_CCITT_Update 0xFFFF [1, 2, 3]\<rparr>"

text \<open>An upload of three bytes and its states: announced, accepted, ended.\<close>

lemma demo_runs:
  "(case bStart_BulkDataTransfer ram_fs demo_upload (lfs_start demo_ram) of
      Some (b, s) \<Rightarrow>
        (case iSend_BulkTransferData ram_fs (Some demo_frame) s of
           (r, t) \<Rightarrow>
             (case vEnd_BulkDataTransfer ram_fs 0 2 t of
                Some (res, u) \<Rightarrow> Some (b, r, bc_pcaTotalFilePath (stTBulkDataCtrl t), res)
              | None \<Rightarrow> None))
    | None \<Rightarrow> None)
   = Some (True, 0, ''/lfs/Config/a.bin'', \<lparr>tr_eTransferState = eFileTransfer_Success, tr_eErrorState = eErrorState_None\<rparr>)"
  by code_simp

definition demo_announced :: "ram lfs_sys" where
  "demo_announced = snd (the (bStart_BulkDataTransfer ram_fs demo_upload (lfs_start demo_ram)))"

definition demo_accepted :: "ram lfs_sys" where
  "demo_accepted = snd (iSend_BulkTransferData ram_fs (Some demo_frame) demo_announced)"

definition demo_ended :: "ram lfs_sys" where
  "demo_ended = snd (the (vEnd_BulkDataTransfer ram_fs 0 2 demo_accepted))"

lemma demo_start: "bStart_BulkDataTransfer ram_fs demo_upload (lfs_start demo_ram) = Some (True, demo_announced)"
  using demo_runs by (auto simp: demo_announced_def split: option.splits prod.splits)

lemma demo_send: "iSend_BulkTransferData ram_fs (Some demo_frame) demo_announced = (0, demo_accepted)"
  using demo_runs by (auto simp: demo_accepted_def demo_start split: option.splits prod.splits)

lemma demo_end: "vEnd_BulkDataTransfer ram_fs 0 2 demo_accepted
    = Some (\<lparr>tr_eTransferState = eFileTransfer_Success, tr_eErrorState = eErrorState_None\<rparr>, demo_ended)"
  using demo_runs by (auto simp: demo_ended_def demo_start demo_send split: option.splits prod.splits)

lemma demo_path: "bc_pcaTotalFilePath (stTBulkDataCtrl demo_accepted) = ''/lfs/Config/a.bin''"
  using demo_runs by (simp add: demo_start demo_send demo_end)

lemma demo_upload_run: "upload ram_fs demo_upload [1, 2, 3] demo_accepted"
proof -
  have "upload ram_fs demo_upload ([] @ frame_bytes demo_frame) demo_accepted"
    using upload_frame [OF upload_start [OF demo_start] _ demo_send] by (simp add: demo_frame_def)
  moreover have "frame_bytes demo_frame = [1, 2, 3]" by code_simp
  ultimately show ?thesis by simp
qed

lemma demo_reach: "lfs_reach ram_fs demo_ended"
  by (rule reach_end [OF reach_frame [OF reach_start [OF reach_power_up [OF power_up_start] demo_start] demo_send] demo_end])

definition demo_file :: "ram lfs_sys" where
  "demo_file = snd (iCreate_File ram_fs (Some ''/lfs/Config'') (Some ''v'') (lfs_start demo_ram))"

text \<open>The directory streams of the file system in memory end.\<close>

lemma ram_directories_end: "directories_end ram_fs (\<lambda>h w. length (ram_lists w h))"
  by (auto simp: directories_end_def ram_readdir_def zero_dirent_def split: list.splits)

lemma ram_files: "fs_files ram_fs ram_content ram_opened"
  by (rule ram.fs_files_axioms)

subsection \<open>Paths\<close>

text \<open>
  Property C19. A path the validator accepts is the join of directory and name, is at most 99 characters long, lies below
  the mount point, and has no component that is a dot or two dots: no request can leave the file system's root.
\<close>

theorem lfs_path_confined:
  assumes "bBuild_Validate_FullPathName path name (strnlen path MAX_FILE_PATH_LENGTH) (strnlen name MAX_FILE_NAME_LENGTH) = Some full"
  shows "full = join_path path name \<and> length full < 100 \<and> take 5 full = ''/lfs/''
    \<and> ''.'' \<notin> set (path_components full) \<and> ''..'' \<notin> set (path_components full)"
  using validated_path [OF assms] unfolding confined_path_def by blast

theorem lfs_path_confined_witness: "''..'' \<notin> set (path_components ''/lfs/Config/a..b'')"
proof -
  have "bBuild_Validate_FullPathName ''/lfs/Config'' ''a..b'' (strnlen ''/lfs/Config'' MAX_FILE_PATH_LENGTH)
      (strnlen ''a..b'' MAX_FILE_NAME_LENGTH) = Some ''/lfs/Config/a..b''" by code_simp
  from lfs_path_confined [OF this] show ?thesis by blast
qed

text \<open>The walk of a deletion under the contract of the file system.\<close>

sublocale fs_files \<subseteq> below: tree_walk E "\<lambda>p. p = d \<or> path_below d p" "path_below d"
    "\<lambda>s s'. \<forall>q. \<not> path_below d q \<longrightarrow> content q (lfs_world s') = content q (lfs_world s)" for d
proof unfold_locales
  fix p s r s'
  assume p: "path_below d p" and u: "io (fs_unlink E p) s = (r, s')"
  show "\<forall>q. \<not> path_below d q \<longrightarrow> content q (lfs_world s') = content q (lfs_world s)"
  proof (intro allI impI)
    fix q
    assume "\<not> path_below d q"
    with p have "q \<noteq> p" by blast
    with unlink_other [OF io_world [OF u]] show "content q (lfs_world s') = content q (lfs_world s)" by blast
  qed
next
  fix p s x s'
  assume o: "io (fs_opendir E p) s = (x, s')"
  obtain r h where "x = (r, h)" by fastforce
  with o io_keeps(12) show "\<forall>q. \<not> path_below d q \<longrightarrow> content q (lfs_world s') = content q (lfs_world s)" by blast
next
  fix h s y s'
  assume o: "io (fs_readdir E h) s = (y, s')"
  obtain r e where "y = (r, e)" by fastforce
  with o io_keeps(14) show "\<forall>q. \<not> path_below d q \<longrightarrow> content q (lfs_world s') = content q (lfs_world s)" by blast
next
  fix h s r s'
  assume "io (fs_closedir E h) s = (r, s')"
  then show "\<forall>q. \<not> path_below d q \<longrightarrow> content q (lfs_world s') = content q (lfs_world s)" using io_keeps(16) by blast
qed (auto simp: path_below_join)

context fs_files
begin

lemma delete_directory_content:
  assumes "bDelete_Directory E (Some p) s = Some (b, s')" and q: "\<not> path_below (strip_slashes p) q" "q \<noteq> strip_slashes p"
  shows "content q (lfs_world s') = content q (lfs_world s)"
  using assms(1)
proof (cases rule: delete_directory_steps)
  case 1
  then show ?thesis by simp
next
  case 2
  then show ?thesis by (rule io_keeps(1))
next
  case 3
  then show ?thesis using io_keeps(1) [OF 3(1)] io_keeps(5) [OF 3(2)] by simp
next
  case (4 rl s1 r e s2 r3 s3 r4 s4 r5)
  have "content q (lfs_world s2) = content q (lfs_world s)" using io_keeps(1) [OF 4(2)] io_keeps(5) [OF 4(3)] by simp
  moreover have "content q (lfs_world s3) = content q (lfs_world s2)" using below.delete_all_walk [OF 4(4)] q by blast
  moreover have "content q (lfs_world s4) = content q (lfs_world s3)"
    using 4(5)
  proof
    assume "io (fs_unlink E (strip_slashes p)) s3 = (r4, s4)"
    from unlink_other [OF io_world [OF this]] q(2) show ?thesis by blast
  qed simp
  ultimately show ?thesis using refresh_content [OF 4(6)] by simp
qed

end



subsection \<open>The catalogue and the controller\<close>

text \<open>
  Property C21. In every history of the controller the catalogue has at most 32 entries, each with a name of 1 to 29
  characters of which its path is the end, and a path of at most 99 characters below the mount point; the worker
  runs only while a transfer is being received, and an idle controller has no transfer file open.
\<close>

theorem lfs_history_sound:
  assumes "lfs_reach E s"
  shows "catalog_ok (stTFileCatalog s) \<and> (bulk_worker_runs s \<longrightarrow> eGetTransferState s = eFileTransfer_Receiving)
    \<and> (eGetTransferState s = eFileTransfer_Idle \<longrightarrow> \<not> bc_bFileOpen (stTBulkDataCtrl s))"
  using reach_ok [OF assms] by (simp add: lfs_ok_def lfs_good_def)

theorem lfs_history_sound_witness: "catalog_ok (stTFileCatalog demo_ended)"
  using lfs_history_sound [OF demo_reach] by blast

text \<open>
  Property C22. On a file system whose directory streams end, the refresh of the catalogue returns from every state,
  and when it fails the old catalogue is kept.
\<close>

theorem lfs_refresh_total:
  assumes "directories_end E rest"
  shows "\<exists>r s'. refresh_catalog E s = Some (r, s') \<and> (r = 0 \<or> r < 0 \<and> stTFileCatalog s' = stTFileCatalog s)"
proof -
  obtain r s' where run: "refresh_catalog E s = Some (r, s')" using refresh_returns [OF assms] by blast
  have "r = 0 \<or> r < 0 \<and> stTFileCatalog s' = stTFileCatalog s" using refresh_result [OF run] world_movedD(1) [of s s'] by force
  with run show ?thesis by blast
qed

theorem lfs_refresh_total_witness: "refresh_catalog ram_fs (lfs_start demo_ram) \<noteq> None"
  using lfs_refresh_total [OF ram_directories_end, of "lfs_start demo_ram"] by auto

subsection \<open>Files\<close>

text \<open>
  Property C18. On a file system that keeps its contract, a write that reports success followed by a read that reports
  success of the same path gives back exactly the bytes written, and no other file has changed.
\<close>

theorem lfs_write_read:
  assumes "fs_files E content opened"
    and "iWrite_ToFileBin E (Some p) (Some d) (length d) mx s = (0, s')"
    and "iRead_FromFileBin E (Some p) True n s' = ((0, bs), s'')"
  shows "bs = d \<and> n = length d \<and> (\<forall>q. q \<noteq> p \<longrightarrow> content q (lfs_world s'') = content q (lfs_world s))"
  using fs_files.iWrite_effect [OF assms(1,2)] fs_files.iRead_effect [OF assms(1,3)] by auto

theorem lfs_write_read_witness:
  "\<exists>s' s''. iWrite_ToFileBin ram_fs (Some ''/lfs/Config/v'') (Some (replicate 40 7)) 40 33 demo_file = (0, s')
     \<and> iRead_FromFileBin ram_fs (Some ''/lfs/Config/v'') True 40 s' = ((0, replicate 40 7), s'')"
proof -
  have runs: "(case iWrite_ToFileBin ram_fs (Some ''/lfs/Config/v'') (Some (replicate 40 7)) 40 33 demo_file of
      (r, s) \<Rightarrow> (r, fst (fst (iRead_FromFileBin ram_fs (Some ''/lfs/Config/v'') True 40 s)))) = (0, 0)"
    by code_simp
  obtain s' where w: "iWrite_ToFileBin ram_fs (Some ''/lfs/Config/v'') (Some (replicate 40 7)) 40 33 demo_file = (0, s')"
    using runs by (auto split: prod.splits)
  obtain bs s'' where r: "iRead_FromFileBin ram_fs (Some ''/lfs/Config/v'') True 40 s' = ((0, bs), s'')"
    using runs w by (cases "iRead_FromFileBin ram_fs (Some ''/lfs/Config/v'') True 40 s'") auto
  from lfs_write_read [OF ram_files, of "''/lfs/Config/v''" "replicate 40 7"] w r have "bs = replicate 40 7" by simp
  with w r show ?thesis by blast
qed

text \<open>
  Property C17. A bulk transfer that ends with success has stored, under the path of the announcement, exactly the bytes of
  the accepted frames in order; they are as many as announced and have the announced CRC. This
  holds whatever the worker has done in between, and whichever other file operations were attempted.
\<close>

theorem lfs_upload_stored:
  assumes "fs_files E content opened" and "upload E d bs s"
    and "vEnd_BulkDataTransfer E m n s = Some (res, s')" and "tr_eTransferState res = eFileTransfer_Success"
  shows "content (bc_pcaTotalFilePath (stTBulkDataCtrl s)) (lfs_world s') = Some bs
    \<and> length bs = unat (bd_uiFileSize d) \<and> u16CRC16_CCITT_Update 0xFFFF bs = bd_uiCRC d"
  by (rule fs_files.end_success [OF assms(1) fs_files.upload_keeps [OF assms(1,2)] assms(3,4)])

theorem lfs_upload_stored_witness: "ram_content ''/lfs/Config/a.bin'' (lfs_world demo_ended) = Some [1, 2, 3]"
  using lfs_upload_stored [OF ram_files demo_upload_run demo_end] by (simp add: demo_path)

text \<open>
  Property C23. A frame that is accepted carries the next expected number and valid data, and a frame with the number of an
  accepted one is refused right afterwards, with nothing queued and nothing counted: no frame is written twice.
\<close>

theorem lfs_frame_once:
  assumes "iSend_BulkTransferData E (Some m) s = (0, s1)" and "iSend_BulkTransferData E (Some m2) s1 = (r, s2)"
    and "md_uiFrameId m2 = md_uiFrameId m"
  shows "md_uiFrameId m = bc_uiNextFrameId (stTBulkDataCtrl s) \<and> u16CRC16_CCITT_Update 0xFFFF (frame_bytes m) = md_uiFrameCRC m
    \<and> r \<noteq> 0 \<and> stMsgQueue_FileTransfer s2 = stMsgQueue_FileTransfer s1 \<and> stTBulkDataCtrl s2 = stTBulkDataCtrl s1"
proof -
  obtain lr t where l: "io (lfs_mutex_lock E kMutex_BulkTransfer) s = (lr, t)" by fastforce
  note same = world_movedD [OF io_moved [OF l]]
  have s1: "s1 = on_ctrl (\<lambda>c. c\<lparr>bc_uiAcceptedSize := bc_uiAcceptedSize c + ucast (md_uiDataLen m),
            bc_uiNextFrameId := bc_uiNextFrameId c + 1\<rparr>)
          (t\<lparr>stMsgQueue_FileTransfer := stMsgQueue_FileTransfer t @ [eBulkQueueMessage_Data m]\<rparr>)"
    and ok: "md_uiFrameId m = bc_uiNextFrameId (stTBulkDataCtrl t)" "u16CRC16_CCITT_Update 0xFFFF (frame_bytes m) = md_uiFrameCRC m"
    using assms(1) l by (auto simp: iSend_BulkTransferData_def msgq_put_def errno_defs Let_def split: if_splits)
  have r: "r \<noteq> 0"
  proof
    assume "r = 0"
    with assms(2) have "md_uiFrameId m2 = bc_uiNextFrameId (stTBulkDataCtrl s1)"
      by (auto simp: iSend_BulkTransferData_def errno_defs Let_def split: if_splits prod.splits dest!: io_moved world_movedD(2))
    with s1 ok(1) assms(3) show False by simp
  qed
  from refused_frame [OF assms(2) r] have "world_moved s1 s2" using io_moved by fastforce
  from world_movedD [OF this] r ok same show ?thesis by simp
qed

theorem lfs_frame_once_witness: "fst (iSend_BulkTransferData ram_fs (Some demo_frame) demo_accepted) \<noteq> 0"
proof -
  obtain r t where two: "iSend_BulkTransferData ram_fs (Some demo_frame) demo_accepted = (r, t)" by fastforce
  from lfs_frame_once [OF demo_send two refl] two show ?thesis by simp
qed

end
