(* ===== verification/Audio_Codec.thy ===== *)
theory Audio_Codec
  imports Lfs_Files
begin

text \<open>
  The configuration of an audio source and its 48 byte file record: types of LVGL_Display_Types.h, encoder and decoder
  of AudioSrcConfiguration.c. The CRC-32 is Zephyr's and a parameter.
\<close>

subsection \<open>Types\<close>

text \<open>Source ids are integers because the code compares out-of-range values with the number of sources.\<close>

type_synonym eAudioSrc_Id_t = nat

definition eNUMBER_OF_AUDIO_SOURCES :: nat where [wall_simps]: "eNUMBER_OF_AUDIO_SOURCES = 4"

datatype eAudioSrc_Type_t = eAudioSrc_Type_None | eAudioSrc_Type_Wired | eAudioSrc_Type_Bluetooth

datatype eBLEState_t =
    eBleState_None
  | eBleState_Pairing
  | eBleState_Disconnecting
  | eBleState_Disconnect
  | eBleState_Connected
  | eNUMBER_OF_BLE_STATEs

text \<open>The name is the array of 24 characters.\<close>

record sT_AudioSourceConfig_t =
  ac_eSrcId :: eAudioSrc_Id_t
  ac_eSrcType :: eAudioSrc_Type_t
  ac_caSrcName :: "u8 list"
  ac_bIsActive :: bool
  ac_bIsMute :: bool
  ac_bIsSelected :: bool
  ac_eBleState :: eBLEState_t
  ac_uiVolume :: u16

definition AUDIO_SOURCE_CONFIG_NAME_SIZE :: nat where [wall_simps]: "AUDIO_SOURCE_CONFIG_NAME_SIZE = 24"
definition AUDIO_SOURCE_CONFIG_RECORD_SIZE :: nat where [wall_simps]: "AUDIO_SOURCE_CONFIG_RECORD_SIZE = 48"
definition AUDIO_SOURCE_CONFIG_HEADER_SIZE :: nat where [wall_simps]: "AUDIO_SOURCE_CONFIG_HEADER_SIZE = 24"
definition AUDIO_SOURCE_CONFIG_CRC_OFFSET :: nat where [wall_simps]: "AUDIO_SOURCE_CONFIG_CRC_OFFSET = 16"
definition AUDIO_SOURCE_CONFIG_VERSION :: nat where [wall_simps]: "AUDIO_SOURCE_CONFIG_VERSION = 2"
definition SELECTED_AUDIO_SRC_MAX_VOLUME :: nat where [wall_simps]: "SELECTED_AUDIO_SRC_MAX_VOLUME = 100"

text \<open>The characters S, R, C and F.\<close>

definition AUDIO_SOURCE_CONFIG_MAGIC :: "u8 list" where "AUDIO_SOURCE_CONFIG_MAGIC = [83, 82, 67, 70]"

definition AUDIO_SOURCE_CONFIG_FLAG_ACTIVE :: u8 where [wall_simps]: "AUDIO_SOURCE_CONFIG_FLAG_ACTIVE = 1"
definition AUDIO_SOURCE_CONFIG_FLAG_MUTED :: u8 where [wall_simps]: "AUDIO_SOURCE_CONFIG_FLAG_MUTED = 2"
definition AUDIO_SOURCE_CONFIG_FLAG_SELECTED :: u8 where [wall_simps]: "AUDIO_SOURCE_CONFIG_FLAG_SELECTED = 4"

definition AUDIO_SOURCE_CONFIG_KNOWN_FLAGS :: u8 where
  [wall_simps]: "AUDIO_SOURCE_CONFIG_KNOWN_FLAGS =
     AUDIO_SOURCE_CONFIG_FLAG_ACTIVE OR AUDIO_SOURCE_CONFIG_FLAG_MUTED OR AUDIO_SOURCE_CONFIG_FLAG_SELECTED"

fun src_type_code :: "eAudioSrc_Type_t \<Rightarrow> u8" where
  "src_type_code eAudioSrc_Type_None = 0"
| "src_type_code eAudioSrc_Type_Wired = 1"
| "src_type_code eAudioSrc_Type_Bluetooth = 2"

definition src_type_of :: "u8 \<Rightarrow> eAudioSrc_Type_t" where
  "src_type_of t = (if t = 1 then eAudioSrc_Type_Wired else if t = 2 then eAudioSrc_Type_Bluetooth else eAudioSrc_Type_None)"

subsection \<open>Little-endian fields\<close>

definition sys_put_le16 :: "u16 \<Rightarrow> u8 list" where
  "sys_put_le16 w = [lo8 w, hi8 w]"

definition sys_get_le16 :: "u8 list \<Rightarrow> u16" where
  "sys_get_le16 b = be16 (b ! 1) (b ! 0)"

definition sys_put_le32 :: "u32 \<Rightarrow> u8 list" where
  "sys_put_le32 w = sys_put_le16 (ucast w) @ sys_put_le16 (ucast (drop_bit 16 w))"

definition sys_get_le32 :: "u8 list \<Rightarrow> u32" where
  "sys_get_le32 b = push_bit 16 (ucast (sys_get_le16 (drop 2 b))) OR ucast (sys_get_le16 b)"

subsection \<open>The record\<close>

record sT_AudioSourceConfigRecord_t =
  rc_au8Magic :: "u8 list"
  rc_au8VersionLE :: "u8 list"
  rc_au8HeaderSizeLE :: "u8 list"
  rc_au8TotalSizeLE :: "u8 list"
  rc_au8PayloadCRC32LE :: "u8 list"
  rc_uiSourceType :: u8
  rc_uiSourceId :: u8
  rc_uiFlags :: u8
  rc_uiVolume :: u8
  rc_uiSourceNameLength :: u8
  rc_au8Reserved :: "u8 list"
  rc_caSourceName :: "u8 list"

text \<open>The record seen as bytes, and bytes seen as a record.\<close>

definition record_bytes :: "sT_AudioSourceConfigRecord_t \<Rightarrow> u8 list" where
  "record_bytes r = rc_au8Magic r @ rc_au8VersionLE r @ rc_au8HeaderSizeLE r @ rc_au8TotalSizeLE r @ rc_au8PayloadCRC32LE r
     @ [rc_uiSourceType r, rc_uiSourceId r, rc_uiFlags r, rc_uiVolume r, rc_uiSourceNameLength r]
     @ rc_au8Reserved r @ rc_caSourceName r"

definition bytes_record :: "u8 list \<Rightarrow> sT_AudioSourceConfigRecord_t" where
  "bytes_record b = \<lparr>rc_au8Magic = take 4 b, rc_au8VersionLE = take 2 (drop 4 b), rc_au8HeaderSizeLE = take 2 (drop 6 b),
     rc_au8TotalSizeLE = take 4 (drop 8 b), rc_au8PayloadCRC32LE = take 4 (drop 12 b), rc_uiSourceType = b ! 16,
     rc_uiSourceId = b ! 17, rc_uiFlags = b ! 18, rc_uiVolume = b ! 19, rc_uiSourceNameLength = b ! 20,
     rc_au8Reserved = take 3 (drop 21 b), rc_caSourceName = take 24 (drop 24 b)\<rparr>"

text \<open>The bytes the checksum covers.\<close>

definition crc_part :: "sT_AudioSourceConfigRecord_t \<Rightarrow> u8 list" where
  "crc_part r = drop AUDIO_SOURCE_CONFIG_CRC_OFFSET (record_bytes r)"

text \<open>\<open>strnlen\<close> of an array of characters.\<close>

definition name_length :: "u8 list \<Rightarrow> nat" where
  "name_length n = length (takeWhile (\<lambda>c. c \<noteq> 0) n)"

text \<open>A zeroed array of 24 bytes into which the first \<open>n\<close> bytes are copied.\<close>

definition name_array :: "nat \<Rightarrow> u8 list \<Rightarrow> u8 list" where
  "name_array n b = take n b @ replicate (AUDIO_SOURCE_CONFIG_NAME_SIZE - n) 0"

definition config_flags :: "sT_AudioSourceConfig_t \<Rightarrow> u8" where
  "config_flags c = (if ac_bIsActive c then AUDIO_SOURCE_CONFIG_FLAG_ACTIVE else 0)
     OR (if ac_bIsMute c then AUDIO_SOURCE_CONFIG_FLAG_MUTED else 0)
     OR (if ac_bIsSelected c then AUDIO_SOURCE_CONFIG_FLAG_SELECTED else 0)"

text \<open>The record before its checksum.\<close>

definition unsigned_record :: "sT_AudioSourceConfig_t \<Rightarrow> sT_AudioSourceConfigRecord_t" where
  "unsigned_record c =
     \<lparr>rc_au8Magic = AUDIO_SOURCE_CONFIG_MAGIC, rc_au8VersionLE = sys_put_le16 (of_nat AUDIO_SOURCE_CONFIG_VERSION),
      rc_au8HeaderSizeLE = sys_put_le16 (of_nat AUDIO_SOURCE_CONFIG_HEADER_SIZE),
      rc_au8TotalSizeLE = sys_put_le32 (of_nat AUDIO_SOURCE_CONFIG_RECORD_SIZE), rc_au8PayloadCRC32LE = [0, 0, 0, 0],
      rc_uiSourceType = src_type_code (ac_eSrcType c), rc_uiSourceId = of_nat (ac_eSrcId c), rc_uiFlags = config_flags c,
      rc_uiVolume = ucast (ac_uiVolume c), rc_uiSourceNameLength = of_nat (name_length (ac_caSrcName c)),
      rc_au8Reserved = [0, 0, 0], rc_caSourceName = name_array (name_length (ac_caSrcName c)) (ac_caSrcName c)\<rparr>"

definition bEncode_AudioSrcConfiguration ::
  "(u8 list \<Rightarrow> u32) \<Rightarrow> sT_AudioSourceConfig_t \<Rightarrow> sT_AudioSourceConfigRecord_t option" where
  "bEncode_AudioSrcConfiguration crc32 c =
     (let uiNameLength = name_length (ac_caSrcName c) in
      if uiNameLength = 0 \<or> uiNameLength \<ge> AUDIO_SOURCE_CONFIG_NAME_SIZE then None
      else if unat (ac_uiVolume c) > SELECTED_AUDIO_SRC_MAX_VOLUME then None
      else Some ((unsigned_record c)\<lparr>rc_au8PayloadCRC32LE := sys_put_le32 (crc32 (crc_part (unsigned_record c)))\<rparr>))"

definition bValidate_SourceName :: "sT_AudioSourceConfigRecord_t \<Rightarrow> bool" where
  "bValidate_SourceName r =
     (let n = unat (rc_uiSourceNameLength r) in
      if n = 0 \<or> n \<ge> AUDIO_SOURCE_CONFIG_NAME_SIZE then False
      else if 0 \<in> set (take n (rc_caSourceName r)) then False
      else list_all (\<lambda>c. c = 0) (drop n (rc_caSourceName r)))"

definition bDecode_AudioSourceConfiguration ::
  "(u8 list \<Rightarrow> u32) \<Rightarrow> sT_AudioSourceConfigRecord_t \<Rightarrow> eAudioSrc_Id_t \<Rightarrow> sT_AudioSourceConfig_t option" where
  "bDecode_AudioSourceConfiguration crc32 r eExpectedSourceId =
     (if rc_au8Magic r \<noteq> AUDIO_SOURCE_CONFIG_MAGIC then None
      else if unat (sys_get_le16 (rc_au8VersionLE r)) \<noteq> AUDIO_SOURCE_CONFIG_VERSION
        \<or> unat (sys_get_le16 (rc_au8HeaderSizeLE r)) \<noteq> AUDIO_SOURCE_CONFIG_HEADER_SIZE
        \<or> unat (sys_get_le32 (rc_au8TotalSizeLE r)) \<noteq> AUDIO_SOURCE_CONFIG_RECORD_SIZE then None
      else if crc32 (crc_part r) \<noteq> sys_get_le32 (rc_au8PayloadCRC32LE r) then None
      else if unat (rc_uiSourceId r) \<ge> eNUMBER_OF_AUDIO_SOURCES then None
      else if unat (rc_uiSourceId r) \<noteq> eExpectedSourceId then None
      else if unat (rc_uiSourceType r) \<ge> 3 \<or> rc_uiSourceType r = 0 then None
      else if unat (rc_uiVolume r) > SELECTED_AUDIO_SRC_MAX_VOLUME then None
      else if rc_uiFlags r AND NOT AUDIO_SOURCE_CONFIG_KNOWN_FLAGS \<noteq> 0 then None
      else if rc_au8Reserved r \<noteq> [0, 0, 0] then None
      else if \<not> bValidate_SourceName r then None
      else
        (let bIsActive = (rc_uiFlags r AND AUDIO_SOURCE_CONFIG_FLAG_ACTIVE \<noteq> 0);
             bIsMute = (rc_uiFlags r AND AUDIO_SOURCE_CONFIG_FLAG_MUTED \<noteq> 0);
             bIsSelected = (rc_uiFlags r AND AUDIO_SOURCE_CONFIG_FLAG_SELECTED \<noteq> 0) in
         if \<not> bIsActive \<and> bIsSelected then None
         else Some \<lparr>ac_eSrcId = unat (rc_uiSourceId r), ac_eSrcType = src_type_of (rc_uiSourceType r),
                    ac_caSrcName = name_array (unat (rc_uiSourceNameLength r)) (rc_caSourceName r),
                    ac_bIsActive = bIsActive, ac_bIsMute = bIsMute, ac_bIsSelected = bIsSelected,
                    ac_eBleState = eBleState_None, ac_uiVolume = ucast (rc_uiVolume r)\<rparr>))"

end
