(* ===== verification/Audio_Config.thy ===== *)
theory Audio_Config
  imports Audio_Codec
begin

text \<open>
  The operations of AudioSrcConfiguration.c on the table of the four audio sources and their files. Everything that
  changes a source runs under the lock of that source, everything that concerns the selection under the
  selection lock, so an operation is one step; a lock that is not granted within 200 ms is a result of the
  lock service.
\<close>

subsection \<open>State and services\<close>

datatype audio_mutex = kMutex_AudioSrcSelection | staAudioSrcMutexes nat

record 'w audio_services = "'w fs_services" +
  audio_lock :: "audio_mutex \<Rightarrow> 'w \<Rightarrow> int \<times> 'w"
  audio_unlock :: "audio_mutex \<Rightarrow> 'w \<Rightarrow> int \<times> 'w"
  audio_mutex_init :: "nat \<Rightarrow> 'w \<Rightarrow> int \<times> 'w"
  crc32_ieee :: "u8 list \<Rightarrow> u32"

record 'w audio_sys =
  staAudioSrcConfigs :: "sT_AudioSourceConfig_t list"
  bConfigurationsLoaded :: bool
  bAudioSrcMutexesInitialized :: bool
  au_lfs :: "'w lfs_sys"

text \<open>A call into the file system controller, and one of a service.\<close>

definition via :: "('w lfs_sys \<Rightarrow> 'a \<times> 'w lfs_sys) \<Rightarrow> 'w audio_sys \<Rightarrow> 'a \<times> 'w audio_sys" where
  "via f s = (let (r, l) = f (au_lfs s) in (r, s\<lparr>au_lfs := l\<rparr>))"

abbreviation take_lock :: "('w, 'z) audio_services_scheme \<Rightarrow> audio_mutex \<Rightarrow> 'w audio_sys \<Rightarrow> int \<times> 'w audio_sys" where
  "take_lock E m \<equiv> via (io (audio_lock E m))"

abbreviation config_of :: "'w audio_sys \<Rightarrow> nat \<Rightarrow> sT_AudioSourceConfig_t" where
  "config_of s i \<equiv> staAudioSrcConfigs s ! i"

definition on_config :: "nat \<Rightarrow> (sT_AudioSourceConfig_t \<Rightarrow> sT_AudioSourceConfig_t) \<Rightarrow> 'w audio_sys \<Rightarrow> 'w audio_sys" where
  "on_config i f s = s\<lparr>staAudioSrcConfigs := (staAudioSrcConfigs s)[i := f (config_of s i)]\<rparr>"

subsection \<open>Files\<close>

definition digit :: "nat \<Rightarrow> char" where
  "digit n = char_of (48 + n)"

text \<open>\<open>"%02u"\<close> of a byte.\<close>

definition dec02 :: "nat \<Rightarrow> string" where
  "dec02 n = (if n < 100 then [digit (n div 10), digit (n mod 10)]
              else [digit (n div 100), digit (n div 10 mod 10), digit (n mod 10)])"

definition source_path :: "eAudioSrc_Id_t \<Rightarrow> string" where
  "source_path i = EXT_LITTLEFS_CONFIG_DIRECTORY @ ''source_'' @ dec02 (i mod 256) @ ''.bin''"

definition iRead_AudioSrcConfigurationRecord ::
  "('w, 'z) audio_services_scheme \<Rightarrow> eAudioSrc_Id_t \<Rightarrow> bool \<Rightarrow> nat \<Rightarrow> 'w audio_sys \<Rightarrow> (int \<times> u8 list) \<times> 'w audio_sys" where
  "iRead_AudioSrcConfigurationRecord E eSrcId buffer_given uiLength s =
     (if eSrcId \<ge> eNUMBER_OF_AUDIO_SOURCES \<or> \<not> buffer_given \<or> uiLength \<noteq> AUDIO_SOURCE_CONFIG_RECORD_SIZE then ((- EINVAL, []), s)
      else if length (source_path eSrcId) \<ge> MAX_FILE_PATH_LENGTH then ((- EINVAL, []), s)
      else via (iRead_FromFileBin E (Some (source_path eSrcId)) True uiLength) s)"

definition write_source ::
  "('w, 'z) audio_services_scheme \<Rightarrow> eAudioSrc_Id_t \<Rightarrow> u8 list \<Rightarrow> 'w audio_sys \<Rightarrow> int \<times> 'w audio_sys" where
  "write_source E i data = via (iWrite_ToFileBin E (Some (source_path i)) (Some data) (length data) (length data))"

definition iUpdate_AudioSrcFile ::
  "('w, 'z) audio_services_scheme \<Rightarrow> sT_AudioSourceConfig_t \<Rightarrow> 'w audio_sys \<Rightarrow> int \<times> 'w audio_sys" where
  "iUpdate_AudioSrcFile E c s =
     (case bEncode_AudioSrcConfiguration (crc32_ieee E) c of
        None \<Rightarrow> (- EBADE, s)
      | Some r \<Rightarrow>
          if length (source_path (ac_eSrcId c)) \<ge> MAX_FILE_PATH_LENGTH then (- EBADF, s)
          else write_source E (ac_eSrcId c) (record_bytes r) s)"

subsection \<open>Locks\<close>

definition iLock_AudioSourceAccess ::
  "('w, 'z) audio_services_scheme \<Rightarrow> eAudioSrc_Id_t \<Rightarrow> 'w audio_sys \<Rightarrow> int \<times> 'w audio_sys" where
  "iLock_AudioSourceAccess E i s =
     (if i \<ge> eNUMBER_OF_AUDIO_SOURCES then (- EINVAL, s) else take_lock E (staAudioSrcMutexes i) s)"

definition iUnLock_AudioSourceAccess ::
  "('w, 'z) audio_services_scheme \<Rightarrow> eAudioSrc_Id_t \<Rightarrow> 'w audio_sys \<Rightarrow> int \<times> 'w audio_sys" where
  "iUnLock_AudioSourceAccess E i s =
     (if i \<ge> eNUMBER_OF_AUDIO_SOURCES then (- EINVAL, s) else via (io (audio_unlock E (staAudioSrcMutexes i))) s)"

text \<open>In ascending order; the locks taken before a failure are given back.\<close>

fun lock_sources :: "('w, 'z) audio_services_scheme \<Rightarrow> nat list \<Rightarrow> 'w audio_sys \<Rightarrow> int \<times> 'w audio_sys" where
  "lock_sources E [] s = (0, s)"
| "lock_sources E (i # is) s =
     (let (r, s) = take_lock E (staAudioSrcMutexes i) s in if r \<noteq> 0 then (- EBUSY, s) else lock_sources E is s)"

definition iLock_AudioSources ::
  "('w, 'z) audio_services_scheme \<Rightarrow> eAudioSrc_Id_t \<Rightarrow> eAudioSrc_Id_t \<Rightarrow> 'w audio_sys \<Rightarrow> int \<times> 'w audio_sys" where
  "iLock_AudioSources E a b = lock_sources E (filter (\<lambda>i. i = a \<or> i = b) [0..<eNUMBER_OF_AUDIO_SOURCES])"

text \<open>Stops at the first mutex that cannot be initialised.\<close>

fun init_mutexes :: "('w, 'z) audio_services_scheme \<Rightarrow> nat list \<Rightarrow> 'w audio_sys \<Rightarrow> bool \<times> 'w audio_sys" where
  "init_mutexes E [] s = (True, s)"
| "init_mutexes E (i # is) s =
     (let (r, s) = via (io (audio_mutex_init E i)) s in if r \<noteq> 0 then (False, s) else init_mutexes E is s)"

definition bInit_AudioSrcMutexes :: "('w, 'z) audio_services_scheme \<Rightarrow> 'w audio_sys \<Rightarrow> bool \<times> 'w audio_sys" where
  "bInit_AudioSrcMutexes E s =
     (if bAudioSrcMutexesInitialized s then (True, s)
      else
        (let (ok, s) = init_mutexes E [0..<eNUMBER_OF_AUDIO_SOURCES] s
         in (ok, if ok then s\<lparr>bAudioSrcMutexesInitialized := True\<rparr> else s)))"

subsection \<open>Queries\<close>

fun first_index :: "('a \<Rightarrow> bool) \<Rightarrow> 'a list \<Rightarrow> nat" where
  "first_index P [] = 0"
| "first_index P (x # xs) = (if P x then 0 else Suc (first_index P xs))"

text \<open>The length of the table, the number of sources, stands for none.\<close>

definition eFind_SelectedAudioSrc :: "'w audio_sys \<Rightarrow> eAudioSrc_Id_t" where
  "eFind_SelectedAudioSrc s = first_index ac_bIsSelected (staAudioSrcConfigs s)"

definition eGet_BluetoothSource :: "'w audio_sys \<Rightarrow> eAudioSrc_Id_t" where
  "eGet_BluetoothSource s = first_index (\<lambda>c. ac_eSrcType c = eAudioSrc_Type_Bluetooth) (staAudioSrcConfigs s)"

text \<open>Everything but the Bluetooth state is copied.\<close>

definition vCopy_AudioSrcConfiguration :: "sT_AudioSourceConfig_t \<Rightarrow> sT_AudioSourceConfig_t \<Rightarrow> sT_AudioSourceConfig_t" where
  "vCopy_AudioSrcConfiguration dst src =
     dst\<lparr>ac_eSrcId := ac_eSrcId src, ac_eSrcType := ac_eSrcType src, ac_caSrcName := ac_caSrcName src,
       ac_bIsActive := ac_bIsActive src, ac_bIsMute := ac_bIsMute src, ac_bIsSelected := ac_bIsSelected src,
       ac_uiVolume := ac_uiVolume src\<rparr>"

text \<open>The argument is what the caller's snapshot held, none for a null pointer; the second result is what it holds then.\<close>

definition iGet_SelectedAudioSrcConfig ::
  "('w, 'z) audio_services_scheme \<Rightarrow> sT_AudioSourceConfig_t option \<Rightarrow> 'w audio_sys
   \<Rightarrow> (int \<times> sT_AudioSourceConfig_t option) \<times> 'w audio_sys" where
  "iGet_SelectedAudioSrcConfig E snap s =
     (case snap of
        None \<Rightarrow> ((- EINVAL, snap), s)
      | Some old \<Rightarrow>
          (let (r, s) = take_lock E kMutex_AudioSrcSelection s in
           if r \<noteq> 0 then ((- EBUSY, snap), s)
           else
             (let i = eFind_SelectedAudioSrc s in
              if i \<ge> eNUMBER_OF_AUDIO_SOURCES then ((- ENODATA, snap), s)
              else
                (let (r, s) = iLock_AudioSources E i i s in
                 if r \<noteq> 0 then ((- EBUSY, snap), s)
                 else ((0, Some (vCopy_AudioSrcConfiguration old (config_of s i))), s)))))"

definition bGet_AudioSrcConfigurations :: "eAudioSrc_Id_t \<Rightarrow> 'w audio_sys \<Rightarrow> sT_AudioSourceConfig_t option" where
  "bGet_AudioSrcConfigurations i s = (if i \<ge> eNUMBER_OF_AUDIO_SOURCES then None else Some (config_of s i))"

definition vGetSnapshot_Of_AudioSrcName ::
  "('w, 'z) audio_services_scheme \<Rightarrow> eAudioSrc_Id_t \<Rightarrow> 'w audio_sys \<Rightarrow> u8 list option \<times> 'w audio_sys" where
  "vGetSnapshot_Of_AudioSrcName E i s =
     (if i \<ge> eNUMBER_OF_AUDIO_SOURCES then (None, s)
      else
        (let (r, s) = take_lock E kMutex_AudioSrcSelection s
         in if r \<noteq> 0 then (None, s) else (Some (ac_caSrcName (config_of s i)), s)))"

definition eGet_BleConnectionState :: "'w audio_sys \<Rightarrow> eBLEState_t" where
  "eGet_BleConnectionState s =
     (let i = eGet_BluetoothSource s
      in if i = eNUMBER_OF_AUDIO_SOURCES then eNUMBER_OF_BLE_STATEs else ac_eBleState (config_of s i))"

definition bSet_BleConnectionState :: "eBLEState_t \<Rightarrow> 'w audio_sys \<Rightarrow> bool \<times> 'w audio_sys" where
  "bSet_BleConnectionState st s =
     (if st = eBleState_None \<or> st = eNUMBER_OF_BLE_STATEs then (False, s)
      else
        (let i = eGet_BluetoothSource s
         in if i \<ge> eNUMBER_OF_AUDIO_SOURCES then (False, s) else (True, on_config i (ac_eBleState_update (\<lambda>_. st)) s)))"

definition bIs_AudioSrcConfigLoaded :: "'w audio_sys \<Rightarrow> bool" where
  "bIs_AudioSrcConfigLoaded s = bConfigurationsLoaded s"

subsection \<open>Updates\<close>

text \<open>
  The pattern of all of them: the table first, then the file, and the table back when the file could not be
  written.
\<close>

definition update_and_save ::
  "('w, 'z) audio_services_scheme \<Rightarrow> nat \<Rightarrow> (sT_AudioSourceConfig_t \<Rightarrow> sT_AudioSourceConfig_t)
   \<Rightarrow> (sT_AudioSourceConfig_t \<Rightarrow> sT_AudioSourceConfig_t) \<Rightarrow> 'w audio_sys \<Rightarrow> int \<times> 'w audio_sys" where
  "update_and_save E i f back s =
     (let s = on_config i f s;
          (r, s) = iUpdate_AudioSrcFile E (config_of s i) s
      in (r, if r \<noteq> 0 then on_config i back s else s))"

definition bUpdate_AudioSrcMuteStatus ::
  "('w, 'z) audio_services_scheme \<Rightarrow> eAudioSrc_Id_t \<Rightarrow> bool \<Rightarrow> 'w audio_sys \<Rightarrow> bool \<times> 'w audio_sys" where
  "bUpdate_AudioSrcMuteStatus E i bIsMute s =
     (if i \<ge> eNUMBER_OF_AUDIO_SOURCES then (False, s)
      else if \<not> bAudioSrcMutexesInitialized s then (False, s)
      else
        (let (r, s) = iLock_AudioSourceAccess E i s in
         if r \<noteq> 0 then (False, s)
         else
           (let bPreviousMuteState = ac_bIsMute (config_of s i) in
            if bPreviousMuteState = bIsMute then (let (u, s) = iUnLock_AudioSourceAccess E i s in (u = 0, s))
            else
              (let (r, s) = update_and_save E i (ac_bIsMute_update (\<lambda>_. bIsMute)) (ac_bIsMute_update (\<lambda>_. bPreviousMuteState)) s;
                   (u, s) = iUnLock_AudioSourceAccess E i s
               in (r = 0 \<and> u = 0, s)))))"

definition iUpdate_AudioSrcVolume ::
  "('w, 'z) audio_services_scheme \<Rightarrow> eAudioSrc_Id_t \<Rightarrow> u8 \<Rightarrow> 'w audio_sys \<Rightarrow> int \<times> 'w audio_sys" where
  "iUpdate_AudioSrcVolume E i uiVolume s =
     (if i \<ge> eNUMBER_OF_AUDIO_SOURCES \<or> unat uiVolume > SELECTED_AUDIO_SRC_MAX_VOLUME then (- EINVAL, s)
      else if \<not> bAudioSrcMutexesInitialized s then (- EACCES, s)
      else
        (let (r, s) = iLock_AudioSources E i i s in
         if r \<noteq> 0 then (r, s)
         else
           (let uiPreviousVolume = ac_uiVolume (config_of s i) in
            if uiPreviousVolume = ucast uiVolume then (0, s)
            else update_and_save E i (ac_uiVolume_update (\<lambda>_. ucast uiVolume)) (ac_uiVolume_update (\<lambda>_. uiPreviousVolume)) s)))"

text \<open>The two writes of a change of the selection, the first of which may have nothing to do.\<close>

definition unselect_source :: "('w, 'z) audio_services_scheme \<Rightarrow> eAudioSrc_Id_t \<Rightarrow> 'w audio_sys \<Rightarrow> int \<times> 'w audio_sys" where
  "unselect_source E i = update_and_save E i (ac_bIsSelected_update (\<lambda>_. False)) (ac_bIsSelected_update (\<lambda>_. True))"

definition select_source :: "('w, 'z) audio_services_scheme \<Rightarrow> eAudioSrc_Id_t \<Rightarrow> 'w audio_sys \<Rightarrow> int \<times> 'w audio_sys" where
  "select_source E i = update_and_save E i (ac_bIsSelected_update (\<lambda>_. True)) (ac_bIsSelected_update (\<lambda>_. False))"

definition unselect_previous :: "('w, 'z) audio_services_scheme \<Rightarrow> eAudioSrc_Id_t \<Rightarrow> 'w audio_sys \<Rightarrow> int \<times> 'w audio_sys" where
  "unselect_previous E ePreviousSrcId s =
     (if ePreviousSrcId < eNUMBER_OF_AUDIO_SOURCES then unselect_source E ePreviousSrcId s else (0, s))"

definition iUpdate_AudioScrSelected ::
  "('w, 'z) audio_services_scheme \<Rightarrow> eAudioSrc_Id_t \<Rightarrow> bool \<Rightarrow> 'w audio_sys \<Rightarrow> int \<times> 'w audio_sys" where
  "iUpdate_AudioScrSelected E i bIsSelected s =
     (if i \<ge> eNUMBER_OF_AUDIO_SOURCES then (- EINVAL, s)
      else if \<not> bAudioSrcMutexesInitialized s then (- EACCES, s)
      else
        (let (r, s) = take_lock E kMutex_AudioSrcSelection s in
         if r \<noteq> 0 then (- EBUSY, s)
         else
           (let ePreviousSrcId = eFind_SelectedAudioSrc s in
            if \<not> bIsSelected then
              (let (r, s) = iLock_AudioSources E i i s in
               if r \<noteq> 0 then (r, s)
               else if \<not> ac_bIsSelected (config_of s i) then (0, s)
               else unselect_source E i s)
            else if ePreviousSrcId = i then (0, s)
            else
              (let (r, s) = iLock_AudioSources E ePreviousSrcId i s in
               if r \<noteq> 0 then (r, s)
               else if \<not> ac_bIsActive (config_of s i) then (- EACCES, s)
               else
                 (let (r, s) = unselect_previous E ePreviousSrcId s
                  in if r \<noteq> 0 then (r, s) else select_source E i s)))))"

text \<open>A record from the host. The length is a byte; a missing buffer is none.\<close>

definition iUpdate_AudioSrcConfigurations ::
  "('w, 'z) audio_services_scheme \<Rightarrow> u8 list option \<Rightarrow> u8 \<Rightarrow> eAudioSrc_Id_t \<Rightarrow> 'w audio_sys \<Rightarrow> int \<times> 'w audio_sys" where
  "iUpdate_AudioSrcConfigurations E data uiLength i s =
     (if data = None \<or> uiLength = 0 \<or> unat uiLength \<noteq> AUDIO_SOURCE_CONFIG_RECORD_SIZE then (- EINVAL, s)
      else if i \<ge> eNUMBER_OF_AUDIO_SOURCES then (- EINVAL, s)
      else if \<not> bAudioSrcMutexesInitialized s then (- EACCES, s)
      else
        (let rec = bytes_record (take (unat uiLength) (the data)) in
         case bDecode_AudioSourceConfiguration (crc32_ieee E) rec i of
           None \<Rightarrow> (- EINVAL, s)
         | Some c \<Rightarrow>
             if length (source_path i) \<ge> MAX_FILE_PATH_LENGTH then (- EINVAL, s)
             else
               (let (r, s) = take_lock E kMutex_AudioSrcSelection s in
                if r \<noteq> 0 then (- EBUSY, s)
                else
                  (let (r, s) = iLock_AudioSources E i i s in
                   if r \<noteq> 0 then (r, s)
                   else
                     (let eSelectedSrcId = eFind_SelectedAudioSrc s in
                      if ac_bIsSelected c \<and> eSelectedSrcId < eNUMBER_OF_AUDIO_SOURCES \<and> eSelectedSrcId \<noteq> i then (- EALREADY, s)
                      else
                        (let (r, s) = write_source E i (record_bytes rec) s in
                         if r \<noteq> 0 then (- EIO, s)
                         else (0, on_config i (\<lambda>old. vCopy_AudioSrcConfiguration old c) s)))))))"

subsection \<open>Loading\<close>

definition bValidate_AllSourceConfigurations :: "sT_AudioSourceConfig_t list \<Rightarrow> bool" where
  "bValidate_AllSourceConfigurations cs \<longleftrightarrow>
     (\<forall>i < length cs. ac_eSrcId (cs ! i) = i \<and> (ac_bIsSelected (cs ! i) \<longrightarrow> ac_bIsActive (cs ! i)))
     \<and> length (filter ac_bIsSelected cs) \<le> 1"

text \<open>One file, and the files one after the other; none when one cannot be read or is not valid.\<close>

definition read_config ::
  "('w, 'z) audio_services_scheme \<Rightarrow> nat \<Rightarrow> 'w audio_sys \<Rightarrow> sT_AudioSourceConfig_t option \<times> 'w audio_sys" where
  "read_config E i s =
     (if length (source_path i) \<ge> MAX_FILE_PATH_LENGTH then (None, s)
      else
        (let ((r, bs), s) = via (iRead_FromFileBin E (Some (source_path i)) True AUDIO_SOURCE_CONFIG_RECORD_SIZE) s in
         if r \<noteq> 0 then (None, s)
         else (map_option (ac_eBleState_update (\<lambda>_. eBleState_Disconnect))
                 (bDecode_AudioSourceConfiguration (crc32_ieee E) (bytes_record bs) i), s)))"

fun cons_config :: "sT_AudioSourceConfig_t \<Rightarrow> sT_AudioSourceConfig_t list option \<times> 's \<Rightarrow> sT_AudioSourceConfig_t list option \<times> 's" where
  "cons_config c (cs, s) = (map_option ((#) c) cs, s)"

fun read_configs ::
  "('w, 'z) audio_services_scheme \<Rightarrow> nat list \<Rightarrow> 'w audio_sys \<Rightarrow> sT_AudioSourceConfig_t list option \<times> 'w audio_sys"
and keep_reading ::
  "('w, 'z) audio_services_scheme \<Rightarrow> nat list \<Rightarrow> sT_AudioSourceConfig_t option \<times> 'w audio_sys
   \<Rightarrow> sT_AudioSourceConfig_t list option \<times> 'w audio_sys" where
  "read_configs E [] s = (Some [], s)"
| "read_configs E (i # is) s = keep_reading E is (read_config E i s)"
| "keep_reading E is (None, s) = (None, s)"
| "keep_reading E is (Some c, s) = cons_config c (read_configs E is s)"

definition bLoad_AudioConfigurations :: "('w, 'z) audio_services_scheme \<Rightarrow> 'w audio_sys \<Rightarrow> bool \<times> 'w audio_sys" where
  "bLoad_AudioConfigurations E s =
     (let (ok, s) = bInit_AudioSrcMutexes E s in
      if \<not> ok then (False, s)
      else
        (let (cs, s) = read_configs E [0..<eNUMBER_OF_AUDIO_SOURCES] (s\<lparr>bConfigurationsLoaded := False\<rparr>) in
         case cs of
           None \<Rightarrow> (False, s)
         | Some cs \<Rightarrow>
             if \<not> bValidate_AllSourceConfigurations cs then (False, s)
             else
               (let (r, s) = take_lock E kMutex_AudioSrcSelection s in
                if r \<noteq> 0 then (False, s)
                else
                  (let (r, s) = lock_sources E [0..<eNUMBER_OF_AUDIO_SOURCES] s in
                   if r \<noteq> 0 then (False, s)
                   else (True, s\<lparr>staAudioSrcConfigs := map2 vCopy_AudioSrcConfiguration (staAudioSrcConfigs s) cs,
                                 bConfigurationsLoaded := True\<rparr>)))))"

end
