(* ===== verification/Audio_Records.thy ===== *)
theory Audio_Records
  imports Audio_Codec
begin

text \<open>
  Encoder and decoder are inverse to each other: a configuration survives being written and read, and the only
  bytes that are read as a configuration are those it is written as.
\<close>

subsection \<open>Fields\<close>

lemma get_put_le16 [simp]: "sys_get_le16 (sys_put_le16 w) = w"
  by (simp add: sys_get_le16_def sys_put_le16_def)

lemma put_get_le16 [simp]: "length b = 2 \<Longrightarrow> sys_put_le16 (sys_get_le16 b) = b"
  by (auto simp: sys_get_le16_def sys_put_le16_def numeral_2_eq_2 length_Suc_conv)

lemma length_put_le [simp]: "length (sys_put_le16 w) = 2" "length (sys_put_le32 v) = 4"
  by (simp_all add: sys_put_le16_def sys_put_le32_def)

lemma get_put_le32 [simp]: "sys_get_le32 (sys_put_le32 w) = w"
proof -
  have "drop 2 (sys_put_le32 w) = sys_put_le16 (ucast (drop_bit 16 w))" by (simp add: sys_put_le32_def sys_put_le16_def)
  moreover have "sys_get_le16 (sys_put_le32 w) = sys_get_le16 (sys_put_le16 (ucast w))"
    by (simp add: sys_get_le16_def sys_put_le32_def sys_put_le16_def)
  ultimately have "sys_get_le32 (sys_put_le32 w) = push_bit 16 (ucast (ucast (drop_bit 16 w) :: u16)) OR ucast (ucast w :: u16)"
    by (simp add: sys_get_le32_def)
  also have "\<dots> = w"
    by (rule bit_eqI) (auto simp: bit_simps)
  finally show ?thesis .
qed

lemma put_get_le32 [simp]:
  assumes "length b = 4"
  shows "sys_put_le32 (sys_get_le32 b) = b"
proof -
  let ?lo = "sys_get_le16 b" and ?hi = "sys_get_le16 (drop 2 b)"
  have "ucast (sys_get_le32 b) = ?lo" unfolding sys_get_le32_def
    by (rule bit_eqI) (auto simp: bit_simps)
  moreover have "ucast (drop_bit 16 (sys_get_le32 b)) = ?hi" unfolding sys_get_le32_def
    by (rule bit_eqI) (auto simp: bit_simps dest: bit_imp_le_length)
  moreover have "sys_put_le16 ?lo = take 2 b" "sys_put_le16 ?hi = drop 2 b"
    using assms put_get_le16 [of "take 2 b"] put_get_le16 [of "drop 2 b"] by (simp_all add: sys_get_le16_def)
  ultimately show ?thesis by (simp add: sys_put_le32_def)
qed

lemma flags_of_config:
  "config_flags c AND NOT AUDIO_SOURCE_CONFIG_KNOWN_FLAGS = 0"
  "config_flags c AND AUDIO_SOURCE_CONFIG_FLAG_ACTIVE \<noteq> 0 \<longleftrightarrow> ac_bIsActive c"
  "config_flags c AND AUDIO_SOURCE_CONFIG_FLAG_MUTED \<noteq> 0 \<longleftrightarrow> ac_bIsMute c"
  "config_flags c AND AUDIO_SOURCE_CONFIG_FLAG_SELECTED \<noteq> 0 \<longleftrightarrow> ac_bIsSelected c"
  by (simp_all add: config_flags_def wall_simps)

lemma and_bit_iff: "(f :: u8) AND 1 \<noteq> 0 \<longleftrightarrow> bit f 0" "f AND 2 \<noteq> 0 \<longleftrightarrow> bit f 1" "f AND 4 \<noteq> 0 \<longleftrightarrow> bit f 2"
  using and_exp_eq_0_iff_not_bit [of f 0] and_exp_eq_0_iff_not_bit [of f 1] and_exp_eq_0_iff_not_bit [of f 2] by simp_all

lemma flags_exhaust:
  assumes "f AND NOT AUDIO_SOURCE_CONFIG_KNOWN_FLAGS = (0 :: u8)"
  shows "f = (if f AND 1 \<noteq> 0 then 1 else 0) OR (if f AND 2 \<noteq> 0 then 2 else 0) OR (if f AND 4 \<noteq> 0 then 4 else 0)"
proof (rule bit_eqI)
  fix n assume "possible_bit TYPE(8 word) n"
  then have "n < 8" by simp
  then have n: "n \<in> {0, 1, 2, 3, 4, 5, 6, 7}" by auto
  have "AUDIO_SOURCE_CONFIG_KNOWN_FLAGS = 7" by (simp add: wall_simps)
  with assms have z: "f AND NOT 7 = 0" by (simp only:)
  have "bit (f AND NOT 7) n = False" by (subst z) simp
  then have "bit f n \<longrightarrow> bit (7 :: u8) n" using \<open>n < 8\<close> by (simp only: bit_and_iff bit_not_iff possible_bit_word) simp
  with n show "bit f n = bit ((if f AND 1 \<noteq> 0 then 1 else 0) OR (if f AND 2 \<noteq> 0 then 2 else 0) OR (if f AND 4 \<noteq> 0 then 4 else 0 :: u8)) n"
    unfolding and_bit_iff by (auto simp: bit_or_iff)
qed

subsection \<open>Layout\<close>

text \<open>The array fields have their lengths.\<close>

definition record_typed :: "sT_AudioSourceConfigRecord_t \<Rightarrow> bool" where
  "record_typed r \<longleftrightarrow> length (rc_au8Magic r) = 4 \<and> length (rc_au8VersionLE r) = 2 \<and> length (rc_au8HeaderSizeLE r) = 2
     \<and> length (rc_au8TotalSizeLE r) = 4 \<and> length (rc_au8PayloadCRC32LE r) = 4 \<and> length (rc_au8Reserved r) = 3
     \<and> length (rc_caSourceName r) = 24"

lemma typed_of_bytes: "length b = 48 \<Longrightarrow> record_typed (bytes_record b)"
  by (simp add: record_typed_def bytes_record_def)

lemma length_record_bytes: "record_typed r \<Longrightarrow> length (record_bytes r) = 48"
  by (simp add: record_typed_def record_bytes_def)

lemma bytes_of_record [simp]: "record_typed r \<Longrightarrow> bytes_record (record_bytes r) = r"
  by (cases r) (simp add: record_typed_def bytes_record_def record_bytes_def nth_append)

lemma record_of_bytes [simp]:
  assumes "length b = 48"
  shows "record_bytes (bytes_record b) = b"
proof -
  have split: "drop k b = take n (drop k b) @ drop (k + n) b" for k n
    by (metis add.commute append_take_drop_id drop_drop)
  have one: "drop k b = b ! k # drop (Suc k) b" if "k < 48" for k
    using that assms by (simp add: Cons_nth_drop_Suc)
  have "b = take 4 b @ drop 4 b" by simp
  also have "drop 4 b = take 2 (drop 4 b) @ drop 6 b" using split [of 4 2] by simp
  also have "drop 6 b = take 2 (drop 6 b) @ drop 8 b" using split [of 6 2] by simp
  also have "drop 8 b = take 4 (drop 8 b) @ drop 12 b" using split [of 8 4] by simp
  also have "drop 12 b = take 4 (drop 12 b) @ drop 16 b" using split [of 12 4] by simp
  also have "drop 16 b = [b ! 16, b ! 17, b ! 18, b ! 19, b ! 20] @ drop 21 b"
    using one [of 16] one [of 17] one [of 18] one [of 19] one [of 20] by (simp add: eval_nat_numeral)
  also have "drop 21 b = take 3 (drop 21 b) @ drop 24 b" using split [of 21 3] by simp
  also have "drop 24 b = take 24 (drop 24 b)" using assms by simp
  finally show ?thesis by (simp add: bytes_record_def record_bytes_def)
qed

lemma crc_part_signed: "record_typed r \<Longrightarrow> length c = 4 \<Longrightarrow> crc_part (r\<lparr>rc_au8PayloadCRC32LE := c\<rparr>) = crc_part r"
  by (simp add: crc_part_def record_bytes_def record_typed_def wall_simps)

subsection \<open>Names\<close>

lemma name_length_le: "name_length n \<le> length n"
  by (simp add: name_length_def length_takeWhile_le)

lemma length_name_array: "n \<le> length b \<Longrightarrow> n \<le> 24 \<Longrightarrow> length (name_array n b) = 24"
  by (simp add: name_array_def wall_simps)

lemma name_length_array:
  assumes "n \<le> length b" and "0 \<notin> set (take n b)" and "n < 24"
  shows "name_length (name_array n b) = n"
proof -
  have "takeWhile (\<lambda>c. c \<noteq> 0) (take n b @ replicate (24 - n) (0 :: u8)) = take n b"
    using assms(2,3) by (subst takeWhile_append2) auto
  with assms(1) show ?thesis by (simp add: name_length_def name_array_def wall_simps)
qed

lemma name_array_array: "n \<le> length b \<Longrightarrow> name_array n (name_array n b) = name_array n b"
  by (simp add: name_array_def)

lemma name_prefix: "take (name_length n) n = takeWhile (\<lambda>c. c \<noteq> 0) n"
  by (simp add: name_length_def takeWhile_eq_take [symmetric])

lemma name_prefix_nonzero: "0 \<notin> set (take (name_length n) n)"
  unfolding name_prefix by (auto dest: set_takeWhileD)

lemma padded_name: "length b = 24 \<Longrightarrow> list_all (\<lambda>c. c = 0) (drop n b) \<Longrightarrow> name_array n b = b"
proof -
  assume "length b = 24" "list_all (\<lambda>c. c = 0) (drop n b)"
  then have "drop n b = replicate (24 - n) 0" by (intro replicate_eqI) (auto simp: list_all_iff)
  then show ?thesis using append_take_drop_id [of n b] by (simp add: name_array_def wall_simps)
qed

subsection \<open>Configurations\<close>

text \<open>A configuration as the decoder makes it.\<close>

definition config_ok :: "eAudioSrc_Id_t \<Rightarrow> sT_AudioSourceConfig_t \<Rightarrow> bool" where
  "config_ok i c \<longleftrightarrow> i < 4 \<and> ac_eSrcId c = i \<and> ac_eSrcType c \<noteq> eAudioSrc_Type_None \<and> length (ac_caSrcName c) = 24
     \<and> 0 < name_length (ac_caSrcName c) \<and> name_length (ac_caSrcName c) < 24
     \<and> name_array (name_length (ac_caSrcName c)) (ac_caSrcName c) = ac_caSrcName c
     \<and> (ac_bIsSelected c \<longrightarrow> ac_bIsActive c) \<and> unat (ac_uiVolume c) \<le> 100"

lemma encode_typed: "bEncode_AudioSrcConfiguration crc32 c = Some r \<Longrightarrow> length (ac_caSrcName c) = 24 \<Longrightarrow> record_typed r"
  using name_length_le [of "ac_caSrcName c"]
  by (auto simp: bEncode_AudioSrcConfiguration_def record_typed_def unsigned_record_def length_name_array
      AUDIO_SOURCE_CONFIG_MAGIC_def Let_def split: if_splits)

lemma src_type_roundtrip: "src_type_of (src_type_code t) = t" "t \<noteq> eAudioSrc_Type_None \<Longrightarrow> src_type_code t \<noteq> 0"
  "unat (src_type_code t) < 3"
  by (cases t; simp add: src_type_of_def)+

lemma src_code_roundtrip: "unat t < 3 \<Longrightarrow> t \<noteq> 0 \<Longrightarrow> src_type_code (src_type_of t) = t \<and> src_type_of t \<noteq> eAudioSrc_Type_None"
proof -
  assume "unat t < 3" "t \<noteq> 0"
  then have "unat t = unat (1 :: u8) \<or> unat t = unat (2 :: u8)" by (auto simp: unat_eq_zero less_Suc_eq numeral_3_eq_3)
  then have "t = 1 \<or> t = 2" by (simp only: word_unat_eq_iff)
  then show ?thesis by (auto simp: src_type_of_def)
qed

lemma unsigned_typed: "length (ac_caSrcName c) = 24 \<Longrightarrow> name_length (ac_caSrcName c) \<le> 24 \<Longrightarrow> record_typed (unsigned_record c)"
  by (simp add: record_typed_def unsigned_record_def length_name_array AUDIO_SOURCE_CONFIG_MAGIC_def)

text \<open>What is written is read back, in its canonical form: the name padded with zeroes, no Bluetooth state.\<close>

lemma decode_encoded:
  assumes enc: "bEncode_AudioSrcConfiguration crc32 c = Some r" and len: "length (ac_caSrcName c) = 24"
    and id: "ac_eSrcId c < 4" and ty: "ac_eSrcType c \<noteq> eAudioSrc_Type_None" and sel: "ac_bIsSelected c \<longrightarrow> ac_bIsActive c"
  shows "bDecode_AudioSourceConfiguration crc32 r (ac_eSrcId c)
    = Some (c\<lparr>ac_caSrcName := name_array (name_length (ac_caSrcName c)) (ac_caSrcName c), ac_eBleState := eBleState_None\<rparr>)"
proof -
  let ?n = "name_length (ac_caSrcName c)" and ?u = "unsigned_record c"
  have n: "0 < ?n" "?n < 24" and vol: "unat (ac_uiVolume c) \<le> 100"
    and r: "r = ?u\<lparr>rc_au8PayloadCRC32LE := sys_put_le32 (crc32 (crc_part ?u))\<rparr>"
    using enc by (auto simp: bEncode_AudioSrcConfiguration_def wall_simps Let_def split: if_splits)
  have crc: "crc_part r = crc_part ?u"
    unfolding r by (rule crc_part_signed) (use unsigned_typed [OF len] n in simp_all)
  have un: "unat (of_nat ?n :: u8) = ?n" using n by (intro unat_of_nat_small) simp
  have ui: "unat (of_nat (ac_eSrcId c) :: u8) = ac_eSrcId c" using id by (intro unat_of_nat_small) simp
  have uv: "unat (ucast (ac_uiVolume c) :: u8) = unat (ac_uiVolume c)" using vol by (simp add: unsigned_ucast_eq take_bit_nat_eq_self_iff)
  have vv: "ucast (ucast (ac_uiVolume c) :: u8) = ac_uiVolume c" using uv unat_ucast_up [of "ucast (ac_uiVolume c) :: u8", where ?'b = 16] by (simp add: word_unat_eq_iff)
  have name: "bValidate_SourceName r"
    using n len name_prefix_nonzero [of "ac_caSrcName c"] name_length_le [of "ac_caSrcName c"]
    by (simp add: bValidate_SourceName_def r unsigned_record_def un name_array_def wall_simps list_all_iff)
  have le: "name_array ?n (name_array ?n (ac_caSrcName c)) = name_array ?n (ac_caSrcName c)"
    using name_array_array name_length_le by blast
  have sizes: "unat (of_nat AUDIO_SOURCE_CONFIG_VERSION :: u16) = 2" "unat (of_nat AUDIO_SOURCE_CONFIG_HEADER_SIZE :: u16) = 24"
    "unat (of_nat AUDIO_SOURCE_CONFIG_RECORD_SIZE :: u32) = 48" by (simp_all add: wall_simps)
  note type_ok = src_type_roundtrip(1,3) [of "ac_eSrcType c"] src_type_roundtrip(2) [OF ty]
  have not3: "\<not> unat (src_type_code (ac_eSrcType c)) \<ge> 3" using type_ok by simp
  have fields: "rc_au8Magic r = AUDIO_SOURCE_CONFIG_MAGIC" "rc_au8VersionLE r = sys_put_le16 (of_nat AUDIO_SOURCE_CONFIG_VERSION)"
    "rc_au8HeaderSizeLE r = sys_put_le16 (of_nat AUDIO_SOURCE_CONFIG_HEADER_SIZE)"
    "rc_au8TotalSizeLE r = sys_put_le32 (of_nat AUDIO_SOURCE_CONFIG_RECORD_SIZE)"
    "rc_au8PayloadCRC32LE r = sys_put_le32 (crc32 (crc_part ?u))" "rc_uiSourceType r = src_type_code (ac_eSrcType c)"
    "rc_uiSourceId r = of_nat (ac_eSrcId c)" "rc_uiFlags r = config_flags c" "rc_uiVolume r = ucast (ac_uiVolume c)"
    "rc_uiSourceNameLength r = of_nat ?n" "rc_au8Reserved r = [0, 0, 0]" "rc_caSourceName r = name_array ?n (ac_caSrcName c)"
    by (simp_all add: r unsigned_record_def)
  have limits: "AUDIO_SOURCE_CONFIG_VERSION = 2" "AUDIO_SOURCE_CONFIG_HEADER_SIZE = 24" "AUDIO_SOURCE_CONFIG_RECORD_SIZE = 48"
    "eNUMBER_OF_AUDIO_SOURCES = 4" "SELECTED_AUDIO_SRC_MAX_VOLUME = 100" by (simp_all add: wall_simps)
  have "bDecode_AudioSourceConfiguration crc32 r (ac_eSrcId c) = Some \<lparr>ac_eSrcId = ac_eSrcId c, ac_eSrcType = ac_eSrcType c,
      ac_caSrcName = name_array ?n (ac_caSrcName c), ac_bIsActive = ac_bIsActive c, ac_bIsMute = ac_bIsMute c,
      ac_bIsSelected = ac_bIsSelected c, ac_eBleState = eBleState_None, ac_uiVolume = ac_uiVolume c\<rparr>"
    unfolding bDecode_AudioSourceConfiguration_def crc fields Let_def flags_of_config un ui uv vv le
    using name sel id vol type_ok not3 sizes [unfolded limits] by (auto simp: uv limits)
  then show ?thesis by simp
qed

text \<open>Bytes that are read as a configuration are those it is written as.\<close>

lemma decode_fields:
  assumes "bDecode_AudioSourceConfiguration crc32 r i = Some c"
  shows "rc_au8Magic r = AUDIO_SOURCE_CONFIG_MAGIC" and "sys_get_le16 (rc_au8VersionLE r) = 2"
    and "sys_get_le16 (rc_au8HeaderSizeLE r) = 24" and "sys_get_le32 (rc_au8TotalSizeLE r) = 48"
    and "crc32 (crc_part r) = sys_get_le32 (rc_au8PayloadCRC32LE r)" and "unat (rc_uiSourceId r) < 4" and "unat (rc_uiSourceId r) = i"
    and "unat (rc_uiSourceType r) < 3" and "rc_uiSourceType r \<noteq> 0" and "unat (rc_uiVolume r) \<le> 100"
    and "rc_uiFlags r AND NOT AUDIO_SOURCE_CONFIG_KNOWN_FLAGS = 0" and "rc_au8Reserved r = [0, 0, 0]" and "bValidate_SourceName r"
    and "rc_uiFlags r AND 1 = 0 \<longrightarrow> rc_uiFlags r AND 4 = 0"
    and "c = \<lparr>ac_eSrcId = i, ac_eSrcType = src_type_of (rc_uiSourceType r),
          ac_caSrcName = name_array (unat (rc_uiSourceNameLength r)) (rc_caSourceName r),
          ac_bIsActive = (rc_uiFlags r AND 1 \<noteq> 0), ac_bIsMute = (rc_uiFlags r AND 2 \<noteq> 0), ac_bIsSelected = (rc_uiFlags r AND 4 \<noteq> 0),
          ac_eBleState = eBleState_None, ac_uiVolume = ucast (rc_uiVolume r)\<rparr>"
proof -
  have eqs: "unat (v :: u16) = 2 \<longleftrightarrow> v = 2" "unat v = 24 \<longleftrightarrow> v = 24" "unat (t :: u32) = 48 \<longleftrightarrow> t = 48" for v t
    by (simp_all add: word_unat_eq_iff)
  note run = assms [unfolded bDecode_AudioSourceConfiguration_def Let_def]
  show "rc_au8Magic r = AUDIO_SOURCE_CONFIG_MAGIC" "crc32 (crc_part r) = sys_get_le32 (rc_au8PayloadCRC32LE r)"
    "unat (rc_uiSourceId r) = i" "rc_uiSourceType r \<noteq> 0"
    "rc_uiFlags r AND NOT AUDIO_SOURCE_CONFIG_KNOWN_FLAGS = 0" "rc_au8Reserved r = [0, 0, 0]" "bValidate_SourceName r"
    using run by (simp_all split: if_splits)
  show "sys_get_le16 (rc_au8VersionLE r) = 2" "sys_get_le16 (rc_au8HeaderSizeLE r) = 24" "sys_get_le32 (rc_au8TotalSizeLE r) = 48"
    "unat (rc_uiSourceId r) < 4" "unat (rc_uiSourceType r) < 3" "unat (rc_uiVolume r) \<le> 100"
    using run by (simp_all add: eqs AUDIO_SOURCE_CONFIG_VERSION_def AUDIO_SOURCE_CONFIG_HEADER_SIZE_def
        AUDIO_SOURCE_CONFIG_RECORD_SIZE_def eNUMBER_OF_AUDIO_SOURCES_def SELECTED_AUDIO_SRC_MAX_VOLUME_def split: if_splits)
  show "rc_uiFlags r AND 1 = 0 \<longrightarrow> rc_uiFlags r AND 4 = 0"
    "c = \<lparr>ac_eSrcId = i, ac_eSrcType = src_type_of (rc_uiSourceType r),
          ac_caSrcName = name_array (unat (rc_uiSourceNameLength r)) (rc_caSourceName r),
          ac_bIsActive = (rc_uiFlags r AND 1 \<noteq> 0), ac_bIsMute = (rc_uiFlags r AND 2 \<noteq> 0), ac_bIsSelected = (rc_uiFlags r AND 4 \<noteq> 0),
          ac_eBleState = eBleState_None, ac_uiVolume = ucast (rc_uiVolume r)\<rparr>"
    using run by (simp_all add: AUDIO_SOURCE_CONFIG_FLAG_ACTIVE_def AUDIO_SOURCE_CONFIG_FLAG_MUTED_def
        AUDIO_SOURCE_CONFIG_FLAG_SELECTED_def split: if_splits)
qed

lemma decode_name:
  assumes "bDecode_AudioSourceConfiguration crc32 r i = Some c" and "record_typed r"
  shows "ac_caSrcName c = rc_caSourceName r \<and> name_length (ac_caSrcName c) = unat (rc_uiSourceNameLength r)
    \<and> 0 < unat (rc_uiSourceNameLength r) \<and> unat (rc_uiSourceNameLength r) < 24"
proof -
  let ?n = "unat (rc_uiSourceNameLength r)"
  have n: "0 < ?n" "?n < 24" "0 \<notin> set (take ?n (rc_caSourceName r))" "list_all (\<lambda>c. c = 0) (drop ?n (rc_caSourceName r))"
    using decode_fields(13) [OF assms(1)] by (auto simp: bValidate_SourceName_def AUDIO_SOURCE_CONFIG_NAME_SIZE_def Let_def split: if_splits)
  have len: "length (rc_caSourceName r) = 24" using assms(2) by (simp add: record_typed_def)
  have "name_array ?n (rc_caSourceName r) = rc_caSourceName r" by (rule padded_name [OF len n(4)])
  with decode_fields(15) [OF assms(1)] name_length_array [of ?n "rc_caSourceName r"] n len show ?thesis by simp
qed

lemma decode_config_ok:
  assumes "bDecode_AudioSourceConfiguration crc32 r i = Some c" and "record_typed r"
  shows "config_ok i c"
proof -
  note f = decode_fields [OF assms(1)]
  have nm: "ac_caSrcName c = rc_caSourceName r" "name_length (ac_caSrcName c) = unat (rc_uiSourceNameLength r)"
    "0 < unat (rc_uiSourceNameLength r)" "unat (rc_uiSourceNameLength r) < 24"
    using decode_name [OF assms] by auto
  have "ac_caSrcName c = name_array (unat (rc_uiSourceNameLength r)) (rc_caSourceName r)" using f(15) by simp
  then have "name_array (name_length (ac_caSrcName c)) (ac_caSrcName c) = ac_caSrcName c" using nm by simp
  moreover have "length (rc_caSourceName r) = 24" using assms(2) by (simp add: record_typed_def)
  moreover have "ac_eSrcId c = i" "ac_eSrcType c \<noteq> eAudioSrc_Type_None" "ac_bIsSelected c \<longrightarrow> ac_bIsActive c" "unat (ac_uiVolume c) \<le> 100"
    using f(10,14,15) src_code_roundtrip [OF f(8,9)] by (auto simp: unat_ucast_up)
  ultimately show ?thesis using nm f(6,7) by (simp add: config_ok_def)
qed

lemma encode_decoded:
  assumes dec: "bDecode_AudioSourceConfiguration crc32 r i = Some c" and ty: "record_typed r"
  shows "bEncode_AudioSrcConfiguration crc32 c = Some r"
proof -
  note f = decode_fields [OF dec]
  have nm: "ac_caSrcName c = rc_caSourceName r" "name_length (ac_caSrcName c) = unat (rc_uiSourceNameLength r)"
    "0 < unat (rc_uiSourceNameLength r)" "unat (rc_uiSourceNameLength r) < 24"
    using decode_name [OF dec ty] by auto
  have arr: "name_array (unat (rc_uiSourceNameLength r)) (rc_caSourceName r) = rc_caSourceName r" using f(15) nm(1) by simp
  have le: "sys_put_le16 2 = rc_au8VersionLE r" "sys_put_le16 24 = rc_au8HeaderSizeLE r" "sys_put_le32 48 = rc_au8TotalSizeLE r"
    using f(2-4) put_get_le16 put_get_le32 ty unfolding record_typed_def by metis+
  have sig: "sys_put_le32 (crc32 (crc_part r)) = rc_au8PayloadCRC32LE r" using f(5) ty by (simp add: record_typed_def)
  have vol: "ucast (ucast (rc_uiVolume r) :: u16) = rc_uiVolume r" by (rule bit_eqI) (auto simp: bit_simps)
  have idw: "of_nat (ac_eSrcId c) = rc_uiSourceId r" using f(7) by (simp add: f(15) flip: f(7))
  have u: "unsigned_record c = r\<lparr>rc_au8PayloadCRC32LE := [0, 0, 0, 0]\<rparr>"
  proof -
    have "config_flags c = (if rc_uiFlags r AND 1 \<noteq> 0 then 1 else 0) OR (if rc_uiFlags r AND 2 \<noteq> 0 then 2 else 0)
        OR (if rc_uiFlags r AND 4 \<noteq> 0 then 4 else 0)"
      by (simp only: config_flags_def f(15) sT_AudioSourceConfig_t.select_convs AUDIO_SOURCE_CONFIG_FLAG_ACTIVE_def
          AUDIO_SOURCE_CONFIG_FLAG_MUTED_def AUDIO_SOURCE_CONFIG_FLAG_SELECTED_def)
    with flags_exhaust [OF f(11)] have "rc_uiFlags r = config_flags c" by (rule trans [OF _ sym])
    moreover have "ac_eSrcType c = src_type_of (rc_uiSourceType r)" "ac_uiVolume c = ucast (rc_uiVolume r)"
      by (simp_all only: f(15) sT_AudioSourceConfig_t.select_convs)
    moreover have "of_nat AUDIO_SOURCE_CONFIG_VERSION = (2 :: u16)" "of_nat AUDIO_SOURCE_CONFIG_HEADER_SIZE = (24 :: u16)"
      "of_nat AUDIO_SOURCE_CONFIG_RECORD_SIZE = (48 :: u32)" by (simp_all add: wall_simps)
    moreover have nl: "name_length (rc_caSourceName r) = unat (rc_uiSourceNameLength r)"
      "of_nat (unat (rc_uiSourceNameLength r)) = rc_uiSourceNameLength r" using nm(1,2) by simp_all
    ultimately have "unsigned_record c = \<lparr>rc_au8Magic = rc_au8Magic r, rc_au8VersionLE = rc_au8VersionLE r,
        rc_au8HeaderSizeLE = rc_au8HeaderSizeLE r, rc_au8TotalSizeLE = rc_au8TotalSizeLE r, rc_au8PayloadCRC32LE = [0, 0, 0, 0],
        rc_uiSourceType = rc_uiSourceType r, rc_uiSourceId = rc_uiSourceId r, rc_uiFlags = rc_uiFlags r, rc_uiVolume = rc_uiVolume r,
        rc_uiSourceNameLength = rc_uiSourceNameLength r, rc_au8Reserved = rc_au8Reserved r, rc_caSourceName = rc_caSourceName r\<rparr>"
      using src_code_roundtrip [OF f(8,9)] by (simp only: unsigned_record_def nm(1) nl arr le vol idw f(1) f(12))
    then show ?thesis by (simp only:) simp
  qed
  have "crc_part (unsigned_record c) = crc_part r" unfolding u by (rule crc_part_signed [OF ty]) simp
  then have "(unsigned_record c)\<lparr>rc_au8PayloadCRC32LE := sys_put_le32 (crc32 (crc_part (unsigned_record c)))\<rparr> = r"
    unfolding u by (intro sT_AudioSourceConfigRecord_t.equality) (simp_all add: sig)
  with nm f(10,15) show ?thesis
    by (simp add: bEncode_AudioSrcConfiguration_def Let_def AUDIO_SOURCE_CONFIG_NAME_SIZE_def SELECTED_AUDIO_SRC_MAX_VOLUME_def unat_ucast_up)
qed

end
