(* ===== verification/Audio_Invariants.thy ===== *)
theory Audio_Invariants
  imports Audio_Config Audio_Records Lfs_Store
begin

text \<open>
  The table of audio sources: what every operation does to it, and what is true of it in every history.
\<close>

subsection \<open>Only the file side moves\<close>

definition lfs_only :: "'w audio_sys \<Rightarrow> 'w audio_sys \<Rightarrow> bool" where
  "lfs_only s s' \<longleftrightarrow> (\<exists>l. s' = s\<lparr>au_lfs := l\<rparr>)"

lemma lfs_only_refl [simp]: "lfs_only s s"
  by (auto simp: lfs_only_def intro: exI [of _ "au_lfs s"])

lemma lfs_only_trans: "lfs_only a b \<Longrightarrow> lfs_only b c \<Longrightarrow> lfs_only a c"
  by (auto simp: lfs_only_def)

lemma lfs_onlyD:
  assumes "lfs_only s s'"
  shows "staAudioSrcConfigs s' = staAudioSrcConfigs s" "bConfigurationsLoaded s' = bConfigurationsLoaded s"
    "bAudioSrcMutexesInitialized s' = bAudioSrcMutexesInitialized s" "eFind_SelectedAudioSrc s' = eFind_SelectedAudioSrc s"
  using assms by (auto simp: lfs_only_def eFind_SelectedAudioSrc_def)

lemma via_only: "via f s = (r, s') \<Longrightarrow> lfs_only s s'"
  by (auto simp: via_def lfs_only_def split: prod.splits)

lemma lock_sources_only: "lock_sources E is s = (r, s') \<Longrightarrow> lfs_only s s'"
proof (induction "is" arbitrary: s)
  case (Cons i "is")
  obtain rl t where l: "take_lock E (staAudioSrcMutexes i) s = (rl, t)" by fastforce
  from Cons(2) l have "s' = t \<or> lock_sources E is t = (r, s')" by (auto split: if_splits)
  with Cons(1) via_only [OF l] show ?case using lfs_only_trans by blast
qed simp

lemma lock_only: "iLock_AudioSources E a b s = (r, s') \<Longrightarrow> lfs_only s s'"
  using lock_sources_only by (simp add: iLock_AudioSources_def)

lemma access_only: "iLock_AudioSourceAccess E i s = (r, s') \<Longrightarrow> lfs_only s s'" "iUnLock_AudioSourceAccess E i s = (r, s') \<Longrightarrow> lfs_only s s'"
  by (auto simp: iLock_AudioSourceAccess_def iUnLock_AudioSourceAccess_def split: if_splits intro: via_only)

lemma write_only: "write_source E i d s = (r, s') \<Longrightarrow> lfs_only s s'"
  by (auto simp: write_source_def intro: via_only)

lemma file_only: "iUpdate_AudioSrcFile E c s = (r, s') \<Longrightarrow> lfs_only s s'"
  by (auto simp: iUpdate_AudioSrcFile_def split: option.splits if_splits intro: write_only)

lemma on_config_simps [simp]:
  "staAudioSrcConfigs (on_config i f s) = (staAudioSrcConfigs s)[i := f (config_of s i)]" "au_lfs (on_config i f s) = au_lfs s"
  "bConfigurationsLoaded (on_config i f s) = bConfigurationsLoaded s" "bAudioSrcMutexesInitialized (on_config i f s) = bAudioSrcMutexesInitialized s"
  by (simp_all add: on_config_def)

text \<open>An update is done in full, or the table is as before.\<close>

lemma update_result:
  assumes "update_and_save E i f back s = (r, s')" and "i < length (staAudioSrcConfigs s)" and "back (f (config_of s i)) = config_of s i"
  shows "(r \<noteq> 0 \<longrightarrow> lfs_only s s')
    \<and> (r = 0 \<longrightarrow> lfs_only (on_config i f s) s' \<and> (\<exists>t. iUpdate_AudioSrcFile E (f (config_of s i)) (on_config i f s) = (0, t) \<and> s' = t))"
proof -
  obtain q t where w: "iUpdate_AudioSrcFile E (f (config_of s i)) (on_config i f s) = (q, t)" by fastforce
  have only: "lfs_only (on_config i f s) t" by (rule file_only [OF w])
  have run: "r = q" "s' = (if q \<noteq> 0 then on_config i back t else t)"
    using assms(1,2) w by (auto simp: update_and_save_def Let_def)
  show ?thesis
  proof (cases "q = 0")
    case True
    with run w only show ?thesis by simp
  next
    case False
    from only obtain l where t: "t = (on_config i f s)\<lparr>au_lfs := l\<rparr>" by (auto simp: lfs_only_def)
    have "on_config i back t = s\<lparr>au_lfs := l\<rparr>"
      using assms(2,3) by (simp add: t on_config_def)
    with False run show ?thesis by (auto simp: lfs_only_def)
  qed
qed

subsection \<open>First index\<close>

lemma first_index_nth: "first_index P xs < length xs \<Longrightarrow> P (xs ! first_index P xs)"
  by (induction xs) auto

lemma first_index_le: "first_index P xs \<le> length xs"
  by (induction xs) auto

lemma first_index_none: "length xs \<le> first_index P xs \<Longrightarrow> i < length xs \<Longrightarrow> \<not> P (xs ! i)"
  by (induction xs arbitrary: i) (auto simp: nth_Cons split: if_splits nat.splits)

subsection \<open>The table in every history\<close>

definition zero_config :: sT_AudioSourceConfig_t where
  "zero_config = \<lparr>ac_eSrcId = 0, ac_eSrcType = eAudioSrc_Type_None, ac_caSrcName = replicate 24 0, ac_bIsActive = False,
     ac_bIsMute = False, ac_bIsSelected = False, ac_eBleState = eBleState_None, ac_uiVolume = 0\<rparr>"

definition audio_boot :: "'w audio_sys \<Rightarrow> bool" where
  "audio_boot s \<longleftrightarrow> staAudioSrcConfigs s = replicate 4 zero_config \<and> \<not> bConfigurationsLoaded s \<and> \<not> bAudioSrcMutexesInitialized s"

text \<open>Other components change the files and the file system controller at will.\<close>

inductive audio_reach :: "('w, 'z) audio_services_scheme \<Rightarrow> 'w audio_sys \<Rightarrow> bool" for E :: "('w, 'z) audio_services_scheme" where
  areach_boot: "audio_boot s \<Longrightarrow> audio_reach E s"
| areach_files: "audio_reach E s \<Longrightarrow> lfs_only s s' \<Longrightarrow> audio_reach E s'"
| areach_load: "audio_reach E s \<Longrightarrow> bLoad_AudioConfigurations E s = (b, s') \<Longrightarrow> audio_reach E s'"
| areach_mute: "audio_reach E s \<Longrightarrow> bUpdate_AudioSrcMuteStatus E i m s = (b, s') \<Longrightarrow> audio_reach E s'"
| areach_volume: "audio_reach E s \<Longrightarrow> iUpdate_AudioSrcVolume E i v s = (r, s') \<Longrightarrow> audio_reach E s'"
| areach_select: "audio_reach E s \<Longrightarrow> iUpdate_AudioScrSelected E i b s = (r, s') \<Longrightarrow> audio_reach E s'"
| areach_record: "audio_reach E s \<Longrightarrow> length d = 48 \<Longrightarrow> iUpdate_AudioSrcConfigurations E (Some d) n i s = (r, s') \<Longrightarrow> audio_reach E s'"
| areach_ble: "audio_reach E s \<Longrightarrow> bSet_BleConnectionState st s = (b, s') \<Longrightarrow> audio_reach E s'"

text \<open>An entry is unused, with an empty name and no type, or belongs to its place.\<close>

definition entry_typed :: "nat \<Rightarrow> sT_AudioSourceConfig_t \<Rightarrow> bool" where
  "entry_typed i c \<longleftrightarrow> length (ac_caSrcName c) = 24 \<and> unat (ac_uiVolume c) \<le> 100
     \<and> (ac_caSrcName c = replicate 24 0 \<and> ac_eSrcType c = eAudioSrc_Type_None \<or> ac_eSrcId c = i \<and> ac_eSrcType c \<noteq> eAudioSrc_Type_None)"

definition table_typed :: "'w audio_sys \<Rightarrow> bool" where
  "table_typed s \<longleftrightarrow> length (staAudioSrcConfigs s) = 4 \<and> (\<forall>i < 4. entry_typed i (config_of s i))"

definition selection_ok :: "'w audio_sys \<Rightarrow> bool" where
  "selection_ok s \<longleftrightarrow> (\<forall>i < 4. ac_bIsSelected (config_of s i) \<longrightarrow> ac_bIsActive (config_of s i))
     \<and> (\<forall>i < 4. \<forall>j < 4. ac_bIsSelected (config_of s i) \<and> ac_bIsSelected (config_of s j) \<longrightarrow> i = j)"

lemma only_table: "lfs_only s s' \<Longrightarrow> table_typed s' = table_typed s" "lfs_only s s' \<Longrightarrow> selection_ok s' = selection_ok s"
  by (simp_all add: table_typed_def selection_ok_def lfs_onlyD)

lemma on_config_nth: "length (staAudioSrcConfigs s) = 4 \<Longrightarrow> i < 4 \<Longrightarrow> config_of (on_config i f s) j = (if j = i then f (config_of s i) else config_of s j)"
  by simp

lemma on_config_typed: "table_typed s \<Longrightarrow> i < 4 \<Longrightarrow> (entry_typed i (config_of s i) \<Longrightarrow> entry_typed i (f (config_of s i))) \<Longrightarrow> table_typed (on_config i f s)"
  unfolding table_typed_def by (simp add: nth_list_update)

text \<open>The selection survives a change of one entry that does not select it anew and does not deactivate it.\<close>

lemma on_config_selection:
  assumes "selection_ok s" and "table_typed s" and "i < 4"
    and "ac_bIsSelected (f (config_of s i)) \<longrightarrow> ac_bIsActive (f (config_of s i)) \<and> (\<forall>j < 4. ac_bIsSelected (config_of s j) \<longrightarrow> j = i)"
  shows "selection_ok (on_config i f s)"
  using assms unfolding selection_ok_def table_typed_def by (simp add: nth_list_update) metis

end
