(* ===== verification/Audio_Persistence.thy ===== *)
theory Audio_Persistence
  imports Audio_Invariants
begin

text \<open>
  The table and its files. The locale \<open>audio_env\<close> extends the contract of the file system by the locks, which
  touch no file. Inside it the invariant of the table is shown for every history, and that the files follow
  the table as long as the updates report success.
\<close>

locale audio_env = fs_files E content opened
  for E :: "('w, 'z) audio_services_scheme" and content :: "string \<Rightarrow> 'w \<Rightarrow> u8 list option"
    and opened :: "nat \<Rightarrow> 'w \<Rightarrow> (string \<times> nat) option" +
  assumes audio_lock_keeps: "audio_lock E m w = (r, w') \<Longrightarrow> content q w' = content q w"
    and audio_unlock_keeps: "audio_unlock E m w = (r, w') \<Longrightarrow> content q w' = content q w"
    and audio_init_keeps: "audio_mutex_init E i w = (r, w') \<Longrightarrow> content q w' = content q w"
begin

subsection \<open>The invariant\<close>

definition table_ok :: "'w audio_sys \<Rightarrow> bool" where
  "table_ok s \<longleftrightarrow> table_typed s \<and> selection_ok s"

lemma only_ok: "lfs_only s s' \<Longrightarrow> table_ok s' = table_ok s"
  by (simp add: table_ok_def only_table)

lemma update_ok:
  assumes "update_and_save E i f back s = (r, s')" and ok: "table_ok s" and "i < 4" and "back (f (config_of s i)) = config_of s i"
    and "entry_typed i (config_of s i) \<Longrightarrow> entry_typed i (f (config_of s i))"
    and "ac_bIsSelected (f (config_of s i)) \<longrightarrow> ac_bIsActive (f (config_of s i)) \<and> (\<forall>j < 4. ac_bIsSelected (config_of s j) \<longrightarrow> j = i)"
  shows "table_ok s'"
proof -
  have len: "i < length (staAudioSrcConfigs s)" using ok assms(3) by (simp add: table_ok_def table_typed_def)
  have new: "table_ok (on_config i f s)"
    using ok on_config_typed [of s i f] on_config_selection [of s i f] assms(3,5,6) by (auto simp: table_ok_def)
  from update_result [OF assms(1) len assms(4)] have "lfs_only s s' \<or> lfs_only (on_config i f s) s'" by blast
  then show ?thesis using only_ok [of s s'] only_ok [of "on_config i f s" s'] ok new by blast
qed

lemma selected_unique: "table_ok s \<Longrightarrow> i < 4 \<Longrightarrow> ac_bIsSelected (config_of s i) \<Longrightarrow> j < 4 \<Longrightarrow> ac_bIsSelected (config_of s j) \<Longrightarrow> j = i"
  by (auto simp: table_ok_def selection_ok_def)

lemma find_selected:
  assumes "table_ok s"
  shows "eFind_SelectedAudioSrc s < 4 \<Longrightarrow> ac_bIsSelected (config_of s (eFind_SelectedAudioSrc s))"
    and "\<not> eFind_SelectedAudioSrc s < 4 \<Longrightarrow> j < 4 \<Longrightarrow> \<not> ac_bIsSelected (config_of s j)"
  using first_index_nth [of ac_bIsSelected "staAudioSrcConfigs s"] first_index_none [of "staAudioSrcConfigs s" ac_bIsSelected j] assms
  by (auto simp: eFind_SelectedAudioSrc_def table_ok_def table_typed_def)

lemma find_is:
  assumes "table_ok s" and "i < 4" and "ac_bIsSelected (config_of s i)"
  shows "eFind_SelectedAudioSrc s = i"
  using find_selected(1) [OF assms(1)] find_selected(2) [OF assms(1) _ assms(2)] selected_unique [OF assms(1,2,3)] assms(3) by blast

lemma unselect_ok:
  assumes "unselect_source E i s = (r, s')" and "table_ok s" and "i < 4" and "ac_bIsSelected (config_of s i)"
  shows "table_ok s'"
  using assms(1) unfolding unselect_source_def
  by (rule update_ok) (use assms in \<open>auto simp: entry_typed_def\<close>)

lemma unselect_none:
  assumes "unselect_source E i s = (0, s')" and "table_ok s" and "i < 4" and "ac_bIsSelected (config_of s i)"
  shows "\<forall>j < 4. \<not> ac_bIsSelected (config_of s' j)" and "\<forall>j < 4. ac_bIsActive (config_of s' j) = ac_bIsActive (config_of s j)"
proof -
  have len: "length (staAudioSrcConfigs s) = 4" using assms(2) by (simp add: table_ok_def table_typed_def)
  let ?f = "ac_bIsSelected_update (\<lambda>_. False)"
  have "lfs_only (on_config i ?f s) s'"
    using update_result [OF assms(1) [unfolded unselect_source_def]] assms(3,4) len by simp
  note same = lfs_onlyD(1) [OF this]
  show "\<forall>j < 4. \<not> ac_bIsSelected (config_of s' j)" "\<forall>j < 4. ac_bIsActive (config_of s' j) = ac_bIsActive (config_of s j)"
    using same len assms(3) selected_unique [OF assms(2,3,4)] by (auto simp: nth_list_update)
qed

lemma select_ok:
  assumes "select_source E i s = (r, s')" and "table_ok s" and "i < 4" and "\<forall>j < 4. \<not> ac_bIsSelected (config_of s j)"
    and "ac_bIsActive (config_of s i)"
  shows "table_ok s'"
  using assms(1) unfolding select_source_def
  by (rule update_ok) (use assms in \<open>auto simp: entry_typed_def\<close>)

lemma select_op_ok:
  assumes "iUpdate_AudioScrSelected E i b s = (r, s')" and ok: "table_ok s"
  shows "table_ok s'"
proof (cases "i < 4 \<and> bAudioSrcMutexesInitialized s")
  case False
  with assms show ?thesis by (auto simp: iUpdate_AudioScrSelected_def eNUMBER_OF_AUDIO_SOURCES_def split: if_splits)
next
  case True
  obtain rl s1 where l: "take_lock E kMutex_AudioSrcSelection s = (rl, s1)" by fastforce
  have ok1: "table_ok s1" using only_ok [OF via_only [OF l]] ok by simp
  let ?p = "eFind_SelectedAudioSrc s1"
  obtain r2 s2 where l2: "iLock_AudioSources E (if b then ?p else i) i s1 = (r2, s2)" by fastforce
  note only2 = lock_only [OF l2]
  have ok2: "table_ok s2" using only_ok [OF only2] ok1 by simp
  have p2: "eFind_SelectedAudioSrc s2 = ?p" using lfs_onlyD(4) [OF only2] .
  note run = assms(1) [unfolded iUpdate_AudioScrSelected_def Let_def l prod.case]
  show ?thesis
  proof (cases "rl \<noteq> 0 \<or> (b \<and> ?p = i) \<or> r2 \<noteq> 0")
    case stop: True
    with run True l2 ok ok1 ok2 show ?thesis by (auto simp: eNUMBER_OF_AUDIO_SOURCES_def split: if_splits)
  next
    case go: False
    show ?thesis
    proof (cases b)
      case False
      have "s' = s2 \<or> (ac_bIsSelected (config_of s2 i) \<and> unselect_source E i s2 = (r, s'))"
        using run True go False l2 by (auto simp: eNUMBER_OF_AUDIO_SOURCES_def split: if_splits)
      then show ?thesis using ok2 unselect_ok True by blast
    next
      case b: True
      obtain r3 s3 where u: "unselect_previous E ?p s2 = (r3, s3)" by fastforce
      have step: "s' = s2 \<or> s' = s3 \<or> (ac_bIsActive (config_of s2 i) \<and> r3 = 0 \<and> select_source E i s3 = (r, s'))"
        using run True go b l2 u by (auto simp: eNUMBER_OF_AUDIO_SOURCES_def split: if_splits)
      have ok3: "table_ok s3" and none: "r3 = 0 \<Longrightarrow> (\<forall>j < 4. \<not> ac_bIsSelected (config_of s3 j))
          \<and> (\<forall>j < 4. ac_bIsActive (config_of s3 j) = ac_bIsActive (config_of s2 j))"
      proof -
        show "table_ok s3"
          using u unselect_ok [of ?p s2 r3 s3] ok2 find_selected(1) [OF ok2] p2
          by (auto simp: unselect_previous_def eNUMBER_OF_AUDIO_SOURCES_def split: if_splits)
        show "(\<forall>j < 4. \<not> ac_bIsSelected (config_of s3 j)) \<and> (\<forall>j < 4. ac_bIsActive (config_of s3 j) = ac_bIsActive (config_of s2 j))" if "r3 = 0"
        proof (cases "?p < 4")
          case True
          with u that have "unselect_source E ?p s2 = (0, s3)" by (simp add: unselect_previous_def eNUMBER_OF_AUDIO_SOURCES_def)
          with unselect_none [OF this ok2 True] find_selected(1) [OF ok2] p2 True show ?thesis by auto
        next
          case False
          with u that find_selected(2) [OF ok2] p2 show ?thesis by (auto simp: unselect_previous_def eNUMBER_OF_AUDIO_SOURCES_def)
        qed
      qed
      from step show ?thesis using ok2 ok3 none select_ok [of i s3 r s'] True by auto
    qed
  qed
qed

lemma mute_op_ok:
  assumes "bUpdate_AudioSrcMuteStatus E i m s = (b, s')" and ok: "table_ok s"
  shows "table_ok s'"
proof (cases "i < 4 \<and> bAudioSrcMutexesInitialized s")
  case False
  with assms show ?thesis by (auto simp: bUpdate_AudioSrcMuteStatus_def eNUMBER_OF_AUDIO_SOURCES_def split: if_splits)
next
  case True
  obtain rl s1 where l: "iLock_AudioSourceAccess E i s = (rl, s1)" by fastforce
  have ok1: "table_ok s1" using only_ok [OF access_only(1) [OF l]] ok by simp
  let ?old = "ac_bIsMute (config_of s1 i)"
  obtain r2 s2 where w: "update_and_save E i (ac_bIsMute_update (\<lambda>_. m)) (ac_bIsMute_update (\<lambda>_. ?old)) s1 = (r2, s2)" by fastforce
  have ok2: "table_ok s2" by (rule update_ok [OF w ok1]) (use True ok1 selected_unique [OF ok1, of i] in \<open>auto simp: entry_typed_def table_ok_def selection_ok_def\<close>)
  obtain u3 s3 where u3: "iUnLock_AudioSourceAccess E i s2 = (u3, s3)" by fastforce
  obtain u4 s4 where u4: "iUnLock_AudioSourceAccess E i s1 = (u4, s4)" by fastforce
  have "s' = s1 \<or> s' = s3 \<or> s' = s4"
    using assms(1) True l w u3 u4 by (auto simp: bUpdate_AudioSrcMuteStatus_def eNUMBER_OF_AUDIO_SOURCES_def Let_def split: if_splits)
  with ok1 ok2 only_ok [OF access_only(2) [OF u3]] only_ok [OF access_only(2) [OF u4]] show ?thesis by auto
qed

lemma volume_op_ok:
  assumes "iUpdate_AudioSrcVolume E i v s = (r, s')" and ok: "table_ok s"
  shows "table_ok s'"
proof (cases "i < 4 \<and> unat v \<le> 100 \<and> bAudioSrcMutexesInitialized s")
  case False
  with assms show ?thesis
    by (auto simp: iUpdate_AudioSrcVolume_def eNUMBER_OF_AUDIO_SOURCES_def SELECTED_AUDIO_SRC_MAX_VOLUME_def split: if_splits)
next
  case True
  obtain rl s1 where l: "iLock_AudioSources E i i s = (rl, s1)" by fastforce
  have ok1: "table_ok s1" using only_ok [OF lock_only [OF l]] ok by simp
  let ?old = "ac_uiVolume (config_of s1 i)"
  obtain r2 s2 where w: "update_and_save E i (ac_uiVolume_update (\<lambda>_. ucast v)) (ac_uiVolume_update (\<lambda>_. ?old)) s1 = (r2, s2)" by fastforce
  have "unat (ucast v :: u16) = unat v" by (rule unat_ucast_up) simp
  then have ok2: "table_ok s2"
    by (intro update_ok [OF w ok1]) (use True ok1 selected_unique [OF ok1, of i] in \<open>auto simp: entry_typed_def table_ok_def selection_ok_def\<close>)
  have "s' = s1 \<or> s' = s2"
    using assms(1) True l w
    by (auto simp: iUpdate_AudioSrcVolume_def eNUMBER_OF_AUDIO_SOURCES_def SELECTED_AUDIO_SRC_MAX_VOLUME_def Let_def split: if_splits)
  with ok1 ok2 show ?thesis by auto
qed

lemma config_typed: "config_ok i c \<Longrightarrow> entry_typed i (vCopy_AudioSrcConfiguration d c)"
  by (simp add: config_ok_def entry_typed_def vCopy_AudioSrcConfiguration_def)

lemma copy_simps [simp]:
  "ac_bIsSelected (vCopy_AudioSrcConfiguration d c) = ac_bIsSelected c" "ac_bIsActive (vCopy_AudioSrcConfiguration d c) = ac_bIsActive c"
  by (simp_all add: vCopy_AudioSrcConfiguration_def)

lemma record_op_ok:
  assumes "iUpdate_AudioSrcConfigurations E (Some d) n i s = (r, s')" and ok: "table_ok s" and d: "length d = 48"
  shows "table_ok s'"
proof (cases "unat n = 48 \<and> i < 4 \<and> bAudioSrcMutexesInitialized s
    \<and> bDecode_AudioSourceConfiguration (crc32_ieee E) (bytes_record d) i \<noteq> None \<and> length (source_path i) < MAX_FILE_PATH_LENGTH")
  case False
  with assms show ?thesis
    by (auto simp: iUpdate_AudioSrcConfigurations_def eNUMBER_OF_AUDIO_SOURCES_def AUDIO_SOURCE_CONFIG_RECORD_SIZE_def Let_def
        split: if_splits option.splits)
next
  case True
  then obtain c where c: "bDecode_AudioSourceConfiguration (crc32_ieee E) (bytes_record d) i = Some c" by auto
  have cok: "config_ok i c" by (rule decode_config_ok [OF c typed_of_bytes [OF d]])
  obtain rl s1 where l: "take_lock E kMutex_AudioSrcSelection s = (rl, s1)" by fastforce
  have ok1: "table_ok s1" using only_ok [OF via_only [OF l]] ok by simp
  obtain r2 s2 where l2: "iLock_AudioSources E i i s1 = (r2, s2)" by fastforce
  have ok2: "table_ok s2" using only_ok [OF lock_only [OF l2]] ok1 by simp
  obtain r3 s3 where w: "write_source E i (record_bytes (bytes_record d)) s2 = (r3, s3)" by fastforce
  have ok3: "table_ok s3" using only_ok [OF write_only [OF w]] ok2 by simp
  have same: "staAudioSrcConfigs s3 = staAudioSrcConfigs s2" by (rule lfs_onlyD(1) [OF write_only [OF w]])
  have n: "n \<noteq> 0" using True by auto
  let ?clash = "ac_bIsSelected c \<and> eFind_SelectedAudioSrc s2 < 4 \<and> eFind_SelectedAudioSrc s2 \<noteq> i"
  let ?f = "\<lambda>old. vCopy_AudioSrcConfiguration old c"
  have "s' = s1 \<or> s' = s2 \<or> s' = s3 \<or> (\<not> ?clash \<and> s' = on_config i ?f s3)"
    using assms(1) True n c l l2 w d
    by (auto simp: iUpdate_AudioSrcConfigurations_def eNUMBER_OF_AUDIO_SOURCES_def AUDIO_SOURCE_CONFIG_RECORD_SIZE_def Let_def split: if_splits)
  moreover have "table_ok (on_config i ?f s3)" if "\<not> ?clash"
  proof -
    have "table_typed (on_config i ?f s3)" by (rule on_config_typed) (use True ok3 config_typed [OF cok] in \<open>auto simp: table_ok_def\<close>)
    moreover have "selection_ok (on_config i ?f s3)"
    proof (rule on_config_selection)
      show "ac_bIsSelected (?f (config_of s3 i)) \<longrightarrow> ac_bIsActive (?f (config_of s3 i)) \<and> (\<forall>j<4. ac_bIsSelected (config_of s3 j) \<longrightarrow> j = i)"
      proof (intro impI conjI allI)
        fix j assume "ac_bIsSelected (?f (config_of s3 i))" "j < 4" "ac_bIsSelected (config_of s3 j)"
        with that find_is [OF ok2, of j] same show "j = i" by simp
      qed (use cok in \<open>simp add: config_ok_def\<close>)
    qed (use True ok3 in \<open>auto simp: table_ok_def\<close>)
    ultimately show ?thesis by (simp add: table_ok_def)
  qed
  ultimately show ?thesis using ok1 ok2 ok3 by auto
qed

text \<open>What a file holds.\<close>

abbreviation file_at :: "string \<Rightarrow> 'w audio_sys \<Rightarrow> u8 list option" where
  "file_at q s \<equiv> content q (lfs_world (au_lfs s))"

lemma take_lock_file: "take_lock E m s = (r, s') \<Longrightarrow> file_at q s' = file_at q s"
  by (auto simp: via_def split: prod.splits dest!: io_world audio_lock_keeps [where q = q])

lemma lock_sources_file: "lock_sources E is s = (r, s') \<Longrightarrow> file_at q s' = file_at q s"
proof (induction "is" arbitrary: s)
  case (Cons i "is")
  obtain rl t where l: "take_lock E (staAudioSrcMutexes i) s = (rl, t)" by fastforce
  from Cons(2) l have "s' = t \<or> lock_sources E is t = (r, s')" by (auto split: if_splits)
  with Cons(1) take_lock_file [OF l] show ?case by auto
qed simp

lemma lock_file: "iLock_AudioSources E a b s = (r, s') \<Longrightarrow> file_at q s' = file_at q s"
  using lock_sources_file by (simp add: iLock_AudioSources_def)

lemma access_file:
  "iLock_AudioSourceAccess E i s = (r, s') \<Longrightarrow> file_at q s' = file_at q s"
  "iUnLock_AudioSourceAccess E i s = (r, s') \<Longrightarrow> file_at q s' = file_at q s"
  by (auto simp: iLock_AudioSourceAccess_def iUnLock_AudioSourceAccess_def via_def split: if_splits prod.splits
      dest!: io_world audio_lock_keeps [where q = q] audio_unlock_keeps [where q = q])

lemma init_mutexes_file: "init_mutexes E is s = (b, s') \<Longrightarrow> file_at q s' = file_at q s"
proof (induction "is" arbitrary: s)
  case (Cons i "is")
  obtain rl t where l: "via (io (audio_mutex_init E i)) s = (rl, t)" by fastforce
  have "file_at q t = file_at q s"
    using l by (auto simp: via_def split: prod.splits dest!: io_world audio_init_keeps [where q = q])
  moreover from Cons(2) l have "s' = t \<or> init_mutexes E is t = (b, s')" by (auto split: if_splits)
  ultimately show ?case using Cons(1) by auto
qed simp

lemma init_mutexes_only: "init_mutexes E is s = (b, s') \<Longrightarrow> lfs_only s s'"
proof (induction "is" arbitrary: s)
  case (Cons i "is")
  obtain rl t where l: "via (io (audio_mutex_init E i)) s = (rl, t)" by fastforce
  from Cons(2) l have "s' = t \<or> init_mutexes E is t = (b, s')" by (auto split: if_splits)
  with Cons(1) via_only [OF l] show ?case using lfs_only_trans by blast
qed simp

lemma read_configs_result:
  assumes "read_configs E is s = (cs, s')"
  shows "lfs_only s s' \<and> (\<forall>q. file_at q s' = file_at q s) \<and> (\<forall>xs. cs = Some xs \<longrightarrow> length xs = length is
    \<and> (\<forall>k < length is. \<exists>c. config_ok (is ! k) c \<and> xs ! k = c\<lparr>ac_eBleState := eBleState_Disconnect\<rparr>
        \<and> file_at (source_path (is ! k)) s = Some (record_bytes (the (bEncode_AudioSrcConfiguration (crc32_ieee E) c)))))"
  using assms
proof (induction "is" arbitrary: s cs)
  case (Cons i "is")
  obtain r bs t where rd: "via (iRead_FromFileBin E (Some (source_path i)) True AUDIO_SOURCE_CONFIG_RECORD_SIZE) s = ((r, bs), t)"
    by (metis surj_pair)
  note only = via_only [OF rd]
  have io: "iRead_FromFileBin E (Some (source_path i)) True AUDIO_SOURCE_CONFIG_RECORD_SIZE (au_lfs s) = ((r, bs), au_lfs t)"
    using rd by (auto simp: via_def split: prod.splits)
  note eff = iRead_effect [OF io]
  have same: "file_at q t = file_at q s" for q using iRead_effect [OF io] by blast
  show ?case
  proof (cases "length (source_path i) \<ge> MAX_FILE_PATH_LENGTH \<or> r \<noteq> 0 \<or> bDecode_AudioSourceConfiguration (crc32_ieee E) (bytes_record bs) i = None")
    case True
    then have "read_config E i s = (None, s) \<or> read_config E i s = (None, t)" using rd by (auto simp: read_config_def)
    with Cons(2) only same show ?thesis by auto
  next
    case False
    then obtain c where c: "bDecode_AudioSourceConfiguration (crc32_ieee E) (bytes_record bs) i = Some c" by auto
    have "read_config E i s = (Some (c\<lparr>ac_eBleState := eBleState_Disconnect\<rparr>), t)" using rd False c by (simp add: read_config_def)
    with Cons(2) obtain ys where rest: "read_configs E is t = (ys, s')"
      and run: "cs = map_option ((#) (c\<lparr>ac_eBleState := eBleState_Disconnect\<rparr>)) ys"
      by (cases "read_configs E is t") auto
    have bs: "length bs = 48" "content (source_path i) (lfs_world (au_lfs s)) = Some bs"
      using eff False by (auto simp: AUDIO_SOURCE_CONFIG_RECORD_SIZE_def)
    have head: "config_ok i c" "content (source_path i) (lfs_world (au_lfs s)) = Some (record_bytes (the (bEncode_AudioSrcConfiguration (crc32_ieee E) c)))"
      using decode_config_ok [OF c typed_of_bytes [OF bs(1)]] encode_decoded [OF c typed_of_bytes [OF bs(1)]] bs by simp_all
    note ih = Cons(1) [OF rest]
    show ?thesis
    proof (intro conjI allI impI)
      show "lfs_only s s'" using ih only lfs_only_trans by blast
    next
      fix q show "file_at q s' = file_at q s" using ih same by auto
    next
      fix xs assume "cs = Some xs"
      then obtain zs where zs: "ys = Some zs" "xs = c\<lparr>ac_eBleState := eBleState_Disconnect\<rparr> # zs" using run by auto
      then show "length xs = length (i # is)" using ih by auto
      fix k assume k: "k < length (i # is)"
      show "\<exists>c. config_ok ((i # is) ! k) c \<and> xs ! k = c\<lparr>ac_eBleState := eBleState_Disconnect\<rparr>
          \<and> file_at (source_path ((i # is) ! k)) s = Some (record_bytes (the (bEncode_AudioSrcConfiguration (crc32_ieee E) c)))"
        using ih head zs k same by (cases k) auto
    qed
  qed
qed simp

text \<open>A load that succeeds: what was in the files is in the table, the Bluetooth states apart.\<close>

lemma load_result:
  assumes "bLoad_AudioConfigurations E s = (b, s')"
  shows "(\<forall>q. file_at q s' = file_at q s) \<and> (\<not> b \<longrightarrow> staAudioSrcConfigs s' = staAudioSrcConfigs s) \<and> (b \<longrightarrow> (\<exists>cs. length cs = 4 \<and> bValidate_AllSourceConfigurations cs
    \<and> staAudioSrcConfigs s' = map2 vCopy_AudioSrcConfiguration (staAudioSrcConfigs s) cs
    \<and> (\<forall>k < 4. \<exists>c. config_ok k c \<and> cs ! k = c\<lparr>ac_eBleState := eBleState_Disconnect\<rparr>
        \<and> file_at (source_path k) s = Some (record_bytes (the (bEncode_AudioSrcConfiguration (crc32_ieee E) c))))))"
proof -
  obtain ok s1 where m: "bInit_AudioSrcMutexes E s = (ok, s1)" by fastforce
  obtain b0 s0 where m0: "init_mutexes E [0..<eNUMBER_OF_AUDIO_SOURCES] s = (b0, s0)" by fastforce
  have s1: "staAudioSrcConfigs s1 = staAudioSrcConfigs s" "file_at q s1 = file_at q s" for q
    using m m0 lfs_onlyD(1) [OF init_mutexes_only [OF m0]] init_mutexes_file [OF m0, of q]
    by (auto simp: bInit_AudioSrcMutexes_def split: if_splits)
  let ?s1 = "s1\<lparr>bConfigurationsLoaded := False\<rparr>"
  obtain cs s2 where rd: "read_configs E [0..<eNUMBER_OF_AUDIO_SOURCES] ?s1 = (cs, s2)" by fastforce
  note res = read_configs_result [OF rd]
  have s2: "staAudioSrcConfigs s2 = staAudioSrcConfigs s" "file_at q s2 = file_at q s" for q
    using res s1 lfs_onlyD(1) [of ?s1 s2] by auto
  obtain rl s3 where l: "take_lock E kMutex_AudioSrcSelection s2 = (rl, s3)" by fastforce
  have s3: "staAudioSrcConfigs s3 = staAudioSrcConfigs s" "file_at q s3 = file_at q s" for q
    using lfs_onlyD(1) [OF via_only [OF l]] take_lock_file [OF l] s2 by simp_all
  obtain rl2 s4 where l2: "lock_sources E [0..<eNUMBER_OF_AUDIO_SOURCES] s3 = (rl2, s4)" by fastforce
  have s4: "staAudioSrcConfigs s4 = staAudioSrcConfigs s" "file_at q s4 = file_at q s" for q
    using lfs_onlyD(1) [OF lock_sources_only [OF l2]] lock_sources_file [OF l2] s3 by simp_all
  show ?thesis
  proof (cases b)
    case False
    with assms m rd l l2 s1 s2 s3 s4 show ?thesis
      by (auto simp: bLoad_AudioConfigurations_def Let_def split: if_splits option.splits)
  next
    case True
    with assms m rd l l2 obtain xs where cs: "cs = Some xs" and v: "bValidate_AllSourceConfigurations xs"
      and s': "s' = s4\<lparr>staAudioSrcConfigs := map2 vCopy_AudioSrcConfiguration (staAudioSrcConfigs s4) xs, bConfigurationsLoaded := True\<rparr>"
      by (auto simp: bLoad_AudioConfigurations_def Let_def split: if_splits option.splits)
    have n: "[0..<eNUMBER_OF_AUDIO_SOURCES] ! k = k" if "k < 4" for k using that by (simp add: eNUMBER_OF_AUDIO_SOURCES_def)
    have len: "length [0..<eNUMBER_OF_AUDIO_SOURCES] = 4" by (simp add: eNUMBER_OF_AUDIO_SOURCES_def)
    have "length xs = 4" using res cs len by simp
    moreover have "\<exists>c. config_ok k c \<and> xs ! k = c\<lparr>ac_eBleState := eBleState_Disconnect\<rparr>
        \<and> file_at (source_path k) s = Some (record_bytes (the (bEncode_AudioSrcConfiguration (crc32_ieee E) c)))" if "k < 4" for k
      using res cs len n [OF that] that s1 by (metis audio_sys.select_convs(4) audio_sys.surjective audio_sys.update_convs(2))
    ultimately show ?thesis using v s' s4 True by auto
  qed
qed

lemma validated_unique:
  assumes "bValidate_AllSourceConfigurations cs" and "i < length cs" and "j < length cs" and "ac_bIsSelected (cs ! i)" and "ac_bIsSelected (cs ! j)"
  shows "i = j"
proof (rule ccontr)
  assume n: "i \<noteq> j"
  have "card {k. k < length cs \<and> ac_bIsSelected (cs ! k)} \<le> 1"
    using assms(1) by (simp add: bValidate_AllSourceConfigurations_def length_filter_conv_card)
  moreover have "card {i, j} \<le> card {k. k < length cs \<and> ac_bIsSelected (cs ! k)}" using assms by (intro card_mono) auto
  ultimately show False using n by simp
qed

lemma load_op_ok:
  assumes "bLoad_AudioConfigurations E s = (b, s')" and ok: "table_ok s"
  shows "table_ok s'"
proof (cases b)
  case False
  with load_result [OF assms(1)] ok show ?thesis by (simp add: table_ok_def table_typed_def selection_ok_def)
next
  case True
  with load_result [OF assms(1)] obtain cs where cs: "length cs = 4" "bValidate_AllSourceConfigurations cs"
      "staAudioSrcConfigs s' = map2 vCopy_AudioSrcConfiguration (staAudioSrcConfigs s) cs"
    and each: "\<forall>k < 4. \<exists>c. config_ok k c \<and> cs ! k = c\<lparr>ac_eBleState := eBleState_Disconnect\<rparr>" by blast
  have len: "length (staAudioSrcConfigs s) = 4" using ok by (simp add: table_ok_def table_typed_def)
  have nth: "config_of s' k = vCopy_AudioSrcConfiguration (config_of s k) (cs ! k)" if "k < 4" for k using cs len that by simp
  have "config_ok k (cs ! k)" if "k < 4" for k using each that by (force simp: config_ok_def)
  then have "entry_typed k (config_of s' k)" "ac_bIsSelected (config_of s' k) \<longrightarrow> ac_bIsActive (config_of s' k)" if "k < 4" for k
    using that config_typed [of k "cs ! k"] by (simp_all add: nth) (simp add: config_ok_def)
  moreover have "ac_bIsSelected (config_of s' i) \<and> ac_bIsSelected (config_of s' j) \<longrightarrow> i = j" if "i < 4" "j < 4" for i j
    using validated_unique [OF cs(2), of i j] cs(1) that by (simp add: nth)
  ultimately show ?thesis using cs(1,3) len by (simp add: table_ok_def table_typed_def selection_ok_def)
qed

lemma ble_op_ok:
  assumes "bSet_BleConnectionState st s = (b, s')" and ok: "table_ok s"
  shows "table_ok s'"
proof -
  let ?i = "eGet_BluetoothSource s"
  have "s' = s \<or> (?i < 4 \<and> s' = on_config ?i (ac_eBleState_update (\<lambda>_. st)) s)"
    using assms(1) by (auto simp: bSet_BleConnectionState_def eNUMBER_OF_AUDIO_SOURCES_def Let_def split: if_splits)
  then show ?thesis
  proof
    assume r: "?i < 4 \<and> s' = on_config ?i (ac_eBleState_update (\<lambda>_. st)) s"
    have "table_typed s'" using r ok by (auto intro!: on_config_typed simp: table_ok_def entry_typed_def)
    moreover have "selection_ok (on_config ?i (ac_eBleState_update (\<lambda>_. st)) s)"
      by (rule on_config_selection) (use r ok selected_unique [OF ok, of ?i] in \<open>auto simp: table_ok_def selection_ok_def\<close>)
    ultimately show ?thesis using r by (simp add: table_ok_def)
  qed (use ok in simp)
qed

lemma reach_table_ok: "audio_reach E s \<Longrightarrow> table_ok s"
proof (induction rule: audio_reach.induct)
  case (areach_boot s)
  then show ?case by (auto simp: audio_boot_def table_ok_def table_typed_def selection_ok_def entry_typed_def zero_config_def)
next
  case (areach_files s s')
  then show ?case by (simp add: only_ok)
next
  case (areach_load s b s')
  then show ?case using load_op_ok by blast
next
  case (areach_mute s i m b s')
  then show ?case using mute_op_ok by blast
next
  case (areach_volume s i v r s')
  then show ?case using volume_op_ok by blast
next
  case (areach_select s i b r s')
  then show ?case using select_op_ok by blast
next
  case (areach_record s d n i r s')
  then show ?case using record_op_ok by blast
next
  case (areach_ble s st b s')
  then show ?case using ble_op_ok by blast
qed

subsection \<open>The files follow the table\<close>

abbreviation config_bytes :: "sT_AudioSourceConfig_t \<Rightarrow> u8 list" where
  "config_bytes c \<equiv> record_bytes (the (bEncode_AudioSrcConfiguration (crc32_ieee E) c))"

definition in_step :: "'w audio_sys \<Rightarrow> bool" where
  "in_step s \<longleftrightarrow> table_ok s \<and> (\<forall>i < 4. config_ok i (config_of s i) \<and> file_at (source_path i) s = Some (config_bytes (config_of s i)))"

lemma encode_some: "config_ok i c \<Longrightarrow> \<exists>r. bEncode_AudioSrcConfiguration k c = Some r \<and> record_typed r"
proof -
  assume ok: "config_ok i c"
  then obtain r where r: "bEncode_AudioSrcConfiguration k c = Some r"
    by (auto simp: config_ok_def bEncode_AudioSrcConfiguration_def AUDIO_SOURCE_CONFIG_NAME_SIZE_def SELECTED_AUDIO_SRC_MAX_VOLUME_def Let_def)
  with encode_typed [OF r] ok show ?thesis by (simp add: config_ok_def)
qed

lemma decode_config_bytes:
  assumes "config_ok i c"
  shows "bDecode_AudioSourceConfiguration (crc32_ieee E) (bytes_record (config_bytes c)) i = Some (c\<lparr>ac_eBleState := eBleState_None\<rparr>)"
    and "length (config_bytes c) = 48"
proof -
  obtain r where r: "bEncode_AudioSrcConfiguration (crc32_ieee E) c = Some r" "record_typed r" using encode_some [OF assms] by blast
  have ok: "length (ac_caSrcName c) = 24" "ac_eSrcId c < 4" "ac_eSrcType c \<noteq> eAudioSrc_Type_None" "ac_bIsSelected c \<longrightarrow> ac_bIsActive c"
    "ac_eSrcId c = i" "name_array (name_length (ac_caSrcName c)) (ac_caSrcName c) = ac_caSrcName c"
    using assms by (simp_all add: config_ok_def)
  from decode_encoded [OF r(1) ok(1-4)] ok(5,6) r show "bDecode_AudioSourceConfiguration (crc32_ieee E) (bytes_record (config_bytes c)) i = Some (c\<lparr>ac_eBleState := eBleState_None\<rparr>)"
    by simp
  show "length (config_bytes c) = 48" using r length_record_bytes by simp
qed

lemma config_bytes_inj: "config_ok i c \<Longrightarrow> config_ok i d \<Longrightarrow> config_bytes c = config_bytes d \<Longrightarrow> c\<lparr>ac_eBleState := b\<rparr> = d\<lparr>ac_eBleState := b\<rparr>"
  using decode_config_bytes(1) [of i c] decode_config_bytes(1) [of i d]
  by (metis option.inject sT_AudioSourceConfig_t.update_convs(7) sT_AudioSourceConfig_t.surjective sT_AudioSourceConfig_t.ext_inject)

lemma source_path_inj: "i < 4 \<Longrightarrow> j < 4 \<Longrightarrow> source_path i = source_path j \<longleftrightarrow> i = j"
proof -
  assume "i < 4" "j < 4"
  then have "i \<in> {0, 1, 2, 3}" "j \<in> {0, 1, 2, 3}" by auto
  then show ?thesis by (auto simp: source_path_def dec02_def digit_def)
qed

lemma write_source_effect:
  assumes "write_source E i d s = (r, s')"
  shows "q \<noteq> source_path i \<Longrightarrow> file_at q s' = file_at q s" and "r = 0 \<Longrightarrow> file_at (source_path i) s' = Some d"
proof -
  have w: "iWrite_ToFileBin E (Some (source_path i)) (Some d) (length d) (length d) (au_lfs s) = (r, au_lfs s')"
    using assms by (auto simp: write_source_def via_def split: prod.splits)
  show "q \<noteq> source_path i \<Longrightarrow> file_at q s' = file_at q s" "r = 0 \<Longrightarrow> file_at (source_path i) s' = Some d"
    using iWrite_effect [OF w] by auto
qed

lemma save_effect:
  assumes "iUpdate_AudioSrcFile E c s = (r, s')"
  shows "q \<noteq> source_path (ac_eSrcId c) \<Longrightarrow> file_at q s' = file_at q s"
    and "r = 0 \<Longrightarrow> file_at (source_path (ac_eSrcId c)) s' = Some (config_bytes c)"
  using assms write_source_effect [of "ac_eSrcId c" _ s r s']
  by (auto simp: iUpdate_AudioSrcFile_def EBADE_def EBADF_def split: option.splits if_splits)

lemma update_effect:
  assumes "update_and_save E i f back s = (r, s')" and step: "in_step s" and i: "i < 4"
    and undo: "back (f (config_of s i)) = config_of s i" and ok: "config_ok i (f (config_of s i))"
  shows "\<forall>j < 4. j \<noteq> i \<longrightarrow> config_of s' j = config_of s j \<and> file_at (source_path j) s' = file_at (source_path j) s"
    and "r = 0 \<longrightarrow> config_of s' i = f (config_of s i) \<and> file_at (source_path i) s' = Some (config_bytes (f (config_of s i)))"
    and "r \<noteq> 0 \<longrightarrow> config_of s' i = config_of s i"
proof -
  have len: "length (staAudioSrcConfigs s) = 4" using step by (simp add: in_step_def table_ok_def table_typed_def)
  have id: "ac_eSrcId (f (config_of s i)) = i" using ok by (simp add: config_ok_def)
  obtain q t where w: "iUpdate_AudioSrcFile E (f (config_of s i)) (on_config i f s) = (q, t)" by fastforce
  have run: "r = q" "s' = (if q \<noteq> 0 then on_config i back t else t)"
    using assms(1) w len i by (auto simp: update_and_save_def Let_def)
  have tab: "staAudioSrcConfigs t = (staAudioSrcConfigs s)[i := f (config_of s i)]" using lfs_onlyD(1) [OF file_only [OF w]] by simp
  have files: "file_at (source_path j) t = file_at (source_path j) s" if "j < 4" "j \<noteq> i" for j
    using save_effect(1) [OF w] source_path_inj [OF that(1) i] that(2) by (simp add: id)
  show "\<forall>j < 4. j \<noteq> i \<longrightarrow> config_of s' j = config_of s j \<and> file_at (source_path j) s' = file_at (source_path j) s"
    using run tab files len i by (auto simp: nth_list_update)
  show "r = 0 \<longrightarrow> config_of s' i = f (config_of s i) \<and> file_at (source_path i) s' = Some (config_bytes (f (config_of s i)))"
    using run tab save_effect(2) [OF w] len i by (auto simp: id)
  show "r \<noteq> 0 \<longrightarrow> config_of s' i = config_of s i" using run tab undo len i by auto
qed

lemma update_in_step:
  assumes "update_and_save E i f back s = (0, s')" and "in_step s" and "i < 4"
    and "back (f (config_of s i)) = config_of s i" and "config_ok i (f (config_of s i))" and "table_ok s'"
  shows "in_step s'"
proof -
  note eff = update_effect [OF assms(1-5)]
  have "config_ok j (config_of s' j) \<and> file_at (source_path j) s' = Some (config_bytes (config_of s' j))" if "j < 4" for j
    using eff that assms(2,5) by (cases "j = i") (auto simp: in_step_def)
  with assms(6) show ?thesis by (simp add: in_step_def)
qed

text \<open>What keeps table and files of the four sources keeps them in step.\<close>

lemma same_in_step:
  "staAudioSrcConfigs s' = staAudioSrcConfigs s \<Longrightarrow> (\<And>k. k < 4 \<Longrightarrow> file_at (source_path k) s' = file_at (source_path k) s) \<Longrightarrow> in_step s' = in_step s"
  by (simp add: in_step_def table_ok_def table_typed_def selection_ok_def)

lemma lock_in_step: "iLock_AudioSources E a b s = (r, s') \<Longrightarrow> in_step s' = in_step s"
  using lfs_onlyD(1) [OF lock_only] lock_file by (intro same_in_step) blast+

lemma take_lock_in_step: "take_lock E m s = (r, s') \<Longrightarrow> in_step s' = in_step s"
  by (rule same_in_step [OF lfs_onlyD(1) [OF via_only] take_lock_file])

lemma access_in_step:
  "iLock_AudioSourceAccess E i s = (r, s') \<Longrightarrow> in_step s' = in_step s" "iUnLock_AudioSourceAccess E i s = (r, s') \<Longrightarrow> in_step s' = in_step s"
  using lfs_onlyD(1) [OF access_only(1)] lfs_onlyD(1) [OF access_only(2)] access_file by (intro same_in_step; blast)+

lemma mute_in_step:
  assumes "bUpdate_AudioSrcMuteStatus E i m s = (True, s')" and step: "in_step s"
  shows "in_step s'"
proof -
  have i: "i < 4" and init: "bAudioSrcMutexesInitialized s"
    using assms(1) by (auto simp: bUpdate_AudioSrcMuteStatus_def eNUMBER_OF_AUDIO_SOURCES_def split: if_splits)
  obtain rl s1 where l: "iLock_AudioSourceAccess E i s = (rl, s1)" by fastforce
  have step1: "in_step s1" using access_in_step(1) [OF l] step by simp
  let ?old = "ac_bIsMute (config_of s1 i)"
  obtain r2 s2 where w: "update_and_save E i (ac_bIsMute_update (\<lambda>_. m)) (ac_bIsMute_update (\<lambda>_. ?old)) s1 = (r2, s2)" by fastforce
  obtain u3 s3 where u3: "iUnLock_AudioSourceAccess E i s2 = (u3, s3)" by fastforce
  obtain u4 s4 where u4: "iUnLock_AudioSourceAccess E i s1 = (u4, s4)" by fastforce
  have "s' = s4 \<or> (r2 = 0 \<and> s' = s3)"
    using assms(1) i init l w u3 u4 by (auto simp: bUpdate_AudioSrcMuteStatus_def eNUMBER_OF_AUDIO_SOURCES_def Let_def split: if_splits)
  moreover have "in_step s2" if "r2 = 0"
  proof (rule update_in_step [OF w [unfolded that] step1 i])
    show "table_ok s2" by (rule update_ok [OF w]) (use step1 i selected_unique [of s1 i] in \<open>auto simp: in_step_def config_ok_def entry_typed_def\<close>)
  qed (use step1 i in \<open>auto simp: in_step_def config_ok_def\<close>)
  ultimately show ?thesis using access_in_step(2) [OF u3] access_in_step(2) [OF u4] step1 by auto
qed

lemma volume_in_step:
  assumes "iUpdate_AudioSrcVolume E i v s = (0, s')" and step: "in_step s"
  shows "in_step s'"
proof -
  have i: "i < 4" and v: "unat v \<le> 100" and init: "bAudioSrcMutexesInitialized s"
    using assms(1) by (auto simp: iUpdate_AudioSrcVolume_def eNUMBER_OF_AUDIO_SOURCES_def SELECTED_AUDIO_SRC_MAX_VOLUME_def errno_defs split: if_splits)
  obtain rl s1 where l: "iLock_AudioSources E i i s = (rl, s1)" by fastforce
  have step1: "in_step s1" using lock_in_step [OF l] step by simp
  let ?old = "ac_uiVolume (config_of s1 i)"
  obtain r2 s2 where w: "update_and_save E i (ac_uiVolume_update (\<lambda>_. ucast v)) (ac_uiVolume_update (\<lambda>_. ?old)) s1 = (r2, s2)" by fastforce
  have uv: "unat (ucast v :: u16) = unat v" by (rule unat_ucast_up) simp
  have "s' = s1 \<or> (r2 = 0 \<and> s' = s2)"
    using assms(1) i v init l w
    by (auto simp: iUpdate_AudioSrcVolume_def eNUMBER_OF_AUDIO_SOURCES_def SELECTED_AUDIO_SRC_MAX_VOLUME_def Let_def split: if_splits)
  moreover have "in_step s2" if "r2 = 0"
  proof (rule update_in_step [OF w [unfolded that] step1 i])
    show "table_ok s2" by (rule update_ok [OF w]) (use step1 i v uv selected_unique [of s1 i] in \<open>auto simp: in_step_def config_ok_def entry_typed_def\<close>)
  qed (use step1 i v uv in \<open>auto simp: in_step_def config_ok_def\<close>)
  ultimately show ?thesis using step1 by auto
qed

lemma unselect_in_step:
  assumes "unselect_source E i s = (0, s')" and step: "in_step s" and "i < 4" and "ac_bIsSelected (config_of s i)"
  shows "in_step s'"
proof (rule update_in_step [OF assms(1) [unfolded unselect_source_def] step assms(3)])
  show "table_ok s'" by (rule unselect_ok [OF assms(1)]) (use assms in \<open>auto simp: in_step_def\<close>)
qed (use assms in \<open>auto simp: in_step_def config_ok_def\<close>)

lemma select_in_step:
  assumes "select_source E i s = (0, s')" and step: "in_step s" and i: "i < 4" and "\<forall>j < 4. \<not> ac_bIsSelected (config_of s j)"
    and "ac_bIsActive (config_of s i)"
  shows "in_step s'"
proof (rule update_in_step [OF assms(1) [unfolded select_source_def] step i])
  show "table_ok s'" by (rule select_ok [OF assms(1)]) (use assms in \<open>auto simp: in_step_def\<close>)
  show "ac_bIsSelected_update (\<lambda>_. False) (ac_bIsSelected_update (\<lambda>_. True) (config_of s i)) = config_of s i"
    using assms(4) i by (cases "config_of s i") auto
qed (use assms in \<open>auto simp: in_step_def config_ok_def\<close>)

end

end
