(* ===== verification/Audio_Run.thy ===== *)
theory Audio_Run
  imports Audio_Persistence
begin

text \<open>
  Runs of the audio configuration: a load and updates that report success. What is configured is read back
  by the next start, and a loss of power between the writes of a selection never leaves two selected files.
\<close>

subsection \<open>Runs and selected files\<close>

text \<open>A load, updates that report success, and changes of other files.\<close>

inductive audio_run :: "('w, 'z) audio_services_scheme \<Rightarrow> (string \<Rightarrow> 'w \<Rightarrow> u8 list option) \<Rightarrow> 'w audio_sys \<Rightarrow> bool"
  for E :: "('w, 'z) audio_services_scheme" and content :: "string \<Rightarrow> 'w \<Rightarrow> u8 list option" where
  run_load: "audio_reach E s \<Longrightarrow> bLoad_AudioConfigurations E s = (True, s') \<Longrightarrow> audio_run E content s'"
| run_mute: "audio_run E content s \<Longrightarrow> bUpdate_AudioSrcMuteStatus E i m s = (True, s') \<Longrightarrow> audio_run E content s'"
| run_volume: "audio_run E content s \<Longrightarrow> iUpdate_AudioSrcVolume E i v s = (0, s') \<Longrightarrow> audio_run E content s'"
| run_select: "audio_run E content s \<Longrightarrow> iUpdate_AudioScrSelected E i b s = (0, s') \<Longrightarrow> audio_run E content s'"
| run_record: "audio_run E content s \<Longrightarrow> length d = 48 \<Longrightarrow> iUpdate_AudioSrcConfigurations E (Some d) n i s = (0, s') \<Longrightarrow>
    audio_run E content s'"
| run_ble: "audio_run E content s \<Longrightarrow> bSet_BleConnectionState st s = (b, s') \<Longrightarrow> audio_run E content s'"
| run_files: "audio_run E content s \<Longrightarrow> lfs_only s s' \<Longrightarrow>
    (\<forall>k < 4. content (source_path k) (lfs_world (au_lfs s')) = content (source_path k) (lfs_world (au_lfs s))) \<Longrightarrow> audio_run E content s'"

text \<open>A file that the next start takes for a selected source.\<close>

definition file_selected :: "('w, 'z) audio_services_scheme \<Rightarrow> (string \<Rightarrow> 'w \<Rightarrow> u8 list option) \<Rightarrow> nat \<Rightarrow> 'w audio_sys \<Rightarrow> bool" where
  "file_selected E content k s \<longleftrightarrow> (\<exists>bs c. content (source_path k) (lfs_world (au_lfs s)) = Some bs \<and> length bs = 48
     \<and> bDecode_AudioSourceConfiguration (crc32_ieee E) (bytes_record bs) k = Some c \<and> ac_bIsSelected c)"

definition one_file_selected :: "('w, 'z) audio_services_scheme \<Rightarrow> (string \<Rightarrow> 'w \<Rightarrow> u8 list option) \<Rightarrow> 'w audio_sys \<Rightarrow> bool" where
  "one_file_selected E content s \<longleftrightarrow>
     (\<forall>j < 4. \<forall>k < 4. file_selected E content j s \<and> file_selected E content k s \<longrightarrow> j = k)"

context audio_env
begin

subsection \<open>The selection\<close>

text \<open>The steps of a selection that gets to its writes.\<close>

lemma select_steps:
  assumes "iUpdate_AudioScrSelected E i b s = (r, s')" and step: "in_step s"
  obtains "in_step s'"
    | t where "in_step t" "i < 4" "ac_bIsSelected (config_of t i)" "unselect_source E i t = (r, s')"
    | t r3 u where "in_step t" "i < 4" "ac_bIsActive (config_of t i)" "i \<noteq> eFind_SelectedAudioSrc t"
        "unselect_previous E (eFind_SelectedAudioSrc t) t = (r3, u)"
        "r3 \<noteq> 0 \<and> r = r3 \<and> s' = u \<or> r3 = 0 \<and> select_source E i u = (r, s')"
proof -
  show thesis
  proof (cases "i < 4 \<and> bAudioSrcMutexesInitialized s")
    case False
    with assms have "s' = s" by (auto simp: iUpdate_AudioScrSelected_def eNUMBER_OF_AUDIO_SOURCES_def split: if_splits)
    with step that(1) show thesis by simp
  next
    case True
    obtain rl s1 where l: "take_lock E kMutex_AudioSrcSelection s = (rl, s1)" by fastforce
    have step1: "in_step s1" using take_lock_in_step [OF l] step by simp
    let ?p = "eFind_SelectedAudioSrc s1"
    obtain r2 s2 where l2: "iLock_AudioSources E (if b then ?p else i) i s1 = (r2, s2)" by fastforce
    have step2: "in_step s2" using lock_in_step [OF l2] step1 by simp
    have p2: "eFind_SelectedAudioSrc s2 = ?p" using lfs_onlyD(4) [OF lock_only [OF l2]] .
    note run = assms(1) [unfolded iUpdate_AudioScrSelected_def Let_def l prod.case]
    show thesis
    proof (cases "rl \<noteq> 0 \<or> (b \<and> ?p = i) \<or> r2 \<noteq> 0 \<or> (b \<and> \<not> ac_bIsActive (config_of s2 i)) \<or> (\<not> b \<and> \<not> ac_bIsSelected (config_of s2 i))")
      case stop: True
      with run True l2 step step1 step2 have "in_step s'" by (auto simp: eNUMBER_OF_AUDIO_SOURCES_def split: if_splits)
      then show thesis by (rule that(1))
    next
      case go: False
      show thesis
      proof (cases b)
        case False
        with run True go l2 have "unselect_source E i s2 = (r, s')" by (auto simp: eNUMBER_OF_AUDIO_SOURCES_def split: if_splits)
        with step2 True go False that(2) show thesis by blast
      next
        case b: True
        obtain r3 u where u: "unselect_previous E ?p s2 = (r3, u)" by fastforce
        have "r3 \<noteq> 0 \<and> r = r3 \<and> s' = u \<or> r3 = 0 \<and> select_source E i u = (r, s')"
          using run True go b l2 u by (auto simp: eNUMBER_OF_AUDIO_SOURCES_def split: if_splits)
        with step2 True go b p2 u that(3) [of s2 r3 u] show thesis by auto
      qed
    qed
  qed
qed

text \<open>Behind the first write nothing is selected, and everything is in step.\<close>

lemma unselect_previous_done:
  assumes "unselect_previous E (eFind_SelectedAudioSrc t) t = (0, u)" and step: "in_step t"
  shows "in_step u" and "\<forall>j < 4. \<not> ac_bIsSelected (config_of u j)" and "\<forall>j < 4. ac_bIsActive (config_of u j) = ac_bIsActive (config_of t j)"
proof -
  let ?p = "eFind_SelectedAudioSrc t"
  have ok: "table_ok t" using step by (simp add: in_step_def)
  have "in_step u \<and> (\<forall>j < 4. \<not> ac_bIsSelected (config_of u j)) \<and> (\<forall>j < 4. ac_bIsActive (config_of u j) = ac_bIsActive (config_of t j))"
  proof (cases "?p < 4")
    case True
    with assms(1) have un: "unselect_source E ?p t = (0, u)" by (simp add: unselect_previous_def eNUMBER_OF_AUDIO_SOURCES_def)
    note sel = find_selected(1) [OF ok True]
    from unselect_in_step [OF un step True sel] unselect_none [OF un ok True sel] show ?thesis by blast
  next
    case False
    with assms step find_selected(2) [OF ok False] show ?thesis by (auto simp: unselect_previous_def eNUMBER_OF_AUDIO_SOURCES_def)
  qed
  then show "in_step u" "\<forall>j < 4. \<not> ac_bIsSelected (config_of u j)" "\<forall>j < 4. ac_bIsActive (config_of u j) = ac_bIsActive (config_of t j)"
    by blast+
qed

lemma select_op_in_step:
  assumes "iUpdate_AudioScrSelected E i b s = (0, s')" and step: "in_step s"
  shows "in_step s'"
  using assms
proof (cases rule: select_steps)
  case 1
  then show ?thesis .
next
  case (2 t)
  then show ?thesis using unselect_in_step by blast
next
  case (3 t r3 u)
  then have r3: "r3 = 0" and sel: "select_source E i u = (0, s')" by auto
  note un = unselect_previous_done [OF 3(5) [unfolded r3] 3(1)]
  show ?thesis by (rule select_in_step [OF sel un(1) 3(2) un(2)]) (use un(3) 3(2,3) in blast)
qed

lemma file_selected_iff: "in_step s \<Longrightarrow> k < 4 \<Longrightarrow> file_selected E content k s \<longleftrightarrow> ac_bIsSelected (config_of s k)"
  using decode_config_bytes [of k "config_of s k"] by (auto simp: in_step_def file_selected_def)

lemma in_step_one: "in_step s \<Longrightarrow> one_file_selected E content s"
  using selected_unique [of s] by (auto simp: one_file_selected_def file_selected_iff in_step_def)

text \<open>A change of one file when no other is selected.\<close>

lemma one_change:
  assumes "in_step s" and "i < 4" and "\<forall>j < 4. j \<noteq> i \<longrightarrow> file_at (source_path j) s' = file_at (source_path j) s"
    and "\<forall>j < 4. j \<noteq> i \<longrightarrow> \<not> ac_bIsSelected (config_of s j)"
  shows "one_file_selected E content s'"
proof -
  have "\<not> file_selected E content j s'" if "j < 4" "j \<noteq> i" for j
  proof -
    have "file_selected E content j s' = file_selected E content j s" using assms(3) that by (simp add: file_selected_def)
    with file_selected_iff [OF assms(1) that(1)] assms(4) that show ?thesis by simp
  qed
  then show ?thesis by (auto simp: one_file_selected_def)
qed

lemma selected_update:
  assumes "update_and_save E i (ac_bIsSelected_update (\<lambda>_. b)) (ac_bIsSelected_update (\<lambda>_. \<not> b)) s = (r, s')" and "in_step s" and "i < 4"
    and "ac_bIsSelected (config_of s i) = (\<not> b)" and "b \<longrightarrow> ac_bIsActive (config_of s i)"
  shows "\<forall>j < 4. j \<noteq> i \<longrightarrow> file_at (source_path j) s' = file_at (source_path j) s"
proof -
  have "ac_bIsSelected_update (\<lambda>_. \<not> b) (ac_bIsSelected_update (\<lambda>_. b) (config_of s i)) = config_of s i"
    using assms(4) by (cases "config_of s i") auto
  moreover have "config_ok i (ac_bIsSelected_update (\<lambda>_. b) (config_of s i))" using assms(2,3,5) by (auto simp: in_step_def config_ok_def)
  ultimately show ?thesis using update_effect(1) [OF assms(1-3)] by blast
qed

lemma unselect_one:
  assumes "unselect_source E i s = (r, s')" and step: "in_step s" and i: "i < 4" and sel: "ac_bIsSelected (config_of s i)"
  shows "one_file_selected E content s'"
proof (rule one_change [OF step i])
  show "\<forall>j < 4. j \<noteq> i \<longrightarrow> file_at (source_path j) s' = file_at (source_path j) s"
    using selected_update [of i False s r s'] assms by (simp add: unselect_source_def)
  show "\<forall>j < 4. j \<noteq> i \<longrightarrow> \<not> ac_bIsSelected (config_of s j)"
    using selected_unique [OF _ i sel] step unfolding in_step_def by blast
qed

lemma previous_one:
  assumes "unselect_previous E (eFind_SelectedAudioSrc t) t = (r, u)" and step: "in_step t"
  shows "one_file_selected E content u"
proof (cases "eFind_SelectedAudioSrc t < 4")
  case True
  with assms have "unselect_source E (eFind_SelectedAudioSrc t) t = (r, u)" by (simp add: unselect_previous_def eNUMBER_OF_AUDIO_SOURCES_def)
  then show ?thesis by (rule unselect_one) (use step True find_selected(1) in \<open>auto simp: in_step_def\<close>)
next
  case False
  with assms in_step_one show ?thesis by (auto simp: unselect_previous_def eNUMBER_OF_AUDIO_SOURCES_def)
qed

lemma select_op_one:
  assumes "iUpdate_AudioScrSelected E i b s = (r, s')" and step: "in_step s"
  shows "one_file_selected E content s'"
  using assms
proof (cases rule: select_steps)
  case 1
  then show ?thesis by (rule in_step_one)
next
  case (2 t)
  then show ?thesis using unselect_one by blast
next
  case (3 t r3 u)
  show ?thesis
  proof (cases "r3 = 0")
    case False
    with 3 previous_one show ?thesis by blast
  next
    case True
    note un = unselect_previous_done [OF 3(5) [unfolded True] 3(1)]
    have sel: "select_source E i u = (r, s')" using 3(6) True by simp
    show ?thesis
    proof (rule one_change [OF un(1) 3(2)])
      show "\<forall>j < 4. j \<noteq> i \<longrightarrow> file_at (source_path j) s' = file_at (source_path j) u"
        using selected_update [of i True u r s'] sel un 3(2,3) by (simp add: select_source_def)
    qed (use un(2) in blast)
  qed
qed

subsection \<open>Records, loads and Bluetooth states\<close>

lemma encode_ble: "bEncode_AudioSrcConfiguration k (c\<lparr>ac_eBleState := b\<rparr>) = bEncode_AudioSrcConfiguration k c"
proof -
  have "unsigned_record (c\<lparr>ac_eBleState := b\<rparr>) = unsigned_record c" by (simp add: unsigned_record_def config_flags_def)
  then show ?thesis by (simp add: bEncode_AudioSrcConfiguration_def Let_def)
qed

lemma copy_eq: "vCopy_AudioSrcConfiguration d c = c\<lparr>ac_eBleState := ac_eBleState d\<rparr>"
  by (simp add: vCopy_AudioSrcConfiguration_def)

lemma copy_ok: "config_ok i c \<Longrightarrow> config_ok i (vCopy_AudioSrcConfiguration d c)"
  by (simp add: copy_eq config_ok_def)

lemma copy_bytes: "config_bytes (vCopy_AudioSrcConfiguration d c) = config_bytes c"
  by (simp add: copy_eq encode_ble)

lemma record_in_step:
  assumes run: "iUpdate_AudioSrcConfigurations E (Some d) n i s = (0, s')" and d: "length d = 48" and step: "in_step s"
  shows "in_step s'"
proof -
  have i: "i < 4" and n: "unat n = 48" and init: "bAudioSrcMutexesInitialized s"
    and "bDecode_AudioSourceConfiguration (crc32_ieee E) (bytes_record d) i \<noteq> None" and sp: "\<not> length (source_path i) \<ge> MAX_FILE_PATH_LENGTH"
    using run d by (auto simp: iUpdate_AudioSrcConfigurations_def eNUMBER_OF_AUDIO_SOURCES_def AUDIO_SOURCE_CONFIG_RECORD_SIZE_def
        errno_defs Let_def split: if_splits option.splits)
  then obtain c where c: "bDecode_AudioSourceConfiguration (crc32_ieee E) (bytes_record d) i = Some c" by auto
  have cok: "config_ok i c" by (rule decode_config_ok [OF c typed_of_bytes [OF d]])
  have bytes: "config_bytes c = d" using encode_decoded [OF c typed_of_bytes [OF d]] d by simp
  obtain rl s1 where l: "take_lock E kMutex_AudioSrcSelection s = (rl, s1)" by fastforce
  obtain r2 s2 where l2: "iLock_AudioSources E i i s1 = (r2, s2)" by fastforce
  have step2: "in_step s2" using lock_in_step [OF l2] take_lock_in_step [OF l] step by simp
  obtain r3 s3 where w: "write_source E i (record_bytes (bytes_record d)) s2 = (r3, s3)" by fastforce
  have n0: "n \<noteq> 0" using n by auto
  have w0: "r3 = 0" and s': "s' = on_config i (\<lambda>old. vCopy_AudioSrcConfiguration old c) s3"
    using run i n n0 init sp c l l2 w d
    by (auto simp: iUpdate_AudioSrcConfigurations_def eNUMBER_OF_AUDIO_SOURCES_def AUDIO_SOURCE_CONFIG_RECORD_SIZE_def
        errno_defs Let_def split: if_splits)
  have tab: "staAudioSrcConfigs s3 = staAudioSrcConfigs s2" by (rule lfs_onlyD(1) [OF write_only [OF w]])
  have len: "length (staAudioSrcConfigs s3) = 4" using step2 tab by (simp add: in_step_def table_ok_def table_typed_def)
  have "config_ok j (config_of s' j) \<and> file_at (source_path j) s' = Some (config_bytes (config_of s' j))" if j: "j < 4" for j
  proof (cases "j = i")
    case True
    then show ?thesis using len j copy_ok [OF cok] copy_bytes [of _ c] bytes write_source_effect(2) [OF w w0] d by (simp add: s')
  next
    case False
    then have "file_at (source_path j) s' = file_at (source_path j) s2"
      using write_source_effect(1) [OF w] source_path_inj [OF j i] by (simp add: s')
    with False step2 tab j show ?thesis by (simp add: s' in_step_def)
  qed
  moreover have "table_ok s'" by (rule record_op_ok [OF run _ d]) (use step in \<open>simp add: in_step_def\<close>)
  ultimately show ?thesis by (simp add: in_step_def)
qed

lemma load_in_step:
  assumes run: "bLoad_AudioConfigurations E s = (True, s')" and ok: "table_ok s"
  shows "in_step s'"
proof -
  from load_result [OF run] obtain cs where cs: "length cs = 4" "staAudioSrcConfigs s' = map2 vCopy_AudioSrcConfiguration (staAudioSrcConfigs s) cs"
    and each: "\<forall>k < 4. \<exists>c. config_ok k c \<and> cs ! k = c\<lparr>ac_eBleState := eBleState_Disconnect\<rparr> \<and> file_at (source_path k) s = Some (config_bytes c)"
    and same: "\<forall>q. file_at q s' = file_at q s" by auto
  have len: "length (staAudioSrcConfigs s) = 4" using ok by (simp add: table_ok_def table_typed_def)
  have "config_ok k (config_of s' k) \<and> file_at (source_path k) s' = Some (config_bytes (config_of s' k))" if k: "k < 4" for k
  proof -
    obtain c where c: "config_ok k c" "cs ! k = c\<lparr>ac_eBleState := eBleState_Disconnect\<rparr>" "file_at (source_path k) s = Some (config_bytes c)"
      using each k by blast
    have "config_of s' k = vCopy_AudioSrcConfiguration (config_of s k) c" using cs len k c(2) by (simp add: copy_eq)
    with copy_ok [OF c(1)] copy_bytes [of _ c] c(3) same show ?thesis by simp
  qed
  with load_op_ok [OF run ok] show ?thesis by (simp add: in_step_def)
qed

lemma ble_in_step:
  assumes "bSet_BleConnectionState st s = (b, s')" and step: "in_step s"
  shows "in_step s'"
proof -
  let ?i = "eGet_BluetoothSource s"
  have ok: "table_ok s" and len: "length (staAudioSrcConfigs s) = 4" using step by (auto simp: in_step_def table_ok_def table_typed_def)
  have "s' = s \<or> (?i < 4 \<and> s' = on_config ?i (ac_eBleState_update (\<lambda>_. st)) s)"
    using assms(1) by (auto simp: bSet_BleConnectionState_def eNUMBER_OF_AUDIO_SOURCES_def Let_def split: if_splits)
  then show ?thesis
  proof
    assume r: "?i < 4 \<and> s' = on_config ?i (ac_eBleState_update (\<lambda>_. st)) s"
    have "config_ok j (config_of s' j) \<and> file_at (source_path j) s' = Some (config_bytes (config_of s' j))" if j: "j < 4" for j
      using r step j len by (cases "j = ?i") (auto simp: in_step_def config_ok_def encode_ble)
    with ble_op_ok [OF assms(1) ok] show ?thesis by (simp add: in_step_def)
  qed (use step in simp)
qed

text \<open>A start on two selected files fails.\<close>

lemma two_selected:
  assumes "file_selected E content j s" and "j < 4" and "file_selected E content k s" and "k < 4" and "j \<noteq> k"
  shows "\<not> fst (bLoad_AudioConfigurations E s)"
proof
  assume "fst (bLoad_AudioConfigurations E s)"
  then obtain s' where run: "bLoad_AudioConfigurations E s = (True, s')" by (cases "bLoad_AudioConfigurations E s") auto
  from load_result [OF run] obtain cs where cs: "length cs = 4" "bValidate_AllSourceConfigurations cs"
    and each: "\<forall>k < 4. \<exists>c. config_ok k c \<and> cs ! k = c\<lparr>ac_eBleState := eBleState_Disconnect\<rparr> \<and> file_at (source_path k) s = Some (config_bytes c)"
    by auto
  have "ac_bIsSelected (cs ! i)" if sel: "file_selected E content i s" and i: "i < 4" for i
  proof -
    obtain c where c: "config_ok i c" "cs ! i = c\<lparr>ac_eBleState := eBleState_Disconnect\<rparr>" "file_at (source_path i) s = Some (config_bytes c)"
      using each i by blast
    with sel decode_config_bytes(1) [OF c(1)] show ?thesis by (auto simp: file_selected_def)
  qed
  with assms validated_unique [OF cs(2), of j k] cs(1) show False by simp
qed

subsection \<open>Runs and restarts\<close>

lemma run_in_step: "audio_run E content s \<Longrightarrow> in_step s"
proof (induction rule: audio_run.induct)
  case (run_load s s')
  then show ?case using load_in_step reach_table_ok by blast
next
  case (run_mute s i m s')
  then show ?case using mute_in_step by blast
next
  case (run_volume s i v s')
  then show ?case using volume_in_step by blast
next
  case (run_select s i b s')
  then show ?case using select_op_in_step by blast
next
  case (run_record s d n i s')
  then show ?case using record_in_step by blast
next
  case (run_ble s st b s')
  then show ?case using ble_in_step by blast
next
  case (run_files s s')
  then show ?case using same_in_step [of s' s] lfs_onlyD(1) by blast
qed

lemma restart:
  assumes run: "audio_run E content s" and boot: "audio_boot t" and files: "\<forall>k < 4. file_at (source_path k) t = file_at (source_path k) s"
    and load: "bLoad_AudioConfigurations E t = (True, t')" and k: "k < 4"
  shows "config_of t' k = (config_of s k)\<lparr>ac_eBleState := eBleState_None\<rparr>"
proof -
  have step: "in_step s" by (rule run_in_step [OF run])
  from load_result [OF load] obtain cs where cs: "length cs = 4" "staAudioSrcConfigs t' = map2 vCopy_AudioSrcConfiguration (staAudioSrcConfigs t) cs"
    and each: "\<forall>k < 4. \<exists>c. config_ok k c \<and> cs ! k = c\<lparr>ac_eBleState := eBleState_Disconnect\<rparr> \<and> file_at (source_path k) t = Some (config_bytes c)"
    by auto
  obtain c where c: "config_ok k c" "cs ! k = c\<lparr>ac_eBleState := eBleState_Disconnect\<rparr>" "file_at (source_path k) t = Some (config_bytes c)"
    using each k by blast
  have "config_ok k (config_of s k)" "config_bytes c = config_bytes (config_of s k)"
    using step k files c(3) by (auto simp: in_step_def)
  from config_bytes_inj [OF c(1) this] have eq: "c\<lparr>ac_eBleState := eBleState_None\<rparr> = (config_of s k)\<lparr>ac_eBleState := eBleState_None\<rparr>" .
  have "config_of t k = zero_config" "length (staAudioSrcConfigs t) = 4" using boot k by (simp_all add: audio_boot_def)
  then have "config_of t' k = c\<lparr>ac_eBleState := eBleState_None\<rparr>" using cs c(2) k by (simp add: copy_eq zero_config_def)
  with eq show ?thesis by simp
qed

end

end
