(* ===== verification/Audio_Demo.thy ===== *)
theory Audio_Demo
  imports Audio_Run Lfs_Ram
begin

text \<open>
  Runs of the audio configuration on the file system in memory, for the witnesses of the properties. The checksum
  is a simple hash: the model leaves the CRC-32 open.
\<close>

subsection \<open>Runs\<close>

definition demo_crc :: "u8 list \<Rightarrow> u32" where
  "demo_crc b = foldl (\<lambda>h x. h * 31 + ucast x) 7 b"

text \<open>The file system in memory, whose sync of one open file may fail.\<close>

definition ram_audio :: "nat option \<Rightarrow> ram audio_services" where
  "ram_audio bad = \<lparr>fs_mount = Pair 0, fs_stat = ram_stat, fs_open = ram_open_file, fs_read = ram_read, fs_write = ram_write,
     fs_sync = (\<lambda>h. Pair (if bad = Some h then - EIO else 0)), fs_close = ram_close, fs_unlink = ram_unlink, fs_mkdir = ram_mkdir,
     fs_opendir = ram_opendir, fs_readdir = ram_readdir, fs_closedir = (\<lambda>h. Pair 0),
     lfs_mutex_lock = (\<lambda>m. Pair 0), lfs_uptime_32 = Pair 0,
     audio_lock = (\<lambda>m. Pair 0), audio_unlock = (\<lambda>m. Pair 0), audio_mutex_init = (\<lambda>i. Pair 0), crc32_ieee = demo_crc\<rparr>"

lemma ram_audio_simps [simp]:
  "fs_mount (ram_audio bad) = Pair 0" "fs_stat (ram_audio bad) = ram_stat" "fs_open (ram_audio bad) = ram_open_file"
  "fs_read (ram_audio bad) = ram_read" "fs_write (ram_audio bad) = ram_write"
  "fs_sync (ram_audio bad) = (\<lambda>h. Pair (if bad = Some h then - EIO else 0))" "fs_close (ram_audio bad) = ram_close"
  "fs_unlink (ram_audio bad) = ram_unlink" "fs_mkdir (ram_audio bad) = ram_mkdir" "fs_opendir (ram_audio bad) = ram_opendir"
  "fs_readdir (ram_audio bad) = ram_readdir" "fs_closedir (ram_audio bad) = (\<lambda>h. Pair 0)" "lfs_mutex_lock (ram_audio bad) = (\<lambda>m. Pair 0)"
  "lfs_uptime_32 (ram_audio bad) = Pair 0" "audio_lock (ram_audio bad) = (\<lambda>m. Pair 0)" "audio_unlock (ram_audio bad) = (\<lambda>m. Pair 0)"
  "audio_mutex_init (ram_audio bad) = (\<lambda>i. Pair 0)" "crc32_ieee (ram_audio bad) = demo_crc"
  by (simp_all add: ram_audio_def)

interpretation ram_env: audio_env "ram_audio bad" ram_content ram_opened for bad
  by unfold_locales
    (auto simp: ram_defs zero_dirent_def errno_defs Let_def min_def split: option.splits if_splits fs_mode.splits list.splits)

lemma ram_audio_env: "audio_env (ram_audio bad) ram_content ram_opened"
  by (rule ram_env.audio_env_axioms)

text \<open>Four sources, the first of them selected, the fourth inactive, and their files.\<close>

definition demo_config :: "nat \<Rightarrow> sT_AudioSourceConfig_t" where
  "demo_config k = \<lparr>ac_eSrcId = k, ac_eSrcType = (if k = 3 then eAudioSrc_Type_Bluetooth else eAudioSrc_Type_Wired),
     ac_caSrcName = [84, 86, 48 + of_nat k] @ replicate 21 0, ac_bIsActive = (k \<noteq> 3), ac_bIsMute = False, ac_bIsSelected = (k = 0),
     ac_eBleState = eBleState_None, ac_uiVolume = 40\<rparr>"

abbreviation ram_bytes :: "sT_AudioSourceConfig_t \<Rightarrow> u8 list" where
  "ram_bytes c \<equiv> record_bytes (the (bEncode_AudioSrcConfiguration demo_crc c))"

definition audio_ram :: ram where
  "audio_ram = \<lparr>ram_files = map_of (map (\<lambda>k. (source_path k, ram_bytes (demo_config k))) [0, 1, 2, 3]),
     ram_paths = map source_path [0, 1, 2, 3],
     ram_dirs = [''/lfs'', ''/lfs/Config''], ram_open = (\<lambda>_. None), ram_next = 0, ram_lists = (\<lambda>_. []), ram_dnext = 0\<rparr>"

definition audio_catalog :: "sT_FileInfo_t list" where
  "audio_catalog = map (\<lambda>i. \<lparr>fi_caFileName = drop 12 (source_path i), fi_caFilePath = source_path i, fi_uiFileNameLen = 13, fi_uiFileSize = 48\<rparr>)
     [0, 1, 2, 3]"

definition audio_lfs :: "ram lfs_sys" where
  "audio_lfs = \<lparr>stTBulkDataCtrl = \<lparr>bc_eTransferState = eFileTransfer_Idle, bc_eFileType = eFile_Error, bc_pcaDirPath = '''',
       bc_pcaTotalFilePath = '''', bc_uiFileSize = 0, bc_uiReceivedSize = 0, bc_uiAcceptedSize = 0, bc_uiNextFrameId = 0,
       bc_uiRunningCRC = 0, bc_uiCRC = 0, bc_uiOffset = 0, bc_uiLastActivityTime_ms = 0, bc_bMsgQ_Initialized = False,
       bc_bMsg_ThreadInitialized = False, bc_eError = eErrorState_None, bc_bFileOpen = False, bc_stTFileData = 0\<rparr>,
     stTFileCatalog = audio_catalog, stMsgQueue_FileTransfer = [], kSem_BulkWorkerDone = 0, bulk_worker_runs = False,
     bulk_work_submitted = False, lfs_world = audio_ram\<rparr>"

definition boot_with :: "'w lfs_sys \<Rightarrow> 'w audio_sys" where
  "boot_with l = \<lparr>staAudioSrcConfigs = replicate 4 zero_config, bConfigurationsLoaded = False, bAudioSrcMutexesInitialized = False, au_lfs = l\<rparr>"

lemma boot_with_boot: "audio_boot (boot_with l)"
  by (simp add: audio_boot_def boot_with_def)

subsection \<open>Reading and writing in memory\<close>

lemma ram_read_file:
  assumes "ram_files (lfs_world s) p = Some c" and "c \<noteq> []" and "\<not> bIsBulkTransferActive s" and "strip_slashes p \<notin> set (ram_dirs (lfs_world s))"
  shows "iRead_FromFileBin (ram_audio bad) (Some p) True (length c) s
    = ((0, c), s\<lparr>lfs_world := (lfs_world s)\<lparr>ram_open := (ram_open (lfs_world s))(ram_next (lfs_world s) := None),
         ram_next := ram_next (lfs_world s) + 1\<rparr>\<rparr>)"
  using assms by (simp add: iRead_FromFileBin_def io_def ram_defs zero_dirent_def read_loop.simps Let_def)

lemma ram_write_file:
  assumes "ram_files (lfs_world s) p = Some c" and "length bs = 48" and "\<not> bIsBulkTransferActive s"
    and "strip_slashes p \<notin> set (ram_dirs (lfs_world s))" and "find_path p (stTFileCatalog s) = Some i" and "fi_caFilePath (stTFileCatalog s ! i) = p"
  shows "iWrite_ToFileBin (ram_audio bad) (Some p) (Some bs) 48 48 s
    = (if bad = Some (ram_next (lfs_world s)) then - EIO else 0,
       s\<lparr>stTFileCatalog := (stTFileCatalog s)[i := (stTFileCatalog s ! i)\<lparr>fi_uiFileSize := 48\<rparr>],
         lfs_world := (lfs_world s)\<lparr>ram_files := (ram_files (lfs_world s))(p := Some bs),
           ram_open := (ram_open (lfs_world s))(ram_next (lfs_world s) := None), ram_next := ram_next (lfs_world s) + 1\<rparr>\<rparr>)"
proof -
  have ne: "bs \<noteq> []" "\<not> length bs \<le> 32" using assms(2) by auto
  have all: "take 32 bs @ drop 32 bs = bs" "take 48 bs = bs" "length (drop 32 bs) = 16" using assms(2) by simp_all
  show ?thesis using assms ne all
    by (simp add: iWrite_ToFileBin_def io_def ram_defs zero_dirent_def write_loop.simps pstGetFile_ByFilePath_def errno_defs Let_def)
qed

text \<open>The four files and their entries in the catalogue.\<close>

definition holds_files :: "(nat \<Rightarrow> u8 list) \<Rightarrow> ram audio_sys \<Rightarrow> bool" where
  "holds_files f s \<longleftrightarrow> \<not> bIsBulkTransferActive (au_lfs s) \<and> ram_dirs (lfs_world (au_lfs s)) = [''/lfs'', ''/lfs/Config'']
     \<and> (\<forall>k < 4. ram_files (lfs_world (au_lfs s)) (source_path k) = Some (f k) \<and> length (f k) = 48
          \<and> find_path (source_path k) (stTFileCatalog (au_lfs s)) = Some k)"

abbreviation opens :: "ram audio_sys \<Rightarrow> nat" where
  "opens s \<equiv> ram_next (lfs_world (au_lfs s))"

lemma source_number: "k < 4 \<Longrightarrow> k \<in> {0, 1, 2, 3::nat}"
  by auto

lemma source_no_dir: "k < 4 \<Longrightarrow> strip_slashes (source_path k) \<notin> {''/lfs'', ''/lfs/Config''}" "k < 4 \<Longrightarrow> length (source_path k) = 25"
  using source_number [of k]
  by (auto simp: source_path_def dec02_def digit_def EXT_LITTLEFS_CONFIG_DIRECTORY_def EXT_LITTLEFS_MOUNT_POINT_def strip_slashes.simps)

lemma find_path_resized: "find_path p (fs[i := (fs ! i)\<lparr>fi_uiFileSize := n\<rparr>]) = find_path p fs"
  by (induction fs arbitrary: i) (auto split: nat.splits)

lemma read_config_ram:
  assumes "holds_files f s" and i: "i < 4"
  obtains t where "read_config (ram_audio bad) i s = (map_option (ac_eBleState_update (\<lambda>_. eBleState_Disconnect))
        (bDecode_AudioSourceConfiguration demo_crc (bytes_record (f i)) i), t)"
    and "holds_files f t" and "lfs_only s t" and "opens t = Suc (opens s)"
proof -
  let ?w = "lfs_world (au_lfs s)"
  let ?l = "(au_lfs s)\<lparr>lfs_world := ?w\<lparr>ram_open := (ram_open ?w)(ram_next ?w := None), ram_next := Suc (ram_next ?w)\<rparr>\<rparr>"
  have f: "ram_files ?w (source_path i) = Some (f i)" "length (f i) = 48" "\<not> bIsBulkTransferActive (au_lfs s)"
    "ram_dirs ?w = [''/lfs'', ''/lfs/Config'']" using assms by (auto simp: holds_files_def)
  have ne: "f i \<noteq> []" using f(2) by auto
  have "iRead_FromFileBin (ram_audio bad) (Some (source_path i)) True 48 (au_lfs s) = ((0, f i), ?l)"
    using ram_read_file [OF f(1) ne f(3), of bad] source_no_dir(1) [OF i] f(2,4) by simp
  then have "read_config (ram_audio bad) i s = (map_option (ac_eBleState_update (\<lambda>_. eBleState_Disconnect))
        (bDecode_AudioSourceConfiguration demo_crc (bytes_record (f i)) i), s\<lparr>au_lfs := ?l\<rparr>)"
    using source_no_dir(2) [OF i] by (simp add: read_config_def via_def MAX_FILE_PATH_LENGTH_def AUDIO_SOURCE_CONFIG_RECORD_SIZE_def)
  then show thesis by (rule that) (use assms in \<open>auto simp: holds_files_def bIsBulkTransferActive_def eGetTransferState_def lfs_only_def\<close>)
qed

lemma write_source_ram:
  assumes "holds_files f s" and i: "i < 4" and n: "length bs = 48"
  obtains t where "write_source (ram_audio bad) i bs s = (if bad = Some (opens s) then - EIO else 0, t)"
    and "holds_files (f(i := bs)) t" and "lfs_only s t" and "opens t = Suc (opens s)"
proof -
  let ?w = "lfs_world (au_lfs s)"
  let ?l = "(au_lfs s)\<lparr>stTFileCatalog := (stTFileCatalog (au_lfs s))[i := (stTFileCatalog (au_lfs s) ! i)\<lparr>fi_uiFileSize := 48\<rparr>],
         lfs_world := ?w\<lparr>ram_files := (ram_files ?w)(source_path i := Some bs),
           ram_open := (ram_open ?w)(ram_next ?w := None), ram_next := ram_next ?w + 1\<rparr>\<rparr>"
  have f: "ram_files ?w (source_path i) = Some (f i)" "\<not> bIsBulkTransferActive (au_lfs s)" "find_path (source_path i) (stTFileCatalog (au_lfs s)) = Some i"
    "ram_dirs ?w = [''/lfs'', ''/lfs/Config'']" using assms by (auto simp: holds_files_def)
  have "strip_slashes (source_path i) \<notin> set (ram_dirs ?w)" using source_no_dir(1) [OF i] f(4) by simp
  from ram_write_file [OF f(1) n f(2) this f(3)] find_path_Some [OF f(3)]
  have "write_source (ram_audio bad) i bs s = (if bad = Some (opens s) then - EIO else 0, s\<lparr>au_lfs := ?l\<rparr>)"
    using n by (simp add: write_source_def via_def)
  then show thesis
    by (rule that) (use assms ram_env.source_path_inj [OF i] ram_env.source_path_inj [OF _ i] in
        \<open>auto simp: holds_files_def bIsBulkTransferActive_def eGetTransferState_def lfs_only_def find_path_resized\<close>)
qed

subsection \<open>Loading and selecting in memory\<close>

lemma lock_ram [simp]: "via (io (Pair r)) s = (r, s)"
  by (simp add: via_def io_def)

lemma locks_ram [simp]: "lock_sources (ram_audio bad) is s = (0, s)" "init_mutexes (ram_audio bad) is s = (True, s)"
  by (induction "is") auto

lemma locks_done_ram [simp]: "iLock_AudioSources (ram_audio bad) a b s = (0, s)"
  by (simp add: iLock_AudioSources_def)

lemma read_configs_ram:
  assumes "holds_files f s" and "\<forall>k \<in> set is. k < 4 \<and> bDecode_AudioSourceConfiguration demo_crc (bytes_record (f k)) k = Some (c k)"
  shows "\<exists>t. read_configs (ram_audio bad) is s = (Some (map (\<lambda>k. (c k)\<lparr>ac_eBleState := eBleState_Disconnect\<rparr>) is), t)
    \<and> holds_files f t \<and> lfs_only s t \<and> opens t = opens s + length is"
  using assms
proof (induction "is" arbitrary: s)
  case (Cons k ks)
  obtain t where t: "read_config (ram_audio bad) k s = (map_option (ac_eBleState_update (\<lambda>_. eBleState_Disconnect))
        (bDecode_AudioSourceConfiguration demo_crc (bytes_record (f k)) k), t)" "holds_files f t" "lfs_only s t" "opens t = Suc (opens s)"
    by (rule read_config_ram [OF Cons(2), of k bad]) (use Cons(3) in auto)
  obtain u where u: "read_configs (ram_audio bad) ks t = (Some (map (\<lambda>k. (c k)\<lparr>ac_eBleState := eBleState_Disconnect\<rparr>) ks), u)"
    "holds_files f u" "lfs_only t u" "opens u = opens t + length ks" using Cons(1) [OF t(2)] Cons(3) by auto
  have "read_configs (ram_audio bad) (k # ks) s = (Some (map (\<lambda>k. (c k)\<lparr>ac_eBleState := eBleState_Disconnect\<rparr>) (k # ks)), u)"
    using t(1) u(1) Cons(3) by simp
  moreover have "lfs_only s u" by (rule lfs_only_trans [OF t(3) u(3)])
  ultimately show ?case using u(2,4) t(4) by auto
qed simp

lemma load_ram:
  assumes "holds_files f s" and "\<forall>k < 4. bDecode_AudioSourceConfiguration demo_crc (bytes_record (f k)) k = Some (c k)"
    and "bValidate_AllSourceConfigurations (map (\<lambda>k. (c k)\<lparr>ac_eBleState := eBleState_Disconnect\<rparr>) [0..<4])"
  obtains t where "bLoad_AudioConfigurations (ram_audio bad) s = (True, t)" and "holds_files f t" and "opens t = opens s + 4"
    and "staAudioSrcConfigs t = map2 vCopy_AudioSrcConfiguration (staAudioSrcConfigs s) (map (\<lambda>k. (c k)\<lparr>ac_eBleState := eBleState_Disconnect\<rparr>) [0..<4])"
    and "bAudioSrcMutexesInitialized t"
proof -
  let ?s = "s\<lparr>bAudioSrcMutexesInitialized := True, bConfigurationsLoaded := False\<rparr>"
  have init: "bInit_AudioSrcMutexes (ram_audio bad) s = (True, s\<lparr>bAudioSrcMutexesInitialized := True\<rparr>)"
    by (cases s) (simp add: bInit_AudioSrcMutexes_def)
  have "holds_files f ?s" using assms(1) by (simp add: holds_files_def)
  from read_configs_ram [OF this, of "[0..<4]" c bad] assms(2) obtain t where
    t: "read_configs (ram_audio bad) [0..<4] ?s = (Some (map (\<lambda>k. (c k)\<lparr>ac_eBleState := eBleState_Disconnect\<rparr>) [0..<4]), t)"
      "holds_files f t" "lfs_only ?s t" "opens t = opens ?s + 4" by auto
  note only = lfs_onlyD [OF t(3)]
  show thesis
    by (rule that [of "t\<lparr>staAudioSrcConfigs := map2 vCopy_AudioSrcConfiguration (staAudioSrcConfigs t)
        (map (\<lambda>k. (c k)\<lparr>ac_eBleState := eBleState_Disconnect\<rparr>) [0..<4]), bConfigurationsLoaded := True\<rparr>"])
      (use t init only assms(3) in \<open>simp_all add: bLoad_AudioConfigurations_def eNUMBER_OF_AUDIO_SOURCES_def holds_files_def\<close>)
qed

abbreviation sync_result :: "nat option \<Rightarrow> nat \<Rightarrow> int" where
  "sync_result bad h \<equiv> if bad = Some h then - EIO else 0"

lemma update_ram:
  assumes "holds_files f s" and ok: "config_ok i (g (config_of s i))" and len: "length (staAudioSrcConfigs s) = 4"
    and undo: "back (g (config_of s i)) = config_of s i"
  obtains t where "update_and_save (ram_audio bad) i g back s = (sync_result bad (opens s), t)"
    and "holds_files (f(i := ram_bytes (g (config_of s i)))) t" and "opens t = Suc (opens s)"
    and "staAudioSrcConfigs t = (if bad = Some (opens s) then staAudioSrcConfigs s else (staAudioSrcConfigs s)[i := g (config_of s i)])"
    and "bAudioSrcMutexesInitialized t = bAudioSrcMutexesInitialized s"
proof -
  let ?c = "g (config_of s i)" and ?s = "on_config i g s"
  have i: "i < 4" using ok by (simp add: config_ok_def)
  obtain r where r: "bEncode_AudioSrcConfiguration demo_crc ?c = Some r"
    using ram_env.encode_some [OF ok] by blast
  have n: "length (record_bytes r) = 48" using ram_env.decode_config_bytes(2) [OF ok, of None] r by simp
  have "holds_files f ?s" using assms(1) by (simp add: holds_files_def)
  from write_source_ram [OF this i n, of bad] obtain u where
    u: "write_source (ram_audio bad) i (record_bytes r) ?s = (sync_result bad (opens s), u)" "holds_files (f(i := record_bytes r)) u"
      "lfs_only ?s u" "opens u = Suc (opens s)" by auto
  have save: "iUpdate_AudioSrcFile (ram_audio bad) (config_of ?s i) ?s = (sync_result bad (opens s), u)"
    using u(1) r i len source_no_dir(2) [OF i] ok by (simp add: iUpdate_AudioSrcFile_def MAX_FILE_PATH_LENGTH_def config_ok_def)
  note only = lfs_onlyD [OF u(3)]
  show thesis
    by (rule that [of "if sync_result bad (opens s) \<noteq> 0 then on_config i back u else u"])
      (use save u r only i len undo in \<open>auto simp: update_and_save_def Let_def holds_files_def errno_defs\<close>)
qed

lemma select_ram:
  assumes "holds_files f s" and init: "bAudioSrcMutexesInitialized s" and len: "length (staAudioSrcConfigs s) = 4"
    and i: "i < 4" "ac_bIsActive (config_of s i)" "config_ok i (config_of s i)" and p: "eFind_SelectedAudioSrc s = p" "p < 4" "p \<noteq> i" "config_ok p (config_of s p)"
    and bad: "bad \<noteq> Some (opens s)"
    and off: "\<not> ac_bIsSelected (config_of s i)" and on: "ac_bIsSelected (config_of s p)"
  obtains t where "iUpdate_AudioScrSelected (ram_audio bad) i True s = (sync_result bad (Suc (opens s)), t)"
    and "holds_files (f(p := ram_bytes ((config_of s p)\<lparr>ac_bIsSelected := False\<rparr>), i := ram_bytes ((config_of s i)\<lparr>ac_bIsSelected := True\<rparr>))) t"
    and "opens t = opens s + 2" and "bAudioSrcMutexesInitialized t"
    and "staAudioSrcConfigs t = (if bad = Some (Suc (opens s)) then (staAudioSrcConfigs s)[p := (config_of s p)\<lparr>ac_bIsSelected := False\<rparr>]
          else (staAudioSrcConfigs s)[p := (config_of s p)\<lparr>ac_bIsSelected := False\<rparr>, i := (config_of s i)\<lparr>ac_bIsSelected := True\<rparr>])"
proof -
  have okp: "config_ok p ((config_of s p)\<lparr>ac_bIsSelected := False\<rparr>)" and oki: "config_ok i ((config_of s i)\<lparr>ac_bIsSelected := True\<rparr>)"
    using i p by (auto simp: config_ok_def)
  have same: "(config_of s p)\<lparr>ac_bIsSelected := True\<rparr> = config_of s p" "(config_of s i)\<lparr>ac_bIsSelected := False\<rparr> = config_of s i"
    using on off by (cases "config_of s p"; cases "config_of s i"; simp)+
  obtain u where u: "unselect_source (ram_audio bad) p s = (0, u)" "holds_files (f(p := ram_bytes ((config_of s p)\<lparr>ac_bIsSelected := False\<rparr>))) u"
    "opens u = Suc (opens s)" "staAudioSrcConfigs u = (staAudioSrcConfigs s)[p := (config_of s p)\<lparr>ac_bIsSelected := False\<rparr>]"
    "bAudioSrcMutexesInitialized u"
    by (rule update_ram [OF assms(1), of p "ac_bIsSelected_update (\<lambda>_. False)" "ac_bIsSelected_update (\<lambda>_. True)" bad])
      (use okp len same init bad in \<open>simp_all add: unselect_source_def\<close>)
  have cu: "config_of u i = config_of s i" "length (staAudioSrcConfigs u) = 4" using u(4) p(3) len by simp_all
  obtain t where t: "select_source (ram_audio bad) i u = (sync_result bad (Suc (opens s)), t)"
    "holds_files (f(p := ram_bytes ((config_of s p)\<lparr>ac_bIsSelected := False\<rparr>), i := ram_bytes ((config_of s i)\<lparr>ac_bIsSelected := True\<rparr>))) t"
    "opens t = Suc (opens u)" "staAudioSrcConfigs t = (if bad = Some (opens u) then staAudioSrcConfigs u else (staAudioSrcConfigs u)[i := (config_of s i)\<lparr>ac_bIsSelected := True\<rparr>])"
    "bAudioSrcMutexesInitialized t"
    by (rule update_ram [OF u(2), of i "ac_bIsSelected_update (\<lambda>_. True)" "ac_bIsSelected_update (\<lambda>_. False)" bad])
      (use oki cu same u(3,5) in \<open>simp_all add: select_source_def\<close>)
  show thesis
    by (rule that) (use t u i p init in \<open>simp_all add: iUpdate_AudioScrSelected_def unselect_previous_def eNUMBER_OF_AUDIO_SOURCES_def Let_def split: if_split_asm\<close>)
qed

subsection \<open>The runs\<close>

lemma demo_config_ok: "k < 4 \<Longrightarrow> config_ok k (demo_config k)"
  using source_number [of k] by (auto simp: config_ok_def demo_config_def name_length_def name_array_def AUDIO_SOURCE_CONFIG_NAME_SIZE_def)

lemma demo_holds: "holds_files (\<lambda>k. ram_bytes (demo_config k)) (boot_with audio_lfs)"
proof -
  have "ram_files audio_ram (source_path k) = Some (ram_bytes (demo_config k)) \<and> find_path (source_path k) audio_catalog = Some k" if "k < 4" for k
    using source_number [OF that] by (auto simp: audio_ram_def audio_catalog_def ram_env.source_path_inj)
  with ram_env.decode_config_bytes(2) [OF demo_config_ok, of _ None] show ?thesis
    by (simp add: holds_files_def boot_with_def audio_lfs_def bIsBulkTransferActive_def eGetTransferState_def audio_ram_def)
qed

text \<open>The start on files of valid sources.\<close>

lemma load_valid:
  assumes "holds_files (\<lambda>k. ram_bytes (c k)) (boot_with l)" and ok: "\<forall>k < 4. config_ok k (c k) \<and> ac_eBleState (c k) = eBleState_None"
    and one: "\<forall>j < 4. \<forall>k < 4. ac_bIsSelected (c j) \<and> ac_bIsSelected (c k) \<longrightarrow> j = k"
  obtains t where "bLoad_AudioConfigurations (ram_audio bad) (boot_with l) = (True, t)" and "holds_files (\<lambda>k. ram_bytes (c k)) t"
    and "opens t = opens (boot_with l) + 4" and "staAudioSrcConfigs t = map c [0..<4]" and "bAudioSrcMutexesInitialized t"
proof -
  have same: "(c k)\<lparr>ac_eBleState := eBleState_None\<rparr> = c k" if "k < 4" for k using ok that by (cases "c k") auto
  have dec: "\<forall>k < 4. bDecode_AudioSourceConfiguration demo_crc (bytes_record (ram_bytes (c k))) k = Some (c k)"
  proof (intro allI impI)
    fix k :: nat assume k: "k < 4"
    note same [OF k]
    with ram_env.decode_config_bytes(1) [of k "c k" None] ok k
    show "bDecode_AudioSourceConfiguration demo_crc (bytes_record (ram_bytes (c k))) k = Some (c k)" by simp
  qed
  let ?cs = "map (\<lambda>k. (c k)\<lparr>ac_eBleState := eBleState_Disconnect\<rparr>) [0..<4]"
  have "card {k. k < length ?cs \<and> ac_bIsSelected (?cs ! k)} \<le> 1"
    using one by (auto simp: card_le_Suc0_iff_eq)
  then have val: "bValidate_AllSourceConfigurations ?cs"
    using ok by (auto simp: bValidate_AllSourceConfigurations_def length_filter_conv_card config_ok_def)
  obtain t where t: "bLoad_AudioConfigurations (ram_audio bad) (boot_with l) = (True, t)" "holds_files (\<lambda>k. ram_bytes (c k)) t"
      "opens t = opens (boot_with l) + 4" "staAudioSrcConfigs t = map2 vCopy_AudioSrcConfiguration (staAudioSrcConfigs (boot_with l)) ?cs"
      "bAudioSrcMutexesInitialized t"
    by (rule load_ram [OF assms(1) dec val, of bad])
  have "staAudioSrcConfigs t = map c [0..<4]"
    by (rule nth_equalityI) (use t(4) same in \<open>auto simp: boot_with_def zero_config_def ram_env.copy_eq\<close>)
  with t that show thesis by blast
qed

lemma boot_holds: "holds_files f s \<Longrightarrow> holds_files f (boot_with (au_lfs s))"
  by (simp add: holds_files_def boot_with_def)

lemma demo_config_simps [simp]:
  "ac_bIsSelected (demo_config k) = (k = 0)" "ac_bIsActive (demo_config k) = (k \<noteq> 3)" "ac_eBleState (demo_config k) = eBleState_None"
  "(demo_config 0)\<lparr>ac_bIsSelected := True\<rparr> = demo_config 0" "k \<noteq> 0 \<Longrightarrow> (demo_config k)\<lparr>ac_bIsSelected := False\<rparr> = demo_config k"
  by (simp_all add: demo_config_def)

text \<open>Load, select the second source, start again.\<close>

definition second_config :: "nat \<Rightarrow> sT_AudioSourceConfig_t" where
  "second_config k = (demo_config k)\<lparr>ac_bIsSelected := (k = 1)\<rparr>"

lemma second_config_simps [simp]:
  "ac_bIsSelected (second_config k) = (k = 1)" "ac_bIsActive (second_config k) = (k \<noteq> 3)" "ac_eBleState (second_config k) = eBleState_None"
  by (simp_all add: second_config_def)

lemma second_config_ok: "k < 4 \<Longrightarrow> config_ok k (second_config k)"
  using demo_config_ok [of k] by (auto simp: config_ok_def second_config_def)

lemma demo_table: "config_of s 0 = demo_config 0" "config_of s (Suc 0) = demo_config 1" "config_of s 2 = demo_config 2" "config_of s 3 = demo_config 3"
    "eFind_SelectedAudioSrc s = 0" "length (staAudioSrcConfigs s) = 4"
  if "staAudioSrcConfigs s = map demo_config [0..<4]"
  using that by (simp_all add: eFind_SelectedAudioSrc_def upt_rec numeral_2_eq_2 numeral_3_eq_3)

lemma demo_loads:
  obtains t where "bLoad_AudioConfigurations (ram_audio bad) (boot_with audio_lfs) = (True, t)" and "holds_files (\<lambda>k. ram_bytes (demo_config k)) t"
    and "opens t = 4" and "staAudioSrcConfigs t = map demo_config [0..<4]" and "bAudioSrcMutexesInitialized t"
proof (rule load_valid [OF demo_holds, of bad])
  show "\<forall>k < 4. config_ok k (demo_config k) \<and> ac_eBleState (demo_config k) = eBleState_None"
    using demo_config_ok by simp
  show "\<forall>j < 4. \<forall>k < 4. ac_bIsSelected (demo_config j) \<and> ac_bIsSelected (demo_config k) \<longrightarrow> j = k"
    by simp
qed (use that in \<open>auto simp: boot_with_def audio_lfs_def audio_ram_def\<close>)

lemma selection_runs:
  obtains s t u where "bLoad_AudioConfigurations (ram_audio None) (boot_with audio_lfs) = (True, s)"
    and "iUpdate_AudioScrSelected (ram_audio None) 1 True s = (0, t)"
    and "bLoad_AudioConfigurations (ram_audio None) (boot_with (au_lfs t)) = (True, u)"
    and "staAudioSrcConfigs t = map second_config [0..<4]"
proof -
  obtain s where s: "bLoad_AudioConfigurations (ram_audio None) (boot_with audio_lfs) = (True, s)" "holds_files (\<lambda>k. ram_bytes (demo_config k)) s"
    "opens s = 4" "staAudioSrcConfigs s = map demo_config [0..<4]" "bAudioSrcMutexesInitialized s" by (rule demo_loads)
  note tab = demo_table [OF s(4)]
  obtain t where t: "iUpdate_AudioScrSelected (ram_audio None) 1 True s = (sync_result None (Suc (opens s)), t)"
    "holds_files ((\<lambda>k. ram_bytes (demo_config k))(0 := ram_bytes ((config_of s 0)\<lparr>ac_bIsSelected := False\<rparr>),
        1 := ram_bytes ((config_of s 1)\<lparr>ac_bIsSelected := True\<rparr>))) t"
    "staAudioSrcConfigs t = (staAudioSrcConfigs s)[0 := (config_of s 0)\<lparr>ac_bIsSelected := False\<rparr>, 1 := (config_of s 1)\<lparr>ac_bIsSelected := True\<rparr>]"
    by (rule select_ram [OF s(2,5), of 1 0 None]) (use tab demo_config_ok in simp_all)
  have files: "(\<lambda>k. ram_bytes (demo_config k))(0 := ram_bytes ((config_of s 0)\<lparr>ac_bIsSelected := False\<rparr>),
        1 := ram_bytes ((config_of s 1)\<lparr>ac_bIsSelected := True\<rparr>)) = (\<lambda>k. ram_bytes (second_config k))"
    using tab by (auto simp: second_config_def)
  obtain u where "bLoad_AudioConfigurations (ram_audio None) (boot_with (au_lfs t)) = (True, u)"
    by (rule load_valid [OF boot_holds [OF t(2) [unfolded files]], of None]) (use second_config_ok in simp_all)
  moreover have "staAudioSrcConfigs t = map second_config [0..<4]"
    using t(3) s(4) by (simp add: second_config_def upt_rec)
  ultimately show thesis using s(1) t(1) that by simp
qed

text \<open>
  A selection whose write reports an error after the data is in the file. The table says that nothing is selected
  and the next selection has nothing to unselect, so two files are selected and no start accepts them.
\<close>

lemma failed_selection:
  obtains s t u where "bLoad_AudioConfigurations (ram_audio (Some 5)) (boot_with audio_lfs) = (True, s)"
    and "iUpdate_AudioScrSelected (ram_audio (Some 5)) 1 True s = (- EIO, t)"
    and "iUpdate_AudioScrSelected (ram_audio (Some 5)) 2 True t = (0, u)"
    and "fst (bLoad_AudioConfigurations (ram_audio (Some 5)) (boot_with (au_lfs u))) = False"
proof -
  obtain s where s: "bLoad_AudioConfigurations (ram_audio (Some 5)) (boot_with audio_lfs) = (True, s)" "holds_files (\<lambda>k. ram_bytes (demo_config k)) s"
    "opens s = 4" "staAudioSrcConfigs s = map demo_config [0..<4]" "bAudioSrcMutexesInitialized s" by (rule demo_loads)
  note tab = demo_table [OF s(4)]
  let ?f = "(\<lambda>k. ram_bytes (demo_config k))(0 := ram_bytes ((config_of s 0)\<lparr>ac_bIsSelected := False\<rparr>),
        1 := ram_bytes ((config_of s 1)\<lparr>ac_bIsSelected := True\<rparr>))"
  obtain t where t: "iUpdate_AudioScrSelected (ram_audio (Some 5)) 1 True s = (sync_result (Some 5) (Suc (opens s)), t)" "holds_files ?f t"
    "opens t = opens s + 2" "bAudioSrcMutexesInitialized t"
    "staAudioSrcConfigs t = (staAudioSrcConfigs s)[0 := (config_of s 0)\<lparr>ac_bIsSelected := False\<rparr>]"
    by (rule select_ram [OF s(2,5), of 1 0 "Some 5"]) (use tab s(3) demo_config_ok in simp_all)
  have none: "eFind_SelectedAudioSrc t = 4" and c2: "config_of t 2 = demo_config 2" and len: "length (staAudioSrcConfigs t) = 4"
    using t(5) tab s(4) by (simp_all add: eFind_SelectedAudioSrc_def upt_rec numeral_2_eq_2)
  obtain u where u: "select_source (ram_audio (Some 5)) 2 t = (0, u)"
      "holds_files (?f(2 := ram_bytes ((demo_config 2)\<lparr>ac_bIsSelected := True\<rparr>))) u"
    by (rule update_ram [OF t(2), of 2 "ac_bIsSelected_update (\<lambda>_. True)" "ac_bIsSelected_update (\<lambda>_. False)" "Some 5"])
      (use demo_config_ok [of 2] c2 len t(3) s(3) in \<open>simp_all add: select_source_def config_ok_def\<close>)
  have second: "iUpdate_AudioScrSelected (ram_audio (Some 5)) 2 True t = (0, u)"
    using u(1) none t(4) c2 by (simp add: iUpdate_AudioScrSelected_def unselect_previous_def eNUMBER_OF_AUDIO_SOURCES_def Let_def)
  have sel: "file_selected (ram_audio (Some 5)) ram_content k u" if k: "k = 1 \<or> k = 2" for k
  proof -
    let ?c = "(demo_config k)\<lparr>ac_bIsSelected := True\<rparr>"
    have ok: "config_ok k ?c" using demo_config_ok [of k] k by (auto simp: config_ok_def)
    have "ram_files (lfs_world (au_lfs u)) (source_path k) = Some (ram_bytes ?c)" using u(2) k tab by (auto simp: holds_files_def)
    with ram_env.decode_config_bytes [OF ok, of "Some 5"] show ?thesis by (auto simp: file_selected_def ram_content_def)
  qed
  have "file_selected (ram_audio (Some 5)) ram_content k (boot_with (au_lfs u))" if "k = 1 \<or> k = 2" for k
    using sel [OF that] by (simp add: file_selected_def boot_with_def)
  then have "\<not> fst (bLoad_AudioConfigurations (ram_audio (Some 5)) (boot_with (au_lfs u)))"
    using ram_env.two_selected [of "Some 5" 1 "boot_with (au_lfs u)" 2] by auto
  with s(1) t(1) s(3) second that show thesis by simp
qed

end
