(* ===== verification/Audio_Properties.thy ===== *)
theory Audio_Properties
  imports Audio_Demo
begin

text \<open>
  The properties of the audio source configuration, with the runs in memory as witnesses.
\<close>

lemma selection_reach:
  assumes "bLoad_AudioConfigurations E (boot_with l) = (b, s)" and "iUpdate_AudioScrSelected E i m s = (r, t)"
  shows "audio_reach E t"
  by (rule areach_select [OF areach_load [OF areach_boot [OF boot_with_boot] assms(1)] assms(2)])

lemma demo_audio_run:
  assumes "bLoad_AudioConfigurations E (boot_with l) = (True, s)" and "iUpdate_AudioScrSelected E i m s = (0, t)"
  shows "audio_run E content t"
  by (rule run_select [OF run_load [OF areach_boot [OF boot_with_boot] assms(1)] assms(2)])

text \<open>
  Property C29. In every history of loads, updates, records from the host and changes of the file system, whatever the
  outcome of each, the table has four entries; each has a name of 24 bytes, a volume of at most 100 and is unused
  or carries its own number and a known type.
\<close>

theorem aud_table_typed:
  assumes "audio_env E content opened" and "audio_reach E s"
  shows "table_typed s"
  using audio_env.reach_table_ok [OF assms] by (simp add: audio_env.table_ok_def [OF assms(1)])

theorem aud_table_typed_witness: "\<exists>t. table_typed t \<and> map ac_bIsSelected (staAudioSrcConfigs (t :: ram audio_sys)) = [False, True, False, False]"
proof (rule selection_runs)
  fix s t u
  assume "bLoad_AudioConfigurations (ram_audio None) (boot_with audio_lfs) = (True, s)" "iUpdate_AudioScrSelected (ram_audio None) 1 True s = (0, t)"
    and tab: "staAudioSrcConfigs t = map second_config [0..<4]"
  from aud_table_typed [OF ram_audio_env selection_reach [OF this(1,2)]] tab show ?thesis
    by (intro exI [of _ t]) (simp add: upt_rec)
qed

text \<open>
  Property C26. In every history at most one source is selected, and only an active one.
\<close>

theorem aud_selection_sound:
  assumes "audio_env E content opened" and "audio_reach E s" and "i < 4" and "ac_bIsSelected (config_of s i)"
  shows "ac_bIsActive (config_of s i) \<and> (\<forall>j < 4. ac_bIsSelected (config_of s j) = (j = i))"
  using audio_env.reach_table_ok [OF assms(1,2)] assms(3,4) by (auto simp: audio_env.table_ok_def [OF assms(1)] selection_ok_def)

theorem aud_selection_sound_witness:
  "\<exists>t. map ac_bIsSelected (staAudioSrcConfigs (t :: ram audio_sys)) = [False, True, False, False] \<and> ac_bIsActive (config_of t 1)"
proof (rule selection_runs)
  fix s t u
  assume "bLoad_AudioConfigurations (ram_audio None) (boot_with audio_lfs) = (True, s)" "iUpdate_AudioScrSelected (ram_audio None) 1 True s = (0, t)"
    and tab: "staAudioSrcConfigs t = map second_config [0..<4]"
  from aud_selection_sound [OF ram_audio_env selection_reach [OF this(1,2)], of 1] tab show ?thesis
    by (intro exI [of _ t]) (simp add: upt_rec)
qed

text \<open>
  Property C28. A configuration that is encoded to the 48 bytes of a record is decoded from them again, for every checksum
  function: the same up to the bytes behind the end of the name and the Bluetooth state.
\<close>

theorem aud_record_roundtrip:
  assumes "bEncode_AudioSrcConfiguration crc32 c = Some r" and "length (ac_caSrcName c) = 24" and "ac_eSrcId c < 4"
    and "ac_eSrcType c \<noteq> eAudioSrc_Type_None" and "ac_bIsSelected c \<longrightarrow> ac_bIsActive c"
  shows "length (record_bytes r) = 48 \<and> bDecode_AudioSourceConfiguration crc32 (bytes_record (record_bytes r)) (ac_eSrcId c)
    = Some (c\<lparr>ac_caSrcName := name_array (name_length (ac_caSrcName c)) (ac_caSrcName c), ac_eBleState := eBleState_None\<rparr>)"
  using decode_encoded [OF assms] encode_typed [OF assms(1,2)] length_record_bytes by simp

theorem aud_record_roundtrip_witness:
  "\<exists>r. bEncode_AudioSrcConfiguration demo_crc (demo_config 1) = Some r
     \<and> bDecode_AudioSourceConfiguration demo_crc (bytes_record (record_bytes r)) 1 = Some (demo_config 1)"
proof -
  have ok: "config_ok 1 (demo_config 1)" by (rule demo_config_ok) simp
  then obtain r where r: "bEncode_AudioSrcConfiguration demo_crc (demo_config 1) = Some r" using ram_env.encode_some by blast
  have "(demo_config 1)\<lparr>ac_caSrcName := name_array (name_length (ac_caSrcName (demo_config 1))) (ac_caSrcName (demo_config 1)),
      ac_eBleState := eBleState_None\<rparr> = demo_config 1" using ok by (simp add: config_ok_def)
  with aud_record_roundtrip [OF r] ok r show ?thesis by (intro exI [of _ r]) (simp add: config_ok_def)
qed

text \<open>
  Property C27. Only canonical records are accepted: the 48 bytes a configuration is decoded from are exactly those it is
  encoded to, so a record from the host is stored in the form in which the controller would have written it.
\<close>

theorem aud_record_canonical:
  assumes "bDecode_AudioSourceConfiguration crc32 (bytes_record bs) i = Some c" and "length bs = 48"
  shows "map_option record_bytes (bEncode_AudioSrcConfiguration crc32 c) = Some bs"
  using encode_decoded [OF assms(1) typed_of_bytes [OF assms(2)]] assms(2) by simp

theorem aud_record_canonical_witness:
  "\<exists>bs. length bs = 48 \<and> map_option record_bytes (bEncode_AudioSrcConfiguration demo_crc (demo_config 1)) = Some bs"
proof -
  have ok: "config_ok 1 (demo_config 1)" by (rule demo_config_ok) simp
  note d = ram_env.decode_config_bytes [OF ok, where bad = None]
  have "(demo_config 1)\<lparr>ac_eBleState := eBleState_None\<rparr> = demo_config 1" by (simp add: demo_config_def)
  with aud_record_canonical [of demo_crc "ram_bytes (demo_config 1)" 1 "demo_config 1"] d show ?thesis
    by (intro exI [of _ "ram_bytes (demo_config 1)"]) simp
qed

text \<open>
  Property C24. After a load and any updates that report success, a new start on the same files brings back the table that was
  in memory: every field of every source, the selection included, but for the Bluetooth state.
\<close>

theorem aud_survives_restart:
  assumes "audio_env E content opened" and "audio_run E content s" and "audio_boot t"
    and "\<forall>k < 4. content (source_path k) (lfs_world (au_lfs t)) = content (source_path k) (lfs_world (au_lfs s))"
    and "bLoad_AudioConfigurations E t = (True, t')" and "k < 4"
  shows "config_of t' k = (config_of s k)\<lparr>ac_eBleState := eBleState_None\<rparr>"
  by (rule audio_env.restart [OF assms])

theorem aud_survives_restart_witness:
  "\<exists>(s :: ram audio_sys) u. ac_bIsSelected (config_of u 1) \<and> bLoad_AudioConfigurations (ram_audio None) (boot_with (au_lfs s)) = (True, u)"
proof (rule selection_runs)
  fix s t u
  assume "bLoad_AudioConfigurations (ram_audio None) (boot_with audio_lfs) = (True, s)" "iUpdate_AudioScrSelected (ram_audio None) 1 True s = (0, t)"
    and l: "bLoad_AudioConfigurations (ram_audio None) (boot_with (au_lfs t)) = (True, u)" and tab: "staAudioSrcConfigs t = map second_config [0..<4]"
  from aud_survives_restart [OF ram_audio_env demo_audio_run [OF this(1,2)] boot_with_boot _ l, of 1]
  have "config_of u 1 = (config_of t 1)\<lparr>ac_eBleState := eBleState_None\<rparr>" by (simp add: boot_with_def)
  with tab l show ?thesis by (intro exI [of _ t] exI [of _ u]) simp
qed



end
