(* ===== verification/Uart_Types.thy ===== *)
theory Uart_Types
  imports Audio_Config Can_Controller
begin

text \<open>
  What the PC UART interface shares: PC_UART_Protocol.h, the variables of PC_UART_API.c and of the bulk file
  service, and the UART driver as services over the world of the file system side. The bytes handed to
  \<open>uart_poll_out\<close> are kept in the order of their transmission.
\<close>

subsection \<open>Constants\<close>

definition PC_UART_PROTOCOL_VERSION :: u8 where [wall_simps]: "PC_UART_PROTOCOL_VERSION = 1"
definition PC_UART_PROTOCOL_BULK_MAX_DATA_LENGTH :: nat where [wall_simps]: "PC_UART_PROTOCOL_BULK_MAX_DATA_LENGTH = 256"
definition PC_UART_PROTOCOL_BULK_START_FIXED_LENGTH :: nat where [wall_simps]: "PC_UART_PROTOCOL_BULK_START_FIXED_LENGTH = 8"
definition PC_UART_PROTOCOL_BULK_DATA_FIXED_LENGTH :: nat where [wall_simps]: "PC_UART_PROTOCOL_BULK_DATA_FIXED_LENGTH = 8"

definition PC_UART_PROTOCOL_MAX_PAYLOAD_LENGTH :: nat where [wall_simps]:
  "PC_UART_PROTOCOL_MAX_PAYLOAD_LENGTH = PC_UART_PROTOCOL_BULK_DATA_FIXED_LENGTH + PC_UART_PROTOCOL_BULK_MAX_DATA_LENGTH"

definition PC_UART_PROTOCOL_ACK :: u8 where [wall_simps]: "PC_UART_PROTOCOL_ACK = 0x06"
definition PC_UART_PROTOCOL_NACK :: u8 where [wall_simps]: "PC_UART_PROTOCOL_NACK = 0x15"

definition ePC_UART_Command_SelectOperation :: u8 where [wall_simps]: "ePC_UART_Command_SelectOperation = 0x01"
definition ePC_UART_Command_ReleaseOperation :: u8 where [wall_simps]: "ePC_UART_Command_ReleaseOperation = 0x02"
definition ePC_UART_Command_BulkStart :: u8 where [wall_simps]: "ePC_UART_Command_BulkStart = 0x40"
definition ePC_UART_Command_BulkData :: u8 where [wall_simps]: "ePC_UART_Command_BulkData = 0x41"
definition ePC_UART_Command_BulkEnd :: u8 where [wall_simps]: "ePC_UART_Command_BulkEnd = 0x42"
definition ePC_UART_Command_ConfigRead :: u8 where [wall_simps]: "ePC_UART_Command_ConfigRead = 0x43"

definition PC_UART_API_CAN_RX_QUEUE_DEPTH :: nat where [wall_simps]: "PC_UART_API_CAN_RX_QUEUE_DEPTH = 8"
definition PC_UART_API_RX_RING_SIZE_BYTEs :: nat where [wall_simps]: "PC_UART_API_RX_RING_SIZE_BYTEs = 512"
definition PC_UART_API_BYTE_TIMEOUT_MS :: int where [wall_simps]: "PC_UART_API_BYTE_TIMEOUT_MS = 1000"

text \<open>\<open>"BLUP"\<close>, and the three bytes that are answered between frames.\<close>

definition uiaSOF :: "u8 list" where
  "uiaSOF = [66, 76, 85, 80]"

definition char_query :: u8 where [wall_simps]: "char_query = 63"
definition char_debug :: u8 where [wall_simps]: "char_debug = 68"
definition char_adc :: u8 where [wall_simps]: "char_adc = 65"

subsection \<open>Operations and errors\<close>

datatype ePC_UART_Operation_t =
    ePC_UART_Operation_Idle
  | ePC_UART_Operation_FirmwareBridge
  | ePC_UART_Operation_LocalBulkFile

datatype ePC_UART_Error_t =
    ePC_UART_Error_None
  | ePC_UART_Error_InvalidVersion
  | ePC_UART_Error_InvalidLength
  | ePC_UART_Error_FrameCRCMismatch
  | ePC_UART_Error_CANTxFail
  | ePC_UART_Error_InvalidCommand
  | ePC_UART_Error_InvalidOperation
  | ePC_UART_Error_OperationBusy
  | ePC_UART_Error_ServiceUnavailable
  | ePC_UART_Error_QueueFull
  | ePC_UART_Error_InvalidFrame
  | ePC_UART_Error_BulkStartFailed
  | ePC_UART_Error_BulkTransferFailed
  | ePC_UART_Error_BulkTimeout
  | ePC_UART_Error_BulkCRCMismatch
  | ePC_UART_Error_BulkSizeMismatch
  | ePC_UART_Error_FileNotFound
  | ePC_UART_Error_FileReadFailed

fun uart_error_val :: "ePC_UART_Error_t \<Rightarrow> u8" where
  "uart_error_val ePC_UART_Error_None = 0"
| "uart_error_val ePC_UART_Error_InvalidVersion = 1"
| "uart_error_val ePC_UART_Error_InvalidLength = 2"
| "uart_error_val ePC_UART_Error_FrameCRCMismatch = 3"
| "uart_error_val ePC_UART_Error_CANTxFail = 4"
| "uart_error_val ePC_UART_Error_InvalidCommand = 5"
| "uart_error_val ePC_UART_Error_InvalidOperation = 6"
| "uart_error_val ePC_UART_Error_OperationBusy = 7"
| "uart_error_val ePC_UART_Error_ServiceUnavailable = 8"
| "uart_error_val ePC_UART_Error_QueueFull = 9"
| "uart_error_val ePC_UART_Error_InvalidFrame = 10"
| "uart_error_val ePC_UART_Error_BulkStartFailed = 11"
| "uart_error_val ePC_UART_Error_BulkTransferFailed = 12"
| "uart_error_val ePC_UART_Error_BulkTimeout = 13"
| "uart_error_val ePC_UART_Error_BulkCRCMismatch = 14"
| "uart_error_val ePC_UART_Error_BulkSizeMismatch = 15"
| "uart_error_val ePC_UART_Error_FileNotFound = 16"
| "uart_error_val ePC_UART_Error_FileReadFailed = 17"

text \<open>The byte of a request, cast to the operation: none for every value that is refused.\<close>

definition requested_operation :: "u8 \<Rightarrow> ePC_UART_Operation_t option" where
  "requested_operation b =
     (if b = 1 then Some ePC_UART_Operation_FirmwareBridge else if b = 2 then Some ePC_UART_Operation_LocalBulkFile else None)"

text \<open>The same for the file type; the last enumerator stands for every byte from 5 on.\<close>

definition file_type_of :: "u8 \<Rightarrow> eFileType_t" where
  "file_type_of b =
     (if b = 0 then eFile_Error else if b = 1 then eFile_Config else if b = 2 then eFile_Data
      else if b = 3 then eFile_Image else if b = 4 then eFile_Icon else eNUMBER_OF_FILE_TYPEs)"

subsection \<open>Services and state\<close>

text \<open>
  \<open>uart_irq_reads\<close> are the results of \<open>uart_fifo_read\<close> in the receive interrupts since the thread last
  looked, each at most 32 bytes. \<open>uart_msleep\<close> is \<open>k_msleep\<close>, \<open>uart_uptime\<close> is \<open>k_uptime_get\<close>.
\<close>

record 'w uart_services = "'w audio_services" +
  uart_ready :: "'w \<Rightarrow> bool \<times> 'w"
  uart_callback_set :: "'w \<Rightarrow> int \<times> 'w"
  uart_irq_reads :: "'w \<Rightarrow> u8 list list \<times> 'w"
  uart_msleep :: "u32 \<Rightarrow> 'w \<Rightarrow> 'w"
  uart_uptime :: "'w \<Rightarrow> int \<times> 'w"
  uart_adc_request :: "'w \<Rightarrow> 'w"
  uart_can_submit :: "sT_CAN_TXMsg_t \<Rightarrow> 'w \<Rightarrow> eT_CAN_TxSubmitResult \<times> 'w"
  uart_dlc_to_bytes :: "u8 \<Rightarrow> u8"

record 'w uart_sys =
  stPC_UART_APIRxRing :: "u8 list"
  uart_tx :: "u8 list"
  bUARTDebugNextFrame :: bool
  bPC_UART_APIInitialized :: bool
  uiPC_UART_APITxSeq :: u16
  eActiveOperation :: ePC_UART_Operation_t
  pfADCDataRequestCallback :: bool
  msgq_PC_UART_APICANRx :: "can_frame list"
  uart_threads_run :: bool
  bBulkSessionActive :: bool
  ua_audio :: "'w audio_sys"

text \<open>A call into the audio configuration, one into the file system controller, and one of a service.\<close>

definition on_audio :: "('w audio_sys \<Rightarrow> 'a \<times> 'w audio_sys) \<Rightarrow> 'w uart_sys \<Rightarrow> 'a \<times> 'w uart_sys" where
  "on_audio f s = (let (r, a) = f (ua_audio s) in (r, s\<lparr>ua_audio := a\<rparr>))"

abbreviation on_files :: "('w lfs_sys \<Rightarrow> 'a \<times> 'w lfs_sys) \<Rightarrow> 'w uart_sys \<Rightarrow> 'a \<times> 'w uart_sys" where
  "on_files f \<equiv> on_audio (via f)"

abbreviation uio :: "('w \<Rightarrow> 'a \<times> 'w) \<Rightarrow> 'w uart_sys \<Rightarrow> 'a \<times> 'w uart_sys" where
  "uio f \<equiv> on_files (io f)"

abbreviation ua_lfs :: "'w uart_sys \<Rightarrow> 'w lfs_sys" where
  "ua_lfs s \<equiv> au_lfs (ua_audio s)"

definition set_ua_lfs :: "'w lfs_sys \<Rightarrow> 'w uart_sys \<Rightarrow> 'w uart_sys" where
  "set_ua_lfs l s = s\<lparr>ua_audio := (ua_audio s)\<lparr>au_lfs := l\<rparr>\<rparr>"

end
