(* ===== verification/Uart_Api.thy ===== *)
theory Uart_Api
  imports Uart_Types Crc16_Ccitt "HOL-Library.Monad_Syntax"
begin

text \<open>
  PC_UART_API.c without the dispatch: the receive interrupt and its ring buffer, reading bytes and frames,
  sending frames, responses and debug bytes. The transmit mutex is taken without a limit, so what is
  sent under it is one step. Loops that wait for the line are \<open>partial_function (option)\<close>.
\<close>

subsection \<open>Sending\<close>

definition vUART_WriteByte :: "u8 \<Rightarrow> 'w uart_sys \<Rightarrow> 'w uart_sys" where
  "vUART_WriteByte b s = s\<lparr>uart_tx := uart_tx s @ [b]\<rparr>"

definition vUART_WriteBytes :: "u8 list \<Rightarrow> 'w uart_sys \<Rightarrow> 'w uart_sys" where
  "vUART_WriteBytes bs s = foldl (\<lambda>s b. vUART_WriteByte b s) s bs"

definition vSend_UARTResponse :: "u8 \<Rightarrow> u8 \<Rightarrow> 'w uart_sys \<Rightarrow> 'w uart_sys" where
  "vSend_UARTResponse status err s = vUART_WriteByte err (vUART_WriteByte status s)"

definition vSend_UARTDebugByte :: "u8 \<Rightarrow> 'w uart_sys \<Rightarrow> 'w uart_sys" where
  "vSend_UARTDebugByte b s = (if bUARTDebugNextFrame s then vUART_WriteByte b s else s)"

definition bPC_UART_API_SendData :: "u8 list option \<Rightarrow> u16 \<Rightarrow> 'w uart_sys \<Rightarrow> bool \<times> 'w uart_sys" where
  "bPC_UART_API_SendData data uiLen s =
     (if \<not> bPC_UART_APIInitialized s \<or> data = None \<or> uiLen = 0 then (False, s)
      else (True, vUART_WriteBytes (take (unat uiLen) (the data)) s))"

definition bPC_UART_API_SendDataWithPostDelay ::
  "('w, 'z) uart_services_scheme \<Rightarrow> u8 list option \<Rightarrow> u16 \<Rightarrow> u32 \<Rightarrow> 'w uart_sys \<Rightarrow> bool \<times> 'w uart_sys" where
  "bPC_UART_API_SendDataWithPostDelay E data uiLen uiDelayMs s =
     (if \<not> bPC_UART_APIInitialized s \<or> data = None \<or> uiLen = 0 then (False, s)
      else
        (let s = vUART_WriteBytes (take (unat uiLen) (the data)) s
         in (True, if uiDelayMs > 0 then snd (uio (\<lambda>w. ((), uart_msleep E uiDelayMs w)) s) else s)))"

text \<open>The version, the command, the sequence number and the payload length.\<close>

definition header_tail :: "u8 \<Rightarrow> u16 \<Rightarrow> u16 \<Rightarrow> u8 list" where
  "header_tail cmd seqno len = [PC_UART_PROTOCOL_VERSION, cmd, hi8 seqno, lo8 seqno, hi8 len, lo8 len]"

definition bPC_UART_API_SendFrame :: "u8 \<Rightarrow> u8 list option \<Rightarrow> u16 \<Rightarrow> 'w uart_sys \<Rightarrow> bool \<times> 'w uart_sys" where
  "bPC_UART_API_SendFrame cmd payload uiPayloadLen s =
     (if \<not> bPC_UART_APIInitialized s \<or> unat uiPayloadLen > PC_UART_PROTOCOL_MAX_PAYLOAD_LENGTH
         \<or> (uiPayloadLen > 0 \<and> payload = None) then (False, s)
      else
        (let tail = header_tail cmd (uiPC_UART_APITxSeq s) uiPayloadLen;
             pay = (if uiPayloadLen > 0 then take (unat uiPayloadLen) (the payload) else []);
             crc = u16CRC16_CCITT_Update 0xFFFF tail;
             crc = (if uiPayloadLen > 0 then u16CRC16_CCITT_Update crc pay else crc);
             s = vUART_WriteBytes uiaSOF s;
             s = vUART_WriteBytes tail s;
             s = (if uiPayloadLen > 0 then vUART_WriteBytes pay s else s);
             s = vUART_WriteByte (hi8 crc) s;
             s = vUART_WriteByte (lo8 crc) s
         in (True, s\<lparr>uiPC_UART_APITxSeq := uiPC_UART_APITxSeq s + 1\<rparr>)))"

subsection \<open>Receiving bytes\<close>

text \<open>\<open>ring_buf_put\<close> stores what fits.\<close>

definition ring_buf_put :: "u8 list \<Rightarrow> 'w uart_sys \<Rightarrow> 'w uart_sys" where
  "ring_buf_put bs s =
     s\<lparr>stPC_UART_APIRxRing := stPC_UART_APIRxRing s @ take (PC_UART_API_RX_RING_SIZE_BYTEs - length (stPC_UART_APIRxRing s)) bs\<rparr>"

text \<open>The interrupt; its argument are the results of \<open>uart_fifo_read\<close>, of which an empty one ends the loop.\<close>

definition vPC_UART_API_RxISR :: "u8 list list \<Rightarrow> 'w uart_sys \<Rightarrow> 'w uart_sys" where
  "vPC_UART_API_RxISR reads s = foldl (\<lambda>s bs. ring_buf_put bs s) s reads"

text \<open>One try for a byte, after the interrupts that came before it; none after a sleep of one millisecond.\<close>

definition iRead_UARTByte :: "('w, 'z) uart_services_scheme \<Rightarrow> 'w uart_sys \<Rightarrow> u8 option \<times> 'w uart_sys" where
  "iRead_UARTByte E s =
     (let (reads, s) = uio (uart_irq_reads E) s; s = vPC_UART_API_RxISR reads s in
      case stPC_UART_APIRxRing s of
        [] \<Rightarrow> (None, snd (uio (\<lambda>w. ((), uart_msleep E 1 w)) s))
      | b # bs \<Rightarrow> (Some b, s\<lparr>stPC_UART_APIRxRing := bs\<rparr>))"

text \<open>The two loops of \<open>bRead_UARTBytesWithTimeout\<close> as one: \<open>n\<close> bytes are missing, \<open>got\<close> are in the buffer.\<close>

partial_function (option) read_bytes ::
  "('w, 'z) uart_services_scheme \<Rightarrow> int \<Rightarrow> nat \<Rightarrow> u8 list \<Rightarrow> 'w uart_sys \<Rightarrow> (u8 list option \<times> 'w uart_sys) option" where
  "read_bytes E deadline n got s =
     (if n = 0 then Some (Some got, s)
      else
        (case iRead_UARTByte E s of
           (Some b, s) \<Rightarrow> read_bytes E deadline (n - 1) (got @ [b]) s
         | (None, s) \<Rightarrow>
             (let (t, s) = uio (uart_uptime E) s
              in if t \<ge> deadline then Some (None, s) else read_bytes E deadline n got s)))"

definition bRead_UARTBytesWithTimeout ::
  "('w, 'z) uart_services_scheme \<Rightarrow> nat \<Rightarrow> int \<Rightarrow> 'w uart_sys \<Rightarrow> (u8 list option \<times> 'w uart_sys) option" where
  "bRead_UARTBytesWithTimeout E uiLen uiTimeoutMs s =
     (let (t, s) = uio (uart_uptime E) s in read_bytes E (t + uiTimeoutMs) uiLen [] s)"

subsection \<open>Receiving frames\<close>

text \<open>One byte between frames: the position in \<open>"BLUP"\<close> after it.\<close>

definition sof_byte :: "('w, 'z) uart_services_scheme \<Rightarrow> nat \<Rightarrow> u8 \<Rightarrow> 'w uart_sys \<Rightarrow> nat \<times> 'w uart_sys" where
  "sof_byte E k b s =
     (if b = char_query then (k, vUART_WriteByte 33 s)
      else if b = char_debug then (k, vUART_WriteByte 100 (s\<lparr>bUARTDebugNextFrame := True\<rparr>))
      else if b = char_adc then
        (k, if pfADCDataRequestCallback s then snd (uio (\<lambda>w. ((), uart_adc_request E w)) s) else s)
      else (if b = uiaSOF ! k then k + 1 else if b = uiaSOF ! 0 then 1 else 0, s))"

partial_function (option) read_sof :: "('w, 'z) uart_services_scheme \<Rightarrow> nat \<Rightarrow> 'w uart_sys \<Rightarrow> 'w uart_sys option" where
  "read_sof E k s =
     (if k \<ge> length uiaSOF then Some s
      else
        (case iRead_UARTByte E s of
           (None, s) \<Rightarrow> read_sof E k s
         | (Some b, s) \<Rightarrow> (let (k, s) = sof_byte E k b s in read_sof E k s)))"

definition refuse_frame :: "u8 \<Rightarrow> ePC_UART_Error_t \<Rightarrow> 'w uart_sys \<Rightarrow> 'a option \<times> 'w uart_sys" where
  "refuse_frame dbg e s = (None, vSend_UARTResponse PC_UART_PROTOCOL_NACK (uart_error_val e) (vSend_UARTDebugByte dbg s))"

text \<open>The command, the payload and the sequence number of the next frame; none when it is refused.\<close>

definition bRead_UARTFrame ::
  "('w, 'z) uart_services_scheme \<Rightarrow> 'w uart_sys \<Rightarrow> ((u8 \<times> u8 list \<times> u16) option \<times> 'w uart_sys) option" where
  "bRead_UARTFrame E s = do {
     s \<leftarrow> read_sof E 0 s;
     (hd6, s) \<leftarrow> bRead_UARTBytesWithTimeout E 6 PC_UART_API_BYTE_TIMEOUT_MS (vSend_UARTDebugByte 83 s);
     (case hd6 of
        None \<Rightarrow> Some (refuse_frame 104 ePC_UART_Error_InvalidLength s)
      | Some h \<Rightarrow>
          (let s = vSend_UARTDebugByte 72 s in
           if h ! 0 \<noteq> PC_UART_PROTOCOL_VERSION then Some (refuse_frame 118 ePC_UART_Error_InvalidVersion s)
           else
             (let cmd = h ! 1; seqno = be16 (h ! 2) (h ! 3); len = be16 (h ! 4) (h ! 5) in
              if unat len > PC_UART_PROTOCOL_MAX_PAYLOAD_LENGTH then Some (refuse_frame 108 ePC_UART_Error_InvalidLength s)
              else do {
                (pay, s) \<leftarrow> bRead_UARTBytesWithTimeout E (unat len) PC_UART_API_BYTE_TIMEOUT_MS s;
                (case pay of
                   None \<Rightarrow> Some (refuse_frame 112 ePC_UART_Error_InvalidLength s)
                 | Some p \<Rightarrow> do {
                     (crc2, s) \<leftarrow> bRead_UARTBytesWithTimeout E 2 PC_UART_API_BYTE_TIMEOUT_MS (vSend_UARTDebugByte 80 s);
                     (case crc2 of
                        None \<Rightarrow> Some (refuse_frame 116 ePC_UART_Error_InvalidLength s)
                      | Some c \<Rightarrow>
                          (let s = vSend_UARTDebugByte 84 s in
                           if be16 (c ! 0) (c ! 1) \<noteq> u16CRC16_CCITT_Update (u16CRC16_CCITT_Update 0xFFFF h) p
                           then Some (refuse_frame 99 ePC_UART_Error_FrameCRCMismatch s)
                           else Some (Some (cmd, p, seqno), vSend_UARTDebugByte 67 s)))
                   })
              })))
   }"

end
