(* ===== verification/Uart_Services.thy ===== *)
theory Uart_Services
  imports Uart_Api Lfs_Bulk
begin

text \<open>
  The services behind the UART frames: PC_UART_BulkFileService.c, PC_UART_FWBridgeService.c and the dispatch, the
  threads and the initialisation of PC_UART_API.c. A payload is a buffer, none for a null pointer, and its
  length. The worker turns of the end of a bulk transfer are parameters, as in \<open>vEnd_BulkDataTransfer\<close>.
\<close>

subsection \<open>The bulk file service\<close>

definition u16Read_BigEndian :: "u8 list \<Rightarrow> u16" where
  "u16Read_BigEndian b = be16 (b ! 0) (b ! 1)"

definition uiRead_BigEndian :: "u8 list \<Rightarrow> u32" where
  "uiRead_BigEndian b =
     push_bit 24 (ucast (b ! 0)) OR push_bit 16 (ucast (b ! 1)) OR push_bit 8 (ucast (b ! 2)) OR ucast (b ! 3)"

definition config_read_result :: "nat \<Rightarrow> int \<times> u8 list \<Rightarrow> 'w uart_sys \<Rightarrow> ePC_UART_Error_t \<times> 'w uart_sys" where
  "config_read_result i rb s =
     (let (r, bs) = rb in
      if r = - ENOENT then (ePC_UART_Error_FileNotFound, s)
      else if r \<noteq> 0 then (ePC_UART_Error_FileReadFailed, s)
      else
        (let uiaResponse = of_nat i # memcpy_list (replicate AUDIO_SOURCE_CONFIG_RECORD_SIZE 0) bs;
             (ok, s) = bPC_UART_API_SendFrame ePC_UART_Command_ConfigRead (Some uiaResponse)
                         (of_nat (1 + AUDIO_SOURCE_CONFIG_RECORD_SIZE)) s
         in (if ok then ePC_UART_Error_None else ePC_UART_Error_ServiceUnavailable, s)))"

definition eProcess_ConfigRead ::
  "('w, 'z) uart_services_scheme \<Rightarrow> u8 list option \<Rightarrow> nat \<Rightarrow> 'w uart_sys \<Rightarrow> ePC_UART_Error_t \<times> 'w uart_sys" where
  "eProcess_ConfigRead E payload uiPayloadLen s =
     (if payload = None \<or> uiPayloadLen \<noteq> 1 then (ePC_UART_Error_InvalidLength, s)
      else if bBulkSessionActive s then (ePC_UART_Error_OperationBusy, s)
      else
        (let eSourceId = unat (the payload ! 0) in
         if eSourceId \<ge> eNUMBER_OF_AUDIO_SOURCES then (ePC_UART_Error_InvalidFrame, s)
         else
           (let (rb, s) = on_audio (iRead_AudioSrcConfigurationRecord E eSourceId True AUDIO_SOURCE_CONFIG_RECORD_SIZE) s
            in config_read_result eSourceId rb s)))"

definition bulk_announcement :: "u8 list \<Rightarrow> sT_BulkTransferData" where
  "bulk_announcement p =
     \<lparr>bd_eFileType = file_type_of (p ! 0), bd_pcaFileName = c_string (take (unat (p ! 7)) (drop 8 p)),
      bd_uiFileSize = uiRead_BigEndian (drop 1 p), bd_uiCRC = u16Read_BigEndian (drop 5 p)\<rparr>"

definition eProcess_BulkStart ::
  "('w, 'z) uart_services_scheme \<Rightarrow> u8 list option \<Rightarrow> nat \<Rightarrow> 'w uart_sys \<Rightarrow> (ePC_UART_Error_t \<times> 'w uart_sys) option" where
  "eProcess_BulkStart E payload uiPayloadLen s =
     (if payload = None \<or> uiPayloadLen < PC_UART_PROTOCOL_BULK_START_FIXED_LENGTH then Some (ePC_UART_Error_InvalidLength, s)
      else
        (let p = the payload; uiFileNameLen = unat (p ! 7) in
         if uiFileNameLen = 0 \<or> uiFileNameLen \<ge> MAX_FILE_NAME_LENGTH
            \<or> uiPayloadLen \<noteq> PC_UART_PROTOCOL_BULK_START_FIXED_LENGTH + uiFileNameLen then Some (ePC_UART_Error_InvalidLength, s)
         else
           (let d = bulk_announcement p in
            if bd_eFileType d = eFile_Error \<or> bd_eFileType d = eNUMBER_OF_FILE_TYPEs \<or> bd_uiFileSize d = 0
            then Some (ePC_UART_Error_InvalidFrame, s)
            else do {
              (ok, l) \<leftarrow> bStart_BulkDataTransfer E d (ua_lfs s);
              let s = set_ua_lfs l s;
              Some (if ok then (ePC_UART_Error_None, s\<lparr>bBulkSessionActive := True\<rparr>) else (ePC_UART_Error_BulkStartFailed, s))
            })))"

definition bulk_message :: "u8 list \<Rightarrow> sT_MsgData_t" where
  "bulk_message p =
     (let uiDataLen = u16Read_BigEndian (drop 4 p) in
      \<lparr>md_uiFrameId = uiRead_BigEndian p, md_uiMsg = memcpy_list (replicate MAX_FRAME_LENGTH 0) (take (unat uiDataLen) (drop 8 p)),
       md_uiDataLen = uiDataLen, md_uiFrameCRC = u16Read_BigEndian (drop 6 p)\<rparr>)"

definition eProcess_BulkData ::
  "('w, 'z) uart_services_scheme \<Rightarrow> u8 list option \<Rightarrow> nat \<Rightarrow> 'w uart_sys \<Rightarrow> ePC_UART_Error_t \<times> 'w uart_sys" where
  "eProcess_BulkData E payload uiPayloadLen s =
     (if \<not> bBulkSessionActive s then (ePC_UART_Error_InvalidOperation, s)
      else if payload = None \<or> uiPayloadLen < PC_UART_PROTOCOL_BULK_DATA_FIXED_LENGTH then (ePC_UART_Error_InvalidLength, s)
      else
        (let p = the payload; uiDataLen = unat (u16Read_BigEndian (drop 4 p)) in
         if uiDataLen = 0 \<or> uiDataLen > MAX_FRAME_LENGTH \<or> uiPayloadLen \<noteq> PC_UART_PROTOCOL_BULK_DATA_FIXED_LENGTH + uiDataLen
         then (ePC_UART_Error_InvalidLength, s)
         else
           (let (iResult, s) = on_files (iSend_BulkTransferData E (Some (bulk_message p))) s
            in (if iResult = - ENOMSG \<or> iResult = - EAGAIN then ePC_UART_Error_QueueFull
                else if iResult = 0 then ePC_UART_Error_None else ePC_UART_Error_InvalidFrame, s))))"

definition bulk_end_error :: "sT_TransferResult_t \<Rightarrow> ePC_UART_Error_t" where
  "bulk_end_error res =
     (if tr_eTransferState res = eFileTransfer_Success \<and> tr_eErrorState res = eErrorState_None then ePC_UART_Error_None
      else (case tr_eErrorState res of
              eErrorState_TimeOut \<Rightarrow> ePC_UART_Error_BulkTimeout
            | eErrorState_CRCMismatch \<Rightarrow> ePC_UART_Error_BulkCRCMismatch
            | eErrorState_ReceivedByteCountMismatch \<Rightarrow> ePC_UART_Error_BulkSizeMismatch
            | _ \<Rightarrow> ePC_UART_Error_BulkTransferFailed))"

definition eProcess_BulkEnd ::
  "('w, 'z) uart_services_scheme \<Rightarrow> nat \<Rightarrow> nat \<Rightarrow> nat \<Rightarrow> 'w uart_sys \<Rightarrow> (ePC_UART_Error_t \<times> 'w uart_sys) option" where
  "eProcess_BulkEnd E m n uiPayloadLen s =
     (if uiPayloadLen \<noteq> 0 then Some (ePC_UART_Error_InvalidLength, s)
      else if \<not> bBulkSessionActive s then Some (ePC_UART_Error_InvalidOperation, s)
      else do {
        (res, l) \<leftarrow> vEnd_BulkDataTransfer E m n (ua_lfs s);
        Some (bulk_end_error res, (set_ua_lfs l s)\<lparr>bBulkSessionActive := False\<rparr>)
      })"

text \<open>The second result is \<open>*pbOperationComplete\<close>.\<close>

definition ePC_UART_BulkFileService_Process ::
  "('w, 'z) uart_services_scheme \<Rightarrow> nat \<Rightarrow> nat \<Rightarrow> u8 \<Rightarrow> u8 list option \<Rightarrow> nat \<Rightarrow> 'w uart_sys
   \<Rightarrow> ((ePC_UART_Error_t \<times> bool) \<times> 'w uart_sys) option" where
  "ePC_UART_BulkFileService_Process E m n cmd payload len s =
     (if cmd = ePC_UART_Command_BulkStart then do { (e, s) \<leftarrow> eProcess_BulkStart E payload len s; Some ((e, False), s) }
      else if cmd = ePC_UART_Command_BulkData then (let (e, s) = eProcess_BulkData E payload len s in Some ((e, False), s))
      else if cmd = ePC_UART_Command_BulkEnd then do { (e, s) \<leftarrow> eProcess_BulkEnd E m n len s; Some ((e, True), s) }
      else if cmd = ePC_UART_Command_ConfigRead then (let (e, s) = eProcess_ConfigRead E payload len s in Some ((e, False), s))
      else Some ((ePC_UART_Error_InvalidCommand, False), s))"

subsection \<open>The firmware bridge\<close>

definition CAN_RX_BOOTLOADER_ID :: u32 where [wall_simps]: "CAN_RX_BOOTLOADER_ID = 0x300"

definition bIs_HostBootloaderCommand :: "u8 \<Rightarrow> bool" where
  "bIs_HostBootloaderCommand cmd \<longleftrightarrow>
     bootloader_cmd_of_byte cmd \<in> {eBootloader_CMD_FWUpReq, eBootloader_CMD_FWUpMsg, eBootloader_CMD_FWUpEnd, eBootloader_CMD_FWUpPause,
       eBootloader_CMD_FWUpStop, eBootloader_CMD_GetLostPacketInfo, eBootloader_CMD_RetLostPacketInfo, eBootloader_CMD_AuthStart,
       eBootloader_CMD_UpdateAuthResponse, eBootloader_CMD_RecoverFromError}"

definition ePC_UART_FWBridgeService_Process ::
  "('w, 'z) uart_services_scheme \<Rightarrow> u8 \<Rightarrow> u8 list option \<Rightarrow> nat \<Rightarrow> 'w uart_sys \<Rightarrow> ePC_UART_Error_t \<times> 'w uart_sys" where
  "ePC_UART_FWBridgeService_Process E cmd payload len s =
     (if \<not> bIs_HostBootloaderCommand cmd then (ePC_UART_Error_InvalidCommand, s)
      else if len > CAN_MSG_MAX_SIZE - 1 \<or> (len > 0 \<and> payload = None) then (ePC_UART_Error_InvalidLength, s)
      else
        (let data = memcpy_list (replicate CAN_MSG_MAX_SIZE 0) (cmd # (if len > 0 then take len (the payload) else []));
             (r, s) = uio (uart_can_submit E (zero_tx_msg\<lparr>tx_uiID := CAN_RX_BOOTLOADER_ID, tx_uiLen := of_nat len + 1, tx_puiData := Some data\<rparr>)) s
         in (if r = eCAN_TxSubmit_Queued then ePC_UART_Error_None else ePC_UART_Error_CANTxFail, s)))"

subsection \<open>Dispatch\<close>

abbreviation vSet_ActiveOperation :: "ePC_UART_Operation_t \<Rightarrow> 'w uart_sys \<Rightarrow> 'w uart_sys" where
  "vSet_ActiveOperation op s \<equiv> s\<lparr>eActiveOperation := op\<rparr>"

definition eSelect_Operation :: "u8 list option \<Rightarrow> nat \<Rightarrow> 'w uart_sys \<Rightarrow> ePC_UART_Error_t \<times> 'w uart_sys" where
  "eSelect_Operation payload len s =
     (if payload = None \<or> len \<noteq> 1 then (ePC_UART_Error_InvalidLength, s)
      else
        (case requested_operation (the payload ! 0) of
           None \<Rightarrow> (ePC_UART_Error_InvalidOperation, s)
         | Some op \<Rightarrow>
             if eActiveOperation s = op then (ePC_UART_Error_None, s)
             else if eActiveOperation s \<noteq> ePC_UART_Operation_Idle then (ePC_UART_Error_OperationBusy, s)
             else (ePC_UART_Error_None, vSet_ActiveOperation op s)))"

definition eRelease_Operation :: "nat \<Rightarrow> 'w uart_sys \<Rightarrow> ePC_UART_Error_t \<times> 'w uart_sys" where
  "eRelease_Operation len s =
     (if len \<noteq> 0 then (ePC_UART_Error_InvalidLength, s)
      else if eActiveOperation s = ePC_UART_Operation_LocalBulkFile \<and> bBulkSessionActive s then (ePC_UART_Error_OperationBusy, s)
      else (ePC_UART_Error_None, vSet_ActiveOperation ePC_UART_Operation_Idle s))"

definition ePC_UART_API_DispatchFrame ::
  "('w, 'z) uart_services_scheme \<Rightarrow> nat \<Rightarrow> nat \<Rightarrow> u8 \<Rightarrow> u8 list option \<Rightarrow> nat \<Rightarrow> 'w uart_sys
   \<Rightarrow> (ePC_UART_Error_t \<times> 'w uart_sys) option" where
  "ePC_UART_API_DispatchFrame E m n cmd payload len s =
     (if cmd = ePC_UART_Command_SelectOperation then Some (eSelect_Operation payload len s)
      else if cmd = ePC_UART_Command_ReleaseOperation then Some (eRelease_Operation len s)
      else
        (case eActiveOperation s of
           ePC_UART_Operation_FirmwareBridge \<Rightarrow> Some (ePC_UART_FWBridgeService_Process E cmd payload len s)
         | ePC_UART_Operation_LocalBulkFile \<Rightarrow> do {
             ((e, bOperationComplete), s) \<leftarrow> ePC_UART_BulkFileService_Process E m n cmd payload len s;
             Some (e, if bOperationComplete then vSet_ActiveOperation ePC_UART_Operation_Idle s else s)
           }
         | ePC_UART_Operation_Idle \<Rightarrow> Some (ePC_UART_Error_InvalidOperation, s)))"

subsection \<open>Threads and frames from CAN\<close>

text \<open>One turn of \<open>vThread_PC_UART_API\<close>.\<close>

definition vThread_PC_UART_API ::
  "('w, 'z) uart_services_scheme \<Rightarrow> nat \<Rightarrow> nat \<Rightarrow> 'w uart_sys \<Rightarrow> 'w uart_sys option" where
  "vThread_PC_UART_API E m n s = do {
     (fr, s) \<leftarrow> bRead_UARTFrame E s;
     (case fr of
        None \<Rightarrow> Some s
      | Some (cmd, pay, seqno) \<Rightarrow> do {
          (e, s) \<leftarrow> ePC_UART_API_DispatchFrame E m n cmd (Some pay) (length pay) s;
          Some ((vSend_UARTResponse (if e = ePC_UART_Error_None then PC_UART_PROTOCOL_ACK else PC_UART_PROTOCOL_NACK)
                   (uart_error_val e) s)\<lparr>bUARTDebugNextFrame := False\<rparr>)
        })
   }"

definition vPC_UART_API_ForwardCANFrame :: "can_frame option \<Rightarrow> 'w uart_sys \<Rightarrow> 'w uart_sys" where
  "vPC_UART_API_ForwardCANFrame fr s =
     (if fr = None \<or> eActiveOperation s \<noteq> ePC_UART_Operation_FirmwareBridge then s
      else if length (msgq_PC_UART_APICANRx s) < PC_UART_API_CAN_RX_QUEUE_DEPTH
        then s\<lparr>msgq_PC_UART_APICANRx := msgq_PC_UART_APICANRx s @ [the fr]\<rparr>
      else s)"

definition vSend_UARTFrameToPC :: "('w, 'z) uart_services_scheme \<Rightarrow> can_frame \<Rightarrow> 'w uart_sys \<Rightarrow> 'w uart_sys" where
  "vSend_UARTFrameToPC E fr s =
     (let uiLen = uart_dlc_to_bytes E (cf_dlc fr) in
      if uiLen = 0 then s
      else snd (bPC_UART_API_SendFrame (cf_data fr ! 0) (Some (drop 1 (cf_data fr))) (ucast (uiLen - 1)) s))"

text \<open>One turn of \<open>vThread_PC_UART_API_CANRx\<close>, which waits on an empty queue.\<close>

definition vThread_PC_UART_API_CANRx :: "('w, 'z) uart_services_scheme \<Rightarrow> 'w uart_sys \<Rightarrow> 'w uart_sys" where
  "vThread_PC_UART_API_CANRx E s =
     (case msgq_PC_UART_APICANRx s of
        [] \<Rightarrow> s
      | fr # frs \<Rightarrow>
          (let s = s\<lparr>msgq_PC_UART_APICANRx := frs\<rparr>
           in if eActiveOperation s = ePC_UART_Operation_FirmwareBridge then vSend_UARTFrameToPC E fr s else s))"

definition vPC_UART_API_RegisterADCDataRequestCallback :: "bool \<Rightarrow> 'w uart_sys \<Rightarrow> 'w uart_sys" where
  "vPC_UART_API_RegisterADCDataRequestCallback cb s = s\<lparr>pfADCDataRequestCallback := cb\<rparr>"

definition vInit_PC_UART_API :: "('w, 'z) uart_services_scheme \<Rightarrow> 'w uart_sys \<Rightarrow> 'w uart_sys" where
  "vInit_PC_UART_API E s =
     (let (ready, s) = uio (uart_ready E) s in
      if \<not> ready then s
      else
        (let s = s\<lparr>stPC_UART_APIRxRing := []\<rparr>; (r, s) = uio (uart_callback_set E) s in
         if r \<noteq> 0 then s
         else (vSet_ActiveOperation ePC_UART_Operation_Idle (s\<lparr>uiPC_UART_APITxSeq := 0\<rparr>))
                \<lparr>bPC_UART_APIInitialized := True, uart_threads_run := True\<rparr>))"

end
