(* ===== verification/Uart_Stream.thy ===== *)
theory Uart_Stream
  imports Uart_Services "HOL-Library.Sublist"
begin

text \<open>
  The receiver on bytes that have arrived: what it does to the state besides its result, that it finds a frame
  behind any bytes without a start sequence, and that it reads back what the sender sends.
\<close>

subsection \<open>What receiving changes\<close>

definition rx_only :: "'w uart_sys \<Rightarrow> 'w uart_sys \<Rightarrow> bool" where
  "rx_only s s' \<longleftrightarrow> (\<exists>r t d w. s' = s\<lparr>stPC_UART_APIRxRing := r, uart_tx := t, bUARTDebugNextFrame := d,
     ua_audio := (ua_audio s)\<lparr>au_lfs := (ua_lfs s)\<lparr>lfs_world := w\<rparr>\<rparr>\<rparr>)"

lemma rx_onlyI:
  "s' = s\<lparr>stPC_UART_APIRxRing := r, uart_tx := t, bUARTDebugNextFrame := d, ua_audio := (ua_audio s)\<lparr>au_lfs := (ua_lfs s)\<lparr>lfs_world := w\<rparr>\<rparr>\<rparr>
   \<Longrightarrow> rx_only s s'"
  by (auto simp: rx_only_def)

lemma rx_only_refl [simp]: "rx_only s s"
  by (rule rx_onlyI [where r = "stPC_UART_APIRxRing s" and t = "uart_tx s" and d = "bUARTDebugNextFrame s" and w = "lfs_world (ua_lfs s)"]) simp

lemma rx_only_trans:
  assumes "rx_only a b" and "rx_only b c"
  shows "rx_only a c"
proof -
  obtain r t d w where "c = b\<lparr>stPC_UART_APIRxRing := r, uart_tx := t, bUARTDebugNextFrame := d,
      ua_audio := (ua_audio b)\<lparr>au_lfs := (ua_lfs b)\<lparr>lfs_world := w\<rparr>\<rparr>\<rparr>" using assms(2) by (auto simp: rx_only_def)
  with assms(1) show ?thesis by (intro rx_onlyI [where r = r and t = t and d = d and w = w]) (auto simp: rx_only_def)
qed

lemma rx_onlyD:
  assumes "rx_only s s'"
  shows "eActiveOperation s' = eActiveOperation s" "bBulkSessionActive s' = bBulkSessionActive s"
    "staAudioSrcConfigs (ua_audio s') = staAudioSrcConfigs (ua_audio s)" "uiPC_UART_APITxSeq s' = uiPC_UART_APITxSeq s"
    "stTBulkDataCtrl (ua_lfs s') = stTBulkDataCtrl (ua_lfs s)" "msgq_PC_UART_APICANRx s' = msgq_PC_UART_APICANRx s"
    "stMsgQueue_FileTransfer (ua_lfs s') = stMsgQueue_FileTransfer (ua_lfs s)" "stTFileCatalog (ua_lfs s') = stTFileCatalog (ua_lfs s)"
  using assms by (auto simp: rx_only_def)

lemma uio_result:
  assumes "uio f s = (r, s')"
  shows "rx_only s s'" "stPC_UART_APIRxRing s' = stPC_UART_APIRxRing s" "uart_tx s' = uart_tx s" "bUARTDebugNextFrame s' = bUARTDebugNextFrame s"
    "pfADCDataRequestCallback s' = pfADCDataRequestCallback s"
proof -
  have s': "s' = s\<lparr>ua_audio := (ua_audio s)\<lparr>au_lfs := (ua_lfs s)\<lparr>lfs_world := snd (f (lfs_world (ua_lfs s)))\<rparr>\<rparr>\<rparr>"
    using assms by (auto simp: on_audio_def via_def io_def split: prod.splits)
  show "rx_only s s'"
    by (rule rx_onlyI [where r = "stPC_UART_APIRxRing s" and t = "uart_tx s" and d = "bUARTDebugNextFrame s"]) (simp add: s')
qed (use assms in \<open>auto simp: on_audio_def via_def io_def split: prod.splits\<close>)

lemma line_write_only [simp]: "rx_only s (vUART_WriteByte b s)"
  by (rule rx_onlyI [where r = "stPC_UART_APIRxRing s" and d = "bUARTDebugNextFrame s" and w = "lfs_world (ua_lfs s)"]) (simp add: vUART_WriteByte_def)

lemma debug_only [simp]: "rx_only s (s\<lparr>bUARTDebugNextFrame := b\<rparr>)"
  by (rule rx_onlyI [where r = "stPC_UART_APIRxRing s" and t = "uart_tx s" and d = b and w = "lfs_world (ua_lfs s)"]) simp

lemma write_byte_fields [simp]:
  "stPC_UART_APIRxRing (vUART_WriteByte b s) = stPC_UART_APIRxRing s" "uart_tx (vUART_WriteByte b s) = uart_tx s @ [b]"
  "bUARTDebugNextFrame (vUART_WriteByte b s) = bUARTDebugNextFrame s" "uiPC_UART_APITxSeq (vUART_WriteByte b s) = uiPC_UART_APITxSeq s"
  "pfADCDataRequestCallback (vUART_WriteByte b s) = pfADCDataRequestCallback s"
  by (simp_all add: vUART_WriteByte_def)

lemma debug_byte [simp]: "rx_only s (vSend_UARTDebugByte b s)"
  "stPC_UART_APIRxRing (vSend_UARTDebugByte b s) = stPC_UART_APIRxRing s"
  by (simp_all add: vSend_UARTDebugByte_def)

lemma write_bytes: "vUART_WriteBytes bs s = s\<lparr>uart_tx := uart_tx s @ bs\<rparr>"
  by (induction bs arbitrary: s) (simp_all add: vUART_WriteBytes_def vUART_WriteByte_def)

subsection \<open>Reading bytes that are there\<close>

lemma isr_ring:
  obtains more where "vPC_UART_API_RxISR reads s = s\<lparr>stPC_UART_APIRxRing := stPC_UART_APIRxRing s @ more\<rparr>"
proof -
  have "\<exists>more. vPC_UART_API_RxISR reads s = s\<lparr>stPC_UART_APIRxRing := stPC_UART_APIRxRing s @ more\<rparr>"
  proof (induction reads arbitrary: s)
    case Nil
    then show ?case by (intro exI [of _ "[]"]) (simp add: vPC_UART_API_RxISR_def)
  next
    case (Cons bs reads)
    obtain more where "vPC_UART_API_RxISR reads (ring_buf_put bs s) = (ring_buf_put bs s)\<lparr>stPC_UART_APIRxRing :=
        stPC_UART_APIRxRing (ring_buf_put bs s) @ more\<rparr>" using Cons by blast
    then show ?case
      by (intro exI [of _ "take (PC_UART_API_RX_RING_SIZE_BYTEs - length (stPC_UART_APIRxRing s)) bs @ more"])
        (simp add: vPC_UART_API_RxISR_def ring_buf_put_def)
  qed
  with that show thesis by blast
qed

text \<open>A byte in the ring is read at once; what comes in meanwhile is behind the rest.\<close>

lemma read_byte:
  assumes "stPC_UART_APIRxRing s = b # bs"
  obtains s' more where "iRead_UARTByte E s = (Some b, s')" and "stPC_UART_APIRxRing s' = bs @ more" and "rx_only s s'"
    and "bUARTDebugNextFrame s' = bUARTDebugNextFrame s" and "uart_tx s' = uart_tx s"
proof -
  obtain reads t where t: "uio (uart_irq_reads E) s = (reads, t)" by fastforce
  note r = uio_result [OF t]
  obtain more where more: "vPC_UART_API_RxISR reads t = t\<lparr>stPC_UART_APIRxRing := stPC_UART_APIRxRing t @ more\<rparr>" by (rule isr_ring)
  have "iRead_UARTByte E s = (Some b, t\<lparr>stPC_UART_APIRxRing := bs @ more\<rparr>)"
    using assms r(2) by (simp add: iRead_UARTByte_def t more)
  moreover have "rx_only t (t\<lparr>stPC_UART_APIRxRing := bs @ more\<rparr>)"
    by (rule rx_onlyI [where r = "bs @ more" and t = "uart_tx t" and d = "bUARTDebugNextFrame t" and w = "lfs_world (ua_lfs t)"]) simp
  ultimately show thesis using rx_only_trans [OF r(1)] r(3,4) by (intro that [of "t\<lparr>stPC_UART_APIRxRing := bs @ more\<rparr>" more]) simp_all
qed

lemma read_bytes_there:
  assumes "stPC_UART_APIRxRing s = xs @ ys"
  shows "\<exists>s' more. read_bytes E dl (length xs) got s = Some (Some (got @ xs), s') \<and> stPC_UART_APIRxRing s' = ys @ more \<and> rx_only s s'
    \<and> bUARTDebugNextFrame s' = bUARTDebugNextFrame s \<and> uart_tx s' = uart_tx s"
  using assms
proof (induction xs arbitrary: s got ys)
  case Nil
  then show ?case by (simp add: read_bytes.simps)
next
  case (Cons x xs)
  obtain t more where t: "iRead_UARTByte E s = (Some x, t)" "stPC_UART_APIRxRing t = (xs @ ys) @ more" "rx_only s t"
      "bUARTDebugNextFrame t = bUARTDebugNextFrame s" "uart_tx t = uart_tx s"
    using read_byte [of s x "xs @ ys"] Cons(2) by (metis append_Cons)
  obtain s' more' where s': "read_bytes E dl (length xs) (got @ [x]) t = Some (Some ((got @ [x]) @ xs), s')"
      "stPC_UART_APIRxRing s' = (ys @ more) @ more'" "rx_only t s'" "bUARTDebugNextFrame s' = bUARTDebugNextFrame t" "uart_tx s' = uart_tx t"
    using Cons(1) [of t "ys @ more" "got @ [x]"] t(2) by auto
  have "read_bytes E dl (length (x # xs)) got s = Some (Some (got @ x # xs), s')"
    using t(1) s'(1) by (subst read_bytes.simps) simp
  with s' t rx_only_trans [OF t(3) s'(3)] show ?case by auto
qed

lemma read_timeout_there:
  assumes "stPC_UART_APIRxRing s = xs @ ys"
  obtains s' more where "bRead_UARTBytesWithTimeout E (length xs) ms s = Some (Some xs, s')" and "stPC_UART_APIRxRing s' = ys @ more"
    and "rx_only s s'" and "bUARTDebugNextFrame s' = bUARTDebugNextFrame s" and "uart_tx s' = uart_tx s"
proof -
  obtain t u where u: "uio (uart_uptime E) s = (t, u)" by fastforce
  note r = uio_result [OF u]
  obtain s' more where "read_bytes E (t + ms) (length xs) [] u = Some (Some xs, s')" "stPC_UART_APIRxRing s' = ys @ more" "rx_only u s'"
     "bUARTDebugNextFrame s' = bUARTDebugNextFrame u" "uart_tx s' = uart_tx u"
    using read_bytes_there [of u xs ys E "t + ms" "[]"] assms r(2) by auto
  with rx_only_trans [OF r(1)] u r(3,4) show thesis by (intro that [of s' more]) (simp_all add: bRead_UARTBytesWithTimeout_def)
qed

subsection \<open>Finding the start of a frame\<close>

text \<open>The bytes the search for \<open>"BLUP"\<close> looks at.\<close>

definition data_byte :: "u8 \<Rightarrow> bool" where
  "data_byte b \<longleftrightarrow> b \<noteq> char_query \<and> b \<noteq> char_debug \<and> b \<noteq> char_adc"

definition no_sof :: "u8 list \<Rightarrow> bool" where
  "no_sof g \<longleftrightarrow> \<not> sublist uiaSOF (filter data_byte g)"

lemma sof_byte_only:
  assumes "sof_byte E k b s = (k', s')"
  shows "rx_only s s'" "stPC_UART_APIRxRing s' = stPC_UART_APIRxRing s"
proof -
  obtain r t where t: "uio (\<lambda>w. ((), uart_adc_request E w)) s = (r, t)" by (metis surj_pair)
  have "rx_only s (vUART_WriteByte 100 (s\<lparr>bUARTDebugNextFrame := True\<rparr>))" by (rule rx_only_trans [OF debug_only line_write_only])
  with assms uio_result [OF t] t show "rx_only s s'" "stPC_UART_APIRxRing s' = stPC_UART_APIRxRing s"
    by (auto simp: sof_byte_def split: if_splits)
qed

text \<open>The position is that of a prefix of \<open>"BLUP"\<close> the data bytes end with.\<close>

lemma sof_byte_position:
  assumes "sof_byte E k b s = (k', s')" and "k < 4" and "suffix (take k uiaSOF) p"
  shows "suffix (take k' uiaSOF) (p @ filter data_byte [b])" and "k' \<le> 4"
proof -
  have next1: "take (k + 1) uiaSOF = take k uiaSOF @ [uiaSOF ! k]" using assms(2) take_Suc_conv_app_nth [of k uiaSOF] by (simp add: uiaSOF_def)
  have "suffix (take 1 uiaSOF) (p @ [uiaSOF ! 0])" by (simp add: uiaSOF_def)
  with assms next1 show "suffix (take k' uiaSOF) (p @ filter data_byte [b])" "k' \<le> 4"
    by (auto simp: sof_byte_def data_byte_def wall_simps split: if_splits)
qed

lemma sof_not_reached:
  assumes "no_sof (g @ [b])" and "suffix (take k uiaSOF) (filter data_byte g)" and "k < 4" and "sof_byte E k b s = (k', s')"
  shows "k' < 4"
proof -
  have "suffix (take k' uiaSOF) (filter data_byte (g @ [b]))" "k' \<le> 4" using sof_byte_position [OF assms(4,3,2)] by simp_all
  moreover have "\<not> suffix uiaSOF (filter data_byte (g @ [b]))" using assms(1) suffix_imp_sublist unfolding no_sof_def by blast
  moreover have "take 4 uiaSOF = uiaSOF" by (simp add: uiaSOF_def)
  ultimately show ?thesis by (cases "k' = 4") auto
qed

lemma no_sof_prefix: "no_sof (g @ h) \<Longrightarrow> no_sof g"
  unfolding no_sof_def filter_append by (metis prefixI prefix_imp_sublist sublist_order.order_trans)

text \<open>Bytes without a start sequence are passed over.\<close>

lemma read_sof_garbage:
  assumes "stPC_UART_APIRxRing s = g @ ys" and "no_sof (p @ g)" and "suffix (take k uiaSOF) (filter data_byte p)" and "k < 4"
  shows "\<exists>s' k' more. k' < 4 \<and> read_sof E k s = read_sof E k' s' \<and> stPC_UART_APIRxRing s' = ys @ more \<and> rx_only s s'"
  using assms
proof (induction g arbitrary: s p k ys)
  case Nil
  then show ?case by (intro exI [of _ s] exI [of _ k] exI [of _ "[]"]) simp
next
  case (Cons b g)
  obtain t more where t: "iRead_UARTByte E s = (Some b, t)" "stPC_UART_APIRxRing t = (g @ ys) @ more" "rx_only s t"
    using read_byte [of s b "g @ ys"] Cons(2) by (metis append_Cons)
  obtain k1 u where u: "sof_byte E k b t = (k1, u)" by fastforce
  note only = sof_byte_only [OF u]
  have pos: "suffix (take k1 uiaSOF) (filter data_byte (p @ [b]))" using sof_byte_position(1) [OF u Cons(5,4)] by simp
  have "no_sof ((p @ [b]) @ g)" using Cons(3) by simp
  then have less: "k1 < 4" using sof_not_reached [OF _ Cons(4,5) u] no_sof_prefix by blast
  have step: "read_sof E k s = read_sof E k1 u" using t(1) u Cons(5) by (subst read_sof.simps) (simp add: uiaSOF_def)
  have "stPC_UART_APIRxRing u = g @ (ys @ more)" using only(2) t(2) by simp
  from Cons(1) [OF this \<open>no_sof ((p @ [b]) @ g)\<close> pos less] obtain s' k' more' where
    "k' < 4" "read_sof E k1 u = read_sof E k' s'" "stPC_UART_APIRxRing s' = (ys @ more) @ more'" "rx_only u s'" by blast
  with step rx_only_trans [OF t(3)] rx_only_trans [OF only(1)] show ?case by (metis append.assoc)
qed

lemma read_sof_step:
  assumes "stPC_UART_APIRxRing s = b # ys" and "k < 4"
  obtains t u k' more where "sof_byte E k b t = (k', u)" "read_sof E k s = read_sof E k' u" "stPC_UART_APIRxRing u = ys @ more" "rx_only s u"
proof -
  obtain t more where t: "iRead_UARTByte E s = (Some b, t)" "stPC_UART_APIRxRing t = ys @ more" "rx_only s t"
    using read_byte [OF assms(1)] by metis
  obtain k1 u where u: "sof_byte E k b t = (k1, u)" by fastforce
  have "read_sof E k s = read_sof E k1 u" using t(1) u assms(2) by (subst read_sof.simps) (simp add: uiaSOF_def)
  with u sof_byte_only [OF u] t(2) rx_only_trans [OF t(3)] show thesis by (intro that [of t k1 u more]) simp_all
qed

lemma sof_match: "sof_byte E k (uiaSOF ! k) t = (k', u) \<Longrightarrow> k < 4 \<Longrightarrow> k' = k + 1"
proof -
  assume r: "sof_byte E k (uiaSOF ! k) t = (k', u)" and "k < 4"
  then have "k \<in> {0, 1, 2, 3}" by auto
  with r show "k' = k + 1" by (auto simp: sof_byte_def wall_simps uiaSOF_def split: if_splits)
qed

text \<open>The first byte of a start sequence counts from every position, the others from theirs.\<close>

lemma sof_first: "sof_byte E k 66 t = (k', u) \<Longrightarrow> k < 4 \<Longrightarrow> k' = 1"
proof -
  assume r: "sof_byte E k 66 t = (k', u)" and "k < 4"
  then have "k \<in> {0, 1, 2, 3}" by auto
  with r show "k' = 1" by (auto simp: sof_byte_def wall_simps uiaSOF_def split: if_splits)
qed

lemma read_sof_rest:
  assumes "stPC_UART_APIRxRing s = drop k uiaSOF @ ys" and "k \<le> 4"
  shows "\<exists>s' more. read_sof E k s = Some s' \<and> stPC_UART_APIRxRing s' = ys @ more \<and> rx_only s s'"
  using assms
proof (induction "4 - k" arbitrary: k s ys)
  case 0
  then have "k = 4" by simp
  with 0 show ?case by (intro exI [of _ s] exI [of _ "[]"]) (simp add: read_sof.simps uiaSOF_def)
next
  case (Suc n)
  then have k: "k < 4" by simp
  then have "drop k uiaSOF = uiaSOF ! k # drop (Suc k) uiaSOF" using Cons_nth_drop_Suc [of k uiaSOF] by (simp add: uiaSOF_def)
  with Suc(3) have "stPC_UART_APIRxRing s = uiaSOF ! k # drop (Suc k) uiaSOF @ ys" by simp
  then obtain t u k' more where u: "sof_byte E k (uiaSOF ! k) t = (k', u)" "read_sof E k s = read_sof E k' u"
      "stPC_UART_APIRxRing u = drop (Suc k) uiaSOF @ (ys @ more)" "rx_only s u"
    using read_sof_step [OF _ k] by (metis append.assoc)
  have k': "k' = Suc k" using sof_match [OF u(1) k] by simp
  obtain s' more' where "read_sof E (Suc k) u = Some s'" "stPC_UART_APIRxRing s' = (ys @ more) @ more'" "rx_only u s'"
    using Suc(1) [OF _ u(3)] Suc(2) k by fastforce
  with u(2) k' rx_only_trans [OF u(4)] show ?case by auto
qed

lemma read_sof_found:
  assumes "stPC_UART_APIRxRing s = g @ uiaSOF @ ys" and "no_sof g"
  obtains s' more where "read_sof E 0 s = Some s'" and "stPC_UART_APIRxRing s' = ys @ more" and "rx_only s s'"
proof -
  obtain s0 k more0 where s0: "k < 4" "read_sof E 0 s = read_sof E k s0" "stPC_UART_APIRxRing s0 = 66 # [76, 85, 80] @ ys @ more0" "rx_only s s0"
    using read_sof_garbage [OF assms(1), of "[]" 0 E] assms(2) by (auto simp: uiaSOF_def)
  obtain t u k' more1 where u: "sof_byte E k 66 t = (k', u)" "read_sof E k s0 = read_sof E k' u"
      "stPC_UART_APIRxRing u = ([76, 85, 80] @ ys @ more0) @ more1" "rx_only s0 u"
    by (rule read_sof_step [OF s0(3,1), where E = E])
  have "k' = 1" by (rule sof_first [OF u(1) s0(1)])
  moreover have "stPC_UART_APIRxRing u = drop 1 uiaSOF @ ys @ more0 @ more1" using u(3) by (simp add: uiaSOF_def)
  ultimately obtain s' more2 where "read_sof E k' u = Some s'" "stPC_UART_APIRxRing s' = (ys @ more0 @ more1) @ more2" "rx_only u s'"
    using read_sof_rest [of u 1 "ys @ more0 @ more1" E] by auto
  with s0 u rx_only_trans that show thesis by (metis append.assoc)
qed

subsection \<open>Frames\<close>

definition frame_crc :: "u8 list \<Rightarrow> u8 list \<Rightarrow> u16" where
  "frame_crc h p = u16CRC16_CCITT_Update (u16CRC16_CCITT_Update 0xFFFF h) p"

text \<open>What is sent for a command with a payload.\<close>

definition uart_frame :: "u8 \<Rightarrow> u16 \<Rightarrow> u8 list \<Rightarrow> u8 list" where
  "uart_frame cmd seqno pay =
     (let h = header_tail cmd seqno (of_nat (length pay)) in uiaSOF @ h @ pay @ [hi8 (frame_crc h pay), lo8 (frame_crc h pay)])"

text \<open>The same with another payload under the checksum of the first.\<close>

definition uart_frame_damaged :: "u8 \<Rightarrow> u16 \<Rightarrow> u8 list \<Rightarrow> u8 list \<Rightarrow> u8 list" where
  "uart_frame_damaged cmd seqno pay pay' =
     (let h = header_tail cmd seqno (of_nat (length pay)) in uiaSOF @ h @ pay' @ [hi8 (frame_crc h pay), lo8 (frame_crc h pay)])"

lemma send_frame:
  assumes "bPC_UART_APIInitialized s" and "unat n \<le> 264" and "unat n \<le> length pay"
  shows "bPC_UART_API_SendFrame cmd (Some pay) n s
    = (True, s\<lparr>uart_tx := uart_tx s @ uart_frame cmd (uiPC_UART_APITxSeq s) (take (unat n) pay), uiPC_UART_APITxSeq := uiPC_UART_APITxSeq s + 1\<rparr>)"
proof (cases "n = 0")
  case True
  with assms show ?thesis
    by (simp add: bPC_UART_API_SendFrame_def write_bytes vUART_WriteByte_def uart_frame_def frame_crc_def Let_def)
next
  case False
  then have "n > 0" by (simp add: word_gt_0)
  with assms show ?thesis
    by (simp add: bPC_UART_API_SendFrame_def write_bytes vUART_WriteByte_def uart_frame_def frame_crc_def wall_simps Let_def min_def)
qed

text \<open>A frame of six header bytes, a payload and two more bytes that has arrived behind other bytes.\<close>

lemma read_frame_there:
  assumes ring: "stPC_UART_APIRxRing s = g @ uiaSOF @ h @ p @ c @ rest" and "no_sof g" and "length h = 6" and "h ! 0 = 1"
    and "unat (be16 (h ! 4) (h ! 5)) = length p" and "length p \<le> 264" and "length c = 2"
  obtains s' more where "stPC_UART_APIRxRing s' = rest @ more" and "rx_only s s'"
    and "bRead_UARTFrame E s = Some (if be16 (c ! 0) (c ! 1) = frame_crc h p then (Some (h ! 1, p, be16 (h ! 2) (h ! 3)), vSend_UARTDebugByte 67 s')
          else refuse_frame 99 ePC_UART_Error_FrameCRCMismatch s')"
proof -
  obtain s1 m1 where s1: "read_sof E 0 s = Some s1" "stPC_UART_APIRxRing s1 = (h @ p @ c @ rest) @ m1" "rx_only s s1"
    by (rule read_sof_found [OF ring assms(2)])
  have r1: "stPC_UART_APIRxRing (vSend_UARTDebugByte 83 s1) = h @ (p @ c @ rest @ m1)" using s1(2) by simp
  obtain s2 m2 where s2: "bRead_UARTBytesWithTimeout E (length h) PC_UART_API_BYTE_TIMEOUT_MS (vSend_UARTDebugByte 83 s1) = Some (Some h, s2)"
      "stPC_UART_APIRxRing s2 = (p @ c @ rest @ m1) @ m2" "rx_only (vSend_UARTDebugByte 83 s1) s2"
    by (rule read_timeout_there [OF r1])
  have r2: "stPC_UART_APIRxRing (vSend_UARTDebugByte 72 s2) = p @ (c @ rest @ m1 @ m2)" using s2(2) by simp
  obtain s3 m3 where s3: "bRead_UARTBytesWithTimeout E (length p) PC_UART_API_BYTE_TIMEOUT_MS (vSend_UARTDebugByte 72 s2) = Some (Some p, s3)"
      "stPC_UART_APIRxRing s3 = (c @ rest @ m1 @ m2) @ m3" "rx_only (vSend_UARTDebugByte 72 s2) s3"
    by (rule read_timeout_there [OF r2])
  have r3: "stPC_UART_APIRxRing (vSend_UARTDebugByte 80 s3) = c @ (rest @ m1 @ m2 @ m3)" using s3(2) by simp
  obtain s4 m4 where s4: "bRead_UARTBytesWithTimeout E (length c) PC_UART_API_BYTE_TIMEOUT_MS (vSend_UARTDebugByte 80 s3) = Some (Some c, s4)"
      "stPC_UART_APIRxRing s4 = (rest @ m1 @ m2 @ m3) @ m4" "rx_only (vSend_UARTDebugByte 80 s3) s4"
    by (rule read_timeout_there [OF r3])
  note trans = rx_only_trans [OF rx_only_trans]
  have "rx_only s s4" using s1(3) s2(3) s3(3) s4(3) debug_byte(1) rx_only_trans by metis
  then have "rx_only s (vSend_UARTDebugByte 84 s4)" using rx_only_trans debug_byte(1) by blast
  moreover have "bRead_UARTFrame E s = Some (if be16 (c ! 0) (c ! 1) = frame_crc h p
      then (Some (h ! 1, p, be16 (h ! 2) (h ! 3)), vSend_UARTDebugByte 67 (vSend_UARTDebugByte 84 s4))
      else refuse_frame 99 ePC_UART_Error_FrameCRCMismatch (vSend_UARTDebugByte 84 s4))"
    using s1(1) s2(1) s3(1) s4(1) assms(3-7) by (simp add: bRead_UARTFrame_def frame_crc_def Let_def wall_simps)
  ultimately show thesis using s4(2) by (intro that [of "vSend_UARTDebugByte 84 s4" "m1 @ m2 @ m3 @ m4"]) auto
qed

lemma header_of_frame:
  assumes "length p \<le> 264"
  shows "header_tail cmd q (of_nat (length p)) ! 0 = 1" "header_tail cmd q (of_nat (length p)) ! 1 = cmd" "length (header_tail cmd q (of_nat (length p))) = 6"
    "be16 (header_tail cmd q (of_nat (length p)) ! 2) (header_tail cmd q (of_nat (length p)) ! 3) = q"
    "unat (be16 (header_tail cmd q (of_nat (length p)) ! 4) (header_tail cmd q (of_nat (length p)) ! 5)) = length p"
proof -
  have "length p < 2 ^ LENGTH(16)" using assms by simp
  then have "unat (of_nat (length p) :: u16) = length p" by (rule unat_of_nat_small)
  then show "header_tail cmd q (of_nat (length p)) ! 0 = 1" "header_tail cmd q (of_nat (length p)) ! 1 = cmd"
    "length (header_tail cmd q (of_nat (length p))) = 6"
    "be16 (header_tail cmd q (of_nat (length p)) ! 2) (header_tail cmd q (of_nat (length p)) ! 3) = q"
    "unat (be16 (header_tail cmd q (of_nat (length p)) ! 4) (header_tail cmd q (of_nat (length p)) ! 5)) = length p"
    by (simp_all add: header_tail_def wall_simps)
qed

lemma receive_sent:
  assumes "stPC_UART_APIRxRing s = g @ uart_frame cmd q p @ rest" and "no_sof g" and "length p \<le> 264"
  obtains s' more where "bRead_UARTFrame E s = Some (Some (cmd, p, q), s')" and "stPC_UART_APIRxRing s' = rest @ more" and "rx_only s s'"
proof -
  let ?h = "header_tail cmd q (of_nat (length p))" and ?c = "frame_crc (header_tail cmd q (of_nat (length p))) p"
  note h = header_of_frame [OF assms(3), of cmd q]
  have ring: "stPC_UART_APIRxRing s = g @ uiaSOF @ ?h @ p @ [hi8 ?c, lo8 ?c] @ rest" using assms(1) by (simp add: uart_frame_def Let_def)
  obtain s1 more where "stPC_UART_APIRxRing s1 = rest @ more" "rx_only s s1"
    "bRead_UARTFrame E s = Some (Some (cmd, p, q), vSend_UARTDebugByte 67 s1)"
    using read_frame_there [OF ring assms(2) h(3,1,5) assms(3)] h(2,4) by auto
  then show thesis using that rx_only_trans [OF _ debug_byte(1)] by (metis debug_byte(2))
qed

text \<open>A frame of which two adjacent bytes of the payload have changed is refused.\<close>

lemma receive_damaged:
  assumes "stPC_UART_APIRxRing s = g @ uiaSOF @ header_tail cmd q (of_nat (length p)) @ p'
      @ [hi8 (frame_crc (header_tail cmd q (of_nat (length p))) p), lo8 (frame_crc (header_tail cmd q (of_nat (length p))) p)] @ rest"
    and "no_sof g" and "length p \<le> 264" and "p = xs @ [x, y] @ zs" and "p' = xs @ [x', y'] @ zs" and "(x, y) \<noteq> (x', y')"
  obtains s' where "bRead_UARTFrame E s = Some (refuse_frame 99 ePC_UART_Error_FrameCRCMismatch s')" and "rx_only s s'"
proof -
  let ?h = "header_tail cmd q (of_nat (length p))" and ?c = "frame_crc (header_tail cmd q (of_nat (length p))) p"
  note h = header_of_frame [OF assms(3), of cmd q]
  have len: "length p' = length p" using assms(4,5) by simp
  have "frame_crc ?h p \<noteq> frame_crc ?h p'"
    unfolding frame_crc_def assms(4,5) by (rule crc.upd_differs) (use assms(6) in \<open>simp only: crc_two_bytes_inject, simp\<close>)
  then have "be16 (hi8 ?c) (lo8 ?c) \<noteq> frame_crc ?h p'" by simp
  with read_frame_there [OF assms(1,2) h(3,1), of E] h(5) len assms(3) that show thesis by auto
qed

lemma refused_turn:
  assumes "bRead_UARTFrame E s = Some (refuse_frame x e t)" and "rx_only s t"
  obtains s' out where "vThread_PC_UART_API E m n s = Some s'" and "rx_only s s'" and "uart_tx s' = out @ [PC_UART_PROTOCOL_NACK, uart_error_val e]"
proof -
  let ?s = "vSend_UARTResponse PC_UART_PROTOCOL_NACK (uart_error_val e) (vSend_UARTDebugByte x t)"
  have "rx_only t ?s" unfolding vSend_UARTResponse_def
    using rx_only_trans [OF rx_only_trans [OF debug_byte(1) line_write_only] line_write_only] .
  from rx_only_trans [OF assms(2) this] assms(1) show thesis
    by (intro that [of ?s "uart_tx (vSend_UARTDebugByte x t)"]) (simp_all add: vThread_PC_UART_API_def refuse_frame_def vSend_UARTResponse_def)
qed

end
