(* ===== verification/Uart_Upload.thy ===== *)
theory Uart_Upload
  imports Uart_Stream Lfs_Transfer Audio_Persistence
begin

text \<open>
  A bulk upload over the UART: from a bulk start that is acknowledged, data frames, any other commands but start and end,
  the reception of frames, turns of the worker and of the other thread, to the end command. The
  acknowledgement of the end stands for the file.
\<close>

inductive uart_upload ::
  "('w, 'z) uart_services_scheme \<Rightarrow> sT_BulkTransferData \<Rightarrow> u8 list \<Rightarrow> 'w uart_sys \<Rightarrow> bool"
  for E :: "('w, 'z) uart_services_scheme" where
  uu_start: "eActiveOperation s = ePC_UART_Operation_LocalBulkFile \<Longrightarrow>
    ePC_UART_API_DispatchFrame E m n ePC_UART_Command_BulkStart (Some p) (length p) s = Some (ePC_UART_Error_None, s') \<Longrightarrow>
    uart_upload E (bulk_announcement p) [] s'"
| uu_data: "uart_upload E d bs s \<Longrightarrow>
    ePC_UART_API_DispatchFrame E m n ePC_UART_Command_BulkData (Some p) (length p) s = Some (e, s') \<Longrightarrow>
    uart_upload E d (if e = ePC_UART_Error_None \<and> eActiveOperation s = ePC_UART_Operation_LocalBulkFile then bs @ drop 8 p else bs) s'"
| uu_command: "uart_upload E d bs s \<Longrightarrow> eActiveOperation s \<noteq> ePC_UART_Operation_LocalBulkFile \<or>
      cmd \<notin> {ePC_UART_Command_BulkStart, ePC_UART_Command_BulkData} \<and> (cmd = ePC_UART_Command_BulkEnd \<longrightarrow> len \<noteq> 0) \<Longrightarrow>
    ePC_UART_API_DispatchFrame E m n cmd p len s = Some (e, s') \<Longrightarrow> uart_upload E d bs s'"
| uu_receive: "uart_upload E d bs s \<Longrightarrow> bRead_UARTFrame E s = Some (fr, s') \<Longrightarrow> uart_upload E d bs s'"
| uu_respond: "uart_upload E d bs s \<Longrightarrow> uart_upload E d bs (vSend_UARTResponse st err s)"
| uu_can_frame: "uart_upload E d bs s \<Longrightarrow> uart_upload E d bs (vPC_UART_API_ForwardCANFrame fr s)"
| uu_can_thread: "uart_upload E d bs s \<Longrightarrow> uart_upload E d bs (vThread_PC_UART_API_CANRx E s)"
| uu_worker: "uart_upload E d bs s \<Longrightarrow> uart_upload E d bs (set_ua_lfs (vLittleFs_FileTransferMonitor E (ua_lfs s)) s)"
| uu_cleanup: "uart_upload E d bs s \<Longrightarrow> vDataTransfer_TimeOutHandler E (ua_lfs s) = Some l \<Longrightarrow> uart_upload E d bs (set_ua_lfs l s)"

subsection \<open>A driver that leaves the files alone\<close>

locale uart_files = audio_env E content opened
  for E :: "('w, 'z) uart_services_scheme" and content :: "string \<Rightarrow> 'w \<Rightarrow> u8 list option" and opened :: "nat \<Rightarrow> 'w \<Rightarrow> (string \<times> nat) option" +
  assumes irq_keeps: "uart_irq_reads E w = (rs, w') \<Longrightarrow> content q w' = content q w \<and> opened g w' = opened g w"
    and msleep_keeps: "content q (uart_msleep E ms w) = content q w \<and> opened g (uart_msleep E ms w) = opened g w"
    and uptime_keeps: "uart_uptime E w = (t, w') \<Longrightarrow> content q w' = content q w \<and> opened g w' = opened g w"
    and adc_keeps: "content q (uart_adc_request E w) = content q w \<and> opened g (uart_adc_request E w) = opened g w"
    and submit_keeps: "uart_can_submit E msg w = (r, w') \<Longrightarrow> content q w' = content q w \<and> opened g w' = opened g w"
begin

text \<open>Nothing of the file system controller moves but the world, and no file in it.\<close>

definition quiet :: "'w uart_sys \<Rightarrow> 'w uart_sys \<Rightarrow> bool" where
  "quiet s s' \<longleftrightarrow> (\<exists>w. ua_lfs s' = (ua_lfs s)\<lparr>lfs_world := w\<rparr> \<and> (\<forall>q. content q w = content q (lfs_world (ua_lfs s)))
     \<and> (\<forall>g. opened g w = opened g (lfs_world (ua_lfs s)))) \<and> bBulkSessionActive s' = bBulkSessionActive s"

lemma quiet_trans: "quiet a b \<Longrightarrow> quiet b c \<Longrightarrow> quiet a c"
  by (auto simp: quiet_def)

lemma quiet_same: "ua_audio s' = ua_audio s \<Longrightarrow> bBulkSessionActive s' = bBulkSessionActive s \<Longrightarrow> quiet s s'"
  by (auto simp: quiet_def intro!: exI [of _ "lfs_world (ua_lfs s)"])

lemma quiet_uio:
  assumes "uio f s = (r, s')" and "\<And>w x w' q g. f w = (x, w') \<Longrightarrow> content q w' = content q w \<and> opened g w' = opened g w"
  shows "quiet s s'"
proof -
  obtain x w where w: "f (lfs_world (ua_lfs s)) = (x, w)" by fastforce
  from assms(1) w have "s' = s\<lparr>ua_audio := (ua_audio s)\<lparr>au_lfs := (ua_lfs s)\<lparr>lfs_world := w\<rparr>\<rparr>\<rparr>"
    by (auto simp: on_audio_def via_def io_def)
  with assms(2) [OF w] show ?thesis by (auto simp: quiet_def)
qed

lemma quiet_upload:
  assumes "quiet s s'" and "upload_inv d bs (ua_lfs s)"
  shows "upload_inv d bs (ua_lfs s')"
proof -
  obtain w where w: "ua_lfs s' = (ua_lfs s)\<lparr>lfs_world := w\<rparr>" "\<forall>q. content q w = content q (lfs_world (ua_lfs s))"
    "\<forall>g. opened g w = opened g (lfs_world (ua_lfs s))" using assms(1) by (auto simp: quiet_def)
  have "in_file c (ua_lfs s') = in_file c (ua_lfs s)" for c using w by (simp add: in_file_def)
  with assms(2) w(1) show ?thesis
    by (simp add: upload_inv_def receiving_def live_def stopped_ill_def eGetTransferState_def bCanProcess_QueuedBulkData_def bIs_MsgQueueInError_def)
qed

text \<open>Receiving is quiet.\<close>

lemma quiet_refl [simp]: "quiet s s"
  by (rule quiet_same) simp_all

lemma quiet_write [simp]: "quiet s (vUART_WriteByte b s)" "quiet s (vSend_UARTDebugByte b s)" "quiet s (s\<lparr>bUARTDebugNextFrame := x\<rparr>)"
  by (rule quiet_same; simp add: vUART_WriteByte_def vSend_UARTDebugByte_def)+

lemma quiet_sleep: "quiet s (snd (uio (\<lambda>w. ((), uart_msleep E n w)) s))"
  by (rule quiet_uio [OF surjective_pairing]) (auto simp: msleep_keeps)

lemma quiet_byte:
  assumes "iRead_UARTByte E s = (r, s')"
  shows "quiet s s'"
proof -
  obtain reads t where t: "uio (uart_irq_reads E) s = (reads, t)" by fastforce
  have q: "quiet s t" by (rule quiet_uio [OF t]) (rule irq_keeps)
  obtain more where more: "vPC_UART_API_RxISR reads t = t\<lparr>stPC_UART_APIRxRing := stPC_UART_APIRxRing t @ more\<rparr>" by (rule isr_ring)
  let ?t = "t\<lparr>stPC_UART_APIRxRing := stPC_UART_APIRxRing t @ more\<rparr>"
  have "quiet t ?t" by (rule quiet_same) simp_all
  from quiet_trans [OF q this] have q2: "quiet s ?t" .
  show ?thesis
  proof (cases "stPC_UART_APIRxRing ?t")
    case Nil
    with assms t more have "s' = snd (uio (\<lambda>w. ((), uart_msleep E 1 w)) ?t)" by (simp add: iRead_UARTByte_def Let_def)
    with quiet_trans [OF q2 quiet_sleep] show ?thesis by simp
  next
    case (Cons b bs)
    with assms t more have "s' = ?t\<lparr>stPC_UART_APIRxRing := bs\<rparr>" by (simp add: iRead_UARTByte_def Let_def)
    moreover have "quiet ?t (?t\<lparr>stPC_UART_APIRxRing := bs\<rparr>)" by (rule quiet_same) simp_all
    ultimately show ?thesis using quiet_trans [OF q2] by simp
  qed
qed

lemma quiet_bytes:
  assumes "read_bytes E deadline n got s = Some (r, s')"
  shows "quiet s s'"
proof -
  have "E' = E \<longrightarrow> quiet s (snd x)" if "read_bytes E' deadline n got s = Some x" for x E'
    using that
  proof (induction rule: read_bytes.raw_induct [rotated, consumes 1, case_names step])
    case (step f E' deadline n got s x)
    obtain b t where t: "iRead_UARTByte E' s = (b, t)" by fastforce
    have q: "quiet s t" if "E' = E" using quiet_byte t that by simp
    show ?case
    proof (cases "n = 0")
      case True
      with step(2) show ?thesis by auto
    next
      case False
      show ?thesis
      proof (cases b)
        case (Some c)
        with step(2) t False have "f E' deadline (n - 1) (got @ [c]) t = Some x" by simp
        from step(1) [OF this] q quiet_trans show ?thesis by blast
      next
        case None
        obtain now u where u: "uio (uart_uptime E') t = (now, u)" by fastforce
        have qu: "quiet s u" if "E' = E"
          using quiet_trans [OF q quiet_uio [OF u]] uptime_keeps that by blast
        show ?thesis
        proof (cases "now \<ge> deadline")
          case True
          with step(2) t False None u have "x = (None, u)" by simp
          with qu show ?thesis by simp
        next
          case less: False
          with step(2) t False None u have "f E' deadline n got u = Some x" by simp
          from step(1) [OF this] qu quiet_trans show ?thesis by blast
        qed
      qed
    qed
  qed
  with assms show ?thesis by fastforce
qed

lemma quiet_timeout:
  assumes "bRead_UARTBytesWithTimeout E n ms s = Some (r, s')"
  shows "quiet s s'"
proof -
  obtain now u where u: "uio (uart_uptime E) s = (now, u)" by fastforce
  have "quiet s u" by (rule quiet_uio [OF u]) (rule uptime_keeps)
  with assms u quiet_bytes quiet_trans show ?thesis by (auto simp: bRead_UARTBytesWithTimeout_def)
qed

lemma quiet_sof_byte:
  assumes "sof_byte E k b s = (k', s')"
  shows "quiet s s'"
proof -
  have "quiet s (snd (uio (\<lambda>w. ((), uart_adc_request E w)) s))"
    by (rule quiet_uio [OF surjective_pairing]) (auto simp: adc_keeps)
  moreover have "quiet s (vUART_WriteByte 100 (s\<lparr>bUARTDebugNextFrame := True\<rparr>))" by (rule quiet_trans [OF quiet_write(3) quiet_write(1)])
  ultimately show ?thesis using assms by (auto simp: sof_byte_def split: if_splits)
qed

lemma quiet_sof:
  assumes "read_sof E k s = Some s'"
  shows "quiet s s'"
proof -
  have "E' = E \<longrightarrow> quiet s s'" if "read_sof E' k s = Some s'" for s' E'
    using that
  proof (induction rule: read_sof.raw_induct [rotated, consumes 1, case_names step])
    case (step f E' k s s')
    obtain b t where t: "iRead_UARTByte E' s = (b, t)" by fastforce
    have q: "quiet s t" if "E' = E" using quiet_byte t that by simp
    show ?case
    proof (cases "k \<ge> length uiaSOF")
      case True
      with step(2) show ?thesis by simp
    next
      case False
      show ?thesis
      proof (cases b)
        case None
        with step(2) t False have "f E' k t = Some s'" by simp
        from step(1) [OF this] q quiet_trans show ?thesis by blast
      next
        case (Some c)
        obtain k' u where u: "sof_byte E' k c t = (k', u)" by fastforce
        have "f E' k' u = Some s'" using step(2) t False Some u by simp
        from step(1) [OF this] q quiet_sof_byte u quiet_trans show ?thesis by metis
      qed
    qed
  qed
  with assms show ?thesis by fastforce
qed

lemma quiet_respond: "quiet s (vSend_UARTResponse st err s)"
  unfolding vSend_UARTResponse_def by (rule quiet_trans [OF quiet_write(1) quiet_write(1)])

lemma quiet_refuse: "refuse_frame dbg e s = (r, s') \<Longrightarrow> quiet s s'"
  unfolding refuse_frame_def using quiet_trans [OF quiet_write(2) quiet_respond] by auto

text \<open>A frame is read or refused; nothing else happens to the files.\<close>

lemma quiet_frame:
  assumes "bRead_UARTFrame E s = Some (r, s')"
  shows "quiet s s'"
proof -
  obtain s1 where s1: "read_sof E 0 s = Some s1" using assms by (auto simp: bRead_UARTFrame_def bind_eq_Some_conv)
  obtain h s2 where s2: "bRead_UARTBytesWithTimeout E 6 PC_UART_API_BYTE_TIMEOUT_MS (vSend_UARTDebugByte 83 s1) = Some (h, s2)"
    using assms s1 by (auto simp: bRead_UARTFrame_def bind_eq_Some_conv)
  have q2: "quiet s s2" using quiet_sof [OF s1] quiet_timeout [OF s2] quiet_write(2) quiet_trans by blast
  show ?thesis
  proof (cases h)
    case None
    with assms s1 s2 have "refuse_frame 104 ePC_UART_Error_InvalidLength s2 = (r, s')" by (simp add: bRead_UARTFrame_def)
    with quiet_refuse quiet_trans q2 show ?thesis by blast
  next
    case (Some hb)
    let ?s2 = "vSend_UARTDebugByte 72 s2" and ?n = "unat (be16 (hb ! 4) (hb ! 5))"
    have q2': "quiet s ?s2" using q2 quiet_write(2) quiet_trans by blast
    show ?thesis
    proof (cases "hb ! 0 \<noteq> PC_UART_PROTOCOL_VERSION \<or> ?n > PC_UART_PROTOCOL_MAX_PAYLOAD_LENGTH")
      case True
      with assms s1 s2 Some have "\<exists>x e. refuse_frame x e ?s2 = (r, s')"
        by (auto simp: bRead_UARTFrame_def Let_def split: if_splits)
      with quiet_refuse quiet_trans q2' show ?thesis by blast
    next
      case False
      with assms s1 s2 Some obtain p s3 where s3: "bRead_UARTBytesWithTimeout E ?n PC_UART_API_BYTE_TIMEOUT_MS ?s2 = Some (p, s3)"
        by (auto simp: bRead_UARTFrame_def Let_def bind_eq_Some_conv)
      have q3: "quiet s s3" using q2' quiet_timeout [OF s3] quiet_trans by blast
      show ?thesis
      proof (cases p)
        case None
        with assms s1 s2 Some False s3 have "refuse_frame 112 ePC_UART_Error_InvalidLength s3 = (r, s')" by (simp add: bRead_UARTFrame_def Let_def)
        with quiet_refuse quiet_trans q3 show ?thesis by blast
      next
        case (Some pb)
        with assms s1 s2 \<open>h = Some hb\<close> False s3 obtain c s4
          where s4: "bRead_UARTBytesWithTimeout E 2 PC_UART_API_BYTE_TIMEOUT_MS (vSend_UARTDebugByte 80 s3) = Some (c, s4)"
            and rest: "(case c of None \<Rightarrow> Some (refuse_frame 116 ePC_UART_Error_InvalidLength s4)
              | Some c \<Rightarrow> let s = vSend_UARTDebugByte 84 s4 in
                  if be16 (c ! 0) (c ! 1) \<noteq> u16CRC16_CCITT_Update (u16CRC16_CCITT_Update 0xFFFF hb) pb
                  then Some (refuse_frame 99 ePC_UART_Error_FrameCRCMismatch s)
                  else Some (Some (hb ! 1, pb, be16 (hb ! 2) (hb ! 3)), vSend_UARTDebugByte 67 s)) = Some (r, s')"
          by (auto simp: bRead_UARTFrame_def Let_def bind_eq_Some_conv simp del: One_nat_def)
        have q4: "quiet s s4" using q3 quiet_timeout [OF s4] quiet_write(2) quiet_trans by blast
        then have q5: "quiet s (vSend_UARTDebugByte x s4)" "quiet s (vSend_UARTDebugByte x (vSend_UARTDebugByte y s4))" for x y
          using quiet_write(2) quiet_trans by blast+
        show ?thesis
        proof (cases c)
          case None
          with rest have "refuse_frame 116 ePC_UART_Error_InvalidLength s4 = (r, s')" by simp
          from quiet_trans [OF q4 quiet_refuse [OF this]] show ?thesis .
        next
          case (Some cb)
          with rest have "refuse_frame 99 ePC_UART_Error_FrameCRCMismatch (vSend_UARTDebugByte 84 s4) = (r, s')
              \<or> s' = vSend_UARTDebugByte 67 (vSend_UARTDebugByte 84 s4)" by (auto simp: Let_def split: if_splits)
          with q5 quiet_trans [OF q5(1) quiet_refuse] show ?thesis by blast
        qed
      qed
    qed
  qed
qed

subsection \<open>Commands\<close>

lemma quiet_operation: "quiet s (s\<lparr>eActiveOperation := x\<rparr>)"
  by (rule quiet_same) simp_all

lemma quiet_config_read: "bBulkSessionActive s \<Longrightarrow> eProcess_ConfigRead E p n s = (e, s') \<Longrightarrow> s' = s"
  by (auto simp: eProcess_ConfigRead_def split: if_splits)

lemma quiet_bridge:
  assumes "ePC_UART_FWBridgeService_Process E cmd p n s = (e, s')"
  shows "quiet s s'"
proof (cases "\<not> bIs_HostBootloaderCommand cmd \<or> n > CAN_MSG_MAX_SIZE - 1 \<or> (n > 0 \<and> p = None)")
  case True
  with assms have "s' = s" by (auto simp: ePC_UART_FWBridgeService_Process_def split: if_splits)
  then show ?thesis by simp
next
  case False
  let ?data = "memcpy_list (replicate CAN_MSG_MAX_SIZE 0) (cmd # (if n > 0 then take n (the p) else []))"
  let ?msg = "zero_tx_msg\<lparr>tx_uiID := CAN_RX_BOOTLOADER_ID, tx_uiLen := of_nat n + 1, tx_puiData := Some ?data\<rparr>"
  obtain r t where t: "uio (uart_can_submit E ?msg) s = (r, t)" by fastforce
  have "s' = t" using assms False t by (auto simp: ePC_UART_FWBridgeService_Process_def Let_def split: if_splits)
  then show ?thesis using quiet_uio [OF t] submit_keeps by blast
qed

text \<open>While a session is active every other command, and an end command with a payload, leaves the files alone.\<close>

lemma quiet_command:
  assumes run: "ePC_UART_API_DispatchFrame E m n cmd p len s = Some (e, s')" and act: "bBulkSessionActive s"
    and cmd: "eActiveOperation s = ePC_UART_Operation_LocalBulkFile \<longrightarrow> cmd \<notin> {ePC_UART_Command_BulkStart, ePC_UART_Command_BulkData}
       \<and> (cmd = ePC_UART_Command_BulkEnd \<longrightarrow> len \<noteq> 0)"
  shows "quiet s s'"
proof (cases "cmd = ePC_UART_Command_SelectOperation \<or> cmd = ePC_UART_Command_ReleaseOperation \<or> eActiveOperation s = ePC_UART_Operation_Idle")
  case True
  with run have "s' = s \<or> (\<exists>x. s' = s\<lparr>eActiveOperation := x\<rparr>)"
    by (auto simp: ePC_UART_API_DispatchFrame_def eSelect_Operation_def eRelease_Operation_def split: if_splits option.splits)
  then show ?thesis using quiet_operation by auto
next
  case False
  show ?thesis
  proof (cases "eActiveOperation s = ePC_UART_Operation_FirmwareBridge")
    case True
    with run False have "ePC_UART_FWBridgeService_Process E cmd p len s = (e, s')" by (simp add: ePC_UART_API_DispatchFrame_def)
    then show ?thesis by (rule quiet_bridge)
  next
    case other: False
    then have op: "eActiveOperation s = ePC_UART_Operation_LocalBulkFile" using False by (cases "eActiveOperation s") auto
    obtain e1 s1 where cr: "eProcess_ConfigRead E p len s = (e1, s1)" by fastforce
    have "s1 = s" by (rule quiet_config_read [OF act cr])
    with run False op cmd cr have "s' = s \<or> s' = s\<lparr>eActiveOperation := ePC_UART_Operation_Idle\<rparr>"
      by (auto simp: ePC_UART_API_DispatchFrame_def ePC_UART_BulkFileService_Process_def eProcess_BulkEnd_def split: if_splits)
    then show ?thesis using quiet_operation by auto
  qed
qed

subsection \<open>The upload\<close>

definition session_inv :: "sT_BulkTransferData \<Rightarrow> u8 list \<Rightarrow> 'w uart_sys \<Rightarrow> bool" where
  "session_inv d bs s \<longleftrightarrow> upload_inv d bs (ua_lfs s) \<and> bBulkSessionActive s"

lemma session_quiet: "quiet s s' \<Longrightarrow> session_inv d bs s \<Longrightarrow> session_inv d bs s'"
  using quiet_upload [of s s' d bs] by (simp add: session_inv_def quiet_def)

lemma session_files: "session_inv d bs s \<Longrightarrow> upload_inv d bs l \<Longrightarrow> session_inv d bs (set_ua_lfs l s)"
  by (simp add: session_inv_def set_ua_lfs_def)

lemma session_start:
  assumes op: "eActiveOperation s = ePC_UART_Operation_LocalBulkFile"
    and run: "ePC_UART_API_DispatchFrame E m n ePC_UART_Command_BulkStart (Some p) len s = Some (ePC_UART_Error_None, s')"
  shows "session_inv (bulk_announcement p) [] s'"
proof -
  obtain l where "bStart_BulkDataTransfer E (bulk_announcement p) (ua_lfs s) = Some (True, l)"
    and s': "s' = (set_ua_lfs l s)\<lparr>bBulkSessionActive := True\<rparr>"
    using run op by (auto simp: ePC_UART_API_DispatchFrame_def ePC_UART_BulkFileService_Process_def eProcess_BulkStart_def
        wall_simps Let_def bind_eq_Some_conv split: if_splits)
  with start_receiving show ?thesis by (simp add: session_inv_def upload_inv_def set_ua_lfs_def)
qed

text \<open>A data frame that is acknowledged has its bytes behind the eight of the header.\<close>

lemma accepted_bytes:
  assumes "length p = 8 + unat (u16Read_BigEndian (drop 4 p))" and "unat (u16Read_BigEndian (drop 4 p)) \<le> 256"
  shows "frame_bytes (bulk_message p) = drop 8 p" and "length (md_uiMsg (bulk_message p)) = 256"
proof -
  obtain w where w: "u16Read_BigEndian (drop 4 p) = w" by blast
  have len: "length (drop 8 p) = unat w" using assms(1) unfolding w by simp
  then have all: "take (unat w) (drop 8 p) = drop 8 p" by simp
  show "frame_bytes (bulk_message p) = drop 8 p"
    unfolding frame_bytes_def bulk_message_def Let_def w all sT_MsgData_t.simps len [symmetric]
    by (simp only: take_all [OF order_refl] take_memcpy_list)
  have "unat w \<le> length (replicate MAX_FRAME_LENGTH (0 :: u8))" using assms(2) unfolding w length_replicate MAX_FRAME_LENGTH_def .
  then show "length (md_uiMsg (bulk_message p)) = 256"
    unfolding bulk_message_def Let_def w all sT_MsgData_t.simps by (subst length_memcpy_list) (simp_all add: len MAX_FRAME_LENGTH_def del: length_drop)
qed

lemma bulk_data_result:
  assumes act: "bBulkSessionActive s" and w: "u16Read_BigEndian (drop 4 p) = w"
    and files: "on_files (iSend_BulkTransferData E (Some (bulk_message p))) s = (r, t)"
  shows "eProcess_BulkData E (Some p) (length p) s
    = (if w = 0 \<or> unat w > 256 \<or> length p \<noteq> 8 + unat w then (ePC_UART_Error_InvalidLength, s)
       else (if r = - ENOMSG \<or> r = - EAGAIN then ePC_UART_Error_QueueFull else if r = 0 then ePC_UART_Error_None else ePC_UART_Error_InvalidFrame, t))"
proof -
  have zero: "unat w = 0 \<longleftrightarrow> w = 0" by (rule unat_eq_zero)
  show ?thesis
    unfolding eProcess_BulkData_def Let_def option.sel files prod.case w PC_UART_PROTOCOL_BULK_DATA_FIXED_LENGTH_def MAX_FRAME_LENGTH_def zero
    using act by (cases "length p < 8") simp_all
qed

lemma session_data:
  assumes inv: "session_inv d bs s"
    and run: "ePC_UART_API_DispatchFrame E m n ePC_UART_Command_BulkData (Some p) (length p) s = Some (e, s')"
  shows "session_inv d (if e = ePC_UART_Error_None \<and> eActiveOperation s = ePC_UART_Operation_LocalBulkFile then bs @ drop 8 p else bs) s'"
proof (cases "eActiveOperation s = ePC_UART_Operation_LocalBulkFile")
  case False
  have "quiet s s'" by (rule quiet_command [OF run]) (use False inv in \<open>simp_all add: session_inv_def\<close>)
  from session_quiet [OF this inv] False show ?thesis by simp
next
  case op: True
  then have data: "eProcess_BulkData E (Some p) (length p) s = (e, s')"
    using run by (auto simp: ePC_UART_API_DispatchFrame_def ePC_UART_BulkFileService_Process_def wall_simps split: prod.splits)
  obtain w where w: "u16Read_BigEndian (drop 4 p) = w" by blast
  obtain r l where send: "iSend_BulkTransferData E (Some (bulk_message p)) (ua_lfs s) = (r, l)" by fastforce
  have files: "on_files (iSend_BulkTransferData E (Some (bulk_message p))) s = (r, set_ua_lfs l s)"
    by (simp add: on_audio_def via_def set_ua_lfs_def send)
  note res = bulk_data_result [OF _ w files, unfolded data]
  have act: "bBulkSessionActive s" using inv by (simp add: session_inv_def)
  show ?thesis
  proof (cases "w = 0 \<or> unat w > 256 \<or> length p \<noteq> 8 + unat w")
    case True
    with res [OF act] have "s' = s" "e = ePC_UART_Error_InvalidLength" by simp_all
    with inv show ?thesis by simp
  next
    case False
    then have ok: "length p = 8 + unat (u16Read_BigEndian (drop 4 p))" "unat (u16Read_BigEndian (drop 4 p)) \<le> 256"
      unfolding w by simp_all
    from res [OF act] False have s': "s' = set_ua_lfs l s" and e: "e = ePC_UART_Error_None \<longleftrightarrow> r = 0"
      by (auto simp: errno_defs split: if_splits)
    from frame_inv [OF _ accepted_bytes(2) [OF ok] send, of d bs] inv accepted_bytes(1) [OF ok]
    have "upload_inv d (if r = 0 then bs @ drop 8 p else bs) l" by (simp add: session_inv_def split: if_splits)
    with inv e op show ?thesis by (simp add: s' session_inv_def set_ua_lfs_def)
  qed
qed

lemma quiet_can_thread: "quiet s (vThread_PC_UART_API_CANRx E s)"
proof -
  have "quiet s (snd (bPC_UART_API_SendFrame c p n s))" for c p n s
    by (rule quiet_same) (simp_all add: bPC_UART_API_SendFrame_def write_bytes vUART_WriteByte_def Let_def)
  then have "quiet (s\<lparr>msgq_PC_UART_APICANRx := q\<rparr>) (vSend_UARTFrameToPC E fr (s\<lparr>msgq_PC_UART_APICANRx := q\<rparr>))" for fr q
    by (simp add: vSend_UARTFrameToPC_def Let_def)
  moreover have "quiet s (s\<lparr>msgq_PC_UART_APICANRx := q\<rparr>)" for q by (rule quiet_same) simp_all
  ultimately show ?thesis
    using quiet_trans by (fastforce simp: vThread_PC_UART_API_CANRx_def Let_def split: list.splits)
qed

lemma session_keeps: "uart_upload E d bs s \<Longrightarrow> session_inv d bs s"
proof (induction rule: uart_upload.induct)
  case (uu_start s m n p s')
  then show ?case by (rule session_start)
next
  case (uu_data d bs s m n p e s')
  from uu_data.IH uu_data.hyps(2) show ?case by (rule session_data)
next
  case (uu_command d bs s cmd len m n p e s')
  have "quiet s s'"
    by (rule quiet_command [OF uu_command.hyps(3)]) (use uu_command in \<open>auto simp: session_inv_def\<close>)
  with uu_command.IH show ?case by (rule session_quiet [rotated])
next
  case (uu_receive d bs s fr s')
  from session_quiet [OF quiet_frame [OF uu_receive.hyps(2)] uu_receive.IH] show ?case .
next
  case (uu_respond d bs s st err)
  from session_quiet [OF quiet_respond uu_respond.IH] show ?case .
next
  case (uu_can_frame d bs s fr)
  have "quiet s (vPC_UART_API_ForwardCANFrame fr s)" by (rule quiet_same) (simp_all add: vPC_UART_API_ForwardCANFrame_def)
  from session_quiet [OF this uu_can_frame.IH] show ?case .
next
  case (uu_can_thread d bs s)
  from session_quiet [OF quiet_can_thread uu_can_thread.IH] show ?case .
next
  case (uu_worker d bs s)
  then show ?case using session_files worker_inv by (auto simp: session_inv_def)
next
  case (uu_cleanup d bs s l)
  then show ?case using session_files cleanup_inv by (auto simp: session_inv_def)
qed

text \<open>The end command.\<close>

lemma session_end:
  assumes inv: "session_inv d bs s" and op: "eActiveOperation s = ePC_UART_Operation_LocalBulkFile"
    and run: "ePC_UART_API_DispatchFrame E m n ePC_UART_Command_BulkEnd p 0 s = Some (e, s')"
  shows "eActiveOperation s' = ePC_UART_Operation_Idle \<and> \<not> bBulkSessionActive s'"
    and "e = ePC_UART_Error_None \<Longrightarrow> content (bc_pcaTotalFilePath (stTBulkDataCtrl (ua_lfs s))) (lfs_world (ua_lfs s')) = Some bs
      \<and> length bs = unat (bd_uiFileSize d) \<and> u16CRC16_CCITT_Update 0xFFFF bs = bd_uiCRC d"
proof -
  obtain res l where en: "vEnd_BulkDataTransfer E m n (ua_lfs s) = Some (res, l)" and e: "e = bulk_end_error res"
    and s': "s' = (set_ua_lfs l s)\<lparr>bBulkSessionActive := False, eActiveOperation := ePC_UART_Operation_Idle\<rparr>"
    using run op inv
    by (auto simp: ePC_UART_API_DispatchFrame_def ePC_UART_BulkFileService_Process_def eProcess_BulkEnd_def session_inv_def
        wall_simps bind_eq_Some_conv split: if_splits)
  show "eActiveOperation s' = ePC_UART_Operation_Idle \<and> \<not> bBulkSessionActive s'" by (simp add: s')
  assume "e = ePC_UART_Error_None"
  then have "tr_eTransferState res = eFileTransfer_Success"
    by (auto simp: e bulk_end_error_def split: if_splits eErrorState_t.splits)
  from end_success [OF _ en this, of d bs] inv
  show "content (bc_pcaTotalFilePath (stTBulkDataCtrl (ua_lfs s))) (lfs_world (ua_lfs s')) = Some bs
      \<and> length bs = unat (bd_uiFileSize d) \<and> u16CRC16_CCITT_Update 0xFFFF bs = bd_uiCRC d"
    by (simp add: s' session_inv_def set_ua_lfs_def)
qed

end

end
