(* ===== verification/Uart_Demo.thy ===== *)
theory Uart_Demo
  imports Uart_Upload Audio_Demo Lfs_Properties
begin

text \<open>
  Runs of the UART interface over the file system in memory, for the witnesses of its properties.
\<close>

definition ram_uart :: "ram uart_services" where
  "ram_uart = \<lparr>fs_mount = Pair 0, fs_stat = ram_stat, fs_open = ram_open_file, fs_read = ram_read, fs_write = ram_write,
     fs_sync = (\<lambda>h. Pair 0), fs_close = ram_close, fs_unlink = ram_unlink, fs_mkdir = ram_mkdir,
     fs_opendir = ram_opendir, fs_readdir = ram_readdir, fs_closedir = (\<lambda>h. Pair 0),
     lfs_mutex_lock = (\<lambda>m. Pair 0), lfs_uptime_32 = Pair 0,
     audio_lock = (\<lambda>m. Pair 0), audio_unlock = (\<lambda>m. Pair 0), audio_mutex_init = (\<lambda>i. Pair 0), crc32_ieee = demo_crc,
     uart_ready = Pair True, uart_callback_set = Pair 0, uart_irq_reads = Pair [], uart_msleep = (\<lambda>n w. w), uart_uptime = Pair 0,
     uart_adc_request = (\<lambda>w. w), uart_can_submit = (\<lambda>m. Pair eCAN_TxSubmit_Queued), uart_dlc_to_bytes = (\<lambda>d. d)\<rparr>"

interpretation ram_line: uart_files ram_uart ram_content ram_opened
  by unfold_locales
    (auto simp: ram_uart_def ram_defs zero_dirent_def errno_defs Let_def min_def split: option.splits if_splits fs_mode.splits list.splits)

lemma ram_uart_files: "uart_files ram_uart ram_content ram_opened"
  by (rule ram_line.uart_files_axioms)

definition demo_line :: "u8 list \<Rightarrow> ram uart_sys" where
  "demo_line ring = \<lparr>stPC_UART_APIRxRing = ring, uart_tx = [], bUARTDebugNextFrame = False, bPC_UART_APIInitialized = True,
     uiPC_UART_APITxSeq = 7, eActiveOperation = ePC_UART_Operation_LocalBulkFile, pfADCDataRequestCallback = False,
     msgq_PC_UART_APICANRx = [], uart_threads_run = True, bBulkSessionActive = False, ua_audio = boot_with (lfs_start demo_ram)\<rparr>"

subsection \<open>An upload\<close>

text \<open>A file of three bytes in the directory of the configurations.\<close>

definition line_announce :: "u8 list" where
  "line_announce = [1, 0, 0, 0, 3, hi8 (u16CRC16_CCITT_Update 0xFFFF [1, 2, 3]), lo8 (u16CRC16_CCITT_Update 0xFFFF [1, 2, 3]), 5,
     97, 46, 98, 105, 110]"

definition line_data :: "u8 list" where
  "line_data = [0, 0, 0, 0, 0, 3, hi8 (u16CRC16_CCITT_Update 0xFFFF [1, 2, 3]), lo8 (u16CRC16_CCITT_Update 0xFFFF [1, 2, 3]), 1, 2, 3]"

lemma line_runs:
  "(case ePC_UART_API_DispatchFrame ram_uart 0 0 ePC_UART_Command_BulkStart (Some line_announce) (length line_announce) (demo_line []) of
      Some (e, s) \<Rightarrow>
        (case ePC_UART_API_DispatchFrame ram_uart 0 0 ePC_UART_Command_BulkData (Some line_data) (length line_data) s of
           Some (e2, t) \<Rightarrow>
             (case ePC_UART_API_DispatchFrame ram_uart 0 2 ePC_UART_Command_BulkEnd (Some []) 0 t of
                Some (e3, u) \<Rightarrow> Some (e, e2, eActiveOperation s, eActiveOperation t, bc_pcaTotalFilePath (stTBulkDataCtrl (ua_lfs t)), e3)
              | None \<Rightarrow> None)
         | None \<Rightarrow> None)
    | None \<Rightarrow> None)
   = Some (ePC_UART_Error_None, ePC_UART_Error_None, ePC_UART_Operation_LocalBulkFile, ePC_UART_Operation_LocalBulkFile,
       ''/lfs/Config/a.bin'', ePC_UART_Error_None)"
  by code_simp

definition line_announced :: "ram uart_sys" where
  "line_announced = snd (the (ePC_UART_API_DispatchFrame ram_uart 0 0 ePC_UART_Command_BulkStart (Some line_announce) (length line_announce) (demo_line [])))"

definition line_accepted :: "ram uart_sys" where
  "line_accepted = snd (the (ePC_UART_API_DispatchFrame ram_uart 0 0 ePC_UART_Command_BulkData (Some line_data) (length line_data) line_announced))"

definition line_ended :: "ram uart_sys" where
  "line_ended = snd (the (ePC_UART_API_DispatchFrame ram_uart 0 2 ePC_UART_Command_BulkEnd (Some []) 0 line_accepted))"

lemma line_start:
  "ePC_UART_API_DispatchFrame ram_uart 0 0 ePC_UART_Command_BulkStart (Some line_announce) (length line_announce) (demo_line [])
     = Some (ePC_UART_Error_None, line_announced)"
  using line_runs by (auto simp: line_announced_def split: option.splits prod.splits)

lemma line_send:
  "ePC_UART_API_DispatchFrame ram_uart 0 0 ePC_UART_Command_BulkData (Some line_data) (length line_data) line_announced
     = Some (ePC_UART_Error_None, line_accepted)"
  using line_runs by (auto simp: line_accepted_def line_start split: option.splits prod.splits)

lemma line_end:
  "ePC_UART_API_DispatchFrame ram_uart 0 2 ePC_UART_Command_BulkEnd (Some []) 0 line_accepted = Some (ePC_UART_Error_None, line_ended)"
  using line_runs by (auto simp: line_ended_def line_start line_send split: option.splits prod.splits)

lemma line_state:
  "eActiveOperation line_announced = ePC_UART_Operation_LocalBulkFile" "eActiveOperation line_accepted = ePC_UART_Operation_LocalBulkFile"
  "bc_pcaTotalFilePath (stTBulkDataCtrl (ua_lfs line_accepted)) = ''/lfs/Config/a.bin''"
  using line_runs by (simp_all add: line_start line_send line_end)

lemma line_upload: "uart_upload ram_uart (bulk_announcement line_announce) [1, 2, 3] line_accepted"
proof -
  have "eActiveOperation (demo_line []) = ePC_UART_Operation_LocalBulkFile" by (simp add: demo_line_def)
  from uu_data [OF uu_start [OF this line_start] line_send] line_state(1)
  have "uart_upload ram_uart (bulk_announcement line_announce) ([] @ drop 8 line_data) line_accepted" by simp
  then show ?thesis by (simp add: line_data_def)
qed

end
