(* ===== verification/Ui_Types.thy ===== *)
theory Ui_Types
  imports Audio_Invariants
begin

text \<open>
  What the user interface shares: the enumerations and structures of LVGL_Display_Types.h, the contexts of the screens, the state
  of the screen manager, of the input controller and of the wall controller, and LVGL, the generated layouts, the encoder and the
  display as services over the world of the audio configuration. A pointer to a widget is none for null; calls that
  only set the geometry or a fixed style of a widget are part of the service that creates it.
\<close>

subsection \<open>Constants\<close>

definition MAX_ENCODER_MESSAGEs :: nat where [wall_simps]: "MAX_ENCODER_MESSAGEs = 12"
definition ENCODER_SWITCH_HOLD_TIME_ms :: u32 where [wall_simps]: "ENCODER_SWITCH_HOLD_TIME_ms = 2000"
definition ENCODER_DOUBLE_PRESS_WINDOW_ms :: u32 where [wall_simps]: "ENCODER_DOUBLE_PRESS_WINDOW_ms = 500"
definition AUDIO_MUTE_TRANSITION_AFTER_ZERO_DELAY_ms :: u32 where [wall_simps]: "AUDIO_MUTE_TRANSITION_AFTER_ZERO_DELAY_ms = 2000"
definition AUDIO_MUTE_RETRANSITION_DELAY_ms :: u32 where [wall_simps]: "AUDIO_MUTE_RETRANSITION_DELAY_ms = 5000"
definition AUDIO_VOLUME_SAVE_DELAY_ms :: u32 where [wall_simps]: "AUDIO_VOLUME_SAVE_DELAY_ms = 750"
definition AUDIO_VOLUME_MAX_DIRTY_TIME_ms :: u32 where [wall_simps]: "AUDIO_VOLUME_MAX_DIRTY_TIME_ms = 3000"
definition MENU_NAVIGATION_BLANK_TIME_ms :: u32 where [wall_simps]: "MENU_NAVIGATION_BLANK_TIME_ms = 200"
definition SCREEN_DISPLAY_WORKE_SCHEDULE_TIME_ms :: u32 where [wall_simps]: "SCREEN_DISPLAY_WORKE_SCHEDULE_TIME_ms = 500"
definition SCREEN_DISPLAY_WORKE_RESCHEDULE_TIME_ms :: u32 where [wall_simps]: "SCREEN_DISPLAY_WORKE_RESCHEDULE_TIME_ms = 100"
definition UNMUTE_OPERATION_RESIDENCE_TIME_ms :: u32 where [wall_simps]: "UNMUTE_OPERATION_RESIDENCE_TIME_ms = 200"
definition BLUETOOTH_MENU_NAVIGATION_DELAY_MS :: u32 where [wall_simps]: "BLUETOOTH_MENU_NAVIGATION_DELAY_MS = 200"
definition BLE_PAIRING_TEXT_ANIMATE_DELAY_ms :: u32 where [wall_simps]: "BLE_PAIRING_TEXT_ANIMATE_DELAY_ms = 700"
definition WALLCTRL_STARTUP_STATE_TIMEOUT_ms :: u32 where [wall_simps]: "WALLCTRL_STARTUP_STATE_TIMEOUT_ms = 3000"
definition MAX_ANIMATION_VARIANTS :: nat where [wall_simps]: "MAX_ANIMATION_VARIANTS = 4"
definition MAX_ANIMATED_TEXT_LENGTH :: nat where [wall_simps]: "MAX_ANIMATED_TEXT_LENGTH = 16"

definition SELECTED_COLOR :: nat where "SELECTED_COLOR = 0x066CFA"
definition DEFAULT_COLOR :: nat where "DEFAULT_COLOR = 0"
definition BLUETOOTH_CONNECTED_COLOR :: nat where "BLUETOOTH_CONNECTED_COLOR = 0x00B504"
definition BLUETOOTH_DISCONNECTED_COLOR :: nat where "BLUETOOTH_DISCONNECTED_COLOR = 0xFFFFFF"

definition WELCOME_IMAGE_PATH :: string where "WELCOME_IMAGE_PATH = ''L:/Images/Logo_Resize.bin''"
definition AUDIOSRC_SELECTION_ICON_IMAGE_PATH :: string where "AUDIOSRC_SELECTION_ICON_IMAGE_PATH = ''L:/Images/Selection_Icon.bin''"
definition MAINMENU_ICON_IMAGE_PATH :: string where "MAINMENU_ICON_IMAGE_PATH = ''L:/Images/Menu_Icon.bin''"
definition MENUBACK_ICON_IMAGE_PATH :: string where "MENUBACK_ICON_IMAGE_PATH = ''L:/Images/Back_Icon.bin''"
definition MUTE_ICON_IMAGE_PATH :: string where "MUTE_ICON_IMAGE_PATH = ''L:/Images/Mute_Icon.bin''"
definition BLUETOOTH_CONNECTION_ICON_IMAGE_PATH :: string where
  "BLUETOOTH_CONNECTION_ICON_IMAGE_PATH = ''L:/Images/BluetoothConnect_Icon.bin''"
definition BLUETOOTH_ICON_IMAGE_PATH :: string where "BLUETOOTH_ICON_IMAGE_PATH = ''L:/Images/BluetoothIcon.bin''"

subsection \<open>Screens and inputs\<close>

datatype eScreenId_t =
    eScreen_None
  | eScreen_Welcome
  | eScreen_AudioSrcInfo
  | eScreen_SourceSelect
  | eScreen_SourceMute
  | eScreen_MainMenu
  | eScreen_BluetoothMenu
  | eScreen_BluetoothControl
  | eNUMBER_OF_SCREENs

text \<open>The screens between the two bounds, in their order; the position is \<open>UI_SCREEN_SLOT_INDEX\<close>.\<close>

definition ui_screens :: "eScreenId_t list" where
  "ui_screens = [eScreen_Welcome, eScreen_AudioSrcInfo, eScreen_SourceSelect, eScreen_SourceMute, eScreen_MainMenu,
     eScreen_BluetoothMenu, eScreen_BluetoothControl]"

fun UI_SCREEN_SLOT_INDEX :: "eScreenId_t \<Rightarrow> nat option" where
  "UI_SCREEN_SLOT_INDEX eScreen_None = None"
| "UI_SCREEN_SLOT_INDEX eScreen_Welcome = Some 0"
| "UI_SCREEN_SLOT_INDEX eScreen_AudioSrcInfo = Some 1"
| "UI_SCREEN_SLOT_INDEX eScreen_SourceSelect = Some 2"
| "UI_SCREEN_SLOT_INDEX eScreen_SourceMute = Some 3"
| "UI_SCREEN_SLOT_INDEX eScreen_MainMenu = Some 4"
| "UI_SCREEN_SLOT_INDEX eScreen_BluetoothMenu = Some 5"
| "UI_SCREEN_SLOT_INDEX eScreen_BluetoothControl = Some 6"
| "UI_SCREEN_SLOT_INDEX eNUMBER_OF_SCREENs = None"

datatype eUIInputType_t = eUIInput_None | eUIInput_Rotate | eUIInput_Press | eUIInput_Release

record sT_UIInput_t =
  in_eType :: eUIInputType_t
  in_iDetents :: int
  in_uiTimestamp_ms :: u32

subsection \<open>Widgets\<close>

type_synonym lv_obj = nat

text \<open>The structure a generated layout fills: the widgets by the names of its members.\<close>

type_synonym gg_ui = "string \<Rightarrow> lv_obj option"

datatype gg_layout =
    setup_Sleep_Screen
  | setup_Wired_Home_revised
  | setup_Home_revised
  | setup_Source_Selection_revised
  | setup_Mute_Home_revised
  | setup_Menu_revised
  | setup_Bluetooth_Menu
  | setup_Connected_revised

datatype lv_class = lv_image | lv_slider | lv_label

text \<open>Calls without a result.\<close>

datatype lv_call =
    lv_label_set_text lv_obj string
  | lv_slider_set_value lv_obj u8 bool
  | lv_image_set_src lv_obj string
  | lv_set_bg lv_obj nat bool
  | lv_set_hidden lv_obj bool
  | lv_set_parent lv_obj lv_obj
  | lv_set_recolor lv_obj nat
  | lv_set_text_color lv_obj nat
  | lv_set_image_opa lv_obj nat
  | lv_anim_delete lv_obj
  | lv_anim_start lv_obj

record sT_UIScreenRuntime_t =
  rt_eScreenId :: eScreenId_t
  rt_pstRootObj :: "lv_obj option"

text \<open>The function pointers of a descriptor are those of one screen; none before its initialisation.\<close>

record sT_UIScreenDescriptor_t =
  sd_eScreenId :: eScreenId_t
  sd_pstScreenRuntime :: bool
  sd_bDeleteOnExit :: bool
  sd_functions :: "eScreenId_t option"

subsection \<open>Contexts of the screens\<close>

record sT_SelectedAudioSrcViewObjects_t =
  vo_pstRoot :: "lv_obj option"
  vo_pstVolumeControl :: "lv_obj option"
  vo_pstVolumeLabel :: "lv_obj option"
  vo_pstSourceNameLabel :: "lv_obj option"

definition no_view_objects :: sT_SelectedAudioSrcViewObjects_t where
  "no_view_objects = \<lparr>vo_pstRoot = None, vo_pstVolumeControl = None, vo_pstVolumeLabel = None, vo_pstSourceNameLabel = None\<rparr>"

record sT_AudioSrcScreenContext_t =
  as_eSrcId :: nat
  as_eSrcType :: eAudioSrc_Type_t
  as_pstViewOperations :: "eAudioSrc_Type_t option"
  as_stViewObjects :: sT_SelectedAudioSrcViewObjects_t
  as_pstVolSlider :: "lv_obj option"
  as_pstVolLabel :: "lv_obj option"
  as_pstAudSrcNameLabel :: "lv_obj option"
  as_uiVolume :: u8
  as_uiShortPressCount :: u8
  as_uiButtonPressStart_ms :: u32
  as_uiLastShortRelease_ms :: u32
  as_uiVolLastChange_ms :: u32
  as_uiVolDirtySince_ms :: u32
  as_bIsVolumeDirty :: bool
  as_bButtonPressed :: bool
  as_bLongPressHandled :: bool
  as_bIsMuteTransitionPending :: bool
  as_bIsMuteTransitionReady :: bool
  as_uiMutePendingSince_ms :: u32
  as_uiMuteTransitionDelay_ms :: u32

definition zero_info_context :: sT_AudioSrcScreenContext_t where
  "zero_info_context = \<lparr>as_eSrcId = 0, as_eSrcType = eAudioSrc_Type_None, as_pstViewOperations = None, as_stViewObjects = no_view_objects,
     as_pstVolSlider = None, as_pstVolLabel = None, as_pstAudSrcNameLabel = None, as_uiVolume = 0, as_uiShortPressCount = 0,
     as_uiButtonPressStart_ms = 0, as_uiLastShortRelease_ms = 0, as_uiVolLastChange_ms = 0, as_uiVolDirtySince_ms = 0,
     as_bIsVolumeDirty = False, as_bButtonPressed = False, as_bLongPressHandled = False, as_bIsMuteTransitionPending = False,
     as_bIsMuteTransitionReady = False, as_uiMutePendingSince_ms = 0, as_uiMuteTransitionDelay_ms = 0\<rparr>"

datatype eSelectedItem_t =
    eItemSelect_Back | eItemSelect_Src1 | eItemSelect_Src2 | eItemSelect_Src3 | eItemSelect_Src4 | eItemSelect_Menu
  | eNUMBER_OF_ITEM_SELECTIONs

record sT_AudioSrcSelectionScreen_Context_t =
  sl_stGuiderUI :: gg_ui
  sl_pstSrcSelect_Icon :: "lv_obj option"
  sl_pstMenuSelect_Icon :: "lv_obj option"
  sl_pstSrcSelectBack_Icon :: "lv_obj option"
  sl_eFocusedItem :: eSelectedItem_t
  sl_ePreviouslyFocusedItem :: eSelectedItem_t
  sl_eCommittedSourceItem :: eSelectedItem_t
  sl_uiLastNavigation_ms :: u32

definition zero_select_context :: sT_AudioSrcSelectionScreen_Context_t where
  "zero_select_context = \<lparr>sl_stGuiderUI = (\<lambda>_. None), sl_pstSrcSelect_Icon = None, sl_pstMenuSelect_Icon = None,
     sl_pstSrcSelectBack_Icon = None, sl_eFocusedItem = eItemSelect_Back, sl_ePreviouslyFocusedItem = eItemSelect_Back,
     sl_eCommittedSourceItem = eItemSelect_Back, sl_uiLastNavigation_ms = 0\<rparr>"

record sT_AudioSrcMute_Context_t =
  mu_stGuiderUI :: gg_ui
  mu_pstBluetooth_Icon :: "lv_obj option"
  mu_pstMute_Icon :: "lv_obj option"
  mu_pstSourceName :: "lv_obj option"
  mu_bIsUnmuteInProgress :: bool

definition zero_mute_context :: sT_AudioSrcMute_Context_t where
  "zero_mute_context = \<lparr>mu_stGuiderUI = (\<lambda>_. None), mu_pstBluetooth_Icon = None, mu_pstMute_Icon = None, mu_pstSourceName = None,
     mu_bIsUnmuteInProgress = False\<rparr>"

text \<open>A delayable work item is none, or pending with its delay.\<close>

record sT_MuteWorkContext_t =
  mw_kwork_SubmitNewScreen :: "u32 option"
  mw_eSourceId :: nat
  mw_bWorkCompleted :: bool

datatype eMenuItem_t = eMenuItem_Back | eMenuItem_Bluetooth | eMenuItem_Info | eNUMBER_OF_MENU_ITEMs

record sT_MenuSelectionScreen_Context_t =
  mn_stGuiderUI :: gg_ui
  mn_pstMenuSelect_Icon :: "eMenuItem_t \<Rightarrow> lv_obj option"
  mn_pstSrcSelectBack_Icon :: "lv_obj option"
  mn_eFocusedItem :: eMenuItem_t
  mn_ePreviouslyFocusedItem :: eMenuItem_t
  mn_uiLastNavigation_ms :: u32

definition zero_menu_context :: sT_MenuSelectionScreen_Context_t where
  "zero_menu_context = \<lparr>mn_stGuiderUI = (\<lambda>_. None), mn_pstMenuSelect_Icon = (\<lambda>_. None), mn_pstSrcSelectBack_Icon = None,
     mn_eFocusedItem = eMenuItem_Back, mn_ePreviouslyFocusedItem = eMenuItem_Back, mn_uiLastNavigation_ms = 0\<rparr>"

datatype eBluetoothMenuItem_t =
    eBluetoothMenuItem_Back | eBluetoothMenuItem_ConnectPair | eBluetoothMenuItem_Disconnect | eNUMBER_OF_BLUETOOTH_MENU_ITEMs

record sT_BluetoothMenuScreen_Context_t =
  bm_stGuiderUI :: gg_ui
  bm_pstBluetooth_Icon :: "lv_obj option"
  bm_pstBackIcon :: "lv_obj option"
  bm_eFocusedItem :: eBluetoothMenuItem_t
  bm_uiLastNavigation_ms :: u32

definition zero_blemenu_context :: sT_BluetoothMenuScreen_Context_t where
  "zero_blemenu_context = \<lparr>bm_stGuiderUI = (\<lambda>_. None), bm_pstBluetooth_Icon = None, bm_pstBackIcon = None,
     bm_eFocusedItem = eBluetoothMenuItem_Back, bm_uiLastNavigation_ms = 0\<rparr>"

record sT_BluetoothControl_Context_t =
  bx_stGuiderUI :: gg_ui
  bx_pstBleConnIcon :: "lv_obj option"
  bx_pstBleConText :: "lv_obj option"
  bx_pstBleConLabel_Suffix :: "lv_obj option"
  bx_eCurrentBleState :: eBLEState_t
  bx_bAnimationInProgress :: bool

definition zero_bleconn_context :: sT_BluetoothControl_Context_t where
  "zero_bleconn_context = \<lparr>bx_stGuiderUI = (\<lambda>_. None), bx_pstBleConnIcon = None, bx_pstBleConText = None,
     bx_pstBleConLabel_Suffix = None, bx_eCurrentBleState = eBleState_None, bx_bAnimationInProgress = False\<rparr>"

record sT_WelcomeScreenContext_t =
  wl_stGuiderUI :: gg_ui
  wl_pstLogoImage :: "lv_obj option"

definition zero_welcome_context :: sT_WelcomeScreenContext_t where
  "zero_welcome_context = \<lparr>wl_stGuiderUI = (\<lambda>_. None), wl_pstLogoImage = None\<rparr>"

text \<open>The static variables of LVGL_TextAnimate.c.\<close>

record text_animator =
  an_caAnimatorStrings :: "string list"
  an_pstLoadingTextTimer :: "nat option"
  an_uiLoadingTextIndex :: u8
  an_uiMaxAnimationCount :: u8
  an_TextAnimatorCallback :: bool
  an_bIsAnimatorRunning :: bool

subsection \<open>The wall controller\<close>

datatype eWallCtrlState_t =
    eWallCtrlState_Idle | eWallCtrlState_Startup | eWallCtrlState_Bootloader | eWallCtrlState_Active | eNUMBER_OF_WALLCONTROLLER_STATEs

datatype eWallCtrlCmd_t =
    eWallCtrlCmd_None | eWallCtrlCmd_EnterBootloader | eWallCtrlCmd_Startup | eWallCtrlCmd_Active | eNUMBER_OF_WALLCONTROLLER_CMDS

record sT_WallCtrl_StateMachine_t =
  wc_eCurrentState :: eWallCtrlState_t
  wc_bIsFirstEntry :: bool
  wc_baWallCtrlCmds :: "eWallCtrlCmd_t \<Rightarrow> bool"
  wc_uiTrigttime_ms :: u32

subsection \<open>Services and state\<close>

record 'w ui_services = "'w audio_services" +
  gg_setup :: "gg_layout \<Rightarrow> 'w \<Rightarrow> gg_ui \<times> 'w"
  lv_obj_is_valid :: "lv_obj \<Rightarrow> 'w \<Rightarrow> bool"
  lv_obj_delete :: "lv_obj \<Rightarrow> 'w \<Rightarrow> 'w"
  lv_screen_load :: "lv_obj \<Rightarrow> 'w \<Rightarrow> 'w"
  lv_image_decoder_get_info :: "string \<Rightarrow> 'w \<Rightarrow> bool \<times> 'w"
  lv_create :: "lv_class \<Rightarrow> lv_obj \<Rightarrow> 'w \<Rightarrow> lv_obj option \<times> 'w"
  lv_timer_create :: "u32 \<Rightarrow> 'w \<Rightarrow> nat option \<times> 'w"
  lv_timer_delete :: "nat \<Rightarrow> 'w \<Rightarrow> 'w"
  lv_do :: "lv_call \<Rightarrow> 'w \<Rightarrow> 'w"
  qdc_pins :: "'w \<Rightarrow> int \<times> 'w"
  qdc_switch_ready :: "'w \<Rightarrow> bool \<times> 'w"
  vInit_eQDC :: "'w \<Rightarrow> bool \<times> 'w"
  init_fs_adapter :: "'w \<Rightarrow> bool \<times> 'w"
  backlight_ready :: "'w \<Rightarrow> bool \<times> 'w"
  backlight_configure :: "'w \<Rightarrow> int \<times> 'w"
  backlight_set :: "bool \<Rightarrow> 'w \<Rightarrow> int \<times> 'w"

record 'w ui_sys =
  staScreenRuntimeInfo :: "sT_UIScreenRuntime_t list"
  staScreenDescriptors :: "sT_UIScreenDescriptor_t list"
  pstActiveDescriptor :: "nat option"
  sm_bIsInitialized :: bool
  bIsTransitionPending :: bool
  ePendingScreenId :: eScreenId_t
  kmsgq_eQDC_MessageQueue :: "sT_UIInput_t list"
  uiNAV_COUNTS_PER_DETENT :: u32
  iEncoderCountAccumulator :: int
  stTAudioSrcScreenContext :: sT_AudioSrcScreenContext_t
  stTAudSrcSelectionContext :: sT_AudioSrcSelectionScreen_Context_t
  kWork_SubmitNewScreen :: "u32 option"
  stTAudSrcMuteCtrlContext :: sT_AudioSrcMute_Context_t
  stTMuteContext :: sT_MuteWorkContext_t
  stTMenuSelectionContext :: sT_MenuSelectionScreen_Context_t
  stBluetoothMenuContext :: sT_BluetoothMenuScreen_Context_t
  stTBluetoothCtrlContext :: sT_BluetoothControl_Context_t
  stTWelcomeScreenContext :: sT_WelcomeScreenContext_t
  ui_animator :: text_animator
  stTWallCtrlStateMachine :: sT_WallCtrl_StateMachine_t
  ui_audio :: "'w audio_sys"

abbreviation ui_world :: "'w ui_sys \<Rightarrow> 'w" where
  "ui_world s \<equiv> lfs_world (au_lfs (ui_audio s))"

text \<open>A call into the audio configuration; one of a service with and without a result.\<close>

definition on_source :: "('w audio_sys \<Rightarrow> 'a \<times> 'w audio_sys) \<Rightarrow> 'w ui_sys \<Rightarrow> 'a \<times> 'w ui_sys" where
  "on_source f s = (let (r, a) = f (ui_audio s) in (r, s\<lparr>ui_audio := a\<rparr>))"

abbreviation gui :: "('w \<Rightarrow> 'a \<times> 'w) \<Rightarrow> 'w ui_sys \<Rightarrow> 'a \<times> 'w ui_sys" where
  "gui f \<equiv> on_source (via (io f))"

definition gui_do :: "('w \<Rightarrow> 'w) \<Rightarrow> 'w ui_sys \<Rightarrow> 'w ui_sys" where
  "gui_do f s = s\<lparr>ui_audio := (ui_audio s)\<lparr>au_lfs := (au_lfs (ui_audio s))\<lparr>lfs_world := f (ui_world s)\<rparr>\<rparr>\<rparr>"

abbreviation draw :: "('w, 'z) ui_services_scheme \<Rightarrow> lv_call \<Rightarrow> 'w ui_sys \<Rightarrow> 'w ui_sys" where
  "draw E c \<equiv> gui_do (lv_do E c)"

abbreviation widget_valid :: "('w, 'z) ui_services_scheme \<Rightarrow> 'w ui_sys \<Rightarrow> lv_obj \<Rightarrow> bool" where
  "widget_valid E s o1 \<equiv> lv_obj_is_valid E o1 (ui_world s)"

text \<open>Null, or not a widget any more.\<close>

definition no_widget :: "('w, 'z) ui_services_scheme \<Rightarrow> lv_obj option \<Rightarrow> 'w ui_sys \<Rightarrow> bool" where
  "no_widget E p s \<longleftrightarrow> (case p of None \<Rightarrow> True | Some o1 \<Rightarrow> \<not> widget_valid E s o1)"

text \<open>\<open>k_uptime_get_32\<close>.\<close>

abbreviation ui_now :: "('w, 'z) ui_services_scheme \<Rightarrow> 'w ui_sys \<Rightarrow> u32 \<times> 'w ui_sys" where
  "ui_now E \<equiv> gui (lfs_uptime_32 E)"

definition root_of :: "eScreenId_t \<Rightarrow> 'w ui_sys \<Rightarrow> lv_obj option" where
  "root_of e s = (case UI_SCREEN_SLOT_INDEX e of None \<Rightarrow> None | Some i \<Rightarrow> rt_pstRootObj (staScreenRuntimeInfo s ! i))"

definition set_root :: "eScreenId_t \<Rightarrow> lv_obj option \<Rightarrow> 'w ui_sys \<Rightarrow> 'w ui_sys" where
  "set_root e p s = (case UI_SCREEN_SLOT_INDEX e of None \<Rightarrow> s
     | Some i \<Rightarrow> s\<lparr>staScreenRuntimeInfo := (staScreenRuntimeInfo s)[i := (staScreenRuntimeInfo s ! i)\<lparr>rt_pstRootObj := p\<rparr>]\<rparr>)"

subsection \<open>Contexts in the state\<close>

abbreviation info :: "'w ui_sys \<Rightarrow> sT_AudioSrcScreenContext_t" where
  "info s \<equiv> stTAudioSrcScreenContext s"

abbreviation on_info :: "(sT_AudioSrcScreenContext_t \<Rightarrow> sT_AudioSrcScreenContext_t) \<Rightarrow> 'w ui_sys \<Rightarrow> 'w ui_sys" where
  "on_info f s \<equiv> s\<lparr>stTAudioSrcScreenContext := f (stTAudioSrcScreenContext s)\<rparr>"

abbreviation on_select :: "(sT_AudioSrcSelectionScreen_Context_t \<Rightarrow> sT_AudioSrcSelectionScreen_Context_t) \<Rightarrow> 'w ui_sys \<Rightarrow> 'w ui_sys" where
  "on_select f s \<equiv> s\<lparr>stTAudSrcSelectionContext := f (stTAudSrcSelectionContext s)\<rparr>"

abbreviation on_mute :: "(sT_AudioSrcMute_Context_t \<Rightarrow> sT_AudioSrcMute_Context_t) \<Rightarrow> 'w ui_sys \<Rightarrow> 'w ui_sys" where
  "on_mute f s \<equiv> s\<lparr>stTAudSrcMuteCtrlContext := f (stTAudSrcMuteCtrlContext s)\<rparr>"

abbreviation on_mute_work :: "(sT_MuteWorkContext_t \<Rightarrow> sT_MuteWorkContext_t) \<Rightarrow> 'w ui_sys \<Rightarrow> 'w ui_sys" where
  "on_mute_work f s \<equiv> s\<lparr>stTMuteContext := f (stTMuteContext s)\<rparr>"

abbreviation on_menu :: "(sT_MenuSelectionScreen_Context_t \<Rightarrow> sT_MenuSelectionScreen_Context_t) \<Rightarrow> 'w ui_sys \<Rightarrow> 'w ui_sys" where
  "on_menu f s \<equiv> s\<lparr>stTMenuSelectionContext := f (stTMenuSelectionContext s)\<rparr>"

abbreviation on_blemenu :: "(sT_BluetoothMenuScreen_Context_t \<Rightarrow> sT_BluetoothMenuScreen_Context_t) \<Rightarrow> 'w ui_sys \<Rightarrow> 'w ui_sys" where
  "on_blemenu f s \<equiv> s\<lparr>stBluetoothMenuContext := f (stBluetoothMenuContext s)\<rparr>"

abbreviation on_bleconn :: "(sT_BluetoothControl_Context_t \<Rightarrow> sT_BluetoothControl_Context_t) \<Rightarrow> 'w ui_sys \<Rightarrow> 'w ui_sys" where
  "on_bleconn f s \<equiv> s\<lparr>stTBluetoothCtrlContext := f (stTBluetoothCtrlContext s)\<rparr>"

abbreviation on_welcome :: "(sT_WelcomeScreenContext_t \<Rightarrow> sT_WelcomeScreenContext_t) \<Rightarrow> 'w ui_sys \<Rightarrow> 'w ui_sys" where
  "on_welcome f s \<equiv> s\<lparr>stTWelcomeScreenContext := f (stTWelcomeScreenContext s)\<rparr>"

abbreviation on_animator :: "(text_animator \<Rightarrow> text_animator) \<Rightarrow> 'w ui_sys \<Rightarrow> 'w ui_sys" where
  "on_animator f s \<equiv> s\<lparr>ui_animator := f (ui_animator s)\<rparr>"

abbreviation on_wall :: "(sT_WallCtrl_StateMachine_t \<Rightarrow> sT_WallCtrl_StateMachine_t) \<Rightarrow> 'w ui_sys \<Rightarrow> 'w ui_sys" where
  "on_wall f s \<equiv> s\<lparr>stTWallCtrlStateMachine := f (stTWallCtrlStateMachine s)\<rparr>"

text \<open>\<open>k_work_schedule\<close> leaves a pending item alone.\<close>

definition work_schedule :: "u32 \<Rightarrow> u32 option \<Rightarrow> u32 option" where
  "work_schedule d p = (case p of None \<Rightarrow> Some d | Some x \<Rightarrow> Some x)"

end
