(* ===== verification/Ui_Input.thy ===== *)
theory Ui_Input
  imports Ui_Types "HOL-Library.Signed_Division"
begin

text \<open>
  UI_InputController.c: the rotation of the encoder in detents, its switch, and the queue of twelve input events, which drops the
  oldest. The callbacks of the encoder and of the switch are single steps.
\<close>

subsection \<open>The queue\<close>

text \<open>\<open>k_msgq_put\<close> without waiting, after making room.\<close>

definition vSubmit_Message :: "sT_UIInput_t \<Rightarrow> 'w ui_sys \<Rightarrow> 'w ui_sys" where
  "vSubmit_Message m s =
     (if MAX_ENCODER_MESSAGEs - length (kmsgq_eQDC_MessageQueue s) > 0
      then s\<lparr>kmsgq_eQDC_MessageQueue := kmsgq_eQDC_MessageQueue s @ [m]\<rparr>
      else s\<lparr>kmsgq_eQDC_MessageQueue := tl (kmsgq_eQDC_MessageQueue s) @ [m]\<rparr>)"

definition iGet_NextUIEvent :: "'w ui_sys \<Rightarrow> sT_UIInput_t option \<times> 'w ui_sys" where
  "iGet_NextUIEvent s =
     (case kmsgq_eQDC_MessageQueue s of
        [] \<Rightarrow> (None, s)
      | m # ms \<Rightarrow> (Some m, s\<lparr>kmsgq_eQDC_MessageQueue := ms\<rparr>))"

definition vClear_UIEvents :: "'w ui_sys \<Rightarrow> 'w ui_sys" where
  "vClear_UIEvents s = s\<lparr>kmsgq_eQDC_MessageQueue := []\<rparr>"

subsection \<open>The encoder\<close>

datatype eQDC_Dir = eQDC_Dir_CW | eQDC_Dir_CCW

text \<open>The event of a movement; none when the counts do not make a detent.\<close>

definition bCalculate_Detents ::
  "('w, 'z) ui_services_scheme \<Rightarrow> int \<Rightarrow> eQDC_Dir \<Rightarrow> 'w ui_sys \<Rightarrow> sT_UIInput_t option \<times> 'w ui_sys" where
  "bCalculate_Detents E iEncPosDiff eDir s =
     (let n = int (unat (uiNAV_COUNTS_PER_DETENT s)) in
      if n = 0 \<or> iEncPosDiff = 0 then (None, snd (ui_now E s))
      else
        (let iSignedDelta = (if eDir = eQDC_Dir_CCW then - \<bar>iEncPosDiff\<bar> else \<bar>iEncPosDiff\<bar>);
             acc = iEncoderCountAccumulator s + iSignedDelta;
             iDetent_Delta = acc sdiv n;
             (now, s) = ui_now E (s\<lparr>iEncoderCountAccumulator := acc smod n\<rparr>)
         in (if iDetent_Delta = 0 then None
             else Some \<lparr>in_eType = eUIInput_Rotate, in_iDetents = iDetent_Delta, in_uiTimestamp_ms = now\<rparr>, s)))"

definition vEncoder_Callback :: "('w, 'z) ui_services_scheme \<Rightarrow> int \<Rightarrow> eQDC_Dir \<Rightarrow> 'w ui_sys \<Rightarrow> 'w ui_sys" where
  "vEncoder_Callback E iEncPosDiff eDir s =
     (case bCalculate_Detents E iEncPosDiff eDir s of
        (None, s) \<Rightarrow> s
      | (Some m, s) \<Rightarrow> vSubmit_Message m s)"

definition vSet_EncSWPressed :: "('w, 'z) ui_services_scheme \<Rightarrow> 'w ui_sys \<Rightarrow> 'w ui_sys" where
  "vSet_EncSWPressed E s =
     (let (now, s) = ui_now E s in vSubmit_Message \<lparr>in_eType = eUIInput_Press, in_iDetents = 0, in_uiTimestamp_ms = now\<rparr> s)"

definition vClear_EncSWPressed :: "('w, 'z) ui_services_scheme \<Rightarrow> 'w ui_sys \<Rightarrow> 'w ui_sys" where
  "vClear_EncSWPressed E s =
     (let (now, s) = ui_now E s in vSubmit_Message \<lparr>in_eType = eUIInput_Release, in_iDetents = 0, in_uiTimestamp_ms = now\<rparr> s)"

text \<open>\<open>is_key\<close>: the event is one of the switch.\<close>

definition vEnc_SWPressed_InterruptHandler :: "('w, 'z) ui_services_scheme \<Rightarrow> bool \<Rightarrow> int \<Rightarrow> 'w ui_sys \<Rightarrow> 'w ui_sys" where
  "vEnc_SWPressed_InterruptHandler E is_key val s =
     (if is_key then (if val = 1 then vSet_EncSWPressed E s else if val = 0 then vClear_EncSWPressed E s else s) else s)"

subsection \<open>Initialisation\<close>

definition bConfigure_eQDC_PhasePins :: "('w, 'z) ui_services_scheme \<Rightarrow> 'w ui_sys \<Rightarrow> bool \<times> 'w ui_sys" where
  "bConfigure_eQDC_PhasePins E s = (let (r, s) = gui (qdc_pins E) s in (r = 0, s))"

definition bConfigure_EncSWPin :: "('w, 'z) ui_services_scheme \<Rightarrow> 'w ui_sys \<Rightarrow> bool \<times> 'w ui_sys" where
  "bConfigure_EncSWPin E s = gui (qdc_switch_ready E) s"

text \<open>The counting mode is the one of a count per quadrature cycle.\<close>

definition bInitialize_eQDC :: "('w, 'z) ui_services_scheme \<Rightarrow> 'w ui_sys \<Rightarrow> bool \<times> 'w ui_sys" where
  "bInitialize_eQDC E s =
     (let (ok, s) = bConfigure_eQDC_PhasePins E s in
      if \<not> ok then (False, s)
      else
        (let (ok, s) = bConfigure_EncSWPin E s in
         if \<not> ok then (False, s)
         else gui (vInit_eQDC E) (s\<lparr>uiNAV_COUNTS_PER_DETENT := 1, iEncoderCountAccumulator := 0\<rparr>)))"

end
