(* ===== verification/Ui_Navigation.thy ===== *)
theory Ui_Navigation
  imports Ui_Types
begin

text \<open>
  What the screens call of the screen manager and of the wall controller: the request of a screen and the setting of a command.
\<close>

text \<open>The exchange of the pending flag decides which of several requests wins.\<close>

definition bRequest_UIScreen :: "eScreenId_t \<Rightarrow> 'w ui_sys \<Rightarrow> bool \<times> 'w ui_sys" where
  "bRequest_UIScreen eID s =
     (if \<not> sm_bIsInitialized s then (False, s)
      else
        (case UI_SCREEN_SLOT_INDEX eID of
           None \<Rightarrow> (False, s)
         | Some uiScreenIndex \<Rightarrow>
             (let d = staScreenDescriptors s ! uiScreenIndex in
              if sd_eScreenId d \<noteq> eID \<or> \<not> sd_pstScreenRuntime d then (False, s)
              else if bIsTransitionPending s then (False, s\<lparr>bIsTransitionPending := True\<rparr>)
              else (True, s\<lparr>bIsTransitionPending := True, ePendingScreenId := eID\<rparr>))))"

definition vWallCtrl_Set_Command :: "eWallCtrlCmd_t \<Rightarrow> 'w ui_sys \<Rightarrow> 'w ui_sys" where
  "vWallCtrl_Set_Command eCmd s =
     (if eCmd = eNUMBER_OF_WALLCONTROLLER_CMDS then s
      else on_wall (\<lambda>w. w\<lparr>wc_baWallCtrlCmds := (wc_baWallCtrlCmds w)(eCmd := True)\<rparr>) s)"

end
