(* ===== verification/Ui_Views.thy ===== *)
theory Ui_Views
  imports Ui_Navigation
begin

text \<open>
  What several screens are made of: icons, the two views of the selected source, and the animated text of LVGL_TextAnimate.c.
  A runtime is always the one the manager holds for the screen, so the null checks on it have no branch here.
\<close>

subsection \<open>Icons\<close>

text \<open>The common part of the icon functions: an image of a file in a slot.\<close>

definition load_icon :: "('w, 'z) ui_services_scheme \<Rightarrow> string \<Rightarrow> lv_obj option \<Rightarrow> 'w ui_sys \<Rightarrow> lv_obj option \<times> 'w ui_sys" where
  "load_icon E path slot s =
     (if no_widget E slot s then (None, s)
      else
        (let (ok, s) = gui (lv_image_decoder_get_info E path) s in
         if \<not> ok then (None, s)
         else
           (let (img, s) = gui (lv_create E lv_image (the slot)) s in
            case img of None \<Rightarrow> (None, s) | Some o1 \<Rightarrow> (Some o1, draw E (lv_image_set_src o1 path) s))))"

subsection \<open>Views of the selected source\<close>

definition bLoadBluetoothIcon :: "('w, 'z) ui_services_scheme \<Rightarrow> lv_obj option \<Rightarrow> 'w ui_sys \<Rightarrow> bool \<times> 'w ui_sys" where
  "bLoadBluetoothIcon E slot s = (let (img, s) = load_icon E BLUETOOTH_ICON_IMAGE_PATH slot s in (img \<noteq> None, s))"

text \<open>The slider and the label \<open>"0"\<close> both views end with.\<close>

definition finish_view ::
  "('w, 'z) ui_services_scheme \<Rightarrow> lv_obj \<Rightarrow> sT_SelectedAudioSrcViewObjects_t \<Rightarrow> 'w ui_sys
   \<Rightarrow> (bool \<times> sT_SelectedAudioSrcViewObjects_t) \<times> 'w ui_sys" where
  "finish_view E slot vo s =
     (let (sl, s) = gui (lv_create E lv_slider slot) s in
      case sl of
        None \<Rightarrow> ((False, vo), s)
      | Some o1 \<Rightarrow> ((True, vo\<lparr>vo_pstVolumeControl := Some o1\<rparr>), draw E (lv_label_set_text (the (vo_pstVolumeLabel vo)) ''0'') s))"

definition view_objects :: "gg_ui \<Rightarrow> sT_SelectedAudioSrcViewObjects_t" where
  "view_objects ui = \<lparr>vo_pstRoot = ui ''screen'', vo_pstVolumeControl = None, vo_pstVolumeLabel = ui ''Option_2_Option_label_2'',
     vo_pstSourceNameLabel = ui ''Option_3_Option_label_3''\<rparr>"

definition bCreate_WiredView ::
  "('w, 'z) ui_services_scheme \<Rightarrow> 'w ui_sys \<Rightarrow> (bool \<times> sT_SelectedAudioSrcViewObjects_t) \<times> 'w ui_sys" where
  "bCreate_WiredView E s =
     (let (ui, s) = gui (gg_setup E setup_Wired_Home_revised) s; vo = view_objects ui in
      if vo_pstRoot vo = None \<or> ui ''Options_Option_4'' = None \<or> vo_pstVolumeLabel vo = None \<or> vo_pstSourceNameLabel vo = None
      then ((False, vo), s)
      else finish_view E (the (ui ''Options_Option_4'')) vo s)"

definition bCreate_BluetoothView ::
  "('w, 'z) ui_services_scheme \<Rightarrow> 'w ui_sys \<Rightarrow> (bool \<times> sT_SelectedAudioSrcViewObjects_t) \<times> 'w ui_sys" where
  "bCreate_BluetoothView E s =
     (let (ui, s) = gui (gg_setup E setup_Home_revised) s; vo = view_objects ui in
      if vo_pstRoot vo = None \<or> ui ''Option_4_Level_bar'' = None \<or> ui ''Options_Option_4'' = None \<or> vo_pstVolumeLabel vo = None
         \<or> vo_pstSourceNameLabel vo = None \<or> ui ''Options_Option'' = None
      then ((False, vo), s)
      else
        (let (ok, s) = bLoadBluetoothIcon E (ui ''Options_Option'') s
         in if \<not> ok then ((False, vo), s) else finish_view E (the (ui ''Option_4_Level_bar'')) vo s))"

text \<open>The long press of the Bluetooth view only prints; the wired view has none.\<close>

definition vHandle_BluetoothLongPress :: "'w ui_sys \<Rightarrow> 'w ui_sys" where
  "vHandle_BluetoothLongPress s = s"

subsection \<open>The text animator\<close>

text \<open>The callback of the only client, the Bluetooth connection screen: the text behind its label.\<close>

definition vTextAnimator_Callback :: "('w, 'z) ui_services_scheme \<Rightarrow> string \<Rightarrow> 'w ui_sys \<Rightarrow> 'w ui_sys" where
  "vTextAnimator_Callback E txt s =
     (let c = stTBluetoothCtrlContext s in
      if no_widget E (bx_pstBleConText c) s \<or> no_widget E (bx_pstBleConLabel_Suffix c) s then s
      else draw E (lv_label_set_text (the (bx_pstBleConLabel_Suffix c)) txt) s)"

definition vStop_TextAnimator :: "('w, 'z) ui_services_scheme \<Rightarrow> 'w ui_sys \<Rightarrow> 'w ui_sys" where
  "vStop_TextAnimator E s =
     (let a = ui_animator s in
      if \<not> an_bIsAnimatorRunning a then s
      else
        (let s = on_animator (\<lambda>a. a\<lparr>an_pstLoadingTextTimer := None, an_TextAnimatorCallback := False, an_uiLoadingTextIndex := 0,
                   an_uiMaxAnimationCount := 0, an_bIsAnimatorRunning := False\<rparr>) s;
             s = (case an_pstLoadingTextTimer a of None \<Rightarrow> s | Some t \<Rightarrow> gui_do (lv_timer_delete E t) s)
         in if an_TextAnimatorCallback a then vTextAnimator_Callback E '''' s else s))"

text \<open>The strings, until one does not fit.\<close>

fun format_strings :: "string \<Rightarrow> string list \<Rightarrow> bool \<times> string list" where
  "format_strings base [] = (True, [])"
| "format_strings base (t # ts) =
     (if length (base @ t) \<ge> MAX_ANIMATED_TEXT_LENGTH then (False, [take (MAX_ANIMATED_TEXT_LENGTH - 1) (base @ t)])
      else (let (ok, rest) = format_strings base ts in (ok, (base @ t) # rest)))"

definition vStart_TextAnimator ::
  "('w, 'z) ui_services_scheme \<Rightarrow> string list \<Rightarrow> string \<Rightarrow> bool \<Rightarrow> u32 \<Rightarrow> 'w ui_sys \<Rightarrow> 'w ui_sys" where
  "vStart_TextAnimator E strings base has_callback period s =
     (if length strings = 0 \<or> length strings > MAX_ANIMATION_VARIANTS \<or> \<not> has_callback \<or> period = 0 then s
      else
        (let s = vStop_TextAnimator E s;
             (ok, texts) = format_strings base strings;
             s = on_animator (\<lambda>a. a\<lparr>an_caAnimatorStrings := texts @ replicate (MAX_ANIMATION_VARIANTS - length texts) ''''\<rparr>) s
         in if \<not> ok then s
            else
              (let s = (case an_pstLoadingTextTimer (ui_animator s) of None \<Rightarrow> s
                          | Some t \<Rightarrow> on_animator (\<lambda>a. a\<lparr>an_pstLoadingTextTimer := None, an_bIsAnimatorRunning := False\<rparr>)
                              (gui_do (lv_timer_delete E t) s));
                   (t, s) = gui (lv_timer_create E period) (on_animator (\<lambda>a. a\<lparr>an_uiLoadingTextIndex := 0,
                     an_uiMaxAnimationCount := of_nat (length strings), an_TextAnimatorCallback := True\<rparr>) s);
                   s = on_animator (an_pstLoadingTextTimer_update (\<lambda>_. t)) s
               in if t = None
                  then on_animator (\<lambda>a. a\<lparr>an_TextAnimatorCallback := False, an_uiMaxAnimationCount := 0, an_bIsAnimatorRunning := False\<rparr>) s
                  else on_animator (an_bIsAnimatorRunning_update (\<lambda>_. True)) s)))"

text \<open>A tick of the timer.\<close>

definition vAnimator_TimerCallback :: "('w, 'z) ui_services_scheme \<Rightarrow> 'w ui_sys \<Rightarrow> 'w ui_sys" where
  "vAnimator_TimerCallback E s =
     (let a = ui_animator s in
      if \<not> an_TextAnimatorCallback a \<or> an_uiMaxAnimationCount a = 0 then s
      else
        (let s = vTextAnimator_Callback E (an_caAnimatorStrings a ! unat (an_uiLoadingTextIndex a)) s;
             n = an_uiLoadingTextIndex a + 1
         in on_animator (an_uiLoadingTextIndex_update (\<lambda>_. if n \<ge> an_uiMaxAnimationCount a then 0 else n)) s))"

end
