(* ===== verification/Ui_Source.thy ===== *)
theory Ui_Source
  imports Ui_Views
begin

text \<open>
  SelectedAudioSrcCtrl.c, the screen of the selected source: the volume by the encoder, its delayed storage, the presses, and the
  change to the mute screen once volume zero is stored. Names of static functions that other screens use too have a suffix.
\<close>

subsection \<open>Creation\<close>

fun pstSelect_AudioSrcView :: "eAudioSrc_Type_t \<Rightarrow> eAudioSrc_Type_t option" where
  "pstSelect_AudioSrcView eAudioSrc_Type_Bluetooth = Some eAudioSrc_Type_Bluetooth"
| "pstSelect_AudioSrcView eAudioSrc_Type_Wired = Some eAudioSrc_Type_Wired"
| "pstSelect_AudioSrcView eAudioSrc_Type_None = None"

text \<open>The \<open>pfCreate\<close> of a view.\<close>

definition create_view ::
  "('w, 'z) ui_services_scheme \<Rightarrow> eAudioSrc_Type_t \<Rightarrow> 'w ui_sys \<Rightarrow> (bool \<times> sT_SelectedAudioSrcViewObjects_t) \<times> 'w ui_sys" where
  "create_view E v = (if v = eAudioSrc_Type_Bluetooth then bCreate_BluetoothView E else bCreate_WiredView E)"

text \<open>\<open>Exit\<close> of a creation that failed: delete what is there.\<close>

definition discard_root :: "('w, 'z) ui_services_scheme \<Rightarrow> lv_obj option \<Rightarrow> 'w ui_sys \<Rightarrow> 'w ui_sys" where
  "discard_root E root s = (if no_widget E root s then s else gui_do (lv_obj_delete E (the root)) s)"

definition bCreate_AudioSrcInfoScreen :: "('w, 'z) ui_services_scheme \<Rightarrow> 'w ui_sys \<Rightarrow> bool \<times> 'w ui_sys" where
  "bCreate_AudioSrcInfoScreen E s =
     (let ((r, snap), s) = on_source (iGet_SelectedAudioSrcConfig E (Some zero_config)) s in
      if r \<noteq> 0 then (False, s)
      else
        (case pstSelect_AudioSrcView (ac_eSrcType (the snap)) of
           None \<Rightarrow> (False, s)
         | Some v \<Rightarrow>
             if \<not> no_widget E (root_of eScreen_AudioSrcInfo s) s then (True, s)
             else
               (let s = set_root eScreen_AudioSrcInfo None s;
                    s = on_info (\<lambda>_. zero_info_context\<lparr>as_eSrcType := ac_eSrcType (the snap), as_pstViewOperations := Some v\<rparr>) s;
                    ((ok, vo), s) = create_view E v s
                in if \<not> ok
                   then (False, set_root eScreen_AudioSrcInfo None (on_info (\<lambda>_. zero_info_context) (discard_root E (vo_pstRoot vo) s)))
                   else (True, set_root eScreen_AudioSrcInfo (vo_pstRoot vo)
                     (on_info (\<lambda>c. c\<lparr>as_stViewObjects := vo, as_pstVolSlider := vo_pstVolumeControl vo,
                        as_pstVolLabel := vo_pstVolumeLabel vo, as_pstAudSrcNameLabel := vo_pstSourceNameLabel vo\<rparr>) s)))))"

subsection \<open>Storing the volume\<close>

text \<open>After a pause of the rotation or a maximal time, or at once when forced.\<close>

definition iUpdate_AudioSrcFile_info :: "('w, 'z) ui_services_scheme \<Rightarrow> bool \<Rightarrow> 'w ui_sys \<Rightarrow> int \<times> 'w ui_sys" where
  "iUpdate_AudioSrcFile_info E bForceUpdate s =
     (if \<not> as_bIsVolumeDirty (info s) then (0, s)
      else
        (let (uiTimeNow_ms, s) = ui_now E s in
         if \<not> bForceUpdate \<and> uiTimeNow_ms - as_uiVolLastChange_ms (info s) < AUDIO_VOLUME_SAVE_DELAY_ms
            \<and> uiTimeNow_ms - as_uiVolDirtySince_ms (info s) < AUDIO_VOLUME_MAX_DIRTY_TIME_ms then (0, s)
         else
           (let (r, s) = on_source (iUpdate_AudioSrcVolume E (as_eSrcId (info s)) (as_uiVolume (info s))) s in
            if r \<noteq> 0 then (r, on_info (\<lambda>c. c\<lparr>as_uiVolLastChange_ms := uiTimeNow_ms, as_uiVolDirtySince_ms := uiTimeNow_ms\<rparr>) s)
            else (0, on_info (as_bIsVolumeDirty_update (\<lambda>_. False)) s))))"

subsection \<open>The change to the mute screen\<close>

text \<open>The mute transition is due: volume zero is stored and has been for the delay.\<close>

definition mute_ready :: "('w, 'z) ui_services_scheme \<Rightarrow> 'w ui_sys \<Rightarrow> bool \<times> 'w ui_sys" where
  "mute_ready E s =
     (if as_bIsMuteTransitionReady (info s) then (True, s)
      else if as_bIsVolumeDirty (info s) then (False, s)
      else
        (let (now, s) = ui_now E s in
         if now - as_uiMutePendingSince_ms (info s) < as_uiMuteTransitionDelay_ms (info s) then (False, s)
         else (True, on_info (as_bIsMuteTransitionReady_update (\<lambda>_. True)) s)))"

definition bCanExecute_MuteScreenTransition :: "('w, 'z) ui_services_scheme \<Rightarrow> 'w ui_sys \<Rightarrow> bool \<times> 'w ui_sys" where
  "bCanExecute_MuteScreenTransition E s =
     (if \<not> as_bIsMuteTransitionPending (info s) \<or> as_uiVolume (info s) \<noteq> 0 then (False, s)
      else
        (let (due, s) = mute_ready E s in
         if \<not> due then (False, s)
         else
           (let (ok, s) = on_source (bUpdate_AudioSrcMuteStatus E (as_eSrcId (info s)) True) s
            in if \<not> ok then (False, s) else bRequest_UIScreen eScreen_SourceMute s)))"

subsection \<open>Input\<close>

definition vHandle_SourceLongPress :: "'w ui_sys \<Rightarrow> 'w ui_sys" where
  "vHandle_SourceLongPress s =
     (if as_pstViewOperations (info s) = Some eAudioSrc_Type_Bluetooth then vHandle_BluetoothLongPress s else s)"

text \<open>\<open>"%u"\<close> of a byte.\<close>

definition dec_u8 :: "u8 \<Rightarrow> string" where
  "dec_u8 v =
     (let n = unat v in
      if n < 10 then [digit n] else if n < 100 then [digit (n div 10), digit (n mod 10)]
      else [digit (n div 100), digit (n div 10 mod 10), digit (n mod 10)])"

definition show_volume :: "('w, 'z) ui_services_scheme \<Rightarrow> 'w ui_sys \<Rightarrow> 'w ui_sys" where
  "show_volume E s =
     (case as_pstVolLabel (info s) of None \<Rightarrow> s | Some o1 \<Rightarrow> draw E (lv_label_set_text o1 (dec_u8 (as_uiVolume (info s)))) s)"

definition clamp_volume :: "int \<Rightarrow> int" where
  "clamp_volume v = (if v < 0 then 0 else if v \<ge> 100 then 100 else v)"

definition set_mute_pending :: "bool \<Rightarrow> u32 \<Rightarrow> u32 \<Rightarrow> sT_AudioSrcScreenContext_t \<Rightarrow> sT_AudioSrcScreenContext_t" where
  "set_mute_pending b since delay c =
     c\<lparr>as_uiMutePendingSince_ms := since, as_uiMuteTransitionDelay_ms := delay, as_bIsMuteTransitionPending := b,
       as_bIsMuteTransitionReady := False\<rparr>"

definition vHandle_EncoderRotation_info :: "('w, 'z) ui_services_scheme \<Rightarrow> sT_UIInput_t \<Rightarrow> 'w ui_sys \<Rightarrow> 'w ui_sys" where
  "vHandle_EncoderRotation_info E m s =
     (let old = as_uiVolume (info s); new = of_int (clamp_volume (int (unat old) + in_iDetents m));
          s = on_info (as_uiVolume_update (\<lambda>_. new)) s in
      if old = new then s
      else
        (let (now, s) = ui_now E s;
             s = (if old > 0 \<and> new = 0 then on_info (set_mute_pending True now AUDIO_MUTE_TRANSITION_AFTER_ZERO_DELAY_ms) s
                  else if new > 0 then on_info (set_mute_pending False 0 0) s else s);
             s = draw E (lv_slider_set_value (the (as_pstVolSlider (info s))) new True) s;
             s = show_volume E s
         in on_info (\<lambda>c. c\<lparr>as_uiVolDirtySince_ms := (if as_bIsVolumeDirty c then as_uiVolDirtySince_ms c else now),
              as_uiVolLastChange_ms := now, as_bIsVolumeDirty := True\<rparr>) s))"

definition vHandle_EncoderButonPress_info :: "sT_UIInput_t \<Rightarrow> 'w ui_sys \<Rightarrow> 'w ui_sys" where
  "vHandle_EncoderButonPress_info m s =
     (if in_eType m = eUIInput_Press
      then (if as_bButtonPressed (info s) then s
            else on_info (\<lambda>c. c\<lparr>as_bButtonPressed := True, as_bLongPressHandled := False, as_uiButtonPressStart_ms := in_uiTimestamp_ms m\<rparr>) s)
      else if in_eType m \<noteq> eUIInput_Release \<or> \<not> as_bButtonPressed (info s) then s
      else
        (let s = on_info (as_bButtonPressed_update (\<lambda>_. False)) s in
         if as_bLongPressHandled (info s)
         then on_info (\<lambda>c. c\<lparr>as_bLongPressHandled := False, as_uiButtonPressStart_ms := 0\<rparr>) s
         else
           (let uiReleaseTime_ms = in_uiTimestamp_ms m;
                uiPressDurationTime_ms = uiReleaseTime_ms - as_uiButtonPressStart_ms (info s);
                s = on_info (as_uiButtonPressStart_ms_update (\<lambda>_. 0)) s in
            if uiPressDurationTime_ms \<ge> ENCODER_SWITCH_HOLD_TIME_ms
            then vHandle_SourceLongPress (on_info (\<lambda>c. c\<lparr>as_uiShortPressCount := 0, as_uiLastShortRelease_ms := 0\<rparr>) s)
            else if as_uiShortPressCount (info s) = 0
                 \<or> uiReleaseTime_ms - as_uiLastShortRelease_ms (info s) > ENCODER_DOUBLE_PRESS_WINDOW_ms
            then on_info (\<lambda>c. c\<lparr>as_uiShortPressCount := 1, as_uiLastShortRelease_ms := uiReleaseTime_ms\<rparr>) s
            else snd (bRequest_UIScreen eScreen_SourceSelect
                   (on_info (\<lambda>c. c\<lparr>as_uiShortPressCount := 0, as_uiLastShortRelease_ms := 0\<rparr>) s)))))"

definition vHandle_EncoderInput_info :: "('w, 'z) ui_services_scheme \<Rightarrow> sT_UIInput_t \<Rightarrow> 'w ui_sys \<Rightarrow> 'w ui_sys" where
  "vHandle_EncoderInput_info E m s =
     (case in_eType m of
        eUIInput_Rotate \<Rightarrow> vHandle_EncoderRotation_info E m s
      | eUIInput_Press \<Rightarrow> vHandle_EncoderButonPress_info m s
      | eUIInput_Release \<Rightarrow> vHandle_EncoderButonPress_info m s
      | eUIInput_None \<Rightarrow> s)"

subsection \<open>Running, entering, leaving\<close>

definition vRun_AudioSrcInfoScreen :: "('w, 'z) ui_services_scheme \<Rightarrow> 'w ui_sys \<Rightarrow> 'w ui_sys" where
  "vRun_AudioSrcInfoScreen E s =
     (let s = snd (iUpdate_AudioSrcFile_info E False s); (leaving, s) = bCanExecute_MuteScreenTransition E s in
      if leaving then s
      else
        (let (now, s) = ui_now E s;
             s = (if as_bButtonPressed (info s) \<and> \<not> as_bLongPressHandled (info s)
                     \<and> now - as_uiButtonPressStart_ms (info s) \<ge> ENCODER_SWITCH_HOLD_TIME_ms
                  then vHandle_SourceLongPress
                    (on_info (\<lambda>c. c\<lparr>as_bLongPressHandled := True, as_uiShortPressCount := 0, as_uiLastShortRelease_ms := 0\<rparr>) s)
                  else s)
         in if \<not> as_bButtonPressed (info s) \<and> as_uiShortPressCount (info s) = 1
               \<and> now - as_uiLastShortRelease_ms (info s) > ENCODER_DOUBLE_PRESS_WINDOW_ms
            then on_info (\<lambda>c. c\<lparr>as_uiShortPressCount := 0, as_uiLastShortRelease_ms := 0\<rparr>) s
            else s))"

definition bUpdate_AudioSourceInfo :: "('w, 'z) ui_services_scheme \<Rightarrow> 'w ui_sys \<Rightarrow> bool \<times> 'w ui_sys" where
  "bUpdate_AudioSourceInfo E s =
     (let ((r, snap), s) = on_source (iGet_SelectedAudioSrcConfig E (Some zero_config)) s in
      if r \<noteq> 0 then (False, s)
      else
        (let cfg = the snap;
             s = on_info (\<lambda>c. c\<lparr>as_uiVolume := ucast (ac_uiVolume cfg), as_eSrcId := ac_eSrcId cfg\<rparr>) s in
         if ac_eSrcType cfg \<noteq> as_eSrcType (info s) then (False, s)
         else
           (let s = on_info (\<lambda>c. c\<lparr>as_bIsVolumeDirty := False, as_uiVolDirtySince_ms := 0, as_uiVolLastChange_ms := 0\<rparr>) s;
                s = (case as_pstAudSrcNameLabel (info s) of None \<Rightarrow> s
                       | Some o1 \<Rightarrow> draw E (lv_label_set_text o1 (c_string (ac_caSrcName cfg))) s);
                s = (case as_pstVolSlider (info s) of None \<Rightarrow> s
                       | Some o1 \<Rightarrow> draw E (lv_slider_set_value o1 (as_uiVolume (info s)) False) s)
            in (True, show_volume E s))))"

definition vEnter_AudioSrcInfoScreen :: "('w, 'z) ui_services_scheme \<Rightarrow> 'w ui_sys \<Rightarrow> 'w ui_sys" where
  "vEnter_AudioSrcInfoScreen E s =
     (case root_of eScreen_AudioSrcInfo s of
        None \<Rightarrow> s
      | Some root \<Rightarrow>
          (let (r, s) = (if as_bIsVolumeDirty (info s) then iUpdate_AudioSrcFile_info E True s else (0, s)) in
           if r \<noteq> 0 \<or> \<not> widget_valid E s root then s
           else
             (let (ok, s) = bUpdate_AudioSourceInfo E s in
              if \<not> ok then s
              else if as_uiVolume (info s) = 0
                then (let (now, s) = ui_now E s
                      in gui_do (lv_screen_load E root) (on_info (set_mute_pending True now AUDIO_MUTE_RETRANSITION_DELAY_ms) s))
              else gui_do (lv_screen_load E root) (on_info (set_mute_pending False 0 0) s))))"

definition vExit_AudioSrcInfoScreen :: "('w, 'z) ui_services_scheme \<Rightarrow> 'w ui_sys \<Rightarrow> 'w ui_sys" where
  "vExit_AudioSrcInfoScreen E s =
     on_info (\<lambda>c. c\<lparr>as_bIsMuteTransitionPending := False, as_bIsMuteTransitionReady := False, as_bButtonPressed := False,
       as_bLongPressHandled := False, as_uiLastShortRelease_ms := 0, as_uiButtonPressStart_ms := 0, as_uiShortPressCount := 0\<rparr>)
       (snd (iUpdate_AudioSrcFile_info E True s))"

text \<open>The functions that register a screen fill its two slots.\<close>

definition register_screen :: "eScreenId_t \<Rightarrow> 'w ui_sys \<Rightarrow> 'w ui_sys" where
  "register_screen e s =
     (case UI_SCREEN_SLOT_INDEX e of
        None \<Rightarrow> s
      | Some i \<Rightarrow> s\<lparr>staScreenRuntimeInfo := (staScreenRuntimeInfo s)[i := \<lparr>rt_eScreenId = e, rt_pstRootObj = None\<rparr>],
          staScreenDescriptors := (staScreenDescriptors s)[i :=
            \<lparr>sd_eScreenId = e, sd_pstScreenRuntime = True, sd_bDeleteOnExit = True, sd_functions = Some e\<rparr>]\<rparr>)"

definition bInit_AudioSrcInfoScreen :: "'w ui_sys \<Rightarrow> bool \<times> 'w ui_sys" where
  "bInit_AudioSrcInfoScreen s = (True, register_screen eScreen_AudioSrcInfo (on_info (\<lambda>_. zero_info_context) s))"

end
