(* ===== verification/Ui_Mute.thy ===== *)
theory Ui_Mute
  imports Ui_Source
begin

text \<open>
  AudioSrcMute.c: the screen of a muted source. A press schedules the work that unmutes the source; the work runs on the system
  work queue between two turns of the main loop.
\<close>

definition bCreate_MuteIcon :: "('w, 'z) ui_services_scheme \<Rightarrow> 'w ui_sys \<Rightarrow> bool \<times> 'w ui_sys" where
  "bCreate_MuteIcon E s =
     (let (img, s) = load_icon E MUTE_ICON_IMAGE_PATH (mu_stGuiderUI (stTAudSrcMuteCtrlContext s) ''Options_Option_2'') s
      in case img of None \<Rightarrow> (False, s) | Some o1 \<Rightarrow> (True, on_mute (mu_pstMute_Icon_update (\<lambda>_. Some o1)) s))"

definition bLoad_BluetoothIcon :: "('w, 'z) ui_services_scheme \<Rightarrow> 'w ui_sys \<Rightarrow> bool \<times> 'w ui_sys" where
  "bLoad_BluetoothIcon E s =
     (let (img, s) = load_icon E BLUETOOTH_ICON_IMAGE_PATH (mu_stGuiderUI (stTAudSrcMuteCtrlContext s) ''Options_Option'') s
      in case img of None \<Rightarrow> (False, s) | Some o1 \<Rightarrow> (True, on_mute (mu_pstBluetooth_Icon_update (\<lambda>_. Some o1)) s))"

text \<open>The checks and the icon behind the generated layout.\<close>

definition furnish_mute :: "('w, 'z) ui_services_scheme \<Rightarrow> lv_obj option \<Rightarrow> 'w ui_sys \<Rightarrow> bool \<times> 'w ui_sys" where
  "furnish_mute E root s =
     (if no_widget E root s then (False, s)
      else
        (let name = mu_stGuiderUI (stTAudSrcMuteCtrlContext s) ''Option_3_Option_label_2'';
             s = on_mute (mu_pstSourceName_update (\<lambda>_. name)) s
         in if no_widget E name s then (False, s) else bCreate_MuteIcon E s))"

definition bCreate_AudioSrcMuteScreen :: "('w, 'z) ui_services_scheme \<Rightarrow> 'w ui_sys \<Rightarrow> bool \<times> 'w ui_sys" where
  "bCreate_AudioSrcMuteScreen E s =
     (if \<not> no_widget E (root_of eScreen_SourceMute s) s then (True, s)
      else
        (let s = on_mute (\<lambda>_. zero_mute_context) (set_root eScreen_SourceMute None s);
             (ui, s) = gui (gg_setup E setup_Mute_Home_revised) s;
             s = on_mute (mu_stGuiderUI_update (\<lambda>_. ui)) s;
             (ok, s) = furnish_mute E (ui ''screen'') s
         in if ok then (True, set_root eScreen_SourceMute (ui ''screen'') s)
            else (False, set_root eScreen_SourceMute None (on_mute (\<lambda>_. zero_mute_context) (discard_root E (ui ''screen'') s)))))"

definition vEnter_AudioSrcMuteScreen :: "('w, 'z) ui_services_scheme \<Rightarrow> 'w ui_sys \<Rightarrow> 'w ui_sys" where
  "vEnter_AudioSrcMuteScreen E s =
     (case root_of eScreen_SourceMute s of
        None \<Rightarrow> s
      | Some root \<Rightarrow>
          if \<not> widget_valid E s root then s
          else
            (let ((r, snap), s) = on_source (iGet_SelectedAudioSrcConfig E (Some zero_config)) s in
             if r \<noteq> 0 then s
             else
               (let cfg = the snap;
                    (ok, s) = (if ac_eSrcType cfg = eAudioSrc_Type_Bluetooth then bLoad_BluetoothIcon E s else (True, s)) in
                if \<not> ok then s
                else
                  (let s = (if c_string (ac_caSrcName cfg) \<noteq> ''''
                            then draw E (lv_label_set_text (the (mu_pstSourceName (stTAudSrcMuteCtrlContext s))) (c_string (ac_caSrcName cfg))) s
                            else s)
                   in gui_do (lv_screen_load E root) (on_mute_work (mw_eSourceId_update (\<lambda>_. ac_eSrcId cfg)) s)))))"

definition vExit_AudioSrcMuteScreen :: "'w ui_sys \<Rightarrow> 'w ui_sys" where
  "vExit_AudioSrcMuteScreen s =
     on_mute_work (\<lambda>w. w\<lparr>mw_kwork_SubmitNewScreen := None, mw_bWorkCompleted := False, mw_eSourceId := eNUMBER_OF_AUDIO_SOURCES\<rparr>)
       (on_mute (mu_bIsUnmuteInProgress_update (\<lambda>_. False)) s)"

definition schedule_unmute :: "sT_MuteWorkContext_t \<Rightarrow> sT_MuteWorkContext_t" where
  "schedule_unmute w = w\<lparr>mw_bWorkCompleted := False,
     mw_kwork_SubmitNewScreen := work_schedule UNMUTE_OPERATION_RESIDENCE_TIME_ms (mw_kwork_SubmitNewScreen w)\<rparr>"

definition vHandle_EncoderInput_mute :: "sT_UIInput_t \<Rightarrow> 'w ui_sys \<Rightarrow> 'w ui_sys" where
  "vHandle_EncoderInput_mute m s =
     (if in_eType m \<noteq> eUIInput_Press \<or> mu_bIsUnmuteInProgress (stTAudSrcMuteCtrlContext s) then s
      else on_mute_work schedule_unmute (on_mute (mu_bIsUnmuteInProgress_update (\<lambda>_. True)) s))"

text \<open>The work item; nothing runs when it is not pending.\<close>

definition vHandle_ScreenSubmit_mute :: "('w, 'z) ui_services_scheme \<Rightarrow> 'w ui_sys \<Rightarrow> 'w ui_sys" where
  "vHandle_ScreenSubmit_mute E s =
     (if mw_kwork_SubmitNewScreen (stTMuteContext s) = None then s
      else
        (let s = on_mute_work (mw_kwork_SubmitNewScreen_update (\<lambda>_. None)) s in
         if \<not> mu_bIsUnmuteInProgress (stTAudSrcMuteCtrlContext s) then s
         else
           (let (ok, s) = on_source (bUpdate_AudioSrcMuteStatus E (mw_eSourceId (stTMuteContext s)) False) s
            in if \<not> ok
               then on_mute_work (\<lambda>w. w\<lparr>mw_kwork_SubmitNewScreen :=
                      work_schedule UNMUTE_OPERATION_RESIDENCE_TIME_ms (mw_kwork_SubmitNewScreen w)\<rparr>) s
               else on_mute_work (mw_bWorkCompleted_update (\<lambda>_. True)) s)))"

definition vRun_AudioSrcMuteScreen :: "'w ui_sys \<Rightarrow> 'w ui_sys" where
  "vRun_AudioSrcMuteScreen s =
     (if mw_bWorkCompleted (stTMuteContext s)
      then (let (ok, s) = bRequest_UIScreen eScreen_AudioSrcInfo s
            in if \<not> ok then on_mute_work schedule_unmute s
               else on_mute_work (mw_bWorkCompleted_update (\<lambda>_. False)) (on_mute (mu_bIsUnmuteInProgress_update (\<lambda>_. False)) s))
      else s)"

definition bInit_AudioSrcMuteScreen :: "'w ui_sys \<Rightarrow> bool \<times> 'w ui_sys" where
  "bInit_AudioSrcMuteScreen s =
     (True, register_screen eScreen_SourceMute
        (on_mute_work (\<lambda>w. w\<lparr>mw_bWorkCompleted := False, mw_eSourceId := eNUMBER_OF_AUDIO_SOURCES, mw_kwork_SubmitNewScreen := None\<rparr>)
           (on_mute (\<lambda>_. zero_mute_context) s)))"

end
