(* ===== verification/Ui_Select.thy ===== *)
theory Ui_Select
  imports Ui_Source
begin

text \<open>
  AudioSrcSelection.c, the menu of the sources: a focus that goes round six items, a press that selects a source or goes elsewhere,
  and the work item that leaves the screen half a second later.
\<close>

subsection \<open>Items\<close>

text \<open>The widget of an item.\<close>

fun item_member :: "eSelectedItem_t \<Rightarrow> string option" where
  "item_member eItemSelect_Back = Some ''Option_2''"
| "item_member eItemSelect_Src1 = Some ''Option_3''"
| "item_member eItemSelect_Src2 = Some ''Option_4''"
| "item_member eItemSelect_Src3 = Some ''Option_5''"
| "item_member eItemSelect_Src4 = Some ''Option_6''"
| "item_member eItemSelect_Menu = Some ''Option_7''"
| "item_member eNUMBER_OF_ITEM_SELECTIONs = None"

definition pstGet_ItemObject :: "eSelectedItem_t \<Rightarrow> 'w ui_sys \<Rightarrow> lv_obj option" where
  "pstGet_ItemObject i s =
     (case item_member i of None \<Rightarrow> None | Some m \<Rightarrow> sl_stGuiderUI (stTAudSrcSelectionContext s) m)"

text \<open>The items from \<open>eItemSelect_Back\<close> on, in the order of their values.\<close>

definition menu_items :: "eSelectedItem_t list" where
  "menu_items = [eItemSelect_Back, eItemSelect_Src1, eItemSelect_Src2, eItemSelect_Src3, eItemSelect_Src4, eItemSelect_Menu]"

fun item_after :: "eSelectedItem_t \<Rightarrow> eSelectedItem_t" where
  "item_after eItemSelect_Back = eItemSelect_Src1"
| "item_after eItemSelect_Src1 = eItemSelect_Src2"
| "item_after eItemSelect_Src2 = eItemSelect_Src3"
| "item_after eItemSelect_Src3 = eItemSelect_Src4"
| "item_after eItemSelect_Src4 = eItemSelect_Menu"
| "item_after eItemSelect_Menu = eItemSelect_Back"
| "item_after eNUMBER_OF_ITEM_SELECTIONs = eNUMBER_OF_ITEM_SELECTIONs"

fun item_before :: "eSelectedItem_t \<Rightarrow> eSelectedItem_t" where
  "item_before eItemSelect_Back = eItemSelect_Menu"
| "item_before eItemSelect_Src1 = eItemSelect_Back"
| "item_before eItemSelect_Src2 = eItemSelect_Src1"
| "item_before eItemSelect_Src3 = eItemSelect_Src2"
| "item_before eItemSelect_Src4 = eItemSelect_Src3"
| "item_before eItemSelect_Menu = eItemSelect_Src4"
| "item_before eNUMBER_OF_ITEM_SELECTIONs = eNUMBER_OF_ITEM_SELECTIONs"

definition eGet_NextMenuItem_select :: "bool \<Rightarrow> 'w ui_sys \<Rightarrow> eSelectedItem_t" where
  "eGet_NextMenuItem_select bIsForward s =
     (let i = sl_eFocusedItem (stTAudSrcSelectionContext s)
      in if i = eNUMBER_OF_ITEM_SELECTIONs then eNUMBER_OF_ITEM_SELECTIONs else if bIsForward then item_after i else item_before i)"

fun eGet_AudioSrcFromItem :: "eSelectedItem_t \<Rightarrow> nat" where
  "eGet_AudioSrcFromItem eItemSelect_Src1 = 0"
| "eGet_AudioSrcFromItem eItemSelect_Src2 = 1"
| "eGet_AudioSrcFromItem eItemSelect_Src3 = 2"
| "eGet_AudioSrcFromItem eItemSelect_Src4 = 3"
| "eGet_AudioSrcFromItem _ = eNUMBER_OF_AUDIO_SOURCES"

definition eaAudioSrc_To_MenuItem_Map :: "nat \<Rightarrow> eSelectedItem_t" where
  "eaAudioSrc_To_MenuItem_Map i =
     (if i = 0 then eItemSelect_Src1 else if i = 1 then eItemSelect_Src2 else if i = 2 then eItemSelect_Src3 else eItemSelect_Src4)"

subsection \<open>Creation\<close>

definition required_members :: "string list" where
  "required_members = [''screen'', ''Option'', ''Option_Option_label'', ''Option_2'', ''Option_2_Option_label_2'', ''Option_3'',
     ''Option_3_Option_label_3'', ''Option_4'', ''Option_4_Option_label_4'', ''Option_5'', ''Option_5_Option_label_5'', ''Option_6'',
     ''Option_6_Option_label_6'', ''Option_7'', ''Option_7_Option_label_7'']"

definition bValidate_GeneratedObjects :: "('w, 'z) ui_services_scheme \<Rightarrow> 'w ui_sys \<Rightarrow> bool" where
  "bValidate_GeneratedObjects E s \<longleftrightarrow>
     list_all (\<lambda>m. \<not> no_widget E (sl_stGuiderUI (stTAudSrcSelectionContext s) m) s) required_members"

definition bCreate_BackIcon_select :: "('w, 'z) ui_services_scheme \<Rightarrow> 'w ui_sys \<Rightarrow> bool \<times> 'w ui_sys" where
  "bCreate_BackIcon_select E s =
     (let (img, s) = load_icon E MENUBACK_ICON_IMAGE_PATH (sl_stGuiderUI (stTAudSrcSelectionContext s) ''Option_2'') s
      in case img of None \<Rightarrow> (False, s) | Some o1 \<Rightarrow> (True, on_select (sl_pstSrcSelectBack_Icon_update (\<lambda>_. Some o1)) s))"

definition bCreate_MenuIcon_select :: "('w, 'z) ui_services_scheme \<Rightarrow> 'w ui_sys \<Rightarrow> bool \<times> 'w ui_sys" where
  "bCreate_MenuIcon_select E s =
     (let (img, s) = load_icon E MAINMENU_ICON_IMAGE_PATH (sl_stGuiderUI (stTAudSrcSelectionContext s) ''Option_7'') s
      in case img of None \<Rightarrow> (False, s) | Some o1 \<Rightarrow> (True, on_select (sl_pstMenuSelect_Icon_update (\<lambda>_. Some o1)) s))"

definition bCreate_SelectionIcon :: "('w, 'z) ui_services_scheme \<Rightarrow> 'w ui_sys \<Rightarrow> bool \<times> 'w ui_sys" where
  "bCreate_SelectionIcon E s =
     (let (img, s) = load_icon E AUDIOSRC_SELECTION_ICON_IMAGE_PATH (sl_stGuiderUI (stTAudSrcSelectionContext s) ''screen'') s
      in case img of None \<Rightarrow> (False, s)
         | Some o1 \<Rightarrow> (True, on_select (sl_pstSrcSelect_Icon_update (\<lambda>_. Some o1)) (draw E (lv_set_hidden o1 True) s)))"

text \<open>One step after the other until one fails.\<close>

fun all_steps :: "('s \<Rightarrow> bool \<times> 's) list \<Rightarrow> 's \<Rightarrow> bool \<times> 's" where
  "all_steps [] s = (True, s)"
| "all_steps (f # fs) s = (let (ok, s) = f s in if ok then all_steps fs s else (False, s))"

definition bCreate_AudioSrcSelectionScreen :: "('w, 'z) ui_services_scheme \<Rightarrow> 'w ui_sys \<Rightarrow> bool \<times> 'w ui_sys" where
  "bCreate_AudioSrcSelectionScreen E s =
     (if \<not> no_widget E (root_of eScreen_SourceSelect s) s then (True, s)
      else
        (let s = on_select (\<lambda>_. zero_select_context) (set_root eScreen_SourceSelect None s);
             (ui, s) = gui (gg_setup E setup_Source_Selection_revised) s;
             s = on_select (sl_stGuiderUI_update (\<lambda>_. ui)) s;
             (ok, s) = all_steps [\<lambda>s. (bValidate_GeneratedObjects E s, s), bCreate_BackIcon_select E, bCreate_SelectionIcon E,
               bCreate_MenuIcon_select E] s
         in if ok then (True, set_root eScreen_SourceSelect (ui ''screen'') s)
            else (False, set_root eScreen_SourceSelect None (on_select (\<lambda>_. zero_select_context) (discard_root E (ui ''screen'') s)))))"

subsection \<open>Showing\<close>

definition paint :: "('w, 'z) ui_services_scheme \<Rightarrow> bool \<Rightarrow> lv_obj \<Rightarrow> 'w ui_sys \<Rightarrow> 'w ui_sys" where
  "paint E focused o1 s = draw E (lv_set_bg o1 (if focused then SELECTED_COLOR else DEFAULT_COLOR) focused) s"

definition vUpdate_UI_AtSelectionCHanged :: "('w, 'z) ui_services_scheme \<Rightarrow> 'w ui_sys \<Rightarrow> 'w ui_sys" where
  "vUpdate_UI_AtSelectionCHanged E s =
     (case pstGet_ItemObject (sl_eFocusedItem (stTAudSrcSelectionContext s)) s of
        None \<Rightarrow> s
      | Some o1 \<Rightarrow>
          (let s = (case pstGet_ItemObject (sl_ePreviouslyFocusedItem (stTAudSrcSelectionContext s)) s of
                      None \<Rightarrow> s | Some o0 \<Rightarrow> paint E False o0 s)
           in paint E True o1 s))"

definition vReset_ItemStyles :: "('w, 'z) ui_services_scheme \<Rightarrow> 'w ui_sys \<Rightarrow> 'w ui_sys" where
  "vReset_ItemStyles E s =
     foldl (\<lambda>s i. let p = pstGet_ItemObject i s in if no_widget E p s then s else paint E False (the p) s) s menu_items"

definition vPlace_SelectionIcon :: "('w, 'z) ui_services_scheme \<Rightarrow> eSelectedItem_t \<Rightarrow> 'w ui_sys \<Rightarrow> 'w ui_sys" where
  "vPlace_SelectionIcon E i s =
     (let icon = sl_pstSrcSelect_Icon (stTAudSrcSelectionContext s) in
      if no_widget E icon s then s
      else if i \<notin> {eItemSelect_Src1, eItemSelect_Src2, eItemSelect_Src3, eItemSelect_Src4} then draw E (lv_set_hidden (the icon) True) s
      else if no_widget E (pstGet_ItemObject i s) s then draw E (lv_set_hidden (the icon) True) s
      else draw E (lv_set_hidden (the icon) False) (draw E (lv_set_parent (the icon) (the (pstGet_ItemObject i s))) s))"

fun source_label :: "eSelectedItem_t \<Rightarrow> string" where
  "source_label eItemSelect_Src1 = ''Option_3_Option_label_3''"
| "source_label eItemSelect_Src2 = ''Option_4_Option_label_4''"
| "source_label eItemSelect_Src3 = ''Option_5_Option_label_5''"
| "source_label eItemSelect_Src4 = ''Option_6_Option_label_6''"
| "source_label _ = ''''"

text \<open>A name that cannot be read is shown empty.\<close>

definition show_source_name :: "('w, 'z) ui_services_scheme \<Rightarrow> 'w ui_sys \<Rightarrow> nat \<Rightarrow> 'w ui_sys" where
  "show_source_name E s i =
     (case sl_stGuiderUI (stTAudSrcSelectionContext s) (source_label (eaAudioSrc_To_MenuItem_Map i)) of
        None \<Rightarrow> s
      | Some o1 \<Rightarrow>
          (let (name, s) = on_source (vGetSnapshot_Of_AudioSrcName E i) s
           in draw E (lv_label_set_text o1 (case name of None \<Rightarrow> '''' | Some b \<Rightarrow> c_string b)) s))"

definition vUpdate_SourceNames :: "('w, 'z) ui_services_scheme \<Rightarrow> 'w ui_sys \<Rightarrow> 'w ui_sys" where
  "vUpdate_SourceNames E s = foldl (show_source_name E) s [0..<eNUMBER_OF_AUDIO_SOURCES]"

definition item_of_source :: "nat \<Rightarrow> eSelectedItem_t" where
  "item_of_source i = (if i < eNUMBER_OF_AUDIO_SOURCES then eaAudioSrc_To_MenuItem_Map i else eItemSelect_Back)"

definition vSet_SelectedItem_ByAudioSrc :: "nat \<Rightarrow> 'w ui_sys \<Rightarrow> 'w ui_sys" where
  "vSet_SelectedItem_ByAudioSrc eSrcId s =
     (let new = item_of_source eSrcId; s = on_select (sl_eCommittedSourceItem_update (\<lambda>_. new)) s in
      if new = sl_eFocusedItem (stTAudSrcSelectionContext s) then s
      else on_select (\<lambda>c. c\<lparr>sl_ePreviouslyFocusedItem := sl_eFocusedItem c, sl_eFocusedItem := new\<rparr>) s)"

definition vUpdate_Selection_FromConfigData :: "('w, 'z) ui_services_scheme \<Rightarrow> 'w ui_sys \<Rightarrow> 'w ui_sys" where
  "vUpdate_Selection_FromConfigData E s =
     (let ((r, snap), s) = on_source (iGet_SelectedAudioSrcConfig E (Some zero_config)) s in
      if r \<noteq> 0 then s
      else
        (let s = vSet_SelectedItem_ByAudioSrc (ac_eSrcId (the snap)) s
         in vPlace_SelectionIcon E (sl_eCommittedSourceItem (stTAudSrcSelectionContext s)) s))"

datatype eItemSelectionOp_t = eItemSelect_ByConfigData | eItemSelect_ByEncoder

definition vUpdate_AudioSrcMenuSelection :: "('w, 'z) ui_services_scheme \<Rightarrow> eItemSelectionOp_t \<Rightarrow> 'w ui_sys \<Rightarrow> 'w ui_sys" where
  "vUpdate_AudioSrcMenuSelection E op s =
     vUpdate_UI_AtSelectionCHanged E (case op of eItemSelect_ByConfigData \<Rightarrow> vUpdate_Selection_FromConfigData E s | eItemSelect_ByEncoder \<Rightarrow> s)"

definition vEnter_AudioSrcSelectionScreen :: "('w, 'z) ui_services_scheme \<Rightarrow> 'w ui_sys \<Rightarrow> 'w ui_sys" where
  "vEnter_AudioSrcSelectionScreen E s =
     (case root_of eScreen_SourceSelect s of
        None \<Rightarrow> s
      | Some root \<Rightarrow>
          if \<not> widget_valid E s root then s
          else gui_do (lv_screen_load E root)
            (vUpdate_AudioSrcMenuSelection E eItemSelect_ByConfigData (vUpdate_SourceNames E (vReset_ItemStyles E s))))"

definition vExit_AudioSrcSelectionScreen :: "'w ui_sys \<Rightarrow> 'w ui_sys" where
  "vExit_AudioSrcSelectionScreen s = s\<lparr>kWork_SubmitNewScreen := None\<rparr>"

subsection \<open>Input\<close>

definition vHandle_EncoderRotation_select :: "('w, 'z) ui_services_scheme \<Rightarrow> sT_UIInput_t \<Rightarrow> 'w ui_sys \<Rightarrow> 'w ui_sys" where
  "vHandle_EncoderRotation_select E m s =
     (let (now, s) = ui_now E s in
      if now - sl_uiLastNavigation_ms (stTAudSrcSelectionContext s) < MENU_NAVIGATION_BLANK_TIME_ms then s
      else if in_iDetents m = 0 \<or> eGet_NextMenuItem_select (in_iDetents m > 0) s = eNUMBER_OF_ITEM_SELECTIONs
        then (let (later, s) = ui_now E s in on_select (sl_uiLastNavigation_ms_update (\<lambda>_. later)) s)
      else
        (let i = eGet_NextMenuItem_select (in_iDetents m > 0) s;
             s = on_select (\<lambda>c. c\<lparr>sl_ePreviouslyFocusedItem := sl_eFocusedItem c, sl_eFocusedItem := i\<rparr>) s
         in on_select (sl_uiLastNavigation_ms_update (\<lambda>_. now)) (vUpdate_UI_AtSelectionCHanged E s)))"

definition vHandle_EncoderButonPress_select :: "('w, 'z) ui_services_scheme \<Rightarrow> sT_UIInput_t \<Rightarrow> 'w ui_sys \<Rightarrow> 'w ui_sys" where
  "vHandle_EncoderButonPress_select E m s =
     (if in_eType m \<noteq> eUIInput_Press then s
      else
        (let i = sl_eFocusedItem (stTAudSrcSelectionContext s) in
         if eGet_AudioSrcFromItem i < eNUMBER_OF_AUDIO_SOURCES
         then
           (let (r, s) = on_source (iUpdate_AudioScrSelected E (eGet_AudioSrcFromItem i) True) s in
            if r \<noteq> 0 then s
            else (vPlace_SelectionIcon E i (on_select (sl_eCommittedSourceItem_update (\<lambda>_. i)) s))
                   \<lparr>kWork_SubmitNewScreen := Some SCREEN_DISPLAY_WORKE_SCHEDULE_TIME_ms\<rparr>)
         else if i = eItemSelect_Back then snd (bRequest_UIScreen eScreen_AudioSrcInfo (s\<lparr>kWork_SubmitNewScreen := None\<rparr>))
         else if i = eItemSelect_Menu then snd (bRequest_UIScreen eScreen_MainMenu (s\<lparr>kWork_SubmitNewScreen := None\<rparr>))
         else s))"

definition vHandle_EncoderInput_select :: "('w, 'z) ui_services_scheme \<Rightarrow> sT_UIInput_t \<Rightarrow> 'w ui_sys \<Rightarrow> 'w ui_sys" where
  "vHandle_EncoderInput_select E m s =
     (case in_eType m of
        eUIInput_Rotate \<Rightarrow> vHandle_EncoderRotation_select E m s
      | eUIInput_Press \<Rightarrow> vHandle_EncoderButonPress_select E m s
      | eUIInput_Release \<Rightarrow> vHandle_EncoderButonPress_select E m s
      | eUIInput_None \<Rightarrow> s)"

text \<open>The work item: the screen of the source that was selected.\<close>

definition vHandle_ScreenSubmit_select :: "'w ui_sys \<Rightarrow> 'w ui_sys" where
  "vHandle_ScreenSubmit_select s =
     (if kWork_SubmitNewScreen s = None then s
      else
        (let s = s\<lparr>kWork_SubmitNewScreen := None\<rparr>;
             eSrcId = eGet_AudioSrcFromItem (sl_eCommittedSourceItem (stTAudSrcSelectionContext s)) in
         case bGet_AudioSrcConfigurations eSrcId (ui_audio s) of
           None \<Rightarrow> s
         | Some c \<Rightarrow>
             (let (ok, s) = bRequest_UIScreen (if ac_bIsMute c then eScreen_SourceMute else eScreen_AudioSrcInfo) s
              in if ok then s
                 else s\<lparr>kWork_SubmitNewScreen := work_schedule SCREEN_DISPLAY_WORKE_RESCHEDULE_TIME_ms (kWork_SubmitNewScreen s)\<rparr>)))"

definition bInit_AudioSrcSelectionScreen :: "'w ui_sys \<Rightarrow> bool \<times> 'w ui_sys" where
  "bInit_AudioSrcSelectionScreen s =
     (True, (register_screen eScreen_SourceSelect (on_select (\<lambda>_. zero_select_context) s))\<lparr>kWork_SubmitNewScreen := None\<rparr>)"

end
