(* ===== verification/Ui_Menus.thy ===== *)
theory Ui_Menus
  imports Ui_Select
begin

text \<open>
  MenuSelection.c and BluetoothMenu.c: the main menu and the menu of the Bluetooth connection.
\<close>

subsection \<open>The main menu\<close>

fun pstGet_MenuItem_member :: "eMenuItem_t \<Rightarrow> string option" where
  "pstGet_MenuItem_member eMenuItem_Back = Some ''Option_2''"
| "pstGet_MenuItem_member eMenuItem_Bluetooth = Some ''Option_3''"
| "pstGet_MenuItem_member eMenuItem_Info = Some ''Option_4''"
| "pstGet_MenuItem_member eNUMBER_OF_MENU_ITEMs = None"

definition pstGet_MenuItem :: "eMenuItem_t \<Rightarrow> 'w ui_sys \<Rightarrow> lv_obj option" where
  "pstGet_MenuItem i s =
     (case pstGet_MenuItem_member i of None \<Rightarrow> None | Some m \<Rightarrow> mn_stGuiderUI (stTMenuSelectionContext s) m)"

definition bCreate_MenuIcon_menu :: "('w, 'z) ui_services_scheme \<Rightarrow> eMenuItem_t \<Rightarrow> 'w ui_sys \<Rightarrow> bool \<times> 'w ui_sys" where
  "bCreate_MenuIcon_menu E i s =
     (let (img, s) = load_icon E MAINMENU_ICON_IMAGE_PATH (pstGet_MenuItem i s) s
      in case img of None \<Rightarrow> (False, s)
         | Some o1 \<Rightarrow> (True, on_menu (\<lambda>c. c\<lparr>mn_pstMenuSelect_Icon := (mn_pstMenuSelect_Icon c)(i := Some o1)\<rparr>) s))"

definition bCreate_BackIcon_menu :: "('w, 'z) ui_services_scheme \<Rightarrow> 'w ui_sys \<Rightarrow> bool \<times> 'w ui_sys" where
  "bCreate_BackIcon_menu E s =
     (let (img, s) = load_icon E MENUBACK_ICON_IMAGE_PATH (mn_stGuiderUI (stTMenuSelectionContext s) ''Option_2'') s
      in case img of None \<Rightarrow> (False, s) | Some o1 \<Rightarrow> (True, on_menu (mn_pstSrcSelectBack_Icon_update (\<lambda>_. Some o1)) s))"

definition bCreate_MainMenuScreen :: "('w, 'z) ui_services_scheme \<Rightarrow> 'w ui_sys \<Rightarrow> bool \<times> 'w ui_sys" where
  "bCreate_MainMenuScreen E s =
     (if \<not> no_widget E (root_of eScreen_MainMenu s) s then (True, s)
      else
        (let s = on_menu (\<lambda>_. zero_menu_context) (set_root eScreen_MainMenu None s);
             (ui, s) = gui (gg_setup E setup_Menu_revised) s;
             s = on_menu (mn_stGuiderUI_update (\<lambda>_. ui)) s;
             (ok, s) = all_steps [bCreate_BackIcon_menu E, bCreate_MenuIcon_menu E eMenuItem_Bluetooth, bCreate_MenuIcon_menu E eMenuItem_Info] s
         in if ok then (True, set_root eScreen_MainMenu (ui ''screen'') s)
            else (False, set_root eScreen_MainMenu None (on_menu (\<lambda>_. zero_menu_context) (discard_root E (ui ''screen'') s)))))"

text \<open>The new item is focused when its widget and that of the old one are there.\<close>

definition focus_menu :: "('w, 'z) ui_services_scheme \<Rightarrow> eMenuItem_t \<Rightarrow> 'w ui_sys \<Rightarrow> 'w ui_sys" where
  "focus_menu E new s =
     (case pstGet_MenuItem new s of
        None \<Rightarrow> s
      | Some o1 \<Rightarrow> on_menu (\<lambda>c. c\<lparr>mn_ePreviouslyFocusedItem := mn_eFocusedItem c, mn_eFocusedItem := new\<rparr>) (paint E True o1 s))"

definition vSet_SelectedMenuItem :: "('w, 'z) ui_services_scheme \<Rightarrow> eMenuItem_t \<Rightarrow> 'w ui_sys \<Rightarrow> 'w ui_sys" where
  "vSet_SelectedMenuItem E new s =
     (let i = mn_eFocusedItem (stTMenuSelectionContext s) in
      if i = eNUMBER_OF_MENU_ITEMs then focus_menu E new s
      else (case pstGet_MenuItem i s of None \<Rightarrow> s | Some o0 \<Rightarrow> focus_menu E new (paint E False o0 s)))"

definition vEnter_MainMenuScreen :: "('w, 'z) ui_services_scheme \<Rightarrow> 'w ui_sys \<Rightarrow> 'w ui_sys" where
  "vEnter_MainMenuScreen E s =
     (case root_of eScreen_MainMenu s of
        None \<Rightarrow> s
      | Some root \<Rightarrow>
          if \<not> widget_valid E s root then s else gui_do (lv_screen_load E root) (vSet_SelectedMenuItem E eMenuItem_Bluetooth s))"

fun menu_after :: "eMenuItem_t \<Rightarrow> eMenuItem_t" where
  "menu_after eMenuItem_Back = eMenuItem_Bluetooth"
| "menu_after eMenuItem_Bluetooth = eMenuItem_Info"
| "menu_after eMenuItem_Info = eMenuItem_Back"
| "menu_after eNUMBER_OF_MENU_ITEMs = eNUMBER_OF_MENU_ITEMs"

fun menu_before :: "eMenuItem_t \<Rightarrow> eMenuItem_t" where
  "menu_before eMenuItem_Back = eMenuItem_Info"
| "menu_before eMenuItem_Bluetooth = eMenuItem_Back"
| "menu_before eMenuItem_Info = eMenuItem_Bluetooth"
| "menu_before eNUMBER_OF_MENU_ITEMs = eNUMBER_OF_MENU_ITEMs"

definition eGet_NextMenuItem_menu :: "bool \<Rightarrow> 'w ui_sys \<Rightarrow> eMenuItem_t" where
  "eGet_NextMenuItem_menu bIsForward s =
     (let i = mn_eFocusedItem (stTMenuSelectionContext s)
      in if i = eNUMBER_OF_MENU_ITEMs then eNUMBER_OF_MENU_ITEMs else if bIsForward then menu_after i else menu_before i)"

definition vHandle_EncoderRotation_menu :: "('w, 'z) ui_services_scheme \<Rightarrow> sT_UIInput_t \<Rightarrow> 'w ui_sys \<Rightarrow> 'w ui_sys" where
  "vHandle_EncoderRotation_menu E m s =
     (let (now, s) = ui_now E s in
      if now - mn_uiLastNavigation_ms (stTMenuSelectionContext s) < MENU_NAVIGATION_BLANK_TIME_ms then s
      else if in_iDetents m = 0 \<or> eGet_NextMenuItem_menu (in_iDetents m > 0) s = eNUMBER_OF_MENU_ITEMs
        then (let (later, s) = ui_now E s in on_menu (mn_uiLastNavigation_ms_update (\<lambda>_. later)) s)
      else on_menu (mn_uiLastNavigation_ms_update (\<lambda>_. now)) (vSet_SelectedMenuItem E (eGet_NextMenuItem_menu (in_iDetents m > 0) s) s))"

definition vHandle_EncoderButonPress_menu :: "sT_UIInput_t \<Rightarrow> 'w ui_sys \<Rightarrow> 'w ui_sys" where
  "vHandle_EncoderButonPress_menu m s =
     (if in_eType m \<noteq> eUIInput_Press then s
      else
        (case mn_eFocusedItem (stTMenuSelectionContext s) of
           eMenuItem_Back \<Rightarrow> snd (bRequest_UIScreen eScreen_SourceSelect s)
         | eMenuItem_Bluetooth \<Rightarrow> snd (bRequest_UIScreen eScreen_BluetoothMenu s)
         | eMenuItem_Info \<Rightarrow> snd (bRequest_UIScreen eScreen_MainMenu s)
         | eNUMBER_OF_MENU_ITEMs \<Rightarrow> s))"

definition vHandle_EncoderInput_menu :: "('w, 'z) ui_services_scheme \<Rightarrow> sT_UIInput_t \<Rightarrow> 'w ui_sys \<Rightarrow> 'w ui_sys" where
  "vHandle_EncoderInput_menu E m s =
     (case in_eType m of
        eUIInput_Rotate \<Rightarrow> vHandle_EncoderRotation_menu E m s
      | eUIInput_Press \<Rightarrow> vHandle_EncoderButonPress_menu m s
      | eUIInput_Release \<Rightarrow> vHandle_EncoderButonPress_menu m s
      | eUIInput_None \<Rightarrow> s)"

definition bInit_MainMenuScreen :: "'w ui_sys \<Rightarrow> bool \<times> 'w ui_sys" where
  "bInit_MainMenuScreen s =
     (True, on_menu (\<lambda>c. c\<lparr>mn_eFocusedItem := eMenuItem_Bluetooth, mn_ePreviouslyFocusedItem := eNUMBER_OF_MENU_ITEMs,
        mn_uiLastNavigation_ms := 0\<rparr>) (register_screen eScreen_MainMenu (on_menu (\<lambda>_. zero_menu_context) s)))"

subsection \<open>The Bluetooth menu\<close>

fun pstGet_MenuItem_ble_member :: "eBluetoothMenuItem_t \<Rightarrow> string option" where
  "pstGet_MenuItem_ble_member eBluetoothMenuItem_Back = Some ''Option_2''"
| "pstGet_MenuItem_ble_member eBluetoothMenuItem_ConnectPair = Some ''Option_3''"
| "pstGet_MenuItem_ble_member eBluetoothMenuItem_Disconnect = Some ''Option_4''"
| "pstGet_MenuItem_ble_member eNUMBER_OF_BLUETOOTH_MENU_ITEMs = None"

definition pstGet_MenuItem_ble :: "eBluetoothMenuItem_t \<Rightarrow> 'w ui_sys \<Rightarrow> lv_obj option" where
  "pstGet_MenuItem_ble i s =
     (case pstGet_MenuItem_ble_member i of None \<Rightarrow> None | Some m \<Rightarrow> bm_stGuiderUI (stBluetoothMenuContext s) m)"

definition bCreate_BluetoothIcon_blemenu :: "('w, 'z) ui_services_scheme \<Rightarrow> 'w ui_sys \<Rightarrow> bool \<times> 'w ui_sys" where
  "bCreate_BluetoothIcon_blemenu E s =
     (let (img, s) = load_icon E BLUETOOTH_ICON_IMAGE_PATH (bm_stGuiderUI (stBluetoothMenuContext s) ''Option'') s
      in case img of None \<Rightarrow> (False, s) | Some o1 \<Rightarrow> (True, on_blemenu (bm_pstBluetooth_Icon_update (\<lambda>_. Some o1)) s))"

definition bCreate_BackIcon_blemenu :: "('w, 'z) ui_services_scheme \<Rightarrow> 'w ui_sys \<Rightarrow> bool \<times> 'w ui_sys" where
  "bCreate_BackIcon_blemenu E s =
     (let (img, s) = load_icon E MENUBACK_ICON_IMAGE_PATH (bm_stGuiderUI (stBluetoothMenuContext s) ''Option_2'') s
      in case img of None \<Rightarrow> (False, s) | Some o1 \<Rightarrow> (True, on_blemenu (bm_pstBackIcon_update (\<lambda>_. Some o1)) s))"

definition bCreate_BluetoothMenuScreen :: "('w, 'z) ui_services_scheme \<Rightarrow> 'w ui_sys \<Rightarrow> bool \<times> 'w ui_sys" where
  "bCreate_BluetoothMenuScreen E s =
     (if \<not> no_widget E (root_of eScreen_BluetoothMenu s) s then (True, s)
      else
        (let s = on_blemenu (\<lambda>_. zero_blemenu_context) (set_root eScreen_BluetoothMenu None s);
             (ui, s) = gui (gg_setup E setup_Bluetooth_Menu) s;
             s = on_blemenu (bm_stGuiderUI_update (\<lambda>_. ui)) s;
             (ok, s) = all_steps [\<lambda>s. (list_all (\<lambda>m. ui m \<noteq> None) [''screen'', ''Option_2'', ''Option_3'', ''Option_4''], s),
               bCreate_BluetoothIcon_blemenu E, bCreate_BackIcon_blemenu E] s
         in if ok then (True, on_blemenu (bm_eFocusedItem_update (\<lambda>_. eBluetoothMenuItem_ConnectPair)) (set_root eScreen_BluetoothMenu (ui ''screen'') s))
            else (False, set_root eScreen_BluetoothMenu None (on_blemenu (\<lambda>_. zero_blemenu_context) (discard_root E (ui ''screen'') s)))))"

definition ble_menu_items :: "eBluetoothMenuItem_t list" where
  "ble_menu_items = [eBluetoothMenuItem_Back, eBluetoothMenuItem_ConnectPair, eBluetoothMenuItem_Disconnect]"

text \<open>Paint the items until one is missing; the focus moves when none is.\<close>

fun paint_items :: "('w, 'z) ui_services_scheme \<Rightarrow> eBluetoothMenuItem_t \<Rightarrow> eBluetoothMenuItem_t list \<Rightarrow> 'w ui_sys \<Rightarrow> 'w ui_sys" where
  "paint_items E new [] s = on_blemenu (bm_eFocusedItem_update (\<lambda>_. new)) s"
| "paint_items E new (i # is) s =
     (case pstGet_MenuItem_ble i s of None \<Rightarrow> s | Some o1 \<Rightarrow> paint_items E new is (paint E (i = new) o1 s))"

definition vSet_FocusedItem :: "('w, 'z) ui_services_scheme \<Rightarrow> eBluetoothMenuItem_t \<Rightarrow> 'w ui_sys \<Rightarrow> 'w ui_sys" where
  "vSet_FocusedItem E new s = (if new = eNUMBER_OF_BLUETOOTH_MENU_ITEMs then s else paint_items E new ble_menu_items s)"

definition vEnter_BluetoothMenuScreen :: "('w, 'z) ui_services_scheme \<Rightarrow> 'w ui_sys \<Rightarrow> 'w ui_sys" where
  "vEnter_BluetoothMenuScreen E s =
     (case root_of eScreen_BluetoothMenu s of
        None \<Rightarrow> s
      | Some root \<Rightarrow>
          if \<not> widget_valid E s root then s
          else gui_do (lv_screen_load E root) (vSet_FocusedItem E eBluetoothMenuItem_ConnectPair
            (on_blemenu (\<lambda>c. c\<lparr>bm_eFocusedItem := eBluetoothMenuItem_ConnectPair, bm_uiLastNavigation_ms := 0\<rparr>) s)))"

fun ble_after :: "eBluetoothMenuItem_t \<Rightarrow> eBluetoothMenuItem_t" where
  "ble_after eBluetoothMenuItem_Back = eBluetoothMenuItem_ConnectPair"
| "ble_after eBluetoothMenuItem_ConnectPair = eBluetoothMenuItem_Disconnect"
| "ble_after eBluetoothMenuItem_Disconnect = eBluetoothMenuItem_Back"
| "ble_after eNUMBER_OF_BLUETOOTH_MENU_ITEMs = eNUMBER_OF_BLUETOOTH_MENU_ITEMs"

fun ble_before :: "eBluetoothMenuItem_t \<Rightarrow> eBluetoothMenuItem_t" where
  "ble_before eBluetoothMenuItem_Back = eBluetoothMenuItem_Disconnect"
| "ble_before eBluetoothMenuItem_ConnectPair = eBluetoothMenuItem_Back"
| "ble_before eBluetoothMenuItem_Disconnect = eBluetoothMenuItem_ConnectPair"
| "ble_before eNUMBER_OF_BLUETOOTH_MENU_ITEMs = eBluetoothMenuItem_Disconnect"

definition vHandle_EncoderRotation_blemenu :: "('w, 'z) ui_services_scheme \<Rightarrow> sT_UIInput_t \<Rightarrow> 'w ui_sys \<Rightarrow> 'w ui_sys" where
  "vHandle_EncoderRotation_blemenu E m s =
     (let (now, s) = ui_now E s in
      if now - bm_uiLastNavigation_ms (stBluetoothMenuContext s) < BLUETOOTH_MENU_NAVIGATION_DELAY_MS then s
      else if in_iDetents m = 0 then on_blemenu (bm_uiLastNavigation_ms_update (\<lambda>_. now)) s
      else
        (let i = bm_eFocusedItem (stBluetoothMenuContext s)
         in on_blemenu (bm_uiLastNavigation_ms_update (\<lambda>_. now))
              (vSet_FocusedItem E (if in_iDetents m > 0 then ble_after i else ble_before i) s)))"

text \<open>Pairing or disconnecting: the state of the Bluetooth source first, then the screen.\<close>

definition enter_ble_state :: "eBLEState_t \<Rightarrow> 'w ui_sys \<Rightarrow> 'w ui_sys" where
  "enter_ble_state st s =
     (let (ok, s) = on_source (bSet_BleConnectionState st) s
      in if \<not> ok then s else snd (bRequest_UIScreen eScreen_BluetoothControl s))"

definition vHandle_EncoderPress :: "sT_UIInput_t \<Rightarrow> 'w ui_sys \<Rightarrow> 'w ui_sys" where
  "vHandle_EncoderPress m s =
     (if in_eType m \<noteq> eUIInput_Press then s
      else
        (case bm_eFocusedItem (stBluetoothMenuContext s) of
           eBluetoothMenuItem_Back \<Rightarrow> snd (bRequest_UIScreen eScreen_MainMenu s)
         | eBluetoothMenuItem_ConnectPair \<Rightarrow> enter_ble_state eBleState_Pairing s
         | eBluetoothMenuItem_Disconnect \<Rightarrow> enter_ble_state eBleState_Disconnect s
         | eNUMBER_OF_BLUETOOTH_MENU_ITEMs \<Rightarrow> s))"

definition vHandle_BluetoothMenuInput :: "('w, 'z) ui_services_scheme \<Rightarrow> sT_UIInput_t \<Rightarrow> 'w ui_sys \<Rightarrow> 'w ui_sys" where
  "vHandle_BluetoothMenuInput E m s =
     (case in_eType m of
        eUIInput_Rotate \<Rightarrow> vHandle_EncoderRotation_blemenu E m s
      | eUIInput_Press \<Rightarrow> vHandle_EncoderPress m s
      | eUIInput_Release \<Rightarrow> vHandle_EncoderPress m s
      | eUIInput_None \<Rightarrow> s)"

definition bInit_BluetoothMenuScreen :: "'w ui_sys \<Rightarrow> bool \<times> 'w ui_sys" where
  "bInit_BluetoothMenuScreen s =
     (True, on_blemenu (\<lambda>c. c\<lparr>bm_eFocusedItem := eBluetoothMenuItem_ConnectPair, bm_uiLastNavigation_ms := 0\<rparr>)
        (register_screen eScreen_BluetoothMenu (on_blemenu (\<lambda>_. zero_blemenu_context) s)))"

end
