(* ===== verification/Ui_Bluetooth.thy ===== *)
theory Ui_Bluetooth
  imports Ui_Select
begin

text \<open>
  BluetoothControl.c, the screen of the Bluetooth connection with its animations, and WelcomeScreen.c, whose fade-in gives the
  start-up command to the wall controller.
\<close>

subsection \<open>Creation\<close>

abbreviation bleconn :: "'w ui_sys \<Rightarrow> sT_BluetoothControl_Context_t" where
  "bleconn s \<equiv> stTBluetoothCtrlContext s"

definition bCreate_LabelForDisplay :: "('w, 'z) ui_services_scheme \<Rightarrow> 'w ui_sys \<Rightarrow> bool \<times> 'w ui_sys" where
  "bCreate_LabelForDisplay E s =
     (let lbl = bx_stGuiderUI (bleconn s) ''Option_3_Option_label_2''; par = bx_stGuiderUI (bleconn s) ''Options_Option_3'' in
      if par = None \<or> lbl = None then (False, s)
      else
        (let s = on_bleconn (bx_pstBleConText_update (\<lambda>_. lbl)) s; (suffix, s) = gui (lv_create E lv_label (the par)) s in
         case suffix of
           None \<Rightarrow> (False, s)
         | Some o1 \<Rightarrow> (True, on_bleconn (bx_pstBleConLabel_Suffix_update (\<lambda>_. Some o1)) (draw E (lv_label_set_text o1 '''') s))))"

definition bCreate_BluetoothIcon_bleconn :: "('w, 'z) ui_services_scheme \<Rightarrow> 'w ui_sys \<Rightarrow> bool \<times> 'w ui_sys" where
  "bCreate_BluetoothIcon_bleconn E s =
     (let (img, s) = load_icon E BLUETOOTH_CONNECTION_ICON_IMAGE_PATH (bx_stGuiderUI (bleconn s) ''Options_Option_2'') s
      in case img of None \<Rightarrow> (False, s) | Some o1 \<Rightarrow> (True, on_bleconn (bx_pstBleConnIcon_update (\<lambda>_. Some o1)) s))"

definition bCreate_BluetoothConnControlScreen :: "('w, 'z) ui_services_scheme \<Rightarrow> 'w ui_sys \<Rightarrow> bool \<times> 'w ui_sys" where
  "bCreate_BluetoothConnControlScreen E s =
     (if \<not> no_widget E (root_of eScreen_BluetoothControl s) s then (True, s)
      else
        (let s = on_bleconn (\<lambda>_. zero_bleconn_context) (set_root eScreen_BluetoothControl None s);
             (ui, s) = gui (gg_setup E setup_Connected_revised) s;
             s = on_bleconn (bx_stGuiderUI_update (\<lambda>_. ui)) s;
             (ok, s) = all_steps [\<lambda>s. (list_all (\<lambda>m. ui m \<noteq> None) [''screen'', ''Options_Option_2'', ''Option_3_Option_label_2''], s),
               bCreate_LabelForDisplay E, bCreate_BluetoothIcon_bleconn E] s
         in if ok then (True, set_root eScreen_BluetoothControl (ui ''screen'') s)
            else (False, set_root eScreen_BluetoothControl None (on_bleconn (\<lambda>_. zero_bleconn_context) (discard_root E (ui ''screen'') s)))))"

subsection \<open>Showing the state\<close>

text \<open>Opacities in LVGL's scale; the repeated animation starts at 40 percent.\<close>

definition LV_OPA_COVER :: nat where "LV_OPA_COVER = 255"

definition vStart_BluetoothPairingAnimation :: "('w, 'z) ui_services_scheme \<Rightarrow> 'w ui_sys \<Rightarrow> 'w ui_sys" where
  "vStart_BluetoothPairingAnimation E s =
     (let icon = bx_pstBleConnIcon (bleconn s) in
      if no_widget E icon s then s else draw E (lv_anim_start (the icon)) (draw E (lv_anim_delete (the icon)) s))"

definition vStop_BluetoothIconAnimation :: "('w, 'z) ui_services_scheme \<Rightarrow> 'w ui_sys \<Rightarrow> 'w ui_sys" where
  "vStop_BluetoothIconAnimation E s =
     (let icon = bx_pstBleConnIcon (bleconn s) in
      if no_widget E icon s then s
      else on_bleconn (bx_bAnimationInProgress_update (\<lambda>_. False))
        (draw E (lv_set_image_opa (the icon) LV_OPA_COVER) (draw E (lv_anim_delete (the icon)) s)))"

text \<open>The callback of the animation.\<close>

definition vSet_BluetoothIconOpacity :: "('w, 'z) ui_services_scheme \<Rightarrow> lv_obj option \<Rightarrow> nat \<Rightarrow> 'w ui_sys \<Rightarrow> 'w ui_sys" where
  "vSet_BluetoothIconOpacity E p opa s = (if no_widget E p s then s else draw E (lv_set_image_opa (the p) opa) s)"

fun BleConnectionText :: "eBLEState_t \<Rightarrow> string" where
  "BleConnectionText eBleState_Pairing = ''Pairing''"
| "BleConnectionText eBleState_Disconnecting = ''Disconnecting''"
| "BleConnectionText eBleState_Disconnect = ''Disconnected''"
| "BleConnectionText eBleState_Connected = ''Connected''"
| "BleConnectionText _ = ''''"

fun ble_color :: "eBLEState_t \<Rightarrow> nat" where
  "ble_color eBleState_Pairing = SELECTED_COLOR"
| "ble_color eBleState_Connected = BLUETOOTH_CONNECTED_COLOR"
| "ble_color _ = BLUETOOTH_DISCONNECTED_COLOR"

definition pcaAnimateString :: "string list" where
  "pcaAnimateString = ['''', ''.'', ''..'', ''...'']"

definition vUpdate_BLuetoothConnection_UI :: "('w, 'z) ui_services_scheme \<Rightarrow> 'w ui_sys \<Rightarrow> 'w ui_sys" where
  "vUpdate_BLuetoothConnection_UI E s =
     (let eState = eGet_BleConnectionState (ui_audio s); lbl = bx_pstBleConText (bleconn s); icon = bx_pstBleConnIcon (bleconn s) in
      if no_widget E lbl s \<or> no_widget E icon s then s
      else if eState = eBleState_None \<or> eState = eNUMBER_OF_BLE_STATEs then s
      else
        (let s = draw E (lv_label_set_text (the lbl) (BleConnectionText eState)) s;
             s = draw E (lv_set_text_color (the lbl) (ble_color eState)) (draw E (lv_set_recolor (the icon) (ble_color eState)) s);
             s = (if eState = eBleState_Pairing
                  then on_bleconn (bx_bAnimationInProgress_update (\<lambda>_. True))
                    (vStart_TextAnimator E pcaAnimateString '''' True BLE_PAIRING_TEXT_ANIMATE_DELAY_ms (vStart_BluetoothPairingAnimation E s))
                  else s)
         in on_bleconn (bx_eCurrentBleState_update (\<lambda>_. eState)) s))"

definition vEnter_BluetoothConnControlScreen :: "('w, 'z) ui_services_scheme \<Rightarrow> 'w ui_sys \<Rightarrow> 'w ui_sys" where
  "vEnter_BluetoothConnControlScreen E s =
     (case root_of eScreen_BluetoothControl s of
        None \<Rightarrow> s
      | Some root \<Rightarrow>
          if \<not> widget_valid E s root then s else gui_do (lv_screen_load E root) (vUpdate_BLuetoothConnection_UI E s))"

text \<open>The end of the animations, on leaving the screen and on a press.\<close>

definition stop_animations :: "('w, 'z) ui_services_scheme \<Rightarrow> 'w ui_sys \<Rightarrow> 'w ui_sys" where
  "stop_animations E s =
     (if bx_bAnimationInProgress (bleconn s)
      then on_bleconn (bx_bAnimationInProgress_update (\<lambda>_. False)) (vStop_TextAnimator E (vStop_BluetoothIconAnimation E s))
      else s)"

definition vExit_BluetoothConnControlScreen :: "('w, 'z) ui_services_scheme \<Rightarrow> 'w ui_sys \<Rightarrow> 'w ui_sys" where
  "vExit_BluetoothConnControlScreen E s = stop_animations E s"

definition vHandle_EncoderInput_bleconn :: "('w, 'z) ui_services_scheme \<Rightarrow> sT_UIInput_t \<Rightarrow> 'w ui_sys \<Rightarrow> 'w ui_sys" where
  "vHandle_EncoderInput_bleconn E m s =
     (if in_eType m \<noteq> eUIInput_Press then s
      else (let (ok, s) = bRequest_UIScreen eScreen_BluetoothMenu s in if ok then stop_animations E s else s))"

definition bInit_BluetoothControlScreen :: "'w ui_sys \<Rightarrow> bool \<times> 'w ui_sys" where
  "bInit_BluetoothControlScreen s = (True, register_screen eScreen_BluetoothControl (on_bleconn (\<lambda>_. zero_bleconn_context) s))"

subsection \<open>The welcome screen\<close>

definition furnish_welcome :: "('w, 'z) ui_services_scheme \<Rightarrow> gg_ui \<Rightarrow> 'w ui_sys \<Rightarrow> bool \<times> 'w ui_sys" where
  "furnish_welcome E ui s =
     (if ui ''screen'' = None \<or> ui ''Welcome_LogoSlot'' = None then (False, s)
      else
        (let (ok, s) = gui (lv_image_decoder_get_info E WELCOME_IMAGE_PATH) s in
         if \<not> ok then (False, s)
         else
           (let (img, s) = gui (lv_create E lv_image (the (ui ''Welcome_LogoSlot''))) s in
            case img of
              None \<Rightarrow> (False, s)
            | Some o1 \<Rightarrow> (True, on_welcome (wl_pstLogoImage_update (\<lambda>_. Some o1)) (draw E (lv_image_set_src o1 WELCOME_IMAGE_PATH) s)))))"

definition bCreate_WelComeScreen :: "('w, 'z) ui_services_scheme \<Rightarrow> 'w ui_sys \<Rightarrow> bool \<times> 'w ui_sys" where
  "bCreate_WelComeScreen E s =
     (if \<not> no_widget E (root_of eScreen_Welcome s) s then (True, s)
      else
        (let s = on_welcome (\<lambda>_. zero_welcome_context) (set_root eScreen_Welcome None s);
             (ui, s) = gui (gg_setup E setup_Sleep_Screen) s;
             s = on_welcome (wl_stGuiderUI_update (\<lambda>_. ui)) s;
             (ok, s) = furnish_welcome E ui s
         in if ok then (True, set_root eScreen_Welcome (ui ''screen'') s)
            else (False, set_root eScreen_Welcome None (on_welcome (\<lambda>_. zero_welcome_context) (discard_root E (ui ''screen'') s)))))"

definition vStart_WelcomeImageFadeIn :: "('w, 'z) ui_services_scheme \<Rightarrow> 'w ui_sys \<Rightarrow> 'w ui_sys" where
  "vStart_WelcomeImageFadeIn E s =
     (let img = wl_pstLogoImage (stTWelcomeScreenContext s) in
      if no_widget E (root_of eScreen_Welcome s) s \<or> no_widget E img s then s
      else draw E (lv_anim_start (the img)) (draw E (lv_set_image_opa (the img) 0) (draw E (lv_anim_delete (the img)) s)))"

definition vEnter_WelcomeScreen :: "('w, 'z) ui_services_scheme \<Rightarrow> 'w ui_sys \<Rightarrow> 'w ui_sys" where
  "vEnter_WelcomeScreen E s =
     (case root_of eScreen_Welcome s of
        None \<Rightarrow> s
      | Some root \<Rightarrow>
          if \<not> widget_valid E s root then s else vStart_WelcomeImageFadeIn E (gui_do (lv_screen_load E root) s))"

text \<open>The callbacks of the animation: each step, and its end.\<close>

definition vSet_WelComeImage_Opacity :: "('w, 'z) ui_services_scheme \<Rightarrow> lv_obj \<Rightarrow> nat \<Rightarrow> 'w ui_sys \<Rightarrow> 'w ui_sys" where
  "vSet_WelComeImage_Opacity E o1 opa s = draw E (lv_set_image_opa o1 opa) s"

definition vWelcomeScreen_ImageFadingCompleted :: "'w ui_sys \<Rightarrow> 'w ui_sys" where
  "vWelcomeScreen_ImageFadingCompleted s = vWallCtrl_Set_Command eWallCtrlCmd_Startup s"

definition bInit_WelcomeScreen :: "'w ui_sys \<Rightarrow> bool \<times> 'w ui_sys" where
  "bInit_WelcomeScreen s = (True, register_screen eScreen_Welcome (on_welcome (\<lambda>_. zero_welcome_context) s))"

end
