(* ===== verification/Wall_StateMachine.thy ===== *)
theory Wall_StateMachine
  imports Ui_Navigation
begin

text \<open>
  Wallcontroller_StateMachine.c: the states Idle, Startup, Bootloader and Active, one handler each, and the commands, which are read
  in their order and cleared when they are read.
\<close>

definition vWallCtrl_Set_State :: "eWallCtrlState_t \<Rightarrow> 'w ui_sys \<Rightarrow> 'w ui_sys" where
  "vWallCtrl_Set_State eNewState s =
     (if eNewState = eNUMBER_OF_WALLCONTROLLER_STATEs then s
      else on_wall (\<lambda>w. w\<lparr>wc_eCurrentState := eNewState, wc_bIsFirstEntry := True\<rparr>) s)"

definition eGet_WallCtrl_State :: "'w ui_sys \<Rightarrow> eWallCtrlState_t" where
  "eGet_WallCtrl_State s = wc_eCurrentState (stTWallCtrlStateMachine s)"

definition IsStateFirstEntry :: "'w ui_sys \<Rightarrow> bool \<times> 'w ui_sys" where
  "IsStateFirstEntry s =
     (if \<not> wc_bIsFirstEntry (stTWallCtrlStateMachine s) then (False, s)
      else (True, on_wall (wc_bIsFirstEntry_update (\<lambda>_. False)) s))"

definition wall_commands :: "eWallCtrlCmd_t list" where
  "wall_commands = [eWallCtrlCmd_None, eWallCtrlCmd_EnterBootloader, eWallCtrlCmd_Startup, eWallCtrlCmd_Active]"

text \<open>The first command that is set, which is cleared.\<close>

fun take_command :: "eWallCtrlCmd_t list \<Rightarrow> 'w ui_sys \<Rightarrow> eWallCtrlCmd_t \<times> 'w ui_sys" where
  "take_command [] s = (eWallCtrlCmd_None, s)"
| "take_command (c # cs) s =
     (if wc_baWallCtrlCmds (stTWallCtrlStateMachine s) c
      then (c, on_wall (\<lambda>w. w\<lparr>wc_baWallCtrlCmds := (wc_baWallCtrlCmds w)(c := False)\<rparr>) s)
      else take_command cs s)"

definition eGet_WallCtrl_Command :: "'w ui_sys \<Rightarrow> eWallCtrlCmd_t \<times> 'w ui_sys" where
  "eGet_WallCtrl_Command s = take_command wall_commands s"

definition vInit_WallCtrl_StateMachine :: "'w ui_sys \<Rightarrow> 'w ui_sys" where
  "vInit_WallCtrl_StateMachine s =
     foldl (\<lambda>s c. on_wall (\<lambda>w. w\<lparr>wc_baWallCtrlCmds := (wc_baWallCtrlCmds w)(c := False)\<rparr>) s) (vWallCtrl_Set_State eWallCtrlState_Idle s)
       wall_commands"

subsection \<open>Handlers\<close>

definition vHandle_IdleState :: "'w ui_sys \<Rightarrow> 'w ui_sys" where
  "vHandle_IdleState s =
     (let (first, s) = IsStateFirstEntry s; (eCmd, s) = eGet_WallCtrl_Command s
      in if eCmd = eWallCtrlCmd_Startup then vWallCtrl_Set_State eWallCtrlState_Startup s else s)"

text \<open>The label \<open>eWallCtrlState_Active\<close> of the switch has the value of the command \<open>eWallCtrlCmd_Active\<close>.\<close>

definition vHandle_StartupState :: "('w, 'z) ui_services_scheme \<Rightarrow> 'w ui_sys \<Rightarrow> 'w ui_sys" where
  "vHandle_StartupState E s =
     (let (first, s) = IsStateFirstEntry s;
          s = (if first then (let (now, s) = ui_now E s in on_wall (wc_uiTrigttime_ms_update (\<lambda>_. now)) s) else s);
          (eCmd, s) = eGet_WallCtrl_Command s
      in if eCmd \<in> {eWallCtrlCmd_None, eWallCtrlCmd_Startup}
         then (let (now, s) = ui_now E s
               in if now - wc_uiTrigttime_ms (stTWallCtrlStateMachine s) \<ge> WALLCTRL_STARTUP_STATE_TIMEOUT_ms
                  then vWallCtrl_Set_State eWallCtrlState_Active s else s)
         else s)"

definition vHandle_BootloaderState :: "'w ui_sys \<Rightarrow> 'w ui_sys" where
  "vHandle_BootloaderState s = (let (first, s) = IsStateFirstEntry s in snd (eGet_WallCtrl_Command s))"

text \<open>The screen of the selected source; without one the first source is selected.\<close>

definition screen_for :: "sT_AudioSourceConfig_t \<Rightarrow> eScreenId_t" where
  "screen_for c = (if ac_bIsMute c then eScreen_SourceMute else eScreen_AudioSrcInfo)"

definition vLoad_UIScreen :: "('w, 'z) ui_services_scheme \<Rightarrow> 'w ui_sys \<Rightarrow> 'w ui_sys" where
  "vLoad_UIScreen E s =
     (let ((iResult, snap), s) = on_source (iGet_SelectedAudioSrcConfig E (Some zero_config)) s in
      if iResult \<noteq> 0 \<and> iResult \<noteq> - ENODATA then s
      else if iResult = 0 then snd (bRequest_UIScreen (screen_for (the snap)) s)
      else
        (case bGet_AudioSrcConfigurations 0 (ui_audio s) of
           None \<Rightarrow> s
         | Some c \<Rightarrow>
             (let (iResult, s) = on_source (iUpdate_AudioScrSelected E 0 True) s
              in if iResult \<noteq> 0 then s else snd (bRequest_UIScreen (screen_for c) s))))"

definition vHandle_ActiveState :: "('w, 'z) ui_services_scheme \<Rightarrow> 'w ui_sys \<Rightarrow> 'w ui_sys" where
  "vHandle_ActiveState E s =
     (let (first, s) = IsStateFirstEntry s; s = (if first then vLoad_UIScreen E s else s)
      in snd (eGet_WallCtrl_Command s))"

definition vRun_WallCtrl_StateMachine :: "('w, 'z) ui_services_scheme \<Rightarrow> 'w ui_sys \<Rightarrow> 'w ui_sys" where
  "vRun_WallCtrl_StateMachine E s =
     (case eGet_WallCtrl_State s of
        eWallCtrlState_Idle \<Rightarrow> vHandle_IdleState s
      | eWallCtrlState_Startup \<Rightarrow> vHandle_StartupState E s
      | eWallCtrlState_Bootloader \<Rightarrow> vHandle_BootloaderState s
      | eWallCtrlState_Active \<Rightarrow> vHandle_ActiveState E s
      | eNUMBER_OF_WALLCONTROLLER_STATEs \<Rightarrow> s)"

end
