(* ===== verification/Ui_ScreenManager.thy ===== *)
theory Ui_ScreenManager
  imports Ui_Input Ui_Mute Ui_Menus Ui_Bluetooth Wall_StateMachine
begin

text \<open>
  UI_ScreenManager.c and LVGL_Display_Controller.c: the registration of the screens, the change from one screen to the next, a turn of
  the manager, and the initialisation of the display. The turns of the main loop, the work items and the callbacks
  of LVGL and of the encoder do not interrupt each other, so each is a step.
\<close>

subsection \<open>The functions of a screen\<close>

fun pfCreate :: "('w, 'z) ui_services_scheme \<Rightarrow> eScreenId_t \<Rightarrow> 'w ui_sys \<Rightarrow> bool \<times> 'w ui_sys" where
  "pfCreate E eScreen_Welcome s = bCreate_WelComeScreen E s"
| "pfCreate E eScreen_AudioSrcInfo s = bCreate_AudioSrcInfoScreen E s"
| "pfCreate E eScreen_SourceSelect s = bCreate_AudioSrcSelectionScreen E s"
| "pfCreate E eScreen_SourceMute s = bCreate_AudioSrcMuteScreen E s"
| "pfCreate E eScreen_MainMenu s = bCreate_MainMenuScreen E s"
| "pfCreate E eScreen_BluetoothMenu s = bCreate_BluetoothMenuScreen E s"
| "pfCreate E eScreen_BluetoothControl s = bCreate_BluetoothConnControlScreen E s"
| "pfCreate E _ s = (False, s)"

fun pfEnter :: "('w, 'z) ui_services_scheme \<Rightarrow> eScreenId_t \<Rightarrow> 'w ui_sys \<Rightarrow> 'w ui_sys" where
  "pfEnter E eScreen_Welcome s = vEnter_WelcomeScreen E s"
| "pfEnter E eScreen_AudioSrcInfo s = vEnter_AudioSrcInfoScreen E s"
| "pfEnter E eScreen_SourceSelect s = vEnter_AudioSrcSelectionScreen E s"
| "pfEnter E eScreen_SourceMute s = vEnter_AudioSrcMuteScreen E s"
| "pfEnter E eScreen_MainMenu s = vEnter_MainMenuScreen E s"
| "pfEnter E eScreen_BluetoothMenu s = vEnter_BluetoothMenuScreen E s"
| "pfEnter E eScreen_BluetoothControl s = vEnter_BluetoothConnControlScreen E s"
| "pfEnter E _ s = s"

text \<open>The exits of the welcome screen and of the two menus do nothing.\<close>

fun pfExit :: "('w, 'z) ui_services_scheme \<Rightarrow> eScreenId_t \<Rightarrow> 'w ui_sys \<Rightarrow> 'w ui_sys" where
  "pfExit E eScreen_AudioSrcInfo s = vExit_AudioSrcInfoScreen E s"
| "pfExit E eScreen_SourceSelect s = vExit_AudioSrcSelectionScreen s"
| "pfExit E eScreen_SourceMute s = vExit_AudioSrcMuteScreen s"
| "pfExit E eScreen_BluetoothControl s = vExit_BluetoothConnControlScreen E s"
| "pfExit E _ s = s"

text \<open>The welcome screen has no input handler.\<close>

fun pfHandleInput :: "('w, 'z) ui_services_scheme \<Rightarrow> eScreenId_t \<Rightarrow> sT_UIInput_t \<Rightarrow> 'w ui_sys \<Rightarrow> 'w ui_sys" where
  "pfHandleInput E eScreen_AudioSrcInfo m s = vHandle_EncoderInput_info E m s"
| "pfHandleInput E eScreen_SourceSelect m s = vHandle_EncoderInput_select E m s"
| "pfHandleInput E eScreen_SourceMute m s = vHandle_EncoderInput_mute m s"
| "pfHandleInput E eScreen_MainMenu m s = vHandle_EncoderInput_menu E m s"
| "pfHandleInput E eScreen_BluetoothMenu m s = vHandle_BluetoothMenuInput E m s"
| "pfHandleInput E eScreen_BluetoothControl m s = vHandle_EncoderInput_bleconn E m s"
| "pfHandleInput E _ m s = s"

text \<open>Only two of the run functions do anything.\<close>

fun pfRun :: "('w, 'z) ui_services_scheme \<Rightarrow> eScreenId_t \<Rightarrow> 'w ui_sys \<Rightarrow> 'w ui_sys" where
  "pfRun E eScreen_AudioSrcInfo s = vRun_AudioSrcInfoScreen E s"
| "pfRun E eScreen_SourceMute s = vRun_AudioSrcMuteScreen s"
| "pfRun E _ s = s"

fun init_screen :: "eScreenId_t \<Rightarrow> 'w ui_sys \<Rightarrow> bool \<times> 'w ui_sys" where
  "init_screen eScreen_Welcome s = bInit_WelcomeScreen s"
| "init_screen eScreen_SourceSelect s = bInit_AudioSrcSelectionScreen s"
| "init_screen eScreen_AudioSrcInfo s = bInit_AudioSrcInfoScreen s"
| "init_screen eScreen_SourceMute s = bInit_AudioSrcMuteScreen s"
| "init_screen eScreen_MainMenu s = bInit_MainMenuScreen s"
| "init_screen eScreen_BluetoothMenu s = bInit_BluetoothMenuScreen s"
| "init_screen eScreen_BluetoothControl s = bInit_BluetoothControlScreen s"
| "init_screen _ s = (False, s)"

subsection \<open>Initialisation\<close>

definition bInit_ScreenData :: "'w ui_sys \<Rightarrow> bool \<times> 'w ui_sys" where
  "bInit_ScreenData s = all_steps (map init_screen ui_screens) s"

definition bInit_UIScreenManager :: "'w ui_sys \<Rightarrow> bool \<times> 'w ui_sys" where
  "bInit_UIScreenManager s =
     (let (ok, s) = bInit_ScreenData (s\<lparr>pstActiveDescriptor := None\<rparr>) in
      if \<not> ok then (False, s\<lparr>sm_bIsInitialized := False\<rparr>)
      else (True, s\<lparr>bIsTransitionPending := False, ePendingScreenId := eScreen_None, sm_bIsInitialized := True\<rparr>))"

subsection \<open>The change of the screen\<close>

definition vDelete_ScreenOnExit :: "('w, 'z) ui_services_scheme \<Rightarrow> nat option \<Rightarrow> 'w ui_sys \<Rightarrow> 'w ui_sys" where
  "vDelete_ScreenOnExit E prev s =
     (case prev of
        None \<Rightarrow> s
      | Some i \<Rightarrow>
          (let d = staScreenDescriptors s ! i in
           if \<not> sd_bDeleteOnExit d \<or> \<not> sd_pstScreenRuntime d then s
           else
             (let s = discard_root E (rt_pstRootObj (staScreenRuntimeInfo s ! i)) s
              in s\<lparr>staScreenRuntimeInfo := (staScreenRuntimeInfo s)[i := (staScreenRuntimeInfo s ! i)\<lparr>rt_pstRootObj := None\<rparr>]\<rparr>)))"

abbreviation transition_done :: "'w ui_sys \<Rightarrow> 'w ui_sys" where
  "transition_done s \<equiv> s\<lparr>ePendingScreenId := eScreen_None, bIsTransitionPending := False\<rparr>"

definition exit_previous :: "('w, 'z) ui_services_scheme \<Rightarrow> nat option \<Rightarrow> 'w ui_sys \<Rightarrow> 'w ui_sys" where
  "exit_previous E prev s =
     (case prev of None \<Rightarrow> s
      | Some j \<Rightarrow> (case sd_functions (staScreenDescriptors s ! j) of None \<Rightarrow> s | Some e \<Rightarrow> pfExit E e s))"

text \<open>A pending identifier that is none would be an access behind the arrays; it does not occur.\<close>

definition bActivate_RequestedScreen :: "('w, 'z) ui_services_scheme \<Rightarrow> 'w ui_sys \<Rightarrow> bool \<times> 'w ui_sys" where
  "bActivate_RequestedScreen E s =
     (case UI_SCREEN_SLOT_INDEX (ePendingScreenId s) of
        None \<Rightarrow> (False, s)
      | Some i \<Rightarrow>
          if pstActiveDescriptor s = Some i then (True, transition_done s)
          else if \<not> sd_pstScreenRuntime (staScreenDescriptors s ! i) then (False, s)
          else
            (let e = ePendingScreenId s;
                 (ok, s) = (if rt_pstRootObj (staScreenRuntimeInfo s ! i) \<noteq> None then (True, s)
                            else if sd_functions (staScreenDescriptors s ! i) = None then (False, s) else pfCreate E e s) in
             if \<not> ok then (False, s)
             else if rt_pstRootObj (staScreenRuntimeInfo s ! i) = None then (False, s)
             else
               (let prev = pstActiveDescriptor s;
                    s = exit_previous E prev s;
                    s = (pfEnter E e s)\<lparr>pstActiveDescriptor := Some i\<rparr>
                in (True, transition_done (vDelete_ScreenOnExit E prev s)))))"

subsection \<open>A turn of the manager\<close>

text \<open>The screen of the active descriptor, through its function pointers.\<close>

definition active_screen :: "'w ui_sys \<Rightarrow> eScreenId_t option" where
  "active_screen s = (case pstActiveDescriptor s of None \<Rightarrow> None | Some i \<Rightarrow> sd_functions (staScreenDescriptors s ! i))"

definition handle_event :: "('w, 'z) ui_services_scheme \<Rightarrow> sT_UIInput_t \<Rightarrow> 'w ui_sys \<Rightarrow> 'w ui_sys" where
  "handle_event E m s =
     (if \<not> sm_bIsInitialized s then s else (case active_screen s of None \<Rightarrow> s | Some e \<Rightarrow> pfHandleInput E e m s))"

text \<open>The handlers submit no events, so as many rounds as there are messages empty the queue.\<close>

fun handle_events :: "('w, 'z) ui_services_scheme \<Rightarrow> nat \<Rightarrow> 'w ui_sys \<Rightarrow> 'w ui_sys" where
  "handle_events E 0 s = s"
| "handle_events E (Suc n) s =
     (case iGet_NextUIEvent s of (None, s) \<Rightarrow> s | (Some m, s) \<Rightarrow> handle_events E n (handle_event E m s))"

definition vRun_UIScreenManager :: "('w, 'z) ui_services_scheme \<Rightarrow> 'w ui_sys \<Rightarrow> 'w ui_sys" where
  "vRun_UIScreenManager E s =
     (let s = (if bIsTransitionPending s then snd (bActivate_RequestedScreen E s) else s);
          s = handle_events E (length (kmsgq_eQDC_MessageQueue s)) s
      in case active_screen s of None \<Rightarrow> s | Some e \<Rightarrow> pfRun E e s)"

abbreviation vRun_UI :: "('w, 'z) ui_services_scheme \<Rightarrow> 'w ui_sys \<Rightarrow> 'w ui_sys" where
  "vRun_UI E s \<equiv> vRun_UIScreenManager E s"

text \<open>A turn of the main loop.\<close>

definition vRun_System :: "('w, 'z) ui_services_scheme \<Rightarrow> 'w ui_sys \<Rightarrow> 'w ui_sys" where
  "vRun_System E s = vRun_WallCtrl_StateMachine E (vRun_UI E s)"

subsection \<open>The display\<close>

definition bEn_Display_Backlight :: "('w, 'z) ui_services_scheme \<Rightarrow> 'w ui_sys \<Rightarrow> bool \<times> 'w ui_sys" where
  "bEn_Display_Backlight E s = (let (r, s) = gui (backlight_set E True) s in (r = 0, s))"

definition bDis_Display_Backlight :: "('w, 'z) ui_services_scheme \<Rightarrow> 'w ui_sys \<Rightarrow> bool \<times> 'w ui_sys" where
  "bDis_Display_Backlight E s = (let (r, s) = gui (backlight_set E False) s in (r = 0, s))"

definition bConfigure_LVGL_BKCtrlPin :: "('w, 'z) ui_services_scheme \<Rightarrow> 'w ui_sys \<Rightarrow> bool \<times> 'w ui_sys" where
  "bConfigure_LVGL_BKCtrlPin E s =
     all_steps [gui (backlight_ready E), \<lambda>s. (let (r, s) = gui (backlight_configure E) s in (r = 0, s)), bDis_Display_Backlight E] s"

text \<open>Each step returns on the failure of the one before it; the host system type is only stored.\<close>

definition bInit_LVGLDisplay :: "('w, 'z) ui_services_scheme \<Rightarrow> 'w ui_sys \<Rightarrow> bool \<times> 'w ui_sys" where
  "bInit_LVGLDisplay E s =
     all_steps [gui (init_fs_adapter E), bConfigure_LVGL_BKCtrlPin E, bInitialize_eQDC E, bInit_UIScreenManager,
       bRequest_UIScreen eScreen_Welcome, bEn_Display_Backlight E] s"

end
