(* ===== verification/Ui_Frames.thy ===== *)
theory Ui_Frames
  imports Ui_ScreenManager
begin

text \<open>
  What each function of the user interface may change, as a modifies clause per function: the parts of the state, a relation that
  leaves all other parts alone, and one lemma per function of a screen and per step of the manager. A request of a screen is
  the only change of the pending request a screen makes.
\<close>

subsection \<open>Parts\<close>

datatype ui_part =
    P_Registry | P_Root nat | P_Active | P_Request | P_Queue | P_Info | P_Select | P_Submit | P_Mute | P_Unmute | P_Wall | P_Audio | P_Volumes | P_Mutes | P_Table

text \<open>A screen that is requested is a screen; a pending request stays.\<close>

definition asks :: "'w ui_sys \<Rightarrow> 'w ui_sys \<Rightarrow> bool" where
  "asks s t \<longleftrightarrow> (bIsTransitionPending t = bIsTransitionPending s \<and> ePendingScreenId t = ePendingScreenId s)
     \<or> (\<not> bIsTransitionPending s \<and> bIsTransitionPending t \<and> UI_SCREEN_SLOT_INDEX (ePendingScreenId t) \<noteq> None)"

definition volumes :: "'w audio_sys \<Rightarrow> u16 list" where
  "volumes a = map ac_uiVolume (staAudioSrcConfigs a)"

definition mutes :: "'w audio_sys \<Rightarrow> bool list" where
  "mutes a = map ac_bIsMute (staAudioSrcConfigs a)"

lemma only_volumes: "lfs_only a b \<Longrightarrow> volumes b = volumes a \<and> mutes b = mutes a"
  by (simp add: volumes_def mutes_def lfs_onlyD)

text \<open>What it means that a part is as it was; for work items and flags, that none is newly set; for the table, that it stays typed.\<close>

fun part_same :: "ui_part \<Rightarrow> 'w ui_sys \<Rightarrow> 'w ui_sys \<Rightarrow> bool" where
  "part_same P_Registry s t \<longleftrightarrow> staScreenDescriptors t = staScreenDescriptors s \<and> sm_bIsInitialized t = sm_bIsInitialized s
     \<and> length (staScreenRuntimeInfo t) = length (staScreenRuntimeInfo s)"
| "part_same (P_Root i) s t \<longleftrightarrow> staScreenRuntimeInfo t ! i = staScreenRuntimeInfo s ! i"
| "part_same P_Active s t \<longleftrightarrow> pstActiveDescriptor t = pstActiveDescriptor s"
| "part_same P_Request s t \<longleftrightarrow> bIsTransitionPending t = bIsTransitionPending s \<and> ePendingScreenId t = ePendingScreenId s"
| "part_same P_Queue s t \<longleftrightarrow> kmsgq_eQDC_MessageQueue t = kmsgq_eQDC_MessageQueue s"
| "part_same P_Info s t \<longleftrightarrow> info t = info s"
| "part_same P_Select s t \<longleftrightarrow> sl_eCommittedSourceItem (stTAudSrcSelectionContext t) = sl_eCommittedSourceItem (stTAudSrcSelectionContext s)"
| "part_same P_Submit s t \<longleftrightarrow> (kWork_SubmitNewScreen t \<noteq> None \<longrightarrow> kWork_SubmitNewScreen s \<noteq> None)"
| "part_same P_Mute s t \<longleftrightarrow> (mu_bIsUnmuteInProgress (stTAudSrcMuteCtrlContext t) \<longrightarrow> mu_bIsUnmuteInProgress (stTAudSrcMuteCtrlContext s))"
| "part_same P_Unmute s t \<longleftrightarrow> (mw_kwork_SubmitNewScreen (stTMuteContext t) \<noteq> None \<longrightarrow> mw_kwork_SubmitNewScreen (stTMuteContext s) \<noteq> None)
     \<and> (mw_bWorkCompleted (stTMuteContext t) \<longrightarrow> mw_bWorkCompleted (stTMuteContext s))"
| "part_same P_Wall s t \<longleftrightarrow> stTWallCtrlStateMachine t = stTWallCtrlStateMachine s"
| "part_same P_Audio s t \<longleftrightarrow> lfs_only (ui_audio s) (ui_audio t)"
| "part_same P_Volumes s t \<longleftrightarrow> volumes (ui_audio t) = volumes (ui_audio s)"
| "part_same P_Mutes s t \<longleftrightarrow> mutes (ui_audio t) = mutes (ui_audio s)"
| "part_same P_Table s t \<longleftrightarrow> (table_typed (ui_audio s) \<longrightarrow> table_typed (ui_audio t))"

definition changes :: "ui_part set \<Rightarrow> 'w ui_sys \<Rightarrow> 'w ui_sys \<Rightarrow> bool" where
  "changes K s t \<longleftrightarrow> asks s t \<and> (\<forall>p. p \<notin> K \<longrightarrow> part_same p s t)"

lemma asks_refl [simp]: "asks s s"
  by (simp add: asks_def)

lemma asks_trans: "asks s t \<Longrightarrow> asks t u \<Longrightarrow> asks s u"
  unfolding asks_def by auto

lemma part_same_refl [simp]: "part_same p s s"
  by (cases p) simp_all

lemma part_same_trans: "part_same p s t \<Longrightarrow> part_same p t u \<Longrightarrow> part_same p s u"
  by (cases p) (auto intro: lfs_only_trans)

lemma changes_refl [simp]: "changes K s s"
  by (simp add: changes_def)

lemma changes_trans: "changes K s t \<Longrightarrow> changes K t u \<Longrightarrow> changes K s u"
  unfolding changes_def by (blast intro: asks_trans part_same_trans)

lemma changes_mono: "changes K s t \<Longrightarrow> K \<subseteq> L \<Longrightarrow> changes L s t"
  unfolding changes_def by blast

lemma changes_same: "changes K s t \<Longrightarrow> p \<notin> K \<Longrightarrow> part_same p s t"
  by (simp add: changes_def)

lemma changes_asks: "changes K s t \<Longrightarrow> asks s t"
  by (simp add: changes_def)

text \<open>A step that leaves every part outside of the set alone.\<close>

lemma changes_step: "changes K s t \<Longrightarrow> (\<And>p. p \<notin> K \<Longrightarrow> part_same p t u) \<Longrightarrow> asks t u \<Longrightarrow> changes K s u"
  unfolding changes_def by (blast intro: asks_trans part_same_trans)

named_theorems frames

lemma part_same_update:
  "p \<noteq> P_Info \<Longrightarrow> part_same p t (t\<lparr>stTAudioSrcScreenContext := c\<rparr>)"
  "p \<noteq> P_Select \<or> sl_eCommittedSourceItem d = sl_eCommittedSourceItem (stTAudSrcSelectionContext t) \<Longrightarrow> part_same p t (t\<lparr>stTAudSrcSelectionContext := d\<rparr>)"
  "p \<noteq> P_Submit \<or> k = None \<Longrightarrow> part_same p t (t\<lparr>kWork_SubmitNewScreen := k\<rparr>)"
  "p \<noteq> P_Mute \<or> \<not> mu_bIsUnmuteInProgress m \<or> mu_bIsUnmuteInProgress m = mu_bIsUnmuteInProgress (stTAudSrcMuteCtrlContext t) \<Longrightarrow> part_same p t (t\<lparr>stTAudSrcMuteCtrlContext := m\<rparr>)"
  "p \<noteq> P_Unmute \<or> (mw_kwork_SubmitNewScreen w = None \<or> mw_kwork_SubmitNewScreen w = mw_kwork_SubmitNewScreen (stTMuteContext t))
      \<and> (\<not> mw_bWorkCompleted w \<or> mw_bWorkCompleted w = mw_bWorkCompleted (stTMuteContext t))
    \<Longrightarrow> part_same p t (t\<lparr>stTMuteContext := w\<rparr>)"
  "p \<noteq> P_Wall \<Longrightarrow> part_same p t (t\<lparr>stTWallCtrlStateMachine := x\<rparr>)"
  "p \<noteq> P_Active \<Longrightarrow> part_same p t (t\<lparr>pstActiveDescriptor := j\<rparr>)"
  "p \<noteq> P_Root i \<Longrightarrow> part_same p t (t\<lparr>staScreenRuntimeInfo := (staScreenRuntimeInfo t)[i := r]\<rparr>)"
  "p \<noteq> P_Registry \<Longrightarrow> part_same p t (t\<lparr>staScreenDescriptors := ds\<rparr>)"
  "p \<noteq> P_Queue \<Longrightarrow> part_same p t (t\<lparr>kmsgq_eQDC_MessageQueue := q\<rparr>)"
            apply (cases p; simp; fail)
           apply (cases p; simp; fail)
          apply (cases p; simp; fail)
         apply (cases p; simp; fail)
        apply (cases p; auto; fail)
       apply (cases p; simp; fail)
      apply (cases p; simp; fail)
     apply (cases p; simp; fail)
    apply (cases p; simp; fail)
   apply (cases p; simp; fail)
  done

lemma part_same_other:
  "part_same p t (t\<lparr>stTMenuSelectionContext := a\<rparr>)" "part_same p t (t\<lparr>stBluetoothMenuContext := b\<rparr>)"
  "part_same p t (t\<lparr>stTBluetoothCtrlContext := c\<rparr>)" "part_same p t (t\<lparr>stTWelcomeScreenContext := d\<rparr>)"
  "part_same p t (t\<lparr>ui_animator := e\<rparr>)" "part_same p t (t\<lparr>uiNAV_COUNTS_PER_DETENT := n\<rparr>)"
  "part_same p t (t\<lparr>iEncoderCountAccumulator := i\<rparr>)"
  by (cases p; simp)+

text \<open>An update of the state as the last step, one rule per field.\<close>

lemma changes_update [frames]:
  "changes K s t \<Longrightarrow> changes K s (t\<lparr>stTMenuSelectionContext := a\<rparr>)"
  "changes K s t \<Longrightarrow> changes K s (t\<lparr>stBluetoothMenuContext := b\<rparr>)"
  "changes K s t \<Longrightarrow> changes K s (t\<lparr>stTBluetoothCtrlContext := c\<rparr>)"
  "changes K s t \<Longrightarrow> changes K s (t\<lparr>stTWelcomeScreenContext := d\<rparr>)"
  "changes K s t \<Longrightarrow> changes K s (t\<lparr>ui_animator := e\<rparr>)"
  "changes K s t \<Longrightarrow> changes K s (t\<lparr>uiNAV_COUNTS_PER_DETENT := n\<rparr>)"
  "changes K s t \<Longrightarrow> changes K s (t\<lparr>iEncoderCountAccumulator := i\<rparr>)"
  by (erule changes_step; simp add: part_same_other asks_def)+

lemma changes_part [frames]:
  "changes K s t \<Longrightarrow> P_Info \<in> K \<Longrightarrow> changes K s (t\<lparr>stTAudioSrcScreenContext := c\<rparr>)"
  "changes K s t \<Longrightarrow> P_Select \<in> K \<or> sl_eCommittedSourceItem d = sl_eCommittedSourceItem (stTAudSrcSelectionContext t) \<Longrightarrow> changes K s (t\<lparr>stTAudSrcSelectionContext := d\<rparr>)"
  "changes K s t \<Longrightarrow> P_Submit \<in> K \<or> k = None \<Longrightarrow> changes K s (t\<lparr>kWork_SubmitNewScreen := k\<rparr>)"
  "changes K s t \<Longrightarrow> P_Mute \<in> K \<or> \<not> mu_bIsUnmuteInProgress m \<or> mu_bIsUnmuteInProgress m = mu_bIsUnmuteInProgress (stTAudSrcMuteCtrlContext t) \<Longrightarrow> changes K s (t\<lparr>stTAudSrcMuteCtrlContext := m\<rparr>)"
  "changes K s t \<Longrightarrow> P_Unmute \<in> K \<or> (mw_kwork_SubmitNewScreen w = None \<or> mw_kwork_SubmitNewScreen w = mw_kwork_SubmitNewScreen (stTMuteContext t))
      \<and> (\<not> mw_bWorkCompleted w \<or> mw_bWorkCompleted w = mw_bWorkCompleted (stTMuteContext t))
    \<Longrightarrow> changes K s (t\<lparr>stTMuteContext := w\<rparr>)"
  "changes K s t \<Longrightarrow> P_Wall \<in> K \<Longrightarrow> changes K s (t\<lparr>stTWallCtrlStateMachine := x\<rparr>)"
  "changes K s t \<Longrightarrow> P_Active \<in> K \<Longrightarrow> changes K s (t\<lparr>pstActiveDescriptor := j\<rparr>)"
  "changes K s t \<Longrightarrow> P_Root i \<in> K \<Longrightarrow> changes K s (t\<lparr>staScreenRuntimeInfo := (staScreenRuntimeInfo t)[i := r]\<rparr>)"
  "changes K s t \<Longrightarrow> P_Registry \<in> K \<Longrightarrow> changes K s (t\<lparr>staScreenDescriptors := ds\<rparr>)"
  "changes K s t \<Longrightarrow> P_Queue \<in> K \<Longrightarrow> changes K s (t\<lparr>kmsgq_eQDC_MessageQueue := q\<rparr>)"
  by (erule changes_step, rule part_same_update; auto simp: asks_def)+

subsection \<open>Services\<close>

lemma part_same_audio:
  "p \<noteq> P_Audio \<or> lfs_only (ui_audio t) a \<Longrightarrow> p \<noteq> P_Volumes \<or> volumes a = volumes (ui_audio t) \<Longrightarrow> p \<noteq> P_Mutes \<or> mutes a = mutes (ui_audio t)
   \<Longrightarrow> p \<noteq> P_Table \<or> (table_typed (ui_audio t) \<longrightarrow> table_typed a) \<Longrightarrow> part_same p t (t\<lparr>ui_audio := a\<rparr>)"
  by (cases p) simp_all

lemma changes_audio:
  "changes K s t \<Longrightarrow> P_Audio \<in> K \<or> lfs_only (ui_audio t) a \<Longrightarrow> P_Volumes \<in> K \<or> volumes a = volumes (ui_audio t)
   \<Longrightarrow> P_Mutes \<in> K \<or> mutes a = mutes (ui_audio t) \<Longrightarrow> (table_typed (ui_audio t) \<Longrightarrow> table_typed a) \<Longrightarrow> changes K s (t\<lparr>ui_audio := a\<rparr>)"
  by (erule changes_step, rule part_same_audio) (auto simp: asks_def)

lemma on_source_state: "snd (on_source f t) = t\<lparr>ui_audio := snd (f (ui_audio t))\<rparr>"
  by (simp add: on_source_def split_beta Let_def)

lemma source_only: "changes K s t \<Longrightarrow> lfs_only (ui_audio t) (snd (f (ui_audio t))) \<Longrightarrow> changes K s (snd (on_source f t))"
  using only_volumes [of "ui_audio t" "snd (f (ui_audio t))"] only_table(1) [of "ui_audio t" "snd (f (ui_audio t))"]
  by (simp add: on_source_state changes_audio)

lemma gui_changes [frames]: "changes K s t \<Longrightarrow> changes K s (snd (gui f t))"
  by (rule source_only) (auto simp: via_def split_beta Let_def lfs_only_def)

lemma gui_do_changes [frames]: "changes K s t \<Longrightarrow> changes K s (gui_do f t)"
  unfolding gui_do_def by (rule changes_audio) (auto simp: lfs_only_def volumes_def mutes_def table_typed_def)

lemma request_changes [frames]: "changes K s t \<Longrightarrow> P_Request \<in> K \<Longrightarrow> changes K s (snd (bRequest_UIScreen e t))"
  unfolding bRequest_UIScreen_def
  by (cases "UI_SCREEN_SLOT_INDEX e")
    (auto simp: Let_def asks_def elim!: changes_step, (case_tac p; simp)+)

subsection \<open>Control\<close>

text \<open>A let or a case of a call continues in a state of which only the clause is known.\<close>

lemma frame_call:
  fixes p :: "'a \<times> 'w ui_sys"
  assumes "changes K s (snd p)" and "\<And>r u. changes K s u \<Longrightarrow> changes K s (g r u)"
  shows "changes K s (case p of (r, u) \<Rightarrow> g r u)" and "changes K s (let (r, u) = p in g r u)"
  using assms by (cases p, simp)+

lemma frame_call_snd:
  fixes p :: "'a \<times> 'w ui_sys"
  assumes "changes K s (snd p)" and "\<And>r u. changes K s u \<Longrightarrow> changes K s (snd (g r u))"
  shows "changes K s (snd (case p of (r, u) \<Rightarrow> g r u))" and "changes K s (snd (let (r, u) = p in g r u))"
  using assms by (cases p, simp)+

lemma frame_let:
  fixes v :: "'w ui_sys"
  assumes "changes K s v" and "\<And>u. changes K s u \<Longrightarrow> changes K s (g u)"
  shows "changes K s (let u = v in g u)"
  using assms by (simp add: Let_def)

lemma frame_let_snd:
  fixes v :: "'w ui_sys"
  assumes "changes K s v" and "\<And>u. changes K s u \<Longrightarrow> changes K s (snd (g u))"
  shows "changes K s (snd (let u = v in g u))"
  using assms by (simp add: Let_def)

lemma frame_pair:
  "(\<And>x y. changes K s (f x y)) \<Longrightarrow> changes K s (case q of (x, y) \<Rightarrow> f x y)"
  "(\<And>x y. changes K s (snd (g x y))) \<Longrightarrow> changes K s (snd (case q of (x, y) \<Rightarrow> g x y))"
  "(\<And>x y. changes K s (h x y u)) \<Longrightarrow> changes K s ((case q of (x, y) \<Rightarrow> h x y) u)"
  "(\<And>x y. changes K s (snd (k x y u))) \<Longrightarrow> changes K s (snd ((case q of (x, y) \<Rightarrow> k x y) u))"
  by (cases q; simp)+

lemma frame_value:
  "(\<And>x. changes K s (f x)) \<Longrightarrow> changes K s (let x = v in f x)"
  "(\<And>x. changes K s (snd (g x))) \<Longrightarrow> changes K s (snd (let x = v in g x))"
  by (simp_all add: Let_def)

lemma frame_if:
  "changes K s t \<Longrightarrow> changes K s u \<Longrightarrow> changes K s (if b then t else u)"
  "changes K s (snd p) \<Longrightarrow> changes K s (snd q) \<Longrightarrow> changes K s (snd (if b then p else q))"
  by simp_all

lemma frame_option:
  "changes K s t \<Longrightarrow> (\<And>x. changes K s (f x)) \<Longrightarrow> changes K s (case m of None \<Rightarrow> t | Some x \<Rightarrow> f x)"
  "changes K s (snd p) \<Longrightarrow> (\<And>x. changes K s (snd (g x))) \<Longrightarrow> changes K s (snd (case m of None \<Rightarrow> p | Some x \<Rightarrow> g x))"
  by (cases m; simp)+

lemma frame_input:
  "changes K s a \<Longrightarrow> changes K s b \<Longrightarrow> changes K s c \<Longrightarrow> changes K s d
   \<Longrightarrow> changes K s (case e of eUIInput_None \<Rightarrow> a | eUIInput_Rotate \<Rightarrow> b | eUIInput_Press \<Rightarrow> c | eUIInput_Release \<Rightarrow> d)"
  by (cases e; simp)

lemma frame_result: "changes K s t \<Longrightarrow> changes K s (snd (r, t))"
  by simp

lemma frame_foldl: "changes K s t \<Longrightarrow> (\<And>u x. changes K s u \<Longrightarrow> changes K s (f u x)) \<Longrightarrow> changes K s (foldl f t xs)"
  by (induction xs arbitrary: t) simp_all

lemma frame_steps: "changes K s t \<Longrightarrow> (\<And>f u. f \<in> set fs \<Longrightarrow> changes K s u \<Longrightarrow> changes K s (snd (f u))) \<Longrightarrow> changes K s (snd (all_steps fs t))"
proof (induction fs arbitrary: t)
  case (Cons f fs)
  then have "changes K s (snd (f t))" by simp
  with Cons show ?case by (simp add: split_beta Let_def)
qed simp

lemmas frame_control = frame_result frame_call frame_call_snd frame_let frame_let_snd frame_pair frame_value frame_if frame_option
  frame_input frame_foldl

subsection \<open>Views and icons\<close>

lemma load_icon_changes [frames]: "changes K s t \<Longrightarrow> changes K s (snd (load_icon E p w t))"
  unfolding load_icon_def by (rule frame_control frames | assumption)+

lemma create_view_changes [frames]: "changes K s t \<Longrightarrow> changes K s (snd (create_view E v t))"
  unfolding create_view_def if_distrib [where f = "\<lambda>f. f t"] bCreate_BluetoothView_def bCreate_WiredView_def finish_view_def bLoadBluetoothIcon_def
  by (rule frame_control frames | assumption)+

lemma stop_animator_changes [frames]: "changes K s t \<Longrightarrow> changes K s (vStop_TextAnimator E t)"
  unfolding vStop_TextAnimator_def vTextAnimator_Callback_def
  by (rule frame_control frames | assumption)+

lemma start_animator_changes [frames]: "changes K s t \<Longrightarrow> changes K s (vStart_TextAnimator E a b c d t)"
  unfolding vStart_TextAnimator_def by (rule frame_control frames | assumption)+

lemma tick_changes [frames]: "changes K s t \<Longrightarrow> changes K s (vAnimator_TimerCallback E t)"
  unfolding vAnimator_TimerCallback_def vTextAnimator_Callback_def by (rule frame_control frames | assumption)+

lemma discard_changes [frames]: "changes K s t \<Longrightarrow> changes K s (discard_root E p t)"
  unfolding discard_root_def by (rule frame_control frames | assumption)+

lemma root_changes [frames]: "changes K s t \<Longrightarrow> (\<And>i. UI_SCREEN_SLOT_INDEX e = Some i \<Longrightarrow> P_Root i \<in> K) \<Longrightarrow> changes K s (set_root e p t)"
  unfolding set_root_def by (cases "UI_SCREEN_SLOT_INDEX e") (auto intro: changes_part)

lemma paint_changes [frames]: "changes K s t \<Longrightarrow> changes K s (paint E b p t)"
  unfolding paint_def by (rule frame_control frames | assumption)+

subsection \<open>The screens\<close>

lemma selected_changes [frames]: "changes K s t \<Longrightarrow> changes K s (snd (on_source (iGet_SelectedAudioSrcConfig E c) t))"
proof (rule source_only)
  show "lfs_only (ui_audio t) (snd (iGet_SelectedAudioSrcConfig E c (ui_audio t)))"
    unfolding iGet_SelectedAudioSrcConfig_def
    by (auto simp: Let_def split: option.splits prod.splits intro: lfs_only_trans dest!: via_only lock_only)
qed

lemma name_changes [frames]: "changes K s t \<Longrightarrow> changes K s (snd (on_source (vGetSnapshot_Of_AudioSrcName E i) t))"
proof (rule source_only)
  show "lfs_only (ui_audio t) (snd (vGetSnapshot_Of_AudioSrcName E i (ui_audio t)))"
    unfolding vGetSnapshot_Of_AudioSrcName_def by (auto simp: Let_def split: prod.splits dest!: via_only)
qed

text \<open>The updates of the table: what they leave alone of volumes and mute flags.\<close>

lemma update_frame:
  assumes "\<And>c. ac_uiVolume (f c) = ac_uiVolume c" and "\<And>c. ac_uiVolume (b c) = ac_uiVolume c"
  shows "volumes (snd (update_and_save E i f b s)) = volumes s"
proof -
  obtain r t where w: "iUpdate_AudioSrcFile E (config_of (on_config i f s) i) (on_config i f s) = (r, t)" by fastforce
  have keep: "volumes (on_config i g u) = volumes u" if "\<And>c. ac_uiVolume (g c) = ac_uiVolume c" for g and u :: "'a audio_sys"
    using that by (simp add: volumes_def map_update list_update_id) (metis list_update_id map_update)
  from only_volumes [OF file_only [OF w]] keep [of f s] keep [of b t] assms w show ?thesis
    by (simp add: update_and_save_def Let_def)
qed

lemma update_frame_mutes:
  assumes "\<And>c. ac_bIsMute (f c) = ac_bIsMute c" and "\<And>c. ac_bIsMute (b c) = ac_bIsMute c"
  shows "mutes (snd (update_and_save E i f b s)) = mutes s"
proof -
  obtain r t where w: "iUpdate_AudioSrcFile E (config_of (on_config i f s) i) (on_config i f s) = (r, t)" by fastforce
  have keep: "mutes (on_config i g u) = mutes u" if "\<And>c. ac_bIsMute (g c) = ac_bIsMute c" for g and u :: "'a audio_sys"
    using that by (simp add: mutes_def map_update list_update_id) (metis list_update_id map_update)
  from only_volumes [OF file_only [OF w]] keep [of f s] keep [of b t] assms w show ?thesis
    by (simp add: update_and_save_def Let_def)
qed

text \<open>They keep the table typed.\<close>

lemma update_typed:
  assumes "table_typed s" and "i < 4" and "\<And>c. entry_typed i c \<Longrightarrow> entry_typed i (f c)" and "\<And>c. entry_typed i c \<Longrightarrow> entry_typed i (b c)"
  shows "table_typed (snd (update_and_save E i f b s))"
proof -
  obtain r t where w: "iUpdate_AudioSrcFile E (config_of (on_config i f s) i) (on_config i f s) = (r, t)" by fastforce
  have "table_typed (on_config i f s)" by (rule on_config_typed [OF assms(1,2,3)])
  then have t: "table_typed t" using only_table(1) [OF file_only [OF w]] by simp
  have "table_typed (on_config i b t)" by (rule on_config_typed [OF t assms(2,4)])
  with t w show ?thesis by (simp add: update_and_save_def Let_def)
qed

lemma lock_typed [simp]:
  "table_typed (snd (take_lock E m a)) = table_typed a" "table_typed (snd (iLock_AudioSources E j k a)) = table_typed a"
  "table_typed (snd (iLock_AudioSourceAccess E i a)) = table_typed a" "table_typed (snd (iUnLock_AudioSourceAccess E i a)) = table_typed a"
  using only_table(1) [OF via_only [OF surjective_pairing]] only_table(1) [OF lock_only [OF surjective_pairing]]
    only_table(1) [OF access_only(1) [OF surjective_pairing]] only_table(1) [OF access_only(2) [OF surjective_pairing]] by blast+

lemma mute_typed: "table_typed a \<Longrightarrow> table_typed (snd (bUpdate_AudioSrcMuteStatus E i b a))"
  unfolding bUpdate_AudioSrcMuteStatus_def
  by (auto simp: Let_def split_beta eNUMBER_OF_AUDIO_SOURCES_def intro!: update_typed) (auto simp: entry_typed_def)

lemma volume_typed:
  assumes "table_typed a"
  shows "table_typed (snd (iUpdate_AudioSrcVolume E i v a))"
proof (cases "i < 4 \<and> unat v \<le> 100")
  case True
  obtain r c where l: "iLock_AudioSources E i i a = (r, c)" by fastforce
  have c: "table_typed c" using lock_typed(2) [of E i i a] assms l by simp
  then have old: "unat (ac_uiVolume (config_of c i)) \<le> 100" using True by (simp add: table_typed_def entry_typed_def)
  have "unat (ucast v :: u16) = unat v" by (rule unat_ucast_up) simp
  then have new: "unat (ucast v :: u16) \<le> 100" using True by simp
  show ?thesis unfolding iUpdate_AudioSrcVolume_def
    using assms c True old new by (auto simp: Let_def l eNUMBER_OF_AUDIO_SOURCES_def SELECTED_AUDIO_SRC_MAX_VOLUME_def intro!: update_typed)
      (auto simp: entry_typed_def)
qed (use assms in \<open>auto simp: iUpdate_AudioSrcVolume_def eNUMBER_OF_AUDIO_SOURCES_def SELECTED_AUDIO_SRC_MAX_VOLUME_def\<close>)

lemma select_typed: "table_typed a \<Longrightarrow> table_typed (snd (iUpdate_AudioScrSelected E i b a))"
proof -
  have one: "table_typed (snd (unselect_source E j c))" "table_typed (snd (select_source E j c))" if "table_typed c" "j < 4" for j c
    unfolding unselect_source_def select_source_def using that by (auto intro!: update_typed simp: entry_typed_def)
  have prev: "table_typed (snd (unselect_previous E j c))" if "table_typed c" for j c
    using that one(1) by (simp add: unselect_previous_def eNUMBER_OF_AUDIO_SOURCES_def)
  show "table_typed a \<Longrightarrow> ?thesis"
    by (simp add: iUpdate_AudioScrSelected_def Let_def split_beta eNUMBER_OF_AUDIO_SOURCES_def one prev)
qed

lemma ble_typed: "table_typed a \<Longrightarrow> table_typed (snd (bSet_BleConnectionState b a))"
  by (auto simp: bSet_BleConnectionState_def Let_def eNUMBER_OF_AUDIO_SOURCES_def intro!: on_config_typed) (auto simp: entry_typed_def)

lemma volume_changes [frames]: "changes K s t \<Longrightarrow> P_Audio \<in> K \<Longrightarrow> P_Volumes \<in> K \<Longrightarrow> changes K s (snd (on_source (iUpdate_AudioSrcVolume E i v) t))"
proof -
  have "mutes (snd (iUpdate_AudioSrcVolume E i v a)) = mutes a" for a
  proof -
    obtain r b where l: "iLock_AudioSources E i i a = (r, b)" by fastforce
    from only_volumes [OF lock_only [OF this]] show ?thesis by (auto simp: iUpdate_AudioSrcVolume_def Let_def l update_frame_mutes)
  qed
  then show "changes K s t \<Longrightarrow> P_Audio \<in> K \<Longrightarrow> P_Volumes \<in> K \<Longrightarrow> ?thesis" unfolding on_source_state by (intro changes_audio) (auto intro: volume_typed mute_typed select_typed ble_typed)
qed

lemma mute_changes [frames]: "changes K s t \<Longrightarrow> P_Audio \<in> K \<Longrightarrow> P_Mutes \<in> K \<Longrightarrow> changes K s (snd (on_source (bUpdate_AudioSrcMuteStatus E i b) t))"
proof -
  have "volumes (snd (bUpdate_AudioSrcMuteStatus E i b a)) = volumes a" for a
  proof -
    obtain r c where l: "iLock_AudioSourceAccess E i a = (r, c)" by fastforce
    have u: "volumes (snd (iUnLock_AudioSourceAccess E i d)) = volumes d" for d
      using only_volumes [OF access_only(2) [OF surjective_pairing]] by blast
    from only_volumes [OF access_only(1) [OF l]] show ?thesis
      by (auto simp: bUpdate_AudioSrcMuteStatus_def Let_def l update_frame u split_beta)
  qed
  then show "changes K s t \<Longrightarrow> P_Audio \<in> K \<Longrightarrow> P_Mutes \<in> K \<Longrightarrow> ?thesis" unfolding on_source_state by (intro changes_audio) (auto intro: volume_typed mute_typed select_typed ble_typed)
qed

lemma select_changes [frames]: "changes K s t \<Longrightarrow> P_Audio \<in> K \<Longrightarrow> changes K s (snd (on_source (iUpdate_AudioScrSelected E i b) t))"
proof -
  have "volumes (snd (iUpdate_AudioScrSelected E i b a)) = volumes a \<and> mutes (snd (iUpdate_AudioScrSelected E i b a)) = mutes a" for a
  proof -
    have sel: "volumes (snd (unselect_source E j c)) = volumes c" "mutes (snd (unselect_source E j c)) = mutes c"
      "volumes (snd (select_source E j c)) = volumes c" "mutes (snd (select_source E j c)) = mutes c" for j c
      unfolding unselect_source_def select_source_def by (simp_all add: update_frame update_frame_mutes)
    have prev: "volumes (snd (unselect_previous E j c)) = volumes c" "mutes (snd (unselect_previous E j c)) = mutes c" for j c
      unfolding unselect_previous_def by (simp_all add: sel)
    have lock: "volumes (snd (take_lock E m c)) = volumes c" "mutes (snd (take_lock E m c)) = mutes c"
      "volumes (snd (iLock_AudioSources E j k c)) = volumes c" "mutes (snd (iLock_AudioSources E j k c)) = mutes c" for m j k c
      using only_volumes [OF via_only [OF surjective_pairing]] only_volumes [OF lock_only [OF surjective_pairing]] by blast+
    show ?thesis unfolding iUpdate_AudioScrSelected_def by (simp add: Let_def split_beta sel prev lock)
  qed
  then show "changes K s t \<Longrightarrow> P_Audio \<in> K \<Longrightarrow> ?thesis" unfolding on_source_state by (intro changes_audio) (auto intro: volume_typed mute_typed select_typed ble_typed)
qed

lemma ble_changes [frames]: "changes K s t \<Longrightarrow> P_Audio \<in> K \<Longrightarrow> changes K s (snd (on_source (bSet_BleConnectionState b) t))"
proof -
  have "volumes (snd (bSet_BleConnectionState b a)) = volumes a \<and> mutes (snd (bSet_BleConnectionState b a)) = mutes a" for a :: "'a audio_sys"
    by (simp add: bSet_BleConnectionState_def Let_def volumes_def mutes_def map_update) (metis list_update_id map_update)
  then show "changes K s t \<Longrightarrow> P_Audio \<in> K \<Longrightarrow> ?thesis" unfolding on_source_state by (intro changes_audio) (auto intro: volume_typed mute_typed select_typed ble_typed)
qed

lemma save_volume_changes: "changes {P_Info, P_Audio, P_Volumes} t (snd (iUpdate_AudioSrcFile_info E b t))"
  unfolding iUpdate_AudioSrcFile_info_def by (rule frame_control frames | assumption | simp)+

lemma create_info_changes: "changes {P_Info, P_Root 1} t (snd (bCreate_AudioSrcInfoScreen E t))"
  unfolding bCreate_AudioSrcInfoScreen_def by (rule frame_control frames | assumption | simp)+

lemma input_info_changes: "changes {P_Info, P_Request} t (vHandle_EncoderInput_info E m t)"
  unfolding vHandle_EncoderInput_info_def vHandle_EncoderRotation_info_def show_volume_def
    vHandle_EncoderButonPress_info_def vHandle_SourceLongPress_def vHandle_BluetoothLongPress_def by (rule frame_control frames | assumption | simp)+

lemma run_info_changes: "changes {P_Info, P_Audio, P_Volumes, P_Mutes, P_Request} t (vRun_AudioSrcInfoScreen E t)"
  unfolding vRun_AudioSrcInfoScreen_def iUpdate_AudioSrcFile_info_def bCanExecute_MuteScreenTransition_def
    mute_ready_def vHandle_SourceLongPress_def vHandle_BluetoothLongPress_def by (rule frame_control frames | assumption | simp)+

lemma enter_info_changes: "changes {P_Info, P_Audio, P_Volumes} t (vEnter_AudioSrcInfoScreen E t)"
  unfolding vEnter_AudioSrcInfoScreen_def iUpdate_AudioSrcFile_info_def bUpdate_AudioSourceInfo_def show_volume_def by (rule frame_control frames | assumption | simp)+

lemma exit_info_changes: "changes {P_Info, P_Audio, P_Volumes} t (vExit_AudioSrcInfoScreen E t)"
  unfolding vExit_AudioSrcInfoScreen_def iUpdate_AudioSrcFile_info_def by (rule frame_control frames | assumption | simp)+

lemma show_item_changes [frames]: "changes K s t \<Longrightarrow> changes K s (vUpdate_UI_AtSelectionCHanged E t)"
  unfolding vUpdate_UI_AtSelectionCHanged_def by (rule frame_control frames | assumption)+

lemma place_icon_changes [frames]: "changes K s t \<Longrightarrow> changes K s (vPlace_SelectionIcon E i t)"
  unfolding vPlace_SelectionIcon_def by (rule frame_control frames | assumption)+

lemma create_select_changes: "changes {P_Select, P_Root 2} t (snd (bCreate_AudioSrcSelectionScreen E t))"
  unfolding bCreate_AudioSrcSelectionScreen_def bCreate_BackIcon_select_def bCreate_MenuIcon_select_def bCreate_SelectionIcon_def all_steps.simps
  by (rule frame_control frames | assumption | simp)+

lemma enter_select_changes: "changes {P_Select} t (vEnter_AudioSrcSelectionScreen E t)"
  unfolding vEnter_AudioSrcSelectionScreen_def vUpdate_AudioSrcMenuSelection_def vUpdate_SourceNames_def vReset_ItemStyles_def show_source_name_def
    vUpdate_Selection_FromConfigData_def vSet_SelectedItem_ByAudioSrc_def eItemSelectionOp_t.simps by (rule frame_control frames | assumption | simp)+

lemma exit_select_changes: "changes {} t (vExit_AudioSrcSelectionScreen t)"
  unfolding vExit_AudioSrcSelectionScreen_def by (rule frame_control frames | assumption | simp)+

lemma input_select_changes: "changes {P_Select, P_Submit, P_Request, P_Audio} t (vHandle_EncoderInput_select E m t)"
  unfolding vHandle_EncoderInput_select_def vHandle_EncoderRotation_select_def vHandle_EncoderButonPress_select_def by (rule frame_control frames | assumption | simp)+

lemma work_select_changes: "changes {P_Submit, P_Request} t (vHandle_ScreenSubmit_select t)"
  unfolding vHandle_ScreenSubmit_select_def by (rule frame_control frames | assumption | simp)+

lemma create_mute_changes: "changes {P_Root 3} t (snd (bCreate_AudioSrcMuteScreen E t))"
  unfolding bCreate_AudioSrcMuteScreen_def furnish_mute_def bCreate_MuteIcon_def
  by (rule frame_control frames | assumption | simp add: zero_mute_context_def)+

lemma enter_mute_changes: "changes {} t (vEnter_AudioSrcMuteScreen E t)"
  unfolding vEnter_AudioSrcMuteScreen_def bLoad_BluetoothIcon_def by (rule frame_control frames | assumption | simp)+

lemma exit_mute_changes: "changes {} t (vExit_AudioSrcMuteScreen t)"
  unfolding vExit_AudioSrcMuteScreen_def by (rule frame_control frames | assumption | simp)+

lemma input_mute_changes: "changes {P_Mute, P_Unmute} t (vHandle_EncoderInput_mute m t)"
  unfolding vHandle_EncoderInput_mute_def by (rule frame_control frames | assumption | simp)+

lemma run_mute_changes: "changes {P_Mute, P_Unmute, P_Request} t (vRun_AudioSrcMuteScreen t)"
  unfolding vRun_AudioSrcMuteScreen_def by (rule frame_control frames | assumption | simp)+

lemma work_mute_changes: "changes {P_Unmute, P_Audio, P_Mutes} t (vHandle_ScreenSubmit_mute E t)"
  unfolding vHandle_ScreenSubmit_mute_def by (rule frame_control frames | assumption | simp)+

lemma create_menu_changes: "changes {P_Root 4} t (snd (bCreate_MainMenuScreen E t))"
  unfolding bCreate_MainMenuScreen_def bCreate_BackIcon_menu_def bCreate_MenuIcon_menu_def all_steps.simps
  by (rule frame_control frames | assumption | simp)+

lemma focus_changes [frames]: "changes K s t \<Longrightarrow> changes K s (vSet_SelectedMenuItem E i t)"
  unfolding vSet_SelectedMenuItem_def focus_menu_def by (rule frame_control frames | assumption)+

lemma enter_menu_changes: "changes {} t (vEnter_MainMenuScreen E t)"
  unfolding vEnter_MainMenuScreen_def by (rule frame_control frames | assumption | simp)+

lemma input_menu_changes: "changes {P_Request} t (vHandle_EncoderInput_menu E m t)"
  unfolding vHandle_EncoderInput_menu_def vHandle_EncoderRotation_menu_def vHandle_EncoderButonPress_menu_def
  by (cases "mn_eFocusedItem (stTMenuSelectionContext t)"; simp only: eMenuItem_t.case; (rule frame_control frames | assumption | simp)+)

lemma create_blemenu_changes: "changes {P_Root 5} t (snd (bCreate_BluetoothMenuScreen E t))"
  unfolding bCreate_BluetoothMenuScreen_def bCreate_BluetoothIcon_blemenu_def bCreate_BackIcon_blemenu_def all_steps.simps
  by (rule frame_control frames | assumption | simp)+

lemma paint_items_changes [frames]: "changes K s t \<Longrightarrow> changes K s (paint_items E i is t)"
proof (induction "is" arbitrary: t)
  case Nil
  then show ?case unfolding paint_items.simps by (rule frames | assumption)+
next
  case (Cons j js)
  show ?case unfolding paint_items.simps by (rule frame_control Cons.IH paint_changes Cons.prems)+
qed

lemma focus_ble_changes [frames]: "changes K s t \<Longrightarrow> changes K s (vSet_FocusedItem E i t)"
  unfolding vSet_FocusedItem_def by (rule frame_control frames | assumption)+

lemma enter_blemenu_changes: "changes {} t (vEnter_BluetoothMenuScreen E t)"
  unfolding vEnter_BluetoothMenuScreen_def by (rule frame_control frames | assumption | simp)+

lemma input_blemenu_changes: "changes {P_Request, P_Audio} t (vHandle_BluetoothMenuInput E m t)"
  unfolding vHandle_BluetoothMenuInput_def vHandle_EncoderRotation_blemenu_def vHandle_EncoderPress_def enter_ble_state_def
  by (cases "bm_eFocusedItem (stBluetoothMenuContext t)"; simp only: eBluetoothMenuItem_t.case; (rule frame_control frames | assumption | simp)+)

lemma create_bleconn_changes: "changes {P_Root 6} t (snd (bCreate_BluetoothConnControlScreen E t))"
  unfolding bCreate_BluetoothConnControlScreen_def bCreate_LabelForDisplay_def bCreate_BluetoothIcon_bleconn_def all_steps.simps
  by (rule frame_control frames | assumption | simp)+

lemma stop_animations_changes [frames]: "changes K s t \<Longrightarrow> changes K s (stop_animations E t)"
  unfolding stop_animations_def vStop_BluetoothIconAnimation_def by (rule frame_control frames | assumption)+

lemma enter_bleconn_changes: "changes {} t (vEnter_BluetoothConnControlScreen E t)"
  unfolding vEnter_BluetoothConnControlScreen_def vUpdate_BLuetoothConnection_UI_def vStart_BluetoothPairingAnimation_def by (rule frame_control frames | assumption | simp)+

lemma exit_bleconn_changes: "changes {} t (vExit_BluetoothConnControlScreen E t)"
  unfolding vExit_BluetoothConnControlScreen_def by (rule frame_control frames | assumption | simp)+

lemma input_bleconn_changes: "changes {P_Request} t (vHandle_EncoderInput_bleconn E m t)"
  unfolding vHandle_EncoderInput_bleconn_def by (rule frame_control frames | assumption | simp)+

lemma create_welcome_changes: "changes {P_Root 0} t (snd (bCreate_WelComeScreen E t))"
  unfolding bCreate_WelComeScreen_def furnish_welcome_def by (rule frame_control frames | assumption | simp)+

lemma enter_welcome_changes: "changes {} t (vEnter_WelcomeScreen E t)"
  unfolding vEnter_WelcomeScreen_def vStart_WelcomeImageFadeIn_def by (rule frame_control frames | assumption | simp)+

lemma opacity_changes: "changes {} t (vSet_BluetoothIconOpacity E p n t)" "changes {} t (vSet_WelComeImage_Opacity E o1 n t)"
  unfolding vSet_BluetoothIconOpacity_def vSet_WelComeImage_Opacity_def by (rule frame_control frames | assumption | simp)+

lemma faded_changes: "changes {P_Wall} t (vWelcomeScreen_ImageFadingCompleted t)"
  unfolding vWelcomeScreen_ImageFadingCompleted_def vWallCtrl_Set_Command_def by (rule frame_control frames | assumption | simp)+

subsection \<open>The functions of a screen\<close>

text \<open>The clauses of the functions of any screen; the input and the run functions never touch a root or the active screen.\<close>

definition K_input :: "ui_part set" where "K_input = {P_Info, P_Select, P_Submit, P_Mute, P_Unmute, P_Request, P_Audio}"
definition K_run :: "ui_part set" where "K_run = {P_Info, P_Mute, P_Unmute, P_Request, P_Audio, P_Volumes, P_Mutes}"

lemma create_changes:
  assumes "UI_SCREEN_SLOT_INDEX e = Some i"
  shows "changes {P_Info, P_Select, P_Root i} s (snd (pfCreate E e s))"
  using assms create_info_changes [of s E] create_select_changes [of s E] create_mute_changes [of s E] create_menu_changes [of s E]
    create_blemenu_changes [of s E] create_bleconn_changes [of s E] create_welcome_changes [of s E]
  by (cases e) (auto elim!: changes_mono)

lemma enter_changes: "changes {P_Info, P_Select, P_Audio, P_Volumes} s (pfEnter E e s)"
  using enter_info_changes [of s E] enter_select_changes [of s E] enter_mute_changes [of s E] enter_menu_changes [of s E]
    enter_blemenu_changes [of s E] enter_bleconn_changes [of s E] enter_welcome_changes [of s E]
  by (cases e) (auto elim!: changes_mono)

lemma exit_changes: "changes {P_Info, P_Audio, P_Volumes} s (pfExit E e s)"
  using exit_info_changes [of s E] exit_select_changes [of s] exit_mute_changes [of s] exit_bleconn_changes [of s E]
  by (cases e) (auto elim!: changes_mono)

lemma input_changes: "changes K_input s (pfHandleInput E e m s)"
  using input_info_changes [of s E m] input_select_changes [of s E m] input_mute_changes [of s m] input_menu_changes [of s E m]
    input_blemenu_changes [of s E m] input_bleconn_changes [of s E m]
  unfolding K_input_def by (cases e) (auto elim!: changes_mono)

lemma run_changes: "changes K_run s (pfRun E e s)"
  using run_info_changes [of s E] run_mute_changes [of s]
  unfolding K_run_def by (cases e) (auto elim!: changes_mono)

end
