(* ===== verification/Ui_Invariants.thy ===== *)
theory Ui_Invariants
  imports Ui_Frames
begin

text \<open>
  The histories of the user interface and the invariant of the screen manager in all of them. A history starts with the initialisation of
  the display on cleared variables and an initialised wall controller; its steps are the turns of the main loop, the work items and the callbacks, and what
  the rest of the program does to the audio configuration, given as a relation.
\<close>

subsection \<open>Histories\<close>

definition ui_boot :: "'w ui_sys \<Rightarrow> bool" where
  "ui_boot s \<longleftrightarrow> length (staScreenRuntimeInfo s) = 7 \<and> length (staScreenDescriptors s) = 7
     \<and> (\<forall>i < 7. rt_pstRootObj (staScreenRuntimeInfo s ! i) = None) \<and> \<not> sm_bIsInitialized s \<and> \<not> bIsTransitionPending s
     \<and> kmsgq_eQDC_MessageQueue s = [] \<and> info s = zero_info_context \<and> kWork_SubmitNewScreen s = None
     \<and> stTAudSrcMuteCtrlContext s = zero_mute_context \<and> mw_kwork_SubmitNewScreen (stTMuteContext s) = None
     \<and> \<not> mw_bWorkCompleted (stTMuteContext s) \<and> stTWallCtrlStateMachine (vInit_WallCtrl_StateMachine s) = stTWallCtrlStateMachine s"

inductive ui_step :: "('w, 'z) ui_services_scheme \<Rightarrow> 'w ui_sys \<Rightarrow> 'w ui_sys \<Rightarrow> bool" for E :: "('w, 'z) ui_services_scheme" where
  step_manager: "ui_step E s (vRun_UI E s)"
| step_wall: "ui_step E s (vRun_WallCtrl_StateMachine E s)"
| step_rotation: "ui_step E s (vEncoder_Callback E n d s)"
| step_switch: "ui_step E s (vEnc_SWPressed_InterruptHandler E k v s)"
| step_clear: "ui_step E s (vClear_UIEvents s)"
| step_tick: "ui_step E s (vAnimator_TimerCallback E s)"
| step_icon: "ui_step E s (vSet_BluetoothIconOpacity E p opa s)"
| step_logo: "ui_step E s (vSet_WelComeImage_Opacity E o1 opa s)"
| step_faded: "ui_step E s (vWelcomeScreen_ImageFadingCompleted s)"
| step_unmute: "ui_step E s (vHandle_ScreenSubmit_mute E s)"
| step_submit: "ui_step E s (vHandle_ScreenSubmit_select s)"

inductive ui_reach :: "('w, 'z) ui_services_scheme \<Rightarrow> ('w audio_sys \<Rightarrow> 'w audio_sys \<Rightarrow> bool) \<Rightarrow> 'w ui_sys \<Rightarrow> bool"
  for E :: "('w, 'z) ui_services_scheme" and R :: "'w audio_sys \<Rightarrow> 'w audio_sys \<Rightarrow> bool" where
  ureach_boot: "ui_boot s \<Longrightarrow> table_typed (ui_audio s) \<Longrightarrow> bInit_LVGLDisplay E s = (True, t) \<Longrightarrow> ui_reach E R t"
| ureach_step: "ui_reach E R s \<Longrightarrow> ui_step E s t \<Longrightarrow> ui_reach E R t"
| ureach_others: "ui_reach E R s \<Longrightarrow> R (ui_audio s) a \<Longrightarrow> ui_reach E R (s\<lparr>ui_audio := a\<rparr>)"

inductive_cases ui_stepE: "ui_step E s t"

subsection \<open>The invariant of the manager\<close>

definition screen_registered :: "eScreenId_t \<Rightarrow> sT_UIScreenDescriptor_t" where
  "screen_registered e = \<lparr>sd_eScreenId = e, sd_pstScreenRuntime = True, sd_bDeleteOnExit = True, sd_functions = Some e\<rparr>"

definition source_items :: "eSelectedItem_t set" where
  "source_items = {eItemSelect_Src1, eItemSelect_Src2, eItemSelect_Src3, eItemSelect_Src4}"

definition registry_ok :: "'w ui_sys \<Rightarrow> bool" where
  "registry_ok s \<longleftrightarrow> sm_bIsInitialized s \<and> staScreenDescriptors s = map screen_registered ui_screens \<and> length (staScreenRuntimeInfo s) = 7"

definition roots_ok :: "'w ui_sys \<Rightarrow> bool" where
  "roots_ok s \<longleftrightarrow> (\<forall>i < 7. rt_pstRootObj (staScreenRuntimeInfo s ! i) \<noteq> None \<longleftrightarrow> pstActiveDescriptor s = Some i)
     \<and> (\<forall>i. pstActiveDescriptor s = Some i \<longrightarrow> i < 7)"

definition request_ok :: "'w ui_sys \<Rightarrow> bool" where
  "request_ok s \<longleftrightarrow> (bIsTransitionPending s \<longrightarrow> UI_SCREEN_SLOT_INDEX (ePendingScreenId s) \<noteq> None)"

definition work_ok :: "'w ui_sys \<Rightarrow> bool" where
  "work_ok s \<longleftrightarrow> (kWork_SubmitNewScreen s \<noteq> None \<longrightarrow> pstActiveDescriptor s = Some 2
       \<and> sl_eCommittedSourceItem (stTAudSrcSelectionContext s) \<in> source_items)
     \<and> (mu_bIsUnmuteInProgress (stTAudSrcMuteCtrlContext s) \<or> mw_kwork_SubmitNewScreen (stTMuteContext s) \<noteq> None
          \<or> mw_bWorkCompleted (stTMuteContext s) \<longrightarrow> pstActiveDescriptor s = Some 3)"

definition ui_wf :: "'w ui_sys \<Rightarrow> bool" where
  "ui_wf s \<longleftrightarrow> registry_ok s \<and> roots_ok s \<and> request_ok s \<and> work_ok s \<and> length (kmsgq_eQDC_MessageQueue s) \<le> MAX_ENCODER_MESSAGEs"

lemma slot_less: "UI_SCREEN_SLOT_INDEX e = Some i \<Longrightarrow> i < 7"
  by (cases e) auto

lemma slot_screen: "UI_SCREEN_SLOT_INDEX e = Some i \<Longrightarrow> ui_screens ! i = e"
  by (cases e) (auto simp: ui_screens_def)

lemma screen_slot: "i < 7 \<Longrightarrow> UI_SCREEN_SLOT_INDEX (ui_screens ! i) = Some i"
  by (auto simp: ui_screens_def less_Suc_eq numeral_eq_Suc)

lemma ui_screens_length [simp]: "length ui_screens = 7"
  by (simp add: ui_screens_def)

lemma registry_nth: "registry_ok s \<Longrightarrow> i < 7 \<Longrightarrow> staScreenDescriptors s ! i = screen_registered (ui_screens ! i)"
  by (simp add: registry_ok_def)

subsection \<open>What a clause says of the invariant\<close>

lemma changes_registry: "changes K s t \<Longrightarrow> P_Registry \<notin> K \<Longrightarrow> registry_ok s \<Longrightarrow> registry_ok t"
  using changes_same [of K s t P_Registry] by (simp add: registry_ok_def)

lemma changes_root_nth: "changes K s t \<Longrightarrow> P_Root i \<notin> K \<Longrightarrow> staScreenRuntimeInfo t ! i = staScreenRuntimeInfo s ! i"
  using changes_same [of K s t "P_Root i"] by simp

lemma changes_active: "changes K s t \<Longrightarrow> P_Active \<notin> K \<Longrightarrow> pstActiveDescriptor t = pstActiveDescriptor s"
  using changes_same [of K s t P_Active] by simp

lemma changes_roots: "changes K s t \<Longrightarrow> \<forall>i < 7. P_Root i \<notin> K \<Longrightarrow> P_Active \<notin> K \<Longrightarrow> roots_ok s \<Longrightarrow> roots_ok t"
  by (simp add: roots_ok_def changes_root_nth changes_active)

lemma changes_request: "changes K s t \<Longrightarrow> request_ok s \<Longrightarrow> request_ok t"
  using changes_asks [of K s t] by (auto simp: request_ok_def asks_def)

lemma changes_queue: "changes K s t \<Longrightarrow> P_Queue \<notin> K \<Longrightarrow> kmsgq_eQDC_MessageQueue t = kmsgq_eQDC_MessageQueue s"
  using changes_same [of K s t P_Queue] by simp

lemma changes_work:
  assumes "changes K s t" and "work_ok s" and "P_Active \<notin> K"
    and "P_Submit \<notin> K \<and> P_Select \<notin> K \<or> kWork_SubmitNewScreen t = None
      \<or> pstActiveDescriptor s = Some 2 \<and> sl_eCommittedSourceItem (stTAudSrcSelectionContext t) \<in> source_items"
    and "P_Mute \<notin> K \<and> P_Unmute \<notin> K \<or> pstActiveDescriptor s = Some 3"
  shows "work_ok t"
  using assms changes_same [of K s t P_Submit] changes_same [of K s t P_Select] changes_same [of K s t P_Mute]
    changes_same [of K s t P_Unmute] changes_active [of K s t]
  unfolding work_ok_def by auto

subsection \<open>Input and run functions\<close>

lemma source_item: "eGet_AudioSrcFromItem i < eNUMBER_OF_AUDIO_SOURCES \<longleftrightarrow> i \<in> source_items"
  by (cases i) (auto simp: source_items_def eNUMBER_OF_AUDIO_SOURCES_def)

text \<open>A press on the selection screen schedules the work item only for a committed source.\<close>

lemma select_input_committed:
  assumes "kWork_SubmitNewScreen s \<noteq> None \<longrightarrow> sl_eCommittedSourceItem (stTAudSrcSelectionContext s) \<in> source_items"
  shows "kWork_SubmitNewScreen (vHandle_EncoderInput_select E m s) \<noteq> None
    \<longrightarrow> sl_eCommittedSourceItem (stTAudSrcSelectionContext (vHandle_EncoderInput_select E m s)) \<in> source_items"
proof -
  have same: "kWork_SubmitNewScreen t \<noteq> None \<longrightarrow> sl_eCommittedSourceItem (stTAudSrcSelectionContext t) \<in> source_items"
    if "changes {P_Request, P_Audio} s t" for t
    using that assms changes_same [of _ s t P_Submit] changes_same [of _ s t P_Select] by auto
  have rot: "changes {P_Request, P_Audio} s (vHandle_EncoderRotation_select E m s)"
    unfolding vHandle_EncoderRotation_select_def by (rule frame_control frames | assumption | simp)+
  have src: "changes {P_Request, P_Audio} s (snd (on_source (iUpdate_AudioScrSelected E i b) s))" for i b
    by (rule frames | simp)+
  have req: "kWork_SubmitNewScreen (snd (bRequest_UIScreen e (t\<lparr>kWork_SubmitNewScreen := None\<rparr>))) = None" for e and t :: "'a ui_sys"
    by (simp add: bRequest_UIScreen_def Let_def split: option.splits)
  have place: "sl_eCommittedSourceItem (stTAudSrcSelectionContext (vPlace_SelectionIcon E j t)) = sl_eCommittedSourceItem (stTAudSrcSelectionContext t)" for j t
    using changes_same [OF place_icon_changes [OF changes_refl], of P_Select "{}" t E j] by simp
  have press: "kWork_SubmitNewScreen (vHandle_EncoderButonPress_select E m s) \<noteq> None
    \<longrightarrow> sl_eCommittedSourceItem (stTAudSrcSelectionContext (vHandle_EncoderButonPress_select E m s)) \<in> source_items"
    using assms same [OF src]
    by (auto simp: vHandle_EncoderButonPress_select_def Let_def split_beta req place source_item)
  show ?thesis using same [OF rot] press assms by (simp add: vHandle_EncoderInput_select_def split: eUIInputType_t.split)
qed

lemma input_work:
  assumes "work_ok s" and "pstActiveDescriptor s = Some i" and "i < 7"
  shows "work_ok (pfHandleInput E (ui_screens ! i) m s)"
proof -
  have sl: "UI_SCREEN_SLOT_INDEX (ui_screens ! i) = Some i" by (rule screen_slot [OF assms(3)])
  show ?thesis
  proof (cases "ui_screens ! i")
    case eScreen_SourceSelect
    then have "i = 2" using sl by simp
    with assms(1,2) have "kWork_SubmitNewScreen s \<noteq> None \<longrightarrow> sl_eCommittedSourceItem (stTAudSrcSelectionContext s) \<in> source_items"
      by (simp add: work_ok_def)
    from select_input_committed [OF this] have "kWork_SubmitNewScreen (vHandle_EncoderInput_select E m s) = None
        \<or> sl_eCommittedSourceItem (stTAudSrcSelectionContext (vHandle_EncoderInput_select E m s)) \<in> source_items" by blast
    with eScreen_SourceSelect \<open>i = 2\<close> assms(1,2) show ?thesis
      using changes_work [OF input_select_changes [of s E m] assms(1)] by auto
  next
    case eScreen_SourceMute
    then have "i = 3" using sl by simp
    with eScreen_SourceMute assms(1,2) show ?thesis using changes_work [OF input_mute_changes [of s m] assms(1)] by auto
  qed (use sl assms(1) changes_work [OF input_info_changes [of s E m] assms(1)] changes_work [OF input_menu_changes [of s E m] assms(1)]
        changes_work [OF input_blemenu_changes [of s E m] assms(1)] changes_work [OF input_bleconn_changes [of s E m] assms(1)] in auto)
qed

lemma run_work:
  assumes "work_ok s" and "pstActiveDescriptor s = Some i" and "i < 7"
  shows "work_ok (pfRun E (ui_screens ! i) s)"
proof -
  have sl: "UI_SCREEN_SLOT_INDEX (ui_screens ! i) = Some i" by (rule screen_slot [OF assms(3)])
  show ?thesis
  proof (cases "ui_screens ! i")
    case eScreen_SourceMute
    then have "i = 3" using sl by simp
    with eScreen_SourceMute assms(1,2) show ?thesis using changes_work [OF run_mute_changes [of s] assms(1)] by auto
  qed (use sl assms(1) changes_work [OF run_info_changes [of s E] assms(1)] in auto)
qed

subsection \<open>The change of the screen\<close>

lemma root_of_cleared: "length (staScreenRuntimeInfo (set_root e None u)) = 7 \<Longrightarrow> root_of e (set_root e None u) = None"
  using slot_less by (auto simp: set_root_def root_of_def split: option.split)

lemma root_of_audio: "on_source f s = (r, t) \<Longrightarrow> root_of e s = None \<Longrightarrow> root_of e t = None"
  by (cases "UI_SCREEN_SLOT_INDEX e") (auto simp: on_source_def root_of_def split: prod.splits)

text \<open>A creation that fails leaves no root behind.\<close>

lemma create_failed:
  assumes run: "pfCreate E e s = (False, t)" and none: "root_of e s = None" and len: "length (staScreenRuntimeInfo s) = 7"
  shows "root_of e t = None"
proof (cases "UI_SCREEN_SLOT_INDEX e")
  case None
  then show ?thesis by (simp add: root_of_def)
next
  case (Some i)
  have len': "length (staScreenRuntimeInfo t) = 7"
    using changes_same [OF create_changes [OF Some], of P_Registry s E] run len by simp
  have no: "no_widget E (root_of e s) s" using none by (simp add: no_widget_def)
  show ?thesis
  proof (cases e)
    case eScreen_AudioSrcInfo
    with run none len' show ?thesis
      by (auto simp: bCreate_AudioSrcInfoScreen_def Let_def intro: root_of_cleared root_of_audio split: prod.splits if_splits option.splits)
  next
    case eScreen_SourceSelect
    with run no len' show ?thesis
      by (auto simp: bCreate_AudioSrcSelectionScreen_def Let_def intro!: root_of_cleared split: prod.splits if_splits)
  next
    case eScreen_SourceMute
    with run no len' show ?thesis
      by (auto simp: bCreate_AudioSrcMuteScreen_def Let_def intro!: root_of_cleared split: prod.splits if_splits)
  next
    case eScreen_MainMenu
    with run no len' show ?thesis
      by (auto simp: bCreate_MainMenuScreen_def Let_def intro!: root_of_cleared split: prod.splits if_splits)
  next
    case eScreen_BluetoothMenu
    with run no len' show ?thesis
      by (auto simp: bCreate_BluetoothMenuScreen_def Let_def intro!: root_of_cleared split: prod.splits if_splits)
  next
    case eScreen_BluetoothControl
    with run no len' show ?thesis
      by (auto simp: bCreate_BluetoothConnControlScreen_def Let_def intro!: root_of_cleared split: prod.splits if_splits)
  next
    case eScreen_Welcome
    with run no len' show ?thesis
      by (auto simp: bCreate_WelComeScreen_def Let_def intro!: root_of_cleared split: prod.splits if_splits)
  qed (use Some in auto)
qed

lemma delete_changes:
  assumes "\<And>i. prev = Some i \<Longrightarrow> P_Root i \<in> K" and "changes K s t"
  shows "changes K s (vDelete_ScreenOnExit E prev t)"
  unfolding vDelete_ScreenOnExit_def
  by (cases prev; simp only: option.case; (rule frame_control frames assms | assumption | simp add: assms)+)

lemma deleted_root:
  assumes "registry_ok s" and "i < 7"
  shows "rt_pstRootObj (staScreenRuntimeInfo (vDelete_ScreenOnExit E (Some i) s) ! i) = None"
proof -
  let ?t = "discard_root E (rt_pstRootObj (staScreenRuntimeInfo s ! i)) s"
  have "length (staScreenRuntimeInfo ?t) = 7"
    using changes_same [OF discard_changes [OF changes_refl], of P_Registry "{}" s E "rt_pstRootObj (staScreenRuntimeInfo s ! i)"] assms(1)
    by (simp add: registry_ok_def)
  then show ?thesis
    using assms registry_nth [OF assms] by (simp add: vDelete_ScreenOnExit_def screen_registered_def Let_def)
qed

lemma exit_previous_changes: "changes {P_Info, P_Audio, P_Volumes} s (exit_previous E prev s)"
  unfolding exit_previous_def by (auto simp: exit_changes split: option.split)

text \<open>Leaving a screen cancels its work item and its flags.\<close>

lemma exit_cancels:
  assumes "registry_ok s" and "work_ok s" and "\<forall>i. pstActiveDescriptor s = Some i \<longrightarrow> i < 7"
  shows "kWork_SubmitNewScreen (exit_previous E (pstActiveDescriptor s) s) = None"
    and "\<not> mu_bIsUnmuteInProgress (stTAudSrcMuteCtrlContext (exit_previous E (pstActiveDescriptor s) s))"
    and "mw_kwork_SubmitNewScreen (stTMuteContext (exit_previous E (pstActiveDescriptor s) s)) = None"
    and "\<not> mw_bWorkCompleted (stTMuteContext (exit_previous E (pstActiveDescriptor s) s))"
proof -
  let ?t = "exit_previous E (pstActiveDescriptor s) s"
  note ch = changes_same [OF exit_previous_changes [of s E "pstActiveDescriptor s"]]
  have sel: "kWork_SubmitNewScreen ?t = None" if "pstActiveDescriptor s = Some 2"
    using registry_nth [OF assms(1), of 2] that
    by (simp add: exit_previous_def screen_registered_def ui_screens_def vExit_AudioSrcSelectionScreen_def)
  have mut: "\<not> mu_bIsUnmuteInProgress (stTAudSrcMuteCtrlContext ?t) \<and> mw_kwork_SubmitNewScreen (stTMuteContext ?t) = None
      \<and> \<not> mw_bWorkCompleted (stTMuteContext ?t)" if "pstActiveDescriptor s = Some 3"
    using registry_nth [OF assms(1), of 3] that
    by (simp add: exit_previous_def screen_registered_def ui_screens_def vExit_AudioSrcMuteScreen_def)
  show "kWork_SubmitNewScreen ?t = None" using sel assms(2) ch [of P_Submit] by (auto simp: work_ok_def)
  have no: "\<not> mu_bIsUnmuteInProgress (stTAudSrcMuteCtrlContext ?t) \<and> mw_kwork_SubmitNewScreen (stTMuteContext ?t) = None
      \<and> \<not> mw_bWorkCompleted (stTMuteContext ?t)" if "pstActiveDescriptor s \<noteq> Some 3"
    using that assms(2) ch [of P_Mute] ch [of P_Unmute] unfolding work_ok_def by simp
  show "\<not> mu_bIsUnmuteInProgress (stTAudSrcMuteCtrlContext ?t)" "mw_kwork_SubmitNewScreen (stTMuteContext ?t) = None"
    "\<not> mw_bWorkCompleted (stTMuteContext ?t)"
    using mut no by blast+
qed

text \<open>The part of the change behind a creation that succeeded: out of the old screen, into the new one, and the old one deleted.\<close>

lemma switch_wf:
  assumes reg: "registry_ok s" and act: "\<forall>j. pstActiveDescriptor s = Some j \<longrightarrow> j < 7" and wk: "work_ok s"
    and len: "length (kmsgq_eQDC_MessageQueue s) \<le> MAX_ENCODER_MESSAGEs"
    and i: "i < 7" "pstActiveDescriptor s \<noteq> Some i" "rt_pstRootObj (staScreenRuntimeInfo s ! i) \<noteq> None"
    and roots: "\<forall>j < 7. j \<noteq> i \<longrightarrow> (rt_pstRootObj (staScreenRuntimeInfo s ! j) \<noteq> None) = (pstActiveDescriptor s = Some j)"
  defines "prev \<equiv> pstActiveDescriptor s"
  shows "ui_wf (transition_done (vDelete_ScreenOnExit E prev ((pfEnter E (ui_screens ! i) (exit_previous E prev s))\<lparr>pstActiveDescriptor := Some i\<rparr>)))"
proof -
  let ?a = "exit_previous E prev s"
  let ?b = "pfEnter E (ui_screens ! i) ?a"
  let ?c = "?b\<lparr>pstActiveDescriptor := Some i\<rparr>"
  let ?d = "vDelete_ScreenOnExit E prev ?c"
  have ab: "changes {P_Info, P_Select, P_Audio, P_Volumes} s ?b"
    using changes_trans [OF changes_mono [OF exit_previous_changes [of s E prev]] enter_changes [of ?a E]] by auto
  have regc: "registry_ok ?c" using changes_registry [OF ab _ reg] by (simp add: registry_ok_def)
  have cd: "changes (P_Root ` set_option prev) ?c ?d" by (rule delete_changes) auto
  have regd: "registry_ok ?d" using changes_registry [OF cd _ regc] by auto
  have root_c: "staScreenRuntimeInfo ?c ! j = staScreenRuntimeInfo s ! j" for j using changes_root_nth [OF ab] by simp
  have root_d: "rt_pstRootObj (staScreenRuntimeInfo ?d ! j) = (if prev = Some j then None else rt_pstRootObj (staScreenRuntimeInfo s ! j))" if "j < 7" for j
    using changes_root_nth [OF cd, of j] deleted_root [OF regc that] root_c [of j] by (cases prev) auto
  have actd: "pstActiveDescriptor ?d = Some i" using changes_active [OF cd] by auto
  have "roots_ok (transition_done ?d)"
    using actd i roots root_d by (auto simp: roots_ok_def prev_def)
  moreover have nin: "P_Submit \<notin> P_Root ` set_option prev" "P_Mute \<notin> P_Root ` set_option prev" "P_Unmute \<notin> P_Root ` set_option prev" by auto
  then have "work_ok (transition_done ?d)"
    using exit_cancels [OF reg wk act, of E, folded prev_def] changes_same [OF enter_changes [of ?a E "ui_screens ! i"], of P_Submit]
      changes_same [OF enter_changes [of ?a E "ui_screens ! i"], of P_Mute] changes_same [OF enter_changes [of ?a E "ui_screens ! i"], of P_Unmute]
      changes_same [OF cd, of P_Submit] changes_same [OF cd, of P_Mute] changes_same [OF cd, of P_Unmute]
    by (auto simp: work_ok_def)
  moreover have "kmsgq_eQDC_MessageQueue ?d = kmsgq_eQDC_MessageQueue s"
    using changes_queue [OF ab] changes_queue [OF cd] by auto
  ultimately show ?thesis using regd len by (simp add: ui_wf_def request_ok_def registry_ok_def)
qed

lemma activate_wf:
  assumes wf: "ui_wf s"
  shows "ui_wf (snd (bActivate_RequestedScreen E s))"
proof (cases "UI_SCREEN_SLOT_INDEX (ePendingScreenId s)")
  case None
  then show ?thesis using wf by (simp add: bActivate_RequestedScreen_def)
next
  case (Some i)
  let ?e = "ePendingScreenId s"
  have i: "i < 7" and e: "ui_screens ! i = ?e" using Some slot_less slot_screen by auto
  have reg: "registry_ok s" using wf by (simp add: ui_wf_def)
  have d: "staScreenDescriptors s ! i = screen_registered ?e" using registry_nth [OF reg i] e by simp
  show ?thesis
  proof (cases "pstActiveDescriptor s = Some i")
    case True
    then show ?thesis using wf Some by (simp add: bActivate_RequestedScreen_def ui_wf_def registry_ok_def roots_ok_def request_ok_def work_ok_def)
  next
    case False
    have none: "rt_pstRootObj (staScreenRuntimeInfo s ! i) = None" using wf False i by (auto simp: ui_wf_def roots_ok_def)
    then have rn: "root_of ?e s = None" by (simp add: root_of_def Some)
    obtain ok t where c: "pfCreate E ?e s = (ok, t)" by fastforce
    have ch: "changes {P_Info, P_Select, P_Root i} s t" using create_changes [OF Some, of s E] c by simp
    have regt: "registry_ok t" using changes_registry [OF ch _ reg] by simp
    have actt: "pstActiveDescriptor t = pstActiveDescriptor s" using changes_active [OF ch] by simp
    have rt: "j \<noteq> i \<Longrightarrow> staScreenRuntimeInfo t ! j = staScreenRuntimeInfo s ! j" for j using changes_root_nth [OF ch, of j] by simp
    have qt: "kmsgq_eQDC_MessageQueue t = kmsgq_eQDC_MessageQueue s" using changes_queue [OF ch] by simp
    have wkt: "work_ok t"
    proof (cases "i = 2")
      case True
      then have "kWork_SubmitNewScreen s = None" using wf False by (auto simp: ui_wf_def work_ok_def)
      then have "kWork_SubmitNewScreen t = None" using changes_same [OF ch, of P_Submit] by simp
      then show ?thesis using changes_work [OF ch] wf by (simp add: ui_wf_def)
    next
      case False
      with Some have ns: "?e \<noteq> eScreen_SourceSelect" by (cases ?e) auto
      have "changes {P_Info, P_Root i} s t"
        using ns Some c create_info_changes [of s E] create_mute_changes [of s E] create_menu_changes [of s E]
          create_blemenu_changes [of s E] create_bleconn_changes [of s E] create_welcome_changes [of s E]
        by (cases ?e) (auto elim!: changes_mono)
      then show ?thesis by (rule changes_work) (use wf in \<open>auto simp: ui_wf_def\<close>)
    qed
    have gone: "ui_wf t" if "rt_pstRootObj (staScreenRuntimeInfo t ! i) = None"
    proof -
      have "roots_ok t" unfolding roots_ok_def using that wf rt actt none by (metis roots_ok_def ui_wf_def)
      then show ?thesis using wf regt wkt qt changes_request [OF ch] by (simp add: ui_wf_def)
    qed
    show ?thesis
    proof (cases "ok \<and> rt_pstRootObj (staScreenRuntimeInfo t ! i) \<noteq> None")
      case True
      have "ui_wf (transition_done (vDelete_ScreenOnExit E (pstActiveDescriptor t)
          ((pfEnter E (ui_screens ! i) (exit_previous E (pstActiveDescriptor t) t))\<lparr>pstActiveDescriptor := Some i\<rparr>)))"
        by (rule switch_wf [OF regt]) (use True i False wf wkt rt actt qt in \<open>auto simp: ui_wf_def roots_ok_def\<close>)
      then show ?thesis using True Some none c d False e by (auto simp: bActivate_RequestedScreen_def screen_registered_def Let_def)
    next
      case fail: False
      have "length (staScreenRuntimeInfo s) = 7" using reg by (simp add: registry_ok_def)
      with fail create_failed [OF _ rn] c Some have "rt_pstRootObj (staScreenRuntimeInfo t ! i) = None" by (cases ok) (auto simp: root_of_def)
      then show ?thesis using gone Some none c d False fail by (auto simp: bActivate_RequestedScreen_def screen_registered_def)
    qed
  qed
qed

subsection \<open>The steps\<close>

text \<open>A step that leaves the registry, the roots, the active screen and the queue alone.\<close>

lemma step_wf:
  assumes "changes K s t" and "K \<subseteq> K_input \<union> K_run \<union> {P_Wall}" and "ui_wf s" and "work_ok t"
  shows "ui_wf t"
proof -
  have no: "P_Registry \<notin> K" "\<forall>i. P_Root i \<notin> K" "P_Active \<notin> K" "P_Queue \<notin> K"
    using assms(2) by (auto simp: K_input_def K_run_def)
  then show ?thesis
    using assms changes_registry [OF assms(1)] changes_roots [OF assms(1)] changes_request [OF assms(1)] changes_queue [OF assms(1)]
    by (simp add: ui_wf_def)
qed

lemma quiet_wf: "changes {P_Wall, P_Request, P_Audio} s t \<Longrightarrow> ui_wf s \<Longrightarrow> ui_wf t"
  by (rule step_wf [of "{P_Wall, P_Request, P_Audio}"]) (auto simp: K_input_def ui_wf_def intro: changes_work)

lemma active_less: "ui_wf s \<Longrightarrow> pstActiveDescriptor s = Some i \<Longrightarrow> i < 7 \<and> active_screen s = Some (ui_screens ! i)"
  by (auto simp: ui_wf_def roots_ok_def active_screen_def registry_nth screen_registered_def)

lemma active_none: "pstActiveDescriptor s = None \<Longrightarrow> active_screen s = None"
  by (simp add: active_screen_def)

lemma event_wf: "ui_wf s \<Longrightarrow> ui_wf (handle_event E m s)"
proof (cases "pstActiveDescriptor s")
  case None
  then show "ui_wf s \<Longrightarrow> ?thesis" by (simp add: handle_event_def active_none)
next
  case (Some i)
  assume wf: "ui_wf s"
  from active_less [OF wf Some] input_work [OF _ Some, of E m] wf show ?thesis
    by (auto simp: handle_event_def ui_wf_def [of s] intro: step_wf [OF input_changes _ wf])
qed

lemma events_wf: "ui_wf s \<Longrightarrow> ui_wf (handle_events E n s)"
proof (induction n arbitrary: s)
  case (Suc n)
  show ?case
  proof (cases "kmsgq_eQDC_MessageQueue s")
    case (Cons m ms)
    have "ui_wf (s\<lparr>kmsgq_eQDC_MessageQueue := ms\<rparr>)"
      using Suc.prems Cons by (simp add: ui_wf_def registry_ok_def roots_ok_def request_ok_def work_ok_def)
    from Suc.IH [OF event_wf [OF this]] show ?thesis by (simp add: iGet_NextUIEvent_def Cons)
  qed (use Suc.prems in \<open>simp add: iGet_NextUIEvent_def\<close>)
qed simp

lemma manager_wf: "ui_wf s \<Longrightarrow> ui_wf (vRun_UI E s)"
proof -
  assume wf: "ui_wf s"
  define a where "a = (if bIsTransitionPending s then snd (bActivate_RequestedScreen E s) else s)"
  define b where "b = handle_events E (length (kmsgq_eQDC_MessageQueue a)) a"
  have wb: "ui_wf b" unfolding a_def b_def using wf by (auto intro: activate_wf events_wf)
  have run: "vRun_UI E s = (case active_screen b of None \<Rightarrow> b | Some e \<Rightarrow> pfRun E e b)"
    unfolding vRun_UIScreenManager_def Let_def a_def b_def by (rule refl)
  show ?thesis
  proof (cases "pstActiveDescriptor b")
    case None
    then show ?thesis using wb by (simp add: run active_none)
  next
    case (Some i)
    from active_less [OF wb Some] run_work [OF _ Some, of E] wb show ?thesis
      by (auto simp: run ui_wf_def [of b] intro: step_wf [OF run_changes _ wb])
  qed
qed

lemma take_command_changes [frames]: "changes K s t \<Longrightarrow> P_Wall \<in> K \<Longrightarrow> changes K s (snd (take_command cs t))"
proof (induction cs arbitrary: t)
  case (Cons c cs)
  then show ?case unfolding take_command.simps by (intro frame_if frame_result) (auto intro: frames)
qed simp

lemma wall_changes: "changes {P_Wall, P_Request, P_Audio} s (vRun_WallCtrl_StateMachine E s)"
  unfolding vRun_WallCtrl_StateMachine_def vHandle_IdleState_def vHandle_StartupState_def vHandle_BootloaderState_def vHandle_ActiveState_def
    vLoad_UIScreen_def IsStateFirstEntry_def eGet_WallCtrl_Command_def vWallCtrl_Set_State_def
  by (cases "eGet_WallCtrl_State s"; simp only: eWallCtrlState_t.case; (rule frame_control frames | assumption | simp)+)

lemma submit_wf: "ui_wf s \<Longrightarrow> ui_wf (vSubmit_Message m s)"
  by (auto simp: vSubmit_Message_def ui_wf_def registry_ok_def roots_ok_def request_ok_def work_ok_def wall_simps)

lemma clock_wf: "ui_wf s \<Longrightarrow> ui_now E s = (n, t) \<Longrightarrow> ui_wf t"
  using gui_changes [OF changes_refl, of "{P_Wall, P_Request, P_Audio}" s "lfs_uptime_32 E"] by (auto intro: quiet_wf)

lemma rotation_wf: "ui_wf s \<Longrightarrow> ui_wf (vEncoder_Callback E n d s)"
proof -
  assume wf: "ui_wf s"
  obtain m t where r: "bCalculate_Detents E n d s = (m, t)" by fastforce
  have "changes {P_Wall, P_Request, P_Audio} s (snd (bCalculate_Detents E n d s))"
    unfolding bCalculate_Detents_def by (rule frame_control frames | assumption | simp)+
  with r wf have "ui_wf t" by (auto intro: quiet_wf)
  then show ?thesis using r by (auto simp: vEncoder_Callback_def submit_wf split: option.split)
qed

lemma switch_input_wf: "ui_wf s \<Longrightarrow> ui_wf (vEnc_SWPressed_InterruptHandler E k v s)"
  by (auto simp: vEnc_SWPressed_InterruptHandler_def vSet_EncSWPressed_def vClear_EncSWPressed_def Let_def split: prod.split
      intro!: submit_wf intro: clock_wf)

subsection \<open>Initialisation\<close>

lemma all_less_seven: "(\<forall>i < 7. P i) \<longleftrightarrow> P 0 \<and> P 1 \<and> P 2 \<and> P 3 \<and> P 4 \<and> P 5 \<and> P (6 :: nat)"
  by (simp only: numeral_eq_Suc pred_numeral_simps One_nat_def arith_special BitM.simps All_less_Suc) (simp, blast)

lemma seven: "length xs = 7 \<Longrightarrow> xs = [xs ! 0, xs ! 1, xs ! 2, xs ! 3, xs ! 4, xs ! 5, xs ! 6]"
proof (rule nth_equalityI)
  assume len: "length xs = 7"
  then show "length xs = length [xs ! 0, xs ! 1, xs ! 2, xs ! 3, xs ! 4, xs ! 5, xs ! 6]" by simp
  have "\<forall>i < 7. xs ! i = [xs ! 0, xs ! 1, xs ! 2, xs ! 3, xs ! 4, xs ! 5, xs ! 6] ! i"
    by (simp only: all_less_seven) simp
  with len show "i < length xs \<Longrightarrow> xs ! i = [xs ! 0, xs ! 1, xs ! 2, xs ! 3, xs ! 4, xs ! 5, xs ! 6] ! i" for i by (metis (no_types))
qed

lemma init_screens_wf:
  assumes "length (staScreenRuntimeInfo s) = 7" and "length (staScreenDescriptors s) = 7" and "kmsgq_eQDC_MessageQueue s = []"
    and "bInit_UIScreenManager s = (ok, t)"
  shows "ok \<and> ui_wf t \<and> info t = zero_info_context \<and> ui_audio t = ui_audio s \<and> \<not> bIsTransitionPending t \<and> pstActiveDescriptor t = None
    \<and> stTWallCtrlStateMachine t = stTWallCtrlStateMachine s"
proof -
  obtain a b c d e f g where r: "staScreenRuntimeInfo s = [a, b, c, d, e, f, g]" using seven [OF assms(1)] by meson
  obtain a' b' c' d' e' f' g' where ds: "staScreenDescriptors s = [a', b', c', d', e', f', g']" using seven [OF assms(2)] by meson
  have run: "fst (bInit_ScreenData u)" for u :: "'a ui_sys"
    by (simp add: bInit_ScreenData_def ui_screens_def bInit_WelcomeScreen_def bInit_AudioSrcSelectionScreen_def bInit_AudioSrcInfoScreen_def
        bInit_AudioSrcMuteScreen_def bInit_MainMenuScreen_def bInit_BluetoothMenuScreen_def bInit_BluetoothControlScreen_def)
  have t: "t = (snd (bInit_ScreenData (s\<lparr>pstActiveDescriptor := None\<rparr>)))
      \<lparr>bIsTransitionPending := False, ePendingScreenId := eScreen_None, sm_bIsInitialized := True\<rparr>" and ok: ok
    using assms(4) run [of "s\<lparr>pstActiveDescriptor := None\<rparr>"] by (auto simp: bInit_UIScreenManager_def Let_def split_beta)
  have fin: "registry_ok t \<and> roots_ok t \<and> work_ok t \<and> request_ok t \<and> info t = zero_info_context \<and> ui_audio t = ui_audio s
      \<and> kmsgq_eQDC_MessageQueue t = [] \<and> pstActiveDescriptor t = None \<and> \<not> bIsTransitionPending t \<and> stTWallCtrlStateMachine t = stTWallCtrlStateMachine s"
    unfolding t using r ds assms(3)
    by (simp add: bInit_ScreenData_def ui_screens_def bInit_WelcomeScreen_def bInit_AudioSrcSelectionScreen_def bInit_AudioSrcInfoScreen_def
        bInit_AudioSrcMuteScreen_def bInit_MainMenuScreen_def bInit_BluetoothMenuScreen_def bInit_BluetoothControlScreen_def register_screen_def
        registry_ok_def roots_ok_def work_ok_def request_ok_def screen_registered_def zero_mute_context_def all_less_seven)
  then show ?thesis using ok by (simp add: ui_wf_def)
qed

lemma pins_changes: "changes {} s (snd (bConfigure_LVGL_BKCtrlPin E s))" "changes {} s (snd (bInitialize_eQDC E s))"
    "changes {} s (snd (bEn_Display_Backlight E s))"
  unfolding bConfigure_LVGL_BKCtrlPin_def bDis_Display_Backlight_def bInitialize_eQDC_def bConfigure_eQDC_PhasePins_def bConfigure_EncSWPin_def
    bEn_Display_Backlight_def all_steps.simps
  by (rule frame_control frames | assumption | simp)+

lemma all_steps_True: "all_steps (f # fs) s = (True, t) \<longleftrightarrow> (\<exists>u. f s = (True, u) \<and> all_steps fs u = (True, t))"
  by (auto simp: Let_def split: prod.splits if_splits)

text \<open>After the initialisation: the registry is complete, no screen is active, the welcome screen is requested.\<close>

lemma init_display:
  assumes "bInit_LVGLDisplay E s = (True, t)" and boot: "ui_boot s"
  obtains "ui_wf t" and "info t = zero_info_context" and "lfs_only (ui_audio s) (ui_audio t)" and "pstActiveDescriptor t = None"
    and "bIsTransitionPending t" and "ePendingScreenId t = eScreen_Welcome" and "stTWallCtrlStateMachine t = stTWallCtrlStateMachine s"
proof -
  obtain a b c d e where a: "gui (init_fs_adapter E) s = (True, a)" and b: "bConfigure_LVGL_BKCtrlPin E a = (True, b)"
    and c: "bInitialize_eQDC E b = (True, c)" and d: "bInit_UIScreenManager c = (True, d)"
    and e: "bRequest_UIScreen eScreen_Welcome d = (True, e)" and t: "bEn_Display_Backlight E e = (True, t)"
    using assms(1) unfolding bInit_LVGLDisplay_def by (auto simp: all_steps_True simp del: all_steps.simps(2))
  have sa: "changes {} s a" using gui_changes [OF changes_refl, of "{}" s "init_fs_adapter E"] a by simp
  have ab: "changes {} a b" using pins_changes(1) [of a E] b by simp
  have bc: "changes {} b c" using pins_changes(2) [of b E] c by simp
  have sc: "changes {} s c" using changes_trans [OF changes_trans [OF sa ab] bc] .
  have len: "length (staScreenRuntimeInfo c) = 7" "length (staScreenDescriptors c) = 7" "kmsgq_eQDC_MessageQueue c = []"
    using boot changes_same [OF sc, of P_Registry] changes_queue [OF sc] by (auto simp: ui_boot_def)
  from init_screens_wf [OF this d] have d': "ui_wf d" "info d = zero_info_context" "ui_audio d = ui_audio c" "\<not> bIsTransitionPending d"
    "pstActiveDescriptor d = None" "stTWallCtrlStateMachine d = stTWallCtrlStateMachine c" by auto
  have e': "e = d\<lparr>bIsTransitionPending := True, ePendingScreenId := eScreen_Welcome\<rparr>"
    using e d'(4) by (auto simp: bRequest_UIScreen_def Let_def split: if_splits)
  have wfe: "ui_wf e" using quiet_wf [of d e] request_changes [OF changes_refl, of "{P_Wall, P_Request, P_Audio}" d eScreen_Welcome] e d'(1) by simp
  have et: "changes {} e t" using pins_changes(3) [of e E] t by simp
  show thesis
  proof
    show "ui_wf t" by (rule quiet_wf [OF changes_mono [OF et] wfe]) simp
    show "info t = zero_info_context" "pstActiveDescriptor t = None" "bIsTransitionPending t" "ePendingScreenId t = eScreen_Welcome"
      "stTWallCtrlStateMachine t = stTWallCtrlStateMachine s"
      using d' e' changes_same [OF et, of P_Info] changes_same [OF et, of P_Active] changes_same [OF et, of P_Request]
        changes_same [OF et, of P_Wall] changes_same [OF sc, of P_Wall] by auto
    show "lfs_only (ui_audio s) (ui_audio t)"
      using d' e' changes_same [OF et, of P_Audio] changes_same [OF sc, of P_Audio] by (auto intro: lfs_only_trans)
  qed
qed

lemma work_wf: "ui_wf s \<Longrightarrow> ui_wf (vHandle_ScreenSubmit_mute E s)" "ui_wf s \<Longrightarrow> ui_wf (vHandle_ScreenSubmit_select s)"
proof -
  assume wf: "ui_wf s"
  have "work_ok (vHandle_ScreenSubmit_mute E s)"
    using changes_work [OF work_mute_changes [of s E]] wf
    by (cases "mw_kwork_SubmitNewScreen (stTMuteContext s) = None") (auto simp: ui_wf_def work_ok_def vHandle_ScreenSubmit_mute_def)
  then show "ui_wf (vHandle_ScreenSubmit_mute E s)" by (rule step_wf [OF work_mute_changes _ wf, rotated]) (auto simp: K_input_def K_run_def)
  have "work_ok (vHandle_ScreenSubmit_select s)"
  proof (cases "kWork_SubmitNewScreen s = None")
    case False
    with wf have act: "pstActiveDescriptor s = Some 2" "sl_eCommittedSourceItem (stTAudSrcSelectionContext s) \<in> source_items"
      by (auto simp: ui_wf_def work_ok_def)
    then show ?thesis
      using changes_work [OF work_select_changes [of s]] changes_same [OF work_select_changes [of s], of P_Select] wf by (simp add: ui_wf_def)
  qed (use wf in \<open>simp add: ui_wf_def vHandle_ScreenSubmit_select_def\<close>)
  then show "ui_wf (vHandle_ScreenSubmit_select s)" by (rule step_wf [OF work_select_changes _ wf, rotated]) (auto simp: K_input_def)
qed

lemma reach_wf: "ui_reach E R s \<Longrightarrow> ui_wf s"
proof (induction rule: ui_reach.induct)
  case (ureach_boot s t)
  from init_display [OF ureach_boot(3,1)] show ?case by blast
next
  case (ureach_step s t)
  note IH = ureach_step.IH
  have clear: "ui_wf (vClear_UIEvents s)"
    using ureach_step.IH by (simp add: vClear_UIEvents_def ui_wf_def registry_ok_def roots_ok_def request_ok_def work_ok_def)
  have tick: "changes {P_Wall, P_Request, P_Audio} s (vAnimator_TimerCallback E s)" by (rule frames changes_refl)+
  have opa: "changes {P_Wall, P_Request, P_Audio} s (vSet_BluetoothIconOpacity E p n s)"
    "changes {P_Wall, P_Request, P_Audio} s (vSet_WelComeImage_Opacity E o1 n s)"
    "changes {P_Wall, P_Request, P_Audio} s (vWelcomeScreen_ImageFadingCompleted s)" for p n o1
    by (rule changes_mono [OF opacity_changes(1)] changes_mono [OF opacity_changes(2)] changes_mono [OF faded_changes], blast)+
  from ureach_step.hyps(2) show ?case
    by cases (simp_all add: clear IH manager_wf rotation_wf switch_input_wf work_wf quiet_wf [OF wall_changes] quiet_wf [OF tick]
        quiet_wf [OF opa(1)] quiet_wf [OF opa(2)] quiet_wf [OF opa(3)])
next
  case (ureach_others s a)
  then show ?case by (simp add: ui_wf_def registry_ok_def roots_ok_def request_ok_def work_ok_def)
qed

end
