(* ===== verification/Ui_Startup.thy ===== *)
theory Ui_Startup
  imports Ui_Invariants
begin

text \<open>
  The start-up: the states the wall controller can be in, and that it leaves the start-up state for the screen of the selected source
  once three seconds have passed.
\<close>

subsection \<open>Histories from a state on\<close>

inductive ui_path :: "('w, 'z) ui_services_scheme \<Rightarrow> ('w audio_sys \<Rightarrow> 'w audio_sys \<Rightarrow> bool) \<Rightarrow> 'w ui_sys \<Rightarrow> 'w ui_sys \<Rightarrow> bool"
  for E :: "('w, 'z) ui_services_scheme" and R :: "'w audio_sys \<Rightarrow> 'w audio_sys \<Rightarrow> bool" where
  upath_stop: "ui_path E R s s"
| upath_step: "ui_path E R s t \<Longrightarrow> ui_step E t u \<Longrightarrow> ui_path E R s u"
| upath_others: "ui_path E R s t \<Longrightarrow> R (ui_audio t) a \<Longrightarrow> ui_path E R s (t\<lparr>ui_audio := a\<rparr>)"

text \<open>The same without turns of the wall controller.\<close>

inductive ui_between :: "('w, 'z) ui_services_scheme \<Rightarrow> ('w audio_sys \<Rightarrow> 'w audio_sys \<Rightarrow> bool) \<Rightarrow> 'w ui_sys \<Rightarrow> 'w ui_sys \<Rightarrow> bool"
  for E :: "('w, 'z) ui_services_scheme" and R :: "'w audio_sys \<Rightarrow> 'w audio_sys \<Rightarrow> bool" where
  btw_stop: "ui_between E R s s"
| btw_step: "ui_between E R s t \<Longrightarrow> ui_step E t u \<Longrightarrow> u \<noteq> vRun_WallCtrl_StateMachine E t \<Longrightarrow> ui_between E R s u"
| btw_others: "ui_between E R s t \<Longrightarrow> R (ui_audio t) a \<Longrightarrow> ui_between E R s (t\<lparr>ui_audio := a\<rparr>)"

lemma path_reach: "ui_path E R s t \<Longrightarrow> ui_reach E R s \<Longrightarrow> ui_reach E R t"
  by (induction rule: ui_path.induct) (auto intro: ui_reach.intros)

lemma between_path: "ui_between E R s t \<Longrightarrow> ui_path E R s t"
  by (induction rule: ui_between.induct) (auto intro: ui_path.intros)

subsection \<open>Which steps touch the wall controller\<close>

abbreviation wall :: "'w ui_sys \<Rightarrow> sT_WallCtrl_StateMachine_t" where
  "wall s \<equiv> stTWallCtrlStateMachine s"

lemma changes_wall: "changes K s t \<Longrightarrow> P_Wall \<notin> K \<Longrightarrow> wall t = wall s"
  using changes_same [of K s t P_Wall] by simp

lemma delete_wall: "wall (vDelete_ScreenOnExit E prev s) = wall s"
  using changes_wall [OF delete_changes [of prev "P_Root ` set_option prev" s s E]] by auto

lemma activate_wall: "wall (snd (bActivate_RequestedScreen E s)) = wall s"
proof (cases "UI_SCREEN_SLOT_INDEX (ePendingScreenId s)")
  case None
  then show ?thesis by (simp add: bActivate_RequestedScreen_def)
next
  case (Some i)
  have create: "wall t = wall s" if "pfCreate E (ePendingScreenId s) s = (ok, t)" for ok t
    using changes_wall [OF create_changes [OF Some, of s E]] that by simp
  have ex: "wall (exit_previous E prev t) = wall t" for prev t using changes_wall [OF exit_previous_changes] by simp
  have en: "wall (pfEnter E e t) = wall t" for e t using changes_wall [OF enter_changes] by simp
  show ?thesis using Some create by (auto simp: bActivate_RequestedScreen_def Let_def delete_wall ex en split: prod.split)
qed

lemma input_wall: "wall (pfHandleInput E e m s) = wall s"
  using changes_wall [OF input_changes] by (simp add: K_input_def)

lemma run_wall: "wall (pfRun E e s) = wall s"
  using changes_wall [OF run_changes] by (simp add: K_run_def)

lemma events_wall: "wall (handle_events E n s) = wall s"
proof (induction n arbitrary: s)
  case (Suc n)
  have "wall (handle_event E m t) = wall t" for m t
    by (simp add: handle_event_def input_wall split: option.split)
  then show ?case by (simp add: iGet_NextUIEvent_def Suc split: list.split)
qed simp

lemma manager_wall: "wall (vRun_UI E s) = wall s"
  by (simp add: vRun_UIScreenManager_def Let_def events_wall activate_wall run_wall split: option.split)

lemma clock_wall: "ui_now E s = (n, t) \<Longrightarrow> wall t = wall s"
  using changes_wall [OF gui_changes [OF changes_refl, of "{}" s "lfs_uptime_32 E"]] by simp

lemma submit_wall: "wall (vSubmit_Message m s) = wall s"
  by (simp add: vSubmit_Message_def)

lemma encoder_wall: "wall (vEncoder_Callback E n d s) = wall s"
proof -
  obtain m t where r: "bCalculate_Detents E n d s = (m, t)" by fastforce
  have "changes {} s (snd (bCalculate_Detents E n d s))"
    unfolding bCalculate_Detents_def by (rule frame_control frames | assumption | simp)+
  from changes_wall [OF this] r show ?thesis by (simp add: vEncoder_Callback_def submit_wall split: option.split)
qed

lemma switch_wall: "wall (vEnc_SWPressed_InterruptHandler E k v s) = wall s"
  by (auto simp: vEnc_SWPressed_InterruptHandler_def vSet_EncSWPressed_def vClear_EncSWPressed_def submit_wall Let_def split: prod.split
      dest: clock_wall)

lemma tick_wall: "wall (vAnimator_TimerCallback E s) = wall s"
proof -
  have "changes {} s (vAnimator_TimerCallback E s)" by (rule frames changes_refl)+
  from changes_wall [OF this] show ?thesis by simp
qed

lemma quiet_wall:
  "wall (vSet_BluetoothIconOpacity E p n s) = wall s" "wall (vSet_WelComeImage_Opacity E o1 n s) = wall s"
  "wall (vHandle_ScreenSubmit_mute E s) = wall s" "wall (vHandle_ScreenSubmit_select s) = wall s" "wall (vClear_UIEvents s) = wall s"
  using changes_wall [OF opacity_changes(1)] changes_wall [OF opacity_changes(2)] changes_wall [OF work_mute_changes]
    changes_wall [OF work_select_changes] by (simp_all add: vClear_UIEvents_def)

text \<open>Apart from the turns of the wall controller only the end of the fade-in sets a command.\<close>

lemma step_wall_cases:
  assumes "ui_step E s t"
  shows "t = vRun_WallCtrl_StateMachine E s \<or> wall t = wall s \<or> wall t = (wall s)\<lparr>wc_baWallCtrlCmds := (wc_baWallCtrlCmds (wall s))(eWallCtrlCmd_Startup := True)\<rparr>"
  using assms
  by cases (simp_all add: manager_wall encoder_wall switch_wall tick_wall quiet_wall vWelcomeScreen_ImageFadingCompleted_def
      vWallCtrl_Set_Command_def)

subsection \<open>The states that occur\<close>

text \<open>The bootloader state is never entered, and the only command that is ever set is the one of the start-up.\<close>

definition wall_ok :: "'w ui_sys \<Rightarrow> bool" where
  "wall_ok s \<longleftrightarrow> wc_eCurrentState (wall s) \<in> {eWallCtrlState_Idle, eWallCtrlState_Startup, eWallCtrlState_Active}
     \<and> (\<forall>c \<in> {eWallCtrlCmd_None, eWallCtrlCmd_EnterBootloader, eWallCtrlCmd_Active}. \<not> wc_baWallCtrlCmds (wall s) c)"

abbreviation startup_set :: "'w ui_sys \<Rightarrow> bool" where
  "startup_set s \<equiv> wc_baWallCtrlCmds (wall s) eWallCtrlCmd_Startup"

lemma command_read:
  assumes "wall_ok s"
  shows "eGet_WallCtrl_Command s = (if startup_set s
    then (eWallCtrlCmd_Startup, on_wall (\<lambda>w. w\<lparr>wc_baWallCtrlCmds := (wc_baWallCtrlCmds w)(eWallCtrlCmd_Startup := False)\<rparr>) s)
    else (eWallCtrlCmd_None, s))"
  using assms by (simp add: eGet_WallCtrl_Command_def wall_commands_def wall_ok_def)

lemma command_keeps:
  assumes "wall_ok s" and "eGet_WallCtrl_Command s = (c, t)"
  shows "c \<in> {eWallCtrlCmd_None, eWallCtrlCmd_Startup}" and "wall_ok t" and "wc_eCurrentState (wall t) = wc_eCurrentState (wall s)"
    and "wc_bIsFirstEntry (wall t) = wc_bIsFirstEntry (wall s)" and "wc_uiTrigttime_ms (wall t) = wc_uiTrigttime_ms (wall s)"
    and "c = eWallCtrlCmd_Startup \<longleftrightarrow> startup_set s"
  using assms by (auto simp: command_read wall_ok_def split: if_splits)

lemma load_wall: "wall (vLoad_UIScreen E s) = wall s"
proof -
  have "changes {P_Request, P_Audio} s (vLoad_UIScreen E s)"
    unfolding vLoad_UIScreen_def by (rule frame_control frames | assumption | simp)+
  from changes_wall [OF this] show ?thesis by simp
qed

lemma first_entry: "IsStateFirstEntry s = (wc_bIsFirstEntry (wall s), on_wall (wc_bIsFirstEntry_update (\<lambda>_. False)) s)"
  by (simp add: IsStateFirstEntry_def)

lemma wall_ok_cong: "wall t = (wall s)\<lparr>wc_bIsFirstEntry := b\<rparr> \<Longrightarrow> wall_ok t = wall_ok s" "wall t = (wall s)\<lparr>wc_uiTrigttime_ms := n\<rparr> \<Longrightarrow> wall_ok t = wall_ok s"
  "wall t = wall s \<Longrightarrow> wall_ok t = wall_ok s"
  by (simp_all add: wall_ok_def)

text \<open>A turn, by the state it finds. The command is cleared by it.\<close>

lemma idle_turn:
  assumes "wall_ok s" and "wc_eCurrentState (wall s) = eWallCtrlState_Idle"
  shows "wall_ok (vRun_WallCtrl_StateMachine E s)"
    and "wc_eCurrentState (wall (vRun_WallCtrl_StateMachine E s)) = (if startup_set s then eWallCtrlState_Startup else eWallCtrlState_Idle)"
    and "startup_set s \<Longrightarrow> wc_bIsFirstEntry (wall (vRun_WallCtrl_StateMachine E s))"
proof -
  let ?t = "on_wall (wc_bIsFirstEntry_update (\<lambda>_. False)) s"
  have t: "wall_ok ?t" using assms(1) by (simp add: wall_ok_def)
  have run: "vRun_WallCtrl_StateMachine E s = vHandle_IdleState s" by (simp add: vRun_WallCtrl_StateMachine_def eGet_WallCtrl_State_def assms(2))
  show "wall_ok (vRun_WallCtrl_StateMachine E s)"
    "wc_eCurrentState (wall (vRun_WallCtrl_StateMachine E s)) = (if startup_set s then eWallCtrlState_Startup else eWallCtrlState_Idle)"
    "startup_set s \<Longrightarrow> wc_bIsFirstEntry (wall (vRun_WallCtrl_StateMachine E s))"
    using assms by (simp_all add: run vHandle_IdleState_def first_entry command_read [OF t] vWallCtrl_Set_State_def wall_ok_def)
qed

lemma active_turn:
  assumes "wall_ok s" and "wc_eCurrentState (wall s) = eWallCtrlState_Active"
  shows "wall_ok (vRun_WallCtrl_StateMachine E s) \<and> wc_eCurrentState (wall (vRun_WallCtrl_StateMachine E s)) = eWallCtrlState_Active"
proof -
  let ?t = "on_wall (wc_bIsFirstEntry_update (\<lambda>_. False)) s"
  let ?u = "if wc_bIsFirstEntry (wall s) then vLoad_UIScreen E ?t else ?t"
  have wu: "wall ?u = wall ?t" by (simp add: load_wall)
  have u: "wall_ok ?u" using assms(1) unfolding wall_ok_def wu by simp
  have run: "vRun_WallCtrl_StateMachine E s = snd (eGet_WallCtrl_Command ?u)"
    by (simp add: vRun_WallCtrl_StateMachine_def eGet_WallCtrl_State_def assms(2) vHandle_ActiveState_def first_entry)
  show ?thesis unfolding run command_read [OF u] using u assms(2) wu by (auto simp: wall_ok_def)
qed

lemma startup_turn:
  assumes "wall_ok s" and "wc_eCurrentState (wall s) = eWallCtrlState_Startup"
  shows "wall_ok (vRun_WallCtrl_StateMachine E s)"
    and "wc_eCurrentState (wall (vRun_WallCtrl_StateMachine E s)) \<in> {eWallCtrlState_Startup, eWallCtrlState_Active}"
    and "\<not> wc_bIsFirstEntry (wall s) \<Longrightarrow> wc_eCurrentState (wall (vRun_WallCtrl_StateMachine E s)) = eWallCtrlState_Startup
      \<Longrightarrow> \<not> wc_bIsFirstEntry (wall (vRun_WallCtrl_StateMachine E s)) \<and> wc_uiTrigttime_ms (wall (vRun_WallCtrl_StateMachine E s)) = wc_uiTrigttime_ms (wall s)"
proof -
  let ?a = "on_wall (wc_bIsFirstEntry_update (\<lambda>_. False)) s"
  obtain n0 a0 where c0: "ui_now E ?a = (n0, a0)" by fastforce
  have w0: "wall a0 = wall ?a" by (rule clock_wall [OF c0])
  define b where "b = (if wc_bIsFirstEntry (wall s) then on_wall (wc_uiTrigttime_ms_update (\<lambda>_. n0)) a0 else ?a)"
  have b: "wall_ok b" "wc_eCurrentState (wall b) = eWallCtrlState_Startup" "\<not> wc_bIsFirstEntry (wall b)"
    "\<not> wc_bIsFirstEntry (wall s) \<Longrightarrow> wc_uiTrigttime_ms (wall b) = wc_uiTrigttime_ms (wall s)"
    using assms w0 by (simp_all add: b_def wall_ok_def)
  obtain cmd c where cc: "eGet_WallCtrl_Command b = (cmd, c)" by fastforce
  note C = command_keeps [OF b(1) cc]
  obtain n1 d where c1: "ui_now E c = (n1, d)" by fastforce
  have w1: "wall d = wall c" by (rule clock_wall [OF c1])
  have run: "vRun_WallCtrl_StateMachine E s = (if n1 - wc_uiTrigttime_ms (wall d) \<ge> WALLCTRL_STARTUP_STATE_TIMEOUT_ms
      then vWallCtrl_Set_State eWallCtrlState_Active d else d)"
    using C(1) cc c1 c0 b_def
    by (simp add: vRun_WallCtrl_StateMachine_def eGet_WallCtrl_State_def assms(2) vHandle_StartupState_def first_entry Let_def split: if_splits)
  show "wall_ok (vRun_WallCtrl_StateMachine E s)"
    "wc_eCurrentState (wall (vRun_WallCtrl_StateMachine E s)) \<in> {eWallCtrlState_Startup, eWallCtrlState_Active}"
    "\<not> wc_bIsFirstEntry (wall s) \<Longrightarrow> wc_eCurrentState (wall (vRun_WallCtrl_StateMachine E s)) = eWallCtrlState_Startup
      \<Longrightarrow> \<not> wc_bIsFirstEntry (wall (vRun_WallCtrl_StateMachine E s)) \<and> wc_uiTrigttime_ms (wall (vRun_WallCtrl_StateMachine E s)) = wc_uiTrigttime_ms (wall s)"
    using b C w1 unfolding run by (auto simp: vWallCtrl_Set_State_def wall_ok_def)
qed

lemma pure_clock: "\<forall>w. lfs_uptime_32 E w = (clock w, w) \<Longrightarrow> ui_now E s = (clock (ui_world s), s)"
  by (simp add: on_source_def via_def io_def)

lemma startup_due:
  assumes "wall_ok s" and "wc_eCurrentState (wall s) = eWallCtrlState_Startup" and "\<not> wc_bIsFirstEntry (wall s)"
    and "\<forall>w. lfs_uptime_32 E w = (clock w, w)"
    and "clock (ui_world s) - wc_uiTrigttime_ms (wall s) \<ge> WALLCTRL_STARTUP_STATE_TIMEOUT_ms"
  shows "wc_eCurrentState (wall (vRun_WallCtrl_StateMachine E s)) = eWallCtrlState_Active \<and> wc_bIsFirstEntry (wall (vRun_WallCtrl_StateMachine E s))"
proof -
  obtain cmd c where cc: "eGet_WallCtrl_Command s = (cmd, c)" by fastforce
  note C = command_keeps [OF assms(1) cc]
  have w: "ui_world c = ui_world s" using cc by (auto simp: command_read [OF assms(1)] split: if_splits)
  show ?thesis using C assms cc w
    by (simp add: vRun_WallCtrl_StateMachine_def eGet_WallCtrl_State_def vHandle_StartupState_def IsStateFirstEntry_def pure_clock [OF assms(4)]
        vWallCtrl_Set_State_def)
qed

lemma boot_wall: "ui_boot s \<Longrightarrow> wall_ok s \<and> wc_eCurrentState (wall s) = eWallCtrlState_Idle"
proof -
  assume "ui_boot s"
  then have "wall s = wall (vInit_WallCtrl_StateMachine s)" by (simp add: ui_boot_def)
  moreover have "wall_ok (vInit_WallCtrl_StateMachine s)" "wc_eCurrentState (wall (vInit_WallCtrl_StateMachine s)) = eWallCtrlState_Idle"
    by (simp_all add: vInit_WallCtrl_StateMachine_def wall_commands_def vWallCtrl_Set_State_def wall_ok_def)
  ultimately show ?thesis by (simp add: wall_ok_def)
qed

lemma wall_turn_ok:
  assumes "wall_ok s"
  shows "wall_ok (vRun_WallCtrl_StateMachine E s)"
proof -
  from assms consider "wc_eCurrentState (wall s) = eWallCtrlState_Idle" | "wc_eCurrentState (wall s) = eWallCtrlState_Startup"
    | "wc_eCurrentState (wall s) = eWallCtrlState_Active" by (auto simp: wall_ok_def)
  then show ?thesis by cases (use idle_turn(1) startup_turn(1) active_turn assms in blast)+
qed

lemma step_ok: "ui_step E s t \<Longrightarrow> wall_ok s \<Longrightarrow> wall_ok t"
  using step_wall_cases [of E s t] wall_turn_ok [of s E] by (auto simp: wall_ok_def)

lemma reach_wall: "ui_reach E R s \<Longrightarrow> wall_ok s"
proof (induction rule: ui_reach.induct)
  case (ureach_boot s t)
  have "wall t = wall s" by (rule init_display [OF ureach_boot(3,1)])
  then show ?case using boot_wall [OF ureach_boot(1)] by (simp add: wall_ok_def)
next
  case (ureach_step s t)
  then show ?case using step_ok by blast
qed (simp add: wall_ok_def)

text \<open>From the first turn of the start-up on, until it is over.\<close>

lemma path_startup:
  assumes "ui_path E R s t" and "wall_ok s" and "wc_eCurrentState (wall s) = eWallCtrlState_Startup" and "\<not> wc_bIsFirstEntry (wall s)"
  shows "wall_ok t \<and> wc_eCurrentState (wall t) \<in> {eWallCtrlState_Startup, eWallCtrlState_Active}
    \<and> (wc_eCurrentState (wall t) = eWallCtrlState_Startup \<longrightarrow> \<not> wc_bIsFirstEntry (wall t) \<and> wc_uiTrigttime_ms (wall t) = wc_uiTrigttime_ms (wall s))"
  using assms
proof (induction rule: ui_path.induct)
  case (upath_step s t u)
  then have IH: "wall_ok t" "wc_eCurrentState (wall t) \<in> {eWallCtrlState_Startup, eWallCtrlState_Active}"
    "wc_eCurrentState (wall t) = eWallCtrlState_Startup \<longrightarrow> \<not> wc_bIsFirstEntry (wall t) \<and> wc_uiTrigttime_ms (wall t) = wc_uiTrigttime_ms (wall s)"
    by blast+
  show ?case
  proof (cases "u = vRun_WallCtrl_StateMachine E t")
    case True
    then show ?thesis using IH startup_turn [OF IH(1), of E] active_turn [OF IH(1), of E] by auto
  next
    case False
    then show ?thesis using step_wall_cases [OF upath_step.hyps(2)] step_ok [OF upath_step.hyps(2) IH(1)] IH by auto
  qed
qed (auto simp: wall_ok_def)

lemma between_wall:
  "ui_between E R s t \<Longrightarrow> wc_eCurrentState (wall t) = wc_eCurrentState (wall s) \<and> wc_bIsFirstEntry (wall t) = wc_bIsFirstEntry (wall s)"
proof (induction rule: ui_between.induct)
  case (btw_step s t u)
  then show ?case using step_wall_cases [OF btw_step.hyps(2)] by auto
qed auto

subsection \<open>The first screen behind the start-up\<close>

lemma free_selected:
  assumes "\<forall>m w. audio_lock E m w = (0, w)" and "eFind_SelectedAudioSrc a = i" and "i < 4"
  shows "iGet_SelectedAudioSrcConfig E (Some z) a = ((0, Some (vCopy_AudioSrcConfiguration z (config_of a i))), a)"
proof -
  have lock: "take_lock E m b = (0, b)" for m b using assms(1) by (simp add: via_def io_def)
  have locks: "lock_sources E is b = (0, b)" for "is" b by (induction "is") (simp_all add: lock)
  show ?thesis using assms(2,3)
    by (simp add: iGet_SelectedAudioSrcConfig_def lock iLock_AudioSources_def locks eNUMBER_OF_AUDIO_SOURCES_def)
qed

lemma request_granted:
  assumes "ui_wf s" and "\<not> bIsTransitionPending s" and "UI_SCREEN_SLOT_INDEX e = Some i"
  shows "bRequest_UIScreen e s = (True, s\<lparr>bIsTransitionPending := True, ePendingScreenId := e\<rparr>)"
proof -
  have "registry_ok s" using assms(1) by (simp add: ui_wf_def)
  from registry_nth [OF this slot_less [OF assms(3)]] slot_screen [OF assms(3)] this assms(2,3) show ?thesis
    by (simp add: bRequest_UIScreen_def screen_registered_def registry_ok_def)
qed

lemma first_active_turn:
  assumes wf: "ui_wf s" and ok: "wall_ok s" and act: "wc_eCurrentState (wall s) = eWallCtrlState_Active" and first: "wc_bIsFirstEntry (wall s)"
    and free: "\<forall>m w. audio_lock E m w = (0, w)" and sel: "eFind_SelectedAudioSrc (ui_audio s) = i" "i < 4" and np: "\<not> bIsTransitionPending s"
  shows "bIsTransitionPending (vRun_WallCtrl_StateMachine E s)
    \<and> ePendingScreenId (vRun_WallCtrl_StateMachine E s) = screen_for (config_of (ui_audio s) i)"
proof -
  let ?a = "on_wall (wc_bIsFirstEntry_update (\<lambda>_. False)) s"
  have wfa: "ui_wf ?a" by (rule quiet_wf [OF _ wf]) (rule frames changes_refl | simp)+
  have sc: "screen_for (vCopy_AudioSrcConfiguration z c) = screen_for c" for z c by (simp add: screen_for_def vCopy_AudioSrcConfiguration_def)
  have "\<exists>j. UI_SCREEN_SLOT_INDEX (screen_for c) = Some j" for c by (simp add: screen_for_def)
  then obtain j where j: "UI_SCREEN_SLOT_INDEX (screen_for (config_of (ui_audio s) i)) = Some j" by blast
  have load: "vLoad_UIScreen E ?a = ?a\<lparr>bIsTransitionPending := True, ePendingScreenId := screen_for (config_of (ui_audio s) i)\<rparr>"
    using request_granted [OF wfa _ j] np sel
    by (simp add: vLoad_UIScreen_def on_source_def free_selected [OF free] sc)
  have okl: "wall_ok (vLoad_UIScreen E ?a)" using ok load_wall [of E ?a] by (simp add: wall_ok_def)
  have run: "vRun_WallCtrl_StateMachine E s = snd (eGet_WallCtrl_Command (vLoad_UIScreen E ?a))"
    by (simp add: vRun_WallCtrl_StateMachine_def eGet_WallCtrl_State_def act vHandle_ActiveState_def first_entry first)
  show ?thesis unfolding run command_read [OF okl] by (simp add: load)
qed

end
