(* ===== verification/Ui_Muting.thy ===== *)
theory Ui_Muting
  imports Ui_Invariants
begin

text \<open>
  The screen of the selected source and the table: what the flags of its context say of the stored volume, kept by every step as
  long as nothing else changes volumes while the display is on; and that only a source with volume zero is muted.
\<close>

subsection \<open>What is kept\<close>

definition mute_sound :: "'w ui_sys \<Rightarrow> bool" where
  "mute_sound s \<longleftrightarrow> table_typed (ui_audio s)
     \<and> (as_bIsMuteTransitionPending (info s) \<and> as_uiVolume (info s) = 0 \<and> \<not> as_bIsVolumeDirty (info s) \<and> as_eSrcId (info s) < 4
          \<longrightarrow> volumes (ui_audio s) ! as_eSrcId (info s) = 0)
     \<and> (as_bIsMuteTransitionReady (info s) \<longrightarrow> \<not> as_bIsVolumeDirty (info s))
     \<and> (root_of eScreen_AudioSrcInfo s \<noteq> None \<longrightarrow> as_eSrcType (info s) \<noteq> eAudioSrc_Type_None)"

abbreviation mute_idle :: "'w ui_sys \<Rightarrow> bool" where
  "mute_idle s \<equiv> \<not> as_bIsMuteTransitionPending (info s) \<and> \<not> as_bIsMuteTransitionReady (info s)"

lemma root_info: "root_of eScreen_AudioSrcInfo s = rt_pstRootObj (staScreenRuntimeInfo s ! 1)"
  by (simp add: root_of_def)

lemma root_info_same: "changes K s t \<Longrightarrow> P_Root 1 \<notin> K \<Longrightarrow> root_of eScreen_AudioSrcInfo t = root_of eScreen_AudioSrcInfo s"
  by (simp add: root_info changes_root_nth)

lemma changes_table: "changes K s t \<Longrightarrow> P_Table \<notin> K \<Longrightarrow> table_typed (ui_audio s) \<Longrightarrow> table_typed (ui_audio t)"
  using changes_same [of K s t P_Table] by simp

lemma changes_info: "changes K s t \<Longrightarrow> P_Info \<notin> K \<Longrightarrow> info t = info s"
  using changes_same [of K s t P_Info] by simp

lemma changes_volumes: "changes K s t \<Longrightarrow> P_Volumes \<notin> K \<Longrightarrow> volumes (ui_audio t) = volumes (ui_audio s)"
  using changes_same [of K s t P_Volumes] by simp

lemma changes_mutes: "changes K s t \<Longrightarrow> P_Mutes \<notin> K \<Longrightarrow> mutes (ui_audio t) = mutes (ui_audio s)"
  using changes_same [of K s t P_Mutes] by simp

lemma sound_keep:
  assumes "changes K s t" and "K \<inter> {P_Info, P_Volumes, P_Table, P_Root 1} = {}" and "mute_sound s"
  shows "mute_sound t"
  using assms changes_table [OF assms(1)] changes_info [OF assms(1)] changes_volumes [OF assms(1)] root_info_same [OF assms(1)]
  by (auto simp: mute_sound_def)

text \<open>A change of the context that does not touch volume, source and flags, or that sets the volume dirty and unready.\<close>

lemma sound_info:
  assumes "mute_sound s" and "as_eSrcType c = as_eSrcType (info s)"
    and "as_bIsMuteTransitionPending c \<and> as_uiVolume c = 0 \<and> \<not> as_bIsVolumeDirty c \<and> as_eSrcId c < 4 \<longrightarrow> volumes (ui_audio s) ! as_eSrcId c = 0"
    and "as_bIsMuteTransitionReady c \<longrightarrow> \<not> as_bIsVolumeDirty c"
  shows "mute_sound (s\<lparr>stTAudioSrcScreenContext := c\<rparr>)"
  using assms by (simp add: mute_sound_def root_of_def)

lemma volumes_length: "table_typed a \<Longrightarrow> length (volumes a) = 4"
  by (simp add: table_typed_def volumes_def)

subsection \<open>Storing the volume\<close>

lemma volume_stored:
  assumes "table_typed a" and "iUpdate_AudioSrcVolume E i v a = (0, b)"
  shows "i < 4 \<and> volumes b ! i = ucast v"
proof -
  obtain r c where l: "iLock_AudioSources E i i a = (r, c)" by fastforce
  have c: "table_typed c" using lock_typed(2) [of E i i a] assms(1) l by simp
  have i: "i < 4" using assms(2) by (auto simp: iUpdate_AudioSrcVolume_def errno_defs eNUMBER_OF_AUDIO_SOURCES_def split: if_splits)
  have len: "i < length (staAudioSrcConfigs c)" using c i by (simp add: table_typed_def)
  show ?thesis
  proof (cases "ac_uiVolume (config_of c i) = ucast v")
    case True
    then show ?thesis using assms(2) i len
      by (auto simp: iUpdate_AudioSrcVolume_def Let_def l errno_defs volumes_def split: if_splits)
  next
    case False
    then have "update_and_save E i (ac_uiVolume_update (\<lambda>_. ucast v)) (ac_uiVolume_update (\<lambda>_. ac_uiVolume (config_of c i))) c = (0, b)"
      using assms(2) by (auto simp: iUpdate_AudioSrcVolume_def Let_def l errno_defs split: if_splits)
    from update_result [OF this len] have "lfs_only (on_config i (ac_uiVolume_update (\<lambda>_. ucast v)) c) b" by simp
    then show ?thesis using i len by (simp add: volumes_def lfs_onlyD)
  qed
qed

lemma save_sound:
  assumes "mute_sound s"
  shows "mute_sound (snd (iUpdate_AudioSrcFile_info E b s))"
proof (cases "as_bIsVolumeDirty (info s)")
  case True
  obtain now u where now: "ui_now E s = (now, u)" by fastforce
  have su: "changes {} s u" using gui_changes [OF changes_refl, of "{}" s "lfs_uptime_32 E"] now by simp
  have u: "mute_sound u" "info u = info s" using sound_keep [OF su _ assms] changes_info [OF su] by auto
  obtain r t where w: "on_source (iUpdate_AudioSrcVolume E (as_eSrcId (info u)) (as_uiVolume (info u))) u = (r, t)" by fastforce
  have ut: "changes {P_Audio, P_Volumes} u t" using volume_changes [OF changes_refl, of "{P_Audio, P_Volumes}" u E "as_eSrcId (info u)" "as_uiVolume (info u)"] w by simp
  have it: "info t = info s" using changes_info [OF ut] u(2) by simp
  have tt: "table_typed (ui_audio t)" using changes_table [OF ut] u(1) by (simp add: mute_sound_def)
  have rt: "root_of eScreen_AudioSrcInfo t = root_of eScreen_AudioSrcInfo u" using root_info_same [OF ut] by simp
  have not_ready: "\<not> as_bIsMuteTransitionReady (info s)" using assms True by (simp add: mute_sound_def)
  have fail: "mute_sound (on_info (\<lambda>c. c\<lparr>as_uiVolLastChange_ms := now, as_uiVolDirtySince_ms := now\<rparr>) t)"
    using tt it rt not_ready True u by (simp add: mute_sound_def root_of_def)
  have finished: "mute_sound (on_info (as_bIsVolumeDirty_update (\<lambda>_. False)) t)" if zero: "r = 0"
  proof -
    obtain a where a: "iUpdate_AudioSrcVolume E (as_eSrcId (info u)) (as_uiVolume (info u)) (ui_audio u) = (0, a)" "ui_audio t = a"
      using w zero by (auto simp: on_source_def split: prod.splits)
    from volume_stored [OF _ a(1)] u(1) have "volumes a ! as_eSrcId (info s) = ucast (as_uiVolume (info s))"
      by (simp add: mute_sound_def u(2))
    then show ?thesis using tt it rt not_ready u a(2) by (auto simp: mute_sound_def root_of_def)
  qed
  show ?thesis using True u fail finished by (simp add: iUpdate_AudioSrcFile_info_def Let_def now w [unfolded u(2)])
qed (use assms in \<open>simp add: iUpdate_AudioSrcFile_info_def\<close>)

subsection \<open>Input\<close>

lemma request_audio [simp]: "ui_audio (snd (bRequest_UIScreen e s)) = ui_audio s" "info (snd (bRequest_UIScreen e s)) = info s"
  by (simp_all add: bRequest_UIScreen_def Let_def split: option.split)

lemma request_sound: "mute_sound s \<Longrightarrow> mute_sound (snd (bRequest_UIScreen e s))"
  by (rule sound_keep [OF request_changes [OF changes_refl, of "{P_Request}"]]) auto

lemma clock_sound: "mute_sound s \<Longrightarrow> ui_now E s = (n, t) \<Longrightarrow> mute_sound t \<and> info t = info s"
  using gui_changes [OF changes_refl, of "{}" s "lfs_uptime_32 E"] sound_keep [of "{}" s t] changes_info [of "{}" s t] by auto

lemma draw_sound: "mute_sound s \<Longrightarrow> mute_sound (gui_do f s)" "info (gui_do f s) = info s"
proof -
  have ch: "changes {} s (gui_do f s)" by (rule gui_do_changes) simp
  show "mute_sound s \<Longrightarrow> mute_sound (gui_do f s)" using sound_keep [OF ch] by simp
  show "info (gui_do f s) = info s" using changes_info [OF ch] by simp
qed

lemma show_sound: "mute_sound s \<Longrightarrow> mute_sound (show_volume E s)" "info (show_volume E s) = info s"
  by (simp_all add: show_volume_def draw_sound split: option.split)

lemma rotation_sound:
  assumes "mute_sound s"
  shows "mute_sound (vHandle_EncoderRotation_info E m s)"
proof -
  define old where "old = as_uiVolume (info s)"
  define new :: u8 where "new = of_int (clamp_volume (int (unat old) + in_iDetents m))"
  define s1 where "s1 = on_info (as_uiVolume_update (\<lambda>_. new)) s"
  have run: "vHandle_EncoderRotation_info E m s = (if old = new then s1
      else
        (let (now, s) = ui_now E s1;
             s = (if old > 0 \<and> new = 0 then on_info (set_mute_pending True now AUDIO_MUTE_TRANSITION_AFTER_ZERO_DELAY_ms) s
                  else if new > 0 then on_info (set_mute_pending False 0 0) s else s);
             s = draw E (lv_slider_set_value (the (as_pstVolSlider (info s))) new True) s;
             s = show_volume E s
         in on_info (\<lambda>c. c\<lparr>as_uiVolDirtySince_ms := (if as_bIsVolumeDirty c then as_uiVolDirtySince_ms c else now),
              as_uiVolLastChange_ms := now, as_bIsVolumeDirty := True\<rparr>) s))"
    by (simp only: vHandle_EncoderRotation_info_def Let_def old_def new_def s1_def)
  show ?thesis
  proof (cases "old = new")
    case True
    then have "mute_sound s1" unfolding s1_def using assms by (intro sound_info) (auto simp: mute_sound_def old_def)
    then show ?thesis using True by (simp add: run)
  next
    case False
    obtain now s2 where now: "ui_now E s1 = (now, s2)" by fastforce
    have "changes {P_Info} s s1" unfolding s1_def by (rule changes_part(1)) simp_all
    from gui_changes [OF this, of "lfs_uptime_32 E"] now have ch: "changes {P_Info} s s2" by simp
    have i2: "info s2 = (info s)\<lparr>as_uiVolume := new\<rparr>"
      using changes_info [OF gui_changes [OF changes_refl, of "{}" s1 "lfs_uptime_32 E"]] now by (simp add: s1_def)
    define s3 where "s3 = (if old > 0 \<and> new = 0 then on_info (set_mute_pending True now AUDIO_MUTE_TRANSITION_AFTER_ZERO_DELAY_ms) s2
        else if new > 0 then on_info (set_mute_pending False 0 0) s2 else s2)"
    define s4 where "s4 = show_volume E (draw E (lv_slider_set_value (the (as_pstVolSlider (info s3))) new True) s3)"
    have nr: "\<not> as_bIsMuteTransitionReady (info s3)" and ty: "as_eSrcType (info s3) = as_eSrcType (info s)"
      using False by (auto simp: s3_def i2 set_mute_pending_def word_gt_0)
    have ch3: "changes {P_Info} s s3" unfolding s3_def by (auto intro: changes_part ch)
    have ch4: "changes {P_Info} s s4" unfolding s4_def show_volume_def by (rule frame_control frames | rule ch3 | simp)+
    have i4: "info s4 = info s3" by (simp add: s4_def show_sound draw_sound)
    have "mute_sound (on_info (\<lambda>c. c\<lparr>as_uiVolDirtySince_ms := (if as_bIsVolumeDirty c then as_uiVolDirtySince_ms c else now),
        as_uiVolLastChange_ms := now, as_bIsVolumeDirty := True\<rparr>) s4)"
      using assms nr ty changes_table [OF ch4] root_info_same [OF ch4] by (simp add: mute_sound_def i4 root_of_def)
    then show ?thesis using False
      by (simp only: run if_False Let_def now case_prod_conv s3_def [symmetric] s4_def [symmetric])
  qed
qed

lemma press_sound:
  assumes "mute_sound s"
  shows "mute_sound (vHandle_EncoderButonPress_info m s)"
proof -
  have flags: "mute_sound (s\<lparr>stTAudioSrcScreenContext := c\<rparr>)"
    if "as_eSrcType c = as_eSrcType (info s)" "as_bIsMuteTransitionPending c = as_bIsMuteTransitionPending (info s)"
      "as_bIsMuteTransitionReady c = as_bIsMuteTransitionReady (info s)" "as_uiVolume c = as_uiVolume (info s)"
      "as_bIsVolumeDirty c = as_bIsVolumeDirty (info s)" "as_eSrcId c = as_eSrcId (info s)" for c
    using sound_info [OF assms, of c] assms that by (simp add: mute_sound_def)
  show ?thesis
    unfolding vHandle_EncoderButonPress_info_def Let_def vHandle_SourceLongPress_def vHandle_BluetoothLongPress_def
    using assms by (auto intro!: flags request_sound)
qed

lemma input_sound: "mute_sound s \<Longrightarrow> mute_sound (pfHandleInput E e m s)"
proof (cases "e = eScreen_AudioSrcInfo")
  case True
  then show "mute_sound s \<Longrightarrow> ?thesis"
    by (simp add: vHandle_EncoderInput_info_def rotation_sound press_sound split: eUIInputType_t.split)
next
  case False
  assume s: "mute_sound s"
  have "changes {P_Select, P_Submit, P_Mute, P_Unmute, P_Request, P_Audio} s (pfHandleInput E e m s)"
    using False input_select_changes [of s E m] input_mute_changes [of s m] input_menu_changes [of s E m]
      input_blemenu_changes [of s E m] input_bleconn_changes [of s E m]
    by (cases e) (auto elim!: changes_mono)
  then show ?thesis by (rule sound_keep) (use s in auto)
qed

subsection \<open>Creating, entering, leaving\<close>

lemma selected_snapshot:
  assumes "iGet_SelectedAudioSrcConfig E (Some z) a = ((0, c), b)" and "table_typed a"
  shows "\<exists>i < 4. c = Some (vCopy_AudioSrcConfiguration z (config_of b i)) \<and> lfs_only a b"
proof -
  obtain r1 a1 where l1: "take_lock E kMutex_AudioSrcSelection a = (r1, a1)" by fastforce
  obtain r2 a2 where l2: "iLock_AudioSources E (eFind_SelectedAudioSrc a1) (eFind_SelectedAudioSrc a1) a1 = (r2, a2)" by fastforce
  have o: "lfs_only a a1" "lfs_only a1 a2" using via_only [OF l1] lock_only [OF l2] by auto
  have b: "b = a2" "c = Some (vCopy_AudioSrcConfiguration z (config_of a2 (eFind_SelectedAudioSrc a1)))" "eFind_SelectedAudioSrc a1 < 4"
    using assms(1) by (auto simp: iGet_SelectedAudioSrcConfig_def Let_def l1 l2 errno_defs eNUMBER_OF_AUDIO_SOURCES_def split: if_splits)
  then show ?thesis using lfs_only_trans [OF o] by blast
qed

lemma volume_zero: "unat (v :: u16) \<le> 100 \<Longrightarrow> ucast v = (0 :: u8) \<Longrightarrow> v = 0"
proof -
  assume le: "unat v \<le> 100" and z: "ucast v = (0 :: u8)"
  have "unat (ucast v :: u8) = unat v mod 256" by (simp add: unsigned_ucast_eq take_bit_eq_mod)
  with le z have "unat v = 0" by simp
  then show "v = 0" by (simp add: unat_eq_0)
qed

lemma copy_fields:
  "ac_uiVolume (vCopy_AudioSrcConfiguration d c) = ac_uiVolume c" "ac_eSrcId (vCopy_AudioSrcConfiguration d c) = ac_eSrcId c"
  "ac_eSrcType (vCopy_AudioSrcConfiguration d c) = ac_eSrcType c"
  by (simp_all add: vCopy_AudioSrcConfiguration_def)

text \<open>The selected source is shown: its volume is the stored one.\<close>

lemma show_source_sound:
  assumes run: "bUpdate_AudioSourceInfo E s = (ok, t)" and s: "mute_sound s" "mute_idle s" and root: "root_of eScreen_AudioSrcInfo s \<noteq> None"
  shows "mute_sound t \<and> mute_idle t \<and> (ok \<longrightarrow> \<not> as_bIsVolumeDirty (info t)
    \<and> (as_eSrcId (info t) < 4 \<and> as_uiVolume (info t) = 0 \<longrightarrow> volumes (ui_audio t) ! as_eSrcId (info t) = 0))"
proof -
  obtain r c u where g: "on_source (iGet_SelectedAudioSrcConfig E (Some zero_config)) s = ((r, c), u)" by (metis surj_pair)
  have su: "changes {} s u" using selected_changes [OF changes_refl, of "{}" s E "Some zero_config"] g by simp
  have u: "mute_sound u" "info u = info s" using sound_keep [OF su _ s(1)] changes_info [OF su] by auto
  have type: "as_eSrcType (info s) \<noteq> eAudioSrc_Type_None" using s(1) root by (auto simp: mute_sound_def)
  show ?thesis
  proof (cases "r = 0")
    case False
    then show ?thesis using run g u s by (auto simp: bUpdate_AudioSourceInfo_def Let_def)
  next
    case True
    let ?s1 = "on_info (\<lambda>x. x\<lparr>as_uiVolume := ucast (ac_uiVolume (the c)), as_eSrcId := ac_eSrcId (the c)\<rparr>) u"
    have s1: "mute_sound ?s1 \<and> mute_idle ?s1" using u s by (simp add: mute_sound_def root_of_def)
    show ?thesis
    proof (cases "ac_eSrcType (the c) = as_eSrcType (info s)")
      case False
      then show ?thesis using run g u s1 True by (auto simp: bUpdate_AudioSourceInfo_def Let_def)
    next
      case same: True
      obtain a where a: "iGet_SelectedAudioSrcConfig E (Some zero_config) (ui_audio s) = ((0, c), a)" "ui_audio u = a"
        using g True by (auto simp: on_source_def split: prod.splits)
      obtain i where i: "i < 4" "c = Some (vCopy_AudioSrcConfiguration zero_config (config_of a i))"
        using selected_snapshot [OF a(1)] s(1) by (auto simp: mute_sound_def)
      have e: "entry_typed i (config_of a i)" using u(1) i(1) a(2) by (simp add: mute_sound_def table_typed_def)
      then have id: "ac_eSrcId (the c) = i" using same type i(2) by (auto simp: entry_typed_def copy_fields)
      have vol: "ucast (ac_uiVolume (the c)) = (0 :: u8) \<longrightarrow> volumes (ui_audio u) ! i = 0"
        using e i volume_zero u(1) a(2) by (auto simp: entry_typed_def copy_fields volumes_def mute_sound_def table_typed_def)
      let ?s2 = "on_info (\<lambda>x. x\<lparr>as_bIsVolumeDirty := False, as_uiVolDirtySince_ms := 0, as_uiVolLastChange_ms := 0\<rparr>) ?s1"
      have s2: "mute_sound ?s2" using s1 by (simp add: mute_sound_def root_of_def)
      have draws: "mute_sound y \<and> info y = info ?s2 \<and> volumes (ui_audio y) = volumes (ui_audio u)" if "changes {} ?s2 y" for y
        using sound_keep [OF that _ s2] changes_info [OF that] changes_volumes [OF that] by auto
      have "changes {} ?s2 (snd (bUpdate_AudioSourceInfo E s))"
        using same True g u unfolding bUpdate_AudioSourceInfo_def show_volume_def
        by (simp add: Let_def split: option.split) (auto intro!: gui_do_changes)
      from draws [OF this] show ?thesis using run s id vol u same True g by (auto simp: bUpdate_AudioSourceInfo_def Let_def)
    qed
  qed
qed

lemma save_info_fields:
  "as_bIsMuteTransitionPending (info (snd (iUpdate_AudioSrcFile_info E b s))) = as_bIsMuteTransitionPending (info s)"
  "as_bIsMuteTransitionReady (info (snd (iUpdate_AudioSrcFile_info E b s))) = as_bIsMuteTransitionReady (info s)"
  "as_uiVolume (info (snd (iUpdate_AudioSrcFile_info E b s))) = as_uiVolume (info s)"
proof -
  have clock: "ui_now E s = (n, t) \<Longrightarrow> info t = info s" for n t
    using changes_info [OF gui_changes [OF changes_refl, of "{}" s "lfs_uptime_32 E"]] by simp
  have src: "on_source f u = (r, t) \<Longrightarrow> info t = info u" for f :: "'a audio_sys \<Rightarrow> int \<times> 'a audio_sys" and u r t
    by (auto simp: on_source_def split: prod.splits)
  show "as_bIsMuteTransitionPending (info (snd (iUpdate_AudioSrcFile_info E b s))) = as_bIsMuteTransitionPending (info s)"
    "as_bIsMuteTransitionReady (info (snd (iUpdate_AudioSrcFile_info E b s))) = as_bIsMuteTransitionReady (info s)"
    "as_uiVolume (info (snd (iUpdate_AudioSrcFile_info E b s))) = as_uiVolume (info s)"
    by (auto simp: iUpdate_AudioSrcFile_info_def Let_def dest!: clock src split: prod.split)
qed

lemma enter_info_sound:
  assumes s: "mute_sound s" "mute_idle s"
  shows "mute_sound (vEnter_AudioSrcInfoScreen E s)"
proof (cases "root_of eScreen_AudioSrcInfo s")
  case None
  then show ?thesis using s by (simp add: vEnter_AudioSrcInfoScreen_def)
next
  case (Some root)
  obtain r u where save: "(if as_bIsVolumeDirty (info s) then iUpdate_AudioSrcFile_info E True s else (0, s)) = (r, u)" by fastforce
  have u: "mute_sound u" "mute_idle u"
    using save s save_sound [OF s(1), of E True] save_info_fields [of E True s] by (auto split: if_splits)
  have "changes {P_Info, P_Audio, P_Volumes} s (snd (iUpdate_AudioSrcFile_info E True s))" by (rule save_volume_changes)
  then have root: "root_of eScreen_AudioSrcInfo u = Some root"
    using save Some root_info_same [of "{P_Info, P_Audio, P_Volumes}" s u] by (auto split: if_splits)
  obtain ok t where t: "bUpdate_AudioSourceInfo E u = (ok, t)" by fastforce
  note T = show_source_sound [OF t u] 
  obtain now v where v: "ui_now E t = (now, v)" by fastforce
  have tv: "changes {} t v" using gui_changes [OF changes_refl, of "{}" t "lfs_uptime_32 E"] v by simp
  have zero: "mute_sound (on_info (set_mute_pending True now AUDIO_MUTE_RETRANSITION_DELAY_ms) v)" if ok
    using T root that changes_info [OF tv] changes_volumes [OF tv] changes_table [OF tv] root_info_same [OF tv]
    by (simp add: mute_sound_def set_mute_pending_def root_of_def)
  have loud: "mute_sound (on_info (set_mute_pending False 0 0) t)"
    using T root by (simp add: mute_sound_def set_mute_pending_def root_of_def)
  show ?thesis
    using Some save T root t v u zero loud
    by (auto simp: vEnter_AudioSrcInfoScreen_def Let_def intro!: draw_sound(1) split: prod.splits)
qed

lemma exit_info_sound:
  assumes "mute_sound s"
  shows "mute_sound (vExit_AudioSrcInfoScreen E s) \<and> mute_idle (vExit_AudioSrcInfoScreen E s)"
  using save_sound [OF assms, of E True] by (simp add: vExit_AudioSrcInfoScreen_def mute_sound_def root_of_def)

lemma create_info_sound:
  assumes s: "mute_sound s" "mute_idle s" and len: "length (staScreenRuntimeInfo s) = 7" and run: "bCreate_AudioSrcInfoScreen E s = (ok, t)"
  shows "mute_sound t \<and> mute_idle t"
proof -
  have ch: "changes {P_Info, P_Root 1} s t" using create_info_changes [of s E] run by simp
  have len': "length (staScreenRuntimeInfo t) = 7" using changes_same [OF ch, of P_Registry] len by simp
  have tab: "table_typed (ui_audio t)" using changes_table [OF ch] s(1) by (simp add: mute_sound_def)
  have view: "create_view E v x = (q, y) \<Longrightarrow> info y = info x" for v x q y
    using changes_info [OF create_view_changes [OF changes_refl, of "{}" x E v]] by simp
  have src: "on_source f x = (r, y) \<Longrightarrow> info y = info x \<and> staScreenRuntimeInfo y = staScreenRuntimeInfo x"
    for f :: "'a audio_sys \<Rightarrow> (int \<times> sT_AudioSourceConfig_t option) \<times> 'a audio_sys" and x r y
    by (auto simp: on_source_def split: prod.splits)
  have type: "pstSelect_AudioSrcView y = Some v \<Longrightarrow> y \<noteq> eAudioSrc_Type_None" for y v by (cases y) auto
  have upd: "info (set_root e p x) = info x" for e p x by (simp add: set_root_def split: option.split)
  obtain r c u where g: "on_source (iGet_SelectedAudioSrcConfig E (Some zero_config)) s = ((r, c), u)" by (metis surj_pair)
  have u: "info u = info s" "root_of eScreen_AudioSrcInfo u = root_of eScreen_AudioSrcInfo s"
    using src [OF g] by (simp_all add: root_info)
  have "mute_idle t \<and> (root_of eScreen_AudioSrcInfo t \<noteq> None \<longrightarrow> as_eSrcType (info t) \<noteq> eAudioSrc_Type_None)"
  proof (cases "r = 0 \<and> no_widget E (root_of eScreen_AudioSrcInfo u) u \<and> pstSelect_AudioSrcView (ac_eSrcType (the c)) \<noteq> None")
    case False
    then show ?thesis using run g u s by (auto simp: bCreate_AudioSrcInfoScreen_def Let_def mute_sound_def split: option.splits if_splits)
  next
    case True
    then obtain v where v: "pstSelect_AudioSrcView (ac_eSrcType (the c)) = Some v" by blast
    let ?x = "on_info (\<lambda>_. zero_info_context\<lparr>as_eSrcType := ac_eSrcType (the c), as_pstViewOperations := Some v\<rparr>) (set_root eScreen_AudioSrcInfo None u)"
    obtain b vo y where y: "create_view E v ?x = ((b, vo), y)" by (metis surj_pair)
    have yi: "info y = info ?x" by (rule view [OF y])
    have dis: "info (discard_root E p y) = info y" for p
      using changes_info [OF discard_changes [OF changes_refl, of "{}" y E p]] by simp
    show ?thesis
    proof (cases b)
      case True
      then show ?thesis using run g v y yi type [OF v] \<open>r = 0 \<and> _\<close>
        by (simp add: bCreate_AudioSrcInfoScreen_def Let_def upd zero_info_context_def)
          (auto simp: upd zero_info_context_def)
    next
      case False
      then show ?thesis using run g v y dis len' \<open>r = 0 \<and> _\<close>
        by (auto simp: bCreate_AudioSrcInfoScreen_def Let_def upd zero_info_context_def intro: root_of_cleared)
          (metis root_of_cleared option.distinct(1))
    qed
  qed
  then show ?thesis using tab by (simp add: mute_sound_def)
qed

subsection \<open>Muting\<close>

text \<open>The mute operation touches one flag.\<close>

lemma mute_one: "k \<noteq> i \<Longrightarrow> mutes (snd (bUpdate_AudioSrcMuteStatus E i b a)) ! k = mutes a ! k"
proof -
  assume k: "k \<noteq> i"
  have keep: "mutes (on_config i f c) ! k = mutes c ! k" for f and c :: "'a audio_sys"
    using k by (simp add: mutes_def map_update)
  have upd: "mutes (snd (update_and_save E i f g c)) ! k = mutes c ! k" for f g c
  proof -
    obtain r t where w: "iUpdate_AudioSrcFile E (config_of (on_config i f c) i) (on_config i f c) = (r, t)" by fastforce
    then show ?thesis using only_volumes [OF file_only [OF w]] keep [of f c] keep [of g t] by (simp add: update_and_save_def Let_def)
  qed
  obtain r c where l: "iLock_AudioSourceAccess E i a = (r, c)" by fastforce
  have u: "mutes (snd (iUnLock_AudioSourceAccess E i d)) = mutes d" for d
    using only_volumes [OF access_only(2) [OF surjective_pairing]] by blast
  from only_volumes [OF access_only(1) [OF l]] show ?thesis
    by (auto simp: bUpdate_AudioSrcMuteStatus_def Let_def l upd u split_beta)
qed

lemma mute_none: "\<not> i < 4 \<Longrightarrow> bUpdate_AudioSrcMuteStatus E i b a = (False, a)"
  by (simp add: bUpdate_AudioSrcMuteStatus_def eNUMBER_OF_AUDIO_SOURCES_def)

definition newly_muted_silent :: "'w ui_sys \<Rightarrow> 'w ui_sys \<Rightarrow> bool" where
  "newly_muted_silent s t \<longleftrightarrow> (\<forall>k < 4. \<not> mutes (ui_audio s) ! k \<and> mutes (ui_audio t) ! k \<longrightarrow> volumes (ui_audio t) ! k = 0)"

lemma ready_sound:
  assumes "mute_sound s" and "mute_ready E s = (due, t)"
  shows "mute_sound t" and "due \<Longrightarrow> \<not> as_bIsVolumeDirty (info t)" and "as_eSrcId (info t) = as_eSrcId (info s)"
    and "as_uiVolume (info t) = as_uiVolume (info s)" and "as_bIsMuteTransitionPending (info t) = as_bIsMuteTransitionPending (info s)"
    and "ui_audio t = ui_audio s \<or> lfs_only (ui_audio s) (ui_audio t)"
proof -
  obtain n u where c: "ui_now E s = (n, u)" by fastforce
  have su: "changes {} s u" using gui_changes [OF changes_refl, of "{}" s "lfs_uptime_32 E"] c by simp
  have u: "mute_sound u" "info u = info s" "lfs_only (ui_audio s) (ui_audio u)"
    using clock_sound [OF assms(1) c] changes_same [OF su, of P_Audio] by auto
  have set: "mute_sound (on_info (as_bIsMuteTransitionReady_update (\<lambda>_. True)) u)" if "\<not> as_bIsVolumeDirty (info s)"
    using u that by (simp add: mute_sound_def root_of_def)
  show "mute_sound t" using assms u set by (auto simp: mute_ready_def Let_def c split: if_splits)
  show "due \<Longrightarrow> \<not> as_bIsVolumeDirty (info t)" using assms u by (auto simp: mute_ready_def Let_def c mute_sound_def split: if_splits)
  show "as_eSrcId (info t) = as_eSrcId (info s)" "as_uiVolume (info t) = as_uiVolume (info s)"
    "as_bIsMuteTransitionPending (info t) = as_bIsMuteTransitionPending (info s)"
    "ui_audio t = ui_audio s \<or> lfs_only (ui_audio s) (ui_audio t)"
    using assms u by (auto simp: mute_ready_def Let_def c split: if_splits)
qed

lemma can_mute_sound:
  assumes s: "mute_sound s" and run: "bCanExecute_MuteScreenTransition E s = (leaving, t)"
  shows "mute_sound t \<and> newly_muted_silent s t"
proof (cases "as_bIsMuteTransitionPending (info s) \<and> as_uiVolume (info s) = 0")
  case False
  then show ?thesis using run s by (auto simp: bCanExecute_MuteScreenTransition_def newly_muted_silent_def)
next
  case True
  obtain due u where d: "mute_ready E s = (due, u)" by fastforce
  note R = ready_sound [OF s d]
  have same: "volumes (ui_audio u) = volumes (ui_audio s)" "mutes (ui_audio u) = mutes (ui_audio s)"
    using R(6) only_volumes by auto
  show ?thesis
  proof (cases due)
    case False
    then show ?thesis using run True d R(1) same by (auto simp: bCanExecute_MuteScreenTransition_def newly_muted_silent_def)
  next
    case due: True
    obtain ok v where v: "on_source (bUpdate_AudioSrcMuteStatus E (as_eSrcId (info u)) True) u = (ok, v)" by fastforce
    have uv: "changes {P_Audio, P_Mutes} u v"
      using mute_changes [OF changes_refl, of "{P_Audio, P_Mutes}" u E "as_eSrcId (info u)" True] v by simp
    have sv: "mute_sound v" by (rule sound_keep [OF uv _ R(1)]) auto
    have "newly_muted_silent s v"
      unfolding newly_muted_silent_def
    proof (intro allI impI)
      fix k
      assume k: "k < 4" and new: "\<not> mutes (ui_audio s) ! k \<and> mutes (ui_audio v) ! k"
      have va: "ui_audio v = snd (bUpdate_AudioSrcMuteStatus E (as_eSrcId (info u)) True (ui_audio u))"
        using v by (auto simp: on_source_def split: prod.splits)
      with new same(2) have src: "k = as_eSrcId (info u)" using mute_one by metis
      have "volumes (ui_audio u) ! k = 0" using R(1,2,4,5) True due k src by (simp add: mute_sound_def)
      then show "volumes (ui_audio v) ! k = 0" using changes_volumes [OF uv] by simp
    qed
    moreover have "bRequest_UIScreen eScreen_SourceMute v = (q, w) \<Longrightarrow> ui_audio w = ui_audio v" for q w
      by (metis request_audio(1) snd_conv)
    ultimately show ?thesis using run True due d v sv request_sound [OF sv, of eScreen_SourceMute]
      by (auto simp: bCanExecute_MuteScreenTransition_def newly_muted_silent_def split: if_splits)
  qed
qed

lemma run_info_sound:
  assumes s: "mute_sound s"
  shows "mute_sound (vRun_AudioSrcInfoScreen E s) \<and> newly_muted_silent s (vRun_AudioSrcInfoScreen E s)"
proof -
  define a where "a = snd (iUpdate_AudioSrcFile_info E False s)"
  have a: "mute_sound a" unfolding a_def by (rule save_sound [OF s])
  have ma: "mutes (ui_audio a) = mutes (ui_audio s)"
    unfolding a_def using changes_mutes [OF save_volume_changes [of s E False]] by simp
  obtain leaving b where b: "bCanExecute_MuteScreenTransition E a = (leaving, b)" by fastforce
  have B: "mute_sound b" "newly_muted_silent s b" using can_mute_sound [OF a b] ma by (auto simp: newly_muted_silent_def)
  obtain now c where c: "ui_now E b = (now, c)" by fastforce
  have bc: "changes {} b c" using gui_changes [OF changes_refl, of "{}" b "lfs_uptime_32 E"] c by simp
  have C: "mute_sound c" "ui_audio b = ui_audio c \<or> volumes (ui_audio c) = volumes (ui_audio b) \<and> mutes (ui_audio c) = mutes (ui_audio b)"
    using clock_sound [OF B(1) c] changes_volumes [OF bc] changes_mutes [OF bc] by auto
  have keep: "mute_sound (x\<lparr>stTAudioSrcScreenContext := (info x)\<lparr>as_uiShortPressCount := p, as_uiLastShortRelease_ms := q\<rparr>\<rparr>)"
    "mute_sound (x\<lparr>stTAudioSrcScreenContext := (info x)\<lparr>as_bLongPressHandled := h, as_uiShortPressCount := p, as_uiLastShortRelease_ms := q\<rparr>\<rparr>)"
    if "mute_sound x" for x :: "'a ui_sys" and p q h
    using that by (simp_all add: mute_sound_def root_of_def)
  have run: "vRun_AudioSrcInfoScreen E s = (if leaving then b else
      let d = (if as_bButtonPressed (info c) \<and> \<not> as_bLongPressHandled (info c)
            \<and> now - as_uiButtonPressStart_ms (info c) \<ge> ENCODER_SWITCH_HOLD_TIME_ms
          then on_info (\<lambda>x. x\<lparr>as_bLongPressHandled := True, as_uiShortPressCount := 0, as_uiLastShortRelease_ms := 0\<rparr>) c else c)
      in if \<not> as_bButtonPressed (info d) \<and> as_uiShortPressCount (info d) = 1
          \<and> now - as_uiLastShortRelease_ms (info d) > ENCODER_DOUBLE_PRESS_WINDOW_ms
        then on_info (\<lambda>x. x\<lparr>as_uiShortPressCount := 0, as_uiLastShortRelease_ms := 0\<rparr>) d else d)"
    unfolding vRun_AudioSrcInfoScreen_def a_def [symmetric]
    by (simp add: Let_def b c vHandle_SourceLongPress_def vHandle_BluetoothLongPress_def)
  show ?thesis
  proof (cases leaving)
    case True
    then show ?thesis using B by (simp add: run)
  next
    case False
    then show ?thesis using B(2) C keep unfolding run newly_muted_silent_def by (auto simp: Let_def)
  qed
qed

subsection \<open>Histories\<close>

definition ui_sound :: "'w ui_sys \<Rightarrow> bool" where
  "ui_sound s \<longleftrightarrow> ui_wf s \<and> mute_sound s \<and> (pstActiveDescriptor s \<noteq> Some 1 \<longrightarrow> mute_idle s)"

lemma sound_quiet:
  assumes "changes K s t" and "K \<inter> {P_Info, P_Volumes, P_Table, P_Root 1, P_Active} = {}" and "ui_sound s" and "ui_wf t"
  shows "ui_sound t"
  using assms sound_keep [OF assms(1)] changes_info [OF assms(1)] changes_active [OF assms(1)] by (auto simp: ui_sound_def)

lemma enter_sound: "mute_sound s \<Longrightarrow> mute_idle s \<Longrightarrow> mute_sound (pfEnter E e s)"
proof (cases "e = eScreen_AudioSrcInfo")
  case False
  assume s: "mute_sound s"
  have "changes {P_Select} s (pfEnter E e s)"
    using False enter_select_changes [of s E] enter_mute_changes [of s E] enter_menu_changes [of s E]
      enter_blemenu_changes [of s E] enter_bleconn_changes [of s E] enter_welcome_changes [of s E]
    by (cases e) (auto elim!: changes_mono)
  then show ?thesis by (rule sound_keep) (use s in auto)
qed (simp add: enter_info_sound)

lemma create_sound:
  assumes s: "mute_sound s" "mute_idle s" and "length (staScreenRuntimeInfo s) = 7"
  shows "mute_sound (snd (pfCreate E e s)) \<and> mute_idle (snd (pfCreate E e s))"
proof (cases "e = eScreen_AudioSrcInfo")
  case True
  then show ?thesis using create_info_sound [OF s assms(3) surjective_pairing [of "bCreate_AudioSrcInfoScreen E s"]] by simp
next
  case False
  have "\<exists>i. i \<noteq> 1 \<and> changes {P_Select, P_Root i} s (snd (pfCreate E e s))"
    using False create_select_changes [of s E] create_mute_changes [of s E] create_menu_changes [of s E]
      create_blemenu_changes [of s E] create_bleconn_changes [of s E] create_welcome_changes [of s E]
    by (cases e) (auto elim!: changes_mono intro: exI [of _ 2] exI [of _ 3] exI [of _ 4] exI [of _ 5] exI [of _ 6] exI [of _ "0 :: nat"])
  then obtain i where i: "i \<noteq> 1" and ch: "changes {P_Select, P_Root i} s (snd (pfCreate E e s))" by blast
  show ?thesis using sound_keep [OF ch _ s(1)] changes_info [OF ch] i s(2) by auto
qed

lemma exit_sound:
  fixes E :: "('w, 'z) ui_services_scheme"
  assumes "registry_ok s" and "\<forall>j. pstActiveDescriptor s = Some j \<longrightarrow> j < 7" and "mute_sound s"
    and "pstActiveDescriptor s \<noteq> Some 1 \<longrightarrow> mute_idle s"
  defines "t \<equiv> exit_previous E (pstActiveDescriptor s) s"
  shows "mute_sound t \<and> mute_idle t"
proof (cases "pstActiveDescriptor s")
  case None
  then show ?thesis using assms by (simp add: t_def exit_previous_def)
next
  case (Some j)
  have j: "j < 7" using assms(2) Some by simp
  have t: "t = pfExit E (ui_screens ! j) s"
    using registry_nth [OF assms(1) j] Some by (simp add: t_def exit_previous_def screen_registered_def)
  show ?thesis
  proof (cases "j = 1")
    case True
    then show ?thesis using exit_info_sound [OF assms(3), of E] by (simp add: t ui_screens_def)
  next
    case False
    then have "ui_screens ! j \<noteq> eScreen_AudioSrcInfo" using screen_slot [OF j] by auto
    then have ch: "changes {} s t"
      using exit_select_changes [of s] exit_mute_changes [of s] exit_bleconn_changes [of s E] unfolding t
      by (cases "ui_screens ! j") auto
    show ?thesis using sound_keep [OF ch _ assms(3)] changes_info [OF ch] assms(4) Some False by simp
  qed
qed

lemma activate_sound:
  assumes S: "ui_sound s"
  shows "ui_sound (snd (bActivate_RequestedScreen E s)) \<and> mutes (ui_audio (snd (bActivate_RequestedScreen E s))) = mutes (ui_audio s)"
proof -
  have wf: "ui_wf s" and sd: "mute_sound s" and idle: "pstActiveDescriptor s \<noteq> Some 1 \<longrightarrow> mute_idle s" using S by (auto simp: ui_sound_def)
  have reg: "registry_ok s" and act: "\<forall>j. pstActiveDescriptor s = Some j \<longrightarrow> j < 7" using wf by (auto simp: ui_wf_def roots_ok_def)
  note wf' = activate_wf [OF wf, of E]
  show ?thesis
  proof (cases "UI_SCREEN_SLOT_INDEX (ePendingScreenId s)")
    case None
    then show ?thesis using S by (simp add: bActivate_RequestedScreen_def)
  next
    case (Some i)
    let ?e = "ePendingScreenId s"
    have i: "i < 7" and e: "ui_screens ! i = ?e" using Some slot_less slot_screen by auto
    show ?thesis
    proof (cases "pstActiveDescriptor s = Some i")
      case True
      then show ?thesis using S Some wf' by (simp add: bActivate_RequestedScreen_def ui_sound_def mute_sound_def root_of_def)
    next
      case False
      have d: "staScreenDescriptors s ! i = screen_registered ?e" using registry_nth [OF reg i] e by simp
      have none: "rt_pstRootObj (staScreenRuntimeInfo s ! i) = None" using wf False i by (auto simp: ui_wf_def roots_ok_def)
      obtain ok t where c: "pfCreate E ?e s = (ok, t)" by fastforce
      have ch: "changes {P_Info, P_Select, P_Root i} s t" using create_changes [OF Some, of s E] c by simp
      have actt: "pstActiveDescriptor t = pstActiveDescriptor s" using changes_active [OF ch] by simp
      have regt: "registry_ok t" using changes_registry [OF ch _ reg] by simp
      have mt: "mutes (ui_audio t) = mutes (ui_audio s)" using changes_mutes [OF ch] by simp
      have st: "mute_sound t \<and> (pstActiveDescriptor t \<noteq> Some 1 \<longrightarrow> mute_idle t)"
      proof (cases "pstActiveDescriptor s = Some 1")
        case True
        then have ne: "?e \<noteq> eScreen_AudioSrcInfo" using False Some by auto
        have "changes {P_Select, P_Root i} s t \<and> i \<noteq> 1"
          using ne Some c create_select_changes [of s E] create_mute_changes [of s E] create_menu_changes [of s E]
            create_blemenu_changes [of s E] create_bleconn_changes [of s E] create_welcome_changes [of s E]
          by (cases ?e) (auto elim!: changes_mono)
        then show ?thesis using sound_keep [of "{P_Select, P_Root i}" s t] sd True actt by auto
      next
        case False
        then show ?thesis using create_sound [OF sd, of E ?e] idle reg c by (simp add: registry_ok_def)
      qed
      let ?x = "exit_previous E (pstActiveDescriptor t) t"
      have xs: "mute_sound ?x \<and> mute_idle ?x" using exit_sound [OF regt _ conjunct1 [OF st] conjunct2 [OF st], of E] act actt by simp
      let ?y = "pfEnter E ?e ?x"
      have ys: "mute_sound ?y" using enter_sound xs by blast
      have my: "mutes (ui_audio ?y) = mutes (ui_audio t)"
        using changes_mutes [OF exit_previous_changes [of t E "pstActiveDescriptor t"]] changes_mutes [OF enter_changes [of ?x E ?e]] by simp
      let ?z = "vDelete_ScreenOnExit E (pstActiveDescriptor t) (?y\<lparr>pstActiveDescriptor := Some i\<rparr>)"
      have yz: "changes (P_Root ` set_option (pstActiveDescriptor t)) (?y\<lparr>pstActiveDescriptor := Some i\<rparr>) ?z"
        by (rule delete_changes) auto
      have nin: "p \<notin> P_Root ` set_option (pstActiveDescriptor t)" if "p \<in> {P_Info, P_Volumes, P_Table, P_Mutes, P_Active, P_Registry}" for p
        using that by auto
      have iz: "info ?z = info ?y" using changes_info [OF yz nin] by simp
      have vz: "volumes (ui_audio ?z) = volumes (ui_audio ?y)" using changes_volumes [OF yz nin] by simp
      have mz: "mutes (ui_audio ?z) = mutes (ui_audio ?y)" using changes_mutes [OF yz nin] by simp
      have tz: "table_typed (ui_audio ?z)" using changes_table [OF yz nin] ys by (simp add: mute_sound_def)
      have regy: "registry_ok (?y\<lparr>pstActiveDescriptor := Some i\<rparr>)"
        using changes_registry [OF enter_changes [of ?x E ?e]] changes_registry [OF exit_previous_changes [of t E "pstActiveDescriptor t"]] regt
        by (simp add: registry_ok_def)
      have rz: "root_of eScreen_AudioSrcInfo ?z \<noteq> None \<longrightarrow> root_of eScreen_AudioSrcInfo ?y \<noteq> None"
      proof (cases "pstActiveDescriptor t = Some 1")
        case True
        then show ?thesis using deleted_root [OF regy, of 1 E] by (simp add: root_info)
      next
        case False
        then have "P_Root 1 \<notin> P_Root ` set_option (pstActiveDescriptor t)" by auto
        then show ?thesis using changes_root_nth [OF yz] by (simp add: root_info)
      qed
      have zs: "mute_sound (transition_done ?z)" using ys iz vz tz rz by (auto simp: mute_sound_def root_of_def)
      have idz: "i \<noteq> 1 \<longrightarrow> mute_idle ?z"
      proof
        assume "i \<noteq> 1"
        then have "?e \<noteq> eScreen_AudioSrcInfo" using Some by auto
        then have "changes {P_Select} ?x ?y"
          using enter_select_changes [of ?x E] enter_mute_changes [of ?x E] enter_menu_changes [of ?x E]
            enter_blemenu_changes [of ?x E] enter_bleconn_changes [of ?x E] enter_welcome_changes [of ?x E]
          by (cases ?e) (auto elim!: changes_mono)
        from changes_info [OF this] show "mute_idle ?z" using xs iz by simp
      qed
      have actz: "pstActiveDescriptor ?z = Some i" using changes_active [OF yz nin] by simp
      have run: "snd (bActivate_RequestedScreen E s) = (if ok \<and> rt_pstRootObj (staScreenRuntimeInfo t ! i) \<noteq> None then transition_done ?z else t)"
        using Some none c d False by (auto simp: bActivate_RequestedScreen_def screen_registered_def Let_def)
      show ?thesis using wf' zs idz actz mz my mt st actt unfolding run by (auto simp: ui_sound_def)
    qed
  qed
qed

lemma input_sound_idle: "pstActiveDescriptor s = Some i \<Longrightarrow> i < 7 \<Longrightarrow> i \<noteq> 1 \<Longrightarrow> info (pfHandleInput E (ui_screens ! i) m s) = info s"
proof -
  assume "i < 7" "i \<noteq> 1"
  then have "ui_screens ! i \<noteq> eScreen_AudioSrcInfo" using screen_slot [of i] by auto
  then have "changes (K_input - {P_Info}) s (pfHandleInput E (ui_screens ! i) m s)"
    using input_select_changes [of s E m] input_mute_changes [of s m] input_menu_changes [of s E m]
      input_blemenu_changes [of s E m] input_bleconn_changes [of s E m] unfolding K_input_def
    by (cases "ui_screens ! i") (auto elim!: changes_mono)
  then show ?thesis using changes_info by blast
qed

lemma event_sound:
  assumes S: "ui_sound s"
  shows "ui_sound (handle_event E m s) \<and> mutes (ui_audio (handle_event E m s)) = mutes (ui_audio s)"
proof (cases "pstActiveDescriptor s")
  case None
  then show ?thesis using S by (simp add: handle_event_def active_none)
next
  case (Some i)
  have wf: "ui_wf s" using S by (simp add: ui_sound_def)
  note a = active_less [OF wf Some]
  have run: "handle_event E m s = pfHandleInput E (ui_screens ! i) m s"
    using a wf by (simp add: handle_event_def ui_wf_def registry_ok_def)
  note ch = input_changes [of s E "ui_screens ! i" m]
  have "pstActiveDescriptor (handle_event E m s) = Some i" using changes_active [OF ch] Some by (simp add: run K_input_def)
  then show ?thesis
    using event_wf [OF wf, of E m] S input_sound [of s E "ui_screens ! i" m] input_sound_idle [OF Some, of E m] a Some changes_mutes [OF ch]
    by (auto simp: ui_sound_def run K_input_def)
qed

lemma events_sound: "ui_sound s \<Longrightarrow> ui_sound (handle_events E n s) \<and> mutes (ui_audio (handle_events E n s)) = mutes (ui_audio s)"
proof (induction n arbitrary: s)
  case (Suc n)
  show ?case
  proof (cases "kmsgq_eQDC_MessageQueue s")
    case (Cons m ms)
    have "ui_sound (s\<lparr>kmsgq_eQDC_MessageQueue := ms\<rparr>)"
      using Suc.prems Cons by (simp add: ui_sound_def mute_sound_def root_of_def ui_wf_def registry_ok_def roots_ok_def request_ok_def work_ok_def)
    from event_sound [OF this, of E m] Suc.IH [of "handle_event E m (s\<lparr>kmsgq_eQDC_MessageQueue := ms\<rparr>)"]
    show ?thesis by (simp add: iGet_NextUIEvent_def Cons)
  qed (use Suc.prems in \<open>simp add: iGet_NextUIEvent_def\<close>)
qed simp

text \<open>A turn of the manager: a source that it mutes has volume zero in the table.\<close>

lemma manager_sound:
  assumes S: "ui_sound s"
  shows "ui_sound (vRun_UI E s) \<and> newly_muted_silent s (vRun_UI E s)"
proof -
  define a where "a = (if bIsTransitionPending s then snd (bActivate_RequestedScreen E s) else s)"
  define b where "b = handle_events E (length (kmsgq_eQDC_MessageQueue a)) a"
  have a: "ui_sound a" "mutes (ui_audio a) = mutes (ui_audio s)" using S activate_sound [OF S, of E] by (auto simp: a_def)
  have b: "ui_sound b" "mutes (ui_audio b) = mutes (ui_audio s)"
    using events_sound [OF a(1), of E "length (kmsgq_eQDC_MessageQueue a)"] a(2) by (auto simp: b_def)
  have run: "vRun_UI E s = (case active_screen b of None \<Rightarrow> b | Some e \<Rightarrow> pfRun E e b)"
    unfolding vRun_UIScreenManager_def Let_def a_def b_def by (rule refl)
  have wf: "ui_wf b" "ui_wf (vRun_UI E s)" using b(1) manager_wf [of s E] S by (auto simp: ui_sound_def)
  show ?thesis
  proof (cases "pstActiveDescriptor b")
    case None
    then show ?thesis using b by (simp add: run active_none newly_muted_silent_def)
  next
    case (Some i)
    note i = active_less [OF wf(1) Some]
    have r: "vRun_UI E s = pfRun E (ui_screens ! i) b" using i by (simp add: run)
    have act: "pstActiveDescriptor (vRun_UI E s) = Some i"
      using changes_active [OF run_changes [of b E "ui_screens ! i"]] Some by (simp add: r K_run_def)
    show ?thesis
    proof (cases "ui_screens ! i = eScreen_AudioSrcInfo")
      case True
      then have "i = 1" using screen_slot [of i] i by auto
      then show ?thesis using True run_info_sound [of b E] b wf(2) act by (simp add: r ui_sound_def newly_muted_silent_def)
    next
      case False
      then have ch: "changes {P_Mute, P_Unmute, P_Request} b (vRun_UI E s)"
        using run_mute_changes [of b] unfolding r by (cases "ui_screens ! i") (auto elim!: changes_mono)
      show ?thesis using sound_quiet [OF ch _ b(1) wf(2)] changes_mutes [OF ch] b(2) by (auto simp: newly_muted_silent_def)
    qed
  qed
qed

lemma boot_sound:
  assumes "ui_boot s" and "table_typed (ui_audio s)" and "bInit_LVGLDisplay E s = (True, t)"
  shows "ui_sound t"
proof -
  from init_display [OF assms(3,1)] have t: "ui_wf t" "info t = zero_info_context" "lfs_only (ui_audio s) (ui_audio t)" "pstActiveDescriptor t = None" by blast+
  then have "root_of eScreen_AudioSrcInfo t = None" by (auto simp: root_info ui_wf_def roots_ok_def)
  then show ?thesis using t only_table(1) [OF t(3)] assms(2) by (simp add: ui_sound_def mute_sound_def zero_info_context_def)
qed

lemma queue_sound: "ui_sound s \<Longrightarrow> ui_wf (s\<lparr>kmsgq_eQDC_MessageQueue := q\<rparr>) \<Longrightarrow> ui_sound (s\<lparr>kmsgq_eQDC_MessageQueue := q\<rparr>)"
  by (simp add: ui_sound_def mute_sound_def root_of_def)

lemma submit_sound: "ui_sound s \<Longrightarrow> ui_sound (vSubmit_Message m s)"
  using submit_wf [of s m] by (auto simp: vSubmit_Message_def ui_sound_def mute_sound_def root_of_def)

lemma clock_step_sound: "ui_sound s \<Longrightarrow> ui_now E s = (n, t) \<Longrightarrow> ui_sound t"
  using gui_changes [OF changes_refl, of "{}" s "lfs_uptime_32 E"] clock_wf [of s E n t]
  by (auto simp: ui_sound_def intro: sound_quiet [of "{}" s t, unfolded ui_sound_def, THEN conjunct2, THEN conjunct1]
      dest!: changes_info changes_active) (auto dest: clock_sound)

text \<open>What the rest of the program does keeps the table typed and the volumes.\<close>

definition keeps_volumes :: "('w audio_sys \<Rightarrow> 'w audio_sys \<Rightarrow> bool) \<Rightarrow> bool" where
  "keeps_volumes R \<longleftrightarrow> (\<forall>a b. R a b \<and> table_typed a \<longrightarrow> table_typed b \<and> volumes b = volumes a)"

lemma reach_sound: "ui_reach E R s \<Longrightarrow> keeps_volumes R \<Longrightarrow> ui_sound s"
proof (induction rule: ui_reach.induct)
  case (ureach_boot s t)
  then show ?case using boot_sound by blast
next
  case (ureach_step s t)
  then have S: "ui_sound s" and wf: "ui_wf s" by (auto simp: ui_sound_def)
  have wt: "ui_wf t" by (rule reach_wf [OF ui_reach.ureach_step [OF ureach_step.hyps]])
  have quiet: "ui_sound u" if "changes {P_Wall, P_Request, P_Audio, P_Submit, P_Unmute, P_Mutes} s u" "u = t" for u
    using sound_quiet [OF that(1) _ S] wt that(2) by auto
  from ureach_step.hyps(2) show ?case
  proof cases
    case step_manager
    then show ?thesis by (simp add: manager_sound [OF S])
  next
    case step_wall
    then show ?thesis using quiet [OF changes_mono [OF wall_changes [of s E]]] by auto
  next
    case (step_rotation n d)
    obtain m u where r: "bCalculate_Detents E n d s = (m, u)" by fastforce
    have ch: "changes {} s (snd (bCalculate_Detents E n d s))"
      unfolding bCalculate_Detents_def by (rule frame_control frames | assumption | simp)+
    then have "ui_wf u" using quiet_wf [OF changes_mono [OF ch] wf] r by simp
    then have "ui_sound u" using sound_quiet [OF ch _ S] r by simp
    then show ?thesis using r step_rotation by (auto simp: vEncoder_Callback_def submit_sound split: option.split)
  next
    case (step_switch k v)
    then show ?thesis using S
      by (auto simp: vEnc_SWPressed_InterruptHandler_def vSet_EncSWPressed_def vClear_EncSWPressed_def Let_def split: prod.split
          intro!: submit_sound intro: clock_step_sound)
  next
    case step_clear
    then show ?thesis using queue_sound [OF S] wt by (simp add: vClear_UIEvents_def)
  next
    case step_tick
    have "changes {} s (vAnimator_TimerCallback E s)" by (rule frames changes_refl)+
    then show ?thesis using quiet [OF changes_mono] step_tick by auto
  next
    case (step_icon p n)
    then show ?thesis using quiet [OF changes_mono [OF opacity_changes(1)]] by auto
  next
    case (step_logo p n)
    then show ?thesis using quiet [OF changes_mono [OF opacity_changes(2)]] by auto
  next
    case step_faded
    then show ?thesis using quiet [OF changes_mono [OF faded_changes]] by auto
  next
    case step_unmute
    then show ?thesis using quiet [OF changes_mono [OF work_mute_changes]] by auto
  next
    case step_submit
    then show ?thesis using quiet [OF changes_mono [OF work_select_changes]] by auto
  qed
next
  case (ureach_others s a)
  then show ?case using reach_wf [OF ui_reach.ureach_others [OF ureach_others.hyps]]
    by (auto simp: ui_sound_def mute_sound_def keeps_volumes_def root_of_def)
qed

end
