(* ===== verification/Ui_Encoder.thy ===== *)
theory Ui_Encoder
  imports Ui_Input
begin

text \<open>
  The encoder and the input queue against what they promise: no count is lost or invented between movements and detents, and the
  queue holds the newest twelve events in their order.
\<close>

definition signed_counts :: "int \<times> eQDC_Dir \<Rightarrow> int" where
  "signed_counts mv = (if snd mv = eQDC_Dir_CCW then - \<bar>fst mv\<bar> else \<bar>fst mv\<bar>)"

definition newest :: "sT_UIInput_t list \<Rightarrow> sT_UIInput_t list" where
  "newest q = drop (length q - MAX_ENCODER_MESSAGEs) q"

lemma newest_short: "length q \<le> MAX_ENCODER_MESSAGEs \<Longrightarrow> newest q = q"
  by (simp add: newest_def)

lemma newest_length: "length (newest q) \<le> MAX_ENCODER_MESSAGEs"
  by (simp add: newest_def)

lemma submit_newest:
  assumes "length (kmsgq_eQDC_MessageQueue s) \<le> MAX_ENCODER_MESSAGEs"
  shows "vSubmit_Message m s = s\<lparr>kmsgq_eQDC_MessageQueue := newest (kmsgq_eQDC_MessageQueue s @ [m])\<rparr>"
proof (cases "length (kmsgq_eQDC_MessageQueue s) < MAX_ENCODER_MESSAGEs")
  case False
  with assms have "length (kmsgq_eQDC_MessageQueue s) = MAX_ENCODER_MESSAGEs" by simp
  then show ?thesis by (simp add: vSubmit_Message_def newest_def drop_Suc wall_simps)
qed (simp add: vSubmit_Message_def newest_def)

lemma newest_newest: "newest (newest q @ r) = newest (q @ r)"
proof (cases "length q \<le> MAX_ENCODER_MESSAGEs")
  case False
  then show ?thesis by (simp add: newest_def) (simp add: add.commute)
qed (simp add: newest_short)

lemma clock_encoder:
  assumes "ui_now E s = (n, t)"
  shows "kmsgq_eQDC_MessageQueue t = kmsgq_eQDC_MessageQueue s" "iEncoderCountAccumulator t = iEncoderCountAccumulator s"
    "uiNAV_COUNTS_PER_DETENT t = uiNAV_COUNTS_PER_DETENT s"
  using assms by (auto simp: on_source_def split: prod.splits)

text \<open>One movement: the quotient becomes detents, the remainder stays.\<close>

lemma detents_step:
  assumes run: "bCalculate_Detents E (fst mv) (snd mv) s = (m, t)" and n: "uiNAV_COUNTS_PER_DETENT s \<noteq> 0"
    and acc: "\<bar>iEncoderCountAccumulator s\<bar> < int (unat (uiNAV_COUNTS_PER_DETENT s))"
  shows "int (unat (uiNAV_COUNTS_PER_DETENT s)) * (case m of None \<Rightarrow> 0 | Some e \<Rightarrow> in_iDetents e) + iEncoderCountAccumulator t
      = iEncoderCountAccumulator s + signed_counts mv"
    and "\<bar>iEncoderCountAccumulator t\<bar> < int (unat (uiNAV_COUNTS_PER_DETENT s))"
    and "uiNAV_COUNTS_PER_DETENT t = uiNAV_COUNTS_PER_DETENT s" and "kmsgq_eQDC_MessageQueue t = kmsgq_eQDC_MessageQueue s"
    and "\<And>e. m = Some e \<Longrightarrow> in_eType e = eUIInput_Rotate \<and> in_iDetents e \<noteq> 0"
proof -
  let ?n = "int (unat (uiNAV_COUNTS_PER_DETENT s))"
  have "unat (uiNAV_COUNTS_PER_DETENT s) \<noteq> 0" using n by (simp add: unat_eq_0)
  then have pos: "?n > 0" by (metis of_nat_0_less_iff gr0I)
  obtain k u where c0: "ui_now E s = (k, u)" by fastforce
  let ?acc = "iEncoderCountAccumulator s + signed_counts mv"
  obtain l v where c1: "ui_now E (s\<lparr>iEncoderCountAccumulator := ?acc smod ?n\<rparr>) = (l, v)" by fastforce
  have div: "?n * (?acc sdiv ?n) + ?acc smod ?n = ?acc" by (simp add: minus_sdiv_mult_eq_smod [symmetric] algebra_simps)
  have small: "\<bar>?acc smod ?n\<bar> < ?n" using pos by (simp add: signed_modulo_int_def sgn_if abs_mult)
  have "fst mv = 0 \<Longrightarrow> m = None \<and> t = u \<and> signed_counts mv = 0"
    using run c0 by (simp add: bCalculate_Detents_def signed_counts_def)
  moreover have "fst mv \<noteq> 0 \<Longrightarrow> t = v \<and> m = (if ?acc sdiv ?n = 0 then None
      else Some \<lparr>in_eType = eUIInput_Rotate, in_iDetents = ?acc sdiv ?n, in_uiTimestamp_ms = l\<rparr>)"
    using run c1 pos n by (auto simp: bCalculate_Detents_def signed_counts_def Let_def)
  ultimately show "?n * (case m of None \<Rightarrow> 0 | Some e \<Rightarrow> in_iDetents e) + iEncoderCountAccumulator t = ?acc"
    "\<bar>iEncoderCountAccumulator t\<bar> < ?n" "uiNAV_COUNTS_PER_DETENT t = uiNAV_COUNTS_PER_DETENT s"
    "kmsgq_eQDC_MessageQueue t = kmsgq_eQDC_MessageQueue s" "\<And>e. m = Some e \<Longrightarrow> in_eType e = eUIInput_Rotate \<and> in_iDetents e \<noteq> 0"
    using clock_encoder [OF c0] clock_encoder [OF c1] div small acc by (cases "fst mv = 0"; auto split: if_splits)+
qed

text \<open>Any number of movements.\<close>

abbreviation rotations :: "('w, 'z) ui_services_scheme \<Rightarrow> (int \<times> eQDC_Dir) list \<Rightarrow> 'w ui_sys \<Rightarrow> 'w ui_sys" where
  "rotations E mvs s \<equiv> foldl (\<lambda>s mv. vEncoder_Callback E (fst mv) (snd mv) s) s mvs"

lemma rotations_result:
  assumes "uiNAV_COUNTS_PER_DETENT s \<noteq> 0" and "\<bar>iEncoderCountAccumulator s\<bar> < int (unat (uiNAV_COUNTS_PER_DETENT s))"
    and "length (kmsgq_eQDC_MessageQueue s) \<le> MAX_ENCODER_MESSAGEs"
  shows "\<exists>evs. kmsgq_eQDC_MessageQueue (rotations E mvs s) = newest (kmsgq_eQDC_MessageQueue s @ evs)
    \<and> int (unat (uiNAV_COUNTS_PER_DETENT s)) * sum_list (map in_iDetents evs) + iEncoderCountAccumulator (rotations E mvs s)
        = iEncoderCountAccumulator s + sum_list (map signed_counts mvs)
    \<and> \<bar>iEncoderCountAccumulator (rotations E mvs s)\<bar> < int (unat (uiNAV_COUNTS_PER_DETENT s))
    \<and> (\<forall>e \<in> set evs. in_eType e = eUIInput_Rotate \<and> in_iDetents e \<noteq> 0)"
  using assms
proof (induction mvs arbitrary: s)
  case Nil
  then show ?case by (intro exI [of _ "[]"]) (simp add: newest_short)
next
  case (Cons mv mvs)
  obtain m t where r: "bCalculate_Detents E (fst mv) (snd mv) s = (m, t)" by fastforce
  note D = detents_step [OF r Cons.prems(1,2)]
  let ?t = "vEncoder_Callback E (fst mv) (snd mv) s"
  let ?new = "case m of None \<Rightarrow> [] | Some e \<Rightarrow> [e]"
  have cb: "?t = (case m of None \<Rightarrow> t | Some e \<Rightarrow> t\<lparr>kmsgq_eQDC_MessageQueue := newest (kmsgq_eQDC_MessageQueue s @ [e])\<rparr>)"
    using submit_newest [of t] D(4) Cons.prems(3) by (simp add: vEncoder_Callback_def r split: option.split)
  then have t: "iEncoderCountAccumulator ?t = iEncoderCountAccumulator t" "uiNAV_COUNTS_PER_DETENT ?t = uiNAV_COUNTS_PER_DETENT s"
    "kmsgq_eQDC_MessageQueue ?t = newest (kmsgq_eQDC_MessageQueue s @ ?new)"
    using D(3,4) Cons.prems(3) by (simp_all add: newest_short split: option.split)
  obtain evs where e: "kmsgq_eQDC_MessageQueue (rotations E mvs ?t) = newest (kmsgq_eQDC_MessageQueue ?t @ evs)"
      "int (unat (uiNAV_COUNTS_PER_DETENT s)) * sum_list (map in_iDetents evs) + iEncoderCountAccumulator (rotations E mvs ?t)
        = iEncoderCountAccumulator t + sum_list (map signed_counts mvs)"
      "\<bar>iEncoderCountAccumulator (rotations E mvs ?t)\<bar> < int (unat (uiNAV_COUNTS_PER_DETENT s))"
      "\<forall>e \<in> set evs. in_eType e = eUIInput_Rotate \<and> in_iDetents e \<noteq> 0"
    using Cons.IH [of ?t] t D(2) Cons.prems(1) newest_length by auto
  have "sum_list (map in_iDetents ?new) = (case m of None \<Rightarrow> 0 | Some e \<Rightarrow> in_iDetents e)" by (simp split: option.split)
  then show ?case
    using e t(3) D(1,5) by (intro exI [of _ "?new @ evs"]) (auto simp: newest_newest algebra_simps split: option.split)
qed

end
