(* ===== verification/Ui_Demo.thy ===== *)
theory Ui_Demo
  imports Ui_Startup Ui_Muting Ui_Encoder Audio_Demo
begin

text \<open>
  A run of the user interface for the witnesses of its properties: a display on which every call succeeds, a storage that takes every
  write, and a world that is the clock. The run boots, fades the logo in, waits, shows the first source, turns its
  volume to zero and waits again.
\<close>

definition ui_demo :: "nat ui_services" where
  "ui_demo = \<lparr>fs_mount = Pair 0, fs_stat = (\<lambda>p. Pair (0, zero_dirent)), fs_open = (\<lambda>p m. Pair (0, 1)), fs_read = (\<lambda>h n. Pair (0, [])),
     fs_write = (\<lambda>h bs. Pair (int (length bs))), fs_sync = (\<lambda>h. Pair 0), fs_close = (\<lambda>h. Pair 0), fs_unlink = (\<lambda>p. Pair 0),
     fs_mkdir = (\<lambda>p. Pair 0), fs_opendir = (\<lambda>p. Pair (0, 1)), fs_readdir = (\<lambda>h. Pair (0, zero_dirent)), fs_closedir = (\<lambda>h. Pair 0),
     lfs_mutex_lock = (\<lambda>m. Pair 0), lfs_uptime_32 = (\<lambda>w. (of_nat w, w)),
     audio_lock = (\<lambda>m. Pair 0), audio_unlock = (\<lambda>m. Pair 0), audio_mutex_init = (\<lambda>i. Pair 0), crc32_ieee = demo_crc,
     gg_setup = (\<lambda>l. Pair (\<lambda>_. Some 1)), lv_obj_is_valid = (\<lambda>p w. True), lv_obj_delete = (\<lambda>p w. w), lv_screen_load = (\<lambda>p w. w),
     lv_image_decoder_get_info = (\<lambda>p. Pair True), lv_create = (\<lambda>c p. Pair (Some 2)), lv_timer_create = (\<lambda>n. Pair (Some 3)),
     lv_timer_delete = (\<lambda>t w. w), lv_do = (\<lambda>c w. w), qdc_pins = Pair 0, qdc_switch_ready = Pair True, vInit_eQDC = Pair True,
     init_fs_adapter = Pair True, backlight_ready = Pair True, backlight_configure = Pair 0, backlight_set = (\<lambda>b. Pair 0)\<rparr>"

lemma ui_demo_simps [simp]:
  "fs_mount ui_demo = Pair 0" "fs_stat ui_demo = (\<lambda>p. Pair (0, zero_dirent))" "fs_open ui_demo = (\<lambda>p m. Pair (0, 1))"
  "fs_read ui_demo = (\<lambda>h n. Pair (0, []))" "fs_write ui_demo = (\<lambda>h bs. Pair (int (length bs)))"
  "fs_sync ui_demo = (\<lambda>h. Pair 0)" "fs_close ui_demo = (\<lambda>h. Pair 0)" "fs_unlink ui_demo = (\<lambda>p. Pair 0)"
  "fs_mkdir ui_demo = (\<lambda>p. Pair 0)" "fs_opendir ui_demo = (\<lambda>p. Pair (0, 1))"
  "fs_readdir ui_demo = (\<lambda>h. Pair (0, zero_dirent))" "fs_closedir ui_demo = (\<lambda>h. Pair 0)"
  "lfs_mutex_lock ui_demo = (\<lambda>m. Pair 0)" "lfs_uptime_32 ui_demo = (\<lambda>w. (of_nat w, w))" "audio_lock ui_demo = (\<lambda>m. Pair 0)"
  "audio_unlock ui_demo = (\<lambda>m. Pair 0)" "audio_mutex_init ui_demo = (\<lambda>i. Pair 0)" "crc32_ieee ui_demo = demo_crc"
  "gg_setup ui_demo = (\<lambda>l. Pair (\<lambda>_. Some 1))" "lv_obj_is_valid ui_demo = (\<lambda>p w. True)"
  "lv_obj_delete ui_demo = (\<lambda>p w. w)" "lv_screen_load ui_demo = (\<lambda>p w. w)"
  "lv_image_decoder_get_info ui_demo = (\<lambda>p. Pair True)" "lv_create ui_demo = (\<lambda>c p. Pair (Some 2))"
  "lv_timer_create ui_demo = (\<lambda>n. Pair (Some 3))" "lv_timer_delete ui_demo = (\<lambda>t w. w)" "lv_do ui_demo = (\<lambda>c w. w)"
  "qdc_pins ui_demo = Pair 0" "qdc_switch_ready ui_demo = Pair True" "vInit_eQDC ui_demo = Pair True" "init_fs_adapter ui_demo = Pair True"
  "backlight_ready ui_demo = Pair True" "backlight_configure ui_demo = Pair 0" "backlight_set ui_demo = (\<lambda>b. Pair 0)"
  by (simp_all add: ui_demo_def)

definition demo_lfs :: "nat lfs_sys" where
  "demo_lfs = \<lparr>stTBulkDataCtrl = stTBulkDataCtrl audio_lfs, stTFileCatalog = map (fi_uiFileSize_update (\<lambda>_. 0)) audio_catalog, stMsgQueue_FileTransfer = [], kSem_BulkWorkerDone = 0,
     bulk_worker_runs = False, bulk_work_submitted = False, lfs_world = 0\<rparr>"

text \<open>Four sources at volume one, loaded; the first is selected.\<close>

definition demo_audio :: "nat audio_sys" where
  "demo_audio = \<lparr>staAudioSrcConfigs = map (\<lambda>k. (demo_config k)\<lparr>ac_uiVolume := 1\<rparr>) [0, 1, 2, 3], bConfigurationsLoaded = True,
     bAudioSrcMutexesInitialized = True, au_lfs = demo_lfs\<lparr>lfs_world := 0\<rparr>\<rparr>"

definition demo_cleared :: "nat ui_sys" where
  "demo_cleared = \<lparr>staScreenRuntimeInfo = map (\<lambda>_. \<lparr>rt_eScreenId = eScreen_None, rt_pstRootObj = None\<rparr>) [0, 1, 2, 3, 4, 5, 6 :: nat],
     staScreenDescriptors = map (\<lambda>_. \<lparr>sd_eScreenId = eScreen_None, sd_pstScreenRuntime = False, sd_bDeleteOnExit = False, sd_functions = None\<rparr>)
       [0, 1, 2, 3, 4, 5, 6 :: nat],
     pstActiveDescriptor = None, sm_bIsInitialized = False, bIsTransitionPending = False, ePendingScreenId = eScreen_None,
     kmsgq_eQDC_MessageQueue = [], uiNAV_COUNTS_PER_DETENT = 0, iEncoderCountAccumulator = 0, stTAudioSrcScreenContext = zero_info_context,
     stTAudSrcSelectionContext = zero_select_context, kWork_SubmitNewScreen = None, stTAudSrcMuteCtrlContext = zero_mute_context,
     stTMuteContext = \<lparr>mw_kwork_SubmitNewScreen = None, mw_eSourceId = 0, mw_bWorkCompleted = False\<rparr>,
     stTMenuSelectionContext = zero_menu_context, stBluetoothMenuContext = zero_blemenu_context, stTBluetoothCtrlContext = zero_bleconn_context,
     stTWelcomeScreenContext = zero_welcome_context,
     ui_animator = \<lparr>an_caAnimatorStrings = [], an_pstLoadingTextTimer = None, an_uiLoadingTextIndex = 0, an_uiMaxAnimationCount = 0,
       an_TextAnimatorCallback = False, an_bIsAnimatorRunning = False\<rparr>,
     stTWallCtrlStateMachine = \<lparr>wc_eCurrentState = eWallCtrlState_Idle, wc_bIsFirstEntry = True, wc_baWallCtrlCmds = (\<lambda>_. False), wc_uiTrigttime_ms = 0\<rparr>,
     ui_audio = demo_audio\<rparr>"

datatype demo_step = D_turn | D_wall | D_faded | D_rotate int | D_elapse nat

fun demo_do :: "nat ui_sys \<Rightarrow> demo_step \<Rightarrow> nat ui_sys" where
  "demo_do s D_turn = vRun_UI ui_demo s"
| "demo_do s D_wall = vRun_WallCtrl_StateMachine ui_demo s"
| "demo_do s D_faded = vWelcomeScreen_ImageFadingCompleted s"
| "demo_do s (D_rotate n) = vEncoder_Callback ui_demo n (if n < 0 then eQDC_Dir_CCW else eQDC_Dir_CW) s"
| "demo_do s (D_elapse n) = s\<lparr>ui_audio := (ui_audio s)\<lparr>au_lfs := (au_lfs (ui_audio s))\<lparr>lfs_world := lfs_world (au_lfs (ui_audio s)) + n\<rparr>\<rparr>\<rparr>"

definition demo_run :: "demo_step list \<Rightarrow> nat ui_sys" where
  "demo_run ds = foldl demo_do (snd (bInit_LVGLDisplay ui_demo demo_cleared)) ds"

text \<open>A file of a source is written; nothing changes but its size, which the storage reports as zero.\<close>

lemma demo_file:
  fixes cs l b w
  assumes ok: "config_ok (ac_eSrcId c) c"
  defines "a \<equiv> \<lparr>staAudioSrcConfigs = cs, bConfigurationsLoaded = l, bAudioSrcMutexesInitialized = b, au_lfs = demo_lfs\<lparr>lfs_world := w\<rparr>\<rparr>"
  shows "iUpdate_AudioSrcFile ui_demo c a = (0, a)"
proof -
  define k where "k = ac_eSrcId c"
  have assms: "config_ok k c" "au_lfs a = demo_lfs\<lparr>lfs_world := w\<rparr>" using ok by (simp_all add: k_def a_def)
  have k: "k < 4" "ac_eSrcId c = k" using assms(1) by (simp_all add: config_ok_def)
  obtain r where r: "bEncode_AudioSrcConfiguration demo_crc c = Some r" "record_typed r"
    using audio_env.encode_some [OF ram_audio_env assms(1)] by blast
  have n: "length (record_bytes r) = 48" "record_bytes r \<noteq> []" using length_record_bytes [OF r(2)] by auto
  have files: "stTFileCatalog demo_lfs = map (\<lambda>i. \<lparr>fi_caFileName = drop 12 (source_path i), fi_caFilePath = source_path i, fi_uiFileNameLen = 13, fi_uiFileSize = 0\<rparr>)
      [0, 1, 2, 3]"
    by (simp add: demo_lfs_def audio_catalog_def)
  have ne: "i < 4 \<Longrightarrow> source_path i = source_path k \<longleftrightarrow> i = k" for i using audio_env.source_path_inj [OF ram_audio_env _ k(1)] by blast
  have path: "find_path (source_path k) (stTFileCatalog demo_lfs) = Some k"
    using source_number [OF k(1)] ne [of 0] ne [of 1] ne [of 2] ne [of 3] unfolding files by auto
  have entry: "stTFileCatalog demo_lfs ! k = \<lparr>fi_caFileName = drop 12 (source_path k), fi_caFilePath = source_path k, fi_uiFileNameLen = 13, fi_uiFileSize = 0\<rparr>"
    using source_number [OF k(1)] unfolding files by auto
  have same: "(stTFileCatalog demo_lfs)[k := stTFileCatalog demo_lfs ! k] = stTFileCatalog demo_lfs" by (rule list_update_id)
  have idle: "\<not> bIsBulkTransferActive (demo_lfs\<lparr>lfs_world := w\<rparr>)"
    by (simp add: bIsBulkTransferActive_def eGetTransferState_def demo_lfs_def audio_lfs_def)
  have loop: "write_loop ui_demo h 48 (record_bytes r) s = (0, s)" for h s
    using n by (simp add: write_loop.simps io_def)
  show ?thesis
    using r(1) n k assms(2) idle path same entry source_no_dir(2) [OF k(1)]
    by (simp add: iUpdate_AudioSrcFile_def write_source_def via_def iWrite_ToFileBin_def pstGetFile_ByFilePath_def loop
        MAX_FILE_PATH_LENGTH_def io_def zero_dirent_def)
qed

text \<open>The definitions a run unfolds, argument first.\<close>

lemmas demo_defs =
  MAX_ENCODER_MESSAGEs_def ENCODER_SWITCH_HOLD_TIME_ms_def ENCODER_DOUBLE_PRESS_WINDOW_ms_def AUDIO_MUTE_TRANSITION_AFTER_ZERO_DELAY_ms_def
  AUDIO_MUTE_RETRANSITION_DELAY_ms_def AUDIO_VOLUME_SAVE_DELAY_ms_def AUDIO_VOLUME_MAX_DIRTY_TIME_ms_def MENU_NAVIGATION_BLANK_TIME_ms_def
  SCREEN_DISPLAY_WORKE_SCHEDULE_TIME_ms_def SCREEN_DISPLAY_WORKE_RESCHEDULE_TIME_ms_def UNMUTE_OPERATION_RESIDENCE_TIME_ms_def
  BLUETOOTH_MENU_NAVIGATION_DELAY_MS_def BLE_PAIRING_TEXT_ANIMATE_DELAY_ms_def WALLCTRL_STARTUP_STATE_TIMEOUT_ms_def MAX_ANIMATION_VARIANTS_def
  MAX_ANIMATED_TEXT_LENGTH_def ui_screens_def no_view_objects_def zero_info_context_def zero_select_context_def zero_mute_context_def
  zero_menu_context_def zero_blemenu_context_def zero_bleconn_context_def zero_welcome_context_def on_source_def gui_do_def no_widget_def root_of_def
  set_root_def work_schedule_def bRequest_UIScreen_def vWallCtrl_Set_Command_def load_icon_def bLoadBluetoothIcon_def finish_view_def
  view_objects_def bCreate_WiredView_def bCreate_BluetoothView_def vHandle_BluetoothLongPress_def create_view_def discard_root_def
  bCreate_AudioSrcInfoScreen_def iUpdate_AudioSrcFile_info_def mute_ready_def bCanExecute_MuteScreenTransition_def vHandle_SourceLongPress_def
  dec_u8_def show_volume_def clamp_volume_def set_mute_pending_def vHandle_EncoderRotation_info_def vHandle_EncoderButonPress_info_def
  vHandle_EncoderInput_info_def vRun_AudioSrcInfoScreen_def bUpdate_AudioSourceInfo_def vEnter_AudioSrcInfoScreen_def vExit_AudioSrcInfoScreen_def
  register_screen_def bInit_AudioSrcInfoScreen_def bCreate_MuteIcon_def bLoad_BluetoothIcon_def furnish_mute_def bCreate_AudioSrcMuteScreen_def
  vEnter_AudioSrcMuteScreen_def vExit_AudioSrcMuteScreen_def schedule_unmute_def vHandle_EncoderInput_mute_def vHandle_ScreenSubmit_mute_def
  vRun_AudioSrcMuteScreen_def bInit_AudioSrcMuteScreen_def bInit_BluetoothControlScreen_def furnish_welcome_def bCreate_WelComeScreen_def
  vStart_WelcomeImageFadeIn_def vEnter_WelcomeScreen_def vWelcomeScreen_ImageFadingCompleted_def bInit_WelcomeScreen_def vSubmit_Message_def
  iGet_NextUIEvent_def bCalculate_Detents_def vEncoder_Callback_def vSet_EncSWPressed_def vClear_EncSWPressed_def vEnc_SWPressed_InterruptHandler_def
  bConfigure_eQDC_PhasePins_def bConfigure_EncSWPin_def bInitialize_eQDC_def vWallCtrl_Set_State_def eGet_WallCtrl_State_def IsStateFirstEntry_def
  wall_commands_def eGet_WallCtrl_Command_def vInit_WallCtrl_StateMachine_def vHandle_IdleState_def vHandle_StartupState_def
  vHandle_BootloaderState_def screen_for_def vLoad_UIScreen_def vHandle_ActiveState_def vRun_WallCtrl_StateMachine_def bInit_ScreenData_def
  bInit_UIScreenManager_def vDelete_ScreenOnExit_def exit_previous_def bActivate_RequestedScreen_def active_screen_def handle_event_def
  vRun_UIScreenManager_def bEn_Display_Backlight_def bDis_Display_Backlight_def bConfigure_LVGL_BKCtrlPin_def bInit_LVGLDisplay_def
  bInit_AudioSrcSelectionScreen_def bInit_MainMenuScreen_def bInit_BluetoothMenuScreen_def iGet_SelectedAudioSrcConfig_def via_def io_def
  iLock_AudioSources_def eFind_SelectedAudioSrc_def vCopy_AudioSrcConfiguration_def iUpdate_AudioSrcVolume_def bUpdate_AudioSrcMuteStatus_def
  update_and_save_def on_config_def iLock_AudioSourceAccess_def iUnLock_AudioSourceAccess_def eNUMBER_OF_AUDIO_SOURCES_def
  SELECTED_AUDIO_SRC_MAX_VOLUME_def

lemmas demo_cong = let_weak_cong option.case_cong_weak prod.case_cong_weak if_weak_cong

lemma upto_four: "[0..<4] = [0, 1, 2, 3 :: nat]"
  by (simp add: upt_rec)

lemma demo_boots: "bInit_LVGLDisplay ui_demo demo_cleared = (True, demo_run [])"
proof -
  have "fst (bInit_LVGLDisplay ui_demo demo_cleared)"
    by (simp add: demo_defs demo_cleared_def cong: demo_cong)
  then show ?thesis by (simp add: demo_run_def prod_eq_iff)
qed

lemma never_set: "(\<lambda>_. False)(c := False) = (\<lambda>_. False)"
  by auto

lemma display_reach: "ui_reach ui_demo lfs_only (demo_run ds)"
proof (induction ds rule: rev_induct)
  case Nil
  have boot: "ui_boot demo_cleared"
    by (simp add: ui_boot_def demo_cleared_def vInit_WallCtrl_StateMachine_def wall_commands_def vWallCtrl_Set_State_def zero_mute_context_def
        all_less_seven never_set)
  have "table_typed (ui_audio demo_cleared)"
    by (auto simp: table_typed_def entry_typed_def demo_cleared_def demo_audio_def demo_config_def less_Suc_eq numeral_eq_Suc)
  then show ?case by (rule ui_reach.ureach_boot [OF boot _ demo_boots])
next
  case (snoc d ds)
  have "ui_reach ui_demo lfs_only (demo_do s d)" if "ui_reach ui_demo lfs_only s" for s
    using that by (cases d) (auto intro: ui_reach.ureach_step ui_step.intros intro!: ui_reach.ureach_others simp: lfs_only_def)
  with snoc show ?case by (simp add: demo_run_def)
qed

text \<open>Up to the screen of the first source, and on to its mute.\<close>

definition demo_shown :: "demo_step list" where
  "demo_shown = [D_turn, D_faded, D_wall, D_wall, D_elapse 3000, D_wall, D_wall, D_turn]"

definition demo_silent :: "demo_step list" where
  "demo_silent = demo_shown @ [D_rotate (-1), D_turn, D_elapse 750, D_turn, D_elapse 2000]"

lemma demo_config_fields:
  "ac_eSrcId (demo_config k) = k" "ac_bIsMute (demo_config k) = False" "ac_uiVolume (demo_config k) = 40"
  "ac_eSrcType (demo_config k) = (if k = 3 then eAudioSrc_Type_Bluetooth else eAudioSrc_Type_Wired)"
  by (simp_all add: demo_config_def)

lemma demo_config_fine:
  "k < 4 \<Longrightarrow> unat v \<le> 100 \<Longrightarrow> config_ok k ((demo_config k)\<lparr>ac_uiVolume := v\<rparr>)"
  "k < 4 \<Longrightarrow> unat v \<le> 100 \<Longrightarrow> config_ok k ((demo_config k)\<lparr>ac_uiVolume := v, ac_bIsMute := m\<rparr>)"
  using demo_config_ok [of k] by (simp_all add: config_ok_def)

lemmas demo_sets = demo_run_def demo_shown_def demo_silent_def demo_cleared_def demo_audio_def wall_simps upto_four volumes_def mutes_def
  demo_file demo_config_fine demo_config_fields

lemma demo_shown_state: "pstActiveDescriptor (demo_run demo_shown) = Some 1 \<and> as_uiVolume (info (demo_run demo_shown)) = 1"
  by (simp add: demo_defs demo_sets cong: demo_cong)

lemma demo_silent_state:
  "mutes (ui_audio (demo_run demo_silent)) = [False, False, False, False]
   \<and> mutes (ui_audio (vRun_UI ui_demo (demo_run demo_silent))) = [True, False, False, False]"
  by (simp add: demo_defs demo_sets cong: demo_cong)

end
