(* ===== verification/Ui_Properties.thy ===== *)
theory Ui_Properties
  imports Ui_Demo
begin

text \<open>
  The properties of the user interface: the invariant of the screen manager, the safety of muting, the end of the start-up, and
  the encoder with its queue.
\<close>

text \<open>
  Property C38. In every history of turns, work items and callbacks, whatever LVGL, the storage and the rest of the program do, the seven
  screens stay registered, exactly the active screen has a root object, a pending request names a screen, the delayed
  work items are pending only on their own screens and for a source, and the input queue holds at most twelve events.
\<close>

theorem ui_screen_invariant:
  assumes "ui_reach E R s"
  shows "ui_wf s"
  by (rule reach_wf [OF assms])

theorem ui_screen_invariant_witness: "ui_wf (demo_run demo_shown) \<and> pstActiveDescriptor (demo_run demo_shown) = Some 1"
  using ui_screen_invariant [OF display_reach, of demo_shown] demo_shown_state by simp

text \<open>
  Property C37. When a turn of the user interface mutes a source, the volume stored for this source is zero: the change to the mute screen
  waits for the volume to be saved, and the flags of the screen never survive a change of the volume. It holds as long
  as nothing else changes volumes while the display is on.
\<close>

theorem ui_mutes_only_silent:
  assumes "ui_reach E R s" and "keeps_volumes R" and "k < 4"
    and "\<not> mutes (ui_audio s) ! k" and "mutes (ui_audio (vRun_UI E s)) ! k"
  shows "volumes (ui_audio (vRun_UI E s)) ! k = 0"
  using manager_sound [OF reach_sound [OF assms(1,2)], of E] assms(3-5) by (simp add: newly_muted_silent_def)

lemma lfs_keeps: "keeps_volumes lfs_only"
  using only_volumes only_table(1) by (auto simp: keeps_volumes_def)

theorem ui_mutes_only_silent_witness:
  "mutes (ui_audio (vRun_UI ui_demo (demo_run demo_silent))) ! 0 \<and> volumes (ui_audio (vRun_UI ui_demo (demo_run demo_silent))) ! 0 = 0"
  using ui_mutes_only_silent [OF display_reach lfs_keeps, of 0 demo_silent] demo_silent_state by simp

text \<open>
  Property C39. Once the first turn of the start-up state is over, whatever the other steps of the program do: a turn of the wall controller
  three seconds later, by the wrapping clock, enters the active state, and the next turn requests the screen of the
  selected source, or its mute screen, when the locks are free and no other request is pending.
\<close>

theorem wall_startup_ends:
  assumes "ui_reach E R s" and "wc_eCurrentState (wall s) = eWallCtrlState_Startup" and "\<not> wc_bIsFirstEntry (wall s)"
    and "\<forall>w. lfs_uptime_32 E w = (clock w, w)" and "\<forall>m w. audio_lock E m w = (0, w)"
    and "ui_path E R s t" and "wc_eCurrentState (wall t) = eWallCtrlState_Startup"
    and "clock (ui_world t) - wc_uiTrigttime_ms (wall s) \<ge> WALLCTRL_STARTUP_STATE_TIMEOUT_ms"
    and "ui_between E R (vRun_WallCtrl_StateMachine E t) u" and "\<not> bIsTransitionPending u"
    and "eFind_SelectedAudioSrc (ui_audio u) = i" and "i < 4"
  shows "wc_eCurrentState (wall (vRun_WallCtrl_StateMachine E t)) = eWallCtrlState_Active
    \<and> bIsTransitionPending (vRun_WallCtrl_StateMachine E u)
    \<and> ePendingScreenId (vRun_WallCtrl_StateMachine E u) = screen_for (config_of (ui_audio u) i)"
proof -
  have s: "wall_ok s" by (rule reach_wall [OF assms(1)])
  have t: "wall_ok t" "\<not> wc_bIsFirstEntry (wall t)" "wc_uiTrigttime_ms (wall t) = wc_uiTrigttime_ms (wall s)"
    using path_startup [OF assms(6) s assms(2,3)] assms(7) by auto
  have act: "wc_eCurrentState (wall (vRun_WallCtrl_StateMachine E t)) = eWallCtrlState_Active"
    "wc_bIsFirstEntry (wall (vRun_WallCtrl_StateMachine E t))"
    using startup_due [OF t(1) assms(7) t(2) assms(4)] t(3) assms(8) by auto
  have ru: "ui_reach E R u"
    using path_reach [OF between_path [OF assms(9)] ui_reach.ureach_step [OF path_reach [OF assms(6,1)] step_wall]] .
  from first_active_turn [OF reach_wf [OF ru] reach_wall [OF ru] _ _ assms(5,11,12,10)] between_wall [OF assms(9)] act
  show ?thesis by auto
qed

theorem wall_startup_ends_witness:
  "ePendingScreenId (demo_run [D_turn, D_faded, D_wall, D_wall, D_elapse 3000, D_wall, D_wall]) = eScreen_AudioSrcInfo"
proof -
  let ?s = "demo_run [D_turn, D_faded, D_wall, D_wall]"
  let ?t = "demo_run [D_turn, D_faded, D_wall, D_wall, D_elapse 3000]"
  let ?u = "demo_run [D_turn, D_faded, D_wall, D_wall, D_elapse 3000, D_wall]"
  have s: "wc_eCurrentState (wall ?s) = eWallCtrlState_Startup" "\<not> wc_bIsFirstEntry (wall ?s)" "wc_uiTrigttime_ms (wall ?s) = 0"
    by (simp_all add: demo_defs demo_sets cong: demo_cong)
  have t: "wc_eCurrentState (wall ?t) = eWallCtrlState_Startup" "ui_world ?t = 3000" by (simp_all add: demo_defs demo_sets cong: demo_cong)
  have u: "\<not> bIsTransitionPending ?u" "eFind_SelectedAudioSrc (ui_audio ?u) = 0" "\<not> ac_bIsMute (config_of (ui_audio ?u) 0)"
    by (simp_all add: demo_defs demo_sets cong: demo_cong)
  have turns: "?u = vRun_WallCtrl_StateMachine ui_demo ?t"
    "demo_run [D_turn, D_faded, D_wall, D_wall, D_elapse 3000, D_wall, D_wall] = vRun_WallCtrl_StateMachine ui_demo ?u"
    by (simp_all add: demo_run_def)
  have path: "ui_path ui_demo lfs_only ?s ?t"
    by (simp add: demo_run_def) (rule ui_path.upath_others [OF ui_path.upath_stop], unfold lfs_only_def, rule exI, rule refl)
  have btw: "ui_between ui_demo lfs_only (vRun_WallCtrl_StateMachine ui_demo ?t) ?u" unfolding turns(1) by (rule btw_stop)
  have "ePendingScreenId (vRun_WallCtrl_StateMachine ui_demo ?u) = screen_for (config_of (ui_audio ?u) 0)"
    using wall_startup_ends [OF display_reach s(1,2) _ _ path t(1) _ btw u(1,2), of of_nat] s(3) t(2)
    by (simp add: wall_simps)
  then show ?thesis using u(3) by (simp only: turns(2)) (simp add: screen_for_def)
qed



end
