(* ===== verification/Flash_Types.thy ===== *)
theory Flash_Types
  imports Lfs_Types
begin

text \<open>
  What the drivers of the external flash share: the commands and the geometry of ExtFlash_ProjDef.h, the registers of
  ExtFlash_ControllerTypes.h, the transfers the drivers fill, the variables of the drivers, and the SPI driver and the
  kernel as services over a world.
\<close>

subsection \<open>Constants\<close>

definition ETIMEDOUT :: int where [errno_defs]: "ETIMEDOUT = 116"
definition ENODEV :: int where [errno_defs]: "ENODEV = 19"

named_theorems flash_consts

definition JEDEC_ID_0 :: u8 where [flash_consts]: "JEDEC_ID_0 = 0xC2"
definition JEDEC_ID_1 :: u8 where [flash_consts]: "JEDEC_ID_1 = 0x28"
definition JEDEC_ID_2 :: u8 where [flash_consts]: "JEDEC_ID_2 = 0x17"
definition DEFAULT_READ_BUFF_LENGTH :: nat where [flash_consts]: "DEFAULT_READ_BUFF_LENGTH = 256"
definition QUAD_READ_MAX_TRANSACTION_LENGTH :: nat where [flash_consts]: "QUAD_READ_MAX_TRANSACTION_LENGTH = 4096"
definition JEDEC_ID_REQ_CMD :: u8 where [flash_consts]: "JEDEC_ID_REQ_CMD = 0x9F"
definition STATUS_REG_READ_CMD :: u8 where [flash_consts]: "STATUS_REG_READ_CMD = 0x05"
definition CONFIG_REG_READ_CMD :: u8 where [flash_consts]: "CONFIG_REG_READ_CMD = 0x15"
definition WRITE_ENABLE_CMD :: u8 where [flash_consts]: "WRITE_ENABLE_CMD = 0x06"
definition WRITE_DISABLE_CMD :: u8 where [flash_consts]: "WRITE_DISABLE_CMD = 0x04"
definition SFDP_MODE_CMD :: u8 where [flash_consts]: "SFDP_MODE_CMD = 0x5A"
definition SFDP_MODE_ADDRESS :: u32 where [flash_consts]: "SFDP_MODE_ADDRESS = 0"
definition SFDP_RECV_BYTEs :: "u8 list" where [flash_consts]: "SFDP_RECV_BYTEs = [0x53, 0x46, 0x44, 0x50]"
definition EXT_FLASH_READ_CMD :: u8 where [flash_consts]: "EXT_FLASH_READ_CMD = 0x03"
definition EXT_FLASH_4KB_SECTOR_ERASE :: u8 where [flash_consts]: "EXT_FLASH_4KB_SECTOR_ERASE = 0x20"
definition EXT_FLASH_WRITE_CMD :: u8 where [flash_consts]: "EXT_FLASH_WRITE_CMD = 0x02"
definition EXT_FLASH_QUAD_READ_CMD :: u8 where [flash_consts]: "EXT_FLASH_QUAD_READ_CMD = 0x6B"
definition EXT_FLASH_TOTAL_SIZE_BYTEs :: nat where [flash_consts]: "EXT_FLASH_TOTAL_SIZE_BYTEs = 8 * 1024 * 1024"
definition EXT_FLASH_PAGE_SIZE_BYTEs :: nat where [flash_consts]: "EXT_FLASH_PAGE_SIZE_BYTEs = 256"
definition EXT_FLASH_SECTOR_SIZE_BYTES :: nat where [flash_consts]: "EXT_FLASH_SECTOR_SIZE_BYTES = 4096"
definition EXT_FLASH_ERASE_BLOCK_SIZE_BYTEs :: nat where [flash_consts]: "EXT_FLASH_ERASE_BLOCK_SIZE_BYTEs = 4096"
definition EXT_FLASH_PAGE_COUNT :: nat where [flash_consts]: "EXT_FLASH_PAGE_COUNT = 2048"
definition EXT_FLASH_WRITE_BLOCK_SIZE_BYTEs :: nat where [flash_consts]: "EXT_FLASH_WRITE_BLOCK_SIZE_BYTEs = 1"
definition EXT_FLASH_ERASE_VALUE :: u8 where [flash_consts]: "EXT_FLASH_ERASE_VALUE = 0xFF"

subsection \<open>Transfers\<close>

text \<open>The enumerators and fields of the SPI interface the drivers use; module, slave, chip select and buffer release are the same in all transfers.\<close>

datatype eSPI_TransferResult_t = eTransfer_Success | eTransfer_Failed | eTransfer_Other nat

datatype eSPI_TransferType_t = eTransfer_Tx_Only | eTransfer_Rx_Only | eTransfer_Transceive

datatype eSPI_Width_t = e1bit_Transfer | e4bit_Transfer

record sT_SPIMasterTransfer_t =
  st_eType :: eSPI_TransferType_t
  st_puiTxData :: "u8 list"
  st_uiRxDataLen :: nat
  st_uiRxMaskLen :: nat

text \<open>A phase sends its bytes or receives a number of them.\<close>

record sT_SPITransferPhase_Config_t =
  ph_eType :: eSPI_TransferType_t
  ph_eWidth :: eSPI_Width_t
  ph_puiTxData :: "u8 list"
  ph_uiDataLen :: nat
  ph_uiBytesPerFrame :: nat

record sT_ZephyrFlashConfig_t =
  zf_uiDeviceSize :: nat
  zf_uiEraseBlockSize :: nat
  zf_uiWriteBlockSize :: nat
  zf_uiEraseValue :: u8

subsection \<open>Services and state\<close>

text \<open>
  \<open>spi_completion E ms\<close> is what happens while a thread waits for the semaphore: the driver calls back with a result and the bytes
  clocked in, or nothing comes within the time. Locks that wait for ever, and unlocking, have a result too.
\<close>

record 'w flash_services =
  spi_mutex_lock :: "'w \<Rightarrow> int \<times> 'w"
  bSPI_Transfer_InMasterMode :: "sT_SPIMasterTransfer_t \<Rightarrow> 'w \<Rightarrow> bool \<times> 'w"
  bSPI_TransferSequence_InMasterMode :: "sT_SPITransferPhase_Config_t list \<Rightarrow> 'w \<Rightarrow> bool \<times> 'w"
  spi_completion :: "nat \<Rightarrow> 'w \<Rightarrow> (eSPI_TransferResult_t \<times> (nat \<Rightarrow> u8)) option \<times> 'w"
  pstCreate_SPISlave :: "'w \<Rightarrow> bool \<times> 'w"
  vInit_SPI :: "'w \<Rightarrow> bool \<times> 'w"
  flash_uptime_32 :: "'w \<Rightarrow> u32 \<times> 'w"
  flash_msleep :: "nat \<Rightarrow> 'w \<Rightarrow> 'w"
  flash_mutex_lock :: "'w \<Rightarrow> int \<times> 'w"
  flash_mutex_unlock :: "'w \<Rightarrow> int \<times> 'w"

record 'w flash_sys =
  eLastTransferResult :: eSPI_TransferResult_t
  stTSem_SPITransferDone :: nat
  Flash_StatusReg :: u8
  FlashConfigReg1 :: u8
  FlashConfigReg2 :: u8
  bIsExtFlashSetupSuccess :: bool
  fl_world :: 'w

text \<open>The bits of the status register the drivers look at.\<close>

definition WIP :: "u8 \<Rightarrow> bool" where "WIP r = bit r 0"
definition WEL :: "u8 \<Rightarrow> bool" where "WEL r = bit r 1"

definition flash_io :: "('w \<Rightarrow> 'a \<times> 'w) \<Rightarrow> 'w flash_sys \<Rightarrow> 'a \<times> 'w flash_sys" where
  "flash_io f s = (let (r, w) = f (fl_world s) in (r, s\<lparr>fl_world := w\<rparr>))"

text \<open>A 24 bit address behind a command byte.\<close>

definition addressed :: "u8 \<Rightarrow> u32 \<Rightarrow> u8 list" where
  "addressed cmd a = [cmd, ucast (drop_bit 16 a), ucast (drop_bit 8 a), ucast a]"

end
