(* ===== verification/Flash_Driver.thy ===== *)
theory Flash_Driver
  imports Flash_Types "HOL-Library.Monad_Syntax"
begin

text \<open>
  The drivers of the external flash, from the SPI transfer up to the flash interface of Zephyr: SPIController.c,
  ExtFlash_InitialSetupCtrl.c, ExtFlash_Controller.c, ExtFlash_ReadWriteControl.c and ZephyrFlashMiddleWare.c. The poll of the busy bit
  ends only if the clock moves on, so what polls is a function into option.
\<close>

subsection \<open>SPI transfers\<close>

definition vLPSPI1_Callback :: "eSPI_TransferResult_t \<Rightarrow> 'w flash_sys \<Rightarrow> 'w flash_sys" where
  "vLPSPI1_Callback r s = s\<lparr>eLastTransferResult := r, stTSem_SPITransferDone := 1\<rparr>"

text \<open>\<open>k_sem_take\<close> with the callback running while it waits; the bytes clocked in, none when the time is over.\<close>

definition take_done :: "('w, 'z) flash_services_scheme \<Rightarrow> nat \<Rightarrow> 'w flash_sys \<Rightarrow> (nat \<Rightarrow> u8) option \<times> 'w flash_sys" where
  "take_done E ms s =
     (let (c, s) = flash_io (spi_completion E ms) s in
      case c of
        None \<Rightarrow> (None, s)
      | Some (r, rx) \<Rightarrow> (Some rx, (vLPSPI1_Callback r s)\<lparr>stTSem_SPITransferDone := 0\<rparr>))"

text \<open>The body the three transfer functions share; none stands for false.\<close>

definition transfer ::
  "('w, 'z) flash_services_scheme \<Rightarrow> nat \<Rightarrow> ('w \<Rightarrow> bool \<times> 'w) \<Rightarrow> 'w flash_sys \<Rightarrow> (nat \<Rightarrow> u8) option \<times> 'w flash_sys" where
  "transfer E ms start s =
     (let (r, s) = flash_io (spi_mutex_lock E) s in
      if r \<noteq> 0 then (None, s)
      else
        (let (ok, s) = flash_io start (s\<lparr>stTSem_SPITransferDone := 0, eLastTransferResult := eTransfer_Failed\<rparr>) in
         if \<not> ok then (None, s)
         else
           (let (rx, s) = take_done E ms s in
            if eLastTransferResult s \<noteq> eTransfer_Success then (None, s) else (rx, s))))"

definition bSPI_Write :: "('w, 'z) flash_services_scheme \<Rightarrow> sT_SPIMasterTransfer_t \<Rightarrow> 'w flash_sys \<Rightarrow> bool \<times> 'w flash_sys" where
  "bSPI_Write E t s = (let (rx, s) = transfer E 5 (bSPI_Transfer_InMasterMode E t) s in (rx \<noteq> None, s))"

definition bSPI_Transceive ::
  "('w, 'z) flash_services_scheme \<Rightarrow> sT_SPIMasterTransfer_t \<Rightarrow> 'w flash_sys \<Rightarrow> (nat \<Rightarrow> u8) option \<times> 'w flash_sys" where
  "bSPI_Transceive E t s = transfer E 200 (bSPI_Transfer_InMasterMode E t) s"

definition bSPI_MultiPhaseTranseive ::
  "('w, 'z) flash_services_scheme \<Rightarrow> sT_SPITransferPhase_Config_t list \<Rightarrow> 'w flash_sys \<Rightarrow> (nat \<Rightarrow> u8) option \<times> 'w flash_sys" where
  "bSPI_MultiPhaseTranseive E p s = transfer E 200 (bSPI_TransferSequence_InMasterMode E p) s"

definition bSetup_LPSPI_Configurations :: "('w, 'z) flash_services_scheme \<Rightarrow> 'w flash_sys \<Rightarrow> bool \<times> 'w flash_sys" where
  "bSetup_LPSPI_Configurations E s =
     (let (slave, s) = flash_io (pstCreate_SPISlave E) s in if \<not> slave then (False, s) else flash_io (vInit_SPI E) s)"

definition bInit_LPSPI_ForExtFlash :: "('w, 'z) flash_services_scheme \<Rightarrow> 'w flash_sys \<Rightarrow> bool \<times> 'w flash_sys" where
  "bInit_LPSPI_ForExtFlash E s = bSetup_LPSPI_Configurations E s"

subsection \<open>Registers\<close>

definition tx_only :: "u8 list \<Rightarrow> sT_SPIMasterTransfer_t" where
  "tx_only d = \<lparr>st_eType = eTransfer_Tx_Only, st_puiTxData = d, st_uiRxDataLen = 0, st_uiRxMaskLen = 0\<rparr>"

definition tx_rx :: "u8 list \<Rightarrow> nat \<Rightarrow> sT_SPIMasterTransfer_t" where
  "tx_rx d skip = \<lparr>st_eType = eTransfer_Transceive, st_puiTxData = d, st_uiRxDataLen = length d, st_uiRxMaskLen = skip\<rparr>"

definition bRead_Status_Register :: "('w, 'z) flash_services_scheme \<Rightarrow> 'w flash_sys \<Rightarrow> bool \<times> 'w flash_sys" where
  "bRead_Status_Register E s =
     (let (rx, s) = bSPI_Transceive E (tx_rx [STATUS_REG_READ_CMD, 0] 1) s in
      case rx of None \<Rightarrow> (False, s) | Some b \<Rightarrow> (True, s\<lparr>Flash_StatusReg := b 1\<rparr>))"

definition bRead_Config_Registers :: "('w, 'z) flash_services_scheme \<Rightarrow> 'w flash_sys \<Rightarrow> bool \<times> 'w flash_sys" where
  "bRead_Config_Registers E s =
     (let (rx, s) = bSPI_Transceive E (tx_rx [CONFIG_REG_READ_CMD, 0, 0] 1) s in
      case rx of None \<Rightarrow> (False, s) | Some b \<Rightarrow> (True, s\<lparr>FlashConfigReg1 := b 1, FlashConfigReg2 := b 2\<rparr>))"

definition bGet_JEDEC_ID :: "('w, 'z) flash_services_scheme \<Rightarrow> 'w flash_sys \<Rightarrow> bool \<times> 'w flash_sys" where
  "bGet_JEDEC_ID E s =
     (let (rx, s) = bSPI_Transceive E (tx_rx [JEDEC_ID_REQ_CMD, 0xFF, 0xFF, 0xFF] 1) s in
      case rx of None \<Rightarrow> (False, s) | Some b \<Rightarrow> (b 1 = JEDEC_ID_0 \<and> b 2 = JEDEC_ID_1 \<and> b 3 = JEDEC_ID_2, s))"

definition bPerform_SFDPMode :: "('w, 'z) flash_services_scheme \<Rightarrow> 'w flash_sys \<Rightarrow> bool \<times> 'w flash_sys" where
  "bPerform_SFDPMode E s =
     (let (rx, s) = bSPI_Transceive E (tx_rx (addressed SFDP_MODE_CMD SFDP_MODE_ADDRESS @ replicate 5 0) 5) s in
      case rx of None \<Rightarrow> (False, s) | Some b \<Rightarrow> (map b [5..<9] = SFDP_RECV_BYTEs, s))"

definition bIsWrite_Enabled :: "'w flash_sys \<Rightarrow> bool" where
  "bIsWrite_Enabled s = WEL (Flash_StatusReg s)"

definition bExtFlash_WriteEnable :: "('w, 'z) flash_services_scheme \<Rightarrow> 'w flash_sys \<Rightarrow> bool \<times> 'w flash_sys" where
  "bExtFlash_WriteEnable E s =
     (let (ok, s) = bSPI_Write E (tx_only [WRITE_ENABLE_CMD]) s in
      if \<not> ok then (False, s)
      else (let (ok, s) = bRead_Status_Register E s in if \<not> ok then (False, s) else (bIsWrite_Enabled s, s)))"

definition bExtFlash_WriteDisable :: "('w, 'z) flash_services_scheme \<Rightarrow> 'w flash_sys \<Rightarrow> bool \<times> 'w flash_sys" where
  "bExtFlash_WriteDisable E s =
     (let (ok, s) = bSPI_Write E (tx_only [WRITE_DISABLE_CMD]) s in
      if \<not> ok then (False, s)
      else (let (ok, s) = bRead_Status_Register E s in if \<not> ok then (False, s) else (\<not> bIsWrite_Enabled s, s)))"

definition bExtFlash_Validate_WREnableDisable :: "('w, 'z) flash_services_scheme \<Rightarrow> 'w flash_sys \<Rightarrow> bool \<times> 'w flash_sys" where
  "bExtFlash_Validate_WREnableDisable E s =
     (let (ok, s) = bExtFlash_WriteEnable E s in if \<not> ok then (False, s) else bExtFlash_WriteDisable E s)"

text \<open>None when the register could not be read.\<close>

definition bGet_ExtFlash_Busy :: "('w, 'z) flash_services_scheme \<Rightarrow> 'w flash_sys \<Rightarrow> bool option \<times> 'w flash_sys" where
  "bGet_ExtFlash_Busy E s =
     (let (ok, s) = bRead_Status_Register E s in (if \<not> ok then None else Some (WIP (Flash_StatusReg s)), s))"

definition bIsExtFlash_WEL_Cleared :: "('w, 'z) flash_services_scheme \<Rightarrow> 'w flash_sys \<Rightarrow> bool \<times> 'w flash_sys" where
  "bIsExtFlash_WEL_Cleared E s =
     (let (ok, s) = bRead_Status_Register E s in (ok \<and> \<not> WEL (Flash_StatusReg s), s))"

definition bExec_Flash_InitialSetup :: "('w, 'z) flash_services_scheme \<Rightarrow> 'w flash_sys \<Rightarrow> bool \<times> 'w flash_sys" where
  "bExec_Flash_InitialSetup E s =
     (let (ok, s) = bGet_JEDEC_ID E s in if \<not> ok then (False, s) else
      let (ok, s) = bRead_Status_Register E s in if \<not> ok then (False, s) else
      let (ok, s) = bRead_Config_Registers E s in if \<not> ok then (False, s) else
      let (ok, s) = bExtFlash_Validate_WREnableDisable E s in if \<not> ok then (False, s) else
      bPerform_SFDPMode E s)"

definition bInit_ExtFlashHardware :: "('w, 'z) flash_services_scheme \<Rightarrow> 'w flash_sys \<Rightarrow> bool \<times> 'w flash_sys" where
  "bInit_ExtFlashHardware E s =
     (if bIsExtFlashSetupSuccess s then (True, s)
      else
        (let (ok, s) = bInit_LPSPI_ForExtFlash E s in
         if \<not> ok then (False, s\<lparr>bIsExtFlashSetupSuccess := False\<rparr>)
         else
           (let (ok, s) = bExec_Flash_InitialSetup E s in (ok, s\<lparr>bIsExtFlashSetupSuccess := ok\<rparr>))))"

text \<open>The tests on the target are switched off in Flash_Memory_ValidateTest_ProjDef.h.\<close>

definition bRun_FlashMemory_ValidationTests :: bool where "bRun_FlashMemory_ValidationTests = True"

definition bInit_ExtFlash :: "('w, 'z) flash_services_scheme \<Rightarrow> 'w flash_sys \<Rightarrow> bool \<times> 'w flash_sys" where
  "bInit_ExtFlash E s =
     (let (ok, s) = bInit_ExtFlashHardware E s
      in if \<not> ok then (False, s) else if \<not> bRun_FlashMemory_ValidationTests then (False, s) else (True, s))"

subsection \<open>Writing and erasing\<close>

text \<open>The wait for the end of a program or erase operation.\<close>

partial_function (option) poll_busy ::
  "('w, 'z) flash_services_scheme \<Rightarrow> u32 \<Rightarrow> u32 \<Rightarrow> 'w flash_sys \<Rightarrow> (int \<times> 'w flash_sys) option" where
  "poll_busy E uiTimeout_ms uiStartTime s =
     (let (busy, s) = bGet_ExtFlash_Busy E s in
      if busy = None then Some (- EIO, s)
      else if busy = Some False then Some (0, s)
      else
        (let (now, s) = flash_io (flash_uptime_32 E) s in
         if now - uiStartTime \<ge> uiTimeout_ms then Some (- ETIMEDOUT, s)
         else poll_busy E uiTimeout_ms uiStartTime (s\<lparr>fl_world := flash_msleep E 2 (fl_world s)\<rparr>)))"

definition iPoll_ExtBusyStatus_Sync ::
  "('w, 'z) flash_services_scheme \<Rightarrow> u32 \<Rightarrow> 'w flash_sys \<Rightarrow> (int \<times> 'w flash_sys) option" where
  "iPoll_ExtBusyStatus_Sync E uiTimeout_ms s =
     (let (start, s) = flash_io (flash_uptime_32 E) s in do {
        (r, s) \<leftarrow> poll_busy E uiTimeout_ms start s;
        if r \<noteq> 0 then Some (r, s)
        else (let (cleared, s) = bIsExtFlash_WEL_Cleared E s in Some (if cleared then 0 else - EIO, s))
      })"

text \<open>A command that changes the flash: enable, send, wait.\<close>

definition modify_flash ::
  "('w, 'z) flash_services_scheme \<Rightarrow> u8 list \<Rightarrow> u32 \<Rightarrow> 'w flash_sys \<Rightarrow> (int \<times> 'w flash_sys) option" where
  "modify_flash E cmd uiTimeout_ms s =
     (let (ok, s) = bExtFlash_WriteEnable E s in
      if \<not> ok then Some (- EIO, s)
      else
        (let (ok, s) = bSPI_Write E (tx_only cmd) s in
         if \<not> ok then Some (- EIO, s) else iPoll_ExtBusyStatus_Sync E uiTimeout_ms s))"

text \<open>As many bytes as are left in the page of the address.\<close>

definition page_part :: "u32 \<Rightarrow> nat \<Rightarrow> nat" where
  "page_part a n =
     (let uiAvailableBytes = EXT_FLASH_PAGE_SIZE_BYTEs - unat (a AND 0xFF)
      in if uiAvailableBytes > n then n else uiAvailableBytes)"

lemma unat_low_byte: "unat (a AND 0xFF :: u32) = unat a mod 256"
proof -
  have "(a AND 0xFF :: u32) = take_bit 8 a" by (simp add: take_bit_eq_mask mask_eq_exp_minus_1)
  then show ?thesis by (simp add: take_bit_eq_mod unat_mod_distrib)
qed

lemma page_part_eq: "page_part a n = min n (256 - unat a mod 256)"
  by (auto simp: page_part_def unat_low_byte flash_consts min_def Let_def)

lemma page_part_pos: "0 < n \<Longrightarrow> 0 < page_part a n"
  by (simp add: page_part_eq)

function write_pages ::
  "('w, 'z) flash_services_scheme \<Rightarrow> u32 \<Rightarrow> u8 list \<Rightarrow> 'w flash_sys \<Rightarrow> (int \<times> 'w flash_sys) option" where
  "write_pages E uiMemAddr d s =
     (if d = [] then Some (0, s)
      else
        (let n = page_part uiMemAddr (length d) in do {
           (r, s) \<leftarrow> modify_flash E (addressed EXT_FLASH_WRITE_CMD uiMemAddr @ take n d) 50 s;
           if r \<noteq> 0 then Some (r, s) else write_pages E (uiMemAddr + of_nat n) (drop n d) s
         }))"
  by pat_completeness auto
termination by (relation "measure (\<lambda>(E, a, d, s). length d)") (auto simp: page_part_pos)

declare write_pages.simps [simp del]

definition iWrite_DataToFlash ::
  "('w, 'z) flash_services_scheme \<Rightarrow> u32 \<Rightarrow> u8 list option \<Rightarrow> 'w flash_sys \<Rightarrow> (int \<times> 'w flash_sys) option" where
  "iWrite_DataToFlash E uiAddr puiData s =
     (case puiData of
        None \<Rightarrow> Some (- EINVAL, s)
      | Some d \<Rightarrow>
          if length d = 0 then Some (- EINVAL, s)
          else if \<not> bIsExtFlashSetupSuccess s then Some (- ENODEV, s)
          else write_pages E uiAddr d s)"

definition iErase_Flash_4KB :: "('w, 'z) flash_services_scheme \<Rightarrow> u32 \<Rightarrow> 'w flash_sys \<Rightarrow> (int \<times> 'w flash_sys) option" where
  "iErase_Flash_4KB E uiAddr s =
     (if unat uiAddr mod EXT_FLASH_SECTOR_SIZE_BYTES \<noteq> 0 then Some (- EINVAL, s)
      else if \<not> bIsExtFlashSetupSuccess s then Some (- ENODEV, s)
      else modify_flash E (addressed EXT_FLASH_4KB_SECTOR_ERASE uiAddr) 2000 s)"

subsection \<open>Reading\<close>

text \<open>A result below zero, or the bytes read.\<close>

function read_normal ::
  "('w, 'z) flash_services_scheme \<Rightarrow> u32 \<Rightarrow> nat \<Rightarrow> 'w flash_sys \<Rightarrow> (int + u8 list) \<times> 'w flash_sys" where
  "read_normal E uiMemAddr len s =
     (if len = 0 then (Inr [], s)
      else
        (let n = (if len < DEFAULT_READ_BUFF_LENGTH then len else DEFAULT_READ_BUFF_LENGTH);
             (rx, s) = bSPI_Transceive E (tx_rx (addressed EXT_FLASH_READ_CMD uiMemAddr @ replicate n 0) 4) s in
         case rx of
           None \<Rightarrow> (Inl (- EIO), s)
         | Some b \<Rightarrow>
             (let (rest, s) = read_normal E (uiMemAddr + of_nat n) (len - n) s in
              (case rest of Inl e \<Rightarrow> Inl e | Inr d \<Rightarrow> Inr (map b [4..<4 + n] @ d), s))))"
  by pat_completeness auto
termination by (relation "measure (\<lambda>(E, a, n, s). n)") (auto simp: flash_consts)

declare read_normal.simps [simp del]

definition iRead_DataFromFlash_Normal ::
  "('w, 'z) flash_services_scheme \<Rightarrow> u32 \<Rightarrow> bool \<Rightarrow> nat \<Rightarrow> 'w flash_sys \<Rightarrow> (int + u8 list) \<times> 'w flash_sys" where
  "iRead_DataFromFlash_Normal E uiAddr has_buffer uiDataLen s =
     (if \<not> bIsExtFlashSetupSuccess s then (Inl (- ENODEV), s)
      else if uiDataLen = 0 then (Inl (- EINVAL), s)
      else if \<not> has_buffer then (Inl (- EINVAL), s)
      else read_normal E uiAddr uiDataLen s)"

text \<open>Command, a dummy byte, and the data on four lines.\<close>

definition vPrepare_MultiPhaseConfig :: "u8 list \<Rightarrow> u8 list \<Rightarrow> nat \<Rightarrow> sT_SPITransferPhase_Config_t list" where
  "vPrepare_MultiPhaseConfig cmd dummy n =
     [\<lparr>ph_eType = eTransfer_Tx_Only, ph_eWidth = e1bit_Transfer, ph_puiTxData = cmd, ph_uiDataLen = length cmd, ph_uiBytesPerFrame = 4\<rparr>,
      \<lparr>ph_eType = eTransfer_Tx_Only, ph_eWidth = e1bit_Transfer, ph_puiTxData = dummy, ph_uiDataLen = length dummy, ph_uiBytesPerFrame = 1\<rparr>,
      \<lparr>ph_eType = eTransfer_Rx_Only, ph_eWidth = e4bit_Transfer, ph_puiTxData = [], ph_uiDataLen = n, ph_uiBytesPerFrame = 4\<rparr>]"

function read_quad ::
  "('w, 'z) flash_services_scheme \<Rightarrow> u32 \<Rightarrow> nat \<Rightarrow> 'w flash_sys \<Rightarrow> (int + u8 list) \<times> 'w flash_sys" where
  "read_quad E uiCurrentAddress len s =
     (if len = 0 then (Inr [], s)
      else
        (let n = (if len > QUAD_READ_MAX_TRANSACTION_LENGTH then QUAD_READ_MAX_TRANSACTION_LENGTH else len);
             (rx, s) = bSPI_MultiPhaseTranseive E (vPrepare_MultiPhaseConfig (addressed EXT_FLASH_QUAD_READ_CMD uiCurrentAddress) [0] n) s in
         case rx of
           None \<Rightarrow> (Inl (- EIO), s)
         | Some b \<Rightarrow>
             (let (rest, s) = read_quad E (uiCurrentAddress + of_nat n) (len - n) s in
              (case rest of Inl e \<Rightarrow> Inl e | Inr d \<Rightarrow> Inr (map b [0..<n] @ d), s))))"
  by pat_completeness auto
termination by (relation "measure (\<lambda>(E, a, n, s). n)") (auto simp: flash_consts)

declare read_quad.simps [simp del]

definition iRead_DataFromFlash_Quad ::
  "('w, 'z) flash_services_scheme \<Rightarrow> u32 \<Rightarrow> bool \<Rightarrow> nat \<Rightarrow> 'w flash_sys \<Rightarrow> (int + u8 list) \<times> 'w flash_sys" where
  "iRead_DataFromFlash_Quad E uiAddr has_buffer uiDataLen s =
     (if \<not> bIsExtFlashSetupSuccess s then (Inl (- ENODEV), s)
      else if uiDataLen = 0 then (Inl (- EINVAL), s)
      else if \<not> has_buffer then (Inl (- EINVAL), s)
      else read_quad E uiAddr uiDataLen s)"

subsection \<open>The flash device of Zephyr\<close>

text \<open>\<open>size-in-bytes\<close>, \<open>erase-block-size\<close> and \<open>write-block-size\<close> of ExtFlash_Ctrl.overlay.\<close>

definition stTZephyrFlashConfig :: sT_ZephyrFlashConfig_t where
  "stTZephyrFlashConfig = \<lparr>zf_uiDeviceSize = 0x800000, zf_uiEraseBlockSize = 4096, zf_uiWriteBlockSize = 1,
     zf_uiEraseValue = EXT_FLASH_ERASE_VALUE\<rparr>"

text \<open>The device and its configuration and data are never null.\<close>

definition iValidate_FlashRange :: "int \<Rightarrow> nat \<Rightarrow> int" where
  "iValidate_FlashRange tOffset uiLength =
     (if tOffset < 0 then - EINVAL
      else if nat tOffset > zf_uiDeviceSize stTZephyrFlashConfig then - EINVAL
      else if uiLength > zf_uiDeviceSize stTZephyrFlashConfig - nat tOffset then - EINVAL
      else 0)"

definition iZephyrFlash_Init :: "('w, 'z) flash_services_scheme \<Rightarrow> 'w flash_sys \<Rightarrow> int \<times> 'w flash_sys" where
  "iZephyrFlash_Init E s =
     (let (ok, s) = bInit_ExtFlashHardware E (s\<lparr>fl_world := flash_msleep E 300 (fl_world s)\<rparr>) in (if ok then 0 else - EIO, s))"

definition iZephyrFlash_Read ::
  "('w, 'z) flash_services_scheme \<Rightarrow> int \<Rightarrow> bool \<Rightarrow> nat \<Rightarrow> 'w flash_sys \<Rightarrow> (int + u8 list) \<times> 'w flash_sys" where
  "iZephyrFlash_Read E tOffset has_buffer uiLength s =
     (let r = iValidate_FlashRange tOffset uiLength in
      if r < 0 then (Inl r, s)
      else if uiLength = 0 then (Inr [], s)
      else if \<not> has_buffer then (Inl (- EINVAL), s)
      else
        (let (r, s) = flash_io (flash_mutex_lock E) s in
         if r < 0 then (Inl r, s)
         else
           (let (res, s) = iRead_DataFromFlash_Quad E (word_of_int tOffset) True uiLength s;
                (u, s) = flash_io (flash_mutex_unlock E) s
            in (case res of Inl e \<Rightarrow> Inl e | Inr d \<Rightarrow> if u < 0 then Inl u else Inr d, s))))"

text \<open>The buffer holds as many bytes as the length says.\<close>

definition iZephyrFlash_Write ::
  "('w, 'z) flash_services_scheme \<Rightarrow> int \<Rightarrow> u8 list option \<Rightarrow> nat \<Rightarrow> 'w flash_sys \<Rightarrow> (int \<times> 'w flash_sys) option" where
  "iZephyrFlash_Write E tOffset pData uiLength s =
     (let r = iValidate_FlashRange tOffset uiLength; wb = zf_uiWriteBlockSize stTZephyrFlashConfig in
      if r < 0 then Some (r, s)
      else if uiLength = 0 then Some (0, s)
      else if pData = None then Some (- EINVAL, s)
      else if wb = 0 then Some (- EINVAL, s)
      else if nat tOffset mod wb \<noteq> 0 \<or> uiLength mod wb \<noteq> 0 then Some (- EINVAL, s)
      else
        (let (r, s) = flash_io (flash_mutex_lock E) s in
         if r < 0 then Some (r, s)
         else do {
           (r, s) \<leftarrow> iWrite_DataToFlash E (word_of_int tOffset) (map_option (take uiLength) pData) s;
           let (u, s) = flash_io (flash_mutex_unlock E) s;
           Some (if r = 0 \<and> u < 0 then u else r, s)
         }))"

function erase_blocks ::
  "('w, 'z) flash_services_scheme \<Rightarrow> nat \<Rightarrow> u32 \<Rightarrow> nat \<Rightarrow> 'w flash_sys \<Rightarrow> (int \<times> 'w flash_sys) option" where
  "erase_blocks E uiEraseBlockSize uiCurrentAddress uiRemainingLength s =
     (if uiRemainingLength = 0 \<or> uiEraseBlockSize = 0 then Some (0, s)
      else do {
        (r, s) \<leftarrow> iErase_Flash_4KB E uiCurrentAddress s;
        if r < 0 then Some (r, s)
        else erase_blocks E uiEraseBlockSize (uiCurrentAddress + of_nat uiEraseBlockSize) (uiRemainingLength - uiEraseBlockSize) s
      })"
  by pat_completeness auto
termination by (relation "measure (\<lambda>(E, b, a, n, s). n)") auto

declare erase_blocks.simps [simp del]

definition iZephyrFlash_Erase ::
  "('w, 'z) flash_services_scheme \<Rightarrow> int \<Rightarrow> nat \<Rightarrow> 'w flash_sys \<Rightarrow> (int \<times> 'w flash_sys) option" where
  "iZephyrFlash_Erase E tOffset uiLength s =
     (let r = iValidate_FlashRange tOffset uiLength; eb = zf_uiEraseBlockSize stTZephyrFlashConfig in
      if r < 0 then Some (r, s)
      else if uiLength = 0 then Some (0, s)
      else if eb = 0 then Some (- EINVAL, s)
      else if nat tOffset mod eb \<noteq> 0 \<or> uiLength mod eb \<noteq> 0 then Some (- EINVAL, s)
      else
        (let (r, s) = flash_io (flash_mutex_lock E) s in
         if r < 0 then Some (r, s)
         else do {
           (r, s) \<leftarrow> erase_blocks E eb (word_of_int tOffset) uiLength s;
           let (u, s) = flash_io (flash_mutex_unlock E) s;
           Some (if r = 0 \<and> u < 0 then u else r, s)
         }))"

text \<open>What the device tells of itself: block size and erase value, size, and pages with their size.\<close>

definition pstGet_ZephyrFlashParameters :: "nat \<times> u8" where
  "pstGet_ZephyrFlashParameters = (EXT_FLASH_WRITE_BLOCK_SIZE_BYTEs, EXT_FLASH_ERASE_VALUE)"

definition iGet_ZephyrFlashSize :: nat where
  "iGet_ZephyrFlashSize = EXT_FLASH_TOTAL_SIZE_BYTEs"

definition vGet_ZephyrFlashPageLayout :: "nat \<times> nat" where
  "vGet_ZephyrFlashPageLayout = (EXT_FLASH_PAGE_COUNT, EXT_FLASH_ERASE_BLOCK_SIZE_BYTEs)"

end
