(* ===== verification/Flash_Chip.thy ===== *)
theory Flash_Chip
  imports Flash_Driver
begin

text \<open>
  The chip behind the drivers and the flash interface on top of them, as two contracts. \<open>nor_flash\<close> states what the data sheet of a
  serial NOR flash says of its commands: latch, busy bit, programming within a page, erasing of a sector, reading. \<open>flash_device\<close> is
  what a client of Zephyr's flash interface relies on. The second follows from the first for the functions of the drivers.
\<close>

subsection \<open>The contract of the flash interface\<close>

definition and_bytes :: "nat \<Rightarrow> u8 list \<Rightarrow> (nat \<Rightarrow> u8) \<Rightarrow> nat \<Rightarrow> u8" where
  "and_bytes a d m = (\<lambda>k. if a \<le> k \<and> k < a + length d then m k AND d ! (k - a) else m k)"

definition erase_bytes :: "nat \<Rightarrow> nat \<Rightarrow> (nat \<Rightarrow> u8) \<Rightarrow> nat \<Rightarrow> u8" where
  "erase_bytes a n m = (\<lambda>k. if a \<le> k \<and> k < a + n then 0xFF else m k)"

definition same_outside :: "nat \<Rightarrow> nat \<Rightarrow> (nat \<Rightarrow> u8) \<Rightarrow> (nat \<Rightarrow> u8) \<Rightarrow> bool" where
  "same_outside a n m m' \<longleftrightarrow> (\<forall>k. k < a \<or> a + n \<le> k \<longrightarrow> m' k = m k)"

lemma same_outside_refl [simp]: "same_outside a n m m"
  by (simp add: same_outside_def)

lemma same_outside_and: "same_outside a (length d) m (and_bytes a d m)"
  by (simp add: same_outside_def and_bytes_def)

lemma same_outside_erase: "same_outside a n m (erase_bytes a n m)"
  by (simp add: same_outside_def erase_bytes_def)

lemma same_outside_trans:
  assumes "same_outside a n m1 m2" and "same_outside b k m2 m3" and "l \<le> a" "a + n \<le> l + j" "l \<le> b" "b + k \<le> l + j"
  shows "same_outside l j m1 m3"
  using assms by (auto simp: same_outside_def)

lemma and_bytes_append: "and_bytes (a + length d) e (and_bytes a d m) = and_bytes a (d @ e) m"
proof
  fix k show "and_bytes (a + length d) e (and_bytes a d m) k = and_bytes a (d @ e) m k"
    by (auto simp: and_bytes_def nth_append)
qed

lemma and_bytes_nil [simp]: "and_bytes a [] m = m"
  by (rule ext) (auto simp: and_bytes_def)

lemma ff_and [simp]: "(0xFF :: u8) AND x = x"
proof -
  have "(0xFF :: u8) = - 1" by simp
  then show ?thesis by (simp only: and.left_neutral)
qed

lemma erase_bytes_append: "erase_bytes (a + n) k (erase_bytes a n m) = erase_bytes a (n + k) m"
  by (rule ext) (auto simp: erase_bytes_def)

lemma erase_bytes_0 [simp]: "erase_bytes a 0 m = m"
  by (rule ext) (auto simp: erase_bytes_def)

locale flash_device =
  fixes rd :: "int \<Rightarrow> nat \<Rightarrow> 's \<Rightarrow> (int + u8 list) \<times> 's"
    and wr :: "int \<Rightarrow> u8 list \<Rightarrow> 's \<Rightarrow> (int \<times> 's) option"
    and er :: "int \<Rightarrow> nat \<Rightarrow> 's \<Rightarrow> (int \<times> 's) option"
    and cells :: "'s \<Rightarrow> nat \<Rightarrow> u8"
    and ready :: "'s \<Rightarrow> bool"
  assumes rd_law: "ready s \<Longrightarrow> rd a n s = (Inr d, s') \<Longrightarrow> 0 \<le> a \<and> ready s' \<and> cells s' = cells s \<and> d = mem_bytes (cells s) (nat a) n"
    and wr_law: "ready s \<Longrightarrow> wr a d s = Some (0, s') \<Longrightarrow> 0 \<le> a \<and> ready s' \<and> cells s' = and_bytes (nat a) d (cells s)"
    and wr_frame: "ready s \<Longrightarrow> wr a d s = Some (r, s') \<Longrightarrow> same_outside (nat a) (length d) (cells s) (cells s')"
    and er_law: "ready s \<Longrightarrow> er a n s = Some (0, s') \<Longrightarrow> 0 \<le> a \<and> ready s' \<and> cells s' = erase_bytes (nat a) n (cells s)"
    and er_frame: "ready s \<Longrightarrow> er a n s = Some (r, s') \<Longrightarrow> same_outside (nat a) n (cells s) (cells s')"
begin

text \<open>What is written into an erased range is read back.\<close>

lemma store_retrieve:
  assumes "ready s" and "er a n s = Some (0, s1)" and "wr b d s1 = Some (0, s2)" and "rd b (length d) s2 = (Inr e, s3)"
    and "a \<le> b" and "nat b + length d \<le> nat a + n"
  shows "e = d \<and> same_outside (nat a) n (cells s) (cells s3)"
proof -
  have 1: "0 \<le> a" "ready s1" "cells s1 = erase_bytes (nat a) n (cells s)" using er_law [OF assms(1,2)] by auto
  have 2: "ready s2" "cells s2 = and_bytes (nat b) d (cells s1)" using wr_law [OF 1(2) assms(3)] by auto
  have 3: "cells s3 = cells s2" "e = mem_bytes (cells s2) (nat b) (length d)" using rd_law [OF 2(1) assms(4)] by auto
  have "e = d"
  proof (rule nth_equalityI)
    fix i assume "i < length e"
    then have i: "i < length d" by (simp add: 3)
    have "nat a \<le> nat b" using assms(5) by (rule nat_mono)
    with i assms(6) show "e ! i = d ! i"
      by (simp add: 3 2 1 and_bytes_def erase_bytes_def)
  qed (simp add: 3)
  moreover have "same_outside (nat a) n (cells s) (cells s3)"
    using assms(5,6) by (auto simp: 3 2 1 same_outside_def and_bytes_def erase_bytes_def)
  ultimately show ?thesis by simp
qed

end

subsection \<open>The contract of the chip\<close>

record nor_state =
  nor_cells :: "nat \<Rightarrow> u8"
  nor_wel :: bool
  nor_wip :: bool
  nor_qe :: bool

definition nor_size :: nat where "nor_size = 0x800000"

text \<open>The address behind a command byte.\<close>

definition nor_address :: "u8 list \<Rightarrow> nat" where
  "nor_address d = (unat (d ! 1) * 65536 + unat (d ! 2) * 256 + unat (d ! 3)) mod nor_size"

text \<open>Bytes behind the end of a page go to its start.\<close>

definition nor_program :: "nat \<Rightarrow> u8 list \<Rightarrow> (nat \<Rightarrow> u8) \<Rightarrow> nat \<Rightarrow> u8" where
  "nor_program a d m = (\<lambda>k. let i = (k mod 256 + 256 - a mod 256) mod 256 in
     if k div 256 = a div 256 \<and> i < length d then m k AND d ! i else m k)"

text \<open>What a command does: nothing while the chip is busy but showing the status, no change without the latch.\<close>

definition nor_command :: "u8 list \<Rightarrow> nor_state \<Rightarrow> nor_state" where
  "nor_command d c =
     (if d = [] \<or> nor_wip c then c
      else if hd d = WRITE_ENABLE_CMD then c\<lparr>nor_wel := True\<rparr>
      else if hd d = WRITE_DISABLE_CMD then c\<lparr>nor_wel := False\<rparr>
      else if hd d = EXT_FLASH_WRITE_CMD \<and> nor_wel c
        then c\<lparr>nor_cells := nor_program (nor_address d) (drop 4 d) (nor_cells c), nor_wip := True\<rparr>
      else if hd d = EXT_FLASH_4KB_SECTOR_ERASE \<and> nor_wel c
        then c\<lparr>nor_cells := erase_bytes (nor_address d - nor_address d mod 4096) 4096 (nor_cells c), nor_wip := True\<rparr>
      else c)"

text \<open>As time passes, the operation under way may end, which clears the latch.\<close>

definition settles :: "nor_state \<Rightarrow> nor_state \<Rightarrow> bool" where
  "settles c c' \<longleftrightarrow> c' = c \<or> nor_wip c \<and> c' = c\<lparr>nor_wip := False, nor_wel := False\<rparr>"

text \<open>A transfer that failed was executed or not.\<close>

definition may_execute :: "u8 list \<Rightarrow> nor_state \<Rightarrow> nor_state \<Rightarrow> bool" where
  "may_execute d c c' \<longleftrightarrow> (\<exists>b. settles c b \<and> (settles b c' \<or> settles (nor_command d b) c'))"

definition executes :: "u8 list \<Rightarrow> nor_state \<Rightarrow> nor_state \<Rightarrow> nor_state \<Rightarrow> bool" where
  "executes d c b c' \<longleftrightarrow> settles c b \<and> settles (nor_command d b) c'"

locale nor_flash =
  fixes E :: "('w, 'z) flash_services_scheme" and chip :: "'w \<Rightarrow> nor_state"
  assumes idle_lock: "settles (chip w) (chip (snd (spi_mutex_lock E w)))"
    and idle_uptime: "settles (chip w) (chip (snd (flash_uptime_32 E w)))"
    and idle_sleep: "settles (chip w) (chip (flash_msleep E n w))"
    and idle_mutex: "settles (chip w) (chip (snd (flash_mutex_lock E w)))" "settles (chip w) (chip (snd (flash_mutex_unlock E w)))"
    and start_fails: "bSPI_Transfer_InMasterMode E t w = (False, w1) \<Longrightarrow> may_execute (st_puiTxData t) (chip w) (chip w1)"
    and done_fails: "bSPI_Transfer_InMasterMode E t w = (True, w1) \<Longrightarrow> may_execute (st_puiTxData t) (chip w) (chip (snd (spi_completion E ms w1)))"
    and done_ok: "bSPI_Transfer_InMasterMode E t w = (True, w1) \<Longrightarrow> spi_completion E ms w1 = (Some (eTransfer_Success, rx), w2)
      \<Longrightarrow> length (st_puiTxData t) \<le> 260 \<Longrightarrow> \<exists>b. executes (st_puiTxData t) (chip w) b (chip w2)
        \<and> (st_puiTxData t = [STATUS_REG_READ_CMD, 0] \<longrightarrow> WIP (rx 1) = nor_wip b \<and> WEL (rx 1) = nor_wel b)
        \<and> (\<forall>a n i. st_puiTxData t = addressed EXT_FLASH_READ_CMD a @ replicate n 0 \<longrightarrow> \<not> nor_wip b \<longrightarrow> i < n
             \<longrightarrow> rx (4 + i) = nor_cells b ((nor_address (st_puiTxData t) + i) mod nor_size))"
    and sequence_idle: "settles (chip w) (chip (snd (bSPI_TransferSequence_InMasterMode E p w)))"
      "bSPI_TransferSequence_InMasterMode E p w = (True, w1) \<Longrightarrow> settles (chip w) (chip (snd (spi_completion E ms w1)))"
    and sequence_ok: "bSPI_TransferSequence_InMasterMode E (vPrepare_MultiPhaseConfig (addressed EXT_FLASH_QUAD_READ_CMD a) [0] n) w = (True, w1)
      \<Longrightarrow> spi_completion E ms w1 = (Some (eTransfer_Success, rx), w2) \<Longrightarrow> \<not> nor_wip (chip w) \<Longrightarrow> nor_qe (chip w) \<Longrightarrow> i < n
      \<Longrightarrow> rx i = nor_cells (chip w) ((unat a + i) mod nor_size)"

end
