(* ===== verification/Flash_Refine.thy ===== *)
theory Flash_Refine
  imports Flash_Chip
begin

text \<open>
  The drivers on a chip that keeps its contract: what each function does to the cells, whatever its result, and that the functions of
  the flash device keep the contract of Zephyr's flash interface.
\<close>

subsection \<open>Commands and addresses\<close>

lemma settles_refl [simp]: "settles c c"
  by (simp add: settles_def)

lemma settles_trans: "settles a b \<Longrightarrow> settles b c \<Longrightarrow> settles a c"
  by (auto simp: settles_def)

lemma settles_idle: "settles c c' \<Longrightarrow> \<not> nor_wip c \<Longrightarrow> c' = c"
  by (auto simp: settles_def)

lemma settles_same: "settles c c' \<Longrightarrow> nor_cells c' = nor_cells c \<and> nor_qe c' = nor_qe c"
  by (auto simp: settles_def)

lemma settles_done: "settles c c' \<Longrightarrow> \<not> nor_wip c' \<Longrightarrow> nor_wip c \<Longrightarrow> \<not> nor_wel c'"
  by (auto simp: settles_def)

lemma may_execute_settles: "settles a b \<Longrightarrow> may_execute d b c \<Longrightarrow> may_execute d a c"
  unfolding may_execute_def by (meson settles_trans)

lemma settles_may_execute: "settles a b \<Longrightarrow> may_execute d a b"
  unfolding may_execute_def by (meson settles_refl)

lemma status_command [simp]: "nor_command [STATUS_REG_READ_CMD, 0] c = c"
  by (simp add: nor_command_def flash_consts)

lemma command_qe [simp]: "nor_qe (nor_command d c) = nor_qe c"
  by (simp add: nor_command_def)

lemma enable_command: "nor_command [WRITE_ENABLE_CMD] c = (if nor_wip c then c else c\<lparr>nor_wel := True\<rparr>)"
  by (simp add: nor_command_def)

lemma unat_bytes_u32:
  "unat (ucast (drop_bit 16 a) :: u8) * 65536 + unat (ucast (drop_bit 8 a) :: u8) * 256 + unat (ucast a :: u8) = unat (a :: u32) mod 16777216"
proof -
  have 1: "unat (ucast (drop_bit 16 a) :: u8) = unat a div 65536 mod 256"
    by (simp add: unsigned_ucast_eq take_bit_eq_mod unat_drop_bit_eq drop_bit_eq_div unat_div_distrib)
  have 2: "unat (ucast (drop_bit 8 a) :: u8) = unat a div 256 mod 256"
    by (simp add: unsigned_ucast_eq take_bit_eq_mod unat_drop_bit_eq drop_bit_eq_div unat_div_distrib)
  have 3: "unat (ucast a :: u8) = unat a mod 256"
    by (simp add: unsigned_ucast_eq take_bit_eq_mod)
  have "x div 65536 mod 256 * 65536 + x div 256 mod 256 * 256 + x mod 256 = x mod 16777216" for x :: nat
    using mod_mult2_eq [of x 65536 256] mod_mult2_eq [of x 256 256] by simp
  then show ?thesis unfolding 1 2 3 .
qed

lemma nor_address_addressed: "unat a < nor_size \<Longrightarrow> nor_address (addressed cmd a @ x) = unat a"
proof -
  assume a: "unat a < nor_size"
  have "nor_address (addressed cmd a @ x) = unat a mod 16777216 mod nor_size"
    unfolding nor_address_def unat_bytes_u32 [symmetric] by (simp add: addressed_def numeral_2_eq_2 numeral_3_eq_3)
  then show ?thesis using a by (simp add: nor_size_def)
qed

lemma page_index:
  fixes a k n :: nat
  assumes "n \<le> 256 - a mod 256"
  shows "k div 256 = a div 256 \<and> (k mod 256 + 256 - a mod 256) mod 256 < n \<longleftrightarrow> a \<le> k \<and> k < a + n"
    and "a \<le> k \<Longrightarrow> k < a + n \<Longrightarrow> (k mod 256 + 256 - a mod 256) mod 256 = k - a"
proof -
  obtain q r where k: "k = 256 * q + r" "r < 256" by (metis mod_less_divisor mult_div_mod_eq zero_less_numeral)
  obtain p t where a: "a = 256 * p + t" "t < 256" by (metis mod_less_divisor mult_div_mod_eq zero_less_numeral)
  have d: "k div 256 = q" "k mod 256 = r" "a div 256 = p" "a mod 256 = t" using k a by auto
  have i: "(r + 256 - t) mod 256 = (if t \<le> r then r - t else r + 256 - t)"
  proof (cases "t \<le> r")
    case True
    then have e: "r + 256 - t = (r - t) + 256" by simp
    show ?thesis unfolding e mod_add_self2 using True k(2) by simp
  qed (use a(2) in simp)
  have n: "n \<le> 256 - t" using assms unfolding d .
  show "k div 256 = a div 256 \<and> (k mod 256 + 256 - a mod 256) mod 256 < n \<longleftrightarrow> a \<le> k \<and> k < a + n"
    unfolding d i unfolding k(1) a(1) using n k(2) a(2) by (cases q p rule: linorder_cases) auto
  show "a \<le> k \<Longrightarrow> k < a + n \<Longrightarrow> (k mod 256 + 256 - a mod 256) mod 256 = k - a"
    unfolding d i unfolding k(1) a(1) using n k(2) a(2) by (cases q p rule: linorder_cases) auto
qed

lemma program_page: "length d \<le> 256 - a mod 256 \<Longrightarrow> nor_program a d m = and_bytes a d m"
proof
  fix k assume "length d \<le> 256 - a mod 256"
  from page_index [OF this, of k] show "nor_program a d m k = and_bytes a d m k"
    by (auto simp: nor_program_def and_bytes_def Let_def)
qed

subsection \<open>Transfers and registers\<close>

text \<open>The drivers are set up, and the chip is idle and reads on four lines.\<close>

definition flash_ready :: "('w \<Rightarrow> nor_state) \<Rightarrow> 'w flash_sys \<Rightarrow> bool" where
  "flash_ready chip s \<longleftrightarrow> bIsExtFlashSetupSuccess s \<and> \<not> nor_wip (chip (fl_world s)) \<and> nor_qe (chip (fl_world s))"

context nor_flash
begin

abbreviation st :: "'w flash_sys \<Rightarrow> nor_state" where "st s \<equiv> chip (fl_world s)"

abbreviation ready :: "'w flash_sys \<Rightarrow> bool" where "ready s \<equiv> flash_ready chip s"

lemma transfer_any:
  assumes "transfer E ms (bSPI_Transfer_InMasterMode E t) s = (r, s')"
  shows "may_execute (st_puiTxData t) (st s) (st s') \<and> bIsExtFlashSetupSuccess s' = bIsExtFlashSetupSuccess s"
proof -
  obtain l w1 where l: "spi_mutex_lock E (fl_world s) = (l, w1)" by fastforce
  obtain ok w2 where b: "bSPI_Transfer_InMasterMode E t w1 = (ok, w2)" by fastforce
  obtain c w3 where c: "spi_completion E ms w2 = (c, w3)" by fastforce
  have s1: "settles (st s) (chip w1)" using idle_lock [of "fl_world s"] l by simp
  have f2: "\<not> ok \<Longrightarrow> may_execute (st_puiTxData t) (st s) (chip w2)"
    using start_fails [of t w1 w2] b may_execute_settles [OF s1] by simp
  have f3: "ok \<Longrightarrow> may_execute (st_puiTxData t) (st s) (chip w3)"
    using done_fails [of t w1 w2 ms] b c may_execute_settles [OF s1] by simp
  show ?thesis
    using assms l b c f2 f3 settles_may_execute [OF s1, of "st_puiTxData t"]
    by (auto simp: transfer_def take_done_def flash_io_def vLPSPI1_Callback_def split: if_splits option.splits)
qed

lemma transfer_ok:
  assumes "transfer E ms (bSPI_Transfer_InMasterMode E t) s = (Some rx, s')" and "length (st_puiTxData t) \<le> 260"
  shows "\<exists>b. executes (st_puiTxData t) (st s) b (st s')
    \<and> (st_puiTxData t = [STATUS_REG_READ_CMD, 0] \<longrightarrow> WIP (rx 1) = nor_wip b \<and> WEL (rx 1) = nor_wel b)
    \<and> (\<forall>a n i. st_puiTxData t = addressed EXT_FLASH_READ_CMD a @ replicate n 0 \<longrightarrow> \<not> nor_wip b \<longrightarrow> i < n
         \<longrightarrow> rx (4 + i) = nor_cells b ((nor_address (st_puiTxData t) + i) mod nor_size))"
proof -
  obtain w1 w2 w3 where b: "spi_mutex_lock E (fl_world s) = (0, w1)" "bSPI_Transfer_InMasterMode E t w1 = (True, w2)"
    "spi_completion E ms w2 = (Some (eTransfer_Success, rx), w3)" "fl_world s' = w3"
    using assms(1)
    by (auto simp: transfer_def take_done_def flash_io_def vLPSPI1_Callback_def split: if_splits option.splits prod.splits)
  have "settles (st s) (chip w1)" using idle_lock [of "fl_world s"] b(1) by simp
  with done_ok [OF b(2,3) assms(2)] show ?thesis unfolding executes_def b(4) by (meson settles_trans)
qed

lemma read_status:
  assumes "bRead_Status_Register E s = (ok, s')"
  shows "settles (st s) (st s')" and "bIsExtFlashSetupSuccess s' = bIsExtFlashSetupSuccess s"
    and "ok \<Longrightarrow> \<exists>b. settles (st s) b \<and> settles b (st s') \<and> WIP (Flash_StatusReg s') = nor_wip b \<and> WEL (Flash_StatusReg s') = nor_wel b"
proof -
  let ?t = "tx_rx [STATUS_REG_READ_CMD, 0] 1"
  obtain r s1 where t: "transfer E 200 (bSPI_Transfer_InMasterMode E ?t) s = (r, s1)" by fastforce
  have s': "st s' = st s1" "ok = (r \<noteq> None)" "bIsExtFlashSetupSuccess s' = bIsExtFlashSetupSuccess s1"
    "r = Some x \<Longrightarrow> Flash_StatusReg s' = x 1" for x
    using assms t by (auto simp: bRead_Status_Register_def bSPI_Transceive_def split: option.splits)
  show "settles (st s) (st s')" "bIsExtFlashSetupSuccess s' = bIsExtFlashSetupSuccess s"
    using transfer_any [OF t] s' by (auto simp: may_execute_def tx_rx_def intro: settles_trans)
  assume ok
  then obtain x where x: "r = Some x" using s' by auto
  obtain b where "executes (st_puiTxData ?t) (st s) b (st s1)" "WIP (x 1) = nor_wip b \<and> WEL (x 1) = nor_wel b"
    using transfer_ok [OF t [unfolded x]] by (auto simp: tx_rx_def simp del: One_nat_def)
  then show "\<exists>b. settles (st s) b \<and> settles b (st s') \<and> WIP (Flash_StatusReg s') = nor_wip b \<and> WEL (Flash_StatusReg s') = nor_wel b"
    using s'(1) s'(4) [OF x] by (auto simp: executes_def tx_rx_def)
qed

lemma write_enable:
  assumes "bExtFlash_WriteEnable E s = (ok, s')" and "\<not> nor_wip (st s)"
  shows "st s' \<in> {st s, (st s)\<lparr>nor_wel := True\<rparr>}" and "bIsExtFlashSetupSuccess s' = bIsExtFlashSetupSuccess s"
    and "ok \<Longrightarrow> st s' = (st s)\<lparr>nor_wel := True\<rparr>"
proof -
  let ?t = "tx_only [WRITE_ENABLE_CMD]"
  obtain r s1 where t: "transfer E 5 (bSPI_Transfer_InMasterMode E ?t) s = (r, s1)" by fastforce
  obtain k s2 where u: "bRead_Status_Register E s1 = (k, s2)" by fastforce
  have s': "r = None \<Longrightarrow> s' = s1" "r \<noteq> None \<Longrightarrow> s' = s2" "ok \<Longrightarrow> r \<noteq> None"
    using assms(1) t u by (auto simp: bExtFlash_WriteEnable_def bSPI_Write_def split: if_splits)
  have 1: "st s1 \<in> {st s, (st s)\<lparr>nor_wel := True\<rparr>}" "\<not> nor_wip (st s1)"
    using transfer_any [OF t] assms(2) by (auto simp: may_execute_def tx_only_def enable_command dest!: settles_idle split: if_splits)
  have 2: "st s2 = st s1" using read_status(1) [OF u] settles_idle 1(2) by blast
  show "st s' \<in> {st s, (st s)\<lparr>nor_wel := True\<rparr>}" using 1 2 s' by (cases r) auto
  show "bIsExtFlashSetupSuccess s' = bIsExtFlashSetupSuccess s"
    using transfer_any [OF t] read_status(2) [OF u] s' by (cases r) auto
  assume ok
  then obtain x where x: "r = Some x" using s' by auto
  obtain b where "executes (st_puiTxData ?t) (st s) b (st s1)" using transfer_ok [OF t [unfolded x]] by (auto simp: tx_only_def)
  then have "st s1 = (st s)\<lparr>nor_wel := True\<rparr>"
    using assms(2) by (auto simp: executes_def tx_only_def enable_command dest!: settles_idle)
  then show "st s' = (st s)\<lparr>nor_wel := True\<rparr>" using 2 s' x by simp
qed

lemma poll_any:
  assumes "poll_busy E tmo t0 s = Some (r, s')"
  shows "settles (st s) (st s') \<and> bIsExtFlashSetupSuccess s' = bIsExtFlashSetupSuccess s \<and> (r = 0 \<longrightarrow> \<not> nor_wip (st s')) \<and> r \<le> 0"
proof -
  have "F = E \<longrightarrow> settles (st s) (st (snd x)) \<and> bIsExtFlashSetupSuccess (snd x) = bIsExtFlashSetupSuccess s
      \<and> (fst x = 0 \<longrightarrow> \<not> nor_wip (st (snd x))) \<and> fst x \<le> 0" if "poll_busy F tmo t0 s = Some x" for F x
    using that
  proof (induction rule: poll_busy.raw_induct [rotated, consumes 1, case_names step])
    case (step f F tmo t0 s x)
    show ?case
    proof
      assume F: "F = E"
      obtain k s1 where k: "bRead_Status_Register E s = (k, s1)" by fastforce
      note rs = read_status [OF k]
      obtain now w2 where w2: "flash_uptime_32 E (fl_world s1) = (now, w2)" by fastforce
      have u: "settles (st s) (chip w2)"
        using settles_trans [OF rs(1)] idle_uptime [of "fl_world s1"] w2 by simp
      have sl: "settles (st s) (chip (flash_msleep E 2 w2))" using settles_trans [OF u] idle_sleep by blast
      have idle: "k \<Longrightarrow> \<not> WIP (Flash_StatusReg s1) \<Longrightarrow> \<not> nor_wip (st s1)" using rs(3) by (auto simp: settles_def)
      show "settles (st s) (st (snd x)) \<and> bIsExtFlashSetupSuccess (snd x) = bIsExtFlashSetupSuccess s
        \<and> (fst x = 0 \<longrightarrow> \<not> nor_wip (st (snd x))) \<and> fst x \<le> 0"
      proof (cases "k \<and> WIP (Flash_StatusReg s1) \<and> now - t0 < tmo")
        case True
        then have "f E tmo t0 (s1\<lparr>fl_world := flash_msleep E 2 w2\<rparr>) = Some x"
          using step(2) k w2 by (auto simp: bGet_ExtFlash_Busy_def flash_io_def F split: if_splits)
        from step(1) [OF this] show ?thesis using sl rs(2) settles_trans by auto
      next
        case False
        then show ?thesis
          using step(2) k w2 rs(1,2) u idle by (auto simp: bGet_ExtFlash_Busy_def flash_io_def errno_defs F split: if_splits)
      qed
    qed
  qed
  from this [OF assms] show ?thesis by simp
qed

lemma poll_sync:
  assumes "iPoll_ExtBusyStatus_Sync E tmo s = Some (r, s')"
  shows "settles (st s) (st s') \<and> bIsExtFlashSetupSuccess s' = bIsExtFlashSetupSuccess s
    \<and> (r = 0 \<longrightarrow> \<not> nor_wip (st s') \<and> \<not> nor_wel (st s')) \<and> r \<le> 0"
proof -
  obtain t0 w1 where w1: "flash_uptime_32 E (fl_world s) = (t0, w1)" by fastforce
  have 1: "settles (st s) (chip w1)" using idle_uptime [of "fl_world s"] w1 by simp
  obtain r1 s1 where p: "poll_busy E tmo t0 (s\<lparr>fl_world := w1\<rparr>) = Some (r1, s1)"
    using assms w1 by (auto simp: iPoll_ExtBusyStatus_Sync_def flash_io_def bind_eq_Some_conv)
  have 2: "settles (st s) (st s1)" "bIsExtFlashSetupSuccess s1 = bIsExtFlashSetupSuccess s" "r1 = 0 \<Longrightarrow> \<not> nor_wip (st s1)" "r1 \<le> 0"
    using poll_any [OF p] settles_trans [OF 1] by auto
  obtain k s2 where k: "bRead_Status_Register E s1 = (k, s2)" by fastforce
  note rs = read_status [OF k]
  show ?thesis
  proof (cases "r1 = 0")
    case False
    then show ?thesis using assms w1 p 2 by (auto simp: iPoll_ExtBusyStatus_Sync_def flash_io_def)
  next
    case True
    have s2: "st s2 = st s1" using settles_idle [OF rs(1)] 2(3) True by blast
    have "k \<Longrightarrow> WEL (Flash_StatusReg s2) = nor_wel (st s1)" using rs(3) settles_idle 2(3) True by blast
    then show ?thesis
      using assms w1 p 2 rs(2) s2 True k
      by (auto simp: iPoll_ExtBusyStatus_Sync_def flash_io_def bIsExtFlash_WEL_Cleared_def errno_defs split: if_splits)
  qed
qed

text \<open>A command on an idle chip: done when the result is zero, otherwise done or not.\<close>

definition modified :: "u8 list \<Rightarrow> nor_state \<Rightarrow> nat \<Rightarrow> u8" where
  "modified cmd c = nor_cells (nor_command cmd (c\<lparr>nor_wel := True\<rparr>))"

lemma modify_flash_effect:
  assumes "modify_flash E cmd tmo s = Some (r, s')" and "\<not> nor_wip (st s)" and "length cmd \<le> 260"
  shows "bIsExtFlashSetupSuccess s' = bIsExtFlashSetupSuccess s" and "nor_qe (st s') = nor_qe (st s)" and "r \<le> 0"
    and "nor_cells (st s') \<in> {nor_cells (st s), modified cmd (st s)}"
    and "r = 0 \<Longrightarrow> \<not> nor_wip (st s') \<and> nor_cells (st s') = modified cmd (st s)"
proof -
  obtain k s1 where k: "bExtFlash_WriteEnable E s = (k, s1)" by fastforce
  note we = write_enable [OF k assms(2)]
  obtain t s2 where t: "transfer E 5 (bSPI_Transfer_InMasterMode E (tx_only cmd)) s1 = (t, s2)" by fastforce
  have m: "may_execute cmd (st s1) (st s2)" "bIsExtFlashSetupSuccess s2 = bIsExtFlashSetupSuccess s1"
    using transfer_any [OF t] by (auto simp: tx_only_def)
  have m2: "nor_qe (st s2) = nor_qe (st s) \<and> nor_cells (st s2) \<in> {nor_cells (st s), modified cmd (st s)}" if "k"
  proof -
    obtain b where b: "settles (st s1) b" "settles b (st s2) \<or> settles (nor_command cmd b) (st s2)"
      using m(1) by (auto simp: may_execute_def)
    have "b = (st s)\<lparr>nor_wel := True\<rparr>" using settles_idle [OF b(1)] we(3) [OF that] assms(2) by simp
    then show ?thesis using b(2) settles_same by (auto simp: modified_def)
  qed
  have ex: "k \<Longrightarrow> t \<noteq> None \<Longrightarrow> settles (nor_command cmd ((st s)\<lparr>nor_wel := True\<rparr>)) (st s2)"
    using transfer_ok [of 5 "tx_only cmd" s1 _ s2] t we(3) assms(2,3) by (auto simp: tx_only_def executes_def dest!: settles_idle)
  have p: "settles (st s2) (st s') \<and> bIsExtFlashSetupSuccess s' = bIsExtFlashSetupSuccess s2
      \<and> (r = 0 \<longrightarrow> \<not> nor_wip (st s') \<and> \<not> nor_wel (st s')) \<and> r \<le> 0" if "k" "t \<noteq> None"
    using poll_sync [of tmo s2 r s'] assms(1) k t that by (auto simp: modify_flash_def bSPI_Write_def)
  consider "\<not> k" "r = - EIO" "s' = s1" | "k" "t = None" "r = - EIO" "s' = s2" | "k" "t \<noteq> None"
    using assms(1) k t by (cases k; cases t) (auto simp: modify_flash_def bSPI_Write_def)
  note cs = this
  show "bIsExtFlashSetupSuccess s' = bIsExtFlashSetupSuccess s" using cs p m(2) we(2) by cases auto
  show "r \<le> 0" using cs p by cases (auto simp: errno_defs)
  show "nor_qe (st s') = nor_qe (st s)" using cs p m2 we(1) by cases (auto dest: settles_same)
  show "nor_cells (st s') \<in> {nor_cells (st s), modified cmd (st s)}" using cs p m2 we(1) by cases (auto dest: settles_same)
  assume "r = 0"
  then have kt: "k" "t \<noteq> None" using cs by (cases, auto simp: errno_defs)+
  show "\<not> nor_wip (st s') \<and> nor_cells (st s') = modified cmd (st s)"
    using p [OF kt] ex [OF kt] \<open>r = 0\<close> by (auto simp: modified_def dest!: settles_same)
qed

text \<open>What an operation has done to a range: outside of it nothing, in it what is meant when the result is zero.\<close>

definition ranged :: "nat \<Rightarrow> nat \<Rightarrow> (nat \<Rightarrow> u8) \<Rightarrow> 'w flash_sys \<Rightarrow> int \<Rightarrow> 'w flash_sys \<Rightarrow> bool" where
  "ranged a n m s r s' \<longleftrightarrow> r \<le> 0 \<and> same_outside a n (nor_cells (st s)) (nor_cells (st s')) \<and> (r = 0 \<longrightarrow> ready s' \<and> nor_cells (st s') = m)"

lemma modify_ranged:
  assumes "modify_flash E cmd tmo s = Some (r, s')" and "ready s" and "length cmd \<le> 260"
    and "modified cmd (st s) = m" and "same_outside a n (nor_cells (st s)) m"
  shows "ranged a n m s r s'"
  using modify_flash_effect [OF assms(1) _ assms(3)] assms(2,4,5) by (auto simp: ranged_def flash_ready_def)

lemma ranged_then:
  assumes "ranged a n m s 0 s1" and "ranged b k m' s1 r s'" and "l \<le> a" "a + n \<le> l + j" "l \<le> b" "b + k \<le> l + j"
  shows "ranged l j m' s r s'"
  using assms(1,2) same_outside_trans [OF _ _ assms(3-6)] by (auto simp: ranged_def)

lemma modified_page:
  assumes "unat a < nor_size" and "length d \<le> 256 - unat a mod 256" and "\<not> nor_wip c"
  shows "modified (addressed EXT_FLASH_WRITE_CMD a @ d) c = and_bytes (unat a) d (nor_cells c)"
proof -
  have "drop 4 (addressed EXT_FLASH_WRITE_CMD a @ d) = d" "hd (addressed EXT_FLASH_WRITE_CMD a @ d) = EXT_FLASH_WRITE_CMD"
    "addressed EXT_FLASH_WRITE_CMD a @ d \<noteq> []"
    by (simp_all add: addressed_def)
  then show ?thesis
    using program_page [OF assms(2)] assms(3)
    by (simp add: modified_def nor_command_def nor_address_addressed [OF assms(1)] flash_consts)
qed

lemma modified_sector:
  assumes "unat a < nor_size" and "unat a mod 4096 = 0" and "\<not> nor_wip c"
  shows "modified (addressed EXT_FLASH_4KB_SECTOR_ERASE a) c = erase_bytes (unat a) 4096 (nor_cells c)"
  using nor_address_addressed [OF assms(1), of EXT_FLASH_4KB_SECTOR_ERASE "[]"] assms(2,3)
  by (simp add: modified_def nor_command_def flash_consts addressed_def)

lemma write_pages_ranged:
  assumes "write_pages E a d s = Some (r, s')" and "ready s" and "unat a + length d \<le> nor_size"
  shows "ranged (unat a) (length d) (and_bytes (unat a) d (nor_cells (st s))) s r s'"
  using assms
proof (induction "length d" arbitrary: a d s rule: less_induct)
  case less
  show ?case
  proof (cases "d = []")
    case True
    then show ?thesis using less.prems by (simp add: write_pages.simps ranged_def)
  next
    case False
    define n where "n = page_part a (length d)"
    have n: "0 < n" "n \<le> length d" "n \<le> 256 - unat a mod 256"
      using page_part_pos [of "length d" a] False by (auto simp: n_def page_part_eq)
    have a: "unat a < nor_size" using less.prems(3) False by (cases d) auto
    let ?cmd = "addressed EXT_FLASH_WRITE_CMD a @ take n d"
    obtain r1 s1 where m: "modify_flash E ?cmd 50 s = Some (r1, s1)"
      using less.prems(1) False by (auto simp: write_pages.simps [of E a d] n_def [symmetric] bind_eq_Some_conv Let_def)
    have len: "length ?cmd \<le> 260" using n by (simp add: addressed_def)
    have c: "modified ?cmd (st s) = and_bytes (unat a) (take n d) (nor_cells (st s))"
      by (rule modified_page [OF a]) (use n less.prems(2) in \<open>auto simp: flash_ready_def\<close>)
    have out: "same_outside (unat a) n (nor_cells (st s)) (and_bytes (unat a) (take n d) (nor_cells (st s)))"
      using same_outside_and [of "unat a" "take n d"] n(2) by (simp add: min_absorb2)
    have 1: "ranged (unat a) n (and_bytes (unat a) (take n d) (nor_cells (st s))) s r1 s1"
      by (rule modify_ranged [OF m less.prems(2) len c out])
    show ?thesis
    proof (cases "r1 = 0")
      case False
      then have "r = r1" "s' = s1"
        using less.prems(1) \<open>d \<noteq> []\<close> m by (auto simp: write_pages.simps [of E a d] n_def [symmetric] Let_def)
      then show ?thesis using 1 False n(2) by (auto simp: ranged_def same_outside_def)
    next
      case True
      have rest: "write_pages E (a + of_nat n) (drop n d) s1 = Some (r, s')"
        using less.prems(1) \<open>d \<noteq> []\<close> m True by (auto simp: write_pages.simps [of E a d] n_def [symmetric] Let_def)
      have nn: "unat (of_nat n :: u32) = n" using n less.prems(3) by (simp add: unat_of_nat nor_size_def)
      have sum: "unat (a + of_nat n) = unat a + n"
        using unat_add_small [of a "of_nat n"] nn n(2) less.prems(3) by (simp add: nor_size_def)
      have rd: "ready s1" "nor_cells (st s1) = and_bytes (unat a) (take n d) (nor_cells (st s))" using 1 True by (auto simp: ranged_def)
      have 2: "ranged (unat a + n) (length d - n) (and_bytes (unat a + n) (drop n d) (nor_cells (st s1))) s1 r s'"
        using less.hyps [OF _ rest rd(1)] n less.prems(3) False by (simp add: sum)
      have e: "and_bytes (unat a + n) (drop n d) (nor_cells (st s1)) = and_bytes (unat a) d (nor_cells (st s))"
        using and_bytes_append [of "unat a" "take n d" "drop n d"] n(2) by (simp add: rd(2) min_absorb2)
      show ?thesis by (rule ranged_then [OF 1 [unfolded True] 2 [unfolded e]]) (use n(2) in auto)
    qed
  qed
qed

lemma erase_sector_ranged:
  assumes "iErase_Flash_4KB E a s = Some (r, s')" and "ready s" and "unat a mod 4096 = 0" and "unat a < nor_size"
  shows "ranged (unat a) 4096 (erase_bytes (unat a) 4096 (nor_cells (st s))) s r s'"
proof -
  let ?cmd = "addressed EXT_FLASH_4KB_SECTOR_ERASE a"
  have m: "modify_flash E ?cmd 2000 s = Some (r, s')"
    using assms(1-3) by (simp add: iErase_Flash_4KB_def flash_ready_def flash_consts)
  have c: "modified ?cmd (st s) = erase_bytes (unat a) 4096 (nor_cells (st s))"
    using modified_sector [OF assms(4,3)] assms(2) by (simp add: flash_ready_def)
  show ?thesis by (rule modify_ranged [OF m assms(2) _ c same_outside_erase]) (simp add: addressed_def)
qed

lemma erase_blocks_ranged:
  assumes "erase_blocks E 4096 a n s = Some (r, s')" and "ready s" and "unat a mod 4096 = 0" and "n mod 4096 = 0"
    and "unat a + n \<le> nor_size"
  shows "ranged (unat a) n (erase_bytes (unat a) n (nor_cells (st s))) s r s'"
  using assms
proof (induction n arbitrary: a s rule: less_induct)
  case (less n)
  show ?case
  proof (cases "n = 0")
    case True
    then show ?thesis using less.prems by (simp add: erase_blocks.simps ranged_def)
  next
    case False
    then have n: "4096 \<le> n" using less.prems(4) by (metis mod_less not_le)
    have a: "unat a < nor_size" using less.prems(5) n by simp
    obtain r1 s1 where m: "iErase_Flash_4KB E a s = Some (r1, s1)"
      using less.prems(1) False by (auto simp: erase_blocks.simps [of E _ a n] bind_eq_Some_conv)
    note 1 = erase_sector_ranged [OF m less.prems(2,3) a]
    show ?thesis
    proof (cases "r1 = 0")
      case False
      then have "r = r1" "s' = s1"
        using less.prems(1) \<open>n \<noteq> 0\<close> m 1 by (auto simp: erase_blocks.simps [of E _ a n] ranged_def)
      then show ?thesis using 1 False n by (auto simp: ranged_def same_outside_def)
    next
      case True
      have rest: "erase_blocks E 4096 (a + 4096) (n - 4096) s1 = Some (r, s')"
        using less.prems(1) \<open>n \<noteq> 0\<close> m True by (simp add: erase_blocks.simps [of E _ a n])
      have sum: "unat (a + 4096) = unat a + 4096"
        using unat_add_small [of a 4096] n less.prems(5) by (simp add: nor_size_def)
      have rd: "ready s1" "nor_cells (st s1) = erase_bytes (unat a) 4096 (nor_cells (st s))" using 1 True by (auto simp: ranged_def)
      have m2: "(n - 4096) mod 4096 = 0" using less.prems(4) n by (simp add: mod_if le_mod_geq)
      have 2: "ranged (unat a + 4096) (n - 4096) (erase_bytes (unat a + 4096) (n - 4096) (nor_cells (st s1))) s1 r s'"
        using less.IH [OF _ rest rd(1) _ m2] n less.prems(3,5) by (simp add: sum)
      have e: "erase_bytes (unat a + 4096) (n - 4096) (nor_cells (st s1)) = erase_bytes (unat a) n (nor_cells (st s))"
        using erase_bytes_append [of "unat a" 4096 "n - 4096"] n by (simp add: rd(2))
      show ?thesis by (rule ranged_then [OF 1 [unfolded True] 2 [unfolded e]]) (use n in auto)
    qed
  qed
qed

subsection \<open>Reading\<close>

lemma sequence_transfer:
  assumes "transfer E ms (bSPI_TransferSequence_InMasterMode E (vPrepare_MultiPhaseConfig (addressed EXT_FLASH_QUAD_READ_CMD a) [0] n)) s = (r, s')"
    and "ready s"
  shows "ready s' \<and> nor_cells (st s') = nor_cells (st s)"
    and "r = Some b \<Longrightarrow> i < n \<Longrightarrow> b i = nor_cells (st s) ((unat a + i) mod nor_size)"
proof -
  let ?p = "vPrepare_MultiPhaseConfig (addressed EXT_FLASH_QUAD_READ_CMD a) [0] n"
  obtain l w1 where l: "spi_mutex_lock E (fl_world s) = (l, w1)" by fastforce
  obtain ok w2 where o1: "bSPI_TransferSequence_InMasterMode E ?p w1 = (ok, w2)" by fastforce
  obtain c w3 where c: "spi_completion E ms w2 = (c, w3)" by fastforce
  have q: "\<not> nor_wip (st s)" "nor_qe (st s)" using assms(2) by (auto simp: flash_ready_def)
  have 1: "chip w1 = st s" using settles_idle [OF idle_lock q(1)] l by simp
  have 2: "chip w2 = st s" using settles_idle [OF sequence_idle(1) [of w1 ?p]] 1 q(1) o1 by simp
  have 3: "ok \<Longrightarrow> chip w3 = st s" using settles_idle [OF sequence_idle(2) [of ?p w1 w2 ms]] 1 q(1) o1 c by simp
  have w: "fl_world s' \<in> {w1, w2} \<union> (if ok then {w3} else {})" "bIsExtFlashSetupSuccess s' = bIsExtFlashSetupSuccess s"
    using assms(1) l o1 c
    by (auto simp: transfer_def take_done_def flash_io_def vLPSPI1_Callback_def split: if_splits option.splits)
  then have "st s' = st s" using 1 2 3 by (auto split: if_splits)
  then show "ready s' \<and> nor_cells (st s') = nor_cells (st s)" using assms(2) w(2) by (simp add: flash_ready_def)
  assume r: "r = Some b" and i: "i < n"
  have "ok" "c = Some (eTransfer_Success, b)"
    using assms(1) l o1 c r
    by (auto simp: transfer_def take_done_def flash_io_def vLPSPI1_Callback_def split: if_splits option.splits prod.splits)
  then show "b i = nor_cells (st s) ((unat a + i) mod nor_size)" using sequence_ok [of a n w1 w2 ms b w3 i] o1 c 1 q i by simp
qed

lemma read_quad_cells:
  assumes "read_quad E a n s = (r, s')" and "ready s" and "unat a + n \<le> nor_size"
  shows "ready s' \<and> nor_cells (st s') = nor_cells (st s) \<and> (\<forall>d. r = Inr d \<longrightarrow> d = mem_bytes (nor_cells (st s)) (unat a) n)"
  using assms
proof (induction n arbitrary: a s r s' rule: less_induct)
  case (less n)
  show ?case
  proof (cases "n = 0")
    case True
    then show ?thesis using less.prems by (auto simp: read_quad.simps)
  next
    case False
    define k where "k = (if n > QUAD_READ_MAX_TRANSACTION_LENGTH then QUAD_READ_MAX_TRANSACTION_LENGTH else n)"
    have k: "0 < k" "k \<le> n" using False by (auto simp: k_def QUAD_READ_MAX_TRANSACTION_LENGTH_def)
    obtain x s1 where x: "bSPI_MultiPhaseTranseive E (vPrepare_MultiPhaseConfig (addressed EXT_FLASH_QUAD_READ_CMD a) [0] k) s = (x, s1)"
      by fastforce
    have tr: "ready s1 \<and> nor_cells (st s1) = nor_cells (st s)"
      "\<And>b i. x = Some b \<Longrightarrow> i < k \<Longrightarrow> b i = nor_cells (st s) ((unat a + i) mod nor_size)"
      using sequence_transfer [of 200 a k s x s1] x less.prems(2) by (auto simp: bSPI_MultiPhaseTranseive_def)
    obtain rest s2 where y: "read_quad E (a + of_nat k) (n - k) s1 = (rest, s2)" by fastforce
    have step: "read_quad E a n s = (case x of None \<Rightarrow> (Inl (- EIO), s1)
        | Some b \<Rightarrow> (case rest of Inl e \<Rightarrow> Inl e | Inr d \<Rightarrow> Inr (map b [0..<k] @ d), s2))"
      unfolding read_quad.simps [of E a n s] k_def [symmetric] Let_def x prod.case y using False by simp
    have kk: "unat (of_nat k :: u32) = k" using k less.prems(3) by (simp add: unat_of_nat nor_size_def)
    show ?thesis
    proof (cases x)
      case None
      then show ?thesis using less.prems(1) step tr(1) by auto
    next
      case (Some b)
      have s': "s' = s2" "r = (case rest of Inl e \<Rightarrow> Inl e | Inr d \<Rightarrow> Inr (map b [0..<k] @ d))"
        using less.prems(1) step Some by auto
      have part: "map b [0..<k] = mem_bytes (nor_cells (st s)) (unat a) k"
        using tr(2) [OF Some] k less.prems(3) by (intro nth_equalityI) auto
      show ?thesis
      proof (cases "n = k")
        case True
        then show ?thesis using y s' tr(1) part by (auto simp: read_quad.simps [of E _ 0])
      next
        case False
        have sum: "unat (a + of_nat k) = unat a + k"
          using unat_add_small [of a "of_nat k"] kk k less.prems(3) by (simp add: nor_size_def)
        have "ready s2 \<and> nor_cells (st s2) = nor_cells (st s1)
            \<and> (\<forall>d. rest = Inr d \<longrightarrow> d = mem_bytes (nor_cells (st s1)) (unat a + k) (n - k))"
          using less.IH [OF _ y] tr(1) k less.prems(3) \<open>n \<noteq> 0\<close> by (simp add: sum)
        then show ?thesis
          using s' tr(1) part mem_bytes_split [of "nor_cells (st s)" "unat a" k "n - k"] k by (auto split: sum.splits)
      qed
    qed
  qed
qed

lemma read_transfer:
  assumes "bSPI_Transceive E (tx_rx (addressed EXT_FLASH_READ_CMD a @ replicate n 0) 4) s = (r, s')"
    and "ready s" and "n \<le> 256" and "unat a < nor_size"
  shows "ready s' \<and> nor_cells (st s') = nor_cells (st s)"
    and "r = Some b \<Longrightarrow> i < n \<Longrightarrow> b (4 + i) = nor_cells (st s) ((unat a + i) mod nor_size)"
proof -
  let ?d = "addressed EXT_FLASH_READ_CMD a @ replicate n 0"
  have t: "transfer E 200 (bSPI_Transfer_InMasterMode E (tx_rx ?d 4)) s = (r, s')" using assms(1) by (simp add: bSPI_Transceive_def)
  have q: "\<not> nor_wip (st s)" using assms(2) by (simp add: flash_ready_def)
  have c: "nor_command ?d c = c" for c by (simp add: nor_command_def addressed_def flash_consts)
  have "st s' = st s"
    using transfer_any [OF t] q by (auto simp: may_execute_def tx_rx_def c dest!: settles_idle)
  then show "ready s' \<and> nor_cells (st s') = nor_cells (st s)" using transfer_any [OF t] assms(2) by (simp add: flash_ready_def)
  assume r: "r = Some b" and i: "i < n"
  have len: "length (st_puiTxData (tx_rx ?d 4)) \<le> 260" using assms(3) by (simp add: tx_rx_def addressed_def)
  obtain k where k: "executes ?d (st s) k (st s')" "\<not> nor_wip k \<Longrightarrow> b (4 + i) = nor_cells k ((nor_address ?d + i) mod nor_size)"
    using transfer_ok [OF t [unfolded r] len] i by (auto simp: tx_rx_def)
  have "k = st s" using k(1) settles_idle [OF _ q] by (simp add: executes_def)
  then show "b (4 + i) = nor_cells (st s) ((unat a + i) mod nor_size)"
    using k(2) q nor_address_addressed [OF assms(4)] by simp
qed

lemma read_normal_cells:
  assumes "read_normal E a n s = (r, s')" and "ready s" and "unat a + n \<le> nor_size"
  shows "ready s' \<and> nor_cells (st s') = nor_cells (st s) \<and> (\<forall>d. r = Inr d \<longrightarrow> d = mem_bytes (nor_cells (st s)) (unat a) n)"
  using assms
proof (induction n arbitrary: a s r s' rule: less_induct)
  case (less n)
  show ?case
  proof (cases "n = 0")
    case True
    then show ?thesis using less.prems by (auto simp: read_normal.simps)
  next
    case False
    define k where "k = (if n < DEFAULT_READ_BUFF_LENGTH then n else DEFAULT_READ_BUFF_LENGTH)"
    have k: "0 < k" "k \<le> n" "k \<le> 256" using False by (auto simp: k_def DEFAULT_READ_BUFF_LENGTH_def)
    have a: "unat a < nor_size" using less.prems(3) False by simp
    obtain x s1 where x: "bSPI_Transceive E (tx_rx (addressed EXT_FLASH_READ_CMD a @ replicate k 0) 4) s = (x, s1)" by fastforce
    note tr = read_transfer [OF x less.prems(2) k(3) a]
    obtain rest s2 where y: "read_normal E (a + of_nat k) (n - k) s1 = (rest, s2)" by fastforce
    have step: "read_normal E a n s = (case x of None \<Rightarrow> (Inl (- EIO), s1)
        | Some b \<Rightarrow> (case rest of Inl e \<Rightarrow> Inl e | Inr d \<Rightarrow> Inr (map b [4..<4 + k] @ d), s2))"
      unfolding read_normal.simps [of E a n s] k_def [symmetric] Let_def x prod.case y using False by simp
    show ?thesis
    proof (cases x)
      case None
      then show ?thesis using less.prems(1) step tr(1) by auto
    next
      case (Some b)
      have s': "s' = s2" "r = (case rest of Inl e \<Rightarrow> Inl e | Inr d \<Rightarrow> Inr (map b [4..<4 + k] @ d))"
        using less.prems(1) step Some by auto
      have part: "map b [4..<4 + k] = mem_bytes (nor_cells (st s)) (unat a) k"
        using tr(2) [OF Some] k less.prems(3) by (intro nth_equalityI) auto
      have sum: "n \<noteq> k \<Longrightarrow> unat (a + of_nat k) = unat a + k"
        using unat_add_small [of a "of_nat k"] k less.prems(3) by (simp add: nor_size_def unat_of_nat)
      have "n \<noteq> k \<Longrightarrow> ready s2 \<and> nor_cells (st s2) = nor_cells (st s1)
          \<and> (\<forall>d. rest = Inr d \<longrightarrow> d = mem_bytes (nor_cells (st s1)) (unat a + k) (n - k))"
        using less.IH [OF _ y] tr(1) k less.prems(3) \<open>n \<noteq> 0\<close> by (simp add: sum)
      then show ?thesis
        using s' tr(1) part mem_bytes_split [of "nor_cells (st s)" "unat a" k "n - k"] k y
        by (cases "n = k") (auto simp: read_normal.simps [of E _ 0] split: sum.splits)
    qed
  qed
qed

lemma reads_cells:
  assumes "ready s" and "unat a + n \<le> nor_size"
  shows "iRead_DataFromFlash_Normal E a b n s = (r, s') \<Longrightarrow> ready s' \<and> nor_cells (st s') = nor_cells (st s)
      \<and> (\<forall>d. r = Inr d \<longrightarrow> d = mem_bytes (nor_cells (st s)) (unat a) n)"
    and "iRead_DataFromFlash_Quad E a b n s = (r, s') \<Longrightarrow> ready s' \<and> nor_cells (st s') = nor_cells (st s)
      \<and> (\<forall>d. r = Inr d \<longrightarrow> d = mem_bytes (nor_cells (st s)) (unat a) n)"
  using read_normal_cells [OF _ assms] read_quad_cells [OF _ assms] assms(1)
  by (auto simp: iRead_DataFromFlash_Normal_def iRead_DataFromFlash_Quad_def split: if_splits)

end

end
