(* ===== verification/Flash_Device.thy ===== *)
theory Flash_Device
  imports Flash_Refine
begin

text \<open>
  The functions of the flash device on a chip that keeps its contract: what reading, writing and erasing a range do, and that they are a
  flash device in the sense of its clients.
\<close>

subsection \<open>The range check\<close>

lemma validate_cases: "iValidate_FlashRange off n = (if 0 \<le> off \<and> nat off + n \<le> nor_size then 0 else - EINVAL)"
  by (auto simp: iValidate_FlashRange_def stTZephyrFlashConfig_def nor_size_def)

lemma validate_neg [simp]: "iValidate_FlashRange off n < 0 \<longleftrightarrow> \<not> (0 \<le> off \<and> nat off + n \<le> nor_size)"
  by (simp add: validate_cases errno_defs)

lemma offset_address: "0 \<le> off \<Longrightarrow> nat off + n \<le> nor_size \<Longrightarrow> unat (word_of_int off :: u32) = nat off"
  by (simp add: nor_size_def unsigned_of_int take_bit_int_eq_self)

context nor_flash
begin

lemma locked:
  assumes "flash_io (flash_mutex_lock E) s = (r, s1)" and "ready s"
  shows "st s1 = st s" and "ready s1"
proof -
  obtain w where w: "flash_mutex_lock E (fl_world s) = (r, w)" "s1 = s\<lparr>fl_world := w\<rparr>"
    using assms(1) by (cases "flash_mutex_lock E (fl_world s)") (auto simp: flash_io_def)
  then show "st s1 = st s" using settles_idle [OF idle_mutex(1)] assms(2) by (simp add: flash_ready_def) (metis snd_conv)
  then show "ready s1" using w assms(2) by (simp add: flash_ready_def)
qed

lemma unlocked:
  assumes "flash_io (flash_mutex_unlock E) s = (r, s1)"
  shows "nor_cells (st s1) = nor_cells (st s)" and "ready s \<Longrightarrow> ready s1"
proof -
  obtain w where w: "flash_mutex_unlock E (fl_world s) = (r, w)" "s1 = s\<lparr>fl_world := w\<rparr>"
    using assms(1) by (cases "flash_mutex_unlock E (fl_world s)") (auto simp: flash_io_def)
  have c: "settles (st s) (st s1)" using idle_mutex(2) [of "fl_world s"] w by simp
  from settles_same [OF this] show "nor_cells (st s1) = nor_cells (st s)" by simp
  show "ready s \<Longrightarrow> ready s1" using settles_idle [OF c] w by (auto simp: flash_ready_def)
qed

subsection \<open>The functions of the device\<close>

lemma device_read:
  assumes "iZephyrFlash_Read E off b n s = (r, s')" and "ready s"
  shows "ready s' \<and> nor_cells (st s') = nor_cells (st s)
    \<and> (\<forall>d. r = Inr d \<longrightarrow> 0 \<le> off \<and> d = mem_bytes (nor_cells (st s)) (nat off) n)"
proof (cases "0 \<le> off \<and> nat off + n \<le> nor_size \<and> n \<noteq> 0 \<and> b")
  case False
  then show ?thesis using assms by (auto simp: iZephyrFlash_Read_def Let_def split: if_splits)
next
  case True
  obtain l s1 where l: "flash_io (flash_mutex_lock E) s = (l, s1)" by fastforce
  obtain x s2 where x: "iRead_DataFromFlash_Quad E (word_of_int off) True n s1 = (x, s2)" by fastforce
  obtain u s3 where u: "flash_io (flash_mutex_unlock E) s2 = (u, s3)" by fastforce
  note 1 = locked [OF l assms(2)]
  have "read_quad E (word_of_int off) n s1 = (x, s2)"
    using x 1 True by (simp add: iRead_DataFromFlash_Quad_def flash_ready_def)
  then have 2: "ready s2 \<and> nor_cells (st s2) = nor_cells (st s)
      \<and> (\<forall>d. x = Inr d \<longrightarrow> d = mem_bytes (nor_cells (st s)) (nat off) n)"
    using read_quad_cells [of "word_of_int off" n s1 x s2] 1 True offset_address [of off n] by simp
  have "r = (if l < 0 then Inl l else case x of Inl e \<Rightarrow> Inl e | Inr d \<Rightarrow> if u < 0 then Inl u else Inr d)"
    "s' = (if l < 0 then s1 else s3)"
    using assms(1) True l x u by (auto simp: iZephyrFlash_Read_def Let_def)
  then show ?thesis using 1 2 unlocked [OF u] True by (auto split: if_splits sum.splits)
qed

lemma locked_change:
  assumes "flash_io (flash_mutex_lock E) s = (l, s1)" and "ready s"
    and "l < 0 \<Longrightarrow> r = l \<and> s' = s1"
    and "\<not> l < 0 \<Longrightarrow> ranged a n m s1 x s2 \<and> flash_io (flash_mutex_unlock E) s2 = (u, s')
      \<and> r = (if x = 0 \<and> u < 0 then u else x)"
  shows "ranged a n m s r s'"
proof -
  note 1 = locked [OF assms(1,2)]
  show ?thesis
  proof (cases "l < 0")
    case True
    then show ?thesis using 1 assms(3) by (auto simp: ranged_def)
  next
    case False
    note 2 = assms(4) [OF this]
    note 3 = unlocked [of s2 u s']
    show ?thesis using 1 2 3 by (auto simp: ranged_def)
  qed
qed

lemma device_write:
  assumes "iZephyrFlash_Write E off (Some d) (length d) s = Some (r, s')" and "ready s"
  shows "ranged (nat off) (length d) (and_bytes (nat off) d (nor_cells (st s))) s r s' \<and> (r = 0 \<longrightarrow> 0 \<le> off)"
proof (cases "0 \<le> off \<and> nat off + length d \<le> nor_size \<and> d \<noteq> []")
  case False
  then show ?thesis using assms by (auto simp: iZephyrFlash_Write_def Let_def ranged_def validate_cases errno_defs split: if_splits)
next
  case True
  obtain l s1 where l: "flash_io (flash_mutex_lock E) s = (l, s1)" by fastforce
  note 1 = locked [OF l assms(2)]
  have w: "iWrite_DataToFlash E (word_of_int off) (Some d) s1 = write_pages E (word_of_int off) d s1"
    using 1(2) True by (auto simp: iWrite_DataToFlash_def flash_ready_def)
  have eq: "iZephyrFlash_Write E off (Some d) (length d) s = (if l < 0 then Some (l, s1)
      else do { (r, s) \<leftarrow> write_pages E (word_of_int off) d s1; let (u, s) = flash_io (flash_mutex_unlock E) s; Some (if r = 0 \<and> u < 0 then u else r, s) })"
    using True l w by (simp add: iZephyrFlash_Write_def stTZephyrFlashConfig_def Let_def)
  obtain x s2 where x: "\<not> l < 0 \<Longrightarrow> write_pages E (word_of_int off) d s1 = Some (x, s2)"
    using assms(1) unfolding eq by (cases "l < 0") (auto simp: bind_eq_Some_conv)
  obtain u s3 where u: "flash_io (flash_mutex_unlock E) s2 = (u, s3)" by fastforce
  have a: "unat (word_of_int off :: u32) = nat off" using True offset_address by blast
  have "ranged (nat off) (length d) (and_bytes (nat off) d (nor_cells (st s))) s r s'"
  proof (rule locked_change [OF l assms(2), of r s' _ _ _ x s2 u])
    show "l < 0 \<Longrightarrow> r = l \<and> s' = s1" using assms(1) eq by simp
    assume n: "\<not> l < 0"
    show "ranged (nat off) (length d) (and_bytes (nat off) d (nor_cells (st s))) s1 x s2
        \<and> flash_io (flash_mutex_unlock E) s2 = (u, s') \<and> r = (if x = 0 \<and> u < 0 then u else x)"
      using write_pages_ranged [OF x [OF n] 1(2)] True assms(1) n x [OF n] u 1(1) by (auto simp: eq a)
  qed
  then show ?thesis using True by simp
qed

lemma device_erase:
  assumes "iZephyrFlash_Erase E off n s = Some (r, s')" and "ready s"
  shows "ranged (nat off) n (erase_bytes (nat off) n (nor_cells (st s))) s r s' \<and> (r = 0 \<longrightarrow> 0 \<le> off)"
proof (cases "0 \<le> off \<and> nat off + n \<le> nor_size \<and> n \<noteq> 0 \<and> nat off mod 4096 = 0 \<and> n mod 4096 = 0")
  case False
  then show ?thesis
    using assms by (auto simp: iZephyrFlash_Erase_def stTZephyrFlashConfig_def Let_def ranged_def validate_cases errno_defs split: if_splits)
next
  case True
  obtain l s1 where l: "flash_io (flash_mutex_lock E) s = (l, s1)" by fastforce
  note 1 = locked [OF l assms(2)]
  have eq: "iZephyrFlash_Erase E off n s = (if l < 0 then Some (l, s1)
      else do { (r, s) \<leftarrow> erase_blocks E 4096 (word_of_int off) n s1; let (u, s) = flash_io (flash_mutex_unlock E) s; Some (if r = 0 \<and> u < 0 then u else r, s) })"
    using True l by (simp add: iZephyrFlash_Erase_def stTZephyrFlashConfig_def Let_def)
  obtain x s2 where x: "\<not> l < 0 \<Longrightarrow> erase_blocks E 4096 (word_of_int off) n s1 = Some (x, s2)"
    using assms(1) unfolding eq by (cases "l < 0") (auto simp: bind_eq_Some_conv)
  obtain u s3 where u: "flash_io (flash_mutex_unlock E) s2 = (u, s3)" by fastforce
  have a: "unat (word_of_int off :: u32) = nat off" using True offset_address by blast
  have "ranged (nat off) n (erase_bytes (nat off) n (nor_cells (st s))) s r s'"
  proof (rule locked_change [OF l assms(2), of r s' _ _ _ x s2 u])
    show "l < 0 \<Longrightarrow> r = l \<and> s' = s1" using assms(1) eq by simp
    assume nl: "\<not> l < 0"
    show "ranged (nat off) n (erase_bytes (nat off) n (nor_cells (st s))) s1 x s2
        \<and> flash_io (flash_mutex_unlock E) s2 = (u, s') \<and> r = (if x = 0 \<and> u < 0 then u else x)"
      using erase_blocks_ranged [OF x [OF nl] 1(2)] True assms(1) nl x [OF nl] u 1(1) by (auto simp: eq a)
  qed
  then show ?thesis using True by simp
qed

end

sublocale nor_flash \<subseteq> device: flash_device "\<lambda>off n. iZephyrFlash_Read E off True n" "\<lambda>off d. iZephyrFlash_Write E off (Some d) (length d)"
  "iZephyrFlash_Erase E" "\<lambda>s. nor_cells (chip (fl_world s))" "flash_ready chip"
proof
  fix s a n d s' r
  show "flash_ready chip s \<Longrightarrow> iZephyrFlash_Read E a True n s = (Inr d, s')
    \<Longrightarrow> 0 \<le> a \<and> flash_ready chip s' \<and> nor_cells (st s') = nor_cells (st s) \<and> d = mem_bytes (nor_cells (st s)) (nat a) n"
    using device_read [of a True n s "Inr d" s'] by simp
  show "flash_ready chip s \<Longrightarrow> iZephyrFlash_Write E a (Some d) (length d) s = Some (0, s')
    \<Longrightarrow> 0 \<le> a \<and> flash_ready chip s' \<and> nor_cells (st s') = and_bytes (nat a) d (nor_cells (st s))"
    using device_write [of a d s 0 s'] by (simp add: ranged_def)
  show "flash_ready chip s \<Longrightarrow> iZephyrFlash_Write E a (Some d) (length d) s = Some (r, s')
    \<Longrightarrow> same_outside (nat a) (length d) (nor_cells (st s)) (nor_cells (st s'))"
    using device_write [of a d s r s'] by (simp add: ranged_def)
  show "flash_ready chip s \<Longrightarrow> iZephyrFlash_Erase E a n s = Some (0, s')
    \<Longrightarrow> 0 \<le> a \<and> flash_ready chip s' \<and> nor_cells (st s') = erase_bytes (nat a) n (nor_cells (st s))"
    using device_erase [of a n s 0 s'] by (simp add: ranged_def)
  show "flash_ready chip s \<Longrightarrow> iZephyrFlash_Erase E a n s = Some (r, s')
    \<Longrightarrow> same_outside (nat a) n (nor_cells (st s)) (nor_cells (st s'))"
    using device_erase [of a n s r s'] by (simp add: ranged_def)
qed

context nor_flash
begin

lemma device_store_retrieve:
  assumes "ready s" and "iZephyrFlash_Erase E a n s = Some (0, s1)"
    and "iZephyrFlash_Write E b (Some d) (length d) s1 = Some (0, s2)" and "iZephyrFlash_Read E b True (length d) s2 = (Inr e, s3)"
    and "a \<le> b" and "nat b + length d \<le> nat a + n"
  shows "e = d \<and> same_outside (nat a) n (nor_cells (st s)) (nor_cells (st s3))"
  using assms by (rule device.store_retrieve)

end

end
