(* ===== verification/Flash_Clock.thy ===== *)
theory Flash_Clock
  imports Flash_Driver
begin

text \<open>
  The clock behind the drivers. The wait for the busy bit has no bound on its rounds, only on the time: it ends because the clock moves
  on while the thread sleeps. \<open>flash_clock\<close> states that of the kernel and the SPI driver; under it every write and erase returns.
\<close>

definition within :: "nat \<Rightarrow> nat \<Rightarrow> nat \<Rightarrow> bool" where
  "within n a b \<longleftrightarrow> a \<le> b \<and> b \<le> a + n"

lemma within_0 [simp]: "within n a a"
  by (simp add: within_def)

lemma within_trans: "within m a b \<Longrightarrow> within n b c \<Longrightarrow> m + n \<le> k \<Longrightarrow> within k a c"
  by (auto simp: within_def)

text \<open>A service takes at most a minute, and a sleep at least the time asked for.\<close>

locale flash_clock =
  fixes E :: "('w, 'z) flash_services_scheme" and clock :: "'w \<Rightarrow> nat"
  assumes time_lock: "within 60000 (clock w) (clock (snd (spi_mutex_lock E w)))"
    and time_transfer: "within 60000 (clock w) (clock (snd (bSPI_Transfer_InMasterMode E t w)))"
    and time_completion: "within 60000 (clock w) (clock (snd (spi_completion E ms w)))"
    and time_uptime: "within 60000 (clock w) (clock (snd (flash_uptime_32 E w)))"
    and uptime_value: "fst (flash_uptime_32 E w) = of_nat (clock (snd (flash_uptime_32 E w)))"
    and time_sleep: "within 60000 (clock w + n) (clock (flash_msleep E n w))"
begin

abbreviation at :: "'w flash_sys \<Rightarrow> nat" where "at s \<equiv> clock (fl_world s)"

lemma transfer_time: "transfer E ms (bSPI_Transfer_InMasterMode E t) s = (r, s') \<Longrightarrow> within 180000 (at s) (at s')"
proof -
  assume a: "transfer E ms (bSPI_Transfer_InMasterMode E t) s = (r, s')"
  obtain l w1 where l: "spi_mutex_lock E (fl_world s) = (l, w1)" by fastforce
  obtain ok w2 where b: "bSPI_Transfer_InMasterMode E t w1 = (ok, w2)" by fastforce
  obtain c w3 where c: "spi_completion E ms w2 = (c, w3)" by fastforce
  have "within 60000 (at s) (clock w1)" "within 60000 (clock w1) (clock w2)" "within 60000 (clock w2) (clock w3)"
    using time_lock [of "fl_world s"] time_transfer [of w1 t] time_completion [of w2 ms] l b c by simp_all
  then have "within 180000 (at s) (clock w1)" "within 180000 (at s) (clock w2)" "within 180000 (at s) (clock w3)"
    by (simp_all add: within_def)
  moreover have "fl_world s' \<in> {w1, w2, w3}"
    using a l b c by (auto simp: transfer_def take_done_def flash_io_def vLPSPI1_Callback_def split: if_splits option.splits)
  ultimately show ?thesis by auto
qed

lemma status_time: "bGet_ExtFlash_Busy E s = (r, s') \<Longrightarrow> within 180000 (at s) (at s')"
  using transfer_time [of 200 "tx_rx [STATUS_REG_READ_CMD, 0] 1" s]
  by (auto simp: bGet_ExtFlash_Busy_def bRead_Status_Register_def bSPI_Transceive_def split: prod.splits option.splits)

text \<open>The difference of two readings of the 32 bit clock is the time between them, across its wrap-around too.\<close>

lemma elapsed: "t \<le> m \<Longrightarrow> m < t + 2 ^ 32 \<Longrightarrow> unat ((of_nat m :: u32) - of_nat t) = m - t"
proof -
  assume a: "t \<le> m" "m < t + 2 ^ 32"
  have "(of_nat m :: u32) - of_nat t = of_nat (m - t)" using a(1) by (rule of_nat_diff [symmetric])
  moreover have "unat (of_nat (m - t) :: u32) = m - t"
  proof -
    have "m - t < 2 ^ LENGTH(32)" using a by simp
    then show ?thesis by (simp only: unsigned_of_nat take_bit_nat_eq_self of_nat_id)
  qed
  ultimately show ?thesis by (simp only:)
qed

lemma poll_returns:
  assumes "t \<le> at s" and "at s < t + unat tmo + 60002" and "unat tmo \<le> 60000"
  shows "\<exists>r s'. poll_busy E tmo (of_nat t) s = Some (r, s')"
  using assms
proof (induction "t + unat tmo + 60002 - at s" arbitrary: s rule: less_induct)
  case less
  obtain b s1 where b: "bGet_ExtFlash_Busy E s = (b, s1)" by fastforce
  obtain now w2 where now: "flash_uptime_32 E (fl_world s1) = (now, w2)" by fastforce
  have 1: "within 180000 (at s) (at s1)" by (rule status_time [OF b])
  have 2: "within 60000 (at s1) (clock w2)" "now = of_nat (clock w2)" using time_uptime [of "fl_world s1"] uptime_value [of "fl_world s1"] now by simp_all
  have bounds: "t \<le> clock w2" "at s \<le> clock w2" "clock w2 < t + 2 ^ 32"
    using 1 2(1) less.prems by (simp_all add: within_def)
  have e: "unat (now - of_nat t) = clock w2 - t" using elapsed [OF bounds(1,3)] 2(2) by simp
  show ?case
  proof (cases "b = Some True \<and> now - of_nat t < tmo")
    case False
    then show ?thesis using b now by (subst poll_busy.simps) (auto simp: flash_io_def not_less)
  next
    case True
    let ?w = "flash_msleep E 2 w2" and ?s = "s1\<lparr>fl_world := flash_msleep E 2 w2\<rparr>"
    have lt: "clock w2 < t + unat tmo" using True e bounds(1) unfolding word_less_nat_alt by linarith
    have w: "within 60000 (clock w2 + 2) (clock ?w)" by (rule time_sleep)
    have d: "at s < at ?s" "t \<le> at ?s" "at ?s < t + unat tmo + 60002"
      using w lt bounds by (simp_all add: within_def)
    have "\<exists>r s'. poll_busy E tmo (of_nat t) ?s = Some (r, s')" by (rule less.hyps [OF diff_less_mono2 [OF d(1) less.prems(2)] d(2,3) less.prems(3)])
    then show ?thesis using b now True by (subst poll_busy.simps) (auto simp: flash_io_def not_le)
  qed
qed

lemma poll_sync_returns: "unat tmo \<le> 60000 \<Longrightarrow> \<exists>r s'. iPoll_ExtBusyStatus_Sync E tmo s = Some (r, s')"
proof -
  assume t: "unat tmo \<le> 60000"
  obtain now w where now: "flash_uptime_32 E (fl_world s) = (now, w)" by fastforce
  have "now = of_nat (clock w)" using uptime_value [of "fl_world s"] now by simp
  then obtain r s' where "poll_busy E tmo now (s\<lparr>fl_world := w\<rparr>) = Some (r, s')"
    using poll_returns [of "clock w" "s\<lparr>fl_world := w\<rparr>" tmo] t by auto
  then show ?thesis using now by (simp add: iPoll_ExtBusyStatus_Sync_def flash_io_def split: prod.splits)
qed

lemma modify_returns: "unat tmo \<le> 60000 \<Longrightarrow> \<exists>r s'. modify_flash E cmd tmo s = Some (r, s')"
  using poll_sync_returns by (auto simp: modify_flash_def split: prod.splits)

lemma write_pages_returns: "\<exists>r s'. write_pages E a d s = Some (r, s')"
proof (induction "length d" arbitrary: a d s rule: less_induct)
  case less
  show ?case
  proof (cases "d = []")
    case False
    define n where "n = page_part a (length d)"
    have n: "0 < n" using page_part_pos [of "length d" a] False by (simp add: n_def)
    obtain r s1 where m: "modify_flash E (addressed EXT_FLASH_WRITE_CMD a @ take n d) 50 s = Some (r, s1)"
      using modify_returns [of 50] by fastforce
    have "\<exists>r s'. write_pages E (a + of_nat n) (drop n d) s1 = Some (r, s')" by (rule less) (use n False in simp)
    then show ?thesis using m False by (auto simp: write_pages.simps [of E a d] n_def [symmetric] Let_def)
  qed (simp add: write_pages.simps)
qed

lemma erase_blocks_returns: "\<exists>r s'. erase_blocks E b a n s = Some (r, s')"
proof (induction n arbitrary: a s rule: less_induct)
  case (less n)
  show ?case
  proof (cases "n = 0 \<or> b = 0")
    case False
    obtain r s1 where m: "iErase_Flash_4KB E a s = Some (r, s1)"
      using modify_returns [of 2000] by (fastforce simp: iErase_Flash_4KB_def)
    have "\<exists>r s'. erase_blocks E b (a + of_nat b) (n - b) s1 = Some (r, s')" by (rule less) (use False in simp)
    then show ?thesis using m False by (auto simp: erase_blocks.simps [of E b a n])
  qed (simp add: erase_blocks.simps)
qed

lemma write_returns: "\<exists>r s'. iWrite_DataToFlash E a d s = Some (r, s')"
  using write_pages_returns by (auto simp: iWrite_DataToFlash_def split: option.splits)

lemma unlock_returns:
  "\<exists>r s'. f = Some (r, s') \<Longrightarrow> \<exists>r s'. (do { (r, s) \<leftarrow> f; let (u, s) = flash_io (flash_mutex_unlock E) s; Some (if r = 0 \<and> u < 0 then u else r, s) }) = Some (r, s')"
  by (auto split: prod.splits)

lemma device_write_returns: "\<exists>r s'. iZephyrFlash_Write E off d n s = Some (r, s')"
proof -
  obtain l s1 where l: "flash_io (flash_mutex_lock E) s = (l, s1)" by fastforce
  show ?thesis
    using unlock_returns [OF write_returns [of "word_of_int off" "map_option (take n) d" s1]]
    unfolding iZephyrFlash_Write_def l Let_def prod.case by simp
qed

lemma device_erase_returns: "\<exists>r s'. iZephyrFlash_Erase E off n s = Some (r, s')"
proof -
  obtain l s1 where l: "flash_io (flash_mutex_lock E) s = (l, s1)" by fastforce
  show ?thesis
    using unlock_returns [OF erase_blocks_returns [of "zf_uiEraseBlockSize stTZephyrFlashConfig" "word_of_int off" n s1]]
    unfolding iZephyrFlash_Erase_def l Let_def prod.case by simp
qed

end

end
