(* ===== verification/Flash_Demo.thy ===== *)
theory Flash_Demo
  imports Flash_Device Flash_Clock
begin

text \<open>
  A chip held in memory: commands run when the transfer is started, an operation under way is done after a sleep, and the transfer takes
  a millisecond. It keeps the contract of the chip and of the clock, and is what the witnesses run on.
\<close>

record sim_world =
  sm_chip :: nor_state
  sm_clock :: nat
  sm_rx :: "nat \<Rightarrow> u8"

definition sim_status :: "nor_state \<Rightarrow> u8" where
  "sim_status c = (if nor_wip c then 1 else 0) + (if nor_wel c then 2 else 0)"

definition sim_answer :: "u8 list \<Rightarrow> nor_state \<Rightarrow> nat \<Rightarrow> u8" where
  "sim_answer d c k =
     (if hd d = STATUS_REG_READ_CMD then sim_status c
      else if hd d = EXT_FLASH_READ_CMD then nor_cells c ((nor_address d + (k - 4)) mod nor_size)
      else if hd d = JEDEC_ID_REQ_CMD then [0, JEDEC_ID_0, JEDEC_ID_1, JEDEC_ID_2] ! k
      else if hd d = SFDP_MODE_CMD then (replicate 5 0 @ SFDP_RECV_BYTEs) ! k
      else 0)"

definition sim_start :: "sT_SPIMasterTransfer_t \<Rightarrow> sim_world \<Rightarrow> bool \<times> sim_world" where
  "sim_start t w = (True, w\<lparr>sm_rx := sim_answer (st_puiTxData t) (sm_chip w), sm_chip := nor_command (st_puiTxData t) (sm_chip w)\<rparr>)"

definition sim_sequence :: "sT_SPITransferPhase_Config_t list \<Rightarrow> sim_world \<Rightarrow> bool \<times> sim_world" where
  "sim_sequence p w = (True, w\<lparr>sm_rx := (\<lambda>k. nor_cells (sm_chip w) ((nor_address (ph_puiTxData (hd p)) + k) mod nor_size))\<rparr>)"

definition sim_finish :: "nor_state \<Rightarrow> nor_state" where
  "sim_finish c = (if nor_wip c then c\<lparr>nor_wip := False, nor_wel := False\<rparr> else c)"

definition sim_services :: "sim_world flash_services" where
  "sim_services = \<lparr>spi_mutex_lock = Pair 0, bSPI_Transfer_InMasterMode = sim_start, bSPI_TransferSequence_InMasterMode = sim_sequence,
     spi_completion = (\<lambda>ms w. (Some (eTransfer_Success, sm_rx w), w\<lparr>sm_clock := sm_clock w + 1\<rparr>)),
     pstCreate_SPISlave = Pair True, vInit_SPI = Pair True,
     flash_uptime_32 = (\<lambda>w. (of_nat (sm_clock w), w)),
     flash_msleep = (\<lambda>n w. w\<lparr>sm_clock := sm_clock w + n, sm_chip := sim_finish (sm_chip w)\<rparr>),
     flash_mutex_lock = Pair 0, flash_mutex_unlock = Pair 0\<rparr>"

definition sim_blank :: sim_world where
  "sim_blank = \<lparr>sm_chip = \<lparr>nor_cells = (\<lambda>k. 0), nor_wel = False, nor_wip = False, nor_qe = True\<rparr>, sm_clock = 0, sm_rx = (\<lambda>k. 0)\<rparr>"

text \<open>The drivers before and after their setup.\<close>

definition sim_off :: "sim_world flash_sys" where
  "sim_off = \<lparr>eLastTransferResult = eTransfer_Failed, stTSem_SPITransferDone = 0, Flash_StatusReg = 0, FlashConfigReg1 = 0,
     FlashConfigReg2 = 0, bIsExtFlashSetupSuccess = False, fl_world = sim_blank\<rparr>"

definition sim_on :: "sim_world flash_sys" where "sim_on = snd (iZephyrFlash_Init sim_services sim_off)"

lemma sim_status_bits: "WIP (sim_status c) = nor_wip c" "WEL (sim_status c) = nor_wel c"
  by (auto simp: WIP_def WEL_def sim_status_def bit_1_iff)

lemma sim_finish_settles: "settles c (sim_finish c)"
  by (simp add: sim_finish_def settles_def)

lemma nor_address_add: "(nor_address (addressed cmd a) + i) mod nor_size = (unat a + i) mod nor_size"
proof -
  have "nor_address (addressed cmd a) = unat a mod 16777216 mod nor_size"
    unfolding nor_address_def unat_bytes_u32 [symmetric] by (simp add: addressed_def numeral_2_eq_2 numeral_3_eq_3)
  also have "... = unat a mod nor_size" by (simp add: nor_size_def mod_mod_cancel)
  finally show ?thesis by (simp add: mod_add_left_eq)
qed

interpretation sim: nor_flash sim_services sm_chip
proof
  fix t w w1 w2 ms rx
  assume "bSPI_Transfer_InMasterMode sim_services t w = (True, w1)"
    and c: "spi_completion sim_services ms w1 = (Some (eTransfer_Success, rx), w2)"
  then have w: "sm_chip w2 = nor_command (st_puiTxData t) (sm_chip w)" "rx = sim_answer (st_puiTxData t) (sm_chip w)"
    by (auto simp: sim_services_def sim_start_def)
  show "\<exists>b. executes (st_puiTxData t) (sm_chip w) b (sm_chip w2)
      \<and> (st_puiTxData t = [STATUS_REG_READ_CMD, 0] \<longrightarrow> WIP (rx 1) = nor_wip b \<and> WEL (rx 1) = nor_wel b)
      \<and> (\<forall>a n i. st_puiTxData t = addressed EXT_FLASH_READ_CMD a @ replicate n 0 \<longrightarrow> \<not> nor_wip b \<longrightarrow> i < n
           \<longrightarrow> rx (4 + i) = nor_cells b ((nor_address (st_puiTxData t) + i) mod nor_size))"
    by (rule exI [of _ "sm_chip w"]) (auto simp: w executes_def sim_answer_def sim_status_bits addressed_def flash_consts)
next
  fix a n w w1 ms rx w2 i
  assume "bSPI_TransferSequence_InMasterMode sim_services (vPrepare_MultiPhaseConfig (addressed EXT_FLASH_QUAD_READ_CMD a) [0] n) w = (True, w1)"
    and "spi_completion sim_services ms w1 = (Some (eTransfer_Success, rx), w2)"
  then show "rx i = nor_cells (sm_chip w) ((unat a + i) mod nor_size)"
    by (auto simp: sim_services_def sim_sequence_def vPrepare_MultiPhaseConfig_def nor_address_add)
qed (auto simp: sim_services_def sim_start_def sim_sequence_def sim_finish_settles may_execute_def intro: settles_refl)

interpretation sim_time: flash_clock sim_services sm_clock
  by unfold_locales (auto simp: sim_services_def sim_start_def sim_sequence_def within_def)

lemma sim_on_setup: "bIsExtFlashSetupSuccess sim_on"
  by code_simp

lemma sim_on_chip: "\<not> nor_wip (sm_chip (fl_world sim_on))" "nor_qe (sm_chip (fl_world sim_on))"
  by code_simp+

lemma sim_ready: "flash_ready sm_chip sim_on"
  by (simp add: flash_ready_def sim_on_setup sim_on_chip)

subsection \<open>Every operation on the chip in memory succeeds\<close>

definition sim_transferred :: "u8 list \<Rightarrow> sim_world flash_sys \<Rightarrow> sim_world flash_sys" where
  "sim_transferred d s = s\<lparr>stTSem_SPITransferDone := 0, eLastTransferResult := eTransfer_Success, fl_world := (fl_world s)\<lparr>
     sm_rx := sim_answer d (sm_chip (fl_world s)), sm_chip := nor_command d (sm_chip (fl_world s)), sm_clock := sm_clock (fl_world s) + 1\<rparr>\<rparr>"

lemma sim_transfer:
  "transfer sim_services ms (bSPI_Transfer_InMasterMode sim_services t) s
    = (Some (sim_answer (st_puiTxData t) (sm_chip (fl_world s))), sim_transferred (st_puiTxData t) s)"
  by (simp add: transfer_def take_done_def flash_io_def vLPSPI1_Callback_def sim_services_def sim_start_def sim_transferred_def)

lemma sim_read_status:
  "bRead_Status_Register sim_services s
    = (True, (sim_transferred [STATUS_REG_READ_CMD, 0] s)\<lparr>Flash_StatusReg := sim_status (sm_chip (fl_world s))\<rparr>)"
  by (simp add: bRead_Status_Register_def bSPI_Transceive_def sim_transfer tx_rx_def sim_answer_def)

lemma sim_poll_idle: "\<not> nor_wip (sm_chip (fl_world s)) \<Longrightarrow> \<exists>s'. poll_busy sim_services tmo t0 s = Some (0, s') \<and> sm_chip (fl_world s') = sm_chip (fl_world s)"
  by (subst poll_busy.simps) (simp add: bGet_ExtFlash_Busy_def sim_read_status sim_status_bits sim_transferred_def)

lemma sim_poll:
  assumes "nor_wip (sm_chip (fl_world s))" and "1 < unat tmo"
  shows "\<exists>s'. poll_busy sim_services tmo (of_nat (sm_clock (fl_world s))) s = Some (0, s')
    \<and> sm_chip (fl_world s') = sim_finish (sm_chip (fl_world s))"
proof -
  let ?s = "(sim_transferred [STATUS_REG_READ_CMD, 0] s)\<lparr>Flash_StatusReg := sim_status (sm_chip (fl_world s))\<rparr>"
  let ?next = "?s\<lparr>fl_world := flash_msleep sim_services 2 (fl_world ?s)\<rparr>"
  have late: "\<not> tmo \<le> 1" using assms(2) by (simp add: word_le_nat_alt)
  have up: "flash_io (flash_uptime_32 sim_services) ?s = (of_nat (sm_clock (fl_world s)) + 1, ?s)"
    by (simp add: flash_io_def sim_services_def sim_transferred_def)
  have n: "sm_chip (fl_world ?next) = sim_finish (sm_chip (fl_world s))"
    by (simp add: sim_services_def sim_transferred_def)
  have "poll_busy sim_services tmo (of_nat (sm_clock (fl_world s))) s = poll_busy sim_services tmo (of_nat (sm_clock (fl_world s))) ?next"
    by (subst poll_busy.simps) (simp add: bGet_ExtFlash_Busy_def sim_read_status sim_status_bits assms(1) up late)
  moreover have "\<not> nor_wip (sm_chip (fl_world ?next))" unfolding n by (simp add: sim_finish_def)
  ultimately show ?thesis using sim_poll_idle [of ?next] unfolding n by metis
qed

lemma sim_poll_sync:
  assumes "nor_wip (sm_chip (fl_world s))" and "1 < unat tmo"
  shows "\<exists>s'. iPoll_ExtBusyStatus_Sync sim_services tmo s = Some (0, s')"
proof -
  have up: "flash_io (flash_uptime_32 sim_services) s = (of_nat (sm_clock (fl_world s)), s)" by (simp add: flash_io_def sim_services_def)
  obtain s' where "poll_busy sim_services tmo (of_nat (sm_clock (fl_world s))) s = Some (0, s')"
    "sm_chip (fl_world s') = sim_finish (sm_chip (fl_world s))" using sim_poll [OF assms] by blast
  then show ?thesis
    by (simp add: iPoll_ExtBusyStatus_Sync_def up bIsExtFlash_WEL_Cleared_def sim_read_status sim_status_bits sim_finish_def assms(1))
qed

text \<open>The commands that change an idle chip whose latch is set keep it busy.\<close>

definition keeps_busy :: "u8 list \<Rightarrow> bool" where
  "keeps_busy cmd \<longleftrightarrow> length cmd \<le> 260 \<and> (\<forall>c. \<not> nor_wip c \<longrightarrow> nor_wel c \<longrightarrow> nor_wip (nor_command cmd c))"

lemma sim_modify:
  assumes "flash_ready sm_chip s" and "keeps_busy cmd" and "1 < unat tmo"
  shows "\<exists>s'. modify_flash sim_services cmd tmo s = Some (0, s')"
proof -
  have c: "\<not> nor_wip (sm_chip (fl_world s))" using assms(1) by (simp add: flash_ready_def)
  obtain s1 where s1: "bExtFlash_WriteEnable sim_services s = (True, s1)"
    using c by (auto simp: bExtFlash_WriteEnable_def bSPI_Write_def sim_transfer sim_read_status tx_only_def bIsWrite_Enabled_def
        sim_status_bits sim_transferred_def enable_command)
  have "nor_wip (sm_chip (fl_world (sim_transferred cmd s1)))"
    using sim.write_enable(3) [OF s1 c] assms(2) c by (simp add: sim_transferred_def keeps_busy_def)
  from sim_poll_sync [OF this assms(3)] show ?thesis by (simp add: modify_flash_def s1 bSPI_Write_def sim_transfer tx_only_def)
qed

lemma sim_write_pages:
  assumes "flash_ready sm_chip s" and "unat a + length d \<le> nor_size"
  shows "\<exists>s'. write_pages sim_services a d s = Some (0, s')"
  using assms
proof (induction "length d" arbitrary: a d s rule: less_induct)
  case less
  show ?case
  proof (cases "d = []")
    case False
    define n where "n = page_part a (length d)"
    let ?cmd = "addressed EXT_FLASH_WRITE_CMD a @ take n d"
    have n: "0 < n" "n \<le> length d" "n \<le> 256 - unat a mod 256"
      using page_part_pos [of "length d" a] False by (auto simp: n_def page_part_eq)
    have busy: "keeps_busy ?cmd" using n(3) by (simp add: keeps_busy_def nor_command_def addressed_def flash_consts)
    obtain s1 where m: "modify_flash sim_services ?cmd 50 s = Some (0, s1)" using sim_modify [OF less.prems(1) busy, of 50] by auto
    have "flash_ready sm_chip s1"
      using sim.modify_flash_effect [OF m] busy less.prems(1) by (simp add: flash_ready_def keeps_busy_def)
    moreover have "unat (a + of_nat n) + length (drop n d) \<le> nor_size"
      using unat_add_small [of a "of_nat n"] n(2) less.prems(2) by (simp add: nor_size_def unat_of_nat)
    ultimately have "\<exists>s'. write_pages sim_services (a + of_nat n) (drop n d) s1 = Some (0, s')" using less.hyps n(1) False by simp
    then show ?thesis using m False by (simp add: write_pages.simps [of _ a d] n_def [symmetric] Let_def)
  qed (simp add: write_pages.simps)
qed

lemma sim_erase_blocks:
  assumes "flash_ready sm_chip s" and "unat a + n \<le> nor_size" and "unat a mod 4096 = 0" and "n mod 4096 = 0"
  shows "\<exists>s'. erase_blocks sim_services 4096 a n s = Some (0, s')"
  using assms
proof (induction n arbitrary: a s rule: less_induct)
  case (less n)
  show ?case
  proof (cases "n = 0")
    case False
    then have n: "4096 \<le> n" using less.prems(4) by (metis mod_less not_le)
    let ?cmd = "addressed EXT_FLASH_4KB_SECTOR_ERASE a"
    have busy: "keeps_busy ?cmd" by (simp add: keeps_busy_def nor_command_def addressed_def flash_consts)
    obtain s1 where m: "modify_flash sim_services ?cmd 2000 s = Some (0, s1)" using sim_modify [OF less.prems(1) busy, of 2000] by auto
    then have e: "iErase_Flash_4KB sim_services a s = Some (0, s1)"
      using less.prems by (simp add: iErase_Flash_4KB_def flash_ready_def EXT_FLASH_SECTOR_SIZE_BYTES_def)
    have "flash_ready sm_chip s1"
      using sim.modify_flash_effect [OF m] busy less.prems(1) by (simp add: flash_ready_def keeps_busy_def)
    moreover have "unat (a + 4096) = unat a + 4096" using unat_add_small [of a 4096] n less.prems(2) by (simp add: nor_size_def)
    moreover have "(n - 4096) mod 4096 = 0" using less.prems(4) n by (simp add: le_mod_geq)
    ultimately have "\<exists>s'. erase_blocks sim_services 4096 (a + 4096) (n - 4096) s1 = Some (0, s')"
      using less n by simp
    then show ?thesis using e False by (simp add: erase_blocks.simps [of _ _ a n])
  qed (simp add: erase_blocks.simps)
qed

lemma sim_mutex: "flash_io (flash_mutex_lock sim_services) s = (0, s)" "flash_io (flash_mutex_unlock sim_services) s = (0, s)"
  by (simp_all add: flash_io_def sim_services_def)

lemma sim_write:
  assumes "flash_ready sm_chip s" and "0 \<le> off" and "nat off + length d \<le> nor_size"
  shows "\<exists>s'. iZephyrFlash_Write sim_services off (Some d) (length d) s = Some (0, s') \<and> flash_ready sm_chip s'"
proof -
  obtain s' where "d \<noteq> [] \<Longrightarrow> write_pages sim_services (word_of_int off) d s = Some (0, s')"
    using sim_write_pages [OF assms(1), of "word_of_int off" d] offset_address [OF assms(2,3)] assms(3) by auto
  then have "iZephyrFlash_Write sim_services off (Some d) (length d) s = Some (0, if d = [] then s else s')"
    using assms by (simp add: iZephyrFlash_Write_def Let_def stTZephyrFlashConfig_def sim_mutex iWrite_DataToFlash_def flash_ready_def)
  then show ?thesis using sim.device.wr_law [OF assms(1)] by blast
qed

lemma sim_erase:
  assumes "flash_ready sm_chip s" and "0 \<le> off" and "nat off + n \<le> nor_size" and "nat off mod 4096 = 0" and "n mod 4096 = 0"
  shows "\<exists>s'. iZephyrFlash_Erase sim_services off n s = Some (0, s') \<and> flash_ready sm_chip s'"
proof -
  obtain s' where "erase_blocks sim_services 4096 (word_of_int off) n s = Some (0, s')"
    using sim_erase_blocks [OF assms(1), of "word_of_int off" n] offset_address [OF assms(2,3)] assms(3-5) by auto
  then have "iZephyrFlash_Erase sim_services off n s = Some (0, if n = 0 then s else s')"
    using assms by (simp add: iZephyrFlash_Erase_def Let_def stTZephyrFlashConfig_def sim_mutex)
  then show ?thesis using sim.device.er_law [OF assms(1)] by blast
qed

lemma sim_quad: "\<exists>x s'. transfer sim_services ms (bSPI_TransferSequence_InMasterMode sim_services p) s = (Some x, s')"
  by (simp add: transfer_def take_done_def flash_io_def vLPSPI1_Callback_def sim_services_def sim_sequence_def)

lemma sim_read_quad: "\<exists>d s'. read_quad sim_services a n s = (Inr d, s')"
proof (induction n arbitrary: a s rule: less_induct)
  case (less n)
  show ?case
  proof (cases "n = 0")
    case False
    define k where "k = (if n > QUAD_READ_MAX_TRANSACTION_LENGTH then QUAD_READ_MAX_TRANSACTION_LENGTH else n)"
    obtain x s1 where x: "bSPI_MultiPhaseTranseive sim_services (vPrepare_MultiPhaseConfig (addressed EXT_FLASH_QUAD_READ_CMD a) [0] k) s = (Some x, s1)"
      unfolding bSPI_MultiPhaseTranseive_def using sim_quad by meson
    have "\<exists>d s'. read_quad sim_services (a + of_nat k) (n - k) s1 = (Inr d, s')"
      by (rule less) (use False in \<open>simp add: k_def QUAD_READ_MAX_TRANSACTION_LENGTH_def\<close>)
    then show ?thesis unfolding read_quad.simps [of _ a n s] k_def [symmetric] Let_def x prod.case using False by auto
  qed (simp add: read_quad.simps)
qed

lemma sim_read:
  assumes "flash_ready sm_chip s" and "0 \<le> off" and "nat off + n \<le> nor_size"
  shows "\<exists>d s'. iZephyrFlash_Read sim_services off True n s = (Inr d, s')"
proof -
  obtain d s' where "read_quad sim_services (word_of_int off) n s = (Inr d, s')" using sim_read_quad by blast
  then have "iZephyrFlash_Read sim_services off True n s = (if n = 0 then (Inr [], s) else (Inr d, s'))"
    using assms by (simp add: iZephyrFlash_Read_def Let_def sim_mutex iRead_DataFromFlash_Quad_def flash_ready_def)
  then show ?thesis by (auto split: if_splits)
qed

lemma sim_read_normal: "\<exists>d s'. read_normal sim_services a n s = (Inr d, s')"
proof (induction n arbitrary: a s rule: less_induct)
  case (less n)
  show ?case
  proof (cases "n = 0")
    case False
    define k where "k = (if n < DEFAULT_READ_BUFF_LENGTH then n else DEFAULT_READ_BUFF_LENGTH)"
    obtain x s1 where x: "bSPI_Transceive sim_services (tx_rx (addressed EXT_FLASH_READ_CMD a @ replicate k 0) 4) s = (Some x, s1)"
      by (simp add: bSPI_Transceive_def sim_transfer)
    have "\<exists>d s'. read_normal sim_services (a + of_nat k) (n - k) s1 = (Inr d, s')"
      by (rule less) (use False in \<open>simp add: k_def DEFAULT_READ_BUFF_LENGTH_def\<close>)
    then show ?thesis unfolding read_normal.simps [of _ a n s] k_def [symmetric] Let_def x prod.case using False by auto
  qed (simp add: read_normal.simps)
qed

lemma sim_reads:
  assumes "flash_ready sm_chip s" and "n \<noteq> 0"
  shows "\<exists>d s'. iRead_DataFromFlash_Normal sim_services a True n s = (Inr d, s')"
    and "\<exists>d s'. iRead_DataFromFlash_Quad sim_services a True n s = (Inr d, s')"
  using assms sim_read_normal sim_read_quad
  by (auto simp: iRead_DataFromFlash_Normal_def iRead_DataFromFlash_Quad_def flash_ready_def)

end
