(* ===== verification/Flash_Properties.thy ===== *)
theory Flash_Properties
  imports Flash_Demo
begin

text \<open>The properties of the external flash drivers. Chip and clock are parameters; what is assumed of them are the contracts \<open>nor_flash\<close> and \<open>flash_clock\<close>.\<close>

text \<open>
  Property C33. The flash device implements a byte array: on a chip that keeps the data sheet, a write of any bytes at any offset that
  reports success has AND-ed the bytes into the cells, an erase that reports success has set the range to 0xFF, and a read that reports
  success has delivered the cells of the range, over pages, sectors and transfers of 4096 bytes. Whatever a write or erase reports, no
  cell outside of the range has changed.
\<close>

theorem flash_refines:
  assumes "nor_flash E chip" and "flash_ready chip s"
  shows "(\<forall>off d r s'. iZephyrFlash_Write E off (Some d) (length d) s = Some (r, s') \<longrightarrow>
      same_outside (nat off) (length d) (nor_cells (chip (fl_world s))) (nor_cells (chip (fl_world s')))
      \<and> (r = 0 \<longrightarrow> flash_ready chip s' \<and> nor_cells (chip (fl_world s')) = and_bytes (nat off) d (nor_cells (chip (fl_world s)))))
    \<and> (\<forall>off n r s'. iZephyrFlash_Erase E off n s = Some (r, s') \<longrightarrow>
      same_outside (nat off) n (nor_cells (chip (fl_world s))) (nor_cells (chip (fl_world s')))
      \<and> (r = 0 \<longrightarrow> flash_ready chip s' \<and> nor_cells (chip (fl_world s')) = erase_bytes (nat off) n (nor_cells (chip (fl_world s)))))
    \<and> (\<forall>off b n r s'. iZephyrFlash_Read E off b n s = (r, s') \<longrightarrow>
      flash_ready chip s' \<and> nor_cells (chip (fl_world s')) = nor_cells (chip (fl_world s))
      \<and> (\<forall>d. r = Inr d \<longrightarrow> d = mem_bytes (nor_cells (chip (fl_world s))) (nat off) n))"
  using nor_flash.device_write [OF assms(1) _ assms(2)] nor_flash.device_erase [OF assms(1) _ assms(2)]
    nor_flash.device_read [OF assms(1) _ assms(2)]
  by (auto simp: nor_flash.ranged_def [OF assms(1)])

lemma flash_refines_witness:
  "nor_flash sim_services sm_chip \<and> flash_ready sm_chip sim_on
    \<and> (\<exists>s'. iZephyrFlash_Write sim_services 4350 (Some [1, 2, 3]) 3 sim_on = Some (0, s')
        \<and> nor_cells (sm_chip (fl_world s')) = and_bytes 4350 [1, 2, 3] (nor_cells (sm_chip (fl_world sim_on))))
    \<and> (\<exists>s'. iZephyrFlash_Erase sim_services 8192 8192 sim_on = Some (0, s')
        \<and> nor_cells (sm_chip (fl_world s')) = erase_bytes 8192 8192 (nor_cells (sm_chip (fl_world sim_on))))
    \<and> (\<exists>s'. iZephyrFlash_Read sim_services 4000 True 5000 sim_on
        = (Inr (mem_bytes (nor_cells (sm_chip (fl_world sim_on))) 4000 5000), s'))"
proof -
  note laws = flash_refines [OF sim.nor_flash_axioms sim_ready]
  obtain s1 where w: "iZephyrFlash_Write sim_services 4350 (Some [1, 2, 3]) (length [1, 2, 3 :: u8]) sim_on = Some (0, s1)"
    using sim_write [OF sim_ready, of 4350 "[1, 2, 3]"] by (auto simp: nor_size_def)
  obtain s2 where e: "iZephyrFlash_Erase sim_services 8192 8192 sim_on = Some (0, s2)"
    using sim_erase [OF sim_ready, of 8192 8192] by (auto simp: nor_size_def)
  obtain d s3 where r: "iZephyrFlash_Read sim_services 4000 True 5000 sim_on = (Inr d, s3)"
    using sim_read [OF sim_ready, of 4000 5000] by (auto simp: nor_size_def)
  have "nor_cells (sm_chip (fl_world s1)) = and_bytes 4350 [1, 2, 3] (nor_cells (sm_chip (fl_world sim_on)))"
    using laws [THEN conjunct1, rule_format, of 4350 "[1, 2, 3]" 0 s1] w by simp
  moreover have "nor_cells (sm_chip (fl_world s2)) = erase_bytes 8192 8192 (nor_cells (sm_chip (fl_world sim_on)))"
    using laws [THEN conjunct2, THEN conjunct1, rule_format, OF e] by simp
  moreover have "d = mem_bytes (nor_cells (sm_chip (fl_world sim_on))) 4000 5000"
    using laws [THEN conjunct2, THEN conjunct2, rule_format, OF r] by simp
  ultimately show ?thesis using w e r sim.nor_flash_axioms sim_ready by (simp add: numeral_3_eq_3)
qed

text \<open>
  Property C34. What is stored is what is retrieved: after an erase, a write into the erased range and a read at the same place, each
  reported as done, the bytes read are the bytes written, whatever the range held before, and nothing outside of the erased range differs.
\<close>

theorem flash_store_retrieve:
  assumes "nor_flash E chip" and "flash_ready chip s"
    and "iZephyrFlash_Erase E a n s = Some (0, s1)" and "iZephyrFlash_Write E b (Some d) (length d) s1 = Some (0, s2)"
    and "iZephyrFlash_Read E b True (length d) s2 = (Inr e, s3)" and "a \<le> b" and "nat b + length d \<le> nat a + n"
  shows "e = d \<and> same_outside (nat a) n (nor_cells (chip (fl_world s))) (nor_cells (chip (fl_world s3)))"
  by (rule nor_flash.device_store_retrieve [OF assms])

lemma flash_store_retrieve_witness:
  "\<exists>s1 s2 s3. iZephyrFlash_Erase sim_services 4096 4096 sim_on = Some (0, s1)
    \<and> iZephyrFlash_Write sim_services 4350 (Some [1, 2, 3]) 3 s1 = Some (0, s2)
    \<and> iZephyrFlash_Read sim_services 4350 True 3 s2 = (Inr [1, 2, 3], s3)"
proof -
  obtain s1 where e: "iZephyrFlash_Erase sim_services 4096 4096 sim_on = Some (0, s1)" "flash_ready sm_chip s1"
    using sim_erase [OF sim_ready, of 4096 4096] by (auto simp: nor_size_def)
  obtain s2 where w: "iZephyrFlash_Write sim_services 4350 (Some [1, 2, 3]) (length [1, 2, 3 :: u8]) s1 = Some (0, s2)" "flash_ready sm_chip s2"
    using sim_write [OF e(2), of 4350 "[1, 2, 3]"] by (auto simp: nor_size_def)
  obtain d s3 where r: "iZephyrFlash_Read sim_services 4350 True (length [1, 2, 3 :: u8]) s2 = (Inr d, s3)"
    using sim_read [OF w(2), of 4350 "length [1, 2, 3 :: u8]"] by (auto simp: nor_size_def)
  have "d = [1, 2, 3]" using flash_store_retrieve [OF sim.nor_flash_axioms sim_ready e(1) w(1) r] by simp
  then show ?thesis using e(1) w(1) r by (simp add: numeral_3_eq_3)
qed

text \<open>
  Property C35. Writing and erasing return, whatever the chip answers, a chip that stays busy for ever included: under a clock that moves
  on while the thread sleeps, each wait for the busy bit ends by its timeout, also when the 32 bit clock wraps around meanwhile, and the
  loops over pages and sectors make progress.
\<close>

theorem flash_ops_return:
  assumes "flash_clock E clock"
  shows "(\<exists>r s'. iZephyrFlash_Write E off d n s = Some (r, s')) \<and> (\<exists>r s'. iZephyrFlash_Erase E off n s = Some (r, s'))"
  using flash_clock.device_write_returns [OF assms] flash_clock.device_erase_returns [OF assms] by blast

lemma flash_ops_return_witness:
  "flash_clock sim_services sm_clock \<and> (\<exists>r s'. iZephyrFlash_Write sim_services 4350 (Some [1, 2, 3]) 3 sim_on = Some (r, s'))"
  using flash_ops_return [OF sim_time.flash_clock_axioms, of 4350 "Some [1, 2, 3]" 3 sim_on] sim_time.flash_clock_axioms by blast

text \<open>
  Property C36. The two read routines agree: on an idle chip the reads on one line, in transfers of 256 bytes behind the echo of the
  command, and on four lines, in transfers of 4096 bytes behind a dummy byte, deliver the same bytes, as many as asked for.
\<close>

theorem flash_reads_agree:
  assumes "nor_flash E chip" and "flash_ready chip s" and "unat a + n \<le> nor_size"
    and "iRead_DataFromFlash_Normal E a True n s = (Inr d, s1)" and "iRead_DataFromFlash_Quad E a True n s1 = (Inr e, s2)"
  shows "d = e \<and> length d = n"
  using nor_flash.reads_cells(1) [OF assms(1-4)] nor_flash.reads_cells(2) [OF assms(1) _ assms(3,5)] by simp

lemma flash_reads_agree_witness:
  "\<exists>d s1 s2. iRead_DataFromFlash_Normal sim_services 4000 True 5000 sim_on = (Inr d, s1)
    \<and> iRead_DataFromFlash_Quad sim_services 4000 True 5000 s1 = (Inr d, s2) \<and> length d = 5000"
proof -
  have n: "unat (4000 :: u32) + 5000 \<le> nor_size" by (simp add: nor_size_def)
  obtain d s1 where 1: "iRead_DataFromFlash_Normal sim_services 4000 True 5000 sim_on = (Inr d, s1)"
    using sim_reads(1) [OF sim_ready, of 5000] by fastforce
  have "flash_ready sm_chip s1" using sim.reads_cells(1) [OF sim_ready n 1] by blast
  then obtain e s2 where 2: "iRead_DataFromFlash_Quad sim_services 4000 True 5000 s1 = (Inr e, s2)"
    using sim_reads(2) [of s1 5000] by fastforce
  show ?thesis using flash_reads_agree [OF sim.nor_flash_axioms sim_ready n 1 2] 1 2 by blast
qed

end
