(* ===== verification/Spec2Isabelle.thy ===== *)
theory Spec2Isabelle
  imports Bootloader_Transfer Can_Properties Comm_Properties Lfs_Properties Audio_Properties Uart_Properties Ui_Properties Flash_Properties
begin

text \<open>
  SCODE wall controller: the firmware under src/hello_world/src, an application on Zephyr for a wall panel that selects
  and controls audio sources.

  The program. A panel has a display with a rotary encoder, a CAN bus to the system master, a UART to a PC tool and an
  external flash with a LittleFS volume. Over CAN the master sends firmware updates, which the bootloader writes to the second
  image slot, and system management commands, which the communication manager tracks. Over the UART the PC tool uploads files
  and forwards firmware frames to the bus. The configuration of four audio sources lives in files of the volume; the screens
  show it, change it by the encoder, and are started by a small state machine.

  Theories and what they model.
  \<^item> Wall_Prelude: machine integers, big-endian fields, byte memories, C strings, and the collections wall_simps, wall_frames
    and word_nat the proofs of all components use.
  \<^item> Crc16_Ccitt: u16CRC16_CCITT_Update, which stands in Bootloader_Ctrl.c, LittleFs_Controller.c and PC_UART_API.c. The locale
    stream_digest says what its clients rely on; residue and burst detection are proved of the bits.
  \<^item> Comm_Types, Can_Tx, Can_Controller, Can_Properties: WallController_Comm_Types.h and CAN_Controller.c with the identifiers of
    NXP_CAN_ProjDef.c: filters, sending (vSend_CANMessage), decoding and dispatch of bootloader frames, replies, permanent faults. The
    step relation node_step puts the bus beside the steps of the bootloader.
  \<^item> Bootloader_Types, Bootloader_Ops: all of Bootloader_Ctrl.c, routine by routine, and its step relation bl_step.
    Bootloader_Lost, Bootloader_Invariants, Bootloader_Control: the lost packet table, the control invariant, and that every step
    keeps it. Bootloader_Integrity, Bootloader_Bounds, Bootloader_Transfer: the counters and the running CRC against the bytes in
    the flash, where writes go, and a complete upload. Bootloader_Demo, Bootloader_Properties: a platform in memory, and
    the statements about sessions, timeouts and reports.
  \<^item> Comm_Manager, Comm_Invariants, Comm_Properties: WallController_Comm_Manager.c. One slot per transaction; the locale cm_client is what
    an application's callbacks must keep.
  \<^item> Lfs_Types, Lfs_Files, Lfs_Bulk: LittleFs_Controller.c: path checks, catalogue, files, directories, and the bulk transfer with
    its worker thread. Lfs_Paths, Lfs_Catalog, Lfs_Delete, Lfs_Transfer, Lfs_Reach: paths against their components, the catalogue
    invariant, confinement of deletions, the upload as a relation between accepted, queued and written bytes, all histories.
    Lfs_Store states what the controller relies on of the file system (locales config_store and fs_files); Lfs_Ram is
    a file system in memory that satisfies it, on which the properties of Lfs_Properties are run.
  \<^item> Audio_Codec, Audio_Config: AudioSrcConfiguration.c. Audio_Records: encoder and decoder are inverse. Audio_Invariants,
    Audio_Persistence, Audio_Run: the table in every history, table and files, restarts and power loss. Audio_Demo, Audio_Properties.
  \<^item> Uart_Types, Uart_Api, Uart_Services: PC_UART_API.c, PC_UART_BulkFileService.c, PC_UART_FWBridgeService.c. Uart_Stream:
    the receiver on bytes that have arrived. Uart_Upload: a bulk upload from start to end. Uart_Demo, Uart_Properties.
  \<^item> Ui_Types, Ui_Navigation, Ui_Views, Ui_Source, Ui_Mute, Ui_Select, Ui_Menus, Ui_Bluetooth, Ui_Input, Ui_ScreenManager: the directory
    LVGL_Controller: LVGL_Display_Types.h, UI_ScreenManager.c, UI_InputController.c, LVGL_Display_Controller.c, LVGL_TextAnimate.c
    and the screens (SelectedAudioSrcCtrl.c with its two views, AudioSrcMute.c, AudioSrcSelection.c, MenuSelection.c,
    BluetoothMenu.c, BluetoothControl.c, WelcomeScreen.c). Wall_StateMachine: Wallcontroller_StateMachine.c. Ui_Frames: a modifies
    clause per function. Ui_Invariants: histories (ui_reach) and the invariant of the screen manager. Ui_Muting: what the flags
    of the volume screen say of the stored volume. Ui_Startup: the way to the first screen. Ui_Encoder: counts,
    detents and the event queue. Ui_Demo, Ui_Properties.

  \<^item> Flash_Types, Flash_Driver: the drivers of the external flash: SPIController.c, ExtFlash_InitialSetupCtrl.c, ExtFlash_Controller.c,
    ExtFlash_ReadWriteControl.c, ZephyrFlashMiddleWare.c. Flash_Chip: the data sheet of the chip (locale nor_flash) and the contract of
    Zephyr's flash interface (flash_device). Flash_Refine, Flash_Device: the first gives the second for the functions of the
    drivers. Flash_Clock: the drivers return (locale flash_clock). Flash_Demo, Flash_Properties: a chip in memory, and the statements.

  How the code is read. A structure is a record, an enumeration a datatype, a file-scope variable a field of the state of its
  component; names are those of the source, static functions that several files define carry a suffix. What is not in the
  repository (kernel, CAN, UART, flash and file system drivers, MCUboot, LVGL, the layouts GUI Guider generates, the
  encoder driver, the CRC-32) is a record of functions over an arbitrary world, given to every definition as E. A null pointer
  is None, or the flag bl_fault where the source would follow a null flash handle. Assertions that halt (FHALT) and printing
  have no effect here. A function that holds its mutex from start to end is one step; locks that can fail within
  a time are services with a result, and giving a lock back has no effect. Interrupt handlers, threads and work items
  are steps of their own; a delayable work item is a pending flag with its delay; the turns of a worker that a
  caller waits for are parameters. The callbacks of the communication manager are the parameter CB. The main
  loop and the work queue do not interrupt each other. What the rest of the program does to the part a history is about is a relation R.

  Termination. Loops over buffers and tables are primitive or well-founded recursions. Loops that end only if the outside world
  plays along (directory streams, bytes of a UART frame, the busy bit of the flash) are partial functions into option,
  where None is not returning; that they return is a theorem of its own, under a hypothesis about the world (lfs_refresh_total, flash_ops_return), or part of the
  statement. The rounds of handle_events are the length of the queue: no handler submits events.

  Bounds. Words have the width of the source: CRC and packet counters 16 bits, generations and clocks 32 bits with
  wrapping differences, retry counters 8 bits. The encoder accumulator is an int: it stays below a detent, and a movement is
  far from the 32 bit range.

  What the lemmas show, by the claims in the theories: safety of upgrades and of writes (C1 to C3), replies on the bus (C4),
  sessions, lost packets and errors of the bootloader (C5 to C9), the CRC (C10), the transaction table (C11 to C16), files and
  uploads (C17 to C23), the configuration and its persistence (C24 to C29), the UART (C30 to C32), the external flash
  (C33 to C36), the user interface and the start-up (C37 to C40).

  Not modelled: the file system adapter of LVGL and the generated screens (calls into LVGL and
  the file system without logic of their own); the on-target tests, which are switched off; main.c and the stubs, which at this commit call almost
  nothing of the above; the probe of the flash in MCUboot; tables of board constants for drivers outside the repository. Of the
  modelled files: giving back the locks of several sources, the host system type of the display controller, which is only printed, the
  standalone variant of the welcome screen, and the branches behind a failing eSet_TransactionState, which fails for null only.
\<close>

end
